(* ===== verification/Prelude.thy ===== *)
theory Prelude
  imports Main "HOL-Library.List_Lexorder" "HOL-Library.Product_Lexorder"
begin

text \<open>
  What every component shares: the Python values the code validates, its strings and byte
  strings, its exceptions, and the result type that carries them.

  A Python \<^verbatim>\<open>str\<close> is the list of its code points (\<open>pystr\<close>); an ASCII literal of the source
  is written \<open>str ''...''\<close>. A \<^verbatim>\<open>bytes\<close> value is the list of its bytes. The dynamically typed
  values that reach the validators (what \<^verbatim>\<open>json.loads\<close> builds, and what a Python caller may
  pass instead) are the datatype \<open>val\<close>. A \<^verbatim>\<open>dict\<close> keeps its insertion order and has
  arbitrary keys, as in Python.

  A function that may raise returns \<open>'a res\<close>: \<open>Inl\<close> the exception (its class and its
  message, or the evidence of an equivocation), \<open>Inr\<close> the value. \<open>bindR\<close> runs one
  computation after another, \<open>mapR\<close> is a comprehension whose body may raise and \<open>wrapR\<close> is
  \<^verbatim>\<open>except C as e: raise D(message) from e\<close>.
\<close>

section \<open>Strings, bytes and values\<close>

type_synonym pystr = "nat list"
type_synonym bytes = "nat list"

definition str :: "string \<Rightarrow> pystr" where
  "str s = map of_char s"

lemma str_eq_iff [simp]: "str a = str b \<longleftrightarrow> a = b"
  unfolding str_def by (metis inj_map_eq_map inj_of_char)

lemma length_str [simp]: "length (str s) = length s"
  by (simp add: str_def)

lemma str_Nil [simp]: "str [] = []"
  by (simp add: str_def)

lemma str_eq_Nil [simp]: "str s = [] \<longleftrightarrow> s = []" "[] = str s \<longleftrightarrow> s = []"
  by (auto simp: str_def)

datatype val =
    VNone
  | VBool bool
  | VInt int
  | VFloat
  | VStr pystr
  | VList "val list"
  | VDict "(val \<times> val) list"
  | VOther

type_synonym dict = "(val \<times> val) list"

text \<open>
  \<open>VFloat\<close> is any float and \<open>VOther\<close> any value of another type (\<^verbatim>\<open>bytes\<close>, \<^verbatim>\<open>set\<close>,
  ...): the code only ever rejects them, so their contents are not represented.
\<close>

section \<open>Exceptions and results\<close>

datatype exc_class =
    CanonicalError | WeaveProtocolError | ClusterEvidenceError | VerificationError
  | ControlForkError | IdentityError
  | LedgerError | LedgerGapError | LedgerStateError | LedgerAuthoringExpired
  | SyncProtocolError | ProjectionError | IntegrityError
  | RelationshipError | RelationshipStoreError | ScopeError
  | FenceVerificationUnavailable | PayloadError | ExecutionDenied | MemoryPolicyError | MemoryExecutionError
  | UnicodeEncodeError | ValueError | TypeError | KeyError | AttributeError | InvalidSignature

datatype exc =
    Exc exc_class pystr
  | Equivocation dict  \<comment> \<open>\<^verbatim>\<open>LedgerEquivocationError\<close> with its evidence\<close>

type_synonym 'a res = "exc + 'a"

abbreviation raise :: "exc_class \<Rightarrow> string \<Rightarrow> 'a res" where
  "raise c m \<equiv> Inl (Exc c (str m))"

text \<open>\<^verbatim>\<open>str(exception)\<close>.\<close>

fun exc_message :: "exc \<Rightarrow> pystr" where
  "exc_message (Exc c m) = m"
| "exc_message (Equivocation e) = str ''origin_equivocation''"

text \<open>The class tests of the source's \<^verbatim>\<open>except\<close> clauses, subclasses included.\<close>

fun is_class :: "exc_class \<Rightarrow> exc \<Rightarrow> bool" where
  "is_class c (Exc d m) = (c = d)"
| "is_class c (Equivocation e) = False"

definition is_ledger_error :: "exc \<Rightarrow> bool" where
  "is_ledger_error e = (case e of
     Exc c m \<Rightarrow> c \<in> {LedgerError, LedgerGapError, LedgerStateError, LedgerAuthoringExpired}
   | Equivocation _ \<Rightarrow> True)"

definition is_verification_error :: "exc \<Rightarrow> bool" where
  "is_verification_error e = (case e of
     Exc c m \<Rightarrow> c \<in> {VerificationError, ControlForkError}
   | Equivocation _ \<Rightarrow> False)"

definition bindR :: "'a res \<Rightarrow> ('a \<Rightarrow> 'b res) \<Rightarrow> 'b res" where
  "bindR m f = (case m of Inl e \<Rightarrow> Inl e | Inr x \<Rightarrow> f x)"

fun mapR :: "('a \<Rightarrow> 'b res) \<Rightarrow> 'a list \<Rightarrow> 'b list res" where
  "mapR f [] = Inr []"
| "mapR f (x # xs) = bindR (f x) (\<lambda>y. bindR (mapR f xs) (\<lambda>ys. Inr (y # ys)))"

fun foldR :: "('a \<Rightarrow> 's \<Rightarrow> 's res) \<Rightarrow> 'a list \<Rightarrow> 's \<Rightarrow> 's res" where
  "foldR f [] s = Inr s"
| "foldR f (x # xs) s = bindR (f x s) (foldR f xs)"

definition wrapR :: "(exc \<Rightarrow> bool) \<Rightarrow> exc \<Rightarrow> 'a res \<Rightarrow> 'a res" where
  "wrapR caught e m = (case m of Inl x \<Rightarrow> Inl (if caught x then e else x) | Inr v \<Rightarrow> Inr v)"

text \<open>\<^verbatim>\<open>except C as e: raise D(str(e)) from e\<close>.\<close>

definition rewrapR :: "(exc \<Rightarrow> bool) \<Rightarrow> exc_class \<Rightarrow> 'a res \<Rightarrow> 'a res" where
  "rewrapR caught c m =
     (case m of Inl x \<Rightarrow> Inl (if caught x then Exc c (exc_message x) else x) | Inr v \<Rightarrow> Inr v)"

definition okR :: "'a res \<Rightarrow> bool" where
  "okR m = (case m of Inl _ \<Rightarrow> False | Inr _ \<Rightarrow> True)"

text \<open>A chain of \<^verbatim>\<open>and\<close> whose operands may raise, left to right.\<close>

fun andR :: "bool res list \<Rightarrow> bool res" where
  "andR [] = Inr True"
| "andR (m # ms) = bindR m (\<lambda>b. if b then andR ms else Inr False)"

text \<open>A comprehension \<^verbatim>\<open>[x for x in xs if p(x)]\<close> whose test may raise.\<close>

fun filterR :: "('a \<Rightarrow> bool res) \<Rightarrow> 'a list \<Rightarrow> 'a list res" where
  "filterR p [] = Inr []"
| "filterR p (x # xs) = bindR (p x) (\<lambda>b. bindR (filterR p xs) (\<lambda>ys. Inr (if b then x # ys else ys)))"

text \<open>
  How a successful run is read: the collection \<open>res\<close> turns \<open>m = Inr y\<close> into the chain of
  checks that passed.
\<close>

named_theorems res "what it means that a computation of type res returned"

lemma bindR_simps [simp]: "bindR (Inl e) f = Inl e" "bindR (Inr x) f = f x"
  by (simp_all add: bindR_def)

lemma bindR_Inr_iff [res]: "bindR m f = Inr y \<longleftrightarrow> (\<exists>x. m = Inr x \<and> f x = Inr y)"
  by (cases m) auto

lemma bindR_Inl_iff: "bindR m f = Inl e \<longleftrightarrow> m = Inl e \<or> (\<exists>x. m = Inr x \<and> f x = Inl e)"
  by (cases m) auto

lemma bindR_cong [fundef_cong]:
  assumes "m = n" and "\<And>x. n = Inr x \<Longrightarrow> f x = g x"
  shows "bindR m f = bindR n g"
  using assms by (cases n) auto

lemma bindR_assoc: "bindR (bindR m f) g = bindR m (\<lambda>x. bindR (f x) g)"
  by (cases m) auto

lemma if_Inl_Inr_iff [res]:
  "(if c then Inl e else m) = Inr y \<longleftrightarrow> \<not> c \<and> m = Inr y"
  "(if c then m else Inl e) = Inr y \<longleftrightarrow> c \<and> m = Inr y"
  by auto

text \<open>The same two facts as elimination rules: a long checker is taken apart one guard at a time.\<close>

lemma bindR_InrE:
  assumes "bindR m f = Inr y" obtains x where "m = Inr x" "f x = Inr y"
  using assms by (auto simp: bindR_Inr_iff)

lemma if_Inl_InrE:
  assumes "(if b then Inl e else m) = Inr y" obtains "\<not> b" "m = Inr y"
  using assms by (auto simp: if_Inl_Inr_iff)

lemmas guardE = bindR_InrE if_Inl_InrE

lemma wrapR_Inr_iff [res]: "wrapR c e m = Inr y \<longleftrightarrow> m = Inr y"
  by (cases m) (auto simp: wrapR_def)

lemma wrapR_Inr [simp]: "wrapR c e (Inr y) = Inr y"
  by (simp add: wrapR_def)

lemma rewrapR_Inr_iff [res]: "rewrapR c d m = Inr y \<longleftrightarrow> m = Inr y"
  by (cases m) (auto simp: rewrapR_def)

lemma rewrapR_Inr [simp]: "rewrapR c d (Inr y) = Inr y"
  by (simp add: rewrapR_def)

lemma okR_simps [simp]: "okR (Inl e) = False" "okR (Inr x) = True"
  by (simp_all add: okR_def)

lemma okR_iff: "okR m \<longleftrightarrow> (\<exists>x. m = Inr x)"
  by (cases m) auto

lemma mapR_Inr_iff: "mapR f xs = Inr ys \<longleftrightarrow> list_all2 (\<lambda>x y. f x = Inr y) xs ys"
proof (induction xs arbitrary: ys)
  case Nil
  then show ?case by auto
next
  case (Cons x xs)
  then show ?case by (cases ys) (auto simp: res)
qed

lemma mapR_length: "mapR f xs = Inr ys \<Longrightarrow> length ys = length xs"
  by (auto simp: mapR_Inr_iff dest: list_all2_lengthD)

lemma mapR_in_set: "mapR f xs = Inr ys \<Longrightarrow> y \<in> set ys \<Longrightarrow> \<exists>x \<in> set xs. f x = Inr y"
  by (induction xs arbitrary: ys) (auto simp: res)

lemma mapR_in_set_arg: "mapR f xs = Inr ys \<Longrightarrow> x \<in> set xs \<Longrightarrow> \<exists>y \<in> set ys. f x = Inr y"
  by (induction xs arbitrary: ys) (auto simp: res)

lemma mapR_append:
  "mapR f (xs @ ys) = bindR (mapR f xs) (\<lambda>us. bindR (mapR f ys) (\<lambda>vs. Inr (us @ vs)))"
proof (induction xs)
  case Nil
  then show ?case by (cases "mapR f ys") auto
next
  case (Cons x xs)
  then show ?case
    by (cases "f x"; cases "mapR f xs"; cases "mapR f ys") auto
qed

lemma foldR_invariant:
  assumes "foldR f xs s = Inr t" and "P s"
    and "\<And>x s s'. x \<in> set xs \<Longrightarrow> P s \<Longrightarrow> f x s = Inr s' \<Longrightarrow> P s'"
  shows "P t"
  using assms
proof (induction xs arbitrary: s)
  case Nil
  then show ?case by simp
next
  case (Cons x xs)
  from Cons.prems(1) obtain s1 where s1: "f x s = Inr s1" "foldR f xs s1 = Inr t"
    by (auto simp: res)
  from Cons.prems(3) [OF _ Cons.prems(2) s1(1)] have "P s1" by simp
  then show ?case
  proof (rule Cons.IH [OF s1(2)])
    show "\<And>x s s'. x \<in> set xs \<Longrightarrow> P s \<Longrightarrow> f x s = Inr s' \<Longrightarrow> P s'"
      using Cons.prems(3) by (meson list.set_intros(2))
  qed
qed

section \<open>Dictionaries\<close>

text \<open>\<^verbatim>\<open>d[k]\<close> with \<^verbatim>\<open>KeyError\<close>, and \<^verbatim>\<open>d.get(k)\<close>.\<close>

definition dget :: "dict \<Rightarrow> string \<Rightarrow> val option" where
  "dget d k = map_of d (VStr (str k))"

definition getitem :: "dict \<Rightarrow> string \<Rightarrow> val res" where
  "getitem d k = (case dget d k of Some v \<Rightarrow> Inr v | None \<Rightarrow> raise KeyError k)"

definition dkeys :: "dict \<Rightarrow> val set" where
  "dkeys d = fst ` set d"

text \<open>
  \<^verbatim>\<open>d[k]\<close> where the key set of \<open>d\<close> has been checked: \<open>closed_item\<close> shows that the key is
  there, so the \<open>None\<close> branch is not reached.
\<close>

definition item :: "dict \<Rightarrow> string \<Rightarrow> val" where
  "item d k = (case dget d k of Some v \<Rightarrow> v | None \<Rightarrow> VNone)"

text \<open>\<^verbatim>\<open>value[k]\<close> on a value of unknown type.\<close>

fun subscript :: "val \<Rightarrow> string \<Rightarrow> val res" where
  "subscript (VDict d) k = getitem d k"
| "subscript v k = raise TypeError ''not subscriptable''"

definition key_set :: "string list \<Rightarrow> val set" where
  "key_set ks = (VStr \<circ> str) ` set ks"

text \<open>Reading a dict written out in a definition.\<close>

lemma dget_cons: "dget ((VStr (str k), v) # d) l = (if k = l then Some v else dget d l)"
  by (simp add: dget_def)

lemma item_cons: "item ((VStr (str k), v) # d) l = (if k = l then v else item d l)"
  by (simp add: item_def dget_cons)

lemma dkeys_cons: "dkeys ((VStr (str k), v) # d) = insert (VStr (str k)) (dkeys d)"
  by (simp add: dkeys_def)

lemma dkeys_append: "dkeys (d @ d') = dkeys d \<union> dkeys d'"
  by (simp add: dkeys_def image_Un)

lemmas dict_simps = dget_cons item_cons dkeys_cons

text \<open>
  The modules each define the same \<^verbatim>\<open>_closed\<close>: a mapping with exactly these keys, or an
  error of the module's class.
\<close>

definition closed_dict :: "exc \<Rightarrow> string list \<Rightarrow> val \<Rightarrow> dict res" where
  "closed_dict e ks v = (case v of
     VDict d \<Rightarrow> if dkeys d = key_set ks then Inr d else Inl e
   | _ \<Rightarrow> Inl e)"

lemma closed_dict_Inr_iff [res]:
  "closed_dict e ks v = Inr d \<longleftrightarrow> v = VDict d \<and> dkeys d = key_set ks"
  by (cases v) (auto simp: closed_dict_def)

lemma dget_None_iff: "dget d k = None \<longleftrightarrow> VStr (str k) \<notin> dkeys d"
  by (simp add: dget_def dkeys_def map_of_eq_None_iff)

lemma closed_item:
  assumes "dkeys d = key_set ks" and "k \<in> set ks"
  shows "dget d k = Some (item d k)"
proof -
  have "dget d k \<noteq> None"
    using assms by (auto simp: dget_None_iff key_set_def)
  then show ?thesis by (auto simp: item_def)
qed

lemma dget_in_set: "dget d k = Some v \<Longrightarrow> (VStr (str k), v) \<in> set d"
  by (auto simp: dget_def dest: map_of_SomeD)

text \<open>\<^verbatim>\<open>{key: item for key, item in d.items() if key not in ks}\<close>.\<close>

definition without :: "string list \<Rightarrow> dict \<Rightarrow> dict" where
  "without ks d = filter (\<lambda>(k, v). k \<notin> (VStr \<circ> str) ` set ks) d"

lemma dkeys_without: "dkeys (without ks d) = dkeys d - key_set ks"
  by (force simp: dkeys_def without_def key_set_def)

lemma dget_without: "k \<notin> set ks \<Longrightarrow> dget (without ks d) k = dget d k"
  unfolding dget_def without_def by (induction d) auto

lemma item_without: "k \<notin> set ks \<Longrightarrow> item (without ks d) k = item d k"
  by (simp add: item_def dget_without)

section \<open>Checks on values\<close>

text \<open>
  \<^verbatim>\<open>x in S\<close> for a set \<open>S\<close> of string literals: a list or a dict has no hash, so Python
  raises \<^verbatim>\<open>TypeError\<close> for it.
\<close>

fun hashable :: "val \<Rightarrow> bool" where
  "hashable (VList _) = False"
| "hashable (VDict _) = False"
| "hashable _ = True"

definition in_strings :: "val \<Rightarrow> string list \<Rightarrow> bool res" where
  "in_strings v ss =
     (if hashable v then Inr (\<exists>s \<in> set ss. v = VStr (str s)) else raise TypeError ''unhashable'')"

lemma in_strings_True [res]: "in_strings v ss = Inr True \<longleftrightarrow> (\<exists>s \<in> set ss. v = VStr (str s))"
  by (auto simp: in_strings_def)

fun is_str :: "val \<Rightarrow> bool" where
  "is_str (VStr _) = True"
| "is_str _ = False"

fun str_of :: "val \<Rightarrow> pystr" where
  "str_of (VStr s) = s"
| "str_of _ = []"

fun is_bool :: "val \<Rightarrow> bool" where
  "is_bool (VBool _) = True"
| "is_bool _ = False"

lemma is_strE: "is_str v \<Longrightarrow> v = VStr (str_of v)"
  by (cases v) auto

text \<open>
  \<^verbatim>\<open>isinstance(v, int) and not isinstance(v, bool) and lo <= v <= 2**53 - 1\<close>.
\<close>

definition max_uint :: int where
  "max_uint = 2 ^ 53 - 1"

definition uint_check :: "exc \<Rightarrow> int \<Rightarrow> val \<Rightarrow> int res" where
  "uint_check e lo v = (case v of
     VInt i \<Rightarrow> if lo \<le> i \<and> i \<le> max_uint then Inr i else Inl e
   | _ \<Rightarrow> Inl e)"

lemma uint_check_Inr_iff [res]:
  "uint_check e lo v = Inr i \<longleftrightarrow> v = VInt i \<and> lo \<le> i \<and> i \<le> max_uint"
  by (cases v) (auto simp: uint_check_def)

definition hex_digits :: pystr where
  "hex_digits = str ''0123456789abcdef''"

definition is_hex64 :: "pystr \<Rightarrow> bool" where
  "is_hex64 s = (length s = 64 \<and> list_all (\<lambda>c. c \<in> set hex_digits) s)"

definition hash_check :: "exc \<Rightarrow> val \<Rightarrow> pystr res" where
  "hash_check e v = (case v of VStr s \<Rightarrow> if is_hex64 s then Inr s else Inl e | _ \<Rightarrow> Inl e)"

lemma hash_check_Inr_iff [res]: "hash_check e v = Inr s \<longleftrightarrow> v = VStr s \<and> is_hex64 s"
  by (cases v) (auto simp: hash_check_def)

text \<open>
  \<^verbatim>\<open>str(uuid.UUID(s)) == s\<close>: \<^verbatim>\<open>uuid.UUID\<close> accepts many spellings, but \<^verbatim>\<open>str\<close> of the result
  is always the 8-4-4-4-12 lower-case form, which \<^verbatim>\<open>uuid.UUID\<close> reads back to itself. So the
  equation holds exactly for a string in that form.
\<close>

fun uuid_shape :: "nat list \<Rightarrow> pystr \<Rightarrow> bool" where
  "uuid_shape [] s = False"
| "uuid_shape [n] s = (length s = n \<and> list_all (\<lambda>c. c \<in> set hex_digits) s)"
| "uuid_shape (n # m # ns) s =
     (list_all (\<lambda>c. c \<in> set hex_digits) (take n s) \<and> length (take n s) = n
      \<and> take 1 (drop n s) = str ''-'' \<and> uuid_shape (m # ns) (drop (Suc n) s))"

definition is_uuid :: "pystr \<Rightarrow> bool" where
  "is_uuid s = uuid_shape [8, 4, 4, 4, 12] s"

definition uuid_check :: "exc \<Rightarrow> val \<Rightarrow> pystr res" where
  "uuid_check e v = (case v of VStr s \<Rightarrow> if is_uuid s then Inr s else Inl e | _ \<Rightarrow> Inl e)"

lemma uuid_check_Inr_iff [res]: "uuid_check e v = Inr s \<longleftrightarrow> v = VStr s \<and> is_uuid s"
  by (cases v) (auto simp: uuid_check_def)

text \<open>\<^verbatim>\<open>s.startswith(p)\<close> and \<^verbatim>\<open>s.removeprefix(p)\<close>.\<close>

definition startswith :: "pystr \<Rightarrow> pystr \<Rightarrow> bool" where
  "startswith s p = (take (length p) s = p)"

definition removeprefix :: "pystr \<Rightarrow> pystr \<Rightarrow> pystr" where
  "removeprefix s p = (if startswith s p then drop (length p) s else s)"

definition endswith :: "pystr \<Rightarrow> pystr \<Rightarrow> bool" where
  "endswith s p = startswith (rev s) (rev p)"

text \<open>
  \<^verbatim>\<open>xs == sorted(set(xs))\<close> for a list of unknown values: \<^verbatim>\<open>set\<close> raises \<^verbatim>\<open>TypeError\<close> on an
  unhashable element, \<^verbatim>\<open>sorted\<close> on elements that do not compare (two values that are neither
  all strings nor all numbers).
\<close>

fun num_of :: "val \<Rightarrow> int option" where
  "num_of (VInt i) = Some i"
| "num_of (VBool b) = Some (if b then 1 else 0)"
| "num_of _ = None"

definition is_sorted_set :: "val list \<Rightarrow> bool res" where
  "is_sorted_set vs =
     (if \<not> list_all hashable vs then raise TypeError ''unhashable''
      else if list_all is_str vs
        then Inr (sorted_wrt (<) (map str_of vs))
      else if list_all (\<lambda>v. num_of v \<noteq> None) vs
        then Inr (sorted_wrt (<) (map (the \<circ> num_of) vs))
      else if length (remdups vs) \<le> 1 then Inr (length vs = 1)
      else raise TypeError ''not comparable'')"

lemma is_sorted_set_strings:
  "is_sorted_set (map VStr ss) = Inr (sorted_wrt (<) ss)"
proof -
  have "list_all hashable (map VStr ss)" "list_all is_str (map VStr ss)"
    by (simp_all add: list_all_iff)
  moreover have "map str_of (map VStr ss) = ss"
    by (induction ss) auto
  ultimately show ?thesis by (simp only: is_sorted_set_def) simp
qed

text \<open>Iteration over a value: a string yields its characters, a dict its keys.\<close>

fun iter_vals :: "val \<Rightarrow> val list res" where
  "iter_vals (VList vs) = Inr vs"
| "iter_vals (VStr s) = Inr (map (\<lambda>c. VStr [c]) s)"
| "iter_vals (VDict d) = Inr (map fst d)"
| "iter_vals v = raise TypeError ''not iterable''"

fun is_list :: "val \<Rightarrow> bool" where
  "is_list (VList _) = True"
| "is_list _ = False"

text \<open>\<^verbatim>\<open>v == sorted(set(v))\<close> for a value of unknown type: only a list can equal a list.\<close>

definition sorted_set_check :: "val \<Rightarrow> bool res" where
  "sorted_set_check v =
     bindR (iter_vals v) (\<lambda>vs. bindR (is_sorted_set vs) (\<lambda>b. Inr (is_list v \<and> b)))"

lemma sorted_set_check_True:
  "sorted_set_check v = Inr True \<longleftrightarrow> (\<exists>vs. v = VList vs \<and> is_sorted_set vs = Inr True)"
  by (cases v) (auto simp: sorted_set_check_def res)

text \<open>A number where the code compares it: anything else raises \<^verbatim>\<open>TypeError\<close>.\<close>

definition num_res :: "val \<Rightarrow> int res" where
  "num_res v = (case num_of v of Some i \<Rightarrow> Inr i | None \<Rightarrow> raise TypeError ''not a number'')"

text \<open>
  \<^verbatim>\<open>==\<close> of Python values: \<^verbatim>\<open>True == 1\<close>, and the order of a dict's items does not count.
\<close>

lemma size_zip_left [termination_simp]:
  "(a, b) \<in> set (zip vs ws) \<Longrightarrow> size a < Suc (size_list size vs)"
  by (auto dest!: set_zip_leftD simp: less_Suc_eq_le size_list_estimation')

fun py_eq :: "val \<Rightarrow> val \<Rightarrow> bool" where
  "py_eq (VList vs) w =
     (case w of VList ws \<Rightarrow> length vs = length ws \<and> list_all (\<lambda>(v, w). py_eq v w) (zip vs ws)
      | _ \<Rightarrow> False)"
| "py_eq (VDict d) w =
     (case w of VDict e \<Rightarrow>
        length d = length e
        \<and> list_all (\<lambda>(k, v). case map_of e k of Some u \<Rightarrow> py_eq v u | None \<Rightarrow> False) d
      | _ \<Rightarrow> False)"
| "py_eq v w =
     (case num_of v of Some i \<Rightarrow> num_of w = Some i
      | None \<Rightarrow> v = w)"

text \<open>
  The order \<^verbatim>\<open>sorted\<close> uses on key tuples of values of unknown type: strings with strings,
  numbers with numbers, else \<^verbatim>\<open>TypeError\<close>. A list equals its \<^verbatim>\<open>sorted\<close> copy exactly when no
  element is smaller than its predecessor, which is also how \<^verbatim>\<open>sorted\<close> first compares them.
\<close>

fun lt_val :: "val \<Rightarrow> val \<Rightarrow> bool res" where
  "lt_val (VStr s) (VStr t) = Inr (s < t)"
| "lt_val v w =
     (case (num_of v, num_of w) of (Some i, Some j) \<Rightarrow> Inr (i < j)
      | _ \<Rightarrow> raise TypeError ''not comparable'')"

fun lt_vals :: "val list \<Rightarrow> val list \<Rightarrow> bool res" where
  "lt_vals [] ws = Inr (ws \<noteq> [])"
| "lt_vals (v # vs) [] = Inr False"
| "lt_vals (v # vs) (w # ws) = (if py_eq v w then lt_vals vs ws else lt_val v w)"

fun adj_sorted :: "val list list \<Rightarrow> bool res" where
  "adj_sorted (x # y # ks) =
     bindR (lt_vals y x) (\<lambda>b. if b then Inr False else adj_sorted (y # ks))"
| "adj_sorted _ = Inr True"

text \<open>\<^verbatim>\<open>item.get(k, "")\<close>, which only a mapping has.\<close>

fun get_default :: "string \<Rightarrow> val \<Rightarrow> val res" where
  "get_default k (VDict d) = Inr (case dget d k of Some v \<Rightarrow> v | None \<Rightarrow> VStr [])"
| "get_default k v = raise AttributeError ''get''"

text \<open>A case on the type of a value in which every other type raises.\<close>

lemma case_val_Inr_iff [res]:
  "(case v of VList x \<Rightarrow> f x | _ \<Rightarrow> Inl e) = Inr y \<longleftrightarrow> (\<exists>x. v = VList x \<and> f x = Inr y)"
  "(case v of VDict d \<Rightarrow> g d | _ \<Rightarrow> Inl e) = Inr y \<longleftrightarrow> (\<exists>d. v = VDict d \<and> g d = Inr y)"
  "(case v of VInt i \<Rightarrow> h i | _ \<Rightarrow> Inl e) = Inr y \<longleftrightarrow> (\<exists>i. v = VInt i \<and> h i = Inr y)"
  "(case v of VStr s \<Rightarrow> k s | _ \<Rightarrow> Inl e) = Inr y \<longleftrightarrow> (\<exists>s. v = VStr s \<and> k s = Inr y)"
  "(case v of VBool b \<Rightarrow> l b | _ \<Rightarrow> Inl e) = Inr y \<longleftrightarrow> (\<exists>b. v = VBool b \<and> l b = Inr y)"
  by (cases v; simp)+

lemma case_option_Inr_iff [res]:
  "(case x of None \<Rightarrow> Inl e | Some a \<Rightarrow> f a) = Inr y \<longleftrightarrow> (\<exists>a. x = Some a \<and> f a = Inr y)"
  by (cases x) auto

lemma case_single_Inr_iff [res]:
  "(case xs of [x] \<Rightarrow> f x | _ \<Rightarrow> Inl e) = Inr y \<longleftrightarrow> (\<exists>x. xs = [x] \<and> f x = Inr y)"
  by (auto split: list.splits)

text \<open>Fields of a dict whose types have been checked.\<close>

definition int_item :: "dict \<Rightarrow> string \<Rightarrow> int" where
  "int_item d k = (case item d k of VInt i \<Rightarrow> i | _ \<Rightarrow> 0)"

definition str_item :: "dict \<Rightarrow> string \<Rightarrow> pystr" where
  "str_item d k = str_of (item d k)"

definition strs_item :: "dict \<Rightarrow> string \<Rightarrow> pystr list" where
  "strs_item d k = (case item d k of VList vs \<Rightarrow> map str_of vs | _ \<Rightarrow> [])"

definition dict_item :: "dict \<Rightarrow> string \<Rightarrow> dict" where
  "dict_item d k = (case item d k of VDict x \<Rightarrow> x | _ \<Rightarrow> [])"

definition list_item :: "dict \<Rightarrow> string \<Rightarrow> val list" where
  "list_item d k = (case item d k of VList vs \<Rightarrow> vs | _ \<Rightarrow> [])"

section \<open>Lists\<close>

lemma sort_key_id: "sorted (map f xs) \<Longrightarrow> sort_key f xs = xs"
  by (simp add: sort_key_id_if_sorted)

lemma eq_sort_key_iff: "xs = sort_key f xs \<longleftrightarrow> sorted (map f xs)"
  by (metis sort_key_id_if_sorted sorted_sort_key)

lemma map_of_eq_Some_distinct:
  "distinct (map fst xs) \<Longrightarrow> map_of xs k = Some v \<longleftrightarrow> (k, v) \<in> set xs"
  by (auto dest: map_of_SomeD)

text \<open>Loops that walk the positions \<open>n\<close>, \<open>n + 1\<close>, ... of keyed rows: how far there is to go.\<close>

lemma filter_beyond_less [intro]:
  fixes key :: "'a \<Rightarrow> int"
  assumes "x \<in> set xs" and "key x = n"
  shows "length (filter (\<lambda>x. n + 1 \<le> key x) xs) < length (filter (\<lambda>x. n \<le> key x) xs)"
proof -
  have le: "length (filter (\<lambda>x. n + 1 \<le> key x) ys) \<le> length (filter (\<lambda>x. n \<le> key x) ys)" for ys
    by (induction ys) auto
  show ?thesis using assms
  proof (induction xs)
    case (Cons y ys)
    then show ?case using le [of ys] by (cases "x \<in> set ys") (auto simp: less_Suc_eq_le)
  qed simp
qed

end
