(* ===== verification/Sha256.thy ===== *)
theory Sha256
  imports Prelude "HOL-Library.Word"
begin

text \<open>
  The hash of the standard library the code calls, \<^verbatim>\<open>hashlib.sha256\<close>, after FIPS 180-4:
  \<open>sha256\<close> is \<^verbatim>\<open>.digest()\<close> and \<open>sha256_hex\<close> is \<^verbatim>\<open>.hexdigest()\<close>. No proof of the
  development rests on cryptographic strength; what is used of the hash is that it is a
  function and the shape of its output (\<open>length_sha256\<close>, \<open>is_hex64_sha256_hex\<close>).
\<close>

unbundle bit_operations_syntax

type_synonym u32 = "32 word"

text \<open>The round constants and the initial state of the standard, in decimal.\<close>

definition sha_k :: "u32 list" where
  "sha_k =
    [1116352408, 1899447441, 3049323471, 3921009573, 961987163, 1508970993, 2453635748, 2870763221,
     3624381080, 310598401, 607225278, 1426881987, 1925078388, 2162078206, 2614888103, 3248222580,
     3835390401, 4022224774, 264347078, 604807628, 770255983, 1249150122, 1555081692, 1996064986,
     2554220882, 2821834349, 2952996808, 3210313671, 3336571891, 3584528711, 113926993, 338241895,
     666307205, 773529912, 1294757372, 1396182291, 1695183700, 1986661051, 2177026350, 2456956037,
     2730485921, 2820302411, 3259730800, 3345764771, 3516065817, 3600352804, 4094571909, 275423344,
     430227734, 506948616, 659060556, 883997877, 958139571, 1322822218, 1537002063, 1747873779,
     1955562222, 2024104815, 2227730452, 2361852424, 2428436474, 2756734187, 3204031479, 3329325298]"

datatype sha_state = ShaState u32 u32 u32 u32 u32 u32 u32 u32

definition sha_init :: sha_state where
  "sha_init = ShaState 1779033703 3144134277 1013904242 2773480762
                       1359893119 2600822924 528734635 1541459225"

definition rotr :: "nat \<Rightarrow> u32 \<Rightarrow> u32" where
  "rotr n x = drop_bit n x OR push_bit (32 - n) x"

definition sigma0 :: "u32 \<Rightarrow> u32" where
  "sigma0 x = rotr 7 x XOR rotr 18 x XOR drop_bit 3 x"

definition sigma1 :: "u32 \<Rightarrow> u32" where
  "sigma1 x = rotr 17 x XOR rotr 19 x XOR drop_bit 10 x"

definition Sigma0 :: "u32 \<Rightarrow> u32" where
  "Sigma0 x = rotr 2 x XOR rotr 13 x XOR rotr 22 x"

definition Sigma1 :: "u32 \<Rightarrow> u32" where
  "Sigma1 x = rotr 6 x XOR rotr 11 x XOR rotr 25 x"

fun sha_schedule :: "nat \<Rightarrow> u32 list \<Rightarrow> u32 list" where
  "sha_schedule 0 ws = ws"
| "sha_schedule (Suc n) ws =
     (let k = length ws in
      sha_schedule n (ws @ [sigma1 (ws ! (k - 2)) + ws ! (k - 7)
                            + sigma0 (ws ! (k - 15)) + ws ! (k - 16)]))"

fun sha_round :: "u32 \<times> u32 \<Rightarrow> sha_state \<Rightarrow> sha_state" where
  "sha_round (k, w) (ShaState a b c d e f g h) =
     (let t1 = h + Sigma1 e + ((e AND f) XOR (NOT e AND g)) + k + w;
          t2 = Sigma0 a + ((a AND b) XOR (a AND c) XOR (b AND c))
      in ShaState (t1 + t2) a b c (d + t1) e f g)"

fun sha_add :: "sha_state \<Rightarrow> sha_state \<Rightarrow> sha_state" where
  "sha_add (ShaState a b c d e f g h) (ShaState a' b' c' d' e' f' g' h') =
     ShaState (a + a') (b + b') (c + c') (d + d') (e + e') (f + f') (g + g') (h + h')"

definition sha_block :: "u32 list \<Rightarrow> sha_state \<Rightarrow> sha_state" where
  "sha_block ws s = sha_add s (fold sha_round (zip sha_k (sha_schedule 48 ws)) s)"

fun be_words :: "bytes \<Rightarrow> u32 list" where
  "be_words (a # b # c # d # bs) =
     (push_bit 24 (word_of_nat a) OR push_bit 16 (word_of_nat b)
      OR push_bit 8 (word_of_nat c) OR word_of_nat d) # be_words bs"
| "be_words _ = []"

fun be_bytes :: "nat \<Rightarrow> nat \<Rightarrow> bytes" where
  "be_bytes 0 n = []"
| "be_bytes (Suc k) n = be_bytes k (n div 256) @ [n mod 256]"

definition sha_pad :: "bytes \<Rightarrow> bytes" where
  "sha_pad bs = bs @ [128] @ replicate ((119 - length bs mod 64) mod 64) 0
                @ be_bytes 8 (8 * length bs)"

fun sha_blocks :: "nat \<Rightarrow> u32 list \<Rightarrow> sha_state \<Rightarrow> sha_state" where
  "sha_blocks 0 ws s = s"
| "sha_blocks (Suc n) ws s = sha_blocks n (drop 16 ws) (sha_block (take 16 ws) s)"

definition word_bytes :: "u32 \<Rightarrow> bytes" where
  "word_bytes w = map (\<lambda>n. unat (drop_bit n w AND 255)) [24, 16, 8, 0]"

fun sha_output :: "sha_state \<Rightarrow> bytes" where
  "sha_output (ShaState a b c d e f g h) =
     concat (map word_bytes [a, b, c, d, e, f, g, h])"

definition sha256 :: "bytes \<Rightarrow> bytes" where
  "sha256 bs = (let ws = be_words (sha_pad bs)
                in sha_output (sha_blocks (length ws div 16) ws sha_init))"

definition hex :: "bytes \<Rightarrow> pystr" where
  "hex bs = concat (map (\<lambda>b. [hex_digits ! (b div 16 mod 16), hex_digits ! (b mod 16)]) bs)"

definition sha256_hex :: "bytes \<Rightarrow> pystr" where
  "sha256_hex bs = hex (sha256 bs)"

lemma length_be_bytes [simp]: "length (be_bytes k n) = k"
  by (induction k arbitrary: n) auto

lemma be_bytes_less: "b \<in> set (be_bytes k n) \<Longrightarrow> b < 256"
  by (induction k arbitrary: n) auto

lemma length_sha256 [simp]: "length (sha256 bs) = 32"
proof -
  have "length (sha_output s) = 32" for s by (cases s) (simp add: word_bytes_def)
  then show ?thesis by (simp add: sha256_def Let_def)
qed

lemma word_bytes_less: "b \<in> set (word_bytes w) \<Longrightarrow> b < 256"
proof -
  have "unat (x AND 255) < 256" for x :: u32
    using word_and_le1 [of x 255] by (simp add: word_le_nat_alt)
  then show "b \<in> set (word_bytes w) \<Longrightarrow> b < 256"
    by (auto simp: word_bytes_def)
qed

lemma sha256_less: "b \<in> set (sha256 bs) \<Longrightarrow> b < 256"
proof -
  have "b < 256" if "b \<in> set (sha_output s)" for s
    using that by (cases s) (auto dest: word_bytes_less)
  then show "b \<in> set (sha256 bs) \<Longrightarrow> b < 256"
    by (simp add: sha256_def Let_def)
qed

lemma length_hex: "length (hex bs) = 2 * length bs"
  by (induction bs) (auto simp: hex_def)

lemma hex_in_hex_digits: "c \<in> set (hex bs) \<Longrightarrow> c \<in> set hex_digits"
proof (induction bs)
  case Nil
  then show ?case by (simp add: hex_def)
next
  case (Cons b bs)
  have "length hex_digits = 16" by (simp add: hex_digits_def)
  then have nth: "hex_digits ! (n mod 16) \<in> set hex_digits" for n
    by (intro nth_mem) simp
  from Cons show ?case by (auto simp: hex_def intro: nth)
qed

lemma is_hex64_sha256_hex [simp]: "is_hex64 (sha256_hex bs)"
  by (auto simp: is_hex64_def sha256_hex_def length_hex list_all_iff dest: hex_in_hex_digits)

text \<open>
  \<^verbatim>\<open>bytes.fromhex\<close> on a string of hex digits, which is where the code applies it.
\<close>

definition hex_value :: "nat \<Rightarrow> nat" where
  "hex_value c = (if 48 \<le> c \<and> c \<le> 57 then c - 48 else c - 87)"

fun fromhex :: "pystr \<Rightarrow> bytes" where
  "fromhex (a # b # s) = (16 * hex_value a + hex_value b) # fromhex s"
| "fromhex _ = []"

lemma hex_value_nth: "n < 16 \<Longrightarrow> hex_value (hex_digits ! n) = n"
proof -
  assume "n < 16"
  then have "n \<in> set [0..<16]" by simp
  moreover have "\<forall>n \<in> set [0..<16]. hex_value (hex_digits ! n) = n" by code_simp
  ultimately show ?thesis by blast
qed

lemma fromhex_hex: "\<forall>b \<in> set bs. b < 256 \<Longrightarrow> fromhex (hex bs) = bs"
proof (induction bs)
  case Nil
  then show ?case by (simp add: hex_def)
next
  case (Cons b bs)
  then have "b div 16 < 16" by auto
  then have "16 * hex_value (hex_digits ! (b div 16 mod 16)) + hex_value (hex_digits ! (b mod 16)) = b"
    by (simp add: hex_value_nth)
  with Cons show ?case by (simp add: hex_def)
qed

lemma fromhex_sha256_hex [simp]: "fromhex (sha256_hex bs) = sha256 bs"
  by (simp add: sha256_hex_def fromhex_hex sha256_less)

lemma sha256_hex_eq_iff: "sha256_hex a = sha256_hex b \<longleftrightarrow> sha256 a = sha256 b"
  by (metis fromhex_sha256_hex sha256_hex_def)

end
