(* ===== verification/Canonical.thy ===== *)
theory Canonical
  imports Sha256 "HOL-Library.Multiset"
begin

text \<open>
  The canonical JSON of signed artifacts, \<^verbatim>\<open>src/daimon_matrix/canonical.py\<close>. \<open>normalize\<close> is
  \<^verbatim>\<open>_normalize\<close>: it maps an arbitrary Python value to the closed data model \<open>json\<close> or raises;
  \<open>canonical_bytes\<close> prints that value. Then base64url and the domain-separated digests.

  \<^verbatim>\<open>unicodedata.normalize("NFC", s)\<close> rests on the Unicode tables, which the repository does not
  hold: it is the parameter \<open>nfc\<close>, the first field of the record \<open>platform\<close> of what the code
  takes from outside. No theorem here needs a hypothesis on it.
\<close>

section \<open>What the code takes from its platform\<close>

record platform =
  nfc :: "pystr \<Rightarrow> pystr"  \<comment> \<open>\<^verbatim>\<open>unicodedata.normalize("NFC", _)\<close>\<close>
  ed25519_point :: "bytes \<Rightarrow> bool"
    \<comment> \<open>\<^verbatim>\<open>Ed25519PublicKey.from_public_bytes\<close> accepts these 32 bytes\<close>
  ed25519_verify :: "bytes \<Rightarrow> bytes \<Rightarrow> bytes \<Rightarrow> bool"
    \<comment> \<open>public key, signature, message: \<^verbatim>\<open>verify\<close> returns\<close>
  ed25519_public :: "bytes \<Rightarrow> bytes"  \<comment> \<open>the public key of a 32-byte seed\<close>
  ed25519_sign :: "bytes \<Rightarrow> bytes \<Rightarrow> bytes"  \<comment> \<open>seed, message\<close>
  payload_validator :: "string \<Rightarrow> (val \<times> val) list \<Rightarrow> (val \<times> val) list res"
    \<comment> \<open>name of a payload validator of a module outside the development, event core: the validated payload\<close>

section \<open>Text encodings\<close>

definition is_surrogate :: "nat \<Rightarrow> bool" where
  "is_surrogate c = (0xD800 \<le> c \<and> c \<le> 0xDFFF)"

definition utf8_char :: "nat \<Rightarrow> bytes" where
  "utf8_char c =
     (if c < 0x80 then [c]
      else if c < 0x800 then [0xC0 + c div 64, 0x80 + c mod 64]
      else if c < 0x10000 then [0xE0 + c div 4096, 0x80 + c div 64 mod 64, 0x80 + c mod 64]
      else [0xF0 + c div 262144, 0x80 + c div 4096 mod 64, 0x80 + c div 64 mod 64, 0x80 + c mod 64])"

definition utf8_bytes :: "pystr \<Rightarrow> bytes" where
  "utf8_bytes s = concat (map utf8_char s)"

text \<open>\<^verbatim>\<open>s.encode("utf-8")\<close> raises on a surrogate code point.\<close>

definition encode_utf8 :: "pystr \<Rightarrow> bytes res" where
  "encode_utf8 s =
     (if list_ex is_surrogate s then raise UnicodeEncodeError ''surrogates not allowed''
      else Inr (utf8_bytes s))"

text \<open>\<^verbatim>\<open>s.encode("utf-16be")\<close>, for a string without surrogates.\<close>

definition utf16be_char :: "nat \<Rightarrow> bytes" where
  "utf16be_char c =
     (if c < 0x10000 then [c div 256, c mod 256]
      else let d = c - 0x10000; h = 0xD800 + d div 1024; l = 0xDC00 + d mod 1024
           in [h div 256, h mod 256, l div 256, l mod 256])"

definition utf16be :: "pystr \<Rightarrow> bytes" where
  "utf16be s = concat (map utf16be_char s)"

definition isascii :: "pystr \<Rightarrow> bool" where
  "isascii s = list_all (\<lambda>c. c < 128) s"

section \<open>Normalization\<close>

datatype json =
    JNull
  | JBool bool
  | JInt int
  | JStr pystr
  | JArr "json list"
  | JObj "(pystr \<times> json) list"

definition normalize_str :: "platform \<Rightarrow> pystr \<Rightarrow> pystr res" where
  "normalize_str P s =
     (if isascii s then Inr s
      else if nfc P s \<noteq> s then raise CanonicalError ''strings must already be NFC-normalized''
      else if list_ex is_surrogate s then raise CanonicalError ''lone Unicode surrogates are forbidden''
      else Inr s)"

definition sort_members :: "(pystr \<times> json) list \<Rightarrow> (pystr \<times> json) list" where
  "sort_members kvs = sort_key (\<lambda>kv. utf16be (fst kv)) kvs"

fun normalize :: "platform \<Rightarrow> val \<Rightarrow> json res"
  and normalize_list :: "platform \<Rightarrow> val list \<Rightarrow> json list res"
  and normalize_items :: "platform \<Rightarrow> dict \<Rightarrow> (pystr \<times> json) list \<Rightarrow> (pystr \<times> json) list res"
where
  "normalize P VNone = Inr JNull"
| "normalize P (VBool b) = Inr (JBool b)"
| "normalize P (VInt i) =
     (if \<not> (- (2 ^ 53) + 1 \<le> i \<and> i \<le> 2 ^ 53 - 1)
      then raise CanonicalError ''integer is outside the I-JSON exact range''
      else Inr (JInt i))"
| "normalize P VFloat = raise CanonicalError ''floating-point values are forbidden in V1 artifacts''"
| "normalize P (VStr s) = bindR (normalize_str P s) (\<lambda>t. Inr (JStr t))"
| "normalize P (VDict d) =
     bindR (normalize_items P d []) (\<lambda>kvs. Inr (JObj (sort_members kvs)))"
| "normalize P (VList vs) = bindR (normalize_list P vs) (\<lambda>js. Inr (JArr js))"
| "normalize P VOther = raise CanonicalError ''unsupported canonical value''"
| "normalize_list P [] = Inr []"
| "normalize_list P (v # vs) =
     bindR (normalize P v) (\<lambda>j. bindR (normalize_list P vs) (\<lambda>js. Inr (j # js)))"
| "normalize_items P [] acc = Inr acc"
| "normalize_items P ((k, v) # d) acc =
     (case k of
        VStr s \<Rightarrow>
          bindR (normalize_str P s) (\<lambda>t.
            if t \<in> fst ` set acc then raise CanonicalError ''duplicate normalized object key''
            else bindR (normalize P v) (\<lambda>j. normalize_items P d (acc @ [(t, j)])))
      | _ \<Rightarrow> raise CanonicalError ''object keys must be strings'')"

section \<open>Printing\<close>

text \<open>
  \<^verbatim>\<open>json.dumps\<close> with \<^verbatim>\<open>ensure_ascii=False\<close> and the separators \<^verbatim>\<open>(",", ":")\<close>: the escapes of
  the standard library are the two-character ones for the quote, the backslash and five control
  characters, and \<open>\\u00xx\<close> for the other control characters.
\<close>

definition dump_char :: "nat \<Rightarrow> pystr" where
  "dump_char c =
     (if c = 34 then [92, 34] else if c = 92 then [92, 92]
      else if c = 10 then [92, 110] else if c = 13 then [92, 114] else if c = 9 then [92, 116]
      else if c = 12 then [92, 102] else if c = 8 then [92, 98]
      else if c < 32 then [92, 117, 48, 48, hex_digits ! (c div 16), hex_digits ! (c mod 16)]
      else [c])"

definition dump_str :: "pystr \<Rightarrow> pystr" where
  "dump_str s = [34] @ concat (map dump_char s) @ [34]"

fun dump_nat :: "nat \<Rightarrow> pystr" where
  "dump_nat n = (if n < 10 then [48 + n] else dump_nat (n div 10) @ [48 + n mod 10])"

declare dump_nat.simps [simp del]

definition dump_int :: "int \<Rightarrow> pystr" where
  "dump_int i = (if i < 0 then 45 # dump_nat (nat (- i)) else dump_nat (nat i))"

fun dumps :: "json \<Rightarrow> pystr"
  and dump_elems :: "json list \<Rightarrow> pystr"
  and dump_members :: "(pystr \<times> json) list \<Rightarrow> pystr"
where
  "dumps JNull = str ''null''"
| "dumps (JBool b) = (if b then str ''true'' else str ''false'')"
| "dumps (JInt i) = dump_int i"
| "dumps (JStr s) = dump_str s"
| "dumps (JArr js) = 91 # dump_elems js"
| "dumps (JObj kvs) = 123 # dump_members kvs"
| "dump_elems [] = [93]"
| "dump_elems (j # js) = dumps j @ (if js = [] then [93] else 44 # dump_elems js)"
| "dump_members [] = [125]"
| "dump_members ((k, j) # kvs) =
     dump_str k @ 58 # dumps j @ (if kvs = [] then [125] else 44 # dump_members kvs)"

definition canonical_bytes :: "platform \<Rightarrow> val \<Rightarrow> bytes res" where
  "canonical_bytes P v = bindR (normalize P v) (\<lambda>j. Inr (utf8_bytes (dumps j)))"

section \<open>Base64url, domains and digests\<close>

definition b64_alphabet :: pystr where
  "b64_alphabet = str ''ABCDEFGHIJKLMNOPQRSTUVWXYZabcdefghijklmnopqrstuvwxyz0123456789-_''"

fun b64url :: "bytes \<Rightarrow> pystr" where
  "b64url [] = []"
| "b64url [a] = [b64_alphabet ! (a div 4), b64_alphabet ! (a mod 4 * 16)]"
| "b64url [a, b] =
     [b64_alphabet ! (a div 4), b64_alphabet ! (a mod 4 * 16 + b div 16),
      b64_alphabet ! (b mod 16 * 4)]"
| "b64url (a # b # c # bs) =
     [b64_alphabet ! (a div 4), b64_alphabet ! (a mod 4 * 16 + b div 16),
      b64_alphabet ! (b mod 16 * 4 + c div 64), b64_alphabet ! (c mod 64)] @ b64url bs"

fun index_of :: "nat \<Rightarrow> pystr \<Rightarrow> nat option" where
  "index_of c [] = None"
| "index_of c (d # ds) = (if c = d then Some 0 else map_option Suc (index_of c ds))"

text \<open>
  \<^verbatim>\<open>base64.b64decode(value + padding, altchars=b"-_", validate=True)\<close>: the digits of the
  alphabet, four at a time, with the last group padded; anything else is \<^verbatim>\<open>binascii.Error\<close>
  (a \<^verbatim>\<open>ValueError\<close>), here \<open>None\<close>. With \<^verbatim>\<open>validate=True\<close> the two digits that \<^verbatim>\<open>altchars\<close>
  replaces, \<^verbatim>\<open>+\<close> and \<^verbatim>\<open>/\<close>, are still accepted on input and decode to 62 and 63; the
  comparison with the re-encoding below then rejects them.
\<close>

definition b64_digit :: "nat \<Rightarrow> nat option" where
  "b64_digit c = (if c = 43 then Some 62 else if c = 47 then Some 63 else index_of c b64_alphabet)"

fun b64_decode :: "nat list \<Rightarrow> bytes option" where
  "b64_decode [] = Some []"
| "b64_decode [p] = None"
| "b64_decode [p, q] = Some [p * 4 + q div 16]"
| "b64_decode [p, q, r] = Some [p * 4 + q div 16, q mod 16 * 16 + r div 4]"
| "b64_decode (p # q # r # t # ds) =
     map_option (\<lambda>bs. [p * 4 + q div 16, q mod 16 * 16 + r div 4, r mod 4 * 64 + t] @ bs)
       (b64_decode ds)"

fun digits_of :: "pystr \<Rightarrow> nat list option" where
  "digits_of [] = Some []"
| "digits_of (c # cs) =
     (case b64_digit c of None \<Rightarrow> None | Some d \<Rightarrow> map_option (\<lambda>ds. d # ds) (digits_of cs))"

definition b64_raw :: "pystr \<Rightarrow> bytes option" where
  "b64_raw s = Option.bind (digits_of s) b64_decode"

definition unb64url :: "val \<Rightarrow> nat option \<Rightarrow> bytes res" where
  "unb64url v len = (case v of
     VStr s \<Rightarrow>
       if 61 \<in> set s then raise CanonicalError ''base64url must be an unpadded string''
       else (case b64_raw s of
           None \<Rightarrow> raise CanonicalError ''invalid base64url''
         | Some raw \<Rightarrow>
             if b64url raw \<noteq> s then raise CanonicalError ''non-canonical base64url''
             else if len \<noteq> None \<and> len \<noteq> Some (length raw)
               then raise CanonicalError ''decoded value must have the required length''
             else Inr raw)
   | _ \<Rightarrow> raise CanonicalError ''base64url must be an unpadded string'')"

definition domain_bytes :: "platform \<Rightarrow> string \<Rightarrow> dict \<Rightarrow> bytes res" where
  "domain_bytes P domain body =
     bindR (canonical_bytes P (VDict body)) (\<lambda>b. Inr (str domain @ [0] @ b))"

definition digest :: "platform \<Rightarrow> string \<Rightarrow> dict \<Rightarrow> bytes res" where
  "digest P domain body = bindR (domain_bytes P domain body) (\<lambda>b. Inr (sha256 b))"

section \<open>The printed form determines the value\<close>

lemma div_mod_64_eq:
  fixes c d :: nat
  assumes "c div 64 = d div 64" and "c mod 64 = d mod 64"
  shows "c = d"
  using assms by (metis div_mult_mod_eq)

lemma div_4096: "(n::nat) div 4096 = n div 64 div 64"
proof -
  have "(4096::nat) = 64 * 64" by simp
  then show ?thesis by (metis div_mult2_eq)
qed

lemma div_262144: "(n::nat) div 262144 = n div 4096 div 64"
proof -
  have "(262144::nat) = 4096 * 64" by simp
  then show ?thesis by (metis div_mult2_eq)
qed

lemma digits3_eq:
  fixes c d :: nat
  assumes "c div 4096 = d div 4096" "c div 64 mod 64 = d div 64 mod 64" "c mod 64 = d mod 64"
  shows "c = d"
  by (rule div_mod_64_eq, rule div_mod_64_eq)
    (use assms in \<open>simp_all only: div_4096\<close>)

lemma digits4_eq:
  fixes c d :: nat
  assumes "c div 262144 = d div 262144" "c div 4096 mod 64 = d div 4096 mod 64"
    "c div 64 mod 64 = d div 64 mod 64" "c mod 64 = d mod 64"
  shows "c = d"
proof (rule digits3_eq)
  show "c div 4096 = d div 4096"
    by (rule div_mod_64_eq) (use assms(1,2) in \<open>simp_all only: div_262144\<close>)
qed (use assms in simp_all)

lemma utf8_char_cases:
  obtains (one) "utf8_char c = [c]" "c < 0x80"
  | (two) "utf8_char c = [0xC0 + c div 64, 0x80 + c mod 64]" "c div 64 < 32"
  | (three) "utf8_char c = [0xE0 + c div 4096, 0x80 + c div 64 mod 64, 0x80 + c mod 64]" "c div 4096 < 16"
  | (four) "utf8_char c = [0xF0 + c div 262144, 0x80 + c div 4096 mod 64, 0x80 + c div 64 mod 64,
      0x80 + c mod 64]"
proof -
  have "c < 0x800 \<Longrightarrow> c div 64 < 32" "c < 0x10000 \<Longrightarrow> c div 4096 < 16"
    by (simp_all add: less_mult_imp_div_less)
  then show thesis
    using one two three four
    by (cases "c < 0x80"; cases "c < 0x800"; cases "c < 0x10000") (simp_all add: utf8_char_def)
qed

lemma utf8_char_inj: "utf8_char c @ x = utf8_char d @ y \<Longrightarrow> c = d \<and> x = y"
  by (cases c rule: utf8_char_cases; cases d rule: utf8_char_cases)
    (auto dest: div_mod_64_eq digits3_eq digits4_eq)

lemma utf8_char_neq_Nil [simp]: "utf8_char c \<noteq> []" "[] \<noteq> utf8_char c"
  by (auto simp: utf8_char_def)

lemma utf8_bytes_Cons: "utf8_bytes (c # s) = utf8_char c @ utf8_bytes s"
  by (simp add: utf8_bytes_def)

lemma utf8_bytes_Nil [simp]: "utf8_bytes [] = []"
  by (simp add: utf8_bytes_def)

lemma utf8_bytes_inj: "utf8_bytes s = utf8_bytes t \<Longrightarrow> s = t"
proof (induction s arbitrary: t)
  case Nil
  then show ?case by (cases t) (auto simp: utf8_bytes_Cons)
next
  case (Cons c s)
  then obtain d u where t: "t = d # u" by (cases t) (auto simp: utf8_bytes_Cons)
  from Cons.prems have "utf8_char c @ utf8_bytes s = utf8_char d @ utf8_bytes u"
    by (simp add: t utf8_bytes_Cons)
  from utf8_char_inj [OF this] Cons.IH show ?case by (simp add: t)
qed

lemma length_utf8_bytes_ge: "length s \<le> length (utf8_bytes s)"
proof (induction s)
  case Nil
  then show ?case by simp
next
  case (Cons c s)
  have "1 \<le> length (utf8_char c)" by (simp add: utf8_char_def)
  with Cons show ?case by (simp add: utf8_bytes_Cons)
qed

lemma hex_digits_inj: "i < 16 \<Longrightarrow> j < 16 \<Longrightarrow> hex_digits ! i = hex_digits ! j \<Longrightarrow> i = j"
  by (metis hex_value_nth)

text \<open>The three forms an escaped character takes.\<close>

definition short_escapes :: "(nat \<times> nat) list" where
  "short_escapes = [(34, 34), (92, 92), (10, 110), (13, 114), (9, 116), (12, 102), (8, 98)]"

lemma dump_char_cases:
  obtains (plain) "dump_char c = [c]" "c \<noteq> 92" "c \<noteq> 34"
  | (short) k where "dump_char c = [92, k]" "(c, k) \<in> set short_escapes"
  | (control) "dump_char c = [92, 117, 48, 48, hex_digits ! (c div 16), hex_digits ! (c mod 16)]"
      "c < 32"
proof (cases "c \<in> fst ` set short_escapes")
  case True
  then show thesis using short by (auto simp: short_escapes_def dump_char_def)
next
  case False
  then show thesis
    using plain control by (cases "c < 32") (simp_all add: short_escapes_def dump_char_def)
qed

lemma control_inj:
  assumes "c < 32" "d < 32" "hex_digits ! (c div 16) = hex_digits ! (d div 16)"
    "hex_digits ! (c mod 16) = hex_digits ! (d mod 16)"
  shows "c = d"
proof -
  have "c div 16 = d div 16" by (rule hex_digits_inj) (use assms in auto)
  moreover have "c mod 16 = d mod 16" by (rule hex_digits_inj) (use assms in auto)
  ultimately show ?thesis by (metis div_mult_mod_eq)
qed

lemma short_escapes_inj:
  "(c, k) \<in> set short_escapes \<Longrightarrow> (d, k) \<in> set short_escapes \<Longrightarrow> c = d"
  "(c, k) \<in> set short_escapes \<Longrightarrow> k \<noteq> 117"
  by (auto simp: short_escapes_def)

lemma dump_char_inj: "dump_char c @ x = dump_char d @ y \<Longrightarrow> c = d \<and> x = y"
  by (cases c rule: dump_char_cases; cases d rule: dump_char_cases)
    (auto dest: short_escapes_inj control_inj)

lemma dump_char_head: "hd (dump_char c @ x) \<noteq> 34" "dump_char c \<noteq> []"
  by (cases c rule: dump_char_cases; simp)+

lemma dump_chars_inj:
  "concat (map dump_char s) @ 34 # x = concat (map dump_char t) @ 34 # y \<Longrightarrow> s = t \<and> x = y"
proof (induction s arbitrary: t)
  case Nil
  show ?case
  proof (cases t)
    case (Cons d u)
    with Nil have "34 # x = dump_char d @ concat (map dump_char u) @ 34 # y" by simp
    then show ?thesis using dump_char_head(1) [of d "concat (map dump_char u) @ 34 # y"]
      by (metis list.sel(1))
  qed (use Nil in simp)
next
  case (Cons c s)
  show ?case
  proof (cases t)
    case Nil
    with Cons.prems have "dump_char c @ concat (map dump_char s) @ 34 # x = 34 # y" by simp
    then show ?thesis using dump_char_head(1) [of c "concat (map dump_char s) @ 34 # x"]
      by (metis list.sel(1))
  next
    case (Cons d u)
    with Cons.prems have
      "dump_char c @ (concat (map dump_char s) @ 34 # x)
       = dump_char d @ (concat (map dump_char u) @ 34 # y)" by simp
    from dump_char_inj [OF this] Cons.IH [of u] Cons show ?thesis by simp
  qed
qed

lemma dump_str_inj: "dump_str s @ x = dump_str t @ y \<Longrightarrow> s = t \<and> x = y"
  using dump_chars_inj [of s x t y] by (simp add: dump_str_def)

definition is_digit :: "nat \<Rightarrow> bool" where
  "is_digit c = (48 \<le> c \<and> c \<le> 57)"

text \<open>The text after a number does not begin with a digit.\<close>

definition delimited :: "pystr \<Rightarrow> bool" where
  "delimited x = (x = [] \<or> \<not> is_digit (hd x))"

lemma dump_nat_digits: "list_all is_digit (dump_nat n)"
proof (induction n rule: dump_nat.induct)
  case (1 n)
  have "is_digit (48 + n mod 10)" "n < 10 \<Longrightarrow> is_digit (48 + n)"
    by (auto simp: is_digit_def)
  with 1 show ?case
    by (subst dump_nat.simps) auto
qed

lemma dump_nat_neq_Nil [simp]: "dump_nat n \<noteq> []"
  by (subst dump_nat.simps) simp

lemma dump_nat_inj: "dump_nat m = dump_nat n \<Longrightarrow> m = n"
proof (induction m arbitrary: n rule: dump_nat.induct)
  case (1 m)
  have unfold: "dump_nat k = (if k < 10 then [48 + k] else dump_nat (k div 10) @ [48 + k mod 10])"
    for k by (rule dump_nat.simps)
  show ?case
  proof (cases "m < 10 \<or> n < 10")
    case True
    with "1.prems" show ?thesis
      using append_eq_Cons_conv [of "dump_nat (m div 10)"] append_eq_Cons_conv [of "dump_nat (n div 10)"]
      by (subst (asm) (1 2) unfold) (auto split: if_splits)
  next
    case False
    with "1.prems" have eq: "dump_nat (m div 10) = dump_nat (n div 10)" "m mod 10 = n mod 10"
      by (subst (asm) (1 2) unfold, simp)+
    with "1.IH" False have "m div 10 = n div 10" by simp
    with eq(2) show ?thesis by (metis div_mult_mod_eq)
  qed
qed

lemma digit_runs:
  "list_all is_digit a \<Longrightarrow> list_all is_digit b \<Longrightarrow> delimited x \<Longrightarrow> delimited y
   \<Longrightarrow> a @ x = b @ y \<Longrightarrow> a = b \<and> x = y"
proof (induction a arbitrary: b)
  case Nil
  then show ?case by (cases b) (auto simp: delimited_def)
next
  case (Cons c a)
  then show ?case by (cases b) (auto simp: delimited_def)
qed

lemma dump_int_inj:
  assumes "delimited x" and "delimited y" and eq: "dump_int i @ x = dump_int k @ y"
  shows "i = k \<and> x = y"
proof -
  have run: "m = n \<and> x = y" if "dump_nat m @ x = dump_nat n @ y" for m n
    using digit_runs [OF dump_nat_digits dump_nat_digits assms(1,2) that] dump_nat_inj by blast
  have minus: "45 # u \<noteq> dump_nat n @ v" for u v n
    using dump_nat_digits [of n] by (cases "dump_nat n") (auto simp: is_digit_def)
  have minus': "dump_nat n @ v \<noteq> 45 # u" for u v n
    using minus [of u n v] by metis
  show ?thesis
    using eq minus minus' by (auto simp: dump_int_def split: if_splits dest: run)
qed

text \<open>The first character tells the shapes of JSON texts apart.\<close>

fun first_class :: "json \<Rightarrow> nat" where
  "first_class JNull = 0"
| "first_class (JBool b) = (if b then 1 else 2)"
| "first_class (JInt i) = 3"
| "first_class (JStr s) = 4"
| "first_class (JArr js) = 5"
| "first_class (JObj kvs) = 6"

definition class_of_char :: "nat \<Rightarrow> nat" where
  "class_of_char c =
     (if c = 110 then 0 else if c = 116 then 1 else if c = 102 then 2 else if c = 34 then 4
      else if c = 91 then 5 else if c = 123 then 6 else 3)"

lemma dump_int_hd: "\<exists>c u. dump_int i = c # u \<and> class_of_char c = 3"
proof (cases "i < 0")
  case True
  then show ?thesis by (simp add: dump_int_def class_of_char_def)
next
  case False
  obtain c u where cu: "dump_nat (nat i) = c # u" by (cases "dump_nat (nat i)") auto
  with dump_nat_digits [of "nat i"] have "is_digit c" by simp
  then have "class_of_char c = 3" by (auto simp: class_of_char_def is_digit_def)
  with False cu show ?thesis by (simp add: dump_int_def)
qed

lemma dumps_hd: "\<exists>c u. dumps j = c # u \<and> class_of_char c = first_class j"
  using dump_int_hd
  by (cases j) (auto simp: class_of_char_def dump_str_def str_def)

lemma dumps_same_class: "dumps j @ x = dumps k @ y \<Longrightarrow> first_class j = first_class k"
  using dumps_hd [of j] dumps_hd [of k] by auto

lemma dumps_neq_93: "dumps j @ x \<noteq> 93 # y" "dumps j @ x \<noteq> 125 # y"
  "93 # y \<noteq> dumps j @ x"
proof -
  obtain c u where "dumps j = c # u" "class_of_char c = first_class j" using dumps_hd by blast
  moreover have "c \<noteq> 93 \<and> c \<noteq> 125"
  proof (cases "first_class j = 3")
    case True
    then obtain i where i: "j = JInt i" by (cases j) (auto split: if_splits)
    have "hd (dumps j) = 45 \<or> list_all is_digit (dumps j)"
      using dump_nat_digits by (simp add: i dump_int_def)
    with \<open>dumps j = c # u\<close> show ?thesis by (auto simp: is_digit_def)
  next
    case False
    with \<open>class_of_char c = first_class j\<close> show ?thesis by (auto simp: class_of_char_def)
  qed
  ultimately show "dumps j @ x \<noteq> 93 # y" "dumps j @ x \<noteq> 125 # y" "93 # y \<noteq> dumps j @ x" by auto
qed

lemma delimited_Cons: "delimited (44 # x)" "delimited (93 # x)" "delimited (125 # x)" "delimited []"
  by (simp_all add: delimited_def is_digit_def)

lemma dumps_prefix_free:
  "delimited x \<Longrightarrow> delimited y \<Longrightarrow> dumps j @ x = dumps k @ y \<Longrightarrow> j = k \<and> x = y"
  "dump_elems js @ x = dump_elems ks @ y \<Longrightarrow> js = ks \<and> x = y"
  "dump_members kvs @ x = dump_members kws @ y \<Longrightarrow> kvs = kws \<and> x = y"
proof (induction j and js and kvs arbitrary: k x y and ks x y and kws x y
    rule: dumps_dump_elems_dump_members.induct)
  case 1
  then show ?case using dumps_same_class [OF 1(3)] by (cases k) (auto split: if_splits)
next
  case (2 b)
  then show ?case using dumps_same_class [OF 2(3)] by (cases k) (auto split: if_splits)
next
  case (3 i)
  from dumps_same_class [OF 3(3)] obtain n where "k = JInt n" by (cases k) (auto split: if_splits)
  with 3 show ?case using dump_int_inj [OF 3(1,2), of i n] by simp
next
  case (4 s)
  from dumps_same_class [OF 4(3)] obtain t where "k = JStr t" by (cases k) (auto split: if_splits)
  with 4 show ?case using dump_str_inj [of s x t y] by simp
next
  case (5 js)
  from dumps_same_class [OF 5(4)] obtain ks where "k = JArr ks" by (cases k) (auto split: if_splits)
  with 5 show ?case by simp
next
  case (6 kvs)
  from dumps_same_class [OF 6(4)] obtain ks where "k = JObj ks" by (cases k) (auto split: if_splits)
  with 6 show ?case by simp
next
  case 7
  then show ?case by (cases ks) (auto simp: dumps_neq_93)
next
  case (8 j js)
  show ?case
  proof (cases ks)
    case Nil
    with 8 show ?thesis by (auto simp: dumps_neq_93)
  next
    case (Cons k' ks')
    define u where "u = (if js = [] then [93] else 44 # dump_elems js) @ x"
    define v where "v = (if ks' = [] then [93] else 44 # dump_elems ks') @ y"
    have "delimited u" "delimited v" by (auto simp: u_def v_def delimited_Cons)
    moreover have "dumps j @ u = dumps k' @ v"
      using 8(3) by (simp add: Cons u_def v_def)
    ultimately have "j = k'" "u = v" using 8(1) by blast+
    then show ?thesis using 8(2) Cons by (auto simp: u_def v_def split: if_splits)
  qed
next
  case 9
  then show ?case by (cases kws) (auto simp: dump_str_def)
next
  case (10 k j kvs)
  show ?case
  proof (cases kws)
    case Nil
    with 10 show ?thesis by (auto simp: dump_str_def)
  next
    case (Cons kj kws')
    obtain k' j' where kj: "kj = (k', j')" by (cases kj)
    define u where "u = (if kvs = [] then [125] else 44 # dump_members kvs) @ x"
    define v where "v = (if kws' = [] then [125] else 44 # dump_members kws') @ y"
    have d: "delimited u" "delimited v" by (auto simp: u_def v_def delimited_Cons)
    have "dump_str k @ (58 # dumps j @ u) = dump_str k' @ (58 # dumps j' @ v)"
      using 10(3) by (simp add: Cons kj u_def v_def)
    from dump_str_inj [OF this] have "k = k'" "dumps j @ u = dumps j' @ v" by auto
    with d 10(1) have "j = j'" "u = v" by blast+
    then show ?thesis using 10(2) Cons kj \<open>k = k'\<close> by (auto simp: u_def v_def split: if_splits)
  qed
qed

lemma dumps_inj: "dumps j = dumps k \<Longrightarrow> j = k"
  using dumps_prefix_free(1) [of "[]" "[]" j k] by (simp add: delimited_Cons)

lemma canonical_bytes_injD:
  "canonical_bytes P v = Inr b \<Longrightarrow> canonical_bytes P w = Inr b \<Longrightarrow> normalize P v = normalize P w"
  by (auto simp: canonical_bytes_def res dest!: utf8_bytes_inj dumps_inj)

lemma canonical_bytes_cong: "normalize P v = normalize P w \<Longrightarrow> canonical_bytes P v = canonical_bytes P w"
  by (simp add: canonical_bytes_def)

section \<open>Normal forms\<close>

text \<open>
  \<open>canonical P j\<close>: what \<open>normalize\<close> returns. \<open>val_of\<close> reads a normal form back as a Python
  value, as \<^verbatim>\<open>json.loads\<close> does with the bytes it was printed to.
\<close>

fun val_of :: "json \<Rightarrow> val" where
  "val_of JNull = VNone"
| "val_of (JBool b) = VBool b"
| "val_of (JInt i) = VInt i"
| "val_of (JStr s) = VStr s"
| "val_of (JArr js) = VList (map val_of js)"
| "val_of (JObj kvs) = VDict (map (\<lambda>(k, j). (VStr k, val_of j)) kvs)"

definition sorted_members :: "(pystr \<times> json) list \<Rightarrow> bool" where
  "sorted_members kvs \<longleftrightarrow> sorted (map (\<lambda>kv. utf16be (fst kv)) kvs) \<and> distinct (map fst kvs)"

fun canonical :: "platform \<Rightarrow> json \<Rightarrow> bool" where
  "canonical P JNull = True"
| "canonical P (JBool b) = True"
| "canonical P (JInt i) = (- (2 ^ 53) + 1 \<le> i \<and> i \<le> 2 ^ 53 - 1)"
| "canonical P (JStr s) = (normalize_str P s = Inr s)"
| "canonical P (JArr js) = (\<forall>j \<in> set js. canonical P j)"
| "canonical P (JObj kvs) =
     (sorted_members kvs \<and> (\<forall>kv \<in> set kvs. normalize_str P (fst kv) = Inr (fst kv) \<and> canonical P (snd kv)))"

lemma normalize_str_InrD: "normalize_str P s = Inr t \<Longrightarrow> t = s"
  by (auto simp: normalize_str_def split: if_splits)

lemma set_sort_members [simp]: "set (sort_members kvs) = set kvs"
  by (simp add: sort_members_def)

lemma distinct_map_sort_key: "distinct (map g (sort_key f xs)) = distinct (map g xs)"
  by (metis distinct_map distinct_sort set_sort)

lemma sorted_members_sort: "distinct (map fst kvs) \<Longrightarrow> sorted_members (sort_members kvs)"
  by (simp add: sorted_members_def sort_members_def distinct_map_sort_key)

lemma sort_members_id: "sorted_members kvs \<Longrightarrow> sort_members kvs = kvs"
  by (simp add: sorted_members_def sort_members_def sort_key_id)

text \<open>\<open>normalize_items\<close> appends to its accumulator the members it reads, in order.\<close>

lemma normalize_items_Inr:
  "normalize_items P d acc = Inr kvs \<longleftrightarrow>
   (\<exists>new. kvs = acc @ new
     \<and> list_all2 (\<lambda>(k, v) (t, j). k = VStr t \<and> normalize_str P t = Inr t \<and> normalize P v = Inr j) d new
     \<and> distinct (map fst new) \<and> fst ` set acc \<inter> fst ` set new = {})"
proof (induction d arbitrary: acc kvs)
  case Nil
  then show ?case by auto
next
  case (Cons kv d)
  obtain k v where kv: "kv = (k, v)" by (cases kv)
  define R where "R = (\<lambda>(k, v) (t, j). k = VStr t \<and> normalize_str P t = Inr t \<and> normalize P v = Inr j)"
  have R_Cons: "list_all2 R (kv # d) new \<longleftrightarrow>
      (\<exists>t j ms. new = (t, j) # ms \<and> k = VStr t \<and> normalize_str P t = Inr t
        \<and> normalize P v = Inr j \<and> list_all2 R d ms)" for new
    by (auto simp: list_all2_Cons1 R_def kv)
  show ?case unfolding R_def [symmetric]
  proof (cases "\<exists>s j. k = VStr s \<and> normalize_str P s = Inr s \<and> s \<notin> fst ` set acc \<and> normalize P v = Inr j")
    case True
    then obtain s j where k: "k = VStr s" "normalize_str P s = Inr s" "s \<notin> fst ` set acc"
      "normalize P v = Inr j" by blast
    have step: "normalize_items P (kv # d) acc = normalize_items P d (acc @ [(s, j)])"
      using k by (simp add: kv)
    have R_Cons': "list_all2 R (kv # d) new \<longleftrightarrow> (\<exists>ms. new = (s, j) # ms \<and> list_all2 R d ms)" for new
      unfolding R_Cons using k by auto
    have disj: "fst ` set (acc @ [(s, j)]) \<inter> fst ` set ms = {} \<longleftrightarrow>
        s \<notin> fst ` set ms \<and> fst ` set acc \<inter> fst ` set ((s, j) # ms) = {}" for ms :: "(pystr \<times> json) list"
      using k(3) by auto
    show "normalize_items P (kv # d) acc = Inr kvs \<longleftrightarrow>
      (\<exists>new. kvs = acc @ new \<and> list_all2 R (kv # d) new \<and> distinct (map fst new)
        \<and> fst ` set acc \<inter> fst ` set new = {})"
      unfolding step Cons.IH R_def [symmetric] R_Cons' disj by auto
  next
    case False
    have "normalize_items P (kv # d) acc \<noteq> Inr kvs"
    proof
      assume eq: "normalize_items P (kv # d) acc = Inr kvs"
      then obtain s where s: "k = VStr s" by (cases k) (auto simp: kv)
      with eq obtain t j where "normalize_str P s = Inr t" "t \<notin> fst ` set acc" "normalize P v = Inr j"
        by (auto simp: kv bindR_Inr_iff if_Inl_Inr_iff)
      with s False show False by (metis normalize_str_InrD)
    qed
    moreover have "\<not> (\<exists>new. kvs = acc @ new \<and> list_all2 R (kv # d) new \<and> distinct (map fst new)
        \<and> fst ` set acc \<inter> fst ` set new = {})"
      using False unfolding R_Cons by force
    ultimately show "normalize_items P (kv # d) acc = Inr kvs \<longleftrightarrow>
      (\<exists>new. kvs = acc @ new \<and> list_all2 R (kv # d) new \<and> distinct (map fst new)
        \<and> fst ` set acc \<inter> fst ` set new = {})" by blast
  qed
qed

lemma normalize_list_eq: "normalize_list P vs = mapR (normalize P) vs"
  by (induction vs) simp_all

lemma normalize_VList: "normalize P (VList vs) = bindR (mapR (normalize P) vs) (\<lambda>js. Inr (JArr js))"
  by (simp add: normalize_list_eq)

definition member_normal :: "platform \<Rightarrow> val \<times> val \<Rightarrow> pystr \<times> json \<Rightarrow> bool" where
  "member_normal P kv m \<longleftrightarrow>
     fst kv = VStr (fst m) \<and> normalize_str P (fst m) = Inr (fst m) \<and> normalize P (snd kv) = Inr (snd m)"

lemma normalize_VDict_Inr:
  "normalize P (VDict d) = Inr j \<longleftrightarrow>
   (\<exists>kvs. j = JObj (sort_members kvs) \<and> list_all2 (member_normal P) d kvs \<and> distinct (map fst kvs))"
proof -
  have "(\<lambda>(k, v) (t, j). k = VStr t \<and> normalize_str P t = Inr t \<and> normalize P v = Inr j)
        = member_normal P"
    by (auto simp: member_normal_def fun_eq_iff)
  then show ?thesis by (auto simp: res normalize_items_Inr)
qed

declare normalize.simps(6,7) [simp del]

lemma normalize_canonical: "normalize P v = Inr j \<Longrightarrow> canonical P j"
proof (induction v arbitrary: j)
  case (VStr s)
  then obtain t where "j = JStr t" "normalize_str P s = Inr t" by (auto simp: res)
  then show ?case using normalize_str_InrD [of P s t] by simp
next
  case (VList vs)
  then obtain js where "j = JArr js" "mapR (normalize P) vs = Inr js"
    by (auto simp: normalize_VList res)
  with VList.IH show ?case by (auto dest: mapR_in_set)
next
  case (VDict d)
  from VDict.prems obtain kvs where j: "j = JObj (sort_members kvs)"
    and kvs: "list_all2 (member_normal P) d kvs" "distinct (map fst kvs)"
    by (auto simp: normalize_VDict_Inr)
  have "normalize_str P (fst m) = Inr (fst m) \<and> canonical P (snd m)" if "m \<in> set kvs" for m
  proof -
    from that kvs(1) obtain kv where kv: "kv \<in> set d" "member_normal P kv m"
      by (metis list_all2_conv_all_nth in_set_conv_nth)
    have "snd kv \<in> Basic_BNFs.snds kv" by (cases kv) simp
    with kv have "canonical P (snd m)"
      using VDict.IH [of kv "snd kv" "snd m"] by (simp add: member_normal_def)
    with kv show ?thesis by (simp add: member_normal_def)
  qed
  then show ?case by (simp add: j sorted_members_sort kvs(2))
qed (auto simp: res split: if_splits)

lemma canonical_normalize: "canonical P j \<Longrightarrow> normalize P (val_of j) = Inr j"
proof (induction j)
  case (JArr js)
  then have "mapR (normalize P) (map val_of js) = Inr js"
    by (auto simp: mapR_Inr_iff list_all2_conv_all_nth)
  then show ?case by (simp add: normalize_VList)
next
  case (JObj kvs)
  have "list_all2 (member_normal P) (map (\<lambda>(k, j). (VStr k, val_of j)) kvs) kvs"
  proof (rule list_all2_all_nthI)
    fix n assume "n < length (map (\<lambda>(k, j). (VStr k, val_of j)) kvs)"
    then have n: "n < length kvs" by simp
    obtain k j where kj: "kvs ! n = (k, j)" by (cases "kvs ! n")
    from n have "(k, j) \<in> set kvs" by (metis kj nth_mem)
    with JObj show "member_normal P (map (\<lambda>(k, j). (VStr k, val_of j)) kvs ! n) (kvs ! n)"
      using n by (force simp: member_normal_def kj)
  qed simp
  with JObj.prems show ?case
    by (auto simp: normalize_VDict_Inr sorted_members_def intro!: exI [of _ kvs] sort_members_id [symmetric])
qed auto

text \<open>The order in which a dict lists its items does not matter.\<close>

definition code_points :: "pystr \<Rightarrow> bool" where
  "code_points s \<longleftrightarrow> (\<forall>c \<in> set s. c < 0x110000 \<and> \<not> is_surrogate c)"

lemma utf16be_char_inj:
  assumes "utf16be_char c @ x = utf16be_char d @ y"
    and "c < 0x110000" "\<not> is_surrogate c" "d < 0x110000" "\<not> is_surrogate d"
  shows "c = d \<and> x = y"
proof -
  have bmp: "n div 256 < 0xD8 \<or> 0xDF < n div 256" if "\<not> is_surrogate n" for n
  proof (rule ccontr)
    assume "\<not> (n div 256 < 0xD8 \<or> 0xDF < n div 256)"
    moreover have "n = 256 * (n div 256) + n mod 256" "n mod 256 < 256" by simp_all
    ultimately have "0xD800 \<le> n \<and> n \<le> 0xDFFF" by linarith
    with that show False by (simp add: is_surrogate_def)
  qed
  have pair: "(0xD800 + (n - 0x10000) div 1024) div 256 \<in> {0xD8..0xDB}" if "n < 0x110000" for n :: nat
  proof -
    define k where "k = (n - 0x10000) div 1024"
    have "k < 1024" using that by (simp add: k_def less_mult_imp_div_less)
    then have "k div 256 < 4" by (simp add: less_mult_imp_div_less)
    moreover have "(0xD800 + k) div 256 = 0xD8 + k div 256" using div_mult_self3 [of 256 "0xD8" k] by simp
    ultimately show ?thesis by (simp add: k_def)
  qed
  have bytes: "a = b" if "a div 256 = b div 256" "a mod 256 = b mod 256" for a b :: nat
    using that by (metis div_mult_mod_eq)
  let ?h = "\<lambda>n::nat. 0xD800 + (n - 0x10000) div 1024" and ?l = "\<lambda>n::nat. 0xDC00 + (n - 0x10000) mod 1024"
  have low: "utf16be_char n = [n div 256, n mod 256]" if "n < 0x10000" for n
    using that by (simp add: utf16be_char_def)
  have high: "utf16be_char n = [?h n div 256, ?h n mod 256, ?l n div 256, ?l n mod 256]"
    if "\<not> n < 0x10000" for n
    using that by (simp add: utf16be_char_def Let_def)
  consider (ll) "c < 0x10000" "d < 0x10000" | (lh) "c < 0x10000" "\<not> d < 0x10000"
    | (hl) "\<not> c < 0x10000" "d < 0x10000" | (hh) "\<not> c < 0x10000" "\<not> d < 0x10000" by blast
  then show ?thesis
  proof cases
    case ll
    with assms(1) show ?thesis by (simp add: low [OF ll(1)] low [OF ll(2)]) (blast intro: bytes)
  next
    case lh
    with assms(1) have "c div 256 = ?h d div 256"
      by (simp only: low [OF lh(1)] high [OF lh(2)] append_Cons list.inject)
    with bmp [OF assms(3)] pair [OF assms(4)] show ?thesis by (simp only: atLeastAtMost_iff) linarith
  next
    case hl
    with assms(1) have "?h c div 256 = d div 256"
      by (simp only: low [OF hl(2)] high [OF hl(1)] append_Cons list.inject)
    with bmp [OF assms(5)] pair [OF assms(2)] show ?thesis by (simp only: atLeastAtMost_iff) linarith
  next
    case hh
    with assms(1) have e: "?h c = ?h d" "?l c = ?l d" "x = y"
      by (simp_all only: high [OF hh(1)] high [OF hh(2)] append_Cons append_Nil list.inject)
        (blast intro: bytes)+
    from e(1,2) have "(c - 0x10000) div 1024 = (d - 0x10000) div 1024"
      "(c - 0x10000) mod 1024 = (d - 0x10000) mod 1024" by linarith+
    then have "c - 0x10000 = d - 0x10000" by (metis div_mult_mod_eq)
    with hh e(3) show ?thesis by simp
  qed
qed

lemma utf16be_Cons: "utf16be (c # s) = utf16be_char c @ utf16be s"
  by (simp add: utf16be_def)

lemma utf16be_char_neq_Nil: "utf16be_char c \<noteq> []"
  by (simp add: utf16be_char_def Let_def)

lemma utf16be_inj: "utf16be s = utf16be t \<Longrightarrow> code_points s \<Longrightarrow> code_points t \<Longrightarrow> s = t"
proof (induction s arbitrary: t)
  case Nil
  then show ?case by (cases t) (auto simp: utf16be_Cons utf16be_char_neq_Nil utf16be_def)
next
  case (Cons c s)
  then obtain d u where t: "t = d # u"
    by (cases t) (auto simp: utf16be_Cons utf16be_char_neq_Nil utf16be_def)
  from Cons.prems have "utf16be_char c @ utf16be s = utf16be_char d @ utf16be u"
    by (simp add: t utf16be_Cons)
  from utf16be_char_inj [OF this] Cons.prems have "c = d \<and> utf16be s = utf16be u"
    by (simp add: t code_points_def)
  with Cons.IH [of u] Cons.prems show ?case by (simp add: t code_points_def)
qed

lemma normalize_dict_order:
  assumes n: "normalize P (VDict d) = Inr j" and perm: "mset d' = mset d"
    and keys: "\<And>s v. (VStr s, v) \<in> set d \<Longrightarrow> code_points s"
  shows "normalize P (VDict d') = Inr j"
proof -
  from n obtain kvs where kvs: "j = JObj (sort_members kvs)" "list_all2 (member_normal P) d kvs"
    "distinct (map fst kvs)" by (auto simp: normalize_VDict_Inr)
  from list_all2_reorder_left_invariance [OF kvs(2) perm]
  obtain kvs' where kvs': "list_all2 (member_normal P) d' kvs'" "mset kvs' = mset kvs" by metis
  have cp: "code_points (fst m)" if "m \<in> set kvs" for m
  proof -
    from that kvs(2) obtain kv where "kv \<in> set d" "member_normal P kv m"
      by (metis list_all2_conv_all_nth in_set_conv_nth)
    then show ?thesis using keys [of "fst m" "snd kv"]
      by (metis member_normal_def prod.collapse)
  qed
  have "inj_on (\<lambda>kv. utf16be (fst kv)) (set kvs')"
  proof (rule inj_onI)
    fix a b assume ab: "a \<in> set kvs'" "b \<in> set kvs'" "utf16be (fst a) = utf16be (fst b)"
    have "set kvs' = set kvs" using kvs'(2) by (rule mset_eq_setD)
    then have in_kvs: "a \<in> set kvs" "b \<in> set kvs" using ab(1,2) by simp_all
    have "fst a = fst b"
      by (rule utf16be_inj [OF ab(3)]) (rule cp, rule in_kvs)+
    moreover have "inj_on fst (set kvs)" using kvs(3) by (simp add: distinct_map)
    ultimately show "a = b" using in_kvs by (rule_tac inj_onD)
  qed
  then have "sort_members kvs' = sort_members kvs"
    unfolding sort_members_def using kvs'(2)
    by (intro sort_key_inj_key_eq) (auto simp: mset_sort)
  moreover have "distinct (map fst kvs')"
    using kvs(3) kvs'(2) by (metis mset_eq_imp_distinct_iff mset_map)
  ultimately show ?thesis
    using kvs' kvs(1) unfolding normalize_VDict_Inr by (intro exI [of _ kvs']) simp
qed

end
