(* ===== verification/Canonical_Laws.thy ===== *)
theory Canonical_Laws
  imports Canonical
begin

text \<open>
  Laws of the canonical form beyond its injectivity: base64url decodes what it encodes, and every
  value of ASCII strings and exact integers has canonical bytes, of a bounded length.
\<close>

section \<open>Base64url\<close>

lemma b64_alphabet_codes:
  "b64_alphabet =
    [65, 66, 67, 68, 69, 70, 71, 72, 73, 74, 75, 76, 77, 78, 79, 80, 81, 82, 83, 84, 85, 86,
     87, 88, 89, 90, 97, 98, 99, 100, 101, 102, 103, 104, 105, 106, 107, 108, 109, 110, 111,
     112, 113, 114, 115, 116, 117, 118, 119, 120, 121, 122, 48, 49, 50, 51, 52, 53, 54, 55, 56,
     57, 45, 95]"
  by (simp add: b64_alphabet_def str_def)

text \<open>Position by position: the digit of the character is its position.\<close>

lemma index_of_nth: "distinct cs \<Longrightarrow> d < length cs \<Longrightarrow> index_of (cs ! d) cs = Some d"
proof (induction cs arbitrary: d)
  case (Cons c cs)
  then show ?case by (cases d) auto
qed simp

lemma b64_alphabet_facts: "distinct b64_alphabet" "length b64_alphabet = 64" "43 \<notin> set b64_alphabet" "47 \<notin> set b64_alphabet"
  "61 \<notin> set b64_alphabet" "list_all (\<lambda>c. 32 \<le> c \<and> c < 128) b64_alphabet"
  unfolding b64_alphabet_codes by simp_all

lemma b64_alphabet_in: "d < 64 \<Longrightarrow> b64_alphabet ! d \<in> set b64_alphabet"
  by (rule nth_mem) (simp add: b64_alphabet_facts)

lemma b64_alphabet_chars: "c \<in> set b64_alphabet \<Longrightarrow> c \<noteq> 61 \<and> c < 128 \<and> 32 \<le> c \<and> c \<noteq> 43 \<and> c \<noteq> 47"
  using b64_alphabet_facts by (auto simp: list_all_iff)

lemma b64_digit_alphabet: "d < 64 \<Longrightarrow> b64_digit (b64_alphabet ! d) = Some d"
  using b64_alphabet_chars [OF b64_alphabet_in [of d]] index_of_nth [OF b64_alphabet_facts(1), of d]
  by (simp add: b64_digit_def b64_alphabet_facts)

text \<open>The digits that \<open>b64url\<close> writes.\<close>

fun b64_digits :: "bytes \<Rightarrow> nat list" where
  "b64_digits [] = []"
| "b64_digits [a] = [a div 4, a mod 4 * 16]"
| "b64_digits [a, b] = [a div 4, a mod 4 * 16 + b div 16, b mod 16 * 4]"
| "b64_digits (a # b # c # bs) =
     [a div 4, a mod 4 * 16 + b div 16, b mod 16 * 4 + c div 64, c mod 64] @ b64_digits bs"

definition is_bytes :: "bytes \<Rightarrow> bool" where
  "is_bytes bs = list_all (\<lambda>b. b < 256) bs"

lemma b64url_digits: "b64url bs = map (\<lambda>d. b64_alphabet ! d) (b64_digits bs)"
  by (induction bs rule: b64url.induct) auto

lemma digit_bounds:
  fixes a b :: nat
  shows "a < 256 \<Longrightarrow> a div 4 < 64" "a mod 4 * 16 < 64" "b < 256 \<Longrightarrow> a mod 4 * 16 + b div 16 < 64" "a mod 16 * 4 < 64"
    "b < 256 \<Longrightarrow> a mod 16 * 4 + b div 64 < 64" "a mod 64 < 64"
proof -
  have m: "a mod 4 < 4" "a mod 16 < 16" by simp_all
  show "a < 256 \<Longrightarrow> a div 4 < 64" by simp
  show "a mod 4 * 16 < 64" "a mod 16 * 4 < 64" using m by linarith+
  show "a mod 64 < 64" by simp
  assume "b < 256"
  then have "b div 16 < 16" "b div 64 < 4" by simp_all
  with m show "a mod 4 * 16 + b div 16 < 64" "a mod 16 * 4 + b div 64 < 64" by linarith+
qed

lemma digit_joins:
  fixes a b c :: nat
  shows "b < 256 \<Longrightarrow> a div 4 * 4 + (a mod 4 * 16 + b div 16) div 16 = a" "a div 4 * 4 + a mod 4 * 16 div 16 = a"
    "b < 256 \<Longrightarrow> c < 256 \<Longrightarrow> (a mod 4 * 16 + b div 16) mod 16 * 16 + (b mod 16 * 4 + c div 64) div 4 = b"
    "b < 256 \<Longrightarrow> (a mod 4 * 16 + b div 16) mod 16 * 16 + b mod 16 * 4 div 4 = b"
    "c < 256 \<Longrightarrow> (b mod 16 * 4 + c div 64) mod 4 * 64 + c mod 64 = c"
proof -
  have q: "b < 256 \<Longrightarrow> b div 16 < 16" "c < 256 \<Longrightarrow> c div 64 < 4" by simp_all
  have "b < 256 \<Longrightarrow> (a mod 4 * 16 + b div 16) div 16 = a mod 4" "b < 256 \<Longrightarrow> (a mod 4 * 16 + b div 16) mod 16 = b div 16"
    "c < 256 \<Longrightarrow> (b mod 16 * 4 + c div 64) div 4 = b mod 16" "c < 256 \<Longrightarrow> (b mod 16 * 4 + c div 64) mod 4 = c div 64"
    using q by simp_all
  then show "b < 256 \<Longrightarrow> a div 4 * 4 + (a mod 4 * 16 + b div 16) div 16 = a" "a div 4 * 4 + a mod 4 * 16 div 16 = a"
    "b < 256 \<Longrightarrow> c < 256 \<Longrightarrow> (a mod 4 * 16 + b div 16) mod 16 * 16 + (b mod 16 * 4 + c div 64) div 4 = b"
    "b < 256 \<Longrightarrow> (a mod 4 * 16 + b div 16) mod 16 * 16 + b mod 16 * 4 div 4 = b"
    "c < 256 \<Longrightarrow> (b mod 16 * 4 + c div 64) mod 4 * 64 + c mod 64 = c" by simp_all
qed

lemma b64_digits_bound: "is_bytes bs \<Longrightarrow> list_all (\<lambda>d. d < 64) (b64_digits bs)"
  by (induction bs rule: b64_digits.induct) (simp_all add: is_bytes_def digit_bounds)

lemma digits_of_alphabet: "list_all (\<lambda>d. d < 64) ds \<Longrightarrow> digits_of (map (\<lambda>d. b64_alphabet ! d) ds) = Some ds"
  by (induction ds) (auto simp: b64_digit_alphabet)

lemmas list_all_simps = list.pred_inject

lemma b64_decode_digits: "is_bytes bs \<Longrightarrow> b64_decode (b64_digits bs) = Some bs"
  by (induction bs rule: b64_digits.induct) (simp_all only: is_bytes_def b64_digits.simps b64_decode.simps append.simps list_all_simps
      digit_joins option.map simp_thms)

lemma no_padding: "is_bytes bs \<Longrightarrow> 61 \<notin> set (b64url bs)"
proof
  assume b: "is_bytes bs" and "61 \<in> set (b64url bs)"
  then obtain d where "d \<in> set (b64_digits bs)" "b64_alphabet ! d = 61" by (auto simp: b64url_digits)
  with b64_digits_bound [OF b] b64_alphabet_chars [OF b64_alphabet_in [of d]] show False by (auto simp: list_all_iff)
qed

lemma unb64url_b64url:
  assumes "is_bytes bs" and "len = None \<or> len = Some (length bs)"
  shows "unb64url (VStr (b64url bs)) len = Inr bs"
proof -
  have "b64_raw (b64url bs) = Some bs"
    using digits_of_alphabet [OF b64_digits_bound [OF assms(1)]] b64_decode_digits [OF assms(1)]
    by (simp add: b64_raw_def b64url_digits)
  with no_padding [OF assms(1)] assms(2) show ?thesis by (auto simp: unb64url_def)
qed

lemma unb64url_Inr:
  "unb64url v len = Inr bs \<Longrightarrow> v = VStr (b64url bs) \<and> (len = None \<or> len = Some (length bs))"
  by (auto simp: unb64url_def split: val.splits if_splits option.splits)

lemma b64url_inj: "is_bytes a \<Longrightarrow> is_bytes b \<Longrightarrow> b64url a = b64url b \<longleftrightarrow> a = b"
  by (metis unb64url_b64url sum.inject(2))

section \<open>Plain values\<close>

text \<open>
  Values of ASCII strings and exact integers, with distinct string keys, have canonical bytes, and
  not more of them than \<open>cost\<close> says.
\<close>

fun plain :: "val \<Rightarrow> bool" where
  "plain VNone = True"
| "plain (VBool b) = True"
| "plain (VInt i) = (- (2 ^ 53) + 1 \<le> i \<and> i \<le> 2 ^ 53 - 1)"
| "plain (VStr s) = isascii s"
| "plain (VList vs) = list_all plain vs"
| "plain (VDict d) = (distinct (map fst d) \<and> list_all (\<lambda>(k, v). is_str k \<and> isascii (str_of k) \<and> plain v) d)"
| "plain _ = False"

fun cost :: "val \<Rightarrow> nat" where
  "cost (VInt i) = 20"
| "cost (VStr s) = 2 + 6 * length s"
| "cost (VList vs) = 2 + sum_list (map (\<lambda>v. cost v + 1) vs)"
| "cost (VDict d) = 2 + sum_list (map (\<lambda>(k, v). 6 * length (str_of k) + cost v + 4) d)"
| "cost _ = 5"

lemma length_utf8_ascii: "isascii s \<Longrightarrow> length (utf8_bytes s) = length s"
  by (induction s) (auto simp: utf8_bytes_def utf8_char_def isascii_def)

lemma isascii_simps [simp]: "isascii []" "isascii (c # s) \<longleftrightarrow> c < 128 \<and> isascii s"
    "isascii (s @ t) \<longleftrightarrow> isascii s \<and> isascii t"
  by (simp_all add: isascii_def)

lemma length_dump_nat: "n < 10 ^ k \<Longrightarrow> 0 < k \<Longrightarrow> length (dump_nat n) \<le> k"
proof (induction k arbitrary: n)
  case (Suc k)
  show ?case
  proof (cases "n < 10")
    case False
    with Suc.prems have "n div 10 < 10 ^ k" "0 < k" by (auto intro!: gr0I)
    with Suc.IH have "length (dump_nat (n div 10)) \<le> k" by blast
    with False show ?thesis by (subst dump_nat.simps) simp
  qed (subst dump_nat.simps, simp)
qed simp

lemma ascii_dump_nat: "isascii (dump_nat n)"
proof (induction n rule: dump_nat.induct)
  case (1 n)
  have "n mod 10 < 10" by simp
  then have "48 + n mod 10 < 128" by linarith
  with 1 show ?case by (subst dump_nat.simps) simp
qed

lemma dump_int_plain:
  assumes "- (2 ^ 53) + 1 \<le> i" and "i \<le> 2 ^ 53 - 1"
  shows "length (dump_int i) \<le> 20 \<and> isascii (dump_int i)"
proof -
  have "nat i < 10 ^ 18" "nat (- i) < 10 ^ 18" using assms by simp_all
  then have "length (dump_nat (nat i)) \<le> 18" "length (dump_nat (nat (- i))) \<le> 18"
    by (simp_all add: length_dump_nat)
  then show ?thesis by (simp add: dump_int_def ascii_dump_nat)
qed

lemma hex_digits_ascii: "i < 16 \<Longrightarrow> hex_digits ! i < 128"
proof -
  have "\<forall>c \<in> set hex_digits. c < 128" "length hex_digits = 16" by (simp_all add: hex_digits_def str_def)
  then show "i < 16 \<Longrightarrow> hex_digits ! i < 128" by simp
qed

lemma dump_char_plain: "c < 128 \<Longrightarrow> length (dump_char c) \<le> 6 \<and> isascii (dump_char c)"
  by (auto simp: dump_char_def hex_digits_ascii)

lemma dump_str_plain: "isascii s \<Longrightarrow> length (dump_str s) \<le> 2 + 6 * length s \<and> isascii (dump_str s)"
  unfolding dump_str_def
proof (induction s)
  case (Cons c s)
  with dump_char_plain [of c] show ?case by simp
qed simp

definition fits :: "nat \<Rightarrow> json \<Rightarrow> bool" where
  "fits n j \<longleftrightarrow> length (dumps j) \<le> n \<and> isascii (dumps j)"

lemma fits_list:
  "list_all2 (\<lambda>v j. fits (cost v) j) vs js \<Longrightarrow> fits (cost (VList vs)) (JArr js)"
proof -
  assume "list_all2 (\<lambda>v j. fits (cost v) j) vs js"
  then have "length (dump_elems js) \<le> 1 + sum_list (map (\<lambda>v. cost v + 1) vs) \<and> isascii (dump_elems js)"
    by (induction rule: list_all2_induct) (auto simp: fits_def)
  then show ?thesis by (simp add: fits_def)
qed

definition member_cost :: "pystr \<times> json \<Rightarrow> nat" where
  "member_cost m = length (dump_str (fst m)) + length (dumps (snd m)) + 2"

lemma length_dump_members: "length (dump_members kvs) \<le> 1 + sum_list (map member_cost kvs)"
  by (induction kvs) (auto simp: member_cost_def)

lemma ascii_dump_members:
  "\<forall>m \<in> set kvs. isascii (dump_str (fst m)) \<and> isascii (dumps (snd m)) \<Longrightarrow> isascii (dump_members kvs)"
  by (induction kvs) auto

definition member_fits :: "val \<times> val \<Rightarrow> pystr \<times> json \<Rightarrow> bool" where
  "member_fits kv m \<longleftrightarrow> fst kv = VStr (fst m) \<and> isascii (fst m) \<and> fits (cost (snd kv)) (snd m)"

lemma fits_dict:
  assumes "list_all2 member_fits d kvs"
  shows "fits (cost (VDict d)) (JObj (sort_members kvs))"
proof -
  from assms have "sum_list (map member_cost kvs) \<le> sum_list (map (\<lambda>(k, v). 6 * length (str_of k) + cost v + 4) d)"
  proof (induction rule: list_all2_induct)
    case (Cons x xs y ys)
    with dump_str_plain [of "fst y"] show ?case by (cases x) (auto simp: member_cost_def member_fits_def fits_def)
  qed simp
  moreover have "mset (map member_cost (sort_members kvs)) = mset (map member_cost kvs)"
    by (simp add: sort_members_def)
  then have "sum_list (map member_cost (sort_members kvs)) = sum_list (map member_cost kvs)"
    by (metis sum_mset_sum_list)
  moreover have "isascii (dump_members (sort_members kvs))"
  proof (rule ascii_dump_members, rule ballI)
    fix m assume "m \<in> set (sort_members kvs)"
    then obtain kv where "member_fits kv m"
      using assms by (metis set_sort_members list_all2_conv_all_nth in_set_conv_nth)
    with dump_str_plain [of "fst m"] show "isascii (dump_str (fst m)) \<and> isascii (dumps (snd m))"
      by (simp add: member_fits_def fits_def)
  qed
  ultimately show ?thesis using length_dump_members [of "sort_members kvs"] by (simp add: fits_def)
qed

lemma normalize_str_ascii: "isascii s \<Longrightarrow> normalize_str P s = Inr s"
  by (simp add: normalize_str_def)

lemma plain_normalize: "plain v \<Longrightarrow> \<exists>j. normalize P v = Inr j \<and> fits (cost v) j"
proof (induction v)
  case (VInt i)
  then show ?case using dump_int_plain [of i] by (simp add: fits_def)
next
  case (VStr s)
  then show ?case using dump_str_plain [of s] by (simp add: fits_def normalize_str_ascii)
next
  case (VList vs)
  then have "\<forall>v \<in> set vs. \<exists>j. normalize P v = Inr j \<and> fits (cost v) j" by (auto simp: list_all_iff)
  then obtain f where f: "\<forall>v \<in> set vs. normalize P v = Inr (f v) \<and> fits (cost v) (f v)" by metis
  then have "mapR (normalize P) vs = Inr (map f vs)" by (simp add: mapR_Inr_iff list_all2_conv_all_nth)
  moreover have "fits (cost (VList vs)) (JArr (map f vs))"
    using f by (intro fits_list) (simp add: list_all2_conv_all_nth)
  ultimately show ?case by (auto simp only: normalize_VList bindR_simps)
next
  case (VDict d)
  then have "\<exists>j. fst kv = VStr (str_of (fst kv)) \<and> isascii (str_of (fst kv)) \<and> normalize P (snd kv) = Inr j \<and> fits (cost (snd kv)) j"
    if "kv \<in> set d" for kv
    using that VDict.IH [of kv "snd kv"] by (cases kv) (auto simp: list_all_iff elim: is_strE)
  then obtain f where f: "\<And>kv. kv \<in> set d \<Longrightarrow> fst kv = VStr (str_of (fst kv)) \<and> isascii (str_of (fst kv))
      \<and> normalize P (snd kv) = Inr (f kv) \<and> fits (cost (snd kv)) (f kv)" by metis
  let ?kvs = "map (\<lambda>kv. (str_of (fst kv), f kv)) d"
  have "list_all2 (member_normal P) d ?kvs"
    using f by (auto simp: list_all2_conv_all_nth member_normal_def normalize_str_ascii)
  moreover have "map fst d = map VStr (map fst ?kvs)"
    using f by auto
  then have "distinct (map fst ?kvs)" using VDict.prems by (metis distinct_map plain.simps(6))
  moreover have "fits (cost (VDict d)) (JObj (sort_members ?kvs))"
    using f by (intro fits_dict) (auto simp: list_all2_conv_all_nth member_fits_def)
  ultimately show ?case unfolding normalize_VDict_Inr by blast
qed (auto simp: fits_def str_def)

lemma plain_canonical:
  assumes "plain v"
  shows "\<exists>b. canonical_bytes P v = Inr b \<and> length b \<le> cost v"
proof -
  from plain_normalize [OF assms] obtain j where "normalize P v = Inr j" "fits (cost v) j" by blast
  then show ?thesis by (auto simp: canonical_bytes_def fits_def length_utf8_ascii)
qed

end
