(* ===== verification/Demo.thy ===== *)
theory Demo
  imports Canonical_Laws
begin

text \<open>
  A concrete platform on which the witnesses evaluate the model: every string is in NFC, a public
  key is the seed itself, a signature repeats the key, and the payload contracts of the other
  modules reject everything.
\<close>

definition demo :: platform where
  "demo = \<lparr>nfc = (\<lambda>s. s), ed25519_point = (\<lambda>k. length k = 32),
     ed25519_verify = (\<lambda>k s m. s = k @ k), ed25519_public = (\<lambda>k. k), ed25519_sign = (\<lambda>k m. k @ k),
     payload_validator = (\<lambda>name d. raise PayloadError ''not part of this platform'')\<rparr>"

lemma demo_simps [simp]:
  "nfc demo s = s" "ed25519_point demo k = (length k = 32)" "ed25519_verify demo k g m = (g = k @ k)"
  "ed25519_public demo k = k" "ed25519_sign demo k m = k @ k"
  "payload_validator demo n d = raise PayloadError ''not part of this platform''"
  by (simp_all add: demo_def)

text \<open>Two dicts that list the same two items in different orders.\<close>

definition demo_dict :: dict where
  "demo_dict = [(VStr (str ''a''), VInt 1), (VStr (str ''b''), VList [VNone])]"

lemma demo_dict_normal:
  "normalize demo (VDict demo_dict) = Inr (JObj [(str ''a'', JInt 1), (str ''b'', JArr [JNull])])"
  by (simp add: demo_dict_def normalize.simps(6,7) normalize_str_def sort_members_def str_def
      utf16be_def utf16be_char_def)

lemma demo_dict_canonical: "\<exists>b. canonical_bytes demo (VDict demo_dict) = Inr b"
  by (simp add: canonical_bytes_def demo_dict_normal)

end
