(* ===== verification/Canonical_Properties.thy ===== *)
theory Canonical_Properties
  imports Demo
begin

text \<open>
  What the rest of the program relies on in \<^verbatim>\<open>src/daimon_matrix/canonical.py\<close>: the bytes that are
  hashed and signed determine the value, a domain separates them, the canonical form is a fixed
  point of its own normalisation, a dict's order does not matter, and base64url has one spelling.
\<close>

lemma split_at_mark: "z \<notin> set a \<Longrightarrow> z \<notin> set b \<Longrightarrow> a @ z # x = b @ z # y \<Longrightarrow> a = b \<and> x = y"
proof (induction a arbitrary: b)
  case Nil
  then show ?case by (cases b) auto
next
  case (Cons c a)
  then show ?case by (cases b) auto
qed

lemma normalize_key_no_surrogates:
  assumes "normalize P (VDict d) = Inr j" and "(VStr s, v) \<in> set d" and "c \<in> set s"
  shows "\<not> is_surrogate c"
proof -
  from assms(1) obtain kvs where "list_all2 (member_normal P) d kvs" by (auto simp: normalize_VDict_Inr)
  with assms(2) obtain m where "member_normal P (VStr s, v) m"
    by (metis list_all2_conv_all_nth in_set_conv_nth)
  then have "normalize_str P s = Inr s" by (auto simp: member_normal_def)
  with assms(3) show ?thesis
    by (force simp: normalize_str_def isascii_def list_all_iff list_ex_iff is_surrogate_def split: if_splits)
qed

text \<open>
  C37: the canonical bytes determine the value. Two values of any shape that are printed with the
  same bytes have the same normal form: members sorted, keys and strings exactly the same.
\<close>

theorem canonical_bytes_injective:
  assumes "canonical_bytes P v = Inr b" and "canonical_bytes P w = Inr c"
  shows "b = c \<longleftrightarrow> normalize P v = normalize P w"
  using assms canonical_bytes_injD [of P v b w] canonical_bytes_cong [of P v w] by auto

lemma canonical_bytes_injective_witness:
  "\<exists>b. canonical_bytes demo (VDict demo_dict) = Inr b \<and>
     (b = b \<longleftrightarrow> normalize demo (VDict demo_dict) = normalize demo (VDict demo_dict))"
  using demo_dict_canonical canonical_bytes_injective [of demo "VDict demo_dict" _ "VDict demo_dict"]
  by blast

text \<open>
  Domain separation. A signed preimage of \<^verbatim>\<open>domain_bytes\<close> reveals the domain and the value:
  preimages of two NUL-free domains are equal only for the same domain and the same normal form,
  so that a signature made for one kind of artifact never serves as one for another kind.
\<close>

theorem domain_bytes_separate:
  assumes "domain_bytes P d a = Inr m" and "domain_bytes P e c = Inr m"
    and "0 \<notin> set (str d)" and "0 \<notin> set (str e)"
  shows "d = e \<and> normalize P (VDict a) = normalize P (VDict c)"
proof -
  from assms(1,2) obtain x y where x: "canonical_bytes P (VDict a) = Inr x" "m = str d @ 0 # x"
    and y: "canonical_bytes P (VDict c) = Inr y" "m = str e @ 0 # y"
    by (auto simp: domain_bytes_def res)
  from x(2) y(2) have "str d @ 0 # x = str e @ 0 # y" by simp
  with split_at_mark [OF assms(3,4)] have "str d = str e \<and> x = y" by blast
  with canonical_bytes_injD [OF x(1)] y(1) show ?thesis by simp
qed

lemma domain_bytes_separate_witness:
  "\<exists>m. domain_bytes demo ''daimon/weave/event/v1'' demo_dict = Inr m \<and> ''daimon/weave/event/v1'' = ''daimon/weave/event/v1''
     \<and> normalize demo (VDict demo_dict) = normalize demo (VDict demo_dict)"
proof -
  obtain m where m: "domain_bytes demo ''daimon/weave/event/v1'' demo_dict = Inr m"
    using demo_dict_canonical by (auto simp: domain_bytes_def)
  have "0 \<notin> set (str ''daimon/weave/event/v1'')" by (simp add: str_def)
  from domain_bytes_separate [OF m m this this] m show ?thesis by blast
qed

text \<open>
  Normalisation is idempotent. The values \<^verbatim>\<open>_normalize\<close> can produce are exactly those it
  maps to themselves when they are read back as Python values: sorted members, distinct NFC keys,
  exact integers and no floats.
\<close>

theorem normal_forms_are_fixed_points:
  "(\<exists>v. normalize P v = Inr j) \<longleftrightarrow> normalize P (val_of j) = Inr j"
  using normalize_canonical canonical_normalize by blast

text \<open>
  The order in which a dict lists its items is immaterial. Every permutation of the items has
  the same canonical bytes; the keys are Python strings, of code points below \<^verbatim>\<open>0x110000\<close>.
\<close>

theorem canonical_bytes_order_independent:
  assumes "canonical_bytes P (VDict d) = Inr b" and "mset d' = mset d"
    and "\<And>s v c. (VStr s, v) \<in> set d \<Longrightarrow> c \<in> set s \<Longrightarrow> c < 0x110000"
  shows "canonical_bytes P (VDict d') = Inr b"
proof -
  from assms(1) obtain j where j: "normalize P (VDict d) = Inr j" by (auto simp: canonical_bytes_def res)
  have "code_points s" if "(VStr s, v) \<in> set d" for s v
    using normalize_key_no_surrogates [OF j that] assms(3) [OF that] by (auto simp: code_points_def)
  then have "normalize P (VDict d') = Inr j" by (rule normalize_dict_order [OF j assms(2)])
  with j assms(1) show ?thesis by (simp add: canonical_bytes_def)
qed

lemma canonical_bytes_order_independent_witness:
  "\<exists>b. canonical_bytes demo (VDict demo_dict) = Inr b \<and> canonical_bytes demo (VDict (rev demo_dict)) = Inr b"
proof -
  obtain b where b: "canonical_bytes demo (VDict demo_dict) = Inr b" using demo_dict_canonical by blast
  have "canonical_bytes demo (VDict (rev demo_dict)) = Inr b"
    by (rule canonical_bytes_order_independent [OF b])
      (auto simp: demo_dict_def str_def)
  with b show ?thesis by blast
qed

text \<open>
  Base64url is a bijection. The unpadded text that \<^verbatim>\<open>b64url\<close> writes is the only one that
  \<^verbatim>\<open>unb64url\<close> decodes to these bytes: padding, the standard alphabet and stray final bits are
  rejected.
\<close>

theorem base64url_unique:
  assumes "is_bytes bs"
  shows "unb64url v len = Inr bs \<longleftrightarrow> v = VStr (b64url bs) \<and> (len = None \<or> len = Some (length bs))"
  using unb64url_Inr [of v len bs] unb64url_b64url [OF assms, of len] by blast

lemma base64url_unique_witness:
  "unb64url (VStr (str ''AQID'')) (Some 3) = Inr [1, 2, 3]"
  using base64url_unique [of "[1, 2, 3]" "VStr (str ''AQID'')" "Some 3"]
  by (simp add: is_bytes_def b64_alphabet_codes str_def)

end
