(* ===== verification/Identity.thy ===== *)
theory Identity
  imports Canonical "HOL-Library.AList"
begin

text \<open>
  Identity artifacts and the control chain, \<^verbatim>\<open>src/daimon_matrix/identity.py\<close>: threshold policies,
  the signed artifact wrapper, the chain of control states (genesis, root rotation, recovery
  policy change, revocation, recovery), embodiment credentials and incarnation authorizations.

  Artifacts arrive as Python values (\<open>dict\<close>); a policy stays the value it was signed as. The
  maps of \<^verbatim>\<open>ControlState\<close> are association lists whose keys are values, as the code takes them
  from signed bodies. Where the code uses a value as a number without checking its type, a
  Boolean counts as 0 or 1, as in Python, and the model stores the number.
\<close>

section \<open>Constants and maps\<close>

definition max_keys :: nat where "max_keys = 32"

definition max_signatures :: nat where "max_signatures = 128"

definition credential_v2_domain :: string where
  "credential_v2_domain = ''dm.identity.embodiment-credential/v2''"

definition domain_of :: "string \<Rightarrow> string" where
  "domain_of kind = ''dm.identity.'' @ kind @ ''/v1''"

definition allowed_roles :: "string \<Rightarrow> string list" where
  "allowed_roles kind =
     (if kind = ''genesis'' then [''root-authorization'', ''recovery-possession'']
      else if kind = ''root-rotation'' then [''root-authorization'', ''new-root-possession'']
      else if kind = ''recovery-policy''
        then [''root-authorization'', ''recovery-authorization'', ''new-recovery-possession'']
      else if kind = ''recovery'' then [''recovery-authorization'', ''new-root-possession'']
      else if kind = ''revocation'' then [''root-authorization'']
      else if kind = ''embodiment-credential'' then [''root-authorization'', ''embodiment-acceptance'']
      else if kind = ''incarnation-authorization'' then [''incarnation-authorization'']
      else if kind = ''history-binding'' then [''root-authorization'']
      else if kind = ''binding-activation'' then [''root-authorization'']
      else [])"

text \<open>
  \<^verbatim>\<open>_closed(value, fields, what)\<close> of this module tests \<^verbatim>\<open>set(value)\<close> without asking for a
  mapping: what cannot be iterated raises \<^verbatim>\<open>TypeError\<close>, and so does, at its first subscript, a
  list whose elements happen to be the field names.
\<close>

definition closed_id :: "string list \<Rightarrow> string \<Rightarrow> val \<Rightarrow> dict res" where
  "closed_id ks what v =
     bindR (iter_vals v) (\<lambda>vs.
       if \<not> list_all hashable vs then raise TypeError ''unhashable''
       else if set vs \<noteq> key_set ks then raise VerificationError (what @ '' fields mismatch'')
       else (case v of VDict d \<Rightarrow> Inr d | _ \<Rightarrow> raise TypeError ''not subscriptable''))"

lemma closed_id_Inr_iff [res]:
  "closed_id ks what v = Inr d \<longleftrightarrow> v = VDict d \<and> list_all hashable (map fst d) \<and> dkeys d = key_set ks"
  by (cases v) (auto simp: closed_id_def res dkeys_def)

text \<open>A hashable dict key, or \<^verbatim>\<open>TypeError\<close>.\<close>

definition hashable_res :: "val \<Rightarrow> val res" where
  "hashable_res v = (if hashable v then Inr v else raise TypeError ''unhashable'')"

lemma hashable_res_Inr_iff [res]: "hashable_res v = Inr w \<longleftrightarrow> hashable v \<and> w = v"
  by (auto simp: hashable_res_def)

section \<open>Keys and threshold policies\<close>

definition key_id :: "platform \<Rightarrow> string \<Rightarrow> bytes \<Rightarrow> pystr res" where
  "key_id P algorithm public =
     (if length public \<noteq> 32 then raise IdentityError ''public keys must be 32 bytes''
      else bindR (digest P ''dm.identity.key/v1''
                   [(VStr (str ''algorithm''), VStr (str algorithm)),
                    (VStr (str ''public''), VStr (b64url public))])
             (\<lambda>h. Inr (str ''dm:key:v1:'' @ b64url h)))"

definition key_descriptor :: "platform \<Rightarrow> string \<Rightarrow> bytes \<Rightarrow> val res" where
  "key_descriptor P algorithm public =
     bindR (key_id P algorithm public) (\<lambda>kid.
       Inr (VDict [(VStr (str ''algorithm''), VStr (str algorithm)),
                   (VStr (str ''key_id''), VStr kid),
                   (VStr (str ''public''), VStr (b64url public))]))"

definition descriptor_public :: "platform \<Rightarrow> val \<Rightarrow> string \<Rightarrow> bytes res" where
  "descriptor_public P descriptor expected =
     bindR (closed_id [''algorithm'', ''key_id'', ''public''] ''key descriptor'' descriptor) (\<lambda>d.
       if item d ''algorithm'' \<noteq> VStr (str expected)
         then raise VerificationError (''expected '' @ expected @ '' key'')
       else bindR (unb64url (item d ''public'') (Some 32)) (\<lambda>public.
         bindR (key_id P expected public) (\<lambda>kid.
           if item d ''key_id'' \<noteq> VStr kid then raise VerificationError ''derived key ID mismatch''
           else if expected = ''Ed25519'' \<and> \<not> ed25519_point P public then raise ValueError ''public bytes''
           else Inr public)))"

definition descriptor_key_id :: "val \<Rightarrow> val" where
  "descriptor_key_id v = (case v of VDict d \<Rightarrow> item d ''key_id'' | _ \<Rightarrow> VNone)"

text \<open>The loop over the descriptors of a policy, and the policy's public keys by key id.\<close>

fun policy_keys :: "platform \<Rightarrow> val list \<Rightarrow> (val \<times> bytes) list \<Rightarrow> (val \<times> bytes) list res" where
  "policy_keys P [] seen = Inr seen"
| "policy_keys P (k # ks) seen =
     bindR (descriptor_public P k ''Ed25519'') (\<lambda>public.
       if descriptor_key_id k \<in> fst ` set seen \<or> public \<in> snd ` set seen
         then raise VerificationError ''threshold policy contains an aliased key''
       else policy_keys P ks (seen @ [(descriptor_key_id k, public)]))"

text \<open>
  \<^verbatim>\<open>_validate_threshold_policy\<close>, with the threshold and the keys it establishes;
  \<open>public_map\<close> (\<^verbatim>\<open>_public_map\<close>) returns the keys.
\<close>

definition threshold_policy_check :: "platform \<Rightarrow> val \<Rightarrow> (int \<times> (val \<times> bytes) list) res" where
  "threshold_policy_check P policy =
     bindR (closed_id [''keys'', ''threshold''] ''threshold policy'' policy) (\<lambda>d.
       case item d ''keys'' of
         VList keys \<Rightarrow>
           if \<not> (1 \<le> length keys \<and> length keys \<le> max_keys)
             then raise VerificationError ''threshold key count is out of bounds''
           else (case item d ''threshold'' of
               VInt threshold \<Rightarrow>
                 if \<not> (1 \<le> threshold \<and> threshold \<le> int (length keys))
                   then raise VerificationError ''threshold is out of bounds''
                 else bindR (mapR (get_default ''key_id'') keys) (\<lambda>kids.
                   bindR (adj_sorted (map (\<lambda>k. [k]) kids)) (\<lambda>sorted_keys.
                     if \<not> sorted_keys
                       then raise VerificationError ''threshold keys are not canonically sorted''
                     else bindR (policy_keys P keys []) (\<lambda>pm. Inr (threshold, pm))))
             | _ \<Rightarrow> raise VerificationError ''threshold must be an integer'')
       | _ \<Rightarrow> raise VerificationError ''threshold key count is out of bounds'')"

definition public_map :: "platform \<Rightarrow> val \<Rightarrow> (val \<times> bytes) list res" where
  "public_map P policy = bindR (threshold_policy_check P policy) (\<lambda>(t, pm). Inr pm)"

definition policy_publics :: "platform \<Rightarrow> val \<Rightarrow> bytes list res" where
  "policy_publics P policy = bindR (public_map P policy) (\<lambda>pm. Inr (map snd pm))"

definition require_separate_policies :: "platform \<Rightarrow> val \<Rightarrow> val \<Rightarrow> unit res" where
  "require_separate_policies P first second =
     bindR (policy_publics P first) (\<lambda>a. bindR (policy_publics P second) (\<lambda>b.
       if set a \<inter> set b \<noteq> {}
         then raise VerificationError ''root and recovery key material must be distinct''
       else Inr ()))"

section \<open>The signed wrapper\<close>

record signature_row =
  s_key_id :: val
  s_role :: val
  s_value :: val

fun check_signatures ::
  "string \<Rightarrow> val list \<Rightarrow> signature_row list \<Rightarrow> signature_row list res" where
  "check_signatures kind [] seen = Inr seen"
| "check_signatures kind (v # vs) seen =
     bindR (closed_id [''algorithm'', ''key_id'', ''role'', ''value''] ''signature'' v) (\<lambda>d.
       if item d ''algorithm'' \<noteq> VStr (str ''Ed25519'')
         then raise VerificationError ''signature algorithm mismatch''
       else bindR (in_strings (item d ''role'') (allowed_roles kind)) (\<lambda>allowed.
         if \<not> allowed then raise VerificationError ''signature role is invalid for artifact kind''
         else bindR (hashable_res (item d ''key_id'')) (\<lambda>kid.
           if (kid, item d ''role'') \<in> (\<lambda>s. (s_key_id s, s_role s)) ` set seen
             then raise VerificationError ''duplicate signature role/key''
           else check_signatures kind vs
                  (seen @ [\<lparr>s_key_id = kid, s_role = item d ''role'', s_value = item d ''value''\<rparr>]))))"

record wrapper =
  w_body :: dict
  w_hash :: bytes
  w_id :: pystr  \<comment> \<open>the checked \<^verbatim>\<open>artifact_id\<close>\<close>
  w_signatures :: "signature_row list"

definition verify_wrapper :: "platform \<Rightarrow> dict \<Rightarrow> string \<Rightarrow> bool \<Rightarrow> wrapper res" where
  "verify_wrapper P artifact kind v2 =
     bindR (closed_id [''schema'', ''kind'', ''artifact_id'', ''body'', ''signatures'']
              ''identity artifact'' (VDict artifact)) (\<lambda>a.
       let version = (if v2 then ''2'' else ''1'') in
       if item a ''schema'' \<noteq> VStr (str (''dm.identity.artifact/v'' @ version))
          \<or> item a ''kind'' \<noteq> VStr (str kind)
         then raise VerificationError ''identity artifact kind/schema mismatch''
       else (case item a ''body'' of
           VDict body \<Rightarrow>
             bindR (digest P (if v2 then credential_v2_domain else domain_of kind) body) (\<lambda>raw_hash.
               let artifact_id = str (''dm:identity:v'' @ version @ '':'') @ b64url raw_hash in
               if item a ''artifact_id'' \<noteq> VStr artifact_id
                 then raise VerificationError ''artifact ID mismatch''
               else (case item a ''signatures'' of
                   VList sigs \<Rightarrow>
                     if length sigs > max_signatures
                       then raise VerificationError ''signature list is out of bounds''
                     else bindR (mapR (\<lambda>s. bindR (get_default ''key_id'' s) (\<lambda>k.
                                   bindR (get_default ''role'' s) (\<lambda>r. Inr [k, r]))) sigs) (\<lambda>keys.
                       bindR (adj_sorted keys) (\<lambda>sorted_sigs.
                         if \<not> sorted_sigs
                           then raise VerificationError ''signatures are not canonically sorted''
                         else bindR (check_signatures kind sigs []) (\<lambda>rows.
                           Inr \<lparr>w_body = body, w_hash = raw_hash, w_id = artifact_id,
                                w_signatures = rows\<rparr>)))
                 | _ \<Rightarrow> raise VerificationError ''signature list is out of bounds''))
         | _ \<Rightarrow> raise VerificationError ''artifact body must be an object''))"

text \<open>\<^verbatim>\<open>_verify_threshold\<close>: the loop collects the keys that signed, then counts them.\<close>

fun valid_signers ::
  "platform \<Rightarrow> (val \<times> bytes) list \<Rightarrow> string \<Rightarrow> bytes \<Rightarrow> signature_row list \<Rightarrow> val list \<Rightarrow> val list res"
where
  "valid_signers P public role preimage [] valid = Inr valid"
| "valid_signers P public role preimage (s # ss) valid =
     (if s_role s \<noteq> VStr (str role) then valid_signers P public role preimage ss valid
      else (case map_of public (s_key_id s) of
          None \<Rightarrow> raise VerificationError (''unauthorized '' @ role @ '' signature'')
        | Some pk \<Rightarrow>
            bindR (unb64url (s_value s) (Some 64)) (\<lambda>value.
              if \<not> ed25519_verify P pk value preimage
                then raise VerificationError (''invalid '' @ role @ '' signature'')
              else valid_signers P public role preimage ss (List.insert (s_key_id s) valid))))"

definition verify_threshold ::
  "platform \<Rightarrow> signature_row list \<Rightarrow> val \<Rightarrow> string \<Rightarrow> bytes \<Rightarrow> unit res" where
  "verify_threshold P sigs policy role preimage =
     bindR (threshold_policy_check P policy) (\<lambda>(threshold, public).
       bindR (valid_signers P public role preimage sigs []) (\<lambda>valid.
         if int (length valid) < threshold
           then raise VerificationError (role @ '' threshold not met'')
         else Inr ()))"

definition possession_preimage :: "string \<Rightarrow> bytes \<Rightarrow> bytes" where
  "possession_preimage kind raw_hash = str (domain_of kind) @ str ''/possession'' @ [0] @ raw_hash"

section \<open>Control states\<close>

record revocation =
  cutoff :: int  \<comment> \<open>\<^verbatim>\<open>cutoff_incarnation_sequence\<close>\<close>
  rev_generation :: int  \<comment> \<open>\<^verbatim>\<open>revocation_generation\<close>\<close>

record control_state =
  cs_being_ref :: pystr
  cs_head :: pystr
  cs_generation :: int
  cs_sequence :: int
  cs_root_policy :: val
  cs_recovery_policy :: val
  cs_revocations :: "(val \<times> revocation) list"
  cs_credential_authorities :: "(val \<times> val) list"
  cs_carried :: "(val \<times> val) list"
  cs_activated_binding :: "pystr option"

definition verify_genesis :: "platform \<Rightarrow> dict \<Rightarrow> control_state res" where
  "verify_genesis P artifact =
     bindR (verify_wrapper P artifact ''genesis'' False) (\<lambda>w.
     bindR (closed_id [''being_ref'', ''control_generation'', ''control_sequence'', ''core'',
                       ''created_at_ms''] ''genesis body'' (VDict (w_body w))) (\<lambda>body.
       if num_of (item body ''control_generation'') \<noteq> Some 0
          \<or> num_of (item body ''control_sequence'') \<noteq> Some 0
         then raise VerificationError ''genesis control position must be (0, 0)''
       else bindR (closed_id [''nonce'', ''protocol'', ''recovery'', ''root'', ''version'']
                     ''genesis core'' (item body ''core'')) (\<lambda>core.
         if item core ''protocol'' \<noteq> VStr (str ''daimon-matrix'')
            \<or> num_of (item core ''version'') \<noteq> Some 1
           then raise VerificationError ''genesis protocol/version mismatch''
         else bindR (unb64url (item core ''nonce'') (Some 32)) (\<lambda>_.
           bindR (digest P ''dm.identity.being/v1'' core) (\<lambda>h.
             let expected = str ''dm:being:v1:'' @ b64url h in
             if item body ''being_ref'' \<noteq> VStr expected
               then raise VerificationError ''self-certifying being reference mismatch''
             else bindR (domain_bytes P (domain_of ''genesis'') body) (\<lambda>preimage.
               bindR (verify_threshold P (w_signatures w) (item core ''root'')
                        ''root-authorization'' preimage) (\<lambda>_.
               bindR (verify_threshold P (w_signatures w) (item core ''recovery'')
                        ''recovery-possession'' (possession_preimage ''genesis'' (w_hash w))) (\<lambda>_.
               bindR (require_separate_policies P (item core ''root'') (item core ''recovery'')) (\<lambda>_.
                 Inr \<lparr>cs_being_ref = expected, cs_head = w_id w, cs_generation = 0, cs_sequence = 0,
                      cs_root_policy = item core ''root'', cs_recovery_policy = item core ''recovery'',
                      cs_revocations = [],
                      cs_credential_authorities = [(VStr (w_id w), item core ''root'')],
                      cs_carried = [], cs_activated_binding = None\<rparr>)))))))))"

definition verify_position :: "dict \<Rightarrow> control_state \<Rightarrow> unit res" where
  "verify_position body state =
     bindR (getitem body ''being_ref'') (\<lambda>being_ref.
       if being_ref \<noteq> VStr (cs_being_ref state)
         then raise VerificationError ''being reference mismatch''
       else bindR (getitem body ''previous_control_head'') (\<lambda>prev.
         if prev \<noteq> VStr (cs_head state)
           then raise VerificationError ''control predecessor mismatch''
         else bindR (getitem body ''control_generation'') (\<lambda>gen.
           if num_of gen \<noteq> Some (cs_generation state)
             then raise VerificationError ''control generation mismatch''
           else bindR (getitem body ''control_sequence'') (\<lambda>seq.
             if num_of seq \<noteq> Some (cs_sequence state + 1)
               then raise VerificationError ''control sequence must increment exactly once''
             else Inr ()))))"

definition successor_fields :: "string list" where
  "successor_fields = [''being_ref'', ''control_generation'', ''control_sequence'', ''previous_control_head'']"

text \<open>The three normal successors; each returns the state with the fields it changes.\<close>

definition rotate_root :: "platform \<Rightarrow> wrapper \<Rightarrow> control_state \<Rightarrow> control_state res" where
  "rotate_root P w state =
     bindR (closed_id (successor_fields @ [''replacement_root'', ''carry_forward_credentials''])
              ''root rotation body'' (VDict (w_body w))) (\<lambda>body.
       let policy = item body ''replacement_root'' in
       bindR (require_separate_policies P policy (cs_recovery_policy state)) (\<lambda>_.
       bindR (verify_threshold P (w_signatures w) policy ''new-root-possession''
                (possession_preimage ''root-rotation'' (w_hash w))) (\<lambda>_.
         let carried = item body ''carry_forward_credentials'' in
         bindR (sorted_set_check carried) (\<lambda>ok.
           if \<not> ok then raise VerificationError ''carry-forward IDs must be sorted and unique''
           else bindR (iter_vals carried) (\<lambda>ids.
             Inr (state\<lparr>cs_root_policy := policy,
                    cs_credential_authorities := [(VStr (w_id w), policy)],
                    cs_carried := map (\<lambda>i. (i, cs_root_policy state)) ids\<rparr>))))))"

definition change_recovery :: "platform \<Rightarrow> wrapper \<Rightarrow> bytes \<Rightarrow> control_state \<Rightarrow> control_state res" where
  "change_recovery P w preimage state =
     bindR (closed_id (successor_fields @ [''replacement_recovery''])
              ''recovery policy body'' (VDict (w_body w))) (\<lambda>body.
       bindR (verify_threshold P (w_signatures w) (cs_recovery_policy state)
                ''recovery-authorization'' preimage) (\<lambda>_.
       let policy = item body ''replacement_recovery'' in
       bindR (require_separate_policies P (cs_root_policy state) policy) (\<lambda>_.
       bindR (verify_threshold P (w_signatures w) policy ''new-recovery-possession''
                (possession_preimage ''recovery-policy'' (w_hash w))) (\<lambda>_.
         Inr (state\<lparr>cs_recovery_policy := policy,
                cs_credential_authorities :=
                  AList.update (VStr (w_id w)) (cs_root_policy state)
                    (cs_credential_authorities state)\<rparr>)))))"

definition revoke :: "platform \<Rightarrow> wrapper \<Rightarrow> control_state \<Rightarrow> control_state res" where
  "revoke P w state =
     bindR (closed_id (successor_fields
                @ [''embodiment_id'', ''cutoff_incarnation_sequence'', ''revocation_generation''])
              ''revocation body'' (VDict (w_body w))) (\<lambda>body.
       bindR (num_res (item body ''cutoff_incarnation_sequence'')) (\<lambda>c.
       if c < 0 then raise VerificationError ''invalid revocation high-water''
       else bindR (num_res (item body ''revocation_generation'')) (\<lambda>g.
       if g < 1 then raise VerificationError ''invalid revocation high-water''
       else bindR (hashable_res (item body ''embodiment_id'')) (\<lambda>embodiment_id.
         let prior = map_of (cs_revocations state) embodiment_id in
         if g \<noteq> (case prior of None \<Rightarrow> 1 | Some r \<Rightarrow> rev_generation r + 1)
           then raise VerificationError ''revocation generation must increment exactly once''
         else if (case prior of None \<Rightarrow> False | Some r \<Rightarrow> c > cutoff r)
           then raise VerificationError ''revocation cutoff cannot become less restrictive''
         else Inr (state\<lparr>cs_revocations :=
                AList.update embodiment_id \<lparr>cutoff = c, rev_generation = g\<rparr> (cs_revocations state),
              cs_credential_authorities :=
                AList.update (VStr (w_id w)) (cs_root_policy state)
                  (cs_credential_authorities state)\<rparr>)))))"

definition verify_successor :: "platform \<Rightarrow> dict \<Rightarrow> control_state \<Rightarrow> control_state res" where
  "verify_successor P artifact state =
     (let kind = (case dget artifact ''kind'' of Some v \<Rightarrow> v | None \<Rightarrow> VNone) in
      bindR (in_strings kind [''root-rotation'', ''recovery-policy'', ''revocation'']) (\<lambda>normal.
        if \<not> normal then raise VerificationError ''artifact is not a normal control successor''
        else
          let k = (if kind = VStr (str ''root-rotation'') then ''root-rotation''
                   else if kind = VStr (str ''recovery-policy'') then ''recovery-policy''
                   else ''revocation'') in
          bindR (verify_wrapper P artifact k False) (\<lambda>w.
          bindR (verify_position (w_body w) state) (\<lambda>_.
          bindR (domain_bytes P (domain_of k) (w_body w)) (\<lambda>preimage.
          bindR (verify_threshold P (w_signatures w) (cs_root_policy state)
                   ''root-authorization'' preimage) (\<lambda>_.
          bindR (if k = ''root-rotation'' then rotate_root P w state
                 else if k = ''recovery-policy'' then change_recovery P w preimage state
                 else revoke P w state) (\<lambda>s.
            Inr (s\<lparr>cs_head := w_id w, cs_sequence := cs_sequence state + 1\<rparr>)))))))) "

section \<open>Recovery\<close>

definition merge_revocation ::
  "val \<times> revocation \<Rightarrow> (val \<times> revocation) list \<Rightarrow> (val \<times> revocation) list" where
  "merge_revocation er merged =
     (case er of (e, r) \<Rightarrow>
        AList.update e
          (case map_of merged e of
             None \<Rightarrow> r
           | Some p \<Rightarrow> \<lparr>cutoff = min (cutoff p) (cutoff r),
                        rev_generation = max (rev_generation p) (rev_generation r)\<rparr>) merged)"

definition merge_revocations :: "control_state list \<Rightarrow> (val \<times> revocation) list" where
  "merge_revocations states = fold (\<lambda>s m. fold merge_revocation (cs_revocations s) m) states []"

definition high_water_val :: "(val \<times> revocation) list \<Rightarrow> val" where
  "high_water_val m =
     VDict (map (\<lambda>(e, r). (e, VDict [(VStr (str ''cutoff_incarnation_sequence''), VInt (cutoff r)),
                                      (VStr (str ''revocation_generation''), VInt (rev_generation r))])) m)"

text \<open>The loop that raises every revoked embodiment's generation.\<close>

definition bump_revocation :: "val \<Rightarrow> (val \<times> revocation) list \<Rightarrow> (val \<times> revocation) list" where
  "bump_revocation e m =
     AList.update e
       (case map_of m e of
          None \<Rightarrow> \<lparr>cutoff = 0, rev_generation = 1\<rparr>
        | Some p \<Rightarrow> \<lparr>cutoff = cutoff p, rev_generation = rev_generation p + 1\<rparr>) m"

definition recovery_fields :: "string list" where
  "recovery_fields = [''being_ref'', ''competing_control_heads'', ''control_generation'',
     ''control_sequence'', ''revocation_high_water'', ''replacement_root'', ''revoked_embodiments'']"

text \<open>The part both recovery verifiers share: separation, both thresholds, the new state.\<close>

definition check_recovery_signatures ::
  "platform \<Rightarrow> wrapper \<Rightarrow> dict \<Rightarrow> val \<Rightarrow> unit res" where
  "check_recovery_signatures P w body recovery_policy =
     bindR (require_separate_policies P (item body ''replacement_root'') recovery_policy) (\<lambda>_.
     bindR (domain_bytes P (domain_of ''recovery'') body) (\<lambda>preimage.
     bindR (verify_threshold P (w_signatures w) recovery_policy ''recovery-authorization'' preimage) (\<lambda>_.
       verify_threshold P (w_signatures w) (item body ''replacement_root'') ''new-root-possession''
         (possession_preimage ''recovery'' (w_hash w)))))"

definition recovered_state ::
  "wrapper \<Rightarrow> dict \<Rightarrow> control_state \<Rightarrow> int \<Rightarrow> (val \<times> revocation) list \<Rightarrow> control_state" where
  "recovered_state w body anchor generation revoked =
     \<lparr>cs_being_ref = cs_being_ref anchor, cs_head = w_id w, cs_generation = generation,
      cs_sequence = 0, cs_root_policy = item body ''replacement_root'',
      cs_recovery_policy = cs_recovery_policy anchor, cs_revocations = revoked,
      cs_credential_authorities = [(VStr (w_id w), item body ''replacement_root'')],
      cs_carried = [], cs_activated_binding = None\<rparr>"

definition verify_recovery :: "platform \<Rightarrow> dict \<Rightarrow> control_state list \<Rightarrow> control_state res" where
  "verify_recovery P artifact states =
     (case states of
        [] \<Rightarrow> raise VerificationError ''recovery has no known heads''
      | s0 # rest \<Rightarrow>
        bindR (verify_wrapper P artifact ''recovery'' False) (\<lambda>w.
        bindR (closed_id recovery_fields ''recovery body'' (VDict (w_body w))) (\<lambda>body.
          if item body ''being_ref'' \<noteq> VStr (cs_being_ref s0)
             \<or> list_ex (\<lambda>s. cs_being_ref s \<noteq> cs_being_ref s0) states
            then raise VerificationError ''recovery being mismatch''
          else if item body ''competing_control_heads''
                  \<noteq> VList (map VStr (sorted_list_of_set (set (map cs_head states))))
            then raise VerificationError ''recovery must cite every known head exactly''
          else
            let generation = Max (set (map cs_generation states)) + 1 in
            if num_of (item body ''control_generation'') \<noteq> Some generation
              then raise VerificationError ''recovery generation mismatch''
            else if num_of (item body ''control_sequence'') \<noteq> Some 0
              then raise VerificationError ''recovery sequence must reset to zero''
            else bindR (sorted_set_check (item body ''revoked_embodiments'')) (\<lambda>ok.
              if \<not> ok then raise VerificationError ''recovery revocations must be sorted and unique''
              else bindR (mapR (\<lambda>s. canonical_bytes P (cs_recovery_policy s)) states) (\<lambda>policies.
                if card (set policies) \<noteq> 1
                  then raise VerificationError ''fork branches disagree on recovery authority''
                else bindR (check_recovery_signatures P w body (cs_recovery_policy s0)) (\<lambda>_.
                  let high_water = merge_revocations states in
                  if \<not> py_eq (item body ''revocation_high_water'') (high_water_val high_water)
                    then raise VerificationError ''recovery revocation high-water mismatch''
                  else bindR (iter_vals (item body ''revoked_embodiments'')) (\<lambda>revoked.
                    Inr (recovered_state w body s0 generation
                           (fold bump_revocation revoked high_water)))))))))"

text \<open>The shape check of a high-water mark that no known branch state determines.\<close>

fun parse_high_water :: "dict \<Rightarrow> (val \<times> revocation) list option" where
  "parse_high_water [] = Some []"
| "parse_high_water ((k, v) # d) =
     (case (k, v) of
        (VStr e, VDict r) \<Rightarrow>
          if e = [] \<or> dkeys r \<noteq> key_set [''cutoff_incarnation_sequence'', ''revocation_generation'']
            then None
          else (case (item r ''cutoff_incarnation_sequence'', item r ''revocation_generation'') of
              (VInt c, VInt g) \<Rightarrow>
                if c < 0 \<or> g < 0 then None
                else map_option (\<lambda>m. (k, \<lparr>cutoff = c, rev_generation = g\<rparr>) # m) (parse_high_water d)
            | _ \<Rightarrow> None)
      | _ \<Rightarrow> None)"

definition covers_revocations :: "(val \<times> revocation) list \<Rightarrow> (val \<times> revocation) list \<Rightarrow> bool" where
  "covers_revocations merged known =
     list_all (\<lambda>(e, r). case map_of merged e of
         None \<Rightarrow> False
       | Some m \<Rightarrow> rev_generation r \<le> rev_generation m \<and> cutoff m \<le> cutoff r) known"

definition verify_recovery_from_anchor ::
  "platform \<Rightarrow> dict \<Rightarrow> control_state \<Rightarrow> control_state res" where
  "verify_recovery_from_anchor P artifact anchor =
     bindR (verify_wrapper P artifact ''recovery'' False) (\<lambda>w.
     bindR (closed_id recovery_fields ''recovery body'' (VDict (w_body w))) (\<lambda>body.
       let heads = item body ''competing_control_heads'';
           mismatch = Exc VerificationError (str ''recovery anchor mismatch'');
           high_water_error = Exc VerificationError (str ''recovery revocation high-water mismatch'') in
       if item body ''being_ref'' \<noteq> VStr (cs_being_ref anchor) then Inl mismatch
       else (case heads of
           VList hs \<Rightarrow>
             if \<not> list_all (\<lambda>h. is_str h \<and> str_of h \<noteq> []) hs
                \<or> \<not> sorted_wrt (<) (map str_of hs)
                \<or> VStr (cs_head anchor) \<notin> set hs then Inl mismatch
             else (case item body ''control_generation'' of
                 VInt generation \<Rightarrow>
                   if generation \<le> cs_generation anchor
                      \<or> num_of (item body ''control_sequence'') \<noteq> Some 0 then Inl mismatch
                   else (case item body ''revocation_high_water'' of
                       VDict hw \<Rightarrow>
                         (case parse_high_water hw of
                            None \<Rightarrow> Inl high_water_error
                          | Some high_water \<Rightarrow>
                            if \<not> covers_revocations high_water (cs_revocations anchor)
                              then Inl high_water_error
                            else bindR (sorted_set_check (item body ''revoked_embodiments'')) (\<lambda>ok.
                              if \<not> ok
                                then raise VerificationError ''recovery revocations must be sorted and unique''
                              else bindR (check_recovery_signatures P w body (cs_recovery_policy anchor)) (\<lambda>_.
                                bindR (iter_vals (item body ''revoked_embodiments'')) (\<lambda>revoked.
                                  Inr (recovered_state w body anchor generation
                                         (fold bump_revocation revoked high_water))))))
                     | _ \<Rightarrow> Inl high_water_error)
               | _ \<Rightarrow> Inl mismatch)
         | _ \<Rightarrow> Inl mismatch)))"

section \<open>The control chain\<close>

record control_chain =
  ch_states :: "(pystr \<times> control_state) list"  \<comment> \<open>\<^verbatim>\<open>_states\<close>, by head\<close>
  ch_heads :: "pystr set"  \<comment> \<open>\<^verbatim>\<open>_heads\<close>\<close>
  ch_children :: "pystr \<Rightarrow> pystr set"  \<comment> \<open>\<^verbatim>\<open>_children\<close>\<close>

definition chain_init :: "platform \<Rightarrow> dict \<Rightarrow> control_chain res" where
  "chain_init P genesis =
     bindR (verify_genesis P genesis) (\<lambda>state.
       Inr \<lparr>ch_states = [(cs_head state, state)], ch_heads = {cs_head state}, ch_children = (\<lambda>_. {})\<rparr>)"

text \<open>\<^verbatim>\<open>heads\<close>, \<^verbatim>\<open>states()\<close> and \<^verbatim>\<open>state\<close>.\<close>

definition chain_heads :: "control_chain \<Rightarrow> pystr list" where
  "chain_heads c = sorted_list_of_set (ch_heads c)"

definition chain_states :: "control_chain \<Rightarrow> control_state list res" where
  "chain_states c =
     mapR (\<lambda>h. case map_of (ch_states c) h of Some s \<Rightarrow> Inr s | None \<Rightarrow> raise KeyError ''head'')
       (chain_heads c)"

definition chain_state :: "control_chain \<Rightarrow> control_state res" where
  "chain_state c =
     (if card (ch_heads c) \<noteq> 1 then raise ControlForkError ''control successors are quarantined''
      else bindR (chain_states c) (\<lambda>ss. Inr (hd ss)))"

definition chain_add :: "platform \<Rightarrow> dict \<Rightarrow> control_chain \<Rightarrow> (control_state \<times> control_chain) res" where
  "chain_add P artifact c =
     bindR (hashable_res (case dget artifact ''artifact_id'' of Some v \<Rightarrow> v | None \<Rightarrow> VNone)) (\<lambda>artifact_id.
       if artifact_id \<in> VStr ` fst ` set (ch_states c)
         then raise VerificationError ''control artifact replay''
       else if dget artifact ''kind'' = Some (VStr (str ''recovery'')) then
         bindR (chain_states c) (\<lambda>states.
         bindR (verify_recovery P artifact states) (\<lambda>state.
           Inr (state, c\<lparr>ch_states := AList.update (cs_head state) state (ch_states c),
                         ch_heads := {cs_head state}\<rparr>)))
       else (case dget artifact ''body'' of
           Some (VDict body) \<Rightarrow>
             bindR (hashable_res (case dget body ''previous_control_head'' of Some v \<Rightarrow> v | None \<Rightarrow> VNone))
               (\<lambda>predecessor.
                 case (if is_str predecessor then map_of (ch_states c) (str_of predecessor) else None) of
                   None \<Rightarrow> raise VerificationError ''unknown control predecessor''
                 | Some known \<Rightarrow>
                     bindR (verify_successor P artifact known) (\<lambda>state.
                       let p = str_of predecessor in
                       Inr (state, c\<lparr>ch_states := AList.update (cs_head state) state (ch_states c),
                              ch_children := (ch_children c)(p := insert (cs_head state) (ch_children c p)),
                              ch_heads := insert (cs_head state) (ch_heads c - {p})\<rparr>)))
         | _ \<Rightarrow> raise VerificationError ''control artifact body missing''))"

section \<open>Validity\<close>

datatype validity = Finite int int | UntilRevoked int

definition instant_check :: "val \<Rightarrow> int res" where
  "instant_check v = uint_check (Exc VerificationError (str ''invalid validity instant'')) 0 v"

definition validate_validity :: "val \<Rightarrow> validity res" where
  "validate_validity v = (case v of
     VDict d \<Rightarrow>
       if dget d ''mode'' = Some (VStr (str ''finite'')) then
         bindR (closed_id [''mode'', ''not_before_ms'', ''not_after_ms''] ''validity'' v) (\<lambda>d.
         bindR (instant_check (item d ''not_before_ms'')) (\<lambda>nb.
         bindR (instant_check (item d ''not_after_ms'')) (\<lambda>na.
           if na \<le> nb then raise VerificationError ''invalid validity interval''
           else Inr (Finite nb na))))
       else if dget d ''mode'' = Some (VStr (str ''until-revoked'')) then
         bindR (closed_id [''mode'', ''not_before_ms''] ''validity'' v) (\<lambda>d.
         bindR (instant_check (item d ''not_before_ms'')) (\<lambda>nb. Inr (UntilRevoked nb)))
       else raise VerificationError ''invalid validity mode''
   | _ \<Rightarrow> raise VerificationError ''invalid validity'')"

fun contains :: "validity \<Rightarrow> int \<Rightarrow> bool" where
  "contains (Finite nb na) t = (nb \<le> t \<and> t < na)"
| "contains (UntilRevoked nb) t = (nb \<le> t)"

definition validity_contains :: "val \<Rightarrow> int \<Rightarrow> bool res" where
  "validity_contains v at_ms =
     bindR (validate_validity v) (\<lambda>validity.
       if \<not> (0 \<le> at_ms \<and> at_ms < 2 ^ 53) then raise VerificationError ''invalid validity time''
       else Inr (contains validity at_ms))"

fun attenuates :: "validity \<Rightarrow> validity \<Rightarrow> bool" where
  "attenuates (Finite cb ca) (Finite pb pa) = (cb \<ge> pb \<and> ca \<le> pa)"
| "attenuates (UntilRevoked cb) (Finite pb pa) = False"
| "attenuates (Finite cb ca) (UntilRevoked pb) = (cb \<ge> pb)"
| "attenuates (UntilRevoked cb) (UntilRevoked pb) = (cb \<ge> pb)"

definition validity_attenuates :: "val \<Rightarrow> val \<Rightarrow> bool res" where
  "validity_attenuates child parent =
     bindR (validate_validity child) (\<lambda>c. bindR (validate_validity parent) (\<lambda>p. Inr (attenuates c p)))"

definition credential_covers_deadline :: "dict \<Rightarrow> int \<Rightarrow> bool res" where
  "credential_covers_deadline body deadline_ms =
     (case dget body ''validity'' of
        None \<Rightarrow> bindR (getitem body ''valid_until_ms'') (\<lambda>v. bindR (num_res v) (\<lambda>u. Inr (deadline_ms \<le> u)))
      | Some v \<Rightarrow> bindR (validate_validity v) (\<lambda>validity.
          Inr (case validity of UntilRevoked _ \<Rightarrow> True | Finite _ na \<Rightarrow> deadline_ms \<le> na)))"

section \<open>Embodiment credentials\<close>

text \<open>The loop over the transport principals: distinct markers and keys, no reused key.\<close>

fun check_principals ::
  "platform \<Rightarrow> bytes list \<Rightarrow> val list \<Rightarrow> (val \<times> val) list \<Rightarrow> bytes list \<Rightarrow> unit res" where
  "check_principals P forbidden [] seen keys = Inr ()"
| "check_principals P forbidden (v # vs) seen keys =
     bindR (closed_id [''key'', ''principal_id'', ''scheme''] ''transport principal'' v) (\<lambda>d.
       let marker = (item d ''scheme'', item d ''principal_id'') in
       bindR (descriptor_public P (item d ''key'') ''Ed25519'') (\<lambda>public.
       bindR (hashable_res (fst marker)) (\<lambda>_. bindR (hashable_res (snd marker)) (\<lambda>_.
         if marker \<in> set seen \<or> public \<in> set keys
           then raise VerificationError ''transport principal is duplicated or aliased''
         else if public \<in> set forbidden
           then raise VerificationError ''transport key aliases identity key material''
         else check_principals P forbidden vs (marker # seen) (public # keys)))))"

definition check_transport ::
  "platform \<Rightarrow> bytes list \<Rightarrow> val \<Rightarrow> unit res" where
  "check_transport P forbidden principals =
     bindR (iter_vals principals) (\<lambda>ps.
     bindR (mapR (\<lambda>p. bindR (subscript p ''scheme'') (\<lambda>s.
              bindR (subscript p ''principal_id'') (\<lambda>i. Inr [s, i]))) ps) (\<lambda>keys.
     bindR (adj_sorted keys) (\<lambda>ok.
       if \<not> (is_list principals \<and> ok)
         then raise VerificationError ''transport principals are not canonically sorted''
       else check_principals P forbidden ps [] [])))"

definition acceptance_preimage :: "string \<Rightarrow> bytes \<Rightarrow> bytes" where
  "acceptance_preimage domain raw_hash = str domain @ str ''/acceptance'' @ [0] @ raw_hash"

definition credential_fields :: "bool \<Rightarrow> string list" where
  "credential_fields v2 =
     [''being_ref'', ''body_ref'', ''control_head'', ''embodiment_id'', ''encryption_key'',
      ''purposes'', ''revocation_generation'', ''signing_key'', ''transport_principals'']
     @ (if v2 then [''validity''] else [''valid_from_ms'', ''valid_until_ms''])"

definition in_validity :: "bool \<Rightarrow> dict \<Rightarrow> int \<Rightarrow> bool res" where
  "in_validity v2 body at_ms =
     (if v2 then validity_contains (item body ''validity'') at_ms
      else bindR (num_res (item body ''valid_from_ms'')) (\<lambda>from.
        if \<not> from \<le> at_ms then Inr False
        else bindR (num_res (item body ''valid_until_ms'')) (\<lambda>until. Inr (at_ms \<le> until))))"

definition check_acceptance :: "platform \<Rightarrow> wrapper \<Rightarrow> dict \<Rightarrow> string \<Rightarrow> bytes \<Rightarrow> unit res" where
  "check_acceptance P w body domain signing_public =
     (case filter (\<lambda>s. s_role s = VStr (str ''embodiment-acceptance'')) (w_signatures w) of
        [s] \<Rightarrow>
          if s_key_id s \<noteq> descriptor_key_id (item body ''signing_key'')
            then raise VerificationError ''credential lacks exact embodiment acceptance''
          else bindR (unb64url (s_value s) (Some 64)) (\<lambda>value.
            if \<not> ed25519_verify P signing_public value (acceptance_preimage domain (w_hash w))
              then raise VerificationError ''invalid embodiment acceptance''
            else Inr ())
      | _ \<Rightarrow> raise VerificationError ''credential lacks exact embodiment acceptance'')"

definition check_not_revoked :: "dict \<Rightarrow> control_state \<Rightarrow> bool \<Rightarrow> unit res" where
  "check_not_revoked body state allow_revoked_history =
     bindR (hashable_res (item body ''embodiment_id'')) (\<lambda>e.
       case map_of (cs_revocations state) e of
         None \<Rightarrow> Inr ()
       | Some r \<Rightarrow>
           if allow_revoked_history then Inr ()
           else bindR (num_res (item body ''revocation_generation'')) (\<lambda>g.
             if g < rev_generation r
               then raise VerificationError ''embodiment credential has been revoked''
             else Inr ()))"

definition check_purposes :: "bool \<Rightarrow> dict \<Rightarrow> unit res" where
  "check_purposes v2 body =
     bindR (sorted_set_check (item body ''purposes'')) (\<lambda>ok.
       if \<not> ok \<or> item body ''purposes'' = VList []
         then raise VerificationError ''credential purposes must be sorted and non-empty''
       else bindR (iter_vals (item body ''purposes'')) (\<lambda>purposes.
         if v2 \<and> subscript (item body ''validity'') ''mode'' = Inr (VStr (str ''until-revoked''))
            \<and> VStr (str ''messages'') \<notin> set purposes
           then raise VerificationError ''indefinite credential requires messaging purpose''
         else Inr ()))"

definition verify_embodiment_credential ::
  "platform \<Rightarrow> dict \<Rightarrow> control_state \<Rightarrow> int \<Rightarrow> bool \<Rightarrow> dict res" where
  "verify_embodiment_credential P credential state at_ms allow_revoked_history =
     (let v2 = (dget credential ''schema'' = Some (VStr (str ''dm.identity.artifact/v2'')));
          domain = (if v2 then credential_v2_domain else domain_of ''embodiment-credential'') in
      bindR (verify_wrapper P credential ''embodiment-credential'' v2) (\<lambda>w.
      bindR (closed_id (credential_fields v2) ''embodiment credential body'' (VDict (w_body w))) (\<lambda>body.
        if item body ''being_ref'' \<noteq> VStr (cs_being_ref state)
          then raise VerificationError ''credential being does not match''
        else bindR (hashable_res (item body ''control_head'')) (\<lambda>control_head.
          case (case map_of (cs_credential_authorities state) control_head of
                  Some p \<Rightarrow> Some p
                | None \<Rightarrow> map_of (cs_carried state) (VStr (w_id w))) of
            None \<Rightarrow> raise VerificationError ''credential was not explicitly carried forward''
          | Some authority_policy \<Rightarrow>
              bindR (in_validity v2 body at_ms) (\<lambda>valid.
                if \<not> valid then raise VerificationError ''credential is outside its validity interval''
                else bindR (check_purposes v2 body) (\<lambda>_.
                bindR (descriptor_public P (item body ''encryption_key'') ''X25519'') (\<lambda>encryption_public.
                bindR (descriptor_public P (item body ''signing_key'') ''Ed25519'') (\<lambda>signing_public.
                bindR (policy_publics P authority_policy) (\<lambda>root_publics.
                bindR (policy_publics P (cs_recovery_policy state)) (\<lambda>recovery_publics.
                  let forbidden = root_publics @ recovery_publics in
                  if signing_public \<in> set forbidden \<or> encryption_public \<in> set forbidden
                     \<or> encryption_public = signing_public
                    then raise VerificationError ''embodiment key aliases another key purpose''
                  else bindR (check_transport P (signing_public # encryption_public # forbidden)
                                (item body ''transport_principals'')) (\<lambda>_.
                  bindR (domain_bytes P domain body) (\<lambda>preimage.
                  bindR (verify_threshold P (w_signatures w) authority_policy
                           ''root-authorization'' preimage) (\<lambda>_.
                  bindR (check_acceptance P w body domain signing_public) (\<lambda>_.
                  bindR (check_not_revoked body state allow_revoked_history) (\<lambda>_.
                    Inr body))))))))))))))) "

section \<open>Incarnation authorizations\<close>

definition verify_incarnation_authorization ::
  "platform \<Rightarrow> dict \<Rightarrow> dict \<Rightarrow> control_state \<Rightarrow> int \<Rightarrow> dict res" where
  "verify_incarnation_authorization P authorization credential state at_ms =
     bindR (verify_embodiment_credential P credential state at_ms True) (\<lambda>cred.
     bindR (verify_wrapper P authorization ''incarnation-authorization'' False) (\<lambda>w.
     bindR (closed_id [''being_ref'', ''embodiment_credential_id'', ''embodiment_id'', ''incarnation_id'',
                       ''incarnation_sequence'', ''started_at_ms''] ''incarnation authorization body''
              (VDict (w_body w))) (\<lambda>body.
       if item body ''being_ref'' \<noteq> VStr (cs_being_ref state)
          \<or> \<not> py_eq (item body ''embodiment_id'') (item cred ''embodiment_id'')
          \<or> item body ''embodiment_credential_id'' \<noteq> item credential ''artifact_id''
         then raise VerificationError ''incarnation/credential binding mismatch''
       else bindR (num_res (item body ''incarnation_sequence'')) (\<lambda>n.
         if n < 0 then raise VerificationError ''incarnation sequence must be non-negative''
         else bindR (num_res (item body ''started_at_ms'')) (\<lambda>started.
           if started < 0 \<or> started > at_ms
             then raise VerificationError ''incarnation start time is invalid''
           else bindR (hashable_res (item body ''embodiment_id'')) (\<lambda>e.
             if (case map_of (cs_revocations state) e of None \<Rightarrow> False | Some r \<Rightarrow> n > cutoff r)
               then raise VerificationError ''incarnation is later than the revocation cutoff''
             else (case w_signatures w of
                 [s] \<Rightarrow>
                   if s_role s \<noteq> VStr (str ''incarnation-authorization'')
                     then raise VerificationError ''incarnation needs one embodiment signature''
                   else bindR (descriptor_public P (item cred ''signing_key'') ''Ed25519'') (\<lambda>public.
                     bindR (unb64url (s_value s) (Some 64)) (\<lambda>value.
                     bindR (domain_bytes P (domain_of ''incarnation-authorization'') body) (\<lambda>preimage.
                       if \<not> ed25519_verify P public value preimage
                         then raise VerificationError ''invalid incarnation authorization''
                       else Inr body)))
               | _ \<Rightarrow> raise VerificationError ''incarnation needs one embodiment signature''))))))) "

section \<open>History bindings\<close>

definition history_head_fields :: "string list" where
  "history_head_fields = [''content_hash'', ''event_id'', ''incarnation_id'', ''origin_embodiment_id'',
     ''sequence'', ''signer_key_id'']"

definition nonempty_str :: "val \<Rightarrow> bool" where
  "nonempty_str v = (is_str v \<and> str_of v \<noteq> [])"

fun check_history_heads :: "platform \<Rightarrow> val list \<Rightarrow> bytes list \<Rightarrow> unit res" where
  "check_history_heads P [] seen = Inr ()"
| "check_history_heads P (h # hs) seen =
     (case h of
        VDict _ \<Rightarrow>
          bindR (closed_id history_head_fields ''history head'' h) (\<lambda>d.
          bindR (canonical_bytes P h) (\<lambda>c.
            if c \<in> set seen then raise VerificationError ''history binding contains a duplicate head''
            else bindR (hash_check (Exc VerificationError (str ''history head content hash is invalid''))
                          (item d ''content_hash'')) (\<lambda>_.
              if list_ex (\<lambda>f. f \<notin> {''content_hash'', ''sequence''} \<and> \<not> nonempty_str (item d f))
                   history_head_fields
                then raise VerificationError ''history head field is invalid''
              else (case item d ''sequence'' of
                  VInt n \<Rightarrow> if n < 0 then raise VerificationError ''history head sequence is invalid''
                            else check_history_heads P hs (c # seen)
                | _ \<Rightarrow> raise VerificationError ''history head sequence is invalid''))))
      | _ \<Rightarrow> raise VerificationError ''history head must be an object'')"

definition validate_history_heads :: "platform \<Rightarrow> val \<Rightarrow> val list res" where
  "validate_history_heads P heads = (case heads of
     VList hs \<Rightarrow>
       if \<not> (1 \<le> length hs \<and> length hs \<le> 1024)
         then raise VerificationError ''history binding head count is out of bounds''
       else bindR (mapR (canonical_bytes P) hs) (\<lambda>cs.
         if \<not> sorted cs
           then raise VerificationError ''history binding heads are not canonically sorted''
         else bindR (check_history_heads P hs []) (\<lambda>_. Inr hs))
   | _ \<Rightarrow> raise VerificationError ''history binding head count is out of bounds'')"

text \<open>\<^verbatim>\<open>sorted(heads, key=canonical_bytes)\<close>.\<close>

definition sort_canonical :: "platform \<Rightarrow> val list \<Rightarrow> val list res" where
  "sort_canonical P hs =
     bindR (mapR (canonical_bytes P) hs) (\<lambda>cs. Inr (map snd (sort_key fst (zip cs hs))))"

definition verify_history_binding ::
  "platform \<Rightarrow> dict \<Rightarrow> control_state \<Rightarrow> bytes \<Rightarrow> int \<Rightarrow> val list \<Rightarrow> (val \<Rightarrow> bool) \<Rightarrow> dict res" where
  "verify_history_binding P binding state manifest_bytes manifest_revision accepted_heads verify_head =
     bindR (verify_wrapper P binding ''history-binding'' False) (\<lambda>w.
     bindR (closed_id [''accepted_heads'', ''being_ref'', ''control_head'', ''manifest_hash'',
                       ''manifest_revision'', ''provisional_being_ref''] ''history binding body''
              (VDict (w_body w))) (\<lambda>body.
       if item body ''being_ref'' \<noteq> VStr (cs_being_ref state)
          \<or> item body ''control_head'' \<noteq> VStr (cs_head state)
         then raise VerificationError ''history binding control anchor mismatch''
       else bindR (sort_canonical P accepted_heads) (\<lambda>expected.
         bindR (validate_history_heads P (item body ''accepted_heads'')) (\<lambda>heads.
         bindR (validate_history_heads P (VList expected)) (\<lambda>_.
           if \<not> py_eq (VList heads) (VList expected)
             then raise VerificationError ''history binding head set mismatch''
           else if num_of (item body ''manifest_revision'') \<noteq> Some manifest_revision
             then raise VerificationError ''history binding manifest revision mismatch''
           else if item body ''manifest_hash'' \<noteq> VStr (b64url (sha256 manifest_bytes))
             then raise VerificationError ''history binding manifest bytes mismatch''
           else if \<not> list_all verify_head heads
             then raise VerificationError ''history binding contains an unverified head''
           else bindR (domain_bytes P (domain_of ''history-binding'') body) (\<lambda>preimage.
             bindR (verify_threshold P (w_signatures w) (cs_root_policy state)
                      ''root-authorization'' preimage) (\<lambda>_. Inr body)))))))"

definition verify_binding_activation ::
  "platform \<Rightarrow> dict \<Rightarrow> dict \<Rightarrow> control_state \<Rightarrow> control_state res" where
  "verify_binding_activation P activation binding state =
     bindR (verify_wrapper P activation ''binding-activation'' False) (\<lambda>w.
     bindR (closed_id [''being_ref'', ''binding_id'', ''control_head'', ''mode''] ''activation body''
              (VDict (w_body w))) (\<lambda>body.
     bindR (getitem binding ''artifact_id'') (\<lambda>binding_id.
       if item body ''being_ref'' \<noteq> VStr (cs_being_ref state)
          \<or> \<not> py_eq (item body ''binding_id'') binding_id
          \<or> item body ''control_head'' \<noteq> VStr (cs_head state)
          \<or> item body ''mode'' \<noteq> VStr (str ''root-bound'')
         then raise VerificationError ''binding activation mismatch''
       else bindR (domain_bytes P (domain_of ''binding-activation'') body) (\<lambda>preimage.
         bindR (verify_threshold P (w_signatures w) (cs_root_policy state)
                  ''root-authorization'' preimage) (\<lambda>_.
           Inr (state\<lparr>cs_activated_binding := Some (str_of binding_id)\<rparr>))))))"

definition require_trust_mode :: "control_state \<Rightarrow> pystr \<Rightarrow> unit res" where
  "require_trust_mode state requested =
     (let expected = (case cs_activated_binding state of
          Some b \<Rightarrow> if b \<noteq> [] then ''root-bound'' else ''provisional'' | None \<Rightarrow> ''provisional'')
      in if requested \<noteq> str expected then raise VerificationError (''trust mode mismatch: expected '' @ expected)
         else Inr ())"

end
