(* ===== verification/Identity_Authoring.thy ===== *)
theory Identity_Authoring
  imports Identity
begin

text \<open>
  The operations of \<^verbatim>\<open>src/daimon_matrix/identity.py\<close> that create artifacts: key descriptors and
  policies from seeds, signatures, and the builders of every control artifact, credential and
  binding. \<^verbatim>\<open>copy.deepcopy\<close> has no counterpart: values are immutable here. The bytes of
  \<^verbatim>\<open>secrets.token_bytes\<close> are arguments.
\<close>

section \<open>Descriptors, policies and signatures from seeds\<close>

definition seed_public :: "platform \<Rightarrow> bytes \<Rightarrow> bytes res" where
  "seed_public P seed =
     (if length seed \<noteq> 32 then raise IdentityError ''Ed25519 seed must be 32 bytes''
      else Inr (ed25519_public P seed))"

definition signing_descriptor :: "platform \<Rightarrow> bytes \<Rightarrow> val res" where
  "signing_descriptor P seed = bindR (seed_public P seed) (key_descriptor P ''Ed25519'')"

definition policy_val :: "val list \<Rightarrow> int \<Rightarrow> val" where
  "policy_val keys threshold =
     VDict [(VStr (str ''keys''), VList keys), (VStr (str ''threshold''), VInt threshold)]"

definition threshold_policy :: "platform \<Rightarrow> bytes list \<Rightarrow> int \<Rightarrow> val res" where
  "threshold_policy P seeds threshold =
     bindR (mapR (signing_descriptor P) seeds) (\<lambda>ds.
       let policy = policy_val (sort_key (\<lambda>d. str_of (descriptor_key_id d)) ds) threshold in
       bindR (threshold_policy_check P policy) (\<lambda>_. Inr policy))"

text \<open>\<^verbatim>\<open>_seed_map\<close>: a dict from key id to seed.\<close>

fun seed_map_into :: "platform \<Rightarrow> bytes list \<Rightarrow> (pystr \<times> bytes) list \<Rightarrow> (pystr \<times> bytes) list res" where
  "seed_map_into P [] result = Inr result"
| "seed_map_into P (seed # seeds) result =
     bindR (signing_descriptor P seed) (\<lambda>d.
       seed_map_into P seeds (AList.update (str_of (descriptor_key_id d)) seed result))"

definition seed_map :: "platform \<Rightarrow> bytes list \<Rightarrow> (pystr \<times> bytes) list res" where
  "seed_map P seeds = seed_map_into P seeds []"

definition signature_val :: "val \<Rightarrow> string \<Rightarrow> bytes \<Rightarrow> val" where
  "signature_val kid role sig =
     VDict [(VStr (str ''algorithm''), VStr (str ''Ed25519'')), (VStr (str ''key_id''), kid),
            (VStr (str ''role''), VStr (str role)), (VStr (str ''value''), VStr (b64url sig))]"

definition signature :: "platform \<Rightarrow> bytes \<Rightarrow> string \<Rightarrow> bytes \<Rightarrow> val res" where
  "signature P seed role preimage =
     bindR (signing_descriptor P seed) (\<lambda>d.
       Inr (signature_val (descriptor_key_id d) role (ed25519_sign P seed preimage)))"

definition signatures :: "platform \<Rightarrow> (pystr \<times> bytes) list \<Rightarrow> string \<Rightarrow> bytes \<Rightarrow> val list res" where
  "signatures P seeds role preimage =
     mapR (\<lambda>(k, seed). signature P seed role preimage) (sort_key fst seeds)"

section \<open>Assembling an artifact\<close>

text \<open>
  \<^verbatim>\<open>sorted(signatures, key=lambda item: (item["key_id"], item["role"]))\<close>. Shares of other holders
  are unchecked values here; their keys are compared as \<open>lt_vals\<close> does. (Which pairs of a list
  with incomparable keys are compared depends on the sorting algorithm; here it is insertion.)
\<close>

fun insort_lt :: "val list \<times> val \<Rightarrow> (val list \<times> val) list \<Rightarrow> (val list \<times> val) list res" where
  "insort_lt x [] = Inr [x]"
| "insort_lt x (y # ys) =
     bindR (lt_vals (fst y) (fst x)) (\<lambda>b.
       if b then bindR (insort_lt x ys) (\<lambda>zs. Inr (y # zs)) else Inr (x # y # ys))"

fun sort_lt :: "(val list \<times> val) list \<Rightarrow> (val list \<times> val) list res" where
  "sort_lt [] = Inr []"
| "sort_lt (x # xs) = bindR (sort_lt xs) (insort_lt x)"

definition sort_signatures :: "val list \<Rightarrow> val list res" where
  "sort_signatures sigs =
     bindR (mapR (\<lambda>s. bindR (subscript s ''key_id'') (\<lambda>k. bindR (subscript s ''role'') (\<lambda>r.
              Inr ([k, r], s)))) sigs) (\<lambda>keyed.
     bindR (sort_lt keyed) (\<lambda>sorted_keyed. Inr (map snd sorted_keyed)))"

definition artifact :: "platform \<Rightarrow> string \<Rightarrow> dict \<Rightarrow> val list \<Rightarrow> bool \<Rightarrow> dict res" where
  "artifact P kind body sigs v2 =
     (let version = (if v2 then ''2'' else ''1'') in
      bindR (digest P (if v2 then credential_v2_domain else domain_of kind) body) (\<lambda>artifact_hash.
      bindR (sort_signatures sigs) (\<lambda>sorted_sigs.
        Inr [(VStr (str ''schema''), VStr (str (''dm.identity.artifact/v'' @ version))),
             (VStr (str ''kind''), VStr (str kind)),
             (VStr (str ''artifact_id''),
              VStr (str (''dm:identity:v'' @ version @ '':'') @ b64url artifact_hash)),
             (VStr (str ''body''), VDict body),
             (VStr (str ''signatures''), VList sorted_sigs)])))"

definition sign_control ::
  "platform \<Rightarrow> string \<Rightarrow> dict \<Rightarrow> (pystr \<times> bytes) list \<Rightarrow> string \<Rightarrow> (pystr \<times> bytes) list option \<Rightarrow> dict res"
where
  "sign_control P kind body authorizers authorization_role possessors =
     bindR (domain_bytes P (domain_of kind) body) (\<lambda>preimage.
     bindR (signatures P authorizers authorization_role preimage) (\<lambda>sigs.
     bindR (case possessors of
              None \<Rightarrow> Inr []
            | Some ps \<Rightarrow> bindR (digest P (domain_of kind) body) (\<lambda>raw_hash.
                signatures P ps ''new-root-possession'' (possession_preimage kind raw_hash))) (\<lambda>more.
       artifact P kind body (sigs @ more) False)))"

section \<open>Genesis\<close>

definition prepare_genesis :: "platform \<Rightarrow> val \<Rightarrow> val \<Rightarrow> val \<Rightarrow> bytes \<Rightarrow> dict res" where
  "prepare_genesis P root recovery created_at_ms nonce =
     bindR (threshold_policy_check P root) (\<lambda>_.
     bindR (threshold_policy_check P recovery) (\<lambda>_.
     bindR (require_separate_policies P root recovery) (\<lambda>_.
       if length nonce \<noteq> 32 then raise IdentityError ''genesis nonce must be 32 bytes''
       else
         let core = [(VStr (str ''nonce''), VStr (b64url nonce)),
                     (VStr (str ''protocol''), VStr (str ''daimon-matrix'')),
                     (VStr (str ''recovery''), recovery), (VStr (str ''root''), root),
                     (VStr (str ''version''), VInt 1)] in
         bindR (digest P ''dm.identity.being/v1'' core) (\<lambda>h.
           artifact P ''genesis''
             [(VStr (str ''being_ref''), VStr (str ''dm:being:v1:'' @ b64url h)),
              (VStr (str ''control_generation''), VInt 0), (VStr (str ''control_sequence''), VInt 0),
              (VStr (str ''core''), VDict core), (VStr (str ''created_at_ms''), created_at_ms)]
             [] False))))"

text \<open>\<^verbatim>\<open>except (KeyError, TypeError, ValueError)\<close>, with the subclasses of \<^verbatim>\<open>ValueError\<close> among ours.\<close>

definition is_key_type_value :: "exc \<Rightarrow> bool" where
  "is_key_type_value e = (case e of
     Exc c m \<Rightarrow> c \<in> {KeyError, TypeError, ValueError, CanonicalError, IdentityError, VerificationError,
                    ControlForkError, UnicodeEncodeError}
   | Equivocation _ \<Rightarrow> False)"

text \<open>
  \<^verbatim>\<open>dict(value)\<close> of a policy. An empty list or string gives an empty dict; any other value that
  is not a mapping is refused (a list of pairs, which \<^verbatim>\<open>dict\<close> would read, never prints back to the
  prepared artifact, so it is refused as well, only later).
\<close>

definition as_policy :: "val option \<Rightarrow> val res" where
  "as_policy v = (case v of
     Some (VDict d) \<Rightarrow> Inr (VDict d)
   | None \<Rightarrow> Inr (VDict [])
   | Some (VList []) \<Rightarrow> Inr (VDict [])
   | Some (VStr []) \<Rightarrow> Inr (VDict [])
   | Some _ \<Rightarrow> raise TypeError ''not a mapping'')"

definition prepared_genesis :: "platform \<Rightarrow> dict \<Rightarrow> dict res" where
  "prepared_genesis P prepared =
     bindR (verify_wrapper P prepared ''genesis'' False) (\<lambda>w.
       if item prepared ''signatures'' \<noteq> VList []
         then raise IdentityError ''prepared genesis already contains signatures''
       else (case dget (w_body w) ''core'' of
           Some (VDict core) \<Rightarrow>
             bindR (wrapR is_key_type_value (Exc IdentityError (str ''prepared genesis is invalid''))
                 (bindR (as_policy (dget core ''root'')) (\<lambda>root.
                  bindR (as_policy (dget core ''recovery'')) (\<lambda>recovery.
                  bindR (getitem (w_body w) ''created_at_ms'') (\<lambda>created.
                  bindR (unb64url (case dget core ''nonce'' of Some v \<Rightarrow> v | None \<Rightarrow> VNone) (Some 32)) (\<lambda>nonce.
                    prepare_genesis P root recovery created nonce)))))) (\<lambda>expected.
             bindR (canonical_bytes P (VDict expected)) (\<lambda>a.
             bindR (canonical_bytes P (VDict prepared)) (\<lambda>b.
               if a \<noteq> b then raise IdentityError ''prepared genesis is invalid'' else Inr expected)))
         | _ \<Rightarrow> raise IdentityError ''prepared genesis is invalid''))"

definition require_policy_seed :: "platform \<Rightarrow> bytes \<Rightarrow> val \<Rightarrow> string \<Rightarrow> unit res" where
  "require_policy_seed P seed policy role =
     bindR (signing_descriptor P seed) (\<lambda>d.
     bindR (public_map P policy) (\<lambda>pm.
       if descriptor_key_id d \<notin> fst ` set pm
         then raise IdentityError (''seed is not authorized for '' @ role)
       else Inr ()))"

text \<open>The body of an artifact this module has just built.\<close>

definition body_of :: "dict \<Rightarrow> dict" where
  "body_of a = (case item a ''body'' of VDict b \<Rightarrow> b | _ \<Rightarrow> [])"

definition dict_of :: "val \<Rightarrow> dict" where
  "dict_of v = (case v of VDict d \<Rightarrow> d | _ \<Rightarrow> [])"

definition create_genesis_holder_share :: "platform \<Rightarrow> dict \<Rightarrow> bytes \<Rightarrow> bool \<Rightarrow> val res" where
  "create_genesis_holder_share P prepared seed is_root =
     bindR (prepared_genesis P prepared) (\<lambda>expected.
       let body = body_of expected; core = dict_of (item body ''core'') in
       if is_root then
         bindR (require_policy_seed P seed (item core ''root'') ''genesis-root'') (\<lambda>_.
         bindR (domain_bytes P (domain_of ''genesis'') body) (\<lambda>preimage.
           signature P seed ''root-authorization'' preimage))
       else
         bindR (require_policy_seed P seed (item core ''recovery'') ''genesis-recovery'') (\<lambda>_.
         bindR (digest P (domain_of ''genesis'') body) (\<lambda>raw_hash.
           signature P seed ''recovery-possession'' (possession_preimage ''genesis'' raw_hash))))"

definition aggregate_genesis :: "platform \<Rightarrow> dict \<Rightarrow> val list \<Rightarrow> dict res" where
  "aggregate_genesis P prepared shares =
     bindR (prepared_genesis P prepared) (\<lambda>expected.
     bindR (artifact P ''genesis'' (body_of expected) shares False) (\<lambda>a.
     bindR (verify_genesis P a) (\<lambda>_. Inr a)))"

definition create_synthetic_genesis ::
  "platform \<Rightarrow> bytes list \<Rightarrow> int \<Rightarrow> bytes list \<Rightarrow> int \<Rightarrow> int \<Rightarrow> bytes \<Rightarrow> dict res" where
  "create_synthetic_genesis P root_seeds root_threshold recovery_seeds recovery_threshold created_at_ms nonce =
     bindR (threshold_policy P root_seeds root_threshold) (\<lambda>root.
     bindR (threshold_policy P recovery_seeds recovery_threshold) (\<lambda>recovery.
     bindR (prepare_genesis P root recovery (VInt created_at_ms) nonce) (\<lambda>prepared.
     bindR (mapR (\<lambda>s. create_genesis_holder_share P prepared s True) root_seeds) (\<lambda>a.
     bindR (mapR (\<lambda>s. create_genesis_holder_share P prepared s False) recovery_seeds) (\<lambda>b.
       aggregate_genesis P prepared (a @ b))))))"

section \<open>Normal successors\<close>

definition successor_body :: "control_state \<Rightarrow> (string \<times> val) list \<Rightarrow> dict" where
  "successor_body state changes =
     [(VStr (str ''being_ref''), VStr (cs_being_ref state)),
      (VStr (str ''control_generation''), VInt (cs_generation state)),
      (VStr (str ''control_sequence''), VInt (cs_sequence state + 1)),
      (VStr (str ''previous_control_head''), VStr (cs_head state))]
     @ map (\<lambda>(k, v). (VStr (str k), v)) changes"

text \<open>\<^verbatim>\<open>sorted(set(xs))\<close> of strings.\<close>

definition sorted_strings :: "pystr list \<Rightarrow> val" where
  "sorted_strings xs = VList (map VStr (sorted_list_of_set (set xs)))"

definition create_root_rotation ::
  "platform \<Rightarrow> control_state \<Rightarrow> bytes list \<Rightarrow> bytes list \<Rightarrow> int \<Rightarrow> pystr list \<Rightarrow> dict res" where
  "create_root_rotation P state current_root replacement_root threshold carry_forward =
     bindR (threshold_policy P replacement_root threshold) (\<lambda>policy.
     bindR (require_separate_policies P policy (cs_recovery_policy state)) (\<lambda>_.
     bindR (seed_map P current_root) (\<lambda>current.
     bindR (seed_map P replacement_root) (\<lambda>replacement.
       sign_control P ''root-rotation''
         (successor_body state [(''replacement_root'', policy),
                                (''carry_forward_credentials'', sorted_strings carry_forward)])
         current ''root-authorization'' (Some replacement)))))"

definition create_recovery_policy_change ::
  "platform \<Rightarrow> control_state \<Rightarrow> bytes list \<Rightarrow> bytes list \<Rightarrow> bytes list \<Rightarrow> int \<Rightarrow> dict res" where
  "create_recovery_policy_change P state current_root current_recovery replacement threshold =
     bindR (threshold_policy P replacement threshold) (\<lambda>policy.
     bindR (require_separate_policies P (cs_root_policy state) policy) (\<lambda>_.
       let body = successor_body state [(''replacement_recovery'', policy)] in
       bindR (domain_bytes P (domain_of ''recovery-policy'') body) (\<lambda>preimage.
       bindR (seed_map P current_root) (\<lambda>root_map.
       bindR (signatures P root_map ''root-authorization'' preimage) (\<lambda>root_sigs.
       bindR (seed_map P current_recovery) (\<lambda>recovery_map.
       bindR (signatures P recovery_map ''recovery-authorization'' preimage) (\<lambda>recovery_sigs.
       bindR (digest P (domain_of ''recovery-policy'') body) (\<lambda>raw_hash.
       bindR (seed_map P replacement) (\<lambda>new_map.
       bindR (signatures P new_map ''new-recovery-possession''
                (possession_preimage ''recovery-policy'' raw_hash)) (\<lambda>new_sigs.
         artifact P ''recovery-policy'' body (root_sigs @ recovery_sigs @ new_sigs) False))))))))))"

definition create_revocation ::
  "platform \<Rightarrow> control_state \<Rightarrow> bytes list \<Rightarrow> pystr \<Rightarrow> int \<Rightarrow> int \<Rightarrow> dict res" where
  "create_revocation P state current_root embodiment_id cutoff_incarnation_sequence revocation_generation =
     bindR (seed_map P current_root) (\<lambda>current.
       sign_control P ''revocation''
         (successor_body state [(''embodiment_id'', VStr embodiment_id),
            (''cutoff_incarnation_sequence'', VInt cutoff_incarnation_sequence),
            (''revocation_generation'', VInt revocation_generation)])
         current ''root-authorization'' None)"

section \<open>Recovery\<close>

text \<open>\<^verbatim>\<open>sorted(set(values))\<close> of values of unknown type.\<close>

definition sorted_set_of :: "val \<Rightarrow> val list res" where
  "sorted_set_of v =
     bindR (iter_vals v) (\<lambda>vs.
       if \<not> list_all hashable vs then raise TypeError ''unhashable''
       else if list_all is_str vs then Inr (map VStr (sorted_list_of_set (set (map str_of vs))))
       else if list_all (\<lambda>v. num_of v \<noteq> None) vs
         then Inr (sort_key (the \<circ> num_of)
                (rev (foldl (\<lambda>us u. if num_of u \<in> num_of ` set us then us else u # us) [] vs)))
       else if length (remdups vs) = 1 then Inr (remdups vs)
       else raise TypeError ''not comparable'')"

definition prepare_recovery :: "platform \<Rightarrow> control_state list \<Rightarrow> val \<Rightarrow> val \<Rightarrow> dict res" where
  "prepare_recovery P states replacement_root revoke_embodiments =
     (case states of
        [] \<Rightarrow> raise IdentityError ''recovery needs at least one known control head''
      | s0 # _ \<Rightarrow>
        bindR (mapR (\<lambda>s. canonical_bytes P (cs_recovery_policy s)) states) (\<lambda>policies.
          if card (set (map cs_being_ref states)) \<noteq> 1 \<or> card (set policies) \<noteq> 1
            then raise IdentityError ''recovery heads do not share being/recovery authority''
          else bindR (as_policy (Some replacement_root)) (\<lambda>policy.
            bindR (threshold_policy_check P policy) (\<lambda>_.
            bindR (require_separate_policies P policy (cs_recovery_policy s0)) (\<lambda>_.
            bindR (sorted_set_of revoke_embodiments) (\<lambda>revoked.
              artifact P ''recovery''
                [(VStr (str ''being_ref''), VStr (cs_being_ref s0)),
                 (VStr (str ''competing_control_heads''), sorted_strings (map cs_head states)),
                 (VStr (str ''control_generation''), VInt (Max (set (map cs_generation states)) + 1)),
                 (VStr (str ''control_sequence''), VInt 0),
                 (VStr (str ''revocation_high_water''), high_water_val (merge_revocations states)),
                 (VStr (str ''replacement_root''), policy),
                 (VStr (str ''revoked_embodiments''), VList revoked)]
                [] False))))))"

definition prepared_recovery :: "platform \<Rightarrow> dict \<Rightarrow> control_state list \<Rightarrow> dict res" where
  "prepared_recovery P prepared states =
     bindR (verify_wrapper P prepared ''recovery'' False) (\<lambda>w.
       if item prepared ''signatures'' \<noteq> VList []
         then raise IdentityError ''prepared recovery already contains signatures''
       else
         bindR (prepare_recovery P states
             (case dget (w_body w) ''replacement_root'' of Some v \<Rightarrow> v | None \<Rightarrow> VDict [])
             (case dget (w_body w) ''revoked_embodiments'' of Some v \<Rightarrow> v | None \<Rightarrow> VList [])) (\<lambda>expected.
         bindR (canonical_bytes P (VDict expected)) (\<lambda>a.
         bindR (canonical_bytes P (VDict prepared)) (\<lambda>b.
           if a \<noteq> b then raise IdentityError ''prepared recovery does not match known heads''
           else Inr expected))))"

definition create_recovery_authorization_share ::
  "platform \<Rightarrow> dict \<Rightarrow> control_state list \<Rightarrow> bytes \<Rightarrow> val res" where
  "create_recovery_authorization_share P prepared states recovery_seed =
     bindR (prepared_recovery P prepared states) (\<lambda>expected.
     bindR (require_policy_seed P recovery_seed (cs_recovery_policy (hd states))
              ''recovery-authorization'') (\<lambda>_.
     bindR (domain_bytes P (domain_of ''recovery'') (body_of expected)) (\<lambda>preimage.
       signature P recovery_seed ''recovery-authorization'' preimage)))"

definition create_recovery_possession_share ::
  "platform \<Rightarrow> dict \<Rightarrow> control_state list \<Rightarrow> bytes \<Rightarrow> val res" where
  "create_recovery_possession_share P prepared states replacement_root_seed =
     bindR (prepared_recovery P prepared states) (\<lambda>expected.
     bindR (require_policy_seed P replacement_root_seed (item (body_of expected) ''replacement_root'')
              ''new-root-possession'') (\<lambda>_.
     bindR (digest P (domain_of ''recovery'') (body_of expected)) (\<lambda>raw_hash.
       signature P replacement_root_seed ''new-root-possession''
         (possession_preimage ''recovery'' raw_hash))))"

definition aggregate_recovery ::
  "platform \<Rightarrow> dict \<Rightarrow> control_state list \<Rightarrow> val list \<Rightarrow> dict res" where
  "aggregate_recovery P prepared states shares =
     bindR (prepared_recovery P prepared states) (\<lambda>expected.
     bindR (artifact P ''recovery'' (body_of expected) shares False) (\<lambda>a.
     bindR (verify_recovery P a states) (\<lambda>_. Inr a)))"

definition create_synthetic_recovery ::
  "platform \<Rightarrow> control_state list \<Rightarrow> bytes list \<Rightarrow> bytes list \<Rightarrow> int \<Rightarrow> pystr list \<Rightarrow> dict res" where
  "create_synthetic_recovery P states current_recovery replacement_root threshold revoke_embodiments =
     bindR (threshold_policy P replacement_root threshold) (\<lambda>policy.
     bindR (prepare_recovery P states policy (VList (map VStr revoke_embodiments))) (\<lambda>prepared.
     bindR (mapR (create_recovery_authorization_share P prepared states) current_recovery) (\<lambda>a.
     bindR (mapR (create_recovery_possession_share P prepared states) replacement_root) (\<lambda>b.
       artifact P ''recovery'' (body_of prepared) (a @ b) False))))"

section \<open>Credentials and bindings\<close>

text \<open>
  \<^verbatim>\<open>sorted(transport_principals, key=lambda row: (row["scheme"], row["principal_id"]))\<close>.
\<close>

definition sort_principals :: "val list \<Rightarrow> val list res" where
  "sort_principals rows =
     bindR (mapR (\<lambda>p. bindR (subscript p ''scheme'') (\<lambda>s. bindR (subscript p ''principal_id'') (\<lambda>i.
              Inr ([s, i], p)))) rows) (\<lambda>keyed.
     bindR (sort_lt keyed) (\<lambda>sorted_keyed. Inr (map snd sorted_keyed)))"

record credential_request =
  cr_embodiment_id :: pystr
  cr_body_ref :: pystr
  cr_purposes :: "pystr list"
  cr_revocation_generation :: int
  cr_transport_principals :: "val list"

text \<open>The two body builders; \<open>limits\<close> holds the validity fields of the version.\<close>

definition credential_body ::
  "platform \<Rightarrow> control_state \<Rightarrow> bytes \<Rightarrow> bytes \<Rightarrow> credential_request \<Rightarrow> (string \<times> val) list \<Rightarrow> dict res" where
  "credential_body P state signing_seed encryption_public r limits =
     bindR (key_descriptor P ''X25519'' encryption_public) (\<lambda>encryption_key.
     bindR (signing_descriptor P signing_seed) (\<lambda>signing_key.
     bindR (sort_principals (cr_transport_principals r)) (\<lambda>principals.
       Inr ([(VStr (str ''being_ref''), VStr (cs_being_ref state)),
             (VStr (str ''body_ref''), VStr (cr_body_ref r)),
             (VStr (str ''control_head''), VStr (cs_head state)),
             (VStr (str ''embodiment_id''), VStr (cr_embodiment_id r)),
             (VStr (str ''encryption_key''), encryption_key),
             (VStr (str ''purposes''), sorted_strings (cr_purposes r)),
             (VStr (str ''revocation_generation''), VInt (cr_revocation_generation r)),
             (VStr (str ''signing_key''), signing_key),
             (VStr (str ''transport_principals''), VList principals)]
            @ map (\<lambda>(k, v). (VStr (str k), v)) limits))))"

definition sign_credential ::
  "platform \<Rightarrow> bytes list \<Rightarrow> bytes \<Rightarrow> dict \<Rightarrow> bool \<Rightarrow> dict res" where
  "sign_credential P root_seeds signing_seed body v2 =
     (let domain = (if v2 then credential_v2_domain else domain_of ''embodiment-credential'') in
      bindR (seed_map P root_seeds) (\<lambda>root.
      bindR (domain_bytes P domain body) (\<lambda>preimage.
      bindR (signatures P root ''root-authorization'' preimage) (\<lambda>sigs.
      bindR (digest P domain body) (\<lambda>raw_hash.
      bindR (signature P signing_seed ''embodiment-acceptance'' (acceptance_preimage domain raw_hash)) (\<lambda>s.
        artifact P ''embodiment-credential'' body (sigs @ [s]) v2))))))"

definition create_embodiment_credential ::
  "platform \<Rightarrow> control_state \<Rightarrow> bytes list \<Rightarrow> bytes \<Rightarrow> bytes \<Rightarrow> credential_request \<Rightarrow> int \<Rightarrow> int \<Rightarrow> dict res" where
  "create_embodiment_credential P state root_seeds signing_seed encryption_public r valid_from valid_until =
     bindR (credential_body P state signing_seed encryption_public r
              [(''valid_from_ms'', VInt valid_from), (''valid_until_ms'', VInt valid_until)]) (\<lambda>body.
       sign_credential P root_seeds signing_seed body False)"

text \<open>\<^verbatim>\<open>validate_validity\<close> returns a copy of the mapping it accepts.\<close>

fun not_before :: "validity \<Rightarrow> int" where
  "not_before (Finite nb na) = nb"
| "not_before (UntilRevoked nb) = nb"

definition create_embodiment_credential_v2 ::
  "platform \<Rightarrow> control_state \<Rightarrow> bytes list \<Rightarrow> bytes \<Rightarrow> bytes \<Rightarrow> credential_request \<Rightarrow> val \<Rightarrow> dict res" where
  "create_embodiment_credential_v2 P state root_seeds signing_seed encryption_public r validity =
     bindR (validate_validity validity) (\<lambda>checked.
     bindR (credential_body P state signing_seed encryption_public r [(''validity'', validity)]) (\<lambda>body.
     bindR (sign_credential P root_seeds signing_seed body True) (\<lambda>a.
     bindR (verify_embodiment_credential P a state (not_before checked) False) (\<lambda>_. Inr a))))"

definition create_incarnation_authorization ::
  "platform \<Rightarrow> dict \<Rightarrow> bytes \<Rightarrow> pystr \<Rightarrow> int \<Rightarrow> int \<Rightarrow> dict res" where
  "create_incarnation_authorization P credential signing_seed incarnation_id incarnation_sequence started_at_ms =
     bindR (subscript (VDict credential) ''body'') (\<lambda>cred.
     bindR (subscript cred ''being_ref'') (\<lambda>being_ref.
     bindR (getitem credential ''artifact_id'') (\<lambda>credential_id.
     bindR (subscript cred ''embodiment_id'') (\<lambda>embodiment_id.
       let body = [(VStr (str ''being_ref''), being_ref),
                   (VStr (str ''embodiment_credential_id''), credential_id),
                   (VStr (str ''embodiment_id''), embodiment_id),
                   (VStr (str ''incarnation_id''), VStr incarnation_id),
                   (VStr (str ''incarnation_sequence''), VInt incarnation_sequence),
                   (VStr (str ''started_at_ms''), VInt started_at_ms)] in
       bindR (domain_bytes P (domain_of ''incarnation-authorization'') body) (\<lambda>preimage.
       bindR (signature P signing_seed ''incarnation-authorization'' preimage) (\<lambda>s.
         artifact P ''incarnation-authorization'' body [s] False))))))"

definition create_history_binding ::
  "platform \<Rightarrow> control_state \<Rightarrow> bytes list \<Rightarrow> pystr \<Rightarrow> bytes \<Rightarrow> int \<Rightarrow> val list \<Rightarrow> dict res" where
  "create_history_binding P state root_seeds provisional_being_ref manifest_bytes manifest_revision accepted_heads =
     bindR (sort_canonical P accepted_heads) (\<lambda>heads.
     bindR (validate_history_heads P (VList heads)) (\<lambda>_.
     bindR (seed_map P root_seeds) (\<lambda>root.
       sign_control P ''history-binding''
         [(VStr (str ''accepted_heads''), VList heads),
          (VStr (str ''being_ref''), VStr (cs_being_ref state)),
          (VStr (str ''control_head''), VStr (cs_head state)),
          (VStr (str ''manifest_hash''), VStr (b64url (sha256 manifest_bytes))),
          (VStr (str ''manifest_revision''), VInt manifest_revision),
          (VStr (str ''provisional_being_ref''), VStr provisional_being_ref)]
         root ''root-authorization'' None)))"

definition create_binding_activation ::
  "platform \<Rightarrow> control_state \<Rightarrow> bytes list \<Rightarrow> dict \<Rightarrow> dict res" where
  "create_binding_activation P state root_seeds binding =
     bindR (getitem binding ''artifact_id'') (\<lambda>binding_id.
     bindR (seed_map P root_seeds) (\<lambda>root.
       sign_control P ''binding-activation''
         [(VStr (str ''being_ref''), VStr (cs_being_ref state)), (VStr (str ''binding_id''), binding_id),
          (VStr (str ''control_head''), VStr (cs_head state)), (VStr (str ''mode''), VStr (str ''root-bound''))]
         root ''root-authorization'' None))"

end
