(* ===== verification/Identity_Laws.thy ===== *)
theory Identity_Laws
  imports Identity
begin

text \<open>
  What the identity operations guarantee: an accepted threshold is a quorum of distinct keys, an
  accepted successor extends its predecessor and only tightens revocations, the control chain
  either has one linear history or is quarantined, and no accepted state forgets a revocation.
\<close>

section \<open>What an accepted threshold means\<close>

definition distinct_keys :: "(val \<times> bytes) list \<Rightarrow> bool" where
  "distinct_keys pm \<longleftrightarrow> distinct (map fst pm) \<and> distinct (map snd pm)"

lemma policy_keys_distinct:
  "policy_keys P ks seen = Inr pm \<Longrightarrow> distinct_keys seen \<Longrightarrow> distinct_keys pm"
proof (induction ks arbitrary: seen)
  case Nil
  then show ?case by simp
next
  case (Cons k ks)
  then show ?case by (auto simp: res distinct_keys_def)
qed

lemma policy_keys_length: "policy_keys P ks seen = Inr pm \<Longrightarrow> length pm = length seen + length ks"
proof (induction ks arbitrary: seen)
  case Nil
  then show ?case by simp
next
  case (Cons k ks)
  then show ?case by (auto simp: res)
qed

text \<open>A threshold is at least one, at most the number of keys, and the keys are distinct.\<close>

lemma threshold_policy_checkD:
  assumes "threshold_policy_check P policy = Inr (t, pm)"
  shows "1 \<le> t" "t \<le> int (length pm)" "distinct_keys pm" "length pm \<le> max_keys"
proof -
  from assms obtain d where
    d: "closed_id [''keys'', ''threshold''] ''threshold policy'' policy = Inr d"
    by (auto simp: threshold_policy_check_def bindR_Inr_iff)
  note run = assms [unfolded threshold_policy_check_def d bindR_simps]
  from run obtain keys where keys: "item d ''keys'' = VList keys"
    by (cases "item d ''keys''") auto
  from run obtain thr where "item d ''threshold'' = VInt thr"
    by (cases "item d ''threshold''") (auto simp: keys if_Inl_Inr_iff)
  with run keys have len: "length keys \<le> max_keys" "1 \<le> t" "t \<le> int (length keys)"
    and pm: "policy_keys P keys [] = Inr pm"
    by (auto simp: bindR_Inr_iff if_Inl_Inr_iff)
  from policy_keys_length [OF pm] have "length pm = length keys" by simp
  moreover have "distinct_keys pm"
    using policy_keys_distinct [OF pm] by (simp add: distinct_keys_def)
  ultimately show "1 \<le> t" "t \<le> int (length pm)" "distinct_keys pm" "length pm \<le> max_keys"
    using len by simp_all
qed

definition signs ::
  "platform \<Rightarrow> (val \<times> bytes) list \<Rightarrow> string \<Rightarrow> bytes \<Rightarrow> signature_row list \<Rightarrow> val \<Rightarrow> bool" where
  "signs P pm role preimage sigs k \<longleftrightarrow>
     (\<exists>s \<in> set sigs. s_key_id s = k \<and> s_role s = VStr (str role)
        \<and> (\<exists>pk sv. map_of pm k = Some pk \<and> unb64url (s_value s) (Some 64) = Inr sv
             \<and> ed25519_verify P pk sv preimage))"

lemma valid_signers_sound:
  assumes "valid_signers P pm role preimage sigs valid = Inr ks" and "distinct valid"
  shows "distinct ks \<and> set valid \<subseteq> set ks
    \<and> (\<forall>k \<in> set ks - set valid. signs P pm role preimage sigs k)"
  using assms
proof (induction sigs arbitrary: valid)
  case Nil
  then show ?case by simp
next
  case (Cons s sigs)
  have more: "signs P pm role preimage sigs k \<Longrightarrow> signs P pm role preimage (s # sigs) k" for k
    by (auto simp: signs_def)
  show ?case
  proof (cases "s_role s = VStr (str role)")
    case False
    with Cons show ?thesis by (auto dest: more)
  next
    case True
    with Cons.prems obtain pk sv where pk: "map_of pm (s_key_id s) = Some pk"
      "unb64url (s_value s) (Some 64) = Inr sv" "ed25519_verify P pk sv preimage"
      and rest: "valid_signers P pm role preimage sigs (List.insert (s_key_id s) valid) = Inr ks"
      by (auto simp: bindR_Inr_iff if_Inl_Inr_iff split: option.splits)
    have here: "signs P pm role preimage (s # sigs) (s_key_id s)"
      using True pk unfolding signs_def by auto
    from Cons.IH [OF rest] Cons.prems(2) show ?thesis using here by (auto dest: more)
  qed
qed

lemma verify_threshold_sound:
  assumes "verify_threshold P sigs policy role preimage = Inr ()"
  shows "\<exists>t pm ks. threshold_policy_check P policy = Inr (t, pm) \<and> 1 \<le> t
    \<and> distinct ks \<and> t \<le> int (length ks) \<and> (\<forall>k \<in> set ks. signs P pm role preimage sigs k)"
proof -
  from assms obtain t pm ks where
    t: "threshold_policy_check P policy = Inr (t, pm)"
    and ks: "valid_signers P pm role preimage sigs [] = Inr ks" "t \<le> int (length ks)"
    by (auto simp: verify_threshold_def res)
  with valid_signers_sound [OF ks(1)] threshold_policy_checkD(1) [OF t] show ?thesis by auto
qed

text \<open>Distinct key ids stand for distinct public keys, so a quorum is a set of keys.\<close>

definition quorum ::
  "platform \<Rightarrow> signature_row list \<Rightarrow> val \<Rightarrow> string \<Rightarrow> bytes \<Rightarrow> bytes set \<Rightarrow> bool" where
  "quorum P sigs policy role preimage pks \<longleftrightarrow>
     (\<exists>t pm. threshold_policy_check P policy = Inr (t, pm) \<and> 1 \<le> t \<and> t \<le> int (card pks) \<and> finite pks
       \<and> pks \<subseteq> snd ` set pm
       \<and> (\<forall>pk \<in> pks. \<exists>s \<in> set sigs. s_role s = VStr (str role) \<and> map_of pm (s_key_id s) = Some pk
            \<and> (\<exists>sv. unb64url (s_value s) (Some 64) = Inr sv \<and> ed25519_verify P pk sv preimage)))"

lemma verify_threshold_quorum:
  assumes "verify_threshold P sigs policy role preimage = Inr ()"
  shows "\<exists>pks. quorum P sigs policy role preimage pks"
proof -
  from verify_threshold_sound [OF assms] obtain t pm ks where
    t: "threshold_policy_check P policy = Inr (t, pm)" "1 \<le> t" and ks: "distinct ks" "t \<le> int (length ks)"
    and signed: "\<forall>k \<in> set ks. signs P pm role preimage sigs k" by blast
  define pks where "pks = (\<lambda>k. the (map_of pm k)) ` set ks"
  have some: "map_of pm k = Some (the (map_of pm k))" if "k \<in> set ks" for k
    using signed that by (force simp: signs_def)
  have "distinct_keys pm" using threshold_policy_checkD(3) [OF t(1)] .
  then have "inj_on (\<lambda>k. the (map_of pm k)) (set ks)"
  proof (intro inj_onI)
    fix j k assume jk: "j \<in> set ks" "k \<in> set ks" "the (map_of pm j) = the (map_of pm k)"
    have "(j, the (map_of pm j)) \<in> set pm" "(k, the (map_of pm k)) \<in> set pm"
      using some jk(1,2) by (metis map_of_SomeD)+
    moreover have "inj_on snd (set pm)" using \<open>distinct_keys pm\<close> by (simp add: distinct_keys_def distinct_map)
    ultimately show "j = k" using jk(3) by (metis inj_onD prod.inject snd_conv)
  qed
  then have "card pks = length ks" using ks(1) by (simp add: pks_def card_image distinct_card)
  moreover have "pks \<subseteq> snd ` set pm"
    using some unfolding pks_def by (metis (no_types, lifting) image_subsetI map_of_SomeD rev_image_eqI snd_conv)
  moreover have "\<exists>s \<in> set sigs. s_role s = VStr (str role) \<and> map_of pm (s_key_id s) = Some pk
      \<and> (\<exists>sv. unb64url (s_value s) (Some 64) = Inr sv \<and> ed25519_verify P pk sv preimage)"
    if "pk \<in> pks" for pk
    using that signed by (force simp: pks_def signs_def)
  ultimately show ?thesis using t ks(2) unfolding quorum_def by (intro exI [of _ pks]) (auto simp: pks_def)
qed

section \<open>What an accepted successor means\<close>

lemma verify_wrapperD:
  assumes "verify_wrapper P artifact kind v2 = Inr w"
  shows "dget artifact ''artifact_id'' = Some (VStr (w_id w))"
    and "dget artifact ''body'' = Some (VDict (w_body w))"
    and "dget artifact ''kind'' = Some (VStr (str kind))"
    and "digest P (if v2 then credential_v2_domain else domain_of kind) (w_body w) = Inr (w_hash w)"
    and "w_id w = str (''dm:identity:v'' @ (if v2 then ''2'' else ''1'') @ '':'') @ b64url (w_hash w)"
proof -
  from assms have keys: "dkeys artifact = key_set [''schema'', ''kind'', ''artifact_id'', ''body'', ''signatures'']"
    by (auto simp: verify_wrapper_def res)
  have get: "dget artifact k = Some (item artifact k)"
    if "k \<in> set [''schema'', ''kind'', ''artifact_id'', ''body'', ''signatures'']" for k
    using closed_item [OF keys that] .
  from assms show "dget artifact ''artifact_id'' = Some (VStr (w_id w))"
    "dget artifact ''body'' = Some (VDict (w_body w))"
    "dget artifact ''kind'' = Some (VStr (str kind))"
    "digest P (if v2 then credential_v2_domain else domain_of kind) (w_body w) = Inr (w_hash w)"
    "w_id w = str (''dm:identity:v'' @ (if v2 then ''2'' else ''1'') @ '':'') @ b64url (w_hash w)"
    by (auto simp: verify_wrapper_def res Let_def get)
qed

text \<open>
  The monotone part of a control state: for every embodiment the revocation generation only
  grows and the incarnation cutoff only shrinks.
\<close>

definition tightens :: "(val \<times> revocation) list \<Rightarrow> (val \<times> revocation) list \<Rightarrow> bool" where
  "tightens old new \<longleftrightarrow>
     (\<forall>e r. map_of old e = Some r \<longrightarrow>
        (\<exists>r'. map_of new e = Some r' \<and> rev_generation r \<le> rev_generation r' \<and> cutoff r' \<le> cutoff r))"

lemma tightens_refl: "tightens m m"
  by (auto simp: tightens_def)

lemma tightens_trans: "tightens a b \<Longrightarrow> tightens b c \<Longrightarrow> tightens a c"
  unfolding tightens_def by (meson order_trans)

lemma update_conv': "map_of (AList.update k v m) x = (if x = k then Some v else map_of m x)"
  by (simp add: update_conv)

lemma tightens_update:
  assumes "\<And>p. map_of m e = Some p \<Longrightarrow> rev_generation p \<le> rev_generation r \<and> cutoff r \<le> cutoff p"
  shows "tightens m (AList.update e r m)"
  using assms by (auto simp: tightens_def update_conv')

text \<open>Root and recovery key material do not overlap.\<close>

definition separate :: "platform \<Rightarrow> control_state \<Rightarrow> bool" where
  "separate P s \<longleftrightarrow> require_separate_policies P (cs_root_policy s) (cs_recovery_policy s) = Inr ()"

lemma separate_update [simp]:
  "separate P (t\<lparr>cs_head := h, cs_sequence := q\<rparr>) = separate P t"
  by (simp add: separate_def)

lemma require_separate_policies_sym:
  "require_separate_policies P a b = Inr () \<Longrightarrow> require_separate_policies P b a = Inr ()"
  by (auto simp: require_separate_policies_def res)

lemma verify_successor_cases:
  assumes "verify_successor P artifact state = Inr s"
  obtains (rotation) w t preimage where "verify_wrapper P artifact ''root-rotation'' False = Inr w"
      "rotate_root P w state = Inr t" "s = t\<lparr>cs_head := w_id w, cs_sequence := cs_sequence state + 1\<rparr>"
      "verify_position (w_body w) state = Inr ()"
      "domain_bytes P (domain_of ''root-rotation'') (w_body w) = Inr preimage"
      "verify_threshold P (w_signatures w) (cs_root_policy state) ''root-authorization'' preimage = Inr ()"
  | (recovery_policy) w t preimage where "verify_wrapper P artifact ''recovery-policy'' False = Inr w"
      "change_recovery P w preimage state = Inr t" "s = t\<lparr>cs_head := w_id w, cs_sequence := cs_sequence state + 1\<rparr>"
      "verify_position (w_body w) state = Inr ()"
      "domain_bytes P (domain_of ''recovery-policy'') (w_body w) = Inr preimage"
      "verify_threshold P (w_signatures w) (cs_root_policy state) ''root-authorization'' preimage = Inr ()"
  | (revocation) w t preimage where "verify_wrapper P artifact ''revocation'' False = Inr w"
      "revoke P w state = Inr t" "s = t\<lparr>cs_head := w_id w, cs_sequence := cs_sequence state + 1\<rparr>"
      "verify_position (w_body w) state = Inr ()"
      "domain_bytes P (domain_of ''revocation'') (w_body w) = Inr preimage"
      "verify_threshold P (w_signatures w) (cs_root_policy state) ''root-authorization'' preimage = Inr ()"
proof -
  define kind where "kind = (case dget artifact ''kind'' of Some v \<Rightarrow> v | None \<Rightarrow> VNone)"
  consider "kind = VStr (str ''root-rotation'')" | "kind = VStr (str ''recovery-policy'')"
    | "kind = VStr (str ''revocation'')"
    using assms unfolding verify_successor_def Let_def kind_def [symmetric]
    by (auto simp: bindR_Inr_iff if_Inl_Inr_iff in_strings_True)
  then show thesis
  proof cases
    case 1
    with assms show thesis unfolding verify_successor_def Let_def kind_def [symmetric]
      by (auto simp: bindR_Inr_iff if_Inl_Inr_iff intro: rotation)
  next
    case 2
    with assms show thesis unfolding verify_successor_def Let_def kind_def [symmetric]
      by (auto simp: bindR_Inr_iff if_Inl_Inr_iff intro: recovery_policy)
  next
    case 3
    with assms show thesis unfolding verify_successor_def Let_def kind_def [symmetric]
      by (auto simp: bindR_Inr_iff if_Inl_Inr_iff intro: revocation)
  qed
qed

lemma rotate_root_Inr:
  assumes "rotate_root P w state = Inr t"
  shows "cs_being_ref t = cs_being_ref state" "cs_generation t = cs_generation state"
    "cs_revocations t = cs_revocations state" "separate P t"
    "cs_activated_binding t = cs_activated_binding state"
    "cs_recovery_policy t = cs_recovery_policy state"
  using assms by (auto simp: rotate_root_def Let_def res separate_def)

lemma change_recovery_Inr:
  assumes "change_recovery P w preimage state = Inr t"
  shows "cs_being_ref t = cs_being_ref state" "cs_generation t = cs_generation state"
    "cs_revocations t = cs_revocations state" "separate P t"
    "cs_activated_binding t = cs_activated_binding state"
    "cs_root_policy t = cs_root_policy state"
  using assms by (auto simp: change_recovery_def Let_def res separate_def)

lemma revoke_Inr:
  assumes "revoke P w state = Inr t"
  shows "cs_being_ref t = cs_being_ref state" "cs_generation t = cs_generation state"
    "tightens (cs_revocations state) (cs_revocations t)"
    "separate P t = separate P state" "cs_activated_binding t = cs_activated_binding state"
    "cs_root_policy t = cs_root_policy state" "cs_recovery_policy t = cs_recovery_policy state"
  using assms
  by (auto simp: revoke_def Let_def res separate_def intro!: tightens_update split: option.splits)

lemma verify_successor_Inr:
  assumes "verify_successor P artifact state = Inr s"
  shows "cs_being_ref s = cs_being_ref state" "cs_generation s = cs_generation state"
    "cs_sequence s = cs_sequence state + 1"
    "dget artifact ''artifact_id'' = Some (VStr (cs_head s))"
    "tightens (cs_revocations state) (cs_revocations s)"
    "separate P state \<Longrightarrow> separate P s"
    "cs_activated_binding s = cs_activated_binding state"
  using assms
  by (auto elim!: verify_successor_cases dest: verify_wrapperD
      simp: rotate_root_Inr change_recovery_Inr revoke_Inr tightens_refl)

section \<open>The chain of control states\<close>

text \<open>
  What every chain the code can build satisfies: states are filed under their own head, all
  speak for one being and keep root and recovery keys apart, and the heads are known states.
\<close>

definition chain_ok :: "platform \<Rightarrow> control_chain \<Rightarrow> bool" where
  "chain_ok P c \<longleftrightarrow>
     distinct (map fst (ch_states c)) \<and> ch_heads c \<noteq> {} \<and> ch_heads c \<subseteq> fst ` set (ch_states c)
     \<and> (\<forall>(h, s) \<in> set (ch_states c). cs_head s = h \<and> separate P s
          \<and> cs_being_ref s = cs_being_ref (snd (hd (ch_states c))))"

text \<open>The chains the artifacts \<open>arts\<close> build, each accepted in turn, from a genesis.\<close>

inductive chain_run :: "platform \<Rightarrow> dict \<Rightarrow> dict list \<Rightarrow> control_chain \<Rightarrow> bool" for P g where
  genesis: "chain_init P g = Inr c \<Longrightarrow> chain_run P g [] c"
| extend: "chain_run P g arts c \<Longrightarrow> chain_add P artifact c = Inr (s, d)
    \<Longrightarrow> chain_run P g (arts @ [artifact]) d"

inductive_cases chain_runE: "chain_run P g arts c"

lemma chain_ok_finite: "chain_ok P c \<Longrightarrow> finite (ch_heads c)"
  unfolding chain_ok_def by (meson finite_imageI finite_set finite_subset)

lemma verify_genesis_Inr:
  assumes "verify_genesis P artifact = Inr s"
  shows "cs_sequence s = 0" "cs_generation s = 0" "cs_revocations s = []" "separate P s"
    "dget artifact ''artifact_id'' = Some (VStr (cs_head s))" "cs_activated_binding s = None"
  using assms by (auto simp: verify_genesis_def Let_def res separate_def dest: verify_wrapperD)

lemma update_fresh: "k \<notin> fst ` set m \<Longrightarrow> AList.update k v m = m @ [(k, v)]"
  by (induction m) auto

lemma verify_recovery_Inr:
  assumes "verify_recovery P artifact states = Inr s"
  obtains w body s0 rest revoked where "states = s0 # rest"
    "verify_wrapper P artifact ''recovery'' False = Inr w" "w_body w = body"
    "s = recovered_state w body s0 (Max (set (map cs_generation states)) + 1)
           (fold bump_revocation revoked (merge_revocations states))"
    "item body ''revoked_embodiments'' = VList revoked"
    "item body ''competing_control_heads'' = VList (map VStr (sorted_list_of_set (set (map cs_head states))))"
    "check_recovery_signatures P w body (cs_recovery_policy s0) = Inr ()"
    "\<forall>t \<in> set states. cs_being_ref t = cs_being_ref s0"
    "\<forall>t \<in> set states. canonical_bytes P (cs_recovery_policy t) = canonical_bytes P (cs_recovery_policy s0)"
proof -
  from assms obtain s0 rest where states: "states = s0 # rest"
    by (cases states) (auto simp: verify_recovery_def)
  note run = assms [unfolded verify_recovery_def states list.case, folded states]
  from run obtain w where w: "verify_wrapper P artifact ''recovery'' False = Inr w"
    by (auto simp: bindR_Inr_iff)
  define body where "body = w_body w"
  from run w obtain policies where
    policies: "mapR (\<lambda>s. canonical_bytes P (cs_recovery_policy s)) states = Inr policies" "card (set policies) = 1"
    by (auto simp: bindR_Inr_iff if_Inl_Inr_iff Let_def)
  have same: "canonical_bytes P (cs_recovery_policy t) = canonical_bytes P (cs_recovery_policy s0)"
    if "t \<in> set states" for t
  proof -
    from policies(2) obtain p where p: "set policies = {p}" by (auto simp: card_1_singleton_iff)
    have "canonical_bytes P (cs_recovery_policy u) = Inr p" if "u \<in> set states" for u
      using mapR_in_set_arg [OF policies(1) that] p by auto
    with that states show ?thesis by simp
  qed
  from run w obtain revoked where rest:
    "item body ''revoked_embodiments'' = VList revoked"
    "item body ''competing_control_heads'' = VList (map VStr (sorted_list_of_set (set (map cs_head states))))"
    "check_recovery_signatures P w body (cs_recovery_policy s0) = Inr ()"
    "\<not> list_ex (\<lambda>s. cs_being_ref s \<noteq> cs_being_ref s0) states"
    "s = recovered_state w body s0 (Max (set (map cs_generation states)) + 1)
           (fold bump_revocation revoked (merge_revocations states))"
    by (auto simp: bindR_Inr_iff if_Inl_Inr_iff Let_def closed_id_Inr_iff sorted_set_check_True body_def)
  show thesis
    by (rule that [OF states w body_def [symmetric] rest(5,1,2,3)]) (use rest(4) same in \<open>auto simp: list_ex_iff\<close>)
qed

lemma verify_recovery_head:
  assumes "verify_recovery P artifact states = Inr s"
  shows "dget artifact ''artifact_id'' = Some (VStr (cs_head s))"
proof -
  from verify_recovery_Inr [OF assms] obtain w body s0 revoked where
    w: "verify_wrapper P artifact ''recovery'' False = Inr w"
    "s = recovered_state w body s0 (Max (set (map cs_generation states)) + 1)
           (fold bump_revocation revoked (merge_revocations states))" by metis
  then show ?thesis using verify_wrapperD(1) [OF w(1)] by (simp add: recovered_state_def)
qed

lemma check_recovery_separate:
  "check_recovery_signatures P w body rp = Inr ()
    \<Longrightarrow> require_separate_policies P (item body ''replacement_root'') rp = Inr ()"
  by (auto simp: check_recovery_signatures_def res)

lemma chain_states_Inr:
  "chain_states c = Inr ss \<Longrightarrow> s \<in> set ss \<Longrightarrow> (cs_head s, s) \<in> set (ch_states c) \<or> \<not> chain_ok P c"
  by (auto simp: chain_states_def chain_ok_def res dest!: mapR_in_set map_of_SomeD)

text \<open>The two ways an artifact extends a chain.\<close>

lemma chain_add_cases:
  assumes "chain_add P artifact c = Inr (s, d)" and "chain_ok P c"
  obtains (recovery) states where "dget artifact ''kind'' = Some (VStr (str ''recovery''))"
      "chain_states c = Inr states" "verify_recovery P artifact states = Inr s"
      "cs_head s \<notin> fst ` set (ch_states c)"
      "d = c\<lparr>ch_states := ch_states c @ [(cs_head s, s)], ch_heads := {cs_head s}\<rparr>"
  | (normal) p known where "dget artifact ''kind'' \<noteq> Some (VStr (str ''recovery''))"
      "map_of (ch_states c) p = Some known" "verify_successor P artifact known = Inr s"
      "cs_head s \<notin> fst ` set (ch_states c)"
      "d = c\<lparr>ch_states := ch_states c @ [(cs_head s, s)],
             ch_children := (ch_children c)(p := insert (cs_head s) (ch_children c p)),
             ch_heads := insert (cs_head s) (ch_heads c - {p})\<rparr>"
proof -
  have replay: "dget artifact ''artifact_id'' = Some (VStr h) \<Longrightarrow> h \<notin> fst ` set (ch_states c)" for h
    using assms(1) by (auto simp: chain_add_def bindR_Inr_iff hashable_res_Inr_iff split: if_splits)
  show thesis
  proof (cases "dget artifact ''kind'' = Some (VStr (str ''recovery''))")
    case True
    with assms(1) obtain states where st: "chain_states c = Inr states" "verify_recovery P artifact states = Inr s"
      "d = c\<lparr>ch_states := AList.update (cs_head s) s (ch_states c), ch_heads := {cs_head s}\<rparr>"
      by (auto simp: chain_add_def bindR_Inr_iff if_Inl_Inr_iff)
    from verify_recovery_head [OF st(2)] have "dget artifact ''artifact_id'' = Some (VStr (cs_head s))" .
    with replay have "cs_head s \<notin> fst ` set (ch_states c)" by blast
    with True st show thesis by (intro recovery) (auto simp: update_fresh)
  next
    case False
    note run = assms(1) [unfolded chain_add_def]
    from run False obtain body where "dget artifact ''body'' = Some (VDict body)"
      by (auto simp: bindR_Inr_iff if_Inl_Inr_iff split: option.splits val.splits)
    with run False obtain predecessor where
      "(case (if is_str predecessor then map_of (ch_states c) (str_of predecessor) else None) of
          None \<Rightarrow> raise VerificationError ''unknown control predecessor''
        | Some known \<Rightarrow> bindR (verify_successor P artifact known) (\<lambda>state.
            let p = str_of predecessor in
            Inr (state, c\<lparr>ch_states := AList.update (cs_head state) state (ch_states c),
                   ch_children := (ch_children c)(p := insert (cs_head state) (ch_children c p)),
                   ch_heads := insert (cs_head state) (ch_heads c - {p})\<rparr>))) = Inr (s, d)"
      by (auto simp: bindR_Inr_iff if_Inl_Inr_iff)
    then obtain known where
      k: "(if is_str predecessor then map_of (ch_states c) (str_of predecessor) else None) = Some known"
      "verify_successor P artifact known = Inr s"
      "d = c\<lparr>ch_states := AList.update (cs_head s) s (ch_states c),
             ch_children := (ch_children c)(str_of predecessor :=
                insert (cs_head s) (ch_children c (str_of predecessor))),
             ch_heads := insert (cs_head s) (ch_heads c - {str_of predecessor})\<rparr>"
      by (auto simp: bindR_Inr_iff Let_def case_option_Inr_iff)
    from verify_successor_Inr(4) [OF k(2)] replay have "cs_head s \<notin> fst ` set (ch_states c)" by blast
    with False k show thesis by (intro normal) (auto simp: update_fresh split: if_splits)
  qed
qed

lemma chain_ok_init: "chain_init P g = Inr c \<Longrightarrow> chain_ok P c"
  by (auto simp: chain_init_def res chain_ok_def verify_genesis_Inr)

lemma chain_ok_hd: "chain_ok P c \<Longrightarrow> ch_states c \<noteq> []"
  by (auto simp: chain_ok_def)

lemma recovery_state_ok:
  assumes "chain_ok P c" and "chain_states c = Inr states" and "verify_recovery P artifact states = Inr s"
  shows "separate P s" "cs_being_ref s = cs_being_ref (snd (hd (ch_states c)))"
proof -
  from verify_recovery_Inr [OF assms(3)] obtain w body s0 rest revoked where
    1: "states = s0 # rest" "check_recovery_signatures P w body (cs_recovery_policy s0) = Inr ()"
    "s = recovered_state w body s0 (Max (set (map cs_generation states)) + 1)
           (fold bump_revocation revoked (merge_revocations states))" by metis
  from chain_states_Inr [OF assms(2), of s0 P] assms(1) 1(1)
  have "(cs_head s0, s0) \<in> set (ch_states c)" by auto
  with assms(1) have "cs_being_ref s0 = cs_being_ref (snd (hd (ch_states c)))" by (auto simp: chain_ok_def)
  with 1 check_recovery_separate [OF 1(2)]
  show "separate P s" "cs_being_ref s = cs_being_ref (snd (hd (ch_states c)))"
    by (simp_all add: recovered_state_def separate_def)
qed

lemma chain_ok_add:
  assumes "chain_ok P c" and "chain_add P artifact c = Inr (s, d)"
  shows "chain_ok P d"
  using assms(2,1)
proof (cases rule: chain_add_cases)
  case (recovery states)
  with recovery_state_ok [OF assms(1)] assms(1) show ?thesis
    by (auto simp: chain_ok_def hd_append)
next
  case (normal p known)
  from normal(2) have known: "(p, known) \<in> set (ch_states c)" by (rule map_of_SomeD)
  with assms(1) have "separate P known" "cs_being_ref known = cs_being_ref (snd (hd (ch_states c)))"
    by (auto simp: chain_ok_def)
  with verify_successor_Inr [OF normal(3)] assms(1) normal(4,5) show ?thesis
    by (auto simp: chain_ok_def hd_append)
qed

lemma chain_run_ok: "chain_run P g arts c \<Longrightarrow> chain_ok P c"
  by (induction rule: chain_run.induct) (auto dest: chain_ok_init chain_ok_add)

lemma chain_states_ok:
  assumes "chain_ok P c"
  obtains ss where "chain_states c = Inr ss" "map cs_head ss = chain_heads c" "ss \<noteq> []"
    "\<And>s. s \<in> set ss \<Longrightarrow> (cs_head s, s) \<in> set (ch_states c)"
proof -
  have fin: "finite (ch_heads c)" using chain_ok_finite [OF assms] .
  define f where "f = (\<lambda>h. case map_of (ch_states c) h of Some s \<Rightarrow> Inr s | None \<Rightarrow> raise KeyError ''head'')"
  have one: "\<exists>s. f h = Inr s \<and> cs_head s = h \<and> (h, s) \<in> set (ch_states c)" if h: "h \<in> ch_heads c" for h
  proof -
    from assms h have "h \<in> fst ` set (ch_states c)" by (auto simp: chain_ok_def)
    then obtain s where "map_of (ch_states c) h = Some s"
      by (metis map_of_eq_None_iff not_None_eq)
    moreover from this have "(h, s) \<in> set (ch_states c)" by (rule map_of_SomeD)
    ultimately show ?thesis using assms by (auto simp: f_def chain_ok_def)
  qed
  have "\<exists>ss. mapR f hs = Inr ss \<and> map cs_head ss = hs \<and> (\<forall>s \<in> set ss. (cs_head s, s) \<in> set (ch_states c))"
    if "set hs \<subseteq> ch_heads c" for hs
    using that
  proof (induction hs)
    case Nil
    then show ?case by simp
  next
    case (Cons h hs)
    from one [of h] Cons show ?case by auto
  qed
  from this [of "chain_heads c"] fin obtain ss where
    "mapR f (chain_heads c) = Inr ss" "map cs_head ss = chain_heads c"
    "\<forall>s \<in> set ss. (cs_head s, s) \<in> set (ch_states c)" by (auto simp: chain_heads_def)
  moreover have "chain_heads c \<noteq> []"
    using assms fin by (auto simp: chain_heads_def chain_ok_def)
  ultimately show thesis by (intro that) (auto simp: chain_states_def f_def)
qed

text \<open>A chain either has one head, whose state \<^verbatim>\<open>state\<close> returns, or it is quarantined.\<close>

lemma chain_state_cases:
  assumes "chain_ok P c"
  shows "(\<exists>h s. ch_heads c = {h} \<and> map_of (ch_states c) h = Some s \<and> chain_state c = Inr s)
    \<or> (2 \<le> card (ch_heads c) \<and> chain_state c = raise ControlForkError ''control successors are quarantined'')"
proof (cases "card (ch_heads c) = 1")
  case True
  then obtain h where h: "ch_heads c = {h}" by (auto simp: card_1_singleton_iff)
  with assms obtain s where "map_of (ch_states c) h = Some s"
    unfolding chain_ok_def by (metis insert_subset map_of_eq_None_iff not_None_eq)
  with h show ?thesis by (auto simp: chain_state_def chain_states_def chain_heads_def)
next
  case False
  have "ch_heads c \<noteq> {}" "finite (ch_heads c)"
    using assms chain_ok_finite by (auto simp: chain_ok_def)
  then have "0 < card (ch_heads c)" by (simp add: card_gt_0_iff)
  with False show ?thesis by (simp add: chain_state_def)
qed

section \<open>Recovery keeps every revocation\<close>

definition tighter :: "revocation \<Rightarrow> revocation \<Rightarrow> bool" where
  "tighter r r' \<longleftrightarrow> rev_generation r \<le> rev_generation r' \<and> cutoff r' \<le> cutoff r"

lemma tightens_iff:
  "tightens old new \<longleftrightarrow> (\<forall>e r. map_of old e = Some r \<longrightarrow> (\<exists>r'. map_of new e = Some r' \<and> tighter r r'))"
  by (simp add: tightens_def tighter_def)

lemma tighter_refl [simp]: "tighter r r"
  by (simp add: tighter_def)

lemma tighter_trans: "tighter a b \<Longrightarrow> tighter b c \<Longrightarrow> tighter a c"
  by (auto simp: tighter_def)

lemma tightensD: "tightens old new \<Longrightarrow> map_of old e = Some r \<Longrightarrow> \<exists>r'. map_of new e = Some r' \<and> tighter r r'"
  by (simp add: tightens_iff)

lemma tightens_merge: "tightens m (merge_revocation er m)"
  by (cases er) (auto simp: merge_revocation_def intro: tightens_update split: option.splits)

lemma merge_revocation_tighter: "\<exists>r'. map_of (merge_revocation (e, r) m) e = Some r' \<and> tighter r r'"
  by (auto simp: merge_revocation_def update_conv' tighter_def split: option.splits)

lemma tightens_fold: "(\<And>x m. tightens m (f x m)) \<Longrightarrow> tightens m (fold f xs m)"
  by (induction xs arbitrary: m) (auto intro: tightens_refl tightens_trans)

lemma merge_all_tighter:
  "(e, r) \<in> set xs \<Longrightarrow> \<exists>r'. map_of (fold merge_revocation xs m) e = Some r' \<and> tighter r r'"
proof (induction xs arbitrary: m)
  case Nil
  then show ?case by simp
next
  case (Cons x xs)
  show ?case
  proof (cases "x = (e, r)")
    case True
    obtain r1 where r1: "map_of (merge_revocation (e, r) m) e = Some r1" "tighter r r1"
      using merge_revocation_tighter by blast
    from tightensD [OF tightens_fold [where f = merge_revocation, OF tightens_merge] r1(1)] r1(2)
    show ?thesis using True by (auto intro: tighter_trans)
  next
    case False
    with Cons show ?thesis by auto
  qed
qed

lemma tightens_merge_revocations:
  "s \<in> set states \<Longrightarrow> tightens (cs_revocations s) (merge_revocations states)"
proof -
  have "tightens (cs_revocations s) (fold (\<lambda>s m. fold merge_revocation (cs_revocations s) m) states m)"
    if "s \<in> set states" for m
    using that
  proof (induction states arbitrary: m)
    case Nil
    then show ?case by simp
  next
    case (Cons t states)
    let ?F = "\<lambda>s m. fold merge_revocation (cs_revocations s) m"
    show ?case
    proof (cases "t = s")
      case True
      have "tightens (cs_revocations s) (?F s m)"
        unfolding tightens_iff using merge_all_tighter map_of_SomeD by metis
      moreover have "tightens (?F s m) (fold ?F states (?F s m))"
        by (intro tightens_fold tightens_merge)
      ultimately show ?thesis using True by (auto intro: tightens_trans)
    next
      case False
      with Cons show ?thesis by auto
    qed
  qed
  then show "s \<in> set states \<Longrightarrow> ?thesis" by (simp add: merge_revocations_def)
qed

lemma tightens_bump: "tightens m (bump_revocation e m)"
  by (auto simp: bump_revocation_def intro: tightens_update split: option.splits)

lemma bump_raises:
  "\<exists>r'. map_of (bump_revocation e m) e = Some r' \<and> 1 \<le> rev_generation r' - (case map_of m e of None \<Rightarrow> 0 | Some r \<Rightarrow> rev_generation r)"
  by (auto simp: bump_revocation_def update_conv' split: option.splits)

lemma verify_recovery_tightens:
  assumes "verify_recovery P artifact states = Inr s" and "t \<in> set states"
  shows "tightens (cs_revocations t) (cs_revocations s)"
proof -
  from verify_recovery_Inr [OF assms(1)] obtain w body s0 revoked where
    "s = recovered_state w body s0 (Max (set (map cs_generation states)) + 1)
           (fold bump_revocation revoked (merge_revocations states))" by metis
  moreover have "tightens (merge_revocations states) (fold bump_revocation revoked (merge_revocations states))"
    by (intro tightens_fold tightens_bump)
  ultimately show ?thesis
    using tightens_merge_revocations [OF assms(2)] by (auto simp: recovered_state_def intro: tightens_trans)
qed

section \<open>Histories\<close>

text \<open>Every known state is covered by some head: nothing revoked on any branch is forgotten.\<close>

definition covered :: "control_chain \<Rightarrow> bool" where
  "covered c \<longleftrightarrow> (\<forall>(h, t) \<in> set (ch_states c). \<exists>k s. k \<in> ch_heads c \<and> map_of (ch_states c) k = Some s
     \<and> tightens (cs_revocations t) (cs_revocations s))"

lemma coveredD: "covered c \<Longrightarrow> (h, t) \<in> set (ch_states c) \<Longrightarrow>
    \<exists>k s. k \<in> ch_heads c \<and> map_of (ch_states c) k = Some s \<and> tightens (cs_revocations t) (cs_revocations s)"
  by (fastforce simp: covered_def)

lemma chain_states_mem:
  assumes "chain_ok P c" and "chain_states c = Inr ss" and "k \<in> ch_heads c" and "map_of (ch_states c) k = Some s"
  shows "s \<in> set ss"
proof -
  have "k \<in> set (chain_heads c)" using chain_ok_finite [OF assms(1)] assms(3) by (simp add: chain_heads_def)
  from mapR_in_set_arg [OF assms(2) [unfolded chain_states_def] this] assms(4) show ?thesis by auto
qed

lemma map_of_append_fresh: "map_of xs k = Some v \<Longrightarrow> map_of (xs @ ys) k = Some v"
  by (simp add: map_add_Some_iff)

lemma map_of_append_new: "k \<notin> fst ` set xs \<Longrightarrow> map_of (xs @ [(k, v)]) k = Some v"
  using map_of_eq_None_iff [of xs k] by (simp add: map_add_def)

lemma map_of_last:
  assumes "chain_ok P c"
  shows "map_of (ch_states c) (fst (last (ch_states c))) = Some (snd (last (ch_states c)))"
proof -
  have "last (ch_states c) \<in> set (ch_states c)" using chain_ok_hd [OF assms] by simp
  moreover have "distinct (map fst (ch_states c))" using assms by (simp add: chain_ok_def)
  ultimately show ?thesis by (simp add: map_of_eq_Some_distinct)
qed

lemma covered_add:
  assumes ok: "chain_ok P c" and cov: "covered c" and add: "chain_add P artifact c = Inr (s, d)"
  shows "covered d"
  using add ok
proof (cases rule: chain_add_cases)
  case (recovery states)
  have "tightens (cs_revocations t) (cs_revocations s)" if "(h, t) \<in> set (ch_states c)" for h t
  proof -
    from coveredD [OF cov that] obtain k u where
      "k \<in> ch_heads c" "map_of (ch_states c) k = Some u" "tightens (cs_revocations t) (cs_revocations u)" by blast
    with verify_recovery_tightens [OF recovery(3)] chain_states_mem [OF ok recovery(2)] show ?thesis
      by (meson tightens_trans)
  qed
  moreover have "map_of (ch_states d) (cs_head s) = Some s"
    using map_of_append_new [OF recovery(4)] recovery(5) by (simp del: map_of_append)
  moreover have "ch_states d = ch_states c @ [(cs_head s, s)]" "ch_heads d = {cs_head s}"
    using recovery(5) by simp_all
  ultimately show ?thesis using tightens_refl unfolding covered_def by fastforce
next
  case (normal p known)
  have new: "map_of (ch_states d) (cs_head s) = Some s"
    using map_of_append_new [OF normal(4)] normal(5) by (simp del: map_of_append)
  have "\<exists>k u. k \<in> ch_heads d \<and> map_of (ch_states d) k = Some u \<and> tightens (cs_revocations t) (cs_revocations u)"
    if "(h, t) \<in> set (ch_states c)" for h t
  proof -
    from coveredD [OF cov that] obtain k u where
      k: "k \<in> ch_heads c" "map_of (ch_states c) k = Some u" "tightens (cs_revocations t) (cs_revocations u)" by blast
    show ?thesis
    proof (cases "k = p")
      case True
      with k normal(2) verify_successor_Inr(5) [OF normal(3)]
      have "tightens (cs_revocations t) (cs_revocations s)" by (auto intro: tightens_trans)
      moreover have "cs_head s \<in> ch_heads d" using normal(5) by simp
      ultimately show ?thesis using new by blast
    next
      case False
      with k normal(5) map_of_append_fresh [OF k(2)] show ?thesis by auto
    qed
  qed
  moreover have "cs_head s \<in> ch_heads d" using normal(5) by simp
  moreover have "set (ch_states d) = insert (cs_head s, s) (set (ch_states c))" using normal(5) by auto
  ultimately show ?thesis using new tightens_refl unfolding covered_def by fastforce
qed

lemma covered_init: "chain_init P g = Inr c \<Longrightarrow> covered c"
  by (auto simp: chain_init_def res covered_def tightens_refl)

lemma chain_run_covered: "chain_run P g arts c \<Longrightarrow> covered c"
  by (induction rule: chain_run.induct) (auto intro: covered_init covered_add chain_run_ok)

definition is_recovery :: "dict \<Rightarrow> bool" where
  "is_recovery artifact \<longleftrightarrow> dget artifact ''kind'' = Some (VStr (str ''recovery''))"

text \<open>
  \<open>linear P arts ss k\<close>: the states \<open>ss\<close> are the genesis state followed by one state per artifact,
  the last recovery (or the genesis) produced state \<open>k\<close>, and from there on each artifact is an
  accepted successor of exactly the state before it.
\<close>

definition linear :: "platform \<Rightarrow> dict list \<Rightarrow> control_state list \<Rightarrow> nat \<Rightarrow> bool" where
  "linear P arts ss k \<longleftrightarrow>
     length ss = Suc (length arts) \<and> k \<le> length arts \<and> (k = 0 \<or> is_recovery (arts ! (k - 1)))
     \<and> (\<forall>i. k \<le> i \<and> i < length arts \<longrightarrow>
          \<not> is_recovery (arts ! i) \<and> verify_successor P (arts ! i) (ss ! i) = Inr (ss ! Suc i))"

lemma linear_snoc:
  assumes "linear P arts ss k" and "\<not> is_recovery a" and "verify_successor P a (last ss) = Inr s"
  shows "linear P (arts @ [a]) (ss @ [s]) k"
proof -
  from assms(1) have "last ss = ss ! length arts"
    by (metis last_conv_nth length_greater_0_conv linear_def nat.simps(3) diff_Suc_1 zero_less_Suc)
  then show ?thesis using assms by (auto simp: linear_def nth_append less_Suc_eq)
qed

lemma linear_recovery:
  "length ss = Suc (length arts) \<Longrightarrow> is_recovery a \<Longrightarrow> linear P (arts @ [a]) (ss @ [s]) (Suc (length arts))"
  by (auto simp: linear_def)

definition linear_or_fork :: "platform \<Rightarrow> dict list \<Rightarrow> control_chain \<Rightarrow> bool" where
  "linear_or_fork P arts c \<longleftrightarrow>
     length (ch_states c) = Suc (length arts)
     \<and> (2 \<le> card (ch_heads c)
        \<or> (ch_heads c = {fst (last (ch_states c))} \<and> (\<exists>k. linear P arts (map snd (ch_states c)) k)))"

lemma linear_or_fork_add:
  assumes ok: "chain_ok P c" and lin: "linear_or_fork P arts c" and add: "chain_add P artifact c = Inr (s, d)"
  shows "linear_or_fork P (arts @ [artifact]) d"
  using add ok
proof (cases rule: chain_add_cases)
  case (recovery states)
  then show ?thesis using lin linear_recovery [of "map snd (ch_states c)" arts artifact P s]
    by (auto simp: linear_or_fork_def is_recovery_def)
next
  case (normal p known)
  have fin: "finite (ch_heads c)" using chain_ok_finite [OF ok] .
  have fresh: "cs_head s \<notin> ch_heads c" using ok normal(4) by (auto simp: chain_ok_def)
  show ?thesis
  proof (cases "2 \<le> card (ch_heads c)")
    case True
    have "card (ch_heads d) = Suc (card (ch_heads c - {p}))"
      using normal(5) fresh fin by simp
    moreover have "card (ch_heads c) - 1 \<le> card (ch_heads c - {p})" using fin by (auto simp: card_Diff_singleton_if)
    ultimately show ?thesis using True normal(5) lin by (auto simp: linear_or_fork_def)
  next
    case False
    with lin obtain k where k: "ch_heads c = {fst (last (ch_states c))}" "linear P arts (map snd (ch_states c)) k"
      by (auto simp: linear_or_fork_def)
    show ?thesis
    proof (cases "p = fst (last (ch_states c))")
      case True
      with normal(2) map_of_last [OF ok] have "last (map snd (ch_states c)) = known"
        using chain_ok_hd [OF ok] by (simp add: last_map)
      with linear_snoc [OF k(2)] normal k(1) True lin show ?thesis
        by (auto simp: linear_or_fork_def is_recovery_def)
    next
      case False
      with k(1) fresh normal(5) lin have "card (ch_heads d) = 2" by (auto simp: card_insert_if)
      then show ?thesis using normal(5) lin by (auto simp: linear_or_fork_def)
    qed
  qed
qed

lemma linear_or_fork_init: "chain_init P g = Inr c \<Longrightarrow> linear_or_fork P [] c"
  by (auto simp: chain_init_def res linear_or_fork_def linear_def)

lemma chain_run_linear: "chain_run P g arts c \<Longrightarrow> linear_or_fork P arts c"
  by (induction rule: chain_run.induct) (auto intro: linear_or_fork_init linear_or_fork_add chain_run_ok)

text \<open>A state the chain returns is the last of a linear history, and no state is ahead of it.\<close>

lemma chain_state_linear:
  assumes "chain_run P g arts c" and "chain_state c = Inr s"
  shows "\<exists>k. linear P arts (map snd (ch_states c)) k" and "s = snd (last (ch_states c))"
    and "(h, t) \<in> set (ch_states c) \<Longrightarrow> tightens (cs_revocations t) (cs_revocations s)"
proof -
  note ok = chain_run_ok [OF assms(1)]
  from chain_state_cases [OF ok] assms(2) obtain h where h: "ch_heads c = {h}" "map_of (ch_states c) h = Some s"
    by auto
  from chain_run_linear [OF assms(1)] h(1) have k: "h = fst (last (ch_states c))"
    "\<exists>k. linear P arts (map snd (ch_states c)) k" by (auto simp: linear_or_fork_def)
  then show "\<exists>k. linear P arts (map snd (ch_states c)) k" by simp
  show "s = snd (last (ch_states c))" using h(2) k(1) map_of_last [OF ok] by simp
  show "tightens (cs_revocations t) (cs_revocations s)" if "(h, t) \<in> set (ch_states c)" for h t
    using coveredD [OF chain_run_covered [OF assms(1)] that] h by auto
qed

section \<open>Credentials and validity\<close>

lemma verify_embodiment_credential_body:
  assumes "verify_embodiment_credential P credential s at_ms allow = Inr body"
  obtains w kind v2 where "verify_wrapper P credential kind v2 = Inr w" "body = w_body w"
  using assms by (auto simp: verify_embodiment_credential_def Let_def bindR_Inr_iff if_Inl_Inr_iff
      closed_id_Inr_iff case_option_Inr_iff)

lemma check_not_revokedD:
  assumes "check_not_revoked body s False = Inr ()" and "map_of (cs_revocations s) (item body ''embodiment_id'') = Some r"
  shows "\<exists>g. num_of (item body ''revocation_generation'') = Some g \<and> rev_generation r \<le> g"
  using assms by (auto simp: check_not_revoked_def res num_res_def)

lemma verify_embodiment_credential_not_revoked:
  assumes "verify_embodiment_credential P credential s at_ms False = Inr body"
  shows "check_not_revoked body s False = Inr ()"
  using assms by (auto simp: verify_embodiment_credential_def Let_def bindR_Inr_iff if_Inl_Inr_iff
      closed_id_Inr_iff case_option_Inr_iff)

lemma verify_embodiment_credential_authority:
  assumes "verify_embodiment_credential P credential s at_ms allow = Inr body"
  defines "v2 \<equiv> dget credential ''schema'' = Some (VStr (str ''dm.identity.artifact/v2''))"
  defines "domain \<equiv> (if v2 then credential_v2_domain else domain_of ''embodiment-credential'')"
  obtains w policy preimage signing_public where
    "verify_wrapper P credential ''embodiment-credential'' v2 = Inr w" "body = w_body w"
    "item (w_body w) ''being_ref'' = VStr (cs_being_ref s)"
    "map_of (cs_credential_authorities s) (item (w_body w) ''control_head'') = Some policy
       \<or> map_of (cs_carried s) (VStr (w_id w)) = Some policy"
    "in_validity v2 (w_body w) at_ms = Inr True"
    "domain_bytes P domain (w_body w) = Inr preimage"
    "verify_threshold P (w_signatures w) policy ''root-authorization'' preimage = Inr ()"
    "descriptor_public P (item (w_body w) ''signing_key'') ''Ed25519'' = Inr signing_public"
    "check_acceptance P w (w_body w) domain signing_public = Inr ()"
proof -
  from assms(1) show thesis
    unfolding verify_embodiment_credential_def Let_def v2_def [symmetric] domain_def [symmetric]
    by (auto simp: bindR_Inr_iff if_Inl_Inr_iff closed_id_Inr_iff hashable_res_Inr_iff
          split: option.splits)
       (rule that, (assumption | rule refl | rule disjI1, assumption | rule disjI2, assumption)+)+
qed

lemma verify_incarnation_cutoff:
  assumes "verify_incarnation_authorization P authorization credential s at_ms = Inr body"
    and "map_of (cs_revocations s) (item body ''embodiment_id'') = Some r"
  shows "\<exists>n. num_of (item body ''incarnation_sequence'') = Some n \<and> n \<le> cutoff r"
  using assms by (auto simp: verify_incarnation_authorization_def bindR_Inr_iff if_Inl_Inr_iff
      closed_id_Inr_iff hashable_res_Inr_iff num_res_def case_option_Inr_iff case_single_Inr_iff)

lemma attenuates_refl: "attenuates v v"
  by (cases v) auto

lemma attenuates_trans: "attenuates a b \<Longrightarrow> attenuates b c \<Longrightarrow> attenuates a c"
  by (cases a; cases b; cases c) auto

lemma attenuates_iff:
  assumes "\<And>b e. child = Finite b e \<Longrightarrow> b < e"
  shows "attenuates child parent \<longleftrightarrow> (\<forall>t. contains child t \<longrightarrow> contains parent t)"
proof (cases child; cases parent)
  fix cb ca pb pa assume c: "child = Finite cb ca" and p: "parent = Finite pb pa"
  from assms [OF c] have "cb < ca" .
  moreover have "pb \<le> cb \<and> ca \<le> pa" if "\<forall>t. cb \<le> t \<and> t < ca \<longrightarrow> pb \<le> t \<and> t < pa"
    using that [rule_format, of cb] that [rule_format, of "ca - 1"] \<open>cb < ca\<close> by auto
  ultimately show ?thesis using c p by auto
next
  fix cb pb pa assume c: "child = UntilRevoked cb" and p: "parent = Finite pb pa"
  have "contains child (max cb pa)" "\<not> contains parent (max cb pa)" using c p by auto
  moreover have "\<not> attenuates child parent" using c p by simp
  ultimately show ?thesis by blast
next
  fix cb ca pb assume c: "child = Finite cb ca" and p: "parent = UntilRevoked pb"
  from assms [OF c] have "cb < ca" .
  then show ?thesis using c p by force
next
  fix cb pb assume "child = UntilRevoked cb" "parent = UntilRevoked pb"
  then show ?thesis by auto
qed

lemma validate_validity_Finite: "validate_validity v = Inr (Finite b e) \<Longrightarrow> b < e"
  by (auto simp: validate_validity_def res split: if_splits)

text \<open>
  \<open>validity_attenuates\<close> decides containment of the intervals: the child never holds at an
  instant at which the parent does not, and a child that is contained is accepted.
\<close>

lemma validity_attenuates_eq:
  assumes "validate_validity child = Inr c" and "validate_validity parent = Inr p"
  shows "validity_attenuates child parent = Inr (\<forall>t. contains c t \<longrightarrow> contains p t)"
  using attenuates_iff [of c p] validate_validity_Finite [of child] assms
  by (auto simp: validity_attenuates_def)

section \<open>A recovery seen from an anchor\<close>

lemma parse_high_water_val:
  assumes "list_all (\<lambda>(e, r). is_str e \<and> str_of e \<noteq> [] \<and> 0 \<le> cutoff r \<and> 0 \<le> rev_generation r) m"
    and "high_water_val m = VDict d"
  shows "parse_high_water d = Some m"
  using assms
proof (induction m arbitrary: d)
  case Nil
  then show ?case by (simp add: high_water_val_def)
next
  case (Cons er m)
  obtain e r where er: "er = (VStr e, r)" using Cons.prems(1) by (cases er; cases "fst er") auto
  have keys: "dkeys [(VStr (str ''cutoff_incarnation_sequence''), VInt (cutoff r)),
       (VStr (str ''revocation_generation''), VInt (rev_generation r))]
     = key_set [''cutoff_incarnation_sequence'', ''revocation_generation'']"
    by (auto simp: dkeys_def key_set_def)
  from Cons er keys show ?case
    by (auto simp: high_water_val_def item_def dget_def)
qed

lemma covers_revocations_iff:
  "distinct (map fst known) \<Longrightarrow> covers_revocations merged known \<longleftrightarrow> tightens known merged"
  by (fastforce simp: covers_revocations_def tightens_def list_all_iff map_of_eq_Some_distinct split: option.splits)

end
