(* ===== verification/Authoring_Laws.thy ===== *)
theory Authoring_Laws
  imports Identity_Authoring Identity_Laws Canonical_Laws
begin

text \<open>
  What the builders of \<open>Identity_Authoring\<close> create is what the verifiers of \<open>Identity\<close> accept. A
  \<open>slot\<close> is a signature as the module makes it: key id, role and signature bytes. The wrapper
  verifier gets the slots back, sorted, and a quorum among them meets the threshold.
\<close>

section \<open>The documented behaviour of Ed25519\<close>

definition is_seed :: "bytes \<Rightarrow> bool" where
  "is_seed seed \<longleftrightarrow> length seed = 32 \<and> is_bytes seed"

text \<open>The public key of a seed is a point of 32 bytes, and verifies the 64 bytes the seed signs.\<close>

definition signing_ok :: "platform \<Rightarrow> bool" where
  "signing_ok P \<longleftrightarrow> (\<forall>seed m. is_seed seed \<longrightarrow>
     (length (ed25519_public P seed) = 32 \<and> is_bytes (ed25519_public P seed)
      \<and> ed25519_point P (ed25519_public P seed)
      \<and> length (ed25519_sign P seed m) = 64 \<and> is_bytes (ed25519_sign P seed m)
      \<and> ed25519_verify P (ed25519_public P seed) (ed25519_sign P seed m) m))"

lemma signing_okD:
  assumes "signing_ok P" and "is_seed seed"
  shows "length (ed25519_public P seed) = 32" "is_bytes (ed25519_public P seed)"
    "ed25519_point P (ed25519_public P seed)" "length (ed25519_sign P seed m) = 64"
    "is_bytes (ed25519_sign P seed m)"
    "ed25519_verify P (ed25519_public P seed) (ed25519_sign P seed m) m"
  using assms by (auto simp: signing_ok_def)

section \<open>Descriptors\<close>

lemma closed_id_dict:
  "dkeys d = key_set ks \<Longrightarrow> list_all hashable (map fst d) \<Longrightarrow> closed_id ks what (VDict d) = Inr d"
  by (simp add: closed_id_Inr_iff)

lemma key_descriptor_Inr:
  "key_descriptor P alg pk = Inr d \<longleftrightarrow>
   (\<exists>k. key_id P alg pk = Inr k \<and> d = VDict [(VStr (str ''algorithm''), VStr (str alg)),
          (VStr (str ''key_id''), VStr k), (VStr (str ''public''), VStr (b64url pk))])"
  by (auto simp: key_descriptor_def res)

lemma key_descriptor_id:
  "key_descriptor P alg pk = Inr d \<Longrightarrow> key_id P alg pk = Inr k \<Longrightarrow> descriptor_key_id d = VStr k"
  by (auto simp: key_descriptor_Inr descriptor_key_id_def dict_simps)

lemma key_descriptor_public:
  assumes "key_descriptor P alg pk = Inr d" and "length pk = 32" "is_bytes pk"
    and "alg = ''Ed25519'' \<longrightarrow> ed25519_point P pk"
  shows "descriptor_public P d alg = Inr pk"
proof -
  from assms(1) obtain k where k: "key_id P alg pk = Inr k"
    and d: "d = VDict [(VStr (str ''algorithm''), VStr (str alg)),
          (VStr (str ''key_id''), VStr k), (VStr (str ''public''), VStr (b64url pk))]"
    by (auto simp: key_descriptor_Inr)
  show ?thesis
    unfolding descriptor_public_def d using assms(2-4) k
    by (subst closed_id_dict) (auto simp: dict_simps dkeys_def key_set_def unb64url_b64url)
qed

lemma signing_descriptor_Inr:
  assumes "signing_descriptor P seed = Inr d"
  obtains k where "length seed = 32" "key_id P ''Ed25519'' (ed25519_public P seed) = Inr k"
    "descriptor_key_id d = VStr k" "key_descriptor P ''Ed25519'' (ed25519_public P seed) = Inr d"
  using assms key_descriptor_id
  by (auto simp: signing_descriptor_def seed_public_def res key_descriptor_Inr)

section \<open>Sorting signatures\<close>

type_synonym slot = "pystr \<times> string \<times> bytes"

fun slot_val :: "slot \<Rightarrow> val" where
  "slot_val (k, role, sig) = signature_val (VStr k) role sig"

fun slot_key :: "slot \<Rightarrow> pystr \<times> pystr" where
  "slot_key (k, role, sig) = (k, str role)"

fun slot_row :: "slot \<Rightarrow> signature_row" where
  "slot_row (k, role, sig) =
     \<lparr>s_key_id = VStr k, s_role = VStr (str role), s_value = VStr (b64url sig)\<rparr>"

definition pair_vals :: "pystr \<times> pystr \<Rightarrow> val list" where
  "pair_vals p = [VStr (fst p), VStr (snd p)]"

lemma lt_pair_vals: "lt_vals (pair_vals p) (pair_vals q) = Inr (p < q)"
  by (cases p; cases q) (auto simp: pair_vals_def less_prod_def')

lemma adj_sorted_pairs: "sorted ps \<Longrightarrow> adj_sorted (map pair_vals ps) = Inr True"
  by (induction ps rule: induct_list012) (auto simp: lt_pair_vals leD)

lemma adj_sorted_strings: "sorted ks \<Longrightarrow> adj_sorted (map (\<lambda>k. [VStr k]) ks) = Inr True"
  by (induction ks rule: induct_list012) (auto simp: leD)

definition keyed :: "slot \<Rightarrow> val list \<times> val" where
  "keyed t = (pair_vals (slot_key t), slot_val t)"

lemma insort_lt_keyed: "insort_lt (keyed t) (map keyed ts) = Inr (map keyed (insort_key slot_key t ts))"
  by (induction ts) (auto simp: keyed_def lt_pair_vals)

lemma sort_lt_keyed: "sort_lt (map keyed ts) = Inr (map keyed (sort_key slot_key ts))"
  by (induction ts) (simp_all add: insort_lt_keyed)

lemma slot_subscripts:
  "subscript (slot_val t) ''key_id'' = Inr (VStr (fst (slot_key t)))"
  "subscript (slot_val t) ''role'' = Inr (VStr (snd (slot_key t)))"
  "get_default ''key_id'' (slot_val t) = Inr (VStr (fst (slot_key t)))"
  "get_default ''role'' (slot_val t) = Inr (VStr (snd (slot_key t)))"
  by (cases t; simp add: signature_val_def getitem_def dict_simps)+

lemma sort_signatures_slots: "sort_signatures (map slot_val ts) = Inr (map slot_val (sort_key slot_key ts))"
proof -
  have "mapR (\<lambda>s. bindR (subscript s ''key_id'') (\<lambda>k. bindR (subscript s ''role'') (\<lambda>r. Inr ([k, r], s))))
      (map slot_val ts) = Inr (map keyed ts)"
    by (induction ts) (simp_all add: slot_subscripts keyed_def pair_vals_def)
  then show ?thesis by (simp add: sort_signatures_def sort_lt_keyed keyed_def comp_def)
qed

lemma check_signatures_slots:
  assumes "distinct (map slot_key ts)" and "\<forall>(k, role, sig) \<in> set ts. role \<in> set (allowed_roles kind)"
    and "\<forall>t \<in> set ts. \<forall>s \<in> set seen. (s_key_id s, s_role s) \<noteq> (VStr (fst (slot_key t)), VStr (snd (slot_key t)))"
  shows "check_signatures kind (map slot_val ts) seen = Inr (seen @ map slot_row ts)"
  using assms
proof (induction ts arbitrary: seen)
  case (Cons t ts)
  obtain k role sig where t: "t = (k, role, sig)" by (cases t)
  have IH: "check_signatures kind (map slot_val ts) (seen @ [slot_row t]) = Inr ((seen @ [slot_row t]) @ map slot_row ts)"
  proof (rule Cons.IH)
    show "\<forall>u \<in> set ts. \<forall>s \<in> set (seen @ [slot_row t]).
        (s_key_id s, s_role s) \<noteq> (VStr (fst (slot_key u)), VStr (snd (slot_key u)))"
    proof (intro ballI)
      fix u s assume u: "u \<in> set ts" and s: "s \<in> set (seen @ [slot_row t])"
      from Cons.prems(1) u have "slot_key u \<noteq> slot_key t"
        by (metis distinct.simps(2) image_eqI list.set_map list.simps(9))
      with s u Cons.prems(3) show "(s_key_id s, s_role s) \<noteq> (VStr (fst (slot_key u)), VStr (snd (slot_key u)))"
        by (cases u) (auto simp: t)
    qed
  qed (use Cons.prems in auto)
  have new: "(VStr k, VStr (str role)) \<notin> (\<lambda>s. (s_key_id s, s_role s)) ` set seen"
    using Cons.prems(3) by (force simp: t)
  have closed: "closed_id [''algorithm'', ''key_id'', ''role'', ''value''] ''signature'' (slot_val t)
      = Inr [(VStr (str ''algorithm''), VStr (str ''Ed25519'')), (VStr (str ''key_id''), VStr k),
             (VStr (str ''role''), VStr (str role)), (VStr (str ''value''), VStr (b64url sig))]"
    unfolding t slot_val.simps signature_val_def by (rule closed_id_dict) (auto simp: dkeys_def key_set_def)
  have allowed: "in_strings (VStr (str role)) (allowed_roles kind) = Inr True"
    using Cons.prems(2) by (auto simp: in_strings_def t)
  show ?case
    using IH new by (simp add: closed [unfolded t slot_val.simps] allowed dict_simps hashable_res_def t)
qed simp

text \<open>What the wrapper verifier returns for an artifact the module assembled.\<close>

definition slots_ok :: "string \<Rightarrow> slot list \<Rightarrow> bool" where
  "slots_ok kind ts \<longleftrightarrow> distinct (map slot_key ts) \<and> length ts \<le> max_signatures
     \<and> (\<forall>(k, role, sig) \<in> set ts. role \<in> set (allowed_roles kind))"

lemma artifact_verifies:
  assumes "artifact P kind body (map slot_val ts) v2 = Inr a" and "slots_ok kind ts"
  obtains h where "digest P (if v2 then credential_v2_domain else domain_of kind) body = Inr h"
    "verify_wrapper P a kind v2 = Inr \<lparr>w_body = body, w_hash = h,
       w_id = str (''dm:identity:v'' @ (if v2 then ''2'' else ''1'') @ '':'') @ b64url h,
       w_signatures = map slot_row (sort_key slot_key ts)\<rparr>"
proof -
  let ?ts = "sort_key slot_key ts"
  from assms(1) obtain h where h: "digest P (if v2 then credential_v2_domain else domain_of kind) body = Inr h"
    and a: "a = [(VStr (str ''schema''), VStr (str (''dm.identity.artifact/v'' @ (if v2 then ''2'' else ''1'')))),
             (VStr (str ''kind''), VStr (str kind)),
             (VStr (str ''artifact_id''),
              VStr (str (''dm:identity:v'' @ (if v2 then ''2'' else ''1'') @ '':'') @ b64url h)),
             (VStr (str ''body''), VDict body),
             (VStr (str ''signatures''), VList (map slot_val ?ts))]"
    by (auto simp: artifact_def Let_def res sort_signatures_slots)
  have keys: "mapR (\<lambda>s. bindR (get_default ''key_id'' s) (\<lambda>k. bindR (get_default ''role'' s) (\<lambda>r. Inr [k, r])))
      (map slot_val us) = Inr (map pair_vals (map slot_key us))" for us
  proof (induction us)
    case (Cons u us)
    then show ?case by (simp add: slot_subscripts pair_vals_def)
  qed simp
  have sorted: "adj_sorted (map pair_vals (map slot_key ?ts)) = Inr True"
    by (rule adj_sorted_pairs) simp
  have checked: "check_signatures kind (map slot_val ?ts) [] = Inr (map slot_row ?ts)"
    using assms(2) check_signatures_slots [of ?ts kind "[]"]
    by (simp add: slots_ok_def distinct_map_sort_key)
  have closed: "closed_id [''schema'', ''kind'', ''artifact_id'', ''body'', ''signatures''] w (VDict a) = Inr a" for w
    by (rule closed_id_dict) (auto simp: a dkeys_def key_set_def)
  have "verify_wrapper P a kind v2 = Inr \<lparr>w_body = body, w_hash = h,
       w_id = str (''dm:identity:v'' @ (if v2 then ''2'' else ''1'') @ '':'') @ b64url h,
       w_signatures = map slot_row ?ts\<rparr>"
    unfolding verify_wrapper_def closed bindR_simps
    using assms(2) by (simp add: a dict_simps h Let_def slots_ok_def keys sorted checked del: map_map)
  with h show thesis by (rule that)
qed

section \<open>Meeting a threshold\<close>

definition good_slots :: "platform \<Rightarrow> (val \<times> bytes) list \<Rightarrow> string \<Rightarrow> bytes \<Rightarrow> slot list \<Rightarrow> bool" where
  "good_slots P pm role preimage ts \<longleftrightarrow> (\<forall>k sig. (k, role, sig) \<in> set ts \<longrightarrow>
     length sig = 64 \<and> is_bytes sig
     \<and> (\<exists>pk. map_of pm (VStr k) = Some pk \<and> ed25519_verify P pk sig preimage))"

lemma valid_signers_slots:
  assumes "good_slots P pm role preimage ts" and "distinct valid"
  shows "\<exists>ks. valid_signers P pm role preimage (map slot_row ts) valid = Inr ks \<and> distinct ks
    \<and> set ks = set valid \<union> VStr ` fst ` {t \<in> set ts. fst (snd t) = role}"
  using assms
proof (induction ts arbitrary: valid)
  case (Cons t ts)
  obtain k r sig where t: "t = (k, r, sig)" by (cases t)
  have rest: "good_slots P pm role preimage ts" using Cons.prems by (auto simp: good_slots_def)
  show ?case
  proof (cases "r = role")
    case False
    then have "{u \<in> set (t # ts). fst (snd u) = role} = {u \<in> set ts. fst (snd u) = role}"
      by (auto simp: t)
    moreover have "valid_signers P pm role preimage (map slot_row (t # ts)) valid
        = valid_signers P pm role preimage (map slot_row ts) valid" using False by (simp add: t)
    ultimately show ?thesis using Cons.IH [OF rest Cons.prems(2)] by (simp only:)
  next
    case True
    with Cons.prems obtain pk where pk: "length sig = 64" "is_bytes sig" "map_of pm (VStr k) = Some pk"
      "ed25519_verify P pk sig preimage" by (auto simp: good_slots_def t)
    have set_eq: "{u. (u = t \<or> u \<in> set ts) \<and> fst (snd u) = role} = insert t {u \<in> set ts. fst (snd u) = role}"
      using True by (auto simp: t)
    from Cons.IH [OF rest, of "List.insert (VStr k) valid"] Cons.prems(2) obtain ks where
      "valid_signers P pm role preimage (map slot_row ts) (List.insert (VStr k) valid) = Inr ks" "distinct ks"
      "set ks = insert (VStr k) (set valid) \<union> VStr ` fst ` {t \<in> set ts. fst (snd t) = role}" by auto
    with True pk show ?thesis
      by (intro exI [of _ ks]) (simp add: t [symmetric] set_eq, simp add: t unb64url_b64url)
  qed
qed simp

lemma verify_threshold_slots:
  assumes "threshold_policy_check P policy = Inr (n, pm)" and "good_slots P pm role preimage ts"
    and "n \<le> int (card (fst ` {t \<in> set ts. fst (snd t) = role}))"
  shows "verify_threshold P (map slot_row ts) policy role preimage = Inr ()"
proof -
  from valid_signers_slots [OF assms(2), of "[]"] obtain ks where
    ks: "valid_signers P pm role preimage (map slot_row ts) [] = Inr ks" "distinct ks"
      "set ks = VStr ` fst ` {t \<in> set ts. fst (snd t) = role}" by auto
  then have "length ks = card (VStr ` fst ` {t \<in> set ts. fst (snd t) = role})"
    by (metis distinct_card)
  also have "\<dots> = card (fst ` {t \<in> set ts. fst (snd t) = role})"
    by (rule card_image) (simp add: inj_on_def)
  finally show ?thesis using assms(1,3) ks(1) by (simp add: verify_threshold_def)
qed

section \<open>The signatures of a set of seeds\<close>

definition seeds_ok :: "platform \<Rightarrow> (pystr \<times> bytes) list \<Rightarrow> bool" where
  "seeds_ok P sm \<longleftrightarrow> distinct (map fst sm)
     \<and> (\<forall>(k, seed) \<in> set sm. \<exists>d. signing_descriptor P seed = Inr d \<and> descriptor_key_id d = VStr k)"

lemma seeds_ok_update:
  assumes "seeds_ok P sm" and "signing_descriptor P seed = Inr d" and "descriptor_key_id d = VStr k"
  shows "seeds_ok P (AList.update k seed sm)"
proof -
  have "(k', s) \<in> set (AList.update k seed sm) \<Longrightarrow> (k', s) = (k, seed) \<or> (k', s) \<in> set sm" for k' s
    by (induction sm) (auto split: if_splits)
  with assms show ?thesis by (auto simp: seeds_ok_def distinct_update) blast
qed

lemma seed_map_into_ok:
  assumes "seed_map_into P seeds sm = Inr sm'" and "seeds_ok P sm"
  shows "seeds_ok P sm'"
  using assms
proof (induction seeds arbitrary: sm)
  case (Cons seed seeds)
  then obtain d where d: "signing_descriptor P seed = Inr d"
    "seed_map_into P seeds (AList.update (str_of (descriptor_key_id d)) seed sm) = Inr sm'"
    by (auto simp: res)
  from d(1) obtain k where "descriptor_key_id d = VStr k" by (rule signing_descriptor_Inr)
  with d Cons.prems(2) show ?case by (intro Cons.IH [OF d(2)] seeds_ok_update) simp_all
qed simp

lemma seed_map_ok: "seed_map P seeds = Inr sm \<Longrightarrow> seeds_ok P sm"
  unfolding seed_map_def by (erule seed_map_into_ok) (simp add: seeds_ok_def)

definition slots_of :: "platform \<Rightarrow> (pystr \<times> bytes) list \<Rightarrow> string \<Rightarrow> bytes \<Rightarrow> slot list" where
  "slots_of P sm role preimage = map (\<lambda>(k, seed). (k, role, ed25519_sign P seed preimage)) (sort_key fst sm)"

lemma signature_slot:
  "signing_descriptor P seed = Inr d \<Longrightarrow> descriptor_key_id d = VStr k
    \<Longrightarrow> signature P seed role preimage = Inr (slot_val (k, role, ed25519_sign P seed preimage))"
  by (simp add: signature_def)

lemma signatures_slots:
  assumes "seeds_ok P sm"
  shows "signatures P sm role preimage = Inr (map slot_val (slots_of P sm role preimage))"
proof -
  have "mapR (\<lambda>(k, seed). signature P seed role preimage) xs
      = Inr (map slot_val (map (\<lambda>(k, seed). (k, role, ed25519_sign P seed preimage)) xs))"
    if "set xs \<subseteq> set sm" for xs
    using that
  proof (induction xs)
    case (Cons x xs)
    obtain k seed where x: "x = (k, seed)" by (cases x)
    with Cons.prems assms obtain d where "signing_descriptor P seed = Inr d" "descriptor_key_id d = VStr k"
      by (fastforce simp: seeds_ok_def)
    with Cons show ?case by (simp add: x signature_slot)
  qed simp
  then show ?thesis by (simp add: signatures_def slots_of_def)
qed

text \<open>The seeds of keys a policy names.\<close>

definition holds_keys :: "platform \<Rightarrow> (val \<times> bytes) list \<Rightarrow> (pystr \<times> bytes) list \<Rightarrow> bool" where
  "holds_keys P pm sm \<longleftrightarrow>
     (\<forall>(k, seed) \<in> set sm. is_seed seed \<and> map_of pm (VStr k) = Some (ed25519_public P seed))"

lemma good_slots_of:
  assumes "signing_ok P" and "holds_keys P pm sm"
  shows "good_slots P pm role preimage (slots_of P sm role preimage)"
  using assms(2) signing_okD [OF assms(1)] by (fastforce simp: good_slots_def slots_of_def holds_keys_def)

lemma set_slots_of [simp]:
  "set (slots_of P sm role preimage) = (\<lambda>(k, seed). (k, role, ed25519_sign P seed preimage)) ` set sm"
  by (simp add: slots_of_def)

lemma slots_of_keys:
  "{t \<in> set (slots_of P sm role preimage). fst (snd t) = role} = set (slots_of P sm role preimage)"
  "r \<noteq> role \<Longrightarrow> {t \<in> set (slots_of P sm r preimage). fst (snd t) = role} = {}"
  "fst ` set (slots_of P sm role preimage) = fst ` set sm"
  by (auto simp: image_image case_prod_beta)

lemma card_seeds: "seeds_ok P sm \<Longrightarrow> card (fst ` set sm) = length sm"
  unfolding seeds_ok_def by (metis distinct_card length_map list.set_map)

lemma distinct_slots_of:
  assumes "seeds_ok P sm" shows "distinct (map slot_key (slots_of P sm role preimage))"
proof -
  have "map slot_key (slots_of P sm role preimage) = map (\<lambda>k. (k, str role)) (map fst (sort_key fst sm))"
    by (simp add: slots_of_def case_prod_beta comp_def)
  moreover have "distinct (map fst (sort_key fst sm))"
    using assms by (simp add: seeds_ok_def distinct_map_sort_key)
  ultimately show ?thesis by (simp add: distinct_map inj_on_def del: map_map)
qed

text \<open>Enough seeds of a policy meet it, among whatever other signatures there are.\<close>

lemma verify_threshold_seeds:
  assumes "signing_ok P" and "seeds_ok P sm" and "holds_keys P pm sm"
    and "threshold_policy_check P policy = Inr (n, pm)" and "n \<le> int (length sm)"
    and "{t \<in> set ts. fst (snd t) = role} = set (slots_of P sm role preimage)"
  shows "verify_threshold P (map slot_row (sort_key slot_key ts)) policy role preimage = Inr ()"
proof (rule verify_threshold_slots [OF assms(4)])
  have same: "{t \<in> set (sort_key slot_key ts). fst (snd t) = role} = set (slots_of P sm role preimage)"
    using assms(6) by simp
  show "n \<le> int (card (fst ` {t \<in> set (sort_key slot_key ts). fst (snd t) = role}))"
    unfolding same slots_of_keys card_seeds [OF assms(2)] by (rule assms(5))
  have "good_slots P pm role preimage (slots_of P sm role preimage)"
    by (rule good_slots_of [OF assms(1,3)])
  moreover have "(k, role, sig) \<in> set ts \<Longrightarrow> (k, role, sig) \<in> set (slots_of P sm role preimage)" for k sig
    unfolding same [symmetric] by simp
  ultimately show "good_slots P pm role preimage (sort_key slot_key ts)"
    unfolding good_slots_def by (simp only: set_sort) blast
qed

section \<open>Successors\<close>

text \<open>A body of \<open>successor_body\<close> stands at the position its state asks for.\<close>

lemma successor_body_position: "verify_position (successor_body s changes) s = Inr ()"
  by (simp add: verify_position_def successor_body_def getitem_def dict_simps)

lemma successor_item:
  "k \<notin> set successor_fields
    \<Longrightarrow> item (successor_body s changes) k = item (map (\<lambda>(k, v). (VStr (str k), v)) changes) k"
  by (auto simp: successor_body_def successor_fields_def dict_simps)

lemma successor_closed:
  "set (map fst changes) = set ks
    \<Longrightarrow> closed_id (successor_fields @ ks) what (VDict (successor_body s changes)) = Inr (successor_body s changes)"
  by (rule closed_id_dict)
    (auto simp: successor_body_def successor_fields_def dkeys_def key_set_def list_all_iff image_iff, force+)

text \<open>What a wrapper signed by one set of seeds verifies to.\<close>

definition signed_wrapper :: "platform \<Rightarrow> string \<Rightarrow> dict \<Rightarrow> bytes \<Rightarrow> slot list \<Rightarrow> wrapper" where
  "signed_wrapper P kind body h ts =
     \<lparr>w_body = body, w_hash = h, w_id = str ''dm:identity:v1:'' @ b64url h,
      w_signatures = map slot_row (sort_key slot_key ts)\<rparr>"

lemma signed_wrapper_sel [simp]:
  "w_body (signed_wrapper P kind body h ts) = body" "w_hash (signed_wrapper P kind body h ts) = h"
  "w_signatures (signed_wrapper P kind body h ts) = map slot_row (sort_key slot_key ts)"
  by (simp_all add: signed_wrapper_def)

lemma sign_control_verifies:
  assumes "sign_control P kind body sm role None = Inr a" and "seeds_ok P sm"
    and "length sm \<le> max_signatures" and "role \<in> set (allowed_roles kind)"
  obtains h preimage where "digest P (domain_of kind) body = Inr h"
    "domain_bytes P (domain_of kind) body = Inr preimage"
    "verify_wrapper P a kind False = Inr (signed_wrapper P kind body h (slots_of P sm role preimage))"
proof -
  from assms(1) obtain preimage where pre: "domain_bytes P (domain_of kind) body = Inr preimage"
    and a: "artifact P kind body (map slot_val (slots_of P sm role preimage)) False = Inr a"
    by (auto simp: sign_control_def res signatures_slots [OF assms(2)])
  have "slots_ok kind (slots_of P sm role preimage)"
    using assms(3,4) distinct_slots_of [OF assms(2)] by (auto simp: slots_ok_def) (auto simp: slots_of_def)
  from artifact_verifies [OF a this] obtain h where "digest P (domain_of kind) body = Inr h"
    "verify_wrapper P a kind False = Inr (signed_wrapper P kind body h (slots_of P sm role preimage))"
    by (auto simp: signed_wrapper_def)
  with pre show thesis by (rule_tac that)
qed

lemma artifact_kind: "artifact P kind body sigs v2 = Inr a \<Longrightarrow> dget a ''kind'' = Some (VStr (str kind))"
  by (auto simp: artifact_def Let_def res dict_simps)

lemma sign_control_kind: "sign_control P kind body sm role ps = Inr a \<Longrightarrow> dget a ''kind'' = Some (VStr (str kind))"
  by (auto simp: sign_control_def res dest: artifact_kind)

text \<open>The number a revocation of an embodiment must carry.\<close>

definition next_revocation :: "control_state \<Rightarrow> val \<Rightarrow> int" where
  "next_revocation s e = (case map_of (cs_revocations s) e of None \<Rightarrow> 1 | Some r \<Rightarrow> rev_generation r + 1)"

lemma revocation_verifies:
  assumes ok: "signing_ok P" and create: "create_revocation P s seeds e c (next_revocation s (VStr e)) = Inr a"
    and policy: "threshold_policy_check P (cs_root_policy s) = Inr (n, pm)"
    and sm: "seed_map P seeds = Inr sm" "holds_keys P pm sm" "n \<le> int (length sm)" "length sm \<le> max_signatures"
    and gen: "1 \<le> next_revocation s (VStr e)"
    and c: "0 \<le> c" "\<And>r. map_of (cs_revocations s) (VStr e) = Some r \<Longrightarrow> c \<le> cutoff r"
  obtains h where "verify_successor P a s = Inr (s\<lparr>
      cs_head := h, cs_sequence := cs_sequence s + 1,
      cs_revocations := AList.update (VStr e) \<lparr>cutoff = c, rev_generation = next_revocation s (VStr e)\<rparr> (cs_revocations s),
      cs_credential_authorities := AList.update (VStr h) (cs_root_policy s) (cs_credential_authorities s)\<rparr>)"
proof -
  let ?g = "next_revocation s (VStr e)"
  let ?changes = "[(''embodiment_id'', VStr e), (''cutoff_incarnation_sequence'', VInt c), (''revocation_generation'', VInt ?g)]"
  let ?body = "successor_body s ?changes"
  note seeds = seed_map_ok [OF sm(1)]
  from create have signed: "sign_control P ''revocation'' ?body sm ''root-authorization'' None = Inr a"
    by (simp add: create_revocation_def sm(1))
  have "''root-authorization'' \<in> set (allowed_roles ''revocation'')" by (simp add: allowed_roles_def)
  from sign_control_verifies [OF signed seeds sm(4) this] obtain h preimage where
    pre: "domain_bytes P (domain_of ''revocation'') ?body = Inr preimage"
    and w: "verify_wrapper P a ''revocation'' False
      = Inr (signed_wrapper P ''revocation'' ?body h (slots_of P sm ''root-authorization'' preimage))"
    by blast
  let ?w = "signed_wrapper P ''revocation'' ?body h (slots_of P sm ''root-authorization'' preimage)"
  have threshold: "verify_threshold P (map slot_row (sort_key slot_key (slots_of P sm ''root-authorization'' preimage)))
      (cs_root_policy s) ''root-authorization'' preimage = Inr ()"
    by (rule verify_threshold_seeds [OF ok seeds sm(2) policy sm(3)]) (rule slots_of_keys)
  have items: "item ?body ''embodiment_id'' = VStr e" "item ?body ''cutoff_incarnation_sequence'' = VInt c"
    "item ?body ''revocation_generation'' = VInt ?g"
    by (simp_all add: successor_item successor_fields_def dict_simps)
  have closed: "closed_id (successor_fields
                @ [''embodiment_id'', ''cutoff_incarnation_sequence'', ''revocation_generation''])
              ''revocation body'' (VDict ?body) = Inr ?body"
    by (rule successor_closed) auto
  have "revoke P ?w s = Inr (s\<lparr>
      cs_revocations := AList.update (VStr e) \<lparr>cutoff = c, rev_generation = ?g\<rparr> (cs_revocations s),
      cs_credential_authorities := AList.update (VStr (w_id ?w)) (cs_root_policy s) (cs_credential_authorities s)\<rparr>)"
    unfolding revoke_def signed_wrapper_sel closed bindR_simps items Let_def
    using c gen by (auto simp: num_res_def hashable_res_def next_revocation_def split: option.splits)
  then have "verify_successor P a s = Inr (s\<lparr>
      cs_head := w_id ?w, cs_sequence := cs_sequence s + 1,
      cs_revocations := AList.update (VStr e) \<lparr>cutoff = c, rev_generation = ?g\<rparr> (cs_revocations s),
      cs_credential_authorities := AList.update (VStr (w_id ?w)) (cs_root_policy s) (cs_credential_authorities s)\<rparr>)"
    by (simp add: verify_successor_def sign_control_kind [OF signed] in_strings_def w successor_body_position
        pre threshold Let_def)
  then show thesis by (rule that)
qed

section \<open>Genesis, credentials and incarnations\<close>

lemma genesis_verifies:
  assumes ok: "signing_ok P" and a: "artifact P ''genesis'' body
      (map slot_val (slots_of P sm ''root-authorization'' preimage
         @ slots_of P rm ''recovery-possession'' (possession_preimage ''genesis'' h))) False = Inr a"
    and body: "body = [(VStr (str ''being_ref''), VStr (str ''dm:being:v1:'' @ b64url b)),
        (VStr (str ''control_generation''), VInt 0), (VStr (str ''control_sequence''), VInt 0),
        (VStr (str ''core''), VDict core), (VStr (str ''created_at_ms''), created)]"
      "core = [(VStr (str ''nonce''), VStr (b64url nonce)), (VStr (str ''protocol''), VStr (str ''daimon-matrix'')),
        (VStr (str ''recovery''), recovery), (VStr (str ''root''), root), (VStr (str ''version''), VInt 1)]"
    and b: "digest P ''dm.identity.being/v1'' core = Inr b"
    and h: "digest P (domain_of ''genesis'') body = Inr h"
    and preimage: "domain_bytes P (domain_of ''genesis'') body = Inr preimage"
    and nonce: "length nonce = 32" "is_bytes nonce"
    and root: "threshold_policy_check P root = Inr (n, pm)" "seeds_ok P sm" "holds_keys P pm sm" "n \<le> int (length sm)"
    and recovery: "threshold_policy_check P recovery = Inr (m, qm)" "seeds_ok P rm" "holds_keys P qm rm"
      "m \<le> int (length rm)"
    and separate: "require_separate_policies P root recovery = Inr ()"
    and few: "length sm + length rm \<le> max_signatures"
  shows "verify_genesis P a = Inr \<lparr>cs_being_ref = str ''dm:being:v1:'' @ b64url b,
     cs_head = str ''dm:identity:v1:'' @ b64url h, cs_generation = 0, cs_sequence = 0,
     cs_root_policy = root, cs_recovery_policy = recovery, cs_revocations = [],
     cs_credential_authorities = [(VStr (str ''dm:identity:v1:'' @ b64url h), root)],
     cs_carried = [], cs_activated_binding = None\<rparr>"
proof -
  let ?r = "slots_of P sm ''root-authorization'' preimage"
  let ?q = "slots_of P rm ''recovery-possession'' (possession_preimage ''genesis'' h)"
  have "slots_ok ''genesis'' (?r @ ?q)"
    using few distinct_slots_of [OF root(2)] distinct_slots_of [OF recovery(2)]
    by (auto simp: slots_ok_def allowed_roles_def) (auto simp: slots_of_def)
  from artifact_verifies [OF a this] h
  have w: "verify_wrapper P a ''genesis'' False = Inr (signed_wrapper P ''genesis'' body h (?r @ ?q))"
    by (auto simp: signed_wrapper_def)
  have "{t \<in> set (?r @ ?q). fst (snd t) = ''root-authorization''} = set ?r"
    "{t \<in> set (?r @ ?q). fst (snd t) = ''recovery-possession''} = set ?q"
    by auto
  then have t: "verify_threshold P (map slot_row (sort_key slot_key (?r @ ?q))) root ''root-authorization'' preimage = Inr ()"
    "verify_threshold P (map slot_row (sort_key slot_key (?r @ ?q))) recovery ''recovery-possession''
       (possession_preimage ''genesis'' h) = Inr ()"
    using verify_threshold_seeds [OF ok root(2,3,1,4)] verify_threshold_seeds [OF ok recovery(2,3,1,4)] by blast+
  have closed: "closed_id [''being_ref'', ''control_generation'', ''control_sequence'', ''core'',
                       ''created_at_ms''] ''genesis body'' (VDict body) = Inr body"
    "closed_id [''nonce'', ''protocol'', ''recovery'', ''root'', ''version''] ''genesis core'' (VDict core) = Inr core"
    by (rule closed_id_dict; auto simp: body dkeys_def key_set_def)+
  have items: "item body ''being_ref'' = VStr (str ''dm:being:v1:'' @ b64url b)"
    "item body ''control_generation'' = VInt 0" "item body ''control_sequence'' = VInt 0" "item body ''core'' = VDict core"
    "item core ''nonce'' = VStr (b64url nonce)" "item core ''protocol'' = VStr (str ''daimon-matrix'')"
    "item core ''recovery'' = recovery" "item core ''root'' = root" "item core ''version'' = VInt 1"
    by (simp_all add: body dict_simps)
  have nonce': "unb64url (VStr (b64url nonce)) (Some 32) = Inr nonce" using nonce by (simp add: unb64url_b64url)
  show ?thesis
    unfolding verify_genesis_def w bindR_simps signed_wrapper_sel closed items
    by (simp add: closed nonce' b preimage t separate items signed_wrapper_def)
qed

lemma credential_signature_ok:
  assumes "is_seed seed" and "signing_ok P" and "descriptor_public P d ''Ed25519'' = Inr (ed25519_public P seed)"
    and "descriptor_key_id d = VStr k" and "item body ''signing_key'' = d" and "w_hash w = h"
    and "w_signatures w = map slot_row (sort_key slot_key (ts @ [(k, ''embodiment-acceptance'',
           ed25519_sign P seed (acceptance_preimage domain h))]))"
    and "\<forall>t \<in> set ts. fst (snd t) \<noteq> ''embodiment-acceptance''"
  shows "check_acceptance P w body domain (ed25519_public P seed) = Inr ()"
proof -
  let ?s = "(k, ''embodiment-acceptance'', ed25519_sign P seed (acceptance_preimage domain h))"
  let ?rows = "sort_key slot_key (ts @ [?s])"
  have "filter (\<lambda>s. s_role s = VStr (str ''embodiment-acceptance'')) (map slot_row xs)
      = map slot_row (filter (\<lambda>t. fst (snd t) = ''embodiment-acceptance'') xs)" for xs
    by (induction xs) (auto simp: slot_row.simps)
  moreover have "filter (\<lambda>t. fst (snd t) = ''embodiment-acceptance'') ?rows = [?s]"
    using assms(8) by (simp add: filter_sort filter_empty_conv)
  ultimately show ?thesis
    using signing_okD [OF assms(2,1)] assms(4-7) by (simp add: check_acceptance_def unb64url_b64url)
qed

text \<open>A freshly authorised incarnation of an accepted credential is accepted.\<close>

lemma incarnation_verifies:
  assumes ok: "signing_ok P" "is_seed seed"
    and cred: "verify_embodiment_credential P credential s at_ms True = Inr cred"
    and key: "item cred ''signing_key'' = d" "signing_descriptor P seed = Inr d"
    and create: "create_incarnation_authorization P credential seed i n started = Inr a"
    and n: "0 \<le> n" "\<And>r. map_of (cs_revocations s) (item cred ''embodiment_id'') = Some r \<Longrightarrow> n \<le> cutoff r"
    and started: "0 \<le> started" "started \<le> at_ms"
  shows "\<exists>body. verify_incarnation_authorization P a credential s at_ms = Inr body
    \<and> item body ''incarnation_id'' = VStr i \<and> item body ''incarnation_sequence'' = VInt n
    \<and> item body ''embodiment_id'' = item cred ''embodiment_id''"
proof -
  from cred obtain w kind v2 where w: "verify_wrapper P credential kind v2 = Inr w" "cred = w_body w"
    by (rule verify_embodiment_credential_body)
  note wrapper = verify_wrapperD [OF w(1)]
  from cred have fields: "dkeys cred = key_set (credential_fields (dget credential ''schema'' = Some (VStr (str ''dm.identity.artifact/v2''))))"
    and being: "item cred ''being_ref'' = VStr (cs_being_ref s)"
    and emb: "hashable (item cred ''embodiment_id'')"
    by (auto simp: verify_embodiment_credential_def Let_def res check_not_revoked_def split: option.splits)
  have got: "dget cred k = Some (item cred k)" if "k \<in> {''being_ref'', ''embodiment_id'', ''signing_key''}" for k
    by (rule closed_item [OF fields]) (use that in \<open>auto simp: credential_fields_def\<close>)
  have credential_item: "item credential ''artifact_id'' = VStr (w_id w)" using wrapper(1) by (simp add: item_def)
  let ?body = "[(VStr (str ''being_ref''), VStr (cs_being_ref s)),
      (VStr (str ''embodiment_credential_id''), VStr (w_id w)),
      (VStr (str ''embodiment_id''), item cred ''embodiment_id''),
      (VStr (str ''incarnation_id''), VStr i), (VStr (str ''incarnation_sequence''), VInt n),
      (VStr (str ''started_at_ms''), VInt started)]"
  obtain k where k: "descriptor_key_id d = VStr k" "key_descriptor P ''Ed25519'' (ed25519_public P seed) = Inr d"
    using key(2) by (rule signing_descriptor_Inr)
  have public: "descriptor_public P d ''Ed25519'' = Inr (ed25519_public P seed)"
    using signing_okD [OF ok] by (intro key_descriptor_public [OF k(2)]) auto
  from create obtain preimage where pre: "domain_bytes P (domain_of ''incarnation-authorization'') ?body = Inr preimage"
    and a: "artifact P ''incarnation-authorization'' ?body (map slot_val [(k, ''incarnation-authorization'',
              ed25519_sign P seed preimage)]) False = Inr a"
    using got being wrapper(1,2) w(2) signature_slot [OF key(2) k(1)]
    by (auto simp: create_incarnation_authorization_def getitem_def res Let_def)
  have "slots_ok ''incarnation-authorization'' [(k, ''incarnation-authorization'', ed25519_sign P seed preimage)]"
    by (simp add: slots_ok_def allowed_roles_def max_signatures_def)
  from artifact_verifies [OF a this] obtain h where
    v: "verify_wrapper P a ''incarnation-authorization'' False = Inr (signed_wrapper P ''incarnation-authorization''
          ?body h [(k, ''incarnation-authorization'', ed25519_sign P seed preimage)])"
    by (auto simp: signed_wrapper_def)
  have closed: "closed_id [''being_ref'', ''embodiment_credential_id'', ''embodiment_id'', ''incarnation_id'',
      ''incarnation_sequence'', ''started_at_ms''] ''incarnation authorization body'' (VDict ?body) = Inr ?body"
    by (rule closed_id_dict) (auto simp: dkeys_def key_set_def emb)
  have same: "py_eq (item cred ''embodiment_id'') (item cred ''embodiment_id'')" using emb by (cases "item cred ''embodiment_id''") auto
  have "verify_incarnation_authorization P a credential s at_ms = Inr ?body"
    unfolding verify_incarnation_authorization_def cred v bindR_simps signed_wrapper_sel closed
    using n started public pre signing_okD [OF ok] emb same
    by (auto simp: dict_simps credential_item num_res_def hashable_res_def key(1) unb64url_b64url
        split: option.splits)
  then show ?thesis by (intro exI [of _ ?body]) (simp add: dict_simps)
qed

end
