(* ===== verification/Demo_Identity.thy ===== *)
theory Demo_Identity
  imports Authoring_Laws Demo
begin

text \<open>
  A being on the concrete platform: a genesis with one root and one recovery key, a revocation, a
  recovery, an embodiment credential and an incarnation. The digests stay symbolic; that they
  exist follows from the values being plain.
\<close>

lemma isascii_str: "\<forall>c \<in> set s. of_char c < (128 :: nat) \<Longrightarrow> isascii (str s)"
  by (simp add: isascii_def str_def list_all_iff)

lemma isascii_b64url:
  assumes "is_bytes bs" shows "isascii (b64url bs)"
proof -
  have "list_all (\<lambda>d. d < 64) (b64_digits bs)" by (rule b64_digits_bound [OF assms])
  then show ?thesis
    using b64_alphabet_chars [OF b64_alphabet_in]
    by (auto simp: b64url_digits isascii_def list_all_iff)
qed

lemma is_bytes_sha256 [simp]: "is_bytes (sha256 m)"
  using sha256_less by (auto simp: is_bytes_def list_all_iff)

lemma plain_digest:
  assumes "plain (VDict d)" obtains m where "domain_bytes P e d = Inr m" "digest P e d = Inr (sha256 m)"
proof -
  obtain b where "canonical_bytes P (VDict d) = Inr b" using plain_canonical [OF assms] by blast
  then show thesis using that by (simp add: digest_def domain_bytes_def)
qed

lemma demo_signing_ok: "signing_ok demo"
  by (simp add: signing_ok_def is_seed_def is_bytes_def)

section \<open>Keys and policies\<close>

definition demo_seed :: "nat \<Rightarrow> bytes" where "demo_seed n = replicate 32 n"

lemma demo_seed_ok: "n < 256 \<Longrightarrow> is_seed (demo_seed n)" "n < 256 \<Longrightarrow> is_bytes (demo_seed n)" "length (demo_seed n) = 32"
  by (simp_all add: is_seed_def demo_seed_def is_bytes_def list_all_iff)

lemma demo_seed_inj [simp]: "demo_seed m = demo_seed n \<longleftrightarrow> m = n"
  by (simp add: demo_seed_def)

definition demo_kid :: "string \<Rightarrow> nat \<Rightarrow> pystr" where
  "demo_kid alg n = projr (key_id demo alg (demo_seed n))"

definition demo_descriptor :: "string \<Rightarrow> nat \<Rightarrow> val" where
  "demo_descriptor alg n = VDict [(VStr (str ''algorithm''), VStr (str alg)),
     (VStr (str ''key_id''), VStr (demo_kid alg n)), (VStr (str ''public''), VStr (b64url (demo_seed n)))]"

definition demo_policy :: "nat \<Rightarrow> val" where
  "demo_policy n = policy_val [demo_descriptor ''Ed25519'' n] 1"

lemma demo_key_id:
  assumes "n < 256" and "alg = ''Ed25519'' \<or> alg = ''X25519''"
  shows "key_id demo alg (demo_seed n) = Inr (demo_kid alg n)" "isascii (demo_kid alg n)"
proof -
  let ?d = "[(VStr (str ''algorithm''), VStr (str alg)), (VStr (str ''public''), VStr (b64url (demo_seed n)))]"
  have "plain (VDict ?d)"
    using assms by (auto simp: isascii_b64url demo_seed_ok isascii_str)
  from plain_digest [OF this] obtain m where "digest demo ''dm.identity.key/v1'' ?d = Inr (sha256 m)" .
  then have "key_id demo alg (demo_seed n) = Inr (str ''dm:key:v1:'' @ b64url (sha256 m))"
    by (simp add: key_id_def demo_seed_ok)
  then show "key_id demo alg (demo_seed n) = Inr (demo_kid alg n)" "isascii (demo_kid alg n)"
    by (simp_all add: demo_kid_def isascii_b64url isascii_str)
qed

lemma demo_descriptors:
  assumes "n < 256"
  shows "signing_descriptor demo (demo_seed n) = Inr (demo_descriptor ''Ed25519'' n)"
    "key_descriptor demo ''X25519'' (demo_seed n) = Inr (demo_descriptor ''X25519'' n)"
    "descriptor_public demo (demo_descriptor ''Ed25519'' n) ''Ed25519'' = Inr (demo_seed n)"
    "descriptor_public demo (demo_descriptor ''X25519'' n) ''X25519'' = Inr (demo_seed n)"
    "descriptor_key_id (demo_descriptor alg n) = VStr (demo_kid alg n)"
    "plain (demo_descriptor ''Ed25519'' n)" "plain (demo_descriptor ''X25519'' n)"
proof -
  have k: "key_descriptor demo alg (demo_seed n) = Inr (demo_descriptor alg n)"
    if "alg = ''Ed25519'' \<or> alg = ''X25519''" for alg
    using demo_key_id [OF assms that] by (simp add: key_descriptor_Inr demo_descriptor_def)
  then show "signing_descriptor demo (demo_seed n) = Inr (demo_descriptor ''Ed25519'' n)"
    "key_descriptor demo ''X25519'' (demo_seed n) = Inr (demo_descriptor ''X25519'' n)"
    by (simp_all add: signing_descriptor_def seed_public_def demo_seed_ok)
  show "descriptor_public demo (demo_descriptor ''Ed25519'' n) ''Ed25519'' = Inr (demo_seed n)"
    "descriptor_public demo (demo_descriptor ''X25519'' n) ''X25519'' = Inr (demo_seed n)"
    by (rule key_descriptor_public [OF k]; simp add: demo_seed_ok assms)+
  show "descriptor_key_id (demo_descriptor alg n) = VStr (demo_kid alg n)"
    by (simp add: descriptor_key_id_def demo_descriptor_def dict_simps)
  show "plain (demo_descriptor ''Ed25519'' n)" "plain (demo_descriptor ''X25519'' n)"
    using demo_key_id [OF assms] by (auto simp: demo_descriptor_def isascii_b64url demo_seed_ok assms isascii_str)
qed

lemma demo_policies:
  assumes "n < 256"
  shows "threshold_policy_check demo (demo_policy n) = Inr (1, [(VStr (demo_kid ''Ed25519'' n), demo_seed n)])"
    "policy_publics demo (demo_policy n) = Inr [demo_seed n]" "plain (demo_policy n)"
proof -
  let ?d = "[(VStr (str ''keys''), VList [demo_descriptor ''Ed25519'' n]), (VStr (str ''threshold''), VInt 1)]"
  have closed: "closed_id [''keys'', ''threshold''] ''threshold policy'' (demo_policy n) = Inr ?d"
    unfolding demo_policy_def policy_val_def by (rule closed_id_dict) (auto simp: dkeys_def key_set_def)
  have kid: "get_default ''key_id'' (demo_descriptor ''Ed25519'' n) = Inr (VStr (demo_kid ''Ed25519'' n))"
    by (simp add: demo_descriptor_def dict_simps)
  show check: "threshold_policy_check demo (demo_policy n) = Inr (1, [(VStr (demo_kid ''Ed25519'' n), demo_seed n)])"
    by (simp add: threshold_policy_check_def closed dict_simps kid demo_descriptors [OF assms] max_keys_def)
  then show "policy_publics demo (demo_policy n) = Inr [demo_seed n]"
    by (simp add: policy_publics_def public_map_def)
  show "plain (demo_policy n)"
    using demo_descriptors(6) [OF assms] by (simp add: demo_policy_def policy_val_def isascii_str)
qed

lemma demo_separate: "m < 256 \<Longrightarrow> n < 256 \<Longrightarrow> m \<noteq> n
    \<Longrightarrow> require_separate_policies demo (demo_policy m) (demo_policy n) = Inr ()"
  by (simp add: require_separate_policies_def demo_policies)

text \<open>The seed map of one seed.\<close>

definition demo_seeds :: "nat \<Rightarrow> (pystr \<times> bytes) list" where
  "demo_seeds n = [(demo_kid ''Ed25519'' n, demo_seed n)]"

lemma demo_seeds:
  assumes "n < 256"
  shows "seed_map demo [demo_seed n] = Inr (demo_seeds n)" "seeds_ok demo (demo_seeds n)"
    "holds_keys demo [(VStr (demo_kid ''Ed25519'' n), demo_seed n)] (demo_seeds n)" "length (demo_seeds n) = 1"
proof -
  show map: "seed_map demo [demo_seed n] = Inr (demo_seeds n)"
    by (simp add: seed_map_def demo_descriptors [OF assms] demo_seeds_def)
  show "seeds_ok demo (demo_seeds n)" by (rule seed_map_ok [OF map])
  show "holds_keys demo [(VStr (demo_kid ''Ed25519'' n), demo_seed n)] (demo_seeds n)" "length (demo_seeds n) = 1"
    using demo_seed_ok(1) [OF assms] by (simp_all add: holds_keys_def demo_seeds_def)
qed

section \<open>Genesis\<close>

definition demo_core :: dict where
  "demo_core = [(VStr (str ''nonce''), VStr (b64url (demo_seed 9))), (VStr (str ''protocol''), VStr (str ''daimon-matrix'')),
     (VStr (str ''recovery''), demo_policy 2), (VStr (str ''root''), demo_policy 1), (VStr (str ''version''), VInt 1)]"

definition demo_being :: pystr where
  "demo_being = str ''dm:being:v1:'' @ b64url (projr (digest demo ''dm.identity.being/v1'' demo_core))"

definition demo_genesis_body :: dict where
  "demo_genesis_body = [(VStr (str ''being_ref''), VStr demo_being),
     (VStr (str ''control_generation''), VInt 0), (VStr (str ''control_sequence''), VInt 0),
     (VStr (str ''core''), VDict demo_core), (VStr (str ''created_at_ms''), VInt 1000)]"

definition demo_head :: pystr where
  "demo_head = str ''dm:identity:v1:'' @ b64url (projr (digest demo (domain_of ''genesis'') demo_genesis_body))"

definition demo_state :: control_state where
  "demo_state = \<lparr>cs_being_ref = demo_being, cs_head = demo_head, cs_generation = 0, cs_sequence = 0,
     cs_root_policy = demo_policy 1, cs_recovery_policy = demo_policy 2, cs_revocations = [],
     cs_credential_authorities = [(VStr demo_head, demo_policy 1)], cs_carried = [],
     cs_activated_binding = None\<rparr>"

lemma demo_core_plain: "plain (VDict demo_core)"
  using demo_policies(3) by (simp add: demo_core_def isascii_b64url demo_seed_ok isascii_str)

lemma demo_being_digest:
  obtains m where "digest demo ''dm.identity.being/v1'' demo_core = Inr (sha256 m)"
    "demo_being = str ''dm:being:v1:'' @ b64url (sha256 m)" "isascii demo_being"
proof -
  from plain_digest [OF demo_core_plain] obtain m where "digest demo ''dm.identity.being/v1'' demo_core = Inr (sha256 m)" .
  then show thesis by (rule_tac that) (simp_all add: demo_being_def isascii_b64url isascii_str)
qed

lemma demo_genesis_plain: "plain (VDict demo_genesis_body)"
proof -
  obtain m where "isascii demo_being" using demo_being_digest by metis
  then show ?thesis using demo_core_plain by (simp add: demo_genesis_body_def isascii_str)
qed

text \<open>Assembling an artifact from slots succeeds when its body is plain.\<close>

lemma demo_artifact:
  assumes "plain (VDict body)"
  obtains a where "artifact demo kind body (map slot_val ts) v2 = Inr a"
proof -
  obtain m where "digest demo (if v2 then credential_v2_domain else domain_of kind) body = Inr (sha256 m)"
    by (rule plain_digest [OF assms])
  then show thesis using that by (simp only: artifact_def sort_signatures_slots Let_def bindR_simps)
qed

lemma demo_genesis: "\<exists>a. verify_genesis demo a = Inr demo_state"
proof -
  obtain b where b: "digest demo ''dm.identity.being/v1'' demo_core = Inr (sha256 b)"
    "demo_being = str ''dm:being:v1:'' @ b64url (sha256 b)" by (rule demo_being_digest)
  obtain m where m: "domain_bytes demo (domain_of ''genesis'') demo_genesis_body = Inr m"
    "digest demo (domain_of ''genesis'') demo_genesis_body = Inr (sha256 m)"
    by (rule plain_digest [OF demo_genesis_plain])
  obtain a where a: "artifact demo ''genesis'' demo_genesis_body
      (map slot_val (slots_of demo (demo_seeds 1) ''root-authorization'' m
         @ slots_of demo (demo_seeds 2) ''recovery-possession'' (possession_preimage ''genesis'' (sha256 m)))) False = Inr a"
    by (rule demo_artifact [OF demo_genesis_plain])
  have "verify_genesis demo a = Inr \<lparr>cs_being_ref = str ''dm:being:v1:'' @ b64url (sha256 b),
     cs_head = str ''dm:identity:v1:'' @ b64url (sha256 m), cs_generation = 0, cs_sequence = 0,
     cs_root_policy = demo_policy 1, cs_recovery_policy = demo_policy 2, cs_revocations = [],
     cs_credential_authorities = [(VStr (str ''dm:identity:v1:'' @ b64url (sha256 m)), demo_policy 1)],
     cs_carried = [], cs_activated_binding = None\<rparr>"
    by (rule genesis_verifies [OF demo_signing_ok a demo_genesis_body_def [unfolded b(2)] demo_core_def b(1) m(2,1)
          _ _ demo_policies(1) demo_seeds(2,3) _ demo_policies(1) demo_seeds(2,3)])
      (simp_all add: demo_seed_ok demo_seeds demo_separate max_signatures_def)
  then show ?thesis by (simp add: demo_state_def b(2) demo_head_def m(2)) blast
qed

section \<open>A revocation and a recovery\<close>

definition demo_embodiment :: pystr where
  "demo_embodiment = str ''embodiment:00000000-0000-4000-8000-000000000001''"

lemma demo_ascii: "isascii demo_embodiment" "isascii demo_being" "isascii demo_head"
proof -
  show "isascii demo_embodiment" by (simp add: demo_embodiment_def isascii_str)
  show "isascii demo_being" by (rule demo_being_digest)
  obtain m where "digest demo (domain_of ''genesis'') demo_genesis_body = Inr (sha256 m)"
    by (rule plain_digest [OF demo_genesis_plain])
  then show "isascii demo_head" by (simp add: demo_head_def isascii_b64url isascii_str)
qed

lemma demo_state_sel [simp]:
  "cs_being_ref demo_state = demo_being" "cs_head demo_state = demo_head" "cs_generation demo_state = 0"
  "cs_sequence demo_state = 0" "cs_root_policy demo_state = demo_policy 1"
  "cs_recovery_policy demo_state = demo_policy 2" "cs_revocations demo_state = []"
  "cs_credential_authorities demo_state = [(VStr demo_head, demo_policy 1)]" "cs_carried demo_state = []"
  by (simp_all add: demo_state_def)

lemma demo_revocation:
  "\<exists>a h. create_revocation demo demo_state [demo_seed 1] demo_embodiment 5 1 = Inr a
     \<and> verify_successor demo a demo_state = Inr (demo_state\<lparr>
      cs_head := h, cs_sequence := 1,
      cs_revocations := [(VStr demo_embodiment, \<lparr>cutoff = 5, rev_generation = 1\<rparr>)],
      cs_credential_authorities := AList.update (VStr h) (demo_policy 1) [(VStr demo_head, demo_policy 1)]\<rparr>)"
proof -
  let ?body = "successor_body demo_state [(''embodiment_id'', VStr demo_embodiment),
    (''cutoff_incarnation_sequence'', VInt 5), (''revocation_generation'', VInt 1)]"
  have plain: "plain (VDict ?body)" by (simp add: successor_body_def demo_ascii isascii_str)
  obtain m where m: "domain_bytes demo (domain_of ''revocation'') ?body = Inr m" by (rule plain_digest [OF plain])
  obtain a where "artifact demo ''revocation'' ?body
      (map slot_val (slots_of demo (demo_seeds 1) ''root-authorization'' m)) False = Inr a"
    by (rule demo_artifact [OF plain])
  then have a: "create_revocation demo demo_state [demo_seed 1] demo_embodiment 5 1 = Inr a"
    using m demo_seeds(1,2) [of 1] by (simp add: create_revocation_def sign_control_def signatures_slots)
  have next_one: "next_revocation demo_state (VStr demo_embodiment) = 1" by (simp add: next_revocation_def)
  obtain h where "verify_successor demo a demo_state = Inr (demo_state\<lparr>
      cs_head := h, cs_sequence := cs_sequence demo_state + 1,
      cs_revocations := AList.update (VStr demo_embodiment) \<lparr>cutoff = 5, rev_generation = next_revocation demo_state (VStr demo_embodiment)\<rparr> (cs_revocations demo_state),
      cs_credential_authorities := AList.update (VStr h) (cs_root_policy demo_state) (cs_credential_authorities demo_state)\<rparr>)"
    by (rule revocation_verifies [where e = demo_embodiment and c = 5 and n = 1 and sm = "demo_seeds 1",
          OF demo_signing_ok a [folded next_one] _ demo_seeds(1,3)])
      (simp_all add: demo_policies demo_seeds max_signatures_def next_one)
  then show ?thesis using a by (auto simp: next_one)
qed

definition demo_recovery_body :: dict where
  "demo_recovery_body = [(VStr (str ''being_ref''), VStr demo_being),
     (VStr (str ''competing_control_heads''), VList [VStr demo_head]),
     (VStr (str ''control_generation''), VInt 1), (VStr (str ''control_sequence''), VInt 0),
     (VStr (str ''revocation_high_water''), VDict []), (VStr (str ''replacement_root''), demo_policy 3),
     (VStr (str ''revoked_embodiments''), VList [VStr demo_embodiment])]"

lemma demo_recovery_items:
  "item demo_recovery_body ''being_ref'' = VStr demo_being"
  "item demo_recovery_body ''competing_control_heads'' = VList [VStr demo_head]"
  "item demo_recovery_body ''control_generation'' = VInt 1" "item demo_recovery_body ''control_sequence'' = VInt 0"
  "item demo_recovery_body ''revocation_high_water'' = VDict []" "item demo_recovery_body ''replacement_root'' = demo_policy 3"
  "item demo_recovery_body ''revoked_embodiments'' = VList [VStr demo_embodiment]"
  by (simp_all add: demo_recovery_body_def dict_simps)

definition demo_recovered :: "pystr \<Rightarrow> control_state" where
  "demo_recovered h = \<lparr>cs_being_ref = demo_being, cs_head = h, cs_generation = 1, cs_sequence = 0,
     cs_root_policy = demo_policy 3, cs_recovery_policy = demo_policy 2,
     cs_revocations = [(VStr demo_embodiment, \<lparr>cutoff = 0, rev_generation = 1\<rparr>)],
     cs_credential_authorities = [(VStr h, demo_policy 3)], cs_carried = [], cs_activated_binding = None\<rparr>"

lemma demo_recovery:
  "\<exists>a h. verify_recovery demo a [demo_state] = Inr (demo_recovered h)
     \<and> verify_recovery_from_anchor demo a demo_state = Inr (demo_recovered h)"
proof -
  have plain: "plain (VDict demo_recovery_body)"
    using demo_policies(3) [of 3] by (simp add: demo_recovery_body_def demo_ascii isascii_str)
  obtain m where m: "domain_bytes demo (domain_of ''recovery'') demo_recovery_body = Inr m"
    "digest demo (domain_of ''recovery'') demo_recovery_body = Inr (sha256 m)" by (rule plain_digest [OF plain])
  let ?q = "slots_of demo (demo_seeds 2) ''recovery-authorization'' m"
  let ?r = "slots_of demo (demo_seeds 3) ''new-root-possession'' (possession_preimage ''recovery'' (sha256 m))"
  obtain a where a: "artifact demo ''recovery'' demo_recovery_body (map slot_val (?q @ ?r)) False = Inr a"
    by (rule demo_artifact [OF plain])
  have "slots_ok ''recovery'' (?q @ ?r)"
    by (simp add: slots_ok_def allowed_roles_def slots_of_def demo_seeds_def max_signatures_def)
  from artifact_verifies [OF a this] m(2)
  have w: "verify_wrapper demo a ''recovery'' False = Inr (signed_wrapper demo ''recovery'' demo_recovery_body (sha256 m) (?q @ ?r))"
    by (auto simp: signed_wrapper_def)
  have sets: "{t \<in> set (?q @ ?r). fst (snd t) = ''recovery-authorization''} = set ?q"
    "{t \<in> set (?q @ ?r). fst (snd t) = ''new-root-possession''} = set ?r" by auto
  have t: "verify_threshold demo (map slot_row (sort_key slot_key (?q @ ?r))) (demo_policy 2) ''recovery-authorization'' m = Inr ()"
    by (rule verify_threshold_seeds [OF demo_signing_ok demo_seeds(2,3) demo_policies(1) _ sets(1)]) (simp_all add: demo_seeds)
  have u: "verify_threshold demo (map slot_row (sort_key slot_key (?q @ ?r))) (demo_policy 3) ''new-root-possession''
      (possession_preimage ''recovery'' (sha256 m)) = Inr ()"
    by (rule verify_threshold_seeds [OF demo_signing_ok demo_seeds(2,3) demo_policies(1) _ sets(2)]) (simp_all add: demo_seeds)
  have closed: "closed_id recovery_fields ''recovery body'' (VDict demo_recovery_body) = Inr demo_recovery_body"
    by (rule closed_id_dict) (auto simp: demo_recovery_body_def recovery_fields_def dkeys_def key_set_def)
  have canonical: "\<exists>b. canonical_bytes demo (demo_policy 2) = Inr b"
    using plain_canonical [of "demo_policy 2" demo] demo_policies(3) [of 2] by auto
  have signed: "check_recovery_signatures demo (signed_wrapper demo ''recovery'' demo_recovery_body (sha256 m) (?q @ ?r))
      demo_recovery_body (demo_policy 2) = Inr ()"
    by (simp add: check_recovery_signatures_def demo_recovery_items m t u demo_separate)
  let ?h = "w_id (signed_wrapper demo ''recovery'' demo_recovery_body (sha256 m) (?q @ ?r))"
  have sorted: "sorted_set_check (VList [VStr demo_embodiment]) = Inr True"
    using is_sorted_set_strings [of "[demo_embodiment]"] by (simp add: sorted_set_check_True)
  have "verify_recovery demo a [demo_state] = Inr (demo_recovered ?h)"
    using canonical
    by (auto simp: verify_recovery_def w closed demo_recovery_items sorted signed merge_revocations_def
        high_water_val_def recovered_state_def bump_revocation_def demo_recovered_def)
  moreover have "verify_recovery_from_anchor demo a demo_state = Inr (demo_recovered ?h)"
    by (auto simp: verify_recovery_from_anchor_def w closed demo_recovery_items sorted signed Let_def
        covers_revocations_def recovered_state_def bump_revocation_def demo_recovered_def demo_head_def)
  ultimately show ?thesis by blast
qed

section \<open>A credential and an incarnation\<close>

definition demo_credential_body :: dict where
  "demo_credential_body = [(VStr (str ''being_ref''), VStr demo_being), (VStr (str ''body_ref''), VStr (str ''body'')),
     (VStr (str ''control_head''), VStr demo_head), (VStr (str ''embodiment_id''), VStr demo_embodiment),
     (VStr (str ''encryption_key''), demo_descriptor ''X25519'' 5), (VStr (str ''purposes''), VList [VStr (str ''messages'')]),
     (VStr (str ''revocation_generation''), VInt 0), (VStr (str ''signing_key''), demo_descriptor ''Ed25519'' 4),
     (VStr (str ''transport_principals''), VList [VDict [(VStr (str ''key''), demo_descriptor ''Ed25519'' 6),
        (VStr (str ''principal_id''), VStr (str ''peer'')), (VStr (str ''scheme''), VStr (str ''matrix''))]]),
     (VStr (str ''valid_from_ms''), VInt 1000), (VStr (str ''valid_until_ms''), VInt 9000)]"

lemma demo_credential_items:
  "item demo_credential_body ''being_ref'' = VStr demo_being"
  "item demo_credential_body ''control_head'' = VStr demo_head"
  "item demo_credential_body ''embodiment_id'' = VStr demo_embodiment"
  "item demo_credential_body ''encryption_key'' = demo_descriptor ''X25519'' 5"
  "item demo_credential_body ''purposes'' = VList [VStr (str ''messages'')]"
  "item demo_credential_body ''revocation_generation'' = VInt 0"
  "item demo_credential_body ''signing_key'' = demo_descriptor ''Ed25519'' 4"
  "item demo_credential_body ''transport_principals'' = VList [VDict [(VStr (str ''key''), demo_descriptor ''Ed25519'' 6),
        (VStr (str ''principal_id''), VStr (str ''peer'')), (VStr (str ''scheme''), VStr (str ''matrix''))]]"
  "item demo_credential_body ''valid_from_ms'' = VInt 1000" "item demo_credential_body ''valid_until_ms'' = VInt 9000"
  by (simp_all add: demo_credential_body_def dict_simps)

lemma demo_transport:
  "check_transport demo [demo_seed 4, demo_seed 5, demo_seed 1, demo_seed 2]
     (item demo_credential_body ''transport_principals'') = Inr ()"
proof -
  have "closed_id [''key'', ''principal_id'', ''scheme''] ''transport principal''
      (VDict [(VStr (str ''key''), demo_descriptor ''Ed25519'' 6),
        (VStr (str ''principal_id''), VStr (str ''peer'')), (VStr (str ''scheme''), VStr (str ''matrix''))])
    = Inr [(VStr (str ''key''), demo_descriptor ''Ed25519'' 6),
        (VStr (str ''principal_id''), VStr (str ''peer'')), (VStr (str ''scheme''), VStr (str ''matrix''))]"
    by (rule closed_id_dict) (auto simp: dkeys_def key_set_def)
  then show ?thesis
    by (simp add: check_transport_def demo_credential_items getitem_def dict_simps demo_descriptors hashable_res_def Let_def)
qed

lemma demo_credential_at:
  "\<exists>a h. (\<forall>allow t. 1000 \<le> t \<and> t \<le> 9000 \<longrightarrow> verify_embodiment_credential demo a demo_state t allow = Inr demo_credential_body)
     \<and> dget a ''artifact_id'' = Some (VStr h)
     \<and> verify_embodiment_credential demo a (demo_state\<lparr>cs_revocations := [(VStr demo_embodiment, \<lparr>cutoff = 5, rev_generation = 1\<rparr>)]\<rparr>)
         2000 True = Inr demo_credential_body
     \<and> verify_embodiment_credential demo a (demo_state\<lparr>cs_revocations := [(VStr demo_embodiment, \<lparr>cutoff = 5, rev_generation = 0\<rparr>)]\<rparr>)
         2000 False = Inr demo_credential_body"
proof -
  let ?domain = "domain_of ''embodiment-credential''"
  have plain: "plain (VDict demo_credential_body)"
    using demo_descriptors(6) [of 4] demo_descriptors(6) [of 6] demo_descriptors(7) [of 5]
    by (simp add: demo_credential_body_def demo_ascii isascii_str)
  obtain m where m: "domain_bytes demo ?domain demo_credential_body = Inr m"
    "digest demo ?domain demo_credential_body = Inr (sha256 m)" by (rule plain_digest [OF plain])
  let ?r = "slots_of demo (demo_seeds 1) ''root-authorization'' m"
  let ?s = "(demo_kid ''Ed25519'' 4, ''embodiment-acceptance'',
      ed25519_sign demo (demo_seed 4) (acceptance_preimage ?domain (sha256 m)))"
  define ts where "ts = ?r @ [?s]"
  obtain a where a: "artifact demo ''embodiment-credential'' demo_credential_body (map slot_val ts) False = Inr a"
    by (rule demo_artifact [OF plain])
  have "slots_ok ''embodiment-credential'' ts"
    by (simp add: ts_def slots_ok_def allowed_roles_def slots_of_def demo_seeds_def max_signatures_def)
  from artifact_verifies [OF a this] m(2)
  have w: "verify_wrapper demo a ''embodiment-credential'' False
      = Inr (signed_wrapper demo ''embodiment-credential'' demo_credential_body (sha256 m) ts)"
    by (auto simp: signed_wrapper_def)
  have schema: "(dget a ''schema'' = Some (VStr (str ''dm.identity.artifact/v2''))) = False"
    "dget a ''artifact_id'' = Some (VStr (str ''dm:identity:v1:'' @ b64url (sha256 m)))"
    using a m(2) by (auto simp: artifact_def Let_def res dict_simps)
  have sets: "{t \<in> set ts. fst (snd t) = ''root-authorization''} = set ?r" by (auto simp: ts_def)
  have t: "verify_threshold demo (map slot_row (sort_key slot_key ts)) (demo_policy 1) ''root-authorization'' m = Inr ()"
    by (rule verify_threshold_seeds [OF demo_signing_ok demo_seeds(2,3) demo_policies(1) _ sets]) (simp_all add: demo_seeds)
  have acceptance: "check_acceptance demo (signed_wrapper demo ''embodiment-credential'' demo_credential_body (sha256 m) ts)
      demo_credential_body ?domain (demo_seed 4) = Inr ()"
    using credential_signature_ok [where seed = "demo_seed 4" and P = demo and d = "demo_descriptor ''Ed25519'' 4"
        and k = "demo_kid ''Ed25519'' 4" and h = "sha256 m" and ts = ?r and domain = ?domain
        and body = demo_credential_body and w = "signed_wrapper demo ''embodiment-credential'' demo_credential_body (sha256 m) ts"]
    by (simp add: demo_seed_ok demo_signing_ok demo_descriptors demo_credential_items case_prod_beta ts_def)
  have closed: "closed_id (credential_fields False) ''embodiment credential body'' (VDict demo_credential_body) = Inr demo_credential_body"
    by (rule closed_id_dict) (auto simp: demo_credential_body_def credential_fields_def dkeys_def key_set_def)
  have purposes: "check_purposes False demo_credential_body = Inr ()"
    using is_sorted_set_strings [of "[str ''messages'']"]
    by (simp add: check_purposes_def demo_credential_items sorted_set_check_def)
  have valid: "in_validity False demo_credential_body t = Inr True" if "1000 \<le> t" "t \<le> 9000" for t
    using that by (simp add: in_validity_def demo_credential_items num_res_def)
  note facts = verify_embodiment_credential_def schema w closed purposes valid demo_credential_items(1-4,6,7)
    hashable_res_def demo_descriptors demo_policies demo_transport m(1) t acceptance check_not_revoked_def Let_def
  have "\<forall>allow t. 1000 \<le> t \<and> t \<le> 9000 \<longrightarrow> verify_embodiment_credential demo a demo_state t allow = Inr demo_credential_body"
    by (simp add: facts del: One_nat_def)
  moreover have "verify_embodiment_credential demo a (demo_state\<lparr>cs_revocations := [(VStr demo_embodiment, \<lparr>cutoff = 5, rev_generation = 1\<rparr>)]\<rparr>)
         2000 True = Inr demo_credential_body"
    by (simp add: facts del: One_nat_def)
  moreover have "verify_embodiment_credential demo a (demo_state\<lparr>cs_revocations := [(VStr demo_embodiment, \<lparr>cutoff = 5, rev_generation = 0\<rparr>)]\<rparr>)
         2000 False = Inr demo_credential_body"
    by (simp add: facts num_res_def del: One_nat_def)
  ultimately show ?thesis using schema(2) by blast
qed

lemma demo_credential:
  "\<exists>a h. (\<forall>allow. verify_embodiment_credential demo a demo_state 2000 allow = Inr demo_credential_body)
     \<and> dget a ''artifact_id'' = Some (VStr h)
     \<and> verify_embodiment_credential demo a (demo_state\<lparr>cs_revocations := [(VStr demo_embodiment, \<lparr>cutoff = 5, rev_generation = 1\<rparr>)]\<rparr>)
         2000 True = Inr demo_credential_body
     \<and> verify_embodiment_credential demo a (demo_state\<lparr>cs_revocations := [(VStr demo_embodiment, \<lparr>cutoff = 5, rev_generation = 0\<rparr>)]\<rparr>)
         2000 False = Inr demo_credential_body"
proof -
  obtain a h where a: "\<forall>allow t. 1000 \<le> t \<and> t \<le> 9000
      \<longrightarrow> verify_embodiment_credential demo a demo_state t allow = Inr demo_credential_body"
    "dget a ''artifact_id'' = Some (VStr h)"
    "verify_embodiment_credential demo a (demo_state\<lparr>cs_revocations := [(VStr demo_embodiment, \<lparr>cutoff = 5, rev_generation = 1\<rparr>)]\<rparr>)
         2000 True = Inr demo_credential_body"
    "verify_embodiment_credential demo a (demo_state\<lparr>cs_revocations := [(VStr demo_embodiment, \<lparr>cutoff = 5, rev_generation = 0\<rparr>)]\<rparr>)
         2000 False = Inr demo_credential_body" using demo_credential_at by blast
  then have "\<forall>allow. verify_embodiment_credential demo a demo_state 2000 allow = Inr demo_credential_body" by simp
  with a(2-4) show ?thesis by blast
qed

definition demo_incarnation :: pystr where
  "demo_incarnation = str ''incarnation:00000000-0000-4000-8000-000000000002''"

text \<open>The body a verified incarnation returns is the one it carries.\<close>

lemma incarnation_body:
  "verify_incarnation_authorization P a c s t = Inr b \<Longrightarrow> verify_incarnation_authorization P a c s' t' = Inr b' \<Longrightarrow> b = b'"
  by (auto simp: verify_incarnation_authorization_def res)

lemma demo_incarnation_at:
  "\<exists>c h a i body. (\<forall>allow t. 1000 \<le> t \<and> t \<le> 9000
        \<longrightarrow> verify_embodiment_credential demo c demo_state t allow = Inr demo_credential_body)
     \<and> dget c ''artifact_id'' = Some (VStr h) \<and> dget a ''artifact_id'' = Some (VStr i)
     \<and> dget a ''body'' = Some (VDict body) \<and> dget body ''started_at_ms'' = Some (VInt 1500)
     \<and> create_incarnation_authorization demo c (demo_seed 4) demo_incarnation 3 1500 = Inr a
     \<and> (\<forall>t. 1500 \<le> t \<and> t \<le> 9000 \<longrightarrow> verify_incarnation_authorization demo a c demo_state t = Inr body)
     \<and> item body ''incarnation_id'' = VStr demo_incarnation \<and> item body ''incarnation_sequence'' = VInt 3
     \<and> item body ''embodiment_id'' = VStr demo_embodiment
     \<and> verify_incarnation_authorization demo a c
         (demo_state\<lparr>cs_revocations := [(VStr demo_embodiment, \<lparr>cutoff = 5, rev_generation = 1\<rparr>)]\<rparr>) 2000 = Inr body"
proof -
  obtain c h where c: "\<forall>allow t. 1000 \<le> t \<and> t \<le> 9000
      \<longrightarrow> verify_embodiment_credential demo c demo_state t allow = Inr demo_credential_body"
    "dget c ''artifact_id'' = Some (VStr h)"
    "verify_embodiment_credential demo c (demo_state\<lparr>cs_revocations := [(VStr demo_embodiment, \<lparr>cutoff = 5, rev_generation = 1\<rparr>)]\<rparr>)
         2000 True = Inr demo_credential_body" using demo_credential_at by blast
  obtain w kind v2 where w: "verify_wrapper demo c kind v2 = Inr w" "demo_credential_body = w_body w"
    using c(1) [rule_format, of 2000 True] by (auto elim: verify_embodiment_credential_body)
  have ids: "isascii h" using verify_wrapperD(1,4,5) [OF w(1)] c(2) 
    by (auto simp: digest_def res isascii_str split: if_splits) (metis isascii_b64url is_bytes_sha256)+
  let ?body = "[(VStr (str ''being_ref''), VStr demo_being), (VStr (str ''embodiment_credential_id''), VStr h),
      (VStr (str ''embodiment_id''), VStr demo_embodiment), (VStr (str ''incarnation_id''), VStr demo_incarnation),
      (VStr (str ''incarnation_sequence''), VInt 3), (VStr (str ''started_at_ms''), VInt 1500)]"
  have plain: "plain (VDict ?body)" by (simp add: demo_ascii demo_incarnation_def ids isascii_str)
  obtain m where m: "domain_bytes demo (domain_of ''incarnation-authorization'') ?body = Inr m"
    by (rule plain_digest [OF plain])
  have body: "dget c ''body'' = Some (VDict demo_credential_body)" using verify_wrapperD(2) [OF w(1)] w(2) by simp
  obtain a where artifact_a: "artifact demo ''incarnation-authorization'' ?body (map slot_val
      [(demo_kid ''Ed25519'' 4, ''incarnation-authorization'', demo_seed 4 @ demo_seed 4)]) False = Inr a"
    by (rule demo_artifact [OF plain])
  then have a: "create_incarnation_authorization demo c (demo_seed 4) demo_incarnation 3 1500 = Inr a"
    using m by (simp add: create_incarnation_authorization_def getitem_def body c(2) demo_credential_body_def dict_simps
        signature_def demo_descriptors Let_def)
  have at: "\<exists>body. verify_incarnation_authorization demo a c demo_state t = Inr body
    \<and> item body ''incarnation_id'' = VStr demo_incarnation \<and> item body ''incarnation_sequence'' = VInt 3
    \<and> item body ''embodiment_id'' = item demo_credential_body ''embodiment_id''" if t: "1500 \<le> t" "t \<le> 9000" for t
  proof -
    have valid: "verify_embodiment_credential demo c demo_state t True = Inr demo_credential_body" using c(1) t by simp
    show ?thesis
      by (rule incarnation_verifies [OF demo_signing_ok demo_seed_ok(1) valid demo_credential_items(7) _ a])
        (simp_all add: demo_descriptors t)
  qed
  from at [of 2000] obtain body where body': "verify_incarnation_authorization demo a c demo_state 2000 = Inr body"
    "item body ''incarnation_id'' = VStr demo_incarnation" "item body ''incarnation_sequence'' = VInt 3"
    "item body ''embodiment_id'' = VStr demo_embodiment" unfolding demo_credential_items by auto
  have all: "verify_incarnation_authorization demo a c demo_state t = Inr body" if "1500 \<le> t" "t \<le> 9000" for t
    using at [OF that] incarnation_body [OF body'(1)] by metis
  have "\<exists>body'. verify_incarnation_authorization demo a c
      (demo_state\<lparr>cs_revocations := [(VStr demo_embodiment, \<lparr>cutoff = 5, rev_generation = 1\<rparr>)]\<rparr>) 2000 = Inr body'
    \<and> item body' ''incarnation_id'' = VStr demo_incarnation \<and> item body' ''incarnation_sequence'' = VInt 3
    \<and> item body' ''embodiment_id'' = item demo_credential_body ''embodiment_id''"
    by (rule incarnation_verifies [OF demo_signing_ok demo_seed_ok(1) c(3) demo_credential_items(7) _ a])
      (simp_all add: demo_descriptors demo_credential_items)
  then have revoked: "verify_incarnation_authorization demo a c
      (demo_state\<lparr>cs_revocations := [(VStr demo_embodiment, \<lparr>cutoff = 5, rev_generation = 1\<rparr>)]\<rparr>) 2000 = Inr body"
    using incarnation_body [OF body'(1)] by metis
  obtain v where v: "verify_wrapper demo a ''incarnation-authorization'' False = Inr v" "body = w_body v"
    using body'(1) by (auto simp: verify_incarnation_authorization_def res)
  have parts: "dget a ''artifact_id'' = Some (VStr (w_id v))" "dget a ''body'' = Some (VDict body)"
    using verify_wrapperD(1,2) [OF v(1)] v(2) by simp_all
  have "dget body ''started_at_ms'' = Some (VInt 1500)"
    using parts(2) artifact_a by (auto simp: artifact_def Let_def res dict_simps)
  then show ?thesis
    using c(1,2) parts a all body'(2-4) revoked by blast
qed

lemma demo_incarnation:
  "\<exists>c a body. (\<forall>allow. verify_embodiment_credential demo c demo_state 2000 allow = Inr demo_credential_body)
     \<and> create_incarnation_authorization demo c (demo_seed 4) demo_incarnation 3 1500 = Inr a
     \<and> verify_incarnation_authorization demo a c demo_state 2000 = Inr body
     \<and> item body ''incarnation_id'' = VStr demo_incarnation \<and> item body ''incarnation_sequence'' = VInt 3
     \<and> item body ''embodiment_id'' = VStr demo_embodiment
     \<and> verify_incarnation_authorization demo a c
         (demo_state\<lparr>cs_revocations := [(VStr demo_embodiment, \<lparr>cutoff = 5, rev_generation = 1\<rparr>)]\<rparr>) 2000 = Inr body"
proof -
  obtain c a body where "\<forall>allow t. 1000 \<le> t \<and> t \<le> 9000
        \<longrightarrow> verify_embodiment_credential demo c demo_state t allow = Inr demo_credential_body"
     "create_incarnation_authorization demo c (demo_seed 4) demo_incarnation 3 1500 = Inr a"
     "\<forall>t. 1500 \<le> t \<and> t \<le> 9000 \<longrightarrow> verify_incarnation_authorization demo a c demo_state t = Inr body"
     "item body ''incarnation_id'' = VStr demo_incarnation" "item body ''incarnation_sequence'' = VInt 3"
     "item body ''embodiment_id'' = VStr demo_embodiment"
     "verify_incarnation_authorization demo a c
         (demo_state\<lparr>cs_revocations := [(VStr demo_embodiment, \<lparr>cutoff = 5, rev_generation = 1\<rparr>)]\<rparr>) 2000 = Inr body"
    using demo_incarnation_at by metis
  then show ?thesis by (intro exI [of _ c] exI [of _ a] exI [of _ body]) simp
qed

end
