(* ===== verification/Identity_Properties.thy ===== *)
theory Identity_Properties
  imports Demo_Identity
begin

text \<open>
  What \<^verbatim>\<open>src/daimon_matrix/identity.py\<close> guarantees. \<open>descends\<close> is the reachability relation of
  control states: every operation that makes a new state from a known one.
\<close>

section \<open>Control states that follow from one another\<close>

inductive descends :: "platform \<Rightarrow> control_state \<Rightarrow> control_state \<Rightarrow> bool" for P where
  here: "descends P s s"
| successor: "descends P s t \<Longrightarrow> verify_successor P a t = Inr u \<Longrightarrow> descends P s u"
| recovery: "descends P s t \<Longrightarrow> t \<in> set states \<Longrightarrow> verify_recovery P a states = Inr u \<Longrightarrow> descends P s u"
| anchor: "descends P s t \<Longrightarrow> verify_recovery_from_anchor P a t = Inr u \<Longrightarrow> descends P s u"
| activation: "descends P s t \<Longrightarrow> verify_binding_activation P a b t = Inr u \<Longrightarrow> descends P s u"

lemma covers_tightens: "covers_revocations merged known \<Longrightarrow> tightens known merged"
proof (unfold tightens_def, intro allI impI)
  fix e r assume covers: "covers_revocations merged known" and "map_of known e = Some r"
  then have "(e, r) \<in> set known" by (simp add: map_of_SomeD)
  with covers show "\<exists>r'. map_of merged e = Some r' \<and> rev_generation r \<le> rev_generation r' \<and> cutoff r' \<le> cutoff r"
    by (force simp: covers_revocations_def list_all_iff split: option.splits)
qed

lemma verify_recovery_from_anchor_Inr:
  assumes "verify_recovery_from_anchor P art anchor = Inr s"
  obtains w hw high revoked hs generation where
    "verify_wrapper P art ''recovery'' False = Inr w"
    "item (w_body w) ''being_ref'' = VStr (cs_being_ref anchor)"
    "item (w_body w) ''competing_control_heads'' = VList hs" "VStr (cs_head anchor) \<in> set hs"
    "cs_generation anchor < generation"
    "item (w_body w) ''revocation_high_water'' = VDict hw" "parse_high_water hw = Some high"
    "covers_revocations high (cs_revocations anchor)"
    "check_recovery_signatures P w (w_body w) (cs_recovery_policy anchor) = Inr ()"
    "iter_vals (item (w_body w) ''revoked_embodiments'') = Inr revoked"
    "s = recovered_state w (w_body w) anchor generation (fold bump_revocation revoked high)"
  using assms unfolding verify_recovery_from_anchor_def
  by (clarsimp simp: res Let_def) (rule that; (assumption | simp))

lemma tightens_fold_bump: "tightens m (fold bump_revocation xs m)"
  by (rule tightens_fold) (rule tightens_bump)

lemma verify_recovery_position:
  assumes "verify_recovery P art states = Inr s" and "t \<in> set states"
  shows "cs_being_ref s = cs_being_ref t" "cs_generation t < cs_generation s" "cs_sequence s = 0"
proof -
  from assms(1) obtain w body s0 rest revoked where v: "states = s0 # rest"
    "verify_wrapper P art ''recovery'' False = Inr w" "w_body w = body"
    "s = recovered_state w body s0 (Max (set (map cs_generation states)) + 1)
           (fold bump_revocation revoked (merge_revocations states))"
    "item body ''revoked_embodiments'' = VList revoked"
    "item body ''competing_control_heads'' = VList (map VStr (sorted_list_of_set (set (map cs_head states))))"
    "check_recovery_signatures P w body (cs_recovery_policy s0) = Inr ()"
    "\<forall>t \<in> set states. cs_being_ref t = cs_being_ref s0"
    "\<forall>t \<in> set states. canonical_bytes P (cs_recovery_policy t) = canonical_bytes P (cs_recovery_policy s0)"
    by (rule verify_recovery_Inr)
  have "cs_generation t \<le> Max (set (map cs_generation states))" using assms(2) by (intro Max_ge) auto
  then show "cs_being_ref s = cs_being_ref t" "cs_generation t < cs_generation s" "cs_sequence s = 0"
    using bspec [OF v(8) assms(2)] unfolding v(4) by (simp_all add: recovered_state_def)
qed

lemma verify_recovery_from_anchor_position:
  assumes "verify_recovery_from_anchor P art t = Inr s"
  shows "cs_being_ref s = cs_being_ref t" "cs_generation t < cs_generation s" "cs_sequence s = 0"
    "tightens (cs_revocations t) (cs_revocations s)" "cs_recovery_policy s = cs_recovery_policy t"
proof -
  from assms obtain w hw high revoked hs generation where v:
    "verify_wrapper P art ''recovery'' False = Inr w"
    "item (w_body w) ''being_ref'' = VStr (cs_being_ref t)"
    "item (w_body w) ''competing_control_heads'' = VList hs" "VStr (cs_head t) \<in> set hs"
    "cs_generation t < generation"
    "item (w_body w) ''revocation_high_water'' = VDict hw" "parse_high_water hw = Some high"
    "covers_revocations high (cs_revocations t)"
    "check_recovery_signatures P w (w_body w) (cs_recovery_policy t) = Inr ()"
    "iter_vals (item (w_body w) ''revoked_embodiments'') = Inr revoked"
    "s = recovered_state w (w_body w) t generation (fold bump_revocation revoked high)"
    by (rule verify_recovery_from_anchor_Inr)
  then show "cs_being_ref s = cs_being_ref t" "cs_generation t < cs_generation s" "cs_sequence s = 0"
    "cs_recovery_policy s = cs_recovery_policy t"
    by (simp_all add: recovered_state_def)
  show "tightens (cs_revocations t) (cs_revocations s)"
    using tightens_trans [OF covers_tightens [OF v(8)] tightens_fold_bump] v(11) by (simp add: recovered_state_def)
qed

lemma verify_binding_activation_Inr:
  "verify_binding_activation P a b t = Inr u \<Longrightarrow> \<exists>i. u = t\<lparr>cs_activated_binding := Some i\<rparr>"
  by (auto simp: verify_binding_activation_def res)

definition later :: "control_state \<Rightarrow> control_state \<Rightarrow> bool" where
  "later s u \<longleftrightarrow> cs_generation s < cs_generation u
     \<or> cs_generation s = cs_generation u \<and> cs_sequence s \<le> cs_sequence u"

lemma descends_facts:
  assumes "descends P s u"
  shows "cs_being_ref u = cs_being_ref s \<and> tightens (cs_revocations s) (cs_revocations u) \<and> later s u"
  using assms
proof induction
  case (successor s t a u)
  then show ?case
    using verify_successor_Inr(1-3,5) [OF successor.hyps(2)] by (auto simp: later_def intro: tightens_trans)
next
  case (recovery s t states a u)
  then show ?case
    using verify_recovery_position [OF recovery.hyps(3,2)] verify_recovery_tightens [OF recovery.hyps(3,2)]
    by (auto simp: later_def intro: tightens_trans)
next
  case (anchor s t a u)
  then show ?case
    using verify_recovery_from_anchor_position [OF anchor.hyps(2)] by (auto simp: later_def intro: tightens_trans)
next
  case (activation s t a b u)
  then show ?case using verify_binding_activation_Inr [OF activation.hyps(2)] by (auto simp: later_def)
qed (simp add: later_def tightens_refl)

text \<open>A recovery raises what it revokes above whatever the branches had.\<close>

lemma rev_generation_fold_bump:
  "map_of m e = Some r \<Longrightarrow> \<exists>r'. map_of (fold bump_revocation xs m) e = Some r' \<and> rev_generation r \<le> rev_generation r'"
  using tightens_fold_bump [of m xs] by (fastforce simp: tightens_def)

lemma fold_bump_raises:
  assumes "e \<in> set xs" and "tightens old m"
  shows "\<exists>r. map_of (fold bump_revocation xs m) e = Some r
    \<and> (\<forall>p. map_of old e = Some p \<longrightarrow> rev_generation p < rev_generation r)"
  using assms
proof (induction xs arbitrary: m)
  case (Cons x xs)
  show ?case
  proof (cases "e = x")
    case True
    obtain r where r: "map_of (bump_revocation e m) e = Some r"
      "1 \<le> rev_generation r - (case map_of m e of None \<Rightarrow> 0 | Some p \<Rightarrow> rev_generation p)"
      using bump_raises [of e m] by blast
    have "rev_generation p < rev_generation r" if "map_of old e = Some p" for p
    proof -
      from Cons.prems(2) that obtain q where "map_of m e = Some q" "rev_generation p \<le> rev_generation q"
        by (auto simp: tightens_def)
      with r(2) show ?thesis by simp
    qed
    with rev_generation_fold_bump [OF r(1), of xs] True show ?thesis by fastforce
  next
    case False
    with Cons.prems(1) have "e \<in> set xs" by simp
    with Cons.IH [OF _ tightens_trans [OF Cons.prems(2) tightens_bump]] show ?thesis by simp
  qed
qed simp

lemma demo_descends:
  "\<exists>h. descends demo demo_state (demo_state\<lparr>
      cs_head := h, cs_sequence := 1,
      cs_revocations := [(VStr demo_embodiment, \<lparr>cutoff = 5, rev_generation = 1\<rparr>)],
      cs_credential_authorities := AList.update (VStr h) (demo_policy 1) [(VStr demo_head, demo_policy 1)]\<rparr>)"
  using demo_revocation by (blast intro: descends.intros)

lemma check_acceptanceD:
  assumes "check_acceptance P w body domain pk = Inr ()"
  shows "\<exists>row sig. row \<in> set (w_signatures w) \<and> s_key_id row = descriptor_key_id (item body ''signing_key'')
    \<and> unb64url (s_value row) (Some 64) = Inr sig
    \<and> ed25519_verify P pk sig (acceptance_preimage domain (w_hash w))"
proof -
  from assms obtain row where f: "filter (\<lambda>s. s_role s = VStr (str ''embodiment-acceptance'')) (w_signatures w) = [row]"
    and "s_key_id row = descriptor_key_id (item body ''signing_key'')"
    "\<exists>sig. unb64url (s_value row) (Some 64) = Inr sig \<and> ed25519_verify P pk sig (acceptance_preimage domain (w_hash w))"
    by (auto simp: check_acceptance_def res split: list.splits)
  moreover have "row \<in> set (filter (\<lambda>s. s_role s = VStr (str ''embodiment-acceptance'')) (w_signatures w))"
    unfolding f by simp
  then have "row \<in> set (w_signatures w)" by simp
  ultimately show ?thesis by blast
qed

lemma verify_embodiment_credential_keys:
  assumes "verify_embodiment_credential P c s at_ms allow = Inr body"
  defines "v2 \<equiv> dget c ''schema'' = Some (VStr (str ''dm.identity.artifact/v2''))"
  defines "domain \<equiv> (if v2 then credential_v2_domain else domain_of ''embodiment-credential'')"
  obtains w policy preimage pk root recovery where
    "verify_wrapper P c ''embodiment-credential'' v2 = Inr w" "body = w_body w"
    "item (w_body w) ''being_ref'' = VStr (cs_being_ref s)"
    "map_of (cs_credential_authorities s) (item (w_body w) ''control_head'') = Some policy
       \<or> map_of (cs_carried s) (VStr (w_id w)) = Some policy"
    "in_validity v2 (w_body w) at_ms = Inr True"
    "domain_bytes P domain (w_body w) = Inr preimage"
    "verify_threshold P (w_signatures w) policy ''root-authorization'' preimage = Inr ()"
    "descriptor_public P (item (w_body w) ''signing_key'') ''Ed25519'' = Inr pk"
    "check_acceptance P w (w_body w) domain pk = Inr ()"
    "policy_publics P policy = Inr root" "policy_publics P (cs_recovery_policy s) = Inr recovery"
    "pk \<notin> set root" "pk \<notin> set recovery"
proof -
  from assms(1) show thesis
    unfolding verify_embodiment_credential_def Let_def v2_def [symmetric] domain_def [symmetric]
    by (auto simp: bindR_Inr_iff if_Inl_Inr_iff closed_id_Inr_iff hashable_res_Inr_iff
          split: option.splits)
       (rule that, (assumption | rule refl | rule disjI1, assumption | rule disjI2, assumption)+)+
qed

section \<open>Signatures\<close>

text \<open>
  C25: a threshold is met only by that many different keys. When \<^verbatim>\<open>_verify_threshold\<close> returns, at
  least as many distinct public keys of the policy as its threshold asks for have each signed
  exactly this preimage in exactly this role: one key listed twice, or signing twice, counts once.
\<close>

theorem threshold_is_a_quorum:
  assumes "verify_threshold P sigs policy role preimage = Inr ()"
  shows "\<exists>pks. quorum P sigs policy role preimage pks"
  using assms by (rule verify_threshold_quorum)

lemma threshold_is_a_quorum_witness:
  "\<exists>pks. quorum demo (map slot_row (slots_of demo (demo_seeds 1) ''root-authorization'' [7])) (demo_policy 1)
     ''root-authorization'' [7] pks"
proof (rule threshold_is_a_quorum)
  have "good_slots demo [(VStr (demo_kid ''Ed25519'' 1), demo_seed 1)] ''root-authorization'' [7]
      (slots_of demo (demo_seeds 1) ''root-authorization'' [7])"
    by (rule good_slots_of [OF demo_signing_ok demo_seeds(3)]) simp
  then show "verify_threshold demo (map slot_row (slots_of demo (demo_seeds 1) ''root-authorization'' [7]))
      (demo_policy 1) ''root-authorization'' [7] = Inr ()"
    by (rule verify_threshold_slots [OF demo_policies(1), rotated])
      (simp add: slots_of_keys card_seeds [OF demo_seeds(2)] demo_seeds(4) del: set_slots_of One_nat_def, simp)
qed

text \<open>
  C22: no control state without the root. An accepted successor is a well-formed artifact whose
  body names this being, this predecessor head and this generation, signed by a quorum of the
  predecessor's own root policy; the new state stands one further in the same generation.
\<close>

theorem successor_is_authorised:
  assumes "verify_successor P art s = Inr u"
  shows "\<exists>kind w preimage pks. kind \<in> {''root-rotation'', ''recovery-policy'', ''revocation''}
     \<and> verify_wrapper P art kind False = Inr w \<and> cs_head u = w_id w
     \<and> domain_bytes P (domain_of kind) (w_body w) = Inr preimage
     \<and> quorum P (w_signatures w) (cs_root_policy s) ''root-authorization'' preimage pks
     \<and> dget (w_body w) ''being_ref'' = Some (VStr (cs_being_ref s))
     \<and> dget (w_body w) ''previous_control_head'' = Some (VStr (cs_head s))
     \<and> cs_being_ref u = cs_being_ref s \<and> cs_generation u = cs_generation s
     \<and> cs_sequence u = cs_sequence s + 1"
proof -
  have position: "dget (w_body w) ''being_ref'' = Some (VStr (cs_being_ref s))
      \<and> dget (w_body w) ''previous_control_head'' = Some (VStr (cs_head s))"
    if "verify_position (w_body w) s = Inr ()" for w :: wrapper
    using that by (auto simp: verify_position_def getitem_def res split: option.splits)
  note facts = verify_successor_Inr(1-3) [OF assms]
  show ?thesis
    using assms
  proof (cases rule: verify_successor_cases)
    case (rotation w t preimage)
    with facts position [of w] verify_threshold_quorum show ?thesis by (intro exI [of _ "''root-rotation''"] exI [of _ w]) auto
  next
    case (recovery_policy w t preimage)
    with facts position [of w] verify_threshold_quorum show ?thesis by (intro exI [of _ "''recovery-policy''"] exI [of _ w]) auto
  next
    case (revocation w t preimage)
    with facts position [of w] verify_threshold_quorum show ?thesis by (intro exI [of _ "''revocation''"] exI [of _ w]) auto
  qed
qed

lemma successor_is_authorised_witness:
  "\<exists>a u. verify_successor demo a demo_state = Inr u \<and> cs_sequence u = 1
     \<and> (\<exists>kind w preimage pks. verify_wrapper demo a kind False = Inr w
          \<and> quorum demo (w_signatures w) (demo_policy 1) ''root-authorization'' preimage pks)"
proof -
  obtain a u where u: "verify_successor demo a demo_state = Inr u" "cs_sequence u = 1"
    using demo_revocation by fastforce
  with successor_is_authorised [OF u(1)] show ?thesis by simp blast
qed

section \<open>The control chain\<close>

text \<open>
  C8: a control chain answers with one linear history or not at all. After any sequence of
  accepted artifacts \<^verbatim>\<open>ControlChain.state\<close> either raises \<^verbatim>\<open>ControlForkError\<close>, and then there are at
  least two heads, or it returns the state the last artifact made; from the last recovery (or the
  genesis) on, each artifact was accepted as the successor of exactly the state before it.
\<close>

theorem chain_is_linear_or_quarantined:
  assumes "chain_run P g arts c"
  shows "chain_state c = raise ControlForkError ''control successors are quarantined'' \<and> 2 \<le> card (ch_heads c)
    \<or> (\<exists>s k. chain_state c = Inr s \<and> s = snd (last (ch_states c)) \<and> ch_heads c = {cs_head s}
         \<and> linear P arts (map snd (ch_states c)) k)"
proof -
  from chain_state_cases [OF chain_run_ok [OF assms]] consider
    (one) h s where "ch_heads c = {h}" "map_of (ch_states c) h = Some s" "chain_state c = Inr s"
    | (fork) "2 \<le> card (ch_heads c)" "chain_state c = raise ControlForkError ''control successors are quarantined''"
    by blast
  then show ?thesis
  proof cases
    case one
    with chain_run_ok [OF assms] have "cs_head s = h" by (fastforce simp: chain_ok_def dest: map_of_SomeD)
    with one chain_state_linear(1,2) [OF assms one(3)] show ?thesis by blast
  qed simp
qed

lemma chain_is_linear_or_quarantined_witness:
  "\<exists>g c. chain_run demo g [] c \<and> chain_state c = Inr demo_state
     \<and> (\<exists>k. linear demo [] (map snd (ch_states c)) k)"
proof -
  obtain g where g: "verify_genesis demo g = Inr demo_state" using demo_genesis by blast
  define c where "c = \<lparr>ch_states = [(demo_head, demo_state)], ch_heads = {demo_head}, ch_children = (\<lambda>_. {})\<rparr>"
  have "chain_init demo g = Inr c" by (simp add: chain_init_def g c_def)
  then have run: "chain_run demo g [] c" by (rule chain_run.genesis)
  have state: "chain_state c = Inr demo_state"
    by (simp add: chain_state_def chain_states_def chain_heads_def c_def)
  from chain_is_linear_or_quarantined [OF run] state have "\<exists>k. linear demo [] (map snd (ch_states c)) k" by auto
  with run state show ?thesis by blast
qed

text \<open>
  C21: control only moves forward. Whatever successors, recoveries, recoveries from an anchor and
  activations lead from one state to another, the being is the same, the position has not gone
  back, and no revocation is lost or loosened: for every embodiment the generation has not
  fallen and the incarnation cutoff has not risen.
\<close>

theorem control_never_regresses:
  assumes "descends P s u"
  shows "cs_being_ref u = cs_being_ref s \<and> later s u
    \<and> (\<forall>e r. map_of (cs_revocations s) e = Some r
         \<longrightarrow> (\<exists>r'. map_of (cs_revocations u) e = Some r' \<and> rev_generation r \<le> rev_generation r'
               \<and> cutoff r' \<le> cutoff r))"
  using descends_facts [OF assms] by (auto simp: tightens_def)

lemma control_never_regresses_witness:
  "\<exists>u. descends demo demo_state u \<and> cs_sequence u = 1 \<and> cs_being_ref u = demo_being \<and> later demo_state u"
proof -
  obtain u where u: "descends demo demo_state u" "cs_sequence u = 1" using demo_descends by fastforce
  with control_never_regresses [OF u(1)] show ?thesis by auto
qed

text \<open>
  C9: recovery is the recovery policy's, and it is conservative. An accepted recovery of a set of
  known heads cites exactly these heads, is signed by a quorum of the recovery policy the branches
  agree on and by a quorum of the new root proving possession, keeps root and recovery keys
  disjoint, opens a generation above every branch, forgets no revocation of any branch, and raises
  the generation of each embodiment it revokes above every branch's.
\<close>

theorem recovery_is_authorised:
  assumes "verify_recovery P art states = Inr s"
  shows "\<exists>w preimage pks qks revoked s0. s0 \<in> set states \<and> verify_wrapper P art ''recovery'' False = Inr w
     \<and> item (w_body w) ''competing_control_heads'' = VList (map VStr (sorted_list_of_set (set (map cs_head states))))
     \<and> domain_bytes P (domain_of ''recovery'') (w_body w) = Inr preimage
     \<and> quorum P (w_signatures w) (cs_recovery_policy s0) ''recovery-authorization'' preimage pks
     \<and> quorum P (w_signatures w) (cs_root_policy s) ''new-root-possession''
         (possession_preimage ''recovery'' (w_hash w)) qks
     \<and> separate P s \<and> cs_recovery_policy s = cs_recovery_policy s0
     \<and> (\<forall>t \<in> set states. cs_being_ref s = cs_being_ref t \<and> cs_generation t < cs_generation s
          \<and> canonical_bytes P (cs_recovery_policy t) = canonical_bytes P (cs_recovery_policy s0)
          \<and> tightens (cs_revocations t) (cs_revocations s))
     \<and> item (w_body w) ''revoked_embodiments'' = VList revoked
     \<and> (\<forall>e \<in> set revoked. \<forall>t \<in> set states. \<exists>r. map_of (cs_revocations s) e = Some r
          \<and> (\<forall>p. map_of (cs_revocations t) e = Some p \<longrightarrow> rev_generation p < rev_generation r))"
proof -
  from assms obtain w body s0 rest revoked where v: "states = s0 # rest"
    "verify_wrapper P art ''recovery'' False = Inr w" "w_body w = body"
    "s = recovered_state w body s0 (Max (set (map cs_generation states)) + 1)
           (fold bump_revocation revoked (merge_revocations states))"
    "item body ''revoked_embodiments'' = VList revoked"
    "item body ''competing_control_heads'' = VList (map VStr (sorted_list_of_set (set (map cs_head states))))"
    "check_recovery_signatures P w body (cs_recovery_policy s0) = Inr ()"
    "\<forall>t \<in> set states. cs_being_ref t = cs_being_ref s0"
    "\<forall>t \<in> set states. canonical_bytes P (cs_recovery_policy t) = canonical_bytes P (cs_recovery_policy s0)"
    by (rule verify_recovery_Inr)
  from v(7) obtain preimage where p: "require_separate_policies P (item body ''replacement_root'') (cs_recovery_policy s0) = Inr ()"
    "domain_bytes P (domain_of ''recovery'') body = Inr preimage"
    "verify_threshold P (w_signatures w) (cs_recovery_policy s0) ''recovery-authorization'' preimage = Inr ()"
    "verify_threshold P (w_signatures w) (item body ''replacement_root'') ''new-root-possession''
       (possession_preimage ''recovery'' (w_hash w)) = Inr ()"
    by (auto simp: check_recovery_signatures_def res)
  from verify_threshold_quorum [OF p(3)] verify_threshold_quorum [OF p(4)] obtain pks qks where q:
    "quorum P (w_signatures w) (cs_recovery_policy s0) ''recovery-authorization'' preimage pks"
    "quorum P (w_signatures w) (item body ''replacement_root'') ''new-root-possession''
       (possession_preimage ''recovery'' (w_hash w)) qks" by blast
  have "\<exists>r. map_of (cs_revocations s) e = Some r
      \<and> (\<forall>p. map_of (cs_revocations t) e = Some p \<longrightarrow> rev_generation p < rev_generation r)"
    if "e \<in> set revoked" "t \<in> set states" for e t
    using fold_bump_raises [OF that(1) tightens_merge_revocations [OF that(2)]] v(4) by (simp add: recovered_state_def)
  moreover have sel: "cs_root_policy s = item body ''replacement_root''" "cs_recovery_policy s = cs_recovery_policy s0"
    unfolding v(4) by (simp_all add: recovered_state_def)
  moreover have "quorum P (w_signatures w) (cs_root_policy s) ''new-root-possession''
      (possession_preimage ''recovery'' (w_hash w)) qks" unfolding sel by (rule q(2))
  moreover note q(1)
  moreover have "separate P s" unfolding separate_def sel by (rule p(1))
  moreover have "s0 \<in> set states" unfolding v(1) by simp
  moreover have "cs_being_ref s = cs_being_ref t \<and> cs_generation t < cs_generation s
      \<and> canonical_bytes P (cs_recovery_policy t) = canonical_bytes P (cs_recovery_policy s0)
      \<and> tightens (cs_revocations t) (cs_revocations s)" if "t \<in> set states" for t
    using verify_recovery_position [OF assms that] verify_recovery_tightens [OF assms that] bspec [OF v(9) that]
    by simp
  ultimately show ?thesis
    using v(2,5,6) p(2) unfolding v(3) [symmetric]
    by (rule_tac exI [of _ w], rule_tac exI [of _ preimage], rule_tac exI [of _ pks], rule_tac exI [of _ qks],
        rule_tac exI [of _ revoked], rule_tac exI [of _ s0]) blast
qed

lemma recovery_is_authorised_witness:
  "\<exists>a s (w :: wrapper) pks preimage. verify_recovery demo a [demo_state] = Inr s \<and> cs_generation s = 1
     \<and> quorum demo (w_signatures w) (demo_policy 2) ''recovery-authorization'' preimage pks"
proof -
  obtain a h where a: "verify_recovery demo a [demo_state] = Inr (demo_recovered h)" using demo_recovery by blast
  from recovery_is_authorised [OF a] obtain w :: wrapper and preimage pks and s0 :: control_state where
    "s0 \<in> set [demo_state]" "quorum demo (w_signatures w) (cs_recovery_policy s0) ''recovery-authorization'' preimage pks"
    by blast
  then have "quorum demo (w_signatures w) (demo_policy 2) ''recovery-authorization'' preimage pks" by simp
  moreover have "cs_generation (demo_recovered h) = 1" by (simp add: demo_recovered_def)
  ultimately show ?thesis using a by blast
qed

text \<open>
  C23: recovery from an anchor. A holder of one anchor state, who cannot see the other branches,
  accepts a recovery only if it is signed by a quorum of the anchor's recovery policy and by one of
  the new root, cites the anchor's head, opens a later generation, and states a high-water mark
  that covers every revocation the anchor knows.
\<close>

theorem anchored_recovery_is_authorised:
  assumes "verify_recovery_from_anchor P art t = Inr s"
  shows "\<exists>w preimage pks qks hs. verify_wrapper P art ''recovery'' False = Inr w
     \<and> item (w_body w) ''competing_control_heads'' = VList hs \<and> VStr (cs_head t) \<in> set hs
     \<and> domain_bytes P (domain_of ''recovery'') (w_body w) = Inr preimage
     \<and> quorum P (w_signatures w) (cs_recovery_policy t) ''recovery-authorization'' preimage pks
     \<and> quorum P (w_signatures w) (cs_root_policy s) ''new-root-possession''
         (possession_preimage ''recovery'' (w_hash w)) qks
     \<and> separate P s \<and> cs_being_ref s = cs_being_ref t \<and> cs_generation t < cs_generation s
     \<and> cs_sequence s = 0 \<and> tightens (cs_revocations t) (cs_revocations s)"
proof -
  from assms obtain w hw high revoked hs generation where v:
    "verify_wrapper P art ''recovery'' False = Inr w"
    "item (w_body w) ''being_ref'' = VStr (cs_being_ref t)"
    "item (w_body w) ''competing_control_heads'' = VList hs" "VStr (cs_head t) \<in> set hs"
    "cs_generation t < generation"
    "item (w_body w) ''revocation_high_water'' = VDict hw" "parse_high_water hw = Some high"
    "covers_revocations high (cs_revocations t)"
    "check_recovery_signatures P w (w_body w) (cs_recovery_policy t) = Inr ()"
    "iter_vals (item (w_body w) ''revoked_embodiments'') = Inr revoked"
    "s = recovered_state w (w_body w) t generation (fold bump_revocation revoked high)"
    by (rule verify_recovery_from_anchor_Inr)
  from v(9) obtain preimage where p: "require_separate_policies P (item (w_body w) ''replacement_root'') (cs_recovery_policy t) = Inr ()"
    "domain_bytes P (domain_of ''recovery'') (w_body w) = Inr preimage"
    "verify_threshold P (w_signatures w) (cs_recovery_policy t) ''recovery-authorization'' preimage = Inr ()"
    "verify_threshold P (w_signatures w) (item (w_body w) ''replacement_root'') ''new-root-possession''
       (possession_preimage ''recovery'' (w_hash w)) = Inr ()"
    by (auto simp: check_recovery_signatures_def res)
  from verify_threshold_quorum [OF p(3)] verify_threshold_quorum [OF p(4)] obtain pks qks where
    "quorum P (w_signatures w) (cs_recovery_policy t) ''recovery-authorization'' preimage pks"
    "quorum P (w_signatures w) (item (w_body w) ''replacement_root'') ''new-root-possession''
       (possession_preimage ''recovery'' (w_hash w)) qks" by blast
  with v p(1,2) verify_recovery_from_anchor_position [OF assms] show ?thesis
    by (rule_tac exI [of _ w], rule_tac exI [of _ preimage], rule_tac exI [of _ pks], rule_tac exI [of _ qks],
        rule_tac exI [of _ hs]) (simp add: recovered_state_def separate_def)
qed

lemma anchored_recovery_is_authorised_witness:
  "\<exists>a s (w :: wrapper) pks preimage. verify_recovery_from_anchor demo a demo_state = Inr s \<and> cs_generation s = 1
     \<and> quorum demo (w_signatures w) (demo_policy 2) ''recovery-authorization'' preimage pks"
proof -
  obtain a h where a: "verify_recovery_from_anchor demo a demo_state = Inr (demo_recovered h)" using demo_recovery by blast
  from anchored_recovery_is_authorised [OF a] obtain w :: wrapper and preimage pks where
    "quorum demo (w_signatures w) (cs_recovery_policy demo_state) ''recovery-authorization'' preimage pks"
    by blast
  then have "quorum demo (w_signatures w) (demo_policy 2) ''recovery-authorization'' preimage pks" by simp
  moreover have "cs_generation (demo_recovered h) = 1" by (simp add: demo_recovered_def)
  ultimately show ?thesis using a by blast
qed

section \<open>Credentials and incarnations\<close>

text \<open>
  C24: what an accepted credential proves. Its body speaks for this being; the policy it is checked
  against is an authority of this control state, for the control head the body names or by explicit
  carry-forward; a quorum of that policy signed it; the embodiment's own key signed its acceptance;
  the instant lies in its validity; and no key of it is a root or recovery key.
\<close>

theorem credential_is_authorised:
  assumes "verify_embodiment_credential P c s at_ms allow = Inr body"
  shows "\<exists>w v2 policy domain preimage pks pk row sig root recovery.
     verify_wrapper P c ''embodiment-credential'' v2 = Inr w
     \<and> body = w_body w \<and> item body ''being_ref'' = VStr (cs_being_ref s)
     \<and> (map_of (cs_credential_authorities s) (item body ''control_head'') = Some policy
        \<or> map_of (cs_carried s) (VStr (w_id w)) = Some policy)
     \<and> in_validity v2 body at_ms = Inr True
     \<and> domain = (if v2 then credential_v2_domain else domain_of ''embodiment-credential'')
     \<and> domain_bytes P domain body = Inr preimage
     \<and> quorum P (w_signatures w) policy ''root-authorization'' preimage pks
     \<and> descriptor_public P (item body ''signing_key'') ''Ed25519'' = Inr pk
     \<and> row \<in> set (w_signatures w) \<and> s_key_id row = descriptor_key_id (item body ''signing_key'')
     \<and> unb64url (s_value row) (Some 64) = Inr sig
     \<and> ed25519_verify P pk sig (acceptance_preimage domain (w_hash w))
     \<and> policy_publics P policy = Inr root \<and> policy_publics P (cs_recovery_policy s) = Inr recovery
     \<and> pk \<notin> set root \<and> pk \<notin> set recovery"
  using assms
proof (rule verify_embodiment_credential_keys)
  fix w policy preimage pk root recovery
  let ?v2 = "dget c ''schema'' = Some (VStr (str ''dm.identity.artifact/v2''))"
  let ?domain = "if ?v2 then credential_v2_domain else domain_of ''embodiment-credential''"
  assume v: "verify_wrapper P c ''embodiment-credential'' ?v2 = Inr w" "body = w_body w"
    "item (w_body w) ''being_ref'' = VStr (cs_being_ref s)"
    "map_of (cs_credential_authorities s) (item (w_body w) ''control_head'') = Some policy
       \<or> map_of (cs_carried s) (VStr (w_id w)) = Some policy"
    "in_validity ?v2 (w_body w) at_ms = Inr True"
    "domain_bytes P ?domain (w_body w) = Inr preimage"
    "verify_threshold P (w_signatures w) policy ''root-authorization'' preimage = Inr ()"
    "descriptor_public P (item (w_body w) ''signing_key'') ''Ed25519'' = Inr pk"
    "check_acceptance P w (w_body w) ?domain pk = Inr ()"
    "policy_publics P policy = Inr root" "policy_publics P (cs_recovery_policy s) = Inr recovery"
    "pk \<notin> set root" "pk \<notin> set recovery"
  from verify_threshold_quorum [OF v(7)] obtain pks where
    q: "quorum P (w_signatures w) policy ''root-authorization'' preimage pks" by blast
  from check_acceptanceD [OF v(9)] obtain row sig where r: "row \<in> set (w_signatures w)"
    "s_key_id row = descriptor_key_id (item (w_body w) ''signing_key'')"
    "unb64url (s_value row) (Some 64) = Inr sig" "ed25519_verify P pk sig (acceptance_preimage ?domain (w_hash w))" by blast
  show ?thesis
    by (rule exI [of _ w], rule exI [of _ ?v2], rule exI [of _ policy], rule exI [of _ ?domain], rule exI [of _ preimage],
        rule exI [of _ pks], rule exI [of _ pk], rule exI [of _ row], rule exI [of _ sig], rule exI [of _ root],
        rule exI [of _ recovery]) (use v q r in simp)
qed

lemma credential_is_authorised_witness:
  "\<exists>c (w :: wrapper) preimage pks. verify_embodiment_credential demo c demo_state 2000 False = Inr demo_credential_body
     \<and> quorum demo (w_signatures w) (demo_policy 1) ''root-authorization'' preimage pks"
proof -
  obtain c where c: "verify_embodiment_credential demo c demo_state 2000 False = Inr demo_credential_body"
    using demo_credential by blast
  from credential_is_authorised [OF c] obtain w :: wrapper and policy preimage pks where
    "map_of (cs_credential_authorities demo_state) (item demo_credential_body ''control_head'') = Some policy
      \<or> map_of (cs_carried demo_state) (VStr (w_id w)) = Some policy"
    "quorum demo (w_signatures w) policy ''root-authorization'' preimage pks" by blast
  then have "quorum demo (w_signatures w) (demo_policy 1) ''root-authorization'' preimage pks"
    by (simp add: demo_credential_items)
  with c show ?thesis by blast
qed

text \<open>
  C19: revocation is permanent. Once a control state revokes an embodiment at some generation, no
  state that descends from it, by successors or by recovery, accepts a credential of that
  embodiment with a lower revocation generation (unless the caller asks for revoked history).
\<close>

theorem revoked_credential_stays_rejected:
  assumes "descends P s u" and "map_of (cs_revocations s) e = Some r"
    and "verify_embodiment_credential P c u at_ms False = Inr body"
    and "item body ''embodiment_id'' = e"
  shows "\<exists>g. num_of (item body ''revocation_generation'') = Some g \<and> rev_generation r \<le> g"
proof -
  from descends_facts [OF assms(1)] assms(2) obtain r' where r': "map_of (cs_revocations u) e = Some r'"
    "rev_generation r \<le> rev_generation r'" by (auto simp: tightens_def)
  from check_not_revokedD [OF verify_embodiment_credential_not_revoked [OF assms(3)]] r'(1) assms(4) obtain g
    where "num_of (item body ''revocation_generation'') = Some g" "rev_generation r' \<le> g" by blast
  with r'(2) show ?thesis by auto
qed

lemma revoked_credential_stays_rejected_witness:
  "\<exists>c. verify_embodiment_credential demo c (demo_state\<lparr>cs_revocations := [(VStr demo_embodiment, \<lparr>cutoff = 5, rev_generation = 0\<rparr>)]\<rparr>)
         2000 False = Inr demo_credential_body
     \<and> (\<exists>g. num_of (item demo_credential_body ''revocation_generation'') = Some g \<and> 0 \<le> g)"
proof -
  obtain c where c: "verify_embodiment_credential demo c (demo_state\<lparr>cs_revocations := [(VStr demo_embodiment, \<lparr>cutoff = 5, rev_generation = 0\<rparr>)]\<rparr>)
         2000 False = Inr demo_credential_body" using demo_credential by blast
  from revoked_credential_stays_rejected [OF descends.here _ c demo_credential_items(3)] c show ?thesis by fastforce
qed

text \<open>
  C20: the cutoff of a revocation binds every later incarnation. Any state that descends from one
  that revoked an embodiment accepts an incarnation of it only up to the cutoff, even for a
  credential that is otherwise still honoured as history.
\<close>

theorem incarnation_respects_cutoff:
  assumes "descends P s u" and "map_of (cs_revocations s) (item body ''embodiment_id'') = Some r"
    and "verify_incarnation_authorization P a c u at_ms = Inr body"
  shows "\<exists>n. num_of (item body ''incarnation_sequence'') = Some n \<and> n \<le> cutoff r"
proof -
  from descends_facts [OF assms(1)] assms(2) obtain r' where
    r': "map_of (cs_revocations u) (item body ''embodiment_id'') = Some r'" "cutoff r' \<le> cutoff r"
    by (auto simp: tightens_def)
  from verify_incarnation_cutoff [OF assms(3) r'(1)] r'(2) show ?thesis by auto
qed

lemma incarnation_respects_cutoff_witness:
  "\<exists>a c body. verify_incarnation_authorization demo a c
       (demo_state\<lparr>cs_revocations := [(VStr demo_embodiment, \<lparr>cutoff = 5, rev_generation = 1\<rparr>)]\<rparr>) 2000 = Inr body
     \<and> (\<exists>n. num_of (item body ''incarnation_sequence'') = Some n \<and> n \<le> 5)"
proof -
  let ?s = "demo_state\<lparr>cs_revocations := [(VStr demo_embodiment, \<lparr>cutoff = 5, rev_generation = 1\<rparr>)]\<rparr>"
  obtain a c body where v: "verify_incarnation_authorization demo a c ?s 2000 = Inr body"
    "item body ''embodiment_id'' = VStr demo_embodiment" using demo_incarnation by blast
  with incarnation_respects_cutoff [OF descends.here _ v(1)] show ?thesis by fastforce
qed

text \<open>
  Attenuation is containment. For two validity documents the module accepts,
  \<^verbatim>\<open>validity_attenuates\<close> answers whether every instant the child contains lies in the parent,
  for intervals with and without an end.
\<close>

theorem attenuation_is_containment:
  assumes "validate_validity child = Inr c" and "validate_validity parent = Inr p"
  shows "validity_attenuates child parent = Inr (\<forall>t. contains c t \<longrightarrow> contains p t)"
  using assms by (rule validity_attenuates_eq)

lemma attenuation_is_containment_witness:
  "validity_attenuates
     (VDict [(VStr (str ''mode''), VStr (str ''finite'')), (VStr (str ''not_before_ms''), VInt 10),
             (VStr (str ''not_after_ms''), VInt 20)])
     (VDict [(VStr (str ''mode''), VStr (str ''until-revoked'')), (VStr (str ''not_before_ms''), VInt 5)])
   = Inr (\<forall>t. contains (Finite 10 20) t \<longrightarrow> contains (UntilRevoked 5) t)"
proof (rule attenuation_is_containment)
  show "validate_validity (VDict [(VStr (str ''mode''), VStr (str ''finite'')), (VStr (str ''not_before_ms''), VInt 10),
             (VStr (str ''not_after_ms''), VInt 20)]) = Inr (Finite 10 20)"
    by (simp add: validate_validity_def dict_simps closed_id_dict dkeys_def key_set_def instant_check_def
        uint_check_def max_uint_def insert_commute)
  show "validate_validity (VDict [(VStr (str ''mode''), VStr (str ''until-revoked'')), (VStr (str ''not_before_ms''), VInt 5)])
      = Inr (UntilRevoked 5)"
    by (simp add: validate_validity_def dict_simps closed_id_dict dkeys_def key_set_def instant_check_def
        uint_check_def max_uint_def)
qed

section \<open>What the module creates, it accepts\<close>

text \<open>
  C34: a revocation made by enough root holders is accepted. Given Ed25519's own contract, the
  artifact \<^verbatim>\<open>create_revocation\<close> builds from the seeds of at least threshold many root keys, with
  the next generation and a cutoff no looser than the last, is verified by \<^verbatim>\<open>verify_successor\<close>,
  and the resulting state differs from its predecessor in exactly the head, the sequence, that one
  revocation and the new authority.
\<close>

theorem created_revocation_is_accepted:
  assumes "signing_ok P" and "create_revocation P s seeds e c (next_revocation s (VStr e)) = Inr a"
    and "threshold_policy_check P (cs_root_policy s) = Inr (n, pm)"
    and "seed_map P seeds = Inr sm" and "holds_keys P pm sm" and "n \<le> int (length sm)"
    and "length sm \<le> max_signatures" and "1 \<le> next_revocation s (VStr e)" and "0 \<le> c"
    and "\<And>r. map_of (cs_revocations s) (VStr e) = Some r \<Longrightarrow> c \<le> cutoff r"
  shows "\<exists>h. verify_successor P a s = Inr (s\<lparr>
      cs_head := h, cs_sequence := cs_sequence s + 1,
      cs_revocations := AList.update (VStr e) \<lparr>cutoff = c, rev_generation = next_revocation s (VStr e)\<rparr> (cs_revocations s),
      cs_credential_authorities := AList.update (VStr h) (cs_root_policy s) (cs_credential_authorities s)\<rparr>)"
  using revocation_verifies [OF assms(1-8,9)] assms(10) by metis

lemma created_revocation_is_accepted_witness:
  "\<exists>a h. verify_successor demo a demo_state = Inr (demo_state\<lparr>
      cs_head := h, cs_sequence := 1,
      cs_revocations := [(VStr demo_embodiment, \<lparr>cutoff = 5, rev_generation = 1\<rparr>)],
      cs_credential_authorities := AList.update (VStr h) (demo_policy 1) [(VStr demo_head, demo_policy 1)]\<rparr>)"
proof -
  have one: "next_revocation demo_state (VStr demo_embodiment) = 1" by (simp add: next_revocation_def)
  obtain a where a: "create_revocation demo demo_state [demo_seed 1] demo_embodiment 5 1 = Inr a"
    using demo_revocation by blast
  have "\<exists>h. verify_successor demo a demo_state = Inr (demo_state\<lparr>
      cs_head := h, cs_sequence := cs_sequence demo_state + 1,
      cs_revocations := AList.update (VStr demo_embodiment) \<lparr>cutoff = 5, rev_generation = next_revocation demo_state (VStr demo_embodiment)\<rparr> (cs_revocations demo_state),
      cs_credential_authorities := AList.update (VStr h) (cs_root_policy demo_state) (cs_credential_authorities demo_state)\<rparr>)"
    by (rule created_revocation_is_accepted [where n = 1, OF demo_signing_ok a [folded one] _ demo_seeds(1,3)])
      (simp_all add: demo_policies demo_seeds max_signatures_def one)
  then have "\<exists>h. verify_successor demo a demo_state = Inr (demo_state\<lparr>
      cs_head := h, cs_sequence := 1,
      cs_revocations := [(VStr demo_embodiment, \<lparr>cutoff = 5, rev_generation = 1\<rparr>)],
      cs_credential_authorities := AList.update (VStr h) (demo_policy 1) [(VStr demo_head, demo_policy 1)]\<rparr>)"
    by (simp only: one demo_state_sel AList.update.simps add_0_left)
  then show ?thesis by blast
qed

text \<open>
  An incarnation its embodiment authorises is accepted. With a credential the state accepts
  (as history at least), the authorisation \<^verbatim>\<open>create_incarnation_authorization\<close> signs with the
  credential's own key is verified, as long as it started in the past and no revocation cuts its
  sequence off; the accepted body carries exactly the drafted incarnation.
\<close>

theorem created_incarnation_is_accepted:
  assumes "signing_ok P" and "is_seed seed"
    and "verify_embodiment_credential P c s at_ms True = Inr cred"
    and "signing_descriptor P seed = Inr (item cred ''signing_key'')"
    and "create_incarnation_authorization P c seed i n started = Inr a"
    and "0 \<le> n" and "\<And>r. map_of (cs_revocations s) (item cred ''embodiment_id'') = Some r \<Longrightarrow> n \<le> cutoff r"
    and "0 \<le> started" and "started \<le> at_ms"
  shows "\<exists>body. verify_incarnation_authorization P a c s at_ms = Inr body
    \<and> item body ''incarnation_id'' = VStr i \<and> item body ''incarnation_sequence'' = VInt n
    \<and> item body ''embodiment_id'' = item cred ''embodiment_id''"
  by (rule incarnation_verifies [OF assms(1-3) refl assms(4,5,6)]) (use assms(7-9) in auto)

lemma created_incarnation_is_accepted_witness:
  "\<exists>a c body. verify_incarnation_authorization demo a c demo_state 2000 = Inr body
     \<and> item body ''incarnation_id'' = VStr demo_incarnation \<and> item body ''incarnation_sequence'' = VInt 3
     \<and> item body ''embodiment_id'' = VStr demo_embodiment"
proof -
  obtain c a where v: "verify_embodiment_credential demo c demo_state 2000 True = Inr demo_credential_body"
    "create_incarnation_authorization demo c (demo_seed 4) demo_incarnation 3 1500 = Inr a"
    using demo_incarnation by blast
  have "\<exists>body. verify_incarnation_authorization demo a c demo_state 2000 = Inr body
    \<and> item body ''incarnation_id'' = VStr demo_incarnation \<and> item body ''incarnation_sequence'' = VInt 3
    \<and> item body ''embodiment_id'' = item demo_credential_body ''embodiment_id''"
    by (rule created_incarnation_is_accepted [OF demo_signing_ok demo_seed_ok(1) v(1) _ v(2)])
      (simp_all add: demo_credential_items demo_descriptors)
  then show ?thesis by (auto simp: demo_credential_items)
qed

end
