(* ===== verification/Patterns.thy ===== *)
theory Patterns
  imports Canonical
begin

text \<open>
  The regular expressions by which \<^verbatim>\<open>weave.py\<close> and \<^verbatim>\<open>cluster.py\<close> keep secrets and local
  addresses out of events, as functions on code points. \<^verbatim>\<open>search\<close> tries every position; \<^verbatim>\<open>$\<close>
  without \<^verbatim>\<open>MULTILINE\<close> also matches before a final newline.
\<close>

text \<open>
  \<^verbatim>\<open>re.IGNORECASE\<close> on a \<^verbatim>\<open>str\<close> pattern of ASCII letters: beside the ASCII capitals, U+017F
  matches \<^verbatim>\<open>s\<close>, U+0130 and U+0131 match \<^verbatim>\<open>i\<close>, and U+212A matches \<^verbatim>\<open>k\<close>.
\<close>

definition fold_char :: "nat \<Rightarrow> nat" where
  "fold_char c =
     (if 65 \<le> c \<and> c \<le> 90 then c + 32
      else if c = 0x17F then 115
      else if c = 0x130 \<or> c = 0x131 then 105
      else if c = 0x212A then 107
      else c)"

text \<open>\<^verbatim>\<open>(?:$|_)\<close>\<close>

definition word_end :: "pystr \<Rightarrow> bool" where
  "word_end s = (s = [] \<or> s = [10] \<or> take 1 s = [95])"

text \<open>\<^verbatim>\<open>(?:^|_)(?:w1|w2|...)(?:$|_)\<close>, with \<^verbatim>\<open>IGNORECASE\<close>; the flag says that a word may start here.\<close>

fun has_word :: "string list \<Rightarrow> bool \<Rightarrow> pystr \<Rightarrow> bool" where
  "has_word ws start [] = False"
| "has_word ws start (c # s) =
     ((start \<and> list_ex (\<lambda>w. take (length w) (map fold_char (c # s)) = str w
                          \<and> word_end (drop (length w) (c # s))) ws)
      \<or> has_word ws (c = 95) s)"

text \<open>\<^verbatim>\<open>[A-Z0-9 ]*PRIVATE KEY-----\<close> and the whole marker, before any folding.\<close>

definition upper_digit_space :: "nat \<Rightarrow> bool" where
  "upper_digit_space c = ((65 \<le> c \<and> c \<le> 90) \<or> (48 \<le> c \<and> c \<le> 57) \<or> c = 32)"

definition lower_digit_space :: "nat \<Rightarrow> bool" where
  "lower_digit_space c = ((97 \<le> c \<and> c \<le> 122) \<or> (48 \<le> c \<and> c \<le> 57) \<or> c = 32)"

fun label_then :: "(nat \<Rightarrow> bool) \<Rightarrow> pystr \<Rightarrow> pystr \<Rightarrow> bool" where
  "label_then ok tail [] = (tail = [])"
| "label_then ok tail (c # s) = (startswith (c # s) tail \<or> (ok c \<and> label_then ok tail s))"

fun has_marker :: "(nat \<Rightarrow> bool) \<Rightarrow> pystr \<Rightarrow> pystr \<Rightarrow> pystr \<Rightarrow> bool" where
  "has_marker ok head tail [] = False"
| "has_marker ok head tail (c # s) =
     ((startswith (c # s) head \<and> label_then ok tail (drop (length head) (c # s)))
      \<or> has_marker ok head tail s)"

definition has_private_key :: "pystr \<Rightarrow> bool" where
  "has_private_key s = has_marker upper_digit_space (str ''-----BEGIN '') (str ''PRIVATE KEY-----'') s"

definition has_private_key_ignorecase :: "pystr \<Rightarrow> bool" where
  "has_private_key_ignorecase s =
     has_marker lower_digit_space (str ''-----begin '') (str ''private key-----'') (map fold_char s)"

text \<open>\<^verbatim>\<open>[A-Za-z0-9._:-]{1,240}\<close>, matched in full.\<close>

definition scoped_char :: "nat \<Rightarrow> bool" where
  "scoped_char c =
     ((65 \<le> c \<and> c \<le> 90) \<or> (97 \<le> c \<and> c \<le> 122) \<or> (48 \<le> c \<and> c \<le> 57)
      \<or> c \<in> set (str ''._:-''))"

definition is_scoped :: "pystr \<Rightarrow> bool" where
  "is_scoped s = (1 \<le> length s \<and> length s \<le> 240 \<and> list_all scoped_char s)"

end
