(* ===== verification/Cluster.thy ===== *)
theory Cluster
  imports Patterns
begin

text \<open>
  Cluster evidence, \<^verbatim>\<open>src/daimon_matrix/cluster.py\<close>: observed postconditions, body, surface and
  realm snapshots, resource fence evidence, effect receipts and their reconciliation. The live
  verifier the code is given is a function argument. Validators return the mapping they were
  given; a value from a checked mapping is read with \<open>item\<close>.
\<close>

section \<open>Constants and scalar checks\<close>

definition max_document_bytes :: nat where "max_document_bytes = 256 * 1024"

definition max_postcondition_bytes :: nat where "max_postcondition_bytes = 64 * 1024"

definition max_postcondition_depth :: nat where "max_postcondition_depth = 12"

definition max_postcondition_nodes :: nat where "max_postcondition_nodes = 2048"

definition max_resource_fences :: nat where "max_resource_fences = 256"

abbreviation cluster_error :: "string \<Rightarrow> exc" where
  "cluster_error code \<equiv> Exc ClusterEvidenceError (str code)"

definition closed_ce :: "string list \<Rightarrow> string \<Rightarrow> val \<Rightarrow> dict res" where
  "closed_ce ks code v = closed_dict (cluster_error code) ks v"

definition canonical_ce :: "platform \<Rightarrow> val \<Rightarrow> string \<Rightarrow> bytes res" where
  "canonical_ce P v code = wrapR (is_class CanonicalError) (cluster_error code) (canonical_bytes P v)"

definition text_ce :: "platform \<Rightarrow> nat \<Rightarrow> string \<Rightarrow> val \<Rightarrow> pystr res" where
  "text_ce P maximum code v = (case v of
     VStr s \<Rightarrow>
       bindR (encode_utf8 s) (\<lambda>raw.
         if \<not> (1 \<le> length raw \<and> length raw \<le> maximum) \<or> list_ex (\<lambda>c. c < 0x20) s
           then Inl (cluster_error code)
         else bindR (canonical_ce P v code) (\<lambda>_. Inr s))
   | _ \<Rightarrow> Inl (cluster_error code))"

definition uint_ce :: "string \<Rightarrow> val \<Rightarrow> int res" where
  "uint_ce code v = uint_check (cluster_error code) 0 v"

definition hash_ce :: "string \<Rightarrow> val \<Rightarrow> pystr res" where
  "hash_ce code v = hash_check (cluster_error code) v"

definition uuid_ce :: "string \<Rightarrow> val \<Rightarrow> pystr res" where
  "uuid_ce code v = uuid_check (cluster_error code) v"

definition content_hash :: "platform \<Rightarrow> string \<Rightarrow> dict \<Rightarrow> pystr res" where
  "content_hash P domain core =
     bindR (canonical_ce P (VDict core) ''invalid_canonical_value'') (\<lambda>b.
       Inr (sha256_hex (str domain @ [0] @ b)))"

definition fence_evidence_domain :: string where
  "fence_evidence_domain = ''daimon/cluster-resource-fence-evidence/v1''"

definition effect_receipt_domain :: string where
  "effect_receipt_domain = ''daimon/cluster-effect-receipt/v1''"

section \<open>Observed postconditions\<close>

text \<open>\<^verbatim>\<open>_FORBIDDEN_KEY\<close> and \<^verbatim>\<open>_FORBIDDEN_VALUE\<close>.\<close>

definition forbidden_key :: "pystr \<Rightarrow> bool" where
  "forbidden_key s = has_word
     [''address'', ''api_key'', ''bearer'', ''credential'', ''endpoint'', ''password'', ''passwd'',
      ''path'', ''private'', ''secret'', ''socket'', ''token'', ''url''] True s"

definition forbidden_value :: "pystr \<Rightarrow> bool" where
  "forbidden_value s =
     (has_private_key_ignorecase s
      \<or> list_ex (\<lambda>p. startswith (map fold_char s) p)
          [str ''/'', str ''~/'', str ''~'' @ [92], str ''file:'', str ''http://'', str ''https://''])"

text \<open>The recursion threads the node counter the code keeps in a one-element list.\<close>

fun postcondition_check :: "platform \<Rightarrow> nat \<Rightarrow> val \<Rightarrow> nat \<Rightarrow> nat res"
  and postcondition_list :: "platform \<Rightarrow> nat \<Rightarrow> val list \<Rightarrow> nat \<Rightarrow> nat res"
  and postcondition_items :: "platform \<Rightarrow> nat \<Rightarrow> dict \<Rightarrow> nat \<Rightarrow> nat res"
where
  "postcondition_check P depth v counter =
     (if Suc counter > max_postcondition_nodes \<or> depth > max_postcondition_depth
        then raise ClusterEvidenceError ''postcondition_too_complex''
      else (case v of
          VNone \<Rightarrow> Inr (Suc counter)
        | VBool b \<Rightarrow> Inr (Suc counter)
        | VInt i \<Rightarrow> bindR (canonical_ce P v ''invalid_postcondition'') (\<lambda>_. Inr (Suc counter))
        | VStr s \<Rightarrow>
            bindR (encode_utf8 s) (\<lambda>raw.
              if length raw > 4096 \<or> forbidden_value s
                then raise ClusterEvidenceError ''postcondition_disclosure_forbidden''
              else bindR (canonical_ce P v ''invalid_postcondition'') (\<lambda>_. Inr (Suc counter)))
        | VList vs \<Rightarrow> postcondition_list P (Suc depth) vs (Suc counter)
        | VDict d \<Rightarrow>
            if length d > 64 then raise ClusterEvidenceError ''postcondition_too_complex''
            else bindR (postcondition_items P (Suc depth) d (Suc counter)) (\<lambda>n.
              bindR (canonical_ce P v ''invalid_postcondition'') (\<lambda>_. Inr n))
        | _ \<Rightarrow> raise ClusterEvidenceError ''invalid_postcondition''))"
| "postcondition_list P depth [] counter = Inr counter"
| "postcondition_list P depth (v # vs) counter =
     bindR (postcondition_check P depth v counter) (\<lambda>n. postcondition_list P depth vs n)"
| "postcondition_items P depth [] counter = Inr counter"
| "postcondition_items P depth ((k, v) # d) counter =
     (if \<not> is_str k \<or> forbidden_key (str_of k)
        then raise ClusterEvidenceError ''postcondition_disclosure_forbidden''
      else bindR (text_ce P 128 ''invalid_postcondition'' k) (\<lambda>_.
        bindR (postcondition_check P depth v counter) (\<lambda>n. postcondition_items P depth d n)))"

definition validate_observed_postcondition :: "platform \<Rightarrow> val \<Rightarrow> dict res" where
  "validate_observed_postcondition P v = (case v of
     VDict d \<Rightarrow>
       bindR (postcondition_check P 0 v 0) (\<lambda>_.
       bindR (canonical_ce P v ''invalid_postcondition'') (\<lambda>raw.
         if length raw > max_postcondition_bytes
           then raise ClusterEvidenceError ''postcondition_too_large''
         else Inr d))
   | _ \<Rightarrow> raise ClusterEvidenceError ''invalid_postcondition'')"

section \<open>Snapshots\<close>

text \<open>\<^verbatim>\<open>re.fullmatch(r"dm:surface:v1:[0-9a-f]{64}", s)\<close>\<close>

definition is_surface_ref :: "pystr \<Rightarrow> bool" where
  "is_surface_ref s =
     (startswith s (str ''dm:surface:v1:'') \<and> is_hex64 (drop (length ''dm:surface:v1:'') s))"

text \<open>
  A chain of conditions \<^verbatim>\<open>if a or b or ...: raise\<close> whose operands may raise is read from left to
  right, as Python evaluates it.
\<close>

definition validate_surface_snapshot ::
  "platform \<Rightarrow> pystr \<Rightarrow> pystr \<Rightarrow> pystr \<Rightarrow> int \<Rightarrow> val \<Rightarrow> dict res" where
  "validate_surface_snapshot P body_ref embodiment_id incarnation_id evaluated_at_ms v =
     (let code = ''surface_snapshot_rejected''; e = cluster_error code in
      bindR (closed_ce [''schema'', ''body_ref'', ''embodiment_id'', ''incarnation_id'',
               ''observed_at_ms'', ''state'', ''domain'', ''surface_ref''] code v) (\<lambda>row.
        if item row ''schema'' \<noteq> VStr (str ''dm.cluster-surface-snapshot/v1'') then Inl e
        else bindR (text_ce P 240 code (VStr body_ref)) (\<lambda>b.
        if item row ''body_ref'' \<noteq> VStr b then Inl e
        else bindR (text_ce P 240 code (VStr embodiment_id)) (\<lambda>m.
        if item row ''embodiment_id'' \<noteq> VStr m then Inl e
        else bindR (text_ce P 240 code (VStr incarnation_id)) (\<lambda>i.
        if item row ''incarnation_id'' \<noteq> VStr i then Inl e
        else bindR (uint_ce code (item row ''observed_at_ms'')) (\<lambda>observed.
          bindR (uint_ce code (VInt evaluated_at_ms)) (\<lambda>evaluated.
        if observed \<noteq> evaluated \<or> item row ''state'' \<noteq> VStr (str ''running'')
           \<or> item row ''domain'' \<noteq> VStr (str ''native-linux-os'') then Inl e
        else bindR (text_ce P 240 code (item row ''surface_ref'')) (\<lambda>s.
        if \<not> is_surface_ref s then Inl e else Inr row))))))))"

text \<open>The loop \<^verbatim>\<open>for value in metrics.values()\<close>.\<close>

fun check_metrics :: "string \<Rightarrow> dict \<Rightarrow> unit res" where
  "check_metrics code [] = Inr ()"
| "check_metrics code ((k, v) # d) =
     (if v = VNone then check_metrics code d
      else bindR (uint_ce code v) (\<lambda>_. check_metrics code d))"

definition validate_realm_snapshot ::
  "platform \<Rightarrow> pystr \<Rightarrow> pystr \<Rightarrow> pystr \<Rightarrow> int \<Rightarrow> val \<Rightarrow> dict res" where
  "validate_realm_snapshot P body_ref embodiment_id incarnation_id evaluated_at_ms v =
     (let code = ''realm_snapshot_rejected''; e = cluster_error code in
      bindR (closed_ce [''schema'', ''surface'', ''resources'', ''resource_state''] code v) (\<lambda>row.
        if item row ''schema'' \<noteq> VStr (str ''dm.cluster-realm-snapshot/v1'') then Inl e
        else bindR (validate_surface_snapshot P body_ref embodiment_id incarnation_id evaluated_at_ms
                      (item row ''surface'')) (\<lambda>surface.
        bindR (closed_ce [''uptime_ms'', ''memory_total_bytes'', ''memory_available_bytes''] code
                 (item row ''resources'')) (\<lambda>metrics.
        bindR (check_metrics code metrics) (\<lambda>_.
          let total = item metrics ''memory_total_bytes'';
              available = item metrics ''memory_available_bytes'';
              state = (if list_ex (\<lambda>(k, v). v = VNone) metrics then ''partial'' else ''observed'') in
          if (total = VNone) \<noteq> (available = VNone) then Inl e
          else if total \<noteq> VNone
                  \<and> (num_of total = Some 0 \<or> the (num_of available) > the (num_of total)) then Inl e
          else if item row ''resource_state'' \<noteq> VStr (str state) then Inl e
          else Inr [(VStr (str ''schema''), item row ''schema''),
                    (VStr (str ''surface''), VDict surface),
                    (VStr (str ''resources''), VDict metrics),
                    (VStr (str ''resource_state''), VStr (str state))])))))"

text \<open>The normalized fences of a body snapshot: resource and epoch.\<close>

fun check_fences :: "platform \<Rightarrow> val list \<Rightarrow> (pystr \<times> int) list res" where
  "check_fences P [] = Inr []"
| "check_fences P (v # vs) =
     bindR (closed_ce [''epoch'', ''resource_ref''] ''body_snapshot_rejected'' v) (\<lambda>d.
     bindR (text_ce P 240 ''body_snapshot_rejected'' (item d ''resource_ref'')) (\<lambda>r.
     bindR (uint_ce ''body_snapshot_rejected'' (item d ''epoch'')) (\<lambda>epoch.
     bindR (check_fences P vs) (\<lambda>fs. Inr ((r, epoch) # fs)))))"

definition validate_body_snapshot ::
  "platform \<Rightarrow> pystr \<Rightarrow> pystr \<Rightarrow> pystr \<Rightarrow> int \<Rightarrow> val \<Rightarrow> dict res" where
  "validate_body_snapshot P body_ref embodiment_id incarnation_id evaluated_at_ms v =
     (let code = ''body_snapshot_rejected''; e = cluster_error code in
      bindR (text_ce P 240 code (VStr body_ref)) (\<lambda>b.
      bindR (text_ce P 240 code (VStr embodiment_id)) (\<lambda>m.
      bindR (text_ce P 240 code (VStr incarnation_id)) (\<lambda>i.
      bindR (uint_ce code (VInt evaluated_at_ms)) (\<lambda>evaluated.
      bindR (closed_ce [''body_ref'', ''embodiment_id'', ''incarnation_id'', ''observed_at_ms'',
               ''resource_fences'', ''schema'', ''state''] code v) (\<lambda>row.
        if item row ''schema'' \<noteq> VStr (str ''dm.cluster-body-snapshot/v1'')
           \<or> item row ''body_ref'' \<noteq> VStr b \<or> item row ''embodiment_id'' \<noteq> VStr m
           \<or> item row ''incarnation_id'' \<noteq> VStr i then Inl e
        else bindR (in_strings (item row ''state'') [''running'', ''stopped'', ''unavailable'']) (\<lambda>known.
        if \<not> known then Inl e
        else bindR (uint_ce code (item row ''observed_at_ms'')) (\<lambda>observed.
        if observed > evaluated then Inl e
        else (case item row ''resource_fences'' of
            VList fences \<Rightarrow>
              if length fences > max_resource_fences then Inl e
              else bindR (check_fences P fences) (\<lambda>normalized.
                if \<not> sorted (map fst normalized) \<or> \<not> distinct (map fst normalized) then Inl e
                else bindR (canonical_ce P v code) (\<lambda>raw.
                  if length raw > max_document_bytes then Inl e else Inr row))
          | _ \<Rightarrow> Inl e)))))))))"

section \<open>Resource fences\<close>

definition fence_evidence_fields :: "string list" where
  "fence_evidence_fields =
     [''schema'', ''body_ref'', ''holder_embodiment_id'', ''holder_incarnation_id'', ''resource_ref'',
      ''epoch'', ''observed_at_ms'', ''expires_at_ms'', ''verification_ref'', ''content_hash'']"

definition validate_resource_fence_evidence :: "platform \<Rightarrow> val \<Rightarrow> dict res" where
  "validate_resource_fence_evidence P v =
     (let code = ''invalid_fence_evidence''; e = cluster_error code in
      bindR (closed_ce fence_evidence_fields code v) (\<lambda>row.
        if item row ''schema'' \<noteq> VStr (str ''dm.cluster-resource-fence-evidence/v1'') then Inl e
        else bindR (mapR (\<lambda>f. text_ce P 240 code (item row f))
                     [''body_ref'', ''holder_embodiment_id'', ''holder_incarnation_id'',
                      ''resource_ref'', ''verification_ref'']) (\<lambda>_.
        bindR (uint_ce code (item row ''epoch'')) (\<lambda>_.
        bindR (uint_ce code (item row ''observed_at_ms'')) (\<lambda>observed.
        bindR (uint_ce code (item row ''expires_at_ms'')) (\<lambda>expires.
        if expires < observed then Inl e
        else bindR (hash_ce code (item row ''content_hash'')) (\<lambda>h.
          bindR (content_hash P fence_evidence_domain (without [''content_hash''] row)) (\<lambda>expected.
          if h \<noteq> expected then raise ClusterEvidenceError ''fence_evidence_hash_mismatch''
          else bindR (canonical_ce P v code) (\<lambda>raw.
            if length raw > max_document_bytes
              then raise ClusterEvidenceError ''fence_evidence_too_large''
            else Inr row)))))))))"

definition create_resource_fence_evidence ::
  "platform \<Rightarrow> pystr \<Rightarrow> pystr \<Rightarrow> pystr \<Rightarrow> pystr \<Rightarrow> int \<Rightarrow> int \<Rightarrow> int \<Rightarrow> pystr \<Rightarrow> dict res" where
  "create_resource_fence_evidence P body_ref holder_embodiment_id holder_incarnation_id resource_ref
     epoch observed_at_ms expires_at_ms verification_ref =
     (let core = [(VStr (str ''schema''), VStr (str ''dm.cluster-resource-fence-evidence/v1'')),
                  (VStr (str ''body_ref''), VStr body_ref),
                  (VStr (str ''holder_embodiment_id''), VStr holder_embodiment_id),
                  (VStr (str ''holder_incarnation_id''), VStr holder_incarnation_id),
                  (VStr (str ''resource_ref''), VStr resource_ref),
                  (VStr (str ''epoch''), VInt epoch),
                  (VStr (str ''observed_at_ms''), VInt observed_at_ms),
                  (VStr (str ''expires_at_ms''), VInt expires_at_ms),
                  (VStr (str ''verification_ref''), VStr verification_ref)] in
      bindR (content_hash P fence_evidence_domain core) (\<lambda>h.
        validate_resource_fence_evidence P (VDict (core @ [(VStr (str ''content_hash''), VStr h)]))))"

text \<open>The optional expectations of the caller; \<open>None\<close> asks nothing.\<close>

record fence_expectation =
  x_body_ref :: "pystr option"
  x_holder_embodiment_id :: "pystr option"
  x_holder_incarnation_id :: "pystr option"
  x_resource_ref :: "pystr option"

definition fence_matches :: "fence_expectation \<Rightarrow> dict \<Rightarrow> bool" where
  "fence_matches x evidence =
     list_all (\<lambda>(f, wanted). case wanted of None \<Rightarrow> True | Some w \<Rightarrow> item evidence f = VStr w)
       [(''body_ref'', x_body_ref x), (''holder_embodiment_id'', x_holder_embodiment_id x),
        (''holder_incarnation_id'', x_holder_incarnation_id x), (''resource_ref'', x_resource_ref x)]"

definition fence_verification_fields :: "string list" where
  "fence_verification_fields =
     [''schema'', ''content_hash'', ''resource_ref'', ''holder_embodiment_id'', ''epoch'',
      ''verified_at_ms'', ''current'']"

definition verify_resource_fence_evidence ::
  "platform \<Rightarrow> val \<Rightarrow> int \<Rightarrow> (dict \<Rightarrow> int \<Rightarrow> val res) \<Rightarrow> fence_expectation \<Rightarrow> dict res" where
  "verify_resource_fence_evidence P v at_ms verifier x =
     bindR (validate_resource_fence_evidence P v) (\<lambda>evidence.
     bindR (uint_ce ''invalid_fence_verification_time'' (VInt at_ms)) (\<lambda>at.
       if \<not> fence_matches x evidence then raise ClusterEvidenceError ''fence_binding_mismatch''
       else if the (num_of (item evidence ''observed_at_ms'')) > at
               \<or> the (num_of (item evidence ''expires_at_ms'')) < at
         then raise ClusterEvidenceError ''fence_not_current''
       else bindR (wrapR (\<lambda>e. \<not> is_class FenceVerificationUnavailable e)
                     (cluster_error ''fence_verification_rejected'') (verifier evidence at)) (\<lambda>raw.
       bindR (closed_ce fence_verification_fields ''invalid_fence_verification'' raw) (\<lambda>verification.
       bindR (uint_ce ''invalid_fence_verification'' (item verification ''verified_at_ms'')) (\<lambda>verified_at.
         if item verification ''schema'' \<noteq> VStr (str ''dm.cluster-resource-fence-verification/v1'')
            \<or> item verification ''content_hash'' \<noteq> item evidence ''content_hash''
            \<or> item verification ''resource_ref'' \<noteq> item evidence ''resource_ref''
            \<or> item verification ''holder_embodiment_id'' \<noteq> item evidence ''holder_embodiment_id''
            \<or> num_of (item verification ''epoch'') \<noteq> num_of (item evidence ''epoch'')
            \<or> verified_at < the (num_of (item evidence ''observed_at_ms''))
            \<or> verified_at > at
           then raise ClusterEvidenceError ''invalid_fence_verification''
         else if item verification ''current'' \<noteq> VBool True
           then raise ClusterEvidenceError ''fence_not_current''
         else Inr evidence)))))"

definition position_of :: "dict \<Rightarrow> dict" where
  "position_of evidence =
     [(VStr (str ''schema''), VStr (str ''dm.cluster-resource-fence-position/v1'')),
      (VStr (str ''resource_ref''), item evidence ''resource_ref''),
      (VStr (str ''holder_embodiment_id''), item evidence ''holder_embodiment_id''),
      (VStr (str ''epoch''), item evidence ''epoch''),
      (VStr (str ''evidence_hash''), item evidence ''content_hash'')]"

definition resource_fence_position :: "platform \<Rightarrow> val \<Rightarrow> dict res" where
  "resource_fence_position P v =
     bindR (validate_resource_fence_evidence P v) (\<lambda>evidence. Inr (position_of evidence))"

definition fence_position_fields :: "string list" where
  "fence_position_fields =
     [''schema'', ''resource_ref'', ''holder_embodiment_id'', ''epoch'', ''evidence_hash'']"

definition validate_resource_fence_position :: "platform \<Rightarrow> val \<Rightarrow> dict res" where
  "validate_resource_fence_position P v =
     (let code = ''invalid_resource_fence_position'' in
      bindR (closed_ce fence_position_fields code v) (\<lambda>row.
        if item row ''schema'' \<noteq> VStr (str ''dm.cluster-resource-fence-position/v1'')
          then Inl (cluster_error code)
        else bindR (text_ce P 240 code (item row ''resource_ref'')) (\<lambda>_.
        bindR (text_ce P 240 code (item row ''holder_embodiment_id'')) (\<lambda>_.
        bindR (uint_ce code (item row ''epoch'')) (\<lambda>_.
        bindR (hash_ce code (item row ''evidence_hash'')) (\<lambda>_. Inr row))))))"

section \<open>Effect receipts\<close>

definition effect_receipt_fields :: "string list" where
  "effect_receipt_fields =
     [''schema'', ''effect_id'', ''target_event_id'', ''decision_event_id'', ''adapter'',
      ''preview_hash'', ''intent_hash'', ''actor'', ''authority'', ''resource_fence'', ''result'',
      ''observed_postcondition'', ''started_at_ms'', ''completed_at_ms'', ''content_hash'']"

definition validate_effect_receipt :: "platform \<Rightarrow> val \<Rightarrow> dict res" where
  "validate_effect_receipt P v =
     (let code = ''invalid_effect_receipt''; e = cluster_error code in
      bindR (closed_ce effect_receipt_fields code v) (\<lambda>row.
        if item row ''schema'' \<noteq> VStr (str ''dm.cluster-effect-receipt/v1'') then Inl e
        else bindR (uuid_ce code (item row ''effect_id'')) (\<lambda>_.
        bindR (uuid_ce code (item row ''target_event_id'')) (\<lambda>_.
        bindR (uuid_ce code (item row ''decision_event_id'')) (\<lambda>_.
        bindR (text_ce P 128 code (item row ''adapter'')) (\<lambda>_.
        bindR (hash_ce code (item row ''preview_hash'')) (\<lambda>_.
        bindR (hash_ce code (item row ''intent_hash'')) (\<lambda>_.
        bindR (text_ce P 128 code (item row ''actor'')) (\<lambda>_.
        bindR (in_strings (item row ''authority'') [''daimon'', ''human'']) (\<lambda>known.
        if \<not> known then Inl e
        else bindR (in_strings (item row ''result'') [''applied'', ''failed'', ''reconciled'', ''stale'']) (\<lambda>known.
        if \<not> known then Inl e
        else bindR (uint_ce code (item row ''started_at_ms'')) (\<lambda>started.
        bindR (uint_ce code (item row ''completed_at_ms'')) (\<lambda>completed.
        if completed < started then Inl e
        else bindR (validate_observed_postcondition P (item row ''observed_postcondition'')) (\<lambda>_.
        bindR (if item row ''resource_fence'' = VNone then Inr []
               else validate_resource_fence_position P (item row ''resource_fence'')) (\<lambda>_.
        bindR (hash_ce code (item row ''content_hash'')) (\<lambda>h.
        bindR (content_hash P effect_receipt_domain (without [''content_hash''] row)) (\<lambda>expected.
        if h \<noteq> expected then raise ClusterEvidenceError ''effect_receipt_hash_mismatch''
        else bindR (canonical_ce P v code) (\<lambda>raw.
          if length raw > max_document_bytes
            then raise ClusterEvidenceError ''effect_receipt_too_large''
          else Inr row))))))))))))))))) )"

record effect_fields =
  ef_effect_id :: pystr
  ef_target_event_id :: pystr
  ef_decision_event_id :: pystr
  ef_adapter :: pystr
  ef_preview_hash :: pystr
  ef_intent_hash :: pystr
  ef_actor :: pystr
  ef_authority :: pystr
  ef_resource_fence :: val
  ef_result :: pystr
  ef_observed_postcondition :: dict
  ef_started_at_ms :: int
  ef_completed_at_ms :: int

definition create_effect_receipt :: "platform \<Rightarrow> effect_fields \<Rightarrow> dict res" where
  "create_effect_receipt P f =
     (let core = [(VStr (str ''schema''), VStr (str ''dm.cluster-effect-receipt/v1'')),
                  (VStr (str ''effect_id''), VStr (ef_effect_id f)),
                  (VStr (str ''target_event_id''), VStr (ef_target_event_id f)),
                  (VStr (str ''decision_event_id''), VStr (ef_decision_event_id f)),
                  (VStr (str ''adapter''), VStr (ef_adapter f)),
                  (VStr (str ''preview_hash''), VStr (ef_preview_hash f)),
                  (VStr (str ''intent_hash''), VStr (ef_intent_hash f)),
                  (VStr (str ''actor''), VStr (ef_actor f)),
                  (VStr (str ''authority''), VStr (ef_authority f)),
                  (VStr (str ''resource_fence''), ef_resource_fence f),
                  (VStr (str ''result''), VStr (ef_result f)),
                  (VStr (str ''observed_postcondition''), VDict (ef_observed_postcondition f)),
                  (VStr (str ''started_at_ms''), VInt (ef_started_at_ms f)),
                  (VStr (str ''completed_at_ms''), VInt (ef_completed_at_ms f))] in
      bindR (content_hash P effect_receipt_domain core) (\<lambda>h.
        validate_effect_receipt P (VDict (core @ [(VStr (str ''content_hash''), VStr h)]))))"

definition projection_receipt_fields :: "string list" where
  "projection_receipt_fields =
     [''target_event_id'', ''decision_event_id'', ''adapter'', ''preview_hash'', ''intent_hash'',
      ''actor'', ''authority'', ''resource_fence'', ''result'', ''observed_postcondition'',
      ''started_at_ms'', ''completed_at_ms'']"

definition projection_receipt_payload :: "platform \<Rightarrow> val \<Rightarrow> dict res" where
  "projection_receipt_payload P v =
     bindR (validate_effect_receipt P v) (\<lambda>receipt.
       Inr (map (\<lambda>f. (VStr (str f), item receipt f)) projection_receipt_fields))"

section \<open>Reconciliation\<close>

datatype verdict = Verified | Discrepancy | Unverifiable

record reconciliation =
  rc_effect_id :: val
  rc_receipt_hash :: val
  rc_status :: verdict
  rc_reason :: pystr

definition reconciliation_of :: "dict \<Rightarrow> verdict \<Rightarrow> pystr \<Rightarrow> reconciliation" where
  "reconciliation_of receipt status reason =
     \<lparr>rc_effect_id = item receipt ''effect_id'', rc_receipt_hash = item receipt ''content_hash'',
      rc_status = status, rc_reason = reason\<rparr>"

text \<open>
  The comparison of two fence positions, each a mapping with the same five keys: strings, and an
  epoch that was checked to be an integer.
\<close>

definition same_position :: "dict \<Rightarrow> dict \<Rightarrow> bool" where
  "same_position a b = list_all (\<lambda>f. item a f = item b f) fence_position_fields"

definition expected_holder :: "dict \<Rightarrow> fence_expectation" where
  "expected_holder fence =
     \<lparr>x_body_ref = None, x_holder_embodiment_id = Some (str_of (item fence ''holder_embodiment_id'')),
      x_holder_incarnation_id = None, x_resource_ref = Some (str_of (item fence ''resource_ref''))\<rparr>"

text \<open>
  The fence part of \<^verbatim>\<open>reconcile_effect_receipt\<close>: \<open>Some\<close> verdict that ends it, or \<open>None\<close> to go on.
\<close>

definition reconcile_fence ::
  "platform \<Rightarrow> dict \<Rightarrow> int \<Rightarrow> val option \<Rightarrow> (dict \<Rightarrow> int \<Rightarrow> val res) option
     \<Rightarrow> reconciliation option res" where
  "reconcile_fence P receipt at_ms current_fence verifier =
     (case item receipt ''resource_fence'' of
        VDict expected \<Rightarrow>
          (case (current_fence, verifier) of
             (Some evidence, Some verify) \<Rightarrow>
               (case verify_resource_fence_evidence P evidence at_ms verify (expected_holder expected) of
                  Inl e \<Rightarrow>
                    if is_class FenceVerificationUnavailable e
                      then Inr (Some (reconciliation_of receipt Unverifiable (str ''fence-verifier-unavailable'')))
                    else if is_class ClusterEvidenceError e
                      then Inr (Some (reconciliation_of receipt
                             (if exc_message e \<in> {str ''fence_binding_mismatch'', str ''fence_not_current''}
                              then Discrepancy else Unverifiable) (exc_message e)))
                    else Inl e
                | Inr current \<Rightarrow>
                    bindR (resource_fence_position P (VDict current)) (\<lambda>position.
                      if \<not> same_position position expected
                        then Inr (Some (reconciliation_of receipt Discrepancy
                               (if item position ''epoch'' \<noteq> item expected ''epoch''
                                then str ''fence-epoch-mismatch'' else str ''fence-evidence-mismatch'')))
                      else Inr None))
           | _ \<Rightarrow> Inr (Some (reconciliation_of receipt Unverifiable (str ''fence-observation-unavailable''))))
      | _ \<Rightarrow> if current_fence \<noteq> None
               then Inr (Some (reconciliation_of receipt Discrepancy (str ''unexpected-fence'')))
             else Inr None)"

definition reconcile_effect_receipt ::
  "platform \<Rightarrow> val \<Rightarrow> val \<Rightarrow> val option \<Rightarrow> int \<Rightarrow> val option \<Rightarrow> (dict \<Rightarrow> int \<Rightarrow> val res) option
     \<Rightarrow> reconciliation res" where
  "reconcile_effect_receipt P v intent observed at_ms current_fence verifier =
     bindR (validate_effect_receipt P v) (\<lambda>receipt.
     bindR (uint_ce ''invalid_reconciliation_time'' (VInt at_ms)) (\<lambda>_.
     bindR (canonical_ce P intent ''invalid_effect_intent'') (\<lambda>encoded_intent.
       if length encoded_intent > max_postcondition_bytes
         then raise ClusterEvidenceError ''effect_intent_too_large''
       else if VStr (sha256_hex encoded_intent) \<noteq> item receipt ''intent_hash''
         then Inr (reconciliation_of receipt Discrepancy (str ''intent-mismatch''))
       else bindR (reconcile_fence P receipt at_ms current_fence verifier) (\<lambda>ended.
         case ended of Some r \<Rightarrow> Inr r
         | None \<Rightarrow>
           (case observed of
              None \<Rightarrow> Inr (reconciliation_of receipt Unverifiable (str ''postcondition-unavailable''))
            | Some seen_now \<Rightarrow>
                (case validate_observed_postcondition P seen_now of
                   Inl e \<Rightarrow>
                     if is_class ClusterEvidenceError e
                       then Inr (reconciliation_of receipt Unverifiable (str ''postcondition-invalid''))
                     else Inl e
                 | Inr seen \<Rightarrow>
                     bindR (canonical_ce P (VDict seen) ''invalid_postcondition'') (\<lambda>a.
                     bindR (canonical_ce P (item receipt ''observed_postcondition'') ''invalid_postcondition'') (\<lambda>b.
                       if a \<noteq> b
                         then Inr (reconciliation_of receipt Discrepancy (str ''postcondition-mismatch''))
                       else Inr (reconciliation_of receipt Verified (str ''effect-truth-matches''))))))))))"

end
