(* ===== verification/Relationships.thy ===== *)
theory Relationships
  imports Identity
begin

text \<open>
  The closed payloads of relationship events, \<^verbatim>\<open>src/daimon_matrix/relationships.py\<close>: cards, offers,
  acceptances and closes, tribe declarations, invitations, memberships and founder transfers,
  grants, their acceptances and revocations, and the tribe snapshot.

  A validator takes an arbitrary value; what it accepts is a record, one constructor of \<open>payload\<close>
  per event kind. Where the code hashes a validated mapping, \<open>..._dict\<close> is that mapping.
\<close>

section \<open>Constants and scalar checks\<close>

definition max_members :: nat where "max_members = 256"

definition max_grants :: nat where "max_grants = 1024"

definition max_rows :: nat where "max_rows = 64"

definition max_delegation_depth :: int where "max_delegation_depth = 16"

definition day_ms :: int where "day_ms = 24 * 60 * 60 * 1000"

definition max_grant_lifetime_ms :: int where "max_grant_lifetime_ms = 365 * day_ms"

definition max_card_lifetime_ms :: int where "max_card_lifetime_ms = 30 * day_ms"

definition max_offer_lifetime_ms :: int where "max_offer_lifetime_ms = 7 * day_ms"

definition max_invitation_lifetime_ms :: int where "max_invitation_lifetime_ms = 7 * day_ms"

definition messaging_operations :: "pystr list" where
  "messaging_operations = [str ''messaging.read'', str ''messaging.send'']"

definition tribe_prefix :: string where "tribe_prefix = ''dm:tribe:v1:''"

definition relationship_prefix :: string where "relationship_prefix = ''dm:relationship:v1:''"

definition resource_prefix :: string where "resource_prefix = ''dm:relationship-resource:v1:''"

definition grant_prefix :: string where "grant_prefix = ''dm:relationship-grant:v1:''"

definition transfer_prefix :: string where "transfer_prefix = ''dm:founder-transfer:v1:''"

abbreviation rel_error :: "string \<Rightarrow> exc" where
  "rel_error code \<equiv> Exc RelationshipError (str code)"

definition closed_re :: "string list \<Rightarrow> string \<Rightarrow> val \<Rightarrow> dict res" where
  "closed_re ks code v = closed_dict (rel_error code) ks v"

definition text_re :: "platform \<Rightarrow> nat \<Rightarrow> string \<Rightarrow> val \<Rightarrow> pystr res" where
  "text_re P maximum code v = (case v of
     VStr s \<Rightarrow>
       bindR (encode_utf8 s) (\<lambda>raw.
         if \<not> (1 \<le> length raw \<and> length raw \<le> maximum) then Inl (rel_error code)
         else bindR (wrapR (is_class CanonicalError) (rel_error code) (canonical_bytes P v)) (\<lambda>_. Inr s))
   | _ \<Rightarrow> Inl (rel_error code))"

definition uint_re :: "string \<Rightarrow> val \<Rightarrow> int res" where
  "uint_re code v = uint_check (rel_error code) 0 v"

definition hash_re :: "string \<Rightarrow> val \<Rightarrow> pystr res" where
  "hash_re code v = hash_check (rel_error code) v"

definition nonce_re :: "string \<Rightarrow> val \<Rightarrow> pystr res" where
  "nonce_re code v =
     bindR (wrapR (is_class CanonicalError) (rel_error code) (unb64url v (Some 32))) (\<lambda>_. Inr (str_of v))"

text \<open>\<^verbatim>\<open>value not in {...}: raise\<close> for string literals.\<close>

definition one_of :: "exc \<Rightarrow> string list \<Rightarrow> val \<Rightarrow> pystr res" where
  "one_of e ss v = bindR (in_strings v ss) (\<lambda>ok. if ok then Inr (str_of v) else Inl e)"

text \<open>\<^verbatim>\<open>_OPERATION\<close> and \<^verbatim>\<open>_CLASSIFICATION\<close>: words joined by single separators.\<close>

definition lower_alpha :: "nat \<Rightarrow> bool" where
  "lower_alpha c = (97 \<le> c \<and> c \<le> 122)"

definition lower_alnum :: "nat \<Rightarrow> bool" where
  "lower_alnum c = (lower_alpha c \<or> (48 \<le> c \<and> c \<le> 57))"

text \<open>\<^verbatim>\<open>[a-z0-9]*(?:[sep][a-z0-9]+)*$\<close>, with or without a character after the last separator.\<close>

fun words_rest :: "pystr \<Rightarrow> bool \<Rightarrow> pystr \<Rightarrow> bool" where
  "words_rest seps started [] = started"
| "words_rest seps started (c # s) =
     (if lower_alnum c then words_rest seps True s
      else c \<in> set seps \<and> started \<and> words_rest seps False s)"

definition word_list :: "pystr \<Rightarrow> pystr \<Rightarrow> bool" where
  "word_list seps s = (case s of [] \<Rightarrow> False | c # r \<Rightarrow> lower_alpha c \<and> words_rest seps True r)"

definition is_operation :: "pystr \<Rightarrow> bool" where
  "is_operation s = word_list (str ''./-'') s"

definition is_classification :: "pystr \<Rightarrow> bool" where
  "is_classification s = word_list (str ''._-'') s"

text \<open>\<^verbatim>\<open>_DERIVED_ID\<close>: a name without a colon between \<^verbatim>\<open>dm:\<close> and \<^verbatim>\<open>:v1:\<close>, then 43 digits.\<close>

definition is_derived_id :: "pystr \<Rightarrow> bool" where
  "is_derived_id s =
     (let name_char = (\<lambda>c. lower_alpha c \<or> c = 45); r = drop 3 s;
          tail = dropWhile name_char r in
      startswith s (str ''dm:'') \<and> takeWhile name_char r \<noteq> [] \<and> startswith tail (str '':v1:'')
      \<and> length (drop 4 tail) = 43 \<and> list_all (\<lambda>c. c \<in> set b64_alphabet) (drop 4 tail))"

definition derived_id :: "platform \<Rightarrow> string \<Rightarrow> string \<Rightarrow> val \<Rightarrow> pystr res" where
  "derived_id P prefix code v =
     bindR (text_re P 256 code v) (\<lambda>s.
       if \<not> startswith s (str prefix) \<or> \<not> is_derived_id s then Inl (rel_error code) else Inr s)"

text \<open>\<^verbatim>\<open>_derived\<close>: the prefix and the digest of a closed mapping in its domain.\<close>

definition derived :: "platform \<Rightarrow> string \<Rightarrow> string \<Rightarrow> dict \<Rightarrow> pystr res" where
  "derived P prefix domain core =
     bindR (canonical_bytes P (VDict core)) (\<lambda>raw.
       Inr (str prefix @ b64url (sha256 (str domain @ [0] @ raw))))"

text \<open>\<^verbatim>\<open>_sorted_texts\<close>\<close>

definition sorted_texts ::
  "platform \<Rightarrow> nat \<Rightarrow> (pystr \<Rightarrow> bool) \<Rightarrow> string \<Rightarrow> val \<Rightarrow> pystr list res" where
  "sorted_texts P maximum ok code v = (case v of
     VList vs \<Rightarrow>
       if length vs > maximum \<or> \<not> list_all is_str vs \<or> \<not> sorted_wrt (<) (map str_of vs)
         then Inl (rel_error code)
       else mapR (\<lambda>x. bindR (text_re P 256 code x) (\<lambda>s.
              if ok s then Inr s else Inl (rel_error code))) vs
   | _ \<Rightarrow> Inl (rel_error code))"

section \<open>References and descriptors\<close>

record event_ref =
  rf_event_id :: pystr
  rf_event_hash :: pystr

definition event_id_re :: "platform \<Rightarrow> string \<Rightarrow> val \<Rightarrow> pystr res" where
  "event_id_re P code v =
     bindR (text_re P 64 code v) (\<lambda>s. if is_uuid s then Inr s else Inl (rel_error code))"

definition event_ref_re :: "platform \<Rightarrow> string \<Rightarrow> val \<Rightarrow> event_ref res" where
  "event_ref_re P code v =
     bindR (closed_re [''event_hash'', ''event_id''] code v) (\<lambda>d.
     bindR (event_id_re P code (item d ''event_id'')) (\<lambda>i.
     bindR (hash_re code (item d ''event_hash'')) (\<lambda>h.
       Inr \<lparr>rf_event_id = i, rf_event_hash = h\<rparr>)))"

definition optional :: "(val \<Rightarrow> 'a res) \<Rightarrow> val \<Rightarrow> 'a option res" where
  "optional f v = (if v = VNone then Inr None else bindR (f v) (\<lambda>x. Inr (Some x)))"

record encryption_key =
  ky_key_id :: pystr
  ky_public :: bytes

definition key_re :: "platform \<Rightarrow> string \<Rightarrow> val \<Rightarrow> encryption_key res" where
  "key_re P code v =
     bindR (closed_re [''algorithm'', ''key_id'', ''public''] code v) (\<lambda>d.
       if item d ''algorithm'' \<noteq> VStr (str ''X25519'') then Inl (rel_error code)
       else bindR (wrapR (is_class CanonicalError) (rel_error code) (unb64url (item d ''public'') (Some 32))) (\<lambda>public.
         bindR (key_id P ''X25519'' public) (\<lambda>kid.
           if item d ''key_id'' \<noteq> VStr kid then Inl (rel_error code)
           else Inr \<lparr>ky_key_id = kid, ky_public = public\<rparr>)))"

record control_position =
  cp_embodiment_id :: pystr
  cp_incarnation_id :: pystr
  cp_manifest_hash :: pystr

definition control_position_re :: "platform \<Rightarrow> string \<Rightarrow> val \<Rightarrow> control_position res" where
  "control_position_re P code v =
     bindR (closed_re [''embodiment_id'', ''incarnation_id'', ''manifest_hash''] code v) (\<lambda>d.
     bindR (text_re P 256 code (item d ''embodiment_id'')) (\<lambda>em.
     bindR (text_re P 256 code (item d ''incarnation_id'')) (\<lambda>inc.
     bindR (hash_re code (item d ''manifest_hash'')) (\<lambda>mh.
       Inr \<lparr>cp_embodiment_id = em, cp_incarnation_id = inc, cp_manifest_hash = mh\<rparr>))))"

section \<open>Derived identifiers\<close>

record tribe_declaration =
  dc_created_at_ms :: int
  dc_founder :: pystr
  dc_nonce :: pystr
  dc_policy_ref :: pystr

definition declaration_dict :: "tribe_declaration \<Rightarrow> dict" where
  "declaration_dict d =
     [(VStr (str ''created_at_ms''), VInt (dc_created_at_ms d)),
      (VStr (str ''founder_principal_id''), VStr (dc_founder d)),
      (VStr (str ''nonce''), VStr (dc_nonce d)), (VStr (str ''policy_ref''), VStr (dc_policy_ref d))]"

definition declaration_fields :: "string list" where
  "declaration_fields = [''created_at_ms'', ''founder_principal_id'', ''nonce'', ''policy_ref'']"

text \<open>\<^verbatim>\<open>tribe_ref\<close>: the checks and the digest; the digest is of the mapping as given.\<close>

definition tribe_ref :: "platform \<Rightarrow> val \<Rightarrow> (pystr \<times> tribe_declaration) res" where
  "tribe_ref P v =
     (let code = ''invalid_tribe_declaration'' in
      bindR (closed_re declaration_fields code v) (\<lambda>d.
      bindR (uint_re code (item d ''created_at_ms'')) (\<lambda>created.
      bindR (text_re P 256 code (item d ''founder_principal_id'')) (\<lambda>founder.
      bindR (text_re P 256 code (item d ''policy_ref'')) (\<lambda>policy.
      bindR (nonce_re code (item d ''nonce'')) (\<lambda>nonce.
      bindR (derived P tribe_prefix ''daimon/tribe/declaration/v1'' d) (\<lambda>tref.
        Inr (tref, \<lparr>dc_created_at_ms = created, dc_founder = founder, dc_nonce = nonce,
                    dc_policy_ref = policy\<rparr>))))))))"

definition card_series_id :: "platform \<Rightarrow> pystr \<Rightarrow> pystr res" where
  "card_series_id P being =
     bindR (text_re P 256 ''invalid_relationship_card'' (VStr being)) (\<lambda>b.
       derived P ''dm:relationship-card-series:v1:'' ''daimon/relationship/card-series/v1''
         [(VStr (str ''being_ref''), VStr b)])"

definition relationship_id :: "platform \<Rightarrow> pystr \<Rightarrow> pystr \<Rightarrow> pystr \<Rightarrow> pystr res" where
  "relationship_id P nonce initiator responder =
     (let code = ''invalid_relationship_offer'' in
      bindR (text_re P 256 code (VStr initiator)) (\<lambda>i.
      bindR (nonce_re code (VStr nonce)) (\<lambda>n.
      bindR (text_re P 256 code (VStr responder)) (\<lambda>r.
        if i = r then raise RelationshipError ''relationship_requires_distinct_beings''
        else derived P relationship_prefix ''daimon/relationship/id/v1''
               [(VStr (str ''initiator_being_ref''), VStr i), (VStr (str ''nonce''), VStr n),
                (VStr (str ''responder_being_ref''), VStr r)]))))"

definition invitation_id :: "platform \<Rightarrow> pystr \<Rightarrow> int \<Rightarrow> pystr \<Rightarrow> pystr \<Rightarrow> pystr res" where
  "invitation_id P tribe epoch invitee nonce =
     (let code = ''invalid_tribe_invitation'' in
      bindR (uint_re code (VInt epoch)) (\<lambda>e.
      bindR (text_re P 256 code (VStr invitee)) (\<lambda>i.
      bindR (nonce_re code (VStr nonce)) (\<lambda>n.
      bindR (derived_id P tribe_prefix code (VStr tribe)) (\<lambda>t.
        derived P ''dm:tribe-invitation:v1:'' ''daimon/tribe/invitation/v1''
          [(VStr (str ''founder_epoch''), VInt e), (VStr (str ''invitee_being_ref''), VStr i),
           (VStr (str ''nonce''), VStr n), (VStr (str ''tribe_ref''), VStr t)])))))"

definition founder_transfer_id :: "platform \<Rightarrow> pystr \<Rightarrow> int \<Rightarrow> pystr \<Rightarrow> pystr \<Rightarrow> pystr res" where
  "founder_transfer_id P tribe epoch successor nonce =
     (let code = ''invalid_founder_transfer'' in
      bindR (uint_re code (VInt epoch)) (\<lambda>e.
      bindR (nonce_re code (VStr nonce)) (\<lambda>n.
      bindR (text_re P 256 code (VStr successor)) (\<lambda>s.
      bindR (derived_id P tribe_prefix code (VStr tribe)) (\<lambda>t.
        derived P transfer_prefix ''daimon/tribe/founder-transfer/v1''
          [(VStr (str ''from_epoch''), VInt e), (VStr (str ''nonce''), VStr n),
           (VStr (str ''successor_being_ref''), VStr s), (VStr (str ''tribe_ref''), VStr t)])))))"

definition grant_id :: "platform \<Rightarrow> pystr \<Rightarrow> pystr \<Rightarrow> pystr \<Rightarrow> pystr \<Rightarrow> pystr res" where
  "grant_id P nonce relationship grantor subject =
     (let code = ''invalid_relationship_grant'' in
      bindR (text_re P 256 code (VStr grantor)) (\<lambda>g.
      bindR (nonce_re code (VStr nonce)) (\<lambda>n.
      bindR (derived_id P relationship_prefix code (VStr relationship)) (\<lambda>r.
      bindR (text_re P 256 code (VStr subject)) (\<lambda>s.
        if g = s then raise RelationshipError ''grant_requires_distinct_beings''
        else derived P grant_prefix ''daimon/relationship/grant/v1''
               [(VStr (str ''grantor_being_ref''), VStr g), (VStr (str ''nonce''), VStr n),
                (VStr (str ''relationship_id''), VStr r), (VStr (str ''subject_being_ref''), VStr s)])))))"

section \<open>Resources and permissions\<close>

record descriptor =
  ds_nonce :: pystr
  ds_controller :: pystr
  ds_kind :: pystr
  ds_classification :: pystr
  ds_operations :: "pystr list"
  ds_descriptor_ref :: pystr

definition texts_val :: "pystr list \<Rightarrow> val" where
  "texts_val xs = VList (map VStr xs)"

definition descriptor_dict :: "descriptor \<Rightarrow> dict" where
  "descriptor_dict d =
     [(VStr (str ''schema''), VStr (str ''dm.relationship.resource/v1'')),
      (VStr (str ''resource_nonce''), VStr (ds_nonce d)),
      (VStr (str ''controller_being_ref''), VStr (ds_controller d)),
      (VStr (str ''kind''), VStr (ds_kind d)),
      (VStr (str ''classification''), VStr (ds_classification d)),
      (VStr (str ''operations''), texts_val (ds_operations d)),
      (VStr (str ''descriptor_ref''), VStr (ds_descriptor_ref d))]"

definition classification_re :: "platform \<Rightarrow> string \<Rightarrow> val \<Rightarrow> pystr res" where
  "classification_re P code v =
     bindR (text_re P 64 code v) (\<lambda>s. if is_classification s then Inr s else Inl (rel_error code))"

definition resource_kinds :: "string list" where
  "resource_kinds = [''knowledge'', ''compute'', ''storage'', ''tool'', ''sensor'', ''actuator'', ''route'', ''other'']"

definition validate_resource_descriptor :: "platform \<Rightarrow> val \<Rightarrow> descriptor res" where
  "validate_resource_descriptor P v =
     (let code = ''invalid_relationship_resource'' in
      bindR (closed_re [''classification'', ''controller_being_ref'', ''descriptor_ref'', ''kind'',
               ''operations'', ''resource_nonce'', ''schema''] code v) (\<lambda>d.
        if item d ''schema'' \<noteq> VStr (str ''dm.relationship.resource/v1'') then Inl (rel_error code)
        else bindR (one_of (rel_error code) resource_kinds (item d ''kind'')) (\<lambda>kind.
        bindR (classification_re P code (item d ''classification'')) (\<lambda>classification.
        bindR (nonce_re code (item d ''resource_nonce'')) (\<lambda>nonce.
        bindR (text_re P 256 code (item d ''controller_being_ref'')) (\<lambda>controller.
        bindR (sorted_texts P max_rows is_operation code (item d ''operations'')) (\<lambda>operations.
        bindR (text_re P 256 code (item d ''descriptor_ref'')) (\<lambda>dref.
          Inr \<lparr>ds_nonce = nonce, ds_controller = controller, ds_kind = kind,
               ds_classification = classification, ds_operations = operations,
               ds_descriptor_ref = dref\<rparr>))))))))"

definition resource_ref :: "platform \<Rightarrow> val \<Rightarrow> pystr res" where
  "resource_ref P v =
     bindR (validate_resource_descriptor P v) (\<lambda>d.
       derived P resource_prefix ''daimon/relationship/resource/v1'' (descriptor_dict d))"

record resource =
  rs_ref :: pystr
  rs_descriptor :: descriptor

definition resource_entry :: "platform \<Rightarrow> string \<Rightarrow> val \<Rightarrow> resource res" where
  "resource_entry P code v =
     bindR (closed_re [''descriptor'', ''resource_ref''] code v) (\<lambda>row.
     bindR (validate_resource_descriptor P (item row ''descriptor'')) (\<lambda>d.
     bindR (resource_ref P (VDict (descriptor_dict d))) (\<lambda>expected.
       if item row ''resource_ref'' \<noteq> VStr expected then Inl (rel_error code)
       else Inr \<lparr>rs_ref = expected, rs_descriptor = d\<rparr>)))"

record permission =
  pm_resource_ref :: pystr
  pm_operations :: "pystr list"
  pm_classification :: pystr
  pm_delegable :: bool
  pm_depth :: int

definition permission_re :: "platform \<Rightarrow> string \<Rightarrow> val \<Rightarrow> permission res" where
  "permission_re P code v =
     bindR (closed_re [''classification'', ''delegable'', ''operations'', ''remaining_delegation_depth'',
              ''resource_ref''] code v) (\<lambda>row.
     bindR (uint_re code (item row ''remaining_delegation_depth'')) (\<lambda>depth.
       if depth > max_delegation_depth then Inl (rel_error code)
       else (case item row ''delegable'' of
           VBool delegable \<Rightarrow>
             if (\<not> delegable \<and> depth \<noteq> 0) \<or> (delegable \<and> depth = 0) then Inl (rel_error code)
             else bindR (classification_re P code (item row ''classification'')) (\<lambda>classification.
               bindR (derived_id P resource_prefix code (item row ''resource_ref'')) (\<lambda>rref.
               bindR (sorted_texts P max_rows is_operation code (item row ''operations'')) (\<lambda>operations.
                 Inr \<lparr>pm_resource_ref = rref, pm_operations = operations,
                      pm_classification = classification, pm_delegable = delegable, pm_depth = depth\<rparr>)))
         | _ \<Rightarrow> Inl (rel_error code))))"

definition permissions_re :: "platform \<Rightarrow> string \<Rightarrow> val \<Rightarrow> permission list res" where
  "permissions_re P code v = (case v of
     VList vs \<Rightarrow>
       if length vs > max_rows then Inl (rel_error code)
       else bindR (mapR (permission_re P code) vs) (\<lambda>ps.
         if sorted_wrt (<) (map (\<lambda>p. (pm_resource_ref p, pm_classification p)) ps) then Inr ps
         else Inl (rel_error code))
   | _ \<Rightarrow> Inl (rel_error code))"

section \<open>Validity of grants and cards\<close>

text \<open>
  A V1 payload has two instants, a V2 payload a validity. \<^verbatim>\<open>permission_validity\<close> reads both as the
  interval they mean.
\<close>

datatype temporal = Window int int | Bounded validity

fun permission_validity :: "temporal \<Rightarrow> validity" where
  "permission_validity (Window start end_ms) = Finite start end_ms"
| "permission_validity (Bounded validity) = validity"

text \<open>\<^verbatim>\<open>not value\<close>; a payload holds no floats.\<close>

definition falsy :: "val \<Rightarrow> bool" where
  "falsy v = (v \<in> {VNone, VBool False, VInt 0, VStr [], VList [], VDict []})"

definition only_messaging :: "permission \<Rightarrow> bool" where
  "only_messaging p = (set (pm_operations p) \<subseteq> set messaging_operations)"

definition validity_re :: "string \<Rightarrow> val \<Rightarrow> validity res" where
  "validity_re code v = wrapR is_verification_error (rel_error code) (validate_validity v)"

text \<open>\<^verbatim>\<open>_v2_validity\<close> with \<^verbatim>\<open>permissions\<close>\<close>

definition grant_validity :: "platform \<Rightarrow> string \<Rightarrow> val \<Rightarrow> val \<Rightarrow> validity res" where
  "grant_validity P code v permissions =
     bindR (validity_re code v) (\<lambda>validity.
       if permissions = VNone then Inr validity
       else (case validity of
           Finite nb na \<Rightarrow>
             if na - nb > max_grant_lifetime_ms then Inl (rel_error code) else Inr validity
         | UntilRevoked nb \<Rightarrow>
             if falsy permissions then raise RelationshipError ''indefinite_non_messaging_permission''
             else bindR (permissions_re P code permissions) (\<lambda>ps.
               if list_all only_messaging ps then Inr validity
               else raise RelationshipError ''indefinite_non_messaging_permission'')))"

text \<open>\<^verbatim>\<open>isinstance(value, Mapping) and value.get("schema") == schema\<close>\<close>

definition has_schema :: "string \<Rightarrow> val \<Rightarrow> bool" where
  "has_schema schema v = (case v of VDict d \<Rightarrow> dget d ''schema'' = Some (VStr (str schema)) | _ \<Rightarrow> False)"

definition window_re :: "string \<Rightarrow> int \<Rightarrow> val \<Rightarrow> val \<Rightarrow> (int \<times> int) res" where
  "window_re code lifetime start_value end_value =
     bindR (uint_re code start_value) (\<lambda>start.
     bindR (uint_re code end_value) (\<lambda>end_ms.
       if start \<ge> end_ms \<or> end_ms - start > lifetime then Inl (rel_error code) else Inr (start, end_ms)))"

record proposed_grant =
  pg_grantor :: pystr
  pg_subject :: pystr
  pg_permissions :: "permission list"
  pg_temporal :: temporal

definition proposed_grant_re :: "platform \<Rightarrow> string \<Rightarrow> bool \<Rightarrow> val \<Rightarrow> proposed_grant res" where
  "proposed_grant_re P code v2 v =
     bindR (closed_re ((if v2 then [''validity''] else [''expires_at_ms'', ''not_before_ms''])
              @ [''grantor_being_ref'', ''permissions'', ''subject_being_ref'']) code v) (\<lambda>row.
     bindR (if v2
            then bindR (grant_validity P code (item row ''validity'') (item row ''permissions'')) (\<lambda>x. Inr (Bounded x))
            else bindR (window_re code max_grant_lifetime_ms (item row ''not_before_ms'') (item row ''expires_at_ms''))
              (\<lambda>(start, end_ms). Inr (Window start end_ms))) (\<lambda>temporal.
     bindR (text_re P 256 code (item row ''grantor_being_ref'')) (\<lambda>grantor.
     bindR (text_re P 256 code (item row ''subject_being_ref'')) (\<lambda>subject.
       if grantor = subject then Inl (rel_error code)
       else bindR (permissions_re P code (item row ''permissions'')) (\<lambda>permissions.
         Inr \<lparr>pg_grantor = grantor, pg_subject = subject, pg_permissions = permissions,
              pg_temporal = temporal\<rparr>)))))"

text \<open>The mapping of a proposed grant, which the order of an offer hashes.\<close>

definition permission_dict :: "permission \<Rightarrow> dict" where
  "permission_dict p =
     [(VStr (str ''resource_ref''), VStr (pm_resource_ref p)),
      (VStr (str ''operations''), texts_val (pm_operations p)),
      (VStr (str ''classification''), VStr (pm_classification p)),
      (VStr (str ''delegable''), VBool (pm_delegable p)),
      (VStr (str ''remaining_delegation_depth''), VInt (pm_depth p))]"

definition validity_dict :: "validity \<Rightarrow> dict" where
  "validity_dict x = (case x of
     Finite nb na \<Rightarrow> [(VStr (str ''mode''), VStr (str ''finite'')),
                     (VStr (str ''not_before_ms''), VInt nb), (VStr (str ''not_after_ms''), VInt na)]
   | UntilRevoked nb \<Rightarrow> [(VStr (str ''mode''), VStr (str ''until-revoked'')),
                        (VStr (str ''not_before_ms''), VInt nb)])"

definition temporal_dict :: "temporal \<Rightarrow> dict" where
  "temporal_dict x = (case x of
     Window start end_ms \<Rightarrow> [(VStr (str ''not_before_ms''), VInt start),
                            (VStr (str ''expires_at_ms''), VInt end_ms)]
   | Bounded validity \<Rightarrow> [(VStr (str ''validity''), VDict (validity_dict validity))])"

definition proposed_grant_dict :: "proposed_grant \<Rightarrow> dict" where
  "proposed_grant_dict g =
     [(VStr (str ''grantor_being_ref''), VStr (pg_grantor g)),
      (VStr (str ''subject_being_ref''), VStr (pg_subject g)),
      (VStr (str ''permissions''), VList (map (VDict \<circ> permission_dict) (pg_permissions g)))]
     @ temporal_dict (pg_temporal g)"

section \<open>Cards\<close>

record rel_card =
  cd_v2 :: bool
  cd_series_id :: pystr
  cd_sequence :: int
  cd_previous :: "pystr option"
  cd_being_ref :: pystr
  cd_position :: control_position
  cd_key :: encryption_key
  cd_routes :: "pystr list"
  cd_capabilities :: "pystr list"
  cd_resources :: "resource list"
  cd_issued_at_ms :: int
  cd_temporal :: temporal
  cd_withdrawn :: bool

text \<open>\<^verbatim>\<open>0\<close> has no predecessor, any other position one of its kind.\<close>

definition previous_re :: "platform \<Rightarrow> string \<Rightarrow> int \<Rightarrow> val \<Rightarrow> pystr option res" where
  "previous_re P code sequence v =
     (if sequence = 0 then (if v = VNone then Inr None else Inl (rel_error code))
      else if v = VNone then Inl (rel_error code)
      else bindR (event_id_re P code v) (\<lambda>i. Inr (Some i)))"

text \<open>The interval and the status of a card.\<close>

definition card_temporal :: "string \<Rightarrow> bool \<Rightarrow> dict \<Rightarrow> int \<Rightarrow> (temporal \<times> bool) res" where
  "card_temporal code v2 row issued =
     (if v2 then
        bindR (validity_re code (item row ''validity'')) (\<lambda>validity.
          if validity \<noteq> UntilRevoked issued then Inl (rel_error code)
          else bindR (one_of (rel_error code) [''active'', ''withdrawn''] (item row ''status'')) (\<lambda>status.
            Inr (Bounded validity, status = str ''withdrawn'')))
      else
        bindR (uint_re code (item row ''expires_at_ms'')) (\<lambda>expires.
          if issued \<ge> expires \<or> expires - issued > max_card_lifetime_ms then Inl (rel_error code)
          else Inr (Window issued expires, False)))"

definition card_resources :: "platform \<Rightarrow> string \<Rightarrow> val \<Rightarrow> resource list res" where
  "card_resources P code v = (case v of
     VList vs \<Rightarrow>
       if length vs > max_rows then Inl (rel_error code)
       else bindR (mapR (resource_entry P code) vs) (\<lambda>rs.
         if sorted_wrt (<) (map rs_ref rs) then Inr rs else Inl (rel_error code))
   | _ \<Rightarrow> Inl (rel_error code))"

definition card_payload :: "platform \<Rightarrow> val \<Rightarrow> rel_card res" where
  "card_payload P v =
     (let code = ''invalid_relationship_card'';
          v2 = has_schema ''dm.relationship.card/v2'' v;
          schema = (if v2 then ''dm.relationship.card/v2'' else ''dm.relationship.card/v1'') in
      bindR (closed_re ([''being_ref'', ''capability_refs'', ''card_series_id'', ''control_position'',
               ''encryption_key''] @ (if v2 then [''validity'', ''status''] else [''expires_at_ms''])
               @ [''issued_at_ms'', ''previous_card_event_id'', ''resources'', ''route_refs'', ''schema'',
                  ''sequence'']) code v) (\<lambda>row.
      bindR (text_re P 256 code (item row ''being_ref'')) (\<lambda>being.
      bindR (uint_re code (item row ''sequence'')) (\<lambda>sequence.
      bindR (previous_re P code sequence (item row ''previous_card_event_id'')) (\<lambda>previous.
      bindR (uint_re code (item row ''issued_at_ms'')) (\<lambda>issued.
      bindR (card_temporal code v2 row issued) (\<lambda>(temporal, withdrawn).
      bindR (card_resources P code (item row ''resources'')) (\<lambda>resources.
      bindR (card_series_id P being) (\<lambda>series.
      bindR (control_position_re P code (item row ''control_position'')) (\<lambda>position.
      bindR (key_re P code (item row ''encryption_key'')) (\<lambda>key.
      bindR (sorted_texts P max_rows (\<lambda>_. True) code (item row ''route_refs'')) (\<lambda>routes.
      bindR (sorted_texts P max_rows (\<lambda>_. True) code (item row ''capability_refs'')) (\<lambda>capabilities.
        if item row ''schema'' \<noteq> VStr (str schema) \<or> item row ''card_series_id'' \<noteq> VStr series
          then Inl (rel_error code)
        else Inr \<lparr>cd_v2 = v2, cd_series_id = series, cd_sequence = sequence, cd_previous = previous,
               cd_being_ref = being, cd_position = position, cd_key = key, cd_routes = routes,
               cd_capabilities = capabilities, cd_resources = resources, cd_issued_at_ms = issued,
               cd_temporal = temporal, cd_withdrawn = withdrawn\<rparr>)))))))))))))"

section \<open>Offers, acceptances and closes\<close>

record offer =
  of_v2 :: bool
  of_relationship_id :: pystr
  of_nonce :: pystr
  of_initiator :: pystr
  of_responder :: pystr
  of_initiator_card :: event_ref
  of_responder_card :: "event_ref option"
  of_terms_ref :: pystr
  of_roles :: "pystr list"
  of_proposed :: "proposed_grant list"
  of_issued_at_ms :: int
  of_expires_at_ms :: int

text \<open>The proposed grants of an offer: sorted by parties and bytes, between the two parties only.\<close>

definition proposal_key :: "platform \<Rightarrow> proposed_grant \<Rightarrow> (pystr \<times> pystr \<times> pystr) res" where
  "proposal_key P g =
     bindR (canonical_bytes P (VDict (proposed_grant_dict g))) (\<lambda>raw.
       Inr (pg_grantor g, pg_subject g, hex raw))"

definition proposals_re ::
  "platform \<Rightarrow> string \<Rightarrow> bool \<Rightarrow> pystr \<Rightarrow> pystr \<Rightarrow> val \<Rightarrow> proposed_grant list res" where
  "proposals_re P code v2 initiator responder v = (case v of
     VList vs \<Rightarrow>
       if length vs > max_rows then Inl (rel_error code)
       else bindR (mapR (proposed_grant_re P code v2) vs) (\<lambda>gs.
         bindR (mapR (proposal_key P) gs) (\<lambda>ks.
           if \<not> sorted_wrt (<) ks then Inl (rel_error code)
           else if \<not> list_all (\<lambda>g. {pg_grantor g, pg_subject g} = {initiator, responder}) gs
             then Inl (rel_error code)
           else Inr gs))
   | _ \<Rightarrow> Inl (rel_error code))"

definition offer_payload :: "platform \<Rightarrow> val \<Rightarrow> offer res" where
  "offer_payload P v =
     (let code = ''invalid_relationship_offer'';
          v2 = has_schema ''dm.relationship.offer/v2'' v;
          schema = (if v2 then ''dm.relationship.offer/v2'' else ''dm.relationship.offer/v1'') in
      bindR (closed_re [''expires_at_ms'', ''initiator_being_ref'', ''initiator_card_ref'', ''issued_at_ms'',
               ''nonce'', ''proposed_grants'', ''relationship_id'', ''responder_being_ref'',
               ''responder_card_ref'', ''roles'', ''schema'', ''terms_ref''] code v) (\<lambda>row.
      bindR (text_re P 256 code (item row ''initiator_being_ref'')) (\<lambda>initiator.
      bindR (text_re P 256 code (item row ''responder_being_ref'')) (\<lambda>responder.
      bindR (nonce_re code (item row ''nonce'')) (\<lambda>nonce.
      bindR (window_re code max_offer_lifetime_ms (item row ''issued_at_ms'') (item row ''expires_at_ms''))
        (\<lambda>(issued, expires).
      bindR (proposals_re P code v2 initiator responder (item row ''proposed_grants'')) (\<lambda>proposed.
      bindR (relationship_id P nonce initiator responder) (\<lambda>expected.
      bindR (optional (event_ref_re P code) (item row ''responder_card_ref'')) (\<lambda>responder_card.
      bindR (event_ref_re P code (item row ''initiator_card_ref'')) (\<lambda>initiator_card.
      bindR (text_re P 256 code (item row ''terms_ref'')) (\<lambda>terms.
      bindR (sorted_texts P max_rows (\<lambda>_. True) code (item row ''roles'')) (\<lambda>roles.
        if item row ''schema'' \<noteq> VStr (str schema) \<or> item row ''relationship_id'' \<noteq> VStr expected
          then Inl (rel_error code)
        else Inr \<lparr>of_v2 = v2, of_relationship_id = expected, of_nonce = nonce, of_initiator = initiator,
               of_responder = responder, of_initiator_card = initiator_card,
               of_responder_card = responder_card, of_terms_ref = terms, of_roles = roles,
               of_proposed = proposed, of_issued_at_ms = issued, of_expires_at_ms = expires\<rparr>))))))))))))"

record acceptance =
  ac_relationship_id :: pystr
  ac_offer :: event_ref
  ac_initiator :: pystr
  ac_responder :: pystr
  ac_initiator_card :: event_ref
  ac_responder_card :: event_ref
  ac_accepted_at_ms :: int

definition acceptance_payload :: "platform \<Rightarrow> val \<Rightarrow> acceptance res" where
  "acceptance_payload P v =
     (let code = ''invalid_relationship_acceptance'' in
      bindR (closed_re [''accepted_at_ms'', ''initiator_being_ref'', ''initiator_card_ref'', ''offer_ref'',
               ''relationship_id'', ''responder_being_ref'', ''responder_card_ref'', ''schema''] code v) (\<lambda>row.
      bindR (derived_id P relationship_prefix code (item row ''relationship_id'')) (\<lambda>rid.
      bindR (event_ref_re P code (item row ''offer_ref'')) (\<lambda>offer.
      bindR (text_re P 256 code (item row ''initiator_being_ref'')) (\<lambda>initiator.
      bindR (text_re P 256 code (item row ''responder_being_ref'')) (\<lambda>responder.
      bindR (event_ref_re P code (item row ''initiator_card_ref'')) (\<lambda>initiator_card.
      bindR (event_ref_re P code (item row ''responder_card_ref'')) (\<lambda>responder_card.
      bindR (uint_re code (item row ''accepted_at_ms'')) (\<lambda>accepted.
      bindR (one_of (rel_error code) [''dm.relationship.acceptance/v1'', ''dm.relationship.acceptance/v2'']
               (item row ''schema'')) (\<lambda>_.
        Inr \<lparr>ac_relationship_id = rid, ac_offer = offer, ac_initiator = initiator, ac_responder = responder,
             ac_initiator_card = initiator_card, ac_responder_card = responder_card,
             ac_accepted_at_ms = accepted\<rparr>))))))))))"

record close =
  cl_relationship_id :: pystr
  cl_offer :: event_ref
  cl_acceptance :: event_ref
  cl_closer :: pystr
  cl_reason :: pystr
  cl_closed_at_ms :: int

definition close_payload :: "platform \<Rightarrow> val \<Rightarrow> close res" where
  "close_payload P v =
     (let code = ''invalid_relationship_close'' in
      bindR (closed_re [''acceptance_ref'', ''closed_at_ms'', ''closer_being_ref'', ''offer_ref'', ''reason'',
               ''relationship_id'', ''schema''] code v) (\<lambda>row.
      bindR (one_of (rel_error code) [''dm.relationship.close/v1'', ''dm.relationship.close/v2'']
               (item row ''schema'')) (\<lambda>_.
      bindR (derived_id P relationship_prefix code (item row ''relationship_id'')) (\<lambda>rid.
      bindR (event_ref_re P code (item row ''offer_ref'')) (\<lambda>offer.
      bindR (event_ref_re P code (item row ''acceptance_ref'')) (\<lambda>acceptance.
      bindR (text_re P 256 code (item row ''closer_being_ref'')) (\<lambda>closer.
      bindR (text_re P 128 code (item row ''reason'')) (\<lambda>reason.
      bindR (uint_re code (item row ''closed_at_ms'')) (\<lambda>closed.
        Inr \<lparr>cl_relationship_id = rid, cl_offer = offer, cl_acceptance = acceptance, cl_closer = closer,
             cl_reason = reason, cl_closed_at_ms = closed\<rparr>)))))))))"

section \<open>Tribes\<close>

record declared =
  dd_tribe_ref :: pystr
  dd_declaration :: tribe_declaration

definition declaration_payload :: "platform \<Rightarrow> val \<Rightarrow> declared res" where
  "declaration_payload P v =
     (let code = ''invalid_tribe_declaration'' in
      bindR (closed_re [''declaration'', ''schema'', ''tribe_ref''] code v) (\<lambda>row.
      bindR (closed_re declaration_fields code (item row ''declaration'')) (\<lambda>d.
      bindR (uint_re code (item d ''created_at_ms'')) (\<lambda>created.
      bindR (text_re P 256 code (item d ''founder_principal_id'')) (\<lambda>founder.
      bindR (nonce_re code (item d ''nonce'')) (\<lambda>nonce.
      bindR (text_re P 256 code (item d ''policy_ref'')) (\<lambda>policy.
        let normalized = \<lparr>dc_created_at_ms = created, dc_founder = founder, dc_nonce = nonce,
                          dc_policy_ref = policy\<rparr> in
        bindR (tribe_ref P (VDict (declaration_dict normalized))) (\<lambda>(expected, _).
          if item row ''schema'' \<noteq> VStr (str ''dm.tribe.declaration/v1'')
             \<or> item row ''tribe_ref'' \<noteq> VStr expected
            then Inl (rel_error code)
          else Inr \<lparr>dd_tribe_ref = expected, dd_declaration = normalized\<rparr>))))))))"

record invitation =
  iv_tribe_ref :: pystr
  iv_founder_epoch :: int
  iv_founder :: pystr
  iv_invitation_id :: pystr
  iv_invitee :: pystr
  iv_nonce :: pystr
  iv_issued_at_ms :: int
  iv_expires_at_ms :: int

definition invitation_payload :: "platform \<Rightarrow> val \<Rightarrow> invitation res" where
  "invitation_payload P v =
     (let code = ''invalid_tribe_invitation'' in
      bindR (closed_re [''expires_at_ms'', ''founder_being_ref'', ''founder_epoch'', ''invitation_id'',
               ''invitee_being_ref'', ''issued_at_ms'', ''nonce'', ''schema'', ''tribe_ref''] code v) (\<lambda>row.
      bindR (uint_re code (item row ''founder_epoch'')) (\<lambda>epoch.
      bindR (text_re P 256 code (item row ''invitee_being_ref'')) (\<lambda>invitee.
      bindR (nonce_re code (item row ''nonce'')) (\<lambda>nonce.
      bindR (derived_id P tribe_prefix code (item row ''tribe_ref'')) (\<lambda>tribe.
      bindR (uint_re code (item row ''issued_at_ms'')) (\<lambda>issued.
      bindR (uint_re code (item row ''expires_at_ms'')) (\<lambda>expires.
      bindR (invitation_id P tribe epoch invitee nonce) (\<lambda>expected.
        if item row ''schema'' \<noteq> VStr (str ''dm.tribe.invitation/v1'')
           \<or> item row ''invitation_id'' \<noteq> VStr expected
           \<or> issued \<ge> expires \<or> expires - issued > max_invitation_lifetime_ms
          then Inl (rel_error code)
        else bindR (text_re P 256 code (item row ''founder_being_ref'')) (\<lambda>founder.
          Inr \<lparr>iv_tribe_ref = tribe, iv_founder_epoch = epoch, iv_founder = founder,
               iv_invitation_id = expected, iv_invitee = invitee, iv_nonce = nonce,
               iv_issued_at_ms = issued, iv_expires_at_ms = expires\<rparr>))))))))))"

record membership_acceptance =
  ma_tribe_ref :: pystr
  ma_founder_epoch :: int
  ma_invitation :: event_ref
  ma_invitee :: pystr
  ma_sequence :: int
  ma_previous :: "event_ref option"
  ma_accepted_at_ms :: int

definition membership_acceptance_payload :: "platform \<Rightarrow> val \<Rightarrow> membership_acceptance res" where
  "membership_acceptance_payload P v =
     (let code = ''invalid_tribe_membership_acceptance'' in
      bindR (closed_re [''accepted_at_ms'', ''founder_epoch'', ''invitation_ref'', ''invitee_being_ref'',
               ''membership_sequence'', ''previous_membership_terminal_ref'', ''schema'', ''tribe_ref''] code v) (\<lambda>row.
        if item row ''schema'' \<noteq> VStr (str ''dm.tribe.membership-acceptance/v1'') then Inl (rel_error code)
        else bindR (uint_re code (item row ''membership_sequence'')) (\<lambda>sequence.
        if (sequence = 0) \<noteq> (item row ''previous_membership_terminal_ref'' = VNone)
          then Inl (rel_error code)
        else bindR (derived_id P tribe_prefix code (item row ''tribe_ref'')) (\<lambda>tribe.
        bindR (uint_re code (item row ''founder_epoch'')) (\<lambda>epoch.
        bindR (event_ref_re P code (item row ''invitation_ref'')) (\<lambda>invitation.
        bindR (text_re P 256 code (item row ''invitee_being_ref'')) (\<lambda>invitee.
        bindR (optional (event_ref_re P code) (item row ''previous_membership_terminal_ref'')) (\<lambda>previous.
        bindR (uint_re code (item row ''accepted_at_ms'')) (\<lambda>accepted.
          Inr \<lparr>ma_tribe_ref = tribe, ma_founder_epoch = epoch, ma_invitation = invitation,
               ma_invitee = invitee, ma_sequence = sequence, ma_previous = previous,
               ma_accepted_at_ms = accepted\<rparr>)))))))))"

record membership_terminal =
  mt_tribe_ref :: pystr
  mt_founder_epoch :: int
  mt_member :: pystr
  mt_acceptance :: event_ref
  mt_reason :: pystr
  mt_terminated_at_ms :: int
  mt_founder :: "pystr option"  \<comment> \<open>who expels; \<open>None\<close> when the member leaves\<close>

definition membership_terminal_payload :: "platform \<Rightarrow> bool \<Rightarrow> val \<Rightarrow> membership_terminal res" where
  "membership_terminal_payload P expulsion v =
     (let code = (if expulsion then ''invalid_tribe_membership_expulsion''
                  else ''invalid_tribe_membership_leave'');
          schema = (if expulsion then ''dm.tribe.membership-expulsion/v1''
                    else ''dm.tribe.membership-leave/v1'') in
      bindR (closed_re ([''founder_epoch'', ''member_being_ref'', ''membership_acceptance_ref'', ''reason'',
               ''schema'', ''terminated_at_ms'', ''tribe_ref'']
               @ (if expulsion then [''founder_being_ref''] else [])) code v) (\<lambda>row.
        if item row ''schema'' \<noteq> VStr (str schema) then Inl (rel_error code)
        else bindR (derived_id P tribe_prefix code (item row ''tribe_ref'')) (\<lambda>tribe.
        bindR (uint_re code (item row ''founder_epoch'')) (\<lambda>epoch.
        bindR (text_re P 256 code (item row ''member_being_ref'')) (\<lambda>member.
        bindR (event_ref_re P code (item row ''membership_acceptance_ref'')) (\<lambda>acceptance.
        bindR (text_re P 128 code (item row ''reason'')) (\<lambda>reason.
        bindR (uint_re code (item row ''terminated_at_ms'')) (\<lambda>terminated.
        bindR (if expulsion then bindR (text_re P 256 code (item row ''founder_being_ref'')) (\<lambda>f. Inr (Some f))
               else Inr None) (\<lambda>founder.
          Inr \<lparr>mt_tribe_ref = tribe, mt_founder_epoch = epoch, mt_member = member,
               mt_acceptance = acceptance, mt_reason = reason, mt_terminated_at_ms = terminated,
               mt_founder = founder\<rparr>)))))))))"

record founder_transfer =
  ft_tribe_ref :: pystr
  ft_transfer_id :: pystr
  ft_from_epoch :: int
  ft_old_founder :: pystr
  ft_successor :: pystr
  ft_nonce :: pystr
  ft_issued_at_ms :: int

definition founder_transfer_payload :: "platform \<Rightarrow> val \<Rightarrow> founder_transfer res" where
  "founder_transfer_payload P v =
     (let code = ''invalid_founder_transfer'' in
      bindR (closed_re [''from_epoch'', ''issued_at_ms'', ''nonce'', ''old_founder_being_ref'', ''schema'',
               ''successor_being_ref'', ''to_epoch'', ''transfer_id'', ''tribe_ref''] code v) (\<lambda>row.
      bindR (derived_id P tribe_prefix code (item row ''tribe_ref'')) (\<lambda>tribe.
      bindR (text_re P 256 code (item row ''old_founder_being_ref'')) (\<lambda>old.
      bindR (text_re P 256 code (item row ''successor_being_ref'')) (\<lambda>successor.
      bindR (uint_re code (item row ''from_epoch'')) (\<lambda>start.
      bindR (nonce_re code (item row ''nonce'')) (\<lambda>nonce.
      bindR (founder_transfer_id P tribe start successor nonce) (\<lambda>expected.
        if item row ''schema'' \<noteq> VStr (str ''dm.tribe.founder-transfer/v1'')
           \<or> item row ''transfer_id'' \<noteq> VStr expected
           \<or> \<not> py_eq (item row ''to_epoch'') (VInt (start + 1)) \<or> old = successor
          then Inl (rel_error code)
        else bindR (uint_re code (item row ''issued_at_ms'')) (\<lambda>issued.
          Inr \<lparr>ft_tribe_ref = tribe, ft_transfer_id = expected, ft_from_epoch = start,
               ft_old_founder = old, ft_successor = successor, ft_nonce = nonce,
               ft_issued_at_ms = issued\<rparr>)))))))))"

record founder_acceptance =
  fa_tribe_ref :: pystr
  fa_transfer_id :: pystr
  fa_transfer :: event_ref
  fa_from_epoch :: int
  fa_successor :: pystr
  fa_accepted_at_ms :: int

definition founder_acceptance_payload :: "platform \<Rightarrow> val \<Rightarrow> founder_acceptance res" where
  "founder_acceptance_payload P v =
     (let code = ''invalid_founder_acceptance'' in
      bindR (closed_re [''accepted_at_ms'', ''from_epoch'', ''schema'', ''successor_being_ref'', ''to_epoch'',
               ''transfer_id'', ''transfer_ref'', ''tribe_ref''] code v) (\<lambda>row.
      bindR (uint_re code (item row ''from_epoch'')) (\<lambda>start.
        if item row ''schema'' \<noteq> VStr (str ''dm.tribe.founder-acceptance/v1'')
           \<or> \<not> py_eq (item row ''to_epoch'') (VInt (start + 1))
          then Inl (rel_error code)
        else bindR (derived_id P tribe_prefix code (item row ''tribe_ref'')) (\<lambda>tribe.
        bindR (derived_id P transfer_prefix code (item row ''transfer_id'')) (\<lambda>tid.
        bindR (event_ref_re P code (item row ''transfer_ref'')) (\<lambda>transfer.
        bindR (text_re P 256 code (item row ''successor_being_ref'')) (\<lambda>successor.
        bindR (uint_re code (item row ''accepted_at_ms'')) (\<lambda>accepted.
          Inr \<lparr>fa_tribe_ref = tribe, fa_transfer_id = tid, fa_transfer = transfer, fa_from_epoch = start,
               fa_successor = successor, fa_accepted_at_ms = accepted\<rparr>))))))))"

section \<open>Grants\<close>

record grant =
  gr_v2 :: bool
  gr_grant_id :: pystr
  gr_nonce :: pystr
  gr_relationship_id :: pystr
  gr_tribe_ref :: "pystr option"
  gr_grantor :: pystr
  gr_subject :: pystr
  gr_permissions :: "permission list"
  gr_temporal :: temporal
  gr_issued_at_ms :: int
  gr_parent :: "event_ref option"
  gr_sequence :: int
  gr_previous :: "pystr option"

text \<open>The interval of a grant and when it was issued.\<close>

definition grant_temporal :: "platform \<Rightarrow> string \<Rightarrow> bool \<Rightarrow> dict \<Rightarrow> (temporal \<times> int) res" where
  "grant_temporal P code v2 row =
     (if v2 then
        bindR (grant_validity P code (item row ''validity'') (item row ''permissions'')) (\<lambda>validity.
        bindR (uint_re code (item row ''issued_at_ms'')) (\<lambda>issued.
          case validity of
            Finite nb na \<Rightarrow> if issued \<ge> na then Inl (rel_error code) else Inr (Bounded validity, issued)
          | UntilRevoked nb \<Rightarrow> Inr (Bounded validity, issued)))
      else
        bindR (uint_re code (item row ''not_before_ms'')) (\<lambda>start.
        bindR (uint_re code (item row ''expires_at_ms'')) (\<lambda>end_ms.
        bindR (uint_re code (item row ''issued_at_ms'')) (\<lambda>issued.
          if start \<ge> end_ms \<or> issued \<ge> end_ms \<or> end_ms - start > max_grant_lifetime_ms
            then Inl (rel_error code)
          else Inr (Window start end_ms, issued)))))"

text \<open>A root grant is first and alone; a delegated one follows the one before it in its lane.\<close>

definition delegation_re :: "platform \<Rightarrow> string \<Rightarrow> event_ref option \<Rightarrow> int \<Rightarrow> val \<Rightarrow> pystr option res" where
  "delegation_re P code parent sequence v =
     (if parent = None then
        if sequence \<noteq> 0 \<or> v \<noteq> VNone then Inl (rel_error code) else Inr None
      else previous_re P code sequence v)"

definition grant_payload :: "platform \<Rightarrow> val \<Rightarrow> grant res" where
  "grant_payload P v =
     (let code = ''invalid_relationship_grant'';
          v2 = has_schema ''dm.relationship.grant/v2'' v;
          schema = (if v2 then ''dm.relationship.grant/v2'' else ''dm.relationship.grant/v1'') in
      bindR (closed_re ([''delegation_sequence'']
               @ (if v2 then [''validity''] else [''expires_at_ms'', ''not_before_ms''])
               @ [''grant_id'', ''grantor_being_ref'', ''issued_at_ms'', ''nonce'', ''parent_grant_ref'',
                  ''permissions'', ''previous_delegation_event_id'', ''relationship_id'', ''schema'',
                  ''subject_being_ref'', ''tribe_ref'']) code v) (\<lambda>row.
      bindR (derived_id P relationship_prefix code (item row ''relationship_id'')) (\<lambda>relationship.
      bindR (text_re P 256 code (item row ''grantor_being_ref'')) (\<lambda>grantor.
      bindR (text_re P 256 code (item row ''subject_being_ref'')) (\<lambda>subject.
        if grantor = subject then Inl (rel_error code)
        else bindR (nonce_re code (item row ''nonce'')) (\<lambda>nonce.
        bindR (grant_id P nonce relationship grantor subject) (\<lambda>expected.
        bindR (grant_temporal P code v2 row) (\<lambda>(temporal, issued).
        bindR (optional (event_ref_re P code) (item row ''parent_grant_ref'')) (\<lambda>parent.
        bindR (uint_re code (item row ''delegation_sequence'')) (\<lambda>sequence.
        bindR (delegation_re P code parent sequence (item row ''previous_delegation_event_id'')) (\<lambda>previous.
        bindR (optional (derived_id P tribe_prefix code) (item row ''tribe_ref'')) (\<lambda>tribe.
        if item row ''schema'' \<noteq> VStr (str schema) \<or> item row ''grant_id'' \<noteq> VStr expected
          then Inl (rel_error code)
        else bindR (permissions_re P code (item row ''permissions'')) (\<lambda>permissions.
          Inr \<lparr>gr_v2 = v2, gr_grant_id = expected, gr_nonce = nonce, gr_relationship_id = relationship,
               gr_tribe_ref = tribe, gr_grantor = grantor, gr_subject = subject,
               gr_permissions = permissions, gr_temporal = temporal, gr_issued_at_ms = issued,
               gr_parent = parent, gr_sequence = sequence, gr_previous = previous\<rparr>)))))))))))))"

record grant_acceptance =
  ga_grant_id :: pystr
  ga_grant :: event_ref
  ga_relationship_id :: pystr
  ga_grantor :: pystr
  ga_subject :: pystr
  ga_accepted_at_ms :: int

definition grant_acceptance_payload :: "platform \<Rightarrow> val \<Rightarrow> grant_acceptance res" where
  "grant_acceptance_payload P v =
     (let code = ''invalid_grant_acceptance'' in
      bindR (closed_re [''accepted_at_ms'', ''grant_id'', ''grant_ref'', ''grantor_being_ref'',
               ''relationship_id'', ''schema'', ''subject_being_ref''] code v) (\<lambda>row.
      bindR (one_of (rel_error code) [''dm.relationship.grant-acceptance/v1'',
               ''dm.relationship.grant-acceptance/v2''] (item row ''schema'')) (\<lambda>_.
      bindR (derived_id P grant_prefix code (item row ''grant_id'')) (\<lambda>gid.
      bindR (event_ref_re P code (item row ''grant_ref'')) (\<lambda>gref.
      bindR (derived_id P relationship_prefix code (item row ''relationship_id'')) (\<lambda>rid.
      bindR (text_re P 256 code (item row ''grantor_being_ref'')) (\<lambda>grantor.
      bindR (text_re P 256 code (item row ''subject_being_ref'')) (\<lambda>subject.
      bindR (uint_re code (item row ''accepted_at_ms'')) (\<lambda>accepted.
        Inr \<lparr>ga_grant_id = gid, ga_grant = gref, ga_relationship_id = rid, ga_grantor = grantor,
             ga_subject = subject, ga_accepted_at_ms = accepted\<rparr>)))))))))"

record grant_revocation =
  gv_grant_id :: pystr
  gv_grant :: event_ref
  gv_acceptance :: event_ref
  gv_actor :: pystr
  gv_revoke :: bool  \<comment> \<open>the action: \<^verbatim>\<open>revoke\<close>, or else \<^verbatim>\<open>relinquish\<close>\<close>
  gv_reason :: pystr
  gv_revoked_at_ms :: int

definition grant_revocation_payload :: "platform \<Rightarrow> val \<Rightarrow> grant_revocation res" where
  "grant_revocation_payload P v =
     (let code = ''invalid_grant_revocation'' in
      bindR (closed_re [''acceptance_ref'', ''action'', ''actor_being_ref'', ''grant_id'', ''grant_ref'',
               ''reason'', ''revoked_at_ms'', ''schema''] code v) (\<lambda>row.
      bindR (one_of (rel_error code) [''dm.relationship.grant-revocation/v1'',
               ''dm.relationship.grant-revocation/v2''] (item row ''schema'')) (\<lambda>_.
      bindR (one_of (rel_error code) [''revoke'', ''relinquish''] (item row ''action'')) (\<lambda>action.
      bindR (derived_id P grant_prefix code (item row ''grant_id'')) (\<lambda>gid.
      bindR (event_ref_re P code (item row ''grant_ref'')) (\<lambda>gref.
      bindR (event_ref_re P code (item row ''acceptance_ref'')) (\<lambda>acceptance.
      bindR (text_re P 256 code (item row ''actor_being_ref'')) (\<lambda>actor.
      bindR (text_re P 128 code (item row ''reason'')) (\<lambda>reason.
      bindR (uint_re code (item row ''revoked_at_ms'')) (\<lambda>revoked.
        Inr \<lparr>gv_grant_id = gid, gv_grant = gref, gv_acceptance = acceptance, gv_actor = actor,
             gv_revoke = (action = str ''revoke''), gv_reason = reason, gv_revoked_at_ms = revoked\<rparr>))))))))))"

section \<open>Payloads by event kind\<close>

datatype payload =
    Card rel_card
  | Offer offer
  | Acceptance acceptance
  | Close close
  | Declaration declared
  | Invitation invitation
  | MembershipAcceptance membership_acceptance
  | Leave membership_terminal
  | Expulsion membership_terminal
  | FounderTransfer founder_transfer
  | FounderAcceptance founder_acceptance
  | Grant grant
  | GrantAcceptance grant_acceptance
  | GrantRevocation grant_revocation

definition payload_of_kind :: "platform \<Rightarrow> pystr \<Rightarrow> val \<Rightarrow> payload res" where
  "payload_of_kind P kind v =
     (if kind = str ''matrix/relationship-card'' then bindR (card_payload P v) (Inr \<circ> Card)
      else if kind = str ''matrix/relationship-offer'' then bindR (offer_payload P v) (Inr \<circ> Offer)
      else if kind = str ''matrix/relationship-acceptance'' then bindR (acceptance_payload P v) (Inr \<circ> Acceptance)
      else if kind = str ''matrix/relationship-close'' then bindR (close_payload P v) (Inr \<circ> Close)
      else if kind = str ''matrix/tribe-declaration'' then bindR (declaration_payload P v) (Inr \<circ> Declaration)
      else if kind = str ''matrix/tribe-invitation'' then bindR (invitation_payload P v) (Inr \<circ> Invitation)
      else if kind = str ''matrix/tribe-membership-acceptance''
        then bindR (membership_acceptance_payload P v) (Inr \<circ> MembershipAcceptance)
      else if kind = str ''matrix/tribe-membership-leave''
        then bindR (membership_terminal_payload P False v) (Inr \<circ> Leave)
      else if kind = str ''matrix/tribe-membership-expulsion''
        then bindR (membership_terminal_payload P True v) (Inr \<circ> Expulsion)
      else if kind = str ''matrix/tribe-founder-transfer''
        then bindR (founder_transfer_payload P v) (Inr \<circ> FounderTransfer)
      else if kind = str ''matrix/tribe-founder-acceptance''
        then bindR (founder_acceptance_payload P v) (Inr \<circ> FounderAcceptance)
      else if kind = str ''matrix/relationship-grant'' then bindR (grant_payload P v) (Inr \<circ> Grant)
      else if kind = str ''matrix/relationship-grant-acceptance''
        then bindR (grant_acceptance_payload P v) (Inr \<circ> GrantAcceptance)
      else bindR (grant_revocation_payload P v) (Inr \<circ> GrantRevocation))"

text \<open>Who must have authored a payload.\<close>

fun payload_author :: "payload \<Rightarrow> pystr" where
  "payload_author (Card x) = cd_being_ref x"
| "payload_author (Offer x) = of_initiator x"
| "payload_author (Acceptance x) = ac_responder x"
| "payload_author (Close x) = cl_closer x"
| "payload_author (Declaration x) = dc_founder (dd_declaration x)"
| "payload_author (Invitation x) = iv_founder x"
| "payload_author (MembershipAcceptance x) = ma_invitee x"
| "payload_author (Leave x) = mt_member x"
| "payload_author (Expulsion x) = (case mt_founder x of Some f \<Rightarrow> f | None \<Rightarrow> [])"
| "payload_author (FounderTransfer x) = ft_old_founder x"
| "payload_author (FounderAcceptance x) = fa_successor x"
| "payload_author (Grant x) = gr_grantor x"
| "payload_author (GrantAcceptance x) = ga_subject x"
| "payload_author (GrantRevocation x) = gv_actor x"

definition relationship_event_kinds :: "string list" where
  "relationship_event_kinds =
     [''matrix/relationship-card'', ''matrix/relationship-offer'', ''matrix/relationship-acceptance'',
      ''matrix/relationship-close'', ''matrix/tribe-declaration'', ''matrix/tribe-invitation'',
      ''matrix/tribe-membership-acceptance'', ''matrix/tribe-membership-leave'',
      ''matrix/tribe-membership-expulsion'', ''matrix/tribe-founder-transfer'',
      ''matrix/tribe-founder-acceptance'', ''matrix/relationship-grant'',
      ''matrix/relationship-grant-acceptance'', ''matrix/relationship-grant-revocation'']"

definition validate_relationship_event_payload :: "platform \<Rightarrow> pystr \<Rightarrow> val \<Rightarrow> pystr \<Rightarrow> payload res" where
  "validate_relationship_event_payload P kind v author =
     (if kind \<notin> str ` set relationship_event_kinds
        then raise RelationshipError ''unsupported_relationship_event_kind''
      else bindR (text_re P 256 ''invalid_relationship_author'' (VStr author)) (\<lambda>a.
        bindR (payload_of_kind P kind v) (\<lambda>p.
          if a \<noteq> payload_author p then raise RelationshipError ''relationship_event_author_mismatch''
          else Inr p)))"

fun relationship_event_subject :: "payload \<Rightarrow> pystr" where
  "relationship_event_subject (Card x) = cd_series_id x"
| "relationship_event_subject (Offer x) = of_relationship_id x"
| "relationship_event_subject (Acceptance x) = ac_relationship_id x"
| "relationship_event_subject (Close x) = cl_relationship_id x"
| "relationship_event_subject (Declaration x) = dd_tribe_ref x"
| "relationship_event_subject (Invitation x) = iv_tribe_ref x"
| "relationship_event_subject (MembershipAcceptance x) = ma_tribe_ref x"
| "relationship_event_subject (Leave x) = mt_tribe_ref x"
| "relationship_event_subject (Expulsion x) = mt_tribe_ref x"
| "relationship_event_subject (FounderTransfer x) = ft_tribe_ref x"
| "relationship_event_subject (FounderAcceptance x) = fa_tribe_ref x"
| "relationship_event_subject (Grant x) = gr_grant_id x"
| "relationship_event_subject (GrantAcceptance x) = ga_grant_id x"
| "relationship_event_subject (GrantRevocation x) = gv_grant_id x"

fun relationship_event_occurred_at :: "payload \<Rightarrow> int" where
  "relationship_event_occurred_at (Card x) = cd_issued_at_ms x"
| "relationship_event_occurred_at (Offer x) = of_issued_at_ms x"
| "relationship_event_occurred_at (Acceptance x) = ac_accepted_at_ms x"
| "relationship_event_occurred_at (Close x) = cl_closed_at_ms x"
| "relationship_event_occurred_at (Declaration x) = dc_created_at_ms (dd_declaration x)"
| "relationship_event_occurred_at (Invitation x) = iv_issued_at_ms x"
| "relationship_event_occurred_at (MembershipAcceptance x) = ma_accepted_at_ms x"
| "relationship_event_occurred_at (Leave x) = mt_terminated_at_ms x"
| "relationship_event_occurred_at (Expulsion x) = mt_terminated_at_ms x"
| "relationship_event_occurred_at (FounderTransfer x) = ft_issued_at_ms x"
| "relationship_event_occurred_at (FounderAcceptance x) = fa_accepted_at_ms x"
| "relationship_event_occurred_at (Grant x) = gr_issued_at_ms x"
| "relationship_event_occurred_at (GrantAcceptance x) = ga_accepted_at_ms x"
| "relationship_event_occurred_at (GrantRevocation x) = gv_revoked_at_ms x"

section \<open>Tribe snapshots\<close>

datatype member_state = ActiveMember | LeftMember | ExpelledMember

record tribe_member =
  tm_embodiment_id :: pystr
  tm_membership_ref :: pystr
  tm_principal_id :: pystr
  tm_state :: member_state

record tribe_grant =
  tg_controller :: pystr
  tg_grant_ref :: pystr
  tg_grantee :: pystr
  tg_temporal :: temporal
  tg_operations :: "pystr list"
  tg_parent :: "pystr option"
  tg_resource_ref :: pystr
  tg_revoked :: bool

record verified_snapshot =
  sn_v2 :: bool
  sn_tribe_ref :: pystr
  sn_declaration :: tribe_declaration
  sn_founder_epoch :: int
  sn_founder :: pystr
  sn_lineage_head_ref :: pystr
  sn_verified_at_ms :: int
  sn_members :: "tribe_member list"
  sn_grants :: "tribe_grant list"

definition member_state_of :: "pystr \<Rightarrow> member_state" where
  "member_state_of s = (if s = str ''active'' then ActiveMember
     else if s = str ''left'' then LeftMember else ExpelledMember)"

definition snapshot_member :: "platform \<Rightarrow> pystr \<Rightarrow> val \<Rightarrow> tribe_member res" where
  "snapshot_member P expected v =
     (let code = ''invalid_tribe_member'' in
      bindR (closed_re [''embodiment_id'', ''membership_ref'', ''principal_id'', ''state'', ''tribe_ref''] code v)
        (\<lambda>row.
        if item row ''tribe_ref'' \<noteq> VStr expected then Inl (rel_error code)
        else bindR (one_of (rel_error code) [''active'', ''left'', ''expelled''] (item row ''state'')) (\<lambda>st.
        bindR (text_re P 256 code (item row ''embodiment_id'')) (\<lambda>em.
        bindR (text_re P 256 code (item row ''membership_ref'')) (\<lambda>mref.
        bindR (text_re P 256 code (item row ''principal_id'')) (\<lambda>principal.
          Inr \<lparr>tm_embodiment_id = em, tm_membership_ref = mref, tm_principal_id = principal,
               tm_state = member_state_of st\<rparr>))))))"

text \<open>The interval of a snapshot's grant.\<close>

definition snapshot_temporal :: "platform \<Rightarrow> string \<Rightarrow> bool \<Rightarrow> dict \<Rightarrow> temporal res" where
  "snapshot_temporal P code v2 row =
     (if v2 then
        bindR (sorted_texts P max_rows is_operation code (item row ''operations'')) (\<lambda>operations.
        bindR (validity_re code (item row ''validity'')) (\<lambda>validity.
          case validity of
            UntilRevoked nb \<Rightarrow>
              if set operations \<subseteq> set messaging_operations then Inr (Bounded validity)
              else raise RelationshipError ''indefinite_non_messaging_permission''
          | Finite nb na \<Rightarrow> Inr (Bounded validity)))
      else
        bindR (uint_re code (item row ''not_before_ms'')) (\<lambda>start.
        bindR (uint_re code (item row ''not_after_ms'')) (\<lambda>end_ms.
          if start \<ge> end_ms then Inl (rel_error code) else Inr (Window start end_ms))))"

definition snapshot_operations :: "platform \<Rightarrow> string \<Rightarrow> val \<Rightarrow> pystr list res" where
  "snapshot_operations P code v = (case v of
     VList vs \<Rightarrow>
       if vs = [] then Inl (rel_error code)
       else bindR (is_sorted_set vs) (\<lambda>ok.
         if \<not> ok \<or> length vs > 64 then Inl (rel_error code)
         else mapR (text_re P 128 code) vs)
   | _ \<Rightarrow> Inl (rel_error code))"

definition snapshot_grant :: "platform \<Rightarrow> pystr \<Rightarrow> bool \<Rightarrow> val \<Rightarrow> tribe_grant res" where
  "snapshot_grant P expected v2 v =
     (let code = ''invalid_tribe_grant'' in
      bindR (closed_re ([''controller_principal_id'', ''grant_ref'', ''grantee_principal_id'']
               @ (if v2 then [''validity''] else [''not_after_ms'', ''not_before_ms''])
               @ [''operations'', ''parent_grant_ref'', ''resource_ref'', ''revoked'', ''tribe_ref'']) code v) (\<lambda>row.
        if item row ''tribe_ref'' \<noteq> VStr expected then Inl (rel_error code)
        else (case item row ''revoked'' of
            VBool revoked \<Rightarrow>
              bindR (text_re P 256 code (item row ''controller_principal_id'')) (\<lambda>controller.
              bindR (text_re P 256 code (item row ''grant_ref'')) (\<lambda>gref.
              bindR (text_re P 256 code (item row ''grantee_principal_id'')) (\<lambda>grantee.
              bindR (text_re P 256 code (item row ''resource_ref'')) (\<lambda>rref.
              bindR (optional (text_re P 256 code) (item row ''parent_grant_ref'')) (\<lambda>parent.
              bindR (snapshot_temporal P code v2 row) (\<lambda>temporal.
              bindR (snapshot_operations P code (item row ''operations'')) (\<lambda>operations.
                Inr \<lparr>tg_controller = controller, tg_grant_ref = gref, tg_grantee = grantee,
                     tg_temporal = temporal, tg_operations = operations, tg_parent = parent,
                     tg_resource_ref = rref, tg_revoked = revoked\<rparr>)))))))
          | _ \<Rightarrow> Inl (rel_error code))))"

text \<open>\<^verbatim>\<open>except (RelationshipError, ValueError)\<close>: the value errors among the exceptions.\<close>

definition is_value_error :: "exc \<Rightarrow> bool" where
  "is_value_error e = (case e of
     Exc c m \<Rightarrow> c \<in> {RelationshipError, CanonicalError, WeaveProtocolError, VerificationError,
                      ControlForkError, IdentityError, UnicodeEncodeError, ValueError}
   | Equivocation _ \<Rightarrow> False)"

text \<open>The rows of a snapshot, checked and strictly ordered by a key.\<close>

definition ordered_rows :: "string \<Rightarrow> nat \<Rightarrow> nat \<Rightarrow> (val \<Rightarrow> 'a res) \<Rightarrow> ('a \<Rightarrow> pystr) \<Rightarrow> val \<Rightarrow> 'a list res" where
  "ordered_rows code minimum maximum f key v = (case v of
     VList vs \<Rightarrow>
       if \<not> (minimum \<le> length vs \<and> length vs \<le> maximum) then Inl (rel_error code)
       else bindR (mapR f vs) (\<lambda>rows.
         if sorted_wrt (<) (map key rows) then Inr rows else Inl (rel_error code))
   | _ \<Rightarrow> Inl (rel_error code))"

definition tribe_snapshot_fields :: "string list" where
  "tribe_snapshot_fields =
     [''declaration'', ''founder_epoch'', ''founder_principal_id'', ''grants'', ''lineage_head_ref'',
      ''members'', ''schema'', ''tribe_ref'', ''verified_at_ms'']"

definition tribe_snapshot :: "platform \<Rightarrow> val \<Rightarrow> (verified_snapshot \<Rightarrow> unit res) option \<Rightarrow> verified_snapshot res" where
  "tribe_snapshot P v verifier =
     (let code = ''invalid_tribe_snapshot'' in
      case verifier of None \<Rightarrow> raise RelationshipError ''tribe_verifier_required''
      | Some verify \<Rightarrow>
        bindR (closed_re tribe_snapshot_fields code v) (\<lambda>d.
        bindR (one_of (rel_error ''unsupported_tribe_snapshot'')
                 [''dm.tribe-snapshot/v1'', ''dm.tribe-snapshot/v2''] (item d ''schema'')) (\<lambda>schema.
        bindR (tribe_ref P (item d ''declaration'')) (\<lambda>(expected, decl).
        if item d ''tribe_ref'' \<noteq> VStr expected then raise RelationshipError ''tribe_ref_mismatch''
        else bindR (text_re P 256 code (item d ''founder_principal_id'')) (\<lambda>founder.
        bindR (uint_re code (item d ''founder_epoch'')) (\<lambda>epoch.
        if epoch = 0 \<and> founder \<noteq> dc_founder decl then raise RelationshipError ''tribe_founder_mismatch''
        else bindR (uint_re code (item d ''verified_at_ms'')) (\<lambda>verified_at.
        bindR (text_re P 256 code (item d ''lineage_head_ref'')) (\<lambda>lineage.
        bindR (ordered_rows ''invalid_tribe_members'' 1 max_members (snapshot_member P expected)
                 tm_principal_id (item d ''members'')) (\<lambda>members.
        if \<not> list_ex (\<lambda>m. tm_principal_id m = founder \<and> tm_state m = ActiveMember) members
          then raise RelationshipError ''tribe_founder_not_active''
        else bindR (ordered_rows ''invalid_tribe_grants'' 0 max_grants
                      (snapshot_grant P expected (schema = str ''dm.tribe-snapshot/v2''))
                      tg_grant_ref (item d ''grants'')) (\<lambda>grants.
          let sn = \<lparr>sn_v2 = (schema = str ''dm.tribe-snapshot/v2''), sn_tribe_ref = expected,
                    sn_declaration = decl, sn_founder_epoch = epoch, sn_founder = founder,
                    sn_lineage_head_ref = lineage, sn_verified_at_ms = verified_at,
                    sn_members = members, sn_grants = grants\<rparr> in
          bindR (wrapR is_value_error (rel_error ''tribe_snapshot_unverified'') (verify sn)) (\<lambda>_.
            Inr sn)))))))))))"

record resolution =
  ro_v2 :: bool
  ro_tribe_ref :: pystr
  ro_lineage_head_ref :: pystr
  ro_founder_epoch :: int
  ro_requester :: pystr
  ro_members :: "tribe_member list"
  ro_grants :: "tribe_grant list"
  ro_evaluated_at_ms :: int

definition resolve :: "platform \<Rightarrow> verified_snapshot \<Rightarrow> val \<Rightarrow> val \<Rightarrow> resolution res" where
  "resolve P sn requester at_ms =
     bindR (text_re P 256 ''invalid_tribe_principal'' requester) (\<lambda>principal_id.
     bindR (uint_re ''invalid_tribe_time'' at_ms) (\<lambda>at.
       if \<not> list_ex (\<lambda>m. tm_principal_id m = principal_id \<and> tm_state m = ActiveMember) (sn_members sn)
         then raise RelationshipError ''tribe_membership_not_active''
       else Inr \<lparr>ro_v2 = sn_v2 sn, ro_tribe_ref = sn_tribe_ref sn,
              ro_lineage_head_ref = sn_lineage_head_ref sn, ro_founder_epoch = sn_founder_epoch sn,
              ro_requester = principal_id,
              ro_members = filter (\<lambda>m. tm_state m = ActiveMember) (sn_members sn),
              ro_grants = filter (\<lambda>g. tg_grantee g = principal_id \<and> \<not> tg_revoked g
                             \<and> contains (permission_validity (tg_temporal g)) at) (sn_grants sn),
              ro_evaluated_at_ms = at\<rparr>))"

end
