(* ===== verification/Memory_Policy.thy ===== *)
theory Memory_Policy
  imports Patterns
begin

text \<open>
  The documents of the personal-memory policy, \<^verbatim>\<open>src/daimon_matrix/memory_policy.py\<close>: policies,
  content references, lanes, candidates, checkpoints, records, transition plans and decisions, and
  the evaluation of a candidate. A validator returns the mapping it was given, and a value from a
  checked mapping is read with \<open>item\<close>. What needs a ledger is in \<open>Memory_Executor\<close>.
\<close>

section \<open>Constants\<close>

definition policy_domain :: string where "policy_domain = ''daimon/memory/policy/v1''"

definition content_domain :: string where "content_domain = ''daimon/memory/content-ref/v1''"

definition candidate_domain :: string where "candidate_domain = ''daimon/memory/candidate/v1''"

definition plan_domain :: string where "plan_domain = ''daimon/memory/transition-plan/v1''"

definition decision_domain :: string where "decision_domain = ''daimon/memory/policy-decision/v1''"

definition personal_categories :: "string list" where
  "personal_categories = [''personal-experience'', ''personal-insight'', ''personal-skill'']"

definition memory_categories :: "string list" where
  "memory_categories = personal_categories
     @ [''peer-attributed'', ''external-reference'', ''tribal-knowledge'', ''species-inheritance'', ''incarnation-state'']"

definition derivation_categories :: "(string \<times> string) list" where
  "derivation_categories =
     [(''body-occurrence'', ''personal-experience''), (''peer-origin'', ''peer-attributed''),
      (''external-source'', ''external-reference''), (''tribe-retrieval'', ''tribal-knowledge''),
      (''species-application'', ''species-inheritance''), (''incarnation-observation'', ''incarnation-state'')]"

text \<open>The keys of the table and \<^verbatim>\<open>local-synthesis\<close>.\<close>

definition derivations :: "string list" where
  "derivations = [''body-occurrence'', ''local-synthesis'', ''peer-origin'', ''external-source'',
     ''tribe-retrieval'', ''species-application'', ''incarnation-observation'']"

definition classifications :: "string list" where
  "classifications = [''public'', ''personal'', ''private'', ''protected'']"

definition outcomes :: "string list" where
  "outcomes = [''eligible'', ''review-required'', ''deferred:incomplete'', ''quarantined'', ''rejected'']"

definition max_content_bytes :: int where "max_content_bytes = 16 * 1024 * 1024"

definition max_evidence_refs :: nat where "max_evidence_refs = 256"

section \<open>Scalar checks\<close>

abbreviation memory_error :: "string \<Rightarrow> exc" where
  "memory_error m \<equiv> Exc MemoryPolicyError (str m)"

definition canonical_me :: "platform \<Rightarrow> val \<Rightarrow> bytes res" where
  "canonical_me P v =
     wrapR (is_class CanonicalError) (memory_error ''invalid_canonical_value'') (canonical_bytes P v)"

definition closed_me :: "string list \<Rightarrow> string \<Rightarrow> val \<Rightarrow> dict res" where
  "closed_me ks e v = closed_dict (memory_error e) ks v"

definition text_me :: "platform \<Rightarrow> nat \<Rightarrow> string \<Rightarrow> val \<Rightarrow> pystr res" where
  "text_me P maximum e v = (case v of
     VStr s \<Rightarrow>
       if s = [] then Inl (memory_error e)
       else bindR (encode_utf8 s) (\<lambda>raw.
         if length raw > maximum then Inl (memory_error e)
         else bindR (canonical_me P v) (\<lambda>_. Inr s))
   | _ \<Rightarrow> Inl (memory_error e))"

text \<open>\<^verbatim>\<open>[A-Za-z0-9._:@-]{1,256}\<close>, matched in full; 64 is the at sign.\<close>

definition memory_id_like :: "pystr \<Rightarrow> bool" where
  "memory_id_like s =
     (1 \<le> length s \<and> length s \<le> 256 \<and> list_all (\<lambda>c. scoped_char c \<or> c = 64) s)"

definition scoped_me :: "platform \<Rightarrow> string \<Rightarrow> val \<Rightarrow> pystr res" where
  "scoped_me P e v =
     bindR (text_me P 256 e v) (\<lambda>s. if memory_id_like s then Inr s else Inl (memory_error e))"

definition uint_me :: "string \<Rightarrow> int \<Rightarrow> val \<Rightarrow> int res" where
  "uint_me e minimum v = uint_check (memory_error e) minimum v"

definition hash_me :: "string \<Rightarrow> val \<Rightarrow> pystr res" where
  "hash_me e v = hash_check (memory_error e) v"

definition uuid_me :: "string \<Rightarrow> val \<Rightarrow> pystr res" where
  "uuid_me e v = uuid_check (memory_error e) v"

text \<open>\<^verbatim>\<open>if v not in S: raise\<close>\<close>

definition member_me :: "string \<Rightarrow> string list \<Rightarrow> val \<Rightarrow> unit res" where
  "member_me e ss v = bindR (in_strings v ss) (\<lambda>known. if known then Inr () else Inl (memory_error e))"

definition memory_derived :: "platform \<Rightarrow> string \<Rightarrow> string \<Rightarrow> dict \<Rightarrow> pystr res" where
  "memory_derived P prefix domain d =
     bindR (canonical_me P (VDict d)) (\<lambda>raw.
       Inr (str prefix @ b64url (sha256 (str domain @ [0] @ raw))))"

definition memory_ref :: "platform \<Rightarrow> string \<Rightarrow> string \<Rightarrow> val \<Rightarrow> pystr res" where
  "memory_ref P prefix e v =
     bindR (text_me P 160 e v) (\<lambda>s.
       let tail = removeprefix s (str prefix) in
       if \<not> startswith s (str prefix) \<or> length tail \<noteq> 43 then Inl (memory_error e)
       else bindR (wrapR (is_class CanonicalError) (memory_error e) (unb64url (VStr tail) (Some 32))) (\<lambda>_. Inr s))"

text \<open>An id that may be absent.\<close>

definition optional_id :: "platform \<Rightarrow> string \<Rightarrow> string \<Rightarrow> val \<Rightarrow> unit res" where
  "optional_id P prefix e v = (if v = VNone then Inr () else bindR (memory_ref P prefix e v) (\<lambda>_. Inr ()))"

text \<open>The last check of every document: the id is the hash of the rest.\<close>

definition check_derived :: "platform \<Rightarrow> string \<Rightarrow> string \<Rightarrow> string \<Rightarrow> string \<Rightarrow> dict \<Rightarrow> dict res" where
  "check_derived P field prefix domain e d =
     bindR (memory_derived P prefix domain (without [field] d)) (\<lambda>expected.
       if item d field \<noteq> VStr expected then Inl (memory_error e) else Inr d)"

definition refs_me :: "platform \<Rightarrow> string \<Rightarrow> val \<Rightarrow> unit res" where
  "refs_me P e v = (case v of
     VList vs \<Rightarrow>
       if length vs > max_evidence_refs then Inl (memory_error e)
       else bindR (is_sorted_set vs) (\<lambda>ok.
         if \<not> ok then Inl (memory_error e)
         else bindR (mapR (scoped_me P e) vs) (\<lambda>_. Inr ()))
   | _ \<Rightarrow> Inl (memory_error e))"

text \<open>A sorted list of distinct members of a set of strings.\<close>

definition subset_me :: "string \<Rightarrow> string list \<Rightarrow> val \<Rightarrow> unit res" where
  "subset_me e ss v = (case v of
     VList vs \<Rightarrow>
       bindR (is_sorted_set vs) (\<lambda>ok.
         if \<not> ok then Inl (memory_error e)
         else bindR (andR (map (\<lambda>x. in_strings x ss) vs)) (\<lambda>known.
           if known then Inr () else Inl (memory_error e)))
   | _ \<Rightarrow> Inl (memory_error e))"

section \<open>Policies\<close>

abbreviation policy_prefix :: string where "policy_prefix \<equiv> ''dm:memory-policy:v1:''"

definition policy_fields :: "string list" where
  "policy_fields = [''schema'', ''policy_id'', ''subject_me_id'', ''version'', ''predecessor_policy_id'',
     ''automatic_categories'', ''review_classifications'', ''max_content_bytes'', ''plan_ttl_ms'']"

definition validate_memory_policy :: "platform \<Rightarrow> val \<Rightarrow> dict res" where
  "validate_memory_policy P v =
     bindR (closed_me policy_fields ''invalid_memory_policy'' v) (\<lambda>d.
     if item d ''schema'' \<noteq> VStr (str ''dm.memory.policy/v1'') then raise MemoryPolicyError ''unsupported_memory_policy''
     else bindR (scoped_me P ''invalid_memory_subject'' (item d ''subject_me_id'')) (\<lambda>_.
     bindR (uint_me ''invalid_memory_policy_version'' 1 (item d ''version'')) (\<lambda>version.
     bindR (if version = 1 then
              if item d ''predecessor_policy_id'' \<noteq> VNone
                then raise MemoryPolicyError ''unexpected_policy_predecessor'' else Inr ()
            else if item d ''predecessor_policy_id'' = VNone
              then raise MemoryPolicyError ''missing_policy_predecessor''
            else optional_id P policy_prefix ''invalid_policy_predecessor'' (item d ''predecessor_policy_id'')) (\<lambda>_.
     bindR (subset_me ''invalid_automatic_categories'' memory_categories (item d ''automatic_categories'')) (\<lambda>_.
     bindR (subset_me ''invalid_review_classifications'' classifications (item d ''review_classifications'')) (\<lambda>_.
     bindR (uint_me ''invalid_content_limit'' 1 (item d ''max_content_bytes'')) (\<lambda>maximum.
     if maximum > max_content_bytes then raise MemoryPolicyError ''invalid_content_limit''
     else bindR (uint_me ''invalid_plan_ttl'' 1 (item d ''plan_ttl_ms'')) (\<lambda>ttl.
     if ttl > 86400000 then raise MemoryPolicyError ''invalid_plan_ttl''
     else check_derived P ''policy_id'' policy_prefix policy_domain ''memory_policy_id_mismatch'' d))))))))"

definition create_memory_policy ::
  "platform \<Rightarrow> pystr \<Rightarrow> int \<Rightarrow> pystr option \<Rightarrow> pystr list \<Rightarrow> pystr list \<Rightarrow> int \<Rightarrow> int \<Rightarrow> dict res" where
  "create_memory_policy P subject version predecessor automatic review maximum ttl =
     (let core =
        [(VStr (str ''schema''), VStr (str ''dm.memory.policy/v1'')),
         (VStr (str ''subject_me_id''), VStr subject), (VStr (str ''version''), VInt version),
         (VStr (str ''predecessor_policy_id''), case predecessor of None \<Rightarrow> VNone | Some p \<Rightarrow> VStr p),
         (VStr (str ''automatic_categories''), VList (map VStr (sorted_list_of_set (set automatic)))),
         (VStr (str ''review_classifications''), VList (map VStr (sorted_list_of_set (set review)))),
         (VStr (str ''max_content_bytes''), VInt maximum), (VStr (str ''plan_ttl_ms''), VInt ttl)] in
      bindR (memory_derived P policy_prefix policy_domain core) (\<lambda>i.
        validate_memory_policy P (VDict (core @ [(VStr (str ''policy_id''), VStr i)]))))"

text \<open>One edge of a policy's succession.\<close>

definition validate_policy_successor :: "platform \<Rightarrow> val \<Rightarrow> val \<Rightarrow> dict res" where
  "validate_policy_successor P previous successor =
     bindR (validate_memory_policy P previous) (\<lambda>prior.
     bindR (validate_memory_policy P successor) (\<lambda>following.
       if item following ''subject_me_id'' \<noteq> item prior ''subject_me_id''
          \<or> int_item following ''version'' \<noteq> int_item prior ''version'' + 1
          \<or> item following ''predecessor_policy_id'' \<noteq> item prior ''policy_id''
         then raise MemoryPolicyError ''invalid_memory_policy_successor''
       else Inr following))"

section \<open>Content references\<close>

abbreviation content_prefix :: string where "content_prefix \<equiv> ''dm:memory-content:v1:''"

text \<open>\<^verbatim>\<open>[a-z0-9!#$&^_.+-]+/[a-z0-9!#$&^_.+-]+\<close>, matched in full.\<close>

definition media_char :: "nat \<Rightarrow> bool" where
  "media_char c = ((97 \<le> c \<and> c \<le> 122) \<or> (48 \<le> c \<and> c \<le> 57) \<or> c \<in> set (str ''!#$&^_.+-''))"

definition is_media_type :: "pystr \<Rightarrow> bool" where
  "is_media_type s =
     (let a = takeWhile media_char s; b = drop (length a) s in
      a \<noteq> [] \<and> take 1 b = str ''/'' \<and> tl b \<noteq> [] \<and> list_all media_char (tl b))"

definition content_fields :: "string list" where
  "content_fields = [''schema'', ''content_id'', ''sha256'', ''byte_length'', ''media_type'', ''classification'']"

definition validate_content_ref :: "platform \<Rightarrow> val \<Rightarrow> dict res" where
  "validate_content_ref P v =
     bindR (closed_me content_fields ''invalid_memory_content_ref'' v) (\<lambda>d.
     if item d ''schema'' \<noteq> VStr (str ''dm.memory.content-ref/v1'')
       then raise MemoryPolicyError ''unsupported_memory_content_ref''
     else bindR (hash_me ''invalid_memory_content_hash'' (item d ''sha256'')) (\<lambda>_.
     bindR (uint_me ''invalid_memory_content_size'' 1 (item d ''byte_length'')) (\<lambda>_.
     bindR (text_me P 128 ''invalid_memory_media_type'' (item d ''media_type'')) (\<lambda>media.
     if \<not> is_media_type media then raise MemoryPolicyError ''invalid_memory_media_type''
     else bindR (member_me ''invalid_memory_classification'' classifications (item d ''classification'')) (\<lambda>_.
       check_derived P ''content_id'' content_prefix content_domain ''memory_content_id_mismatch'' d)))))"

definition create_content_ref :: "platform \<Rightarrow> pystr \<Rightarrow> int \<Rightarrow> pystr \<Rightarrow> pystr \<Rightarrow> dict res" where
  "create_content_ref P hash byte_length media_type classification =
     (let core =
        [(VStr (str ''schema''), VStr (str ''dm.memory.content-ref/v1'')), (VStr (str ''sha256''), VStr hash),
         (VStr (str ''byte_length''), VInt byte_length), (VStr (str ''media_type''), VStr media_type),
         (VStr (str ''classification''), VStr classification)] in
      bindR (memory_derived P content_prefix content_domain core) (\<lambda>i.
        validate_content_ref P (VDict (core @ [(VStr (str ''content_id''), VStr i)]))))"

section \<open>Candidates\<close>

abbreviation candidate_prefix :: string where "candidate_prefix \<equiv> ''dm:memory-candidate:v1:''"

abbreviation decision_prefix :: string where "decision_prefix \<equiv> ''dm:memory-decision:v1:''"

abbreviation plan_prefix :: string where "plan_prefix \<equiv> ''dm:memory-plan:v1:''"

text \<open>\<^verbatim>\<open>_validate_body_evidence\<close>\<close>

definition validate_body_evidence :: "platform \<Rightarrow> val \<Rightarrow> unit res" where
  "validate_body_evidence P v =
     (if v = VNone then Inr ()
      else
        let e = ''invalid_memory_body_evidence'';
            ids = [''body_ref'', ''embodiment_id'', ''incarnation_id'', ''session_ref'', ''lease_ref''] in
        bindR (closed_me (ids @ [''committed_cutoff_event_id'']) e v) (\<lambda>d.
        bindR (mapR (\<lambda>k. scoped_me P e (item d k)) ids) (\<lambda>_.
          if item d ''committed_cutoff_event_id'' = VNone then Inr ()
          else bindR (uuid_me e (item d ''committed_cutoff_event_id'')) (\<lambda>_. Inr ()))))"

text \<open>\<^verbatim>\<open>_validate_lane\<close>: a lane starts with an assertion and goes on with corrections and retractions.\<close>

definition lane_fields :: "string list" where
  "lane_fields = [''memory_id'', ''operation'', ''sequence'', ''predecessor_event_id'', ''predecessor_hash'']"

definition validate_lane :: "val \<Rightarrow> dict res" where
  "validate_lane v =
     bindR (closed_me lane_fields ''invalid_memory_lane'' v) (\<lambda>d.
     bindR (uuid_me ''invalid_memory_id'' (item d ''memory_id'')) (\<lambda>_.
     bindR (member_me ''invalid_memory_operation'' [''assert'', ''correct'', ''retract''] (item d ''operation'')) (\<lambda>_.
     bindR (uint_me ''invalid_memory_sequence'' 1 (item d ''sequence'')) (\<lambda>sequence.
     if sequence = 1 then
       if item d ''operation'' \<noteq> VStr (str ''assert'') \<or> item d ''predecessor_event_id'' \<noteq> VNone
          \<or> item d ''predecessor_hash'' \<noteq> VNone
         then raise MemoryPolicyError ''invalid_memory_lane_start'' else Inr d
     else if item d ''operation'' = VStr (str ''assert'') \<or> item d ''predecessor_event_id'' = VNone
             \<or> item d ''predecessor_hash'' = VNone
       then raise MemoryPolicyError ''invalid_memory_lane_successor''
     else bindR (uuid_me ''invalid_memory_lane_successor'' (item d ''predecessor_event_id'')) (\<lambda>_.
          bindR (hash_me ''invalid_memory_lane_successor'' (item d ''predecessor_hash'')) (\<lambda>_. Inr d))))))"

text \<open>The content of an operation, and the decision before it: the same checks for candidates and records.\<close>

definition check_content :: "platform \<Rightarrow> dict \<Rightarrow> val \<Rightarrow> unit res" where
  "check_content P lane content =
     (if item lane ''operation'' = VStr (str ''retract'') then
        if content \<noteq> VNone then raise MemoryPolicyError ''retraction_content_forbidden'' else Inr ()
      else if content = VNone then raise MemoryPolicyError ''memory_content_required''
      else bindR (validate_content_ref P content) (\<lambda>_. Inr ()))"

definition check_predecessor :: "platform \<Rightarrow> string \<Rightarrow> dict \<Rightarrow> val \<Rightarrow> unit res" where
  "check_predecessor P e lane decision =
     (if int_item lane ''sequence'' > 1 \<and> decision = VNone
        then raise MemoryPolicyError ''missing_predecessor_decision''
      else optional_id P decision_prefix e decision)"

definition candidate_fields :: "string list" where
  "candidate_fields = [''schema'', ''candidate_id'', ''subject_me_id'', ''author_me_id'', ''category'',
     ''derivation'', ''context'', ''content_ref'', ''evidence_refs'', ''classification'', ''consent'',
     ''safety'', ''contradiction'', ''effect'', ''lane'', ''body_evidence'', ''predecessor_decision_id'']"

definition validate_memory_candidate :: "platform \<Rightarrow> val \<Rightarrow> dict res" where
  "validate_memory_candidate P v =
     bindR (closed_me candidate_fields ''invalid_memory_candidate'' v) (\<lambda>d.
     if item d ''schema'' \<noteq> VStr (str ''dm.memory.candidate/v1'')
       then raise MemoryPolicyError ''unsupported_memory_candidate''
     else bindR (scoped_me P ''invalid_memory_subject'' (item d ''subject_me_id'')) (\<lambda>_.
     bindR (scoped_me P ''invalid_memory_author'' (item d ''author_me_id'')) (\<lambda>_.
     bindR (member_me ''invalid_memory_category'' memory_categories (item d ''category'')) (\<lambda>_.
     bindR (member_me ''invalid_memory_derivation'' derivations (item d ''derivation'')) (\<lambda>_.
     bindR (scoped_me P ''invalid_memory_context'' (item d ''context'')) (\<lambda>_.
     bindR (validate_lane (item d ''lane'')) (\<lambda>lane.
     bindR (check_predecessor P ''invalid_predecessor_decision'' lane (item d ''predecessor_decision_id'')) (\<lambda>_.
     bindR (check_content P lane (item d ''content_ref'')) (\<lambda>_.
     bindR (refs_me P ''invalid_memory_evidence_refs'' (item d ''evidence_refs'')) (\<lambda>_.
     bindR (member_me ''invalid_memory_classification'' classifications (item d ''classification'')) (\<lambda>_.
     bindR (member_me ''invalid_memory_consent'' [''granted'', ''unknown'', ''denied''] (item d ''consent'')) (\<lambda>_.
     bindR (member_me ''invalid_memory_safety'' [''clear'', ''uncertain'', ''unsafe''] (item d ''safety'')) (\<lambda>_.
     bindR (member_me ''invalid_memory_contradiction'' [''none'', ''ordinary'', ''sensitive''] (item d ''contradiction'')) (\<lambda>_.
     bindR (member_me ''invalid_memory_effect'' [''local-only'', ''public'', ''destructive''] (item d ''effect'')) (\<lambda>_.
     bindR (validate_body_evidence P (item d ''body_evidence'')) (\<lambda>_.
       check_derived P ''candidate_id'' candidate_prefix candidate_domain
         ''memory_candidate_id_mismatch'' d))))))))))))))))"

record memory_draft =
  md_subject :: pystr
  md_author :: pystr
  md_category :: pystr
  md_derivation :: pystr
  md_context :: pystr
  md_content :: "dict option"
  md_evidence :: "pystr list"
  md_classification :: pystr
  md_consent :: pystr
  md_safety :: pystr
  md_contradiction :: pystr
  md_effect :: pystr
  md_lane :: dict
  md_body :: "dict option"
  md_predecessor :: "pystr option"

definition dict_or_none :: "dict option \<Rightarrow> val" where
  "dict_or_none x = (case x of None \<Rightarrow> VNone | Some d \<Rightarrow> VDict d)"

definition candidate_core :: "memory_draft \<Rightarrow> dict" where
  "candidate_core m =
     [(VStr (str ''schema''), VStr (str ''dm.memory.candidate/v1'')), (VStr (str ''subject_me_id''), VStr (md_subject m)),
      (VStr (str ''author_me_id''), VStr (md_author m)), (VStr (str ''category''), VStr (md_category m)),
      (VStr (str ''derivation''), VStr (md_derivation m)), (VStr (str ''context''), VStr (md_context m)),
      (VStr (str ''content_ref''), dict_or_none (md_content m)),
      (VStr (str ''evidence_refs''), VList (map VStr (sorted_list_of_set (set (md_evidence m))))),
      (VStr (str ''classification''), VStr (md_classification m)), (VStr (str ''consent''), VStr (md_consent m)),
      (VStr (str ''safety''), VStr (md_safety m)), (VStr (str ''contradiction''), VStr (md_contradiction m)),
      (VStr (str ''effect''), VStr (md_effect m)), (VStr (str ''lane''), VDict (md_lane m)),
      (VStr (str ''body_evidence''), dict_or_none (md_body m)),
      (VStr (str ''predecessor_decision_id''), case md_predecessor m of None \<Rightarrow> VNone | Some p \<Rightarrow> VStr p)]"

definition create_memory_candidate :: "platform \<Rightarrow> memory_draft \<Rightarrow> dict res" where
  "create_memory_candidate P m =
     bindR (memory_derived P candidate_prefix candidate_domain (candidate_core m)) (\<lambda>i.
       validate_memory_candidate P (VDict (candidate_core m @ [(VStr (str ''candidate_id''), VStr i)])))"

section \<open>Checkpoints\<close>

definition checkpoint_fields :: "string list" where
  "checkpoint_fields = [''schema'', ''being_ref'', ''manifest_hash'', ''local_origin'', ''ledger_state_hash'',
     ''projection_hash'', ''evidence_refs'', ''body_evidence_state'', ''lane_state'', ''lane_event_ids'',
     ''lane_head'', ''captured_at_ms'']"

definition lane_head_fields :: "string list" where
  "lane_head_fields = [''event_id'', ''content_hash'', ''memory_id'', ''sequence'', ''category'', ''author_me_id'',
     ''context'', ''decision_id'']"

definition validate_lane_head :: "platform \<Rightarrow> val \<Rightarrow> unit res" where
  "validate_lane_head P v =
     (if v = VNone then Inr ()
      else
        let e = ''invalid_memory_lane_head'' in
        bindR (closed_me lane_head_fields e v) (\<lambda>h.
        bindR (uuid_me e (item h ''event_id'')) (\<lambda>_.
        bindR (hash_me e (item h ''content_hash'')) (\<lambda>_.
        bindR (uuid_me e (item h ''memory_id'')) (\<lambda>_.
        bindR (uint_me e 1 (item h ''sequence'')) (\<lambda>_.
        bindR (member_me e memory_categories (item h ''category'')) (\<lambda>_.
        bindR (scoped_me P e (item h ''author_me_id'')) (\<lambda>_.
        bindR (scoped_me P e (item h ''context'')) (\<lambda>_.
        bindR (memory_ref P decision_prefix e (item h ''decision_id'')) (\<lambda>_. Inr ()))))))))))"

text \<open>An empty lane has no head and no events, a linear one its head among its events, a fork two events.\<close>

definition lane_consistent :: "val \<Rightarrow> val \<Rightarrow> val list \<Rightarrow> bool" where
  "lane_consistent state head ids =
     (if state = VStr (str ''empty'') then head = VNone \<and> ids = []
      else if state = VStr (str ''linear'')
        then (case head of VDict h \<Rightarrow> ids \<noteq> [] \<and> item h ''event_id'' \<in> set ids | _ \<Rightarrow> False)
      else head = VNone \<and> length ids \<ge> 2)"

definition validate_memory_checkpoint :: "platform \<Rightarrow> val \<Rightarrow> dict res" where
  "validate_memory_checkpoint P v =
     (let e = ''invalid_memory_checkpoint'' in
      bindR (closed_me checkpoint_fields e v) (\<lambda>d.
      if item d ''schema'' \<noteq> VStr (str ''dm.memory.checkpoint/v1'')
        then raise MemoryPolicyError ''unsupported_memory_checkpoint''
      else bindR (scoped_me P e (item d ''being_ref'')) (\<lambda>_.
      bindR (hash_me e (item d ''manifest_hash'')) (\<lambda>_.
      bindR (closed_me [''body_ref'', ''embodiment_id'', ''incarnation_id'', ''principal_id''] e
               (item d ''local_origin'')) (\<lambda>origin.
      bindR (mapR (scoped_me P e) (map snd origin)) (\<lambda>_.
      bindR (hash_me e (item d ''ledger_state_hash'')) (\<lambda>_.
      bindR (hash_me e (item d ''projection_hash'')) (\<lambda>_.
      bindR (refs_me P e (item d ''evidence_refs'')) (\<lambda>_.
      bindR (member_me e [''absent'', ''verified'', ''unavailable'', ''mismatch''] (item d ''body_evidence_state'')) (\<lambda>_.
      bindR (member_me e [''empty'', ''linear'', ''forked''] (item d ''lane_state'')) (\<lambda>_.
      case item d ''lane_event_ids'' of
        VList ids \<Rightarrow>
          bindR (is_sorted_set ids) (\<lambda>ok.
            if \<not> ok \<or> length ids > max_evidence_refs then Inl (memory_error e)
            else bindR (mapR (uuid_me e) ids) (\<lambda>_.
            bindR (validate_lane_head P (item d ''lane_head'')) (\<lambda>_.
              if \<not> lane_consistent (item d ''lane_state'') (item d ''lane_head'') ids then Inl (memory_error e)
              else bindR (uint_me e 0 (item d ''captured_at_ms'')) (\<lambda>_. Inr d))))
      | _ \<Rightarrow> Inl (memory_error e))))))))))))"

section \<open>Records\<close>

definition record_fields :: "string list" where
  "record_fields = lane_fields @ [''schema'', ''category'', ''author_me_id'', ''context'', ''content_ref'',
     ''evidence_refs'', ''policy_id'', ''candidate_id'', ''decision_id'', ''predecessor_decision_id'']"

definition lane_part :: "dict \<Rightarrow> dict" where
  "lane_part d = map (\<lambda>k. (VStr (str k), item d k)) lane_fields"

definition validate_memory_record :: "platform \<Rightarrow> val \<Rightarrow> dict res" where
  "validate_memory_record P v =
     (let e = ''invalid_memory_record'' in
      bindR (closed_me record_fields e v) (\<lambda>d.
      if item d ''schema'' \<noteq> VStr (str ''dm.memory.record/v1'') then raise MemoryPolicyError ''unsupported_memory_record''
      else bindR (validate_lane (VDict (lane_part d))) (\<lambda>lane.
      bindR (check_content P lane (item d ''content_ref'')) (\<lambda>_.
      bindR (member_me ''invalid_memory_category'' memory_categories (item d ''category'')) (\<lambda>_.
      bindR (scoped_me P ''invalid_memory_author'' (item d ''author_me_id'')) (\<lambda>_.
      bindR (scoped_me P ''invalid_memory_context'' (item d ''context'')) (\<lambda>_.
      bindR (refs_me P ''invalid_memory_evidence_refs'' (item d ''evidence_refs'')) (\<lambda>_.
      bindR (memory_ref P policy_prefix e (item d ''policy_id'')) (\<lambda>_.
      bindR (memory_ref P candidate_prefix e (item d ''candidate_id'')) (\<lambda>_.
      bindR (memory_ref P decision_prefix e (item d ''decision_id'')) (\<lambda>_.
      bindR (check_predecessor P e lane (item d ''predecessor_decision_id'')) (\<lambda>_. Inr d))))))))))))"

section \<open>Decisions and plans\<close>

text \<open>\<^verbatim>\<open>reasons == sorted(set(reasons))\<close>, and all of them non-empty strings.\<close>

definition reasons_ok :: "val \<Rightarrow> bool res" where
  "reasons_ok v = (case v of
     VList vs \<Rightarrow> bindR (is_sorted_set vs) (\<lambda>ok. Inr (ok \<and> list_all (\<lambda>r. is_str r \<and> r \<noteq> VStr []) vs))
   | _ \<Rightarrow> Inr False)"

text \<open>The checks plans and decisions have in common, in the order of either.\<close>

definition check_decided :: "platform \<Rightarrow> string \<Rightarrow> dict \<Rightarrow> unit res" where
  "check_decided P e d =
     bindR (optional_id P decision_prefix e (item d ''predecessor_decision_id'')) (\<lambda>_.
     bindR (scoped_me P e (item d ''subject_me_id'')) (\<lambda>_.
     bindR (validate_memory_checkpoint P (item d ''checkpoint'')) (\<lambda>_.
     bindR (uint_me e 0 (item d ''evaluated_at_ms'')) (\<lambda>evaluated.
     bindR (uint_me e 0 (item d ''expires_at_ms'')) (\<lambda>expires.
     if expires \<le> evaluated then Inl (memory_error e)
     else bindR (member_me e outcomes (item d ''outcome'')) (\<lambda>_.
     bindR (reasons_ok (item d ''reasons'')) (\<lambda>ok. if ok then Inr () else Inl (memory_error e))))))))"

definition decision_fields :: "string list" where
  "decision_fields = [''schema'', ''decision_id'', ''policy_id'', ''candidate_id'', ''predecessor_decision_id'',
     ''subject_me_id'', ''checkpoint'', ''evaluated_at_ms'', ''expires_at_ms'', ''outcome'', ''reasons'']"

definition validate_memory_decision :: "platform \<Rightarrow> val \<Rightarrow> dict res" where
  "validate_memory_decision P v =
     (let e = ''invalid_memory_decision'' in
      bindR (closed_me decision_fields e v) (\<lambda>d.
      if item d ''schema'' \<noteq> VStr (str ''dm.memory.policy-decision/v1'')
        then raise MemoryPolicyError ''unsupported_memory_decision''
      else bindR (memory_ref P decision_prefix e (item d ''decision_id'')) (\<lambda>_.
      bindR (memory_ref P policy_prefix e (item d ''policy_id'')) (\<lambda>_.
      bindR (memory_ref P candidate_prefix e (item d ''candidate_id'')) (\<lambda>_.
      bindR (check_decided P e d) (\<lambda>_.
        check_derived P ''decision_id'' decision_prefix decision_domain ''memory_decision_id_mismatch'' d))))))"

text \<open>The decision a plan carries, without its id.\<close>

definition decision_core :: "dict \<Rightarrow> dict" where
  "decision_core d =
     (VStr (str ''schema''), VStr (str ''dm.memory.policy-decision/v1''))
     # map (\<lambda>k. (VStr (str k), item d k))
         [''policy_id'', ''candidate_id'', ''predecessor_decision_id'', ''subject_me_id'', ''checkpoint'',
          ''evaluated_at_ms'', ''expires_at_ms'', ''outcome'', ''reasons'']"

definition executable_outcome :: "val \<Rightarrow> bool" where
  "executable_outcome v = (v = VStr (str ''eligible'') \<or> v = VStr (str ''review-required''))"

definition check_preview :: "dict \<Rightarrow> unit res" where
  "check_preview d =
     (let e = ''invalid_memory_plan'' in
      if executable_outcome (item d ''outcome'') then
        bindR (closed_me [''kind'', ''subject'', ''sensitivity'', ''payload''] e (item d ''event_preview'')) (\<lambda>p.
          if item p ''kind'' \<noteq> VStr (str ''memory.recorded'') then Inl (memory_error e) else Inr ())
      else if item d ''event_preview'' \<noteq> VNone then Inl (memory_error e) else Inr ())"

definition plan_fields :: "string list" where
  "plan_fields = [''schema'', ''plan_id'', ''policy_id'', ''candidate_id'', ''decision_id'',
     ''predecessor_decision_id'', ''subject_me_id'', ''checkpoint'', ''evaluated_at_ms'', ''expires_at_ms'',
     ''outcome'', ''reasons'', ''event_preview'']"

definition validate_memory_plan :: "platform \<Rightarrow> val \<Rightarrow> dict res" where
  "validate_memory_plan P v =
     (let e = ''invalid_memory_plan'' in
      bindR (closed_me plan_fields e v) (\<lambda>d.
      if item d ''schema'' \<noteq> VStr (str ''dm.memory.transition-plan/v1'')
        then raise MemoryPolicyError ''unsupported_memory_plan''
      else bindR (memory_ref P policy_prefix e (item d ''policy_id'')) (\<lambda>_.
      bindR (memory_ref P candidate_prefix e (item d ''candidate_id'')) (\<lambda>_.
      bindR (memory_ref P decision_prefix e (item d ''decision_id'')) (\<lambda>_.
      bindR (check_decided P e d) (\<lambda>_.
      bindR (check_preview d) (\<lambda>_.
      bindR (check_derived P ''plan_id'' plan_prefix plan_domain ''memory_plan_id_mismatch'' d) (\<lambda>_.
      bindR (memory_derived P decision_prefix decision_domain (decision_core d)) (\<lambda>expected.
        if item d ''decision_id'' \<noteq> VStr expected then raise MemoryPolicyError ''memory_decision_id_mismatch''
        else Inr d)))))))))"

definition memory_decision :: "platform \<Rightarrow> val \<Rightarrow> dict res" where
  "memory_decision P v =
     bindR (validate_memory_plan P v) (\<lambda>d.
       validate_memory_decision P (VDict (decision_core d @ [(VStr (str ''decision_id''), item d ''decision_id'')])))"

section \<open>Evaluation\<close>

text \<open>\<^verbatim>\<open>_lane_reason\<close>: why a candidate does not extend its lane.\<close>

definition lane_reason :: "dict \<Rightarrow> dict \<Rightarrow> string option" where
  "lane_reason c cp =
     (let lane = dict_item c ''lane'' in
      if item cp ''lane_state'' = VStr (str ''forked'') then Some ''memory-lane-forked''
      else if int_item lane ''sequence'' = 1 then
        if item cp ''lane_head'' = VNone then None else Some ''memory-lane-already-exists''
      else (case item cp ''lane_head'' of
          VDict h \<Rightarrow>
            if item lane ''memory_id'' \<noteq> item h ''memory_id''
               \<or> int_item lane ''sequence'' \<noteq> int_item h ''sequence'' + 1
               \<or> item lane ''predecessor_event_id'' \<noteq> item h ''event_id''
               \<or> item lane ''predecessor_hash'' \<noteq> item h ''content_hash''
               \<or> item c ''predecessor_decision_id'' \<noteq> item h ''decision_id''
              then Some ''memory-lane-predecessor-mismatch''
            else if list_ex (\<lambda>k. item c k \<noteq> item h k) [''category'', ''author_me_id'', ''context'']
              then Some ''memory-lane-invariant-mismatch''
            else None
        | _ \<Rightarrow> Some ''memory-lane-head-missing''))"

text \<open>\<^verbatim>\<open>DERIVATION_CATEGORY.get(derivation)\<close>\<close>

definition derivation_category :: "val \<Rightarrow> val" where
  "derivation_category v =
     (case find (\<lambda>(x, _). v = VStr (str x)) derivation_categories of
        Some (_, category) \<Rightarrow> VStr (str category)
      | None \<Rightarrow> VNone)"

definition is_one_of :: "val \<Rightarrow> string list \<Rightarrow> bool" where
  "is_one_of v ss = (\<exists>s \<in> set ss. v = VStr (str s))"

definition derivation_mismatch :: "dict \<Rightarrow> bool" where
  "derivation_mismatch c =
     (if item c ''derivation'' = VStr (str ''local-synthesis'')
        then \<not> is_one_of (item c ''category'') [''personal-insight'', ''personal-skill'']
      else derivation_category (item c ''derivation'') \<noteq> item c ''category'')"

definition body_mismatch :: "dict \<Rightarrow> dict \<Rightarrow> bool" where
  "body_mismatch c cp =
     (item c ''body_evidence'' = VNone \<or> item cp ''body_evidence_state'' \<noteq> VStr (str ''verified'')
      \<or> list_ex (\<lambda>k. item (dict_item c ''body_evidence'') k \<noteq> item (dict_item cp ''local_origin'') k)
          [''body_ref'', ''embodiment_id'', ''incarnation_id''])"

text \<open>The conditions on a candidate that is well-founded and extends its lane.\<close>

definition cleared_outcome :: "dict \<Rightarrow> dict \<Rightarrow> string \<times> string list" where
  "cleared_outcome p c =
     (if item c ''safety'' = VStr (str ''unsafe'') then (''quarantined'', [''unsafe-content''])
      else if item c ''consent'' = VStr (str ''denied'') then (''rejected'', [''consent-denied''])
      else if item c ''consent'' = VStr (str ''unknown'') then (''review-required'', [''consent-uncertain''])
      else if item c ''safety'' = VStr (str ''uncertain'') then (''review-required'', [''safety-uncertain''])
      else if item c ''contradiction'' = VStr (str ''sensitive'')
        then (''review-required'', [''sensitive-contradiction''])
      else if item c ''classification'' \<in> set (list_item p ''review_classifications'')
        then (''review-required'', [''classification-requires-review''])
      else if item c ''effect'' \<noteq> VStr (str ''local-only'')
        then (''review-required'', [''external-effect-requires-review''])
      else if item c ''category'' \<notin> set (list_item p ''automatic_categories'')
        then (''review-required'', [''category-requires-review''])
      else (''eligible'', []))"

text \<open>\<^verbatim>\<open>content_ref or {"classification": ...}\<close>: without content there is nothing to compare.\<close>

definition content_classification :: "dict \<Rightarrow> val" where
  "content_classification c =
     (case item c ''content_ref'' of VDict r \<Rightarrow> item r ''classification'' | _ \<Rightarrow> item c ''classification'')"

definition founded_outcome :: "dict \<Rightarrow> dict \<Rightarrow> dict \<Rightarrow> string \<times> string list" where
  "founded_outcome p c cp =
     (if item p ''subject_me_id'' \<noteq> item c ''subject_me_id'' \<or> item cp ''being_ref'' \<noteq> item c ''subject_me_id''
        then (''rejected'', [''wrong-memory-subject''])
      else if item c ''classification'' \<noteq> content_classification c then (''rejected'', [''classification-mismatch''])
      else if \<not> set (list_item c ''evidence_refs'') \<subseteq> set (list_item cp ''evidence_refs'')
        then (''deferred:incomplete'', [''evidence-incomplete''])
      else if is_one_of (item c ''category'') personal_categories \<and> item c ''author_me_id'' \<noteq> item c ''subject_me_id''
        then (''rejected'', [''false-personal-author''])
      else if derivation_mismatch c then (''rejected'', [''category-derivation-mismatch''])
      else if item c ''derivation'' = VStr (str ''body-occurrence'') \<and> body_mismatch c cp
        then (''rejected'', [''body-evidence-mismatch''])
      else (case lane_reason c cp of
          Some reason \<Rightarrow> (''quarantined'', [reason])
        | None \<Rightarrow> cleared_outcome p c))"

text \<open>A limit on the content overrides every other outcome.\<close>

definition memory_outcome :: "dict \<Rightarrow> dict \<Rightarrow> dict \<Rightarrow> string \<times> string list" where
  "memory_outcome p c cp =
     (case item c ''content_ref'' of
        VDict r \<Rightarrow>
          if int_item r ''byte_length'' > int_item p ''max_content_bytes''
            then (''rejected'', [''content-limit-exceeded'']) else founded_outcome p c cp
      | _ \<Rightarrow> founded_outcome p c cp)"

text \<open>The payload of the event a plan previews.\<close>

definition memory_payload :: "dict \<Rightarrow> dict \<Rightarrow> pystr \<Rightarrow> dict" where
  "memory_payload p c decision_id =
     (VStr (str ''schema''), VStr (str ''dm.memory.record/v1'')) # lane_part (dict_item c ''lane'')
     @ [(VStr (str ''category''), item c ''category''), (VStr (str ''author_me_id''), item c ''author_me_id''),
        (VStr (str ''context''), item c ''context''), (VStr (str ''content_ref''), item c ''content_ref''),
        (VStr (str ''evidence_refs''), item c ''evidence_refs''), (VStr (str ''policy_id''), item p ''policy_id''),
        (VStr (str ''candidate_id''), item c ''candidate_id''), (VStr (str ''decision_id''), VStr decision_id),
        (VStr (str ''predecessor_decision_id''), item c ''predecessor_decision_id'')]"

definition memory_preview :: "dict \<Rightarrow> dict \<Rightarrow> pystr \<Rightarrow> dict" where
  "memory_preview p c decision_id =
     [(VStr (str ''kind''), VStr (str ''memory.recorded'')), (VStr (str ''subject''), item c ''subject_me_id''),
      (VStr (str ''sensitivity''),
         VStr (str (if is_one_of (item c ''classification'') [''private'', ''protected''] then ''private'' else ''personal''))),
      (VStr (str ''payload''), VDict (memory_payload p c decision_id))]"

text \<open>The fields plans and decisions share.\<close>

definition decided_fields :: "dict \<Rightarrow> dict \<Rightarrow> dict \<Rightarrow> int \<Rightarrow> dict" where
  "decided_fields p c cp evaluated =
     (let (outcome, reasons) = memory_outcome p c cp in
      [(VStr (str ''policy_id''), item p ''policy_id''), (VStr (str ''candidate_id''), item c ''candidate_id''),
       (VStr (str ''predecessor_decision_id''), item c ''predecessor_decision_id''),
       (VStr (str ''subject_me_id''), item c ''subject_me_id''), (VStr (str ''checkpoint''), VDict cp),
       (VStr (str ''evaluated_at_ms''), VInt evaluated),
       (VStr (str ''expires_at_ms''), VInt (evaluated + int_item p ''plan_ttl_ms'')),
       (VStr (str ''outcome''), VStr (str outcome)), (VStr (str ''reasons''), VList (map (VStr \<circ> str) reasons))])"

definition evaluate_memory_candidate :: "platform \<Rightarrow> val \<Rightarrow> val \<Rightarrow> val \<Rightarrow> val \<Rightarrow> dict res" where
  "evaluate_memory_candidate P policy candidate checkpoint evaluated_at_ms =
     bindR (validate_memory_policy P policy) (\<lambda>p.
     bindR (validate_memory_candidate P candidate) (\<lambda>c.
     bindR (validate_memory_checkpoint P checkpoint) (\<lambda>cp.
     bindR (uint_me ''invalid_memory_evaluation_time'' 0 evaluated_at_ms) (\<lambda>evaluated.
     if evaluated < int_item cp ''captured_at_ms''
       then raise MemoryPolicyError ''memory_evaluation_precedes_checkpoint''
     else
       let decided = decided_fields p c cp evaluated in
       bindR (memory_derived P decision_prefix decision_domain
                ((VStr (str ''schema''), VStr (str ''dm.memory.policy-decision/v1'')) # decided)) (\<lambda>decision_id.
       let preview = (if executable_outcome (item decided ''outcome'')
                        then VDict (memory_preview p c decision_id) else VNone);
           core = [(VStr (str ''schema''), VStr (str ''dm.memory.transition-plan/v1'')),
                   (VStr (str ''decision_id''), VStr decision_id)] @ decided
                  @ [(VStr (str ''event_preview''), preview)] in
       bindR (memory_derived P plan_prefix plan_domain core) (\<lambda>plan_id.
         validate_memory_plan P (VDict (core @ [(VStr (str ''plan_id''), VStr plan_id)]))))))))"

end
