(* ===== verification/Weave.thy ===== *)
theory Weave
  imports Cluster Relationships Memory_Policy
begin

text \<open>
  Signed events, \<^verbatim>\<open>src/daimon_matrix/weave.py\<close>: the being manifest, the four authorities that can
  vouch for an event's origin, the validation of an event core, creation and verification.

  \<open>verify_event\<close> turns an untrusted value into an \<open>event\<close> record, whose fields hold what the
  checks established; \<open>event_val\<close> is the mapping it stands for. Relationship payloads are those of
  \<open>Relationships\<close>, memory records those of \<open>Memory_Policy\<close>. The payload validators of the other
  modules (reviews, publications, species, sources, collective memory) are the field
  \<open>payload_validator\<close> of the platform, by name; the conditions this module puts on their results are
  modelled.
\<close>

section \<open>Constants and scalar checks\<close>

definition protocol :: string where "protocol = ''dm.we.v1''"

definition event_domain :: string where "event_domain = ''daimon/weave/event/v1''"

definition max_event_bytes :: nat where "max_event_bytes = 256 * 1024"

definition max_page_bytes :: nat where "max_page_bytes = 1024 * 1024"

definition max_page_events :: nat where "max_page_events = 256"

definition max_causal_parents :: nat where "max_causal_parents = 64"

definition max_payload_depth :: nat where "max_payload_depth = 16"

definition max_payload_nodes :: nat where "max_payload_nodes = 4096"

definition max_text_bytes :: nat where "max_text_bytes = 64 * 1024"

definition source_event_kinds :: "string list" where
  "source_event_kinds =
     [''matrix/source-claim'', ''matrix/source-assessment'', ''matrix/source-publication'',
      ''matrix/source-cursor'', ''matrix/source-import-decision'']"

definition event_kinds :: "string list" where
  "event_kinds =
     [''experience.observed'', ''skill.proposed'', ''preference.proposed'', ''configuration.proposed'',
      ''adoption.decided'', ''projection.receipted'', ''lifecycle.announced'', ''memory.recorded'',
      ''review.authorization.issued'', ''review.authorization.revoked'', ''review.requested'',
      ''review.decided'', ''review.executed'', ''publication.requested'', ''publication.receipted'',
      ''matrix/species-release-application'']
     @ relationship_event_kinds @ source_event_kinds
     @ [''source.imported'', ''collective.publication.requested'', ''collective.publication.receipted'']"

definition decisions :: "string list" where
  "decisions = [''adopt'', ''reject'', ''defer'', ''revert'']"

definition sensitivities :: "string list" where
  "sensitivities = [''personal'', ''private'', ''shareable'']"

definition projection_results :: "string list" where
  "projection_results = [''applied'', ''failed'', ''reconciled'', ''stale'']"

definition projection_authorities :: "string list" where
  "projection_authorities = [''daimon'', ''human'']"

abbreviation weave_error :: "string \<Rightarrow> exc" where
  "weave_error e \<equiv> Exc WeaveProtocolError (str e)"

definition canonical_we :: "platform \<Rightarrow> val \<Rightarrow> bytes res" where
  "canonical_we P v =
     wrapR (is_class CanonicalError) (weave_error ''invalid_canonical_value'') (canonical_bytes P v)"

definition closed_we :: "string list \<Rightarrow> string \<Rightarrow> val \<Rightarrow> dict res" where
  "closed_we ks e v = closed_dict (weave_error e) ks v"

definition text_we :: "platform \<Rightarrow> nat \<Rightarrow> string \<Rightarrow> val \<Rightarrow> pystr res" where
  "text_we P maximum e v = (case v of
     VStr s \<Rightarrow>
       if s = [] then Inl (weave_error e)
       else bindR (encode_utf8 s) (\<lambda>raw.
         if length raw > maximum then Inl (weave_error e)
         else bindR (canonical_we P v) (\<lambda>_. Inr s))
   | _ \<Rightarrow> Inl (weave_error e))"

definition uint_we :: "string \<Rightarrow> int \<Rightarrow> val \<Rightarrow> int res" where
  "uint_we e minimum v = uint_check (weave_error e) minimum v"

definition uuid_we :: "string \<Rightarrow> val \<Rightarrow> pystr res" where
  "uuid_we e v = uuid_check (weave_error e) v"

definition hex_hash_we :: "string \<Rightarrow> val \<Rightarrow> pystr res" where
  "hex_hash_we e v = hash_check (weave_error e) v"

definition legacy_ref :: "string \<Rightarrow> val \<Rightarrow> pystr res" where
  "legacy_ref prefix v =
     (let e = ''invalid_'' @ prefix @ ''_id'' in case v of
        VStr s \<Rightarrow>
          if \<not> startswith s (str (prefix @ '':'')) then Inl (weave_error e)
          else bindR (uuid_we e (VStr (drop (Suc (length prefix)) s))) (\<lambda>_. Inr s)
      | _ \<Rightarrow> Inl (weave_error e))"

definition derived_ref :: "string \<Rightarrow> string \<Rightarrow> val \<Rightarrow> pystr res" where
  "derived_ref prefix e v = (case v of
     VStr s \<Rightarrow>
       if \<not> startswith s (str prefix) then Inl (weave_error e)
       else bindR (wrapR (is_class CanonicalError) (weave_error e)
                     (unb64url (VStr (removeprefix s (str prefix))) (Some 32))) (\<lambda>_. Inr s)
   | _ \<Rightarrow> Inl (weave_error e))"

definition scoped_id :: "string \<Rightarrow> string \<Rightarrow> val \<Rightarrow> pystr res" where
  "scoped_id prefix e v = (case v of
     VStr s \<Rightarrow>
       if \<not> startswith s (str prefix) \<or> \<not> is_scoped (removeprefix s (str prefix))
         then Inl (weave_error e)
       else Inr s
   | _ \<Rightarrow> Inl (weave_error e))"

section \<open>Payloads\<close>

text \<open>\<^verbatim>\<open>_SECRET_NAMES\<close>; the recursion threads the node counter.\<close>

definition secret_name :: "pystr \<Rightarrow> bool" where
  "secret_name s = has_word
     [''password'', ''passwd'', ''token'', ''secret'', ''private_key'', ''api_key'', ''bearer''] True s"

fun payload_check :: "platform \<Rightarrow> nat \<Rightarrow> val \<Rightarrow> nat \<Rightarrow> nat res"
  and payload_list :: "platform \<Rightarrow> nat \<Rightarrow> val list \<Rightarrow> nat \<Rightarrow> nat res"
  and payload_items :: "platform \<Rightarrow> nat \<Rightarrow> dict \<Rightarrow> nat \<Rightarrow> nat res"
where
  "payload_check P depth v counter =
     (if Suc counter > max_payload_nodes \<or> depth > max_payload_depth
        then raise WeaveProtocolError ''payload_too_complex''
      else (case v of
          VNone \<Rightarrow> Inr (Suc counter)
        | VBool b \<Rightarrow> Inr (Suc counter)
        | VInt i \<Rightarrow> bindR (canonical_we P v) (\<lambda>_. Inr (Suc counter))
        | VStr s \<Rightarrow>
            bindR (encode_utf8 s) (\<lambda>raw.
              if length raw > max_text_bytes then raise WeaveProtocolError ''payload_text_too_large''
              else if has_private_key s then raise WeaveProtocolError ''secret_value_forbidden''
              else bindR (canonical_we P v) (\<lambda>_. Inr (Suc counter)))
        | VList vs \<Rightarrow> payload_list P (Suc depth) vs (Suc counter)
        | VDict d \<Rightarrow>
            bindR (payload_items P (Suc depth) d (Suc counter)) (\<lambda>n.
              bindR (canonical_we P v) (\<lambda>_. Inr n))
        | _ \<Rightarrow> raise WeaveProtocolError ''invalid_payload_value''))"
| "payload_list P depth [] counter = Inr counter"
| "payload_list P depth (v # vs) counter =
     bindR (payload_check P depth v counter) (\<lambda>n. payload_list P depth vs n)"
| "payload_items P depth [] counter = Inr counter"
| "payload_items P depth ((k, v) # d) counter =
     (if \<not> is_str k then raise WeaveProtocolError ''invalid_payload_key''
      else if secret_name (str_of k) \<and> \<not> endswith (str_of k) (str ''_ref'')
        then Inl (Exc WeaveProtocolError (str ''secret_value_forbidden:'' @ str_of k))
      else bindR (payload_check P depth v counter) (\<lambda>n. payload_items P depth d n))"

section \<open>Manifests\<close>

text \<open>
  A member of a manifest. A provisional one has a principal, a root-bound one an incarnation, its
  credential and its incarnation authorization.
\<close>

record member =
  m_embodiment_id :: pystr
  m_body_ref :: pystr
  m_status :: pystr
  m_principal_id :: "pystr option"
  m_incarnation_id :: "pystr option"
  m_credential_id :: "pystr option"
  m_authorization_id :: "pystr option"

record manifest =
  mf_value :: dict
  mf_digest :: pystr
  mf_root_bound :: bool  \<comment> \<open>\<^verbatim>\<open>trust_mode\<close>: root-bound, else provisional\<close>
  mf_being_ref :: pystr
  mf_revision :: int
  mf_control_head :: "pystr option"
  mf_binding_id :: "pystr option"
  mf_members :: "member list"

text \<open>The two loops over the rows; each returns the members it has accepted.\<close>

fun provisional_rows :: "platform \<Rightarrow> val list \<Rightarrow> member list \<Rightarrow> member list res" where
  "provisional_rows P [] seen = Inr seen"
| "provisional_rows P (v # vs) seen =
     (let e = ''invalid_manifest_embodiment'' in
      bindR (closed_we [''embodiment_id'', ''principal_id'', ''body_ref'', ''status''] e v) (\<lambda>row.
      bindR (legacy_ref ''embodiment'' (item row ''embodiment_id'')) (\<lambda>embodiment_id.
      bindR (text_we P 128 e (item row ''principal_id'')) (\<lambda>principal_id.
      bindR (text_we P 256 e (item row ''body_ref'')) (\<lambda>body_ref.
      bindR (in_strings (item row ''status'') [''active'', ''retired'']) (\<lambda>known.
        if \<not> known then Inl (weave_error e)
        else if embodiment_id \<in> m_embodiment_id ` set seen \<or> Some principal_id \<in> m_principal_id ` set seen
          then raise WeaveProtocolError ''duplicate_manifest_member''
        else provisional_rows P vs
               (seen @ [\<lparr>m_embodiment_id = embodiment_id, m_body_ref = body_ref,
                        m_status = str_of (item row ''status''), m_principal_id = Some principal_id,
                        m_incarnation_id = None, m_credential_id = None,
                        m_authorization_id = None\<rparr>])))))))"

definition provisional_manifest :: "platform \<Rightarrow> val \<Rightarrow> (pystr \<times> int \<times> member list) res" where
  "provisional_manifest P v =
     bindR (closed_we [''schema'', ''being_ref'', ''revision'', ''embodiments''] ''invalid_manifest_fields'' v) (\<lambda>d.
     bindR (legacy_ref ''being'' (item d ''being_ref'')) (\<lambda>being_ref.
     bindR (uint_we ''invalid_manifest_revision'' 1 (item d ''revision'')) (\<lambda>revision.
     case item d ''embodiments'' of
       VList rows \<Rightarrow>
         if \<not> (1 \<le> length rows \<and> length rows \<le> 256)
           then raise WeaveProtocolError ''invalid_manifest_embodiments''
         else bindR (provisional_rows P rows []) (\<lambda>ms.
           if \<not> sorted (map m_embodiment_id ms)
             then raise WeaveProtocolError ''manifest_members_not_sorted''
           else Inr (being_ref, revision, ms))
     | _ \<Rightarrow> raise WeaveProtocolError ''invalid_manifest_embodiments'')))"

definition root_member_fields :: "string list" where
  "root_member_fields =
     [''body_ref'', ''embodiment_credential_id'', ''embodiment_id'', ''incarnation_authorization_id'',
      ''incarnation_id'', ''status'']"

fun root_rows :: "platform \<Rightarrow> val list \<Rightarrow> member list \<Rightarrow> member list res" where
  "root_rows P [] seen = Inr seen"
| "root_rows P (v # vs) seen =
     (let e = ''invalid_manifest_embodiment'' in
      bindR (closed_we root_member_fields e v) (\<lambda>row.
      bindR (text_we P 256 e (item row ''body_ref'')) (\<lambda>body_ref.
      bindR (derived_ref
               (if startswith (str_of (item row ''embodiment_credential_id'')) (str ''dm:identity:v2:'')
                then ''dm:identity:v2:'' else ''dm:identity:v1:'')
               e (item row ''embodiment_credential_id'')) (\<lambda>credential_id.
      bindR (scoped_id ''embodiment:'' e (item row ''embodiment_id'')) (\<lambda>embodiment_id.
      bindR (derived_ref ''dm:identity:v1:'' e (item row ''incarnation_authorization_id'')) (\<lambda>authorization_id.
      bindR (scoped_id ''incarnation:'' e (item row ''incarnation_id'')) (\<lambda>incarnation_id.
      bindR (in_strings (item row ''status'') [''active'', ''retired'']) (\<lambda>known.
        if \<not> known then Inl (weave_error e)
        else if Some incarnation_id \<in> m_incarnation_id ` set seen
          then raise WeaveProtocolError ''duplicate_manifest_member''
        else root_rows P vs
               (seen @ [\<lparr>m_embodiment_id = embodiment_id, m_body_ref = body_ref,
                        m_status = str_of (item row ''status''), m_principal_id = None,
                        m_incarnation_id = Some incarnation_id, m_credential_id = Some credential_id,
                        m_authorization_id = Some authorization_id\<rparr>])))))))))"

definition root_manifest ::
  "platform \<Rightarrow> val \<Rightarrow> (pystr \<times> pystr \<times> pystr option \<times> int \<times> member list) res" where
  "root_manifest P v =
     bindR (closed_we [''schema'', ''being_ref'', ''control_head'', ''history_binding_id'', ''revision'',
              ''embodiments''] ''invalid_manifest_fields'' v) (\<lambda>d.
     bindR (derived_ref ''dm:being:v1:'' ''invalid_being_ref'' (item d ''being_ref'')) (\<lambda>being_ref.
     bindR (derived_ref ''dm:identity:v1:'' ''invalid_control_head'' (item d ''control_head'')) (\<lambda>control_head.
     bindR (if item d ''history_binding_id'' = VNone then Inr None
            else bindR (derived_ref ''dm:identity:v1:'' ''invalid_history_binding_id''
                          (item d ''history_binding_id'')) (\<lambda>b. Inr (Some b))) (\<lambda>binding_id.
     bindR (uint_we ''invalid_manifest_revision'' 1 (item d ''revision'')) (\<lambda>revision.
     case item d ''embodiments'' of
       VList rows \<Rightarrow>
         if \<not> (1 \<le> length rows \<and> length rows \<le> 256)
           then raise WeaveProtocolError ''invalid_manifest_embodiments''
         else bindR (root_rows P rows []) (\<lambda>ms.
           if \<not> sorted (map (\<lambda>m. (m_embodiment_id m, the (m_incarnation_id m))) ms)
             then raise WeaveProtocolError ''manifest_members_not_sorted''
           else Inr (being_ref, control_head, binding_id, revision, ms))
     | _ \<Rightarrow> raise WeaveProtocolError ''invalid_manifest_embodiments'')))))"

text \<open>\<^verbatim>\<open>BeingManifest.from_value\<close>\<close>

definition manifest_from_value :: "platform \<Rightarrow> val \<Rightarrow> manifest res" where
  "manifest_from_value P v = (case v of
     VDict d \<Rightarrow>
       if dget d ''schema'' = Some (VStr (str ''being-manifest/v1'')) then
         bindR (provisional_manifest P v) (\<lambda>(being_ref, revision, ms).
         bindR (canonical_we P v) (\<lambda>raw.
           Inr \<lparr>mf_value = d, mf_digest = sha256_hex raw, mf_root_bound = False,
                mf_being_ref = being_ref, mf_revision = revision, mf_control_head = None,
                mf_binding_id = None, mf_members = ms\<rparr>))
       else if dget d ''schema'' = Some (VStr (str ''being-manifest/v2'')) then
         bindR (root_manifest P v) (\<lambda>(being_ref, control_head, binding_id, revision, ms).
         bindR (canonical_we P v) (\<lambda>raw.
           Inr \<lparr>mf_value = d, mf_digest = sha256_hex raw, mf_root_bound = True,
                mf_being_ref = being_ref, mf_revision = revision, mf_control_head = Some control_head,
                mf_binding_id = binding_id, mf_members = ms\<rparr>))
       else raise WeaveProtocolError ''unsupported_manifest''
   | _ \<Rightarrow> raise WeaveProtocolError ''invalid_manifest'')"

text \<open>\<^verbatim>\<open>BeingManifest.member\<close>; the status test always holds of a member.\<close>

definition manifest_member :: "manifest \<Rightarrow> pystr \<Rightarrow> pystr option \<Rightarrow> member res" where
  "manifest_member mf embodiment_id incarnation_id =
     (case filter (\<lambda>m. m_embodiment_id m = embodiment_id
                      \<and> m_status m \<in> {str ''active'', str ''retired''}
                      \<and> (incarnation_id = None \<or> m_incarnation_id m = incarnation_id)) (mf_members mf) of
        [m] \<Rightarrow> Inr m
      | _ \<Rightarrow> raise WeaveProtocolError ''origin_not_manifested'')"

section \<open>Events\<close>

record origin =
  o_embodiment_id :: pystr
  o_incarnation_id :: pystr
  o_principal_id :: pystr
  o_body_ref :: pystr

record core =
  e_id :: pystr
  e_being_ref :: pystr
  e_manifest_hash :: pystr
  e_origin :: origin
  e_sequence :: int
  e_previous :: "pystr option"
  e_occurred_at_ms :: int
  e_parents :: "pystr list"
  e_kind :: pystr
  e_subject :: pystr
  e_payload :: dict
  e_supersedes :: "pystr option"
  e_sensitivity :: pystr

record event = core +
  e_content_hash :: pystr
  e_kid :: pystr
  e_signature :: pystr

definition opt_str :: "pystr option \<Rightarrow> val" where
  "opt_str x = (case x of None \<Rightarrow> VNone | Some s \<Rightarrow> VStr s)"

definition origin_dict :: "origin \<Rightarrow> dict" where
  "origin_dict og =
     [(VStr (str ''embodiment_id''), VStr (o_embodiment_id og)),
      (VStr (str ''incarnation_id''), VStr (o_incarnation_id og)),
      (VStr (str ''principal_id''), VStr (o_principal_id og)),
      (VStr (str ''body_ref''), VStr (o_body_ref og))]"

definition origin_val :: "origin \<Rightarrow> val" where
  "origin_val og = VDict (origin_dict og)"

definition core_dict :: "'a core_scheme \<Rightarrow> dict" where
  "core_dict e =
     [(VStr (str ''protocol''), VStr (str protocol)),
      (VStr (str ''event_id''), VStr (e_id e)),
      (VStr (str ''being_ref''), VStr (e_being_ref e)),
      (VStr (str ''manifest_hash''), VStr (e_manifest_hash e)),
      (VStr (str ''origin''), origin_val (e_origin e)),
      (VStr (str ''sequence''), VInt (e_sequence e)),
      (VStr (str ''previous_event_id''), opt_str (e_previous e)),
      (VStr (str ''occurred_at_ms''), VInt (e_occurred_at_ms e)),
      (VStr (str ''causal_parents''), VList (map VStr (e_parents e))),
      (VStr (str ''kind''), VStr (e_kind e)),
      (VStr (str ''subject''), VStr (e_subject e)),
      (VStr (str ''payload''), VDict (e_payload e)),
      (VStr (str ''supersedes''), opt_str (e_supersedes e)),
      (VStr (str ''sensitivity''), VStr (e_sensitivity e))]"

definition signature_dict :: "pystr \<Rightarrow> pystr \<Rightarrow> val" where
  "signature_dict kid sv =
     VDict [(VStr (str ''alg''), VStr (str ''Ed25519'')), (VStr (str ''kid''), VStr kid),
            (VStr (str ''value''), VStr sv)]"

definition event_val :: "event \<Rightarrow> val" where
  "event_val e =
     VDict (core_dict e @ [(VStr (str ''content_hash''), VStr (e_content_hash e)),
                           (VStr (str ''signature''), signature_dict (e_kid e) (e_signature e))])"

section \<open>Kind-specific payload rules\<close>

text \<open>
  The blocks at the end of \<^verbatim>\<open>_validate_core\<close>, one definition each, on the validated core \<open>c\<close>.
\<close>

definition adoption_rule :: "platform \<Rightarrow> 'a core_scheme \<Rightarrow> unit res" where
  "adoption_rule P c =
     bindR (closed_we [''target_event_id'', ''decision'', ''reason''] ''invalid_adoption_decision''
              (VDict (e_payload c))) (\<lambda>d.
     bindR (uuid_we ''invalid_target_event_id'' (item d ''target_event_id'')) (\<lambda>_.
     bindR (in_strings (item d ''decision'') decisions) (\<lambda>known.
       if \<not> known then raise WeaveProtocolError ''invalid_adoption_decision''
       else bindR (text_we P 1024 ''invalid_adoption_decision'' (item d ''reason'')) (\<lambda>_. Inr ()))))"

definition receipt_payload_fields :: "string list" where
  "receipt_payload_fields =
     [''actor'', ''adapter'', ''authority'', ''completed_at_ms'', ''decision_event_id'', ''intent_hash'',
      ''observed_postcondition'', ''preview_hash'', ''resource_fence'', ''result'', ''started_at_ms'',
      ''target_event_id'']"

definition receipt_rule :: "platform \<Rightarrow> 'a core_scheme \<Rightarrow> unit res" where
  "receipt_rule P c =
     (let m = ''invalid_projection_receipt''; e = weave_error m in
      bindR (closed_we receipt_payload_fields m (VDict (e_payload c))) (\<lambda>r.
      bindR (uuid_we m (item r ''target_event_id'')) (\<lambda>_.
      bindR (uuid_we m (item r ''decision_event_id'')) (\<lambda>_.
      bindR (text_we P 128 m (item r ''adapter'')) (\<lambda>_.
      bindR (hex_hash_we m (item r ''preview_hash'')) (\<lambda>_.
      bindR (hex_hash_we m (item r ''intent_hash'')) (\<lambda>_.
      bindR (text_we P 128 m (item r ''actor'')) (\<lambda>_.
      bindR (in_strings (item r ''authority'') projection_authorities) (\<lambda>known.
        if \<not> known then Inl e
        else bindR (in_strings (item r ''result'') projection_results) (\<lambda>known.
        if \<not> known then Inl e
        else bindR (uint_we m 0 (item r ''started_at_ms'')) (\<lambda>started.
        bindR (uint_we m 0 (item r ''completed_at_ms'')) (\<lambda>completed.
        if completed < started then Inl e
        else bindR (wrapR (is_class ClusterEvidenceError) e
                      (validate_observed_postcondition P (item r ''observed_postcondition''))) (\<lambda>_.
        if item r ''resource_fence'' = VNone then Inr ()
        else bindR (wrapR (is_class ClusterEvidenceError) e
                      (validate_resource_fence_position P (item r ''resource_fence''))) (\<lambda>position.
          if item position ''holder_embodiment_id'' \<noteq> VStr (o_embodiment_id (e_origin c)) then Inl e
          else Inr ()))))))))))))))"

text \<open>\<^verbatim>\<open>a["k1"]["k2"]...\<close>\<close>

fun path :: "val \<Rightarrow> string list \<Rightarrow> val res" where
  "path v [] = Inr v"
| "path v (k # ks) = bindR (subscript v k) (\<lambda>u. path u ks)"

text \<open>\<^verbatim>\<open>if a != b or c != d or ...\<close> with subscripts on the right, left to right.\<close>

fun all_equal :: "(val \<times> val \<times> string list) list \<Rightarrow> bool res" where
  "all_equal [] = Inr True"
| "all_equal ((v, w, ks) # cs) =
     bindR (path w ks) (\<lambda>u. if py_eq v u then all_equal cs else Inr False)"

definition memory_rule :: "platform \<Rightarrow> 'a core_scheme \<Rightarrow> unit res" where
  "memory_rule P c =
     bindR (wrapR (is_class MemoryPolicyError) (weave_error ''invalid_memory_record'')
              (validate_memory_record P (VDict (e_payload c)))) (\<lambda>r.
       if item r ''predecessor_event_id'' \<noteq> opt_str (e_supersedes c)
         then raise WeaveProtocolError ''invalid_memory_record'' else Inr ())"

definition review_rule :: "platform \<Rightarrow> 'a core_scheme \<Rightarrow> unit res" where
  "review_rule P c =
     wrapR (is_class PayloadError) (weave_error ''invalid_review_event'')
      (if e_kind c = str ''review.authorization.issued'' then
         bindR (payload_validator P ''validate_reviewer_authorization'' (core_dict c)) (\<lambda>a.
         bindR (getitem a ''control_position'') (\<lambda>control.
         bindR (all_equal
             [(VStr (e_subject c), VDict a, [''subject_me_id'']),
              (VStr (e_being_ref c), VDict a, [''subject_me_id'']),
              (VStr (e_manifest_hash c), control, [''manifest_hash'']),
              (VStr (o_embodiment_id (e_origin c)), control, [''embodiment_id'']),
              (VStr (o_incarnation_id (e_origin c)), control, [''incarnation_id''])]) (\<lambda>ok.
           if \<not> ok then raise PayloadError ''review_authorization_control_mismatch'' else Inr ())))
       else if e_kind c = str ''review.authorization.revoked'' then
         bindR (payload_validator P ''validate_revocation'' (core_dict c)) (\<lambda>_. Inr ())
       else if e_kind c = str ''review.requested'' then
         bindR (payload_validator P ''validate_review_request'' (core_dict c)) (\<lambda>r.
         bindR (all_equal [(VStr (e_subject c), VDict r, [''subject_me_id'']),
                           (VStr (e_being_ref c), VDict r, [''subject_me_id''])]) (\<lambda>ok.
           if \<not> ok then raise PayloadError ''review_request_subject_mismatch'' else Inr ()))
       else if e_kind c = str ''review.decided'' then
         bindR (payload_validator P ''validate_signed_decision_shape'' (core_dict c)) (\<lambda>_. Inr ())
       else if e_kind c = str ''review.executed'' then
         bindR (payload_validator P ''validate_execution_receipt'' (core_dict c)) (\<lambda>_. Inr ())
       else Inr ())"

definition publication_rule :: "platform \<Rightarrow> 'a core_scheme \<Rightarrow> unit res" where
  "publication_rule P c =
     wrapR (is_class PayloadError) (weave_error ''invalid_publication_event'')
      (if e_kind c = str ''publication.requested'' then
         bindR (payload_validator P ''validate_publication_request_payload'' (core_dict c)) (\<lambda>r.
         bindR (all_equal
             [(VStr (e_subject c), VDict r, [''proposal'', ''source'', ''subject_me_id'']),
              (VStr (e_being_ref c), VDict r, [''proposal'', ''source'', ''subject_me_id''])]) (\<lambda>ok.
           if \<not> ok then raise PayloadError ''publication_request_subject_mismatch'' else Inr ()))
       else
         bindR (payload_validator P ''validate_publication_acceptance_payload'' (core_dict c)) (\<lambda>a.
         bindR (all_equal [(opt_str (e_supersedes c), VDict a, [''predecessor_acceptance_event_id''])]) (\<lambda>ok.
           if \<not> ok then raise PayloadError ''publication_acceptance_predecessor_mismatch'' else Inr ())))"

definition species_rule :: "platform \<Rightarrow> 'a core_scheme \<Rightarrow> unit res" where
  "species_rule P c =
     (let e = ''invalid_species_application_event'' in
      bindR (wrapR (is_class PayloadError) (weave_error e)
               (payload_validator P ''validate_application_payload'' (core_dict c))) (\<lambda>a.
      bindR (all_equal [(VStr (e_subject c), VDict a, [''subject_me_id'']),
                        (VStr (e_being_ref c), VDict a, [''subject_me_id''])]) (\<lambda>ok.
        if \<not> ok \<or> e_supersedes c \<noteq> None then raise WeaveProtocolError e
        else bindR (getitem a ''previous_application'') (\<lambda>predecessor.
          if predecessor = VNone then Inr ()
          else bindR (subscript predecessor ''event_id'') (\<lambda>i.
            if i \<notin> VStr ` set (e_parents c) then raise WeaveProtocolError e else Inr ())))))"

text \<open>
  \<^verbatim>\<open>except SourceError as exception: raise WeaveProtocolError(f"invalid_source_event:{exception.code}")\<close>
\<close>

definition prefix_error :: "exc_class \<Rightarrow> string \<Rightarrow> 'a res \<Rightarrow> 'a res" where
  "prefix_error c p m = (case m of
     Inl x \<Rightarrow> Inl (if is_class c x then Exc WeaveProtocolError (str p @ exc_message x) else x)
   | Inr v \<Rightarrow> Inr v)"

definition source_rule :: "platform \<Rightarrow> 'a core_scheme \<Rightarrow> unit res" where
  "source_rule P c =
     prefix_error PayloadError ''invalid_source_event:''
      (bindR (payload_validator P ''validate_source_event_payload'' (core_dict c)) (\<lambda>s.
       bindR (all_equal [(VStr (e_subject c), VDict s, [''source_id''])]) (\<lambda>ok.
         if \<not> ok then raise PayloadError ''source_event_subject_mismatch'' else Inr ())))"

definition relationship_rule :: "platform \<Rightarrow> core \<Rightarrow> unit res" where
  "relationship_rule P c =
     prefix_error RelationshipError ''invalid_relationship_event:''
      (bindR (validate_relationship_event_payload P (e_kind c) (VDict (e_payload c)) (e_being_ref c)) (\<lambda>r.
         if e_subject c \<noteq> relationship_event_subject r
           then raise RelationshipError ''relationship_event_subject_mismatch''
         else if e_occurred_at_ms c \<noteq> relationship_event_occurred_at r
           then raise RelationshipError ''relationship_event_time_mismatch''
         else Inr ()))"

definition import_rule :: "platform \<Rightarrow> 'a core_scheme \<Rightarrow> unit res" where
  "import_rule P c =
     wrapR (is_class PayloadError) (weave_error ''invalid_collective_source_event'')
      (bindR (payload_validator P ''validate_source_receipt'' (core_dict c)) (\<lambda>r.
         if e_subject c \<noteq> e_being_ref c then raise PayloadError ''collective_source_event_mismatch''
         else bindR (all_equal [(VStr (e_id c), VDict r, [''body'', ''import_event_id''])]) (\<lambda>ok.
           if \<not> ok \<or> e_supersedes c \<noteq> None then raise PayloadError ''collective_source_event_mismatch''
           else Inr ())))"

definition collective_rule :: "platform \<Rightarrow> 'a core_scheme \<Rightarrow> unit res" where
  "collective_rule P c =
     wrapR (is_class PayloadError) (weave_error ''invalid_collective_publication_event'')
      (if e_kind c = str ''collective.publication.requested'' then
         bindR (payload_validator P ''validate_publisher_request_payload'' (core_dict c)) (\<lambda>r.
           let mismatch = raise PayloadError ''collective_publication_request_event_mismatch'' in
           if e_subject c \<noteq> e_being_ref c then mismatch
           else bindR (all_equal [(VStr (e_being_ref c), VDict r, [''body'', ''subject_id''])]) (\<lambda>ok.
             if \<not> ok \<or> e_supersedes c \<noteq> None then mismatch else Inr ()))
       else
         bindR (payload_validator P ''validate_publisher_acceptance_payload'' (core_dict c)) (\<lambda>a.
         bindR (path (VDict a) [''body'', ''provider_receipt'', ''body'', ''action'']) (\<lambda>action.
           if e_subject c \<noteq> e_being_ref c
              \<or> (action = VStr (str ''publish'')) \<noteq> (e_supersedes c = None)
             then raise PayloadError ''collective_publication_acceptance_event_mismatch''
           else Inr ())))"

definition kind_rules :: "platform \<Rightarrow> core \<Rightarrow> unit res" where
  "kind_rules P c =
     (let k = e_kind c in
      if k = str ''adoption.decided'' then adoption_rule P c
      else if k = str ''projection.receipted'' then receipt_rule P c
      else if k = str ''memory.recorded'' then memory_rule P c
      else if startswith k (str ''review.'') then review_rule P c
      else if startswith k (str ''publication.'') then publication_rule P c
      else if k = str ''matrix/species-release-application'' then species_rule P c
      else if k \<in> str ` set source_event_kinds then source_rule P c
      else if k \<in> str ` set relationship_event_kinds then relationship_rule P c
      else if k = str ''source.imported'' then import_rule P c
      else if startswith k (str ''collective.publication.'') then collective_rule P c
      else Inr ())"

section \<open>Validation of a core\<close>

definition core_fields :: "string list" where
  "core_fields =
     [''protocol'', ''event_id'', ''being_ref'', ''manifest_hash'', ''origin'', ''sequence'',
      ''previous_event_id'', ''occurred_at_ms'', ''causal_parents'', ''kind'', ''subject'', ''payload'',
      ''supersedes'', ''sensitivity'']"

definition origin_check :: "platform \<Rightarrow> bool \<Rightarrow> val \<Rightarrow> origin res" where
  "origin_check P root_bound v =
     (let e = ''invalid_origin'' in
      bindR (closed_we [''embodiment_id'', ''incarnation_id'', ''principal_id'', ''body_ref''] e v) (\<lambda>d.
      bindR (text_we P 256 e (item d ''embodiment_id'')) (\<lambda>embodiment_id.
      bindR (text_we P 256 e (item d ''incarnation_id'')) (\<lambda>incarnation_id.
      bindR (text_we P 256 e (item d ''body_ref'')) (\<lambda>body_ref.
      bindR (text_we P 128 e (item d ''principal_id'')) (\<lambda>principal_id.
      bindR (if root_bound then Inr []
             else bindR (legacy_ref ''embodiment'' (item d ''embodiment_id'')) (\<lambda>_.
               legacy_ref ''incarnation'' (item d ''incarnation_id''))) (\<lambda>_.
        Inr \<lparr>o_embodiment_id = embodiment_id, o_incarnation_id = incarnation_id,
             o_principal_id = principal_id, o_body_ref = body_ref\<rparr>)))))))"

text \<open>The predecessor of sequence 1 is absent, of any other a UUID.\<close>

definition previous_check :: "int \<Rightarrow> val \<Rightarrow> pystr option res" where
  "previous_check sequence v =
     (if sequence = 1
      then (if v \<noteq> VNone then raise WeaveProtocolError ''unexpected_predecessor'' else Inr None)
      else if v = VNone then raise WeaveProtocolError ''missing_predecessor''
      else bindR (uuid_we ''invalid_previous_event_id'' v) (\<lambda>p. Inr (Some p)))"

definition parents_check :: "val \<Rightarrow> pystr list res" where
  "parents_check v = (case v of
     VList ps \<Rightarrow>
       if length ps > max_causal_parents then raise WeaveProtocolError ''invalid_causal_parents''
       else bindR (is_sorted_set ps) (\<lambda>ok.
         if \<not> ok then raise WeaveProtocolError ''invalid_causal_parents''
         else mapR (uuid_we ''invalid_causal_parent'') ps)
   | _ \<Rightarrow> raise WeaveProtocolError ''invalid_causal_parents'')"

definition payload_dict :: "platform \<Rightarrow> val \<Rightarrow> dict res" where
  "payload_dict P v = (case v of
     VDict d \<Rightarrow>
       if length d > 64 then raise WeaveProtocolError ''invalid_payload''
       else bindR (payload_check P 0 v 0) (\<lambda>_. Inr d)
   | _ \<Rightarrow> raise WeaveProtocolError ''invalid_payload'')"

definition supersedes_check :: "val \<Rightarrow> pystr option res" where
  "supersedes_check v =
     (if v = VNone then Inr None
      else bindR (uuid_we ''invalid_supersedes'' v) (\<lambda>s. Inr (Some s)))"

text \<open>\<^verbatim>\<open>_validate_core\<close>\<close>

definition validate_core :: "platform \<Rightarrow> dict \<Rightarrow> manifest \<Rightarrow> core res" where
  "validate_core P core_value mf =
     bindR (closed_we core_fields ''invalid_event_fields'' (VDict core_value)) (\<lambda>v.
       if item v ''protocol'' \<noteq> VStr (str protocol)
         then raise WeaveProtocolError ''unsupported_event_protocol''
       else bindR (uuid_we ''invalid_event_id'' (item v ''event_id'')) (\<lambda>event_id.
       if item v ''being_ref'' \<noteq> VStr (mf_being_ref mf) then raise WeaveProtocolError ''wrong_being''
       else if item v ''manifest_hash'' \<noteq> VStr (mf_digest mf)
         then raise WeaveProtocolError ''manifest_hash_mismatch''
       else bindR (origin_check P (mf_root_bound mf) (item v ''origin'')) (\<lambda>og.
       bindR (uint_we ''invalid_sequence'' 1 (item v ''sequence'')) (\<lambda>sequence.
       bindR (previous_check sequence (item v ''previous_event_id'')) (\<lambda>previous.
       bindR (uint_we ''invalid_occurred_at'' 0 (item v ''occurred_at_ms'')) (\<lambda>occurred.
       bindR (parents_check (item v ''causal_parents'')) (\<lambda>parents.
       bindR (in_strings (item v ''kind'') event_kinds) (\<lambda>known.
       if \<not> known then raise WeaveProtocolError ''unsupported_event_kind''
       else bindR (text_we P 256 ''invalid_subject'' (item v ''subject'')) (\<lambda>subject.
       bindR (payload_dict P (item v ''payload'')) (\<lambda>payload.
       bindR (supersedes_check (item v ''supersedes'')) (\<lambda>supersedes.
       bindR (in_strings (item v ''sensitivity'') sensitivities) (\<lambda>known.
       if \<not> known then raise WeaveProtocolError ''invalid_sensitivity''
       else
         let c = \<lparr>e_id = event_id, e_being_ref = mf_being_ref mf, e_manifest_hash = mf_digest mf,
                  e_origin = og, e_sequence = sequence, e_previous = previous,
                  e_occurred_at_ms = occurred, e_parents = parents, e_kind = str_of (item v ''kind''),
                  e_subject = subject, e_payload = payload, e_supersedes = supersedes,
                  e_sensitivity = str_of (item v ''sensitivity'')\<rparr> in
         bindR (kind_rules P c) (\<lambda>_. Inr c)))))))))))))"

section \<open>Provisional and root authorities\<close>

record provisional_authority =
  pa_manifest :: manifest
  pa_public_keys :: "(pystr \<times> pystr) list"

definition provisional_init :: "manifest \<Rightarrow> (pystr \<times> pystr) list \<Rightarrow> provisional_authority res" where
  "provisional_init mf public_keys =
     (if mf_root_bound mf then raise WeaveProtocolError ''provisional_authority_requires_v1_manifest''
      else Inr \<lparr>pa_manifest = mf, pa_public_keys = public_keys\<rparr>)"

definition provisional_validate_origin :: "provisional_authority \<Rightarrow> origin \<Rightarrow> bool \<Rightarrow> member res" where
  "provisional_validate_origin pa og require_active =
     bindR (manifest_member (pa_manifest pa) (o_embodiment_id og) None) (\<lambda>m.
       if require_active \<and> m_status m \<noteq> str ''active''
         then raise WeaveProtocolError ''origin_not_active''
       else if m_principal_id m \<noteq> Some (o_principal_id og) \<or> m_body_ref m \<noteq> o_body_ref og
         then raise WeaveProtocolError ''origin_manifest_mismatch''
       else Inr m)"

definition provisional_public_key :: "provisional_authority \<Rightarrow> core \<Rightarrow> pystr \<Rightarrow> bytes res" where
  "provisional_public_key pa c kid =
     bindR (provisional_validate_origin pa (e_origin c) False) (\<lambda>_.
       case map_of (pa_public_keys pa) kid of
         None \<Rightarrow> raise WeaveProtocolError ''unknown_signing_key''
       | Some public \<Rightarrow> unb64url (VStr public) (Some 32))"

record root_authority =
  ra_manifest :: manifest
  ra_state :: control_state
  ra_credentials :: "(pystr \<times> dict) list"
  ra_incarnations :: "(pystr \<times> dict) list"

definition verify_member :: "platform \<Rightarrow> root_authority \<Rightarrow> member \<Rightarrow> int \<Rightarrow> dict res" where
  "verify_member P ra m at_ms =
     (let credential_id = the (m_credential_id m); authorization_id = the (m_authorization_id m) in
      case (map_of (ra_credentials ra) credential_id, map_of (ra_incarnations ra) authorization_id) of
        (Some credential, Some incarnation) \<Rightarrow>
          bindR (wrapR is_verification_error (weave_error ''invalid_origin_authorization'')
              (bindR (verify_embodiment_credential P credential (ra_state ra) at_ms True) (\<lambda>cb.
               bindR (verify_incarnation_authorization P incarnation credential (ra_state ra) at_ms) (\<lambda>ib.
                 Inr (cb, ib))))) (\<lambda>(credential_body, incarnation_body).
            if item credential ''artifact_id'' \<noteq> VStr credential_id
               \<or> item incarnation ''artifact_id'' \<noteq> VStr authorization_id
               \<or> item credential_body ''embodiment_id'' \<noteq> VStr (m_embodiment_id m)
               \<or> item credential_body ''body_ref'' \<noteq> VStr (m_body_ref m)
               \<or> item incarnation_body ''incarnation_id'' \<noteq> VStr (the (m_incarnation_id m))
              then raise WeaveProtocolError ''origin_authorization_mismatch''
            else Inr credential_body)
      | _ \<Rightarrow> raise WeaveProtocolError ''missing_origin_authorization'')"

text \<open>\<^verbatim>\<open>incarnation["body"]["started_at_ms"]\<close>\<close>

definition started_at :: "root_authority \<Rightarrow> member \<Rightarrow> int res" where
  "started_at ra m =
     (case map_of (ra_incarnations ra) (the (m_authorization_id m)) of
        None \<Rightarrow> raise KeyError ''incarnation''
      | Some incarnation \<Rightarrow> bindR (path (VDict incarnation) [''body'', ''started_at_ms'']) num_res)"

fun check_members :: "platform \<Rightarrow> root_authority \<Rightarrow> member list \<Rightarrow> unit res" where
  "check_members P ra [] = Inr ()"
| "check_members P ra (m # ms) =
     (let missing = raise WeaveProtocolError ''missing_origin_authorization'' in
      case map_of (ra_incarnations ra) (the (m_authorization_id m)) of
        None \<Rightarrow> missing
      | Some incarnation \<Rightarrow>
          (case dget incarnation ''body'' of
             Some (VDict body) \<Rightarrow>
               (case dget body ''started_at_ms'' of
                  Some (VInt started) \<Rightarrow>
                    bindR (verify_member P ra m started) (\<lambda>_. check_members P ra ms)
                | _ \<Rightarrow> missing)
           | _ \<Rightarrow> missing))"

definition root_init ::
  "platform \<Rightarrow> manifest \<Rightarrow> control_state \<Rightarrow> (pystr \<times> dict) list \<Rightarrow> (pystr \<times> dict) list
     \<Rightarrow> root_authority res" where
  "root_init P mf state credentials incarnations =
     (let ra = \<lparr>ra_manifest = mf, ra_state = state, ra_credentials = credentials,
                ra_incarnations = incarnations\<rparr> in
      if \<not> mf_root_bound mf then raise WeaveProtocolError ''root_authority_requires_v2_manifest''
      else if mf_being_ref mf \<noteq> cs_being_ref state \<or> mf_control_head mf \<noteq> Some (cs_head state)
        then raise WeaveProtocolError ''manifest_control_anchor_mismatch''
      else if mf_binding_id mf \<noteq> cs_activated_binding state
        then raise WeaveProtocolError ''manifest_binding_mismatch''
      else bindR (check_members P ra (mf_members mf)) (\<lambda>_. Inr ra))"

text \<open>\<^verbatim>\<open>{principal["principal_id"] for principal in credential_body["transport_principals"]}\<close>\<close>

definition credential_principals :: "dict \<Rightarrow> val list res" where
  "credential_principals credential_body =
     bindR (iter_vals (item credential_body ''transport_principals'')) (\<lambda>rows.
     bindR (mapR (\<lambda>p. subscript p ''principal_id'') rows) (\<lambda>ids.
       if list_all hashable ids then Inr ids else raise TypeError ''unhashable''))"

definition root_validate_origin ::
  "platform \<Rightarrow> root_authority \<Rightarrow> origin \<Rightarrow> bool \<Rightarrow> member res" where
  "root_validate_origin P ra og require_active =
     bindR (manifest_member (ra_manifest ra) (o_embodiment_id og) (Some (o_incarnation_id og))) (\<lambda>m.
       if require_active \<and> m_status m \<noteq> str ''active''
         then raise WeaveProtocolError ''origin_not_active''
       else if m_body_ref m \<noteq> o_body_ref og
         then raise WeaveProtocolError ''origin_manifest_mismatch''
       else bindR (started_at ra m) (\<lambda>started.
         bindR (verify_member P ra m started) (\<lambda>credential_body.
         bindR (credential_principals credential_body) (\<lambda>principals.
           if VStr (o_principal_id og) \<notin> set principals
             then raise WeaveProtocolError ''origin_principal_not_bound''
           else Inr m))))"

definition root_public_key :: "platform \<Rightarrow> root_authority \<Rightarrow> core \<Rightarrow> pystr \<Rightarrow> bytes res" where
  "root_public_key P ra c kid =
     (let og = e_origin c in
      bindR (root_validate_origin P ra og False) (\<lambda>m.
      bindR (verify_member P ra m (e_occurred_at_ms c)) (\<lambda>credential_body.
        if item credential_body ''embodiment_id'' \<noteq> VStr (o_embodiment_id og)
           \<or> item credential_body ''body_ref'' \<noteq> VStr (o_body_ref og)
          then raise WeaveProtocolError ''origin_authorization_mismatch''
        else bindR (credential_principals credential_body) (\<lambda>principals.
          if VStr (o_principal_id og) \<notin> set principals
            then raise WeaveProtocolError ''origin_principal_not_bound''
          else
            let signing = item credential_body ''signing_key'' in
            bindR (subscript signing ''key_id'') (\<lambda>key_id.
              if VStr kid \<noteq> key_id then raise WeaveProtocolError ''wrong_embodiment_signing_key''
              else bindR (subscript signing ''public'') (\<lambda>public. unb64url public (Some 32)))))))"

definition root_validate_transport ::
  "platform \<Rightarrow> root_authority \<Rightarrow> origin \<Rightarrow> pystr \<Rightarrow> pystr \<Rightarrow> member res" where
  "root_validate_transport P ra og scheme principal_id =
     bindR (root_validate_origin P ra og True) (\<lambda>m.
       if o_principal_id og \<noteq> principal_id
         then raise WeaveProtocolError ''transport_principal_mismatch''
       else bindR (started_at ra m) (\<lambda>started.
         bindR (verify_member P ra m started) (\<lambda>credential_body.
         bindR (iter_vals (item credential_body ''transport_principals'')) (\<lambda>rows.
         bindR (mapR (\<lambda>t. bindR (subscript t ''scheme'') (\<lambda>s.
                  if s \<noteq> VStr scheme then Inr False
                  else bindR (subscript t ''principal_id'') (\<lambda>i. Inr (i = VStr principal_id)))) rows) (\<lambda>found.
           if True \<notin> set found then raise WeaveProtocolError ''transport_principal_not_bound''
           else Inr m)))))"

section \<open>Verification\<close>

text \<open>
  An authority as \<^verbatim>\<open>verify_event\<close> uses it: the manifest that is in force for the event, and the
  key of its origin.
\<close>

record selected =
  sel_manifest :: manifest
  sel_public_key :: "core \<Rightarrow> pystr \<Rightarrow> bytes res"

definition event_fields :: "string list" where
  "event_fields = core_fields @ [''content_hash'', ''signature'']"

definition is_signature_error :: "exc \<Rightarrow> bool" where
  "is_signature_error e =
     (is_class CanonicalError e \<or> is_class InvalidSignature e \<or> is_verification_error e)"

definition check_signature ::
  "platform \<Rightarrow> bytes res \<Rightarrow> val \<Rightarrow> bytes \<Rightarrow> unit res" where
  "check_signature P public_key sig message =
     wrapR is_signature_error (weave_error ''invalid_signature'')
      (bindR public_key (\<lambda>public.
         if \<not> ed25519_point P public then raise ValueError ''public bytes''
         else bindR (unb64url sig (Some 64)) (\<lambda>sv.
           if \<not> ed25519_verify P public sv message then raise InvalidSignature [] else Inr ())))"

definition verify_with :: "platform \<Rightarrow> (dict \<Rightarrow> selected res) \<Rightarrow> val \<Rightarrow> event res" where
  "verify_with P select v =
     bindR (closed_we event_fields ''invalid_event_fields'' v) (\<lambda>d.
     bindR (select d) (\<lambda>sel.
     bindR (canonical_we P v) (\<lambda>raw.
       if length raw > max_event_bytes then raise WeaveProtocolError ''event_too_large''
       else
         let core_value = without [''content_hash'', ''signature''] d in
         bindR (validate_core P core_value (sel_manifest sel)) (\<lambda>c.
         bindR (canonical_we P (VDict core_value)) (\<lambda>core_raw.
           let content = sha256_hex core_raw in
           if item d ''content_hash'' \<noteq> VStr content
             then raise WeaveProtocolError ''content_hash_mismatch''
           else bindR (closed_we [''alg'', ''kid'', ''value''] ''invalid_signature'' (item d ''signature'')) (\<lambda>sig.
             if item sig ''alg'' \<noteq> VStr (str ''Ed25519'')
               then raise WeaveProtocolError ''invalid_signature''
             else bindR (text_we P 128 ''invalid_signature'' (item sig ''kid'')) (\<lambda>kid.
             bindR (check_signature P (sel_public_key sel c kid) (item sig ''value'')
                      (str event_domain @ [0] @ sha256 core_raw)) (\<lambda>_.
               Inr (core.extend c \<lparr>e_content_hash = content, e_kid = kid,
                      e_signature = str_of (item sig ''value'')\<rparr>)))))))))"

definition provisional_select :: "provisional_authority \<Rightarrow> dict \<Rightarrow> selected res" where
  "provisional_select pa d =
     Inr \<lparr>sel_manifest = pa_manifest pa, sel_public_key = provisional_public_key pa\<rparr>"

definition root_select :: "platform \<Rightarrow> root_authority \<Rightarrow> dict \<Rightarrow> selected res" where
  "root_select P ra d = Inr \<lparr>sel_manifest = ra_manifest ra, sel_public_key = root_public_key P ra\<rparr>"

section \<open>Inventories and bound histories\<close>

record inventory_authority =
  ia_local :: root_authority
  ia_authorities :: "(pystr \<times> root_authority) list"

definition inventory_init :: "root_authority \<Rightarrow> (pystr \<times> root_authority) list \<Rightarrow> inventory_authority res" where
  "inventory_init local inventory =
     (if inventory = [] \<or> length inventory > 256
         \<or> fst ` set inventory \<noteq> (\<lambda>(_, ra). cs_being_ref (ra_state ra)) ` set inventory
         \<or> map_of inventory (cs_being_ref (ra_state local)) \<noteq> Some local
      then raise WeaveProtocolError ''invalid_root_authority_inventory''
      else Inr \<lparr>ia_local = local, ia_authorities = inventory\<rparr>)"

definition inventory_select :: "platform \<Rightarrow> inventory_authority \<Rightarrow> dict \<Rightarrow> selected res" where
  "inventory_select P ia d =
     (case (case dget d ''being_ref'' of Some (VStr b) \<Rightarrow> map_of (ia_authorities ia) b | _ \<Rightarrow> None) of
        None \<Rightarrow> raise WeaveProtocolError ''unknown_root_authority''
      | Some ra \<Rightarrow>
          if dget d ''manifest_hash'' \<noteq> Some (VStr (mf_digest (ra_manifest ra)))
            then raise WeaveProtocolError ''unknown_root_authority''
          else root_select P ra d)"

record bound_authority =
  ba_active :: root_authority
  ba_historical :: provisional_authority
  ba_binding :: dict
  ba_events :: "(pystr \<times> val) list"  \<comment> \<open>\<^verbatim>\<open>historical_events\<close>\<close>

fun verify_history ::
  "platform \<Rightarrow> provisional_authority \<Rightarrow> (pystr \<times> val) list \<Rightarrow> (pystr \<times> event) list res" where
  "verify_history P pa [] = Inr []"
| "verify_history P pa ((i, v) # es) =
     bindR (verify_with P (provisional_select pa) v) (\<lambda>e.
       if i \<noteq> e_id e then raise WeaveProtocolError ''historical_event_key_mismatch''
       else bindR (verify_history P pa es) (\<lambda>rest. Inr ((i, e) # rest)))"

text \<open>
  The \<^verbatim>\<open>while pending\<close> loop. The stack is kept with its top first, so that \<^verbatim>\<open>pending.pop()\<close>
  takes the head. Each round drops one pending id or adds a known event to \<open>reachable\<close>.
\<close>

function closure_loop :: "(pystr \<times> event) list \<Rightarrow> pystr list \<Rightarrow> val list \<Rightarrow> pystr list res" where
  "closure_loop known reachable [] = Inr reachable"
| "closure_loop known reachable (v # pending) =
     (if \<not> hashable v then raise TypeError ''unhashable''
      else if v \<in> VStr ` set reachable then closure_loop known reachable pending
      else (case (if is_str v then map_of known (str_of v) else None) of
          None \<Rightarrow> raise WeaveProtocolError ''history_binding_missing_ancestor''
        | Some e \<Rightarrow>
            let reachable' = str_of v # reachable in
            (case e_previous e of
               None \<Rightarrow> closure_loop known reachable' (rev (map VStr (e_parents e)) @ pending)
             | Some p \<Rightarrow>
                 (case map_of known p of
                    None \<Rightarrow> raise WeaveProtocolError ''invalid_historical_origin_chain''
                  | Some q \<Rightarrow>
                      if o_incarnation_id (e_origin q) \<noteq> o_incarnation_id (e_origin e)
                         \<or> e_sequence q \<noteq> e_sequence e - 1
                        then raise WeaveProtocolError ''invalid_historical_origin_chain''
                      else closure_loop known reachable'
                             (rev (map VStr (e_parents e)) @ [VStr p] @ pending)))))"
  by pat_completeness auto

definition closure_measure :: "(pystr \<times> event) list \<times> pystr list \<times> val list \<Rightarrow> nat" where
  "closure_measure x = (case x of (known, reachable, _) \<Rightarrow> card (fst ` set known - set reachable))"

lemma closure_measure_less:
  "map_of known k = Some e \<Longrightarrow> k \<notin> set reachable
    \<Longrightarrow> card (fst ` set known - insert k (set reachable)) < card (fst ` set known - set reachable)"
proof (rule psubset_card_mono)
  assume "map_of known k = Some e" and "k \<notin> set reachable"
  then have "k \<in> fst ` set known - set reachable" by (auto dest!: map_of_SomeD intro: rev_image_eqI)
  then show "fst ` set known - insert k (set reachable) \<subset> fst ` set known - set reachable" by blast
qed simp

termination closure_loop
  by (relation "measures [closure_measure, \<lambda>(_, _, pending). length pending]")
     (auto simp: closure_measure_def split: if_splits dest: is_strE intro!: closure_measure_less)

definition verify_closure ::
  "platform \<Rightarrow> provisional_authority \<Rightarrow> (pystr \<times> val) list \<Rightarrow> val list \<Rightarrow> unit res" where
  "verify_closure P pa events accepted_heads =
     bindR (verify_history P pa events) (\<lambda>known.
     bindR (mapR (\<lambda>h. subscript h ''event_id'') accepted_heads) (\<lambda>pending.
     bindR (closure_loop known [] (rev pending)) (\<lambda>reachable.
       if set reachable \<noteq> fst ` set known then raise WeaveProtocolError ''unbound_historical_event''
       else Inr ())))"

definition history_head_verified ::
  "platform \<Rightarrow> provisional_authority \<Rightarrow> (pystr \<times> val) list \<Rightarrow> val \<Rightarrow> bool" where
  "history_head_verified P pa events head =
     (case head of
        VDict h \<Rightarrow>
          (case map_of events (str_of (item h ''event_id'')) of
             None \<Rightarrow> False
           | Some v \<Rightarrow>
               (case verify_with P (provisional_select pa) v of
                  Inl _ \<Rightarrow> False
                | Inr e \<Rightarrow>
                    item h ''content_hash'' = VStr (e_content_hash e)
                    \<and> item h ''incarnation_id'' = VStr (o_incarnation_id (e_origin e))
                    \<and> item h ''origin_embodiment_id'' = VStr (o_embodiment_id (e_origin e))
                    \<and> num_of (item h ''sequence'') = Some (e_sequence e)
                    \<and> item h ''signer_key_id'' = VStr (e_kid e)))
      | _ \<Rightarrow> False)"

definition bound_init ::
  "platform \<Rightarrow> root_authority \<Rightarrow> provisional_authority \<Rightarrow> dict \<Rightarrow> (pystr \<times> val) list
     \<Rightarrow> bound_authority res" where
  "bound_init P active historical binding events =
     (if opt_str (cs_activated_binding (ra_state active))
         \<noteq> (case dget binding ''artifact_id'' of Some v \<Rightarrow> v | None \<Rightarrow> VNone)
      then raise WeaveProtocolError ''inactive_history_binding''
      else (case dget binding ''body'' of
          Some (VDict body) \<Rightarrow>
            (case dget body ''accepted_heads'' of
               Some (VList heads) \<Rightarrow>
                 bindR (verify_closure P historical events heads) (\<lambda>_.
                 bindR (canonical_we P (VDict (mf_value (pa_manifest historical)))) (\<lambda>manifest_bytes.
                 bindR (wrapR is_verification_error (weave_error ''invalid_history_binding'')
                     (verify_history_binding P binding (ra_state active) manifest_bytes
                        (mf_revision (pa_manifest historical)) heads
                        (history_head_verified P historical events))) (\<lambda>_.
                   if dget body ''provisional_being_ref''
                      \<noteq> Some (VStr (mf_being_ref (pa_manifest historical)))
                     then raise WeaveProtocolError ''history_binding_being_mismatch''
                   else Inr \<lparr>ba_active = active, ba_historical = historical, ba_binding = binding,
                             ba_events = events\<rparr>)))
             | _ \<Rightarrow> raise WeaveProtocolError ''invalid_history_binding'')
        | _ \<Rightarrow> raise WeaveProtocolError ''invalid_history_binding''))"

definition bound_select :: "platform \<Rightarrow> bound_authority \<Rightarrow> dict \<Rightarrow> selected res" where
  "bound_select P ba d =
     (if dget d ''manifest_hash'' = Some (VStr (mf_digest (ra_manifest (ba_active ba))))
        then root_select P (ba_active ba) d
      else if dget d ''manifest_hash'' = Some (VStr (mf_digest (pa_manifest (ba_historical ba)))) then
        bindR (hashable_res (case dget d ''event_id'' of Some v \<Rightarrow> v | None \<Rightarrow> VNone)) (\<lambda>i.
          if i \<notin> VStr ` fst ` set (ba_events ba)
            then raise WeaveProtocolError ''unbound_historical_event''
          else provisional_select (ba_historical ba) d)
      else raise WeaveProtocolError ''unknown_manifest_hash'')"

section \<open>Event authorities\<close>

datatype authority =
    Provisional provisional_authority
  | Root root_authority
  | Inventory inventory_authority
  | BoundHistory bound_authority

fun authority_manifest :: "authority \<Rightarrow> manifest" where
  "authority_manifest (Provisional pa) = pa_manifest pa"
| "authority_manifest (Root ra) = ra_manifest ra"
| "authority_manifest (Inventory ia) = ra_manifest (ia_local ia)"
| "authority_manifest (BoundHistory ba) = ra_manifest (ba_active ba)"

fun select_authority :: "platform \<Rightarrow> authority \<Rightarrow> dict \<Rightarrow> selected res" where
  "select_authority P (Provisional pa) d = provisional_select pa d"
| "select_authority P (Root ra) d = root_select P ra d"
| "select_authority P (Inventory ia) d = inventory_select P ia d"
| "select_authority P (BoundHistory ba) d = bound_select P ba d"

fun validate_origin :: "platform \<Rightarrow> authority \<Rightarrow> origin \<Rightarrow> bool \<Rightarrow> member res" where
  "validate_origin P (Provisional pa) og active = provisional_validate_origin pa og active"
| "validate_origin P (Root ra) og active = root_validate_origin P ra og active"
| "validate_origin P (Inventory ia) og active = root_validate_origin P (ia_local ia) og active"
| "validate_origin P (BoundHistory ba) og active = root_validate_origin P (ba_active ba) og active"

fun validate_transport_principal ::
  "platform \<Rightarrow> authority \<Rightarrow> origin \<Rightarrow> pystr \<Rightarrow> pystr \<Rightarrow> member res" where
  "validate_transport_principal P (Provisional pa) og scheme pid =
     raise WeaveProtocolError ''provisional_transport_authority_unsupported''"
| "validate_transport_principal P (Root ra) og scheme pid =
     root_validate_transport P ra og scheme pid"
| "validate_transport_principal P (Inventory ia) og scheme pid =
     root_validate_transport P (ia_local ia) og scheme pid"
| "validate_transport_principal P (BoundHistory ba) og scheme pid =
     root_validate_transport P (ba_active ba) og scheme pid"

text \<open>\<^verbatim>\<open>BoundHistoryAuthority.accepted_manifest_hashes\<close>; the ledger reads it with \<^verbatim>\<open>getattr\<close>.\<close>

fun accepted_manifest_hashes :: "authority \<Rightarrow> pystr list option" where
  "accepted_manifest_hashes (BoundHistory ba) =
     Some (sorted_list_of_set {mf_digest (ra_manifest (ba_active ba)),
                               mf_digest (pa_manifest (ba_historical ba))})"
| "accepted_manifest_hashes _ = None"

definition verify_event :: "platform \<Rightarrow> authority \<Rightarrow> val \<Rightarrow> event res" where
  "verify_event P A v = verify_with P (select_authority P A) v"

section \<open>Creation\<close>

record signer =
  sg_key_id :: pystr
  sg_seed :: bytes

definition sign :: "platform \<Rightarrow> signer \<Rightarrow> bytes \<Rightarrow> val res" where
  "sign P sg content =
     (if length (sg_seed sg) \<noteq> 32 then raise WeaveProtocolError ''invalid_signing_seed''
      else Inr (signature_dict (sg_key_id sg)
                 (b64url (ed25519_sign P (sg_seed sg) (str event_domain @ [0] @ content)))))"

record draft =
  d_event_id :: pystr
  d_sequence :: int
  d_previous :: "pystr option"
  d_occurred_at_ms :: int
  d_parents :: "pystr list"
  d_kind :: pystr
  d_subject :: pystr
  d_payload :: dict
  d_supersedes :: "pystr option"
  d_sensitivity :: pystr

text \<open>\<^verbatim>\<open>str(origin.get(k))\<close>: a manifest holds no id that is the \<^verbatim>\<open>str\<close> of a value of another type.\<close>

definition origin_id :: "dict \<Rightarrow> string \<Rightarrow> pystr" where
  "origin_id og k = (case dget og k of Some v \<Rightarrow> str_of v | None \<Rightarrow> [])"

definition draft_dict :: "authority \<Rightarrow> dict \<Rightarrow> draft \<Rightarrow> dict" where
  "draft_dict A og dr =
     [(VStr (str ''protocol''), VStr (str protocol)),
      (VStr (str ''event_id''), VStr (d_event_id dr)),
      (VStr (str ''being_ref''), VStr (mf_being_ref (authority_manifest A))),
      (VStr (str ''manifest_hash''), VStr (mf_digest (authority_manifest A))),
      (VStr (str ''origin''), VDict og),
      (VStr (str ''sequence''), VInt (d_sequence dr)),
      (VStr (str ''previous_event_id''), opt_str (d_previous dr)),
      (VStr (str ''occurred_at_ms''), VInt (d_occurred_at_ms dr)),
      (VStr (str ''causal_parents''), VList (map VStr (sorted_list_of_set (set (d_parents dr))))),
      (VStr (str ''kind''), VStr (d_kind dr)),
      (VStr (str ''subject''), VStr (d_subject dr)),
      (VStr (str ''payload''), VDict (d_payload dr)),
      (VStr (str ''supersedes''), opt_str (d_supersedes dr)),
      (VStr (str ''sensitivity''), VStr (d_sensitivity dr))]"

definition create_event :: "platform \<Rightarrow> authority \<Rightarrow> dict \<Rightarrow> signer \<Rightarrow> draft \<Rightarrow> event res" where
  "create_event P A og sg dr =
     (let mf = authority_manifest A in
      bindR (manifest_member mf (origin_id og ''embodiment_id'')
               (if mf_root_bound mf then Some (origin_id og ''incarnation_id'') else None)) (\<lambda>m.
        if m_status m \<noteq> str ''active'' then raise WeaveProtocolError ''origin_not_active''
        else
          let core_value = draft_dict A og dr in
          bindR (validate_core P core_value mf) (\<lambda>_.
          bindR (canonical_we P (VDict core_value)) (\<lambda>raw.
          bindR (sign P sg (sha256 raw)) (\<lambda>sig.
            verify_event P A
              (VDict (core_value @ [(VStr (str ''content_hash''), VStr (sha256_hex raw)),
                                    (VStr (str ''signature''), sig)])))))))"

definition page_bytes :: "platform \<Rightarrow> val list \<Rightarrow> bytes res" where
  "page_bytes P events = canonical_we P (VDict [(VStr (str ''events''), VList events)])"

end
