(* ===== verification/Weave_Laws.thy ===== *)
theory Weave_Laws
  imports Weave
begin

text \<open>
  Laws of events (\<^verbatim>\<open>src/daimon_matrix/weave.py\<close>). The record an accepted value is read as has the
  canonical bytes of the value and verifies again, to itself; a created event verifies and has the
  fields it was drafted with; an accepted payload is bounded and holds nothing named or shaped
  like a secret.
\<close>

section \<open>Canonical bytes of closed mappings\<close>

lemma code_points_str: "code_points (str k)"
proof -
  have "(of_char c :: nat) < 0x110000 \<and> \<not> is_surrogate (of_char c)" for c
  proof -
    have "(of_char c :: nat) < 256" by simp
    then have "(of_char c :: nat) < 1114112" "(of_char c :: nat) < 55296" by linarith+
    then show ?thesis by (simp add: is_surrogate_def)
  qed
  then show ?thesis by (auto simp: code_points_def str_def)
qed

lemma normal_keys:
  assumes "normalize P (VDict d) = Inr j"
  shows "distinct (map fst d)"
proof -
  from assms obtain kvs where kvs: "list_all2 (member_normal P) d kvs" "distinct (map fst kvs)"
    by (auto simp: normalize_VDict_Inr)
  from kvs(1) have "map fst d = map (VStr \<circ> fst) kvs"
    by (induction rule: list_all2_induct) (auto simp: member_normal_def)
  moreover have "distinct (map (VStr \<circ> fst) kvs)"
    using kvs(2) by (simp add: distinct_map inj_on_def)
  ultimately show ?thesis by simp
qed

definition as_listed :: "dict \<Rightarrow> string list \<Rightarrow> dict" where
  "as_listed d ks = map (\<lambda>k. (VStr (str k), item d k)) ks"

lemma as_listed_set:
  assumes "dkeys d = key_set ks" and "distinct (map fst d)"
  shows "set (as_listed d ks) = set d"
proof
  show "set (as_listed d ks) \<subseteq> set d"
    using closed_item [OF assms(1)] by (auto simp: as_listed_def dest: dget_in_set)
  show "set d \<subseteq> set (as_listed d ks)"
  proof
    fix kv assume kv: "kv \<in> set d"
    then have "fst kv \<in> key_set ks" using assms(1) by (auto simp: dkeys_def)
    then obtain k where k: "k \<in> set ks" "fst kv = VStr (str k)" by (auto simp: key_set_def)
    from kv assms(2) have "map_of d (fst kv) = Some (snd kv)" by simp
    then have "item d k = snd kv" by (simp add: item_def dget_def k(2))
    then show "kv \<in> set (as_listed d ks)" using k by (auto simp: as_listed_def intro!: image_eqI [of _ _ k] prod_eqI)
  qed
qed

lemma distinct_as_listed: "distinct ks \<Longrightarrow> distinct (as_listed d ks)"
  by (auto simp: as_listed_def distinct_map inj_on_def)

lemma normalize_closed:
  assumes "normalize P (VDict d) = Inr j" and "dkeys d = key_set ks" and "distinct ks"
  shows "normalize P (VDict (as_listed d ks)) = Inr j"
proof (rule normalize_dict_order [OF assms(1)])
  have "distinct (map fst d)" by (rule normal_keys [OF assms(1)])
  then show "mset (as_listed d ks) = mset d"
    using as_listed_set [OF assms(2)] distinct_as_listed [OF assms(3)]
    by (metis distinct_map set_eq_iff_mset_eq_distinct)
  fix s v assume "(VStr s, v) \<in> set d"
  then have "VStr s \<in> key_set ks" using assms(2) by (force simp: dkeys_def)
  then show "code_points s" by (auto simp: key_set_def code_points_str)
qed

definition refines_val :: "platform \<Rightarrow> val \<Rightarrow> val \<Rightarrow> bool" where
  "refines_val P v w \<longleftrightarrow> (\<forall>j. normalize P v = Inr j \<longrightarrow> normalize P w = Inr j)"

lemma refines_val_refl [simp]: "refines_val P v v"
  by (simp add: refines_val_def)

lemma normalize_dict_refines:
  assumes "list_all2 (\<lambda>x y. fst x = fst y \<and> refines_val P (snd x) (snd y)) d d'"
  shows "refines_val P (VDict d) (VDict d')"
proof -
  have "list_all2 (member_normal P) d' kvs" if "list_all2 (member_normal P) d kvs" for kvs
    using assms that
  proof (induction arbitrary: kvs rule: list_all2_induct)
    case Nil
    then show ?case by simp
  next
    case (Cons x xs y ys)
    then show ?case by (cases kvs) (auto simp: member_normal_def refines_val_def)
  qed
  then show ?thesis by (auto simp: refines_val_def normalize_VDict_Inr)
qed

lemma refines_closed:
  assumes "dkeys d = key_set ks" and "distinct ks"
    and "list_all2 (\<lambda>k y. fst y = VStr (str k) \<and> refines_val P (item d k) (snd y)) ks d'"
  shows "refines_val P (VDict d) (VDict d')"
proof -
  have "list_all2 (\<lambda>x y. fst x = fst y \<and> refines_val P (snd x) (snd y)) (as_listed d ks) d'"
    using assms(3) by (auto simp: as_listed_def list_all2_map1 elim!: list_all2_mono)
  from normalize_dict_refines [OF this] normalize_closed [OF _ assms(1,2)] show ?thesis
    by (auto simp: refines_val_def)
qed

lemma refines_canonical:
  "refines_val P v w \<Longrightarrow> canonical_bytes P v = Inr b \<Longrightarrow> canonical_bytes P w = Inr b"
  by (auto simp: refines_val_def canonical_bytes_def res)

section \<open>What the checks of a core establish\<close>

lemma text_we_Inr_iff [res]:
  "text_we P n e v = Inr s \<longleftrightarrow> v = VStr s \<and> s \<noteq> []
     \<and> (\<exists>raw. encode_utf8 s = Inr raw \<and> length raw \<le> n) \<and> (\<exists>b. canonical_bytes P v = Inr b)"
  by (auto simp: text_we_def canonical_we_def res)

lemma canonical_we_Inr_iff [res]: "canonical_we P v = Inr b \<longleftrightarrow> canonical_bytes P v = Inr b"
  by (simp add: canonical_we_def res)

lemma closed_we_Inr_iff [res]: "closed_we ks e v = Inr d \<longleftrightarrow> v = VDict d \<and> dkeys d = key_set ks"
  by (simp add: closed_we_def res)

lemma uuid_we_Inr_iff [res]: "uuid_we e v = Inr s \<longleftrightarrow> v = VStr s \<and> is_uuid s"
  by (simp add: uuid_we_def res)

lemma uint_we_Inr_iff [res]: "uint_we e lo v = Inr i \<longleftrightarrow> v = VInt i \<and> lo \<le> i \<and> i \<le> max_uint"
  by (simp add: uint_we_def res)

lemma legacy_ref_Inr: "legacy_ref p v = Inr s \<Longrightarrow> v = VStr s"
  by (auto simp: legacy_ref_def Let_def res)

lemma previous_check_Inr: "previous_check n v = Inr p \<Longrightarrow> v = opt_str p \<and> (p = None \<longleftrightarrow> n = 1)"
  by (auto simp: previous_check_def opt_str_def res split: if_splits)

lemma supersedes_check_Inr: "supersedes_check v = Inr p \<Longrightarrow> v = opt_str p"
  by (auto simp: supersedes_check_def opt_str_def res split: if_splits)

lemma mapR_uuid: "mapR (uuid_we e) vs = Inr ss \<Longrightarrow> vs = map VStr ss"
  by (auto simp: mapR_Inr_iff res list_all2_conv_all_nth intro!: nth_equalityI)

lemma parents_check_Inr:
  "parents_check v = Inr ps \<Longrightarrow> v = VList (map VStr ps) \<and> sorted_wrt (<) ps \<and> length ps \<le> max_causal_parents"
  by (auto simp: parents_check_def res is_sorted_set_strings dest!: mapR_uuid)

lemma origin_check_Inr:
  assumes "origin_check P rb v = Inr og"
  obtains d where "v = VDict d"
    "dkeys d = key_set [''embodiment_id'', ''incarnation_id'', ''principal_id'', ''body_ref'']"
    "item d ''embodiment_id'' = VStr (o_embodiment_id og)" "item d ''incarnation_id'' = VStr (o_incarnation_id og)"
    "item d ''principal_id'' = VStr (o_principal_id og)" "item d ''body_ref'' = VStr (o_body_ref og)"
  using assms by (auto simp: origin_check_def Let_def res)

lemma origin_refines: "origin_check P rb v = Inr og \<Longrightarrow> refines_val P v (origin_val og)"
  by (elim origin_check_Inr)
     (auto simp: origin_val_def origin_dict_def intro!: refines_closed
        [where ks = "[''embodiment_id'', ''incarnation_id'', ''principal_id'', ''body_ref'']"])

lemma payload_dict_Inr: "payload_dict P v = Inr d \<Longrightarrow> v = VDict d \<and> payload_dict P (VDict d) = Inr d"
  by (auto simp: payload_dict_def res)

lemma validate_core_Inr:
  assumes "validate_core P cv mf = Inr c"
  shows "dkeys cv = key_set core_fields"
    "item cv ''protocol'' = VStr (str protocol)" "item cv ''event_id'' = VStr (e_id c)"
    "item cv ''being_ref'' = VStr (e_being_ref c)" "item cv ''manifest_hash'' = VStr (e_manifest_hash c)"
    "origin_check P (mf_root_bound mf) (item cv ''origin'') = Inr (e_origin c)"
    "item cv ''sequence'' = VInt (e_sequence c)" "item cv ''previous_event_id'' = opt_str (e_previous c)"
    "item cv ''occurred_at_ms'' = VInt (e_occurred_at_ms c)"
    "item cv ''causal_parents'' = VList (map VStr (e_parents c))" "item cv ''kind'' = VStr (e_kind c)"
    "item cv ''subject'' = VStr (e_subject c)" "item cv ''payload'' = VDict (e_payload c)"
    "item cv ''supersedes'' = opt_str (e_supersedes c)" "item cv ''sensitivity'' = VStr (e_sensitivity c)"
    "e_being_ref c = mf_being_ref mf" "e_manifest_hash c = mf_digest mf"
    "is_uuid (e_id c)" "1 \<le> e_sequence c" "e_previous c = None \<longleftrightarrow> e_sequence c = 1"
    "e_kind c \<in> str ` set event_kinds" "payload_dict P (VDict (e_payload c)) = Inr (e_payload c)"
    "kind_rules P c = Inr ()"
proof -
  from assms obtain event_id og n prev occ ps kn subj pay sup sens where
    1: "dkeys cv = key_set core_fields" "item cv ''protocol'' = VStr (str protocol)"
    "item cv ''event_id'' = VStr event_id" "is_uuid event_id"
    "item cv ''being_ref'' = VStr (mf_being_ref mf)" "item cv ''manifest_hash'' = VStr (mf_digest mf)"
    "origin_check P (mf_root_bound mf) (item cv ''origin'') = Inr og"
    "item cv ''sequence'' = VInt n" "1 \<le> n" "previous_check n (item cv ''previous_event_id'') = Inr prev"
    "item cv ''occurred_at_ms'' = VInt occ" "parents_check (item cv ''causal_parents'') = Inr ps"
    "in_strings (item cv ''kind'') event_kinds = Inr True" "item cv ''subject'' = VStr subj"
    "payload_dict P (item cv ''payload'') = Inr pay"
    "supersedes_check (item cv ''supersedes'') = Inr sup"
    "in_strings (item cv ''sensitivity'') sensitivities = Inr True"
    and kr: "kind_rules P c = Inr ()"
    and c: "c = \<lparr>e_id = event_id, e_being_ref = mf_being_ref mf, e_manifest_hash = mf_digest mf,
                  e_origin = og, e_sequence = n, e_previous = prev,
                  e_occurred_at_ms = occ, e_parents = ps, e_kind = str_of (item cv ''kind''),
                  e_subject = subj, e_payload = pay, e_supersedes = sup,
                  e_sensitivity = str_of (item cv ''sensitivity'')\<rparr>"
    unfolding validate_core_def Let_def
    by (elim guardE, simp only: closed_we_Inr_iff uuid_we_Inr_iff uint_we_Inr_iff text_we_Inr_iff
          not_not sum.inject val.inject, elim conjE, hypsubst) (rule that; (assumption | simp))
  note prev = previous_check_Inr [OF 1(10)] and ps = parents_check_Inr [OF 1(12)]
    and pay = payload_dict_Inr [OF 1(15)] and sup = supersedes_check_Inr [OF 1(16)]
  from 1(13,17) obtain k sn where ks: "k \<in> set event_kinds" "item cv ''kind'' = VStr (str k)"
    "item cv ''sensitivity'' = VStr (str sn)" by (auto simp: in_strings_True)
  show "dkeys cv = key_set core_fields"
    "item cv ''protocol'' = VStr (str protocol)" "item cv ''event_id'' = VStr (e_id c)"
    "item cv ''being_ref'' = VStr (e_being_ref c)" "item cv ''manifest_hash'' = VStr (e_manifest_hash c)"
    "origin_check P (mf_root_bound mf) (item cv ''origin'') = Inr (e_origin c)"
    "item cv ''sequence'' = VInt (e_sequence c)" "item cv ''previous_event_id'' = opt_str (e_previous c)"
    "item cv ''occurred_at_ms'' = VInt (e_occurred_at_ms c)"
    "item cv ''causal_parents'' = VList (map VStr (e_parents c))" "item cv ''kind'' = VStr (e_kind c)"
    "item cv ''subject'' = VStr (e_subject c)" "item cv ''payload'' = VDict (e_payload c)"
    "item cv ''supersedes'' = opt_str (e_supersedes c)" "item cv ''sensitivity'' = VStr (e_sensitivity c)"
    "e_being_ref c = mf_being_ref mf" "e_manifest_hash c = mf_digest mf"
    "is_uuid (e_id c)" "1 \<le> e_sequence c" "e_previous c = None \<longleftrightarrow> e_sequence c = 1"
    "e_kind c \<in> str ` set event_kinds" "payload_dict P (VDict (e_payload c)) = Inr (e_payload c)"
    "kind_rules P c = Inr ()"
    using 1 prev ps pay sup ks kr by (simp_all add: c)
qed


lemma core_dict_listed: "map fst (core_dict c) = map (VStr \<circ> str) core_fields"
  by (simp add: core_dict_def core_fields_def)

lemma distinct_core_fields: "distinct core_fields"
  by (simp add: core_fields_def)

lemma core_refines:
  assumes "validate_core P cv mf = Inr c"
  shows "refines_val P (VDict cv) (VDict (core_dict c))"
  using origin_refines [OF validate_core_Inr(6) [OF assms]] validate_core_Inr [OF assms]
  by (intro refines_closed [where ks = core_fields]) (simp_all add: core_fields_def core_dict_def)

text \<open>A core extended by its hash and signature.\<close>

lemma extend_core [simp]:
  "core.truncate (core.extend c x) = c"
  "e_id (core.extend c x) = e_id c" "e_origin (core.extend c x) = e_origin c"
  "e_sequence (core.extend c x) = e_sequence c" "core_dict (core.extend c x) = core_dict c"
  "e_content_hash (core.extend c \<lparr>e_content_hash = h, e_kid = k, e_signature = sv\<rparr>) = h"
  "e_kid (core.extend c \<lparr>e_content_hash = h, e_kid = k, e_signature = sv\<rparr>) = k"
  "e_signature (core.extend c \<lparr>e_content_hash = h, e_kid = k, e_signature = sv\<rparr>) = sv"
  by (simp_all add: core.defs core_dict_def)

lemma core_dict_truncate [simp]: "core_dict (core.truncate e) = core_dict e"
  by (simp add: core.defs core_dict_def)

lemma truncate_sel [simp]:
  "e_id (core.truncate e) = e_id e" "e_being_ref (core.truncate e) = e_being_ref e"
  "e_manifest_hash (core.truncate e) = e_manifest_hash e" "e_origin (core.truncate e) = e_origin e"
  "e_sequence (core.truncate e) = e_sequence e" "e_previous (core.truncate e) = e_previous e"
  "e_occurred_at_ms (core.truncate e) = e_occurred_at_ms e" "e_parents (core.truncate e) = e_parents e"
  "e_kind (core.truncate e) = e_kind e" "e_subject (core.truncate e) = e_subject e"
  "e_payload (core.truncate e) = e_payload e" "e_supersedes (core.truncate e) = e_supersedes e"
  "e_sensitivity (core.truncate e) = e_sensitivity e"
  by (simp_all add: core.defs)

lemma event_fields_distinct: "distinct event_fields"
  by (simp add: event_fields_def core_fields_def)

text \<open>What \<open>verify_with\<close> has established when it returns.\<close>

lemma verify_with_Inr:
  assumes "verify_with P select v = Inr e"
  obtains d sel raw sig where
    "v = VDict d" "dkeys d = key_set event_fields" "select d = Inr sel"
    "canonical_bytes P v = Inr raw" "length raw \<le> max_event_bytes"
    "validate_core P (without [''content_hash'', ''signature''] d) (sel_manifest sel) = Inr (core.truncate e)"
    "item d ''content_hash'' = VStr (e_content_hash e)"
    "canonical_bytes P (VDict (core_dict e)) = Inr sig"
    "e_content_hash e = sha256_hex sig"
    "check_signature P (sel_public_key sel (core.truncate e) (e_kid e)) (VStr (e_signature e))
       (str event_domain @ [0] @ sha256 sig) = Inr ()"
    "refines_val P (item d ''signature'') (signature_dict (e_kid e) (e_signature e))"
    "text_we P 128 ''invalid_signature'' (VStr (e_kid e)) = Inr (e_kid e)"
proof -
  from assms obtain d sel raw c core_raw sg kid where
    d: "v = VDict d" "dkeys d = key_set event_fields" "select d = Inr sel"
    and raw: "canonical_bytes P v = Inr raw" "length raw \<le> max_event_bytes"
    and c: "validate_core P (without [''content_hash'', ''signature''] d) (sel_manifest sel) = Inr c"
    and core: "canonical_bytes P (VDict (without [''content_hash'', ''signature''] d)) = Inr core_raw"
    and h: "item d ''content_hash'' = VStr (sha256_hex core_raw)"
    and sg: "item d ''signature'' = VDict sg" "dkeys sg = key_set [''alg'', ''kid'', ''value'']"
      "item sg ''alg'' = VStr (str ''Ed25519'')"
    and kid: "text_we P 128 ''invalid_signature'' (item sg ''kid'') = Inr kid"
    and chk: "check_signature P (sel_public_key sel c kid) (item sg ''value'')
       (str event_domain @ [0] @ sha256 core_raw) = Inr ()"
    and e: "e = core.extend c \<lparr>e_content_hash = sha256_hex core_raw, e_kid = kid,
                      e_signature = str_of (item sg ''value'')\<rparr>"
    unfolding verify_with_def Let_def
    by (elim guardE, simp only: closed_we_Inr_iff canonical_we_Inr_iff not_not not_less sum.inject, elim conjE, hypsubst)
      (rule that; (assumption | simp))
  have trunc: "core.truncate e = c" by (simp add: e)
  have cd: "core_dict e = core_dict c" by (simp add: e)
  from chk have val: "item sg ''value'' = VStr (str_of (item sg ''value''))"
    by (auto simp: check_signature_def unb64url_def res)
  from kid have kv: "item sg ''kid'' = VStr kid" by (simp add: res)
  have core': "canonical_bytes P (VDict (core_dict c)) = Inr core_raw"
    by (rule refines_canonical [OF core_refines [OF c] core])
  have sr: "refines_val P (item d ''signature'') (signature_dict (e_kid e) (e_signature e))"
    unfolding sg(1) signature_dict_def e
    by (rule refines_closed [OF sg(2)]) (use sg(3) val kv in \<open>simp_all\<close>)
  show thesis
    by (rule that [OF d raw]) (use c trunc h core' chk sr kid kv val cd in \<open>simp_all add: e\<close>)
qed

lemma item_without_core:
  "k \<in> set core_fields \<Longrightarrow> item (without [''content_hash'', ''signature''] d) k = item d k"
  by (rule item_without) (auto simp: core_fields_def)

text \<open>The accepted value and the event it was read as have the same canonical bytes.\<close>

lemma verify_with_refines:
  assumes "verify_with P select v = Inr e"
  shows "refines_val P v (event_val e)"
proof -
  obtain d and sel :: selected where
    d: "v = VDict d" "dkeys d = key_set event_fields"
    and c: "validate_core P (without [''content_hash'', ''signature''] d) (sel_manifest sel) = Inr (core.truncate e)"
    and h: "item d ''content_hash'' = VStr (e_content_hash e)"
    and s: "refines_val P (item d ''signature'') (signature_dict (e_kid e) (e_signature e))"
    by (rule verify_with_Inr [OF assms]) (rule that; assumption)
  note fields = validate_core_Inr [OF c]
  have w: "item (without [''content_hash'', ''signature''] d) k = item d k" if "k \<in> set core_fields" for k
    using item_without_core [OF that] .
  have core: "list_all2 (\<lambda>k y. fst y = VStr (str k) \<and> refines_val P (item d k) (snd y)) core_fields (core_dict e)"
    using origin_refines [OF fields(6)] fields(2-5,7-15) w
    by (simp add: core_fields_def core_dict_def)
  show ?thesis unfolding d(1) event_val_def event_fields_def
    by (rule refines_closed [OF d(2) event_fields_distinct], unfold event_fields_def, rule list_all2_appendI [OF core])
       (use h s in simp)
qed


section \<open>Verifying an event again\<close>

lemma validate_core_cong:
  assumes "dkeys cv = key_set core_fields" and "dkeys cw = key_set core_fields"
    and "\<And>k. k \<in> set core_fields \<Longrightarrow> k \<noteq> ''origin'' \<Longrightarrow> item cw k = item cv k"
    and "origin_check P (mf_root_bound mf) (item cw ''origin'') = origin_check P (mf_root_bound mf) (item cv ''origin'')"
  shows "validate_core P cw mf = validate_core P cv mf"
proof -
  have eqs: "item cw ''protocol'' = item cv ''protocol''" "item cw ''event_id'' = item cv ''event_id''"
    "item cw ''being_ref'' = item cv ''being_ref''" "item cw ''manifest_hash'' = item cv ''manifest_hash''"
    "item cw ''sequence'' = item cv ''sequence''" "item cw ''previous_event_id'' = item cv ''previous_event_id''"
    "item cw ''occurred_at_ms'' = item cv ''occurred_at_ms''" "item cw ''causal_parents'' = item cv ''causal_parents''"
    "item cw ''kind'' = item cv ''kind''" "item cw ''subject'' = item cv ''subject''"
    "item cw ''payload'' = item cv ''payload''" "item cw ''supersedes'' = item cv ''supersedes''"
    "item cw ''sensitivity'' = item cv ''sensitivity''"
    by (rule assms(3); simp add: core_fields_def)+
  have "closed_we core_fields e (VDict cv) = Inr cv" "closed_we core_fields e (VDict cw) = Inr cw" for e
    by (simp_all add: closed_we_Inr_iff assms(1,2))
  then show ?thesis unfolding validate_core_def by (simp only: bindR_simps eqs assms(4))
qed

lemma dkeys_core_dict: "dkeys (core_dict c) = key_set core_fields"
  by (auto simp: core_dict_def core_fields_def key_set_def dkeys_def)

lemma item_core_dict:
  "item (core_dict c) ''protocol'' = VStr (str protocol)" "item (core_dict c) ''event_id'' = VStr (e_id c)"
  "item (core_dict c) ''being_ref'' = VStr (e_being_ref c)"
  "item (core_dict c) ''manifest_hash'' = VStr (e_manifest_hash c)"
  "item (core_dict c) ''origin'' = origin_val (e_origin c)" "item (core_dict c) ''sequence'' = VInt (e_sequence c)"
  "item (core_dict c) ''previous_event_id'' = opt_str (e_previous c)"
  "item (core_dict c) ''occurred_at_ms'' = VInt (e_occurred_at_ms c)"
  "item (core_dict c) ''causal_parents'' = VList (map VStr (e_parents c))"
  "item (core_dict c) ''kind'' = VStr (e_kind c)" "item (core_dict c) ''subject'' = VStr (e_subject c)"
  "item (core_dict c) ''payload'' = VDict (e_payload c)" "item (core_dict c) ''supersedes'' = opt_str (e_supersedes c)"
  "item (core_dict c) ''sensitivity'' = VStr (e_sensitivity c)"
  by (simp_all add: core_dict_def item_cons)

lemma origin_check_again:
  assumes "origin_check P rb v = Inr og"
  shows "origin_check P rb (origin_val og) = Inr og"
proof -
  from origin_check_Inr [OF assms] obtain d where d: "v = VDict d"
    "dkeys d = key_set [''embodiment_id'', ''incarnation_id'', ''principal_id'', ''body_ref'']"
    "item d ''embodiment_id'' = VStr (o_embodiment_id og)" "item d ''incarnation_id'' = VStr (o_incarnation_id og)"
    "item d ''principal_id'' = VStr (o_principal_id og)" "item d ''body_ref'' = VStr (o_body_ref og)" .
  have dk: "dkeys (origin_dict og) = key_set [''embodiment_id'', ''incarnation_id'', ''principal_id'', ''body_ref'']"
    by (auto simp: origin_dict_def key_set_def dkeys_def)
  have it: "item (origin_dict og) ''embodiment_id'' = item d ''embodiment_id''"
    "item (origin_dict og) ''incarnation_id'' = item d ''incarnation_id''"
    "item (origin_dict og) ''principal_id'' = item d ''principal_id''"
    "item (origin_dict og) ''body_ref'' = item d ''body_ref''"
    by (simp_all add: d(3-) origin_dict_def item_cons)
  have cl: "closed_we [''embodiment_id'', ''incarnation_id'', ''principal_id'', ''body_ref''] e (VDict d) = Inr d"
    "closed_we [''embodiment_id'', ''incarnation_id'', ''principal_id'', ''body_ref''] e (VDict (origin_dict og))
       = Inr (origin_dict og)" for e
    by (simp_all add: closed_we_Inr_iff d(2) dk)
  show ?thesis
    using assms unfolding origin_check_def origin_val_def d(1) Let_def by (simp only: cl bindR_simps it)
qed

lemma validate_core_again:
  assumes "validate_core P cv mf = Inr c"
  shows "validate_core P (core_dict c) mf = Inr c"
proof -
  note c = validate_core_Inr [OF assms]
  have "validate_core P (core_dict c) mf = validate_core P cv mf"
  proof (rule validate_core_cong [OF c(1) dkeys_core_dict])
    fix k assume "k \<in> set core_fields" "k \<noteq> ''origin''"
    then show "item (core_dict c) k = item cv k"
      unfolding core_fields_def list.set insert_iff empty_iff
      by (elim disjE; simp only: item_core_dict c(2-5,7-15) simp_thms)
  next
    show "origin_check P (mf_root_bound mf) (item (core_dict c) ''origin'') = origin_check P (mf_root_bound mf) (item cv ''origin'')"
      using origin_check_again [OF c(6)] c(6) by (simp add: item_core_dict)
  qed
  with assms show ?thesis by simp
qed

lemma extend_truncate:
  fixes e :: event
  shows "core.extend (core.truncate e) \<lparr>e_content_hash = e_content_hash e, e_kid = e_kid e, e_signature = e_signature e\<rparr> = e"
  by (cases e) (simp add: core.defs)

definition event_dict :: "event \<Rightarrow> dict" where
  "event_dict e = core_dict e @ [(VStr (str ''content_hash''), VStr (e_content_hash e)),
                                 (VStr (str ''signature''), signature_dict (e_kid e) (e_signature e))]"

lemma event_val_dict: "event_val e = VDict (event_dict e)"
  by (simp add: event_val_def event_dict_def)

lemma dkeys_event_dict: "dkeys (event_dict e) = key_set event_fields"
  by (auto simp: event_dict_def event_fields_def dkeys_append dkeys_core_dict dkeys_cons key_set_def)
     (simp add: dkeys_def)

lemma without_event_dict: "without [''content_hash'', ''signature''] (event_dict e) = core_dict e"
  by (simp add: event_dict_def core_dict_def without_def key_set_def)

lemma item_event_dict:
  "item (event_dict e) ''content_hash'' = VStr (e_content_hash e)"
  "item (event_dict e) ''signature'' = signature_dict (e_kid e) (e_signature e)"
  "dget (event_dict e) ''being_ref'' = Some (VStr (e_being_ref e))"
  "dget (event_dict e) ''manifest_hash'' = Some (VStr (e_manifest_hash e))"
  "dget (event_dict e) ''event_id'' = Some (VStr (e_id e))"
  by (simp_all add: event_dict_def core_dict_def item_cons dget_cons)

lemma dkeys_signature_dict:
  "signature_dict k s = VDict sg \<Longrightarrow> dkeys sg = key_set [''alg'', ''kid'', ''value'']"
  by (auto simp: signature_dict_def key_set_def dkeys_def)

lemma item_signature_dict:
  assumes "signature_dict k s = VDict sg"
  shows "item sg ''alg'' = VStr (str ''Ed25519'')" "item sg ''kid'' = VStr k" "item sg ''value'' = VStr s"
  using assms by (auto simp: signature_dict_def item_cons)

lemma verify_with_again:
  assumes "verify_with P select v = Inr e"
    and sel: "\<And>d. v = VDict d \<Longrightarrow> dkeys d = key_set event_fields
       \<Longrightarrow> item d ''being_ref'' = VStr (e_being_ref e) \<Longrightarrow> item d ''manifest_hash'' = VStr (e_manifest_hash e)
       \<Longrightarrow> item d ''event_id'' = VStr (e_id e) \<Longrightarrow> select (event_dict e) = select d"
  shows "verify_with P select (event_val e) = Inr e"
proof -
  obtain d raw sig and sl :: selected where
    d: "v = VDict d" "dkeys d = key_set event_fields" "select d = Inr sl"
    and raw: "canonical_bytes P v = Inr raw" "length raw \<le> max_event_bytes"
    and c: "validate_core P (without [''content_hash'', ''signature''] d) (sel_manifest sl) = Inr (core.truncate e)"
    and sig: "canonical_bytes P (VDict (core_dict e)) = Inr sig" "e_content_hash e = sha256_hex sig"
    and chk: "check_signature P (sel_public_key sl (core.truncate e) (e_kid e)) (VStr (e_signature e))
       (str event_domain @ [0] @ sha256 sig) = Inr ()"
    and kid: "text_we P 128 ''invalid_signature'' (VStr (e_kid e)) = Inr (e_kid e)"
    by (rule verify_with_Inr [OF assms(1)]) (rule that; assumption)
  note fs = validate_core_Inr [OF c]
  have sl: "select (event_dict e) = Inr sl"
    using sel [OF d(1,2)] fs(3-5) d(3) by (simp add: item_without_core core_fields_def)
  have raw': "canonical_bytes P (event_val e) = Inr raw"
    by (rule refines_canonical [OF verify_with_refines [OF assms(1)] raw(1)])
  have c': "validate_core P (core_dict e) (sel_manifest sl) = Inr (core.truncate e)"
    using validate_core_again [OF c] by simp
  obtain sg where sg: "signature_dict (e_kid e) (e_signature e) = VDict sg"
    by (auto simp: signature_dict_def)
  show ?thesis
    unfolding verify_with_def event_val_dict
    using raw(2) raw' [unfolded event_val_dict] c' sig chk kid sl extend_truncate [of e]
    by (simp add: closed_we_def closed_dict_def dkeys_event_dict canonical_we_def
        without_event_dict item_event_dict sg dkeys_signature_dict [OF sg] item_signature_dict [OF sg] Let_def)
qed

lemma dget_item: "dkeys d = key_set ks \<Longrightarrow> k \<in> set ks \<Longrightarrow> dget d k = Some (item d k)"
  by (rule closed_item)

lemma verify_event_again:
  assumes "verify_event P A v = Inr e"
  shows "verify_event P A (event_val e) = Inr e"
  unfolding verify_event_def
proof (rule verify_with_again [OF assms [unfolded verify_event_def]])
  fix d assume d: "v = VDict d" "dkeys d = key_set event_fields" "item d ''being_ref'' = VStr (e_being_ref e)"
    "item d ''manifest_hash'' = VStr (e_manifest_hash e)" "item d ''event_id'' = VStr (e_id e)"
  have "dget (event_dict e) ''being_ref'' = dget d ''being_ref''"
    "dget (event_dict e) ''manifest_hash'' = dget d ''manifest_hash''"
    "dget (event_dict e) ''event_id'' = dget d ''event_id''"
    using d(3-) by (simp_all add: item_event_dict dget_item [OF d(2)] event_fields_def core_fields_def)
  then show "select_authority P A (event_dict e) = select_authority P A d"
    by (cases A; simp only: select_authority.simps provisional_select_def root_select_def inventory_select_def
        bound_select_def)
qed

lemma verify_event_canonical:
  assumes "verify_event P A v = Inr e"
  shows "\<exists>b. canonical_bytes P v = Inr b \<and> canonical_bytes P (event_val e) = Inr b"
proof -
  obtain raw where "canonical_bytes P v = Inr raw"
    by (rule verify_with_Inr [OF assms [unfolded verify_event_def]]) (rule that)
  with refines_canonical [OF verify_with_refines [OF assms [unfolded verify_event_def]]] show ?thesis by blast
qed

section \<open>Created events\<close>

lemma opt_str_eq_iff [simp]: "opt_str a = opt_str b \<longleftrightarrow> a = b"
  by (auto simp: opt_str_def split: option.splits)

lemma create_event_Inr:
  assumes "create_event P A og sg dr = Inr e"
  shows "verify_event P A (event_val e) = Inr e" "e_id e = d_event_id dr" "e_sequence e = d_sequence dr"
    "e_previous e = d_previous dr" "e_parents e = sorted_list_of_set (set (d_parents dr))"
    "e_kind e = d_kind dr" "e_subject e = d_subject dr" "e_payload e = d_payload dr"
    "e_supersedes e = d_supersedes dr" "e_sensitivity e = d_sensitivity dr"
    "e_occurred_at_ms e = d_occurred_at_ms dr" "\<exists>rb. origin_check P rb (VDict og) = Inr (e_origin e)"
proof -
  from assms obtain raw sig where
    v: "verify_event P A (VDict (draft_dict A og dr @ [(VStr (str ''content_hash''), VStr (sha256_hex raw)),
                                    (VStr (str ''signature''), sig)])) = Inr e"
    unfolding create_event_def Let_def by (elim guardE) (rule that)
  show "verify_event P A (event_val e) = Inr e" by (rule verify_event_again [OF v])
  have w: "without [''content_hash'', ''signature''] (draft_dict A og dr @ [(VStr (str ''content_hash''), VStr (sha256_hex raw)),
                                    (VStr (str ''signature''), sig)]) = draft_dict A og dr"
    by (simp add: draft_dict_def without_def key_set_def)
  obtain sl :: selected where
    t: "validate_core P (draft_dict A og dr) (sel_manifest sl) = Inr (core.truncate e)"
    by (rule verify_with_Inr [OF v [unfolded verify_event_def]]) (use w that in \<open>simp only: val.inject\<close>)
  note fs = validate_core_Inr [OF t]
  have it: "item (draft_dict A og dr) ''event_id'' = VStr (d_event_id dr)"
    "item (draft_dict A og dr) ''sequence'' = VInt (d_sequence dr)"
    "item (draft_dict A og dr) ''previous_event_id'' = opt_str (d_previous dr)"
    "item (draft_dict A og dr) ''occurred_at_ms'' = VInt (d_occurred_at_ms dr)"
    "item (draft_dict A og dr) ''causal_parents'' = VList (map VStr (sorted_list_of_set (set (d_parents dr))))"
    "item (draft_dict A og dr) ''kind'' = VStr (d_kind dr)" "item (draft_dict A og dr) ''subject'' = VStr (d_subject dr)"
    "item (draft_dict A og dr) ''payload'' = VDict (d_payload dr)"
    "item (draft_dict A og dr) ''supersedes'' = opt_str (d_supersedes dr)"
    "item (draft_dict A og dr) ''sensitivity'' = VStr (d_sensitivity dr)"
    "item (draft_dict A og dr) ''origin'' = VDict og"
    by (simp_all add: draft_dict_def item_cons)
  show "e_id e = d_event_id dr" "e_sequence e = d_sequence dr"
    "e_previous e = d_previous dr" "e_parents e = sorted_list_of_set (set (d_parents dr))"
    "e_kind e = d_kind dr" "e_subject e = d_subject dr" "e_payload e = d_payload dr"
    "e_supersedes e = d_supersedes dr" "e_sensitivity e = d_sensitivity dr"
    "e_occurred_at_ms e = d_occurred_at_ms dr" "\<exists>rb. origin_check P rb (VDict og) = Inr (e_origin e)"
    using fs(3,6-15) by (auto simp: it inj_map_eq_map inj_on_def)
qed

text \<open>The origin an event was created for is the origin it carries.\<close>

lemma origin_check_origin_val: "origin_check P rb (origin_val og) = Inr og' \<Longrightarrow> og' = og"
  by (erule origin_check_Inr) (simp add: origin_val_def origin_dict_def item_cons)

lemma create_event_origin:
  "create_event P A (origin_dict og) sg dr = Inr e \<Longrightarrow> e_origin e = og"
  using create_event_Inr(12) origin_check_origin_val unfolding origin_val_def by blast

section \<open>Payloads\<close>

text \<open>What an accepted payload cannot contain, and how large it can be.\<close>

fun payload_nodes :: "val \<Rightarrow> nat" where
  "payload_nodes (VList vs) = Suc (sum_list (map payload_nodes vs))"
| "payload_nodes (VDict d) = Suc (sum_list (map (\<lambda>(k, v). payload_nodes v) d))"
| "payload_nodes _ = 1"

fun payload_depth :: "val \<Rightarrow> nat" where
  "payload_depth (VList vs) = Suc (foldr max (map payload_depth vs) 0)"
| "payload_depth (VDict d) = Suc (foldr max (map (\<lambda>(k, v). payload_depth v) d) 0)"
| "payload_depth _ = 0"

fun payload_clean :: "val \<Rightarrow> bool" where
  "payload_clean (VStr s) = (\<not> has_private_key s)"
| "payload_clean (VList vs) = list_all payload_clean vs"
| "payload_clean (VDict d) =
     list_all (\<lambda>(k, v). is_str k \<and> (secret_name (str_of k) \<longrightarrow> endswith (str_of k) (str ''_ref'')) \<and> payload_clean v) d"
| "payload_clean VNone = True"
| "payload_clean (VBool b) = True"
| "payload_clean (VInt i) = True"
| "payload_clean _ = False"

lemma payload_check_sound:
  "payload_check P depth v n = Inr m \<Longrightarrow>
     m = n + payload_nodes v \<and> m \<le> max_payload_nodes \<and> depth + payload_depth v \<le> Suc max_payload_depth \<and> payload_clean v"
  "payload_list P depth vs n = Inr m \<Longrightarrow>
     m = n + sum_list (map payload_nodes vs) \<and> (vs \<noteq> [] \<longrightarrow> m \<le> max_payload_nodes)
     \<and> (vs \<noteq> [] \<longrightarrow> depth + foldr max (map payload_depth vs) 0 \<le> Suc max_payload_depth) \<and> list_all payload_clean vs"
  "payload_items P depth d n = Inr m \<Longrightarrow>
     m = n + sum_list (map (\<lambda>(k, v). payload_nodes v) d) \<and> (d \<noteq> [] \<longrightarrow> m \<le> max_payload_nodes)
     \<and> (d \<noteq> [] \<longrightarrow> depth + foldr max (map (\<lambda>(k, v). payload_depth v) d) 0 \<le> Suc max_payload_depth)
     \<and> payload_clean (VDict d)"
proof (induction P depth v n and P depth vs n and P depth d n arbitrary: m and m and m
    rule: payload_check_payload_list_payload_items.induct)
  case (1 P depth v counter)
  show ?case
  proof (cases v)
    case (VList vs)
    with "1.prems" have "payload_list P (Suc depth) vs (Suc counter) = Inr m" "\<not> depth > max_payload_depth"
       "\<not> Suc counter > max_payload_nodes"
      by (auto split: if_splits)
    with "1.IH"(1) VList show ?thesis by (cases "vs = []") auto
  next
    case (VDict d)
    with "1.prems" have "payload_items P (Suc depth) d (Suc counter) = Inr m" "\<not> depth > max_payload_depth"
       "\<not> Suc counter > max_payload_nodes"
      by (auto simp: res split: if_splits)
    with "1.IH"(2) VDict show ?thesis by (cases "d = []") auto
  qed (use "1.prems" in \<open>auto simp: res split: if_splits\<close>)
next
  case (2 P depth counter)
  then show ?case by simp
next
  case (3 P depth v vs counter)
  from "3.prems" obtain x where x: "payload_check P depth v counter = Inr x" "payload_list P depth vs x = Inr m"
    by (auto simp only: payload_check.simps payload_list.simps payload_items.simps bindR_Inr_iff)
  from "3.IH"(1) [OF x(1)] "3.IH"(2) [OF x] show ?case by (cases "vs = []") (auto simp: x(2) simp del: payload_check.simps)
next
  case (4 P depth counter)
  then show ?case by simp
next
  case (5 P depth k v d counter)
  from "5.prems" obtain x where x: "payload_check P depth v counter = Inr x" "payload_items P depth d x = Inr m"
    and k: "is_str k" "\<not> (secret_name (str_of k) \<and> \<not> endswith (str_of k) (str ''_ref''))"
    by (auto simp only: payload_check.simps payload_list.simps payload_items.simps bindR_Inr_iff if_Inl_Inr_iff not_not)
  from "5.IH"(1) [OF _ k(2) x(1)] "5.IH"(2) [OF _ k(2) x] k show ?case
    by (cases "d = []") (auto simp: x(2) simp del: payload_check.simps)
qed

end
