(* ===== verification/Demo_Events.thy ===== *)
theory Demo_Events
  imports Demo_Identity Weave_Laws
begin

text \<open>
  A being with a provisional manifest of one embodiment on the concrete platform, the events it
  creates, and a root-bound manifest whose member rests on the credential and the incarnation of
  \<open>Demo_Identity\<close>.
\<close>

section \<open>A provisional authority\<close>

definition demo_uuid :: "nat \<Rightarrow> pystr" where
  "demo_uuid n = str ''00000000-0000-4000-8000-00000000000'' @ [48 + n]"

lemma demo_uuid: "n < 10 \<Longrightarrow> is_uuid (demo_uuid n)" "n < 10 \<Longrightarrow> isascii (demo_uuid n)"
  "demo_uuid m = demo_uuid n \<longleftrightarrow> m = n" "length (demo_uuid n) = 36"
proof -
  show "n < 10 \<Longrightarrow> isascii (demo_uuid n)" by (simp add: demo_uuid_def isascii_str)
  show "demo_uuid m = demo_uuid n \<longleftrightarrow> m = n" "length (demo_uuid n) = 36" by (simp_all add: demo_uuid_def)
  assume "n < 10"
  then have "n = 0 \<or> n = 1 \<or> n = 2 \<or> n = 3 \<or> n = 4 \<or> n = 5 \<or> n = 6 \<or> n = 7 \<or> n = 8 \<or> n = 9" by presburger
  then show "is_uuid (demo_uuid n)"
    by (elim disjE) (simp_all add: demo_uuid_def is_uuid_def str_def hex_digits_def)
qed

definition demo_origin :: origin where
  "demo_origin = \<lparr>o_embodiment_id = str ''embodiment:'' @ demo_uuid 1, o_incarnation_id = str ''incarnation:'' @ demo_uuid 2,
     o_principal_id = str ''principal'', o_body_ref = str ''body''\<rparr>"

definition demo_manifest_dict :: dict where
  "demo_manifest_dict = [(VStr (str ''schema''), VStr (str ''being-manifest/v1'')),
     (VStr (str ''being_ref''), VStr (str ''being:'' @ demo_uuid 3)), (VStr (str ''revision''), VInt 1),
     (VStr (str ''embodiments''), VList [VDict
        [(VStr (str ''embodiment_id''), VStr (str ''embodiment:'' @ demo_uuid 1)),
         (VStr (str ''principal_id''), VStr (str ''principal'')), (VStr (str ''body_ref''), VStr (str ''body'')),
         (VStr (str ''status''), VStr (str ''active''))]])]"

definition demo_member :: member where
  "demo_member = \<lparr>m_embodiment_id = str ''embodiment:'' @ demo_uuid 1, m_body_ref = str ''body'',
     m_status = str ''active'', m_principal_id = Some (str ''principal''), m_incarnation_id = None,
     m_credential_id = None, m_authorization_id = None\<rparr>"

definition demo_manifest :: manifest where
  "demo_manifest = \<lparr>mf_value = demo_manifest_dict,
     mf_digest = sha256_hex (projr (canonical_bytes demo (VDict demo_manifest_dict))), mf_root_bound = False,
     mf_being_ref = str ''being:'' @ demo_uuid 3, mf_revision = 1, mf_control_head = None, mf_binding_id = None,
     mf_members = [demo_member]\<rparr>"

lemma demo_manifest_sel [simp]:
  "mf_root_bound demo_manifest = False" "mf_being_ref demo_manifest = str ''being:'' @ demo_uuid 3"
  "mf_members demo_manifest = [demo_member]" "mf_revision demo_manifest = 1"
  by (simp_all add: demo_manifest_def)

lemma demo_manifest_plain: "plain (VDict demo_manifest_dict)"
  using demo_uuid(2) [of 1] demo_uuid(2) [of 3] by (simp add: demo_manifest_dict_def isascii_str)

lemma isascii_hex64: "is_hex64 s \<Longrightarrow> isascii s"
  by (auto simp: is_hex64_def isascii_def list_all_iff hex_digits_def str_def)

lemma demo_digest: "is_hex64 (mf_digest demo_manifest)" "isascii (mf_digest demo_manifest)"
  by (simp_all add: demo_manifest_def is_hex64_sha256_hex isascii_hex64)

text \<open>A text of the demo passes \<open>text_we\<close>.\<close>

lemma demo_text_we: "isascii s \<Longrightarrow> s \<noteq> [] \<Longrightarrow> length s \<le> n \<Longrightarrow> text_we demo n e (VStr s) = Inr s"
proof -
  assume s: "isascii s" "s \<noteq> []" "length s \<le> n"
  have "\<not> list_ex is_surrogate s" using s(1) by (auto simp: isascii_def list_all_iff list_ex_iff is_surrogate_def)
  moreover have "\<exists>b. canonical_bytes demo (VStr s) = Inr b" using plain_canonical [of "VStr s" demo] s(1) by auto
  ultimately show ?thesis using s by (simp add: text_we_Inr_iff encode_utf8_def length_utf8_ascii)
qed

lemma legacy_ref_uuid: "n < 10 \<Longrightarrow> legacy_ref p (VStr (str (p @ '':'') @ demo_uuid n)) = Inr (str (p @ '':'') @ demo_uuid n)"
  using demo_uuid(1) [of n]
  by (simp add: legacy_ref_def Let_def startswith_def uuid_we_Inr_iff length_str bindR_Inr_iff)

lemma closed_we_dict: "dkeys d = key_set ks \<Longrightarrow> closed_we ks e (VDict d) = Inr d"
  by (simp add: closed_we_Inr_iff)

lemma demo_manifest_from_value: "manifest_from_value demo (VDict demo_manifest_dict) = Inr demo_manifest"
proof -
  obtain raw where raw: "canonical_bytes demo (VDict demo_manifest_dict) = Inr raw"
    using plain_canonical [OF demo_manifest_plain] by blast
  have fields: "closed_we [''schema'', ''being_ref'', ''revision'', ''embodiments''] ''invalid_manifest_fields''
      (VDict demo_manifest_dict) = Inr demo_manifest_dict"
    by (rule closed_we_dict) (auto simp: demo_manifest_dict_def dkeys_def key_set_def)
  have row: "closed_we [''embodiment_id'', ''principal_id'', ''body_ref'', ''status''] e
      (VDict [(VStr (str ''embodiment_id''), VStr (str ''embodiment:'' @ demo_uuid 1)),
         (VStr (str ''principal_id''), VStr (str ''principal'')), (VStr (str ''body_ref''), VStr (str ''body'')),
         (VStr (str ''status''), VStr (str ''active''))])
    = Inr [(VStr (str ''embodiment_id''), VStr (str ''embodiment:'' @ demo_uuid 1)),
         (VStr (str ''principal_id''), VStr (str ''principal'')), (VStr (str ''body_ref''), VStr (str ''body'')),
         (VStr (str ''status''), VStr (str ''active''))]" for e
    by (rule closed_we_dict) (auto simp: dkeys_def key_set_def)
  let ?row = "VDict [(VStr (str ''embodiment_id''), VStr (str ''embodiment:'' @ demo_uuid 1)),
         (VStr (str ''principal_id''), VStr (str ''principal'')), (VStr (str ''body_ref''), VStr (str ''body'')),
         (VStr (str ''status''), VStr (str ''active''))]"
  have items: "dget demo_manifest_dict ''schema'' = Some (VStr (str ''being-manifest/v1''))"
    "item demo_manifest_dict ''being_ref'' = VStr (str ''being:'' @ demo_uuid 3)"
    "item demo_manifest_dict ''revision'' = VInt 1" "item demo_manifest_dict ''embodiments'' = VList [?row]"
    by (simp_all add: demo_manifest_dict_def dict_simps)
  have rows: "provisional_rows demo [?row] [] = Inr [demo_member]"
    using legacy_ref_uuid [of 1 "''embodiment''"]
    by (simp add: row dict_simps demo_text_we isascii_str in_strings_def demo_member_def Let_def del: One_nat_def)
  have "provisional_manifest demo (VDict demo_manifest_dict) = Inr (str ''being:'' @ demo_uuid 3, 1, [demo_member])"
    using legacy_ref_uuid [of 3 "''being''"]
    by (simp add: provisional_manifest_def fields items rows uint_we_def uint_check_def max_uint_def del: provisional_rows.simps One_nat_def)
  then show ?thesis
    by (simp add: manifest_from_value_def items canonical_we_def raw demo_manifest_def del: One_nat_def)
qed

definition demo_pa :: provisional_authority where
  "demo_pa = \<lparr>pa_manifest = demo_manifest, pa_public_keys = [(str ''key-1'', b64url (demo_seed 7))]\<rparr>"

definition demo_authority :: authority where "demo_authority = Provisional demo_pa"

lemma demo_authority_sel [simp]:
  "authority_manifest demo_authority = demo_manifest"
  "select_authority P demo_authority d = Inr \<lparr>sel_manifest = demo_manifest, sel_public_key = provisional_public_key demo_pa\<rparr>"
  by (simp_all add: demo_authority_def demo_pa_def provisional_select_def)

definition demo_signer :: signer where
  "demo_signer = \<lparr>sg_key_id = str ''key-1'', sg_seed = demo_seed 7\<rparr>"

section \<open>Events\<close>

definition demo_payload :: dict where
  "demo_payload = [(VStr (str ''note''), VStr (str ''hello''))]"

definition demo_draft :: "nat \<Rightarrow> int \<Rightarrow> pystr option \<Rightarrow> pystr list \<Rightarrow> draft" where
  "demo_draft n q prev ps = \<lparr>d_event_id = demo_uuid n, d_sequence = q, d_previous = prev, d_occurred_at_ms = 5000,
     d_parents = ps, d_kind = str ''experience.observed'', d_subject = str ''subject'', d_payload = demo_payload,
     d_supersedes = None, d_sensitivity = str ''private''\<rparr>"

definition demo_event_core :: "nat \<Rightarrow> int \<Rightarrow> pystr option \<Rightarrow> pystr list \<Rightarrow> core" where
  "demo_event_core n q prev ps = \<lparr>e_id = demo_uuid n, e_being_ref = str ''being:'' @ demo_uuid 3,
     e_manifest_hash = mf_digest demo_manifest, e_origin = demo_origin, e_sequence = q, e_previous = prev,
     e_occurred_at_ms = 5000, e_parents = ps, e_kind = str ''experience.observed'', e_subject = str ''subject'',
     e_payload = demo_payload, e_supersedes = None, e_sensitivity = str ''private''\<rparr>"

lemma draft_is_core:
  "sorted_wrt (<) ps \<Longrightarrow>
   draft_dict demo_authority (origin_dict demo_origin) (demo_draft n q prev ps) = core_dict (demo_event_core n q prev ps)"
  by (simp add: draft_dict_def core_dict_def demo_draft_def demo_event_core_def origin_val_def
      sorted_list_of_set.idem_if_sorted_distinct strict_sorted_iff opt_str_def)

definition demo_links :: "int \<Rightarrow> pystr option \<Rightarrow> pystr list \<Rightarrow> bool" where
  "demo_links q prev ps \<longleftrightarrow> 1 \<le> q \<and> q \<le> 100 \<and> (prev = None \<longleftrightarrow> q = 1) \<and> (\<forall>p. prev = Some p \<longrightarrow> is_uuid p \<and> isascii p \<and> length p = 36)
     \<and> sorted_wrt (<) ps \<and> length ps \<le> 10 \<and> list_all (\<lambda>p. is_uuid p \<and> isascii p \<and> length p = 36) ps"

lemma demo_core_plain':
  assumes "n < 10" and "demo_links q prev ps"
  shows "plain (VDict (core_dict (demo_event_core n q prev ps)))"
  using assms demo_uuid(2) [of n] demo_uuid(2) [of 1] demo_uuid(2) [of 2] demo_uuid(2) [of 3] demo_digest
  by (auto simp: core_dict_def demo_event_core_def isascii_str demo_links_def origin_val_def origin_dict_def demo_origin_def
      demo_payload_def opt_str_def protocol_def list_all_iff split: option.splits)

lemma demo_payload_ok: "payload_dict demo (VDict demo_payload) = Inr demo_payload"
proof -
  have "\<exists>b. canonical_bytes demo (VDict demo_payload) = Inr b" "\<exists>b. canonical_bytes demo (VStr (str ''hello'')) = Inr b"
    by (rule plain_canonical [THEN exE]; (auto simp: demo_payload_def isascii_str)?)+
  then obtain a b where "canonical_we demo (VDict demo_payload) = Inr a" "canonical_we demo (VStr (str ''hello'')) = Inr b"
    by (auto simp: canonical_we_def)
  then show ?thesis
    by (simp add: payload_dict_def demo_payload_def max_payload_nodes_def max_payload_depth_def secret_name_def
        encode_utf8_def max_text_bytes_def has_private_key_def str_def startswith_def fold_char_def is_surrogate_def
        utf8_bytes_def utf8_char_def)
qed

text \<open>What a core of this embodiment has to be to validate.\<close>

definition demo_core :: "core \<Rightarrow> bool" where
  "demo_core c \<longleftrightarrow> is_uuid (e_id c) \<and> e_being_ref c = mf_being_ref demo_manifest \<and> e_manifest_hash c = mf_digest demo_manifest
     \<and> e_origin c = demo_origin \<and> demo_links (e_sequence c) (e_previous c) (e_parents c) \<and> e_occurred_at_ms c = 5000
     \<and> (\<exists>k \<in> set event_kinds. e_kind c = str k) \<and> isascii (e_subject c) \<and> e_subject c \<noteq> [] \<and> length (e_subject c) \<le> 256
     \<and> payload_dict demo (VDict (e_payload c)) = Inr (e_payload c) \<and> e_supersedes c = None
     \<and> (\<exists>k \<in> set sensitivities. e_sensitivity c = str k) \<and> kind_rules demo c = Inr ()"

lemma demo_core_validates:
  assumes "demo_core c"
  shows "validate_core demo (core_dict c) demo_manifest = Inr c"
proof -
  note c = assms [unfolded demo_core_def]
  have closed: "closed_we core_fields ''invalid_event_fields'' (VDict (core_dict c)) = Inr (core_dict c)"
    by (rule closed_we_dict) (rule dkeys_core_dict)
  have origin: "origin_check demo False (origin_val demo_origin) = Inr demo_origin"
  proof -
    have "closed_we [''embodiment_id'', ''incarnation_id'', ''principal_id'', ''body_ref''] ''invalid_origin''
        (VDict (origin_dict demo_origin)) = Inr (origin_dict demo_origin)"
      by (rule closed_we_dict) (auto simp: origin_dict_def dkeys_def key_set_def)
    then show ?thesis
      using legacy_ref_uuid [of 1 "''embodiment''"] legacy_ref_uuid [of 2 "''incarnation''"] demo_uuid(2) [of 1] demo_uuid(2) [of 2]
      by (simp add: origin_check_def Let_def origin_val_def)
        (simp add: origin_dict_def demo_origin_def dict_simps demo_text_we isascii_str demo_uuid(4))
  qed
  have previous: "previous_check (e_sequence c) (opt_str (e_previous c)) = Inr (e_previous c)"
    using c by (cases "e_previous c") (auto simp: previous_check_def opt_str_def demo_links_def uuid_we_Inr_iff bindR_Inr_iff)
  have parents: "parents_check (VList (map VStr (e_parents c))) = Inr (e_parents c)"
  proof -
    have "mapR (uuid_we ''invalid_causal_parent'') (map VStr (e_parents c)) = Inr (e_parents c)"
      using c by (simp add: mapR_Inr_iff list_all2_conv_all_nth uuid_we_Inr_iff demo_links_def list_all_length)
    then show ?thesis using c
      by (simp add: parents_check_def demo_links_def is_sorted_set_strings max_causal_parents_def)
  qed
  have known: "in_strings (VStr (e_kind c)) event_kinds = Inr True" "in_strings (VStr (e_sensitivity c)) sensitivities = Inr True"
    using c by (auto simp: in_strings_True)
  have subject: "text_we demo 256 ''invalid_subject'' (VStr (e_subject c)) = Inr (e_subject c)"
    by (rule demo_text_we) (use c in simp_all)
  have numbers: "uint_we ''invalid_sequence'' 1 (VInt (e_sequence c)) = Inr (e_sequence c)"
    "uint_we ''invalid_occurred_at'' 0 (VInt 5000) = Inr 5000"
    using c by (simp_all add: uint_we_Inr_iff demo_links_def max_uint_def)
  have eta: "\<lparr>e_id = e_id c, e_being_ref = mf_being_ref demo_manifest, e_manifest_hash = mf_digest demo_manifest,
      e_origin = demo_origin, e_sequence = e_sequence c, e_previous = e_previous c, e_occurred_at_ms = 5000,
      e_parents = e_parents c, e_kind = e_kind c, e_subject = e_subject c, e_payload = e_payload c, e_supersedes = None,
      e_sensitivity = e_sensitivity c\<rparr> = c" using c by (cases c) simp
  have uuid: "uuid_we ''invalid_event_id'' (VStr (e_id c)) = Inr (e_id c)"
    "supersedes_check (opt_str None) = Inr None"
    using c by (simp_all add: uuid_we_Inr_iff supersedes_check_def opt_str_def)
  show ?thesis
    unfolding validate_core_def closed bindR_simps item_core_dict uuid
    using c by (simp add: origin numbers previous parents known subject eta uuid Let_def del: demo_manifest_sel(2))
qed

lemma demo_event_core_ok:
  assumes "n < 10" and "demo_links q prev ps"
  shows "demo_core (demo_event_core n q prev ps)"
proof -
  have rules: "kind_rules demo (demo_event_core n q prev ps) = Inr ()"
    by (simp add: kind_rules_def demo_event_core_def Let_def startswith_def str_def source_event_kinds_def
        relationship_event_kinds_def)
  with assms demo_uuid(1) [OF assms(1)] demo_payload_ok show ?thesis
    by (simp add: demo_core_def) (simp add: demo_event_core_def event_kinds_def sensitivities_def isascii_str)
qed

lemma demo_validate_core:
  assumes "n < 10" and "demo_links q prev ps"
  shows "validate_core demo (core_dict (demo_event_core n q prev ps)) demo_manifest = Inr (demo_event_core n q prev ps)"
  by (rule demo_core_validates [OF demo_event_core_ok [OF assms]])

text \<open>The event that carries a core, signed by the demo key.\<close>

abbreviation demo_signature :: val where
  "demo_signature \<equiv> signature_dict (str ''key-1'') (b64url (demo_seed 7 @ demo_seed 7))"

definition signed_core :: "core \<Rightarrow> event" where
  "signed_core c =
     core.extend c \<lparr>e_content_hash = sha256_hex (projr (canonical_bytes demo (VDict (core_dict c)))),
        e_kid = str ''key-1'', e_signature = b64url (demo_seed 7 @ demo_seed 7)\<rparr>"

lemma signed_core_sel [simp]:
  "e_id (signed_core c) = e_id c" "e_origin (signed_core c) = e_origin c" "e_sequence (signed_core c) = e_sequence c"
  "e_previous (signed_core c) = e_previous c" "e_parents (signed_core c) = e_parents c" "e_kind (signed_core c) = e_kind c"
  "e_supersedes (signed_core c) = e_supersedes c" "e_payload (signed_core c) = e_payload c"
  by (simp_all add: signed_core_def core.extend_def)

definition demo_event :: "nat \<Rightarrow> int \<Rightarrow> pystr option \<Rightarrow> pystr list \<Rightarrow> event" where
  "demo_event n q prev ps = signed_core (demo_event_core n q prev ps)"

lemma sum_list_map_const: "(\<And>x. x \<in> set xs \<Longrightarrow> f x = c) \<Longrightarrow> sum_list (map f xs) = length xs * (c :: nat)"
  by (induction xs) auto

lemma demo_parents_cost:
  assumes "demo_links q prev ps" shows "cost (VList (map VStr ps)) \<le> 2500"
proof -
  have "sum_list (map (\<lambda>v. cost v + 1) (map VStr ps)) = length (map VStr ps) * 219"
    using assms by (intro sum_list_map_const) (auto simp: demo_links_def list_all_iff)
  then show ?thesis using assms by (simp add: demo_links_def)
qed

lemma length_digest: "length (mf_digest demo_manifest) = 64" "is_hex64 s \<Longrightarrow> length s = 64"
proof -
  show "is_hex64 s \<Longrightarrow> length s = 64" for s by (simp add: is_hex64_def)
  then show "length (mf_digest demo_manifest) = 64" using demo_digest(1) .
qed

lemma length_b64url_64: "length (b64url (demo_seed 7 @ demo_seed 7)) = 86"
proof -
  have "demo_seed 7 @ demo_seed 7 = [7,7,7,7,7,7,7,7,7,7,7,7,7,7,7,7,7,7,7,7,7,7,7,7,7,7,7,7,7,7,7,7,
      7,7,7,7,7,7,7,7,7,7,7,7,7,7,7,7,7,7,7,7,7,7,7,7,7,7,7,7,7,7,7,7]"
    by (simp add: demo_seed_def eval_nat_numeral)
  then show ?thesis by simp
qed

lemma demo_event_cost:
  assumes "demo_links q prev ps"
  shows "cost (VDict (core_dict (demo_event_core n q prev ps))) \<le> 18000"
proof -
  have prev: "cost (opt_str prev) \<le> 300" using assms by (cases prev) (auto simp: opt_str_def demo_links_def)
  then show ?thesis using demo_parents_cost [OF assms]
    by (simp add: core_dict_def demo_event_core_def origin_val_def origin_dict_def
        demo_origin_def demo_payload_def protocol_def demo_uuid(4) length_digest(1) opt_str_def)
qed

lemma demo_public_key:
  assumes "e_origin c = demo_origin"
  shows "provisional_public_key demo_pa c (str ''key-1'') = Inr (demo_seed 7)"
proof -
  have "unb64url (VStr (b64url (demo_seed 7))) (Some 32) = Inr (demo_seed 7)"
    using demo_seed_ok(2,3) [of 7] by (simp add: unb64url_b64url)
  then show ?thesis
    by (simp add: provisional_public_key_def provisional_validate_origin_def assms manifest_member_def demo_pa_def
        demo_member_def demo_origin_def)
qed

lemma signed_core_val:
  "event_val (signed_core c) = VDict (core_dict c @ [(VStr (str ''content_hash''), VStr (e_content_hash (signed_core c))),
       (VStr (str ''signature''), demo_signature)])"
  by (simp add: event_val_def signed_core_def)

lemma signed_core_hash: "is_hex64 (e_content_hash (signed_core c))"
  by (simp add: signed_core_def core.extend_def)

lemma signed_core_plain:
  assumes "plain (VDict (core_dict c))"
  shows "plain (event_val (signed_core c)) \<and> cost (event_val (signed_core c)) \<le> cost (VDict (core_dict c)) + 2000"
proof -
  have bytes: "is_bytes (demo_seed 7 @ demo_seed 7)" using demo_seed_ok(2) [of 7] by (simp add: is_bytes_def)
  have "plain (VDict (core_dict c @ [(VStr (str ''content_hash''), VStr h), (VStr (str ''signature''), demo_signature)]))"
    if "is_hex64 h" for h
    using assms isascii_hex64 [OF that] isascii_b64url [OF bytes]
    by (auto simp: signature_dict_def isascii_str core_dict_def)
  moreover have "cost (VDict (core_dict c @ [(VStr (str ''content_hash''), VStr h), (VStr (str ''signature''), demo_signature)]))
      \<le> cost (VDict (core_dict c)) + 2000" if "is_hex64 h" for h
    using length_digest(2) [OF that] by (simp add: signature_dict_def length_b64url_64 del: b64url.simps)
  ultimately show ?thesis using signed_core_hash unfolding signed_core_val by blast
qed

lemma signed_core_verifies:
  assumes "validate_core demo (core_dict c) demo_manifest = Inr c" and "e_origin c = demo_origin"
    and "plain (VDict (core_dict c))" and "cost (VDict (core_dict c)) \<le> 200000"
  shows "verify_event demo demo_authority (event_val (signed_core c)) = Inr (signed_core c)"
proof -
  let ?e = "signed_core c"
  obtain core_raw where core_raw: "canonical_bytes demo (VDict (core_dict c)) = Inr core_raw"
    using plain_canonical [OF assms(3)] by blast
  have hash: "e_content_hash ?e = sha256_hex core_raw" by (simp add: signed_core_def core.extend_def core_raw)
  from plain_canonical [of "event_val ?e" demo] signed_core_plain [OF assms(3)] assms(4) obtain raw
    where raw: "canonical_bytes demo (event_val ?e) = Inr raw" "length raw \<le> max_event_bytes"
    by (auto simp: max_event_bytes_def)
  let ?d = "core_dict c @ [(VStr (str ''content_hash''), VStr (sha256_hex core_raw)), (VStr (str ''signature''), demo_signature)]"
  have val: "event_val ?e = VDict ?d" by (simp add: signed_core_val hash)
  have d: "?d = event_dict ?e" using val by (simp add: event_val_dict)
  have closed: "closed_we event_fields ''invalid_event_fields'' (VDict ?d) = Inr ?d"
    unfolding d by (rule closed_we_dict) (rule dkeys_event_dict)
  have without: "without [''content_hash'', ''signature''] ?d = core_dict c"
    unfolding d without_event_dict by (simp add: signed_core_def)
  have items: "item ?d ''content_hash'' = VStr (sha256_hex core_raw)" "item ?d ''signature'' = demo_signature"
    unfolding d by (simp_all add: item_event_dict hash) (simp_all add: signed_core_def)
  let ?sd = "[(VStr (str ''alg''), VStr (str ''Ed25519'')), (VStr (str ''kid''), VStr (str ''key-1'')),
            (VStr (str ''value''), VStr (b64url (demo_seed 7 @ demo_seed 7)))]"
  have sig: "closed_we [''alg'', ''kid'', ''value''] ''invalid_signature'' demo_signature = Inr ?sd"
    unfolding signature_dict_def by (rule closed_we_dict) (auto simp: dkeys_def key_set_def)
  have kid: "text_we demo 128 ''invalid_signature'' (VStr (str ''key-1'')) = Inr (str ''key-1'')"
    by (rule demo_text_we) (simp_all add: isascii_str)
  have decoded: "unb64url (VStr (b64url (demo_seed 7 @ demo_seed 7))) (Some 64) = Inr (demo_seed 7 @ demo_seed 7)"
    using demo_seed_ok(2,3) [of 7] by (simp add: unb64url_b64url is_bytes_def)
  have checked: "check_signature demo (provisional_public_key demo_pa c (str ''key-1''))
      (VStr (b64url (demo_seed 7 @ demo_seed 7))) m = Inr ()" for m
    by (simp add: check_signature_def demo_public_key [OF assms(2)] decoded demo_seed_ok(3))
  have "verify_with demo (select_authority demo demo_authority) (VDict ?d) = Inr ?e"
    unfolding verify_with_def closed bindR_simps demo_authority_sel without
    using raw by (simp add: val [symmetric] canonical_we_def Let_def assms(1) core_raw items sig
        dict_simps kid checked) (simp add: signed_core_def core_raw)
  then show ?thesis by (simp add: verify_event_def val)
qed

lemma signed_core_created:
  assumes "validate_core demo (core_dict c) demo_manifest = Inr c" and "e_origin c = demo_origin"
    and "plain (VDict (core_dict c))" and "cost (VDict (core_dict c)) \<le> 200000"
    and "draft_dict demo_authority (origin_dict demo_origin) dr = core_dict c"
  shows "create_event demo demo_authority (origin_dict demo_origin) demo_signer dr = Inr (signed_core c)"
proof -
  obtain core_raw where core_raw: "canonical_bytes demo (VDict (core_dict c)) = Inr core_raw"
    using plain_canonical [OF assms(3)] by blast
  have "manifest_member demo_manifest (origin_id (origin_dict demo_origin) ''embodiment_id'') None = Inr demo_member"
    by (simp add: manifest_member_def origin_id_def origin_dict_def dict_simps demo_origin_def demo_member_def)
  moreover have "m_status demo_member = str ''active''" by (simp add: demo_member_def)
  moreover have "sign demo demo_signer h = Inr demo_signature" for h
    by (simp add: sign_def demo_signer_def demo_seed_ok)
  moreover have "e_content_hash (signed_core c) = sha256_hex core_raw" by (simp add: signed_core_def core.extend_def core_raw)
  ultimately show ?thesis
    using signed_core_verifies [OF assms(1-4)]
    by (simp add: create_event_def assms(1,5) canonical_we_def core_raw signed_core_val Let_def)
qed

lemma demo_event_verifies:
  assumes "n < 10" and "demo_links q prev ps"
  shows "verify_event demo demo_authority (event_val (demo_event n q prev ps)) = Inr (demo_event n q prev ps)"
  unfolding demo_event_def
proof (rule signed_core_verifies [OF demo_validate_core [OF assms] _ demo_core_plain' [OF assms]])
  show "cost (VDict (core_dict (demo_event_core n q prev ps))) \<le> 200000"
    by (rule le_trans [OF demo_event_cost [OF assms(2)]]) simp
qed (simp add: demo_event_core_def)

text \<open>An event's stored form is plain, so that pages and records that hold it have canonical bytes.\<close>

lemma demo_event_val_plain:
  assumes "n < 10" and "demo_links q prev ps"
  shows "plain (event_val (demo_event n q prev ps))" and "cost (event_val (demo_event n q prev ps)) \<le> 20000"
  using signed_core_plain [OF demo_core_plain' [OF assms]] demo_event_cost [OF assms(2), of n]
  by (simp_all add: demo_event_def)

lemma demo_event_sel [simp]:
  "e_id (demo_event n q prev ps) = demo_uuid n" "e_origin (demo_event n q prev ps) = demo_origin"
  "e_sequence (demo_event n q prev ps) = q" "e_previous (demo_event n q prev ps) = prev"
  "e_parents (demo_event n q prev ps) = ps" "e_kind (demo_event n q prev ps) = str ''experience.observed''"
  "e_supersedes (demo_event n q prev ps) = None" "e_payload (demo_event n q prev ps) = demo_payload"
  by (simp_all add: demo_event_def demo_event_core_def)

lemma demo_create:
  assumes "n < 10" and "demo_links q prev ps"
  shows "create_event demo demo_authority (origin_dict demo_origin) demo_signer (demo_draft n q prev ps)
    = Inr (demo_event n q prev ps)"
  unfolding demo_event_def
proof (rule signed_core_created [OF demo_validate_core [OF assms] _ demo_core_plain' [OF assms]])
  show "cost (VDict (core_dict (demo_event_core n q prev ps))) \<le> 200000"
    by (rule le_trans [OF demo_event_cost [OF assms(2)]]) simp
  show "draft_dict demo_authority (origin_dict demo_origin) (demo_draft n q prev ps) = core_dict (demo_event_core n q prev ps)"
    using assms(2) by (intro draft_is_core) (simp add: demo_links_def)
qed (simp add: demo_event_core_def)

section \<open>A root authority\<close>

definition demo_root_member :: "pystr \<Rightarrow> pystr \<Rightarrow> member" where
  "demo_root_member h i = \<lparr>m_embodiment_id = demo_embodiment, m_body_ref = str ''body'', m_status = str ''active'',
     m_principal_id = None, m_incarnation_id = Some demo_incarnation, m_credential_id = Some h,
     m_authorization_id = Some i\<rparr>"

definition demo_root :: "pystr \<Rightarrow> dict \<Rightarrow> pystr \<Rightarrow> dict \<Rightarrow> root_authority" where
  "demo_root h c i a = \<lparr>ra_manifest = demo_manifest\<lparr>mf_root_bound := True, mf_members := [demo_root_member h i]\<rparr>,
     ra_state = demo_state, ra_credentials = [(h, c)], ra_incarnations = [(i, a)]\<rparr>"

definition demo_root_core :: core where
  "demo_root_core = (demo_event_core 1 1 None [])\<lparr>e_origin := \<lparr>o_embodiment_id = demo_embodiment,
     o_incarnation_id = demo_incarnation, o_principal_id = str ''peer'', o_body_ref = str ''body''\<rparr>\<rparr>"

lemma demo_root_key:
  "\<exists>h c i a. root_public_key demo (demo_root h c i a) demo_root_core (demo_kid ''Ed25519'' 4) = Inr (demo_seed 4)"
proof -
  obtain c h a i body where c: "\<forall>allow t. 1000 \<le> t \<and> t \<le> 9000
        \<longrightarrow> verify_embodiment_credential demo c demo_state t allow = Inr demo_credential_body"
    "dget c ''artifact_id'' = Some (VStr h)" and a: "dget a ''artifact_id'' = Some (VStr i)"
    "dget a ''body'' = Some (VDict body)" "dget body ''started_at_ms'' = Some (VInt 1500)"
    "\<forall>t. 1500 \<le> t \<and> t \<le> 9000 \<longrightarrow> verify_incarnation_authorization demo a c demo_state t = Inr body"
    "item body ''incarnation_id'' = VStr demo_incarnation"
    using demo_incarnation_at by metis
  let ?ra = "demo_root h c i a" and ?m = "demo_root_member h i"
  have ids: "item c ''artifact_id'' = VStr h" "item a ''artifact_id'' = VStr i"
    using c(2) a(1) by (simp_all add: item_def)
  have body_ref: "item demo_credential_body ''body_ref'' = VStr (str ''body'')"
    by (simp add: demo_credential_body_def dict_simps)
  have member: "manifest_member (ra_manifest ?ra) demo_embodiment (Some demo_incarnation) = Inr ?m"
    by (simp add: manifest_member_def demo_root_def demo_root_member_def)
  have verified: "verify_member demo ?ra ?m t = Inr demo_credential_body" if "1500 \<le> t" "t \<le> 9000" for t
    using c(1) a(4) that
    by (simp add: verify_member_def demo_root_def demo_root_member_def ids a(5) demo_credential_items body_ref Let_def)
  have started: "started_at ?ra ?m = Inr 1500"
    using a(2,3) by (simp add: started_at_def demo_root_def demo_root_member_def getitem_def num_res_def)
  have principals: "credential_principals demo_credential_body = Inr [VStr (str ''peer'')]"
    by (simp add: credential_principals_def demo_credential_items getitem_def dict_simps)
  have origin: "root_validate_origin demo ?ra (e_origin demo_root_core) False = Inr ?m"
    by (simp add: root_validate_origin_def demo_root_core_def member started verified principals)
      (simp add: demo_root_member_def)
  have key: "unb64url (VStr (b64url (demo_seed 4))) (Some 32) = Inr (demo_seed 4)"
    using demo_seed_ok(2,3) [of 4] by (simp add: unb64url_b64url)
  have "root_public_key demo ?ra demo_root_core (demo_kid ''Ed25519'' 4) = Inr (demo_seed 4)"
    unfolding root_public_key_def Let_def origin bindR_simps
    by (simp add: demo_root_core_def demo_event_core_def verified demo_credential_items body_ref principals)
      (simp add: demo_credential_items demo_descriptor_def getitem_def dict_simps key)
  then show ?thesis by blast
qed

end
