(* ===== verification/Weave_Properties.thy ===== *)
theory Weave_Properties
  imports Demo_Events
begin

text \<open>
  The properties of \<^verbatim>\<open>weave.py\<close>: what a verified event proves, what its payload can hold, that its
  stored form stands for it, what \<^verbatim>\<open>create_event\<close> makes, what the key lookup of a root authority
  establishes, and what the closure check of a bound history means.
\<close>

section \<open>Shared lemmas\<close>

lemma check_signatureD:
  assumes "check_signature P key (VStr s) msg = Inr ()"
  shows "\<exists>k sv. key = Inr k \<and> ed25519_point P k \<and> unb64url (VStr s) (Some 64) = Inr sv
    \<and> ed25519_verify P k sv msg"
  using assms by (auto simp: check_signature_def res split: if_splits)

lemma demo_first [simp]: "demo_links 1 None []"
  by (simp add: demo_links_def)

lemma demo_first_verifies:
  "verify_event demo demo_authority (event_val (demo_event 1 1 None [])) = Inr (demo_event 1 1 None [])"
  by (rule demo_event_verifies) simp_all

section \<open>Verified events\<close>

text \<open>
  C18: a verified event is its origin's. When \<^verbatim>\<open>verify_event\<close> returns, the event speaks for the being
  and the manifest that the authority holds in force for it; its content hash is the SHA-256 of the
  canonical bytes of its core, all fields but hash and signature; and the key that the authority
  gives for this core and key id has signed that digest in the event domain.
\<close>

theorem verified_event_is_authentic:
  assumes "verify_event P A v = Inr e"
  shows "\<exists>d sel raw k sv. v = VDict d \<and> select_authority P A d = Inr sel
    \<and> e_being_ref e = mf_being_ref (sel_manifest sel) \<and> e_manifest_hash e = mf_digest (sel_manifest sel)
    \<and> canonical_bytes P (VDict (core_dict e)) = Inr raw \<and> e_content_hash e = sha256_hex raw
    \<and> sel_public_key sel (core.truncate e) (e_kid e) = Inr k
    \<and> unb64url (VStr (e_signature e)) (Some 64) = Inr sv
    \<and> ed25519_verify P k sv (str event_domain @ [0] @ sha256 raw)"
proof -
  from assms have "verify_with P (select_authority P A) v = Inr e" by (simp add: verify_event_def)
  then obtain d sel raw sig where *: "v = VDict d" "select_authority P A d = Inr sel"
    "validate_core P (without [''content_hash'', ''signature''] d) (sel_manifest sel) = Inr (core.truncate e)"
    "canonical_bytes P (VDict (core_dict e)) = Inr sig" "e_content_hash e = sha256_hex sig"
    "check_signature P (sel_public_key sel (core.truncate e) (e_kid e)) (VStr (e_signature e))
       (str event_domain @ [0] @ sha256 sig) = Inr ()"
    by (rule verify_with_Inr)
  note core = validate_core_Inr [OF *(3), unfolded truncate_sel]
  from check_signatureD [OF *(6)] obtain k sv where
    "sel_public_key sel (core.truncate e) (e_kid e) = Inr k" "unb64url (VStr (e_signature e)) (Some 64) = Inr sv"
    "ed25519_verify P k sv (str event_domain @ [0] @ sha256 sig)" by blast
  with * core show ?thesis by blast
qed

lemma verified_event_is_authentic_witness:
  "\<exists>(sel :: selected) raw k sv. sel_public_key sel (core.truncate (demo_event 1 1 None [])) (e_kid (demo_event 1 1 None [])) = Inr k
    \<and> canonical_bytes demo (VDict (core_dict (demo_event 1 1 None []))) = Inr raw
    \<and> ed25519_verify demo k sv (str event_domain @ [0] @ sha256 raw)"
  using verified_event_is_authentic [OF demo_first_verifies] by blast

text \<open>
  The stored form of an event stands for it. The dict the ledger writes for a verified event
  has the canonical bytes of the value that was received, and verifies to the same event again
  under the same authority.
\<close>

theorem stored_event_stands_for_received:
  assumes "verify_event P A v = Inr e"
  shows "verify_event P A (event_val e) = Inr e
    \<and> (\<exists>b. canonical_bytes P v = Inr b \<and> canonical_bytes P (event_val e) = Inr b)"
  using verify_event_again [OF assms] verify_event_canonical [OF assms] by blast

lemma stored_event_stands_for_received_witness:
  "verify_event demo demo_authority (event_val (demo_event 1 1 None [])) = Inr (demo_event 1 1 None [])
    \<and> (\<exists>b. canonical_bytes demo (event_val (demo_event 1 1 None [])) = Inr b)"
  using stored_event_stands_for_received [OF demo_first_verifies] by blast

text \<open>
  C36: payloads are bounded and free of plain secrets. The payload of a verified event has at most
  64 entries, at most \<^verbatim>\<open>MAX_PAYLOAD_NODES\<close> values nested no deeper than \<^verbatim>\<open>MAX_PAYLOAD_DEPTH\<close>, no
  string with a private key, no key that names a secret unless it ends in \<^verbatim>\<open>_ref\<close>, and no bytes;
  and the whole event fits \<^verbatim>\<open>MAX_EVENT_BYTES\<close>.
\<close>

theorem payload_is_bounded_and_clean:
  assumes "verify_event P A v = Inr e"
  shows "length (e_payload e) \<le> 64 \<and> payload_nodes (VDict (e_payload e)) \<le> max_payload_nodes
    \<and> payload_depth (VDict (e_payload e)) \<le> Suc max_payload_depth \<and> payload_clean (VDict (e_payload e))
    \<and> (\<exists>raw. canonical_bytes P v = Inr raw \<and> length raw \<le> max_event_bytes)"
proof -
  from assms have "verify_with P (select_authority P A) v = Inr e" by (simp add: verify_event_def)
  then obtain d raw and sel :: selected where *: "canonical_bytes P v = Inr raw" "length raw \<le> max_event_bytes"
    "validate_core P (without [''content_hash'', ''signature''] d) (sel_manifest sel) = Inr (core.truncate e)"
    by (rule verify_with_Inr) blast
  from validate_core_Inr [OF *(3), unfolded truncate_sel]
  have "payload_dict P (VDict (e_payload e)) = Inr (e_payload e)" by blast
  then obtain n where "payload_check P 0 (VDict (e_payload e)) 0 = Inr n" and "length (e_payload e) \<le> 64"
    by (auto simp: payload_dict_def bindR_Inr_iff split: if_splits simp del: payload_check.simps)
  with payload_check_sound(1) [OF this(1)] *(1,2) show ?thesis by auto
qed

lemma payload_is_bounded_and_clean_witness:
  "payload_clean (VDict (e_payload (demo_event 1 1 None [])))
    \<and> payload_nodes (VDict (e_payload (demo_event 1 1 None []))) \<le> max_payload_nodes"
  using payload_is_bounded_and_clean [OF demo_first_verifies] by blast

text \<open>
  C35: a created event says what was drafted. Whatever \<^verbatim>\<open>create_event\<close> returns verifies under the
  same authority, carries the drafted id, sequence, predecessor, time, kind, subject, payload,
  supersession and sensitivity and the given origin, and its causal parents are the drafted ones,
  sorted and without repetition.
\<close>

theorem created_event_says_the_draft:
  assumes "create_event P A (origin_dict og) sg dr = Inr e"
  shows "verify_event P A (event_val e) = Inr e \<and> e_origin e = og
    \<and> e_id e = d_event_id dr \<and> e_sequence e = d_sequence dr \<and> e_previous e = d_previous dr
    \<and> e_occurred_at_ms e = d_occurred_at_ms dr \<and> e_kind e = d_kind dr \<and> e_subject e = d_subject dr
    \<and> e_payload e = d_payload dr \<and> e_supersedes e = d_supersedes dr \<and> e_sensitivity e = d_sensitivity dr
    \<and> e_parents e = sorted_list_of_set (set (d_parents dr))"
  using create_event_Inr [OF assms] create_event_origin [OF assms] by simp

lemma created_event_says_the_draft_witness:
  "verify_event demo demo_authority (event_val (demo_event 1 1 None [])) = Inr (demo_event 1 1 None [])
    \<and> e_origin (demo_event 1 1 None []) = demo_origin
    \<and> e_kind (demo_event 1 1 None []) = d_kind (demo_draft 1 1 None [])"
proof -
  have "create_event demo demo_authority (origin_dict demo_origin) demo_signer (demo_draft 1 1 None [])
      = Inr (demo_event 1 1 None [])" by (rule demo_create) simp_all
  from created_event_says_the_draft [OF this] show ?thesis by blast
qed

section \<open>Root authorities\<close>

lemma verify_memberD:
  assumes "verify_member P ra m t = Inr cb"
  shows "\<exists>c a ib. map_of (ra_credentials ra) (the (m_credential_id m)) = Some c
    \<and> map_of (ra_incarnations ra) (the (m_authorization_id m)) = Some a
    \<and> verify_embodiment_credential P c (ra_state ra) t True = Inr cb
    \<and> verify_incarnation_authorization P a c (ra_state ra) t = Inr ib
    \<and> item c ''artifact_id'' = VStr (the (m_credential_id m))
    \<and> item ib ''incarnation_id'' = VStr (the (m_incarnation_id m))"
  using assms by (auto simp: verify_member_def Let_def res split: option.splits if_splits)

lemma manifest_memberD:
  assumes "manifest_member mf i j = Inr m"
  shows "m \<in> set (mf_members mf) \<and> m_embodiment_id m = i \<and> (\<forall>n. j = Some n \<longrightarrow> m_incarnation_id m = Some n)"
  using assms by (auto simp: manifest_member_def res filter_eq_Cons_iff split: if_splits list.splits option.splits)

text \<open>
  C40: the key of a root authority is the embodiment's own. When \<^verbatim>\<open>RootAuthority.public_key\<close> answers
  for an event, the manifest lists the event's embodiment and incarnation; the credential it names
  and the incarnation authorization under it verify at the event's time against the control state;
  the credential binds the embodiment, its body and the event's principal; and the answer is the
  public part of the credential's signing key, whose key id is the one asked for.
\<close>

theorem root_key_is_the_embodiments:
  assumes "root_public_key P ra c kid = Inr k"
  shows "\<exists>m credential authorization cb ib. m \<in> set (mf_members (ra_manifest ra))
    \<and> m_embodiment_id m = o_embodiment_id (e_origin c)
    \<and> m_incarnation_id m = Some (o_incarnation_id (e_origin c)) \<and> m_body_ref m = o_body_ref (e_origin c)
    \<and> map_of (ra_credentials ra) (the (m_credential_id m)) = Some credential
    \<and> map_of (ra_incarnations ra) (the (m_authorization_id m)) = Some authorization
    \<and> verify_embodiment_credential P credential (ra_state ra) (e_occurred_at_ms c) True = Inr cb
    \<and> verify_incarnation_authorization P authorization credential (ra_state ra) (e_occurred_at_ms c) = Inr ib
    \<and> item cb ''embodiment_id'' = VStr (o_embodiment_id (e_origin c))
    \<and> item cb ''body_ref'' = VStr (o_body_ref (e_origin c))
    \<and> item ib ''incarnation_id'' = VStr (o_incarnation_id (e_origin c))
    \<and> (\<exists>ps. credential_principals cb = Inr ps \<and> VStr (o_principal_id (e_origin c)) \<in> set ps)
    \<and> subscript (item cb ''signing_key'') ''key_id'' = Inr (VStr kid)
    \<and> (\<exists>p. subscript (item cb ''signing_key'') ''public'' = Inr p \<and> unb64url p (Some 32) = Inr k)"
proof -
  let ?og = "e_origin c"
  from assms obtain m cb ps p where m: "root_validate_origin P ra ?og False = Inr m"
    and cb: "verify_member P ra m (e_occurred_at_ms c) = Inr cb"
    and bound: "item cb ''embodiment_id'' = VStr (o_embodiment_id ?og)" "item cb ''body_ref'' = VStr (o_body_ref ?og)"
    and ps: "credential_principals cb = Inr ps" "VStr (o_principal_id ?og) \<in> set ps"
    and key: "subscript (item cb ''signing_key'') ''key_id'' = Inr (VStr kid)"
      "subscript (item cb ''signing_key'') ''public'' = Inr p" "unb64url p (Some 32) = Inr k"
    by (auto simp: root_public_key_def Let_def res split: if_splits)
  from m have member: "manifest_member (ra_manifest ra) (o_embodiment_id ?og) (Some (o_incarnation_id ?og)) = Inr m"
    and "m_body_ref m = o_body_ref ?og"
    by (auto simp: root_validate_origin_def res split: if_splits)
  with manifest_memberD [OF member] have *: "m \<in> set (mf_members (ra_manifest ra))"
    "m_embodiment_id m = o_embodiment_id ?og" "m_incarnation_id m = Some (o_incarnation_id ?og)"
    "m_body_ref m = o_body_ref ?og" by simp_all
  from verify_memberD [OF cb] obtain cr a ib where
    "map_of (ra_credentials ra) (the (m_credential_id m)) = Some cr"
    "map_of (ra_incarnations ra) (the (m_authorization_id m)) = Some a"
    "verify_embodiment_credential P cr (ra_state ra) (e_occurred_at_ms c) True = Inr cb"
    "verify_incarnation_authorization P a cr (ra_state ra) (e_occurred_at_ms c) = Inr ib"
    "item ib ''incarnation_id'' = VStr (o_incarnation_id ?og)"
    using *(3) by auto
  with * bound ps key show ?thesis by blast
qed

lemma root_key_is_the_embodiments_witness:
  "\<exists>(ra :: root_authority) cb ps. credential_principals cb = Inr ps \<and> VStr (o_principal_id (e_origin demo_root_core)) \<in> set ps
    \<and> (\<exists>credential. verify_embodiment_credential demo credential (ra_state ra) (e_occurred_at_ms demo_root_core) True
         = Inr cb)
    \<and> subscript (item cb ''signing_key'') ''key_id'' = Inr (VStr (demo_kid ''Ed25519'' 4))"
proof -
  obtain h c i a where "root_public_key demo (demo_root h c i a) demo_root_core (demo_kid ''Ed25519'' 4)
      = Inr (demo_seed 4)" using demo_root_key by blast
  from root_key_is_the_embodiments [OF this] show ?thesis by blast
qed

section \<open>Bound histories\<close>

text \<open>What an event builds on, and the ids that heads reach through predecessors and causal parents.\<close>

definition ancestors :: "event \<Rightarrow> pystr list" where
  "ancestors e = rev (e_parents e) @ (case e_previous e of None \<Rightarrow> [] | Some p \<Rightarrow> [p])"

inductive reaches :: "(pystr \<times> event) list \<Rightarrow> val list \<Rightarrow> pystr \<Rightarrow> bool"
  for known heads where
  head: "VStr i \<in> set heads \<Longrightarrow> reaches known heads i"
| link: "reaches known heads i \<Longrightarrow> map_of known i = Some e \<Longrightarrow> j \<in> set (ancestors e) \<Longrightarrow> reaches known heads j"

text \<open>An event continues its origin's incarnation by one.\<close>

definition origin_chained :: "(pystr \<times> event) list \<Rightarrow> event \<Rightarrow> bool" where
  "origin_chained known e = (case e_previous e of None \<Rightarrow> True
     | Some p \<Rightarrow> (case map_of known p of None \<Rightarrow> False
         | Some q \<Rightarrow> o_incarnation_id (e_origin q) = o_incarnation_id (e_origin e)
             \<and> e_sequence q = e_sequence e - 1))"

lemma reaches_mono:
  assumes "reaches known hs i" and "\<And>j. VStr j \<in> set hs \<Longrightarrow> reaches known hs' j"
  shows "reaches known hs' i"
  using assms(1) by induction (use assms(2) in \<open>blast intro: reaches.link\<close>)+

text \<open>The loop meets a known id or a new one, and a rule of induction that says so.\<close>

lemma closure_loop_seen: "v \<in> VStr ` set R \<Longrightarrow> closure_loop known R (v # pending) = closure_loop known R pending"
  by auto

lemma closure_loop_new:
  assumes "i \<notin> set R" and "map_of known i = Some e"
  shows "closure_loop known R (VStr i # pending) =
    (if origin_chained known e then closure_loop known (i # R) (map VStr (ancestors e) @ pending)
     else raise WeaveProtocolError ''invalid_historical_origin_chain'')"
proof -
  have "VStr i \<notin> VStr ` set R" using assms(1) by auto
  with assms(2) show ?thesis
    by (simp add: origin_chained_def ancestors_def Let_def rev_map split: option.splits)
qed

lemma closure_induct [case_names empty stack]:
  assumes "\<And>R. Q R []"
    and "\<And>R v pending. (v \<in> VStr ` set R \<Longrightarrow> Q R pending)
      \<Longrightarrow> (\<And>i e. v = VStr i \<Longrightarrow> i \<notin> set R \<Longrightarrow> map_of known i = Some e \<Longrightarrow> origin_chained known e
            \<Longrightarrow> Q (i # R) (map VStr (ancestors e) @ pending)) \<Longrightarrow> Q R (v # pending)"
  shows "Q R pending"
proof -
  have "known' = known \<Longrightarrow> Q R pending" for known'
  proof (induction known' R pending rule: closure_loop.induct)
    case (2 known' R v pending)
    show ?case
    proof (rule assms(2))
      assume seen: "v \<in> VStr ` set R"
      then show "Q R pending" using "2.IH"(1) [OF _ seen "2.prems"] by auto
    next
      fix i e
      assume v: "v = VStr i" and new: "i \<notin> set R" and e: "map_of known i = Some e" and ok: "origin_chained known e"
      from v new have "\<not> \<not> hashable v" "v \<notin> VStr ` set R" by auto
      note IH = "2.IH"(2-3) [OF this]
      show "Q (i # R) (map VStr (ancestors e) @ pending)"
      proof (cases "e_previous e")
        case None
        with IH(1) [of e] "2.prems" v e show ?thesis by (simp add: ancestors_def rev_map)
      next
        case (Some p)
        with ok obtain q where "map_of known p = Some q" "o_incarnation_id (e_origin q) = o_incarnation_id (e_origin e)"
          "e_sequence q = e_sequence e - 1"
          by (auto simp: origin_chained_def split: option.splits)
        with IH(2) [of e] Some "2.prems" v e show ?thesis by (simp add: ancestors_def rev_map)
      qed
    qed
  qed (rule assms(1))
  then show ?thesis by simp
qed

text \<open>What the loop returns is closed, and contains no more than what the stack reaches.\<close>

lemma closure_loop_sound:
  "closure_loop known R pending = Inr R' \<Longrightarrow> set R \<subseteq> set R' \<and> set pending \<subseteq> VStr ` set R'
    \<and> (\<forall>i \<in> set R' - set R. reaches known pending i
         \<and> (\<exists>e. map_of known i = Some e \<and> set (ancestors e) \<subseteq> set R' \<and> origin_chained known e))"
proof (induction R pending rule: closure_induct [where known = known])
  case (stack R v pending)
  show ?case
  proof (cases "v \<in> VStr ` set R")
    case True
    with stack(3) have "closure_loop known R pending = Inr R'" by (simp only: closure_loop_seen)
    note * = stack(1) [OF True this]
    have "reaches known (v # pending) i" if "reaches known pending i" for i
      using that by (rule reaches_mono) (simp add: reaches.head)
    moreover from * True have "v \<in> VStr ` set R'" by (blast intro: subsetD [OF image_mono])
    ultimately show ?thesis using * by simp
  next
    case False
    then obtain i e where v: "v = VStr i" "i \<notin> set R" and e: "map_of known i = Some e"
      using stack(3) by (auto split: if_splits option.splits dest: is_strE)
    from closure_loop_new [OF v(2) e] stack(3) v(1) have ok: "origin_chained known e"
      and loop: "closure_loop known (i # R) (map VStr (ancestors e) @ pending) = Inr R'"
      by (simp_all only: split: if_splits) simp_all
    note * = stack(2) [OF v e ok loop]
    have step: "reaches known (v # pending) j" if "reaches known (map VStr (ancestors e) @ pending) j" for j
      using that
    proof (rule reaches_mono)
      fix j assume "VStr j \<in> set (map VStr (ancestors e) @ pending)"
      then show "reaches known (v # pending) j"
        using reaches.link [OF reaches.head [of i "v # pending" known] e] v(1) by (auto intro: reaches.head)
    qed
    from * have sub: "set (ancestors e) \<subseteq> set R'" "i \<in> set R'" "set pending \<subseteq> VStr ` set R'" by auto
    have reach: "reaches known (v # pending) i" using v(1) by (simp add: reaches.head)
    have "reaches known (v # pending) j \<and> (\<exists>e. map_of known j = Some e \<and> set (ancestors e) \<subseteq> set R'
        \<and> origin_chained known e)" if "j \<in> set R'" "j \<notin> set R" for j
    proof (cases "j = i")
      case True
      with reach e sub(1) ok show ?thesis by blast
    next
      case False
      with that have "j \<in> set R' - set (i # R)" by simp
      with * step show ?thesis by blast
    qed
    moreover from * have "set R \<subseteq> set R'" by simp
    ultimately show ?thesis using sub(2,3) v(1) by (intro conjI ballI) auto
  qed
qed simp

text \<open>The loop succeeds on a stack inside a closed set of known events.\<close>

lemma closure_loop_complete:
  assumes "\<And>i. i \<in> S \<Longrightarrow> \<exists>e. map_of known i = Some e \<and> set (ancestors e) \<subseteq> S \<and> origin_chained known e"
  shows "set pending \<subseteq> VStr ` S \<Longrightarrow> \<exists>R'. closure_loop known R pending = Inr R'"
proof (induction R pending rule: closure_induct [where known = known])
  case (stack R v pending)
  show ?case
  proof (cases "v \<in> VStr ` set R")
    case True
    from stack(3) have "set pending \<subseteq> VStr ` S" by simp
    from stack(1) [OF True this] show ?thesis unfolding closure_loop_seen [OF True] .
  next
    case False
    from stack(3) obtain i where "i \<in> S" and v: "v = VStr i" by auto
    from assms [OF this(1)] obtain e where e: "map_of known i = Some e" "set (ancestors e) \<subseteq> S" "origin_chained known e"
      by blast
    from False v have new: "i \<notin> set R" by auto
    from e(2) stack(3) have "set (map VStr (ancestors e) @ pending) \<subseteq> VStr ` S" by auto
    from stack(2) [OF v new e(1,3) this] closure_loop_new [OF new e(1)] e(3) v
    show ?thesis by (simp del: closure_loop.simps)
  qed
qed simp

lemma select_provisional: "select_authority P (Provisional pa) = provisional_select pa"
  by (rule ext) simp

lemma map_of_in_keys: "map_of xs i = Some e \<Longrightarrow> i \<in> fst ` set xs"
  by (force dest: map_of_SomeD)

lemma reached_in_closed:
  assumes "reaches known ids i" and "set ids \<subseteq> VStr ` S"
    and "\<And>i. i \<in> S \<Longrightarrow> \<exists>e. map_of known i = Some e \<and> set (ancestors e) \<subseteq> S"
  shows "i \<in> S"
  using assms(1)
proof induction
  case (link i e j)
  with assms(3) [of i] show ?case by auto
qed (use assms(2) in auto)

text \<open>A history that is the closure of its heads satisfies what the traversal needs to succeed.\<close>

lemma closure_is_traversed:
  assumes "\<forall>v \<in> set ids. is_str v" and "fst ` set known = {i. reaches known ids i}"
    and "\<And>i e. map_of known i = Some e \<Longrightarrow> origin_chained known e"
  shows "\<exists>R. closure_loop known [] (rev ids) = Inr R \<and> set R = fst ` set known"
proof -
  let ?ids = "fst ` set known"
  have "\<exists>e. map_of known i = Some e \<and> set (ancestors e) \<subseteq> ?ids \<and> origin_chained known e" if "i \<in> ?ids" for i
  proof -
    from that obtain e where e: "map_of known i = Some e" by (metis map_of_eq_None_iff option.exhaust)
    from that have "reaches known ids i" unfolding assms(2) by simp
    from reaches.link [OF this e] have "set (ancestors e) \<subseteq> ?ids" unfolding assms(2) by blast
    with e assms(3) show ?thesis by blast
  qed
  moreover have "set (rev ids) \<subseteq> VStr ` ?ids"
  proof
    fix v assume v: "v \<in> set (rev ids)"
    then have "v = VStr (str_of v)" using assms(1) by (intro is_strE) simp
    with v show "v \<in> VStr ` ?ids" unfolding assms(2) by (metis image_eqI mem_Collect_eq reaches.head set_rev)
  qed
  ultimately obtain R where R: "closure_loop known [] (rev ids) = Inr R"
    using closure_loop_complete [of ?ids known "rev ids" "[]"] by blast
  from closure_loop_sound [OF R] have *: "set R \<subseteq> ?ids" "set ids \<subseteq> VStr ` set R"
    "\<And>i. i \<in> set R \<Longrightarrow> \<exists>e. map_of known i = Some e \<and> set (ancestors e) \<subseteq> set R"
    by (auto dest!: bspec intro: map_of_in_keys)
  have "?ids \<subseteq> set R" using reached_in_closed [OF _ *(2,3)] unfolding assms(2) by blast
  with *(1) R show ?thesis by blast
qed

text \<open>
  C26: the closure check of a bound history is exact. For a history whose events verify, the
  traversal \<^verbatim>\<open>BoundHistoryAuthority\<close> runs from the accepted heads succeeds exactly when the heads
  are ids, the events are those the heads reach through predecessors and causal parents, none
  missing and none besides, and each continues its origin's incarnation by one.
\<close>

theorem bound_history_is_the_closure:
  assumes "verify_history P pa events = Inr known"
    and "mapR (\<lambda>h. subscript h ''event_id'') accepted_heads = Inr ids"
  shows "verify_closure P pa events accepted_heads = Inr () \<longleftrightarrow> (\<forall>v \<in> set ids. is_str v)
    \<and> fst ` set known = {i. reaches known ids i} \<and> (\<forall>i e. map_of known i = Some e \<longrightarrow> origin_chained known e)"
    (is "?check \<longleftrightarrow> ?strings \<and> ?ids = _ \<and> ?chained")
proof -
  have check: "?check \<longleftrightarrow> (\<exists>R. closure_loop known [] (rev ids) = Inr R \<and> set R = ?ids)"
    using assms by (auto simp: verify_closure_def bindR_Inr_iff)
  show ?thesis
  proof
    assume ?check
    with check obtain R where R: "closure_loop known [] (rev ids) = Inr R" "set R = ?ids" by blast
    from closure_loop_sound [OF R(1)] have heads: "set ids \<subseteq> VStr ` set R"
      and closed: "\<And>i. i \<in> set R \<Longrightarrow> reaches known (rev ids) i \<and> (\<exists>e. map_of known i = Some e
        \<and> set (ancestors e) \<subseteq> set R \<and> origin_chained known e)" by auto
    have "i \<in> set R" if "reaches known ids i" for i
      using reached_in_closed [OF that heads] closed by blast
    moreover have "reaches known ids i" if "i \<in> set R" for i
      using closed [OF that] by (auto elim!: reaches_mono simp: reaches.head)
    ultimately have "?ids = {i. reaches known ids i}" using R(2) by blast
    moreover have "origin_chained known e" if "map_of known i = Some e" for i e
      using closed [of i] map_of_in_keys [OF that] that R(2) by auto
    moreover have ?strings using heads by auto
    ultimately show "?strings \<and> ?ids = {i. reaches known ids i} \<and> ?chained" by blast
  next
    assume ok: "?strings \<and> ?ids = {i. reaches known ids i} \<and> ?chained"
    then show ?check unfolding check by (intro closure_is_traversed) blast+
  qed
qed

lemma bound_history_is_the_closure_witness:
  "reaches [(demo_uuid 1, demo_event 1 1 None []), (demo_uuid 2, demo_event 2 2 (Some (demo_uuid 1)) [])]
        [VStr (demo_uuid 2)] (demo_uuid 1)"
proof -
  let ?e = "demo_event 1 1 None []" and ?f = "demo_event 2 2 (Some (demo_uuid 1)) []"
  let ?known = "[(demo_uuid 1, ?e), (demo_uuid 2, ?f)]"
  have f: "verify_event demo demo_authority (event_val ?f) = Inr ?f"
    by (rule demo_event_verifies) (simp_all add: demo_links_def demo_uuid)
  have ids: "e_id ?e = demo_uuid 1" "e_id ?f = demo_uuid 2" "e_previous ?e = None" "e_previous ?f = Some (demo_uuid 1)"
    "e_parents ?e = []" "e_parents ?f = []" "e_sequence ?e = 1" "e_sequence ?f = 2" "e_origin ?e = e_origin ?f"
    by simp_all
  have history: "verify_history demo demo_pa [(demo_uuid 1, event_val ?e), (demo_uuid 2, event_val ?f)] = Inr ?known"
    using demo_first_verifies f ids by (simp add: verify_event_def demo_authority_def select_provisional)
  have heads: "mapR (\<lambda>h. subscript h ''event_id'') [VDict [(VStr (str ''event_id''), VStr (demo_uuid 2))]]
      = Inr [VStr (demo_uuid 2)]" by (simp add: getitem_def dict_simps)
  have "closure_loop ?known [] [VStr (demo_uuid 2)] = Inr [demo_uuid 1, demo_uuid 2]"
    by (simp add: ids demo_uuid Let_def image_iff del: One_nat_def)
  with history heads have "verify_closure demo demo_pa [(demo_uuid 1, event_val ?e), (demo_uuid 2, event_val ?f)]
      [VDict [(VStr (str ''event_id''), VStr (demo_uuid 2))]] = Inr ()"
    by (auto simp: verify_closure_def)
  with bound_history_is_the_closure [OF history heads] show ?thesis by auto
qed

end
