(* ===== verification/Ledger.thy ===== *)
theory Ledger
  imports Weave "HOL-Library.AList"
begin

text \<open>
  The event ledger of one embodiment, \<^verbatim>\<open>src/daimon_matrix/ledger.py\<close>: its tables as a record, its
  operations as state transformers.

  A row of \<^verbatim>\<open>events\<close> is the event, its status and its source; the other columns are fields of
  the event, and \<^verbatim>\<open>inserted_order\<close> is the position in the list, since rows are only appended.
  A stored blob is the canonical bytes of the value it was made from; the model keeps the value
  and compares canonical bytes where the code compares blobs, so reading a blob back gives the
  value up to the order of mapping keys. \<^verbatim>\<open>AUTOINCREMENT\<close> positions of the feeds are list positions
  counted from 1: SQLite may leave a number out where an insertion is ignored, so the numbers inside cursors
  can be larger than here, in the same order. Clock readings and fresh UUIDs are arguments; where an
  operation reads the clock several times, the argument is the sequence of its readings.

  Not modelled: paths, permissions, the storage gate and its deadline, and the SQLite pragmas.
\<close>

section \<open>Tables\<close>

record row =
  r_event :: event
  r_known :: bool  \<comment> \<open>status \<^verbatim>\<open>known\<close>, else \<^verbatim>\<open>incomplete\<close>\<close>
  r_source :: pystr

record head =
  h_incarnation_id :: pystr
  h_max_sequence :: int
  h_tip_event_id :: pystr
  h_tip_hash :: pystr

datatype peer_state = Coherent | Gap | Quarantined

record peer_row =
  p_state :: peer_state
  p_error :: "pystr option"
  p_updated_at_ms :: int

record page =
  pg_events :: "event list"
  pg_more :: bool
  pg_offered_heads :: "head list"

record receipt =
  rt_base :: dict
  rt_received :: nat
  rt_inserted :: nat
  rt_replayed :: nat
  rt_incomplete :: nat
  rt_achieved_heads :: "head list"
  rt_completed_at_ms :: int
  rt_hash :: pystr

record rpc_row =
  q_request_hash :: pystr
  q_method :: pystr
  q_created_at_ms :: int
  q_completed :: "(dict \<times> int) option"  \<comment> \<open>response and time once \<^verbatim>\<open>completed\<close>\<close>

record metadata =
  md_accepted_manifest_hashes :: "pystr list"
  md_being_ref :: pystr
  md_local_embodiment_id :: pystr
  md_manifest_hash :: pystr
  md_schema_version :: nat
  md_root_bound :: bool

record db =
  t_metadata :: "metadata option"
  t_events :: "row list"
  t_dependencies :: "(pystr \<times> pystr) list"
  t_evidence :: "event list"  \<comment> \<open>\<^verbatim>\<open>conversation_evidence\<close>\<close>
  t_cursors :: "((pystr \<times> pystr) \<times> head) list"  \<comment> \<open>by peer and incarnation\<close>
  t_peers :: "(pystr \<times> peer_row) list"
  t_equivocations :: "(pystr \<times> (dict \<times> int)) list"  \<comment> \<open>by evidence hash\<close>
  t_outbound :: "(pystr \<times> (pystr \<times> page)) list"  \<comment> \<open>request id: request hash and response\<close>
  t_issued :: "(pystr \<times> (pystr \<times> dict)) list"
  t_inbound :: "((pystr \<times> pystr) \<times> (pystr \<times> receipt)) list"
  t_projection :: "(pystr \<times> dict) option"
  t_local_ops :: "((pystr \<times> pystr) \<times> (pystr \<times> pystr)) list"
  t_rpc :: "((pystr \<times> pystr) \<times> rpc_row) list"
  t_store_id :: "pystr option"  \<comment> \<open>set when the known feed is created\<close>
  t_known_feed :: "pystr list"
  t_conversation_feed :: "pystr list option"

definition empty_db :: db where
  "empty_db =
     \<lparr>t_metadata = None, t_events = [], t_dependencies = [], t_evidence = [], t_cursors = [],
      t_peers = [], t_equivocations = [], t_outbound = [], t_issued = [], t_inbound = [],
      t_projection = None, t_local_ops = [], t_rpc = [], t_store_id = None, t_known_feed = [],
      t_conversation_feed = None\<rparr>"

text \<open>The ledger object; \<open>lg_new_store_id\<close> is the UUID its first \<^verbatim>\<open>initialize\<close> draws.\<close>

record ledger =
  lg_authority :: authority
  lg_origin :: origin
  lg_new_store_id :: pystr

section \<open>Transactions\<close>

text \<open>
  A step inside a transaction returns the new tables or raises; \<open>transaction\<close> rolls back when
  the step raises, as \<^verbatim>\<open>except BaseException: rollback; raise\<close>.
\<close>

type_synonym 'a step = "db \<Rightarrow> ('a \<times> db) res"
type_synonym 'a op = "db \<Rightarrow> 'a res \<times> db"

definition transaction :: "'a step \<Rightarrow> 'a op" where
  "transaction f s = (case f s of Inl e \<Rightarrow> (Inl e, s) | Inr (x, t) \<Rightarrow> (Inr x, t))"

definition bindO :: "'a op \<Rightarrow> ('a \<Rightarrow> 'b op) \<Rightarrow> 'b op" where
  "bindO m f s = (case m s of (Inl e, t) \<Rightarrow> (Inl e, t) | (Inr x, t) \<Rightarrow> f x t)"

definition returnO :: "'a res \<Rightarrow> 'a op" where
  "returnO r s = (r, s)"

abbreviation ledger_error :: "string \<Rightarrow> exc" where
  "ledger_error m \<equiv> Exc LedgerError (str m)"

section \<open>Events as rows\<close>

abbreviation incarnation :: "'a core_scheme \<Rightarrow> pystr" where
  "incarnation e \<equiv> o_incarnation_id (e_origin e)"

text \<open>\<^verbatim>\<open>canonical_bytes(event)\<close>; it is defined for every event that was verified.\<close>

definition event_bytes :: "platform \<Rightarrow> event \<Rightarrow> bytes" where
  "event_bytes P e = (case canonical_bytes P (event_val e) of Inr b \<Rightarrow> b | Inl _ \<Rightarrow> [])"

definition position :: "event \<Rightarrow> pystr \<times> int" where
  "position e = (incarnation e, e_sequence e)"

definition row_events :: "db \<Rightarrow> event list" where
  "row_events s = map r_event (t_events s)"

definition known_ids :: "db \<Rightarrow> pystr set" where
  "known_ids s = (\<lambda>r. e_id (r_event r)) ` set (filter r_known (t_events s))"

definition find_row :: "db \<Rightarrow> pystr \<Rightarrow> row option" where
  "find_row s i = find (\<lambda>r. e_id (r_event r) = i) (t_events s)"

definition find_position :: "db \<Rightarrow> pystr \<times> int \<Rightarrow> row option" where
  "find_position s p = find (\<lambda>r. position (r_event r) = p) (t_events s)"

definition event_key :: "event \<Rightarrow> pystr \<times> int \<times> pystr" where
  "event_key e = (incarnation e, e_sequence e, e_id e)"

text \<open>\<^verbatim>\<open>_head\<close>: the row of an incarnation with the greatest sequence.\<close>

definition head_event :: "db \<Rightarrow> pystr \<Rightarrow> event option" where
  "head_event s i =
     (case sort_key e_sequence (filter (\<lambda>e. incarnation e = i) (row_events s)) of
        [] \<Rightarrow> None
      | es \<Rightarrow> Some (last es))"

definition head_of :: "event \<Rightarrow> head" where
  "head_of e = \<lparr>h_incarnation_id = incarnation e, h_max_sequence = e_sequence e,
                h_tip_event_id = e_id e, h_tip_hash = e_content_hash e\<rparr>"

definition head_val :: "head \<Rightarrow> val" where
  "head_val h =
     VDict [(VStr (str ''incarnation_id''), VStr (h_incarnation_id h)),
            (VStr (str ''max_sequence''), VInt (h_max_sequence h)),
            (VStr (str ''tip_event_id''), VStr (h_tip_event_id h)),
            (VStr (str ''tip_hash''), VStr (h_tip_hash h))]"

text \<open>\<^verbatim>\<open>_heads\<close>\<close>

definition heads :: "db \<Rightarrow> head list" where
  "heads s =
     map (\<lambda>i. head_of (the (head_event s i)))
       (sorted_list_of_set (incarnation ` set (row_events s)))"

section \<open>Dependencies\<close>

text \<open>The ids of a reference field: a string, or a raised error.\<close>

definition ref_of :: "val \<Rightarrow> pystr list res" where
  "ref_of v = (case v of VStr s \<Rightarrow> Inr [s] | _ \<Rightarrow> raise TypeError ''reference'')"

text \<open>\<^verbatim>\<open>if value is not None: dependencies.add(value)\<close>\<close>

definition opt_ref :: "val \<Rightarrow> pystr list res" where
  "opt_ref v = (if v = VNone then Inr [] else ref_of v)"

definition refs_in :: "val \<Rightarrow> string \<Rightarrow> pystr list res" where
  "refs_in rows k =
     bindR (iter_vals rows) (\<lambda>vs.
     bindR (mapR (\<lambda>v. bindR (subscript v k) ref_of) vs) (\<lambda>rs. Inr (concat rs)))"

definition at :: "dict \<Rightarrow> string list \<Rightarrow> val res" where
  "at d ks = path (VDict d) ks"

definition payload_refs :: "'a core_scheme \<Rightarrow> pystr list res" where
  "payload_refs e =
     (let k = e_kind e; d = e_payload e in
      if k = str ''adoption.decided'' then bindR (at d [''target_event_id'']) ref_of
      else if k = str ''projection.receipted'' then
        bindR (bindR (at d [''target_event_id'']) ref_of) (\<lambda>a.
        bindR (bindR (at d [''decision_event_id'']) ref_of) (\<lambda>b. Inr (a @ b)))
      else if k = str ''publication.requested'' then
        bindR (at d [''proposal'', ''source'', ''event_refs'']) (\<lambda>rows.
        bindR (refs_in rows ''event_id'') (\<lambda>a.
        bindR (at d [''proposal'', ''predecessor'']) (\<lambda>predecessor.
          if predecessor = VNone then Inr a
          else bindR (bindR (subscript predecessor ''acceptance_event_id'') ref_of) (\<lambda>b. Inr (a @ b)))))
      else if k = str ''publication.receipted'' then bindR (at d [''request_event_id'']) ref_of
      else if k = str ''matrix/species-release-application'' then
        bindR (at d [''previous_application'']) (\<lambda>predecessor.
          if predecessor = VNone then Inr [] else bindR (subscript predecessor ''event_id'') ref_of)
      else if k = str ''matrix/source-claim'' then bindR (at d [''previous_claim_event_id'']) opt_ref
      else if k = str ''matrix/source-assessment'' then
        bindR (at d [''previous_assessment_event_id'']) opt_ref
      else if k = str ''matrix/source-publication'' then
        bindR (bindR (at d [''publisher_claim_event_id'']) ref_of) (\<lambda>a.
        bindR (bindR (at d [''previous_publication_event_id'']) opt_ref) (\<lambda>b. Inr (a @ b)))
      else if k = str ''matrix/source-import-decision'' then
        bindR (at d [''previous_decision_event_id'']) opt_ref
      else if k = str ''collective.publication.requested'' then
        bindR (at d [''body'', ''source_refs'']) (\<lambda>rows. refs_in rows ''id'')
      else if k = str ''collective.publication.receipted'' then
        bindR (at d [''body'', ''request_event_id'']) ref_of
      else Inr [])"

definition dependencies_res :: "'a core_scheme \<Rightarrow> pystr set res" where
  "dependencies_res e =
     bindR (payload_refs e) (\<lambda>rs.
       Inr (set (e_parents e) \<union> set_option (e_previous e) \<union> set rs \<union> set_option (e_supersedes e)))"

text \<open>
  \<open>_dependencies\<close>, once \<open>dependencies_res\<close> is known not to raise; every operation that inserts an
  event runs \<open>dependencies_res\<close> on it first.
\<close>

definition dependencies :: "'a core_scheme \<Rightarrow> pystr set" where
  "dependencies e = (case dependencies_res e of Inr ds \<Rightarrow> ds | Inl _ \<Rightarrow> {})"

section \<open>Identity conflicts\<close>

definition equivocation_dict :: "(string \<times> val) list \<Rightarrow> dict" where
  "equivocation_dict fs =
     (VStr (str ''schema''), VStr (str ''dm.we.equivocation/v1'')) # map (\<lambda>(k, v). (VStr (str k), v)) fs"

definition event_conflict :: "string \<Rightarrow> event option \<Rightarrow> event \<Rightarrow> exc" where
  "event_conflict lane existing e =
     Equivocation (equivocation_dict
       [(''lane'', VStr (str lane)), (''incarnation_id'', VStr (incarnation e)),
        (''sequence'', VInt (e_sequence e)),
        (''existing_event_id'', opt_str (map_option e_id existing)),
        (''existing_content_hash'', opt_str (map_option e_content_hash existing)),
        (''presented_event_id'', VStr (e_id e)),
        (''presented_content_hash'', VStr (e_content_hash e))])"

text \<open>
  \<^verbatim>\<open>_check_conversation_identity\<close>: a row of either table with the id or the position of the
  event must be the event. (Of two conflicting rows the first is reported here.)
\<close>

definition same_identity :: "event \<Rightarrow> event \<Rightarrow> bool" where
  "same_identity e x = (e_id x = e_id e \<or> position x = position e)"

definition check_identity :: "platform \<Rightarrow> db \<Rightarrow> event \<Rightarrow> unit res" where
  "check_identity P s e =
     (case find (\<lambda>x. same_identity e x \<and> event_bytes P x \<noteq> event_bytes P e)
             (row_events s @ t_evidence s) of
        Some x \<Rightarrow> Inl (event_conflict ''conversation_identity'' (Some x) e)
      | None \<Rightarrow> Inr ())"

section \<open>Insertion, feeds and promotion\<close>

text \<open>The triggers: an event enters the known feed when it becomes known, and both feeds once.\<close>

definition feed_conversation :: "pystr \<Rightarrow> db \<Rightarrow> db" where
  "feed_conversation i s =
     s\<lparr>t_conversation_feed :=
         map_option (\<lambda>feed. if i \<in> set feed then feed else feed @ [i]) (t_conversation_feed s)\<rparr>"

definition feed_known :: "pystr \<Rightarrow> db \<Rightarrow> db" where
  "feed_known i s = feed_conversation i (s\<lparr>t_known_feed := t_known_feed s @ [i]\<rparr>)"

text \<open>\<^verbatim>\<open>_insert\<close>; the \<open>UNIQUE\<close> constraints of \<^verbatim>\<open>events\<close> raise \<^verbatim>\<open>IntegrityError\<close>.\<close>

definition insert_event :: "platform \<Rightarrow> event \<Rightarrow> pystr \<Rightarrow> bool \<Rightarrow> unit step" where
  "insert_event P e source known s =
     bindR (check_identity P s e) (\<lambda>_.
       if find_row s (e_id e) \<noteq> None \<or> find_position s (position e) \<noteq> None
         then raise IntegrityError ''UNIQUE constraint failed''
       else
         let s1 = s\<lparr>t_events := t_events s @ [\<lparr>r_event = e, r_known = known, r_source = source\<rparr>]\<rparr>;
             s2 = (if known then feed_known (e_id e) s1 else s1);
             s3 = s2\<lparr>t_dependencies := t_dependencies s2
                       @ map (\<lambda>p. (e_id e, p)) (sorted_list_of_set (dependencies e))\<rparr> in
         Inr ((), if known then s3\<lparr>t_evidence := filter (\<lambda>x. e_id x \<noteq> e_id e) (t_evidence s3)\<rparr>
                  else s3))"

text \<open>
  One round of \<^verbatim>\<open>_promote\<close>: the incomplete events all of whose dependency rows name known
  events, in the order of incarnation and sequence.
\<close>

definition promotable :: "db \<Rightarrow> event list" where
  "promotable s =
     sort_key position
       (map r_event
         (filter (\<lambda>r. \<not> r_known r
                    \<and> list_all (\<lambda>(i, p). i = e_id (r_event r) \<longrightarrow> p \<in> known_ids s) (t_dependencies s))
           (t_events s)))"

definition set_known :: "pystr list \<Rightarrow> db \<Rightarrow> db" where
  "set_known ids s =
     fold feed_known ids
       (s\<lparr>t_events := map (\<lambda>r. if e_id (r_event r) \<in> set ids then r\<lparr>r_known := True\<rparr> else r) (t_events s)\<rparr>)"

definition drop_known_evidence :: "db \<Rightarrow> db" where
  "drop_known_evidence s = s\<lparr>t_evidence := filter (\<lambda>x. e_id x \<notin> known_ids s) (t_evidence s)\<rparr>"

definition incomplete_count :: "db \<Rightarrow> nat" where
  "incomplete_count s = length (filter (\<lambda>r. \<not> r_known r) (t_events s))"

lemma t_events_fold_feed: "t_events (fold feed_known ids s) = t_events s"
  by (induction ids arbitrary: s) (auto simp: feed_known_def feed_conversation_def)

lemma t_events_set_known:
  "t_events (set_known ids s) =
     map (\<lambda>r. if e_id (r_event r) \<in> set ids then r\<lparr>r_known := True\<rparr> else r) (t_events s)"
  by (simp add: set_known_def t_events_fold_feed)

lemma incomplete_count_decreases:
  assumes "r \<in> set (t_events s)" and "\<not> r_known r" and "e_id (r_event r) \<in> set ids"
  shows "incomplete_count (set_known ids s) < incomplete_count s"
proof -
  let ?f = "\<lambda>r. if e_id (r_event r) \<in> set ids then r\<lparr>r_known := True\<rparr> else r"
  have le: "length (filter (\<lambda>r. \<not> r_known r) (map ?f rs)) \<le> length (filter (\<lambda>r. \<not> r_known r) rs)" for rs
    by (induction rs) auto
  have "length (filter (\<lambda>r. \<not> r_known r) (map ?f rs)) < length (filter (\<lambda>r. \<not> r_known r) rs)"
    if "r \<in> set rs" for rs
    using that
  proof (induction rs)
    case Nil
    then show ?case by simp
  next
    case (Cons q rs)
    show ?case
    proof (cases "q = r")
      case True
      with assms(2,3) le [of rs] show ?thesis by (simp add: less_Suc_eq_le)
    next
      case False
      with Cons show ?thesis by auto
    qed
  qed
  with assms(1) show ?thesis by (simp add: incomplete_count_def t_events_set_known)
qed

text \<open>The \<^verbatim>\<open>while True\<close> loop of \<^verbatim>\<open>_promote\<close> ends because each round that goes on promotes.\<close>

function promote :: "db \<Rightarrow> db" where
  "promote s =
     (let s1 = drop_known_evidence s; ready = map e_id (promotable s1) in
      if ready = [] then s1 else promote (set_known ready s1))"
  by pat_completeness auto

lemma promotable_row:
  "e \<in> set (promotable s) \<Longrightarrow> \<exists>r \<in> set (t_events s). \<not> r_known r \<and> r_event r = e"
  by (auto simp: promotable_def)

termination promote
proof (relation "measure incomplete_count", simp)
  fix s s1 ready
  assume s1: "s1 = drop_known_evidence s" and ready: "ready = map e_id (promotable s1)" "ready \<noteq> []"
  then obtain e where "e \<in> set (promotable s1)" by (cases "promotable s1") auto
  then obtain r where "r \<in> set (t_events s1)" "\<not> r_known r" "r_event r = e"
    using promotable_row by blast
  with ready(1) \<open>e \<in> set (promotable s1)\<close> have "incomplete_count (set_known ready s1) < incomplete_count s1"
    by (intro incomplete_count_decreases) auto
  then show "(set_known ready s1, s) \<in> measure incomplete_count"
    by (simp add: s1 incomplete_count_def drop_known_evidence_def)
qed

declare promote.simps [simp del]

section \<open>Initialization and authority epochs\<close>

definition schema_version :: nat where "schema_version = 3"

text \<open>\<^verbatim>\<open>getattr(authority, "accepted_manifest_hashes", (authority.manifest.digest,))\<close>\<close>

definition accepted_hashes :: "ledger \<Rightarrow> pystr list" where
  "accepted_hashes L =
     (case accepted_manifest_hashes (lg_authority L) of
        Some hs \<Rightarrow> hs
      | None \<Rightarrow> [mf_digest (authority_manifest (lg_authority L))])"

definition expected_metadata :: "ledger \<Rightarrow> metadata" where
  "expected_metadata L =
     (let mf = authority_manifest (lg_authority L) in
      \<lparr>md_accepted_manifest_hashes = accepted_hashes L, md_being_ref = mf_being_ref mf,
       md_local_embodiment_id = o_embodiment_id (lg_origin L), md_manifest_hash = mf_digest mf,
       md_schema_version = schema_version, md_root_bound = mf_root_bound mf\<rparr>)"

definition authority_epoch_advance :: "metadata \<Rightarrow> metadata \<Rightarrow> bool" where
  "authority_epoch_advance current expected =
     (let old = md_accepted_manifest_hashes current; new = md_accepted_manifest_hashes expected in
      md_being_ref current = md_being_ref expected
      \<and> md_local_embodiment_id current = md_local_embodiment_id expected
      \<and> md_root_bound current = md_root_bound expected
      \<and> md_schema_version current \<in> {1, 2, schema_version}
      \<and> sorted_wrt (<) old \<and> sorted_wrt (<) new
      \<and> set old \<subset> set new
      \<and> md_manifest_hash current \<in> set new \<and> md_manifest_hash expected \<in> set new
      \<and> md_manifest_hash current \<noteq> md_manifest_hash expected)"

text \<open>Every stored event is verified again under the new authority.\<close>

fun reverify :: "platform \<Rightarrow> authority \<Rightarrow> event list \<Rightarrow> unit res" where
  "reverify P A [] = Inr ()"
| "reverify P A (e # es) =
     (let failed = Exc LedgerStateError (str ''authority_epoch_event_verification_failed'') in
      bindR (wrapR (\<lambda>x. is_class TypeError x \<or> is_class WeaveProtocolError x) failed
               (verify_event P A (event_val e))) (\<lambda>v.
        if event_bytes P v \<noteq> event_bytes P e \<or> event_key v \<noteq> event_key e
           \<or> o_embodiment_id (e_origin v) \<noteq> o_embodiment_id (e_origin e)
           \<or> e_kind v \<noteq> e_kind e \<or> e_subject v \<noteq> e_subject e
           \<or> e_content_hash v \<noteq> e_content_hash e
          then Inl failed
        else reverify P A es))"

definition commit_authority_epoch :: "platform \<Rightarrow> ledger \<Rightarrow> metadata \<Rightarrow> unit step" where
  "commit_authority_epoch P L current s =
     bindR (reverify P (lg_authority L) (row_events s)) (\<lambda>_.
       let x = expected_metadata L in
       Inr ((), s\<lparr>t_metadata := Some (current\<lparr>
                     md_accepted_manifest_hashes := md_accepted_manifest_hashes x,
                     md_manifest_hash := md_manifest_hash x,
                     md_schema_version := md_schema_version x\<rparr>),
                 t_projection := None\<rparr>))"

definition initialize_metadata :: "platform \<Rightarrow> ledger \<Rightarrow> unit op" where
  "initialize_metadata P L s =
     (let expected = expected_metadata L in
      case t_metadata s of
        None \<Rightarrow> (Inr (), s\<lparr>t_metadata := Some expected\<rparr>)
      | Some current \<Rightarrow>
          if current = expected then (Inr (), s)
          else if current \<in> {expected\<lparr>md_schema_version := 1\<rparr>, expected\<lparr>md_schema_version := 2\<rparr>}
            then (Inr (), s\<lparr>t_metadata := Some (current\<lparr>md_schema_version := schema_version\<rparr>)\<rparr>)
          else if authority_epoch_advance current expected
            then transaction (commit_authority_epoch P L current) s
          else (raise LedgerStateError ''ledger_metadata_mismatch'', s))"

definition initialize_known_feed :: "ledger \<Rightarrow> db \<Rightarrow> db" where
  "initialize_known_feed L s =
     (case t_store_id s of
        Some _ \<Rightarrow> s
      | None \<Rightarrow>
          s\<lparr>t_store_id := Some (lg_new_store_id L),
            t_known_feed := t_known_feed s
              @ map (\<lambda>r. e_id (r_event r)) (filter r_known (t_events s))\<rparr>)"

definition initialize_conversation_feed :: "db \<Rightarrow> db" where
  "initialize_conversation_feed s =
     (case t_conversation_feed s of
        Some _ \<Rightarrow> s
      | None \<Rightarrow>
          fold feed_conversation (map e_id (sort_key event_key (t_evidence s)))
            (s\<lparr>t_conversation_feed := Some (t_known_feed s)\<rparr>))"

definition initialize :: "platform \<Rightarrow> ledger \<Rightarrow> unit op" where
  "initialize P L =
     bindO (initialize_metadata P L) (\<lambda>_ s.
       (Inr (), initialize_conversation_feed (initialize_known_feed L s)))"

section \<open>State hash and queries\<close>

definition state_domain :: string where "state_domain = ''daimon/ledger/state/v1''"

definition status_text :: "bool \<Rightarrow> val" where
  "status_text known = VStr (str (if known then ''known'' else ''incomplete''))"

definition state_hash :: "platform \<Rightarrow> ledger \<Rightarrow> db \<Rightarrow> pystr res" where
  "state_hash P L s =
     (let rows = sort_key (\<lambda>r. e_id (r_event r)) (t_events s) in
      bindR (canonical_bytes P (VDict
        [(VStr (str ''schema''), VStr (str ''dm.ledger-state/v1'')),
         (VStr (str ''active_manifest_hash''),
            VStr (mf_digest (authority_manifest (lg_authority L)))),
         (VStr (str ''accepted_manifest_hashes''), VList (map VStr (accepted_hashes L))),
         (VStr (str ''events''), VList (map (\<lambda>r. VDict
            [(VStr (str ''event_id''), VStr (e_id (r_event r))),
             (VStr (str ''content_hash''), VStr (e_content_hash (r_event r))),
             (VStr (str ''status''), status_text (r_known r))]) rows))])) (\<lambda>raw.
        Inr (sha256_hex (str state_domain @ [0] @ raw))))"

text \<open>\<^verbatim>\<open>events\<close> and \<^verbatim>\<open>event\<close>; the id of the latter is checked to be a UUID.\<close>

definition list_events :: "bool \<Rightarrow> db \<Rightarrow> event list" where
  "list_events include_incomplete s =
     sort_key event_key
       (map r_event (filter (\<lambda>r. include_incomplete \<or> r_known r) (t_events s)))"

definition get_event :: "pystr \<Rightarrow> bool \<Rightarrow> db \<Rightarrow> event option res" where
  "get_event i include_incomplete s =
     (if \<not> is_uuid i then raise LedgerError ''invalid_event_id''
      else Inr (case find_row s i of
          Some r \<Rightarrow> if include_incomplete \<or> r_known r then Some (r_event r) else None
        | None \<Rightarrow> None))"

record status_counts =
  sc_known_events :: nat
  sc_incomplete_events :: nat
  sc_peer_lanes :: nat
  sc_pending_rpc :: nat

definition status_counts_of :: "db \<Rightarrow> status_counts" where
  "status_counts_of s =
     \<lparr>sc_known_events = length (filter r_known (t_events s)),
      sc_incomplete_events = incomplete_count s, sc_peer_lanes = length (t_peers s),
      sc_pending_rpc = length (filter (\<lambda>(k, q). q_completed q = None) (t_rpc s))\<rparr>"

definition conversation_evidence :: "db \<Rightarrow> event list" where
  "conversation_evidence s = sort_key event_key (t_evidence s)"

definition peer_cursors :: "pystr option \<Rightarrow> db \<Rightarrow> ((pystr \<times> pystr) \<times> head) list" where
  "peer_cursors peer s =
     sort_key fst (filter (\<lambda>((p, i), h). peer = None \<or> peer = Some p) (t_cursors s))"

definition peer_sync_states :: "db \<Rightarrow> (pystr \<times> peer_row) list" where
  "peer_sync_states s = sort_key fst (t_peers s)"

definition list_equivocations :: "db \<Rightarrow> dict list" where
  "list_equivocations s = map (\<lambda>(h, (d, t)). d) (sort_key fst (t_equivocations s))"

section \<open>Equivocations and peer states\<close>

definition record_equivocation :: "platform \<Rightarrow> dict \<Rightarrow> int \<Rightarrow> unit step" where
  "record_equivocation P evidence now s =
     bindR (canonical_bytes P (VDict evidence)) (\<lambda>raw.
       let h = sha256_hex raw in
       Inr ((), if h \<in> fst ` set (t_equivocations s) then s
                else s\<lparr>t_equivocations := t_equivocations s @ [(h, (evidence, now))]\<rparr>))"

text \<open>\<^verbatim>\<open>except LedgerEquivocationError as e: self._record_equivocation(e.evidence); raise\<close>\<close>

definition recording :: "platform \<Rightarrow> int \<Rightarrow> 'a op \<Rightarrow> 'a op" where
  "recording P now m s =
     (case m s of
        (Inl (Equivocation evidence), t) \<Rightarrow>
          (case record_equivocation P evidence now t of
             Inl e \<Rightarrow> (Inl e, t)
           | Inr (_, u) \<Rightarrow> (Inl (Equivocation evidence), u))
      | r \<Rightarrow> r)"

definition set_peer_state ::
  "platform \<Rightarrow> ledger \<Rightarrow> pystr \<Rightarrow> peer_state \<Rightarrow> pystr option \<Rightarrow> int \<Rightarrow> unit op" where
  "set_peer_state P L source state error now =
     bindO (initialize P L) (\<lambda>_ s.
       (Inr (), s\<lparr>t_peers :=
          AList.update source \<lparr>p_state = state, p_error = error, p_updated_at_ms = now\<rparr> (t_peers s)\<rparr>))"

text \<open>
  The \<^verbatim>\<open>try\<close> of both ingest operations: the lane of the peer becomes coherent, or the failure
  is recorded and the lane quarantined or marked as having a gap. The clock is read for each record.
\<close>

definition raise_after :: "unit op \<Rightarrow> exc \<Rightarrow> 'a op" where
  "raise_after m e = bindO m (\<lambda>_. returnO (Inl e))"

definition tracked :: "platform \<Rightarrow> ledger \<Rightarrow> pystr \<Rightarrow> (nat \<Rightarrow> int) \<Rightarrow> 'a op \<Rightarrow> 'a op" where
  "tracked P L source clock m s =
     (case m s of
        (Inr x, t) \<Rightarrow> bindO (set_peer_state P L source Coherent None (clock 0)) (\<lambda>_. returnO (Inr x)) t
      | (Inl e, t) \<Rightarrow>
          (case e of
             Equivocation evidence \<Rightarrow>
               raise_after
                 (bindO (transaction (record_equivocation P evidence (clock 0)))
                    (\<lambda>_. set_peer_state P L source Quarantined (Some (exc_message e)) (clock 1))) e t
           | Exc c m \<Rightarrow>
               if c = LedgerGapError
                 then raise_after (set_peer_state P L source Gap (Some m) (clock 0)) e t
               else if c = WeaveProtocolError
                 then raise_after (set_peer_state P L source Quarantined (Some m) (clock 0)) e t
               else (Inl e, t)))"

section \<open>Local authoring\<close>

record authoring =
  au_kind :: pystr
  au_subject :: pystr
  au_payload :: dict
  au_sensitivity :: pystr
  au_parents :: "pystr list"
  au_supersedes :: "pystr option"
  au_occurred_at_ms :: "int option"
  au_event_id :: "pystr option"

definition draft_of :: "ledger \<Rightarrow> authoring \<Rightarrow> db \<Rightarrow> int \<Rightarrow> pystr \<Rightarrow> draft" where
  "draft_of L a s now uid =
     (let h = head_event s (o_incarnation_id (lg_origin L)) in
      \<lparr>d_event_id = (case au_event_id a of None \<Rightarrow> uid | Some i \<Rightarrow> i),
       d_sequence = (case h of None \<Rightarrow> 1 | Some e \<Rightarrow> e_sequence e + 1),
       d_previous = map_option e_id h,
       d_occurred_at_ms = (case au_occurred_at_ms a of None \<Rightarrow> now | Some t \<Rightarrow> t),
       d_parents = au_parents a, d_kind = au_kind a, d_subject = au_subject a,
       d_payload = au_payload a, d_supersedes = au_supersedes a, d_sensitivity = au_sensitivity a\<rparr>)"

definition append_step :: "platform \<Rightarrow> ledger \<Rightarrow> signer \<Rightarrow> authoring \<Rightarrow> int \<Rightarrow> pystr \<Rightarrow> event step" where
  "append_step P L sg a now uid s =
     bindR (create_event P (lg_authority L) (origin_dict (lg_origin L)) sg (draft_of L a s now uid)) (\<lambda>e.
     bindR (dependencies_res e) (\<lambda>ds.
       if \<not> ds \<subseteq> known_ids s then raise LedgerGapError ''local_causal_dependency_missing''
       else bindR (insert_event P e (str ''local'') True s) (\<lambda>(_, t). Inr (e, promote t))))"

definition append_local ::
  "platform \<Rightarrow> ledger \<Rightarrow> signer \<Rightarrow> authoring \<Rightarrow> int \<Rightarrow> pystr \<Rightarrow> event op" where
  "append_local P L sg a now uid =
     bindO (initialize P L) (\<lambda>_. transaction (append_step P L sg a now uid))"

definition validate_rpc_identity :: "pystr \<Rightarrow> pystr \<Rightarrow> pystr \<Rightarrow> unit res" where
  "validate_rpc_identity client_id request_id request_hash =
     bindR (encode_utf8 client_id) (\<lambda>raw.
       if \<not> (1 \<le> length raw \<and> length raw \<le> 128) then raise LedgerError ''invalid_rpc_client_id''
       else if \<not> is_uuid request_id then raise LedgerError ''invalid_rpc_request_id''
       else if \<not> is_hex64 request_hash then raise LedgerError ''invalid_rpc_request_hash''
       else Inr ())"

record operation =
  op_client_id :: pystr
  op_request_id :: pystr
  op_request_hash :: pystr

definition op_key :: "'a operation_scheme \<Rightarrow> pystr \<times> pystr" where
  "op_key r = (op_client_id r, op_request_id r)"

definition request_conflict :: "string \<Rightarrow> (string \<times> pystr) list \<Rightarrow> exc" where
  "request_conflict lane fs =
     Equivocation (equivocation_dict ((''lane'', VStr (str lane)) # map (\<lambda>(k, s). (k, VStr s)) fs))"

definition operation_conflict :: "string \<Rightarrow> 'a operation_scheme \<Rightarrow> pystr \<Rightarrow> exc" where
  "operation_conflict lane r existing =
     request_conflict lane [(''client_id'', op_client_id r), (''request_id'', op_request_id r),
       (''existing_request_hash'', existing), (''presented_request_hash'', op_request_hash r)]"

text \<open>\<open>clock k\<close> is the reading of the clock at the \<open>k\<close>th place where the operation takes one.\<close>

definition expired :: "int option \<Rightarrow> int \<Rightarrow> bool" where
  "expired horizon now = (case horizon of None \<Rightarrow> False | Some h \<Rightarrow> now \<ge> h)"

definition append_idempotent_step ::
  "platform \<Rightarrow> ledger \<Rightarrow> signer \<Rightarrow> authoring \<Rightarrow> operation \<Rightarrow> pystr option \<Rightarrow> int option
     \<Rightarrow> (nat \<Rightarrow> int) \<Rightarrow> pystr \<Rightarrow> event step" where
  "append_idempotent_step P L sg a r expected_state_hash horizon clock uid s =
     (case map_of (t_local_ops s) (op_key r) of
        Some (existing_hash, event_id) \<Rightarrow>
          if existing_hash \<noteq> op_request_hash r
            then Inl (operation_conflict ''local_operation'' r existing_hash)
          else (case find_row s event_id of
              None \<Rightarrow> raise LedgerStateError ''local_operation_event_missing''
            | Some row \<Rightarrow> Inr (r_event row, s))
      | None \<Rightarrow>
          if expired horizon (clock 0)
            then raise LedgerAuthoringExpired ''ledger_authoring_authority_expired''
          else bindR (case expected_state_hash of
                        None \<Rightarrow> Inr ()
                      | Some x \<Rightarrow> bindR (state_hash P L s) (\<lambda>h.
                          if h \<noteq> x then raise LedgerStateError ''ledger_state_changed'' else Inr ())) (\<lambda>_.
            bindR (append_step P L sg a (clock 1) uid s) (\<lambda>(e, t).
              let u = t\<lparr>t_local_ops := t_local_ops t @ [(op_key r, (op_request_hash r, e_id e))]\<rparr> in
              if expired horizon (clock 2)
                then raise LedgerAuthoringExpired ''ledger_authoring_authority_expired''
              else Inr (e, u))))"

definition append_local_idempotent ::
  "platform \<Rightarrow> ledger \<Rightarrow> signer \<Rightarrow> authoring \<Rightarrow> operation \<Rightarrow> pystr option \<Rightarrow> int option
     \<Rightarrow> (nat \<Rightarrow> int) \<Rightarrow> pystr \<Rightarrow> event op" where
  "append_local_idempotent P L sg a r expected_state_hash horizon clock uid =
     bindO (returnO (validate_rpc_identity (op_client_id r) (op_request_id r) (op_request_hash r))) (\<lambda>_.
       if (case horizon of None \<Rightarrow> False | Some h \<Rightarrow> \<not> (0 < h \<and> h < 2 ^ 53))
         then returnO (raise LedgerError ''invalid_authoring_effect_horizon'')
       else if (case expected_state_hash of None \<Rightarrow> False | Some x \<Rightarrow> \<not> is_hex64 x)
         then returnO (raise LedgerError ''invalid_expected_state_hash'')
       else bindO (initialize P L) (\<lambda>_.
         recording P (clock 3)
           (transaction (append_idempotent_step P L sg a r expected_state_hash horizon clock uid))))"

section \<open>The request journal\<close>

record rpc_call = operation +
  rc_method :: pystr

definition check_method :: "pystr \<Rightarrow> unit res" where
  "check_method m =
     bindR (encode_utf8 m) (\<lambda>raw.
       if \<not> (1 \<le> length raw \<and> length raw \<le> 128) then raise LedgerError ''invalid_rpc_method'' else Inr ())"

definition begin_rpc_step :: "rpc_call \<Rightarrow> int \<Rightarrow> dict option step" where
  "begin_rpc_step r now s =
     (case map_of (t_rpc s) (op_key r) of
        None \<Rightarrow>
          Inr (None, s\<lparr>t_rpc := t_rpc s @ [(op_key r,
                 \<lparr>q_request_hash = op_request_hash r, q_method = rc_method r, q_created_at_ms = now,
                  q_completed = None\<rparr>)]\<rparr>)
      | Some q \<Rightarrow>
          if q_request_hash q \<noteq> op_request_hash r \<or> q_method q \<noteq> rc_method r
            then Inl (operation_conflict ''rpc_request'' r (q_request_hash q))
          else Inr (map_option fst (q_completed q), s))"

definition begin_rpc :: "platform \<Rightarrow> ledger \<Rightarrow> rpc_call \<Rightarrow> (nat \<Rightarrow> int) \<Rightarrow> dict option op" where
  "begin_rpc P L r clock =
     bindO (returnO (validate_rpc_identity (op_client_id r) (op_request_id r) (op_request_hash r))) (\<lambda>_.
     bindO (returnO (check_method (rc_method r))) (\<lambda>_.
     bindO (initialize P L) (\<lambda>_.
       recording P (clock 1) (transaction (begin_rpc_step r (clock 0))))))"

definition rpc_request_matches :: "platform \<Rightarrow> ledger \<Rightarrow> rpc_call \<Rightarrow> bool op" where
  "rpc_request_matches P L r =
     bindO (returnO (validate_rpc_identity (op_client_id r) (op_request_id r) (op_request_hash r))) (\<lambda>_.
     bindO (initialize P L) (\<lambda>_ s.
       (Inr (case map_of (t_rpc s) (op_key r) of
               None \<Rightarrow> False
             | Some q \<Rightarrow> q_request_hash q = op_request_hash r \<and> q_method q = rc_method r), s)))"

definition finish_rpc_step :: "rpc_call \<Rightarrow> dict \<Rightarrow> int \<Rightarrow> dict step" where
  "finish_rpc_step r response now s =
     (case map_of (t_rpc s) (op_key r) of
        None \<Rightarrow> raise LedgerStateError ''rpc_request_not_started''
      | Some q \<Rightarrow>
          if q_request_hash q \<noteq> op_request_hash r \<or> q_method q \<noteq> rc_method r
            then Inl (operation_conflict ''rpc_request'' r (q_request_hash q))
          else (case q_completed q of
              Some (stored, _) \<Rightarrow> Inr (stored, s)
            | None \<Rightarrow>
                Inr (response,
                     s\<lparr>t_rpc := AList.update (op_key r) (q\<lparr>q_completed := Some (response, now)\<rparr>) (t_rpc s)\<rparr>)))"

definition finish_rpc :: "platform \<Rightarrow> ledger \<Rightarrow> rpc_call \<Rightarrow> dict \<Rightarrow> (nat \<Rightarrow> int) \<Rightarrow> dict op" where
  "finish_rpc P L r response clock =
     bindO (returnO (validate_rpc_identity (op_client_id r) (op_request_id r) (op_request_hash r))) (\<lambda>_.
     bindO (returnO (canonical_bytes P (VDict response))) (\<lambda>_.
     bindO (initialize P L) (\<lambda>_.
       recording P (clock 1) (transaction (finish_rpc_step r response (clock 0))))))"

definition rpc_requests :: "db \<Rightarrow> ((pystr \<times> pystr) \<times> rpc_row) list" where
  "rpc_requests s = sort_key fst (t_rpc s)"

section \<open>Conversation evidence\<close>

definition evidence_max_bytes :: nat where "evidence_max_bytes = 64 * 1024 * 1024"

definition evidence_max_events :: nat where "evidence_max_events = 10000"

definition retain_one :: "platform \<Rightarrow> event \<Rightarrow> db \<Rightarrow> db res" where
  "retain_one P e s =
     bindR (check_identity P s e) (\<lambda>_.
       if e_id e \<in> known_ids s \<or> e_id e \<in> e_id ` set (t_evidence s) then Inr s
       else if length (t_evidence s) \<ge> evidence_max_events
               \<or> sum_list (map (\<lambda>x. length (event_bytes P x)) (t_evidence s)) + length (event_bytes P e)
                   > evidence_max_bytes
         then raise LedgerError ''conversation_evidence_capacity''
       else if position e \<in> position ` set (t_evidence s)
         then raise IntegrityError ''UNIQUE constraint failed''
       else Inr (feed_conversation (e_id e) (s\<lparr>t_evidence := t_evidence s @ [e]\<rparr>)))"

definition retain_conversation_evidence ::
  "platform \<Rightarrow> ledger \<Rightarrow> val list \<Rightarrow> (nat \<Rightarrow> int) \<Rightarrow> unit op" where
  "retain_conversation_evidence P L vs clock =
     bindO (returnO
       (if \<not> (1 \<le> length vs \<and> length vs \<le> 3)
          then raise LedgerError ''conversation_evidence_page_invalid''
        else bindR (page_bytes P vs) (\<lambda>raw.
          if length raw > max_page_bytes then raise LedgerError ''conversation_evidence_page_invalid''
          else bindR (mapR (verify_event P (lg_authority L)) vs) (\<lambda>es.
            if list_ex (\<lambda>e. e_kind e \<noteq> str ''experience.observed''
                          \<or> e_subject e \<notin> str ` {''communication'', ''communication-resolution'',
                                                ''communication-receipt''}) es
              then raise LedgerError ''conversation_evidence_subject_invalid''
            else Inr es)))) (\<lambda>es.
     bindO (initialize P L) (\<lambda>_.
       recording P (clock 0)
         (transaction (\<lambda>s. bindR (foldR (retain_one P) es s) (\<lambda>t. Inr ((), t))))))"

section \<open>Planning a page\<close>

definition ordered_page :: "platform \<Rightarrow> ledger \<Rightarrow> val list \<Rightarrow> event list res" where
  "ordered_page P L vs =
     (if length vs > max_page_events then raise WeaveProtocolError ''delta_page_too_large''
      else bindR (page_bytes P vs) (\<lambda>raw.
        if length raw > max_page_bytes then raise WeaveProtocolError ''delta_page_too_large''
        else bindR (mapR (verify_event P (lg_authority L)) vs) (\<lambda>es.
          if \<not> sorted (map event_key es) then raise WeaveProtocolError ''delta_page_not_sorted''
          else if \<not> distinct (map e_id es) then raise WeaveProtocolError ''duplicate_page_event''
          else Inr es)))"

text \<open>
  The loop of \<^verbatim>\<open>_plan\<close>. \<open>ps_missing\<close> also answers for \<^verbatim>\<open>staged_positions\<close>, which holds exactly
  the missing events by position.
\<close>

record plan_state =
  ps_missing :: "event list"
  ps_heads :: "(pystr \<times> (int \<times> pystr option)) list"

definition staged_head :: "db \<Rightarrow> plan_state \<Rightarrow> pystr \<Rightarrow> int \<times> pystr option" where
  "staged_head s ps i =
     (case map_of (ps_heads ps) i of
        Some h \<Rightarrow> h
      | None \<Rightarrow> (case head_event s i of None \<Rightarrow> (0, None) | Some e \<Rightarrow> (e_sequence e, Some (e_id e))))"

definition plan_step :: "platform \<Rightarrow> db \<Rightarrow> event \<Rightarrow> plan_state \<Rightarrow> plan_state res" where
  "plan_step P s e ps =
     bindR (check_identity P s e) (\<lambda>_.
       case find_row s (e_id e) of
         Some r \<Rightarrow>
           if e_content_hash (r_event r) \<noteq> e_content_hash e \<or> position (r_event r) \<noteq> position e
              \<or> event_bytes P (r_event r) \<noteq> event_bytes P e
             then Inl (event_conflict ''event_id'' (Some (r_event r)) e)
           else Inr ps
       | None \<Rightarrow>
         (case find (\<lambda>m. position m = position e) (ps_missing ps) of
            Some m \<Rightarrow> Inl (event_conflict ''origin_sequence'' (Some m) e)
          | None \<Rightarrow>
            (case find_position s (position e) of
               Some r \<Rightarrow> Inl (event_conflict ''origin_sequence'' (Some (r_event r)) e)
             | None \<Rightarrow>
                 let (last_sequence, last_id) = staged_head s ps (incarnation e) in
                 if e_sequence e \<noteq> last_sequence + 1 \<or> e_previous e \<noteq> last_id
                   then raise LedgerGapError ''origin_sequence_gap''
                 else Inr \<lparr>ps_missing = ps_missing ps @ [e],
                           ps_heads = AList.update (incarnation e) (e_sequence e, Some (e_id e))
                                        (ps_heads ps)\<rparr>)))"

text \<open>The loop that predicts which of the missing events stay incomplete.\<close>

function settle :: "pystr set \<Rightarrow> event list \<Rightarrow> event list" where
  "settle available pending =
     (let ready = filter (\<lambda>e. dependencies e \<subseteq> available) pending in
      if ready = [] then pending
      else settle (available \<union> e_id ` set ready) (filter (\<lambda>e. \<not> dependencies e \<subseteq> available) pending))"
  by pat_completeness auto

termination settle
proof (relation "measure (\<lambda>(_, pending). length pending)", simp)
  fix available :: "pystr set" and pending ready :: "event list"
  assume "ready = filter (\<lambda>e. dependencies e \<subseteq> available) pending" and "ready \<noteq> []"
  then obtain e where "e \<in> set pending" "dependencies e \<subseteq> available"
    by (auto simp: filter_empty_conv)
  then have "length (filter (\<lambda>e. \<not> dependencies e \<subseteq> available) pending) < length pending"
    by (intro length_filter_less) auto
  then show "((available \<union> e_id ` set ready, filter (\<lambda>e. \<not> dependencies e \<subseteq> available) pending),
      available, pending) \<in> measure (\<lambda>(_, pending). length pending)" by simp
qed

declare settle.simps [simp del]

definition plan :: "platform \<Rightarrow> ledger \<Rightarrow> db \<Rightarrow> val list \<Rightarrow> (event list \<times> event list \<times> nat) res" where
  "plan P L s vs =
     bindR (ordered_page P L vs) (\<lambda>validated.
     bindR (foldR (plan_step P s) validated \<lparr>ps_missing = [], ps_heads = []\<rparr>) (\<lambda>ps.
     bindR (mapR dependencies_res (ps_missing ps)) (\<lambda>_.
       Inr (validated, ps_missing ps, length (settle (known_ids s) (ps_missing ps))))))"

record preview =
  pv_manifest_hash :: pystr
  pv_received :: nat
  pv_missing :: nat
  pv_incomplete :: nat
  pv_event_ids :: "pystr list"

definition preview_of :: "platform \<Rightarrow> ledger \<Rightarrow> val list \<Rightarrow> preview op" where
  "preview_of P L vs =
     bindO (initialize P L) (\<lambda>_ s.
       (bindR (plan P L s vs) (\<lambda>(_, missing, incomplete).
          Inr \<lparr>pv_manifest_hash = mf_digest (authority_manifest (lg_authority L)),
               pv_received = length vs, pv_missing = length missing, pv_incomplete = incomplete,
               pv_event_ids = map e_id missing\<rparr>), s))"

section \<open>Ingestion\<close>

definition check_peer_id :: "pystr \<Rightarrow> unit res" where
  "check_peer_id source =
     bindR (encode_utf8 source) (\<lambda>raw.
       if \<not> (1 \<le> length raw \<and> length raw \<le> 256) then raise LedgerError ''invalid_peer_id'' else Inr ())"

definition insert_missing ::
  "platform \<Rightarrow> pystr \<Rightarrow> event \<Rightarrow> pystr set \<times> db \<Rightarrow> (pystr set \<times> db) res" where
  "insert_missing P source e st =
     (case st of (available, s) \<Rightarrow>
        let known = dependencies e \<subseteq> available in
        bindR (insert_event P e source known s) (\<lambda>(_, t).
          Inr (if known then insert (e_id e) available else available, t)))"

definition advance_cursor :: "pystr \<Rightarrow> event \<Rightarrow> db \<Rightarrow> db" where
  "advance_cursor source e s =
     (let k = (source, incarnation e) in
      case map_of (t_cursors s) k of
        Some h \<Rightarrow>
          if e_sequence e > h_max_sequence h
            then s\<lparr>t_cursors := AList.update k (head_of e) (t_cursors s)\<rparr> else s
      | None \<Rightarrow> s\<lparr>t_cursors := t_cursors s @ [(k, head_of e)]\<rparr>)"

text \<open>What both ingest operations do once the page is planned: insert, promote, advance cursors.\<close>

definition apply_page :: "platform \<Rightarrow> pystr \<Rightarrow> event list \<Rightarrow> event list \<Rightarrow> db \<Rightarrow> db res" where
  "apply_page P source validated missing s =
     bindR (foldR (insert_missing P source) missing (known_ids s, s)) (\<lambda>(_, t).
       Inr (fold (advance_cursor source) validated (promote t)))"

definition ingest_step ::
  "platform \<Rightarrow> ledger \<Rightarrow> pystr \<Rightarrow> val list \<Rightarrow> event list step" where
  "ingest_step P L source vs s =
     bindR (plan P L s vs) (\<lambda>(validated, missing, _).
     bindR (apply_page P source validated missing s) (\<lambda>t. Inr (missing, t)))"

definition ingest :: "platform \<Rightarrow> ledger \<Rightarrow> val list \<Rightarrow> pystr \<Rightarrow> (nat \<Rightarrow> int) \<Rightarrow> preview op" where
  "ingest P L vs source clock =
     bindO (returnO (check_peer_id source)) (\<lambda>_.
     bindO (initialize P L) (\<lambda>_.
     bindO (tracked P L source clock (transaction (ingest_step P L source vs))) (\<lambda>missing.
     bindO (preview_of P L vs) (\<lambda>pv s.
       (Inr (pv\<lparr>pv_missing := length missing, pv_event_ids := map e_id missing,
                pv_incomplete := incomplete_count s\<rparr>), s)))))"

definition receipt_domain :: string where "receipt_domain = ''daimon/weave/sync-receipt/v1''"

text \<open>\<^verbatim>\<open>{**base, "k": v, ...}\<close>\<close>

definition dict_with :: "dict \<Rightarrow> (string \<times> val) list \<Rightarrow> dict" where
  "dict_with base fs = fold (\<lambda>(k, v). AList.update (VStr (str k)) v) fs base"

definition receipt_core :: "receipt \<Rightarrow> dict" where
  "receipt_core r =
     dict_with (rt_base r)
       [(''received'', VInt (int (rt_received r))), (''inserted'', VInt (int (rt_inserted r))),
        (''replayed'', VInt (int (rt_replayed r))), (''incomplete'', VInt (int (rt_incomplete r))),
        (''achieved_heads'', VList (map head_val (rt_achieved_heads r))),
        (''completed_at_ms'', VInt (rt_completed_at_ms r))]"

definition receipt_dict :: "receipt \<Rightarrow> dict" where
  "receipt_dict r = dict_with (receipt_core r) [(''receipt_hash'', VStr (rt_hash r))]"

definition ingest_idempotent_step ::
  "platform \<Rightarrow> ledger \<Rightarrow> val list \<Rightarrow> pystr \<Rightarrow> pystr \<Rightarrow> pystr \<Rightarrow> dict \<Rightarrow> int \<Rightarrow> receipt step" where
  "ingest_idempotent_step P L vs source request_id page_hash receipt_base now s =
     (case map_of (t_inbound s) (source, request_id) of
        Some (existing_hash, r) \<Rightarrow>
          if existing_hash \<noteq> page_hash
            then Inl (request_conflict ''sync_page''
                   [(''peer_id'', source), (''request_id'', request_id),
                    (''existing_page_hash'', existing_hash), (''presented_page_hash'', page_hash)])
          else Inr (r, s)
      | None \<Rightarrow>
          bindR (plan P L s vs) (\<lambda>(validated, missing, _).
            if list_ex (\<lambda>e. case map_of (t_cursors s) (source, incarnation e) of
                   None \<Rightarrow> e_sequence e < 0 | Some h \<Rightarrow> e_sequence e < h_max_sequence h) validated
              then raise LedgerError ''peer_cursor_regression''
            else bindR (apply_page P source validated missing s) (\<lambda>t.
              let r = \<lparr>rt_base = receipt_base, rt_received = length validated,
                       rt_inserted = length missing,
                       rt_replayed = length validated - length missing,
                       rt_incomplete = incomplete_count t, rt_achieved_heads = heads t,
                       rt_completed_at_ms = now, rt_hash = []\<rparr> in
              bindR (canonical_bytes P (VDict (receipt_core r))) (\<lambda>raw.
                let r' = r\<lparr>rt_hash := sha256_hex (str receipt_domain @ [0] @ raw)\<rparr> in
                bindR (canonical_bytes P (VDict (receipt_dict r'))) (\<lambda>_.
                  Inr (r', t\<lparr>t_inbound := t_inbound t @ [((source, request_id), (page_hash, r'))]\<rparr>))))))"

definition ingest_idempotent ::
  "platform \<Rightarrow> ledger \<Rightarrow> val list \<Rightarrow> pystr \<Rightarrow> pystr \<Rightarrow> pystr \<Rightarrow> dict \<Rightarrow> (nat \<Rightarrow> int) \<Rightarrow> receipt op" where
  "ingest_idempotent P L vs source request_id page_hash receipt_base clock =
     bindO (returnO (check_peer_id source)) (\<lambda>_.
     bindO (initialize P L) (\<lambda>_.
       tracked P L source (\<lambda>i. clock (i + 1))
         (transaction (ingest_idempotent_step P L vs source request_id page_hash receipt_base (clock 0)))))"

section \<open>Serving a delta\<close>

text \<open>The validation loop of \<^verbatim>\<open>_remote_sequences\<close>.\<close>

fun remote_head_rows :: "val list \<Rightarrow> head list \<Rightarrow> head list res" where
  "remote_head_rows [] seen = Inr seen"
| "remote_head_rows (v # vs) seen =
     (let e = ledger_error ''invalid_remote_head'' in
      bindR (closed_dict e [''incarnation_id'', ''max_sequence'', ''tip_event_id'', ''tip_hash''] v) (\<lambda>d.
        case item d ''incarnation_id'' of
          VStr i \<Rightarrow>
            bindR (encode_utf8 i) (\<lambda>raw.
              if \<not> (1 \<le> length raw \<and> length raw \<le> 256) then Inl e
              else bindR (uint_check e 1 (item d ''max_sequence'')) (\<lambda>n.
                if \<not> is_str (item d ''tip_event_id'') then Inl e
                else bindR (hash_check e (item d ''tip_hash'')) (\<lambda>h.
                bindR (uuid_check e (item d ''tip_event_id'')) (\<lambda>t.
                  if i \<in> h_incarnation_id ` set seen then raise LedgerError ''duplicate_remote_head''
                  else remote_head_rows vs
                         (seen @ [\<lparr>h_incarnation_id = i, h_max_sequence = n, h_tip_event_id = t,
                                  h_tip_hash = h\<rparr>])))))
        | _ \<Rightarrow> Inl e))"

definition head_conflict :: "event \<Rightarrow> head \<Rightarrow> exc" where
  "head_conflict e h =
     Equivocation (equivocation_dict
       [(''lane'', VStr (str ''remote_head'')), (''incarnation_id'', VStr (h_incarnation_id h)),
        (''sequence'', VInt (h_max_sequence h)), (''existing_event_id'', VStr (e_id e)),
        (''existing_content_hash'', VStr (e_content_hash e)),
        (''presented_event_id'', VStr (h_tip_event_id h)),
        (''presented_content_hash'', VStr (h_tip_hash h))])"

fun check_remote_heads :: "db \<Rightarrow> head list \<Rightarrow> unit res" where
  "check_remote_heads s [] = Inr ()"
| "check_remote_heads s (h # hs) =
     (case find_position s (h_incarnation_id h, h_max_sequence h) of
        Some r \<Rightarrow>
          if e_id (r_event r) \<noteq> h_tip_event_id h \<or> e_content_hash (r_event r) \<noteq> h_tip_hash h
            then Inl (head_conflict (r_event r) h)
          else check_remote_heads s hs
      | None \<Rightarrow> check_remote_heads s hs)"

definition remote_sequences :: "db \<Rightarrow> val list \<Rightarrow> (pystr \<times> int) list res" where
  "remote_sequences s remote_heads =
     (if length remote_heads > 256 then raise LedgerError ''too_many_remote_heads''
      else bindR (remote_head_rows remote_heads []) (\<lambda>hs.
        if \<not> sorted (map h_incarnation_id hs) then raise LedgerError ''remote_heads_not_sorted''
        else bindR (check_remote_heads s hs) (\<lambda>_.
          Inr (map (\<lambda>h. (h_incarnation_id h, h_max_sequence h)) hs))))"

definition remote_sequence :: "(pystr \<times> int) list \<Rightarrow> pystr \<Rightarrow> int" where
  "remote_sequence remote i = (case map_of remote i of None \<Rightarrow> 0 | Some n \<Rightarrow> n)"

fun delta_events ::
  "platform \<Rightarrow> (pystr \<times> int) list \<Rightarrow> nat \<Rightarrow> event list \<Rightarrow> event list \<Rightarrow> (event list \<times> bool) res" where
  "delta_events P remote limit [] result = Inr (result, False)"
| "delta_events P remote limit (e # es) result =
     (if e_sequence e \<le> remote_sequence remote (incarnation e)
        then delta_events P remote limit es result
      else if length result = limit then Inr (result, True)
      else bindR (page_bytes P (map event_val (result @ [e]))) (\<lambda>raw.
        if length raw > max_page_bytes then Inr (result, True)
        else delta_events P remote limit es (result @ [e])))"

definition delta_page ::
  "platform \<Rightarrow> db \<Rightarrow> (pystr \<times> int) list \<Rightarrow> nat \<Rightarrow> (event list \<times> bool) res" where
  "delta_page P s remote limit = delta_events P remote limit (list_events True s) []"

definition delta :: "platform \<Rightarrow> ledger \<Rightarrow> val list \<Rightarrow> nat \<Rightarrow> event list op" where
  "delta P L remote_heads limit =
     (if \<not> (1 \<le> limit \<and> limit \<le> max_page_events)
        then returnO (raise LedgerError ''invalid_delta_limit'')
      else bindO (initialize P L) (\<lambda>_ s.
        (bindR (remote_sequences s remote_heads) (\<lambda>remote.
         bindR (delta_page P s remote limit) (\<lambda>(es, _). Inr es)), s)))"

definition page_dict :: "page \<Rightarrow> dict" where
  "page_dict pg =
     [(VStr (str ''events''), VList (map event_val (pg_events pg))),
      (VStr (str ''more''), VBool (pg_more pg)),
      (VStr (str ''offered_heads''), VList (map head_val (pg_offered_heads pg)))]"

definition delta_idempotent_step ::
  "platform \<Rightarrow> pystr \<Rightarrow> pystr \<Rightarrow> val list \<Rightarrow> nat \<Rightarrow> page step" where
  "delta_idempotent_step P request_id request_hash remote_heads limit s =
     (case map_of (t_outbound s) request_id of
        Some (existing, pg) \<Rightarrow>
          if existing \<noteq> request_hash
            then Inl (request_conflict ''sync_request''
                   [(''request_id'', request_id), (''existing_request_hash'', existing),
                    (''presented_request_hash'', request_hash)])
          else Inr (pg, s)
      | None \<Rightarrow>
          bindR (remote_sequences s remote_heads) (\<lambda>remote.
          bindR (delta_page P s remote limit) (\<lambda>(es, more).
            let pg = \<lparr>pg_events = es, pg_more = more, pg_offered_heads = heads s\<rparr> in
            bindR (canonical_bytes P (VDict (page_dict pg))) (\<lambda>_.
              Inr (pg, s\<lparr>t_outbound := t_outbound s @ [(request_id, (request_hash, pg))]\<rparr>)))))"

definition delta_idempotent ::
  "platform \<Rightarrow> ledger \<Rightarrow> pystr \<Rightarrow> pystr \<Rightarrow> val list \<Rightarrow> nat \<Rightarrow> int \<Rightarrow> page op" where
  "delta_idempotent P L request_id request_hash remote_heads limit now =
     bindO (initialize P L) (\<lambda>_.
       recording P now (transaction (delta_idempotent_step P request_id request_hash remote_heads limit)))"

section \<open>Issued requests and the projection cache\<close>

definition issued_request :: "pystr \<Rightarrow> db \<Rightarrow> (pystr \<times> dict) option" where
  "issued_request request_id s = map_of (t_issued s) request_id"

definition store_issued_step :: "platform \<Rightarrow> pystr \<Rightarrow> pystr \<Rightarrow> dict \<Rightarrow> dict step" where
  "store_issued_step P request_id request_hash request s =
     (case map_of (t_issued s) request_id of
        Some (existing, stored) \<Rightarrow>
          if existing \<noteq> request_hash
             \<or> canonical_bytes P (VDict stored) \<noteq> canonical_bytes P (VDict request)
            then Inl (request_conflict ''issued_sync_request''
                   [(''request_id'', request_id), (''existing_request_hash'', existing),
                    (''presented_request_hash'', request_hash)])
          else Inr (stored, s)
      | None \<Rightarrow>
          Inr (request, s\<lparr>t_issued := t_issued s @ [(request_id, (request_hash, request))]\<rparr>))"

definition store_issued_request ::
  "platform \<Rightarrow> ledger \<Rightarrow> pystr \<Rightarrow> pystr \<Rightarrow> dict \<Rightarrow> int \<Rightarrow> dict op" where
  "store_issued_request P L request_id request_hash request now =
     bindO (returnO (canonical_bytes P (VDict request))) (\<lambda>_.
     bindO (initialize P L) (\<lambda>_.
       recording P now (transaction (store_issued_step P request_id request_hash request))))"

definition replace_projection_cache :: "platform \<Rightarrow> ledger \<Rightarrow> dict \<Rightarrow> unit op" where
  "replace_projection_cache P L snapshot =
     bindO (returnO (canonical_bytes P (VDict snapshot))) (\<lambda>_.
       case dget snapshot ''projection_hash'' of
         Some (VStr h) \<Rightarrow>
           bindO (initialize P L) (\<lambda>_ s. (Inr (), s\<lparr>t_projection := Some (h, snapshot)\<rparr>))
       | _ \<Rightarrow> returnO (raise LedgerError ''invalid_projection_snapshot''))"

definition projection_cache :: "platform \<Rightarrow> ledger \<Rightarrow> dict option op" where
  "projection_cache P L =
     bindO (initialize P L) (\<lambda>_ s. (Inr (map_option snd (t_projection s)), s))"

section \<open>Reading by intake order\<close>

definition feed_of :: "bool \<Rightarrow> db \<Rightarrow> pystr list" where
  "feed_of conversation s =
     (if conversation then (case t_conversation_feed s of Some f \<Rightarrow> f | None \<Rightarrow> [])
      else t_known_feed s)"

text \<open>The event a feed entry names: the event view of the query.\<close>

definition view_event :: "bool \<Rightarrow> db \<Rightarrow> pystr \<Rightarrow> event option" where
  "view_event conversation s i =
     (case find_row s i of
        Some r \<Rightarrow>
          if \<not> conversation \<or> r_known r then Some (r_event r)
          else find (\<lambda>e. e_id e = i) (t_evidence s)
      | None \<Rightarrow> if conversation then find (\<lambda>e. e_id e = i) (t_evidence s) else None)"

definition encode_cursor ::
  "platform \<Rightarrow> bool \<Rightarrow> pystr \<Rightarrow> nat \<Rightarrow> event option \<Rightarrow> pystr res" where
  "encode_cursor P conversation store n e =
     bindR (canonical_bytes P (VDict
       [(VStr (str ''schema''), VStr (str (if conversation then ''dm.we.conversation-cursor/v1''
                                          else ''dm.we.known-cursor/v1''))),
        (VStr (str ''store_id''), VStr store), (VStr (str ''position''), VInt (int n)),
        (VStr (str ''event_id''), opt_str (map_option e_id e)),
        (VStr (str ''content_hash''), opt_str (map_option e_content_hash e))])) (\<lambda>raw.
       Inr (b64url raw))"

text \<open>\<^verbatim>\<open>_known_cursor\<close>\<close>

definition cursor_at :: "platform \<Rightarrow> bool \<Rightarrow> db \<Rightarrow> nat \<Rightarrow> pystr res" where
  "cursor_at P conversation s n =
     (let store = (case t_store_id s of Some i \<Rightarrow> i | None \<Rightarrow> []) in
      if n = 0 then encode_cursor P conversation store 0 None
      else if n > length (feed_of conversation s) then raise LedgerError ''invalid_known_cursor''
      else (case view_event conversation s (feed_of conversation s ! (n - 1)) of
          None \<Rightarrow> raise LedgerError ''invalid_known_cursor''
        | Some e \<Rightarrow> encode_cursor P conversation store n (Some e)))"

text \<open>
  The code decodes a cursor, checks its form and then compares the whole cursor with the one of
  its position; so it accepts exactly the cursors of positions, which is how it is read here.
\<close>

definition position_of_cursor :: "platform \<Rightarrow> bool \<Rightarrow> db \<Rightarrow> pystr \<Rightarrow> nat option" where
  "position_of_cursor P conversation s cursor =
     find (\<lambda>n. cursor_at P conversation s n = Inr cursor) [0..<Suc (length (feed_of conversation s))]"

definition decode_cursor :: "platform \<Rightarrow> bool \<Rightarrow> db \<Rightarrow> pystr \<Rightarrow> nat res" where
  "decode_cursor P conversation s cursor =
     (let bad = raise LedgerError ''invalid_known_cursor'' in
      if \<not> (1 \<le> length cursor \<and> length cursor \<le> 768) then bad
      else (case position_of_cursor P conversation s cursor of
          Some n \<Rightarrow> Inr n
        | None \<Rightarrow>
            if \<not> conversation then bad
            else (case position_of_cursor P False s cursor of
                None \<Rightarrow> bad
              | Some 0 \<Rightarrow> Inr 0
              | Some (Suc n) \<Rightarrow>
                  (case find (\<lambda>k. feed_of True s ! k = t_known_feed s ! n)
                          [0..<length (feed_of True s)] of
                     None \<Rightarrow> bad
                   | Some k \<Rightarrow> Inr (Suc k)))))"

fun take_page :: "platform \<Rightarrow> (nat \<times> event) list \<Rightarrow> nat \<Rightarrow> (nat \<times> event) list \<Rightarrow> (nat \<times> event) list" where
  "take_page P [] sz taken = taken"
| "take_page P ((n, e) # rows) sz taken =
     (let k = length (event_bytes P e) in
      if taken \<noteq> [] \<and> sz + k > max_page_bytes then taken
      else take_page P rows (sz + k) (taken @ [(n, e)]))"

record intake_page =
  ip_cursor :: pystr
  ip_events :: "event list"
  ip_more :: bool

definition intake_rows :: "bool \<Rightarrow> db \<Rightarrow> nat \<Rightarrow> (nat \<times> event) list" where
  "intake_rows conversation s n =
     concat (map (\<lambda>k. case view_event conversation s (feed_of conversation s ! k) of
                        None \<Rightarrow> [] | Some e \<Rightarrow> [(Suc k, e)])
              [n..<length (feed_of conversation s)])"

definition read_page :: "platform \<Rightarrow> bool \<Rightarrow> pystr option \<Rightarrow> nat \<Rightarrow> db \<Rightarrow> intake_page res" where
  "read_page P conversation cursor limit s =
     bindR (case cursor of
              None \<Rightarrow> Inr 0
            | Some c \<Rightarrow>
                if c = str ''tail'' then Inr (length (feed_of conversation s))
                else decode_cursor P conversation s c) (\<lambda>start.
       let rows = take (limit + 1) (intake_rows conversation s start);
           taken = take_page P (take limit rows) 0 [];
           last_position = (if taken = [] then start else fst (last taken)) in
       bindR (cursor_at P conversation s last_position) (\<lambda>c.
         Inr \<lparr>ip_cursor = c, ip_events = map snd taken, ip_more = length rows > length taken\<rparr>))"

definition intake :: "platform \<Rightarrow> ledger \<Rightarrow> bool \<Rightarrow> pystr option \<Rightarrow> nat \<Rightarrow> intake_page op" where
  "intake P L conversation cursor limit =
     (if \<not> (1 \<le> limit \<and> limit \<le> 256) then returnO (raise LedgerError ''invalid_known_page_limit'')
      else bindO (initialize P L) (\<lambda>_ s. (read_page P conversation cursor limit s, s)))"

definition known_page :: "platform \<Rightarrow> ledger \<Rightarrow> pystr option \<Rightarrow> nat \<Rightarrow> intake_page op" where
  "known_page P L = intake P L False"

definition conversation_page :: "platform \<Rightarrow> ledger \<Rightarrow> pystr option \<Rightarrow> nat \<Rightarrow> intake_page op" where
  "conversation_page P L = intake P L True"

end
