(* ===== verification/Causal.thy ===== *)
theory Causal
  imports Main
begin

text \<open>
  Causal logs: a store of items, each naming the items it depends on, that tells apart the items
  it counts as known from those still waiting for a dependency. The specification of what is
  known is \<open>complete\<close>; the locale states what a store has to keep for its bookkeeping to compute
  exactly that, so that two stores with the same items know the same items, however these arrived.
\<close>

section \<open>Causally complete items\<close>

inductive_set complete :: "('e \<Rightarrow> 'i) \<Rightarrow> ('e \<Rightarrow> 'i set) \<Rightarrow> 'e set \<Rightarrow> 'i set"
  for ident :: "'e \<Rightarrow> 'i" and deps :: "'e \<Rightarrow> 'i set" and items :: "'e set"
where
  completeI: "e \<in> items \<Longrightarrow> (\<And>d. d \<in> deps e \<Longrightarrow> d \<in> complete ident deps items)
    \<Longrightarrow> ident e \<in> complete ident deps items"

lemma complete_mono:
  assumes "A \<subseteq> B" shows "complete ident deps A \<subseteq> complete ident deps B"
proof
  fix i assume "i \<in> complete ident deps A"
  then show "i \<in> complete ident deps B"
    using assms by (induction rule: complete.induct) (blast intro: completeI)
qed

lemma complete_least:
  assumes closed: "\<And>e. e \<in> items \<Longrightarrow> deps e \<subseteq> K \<Longrightarrow> ident e \<in> K"
  shows "complete ident deps items \<subseteq> K"
proof
  fix i assume "i \<in> complete ident deps items"
  then show "i \<in> K" by (induction rule: complete.induct) (blast intro: closed)
qed

text \<open>A list of ids in causal order: every item comes after what it depends on.\<close>

definition causal_order :: "('e \<Rightarrow> 'i) \<Rightarrow> ('e \<Rightarrow> 'i set) \<Rightarrow> 'e set \<Rightarrow> 'i list \<Rightarrow> bool" where
  "causal_order ident deps items is \<longleftrightarrow>
     (\<forall>k < length is. \<exists>e \<in> items. ident e = is ! k \<and> deps e \<subseteq> set (take k is))"

lemma causal_order_Nil [simp]: "causal_order ident deps items []"
  by (simp add: causal_order_def)

lemma causal_order_snoc:
  assumes "causal_order ident deps items is" and "e \<in> items" and "deps e \<subseteq> set is"
  shows "causal_order ident deps items (is @ [ident e])"
  using assms unfolding causal_order_def
  by (auto simp: nth_append less_Suc_eq)

lemma causal_order_mono:
  "causal_order ident deps A is \<Longrightarrow> A \<subseteq> B \<Longrightarrow> causal_order ident deps B is"
  unfolding causal_order_def by blast

lemma causal_order_complete:
  assumes "causal_order ident deps items is"
  shows "set is \<subseteq> complete ident deps items"
proof -
  have "set (take k is) \<subseteq> complete ident deps items" if "k \<le> length is" for k
    using that
  proof (induction k)
    case 0
    then show ?case by simp
  next
    case (Suc k)
    then obtain e where "e \<in> items" "ident e = is ! k" "deps e \<subseteq> set (take k is)"
      using assms unfolding causal_order_def by (metis Suc_le_lessD)
    then have "is ! k \<in> complete ident deps items"
      using Suc completeI [of e items deps ident] by auto
    then show ?case using Suc by (simp add: take_Suc_conv_app_nth)
  qed
  from this [of "length is"] show ?thesis by simp
qed

section \<open>The contract of a causal log\<close>

locale causal_log =
  fixes ident :: "'e \<Rightarrow> 'i" and deps :: "'e \<Rightarrow> 'i set"
    and inv :: "'s \<Rightarrow> bool"
    and stored :: "'s \<Rightarrow> 'e set" and known :: "'s \<Rightarrow> 'i set" and feed :: "'s \<Rightarrow> 'i list"
  assumes feed_known: "inv s \<Longrightarrow> set (feed s) = known s"
    and feed_causal: "inv s \<Longrightarrow> causal_order ident deps (stored s) (feed s)"
    and settled: "inv s \<Longrightarrow> e \<in> stored s \<Longrightarrow> deps e \<subseteq> known s \<Longrightarrow> ident e \<in> known s"
begin

lemma known_complete:
  assumes "inv s" shows "known s = complete ident deps (stored s)"
proof
  show "known s \<subseteq> complete ident deps (stored s)"
    using causal_order_complete [OF feed_causal [OF assms]] feed_known [OF assms] by simp
  show "complete ident deps (stored s) \<subseteq> known s"
    using settled [OF assms] by (rule complete_least)
qed

lemma known_mono:
  assumes "inv s" and "inv t" and "stored s \<subseteq> stored t"
  shows "known s \<subseteq> known t"
  unfolding known_complete [OF assms(1)] known_complete [OF assms(2)] by (rule complete_mono [OF assms(3)])

lemma known_determined:
  assumes "inv s" and "inv t" and "stored s = stored t"
  shows "known s = known t"
  using known_mono [OF assms(1,2)] known_mono [OF assms(2,1)] assms(3) by blast

text \<open>What is known rests on known items only.\<close>

lemma known_grounded:
  assumes "inv s" and "i \<in> known s"
  shows "\<exists>e \<in> stored s. ident e = i \<and> deps e \<subseteq> known s"
proof -
  from assms(2) have "i \<in> complete ident deps (stored s)" by (simp add: known_complete [OF assms(1)])
  then show ?thesis
    by (cases rule: complete.cases) (auto simp: known_complete [OF assms(1)])
qed

text \<open>The feed never names an item before what it depends on.\<close>

lemma feed_grounded:
  assumes "inv s" and "k < length (feed s)"
  shows "\<exists>e \<in> stored s. ident e = feed s ! k \<and> deps e \<subseteq> set (take k (feed s))"
  using feed_causal [OF assms(1)] assms(2) unfolding causal_order_def by blast

end

section \<open>Journals: the first answer to a request stands\<close>

text \<open>
  A table with one row per request key, holding the fingerprint of the request and its answer:
  what the tables of served deltas, applied pages and issued requests promise. A request repeated
  with the same fingerprint gets the first answer and changes nothing; under another fingerprint
  it is refused.
\<close>

locale journal =
  fixes entry :: "'s \<Rightarrow> 'k \<Rightarrow> ('h \<times> 'v) option" and print :: "'r \<Rightarrow> 'h"
    and answer :: "'k \<Rightarrow> 'r \<Rightarrow> 's \<Rightarrow> 'x + ('v \<times> 's)"
  assumes fresh: "entry s k = None \<Longrightarrow> answer k r s = Inr (v, t) \<Longrightarrow> entry t = (entry s)(k \<mapsto> (print r, v))"
    and same: "entry s k = Some (print r, v) \<Longrightarrow> answer k r s = Inr (v, s)"
    and other: "entry s k = Some (h, v) \<Longrightarrow> h \<noteq> print r \<Longrightarrow> \<exists>x. answer k r s = Inl x"
begin

lemma answer_entry:
  assumes "answer k r s = Inr (v, t)" shows "entry t k = Some (print r, v)"
proof (cases "entry s k")
  case None
  with fresh [OF None assms] show ?thesis by simp
next
  case (Some hv)
  obtain h w where hv: "hv = (h, w)" by (cases hv)
  with Some assms other [of s k h w r] have "h = print r" by auto
  with same [of s k r w] Some hv assms show ?thesis by simp
qed

lemma entry_stable:
  assumes "answer k r s = Inr (v, t)" and "entry s l = Some x" shows "entry t l = Some x"
proof (cases "entry s k")
  case None
  with fresh [OF None assms(1)] assms(2) show ?thesis by auto
next
  case (Some hv)
  obtain h w where hv: "hv = (h, w)" by (cases hv)
  with Some assms(1) other [of s k h w r] have "h = print r" by auto
  with same [of s k r w] Some hv assms show ?thesis by simp
qed

text \<open>Once a request is answered, every repetition gets that answer in every later state.\<close>

lemma repeated:
  assumes "answer k r s = Inr (v, t)" and "\<And>l x. entry t l = Some x \<Longrightarrow> entry u l = Some x"
    and "print r' = print r"
  shows "answer k r' u = Inr (v, u)"
  using same [of u k r' v] assms(2) [OF answer_entry [OF assms(1)]] assms(3) by simp

lemma conflicting:
  assumes "answer k r s = Inr (v, t)" and "\<And>l x. entry t l = Some x \<Longrightarrow> entry u l = Some x"
    and "print r' \<noteq> print r"
  shows "\<exists>x. answer k r' u = Inl x"
  using other [of u k "print r" v r'] assms(2) [OF answer_entry [OF assms(1)]] assms(3) by auto

end

end
