(* ===== verification/Ledger_Laws.thy ===== *)
theory Ledger_Laws
  imports Ledger Weave_Laws Causal "HOL-Library.Sublist"
begin

text \<open>
  The invariant of the ledger (\<^verbatim>\<open>src/daimon_matrix/ledger.py\<close>) and the steps it is built from:
  insertion, promotion, initialization and the wrappers around a transaction each keep it, and
  only add to the rows, the known events and the two feeds (\<open>grows\<close>). \<open>keeps\<close> collects the
  operations that do both, in the rules \<open>kept\<close>.
\<close>

section \<open>Dependencies are finite\<close>

lemma finite_dependencies [simp]: "finite (dependencies e)"
  by (auto simp: dependencies_def dependencies_res_def bindR_def split: sum.splits)

section \<open>The invariant\<close>

text \<open>Every event continues the chain of its incarnation.\<close>

definition continues :: "event set \<Rightarrow> event \<Rightarrow> bool" where
  "continues E e \<longleftrightarrow>
     (e_sequence e = 1 \<and> e_previous e = None)
     \<or> (\<exists>q \<in> E. incarnation q = incarnation e \<and> e_sequence q + 1 = e_sequence e \<and> e_previous e = Some (e_id q))"

definition chained :: "event set \<Rightarrow> bool" where
  "chained E \<longleftrightarrow> (\<forall>e \<in> E. 1 \<le> e_sequence e \<and> continues E e)"

definition one_identity :: "platform \<Rightarrow> event set \<Rightarrow> bool" where
  "one_identity P E \<longleftrightarrow> (\<forall>x \<in> E. \<forall>y \<in> E. same_identity x y \<longrightarrow> event_bytes P x = event_bytes P y)"

definition verified :: "platform \<Rightarrow> ledger \<Rightarrow> event \<Rightarrow> bool" where
  "verified P L e \<longleftrightarrow> verify_event P (lg_authority L) (event_val e) = Inr e"

definition rows_ok :: "platform \<Rightarrow> ledger \<Rightarrow> db \<Rightarrow> bool" where
  "rows_ok P L s \<longleftrightarrow>
     distinct (map e_id (row_events s)) \<and> distinct (map position (row_events s))
     \<and> chained (set (row_events s))
     \<and> (\<forall>e \<in> set (row_events s) \<union> set (t_evidence s). verified P L e)
     \<and> one_identity P (set (row_events s) \<union> set (t_evidence s))"

definition deps_ok :: "db \<Rightarrow> bool" where
  "deps_ok s \<longleftrightarrow>
     set (t_dependencies s) = {(e_id e, p) | e p. e \<in> set (row_events s) \<and> p \<in> dependencies e}"

definition evidence_ok :: "db \<Rightarrow> bool" where
  "evidence_ok s \<longleftrightarrow> distinct (map e_id (t_evidence s)) \<and> distinct (map position (t_evidence s))"

text \<open>
  Both feeds list their events once. The conversation feed holds what is known and the evidence
  still waiting; an evidence row goes when its event is known, its place in the feed stays.
\<close>

definition feeds_ok :: "db \<Rightarrow> bool" where
  "feeds_ok s \<longleftrightarrow>
     distinct (t_known_feed s) \<and> set (t_known_feed s) = known_ids s
     \<and> causal_order e_id dependencies (set (row_events s)) (t_known_feed s)
     \<and> (t_store_id s = None \<longrightarrow> t_events s = [])
     \<and> (case t_conversation_feed s of
          None \<Rightarrow> t_events s = [] \<and> t_evidence s = []
        | Some f \<Rightarrow> distinct f \<and> set f = known_ids s \<union> e_id ` set (t_evidence s))"

definition settled_rows :: "db \<Rightarrow> bool" where
  "settled_rows s \<longleftrightarrow>
     (\<forall>r \<in> set (t_events s). dependencies (r_event r) \<subseteq> known_ids s \<longrightarrow> r_known r)
     \<and> e_id ` set (t_evidence s) \<inter> known_ids s = {}"

definition journals_ok :: "db \<Rightarrow> bool" where
  "journals_ok s \<longleftrightarrow>
     distinct (map fst (t_cursors s))
     \<and> (\<forall>(k, h) \<in> set (t_cursors s). \<exists>e \<in> set (row_events s). incarnation e = snd k \<and> head_of e = h)
     \<and> distinct (map fst (t_local_ops s)) \<and> (\<forall>(k, h, i) \<in> set (t_local_ops s). i \<in> known_ids s)
     \<and> distinct (map fst (t_rpc s)) \<and> distinct (map fst (t_outbound s)) \<and> distinct (map fst (t_issued s))
     \<and> distinct (map fst (t_inbound s)) \<and> distinct (map fst (t_peers s))
     \<and> distinct (map fst (t_equivocations s))"

text \<open>What holds between the steps of a transaction, and what holds between operations.\<close>

definition store_ok :: "platform \<Rightarrow> ledger \<Rightarrow> db \<Rightarrow> bool" where
  "store_ok P L s \<longleftrightarrow> rows_ok P L s \<and> deps_ok s \<and> evidence_ok s \<and> feeds_ok s \<and> journals_ok s"

definition ledger_ok :: "platform \<Rightarrow> ledger \<Rightarrow> db \<Rightarrow> bool" where
  "ledger_ok P L s \<longleftrightarrow>
     store_ok P L s \<and> settled_rows s \<and> (t_metadata s = None \<or> t_metadata s = Some (expected_metadata L))"

section \<open>Rows by id and by position\<close>

lemma row_events_append [simp]: "row_events (s\<lparr>t_events := t_events s @ [r]\<rparr>) = row_events s @ [r_event r]"
  by (simp add: row_events_def)

lemma find_row_None: "find_row s i = None \<longleftrightarrow> i \<notin> e_id ` set (row_events s)"
  by (auto simp: find_row_def find_None_iff row_events_def)

lemma find_position_None: "find_position s p = None \<longleftrightarrow> p \<notin> position ` set (row_events s)"
  by (auto simp: find_position_def find_None_iff row_events_def)

lemma find_row_Some: "find_row s i = Some r \<Longrightarrow> r \<in> set (t_events s) \<and> e_id (r_event r) = i"
  by (auto simp: find_row_def find_Some_iff)

lemma find_position_Some: "find_position s p = Some r \<Longrightarrow> r \<in> set (t_events s) \<and> position (r_event r) = p"
  by (auto simp: find_position_def find_Some_iff)

lemma rows_by:
  assumes "distinct (map f (row_events s))" and "q \<in> set (t_events s)" and "r \<in> set (t_events s)"
    and "f (r_event q) = f (r_event r)"
  shows "q = r"
  using assms by (auto simp: row_events_def distinct_map comp_def inj_on_def)

lemma find_row_distinct:
  assumes "distinct (map e_id (row_events s))" and "r \<in> set (t_events s)"
  shows "find_row s (e_id (r_event r)) = Some r"
proof (cases "find_row s (e_id (r_event r))")
  case None
  with assms(2) show ?thesis by (auto simp: find_row_None row_events_def)
next
  case (Some q)
  with find_row_Some [OF this] rows_by [OF assms(1) _ assms(2)] show ?thesis by auto
qed

lemma find_position_distinct:
  assumes "distinct (map position (row_events s))" and "r \<in> set (t_events s)"
  shows "find_position s (position (r_event r)) = Some r"
proof (cases "find_position s (position (r_event r))")
  case None
  with assms(2) show ?thesis by (auto simp: find_position_None row_events_def)
next
  case (Some q)
  with find_position_Some [OF this] rows_by [OF assms(1) _ assms(2)] show ?thesis by auto
qed

lemma in_row_events: "e \<in> set (row_events s) \<longleftrightarrow> (\<exists>r \<in> set (t_events s). r_event r = e)"
  by (auto simp: row_events_def)

lemma in_known_ids: "i \<in> known_ids s \<longleftrightarrow> (\<exists>r \<in> set (t_events s). r_known r \<and> e_id (r_event r) = i)"
  by (auto simp: known_ids_def)

lemma known_ids_rows: "known_ids s \<subseteq> e_id ` set (row_events s)"
  by (auto simp: in_known_ids row_events_def)

lemma events_by_id:
  assumes "distinct (map e_id (row_events s))" and "e \<in> set (row_events s)" and "f \<in> set (row_events s)"
    and "e_id e = e_id f"
  shows "e = f"
  using assms by (auto simp: distinct_map dest: inj_onD)

lemma deps_ok_iff:
  assumes "deps_ok s" and "distinct (map e_id (row_events s))" and "e \<in> set (row_events s)"
  shows "list_all (\<lambda>(i, p). i = e_id e \<longrightarrow> p \<in> K) (t_dependencies s) \<longleftrightarrow> dependencies e \<subseteq> K"
proof -
  have inj: "f = e" if "f \<in> set (row_events s)" "e_id f = e_id e" for f
    by (rule events_by_id [OF assms(2) that(1) assms(3) that(2)])
  have "list_all (\<lambda>(i, p). i = e_id e \<longrightarrow> p \<in> K) (t_dependencies s)
      \<longleftrightarrow> (\<forall>f \<in> set (row_events s). \<forall>p \<in> dependencies f. e_id f = e_id e \<longrightarrow> p \<in> K)"
    using assms(1) unfolding deps_ok_def list_all_iff by (auto simp: Ball_def) metis
  also have "\<dots> \<longleftrightarrow> dependencies e \<subseteq> K" using inj assms(3) by blast
  finally show ?thesis .
qed

section \<open>Checking an identity\<close>

lemma check_identity_Inr:
  "check_identity P s e = Inr () \<longleftrightarrow>
     (\<forall>x \<in> set (row_events s) \<union> set (t_evidence s). same_identity e x \<longrightarrow> event_bytes P x = event_bytes P e)"
proof -
  have "check_identity P s e = Inr () \<longleftrightarrow>
      find (\<lambda>x. same_identity e x \<and> event_bytes P x \<noteq> event_bytes P e) (row_events s @ t_evidence s) = None"
    by (simp add: check_identity_def split: option.splits)
  then show ?thesis by (auto simp: find_None_iff)
qed

lemma same_identity_sym: "same_identity x y \<longleftrightarrow> same_identity y x"
  by (auto simp: same_identity_def)

lemma one_identity_insert:
  assumes "one_identity P E" and "\<And>x. x \<in> E \<Longrightarrow> same_identity e x \<Longrightarrow> event_bytes P x = event_bytes P e"
  shows "one_identity P (insert e E)"
  using assms same_identity_sym unfolding one_identity_def by (metis insert_iff)

lemma one_identity_subset: "one_identity P E \<Longrightarrow> F \<subseteq> E \<Longrightarrow> one_identity P F"
  unfolding one_identity_def by blast

lemma continues_mono: "continues E e \<Longrightarrow> E \<subseteq> F \<Longrightarrow> continues F e"
  unfolding continues_def by blast

lemma chained_insert:
  assumes "chained E" and "1 \<le> e_sequence e" and "continues E e"
  shows "chained (insert e E)"
  using assms continues_mono [of E _ "insert e E"] unfolding chained_def by blast


section \<open>The parts an insertion leaves alone\<close>

definition journal_part :: "db \<Rightarrow> _" where
  "journal_part s =
     (t_metadata s, t_cursors s, t_peers s, t_equivocations s, t_outbound s, t_issued s, t_inbound s,
      t_projection s, t_local_ops s, t_rpc s, t_store_id s)"

lemma journals_ok_mono:
  assumes "journals_ok s" and "journal_part t = journal_part s"
    and "set (row_events s) \<subseteq> set (row_events t)" and "known_ids s \<subseteq> known_ids t"
  shows "journals_ok t"
proof -
  have eq: "t_cursors t = t_cursors s" "t_local_ops t = t_local_ops s" "t_rpc t = t_rpc s" "t_peers t = t_peers s"
    "t_outbound t = t_outbound s" "t_issued t = t_issued s" "t_inbound t = t_inbound s"
    "t_equivocations t = t_equivocations s"
    using assms(2) by (simp_all add: journal_part_def)
  have "\<forall>(k, h) \<in> set (t_cursors s). \<exists>e \<in> set (row_events t). incarnation e = snd k \<and> head_of e = h"
    using assms(1,3) unfolding journals_ok_def by fast
  moreover have "\<forall>(k, h, i) \<in> set (t_local_ops s). i \<in> known_ids t"
    using assms(1,4) unfolding journals_ok_def by fast
  ultimately show ?thesis using assms(1) unfolding journals_ok_def eq by simp
qed

section \<open>Feeding\<close>

definition feed_add :: "pystr \<Rightarrow> pystr list \<Rightarrow> pystr list" where
  "feed_add i f = (if i \<in> set f then f else f @ [i])"

lemma feed_add_simps [simp]:
  "set (feed_add i f) = insert i (set f)" "distinct (feed_add i f) = distinct f"
  by (auto simp: feed_add_def)

lemma fold_feed_add [simp]:
  "set (fold feed_add is f) = set is \<union> set f" "distinct (fold feed_add is f) = distinct f"
  by (induction "is" arbitrary: f) auto

lemma feed_known_sel [simp]:
  "t_events (feed_known i s) = t_events s" "t_dependencies (feed_known i s) = t_dependencies s"
  "t_evidence (feed_known i s) = t_evidence s" "journal_part (feed_known i s) = journal_part s"
  "t_known_feed (feed_known i s) = t_known_feed s @ [i]"
  "t_conversation_feed (feed_known i s) = map_option (feed_add i) (t_conversation_feed s)"
  by (simp_all add: feed_known_def feed_conversation_def journal_part_def feed_add_def [abs_def])

lemma fold_feed_known_sel [simp]:
  "t_events (fold feed_known is s) = t_events s" "t_dependencies (fold feed_known is s) = t_dependencies s"
  "t_evidence (fold feed_known is s) = t_evidence s" "journal_part (fold feed_known is s) = journal_part s"
  "t_known_feed (fold feed_known is s) = t_known_feed s @ is"
  "t_conversation_feed (fold feed_known is s) = map_option (fold feed_add is) (t_conversation_feed s)"
  by (induction "is" arbitrary: s) (auto simp: option.map_comp comp_def option.map_id)

lemma causal_order_append:
  assumes "causal_order ident deps items is"
    and "\<And>j. j \<in> set js \<Longrightarrow> \<exists>e \<in> items. ident e = j \<and> deps e \<subseteq> set is"
  shows "causal_order ident deps items (is @ js)"
  using assms(2)
proof (induction js rule: rev_induct)
  case Nil
  then show ?case using assms(1) by simp
next
  case (snoc j js)
  then obtain e where e: "e \<in> items" "ident e = j" "deps e \<subseteq> set is" by auto
  have "causal_order ident deps items (is @ js)" using snoc by simp
  from causal_order_snoc [OF this e(1)] e(2,3) show ?case by auto
qed

section \<open>Insertion\<close>

lemma insert_event_Inr:
  assumes "insert_event P e source known s = Inr (u, t)"
  shows "check_identity P s e = Inr ()" "e_id e \<notin> e_id ` set (row_events s)"
    "position e \<notin> position ` set (row_events s)"
    "t_events t = t_events s @ [\<lparr>r_event = e, r_known = known, r_source = source\<rparr>]"
    "t_dependencies t = t_dependencies s @ map (\<lambda>p. (e_id e, p)) (sorted_list_of_set (dependencies e))"
    "t_evidence t = (if known then filter (\<lambda>x. e_id x \<noteq> e_id e) (t_evidence s) else t_evidence s)"
    "t_known_feed t = t_known_feed s @ (if known then [e_id e] else [])"
    "t_conversation_feed t = (if known then map_option (feed_add (e_id e)) (t_conversation_feed s)
                               else t_conversation_feed s)"
    "journal_part t = journal_part s"
proof -
  from assms obtain x where c: "check_identity P s e = Inr x"
    "find_row s (e_id e) = None" "find_position s (position e) = None"
    and t: "t = (let s1 = s\<lparr>t_events := t_events s @ [\<lparr>r_event = e, r_known = known, r_source = source\<rparr>]\<rparr>;
             s2 = (if known then feed_known (e_id e) s1 else s1);
             s3 = s2\<lparr>t_dependencies := t_dependencies s2
                       @ map (\<lambda>p. (e_id e, p)) (sorted_list_of_set (dependencies e))\<rparr> in
             if known then s3\<lparr>t_evidence := filter (\<lambda>x. e_id x \<noteq> e_id e) (t_evidence s3)\<rparr> else s3)"
    unfolding insert_event_def by (auto simp: bindR_Inr_iff if_Inl_Inr_iff Let_def)
  show "check_identity P s e = Inr ()" "e_id e \<notin> e_id ` set (row_events s)"
    "position e \<notin> position ` set (row_events s)"
    using c by (simp_all add: find_row_None find_position_None)
  have j: "journal_part (x\<lparr>t_dependencies := d\<rparr>) = journal_part x" "journal_part (x\<lparr>t_evidence := ev\<rparr>) = journal_part x"
    "journal_part (x\<lparr>t_events := es\<rparr>) = journal_part x" for x d ev es
    by (simp_all add: journal_part_def)
  show "t_events t = t_events s @ [\<lparr>r_event = e, r_known = known, r_source = source\<rparr>]"
    "t_dependencies t = t_dependencies s @ map (\<lambda>p. (e_id e, p)) (sorted_list_of_set (dependencies e))"
    "t_evidence t = (if known then filter (\<lambda>x. e_id x \<noteq> e_id e) (t_evidence s) else t_evidence s)"
    "t_known_feed t = t_known_feed s @ (if known then [e_id e] else [])"
    "t_conversation_feed t = (if known then map_option (feed_add (e_id e)) (t_conversation_feed s)
                               else t_conversation_feed s)"
    "journal_part t = journal_part s"
    by (simp_all add: t Let_def j)
qed

lemma insert_event_rows:
  assumes "insert_event P e source known s = Inr (u, t)"
  shows "row_events t = row_events s @ [e]"
    "known_ids t = (if known then insert (e_id e) (known_ids s) else known_ids s)"
  using insert_event_Inr(4) [OF assms] by (auto simp: row_events_def known_ids_def)

lemma insert_event_store_ok:
  assumes ins: "insert_event P e source known s = Inr (u, t)" and ok: "store_ok P L s"
    and e: "verified P L e" "1 \<le> e_sequence e" "continues (set (row_events s)) e"
    and deps: "known \<Longrightarrow> dependencies e \<subseteq> known_ids s"
    and init: "t_store_id s \<noteq> None" "t_conversation_feed s \<noteq> None"
  shows "store_ok P L t"
proof -
  note i = insert_event_Inr [OF ins] and r = insert_event_rows [OF ins]
  have ev: "set (t_evidence t) \<subseteq> set (t_evidence s)" using i(6) by auto
  have ids: "distinct (map e_id (row_events t))" "distinct (map position (row_events t))"
    using ok i(2,3) by (auto simp: store_ok_def rows_ok_def r)
  have "one_identity P (insert e (set (row_events s) \<union> set (t_evidence s)))"
    using ok i(1) by (intro one_identity_insert) (auto simp: store_ok_def rows_ok_def check_identity_Inr)
  then have one: "one_identity P (set (row_events t) \<union> set (t_evidence t))"
    by (rule one_identity_subset) (use ev in \<open>auto simp: r\<close>)
  have "chained (set (row_events t))"
    using ok e chained_insert by (auto simp: store_ok_def rows_ok_def r)
  with ids one e(1) ev ok have "rows_ok P L t" by (auto simp: rows_ok_def store_ok_def r)
  moreover have "deps_ok t"
    using ok i(5) by (auto simp: store_ok_def deps_ok_def r)
  moreover have "evidence_ok t"
    using ok i(6) by (auto simp: store_ok_def evidence_ok_def distinct_map_filter)
  moreover have "journals_ok t"
    using ok by (intro journals_ok_mono [OF _ i(9)]) (auto simp: store_ok_def r)
  moreover have "feeds_ok t"
  proof -
    from ok have f: "feeds_ok s" by (simp add: store_ok_def)
    from init(2) obtain cf where cf: "t_conversation_feed s = Some cf" by blast
    have fresh: "e_id e \<notin> known_ids s" using i(2) known_ids_rows by blast
    have st: "t_store_id t = t_store_id s" using i(9) by (simp add: journal_part_def)
    have causal: "causal_order e_id dependencies (set (row_events t)) (t_known_feed s)"
      using f by (auto simp: feeds_ok_def r elim: causal_order_mono)
    show ?thesis
    proof (cases known)
      case True
      have "causal_order e_id dependencies (set (row_events t)) (t_known_feed s @ [e_id e])"
        using causal_order_snoc [OF causal, of e] deps [OF True] f by (auto simp: feeds_ok_def r)
      with True f fresh init st show ?thesis by (auto simp: feeds_ok_def i(6-8) r cf)
    next
      case False
      with causal f init st show ?thesis by (auto simp: feeds_ok_def i(6-8) r cf)
    qed
  qed
  ultimately show ?thesis by (simp add: store_ok_def)
qed


section \<open>Promotion\<close>

definition grows :: "db \<Rightarrow> db \<Rightarrow> bool" where
  "grows s t \<longleftrightarrow>
     prefix (row_events s) (row_events t) \<and> known_ids s \<subseteq> known_ids t
     \<and> prefix (t_known_feed s) (t_known_feed t)
     \<and> (\<forall>f. t_conversation_feed s = Some f \<longrightarrow> (\<exists>g. t_conversation_feed t = Some g \<and> prefix f g))
     \<and> (\<forall>i. t_store_id s = Some i \<longrightarrow> t_store_id t = Some i)"

lemma grows_refl [simp]: "grows s s"
  by (simp add: grows_def)

lemma grows_trans [trans]: "grows s t \<Longrightarrow> grows t u \<Longrightarrow> grows s u"
  unfolding grows_def by (meson prefix_order.trans subset_trans)

lemma fold_feed_add_prefix: "prefix f (fold feed_add js f)"
proof (induction js arbitrary: f)
  case (Cons i js)
  have "prefix f (feed_add i f)" by (simp add: feed_add_def)
  from prefix_order.trans [OF this Cons] show ?case by simp
qed simp

lemma insert_event_grows: "insert_event P e source known s = Inr (u, t) \<Longrightarrow> grows s t"
  using insert_event_Inr [of P e source known s u t] insert_event_rows [of P e source known s u t]
  by (auto simp: grows_def journal_part_def feed_add_def)

lemma drop_known_evidence_sel [simp]:
  "t_events (drop_known_evidence s) = t_events s" "row_events (drop_known_evidence s) = row_events s"
  "known_ids (drop_known_evidence s) = known_ids s" "t_dependencies (drop_known_evidence s) = t_dependencies s"
  "t_known_feed (drop_known_evidence s) = t_known_feed s"
  "t_conversation_feed (drop_known_evidence s) = t_conversation_feed s"
  "t_store_id (drop_known_evidence s) = t_store_id s"
  "journal_part (drop_known_evidence s) = journal_part s"
  "t_evidence (drop_known_evidence s) = filter (\<lambda>x. e_id x \<notin> known_ids s) (t_evidence s)"
  by (simp_all add: drop_known_evidence_def row_events_def known_ids_def journal_part_def)

lemma drop_known_evidence_grows [simp]: "grows s (drop_known_evidence s)"
  by (simp add: grows_def)

lemma drop_known_evidence_store_ok:
  assumes "store_ok P L s" and "t_conversation_feed s \<noteq> None"
  shows "store_ok P L (drop_known_evidence s)"
proof -
  obtain f where f: "t_conversation_feed s = Some f" using assms(2) by blast
  have f': "feeds_ok s" using assms(1) by (simp add: store_ok_def)
  have "known_ids s \<union> e_id ` set (t_evidence (drop_known_evidence s)) = known_ids s \<union> e_id ` set (t_evidence s)"
    by auto
  then have "feeds_ok (drop_known_evidence s)"
    using f' unfolding feeds_ok_def drop_known_evidence_sel(1-7) f option.case by simp
  moreover have "evidence_ok (drop_known_evidence s)"
    using assms(1) by (auto simp: store_ok_def evidence_ok_def distinct_map_filter)
  moreover
  have "journals_ok (drop_known_evidence s)"
    by (rule journals_ok_mono [of s]) (use assms(1) in \<open>simp_all add: store_ok_def\<close>)
  moreover have "one_identity P (set (row_events s) \<union> set (t_evidence s))"
    using assms(1) by (simp add: store_ok_def rows_ok_def)
  then have "one_identity P (set (row_events s) \<union> set (t_evidence (drop_known_evidence s)))"
    by (rule one_identity_subset) auto
  moreover have "\<forall>e \<in> set (row_events s) \<union> set (t_evidence (drop_known_evidence s)). verified P L e"
    using assms(1) by (auto simp: store_ok_def rows_ok_def)
  ultimately show ?thesis
    using assms(1) by (simp add: store_ok_def rows_ok_def deps_ok_def)
qed

lemma set_known_sel:
  "row_events (set_known is s) = row_events s"
  "t_dependencies (set_known is s) = t_dependencies s" "t_evidence (set_known is s) = t_evidence s"
  "t_known_feed (set_known is s) = t_known_feed s @ is"
  "t_conversation_feed (set_known is s) = map_option (fold feed_add is) (t_conversation_feed s)"
  "journal_part (set_known is s) = journal_part s"
proof -
  show "row_events (set_known is s) = row_events s"
    by (simp add: row_events_def t_events_set_known comp_def if_distrib cong: if_cong)
  show "journal_part (set_known is s) = journal_part s"
    unfolding set_known_def fold_feed_known_sel by (simp add: journal_part_def)
qed (simp_all add: set_known_def)

lemma known_ids_set_known:
  assumes "set is \<subseteq> e_id ` set (row_events s)"
  shows "known_ids (set_known is s) = known_ids s \<union> set is"
proof -
  have "i \<in> known_ids (set_known is s) \<longleftrightarrow>
      (\<exists>r \<in> set (t_events s). (r_known r \<or> e_id (r_event r) \<in> set is) \<and> e_id (r_event r) = i)" for i
    unfolding in_known_ids t_events_set_known set_map bex_simps(7) by auto
  moreover have "(\<exists>r \<in> set (t_events s). (r_known r \<or> e_id (r_event r) \<in> set is) \<and> e_id (r_event r) = i)
      \<longleftrightarrow> i \<in> known_ids s \<or> i \<in> set is" for i
    using assms by (auto simp: in_known_ids row_events_def)
  ultimately show ?thesis by blast
qed

lemma set_known_store_ok:
  assumes ok: "store_ok P L s" and dist: "distinct is" and fresh: "set is \<inter> known_ids s = {}"
    and rows: "\<And>i. i \<in> set is \<Longrightarrow> \<exists>e \<in> set (row_events s). e_id e = i \<and> dependencies e \<subseteq> known_ids s"
    and init: "t_store_id s \<noteq> None" "t_conversation_feed s \<noteq> None"
  shows "store_ok P L (set_known is s)" "known_ids (set_known is s) = known_ids s \<union> set is" "grows s (set_known is s)"
proof -
  show k: "known_ids (set_known is s) = known_ids s \<union> set is"
    by (rule known_ids_set_known) (use rows in blast)
  obtain cf where cf: "t_conversation_feed s = Some cf" using init(2) by blast
  obtain si where si: "t_store_id s = Some si" using init(1) by blast
  have st: "t_store_id (set_known is s) = t_store_id s"
    using set_known_sel(6) [of "is" s] by (simp add: journal_part_def)
  show "grows s (set_known is s)"
    using fold_feed_add_prefix [of cf "is"] by (simp add: grows_def set_known_sel k st cf)
  have f: "feeds_ok s" using ok by (simp add: store_ok_def)
  have "causal_order e_id dependencies (set (row_events s)) (t_known_feed s @ is)"
    by (rule causal_order_append) (use f rows in \<open>auto simp: feeds_ok_def\<close>)
  moreover have "distinct (t_known_feed s @ is)" using f fresh dist by (auto simp: feeds_ok_def)
  moreover have "set (fold feed_add is cf) = known_ids s \<union> set is \<union> e_id ` set (t_evidence s)"
    using f by (auto simp: feeds_ok_def cf)
  ultimately have "feeds_ok (set_known is s)"
    using f unfolding feeds_ok_def set_known_sel k st cf si option.map option.case by simp
  moreover have "journals_ok (set_known is s)"
    by (rule journals_ok_mono [of s]) (use ok in \<open>auto simp: store_ok_def set_known_sel k\<close>)
  ultimately show "store_ok P L (set_known is s)"
    using ok by (simp add: store_ok_def rows_ok_def deps_ok_def evidence_ok_def set_known_sel)
qed

lemma in_promotable:
  assumes "store_ok P L s"
  shows "e \<in> set (promotable s) \<longleftrightarrow>
     e \<in> set (row_events s) \<and> e_id e \<notin> known_ids s \<and> dependencies e \<subseteq> known_ids s"
proof -
  have d: "deps_ok s" "distinct (map e_id (row_events s))"
    using assms by (simp_all add: store_ok_def rows_ok_def)
  have k: "e_id (r_event r) \<in> known_ids s \<longleftrightarrow> r_known r" if "r \<in> set (t_events s)" for r
    using that rows_by [OF d(2)] by (auto simp: in_known_ids)
  have "e \<in> set (promotable s) \<longleftrightarrow> (\<exists>r \<in> set (t_events s). r_event r = e \<and> \<not> r_known r
      \<and> list_all (\<lambda>(i, p). i = e_id e \<longrightarrow> p \<in> known_ids s) (t_dependencies s))"
    by (auto simp: promotable_def)
  also have "\<dots> \<longleftrightarrow> (\<exists>r \<in> set (t_events s). r_event r = e \<and> \<not> r_known r) \<and> dependencies e \<subseteq> known_ids s"
    using deps_ok_iff [OF d] by (auto simp: in_row_events)
  finally show ?thesis using k by (auto simp: in_row_events)
qed

lemma distinct_promotable:
  assumes "distinct (map e_id (row_events s))" shows "distinct (map e_id (promotable s))"
  using assms unfolding promotable_def distinct_map_sort_key
  by (simp add: row_events_def distinct_map_filter)

lemma settled_iff:
  assumes "store_ok P L s"
  shows "settled_rows s \<longleftrightarrow> promotable s = [] \<and> drop_known_evidence s = s"
proof -
  have d: "distinct (map e_id (row_events s))" using assms by (simp add: store_ok_def rows_ok_def)
  have k: "e_id (r_event r) \<in> known_ids s \<longleftrightarrow> r_known r" if "r \<in> set (t_events s)" for r
    using that rows_by [OF d] by (auto simp: in_known_ids)
  have "promotable s = [] \<longleftrightarrow> (\<forall>e. e \<notin> set (promotable s))" by (metis ex_in_conv set_empty2)
  also have "\<dots> \<longleftrightarrow> (\<forall>r \<in> set (t_events s). dependencies (r_event r) \<subseteq> known_ids s \<longrightarrow> r_known r)"
    unfolding in_promotable [OF assms] using k by (auto simp: in_row_events)
  moreover have "drop_known_evidence s = s \<longleftrightarrow> filter (\<lambda>x. e_id x \<notin> known_ids s) (t_evidence s) = t_evidence s"
    unfolding drop_known_evidence_def by (cases s) auto
  then have "drop_known_evidence s = s \<longleftrightarrow> e_id ` set (t_evidence s) \<inter> known_ids s = {}"
    by (auto simp: filter_id_conv)
  ultimately show ?thesis by (auto simp: settled_rows_def)
qed

lemma promote_ok:
  assumes "store_ok P L s" and "t_store_id s \<noteq> None" and "t_conversation_feed s \<noteq> None"
  shows "store_ok P L (promote s) \<and> settled_rows (promote s) \<and> grows s (promote s)
    \<and> row_events (promote s) = row_events s \<and> journal_part (promote s) = journal_part s
    \<and> set (t_evidence (promote s)) \<subseteq> set (t_evidence s)"
  using assms
proof (induction s rule: promote.induct)
  case (1 s)
  define s1 where "s1 = drop_known_evidence s"
  define ready where "ready = map e_id (promotable s1)"
  have ok1: "store_ok P L s1" "t_store_id s1 \<noteq> None" "t_conversation_feed s1 \<noteq> None"
    using 1 by (simp_all add: s1_def drop_known_evidence_store_ok)
  have drop: "drop_known_evidence s1 = s1" by (simp add: s1_def drop_known_evidence_def known_ids_def)
  show ?case
  proof (cases "ready = []")
    case True
    then have "promote s = s1" by (subst promote.simps) (simp add: s1_def ready_def Let_def)
    moreover have "settled_rows s1" using True ok1(1) drop by (simp add: settled_iff ready_def)
    ultimately show ?thesis using ok1 by (auto simp: s1_def)
  next
    case False
    let ?t = "set_known ready s1"
    have p: "promote s = promote ?t"
      by (subst promote.simps) (use False in \<open>simp add: s1_def ready_def Let_def\<close>)
    have r: "distinct ready" "set ready \<inter> known_ids s1 = {}"
      "\<And>i. i \<in> set ready \<Longrightarrow> \<exists>e \<in> set (row_events s1). e_id e = i \<and> dependencies e \<subseteq> known_ids s1"
      using ok1(1) distinct_promotable [of s1] by (auto simp: ready_def in_promotable store_ok_def rows_ok_def)
    note t = set_known_store_ok [OF ok1(1) r ok1(2,3)]
    have init: "t_store_id ?t \<noteq> None" "t_conversation_feed ?t \<noteq> None"
      using ok1(2,3) set_known_sel [of ready s1] by (auto simp: journal_part_def)
    from "1.IH" [OF s1_def ready_def False t(1) init] have ih: "store_ok P L (promote ?t)" "settled_rows (promote ?t)"
      "grows ?t (promote ?t)" "row_events (promote ?t) = row_events ?t" "journal_part (promote ?t) = journal_part ?t"
      "set (t_evidence (promote ?t)) \<subseteq> set (t_evidence ?t)" by simp_all
    have "grows s ?t" using grows_trans [OF _ t(3)] by (simp add: s1_def)
    with ih grows_trans [OF _ ih(3)] show ?thesis by (auto simp: p set_known_sel s1_def)
  qed
qed

text \<open>A settled store has nothing to promote.\<close>

lemma promote_settled: "store_ok P L s \<Longrightarrow> settled_rows s \<Longrightarrow> promote s = s"
  by (subst promote.simps) (auto simp: settled_iff Let_def)


section \<open>Initialized ledgers\<close>

definition initialized :: "ledger \<Rightarrow> db \<Rightarrow> bool" where
  "initialized L s \<longleftrightarrow>
     t_metadata s = Some (expected_metadata L) \<and> t_store_id s \<noteq> None \<and> t_conversation_feed s \<noteq> None"

definition live :: "platform \<Rightarrow> ledger \<Rightarrow> db \<Rightarrow> bool" where
  "live P L s \<longleftrightarrow> ledger_ok P L s \<and> initialized L s"

lemma initialize_initialized: "initialized L s \<Longrightarrow> initialize P L s = (Inr (), s)"
  by (auto simp: initialized_def initialize_def initialize_metadata_def bindO_def initialize_known_feed_def
      initialize_conversation_feed_def)

lemma live_initialize [simp]: "live P L s \<Longrightarrow> initialize P L s = (Inr (), s)"
  by (simp add: live_def initialize_initialized)

lemma initialize_ok:
  assumes "ledger_ok P L s"
  shows "\<exists>t. initialize P L s = (Inr (), t) \<and> live P L t \<and> grows s t"
proof -
  from assms have md: "t_metadata s = None \<or> t_metadata s = Some (expected_metadata L)"
    and f: "feeds_ok s" and st: "store_ok P L s" and se: "settled_rows s"
    by (simp_all add: ledger_ok_def store_ok_def)
  let ?s1 = "s\<lparr>t_metadata := Some (expected_metadata L)\<rparr>"
  let ?t = "initialize_conversation_feed (initialize_known_feed L ?s1)"
  have "initialize_metadata P L s = (Inr (), ?s1)"
    using md by (cases s) (auto simp: initialize_metadata_def Let_def)
  then have i: "initialize P L s = (Inr (), ?t)" by (simp add: initialize_def bindO_def)
  define t where "t = ?t"
  have ev: "t_events t = t_events s" "t_dependencies t = t_dependencies s" "t_evidence t = t_evidence s"
    "t_metadata t = Some (expected_metadata L)" "t_cursors t = t_cursors s" "t_peers t = t_peers s"
    "t_equivocations t = t_equivocations s" "t_outbound t = t_outbound s" "t_issued t = t_issued s"
    "t_inbound t = t_inbound s" "t_local_ops t = t_local_ops s" "t_rpc t = t_rpc s"
    using f by (auto simp: t_def initialize_conversation_feed_def initialize_known_feed_def feeds_ok_def split: option.splits)
  have fd: "t_known_feed t = t_known_feed s" "t_store_id t = Some (case t_store_id s of None \<Rightarrow> lg_new_store_id L | Some i \<Rightarrow> i)"
    "t_conversation_feed t = Some (case t_conversation_feed s of None \<Rightarrow> [] | Some c \<Rightarrow> c)"
    using f by (auto simp: t_def initialize_conversation_feed_def initialize_known_feed_def feeds_ok_def known_ids_def
        split: option.splits)
  have rk: "row_events t = row_events s" "known_ids t = known_ids s" by (simp_all add: row_events_def known_ids_def ev)
  have "journals_ok t"
    using st by (simp add: store_ok_def journals_ok_def ev rk)
  moreover have "feeds_ok t"
    using f by (auto simp: feeds_ok_def fd rk ev known_ids_def split: option.splits)
  ultimately have "live P L t"
    using st se by (simp add: live_def ledger_ok_def store_ok_def rows_ok_def deps_ok_def evidence_ok_def
        settled_rows_def initialized_def ev rk fd)
  moreover have "grows s t" by (simp add: grows_def rk fd)
  ultimately show ?thesis using i by (auto simp: t_def)
qed

section \<open>Operations that keep the invariant\<close>

definition keeps :: "platform \<Rightarrow> ledger \<Rightarrow> 'a op \<Rightarrow> bool" where
  "keeps P L m \<longleftrightarrow> (\<forall>s. live P L s \<longrightarrow> live P L (snd (m s)) \<and> grows s (snd (m s)))"

definition step_keeps :: "platform \<Rightarrow> ledger \<Rightarrow> 'a step \<Rightarrow> bool" where
  "step_keeps P L f \<longleftrightarrow> (\<forall>s x t. live P L s \<longrightarrow> f s = Inr (x, t) \<longrightarrow> live P L t \<and> grows s t)"

named_theorems kept "operations of the ledger that keep its invariant"

lemma keepsI: "(\<And>s. live P L s \<Longrightarrow> live P L (snd (m s)) \<and> grows s (snd (m s))) \<Longrightarrow> keeps P L m"
  by (simp add: keeps_def)

lemma step_keepsI:
  "(\<And>s x t. live P L s \<Longrightarrow> f s = Inr (x, t) \<Longrightarrow> live P L t \<and> grows s t) \<Longrightarrow> step_keeps P L f"
  by (simp add: step_keeps_def)

lemma keeps_returnO [kept]: "keeps P L (returnO r)"
  by (simp add: keeps_def returnO_def)

lemma keeps_read [kept]: "keeps P L (\<lambda>s. (f s, s))"
  by (simp add: keeps_def)

lemma keeps_bindO [kept]:
  assumes "keeps P L m" and "\<And>x. keeps P L (f x)"
  shows "keeps P L (bindO m f)"
proof (rule keepsI)
  fix s assume "live P L s"
  then have m: "live P L (snd (m s))" "grows s (snd (m s))" using assms(1) by (auto simp: keeps_def)
  then show "live P L (snd (bindO m f s)) \<and> grows s (snd (bindO m f s))"
    using assms(2) grows_trans [OF m(2)] by (cases "m s"; cases "fst (m s)") (auto simp: bindO_def keeps_def)
qed

lemma keeps_initialize [kept]: "keeps P L (initialize P L)"
  by (rule keepsI) simp

lemma keeps_transaction [kept]: "step_keeps P L f \<Longrightarrow> keeps P L (transaction f)"
  by (auto simp: keeps_def step_keeps_def transaction_def split: sum.split)

lemma initialize_first:
  assumes "keeps P L m" and "ledger_ok P L s"
  shows "ledger_ok P L (snd (bindO (initialize P L) (\<lambda>_. m) s)) \<and> grows s (snd (bindO (initialize P L) (\<lambda>_. m) s))"
proof -
  from initialize_ok [OF assms(2)] obtain t where t: "initialize P L s = (Inr (), t)" "live P L t" "grows s t" by blast
  with assms(1) have "live P L (snd (m t))" "grows t (snd (m t))" by (auto simp: keeps_def)
  with t grows_trans show ?thesis by (auto simp: bindO_def live_def)
qed

text \<open>Operations on the other tables.\<close>

definition core_part :: "db \<Rightarrow> _" where
  "core_part s = (t_metadata s, t_events s, t_dependencies s, t_evidence s, t_store_id s, t_known_feed s,
     t_conversation_feed s)"

lemma core_part_rows: "core_part t = core_part s \<Longrightarrow> row_events t = row_events s \<and> known_ids t = known_ids s"
  by (simp add: core_part_def row_events_def known_ids_def)

lemma live_core:
  assumes "live P L s" and "core_part t = core_part s" and "journals_ok t"
  shows "live P L t \<and> grows s t"
proof -
  have eq: "t_events t = t_events s" "t_dependencies t = t_dependencies s" "t_evidence t = t_evidence s"
    "t_metadata t = t_metadata s" "t_store_id t = t_store_id s" "t_known_feed t = t_known_feed s"
    "t_conversation_feed t = t_conversation_feed s" "row_events t = row_events s" "known_ids t = known_ids s"
    using assms(2) core_part_rows [OF assms(2)] by (simp_all add: core_part_def)
  have "rows_ok P L t = rows_ok P L s" "deps_ok t = deps_ok s" "evidence_ok t = evidence_ok s" "feeds_ok t = feeds_ok s"
    "settled_rows t = settled_rows s" "initialized L t = initialized L s" "grows s t"
    by (simp_all only: rows_ok_def deps_ok_def evidence_ok_def feeds_ok_def settled_rows_def initialized_def eq
        grows_def prefix_order.order_refl subset_refl simp_thms) auto
  with assms(1,3) show ?thesis by (simp add: live_def ledger_ok_def store_ok_def eq)
qed

lemma live_journals: "live P L s \<Longrightarrow> journals_ok s"
  by (simp add: live_def ledger_ok_def store_ok_def)

lemma keeps_record_equivocation [kept]: "step_keeps P L (record_equivocation P evidence now)"
proof (rule step_keepsI)
  fix s x t assume l: "live P L s" and "record_equivocation P evidence now s = Inr (x, t)"
  then obtain raw where t: "t = (if sha256_hex raw \<in> fst ` set (t_equivocations s) then s
     else s\<lparr>t_equivocations := t_equivocations s @ [(sha256_hex raw, (evidence, now))]\<rparr>)"
    by (auto simp: record_equivocation_def bindR_Inr_iff Let_def)
  show "live P L t \<and> grows s t"
    by (rule live_core [OF l]) (use live_journals [OF l] in \<open>auto simp: t core_part_def journals_ok_def row_events_def known_ids_def\<close>)
qed

lemma distinct_keys_update [simp]: "distinct (map fst (AList.update k v kvs)) = distinct (map fst kvs)"
proof (induction kvs)
  case (Cons kv kvs)
  obtain l w where "kv = (l, w)" by (cases kv)
  with Cons show ?case by (auto simp: dom_update [unfolded dom_map_of_conv_image_fst] image_iff)
qed simp

lemma keeps_set_peer_state [kept]: "keeps P L (set_peer_state P L source state error now)"
proof (rule keepsI)
  fix s assume l: "live P L s"
  have "live P L (s\<lparr>t_peers := AList.update source \<lparr>p_state = state, p_error = error, p_updated_at_ms = now\<rparr> (t_peers s)\<rparr>)
      \<and> grows s (s\<lparr>t_peers := AList.update source \<lparr>p_state = state, p_error = error, p_updated_at_ms = now\<rparr> (t_peers s)\<rparr>)"
    by (rule live_core [OF l]) (use live_journals [OF l] in \<open>auto simp: core_part_def journals_ok_def row_events_def known_ids_def\<close>)
  then show "live P L (snd (set_peer_state P L source state error now s))
      \<and> grows s (snd (set_peer_state P L source state error now s))"
    using l by (simp add: set_peer_state_def bindO_def)
qed

lemma step_keepsD: "step_keeps P L f \<Longrightarrow> live P L s \<Longrightarrow> f s = Inr (x, t) \<Longrightarrow> live P L t \<and> grows s t"
  by (auto simp: step_keeps_def)

lemma keepsD: "keeps P L m \<Longrightarrow> live P L s \<Longrightarrow> m s = (r, t) \<Longrightarrow> live P L t \<and> grows s t"
  by (auto simp: keeps_def)

lemma keeps_recording [kept]:
  assumes "keeps P L m" shows "keeps P L (recording P now m)"
proof (rule keepsI)
  fix s assume l: "live P L s"
  obtain r t where m: "m s = (r, t)" by (cases "m s")
  have t: "live P L t" "grows s t" using keepsD [OF assms l m] by simp_all
  show "live P L (snd (recording P now m s)) \<and> grows s (snd (recording P now m s))"
  proof (cases "\<exists>ev. r = Inl (Equivocation ev)")
    case True
    then obtain ev where r: "r = Inl (Equivocation ev)" by blast
    show ?thesis
    proof (cases "record_equivocation P ev now t")
      case (Inr xu)
      obtain x u where xu: "xu = (x, u)" by (cases xu)
      with step_keepsD [OF keeps_record_equivocation t(1)] Inr have "live P L u \<and> grows t u" by blast
      with Inr xu m r t(2) show ?thesis by (auto simp: recording_def intro: grows_trans)
    qed (use m r t in \<open>simp add: recording_def\<close>)
  next
    case False
    then have "recording P now m s = (r, t)"
      by (auto simp: recording_def m split: sum.splits exc.splits)
    with t show ?thesis by simp
  qed
qed

lemma keeps_raise_after [kept]: "keeps P L m \<Longrightarrow> keeps P L (raise_after m e)"
  unfolding raise_after_def by (intro kept)

lemma keeps_tracked [kept]:
  fixes m :: "'b op"
  assumes "keeps P L m" shows "keeps P L (tracked P L source clock m)"
proof (rule keepsI)
  fix s assume l: "live P L s"
  obtain r t where m: "m s = (r, t)" by (cases "m s")
  have t: "live P L t" "grows s t" using keepsD [OF assms l m] by simp_all
  have k: "keeps P L q \<Longrightarrow> live P L (snd (q t)) \<and> grows s (snd (q t))" for q
    using t grows_trans [OF t(2)] by (auto simp: keeps_def)
  show "live P L (snd (tracked P L source clock m s)) \<and> grows s (snd (tracked P L source clock m s))"
  proof (cases r)
    case (Inl e)
    show ?thesis
    proof (cases e)
      case (Equivocation ev)
      have "keeps P L (raise_after (bindO (transaction (record_equivocation P ev (clock 0)))
          (\<lambda>_. set_peer_state P L source Quarantined (Some (exc_message e)) (clock 1))) e)"
        by (intro kept)
      from k [OF this] show ?thesis by (simp add: tracked_def m Inl Equivocation)
    next
      case (Exc c msg)
      have "keeps P L (raise_after (set_peer_state P L source st (Some msg) (clock 0)) (Exc d msg) :: 'b op)" for st d
        by (intro kept)
      from k [OF this] t show ?thesis by (auto simp: tracked_def m Inl Exc)
    qed
  next
    case (Inr x)
    have "keeps P L (bindO (set_peer_state P L source Coherent None (clock 0)) (\<lambda>_. returnO (Inr x)))"
      by (intro kept)
    from k [OF this] show ?thesis by (simp add: tracked_def m Inr)
  qed
qed

end
