(* ===== verification/Ledger_Operations.thy ===== *)
theory Ledger_Operations
  imports Ledger_Laws
begin

text \<open>
  Every operation of the ledger (\<^verbatim>\<open>src/daimon_matrix/ledger.py\<close>) keeps its invariant and only adds
  to its rows, known events and feeds: the steps inside a transaction by \<open>step_keeps\<close>, the
  operations on a live ledger by \<open>keeps\<close>, the public operations on any ledger by \<open>ok_keeps\<close>, and
  so every ledger reachable from the empty database by \<open>ledger_step\<close>. Along the way the laws of
  planning and applying a page are stated, which the properties use.
\<close>

section \<open>Between the steps of a transaction\<close>

definition open_store :: "platform \<Rightarrow> ledger \<Rightarrow> db \<Rightarrow> bool" where
  "open_store P L s \<longleftrightarrow> store_ok P L s \<and> initialized L s"

lemma live_open: "live P L s \<longleftrightarrow> open_store P L s \<and> settled_rows s"
  by (auto simp: live_def open_store_def ledger_ok_def initialized_def)

lemma initialized_part:
  "initialized L s \<Longrightarrow> journal_part t = journal_part s \<Longrightarrow> t_conversation_feed t \<noteq> None \<Longrightarrow> initialized L t"
  by (simp add: initialized_def journal_part_def)

lemma insert_event_open:
  assumes "insert_event P e source known s = Inr (u, t)" and "open_store P L s"
    and "verified P L e" "1 \<le> e_sequence e" "continues (set (row_events s)) e"
    and "known \<Longrightarrow> dependencies e \<subseteq> known_ids s"
  shows "open_store P L t" "grows s t"
proof -
  note i = insert_event_Inr [OF assms(1)]
  show "open_store P L t"
    using insert_event_store_ok [OF assms(1) _ assms(3-6)] assms(2) initialized_part [OF _ i(9)] i(8)
    by (auto simp: open_store_def initialized_def)
  show "grows s t" by (rule insert_event_grows [OF assms(1)])
qed

lemma promote_live:
  assumes "open_store P L s"
  shows "live P L (promote s)" "grows s (promote s)" "row_events (promote s) = row_events s"
    "journal_part (promote s) = journal_part s" "set (t_evidence (promote s)) \<subseteq> set (t_evidence s)"
proof -
  have s: "store_ok P L s" "initialized L s" "t_store_id s \<noteq> None" "t_conversation_feed s \<noteq> None"
    using assms by (simp_all add: open_store_def initialized_def)
  from promote_ok [OF s(1,3,4)] have p: "store_ok P L (promote s)" "settled_rows (promote s)" "grows s (promote s)"
    "row_events (promote s) = row_events s" "journal_part (promote s) = journal_part s"
    "set (t_evidence (promote s)) \<subseteq> set (t_evidence s)" by simp_all
  then show "grows s (promote s)" "row_events (promote s) = row_events s" "journal_part (promote s) = journal_part s"
    "set (t_evidence (promote s)) \<subseteq> set (t_evidence s)" by simp_all
  have "t_conversation_feed (promote s) \<noteq> None" using p(3) s(4) by (auto simp: grows_def)
  with initialized_part [OF s(2) p(5)] p show "live P L (promote s)" by (simp add: live_open open_store_def)
qed

lemma verified_core:
  assumes "verified P L e"
  shows "1 \<le> e_sequence e" "e_previous e = None \<longleftrightarrow> e_sequence e = 1" "is_uuid (e_id e)"
proof -
  obtain d and sl :: selected where
    "validate_core P (without [''content_hash'', ''signature''] d) (sel_manifest sl) = Inr (core.truncate e)"
    by (rule verify_with_Inr [OF assms [unfolded verified_def verify_event_def]]) (rule that)
  from validate_core_Inr [OF this] show "1 \<le> e_sequence e" "e_previous e = None \<longleftrightarrow> e_sequence e = 1" "is_uuid (e_id e)"
    by simp_all
qed

text \<open>Changing one table of a journal.\<close>

lemma journals_update:
  "journals_ok s \<Longrightarrow> distinct (map fst rpc) \<Longrightarrow> journals_ok (s\<lparr>t_rpc := rpc\<rparr>)"
  "journals_ok s \<Longrightarrow> distinct (map fst out) \<Longrightarrow> journals_ok (s\<lparr>t_outbound := out\<rparr>)"
  "journals_ok s \<Longrightarrow> distinct (map fst iss) \<Longrightarrow> journals_ok (s\<lparr>t_issued := iss\<rparr>)"
  "journals_ok s \<Longrightarrow> distinct (map fst inb) \<Longrightarrow> journals_ok (s\<lparr>t_inbound := inb\<rparr>)"
  "journals_ok s \<Longrightarrow> journals_ok (s\<lparr>t_projection := p\<rparr>)"
  by (simp_all add: journals_ok_def row_events_def known_ids_def)

lemma core_update:
  "core_part (s\<lparr>t_rpc := rpc\<rparr>) = core_part s" "core_part (s\<lparr>t_outbound := out\<rparr>) = core_part s"
  "core_part (s\<lparr>t_issued := iss\<rparr>) = core_part s" "core_part (s\<lparr>t_inbound := inb\<rparr>) = core_part s"
  "core_part (s\<lparr>t_projection := p\<rparr>) = core_part s" "core_part (s\<lparr>t_cursors := cs\<rparr>) = core_part s"
  by (simp_all add: core_part_def)

lemma live_update:
  assumes "live P L s"
  shows "distinct (map fst rpc) \<Longrightarrow> live P L (s\<lparr>t_rpc := rpc\<rparr>) \<and> grows s (s\<lparr>t_rpc := rpc\<rparr>)"
    "distinct (map fst out) \<Longrightarrow> live P L (s\<lparr>t_outbound := out\<rparr>) \<and> grows s (s\<lparr>t_outbound := out\<rparr>)"
    "distinct (map fst iss) \<Longrightarrow> live P L (s\<lparr>t_issued := iss\<rparr>) \<and> grows s (s\<lparr>t_issued := iss\<rparr>)"
    "distinct (map fst inb) \<Longrightarrow> live P L (s\<lparr>t_inbound := inb\<rparr>) \<and> grows s (s\<lparr>t_inbound := inb\<rparr>)"
    "live P L (s\<lparr>t_projection := p\<rparr>) \<and> grows s (s\<lparr>t_projection := p\<rparr>)"
  by (rule live_core [OF assms]; simp add: core_update journals_update live_journals [OF assms])+

lemma keys_append: "map_of kvs k = None \<Longrightarrow> distinct (map fst kvs) \<Longrightarrow> distinct (map fst (kvs @ [(k, v)]))"
  by (simp add: map_of_eq_None_iff)

lemma journals_keys:
  assumes "live P L s"
  shows "distinct (map fst (t_rpc s))" "distinct (map fst (t_outbound s))" "distinct (map fst (t_issued s))"
    "distinct (map fst (t_inbound s))" "distinct (map fst (t_local_ops s))"
  using live_journals [OF assms] by (simp_all add: journals_ok_def)

section \<open>Heads\<close>

lemma sort_key_Nil_iff [simp]: "sort_key f xs = [] \<longleftrightarrow> xs = []"
  by (cases xs) (auto simp: insort_not_Nil)

lemma head_event_None: "head_event s i = None \<longleftrightarrow> (\<forall>e \<in> set (row_events s). incarnation e \<noteq> i)"
proof -
  have "head_event s i = None \<longleftrightarrow> sort_key e_sequence (filter (\<lambda>e. incarnation e = i) (row_events s)) = []"
    unfolding head_event_def by (cases "sort_key e_sequence (filter (\<lambda>e. incarnation e = i) (row_events s))") simp_all
  also have "\<dots> \<longleftrightarrow> filter (\<lambda>e. incarnation e = i) (row_events s) = []" by simp
  finally show ?thesis by (auto simp: filter_empty_conv)
qed

lemma head_event_Some:
  assumes "head_event s i = Some e"
  shows "e \<in> set (row_events s)" "incarnation e = i"
    "\<And>f. f \<in> set (row_events s) \<Longrightarrow> incarnation f = i \<Longrightarrow> e_sequence f \<le> e_sequence e"
proof -
  let ?es = "sort_key e_sequence (filter (\<lambda>e. incarnation e = i) (row_events s))"
  have es: "?es \<noteq> []" "e = last ?es"
    using assms by (auto simp: head_event_def split: list.splits)
  have "e \<in> set ?es" unfolding es(2) by (rule last_in_set [OF es(1)])
  then show "e \<in> set (row_events s)" "incarnation e = i" by simp_all
  fix f assume "f \<in> set (row_events s)" "incarnation f = i"
  then have "f \<in> set ?es" by simp
  then obtain k where "k < length ?es" "f = ?es ! k" by (metis in_set_conv_nth)
  moreover have "sorted (map e_sequence ?es)" by simp
  ultimately show "e_sequence f \<le> e_sequence e"
    using es sorted_nth_mono [of "map e_sequence ?es" k "length ?es - 1"] by (simp add: last_conv_nth)
qed

section \<open>Appending\<close>

lemma append_step_live:
  assumes "live P L s" and "append_step P L sg a now uid s = Inr (e, t)"
  shows "live P L t \<and> grows s t \<and> row_events t = row_events s @ [e] \<and> e_id e \<in> known_ids t
    \<and> journal_part t = journal_part s"
proof -
  from assms(2) obtain ds u x where
    e: "create_event P (lg_authority L) (origin_dict (lg_origin L)) sg (draft_of L a s now uid) = Inr e"
    and ds: "dependencies_res e = Inr ds" "ds \<subseteq> known_ids s"
    and u: "insert_event P e (str ''local'') True s = Inr (x, u)" and t: "t = promote u"
    by (auto simp: append_step_def bindR_Inr_iff if_Inl_Inr_iff split: if_splits)
  have dep: "dependencies e = ds" by (simp add: dependencies_def ds)
  have v: "verified P L e" using create_event_Inr(1) [OF e] by (simp add: verified_def)
  have inc: "incarnation e = o_incarnation_id (lg_origin L)" using create_event_origin [OF e] by simp
  have "continues (set (row_events s)) e"
  proof (cases "head_event s (o_incarnation_id (lg_origin L))")
    case None
    then show ?thesis using create_event_Inr(3,4) [OF e] by (simp add: continues_def draft_of_def)
  next
    case (Some q)
    from head_event_Some(1,2) [OF Some] Some create_event_Inr(3,4) [OF e] inc
    show ?thesis by (auto simp: continues_def draft_of_def)
  qed
  from insert_event_open [OF u _ v verified_core(1) [OF v] this] assms(1) dep ds(2)
  have o: "open_store P L u" "grows s u" by (simp_all add: live_open)
  note p = promote_live [OF o(1)]
  have "e_id e \<in> known_ids u" using insert_event_rows(2) [OF u] by simp
  with p(2) have "e_id e \<in> known_ids t" by (auto simp: grows_def t)
  with p o grows_trans [OF o(2) p(2)] insert_event_rows(1) [OF u] insert_event_Inr(9) [OF u] show ?thesis
    by (simp add: t)
qed

lemma step_keeps_append [kept]: "step_keeps P L (append_step P L sg a now uid)"
  by (rule step_keepsI) (use append_step_live in blast)

lemma keeps_append_local [kept]: "keeps P L (append_local P L sg a now uid)"
  unfolding append_local_def by (intro kept)

lemma step_keeps_append_idempotent [kept]:
  "step_keeps P L (append_idempotent_step P L sg a r expected horizon clock uid)"
proof (rule step_keepsI)
  fix s e t assume l: "live P L s" and st: "append_idempotent_step P L sg a r expected horizon clock uid s = Inr (e, t)"
  show "live P L t \<and> grows s t"
  proof (cases "map_of (t_local_ops s) (op_key r)")
    case (Some hi)
    then have "t = s" using st
      by (cases hi) (auto simp: append_idempotent_step_def split: if_splits option.splits)
    with l show ?thesis by simp
  next
    case None
    then obtain u where u: "append_step P L sg a (clock 1) uid s = Inr (e, u)"
      and t: "t = u\<lparr>t_local_ops := t_local_ops u @ [(op_key r, (op_request_hash r, e_id e))]\<rparr>"
      using st unfolding append_idempotent_step_def
      by (auto simp: bindR_Inr_iff Let_def split: if_splits option.splits)
    from append_step_live [OF l u] have a: "live P L u" "grows s u" "e_id e \<in> known_ids u"
      "journal_part u = journal_part s" by simp_all
    have "t_local_ops u = t_local_ops s" using a(4) by (simp add: journal_part_def)
    with None have "op_key r \<notin> fst ` set (t_local_ops u)" by (simp add: map_of_eq_None_iff)
    with live_journals [OF a(1)] a(3) have "journals_ok t"
      by (auto simp: journals_ok_def t row_events_def known_ids_def)
    with live_core [OF a(1), of t] have "live P L t \<and> grows u t" by (simp add: t core_part_def)
    with grows_trans [OF a(2)] show ?thesis by blast
  qed
qed

lemma keeps_if [kept]: "keeps P L m \<Longrightarrow> keeps P L n \<Longrightarrow> keeps P L (if b then m else n)"
  by simp

lemma keeps_append_local_idempotent [kept]:
  "keeps P L (append_local_idempotent P L sg a r expected horizon clock uid)"
  unfolding append_local_idempotent_def by (intro kept)

section \<open>The request journal\<close>

lemma step_keeps_begin_rpc [kept]: "step_keeps P L (begin_rpc_step r now)"
proof (rule step_keepsI)
  fix s x t assume l: "live P L s" and st: "begin_rpc_step r now s = Inr (x, t)"
  show "live P L t \<and> grows s t"
  proof (cases "map_of (t_rpc s) (op_key r)")
    case None
    with st keys_append [OF None journals_keys(1) [OF l]] live_update(1) [OF l] show ?thesis
      by (auto simp: begin_rpc_step_def)
  qed (use l st in \<open>auto simp: begin_rpc_step_def split: if_splits\<close>)
qed

lemma step_keeps_finish_rpc [kept]: "step_keeps P L (finish_rpc_step r response now)"
proof (rule step_keepsI)
  fix s x t assume l: "live P L s" and st: "finish_rpc_step r response now s = Inr (x, t)"
  then have "t = s \<or> (\<exists>q. t = s\<lparr>t_rpc := AList.update (op_key r) q (t_rpc s)\<rparr>)"
    by (auto simp: finish_rpc_step_def split: option.splits if_splits)
  then show "live P L t \<and> grows s t"
  proof
    assume "\<exists>q. t = s\<lparr>t_rpc := AList.update (op_key r) q (t_rpc s)\<rparr>"
    with live_update(1) [OF l] journals_keys(1) [OF l] show ?thesis by auto
  qed (use l in simp)
qed

lemma keeps_begin_rpc [kept]: "keeps P L (begin_rpc P L r clock)"
  unfolding begin_rpc_def by (intro kept)

lemma keeps_finish_rpc [kept]: "keeps P L (finish_rpc P L r response clock)"
  unfolding finish_rpc_def by (intro kept)

section \<open>Evidence\<close>

lemma retain_one_live:
  assumes l: "live P L s" and st: "retain_one P e s = Inr t" and v: "verified P L e"
  shows "live P L t \<and> grows s t"
proof (cases "t = s")
  case True
  with l show ?thesis by simp
next
  case False
  with st have c: "check_identity P s e = Inr ()" "e_id e \<notin> known_ids s" "e_id e \<notin> e_id ` set (t_evidence s)"
    "position e \<notin> position ` set (t_evidence s)"
    and t: "t = feed_conversation (e_id e) (s\<lparr>t_evidence := t_evidence s @ [e]\<rparr>)"
    by (auto simp: retain_one_def bindR_Inr_iff split: if_splits)
  from l obtain f where f: "t_conversation_feed s = Some f" by (auto simp: live_def initialized_def)
  have eq: "t_events t = t_events s" "row_events t = row_events s" "known_ids t = known_ids s"
    "t_evidence t = t_evidence s @ [e]" "t_conversation_feed t = Some (feed_add (e_id e) f)"
    "t_dependencies t = t_dependencies s" "t_known_feed t = t_known_feed s" "t_store_id t = t_store_id s"
    "t_metadata t = t_metadata s" "journal_part t = journal_part s"
    by (simp_all add: t feed_conversation_def f feed_add_def row_events_def known_ids_def journal_part_def)
  have ok: "store_ok P L s" "settled_rows s" "initialized L s" using l by (simp_all add: live_open open_store_def)
  have "journals_ok t" by (rule journals_ok_mono [of s]) (use ok in \<open>simp_all add: store_ok_def eq\<close>)
  moreover have "one_identity P (insert e (set (row_events s) \<union> set (t_evidence s)))"
    using ok(1) c(1) by (intro one_identity_insert) (auto simp: store_ok_def rows_ok_def check_identity_Inr)
  then have "rows_ok P L t" using ok(1) v by (simp add: store_ok_def rows_ok_def eq)
  moreover have "evidence_ok t" using ok(1) c(3,4) by (simp add: store_ok_def evidence_ok_def eq)
  moreover have "deps_ok t" using ok(1) by (simp add: store_ok_def deps_ok_def eq)
  moreover have "feeds_ok t" using ok(1) by (auto simp: store_ok_def feeds_ok_def eq f)
  moreover have "settled_rows t" using ok(2) c(2) by (simp add: settled_rows_def eq)
  moreover have "initialized L t" using ok(3) by (simp add: initialized_def eq)
  ultimately show ?thesis by (simp add: live_open open_store_def store_ok_def grows_def eq f feed_add_def)
qed

lemma retain_all_live:
  assumes "live P L s" and "foldR (retain_one P) es s = Inr t" and "\<And>e. e \<in> set es \<Longrightarrow> verified P L e"
  shows "live P L t \<and> grows s t"
  using assms
proof (induction es arbitrary: s)
  case (Cons e es)
  from Cons.prems(2) obtain u where u: "retain_one P e s = Inr u" "foldR (retain_one P) es u = Inr t"
    by (auto simp: bindR_Inr_iff)
  from retain_one_live [OF Cons.prems(1) u(1)] Cons.prems(3) have "live P L u" "grows s u" by simp_all
  with Cons.IH [OF _ u(2)] Cons.prems(3) grows_trans show ?case by auto
qed simp

lemma verified_page: "mapR (verify_event P (lg_authority L)) vs = Inr es \<Longrightarrow> e \<in> set es \<Longrightarrow> verified P L e"
  unfolding verified_def by (auto dest!: mapR_in_set intro: verify_event_again)

lemma keeps_bind_return:
  assumes "\<And>x. m = Inr x \<Longrightarrow> keeps P L (f x)"
  shows "keeps P L (bindO (returnO m) f)"
  using assms by (cases m) (auto simp: keeps_def bindO_def returnO_def)

text \<open>The page of evidence that \<open>retain_conversation_evidence\<close> accepts.\<close>

lemma retained_page_keeps:
  assumes "(if \<not> (1 \<le> length vs \<and> length vs \<le> 3)
          then raise LedgerError ''conversation_evidence_page_invalid''
        else bindR (page_bytes P vs) (\<lambda>raw.
          if length raw > max_page_bytes then raise LedgerError ''conversation_evidence_page_invalid''
          else bindR (mapR (verify_event P (lg_authority L)) vs) (\<lambda>es.
            if list_ex (\<lambda>e. e_kind e \<noteq> str ''experience.observed''
                          \<or> e_subject e \<notin> str ` {''communication'', ''communication-resolution'',
                                                ''communication-receipt''}) es
              then raise LedgerError ''conversation_evidence_subject_invalid''
            else Inr es))) = Inr es"
  shows "step_keeps P L (\<lambda>s. bindR (foldR (retain_one P) es s) (\<lambda>t. Inr ((), t)))"
proof -
  from assms have "mapR (verify_event P (lg_authority L)) vs = Inr es"
    by (elim guardE) (simp split: if_splits)
  then show ?thesis
    using retain_all_live verified_page by (intro step_keepsI) (fastforce simp: bindR_Inr_iff)
qed

section \<open>Planning\<close>

text \<open>A list of events that continues a set, one event after the other.\<close>

fun continuation :: "event set \<Rightarrow> event list \<Rightarrow> bool" where
  "continuation E [] = True"
| "continuation E (e # es) = (continues E e \<and> continuation (insert e E) es)"

lemma continuation_snoc: "continuation E (es @ [e]) \<longleftrightarrow> continuation E es \<and> continues (E \<union> set es) e"
  by (induction es arbitrary: E) auto

text \<open>The stored event and the presented one are the same.\<close>

definition same_event :: "platform \<Rightarrow> event \<Rightarrow> event \<Rightarrow> bool" where
  "same_event P x e \<longleftrightarrow> e_id x = e_id e \<and> e_content_hash x = e_content_hash e \<and> position x = position e
     \<and> event_bytes P x = event_bytes P e"

lemma same_event_refl [simp]: "same_event P e e"
  by (simp add: same_event_def)

lemma same_event_head: "same_event P x e \<Longrightarrow> head_of x = head_of e \<and> incarnation x = incarnation e"
  by (simp add: same_event_def head_of_def position_def)

definition staged_ok :: "db \<Rightarrow> plan_state \<Rightarrow> bool" where
  "staged_ok s ps \<longleftrightarrow>
     (\<forall>i n x. map_of (ps_heads ps) i = Some (n, x) \<longrightarrow>
        (\<exists>q \<in> set (row_events s) \<union> set (ps_missing ps). incarnation q = i \<and> e_sequence q = n \<and> x = Some (e_id q)))
     \<and> continuation (set (row_events s)) (ps_missing ps)"

lemma staged_head_cases:
  assumes "staged_ok s ps"
  shows "staged_head s ps i = (0, None)
    \<or> (\<exists>q \<in> set (row_events s) \<union> set (ps_missing ps). incarnation q = i \<and> staged_head s ps i = (e_sequence q, Some (e_id q)))"
proof (cases "map_of (ps_heads ps) i")
  case None
  then show ?thesis
    using head_event_Some(1,2) [of s i] by (cases "head_event s i") (auto simp: staged_head_def)
next
  case (Some nx)
  then show ?thesis using assms by (cases nx) (fastforce simp: staged_head_def staged_ok_def)
qed

text \<open>One event of a page: it is stored already, or it is fresh and next in its chain.\<close>

lemma plan_step_Inr:
  assumes "plan_step P s e ps = Inr ps'"
  obtains (stored) r where "find_row s (e_id e) = Some r" "same_event P (r_event r) e" "ps' = ps"
      "check_identity P s e = Inr ()"
  | (fresh) n x where "find_row s (e_id e) = None" "find_position s (position e) = None"
      "check_identity P s e = Inr ()"
      "staged_head s ps (incarnation e) = (n, x)" "e_sequence e = n + 1" "e_previous e = x"
      "ps' = \<lparr>ps_missing = ps_missing ps @ [e],
              ps_heads = AList.update (incarnation e) (e_sequence e, Some (e_id e)) (ps_heads ps)\<rparr>"
proof (cases "find_row s (e_id e)")
  case (Some r)
  with assms find_row_Some [OF Some] have "same_event P (r_event r) e" "ps' = ps" "check_identity P s e = Inr ()"
    by (auto simp: plan_step_def bindR_Inr_iff same_event_def split: if_splits)
  with Some show thesis by (rule stored)
next
  case None
  with assms show thesis
    by (auto simp: plan_step_def bindR_Inr_iff split: option.splits if_splits prod.splits intro!: fresh)
qed

lemma plan_step_staged:
  assumes st: "plan_step P s e ps = Inr ps'" and ok: "staged_ok s ps"
  shows "staged_ok s ps'"
  using st
proof (cases rule: plan_step_Inr)
  case (fresh n x)
  have "continues (set (row_events s) \<union> set (ps_missing ps)) e"
    using staged_head_cases [OF ok, of "incarnation e"] fresh(4-6) by (auto simp: continues_def)
  then show ?thesis
    using ok fresh(7) by (auto simp: staged_ok_def continuation_snoc update_conv')
qed (use ok in simp)

lemma plan_fold:
  assumes "foldR (plan_step P s) es ps = Inr ps'" and "staged_ok s ps"
  shows "staged_ok s ps'" "set (ps_missing ps') \<subseteq> set (ps_missing ps) \<union> set es"
    "\<And>e. e \<in> set es \<Longrightarrow> check_identity P s e = Inr ()
       \<and> (e \<in> set (ps_missing ps') \<or> (\<exists>r. find_row s (e_id e) = Some r \<and> same_event P (r_event r) e))"
    "set (ps_missing ps) \<subseteq> set (ps_missing ps')"
    "\<And>e. e \<in> set (ps_missing ps') \<Longrightarrow> e \<in> set (ps_missing ps) \<or> find_row s (e_id e) = None \<and> find_position s (position e) = None"
    "\<exists>ns. ps_missing ps' = ps_missing ps @ ns \<and> subseq ns es"
proof -
  have "staged_ok s ps' \<and> set (ps_missing ps') \<subseteq> set (ps_missing ps) \<union> set es
    \<and> (\<forall>e \<in> set es. check_identity P s e = Inr ()
       \<and> (e \<in> set (ps_missing ps') \<or> (\<exists>r. find_row s (e_id e) = Some r \<and> same_event P (r_event r) e)))
    \<and> (\<forall>e \<in> set (ps_missing ps'). e \<in> set (ps_missing ps) \<or> find_row s (e_id e) = None \<and> find_position s (position e) = None)
    \<and> (\<exists>ns. ps_missing ps' = ps_missing ps @ ns \<and> subseq ns es)"
    using assms
  proof (induction es arbitrary: ps)
    case (Cons e es)
    then obtain ps1 where p: "plan_step P s e ps = Inr ps1" "foldR (plan_step P s) es ps1 = Inr ps'"
      by (auto simp: bindR_Inr_iff)
    note ih = Cons.IH [OF p(2) plan_step_staged [OF p(1) Cons.prems(2)]]
    from p(1) show ?case
    proof (cases rule: plan_step_Inr)
      case (stored r)
      with ih show ?thesis by auto
    next
      case (fresh n x)
      from ih fresh(7) obtain ns where ns: "ps_missing ps' = ps_missing ps @ e # ns" "subseq ns es" by auto
      have "\<forall>f \<in> set (ps_missing ps'). f \<in> set (ps_missing ps) \<or> find_row s (e_id f) = None \<and> find_position s (position f) = None"
        using ih fresh(1,2,7) by auto
      with ih fresh ns show ?thesis by auto
    qed
  qed simp
  then show "staged_ok s ps'" "set (ps_missing ps') \<subseteq> set (ps_missing ps) \<union> set es"
    "\<And>e. e \<in> set es \<Longrightarrow> check_identity P s e = Inr ()
       \<and> (e \<in> set (ps_missing ps') \<or> (\<exists>r. find_row s (e_id e) = Some r \<and> same_event P (r_event r) e))"
    "set (ps_missing ps) \<subseteq> set (ps_missing ps')"
    "\<And>e. e \<in> set (ps_missing ps') \<Longrightarrow> e \<in> set (ps_missing ps) \<or> find_row s (e_id e) = None \<and> find_position s (position e) = None"
    "\<exists>ns. ps_missing ps' = ps_missing ps @ ns \<and> subseq ns es"
    by auto
qed

text \<open>What a successful plan establishes.\<close>

lemma ordered_page_Inr:
  assumes "ordered_page P L vs = Inr es"
  shows "\<And>e. e \<in> set es \<Longrightarrow> verified P L e" "sorted (map event_key es)" "distinct (map e_id es)"
    "mapR (verify_event P (lg_authority L)) vs = Inr es"
proof -
  from assms show m: "mapR (verify_event P (lg_authority L)) vs = Inr es"
    and "sorted (map event_key es)" "distinct (map e_id es)"
    by (auto simp: ordered_page_def bindR_Inr_iff split: if_splits)
  show "\<And>e. e \<in> set es \<Longrightarrow> verified P L e" by (rule verified_page [OF m])
qed

lemma plan_Inr:
  assumes "plan P L s vs = Inr (validated, missing, n)"
  shows "ordered_page P L vs = Inr validated" "set missing \<subseteq> set validated"
    "continuation (set (row_events s)) missing"
    "\<And>e. e \<in> set validated \<Longrightarrow> check_identity P s e = Inr ()
       \<and> (e \<in> set missing \<or> (\<exists>r. find_row s (e_id e) = Some r \<and> same_event P (r_event r) e))"
    "\<And>e. e \<in> set missing \<Longrightarrow> find_row s (e_id e) = None \<and> find_position s (position e) = None"
    "subseq missing validated"
proof -
  let ?ps = "\<lparr>ps_missing = [], ps_heads = []\<rparr>"
  from assms obtain ps' where v: "ordered_page P L vs = Inr validated"
    and f: "foldR (plan_step P s) validated ?ps = Inr ps'" "missing = ps_missing ps'"
    by (auto simp: plan_def bindR_Inr_iff)
  have s0: "staged_ok s ?ps" by (simp add: staged_ok_def)
  note p = plan_fold [OF f(1) s0]
  show "ordered_page P L vs = Inr validated" by (rule v)
  show "set missing \<subseteq> set validated" using p(2) by (simp add: f(2))
  show "continuation (set (row_events s)) missing" using p(1) by (simp add: staged_ok_def f(2))
  show "\<And>e. e \<in> set validated \<Longrightarrow> check_identity P s e = Inr ()
       \<and> (e \<in> set missing \<or> (\<exists>r. find_row s (e_id e) = Some r \<and> same_event P (r_event r) e))"
    using p(3) by (simp add: f(2))
  show "\<And>e. e \<in> set missing \<Longrightarrow> find_row s (e_id e) = None \<and> find_position s (position e) = None"
    using p(5) by (auto simp: f(2))
  show "subseq missing validated" using p(6) by (auto simp: f(2))
qed

section \<open>Ingesting\<close>

lemma insert_missing_fold:
  assumes "foldR (insert_missing P source) es (known_ids s, s) = Inr (av, t)" and "open_store P L s"
    and "continuation (set (row_events s)) es" and "\<And>e. e \<in> set es \<Longrightarrow> verified P L e"
  shows "open_store P L t" "grows s t" "row_events t = row_events s @ es" "journal_part t = journal_part s"
    "set (t_evidence t) \<subseteq> set (t_evidence s)"
proof -
  have "open_store P L t \<and> grows s t \<and> row_events t = row_events s @ es \<and> journal_part t = journal_part s
    \<and> set (t_evidence t) \<subseteq> set (t_evidence s)"
    using assms
  proof (induction es arbitrary: s)
    case (Cons e es)
    let ?k = "dependencies e \<subseteq> known_ids s"
    from Cons.prems(1) obtain x u where
      u: "insert_event P e source ?k s = Inr (x, u)"
      and rest: "foldR (insert_missing P source) es (if ?k then insert (e_id e) (known_ids s) else known_ids s, u) = Inr (av, t)"
    proof -
      from Cons.prems(1) obtain st where st: "insert_missing P source e (known_ids s, s) = Inr st"
        "foldR (insert_missing P source) es st = Inr (av, t)" by (auto simp: bindR_Inr_iff)
      from st(1) obtain x u where "insert_event P e source ?k s = Inr (x, u)"
        "st = (if ?k then insert (e_id e) (known_ids s) else known_ids s, u)"
        by (auto simp: insert_missing_def bindR_Inr_iff Let_def)
      with st(2) that show thesis by blast
    qed
    have v: "verified P L e" using Cons.prems(4) by simp
    from insert_event_open [OF u Cons.prems(2) v verified_core(1) [OF v]] Cons.prems(3)
    have o: "open_store P L u" "grows s u" by auto
    note r = insert_event_rows [OF u] and i = insert_event_Inr [OF u]
    have rest': "foldR (insert_missing P source) es (known_ids u, u) = Inr (av, t)" using rest r(2) by simp
    have c: "continuation (set (row_events u)) es" using Cons.prems(3) by (simp add: r(1))
    have ev: "set (t_evidence u) \<subseteq> set (t_evidence s)" by (auto simp: i(6))
    from Cons.IH [OF rest' o(1) c] Cons.prems(4) have t: "open_store P L t" "grows u t" "row_events t = row_events u @ es"
      "journal_part t = journal_part u" "set (t_evidence t) \<subseteq> set (t_evidence u)" by simp_all
    with ev grows_trans [OF o(2) t(2)] i(9) show ?case by (auto simp: r(1))
  qed simp
  then show "open_store P L t" "grows s t" "row_events t = row_events s @ es" "journal_part t = journal_part s"
    "set (t_evidence t) \<subseteq> set (t_evidence s)"
    by simp_all
qed

lemma in_update: "x \<in> set (AList.update k v kvs) \<Longrightarrow> x = (k, v) \<or> x \<in> set kvs"
  by (induction kvs) (auto split: if_splits)

lemma core_part_evidence: "core_part t = core_part s \<Longrightarrow> t_evidence t = t_evidence s"
  by (simp add: core_part_def)

definition other_part :: "db \<Rightarrow> _" where
  "other_part s = (t_metadata s, t_peers s, t_equivocations s, t_outbound s, t_issued s, t_inbound s, t_projection s,
     t_local_ops s, t_rpc s, t_store_id s)"

lemma other_part_journal: "journal_part t = journal_part s \<Longrightarrow> other_part t = other_part s"
  by (simp add: journal_part_def other_part_def)

lemma advance_cursor_other: "other_part (advance_cursor source e s) = other_part s"
  by (simp add: advance_cursor_def other_part_def Let_def split: option.split)

lemma advance_cursors_other: "other_part (fold (advance_cursor source) es s) = other_part s"
  by (induction es arbitrary: s) (simp_all add: advance_cursor_other)

lemma advance_cursor_live:
  assumes l: "live P L s" and e: "\<exists>x \<in> set (row_events s). head_of x = head_of e \<and> incarnation x = incarnation e"
  shows "live P L (advance_cursor source e s) \<and> grows s (advance_cursor source e s)
    \<and> core_part (advance_cursor source e s) = core_part s"
proof -
  from live_journals [OF l] have c: "distinct (map fst (t_cursors s))"
    "\<forall>(k, h) \<in> set (t_cursors s). \<exists>x \<in> set (row_events s). incarnation x = snd k \<and> head_of x = h"
    by (simp_all add: journals_ok_def)
  let ?k = "(source, incarnation e)"
  have "\<exists>cs. advance_cursor source e s = s\<lparr>t_cursors := cs\<rparr> \<and> distinct (map fst cs)
      \<and> (\<forall>(k, h) \<in> set cs. \<exists>x \<in> set (row_events s). incarnation x = snd k \<and> head_of x = h)"
  proof (cases "map_of (t_cursors s) ?k")
    case None
    then have "advance_cursor source e s = s\<lparr>t_cursors := t_cursors s @ [(?k, head_of e)]\<rparr>"
      by (simp add: advance_cursor_def)
    moreover have "distinct (map fst (t_cursors s @ [(?k, head_of e)]))"
      by (rule keys_append [OF None c(1)])
    moreover have "\<forall>(k, h) \<in> set (t_cursors s @ [(?k, head_of e)]). \<exists>x \<in> set (row_events s). incarnation x = snd k \<and> head_of x = h"
      using c(2) e by auto
    ultimately show ?thesis by blast
  next
    case (Some h)
    have "\<forall>(k, h) \<in> set (AList.update ?k (head_of e) (t_cursors s)). \<exists>x \<in> set (row_events s). incarnation x = snd k \<and> head_of x = h"
    proof (rule ballI, clarify)
      fix p i g assume "((p, i), g) \<in> set (AList.update ?k (head_of e) (t_cursors s))"
      then have "((p, i), g) = (?k, head_of e) \<or> ((p, i), g) \<in> set (t_cursors s)" by (rule in_update)
      then show "\<exists>x \<in> set (row_events s). incarnation x = snd (p, i) \<and> head_of x = g"
      proof
        assume "((p, i), g) = (?k, head_of e)"
        then have "i = incarnation e" "g = head_of e" by simp_all
        with e show ?thesis by (metis snd_conv)
      next
        assume "((p, i), g) \<in> set (t_cursors s)"
        from bspec [OF c(2) this] show ?thesis by simp
      qed
    qed
    moreover have "advance_cursor source e s =
        (if e_sequence e > h_max_sequence h then s\<lparr>t_cursors := AList.update ?k (head_of e) (t_cursors s)\<rparr>
         else s\<lparr>t_cursors := t_cursors s\<rparr>)"
      using Some by (simp add: advance_cursor_def)
    ultimately show ?thesis using c
      by (cases "e_sequence e > h_max_sequence h")
         (intro exI [of _ "AList.update ?k (head_of e) (t_cursors s)"], simp, intro exI [of _ "t_cursors s"], simp)
  qed
  then obtain cs where cs: "advance_cursor source e s = s\<lparr>t_cursors := cs\<rparr>" "distinct (map fst cs)"
    "\<forall>(k, h) \<in> set cs. \<exists>x \<in> set (row_events s). incarnation x = snd k \<and> head_of x = h" by blast
  have "journals_ok (s\<lparr>t_cursors := cs\<rparr>)"
    using live_journals [OF l] cs(2,3) by (simp add: journals_ok_def row_events_def known_ids_def)
  with live_core [OF l] show ?thesis by (simp add: cs(1) core_update)
qed


lemma advance_cursors_live:
  assumes "live P L s" and "\<And>e. e \<in> set es \<Longrightarrow> \<exists>x \<in> set (row_events s). head_of x = head_of e \<and> incarnation x = incarnation e"
  shows "live P L (fold (advance_cursor source) es s) \<and> grows s (fold (advance_cursor source) es s)
    \<and> core_part (fold (advance_cursor source) es s) = core_part s"
  using assms
proof (induction es arbitrary: s)
  case (Cons e es)
  let ?u = "advance_cursor source e s"
  from advance_cursor_live [OF Cons.prems(1)] Cons.prems(2)
  have u: "live P L ?u" "grows s ?u" "core_part ?u = core_part s" by simp_all
  from Cons.IH [OF u(1)] Cons.prems(2) core_part_rows [OF u(3)] grows_trans [OF u(2)] u(3) show ?case by simp
qed simp

lemma same_event_in_rows:
  assumes "find_row s (e_id e) = Some r" and "same_event P (r_event r) e"
  shows "\<exists>x \<in> set (row_events s). head_of x = head_of e \<and> incarnation x = incarnation e"
  using find_row_Some [OF assms(1)] same_event_head [OF assms(2)] by (auto simp: row_events_def)

lemma apply_page_live:
  assumes l: "live P L s" and pl: "plan P L s vs = Inr (validated, missing, n)"
    and ap: "apply_page P source validated missing s = Inr t"
  shows "live P L t \<and> grows s t \<and> row_events t = row_events s @ missing \<and> set (t_evidence t) \<subseteq> set (t_evidence s)
    \<and> other_part t = other_part s"
proof -
  note p = plan_Inr [OF pl]
  from ap obtain av u where u: "foldR (insert_missing P source) missing (known_ids s, s) = Inr (av, u)"
    and t: "t = fold (advance_cursor source) validated (promote u)"
    by (auto simp: apply_page_def bindR_Inr_iff)
  have o: "open_store P L s" using l by (simp add: live_open)
  have v: "\<And>e. e \<in> set missing \<Longrightarrow> verified P L e" using ordered_page_Inr(1) [OF p(1)] p(2) by blast
  have i: "open_store P L u" "grows s u" "row_events u = row_events s @ missing" "journal_part u = journal_part s"
    "set (t_evidence u) \<subseteq> set (t_evidence s)"
    by (rule insert_missing_fold [OF u o p(3)], erule v)+
  note pr = promote_live [OF i(1)]
  have rows: "\<exists>x \<in> set (row_events (promote u)). head_of x = head_of e \<and> incarnation x = incarnation e" if "e \<in> set validated" for e
  proof (cases "e \<in> set missing")
    case True
    then show ?thesis unfolding pr(3) i(3) by (intro bexI [of _ e]) simp_all
  next
    case False
    with p(4) [OF that] obtain r where "find_row s (e_id e) = Some r" "same_event P (r_event r) e" by blast
    from same_event_in_rows [OF this] obtain x where "x \<in> set (row_events s)" "head_of x = head_of e"
      "incarnation x = incarnation e" by (elim bexE conjE)
    then show ?thesis unfolding pr(3) i(3) by (intro bexI [of _ x]) simp_all
  qed
  have "live P L t \<and> grows (promote u) t \<and> core_part t = core_part (promote u)"
    unfolding t by (rule advance_cursors_live [OF pr(1) rows])
  then have c: "live P L t" "grows (promote u) t" "core_part t = core_part (promote u)" by simp_all
  from core_part_rows [OF c(3)] have "row_events t = row_events s @ missing" by (simp add: pr(3) i(3))
  moreover have "grows s t" using grows_trans [OF grows_trans [OF i(2) pr(2)] c(2)] .
  moreover have "other_part t = other_part s"
    using other_part_journal [OF pr(4)] other_part_journal [OF i(4)] by (simp add: t advance_cursors_other)
  moreover have "set (t_evidence t) \<subseteq> set (t_evidence s)"
    using pr(5) i(5) core_part_evidence [OF c(3)] by simp
  ultimately show ?thesis using c(1) by simp
qed

lemma ingest_step_Inr:
  assumes "ingest_step P L source vs s = Inr (missing, t)"
  obtains validated n where "plan P L s vs = Inr (validated, missing, n)" "apply_page P source validated missing s = Inr t"
  using assms by (auto simp: ingest_step_def bindR_Inr_iff)

lemma step_keeps_ingest [kept]: "step_keeps P L (ingest_step P L source vs)"
  by (rule step_keepsI, erule ingest_step_Inr) (use apply_page_live in blast)

lemma keeps_preview [kept]: "keeps P L (preview_of P L vs)"
  unfolding preview_of_def by (intro kept)

lemma keeps_ingest [kept]: "keeps P L (ingest P L vs source clock)"
  unfolding ingest_def by (intro kept)

lemma ingest_idempotent_step_cases:
  assumes "ingest_idempotent_step P L vs source rid ph base now s = Inr (r, t)"
  obtains (replayed) "map_of (t_inbound s) (source, rid) = Some (ph, r)" "t = s"
  | (applied) validated missing n u where "map_of (t_inbound s) (source, rid) = None"
      "plan P L s vs = Inr (validated, missing, n)" "apply_page P source validated missing s = Inr u"
      "t = u\<lparr>t_inbound := t_inbound u @ [((source, rid), (ph, r))]\<rparr>"
      "rt_received r = length validated" "rt_inserted r = length missing"
      "rt_replayed r = length validated - length missing" "rt_incomplete r = incomplete_count u"
      "rt_achieved_heads r = heads u"
proof (cases "map_of (t_inbound s) (source, rid)")
  case (Some hr)
  then show thesis using assms
    by (cases hr) (auto simp: ingest_idempotent_step_def split: if_splits intro: replayed)
next
  case None
  from assms None obtain validated missing n u raw b where 1: "plan P L s vs = Inr (validated, missing, n)"
    "apply_page P source validated missing s = Inr u"
    and t: "t = u\<lparr>t_inbound := t_inbound u @ [((source, rid), (ph, r))]\<rparr>"
    and r: "r = \<lparr>rt_base = base, rt_received = length validated, rt_inserted = length missing,
                       rt_replayed = length validated - length missing,
                       rt_incomplete = incomplete_count u, rt_achieved_heads = heads u,
                       rt_completed_at_ms = now, rt_hash = sha256_hex (str receipt_domain @ [0] @ raw)\<rparr>"
    unfolding ingest_idempotent_step_def Let_def
    by (simp only: option.case) (elim guardE, simp split: prod.splits, elim guardE, auto)
  show thesis by (rule applied [OF None 1 t]) (simp_all add: r)
qed


lemma step_keeps_ingest_idempotent [kept]:
  "step_keeps P L (ingest_idempotent_step P L vs source rid ph base now)"
proof (rule step_keepsI)
  fix s r t assume l: "live P L s" and st: "ingest_idempotent_step P L vs source rid ph base now s = Inr (r, t)"
  from st show "live P L t \<and> grows s t"
  proof (cases rule: ingest_idempotent_step_cases)
    case replayed
    with l show ?thesis by simp
  next
    case (applied validated missing n u)
    from apply_page_live [OF l applied(2,3)] have u: "live P L u" "grows s u" by simp_all
    have "t_inbound u = t_inbound s"
      using apply_page_live [OF l applied(2,3)] by (simp add: other_part_def)
    with live_update(4) [OF u(1)] keys_append [of "t_inbound u", OF _ journals_keys(4) [OF u(1)]] applied(1)
    have "live P L t \<and> grows u t" by (simp add: applied(4))
    with grows_trans [OF u(2)] show ?thesis by blast
  qed
qed

lemma keeps_ingest_idempotent [kept]: "keeps P L (ingest_idempotent P L vs source rid ph base clock)"
  unfolding ingest_idempotent_def by (intro kept)

section \<open>Serving and issuing\<close>

lemma delta_idempotent_step_cases:
  assumes "delta_idempotent_step P rid rh hs limit s = Inr (pg, t)"
  obtains (replayed) "map_of (t_outbound s) rid = Some (rh, pg)" "t = s"
  | (served) remote where "map_of (t_outbound s) rid = None" "remote_sequences s hs = Inr remote"
      "delta_page P s remote limit = Inr (pg_events pg, pg_more pg)" "pg_offered_heads pg = heads s"
      "t = s\<lparr>t_outbound := t_outbound s @ [(rid, (rh, pg))]\<rparr>"
proof (cases "map_of (t_outbound s) rid")
  case (Some hp)
  then show thesis using assms
    by (cases hp) (auto simp: delta_idempotent_step_def split: if_splits intro: replayed)
next
  case None
  with assms show thesis
    by (auto simp: delta_idempotent_step_def bindR_Inr_iff Let_def intro!: served)
qed

lemma step_keeps_delta_idempotent [kept]: "step_keeps P L (delta_idempotent_step P rid rh hs limit)"
proof (rule step_keepsI)
  fix s pg t assume l: "live P L s" and st: "delta_idempotent_step P rid rh hs limit s = Inr (pg, t)"
  from st show "live P L t \<and> grows s t"
  proof (cases rule: delta_idempotent_step_cases)
    case (served remote)
    with live_update(2) [OF l] keys_append [OF served(1) journals_keys(2) [OF l]] show ?thesis by simp
  qed (use l in simp)
qed

lemma step_keeps_store_issued [kept]: "step_keeps P L (store_issued_step P rid rh request)"
proof (rule step_keepsI)
  fix s x t assume l: "live P L s" and st: "store_issued_step P rid rh request s = Inr (x, t)"
  show "live P L t \<and> grows s t"
  proof (cases "map_of (t_issued s) rid")
    case None
    with st live_update(3) [OF l] keys_append [OF None journals_keys(3) [OF l]] show ?thesis
      by (auto simp: store_issued_step_def)
  next
    case (Some hq)
    with st l show ?thesis by (cases hq) (auto simp: store_issued_step_def split: if_splits)
  qed
qed

lemma keeps_delta [kept]: "keeps P L (delta P L hs limit)"
  unfolding delta_def by (intro kept)

lemma keeps_delta_idempotent [kept]: "keeps P L (delta_idempotent P L rid rh hs limit now)"
  unfolding delta_idempotent_def by (intro kept)

lemma keeps_store_issued [kept]: "keeps P L (store_issued_request P L rid rh request now)"
  unfolding store_issued_request_def by (intro kept)

lemma keeps_set_projection [kept]: "keeps P L (\<lambda>s. (Inr (), s\<lparr>t_projection := p\<rparr>))"
  by (rule keepsI) (use live_update(5) in simp)

lemma keeps_replace_projection [kept]: "keeps P L (replace_projection_cache P L snapshot)"
  unfolding replace_projection_cache_def by (intro keeps_bindO kept) (auto split: option.split val.split intro!: kept)

lemma keeps_projection_cache [kept]: "keeps P L (projection_cache P L)"
  unfolding projection_cache_def by (intro kept)

lemma keeps_rpc_matches [kept]: "keeps P L (rpc_request_matches P L r)"
  unfolding rpc_request_matches_def by (intro kept)

lemma keeps_intake [kept]: "keeps P L (intake P L conversation cursor limit)"
  unfolding intake_def by (intro kept)


lemma keeps_set_peers [kept]:
  "keeps P L (\<lambda>s. (Inr (), s\<lparr>t_peers := AList.update source row (t_peers s)\<rparr>))"
proof (rule keepsI)
  fix s assume l: "live P L s"
  have "live P L (s\<lparr>t_peers := AList.update source row (t_peers s)\<rparr>) \<and> grows s (s\<lparr>t_peers := AList.update source row (t_peers s)\<rparr>)"
    by (rule live_core [OF l])
       (use live_journals [OF l] in \<open>simp_all add: core_part_def journals_ok_def row_events_def known_ids_def\<close>)
  then show "live P L (snd (Inr (), s\<lparr>t_peers := AList.update source row (t_peers s)\<rparr>))
      \<and> grows s (snd (Inr (), s\<lparr>t_peers := AList.update source row (t_peers s)\<rparr>))" by simp
qed

section \<open>From any state of a ledger\<close>

text \<open>
  Every public operation checks its arguments, initializes the tables and then works on a live
  ledger; so it keeps the invariant also of a ledger that was never initialized.
\<close>

definition ok_keeps :: "platform \<Rightarrow> ledger \<Rightarrow> 'a op \<Rightarrow> bool" where
  "ok_keeps P L m \<longleftrightarrow> (\<forall>s. ledger_ok P L s \<longrightarrow> ledger_ok P L (snd (m s)) \<and> grows s (snd (m s)))"

named_theorems ok_kept "public operations of the ledger keep its invariant"

lemma ok_keeps_initialize_first [ok_kept]:
  "(\<And>x. keeps P L (f x)) \<Longrightarrow> ok_keeps P L (bindO (initialize P L) f)"
  using initialize_first [of P L "f ()"] by (auto simp: ok_keeps_def)

lemma ok_keeps_return [ok_kept]: "ok_keeps P L (returnO r)"
  by (simp add: ok_keeps_def returnO_def)

lemma ok_keeps_bind_return [ok_kept]:
  assumes "\<And>x. m = Inr x \<Longrightarrow> ok_keeps P L (f x)"
  shows "ok_keeps P L (bindO (returnO m) f)"
  using assms by (cases m) (auto simp: ok_keeps_def bindO_def returnO_def)

lemma ok_keeps_if [ok_kept]: "ok_keeps P L m \<Longrightarrow> ok_keeps P L n \<Longrightarrow> ok_keeps P L (if b then m else n)"
  by simp

lemma ok_keeps_initialize [ok_kept]: "ok_keeps P L (initialize P L)"
  using initialize_ok by (fastforce simp: ok_keeps_def live_def)

lemma ok_keeps_operations:
  "ok_keeps P L (append_local P L sg a now uid)"
  "ok_keeps P L (append_local_idempotent P L sg a r expected horizon clock uid)"
  "ok_keeps P L (begin_rpc P L c clock)" "ok_keeps P L (finish_rpc P L c response clock)"
  "ok_keeps P L (rpc_request_matches P L c)"
  "ok_keeps P L (ingest P L vs source clock)" "ok_keeps P L (preview_of P L vs)"
  "ok_keeps P L (ingest_idempotent P L vs source rid ph base clock)"
  "ok_keeps P L (delta P L hs limit)" "ok_keeps P L (delta_idempotent P L rid rh hs limit now)"
  "ok_keeps P L (store_issued_request P L rid rh request now)"
  "ok_keeps P L (projection_cache P L)" "ok_keeps P L (intake P L conversation cursor limit)"
  "ok_keeps P L (set_peer_state P L source st error now)"
  unfolding append_local_def append_local_idempotent_def begin_rpc_def finish_rpc_def rpc_request_matches_def
    ingest_def preview_of_def ingest_idempotent_def delta_def delta_idempotent_def store_issued_request_def
    projection_cache_def intake_def
  by (intro ok_kept kept)+ (unfold set_peer_state_def, intro ok_kept, simp add: keeps_set_peers)

lemma ok_keeps_replace_projection: "ok_keeps P L (replace_projection_cache P L snapshot)"
  unfolding replace_projection_cache_def
  by (intro ok_kept) (auto split: option.split val.split intro!: ok_kept kept)

lemma ok_keeps_retain: "ok_keeps P L (retain_conversation_evidence P L vs clock)"
  unfolding retain_conversation_evidence_def
proof (rule ok_keeps_bind_return, rule ok_keeps_initialize_first, rule keeps_recording, rule keeps_transaction)
  fix es
  assume "(if \<not> (1 \<le> length vs \<and> length vs \<le> 3)
          then raise LedgerError ''conversation_evidence_page_invalid''
        else bindR (page_bytes P vs) (\<lambda>raw.
          if length raw > max_page_bytes then raise LedgerError ''conversation_evidence_page_invalid''
          else bindR (mapR (verify_event P (lg_authority L)) vs) (\<lambda>es.
            if list_ex (\<lambda>e. e_kind e \<noteq> str ''experience.observed''
                          \<or> e_subject e \<notin> str ` {''communication'', ''communication-resolution'',
                                                ''communication-receipt''}) es
              then raise LedgerError ''conversation_evidence_subject_invalid''
            else Inr es))) = Inr es"
  then show "step_keeps P L (\<lambda>s. bindR (foldR (retain_one P) es s) (\<lambda>t. Inr ((), t)))"
    by (rule retained_page_keeps)
qed

section \<open>Reachable ledgers\<close>

text \<open>
  One rule per operation that can change the tables, with any arguments. The ledger and its authority stay
  the same, so \<open>initialize\<close> never takes its branch that commits a new authority epoch here.
\<close>

inductive ledger_step :: "platform \<Rightarrow> ledger \<Rightarrow> db \<Rightarrow> db \<Rightarrow> bool" for P L where
  Initialize: "ledger_step P L s (snd (initialize P L s))"
| Append: "ledger_step P L s (snd (append_local P L sg a now uid s))"
| Append_idempotent: "ledger_step P L s (snd (append_local_idempotent P L sg a r expected horizon clock uid s))"
| Begin_rpc: "ledger_step P L s (snd (begin_rpc P L c clock s))"
| Finish_rpc: "ledger_step P L s (snd (finish_rpc P L c response clock s))"
| Retain: "ledger_step P L s (snd (retain_conversation_evidence P L vs clock s))"
| Ingest: "ledger_step P L s (snd (ingest P L vs source clock s))"
| Ingest_idempotent: "ledger_step P L s (snd (ingest_idempotent P L vs source rid ph base clock s))"
| Delta_idempotent: "ledger_step P L s (snd (delta_idempotent P L rid rh hs limit now s))"
| Store_issued: "ledger_step P L s (snd (store_issued_request P L rid rh request now s))"
| Replace_projection: "ledger_step P L s (snd (replace_projection_cache P L snapshot s))"
| Read_preview: "ledger_step P L s (snd (preview_of P L vs s))"
| Read_delta: "ledger_step P L s (snd (delta P L hs limit s))"
| Read_intake: "ledger_step P L s (snd (intake P L conversation cursor limit s))"
| Read_projection: "ledger_step P L s (snd (projection_cache P L s))"

inductive reachable :: "platform \<Rightarrow> ledger \<Rightarrow> db \<Rightarrow> bool" for P L where
  Empty: "reachable P L empty_db"
| Step: "reachable P L s \<Longrightarrow> ledger_step P L s t \<Longrightarrow> reachable P L t"

inductive_cases ledger_stepE: "ledger_step P L s t"
inductive_simps reachable_simps: "reachable P L s"

lemma ledger_ok_empty: "ledger_ok P L empty_db"
  by (simp add: ledger_ok_def store_ok_def rows_ok_def deps_ok_def evidence_ok_def feeds_ok_def journals_ok_def
      settled_rows_def empty_db_def row_events_def known_ids_def chained_def one_identity_def)

lemma ok_keepsD: "ok_keeps P L m \<Longrightarrow> ledger_ok P L s \<Longrightarrow> ledger_ok P L (snd (m s)) \<and> grows s (snd (m s))"
  by (simp add: ok_keeps_def)

lemma ledger_step_ok:
  assumes "ledger_step P L s t" and "ledger_ok P L s"
  shows "ledger_ok P L t \<and> grows s t"
  using assms(1)
  by cases (simp_all only:, (rule ok_keepsD [OF _ assms(2)], intro ok_keeps_operations ok_keeps_retain
        ok_keeps_replace_projection ok_keeps_initialize)+)

lemma reachable_ok: "reachable P L s \<Longrightarrow> ledger_ok P L s"
  by (induction rule: reachable.induct) (auto simp: ledger_ok_empty dest: ledger_step_ok)

lemma ledger_steps_ok:
  assumes "(ledger_step P L)\<^sup>*\<^sup>* s t" and "ledger_ok P L s"
  shows "ledger_ok P L t \<and> grows s t"
  using assms by (induction rule: rtranclp_induct) (auto dest: ledger_step_ok intro: grows_trans)

end
