(* ===== verification/Demo_Ledger.thy ===== *)
theory Demo_Ledger
  imports Demo_Events Ledger_Operations
begin

text \<open>
  A ledger of the concrete platform: its first state, the state after one event of its own, and
  the state after a page with that event from a peer.
\<close>

definition demo_ledger :: ledger where
  "demo_ledger = \<lparr>lg_authority = demo_authority, lg_origin = demo_origin, lg_new_store_id = demo_uuid 9\<rparr>"

definition demo_authoring :: "nat \<Rightarrow> authoring" where
  "demo_authoring n = \<lparr>au_kind = str ''experience.observed'', au_subject = str ''subject'', au_payload = demo_payload,
     au_sensitivity = str ''private'', au_parents = [], au_supersedes = None, au_occurred_at_ms = Some 5000,
     au_event_id = Some (demo_uuid n)\<rparr>"

definition demo_start :: db where
  "demo_start = empty_db\<lparr>t_metadata := Some (expected_metadata demo_ledger), t_store_id := Some (demo_uuid 9),
     t_conversation_feed := Some []\<rparr>"

definition demo_first :: event where
  "demo_first = demo_event 2 1 None []"

definition demo_db :: "string \<Rightarrow> db" where
  "demo_db source = demo_start\<lparr>t_events := [\<lparr>r_event = demo_first, r_known = True, r_source = str source\<rparr>],
     t_known_feed := [demo_uuid 2], t_conversation_feed := Some [demo_uuid 2]\<rparr>"

lemma demo_ledger_sel [simp]:
  "lg_authority demo_ledger = demo_authority" "lg_origin demo_ledger = demo_origin"
  by (simp_all add: demo_ledger_def)

lemma demo_first_links [simp]: "demo_links 1 None []"
  by (simp add: demo_links_def)

lemma demo_first_verified [simp]:
  "verify_event demo demo_authority (event_val demo_first) = Inr demo_first"
  unfolding demo_first_def by (rule demo_event_verifies) simp_all

lemma demo_first_sel [simp]:
  "e_id demo_first = demo_uuid 2" "e_origin demo_first = demo_origin" "e_sequence demo_first = 1"
  "e_previous demo_first = None" "e_parents demo_first = []" "e_supersedes demo_first = None"
  by (simp_all add: demo_first_def)

lemma demo_initialize: "initialize demo demo_ledger empty_db = (Inr (), demo_start)"
  by (simp add: initialize_def bindO_def initialize_metadata_def empty_db_def Let_def initialize_known_feed_def
      initialize_conversation_feed_def demo_start_def demo_ledger_def sort_key_def)

lemma demo_dependencies [simp]: "dependencies_res demo_first = Inr {}" "dependencies demo_first = {}"
proof -
  show *: "dependencies_res demo_first = Inr {}"
    by (simp add: dependencies_res_def payload_refs_def Let_def) (simp add: demo_first_def)
  show "dependencies demo_first = {}" by (simp add: dependencies_def *)
qed

lemma demo_rows [simp]:
  "row_events demo_start = []" "known_ids demo_start = {}" "t_evidence demo_start = []"
  "t_cursors demo_start = []" "t_peers demo_start = []" "t_inbound demo_start = []" "t_outbound demo_start = []"
  "t_issued demo_start = []" "t_rpc demo_start = []" "t_local_ops demo_start = []"
  "row_events (demo_db source) = [demo_first]" "known_ids (demo_db source) = {demo_uuid 2}"
  "t_evidence (demo_db source) = []" "t_cursors (demo_db source) = []"
  by (simp_all add: demo_start_def demo_db_def empty_db_def row_events_def known_ids_def)

lemma demo_insert:
  "insert_event demo demo_first (str source) True demo_start = Inr ((), demo_db source)"
proof -
  have "check_identity demo demo_start demo_first = Inr ()" by (simp add: check_identity_def)
  then show ?thesis
    by (simp add: insert_event_def find_row_None find_position_None Let_def)
      (simp add: feed_known_def feed_conversation_def demo_db_def demo_start_def empty_db_def)
qed

lemma demo_promote: "promote (demo_db source) = demo_db source"
proof -
  have "drop_known_evidence (demo_db source) = demo_db source"
    by (simp add: drop_known_evidence_def)
  moreover have "promotable (demo_db source) = []"
    by (simp add: promotable_def sort_key_def demo_db_def)
  ultimately show ?thesis by (subst promote.simps) simp
qed

lemma demo_append:
  "append_local demo demo_ledger demo_signer (demo_authoring 2) now uid empty_db = (Inr demo_first, demo_db ''local'')"
proof -
  have draft: "draft_of demo_ledger (demo_authoring 2) demo_start now uid = demo_draft 2 1 None []"
    by (simp add: draft_of_def demo_authoring_def demo_draft_def head_event_def sort_key_def Let_def)
  have create: "create_event demo demo_authority (origin_dict demo_origin) demo_signer (demo_draft 2 1 None [])
      = Inr demo_first" unfolding demo_first_def by (rule demo_create) simp_all
  have "append_step demo demo_ledger demo_signer (demo_authoring 2) now uid demo_start
      = Inr (demo_first, demo_db ''local'')"
    using demo_insert [of "''local''"] by (simp add: append_step_def draft create demo_promote)
  then show ?thesis by (simp add: append_local_def bindO_def demo_initialize transaction_def)
qed

lemma demo_reachable: "reachable demo demo_ledger (demo_db ''local'')"
proof -
  have "ledger_step demo demo_ledger empty_db (snd (append_local demo demo_ledger demo_signer (demo_authoring 2) 0 [] empty_db))"
    by (rule ledger_step.Append)
  then show ?thesis unfolding demo_append snd_conv by (rule reachable.Step [OF reachable.Empty])
qed

lemma demo_start_reachable: "reachable demo demo_ledger demo_start"
proof -
  have "ledger_step demo demo_ledger empty_db (snd (initialize demo demo_ledger empty_db))"
    by (rule ledger_step.Initialize)
  then show ?thesis unfolding demo_initialize snd_conv by (rule reachable.Step [OF reachable.Empty])
qed

section \<open>Receiving the event\<close>

lemma demo_page: "\<exists>raw. page_bytes demo [event_val demo_first] = Inr raw \<and> length raw \<le> max_page_bytes"
proof -
  note event = demo_event_val_plain [of 2 1 None "[]", folded demo_first_def]
  have "plain (VDict [(VStr (str ''events''), VList [event_val demo_first])])"
    using event(1) by (simp add: isascii_str)
  from plain_canonical [OF this] obtain raw
    where raw: "canonical_bytes demo (VDict [(VStr (str ''events''), VList [event_val demo_first])]) = Inr raw"
      "length raw \<le> cost (VDict [(VStr (str ''events''), VList [event_val demo_first])])" by blast
  moreover have "cost (VDict [(VStr (str ''events''), VList [event_val demo_first])]) \<le> max_page_bytes"
    using event(2) by (simp add: max_page_bytes_def)
  ultimately show ?thesis by (auto simp: page_bytes_def canonical_we_def)
qed

lemma demo_plan: "plan demo demo_ledger demo_start [event_val demo_first] = Inr ([demo_first], [demo_first], 0)"
proof -
  have page: "ordered_page demo demo_ledger [event_val demo_first] = Inr [demo_first]"
    using demo_page by (auto simp: ordered_page_def max_page_events_def)
  have step: "plan_step demo demo_start demo_first \<lparr>ps_missing = [], ps_heads = []\<rparr>
      = Inr \<lparr>ps_missing = [demo_first], ps_heads = [(o_incarnation_id demo_origin, (1, Some (demo_uuid 2)))]\<rparr>"
  proof -
    have "check_identity demo demo_start demo_first = Inr ()" "find_row demo_start (demo_uuid 2) = None"
      "find_position demo_start (position demo_first) = None" "head_event demo_start i = None" for i
      by (simp_all add: check_identity_def find_row_None find_position_None head_event_None)
    then show ?thesis by (simp add: plan_step_def staged_head_def)
  qed
  show ?thesis
    by (simp add: plan_def page step settle.simps Let_def)
qed

lemma demo_ingest:
  "ingest_step demo demo_ledger (str source) [event_val demo_first] demo_start
    = Inr ([demo_first], advance_cursor (str source) demo_first (demo_db source))"
  by (simp add: ingest_step_def demo_plan apply_page_def insert_missing_def demo_insert demo_promote Let_def
     )

end
