(* ===== verification/Ledger_Journals.thy ===== *)
theory Ledger_Journals
  imports Ledger_Operations
begin

text \<open>
  The request journals of the ledger: the tables of served deltas, applied pages, issued requests,
  local operations and RPC calls. The first three are interpreted as journals of \<open>Causal\<close>, and
  no operation of the ledger takes an answer back.
\<close>

section \<open>Answers stand\<close>

definition answer_part :: "db \<Rightarrow> _" where
  "answer_part s = (t_outbound s, t_issued s, t_inbound s, t_local_ops s, t_rpc s)"

text \<open>A call keeps its hash and its method, and once completed its response.\<close>

definition same_call :: "rpc_row \<Rightarrow> rpc_row \<Rightarrow> bool" where
  "same_call q q' \<longleftrightarrow> q_request_hash q' = q_request_hash q \<and> q_method q' = q_method q
     \<and> (q_completed q \<noteq> None \<longrightarrow> q_completed q' = q_completed q)"

definition answers_stand :: "db \<Rightarrow> db \<Rightarrow> bool" where
  "answers_stand s t \<longleftrightarrow>
     map_of (t_outbound s) \<subseteq>\<^sub>m map_of (t_outbound t) \<and> map_of (t_issued s) \<subseteq>\<^sub>m map_of (t_issued t)
     \<and> map_of (t_inbound s) \<subseteq>\<^sub>m map_of (t_inbound t) \<and> map_of (t_local_ops s) \<subseteq>\<^sub>m map_of (t_local_ops t)
     \<and> (\<forall>k q. map_of (t_rpc s) k = Some q \<longrightarrow> (\<exists>q'. map_of (t_rpc t) k = Some q' \<and> same_call q q'))"

lemma same_call_refl [simp]: "same_call q q"
  by (simp add: same_call_def)

lemma same_call_trans: "same_call q q' \<Longrightarrow> same_call q' q'' \<Longrightarrow> same_call q q''"
  by (auto simp: same_call_def)

lemma answers_stand_eq: "answer_part t = answer_part s \<Longrightarrow> answers_stand s t"
  by (auto simp: answers_stand_def answer_part_def)

lemma answers_stand_refl [simp]: "answers_stand s s"
  by (simp add: answers_stand_eq)

lemma answers_stand_trans [trans]: "answers_stand s t \<Longrightarrow> answers_stand t u \<Longrightarrow> answers_stand s u"
  unfolding answers_stand_def by (meson map_le_trans same_call_trans)

lemma map_le_append: "map_of kvs k = None \<Longrightarrow> map_of kvs \<subseteq>\<^sub>m map_of (kvs @ [(k, v)])"
  by (auto simp: map_le_def map_of_append)

lemma answers_stand_update:
  "map_of (t_outbound s) \<subseteq>\<^sub>m map_of x \<Longrightarrow> answers_stand s (s\<lparr>t_outbound := x\<rparr>)"
  "map_of (t_issued s) \<subseteq>\<^sub>m map_of y \<Longrightarrow> answers_stand s (s\<lparr>t_issued := y\<rparr>)"
  "map_of (t_inbound s) \<subseteq>\<^sub>m map_of z \<Longrightarrow> answers_stand s (s\<lparr>t_inbound := z\<rparr>)"
  "map_of (t_local_ops s) \<subseteq>\<^sub>m map_of w \<Longrightarrow> answers_stand s (s\<lparr>t_local_ops := w\<rparr>)"
  by (auto simp: answers_stand_def)

section \<open>What leaves the journals alone\<close>

lemma journal_answer: "journal_part t = journal_part s \<Longrightarrow> answer_part t = answer_part s"
  by (simp add: journal_part_def answer_part_def)

lemma insert_event_answers: "insert_event P e source known s = Inr (u, t) \<Longrightarrow> answer_part t = answer_part s"
  by (rule journal_answer) (rule insert_event_Inr(9))

lemma promote_answers: "answer_part (promote s) = answer_part s"
proof (induction s rule: promote.induct)
  case (1 s)
  let ?s = "drop_known_evidence s" and ?ready = "map e_id (promotable (drop_known_evidence s))"
  have drop: "answer_part ?s = answer_part s" by (rule journal_answer) simp
  show ?case
  proof (cases "?ready = []")
    case True
    then show ?thesis by (subst promote.simps) (simp add: drop)
  next
    case False
    with 1 [OF refl refl this] have "answer_part (promote s) = answer_part (set_known ?ready ?s)"
      by (subst promote.simps) (simp add: Let_def)
    also have "\<dots> = answer_part ?s" by (rule journal_answer) (simp add: set_known_sel)
    finally show ?thesis using drop by simp
  qed
qed

lemma advance_cursors_answers: "answer_part (fold (advance_cursor source) es s) = answer_part s"
  using advance_cursors_other [of source es s] by (auto simp: answer_part_def other_part_def)

lemma insert_missing_answers:
  "foldR (insert_missing P source) es (av, s) = Inr (av', t) \<Longrightarrow> answer_part t = answer_part s"
proof (induction es arbitrary: av s)
  case (Cons e es)
  then obtain av1 s1 where "insert_missing P source e (av, s) = Inr (av1, s1)"
    and rest: "foldR (insert_missing P source) es (av1, s1) = Inr (av', t)"
    by (auto simp: bindR_Inr_iff)
  then have "answer_part s1 = answer_part s"
    by (auto simp: insert_missing_def Let_def bindR_Inr_iff dest: insert_event_answers)
  with Cons.IH [OF rest] show ?case by simp
qed simp

lemma apply_page_answers:
  assumes "apply_page P source validated missing s = Inr t" shows "answer_part t = answer_part s"
  using assms by (auto simp: apply_page_def bindR_Inr_iff advance_cursors_answers promote_answers
      dest: insert_missing_answers)

section \<open>Operations let answers stand\<close>

definition stands :: "'a op \<Rightarrow> bool" where
  "stands m \<longleftrightarrow> (\<forall>s. answers_stand s (snd (m s)))"

definition step_stands :: "'a step \<Rightarrow> bool" where
  "step_stands f \<longleftrightarrow> (\<forall>s x t. f s = Inr (x, t) \<longrightarrow> answers_stand s t)"

named_theorems standing "operations that take no answer back"

lemma standsD: "stands m \<Longrightarrow> m s = (r, t) \<Longrightarrow> answers_stand s t"
  by (auto simp: stands_def dest: spec [of _ s])

lemma step_standsI: "(\<And>s x t. f s = Inr (x, t) \<Longrightarrow> answers_stand s t) \<Longrightarrow> step_stands f"
  by (auto simp: step_stands_def)

lemma stands_return [standing]: "stands (returnO r)" "stands (\<lambda>s. (f s, s))"
  by (simp_all add: stands_def returnO_def)

lemma stands_bind [standing]:
  assumes "stands m" and "\<And>x. stands (f x)" shows "stands (bindO m f)"
  unfolding stands_def
proof
  fix s
  obtain r t where m: "m s = (r, t)" by (cases "m s")
  then have st: "answers_stand s t" using assms(1) by (rule standsD [rotated])
  show "answers_stand s (snd (bindO m f s))"
  proof (cases r)
    case (Inl e)
    with m st show ?thesis by (simp add: bindO_def)
  next
    case (Inr x)
    have "answers_stand t (snd (f x t))" using assms(2) by (simp add: stands_def)
    with st have "answers_stand s (snd (f x t))" by (rule answers_stand_trans)
    with m Inr show ?thesis by (simp add: bindO_def)
  qed
qed

lemma stands_if [standing]: "stands m \<Longrightarrow> stands n \<Longrightarrow> stands (if b then m else n)"
  by simp

lemma stands_transaction [standing]: "step_stands f \<Longrightarrow> stands (transaction f)"
  by (auto simp: stands_def step_stands_def transaction_def split: sum.splits)

lemma stands_quiet: "(\<And>s. answer_part (snd (m s)) = answer_part s) \<Longrightarrow> stands m"
  by (simp add: stands_def answers_stand_eq)

lemma step_stands_quiet: "(\<And>s x t. f s = Inr (x, t) \<Longrightarrow> answer_part t = answer_part s) \<Longrightarrow> step_stands f"
  by (auto simp: step_stands_def intro: answers_stand_eq)

text \<open>The tables that hold events, evidence, cursors and answers.\<close>

definition table_part :: "db \<Rightarrow> _" where
  "table_part s = (t_events s, t_dependencies s, t_evidence s, t_cursors s, answer_part s)"

lemma table_part_rows:
  "table_part t = table_part s \<Longrightarrow> row_events t = row_events s \<and> known_ids t = known_ids s \<and> answer_part t = answer_part s"
  by (simp add: table_part_def row_events_def known_ids_def)

lemma initialize_tables: "table_part (snd (initialize P L s)) = table_part s"
proof -
  have feed: "table_part (fold feed_conversation is s) = table_part s" for "is" and s :: db
    by (induction "is" arbitrary: s) (simp_all add: feed_conversation_def table_part_def answer_part_def)
  have metadata: "table_part (snd (initialize_metadata P L s)) = table_part s"
    by (auto simp: initialize_metadata_def Let_def transaction_def commit_authority_epoch_def bindR_Inr_iff
        table_part_def answer_part_def split: option.splits sum.splits)
  have later: "table_part (initialize_conversation_feed (initialize_known_feed L t)) = table_part t" for t
    by (simp add: initialize_conversation_feed_def initialize_known_feed_def feed split: option.split)
      (simp add: table_part_def answer_part_def)
  show ?thesis
    using metadata later [of "snd (initialize_metadata P L s)"]
    by (auto simp: initialize_def bindO_def split: prod.splits sum.splits)
qed

lemma stands_initialize [standing]: "stands (initialize P L)"
  by (rule stands_quiet) (use initialize_tables table_part_rows in blast)

lemma record_equivocation_answers:
  "record_equivocation P evidence now s = Inr (x, t) \<Longrightarrow> answer_part t = answer_part s"
  by (auto simp: record_equivocation_def Let_def bindR_Inr_iff answer_part_def split: if_splits)

lemma stands_recording [standing]:
  assumes "stands m" shows "stands (recording P now m)"
  unfolding stands_def
proof
  fix s
  obtain r t where m: "m s = (r, t)" by (cases "m s")
  then have st: "answers_stand s t" using assms by (rule standsD [rotated])
  have "answers_stand s u" if "record_equivocation P ev now t = Inr (x, u)" for ev x u
    using st answers_stand_eq [OF record_equivocation_answers [OF that]] by (rule answers_stand_trans)
  with m st show "answers_stand s (snd (recording P now m s))"
    by (auto simp: recording_def split: sum.split exc.split)
qed

lemma stands_set_peer [standing]: "stands (set_peer_state P L source st error now)"
  unfolding set_peer_state_def
  by (intro standing stands_quiet) (simp add: answer_part_def)

lemma stands_raise_after [standing]: "stands m \<Longrightarrow> stands (raise_after m e)"
  unfolding raise_after_def by (intro standing)

lemma step_stands_record [standing]: "step_stands (record_equivocation P ev now)"
  by (rule step_stands_quiet) (rule record_equivocation_answers)

lemma stands_tracked [standing]:
  fixes m :: "'b op"
  assumes "stands m" shows "stands (tracked P L source now m)"
  unfolding stands_def
proof
  fix s
  obtain r t where m: "m s = (r, t)" by (cases "m s")
  then have st: "answers_stand s t" using assms by (rule standsD [rotated])
  have more: "answers_stand s (snd (k t))" if "stands k" for k :: "'b op"
    using st that answers_stand_trans by (auto simp: stands_def)
  show "answers_stand s (snd (tracked P L source now m s))"
  proof (cases r)
    case (Inl e)
    then show ?thesis using m st
      by (cases e) (auto simp: tracked_def intro!: more standing)
  next
    case (Inr x)
    then show ?thesis using m by (auto simp: tracked_def intro!: more standing)
  qed
qed

section \<open>The operations\<close>

lemma append_step_answers: "append_step P L sg a now uid s = Inr (e, t) \<Longrightarrow> answer_part t = answer_part s"
  by (auto simp: append_step_def bindR_Inr_iff promote_answers split: if_splits dest: insert_event_answers)

lemma step_stands_append [standing]: "step_stands (append_step P L sg a now uid)"
  by (rule step_stands_quiet) (rule append_step_answers)

lemma append_idempotent_cases:
  assumes "append_idempotent_step P L sg a r expected horizon clock uid s = Inr (e, t)"
  obtains (repeated) row i where "map_of (t_local_ops s) (op_key r) = Some (op_request_hash r, i)"
      "find_row s i = Some row" "e = r_event row" "t = s"
  | (fresh) u where "map_of (t_local_ops s) (op_key r) = None"
      "append_step P L sg a (clock 1) uid s = Inr (e, u)"
      "t = u\<lparr>t_local_ops := t_local_ops u @ [(op_key r, (op_request_hash r, e_id e))]\<rparr>"
  using assms
  by (auto simp: append_idempotent_step_def Let_def bindR_Inr_iff split: option.splits if_splits)

lemma step_stands_append_idempotent [standing]:
  "step_stands (append_idempotent_step P L sg a r expected horizon clock uid)"
proof (rule step_standsI)
  fix s e t assume "append_idempotent_step P L sg a r expected horizon clock uid s = Inr (e, t)"
  then show "answers_stand s t"
  proof (cases rule: append_idempotent_cases)
    case (fresh u)
    then have u: "answer_part u = answer_part s" by (intro append_step_answers)
    then have "map_of (t_local_ops u) (op_key r) = None" using fresh(1) by (simp add: answer_part_def)
    then have "answers_stand u t" unfolding fresh(3) by (intro answers_stand_update map_le_append)
    with answers_stand_eq [OF u] show ?thesis by (rule answers_stand_trans)
  qed simp
qed

lemma step_stands_begin_rpc [standing]: "step_stands (begin_rpc_step c now)"
  by (rule step_standsI) (auto simp: begin_rpc_step_def answers_stand_def map_of_append split: option.splits if_splits)

lemma step_stands_finish_rpc [standing]: "step_stands (finish_rpc_step c response now)"
proof (rule step_standsI)
  fix s x t assume "finish_rpc_step c response now s = Inr (x, t)"
  then show "answers_stand s t"
    by (auto simp: finish_rpc_step_def answers_stand_def update_conv' same_call_def split: option.splits if_splits prod.splits)
qed

lemma retain_answers: "foldR (retain_one P) es s = Inr t \<Longrightarrow> answer_part t = answer_part s"
proof (induction es arbitrary: s)
  case (Cons e es)
  then obtain u where "retain_one P e s = Inr u" and rest: "foldR (retain_one P) es u = Inr t"
    by (auto simp: bindR_Inr_iff)
  then have "answer_part u = answer_part s"
    by (auto simp: retain_one_def bindR_Inr_iff feed_conversation_def answer_part_def split: if_splits)
  with Cons.IH [OF rest] show ?case by simp
qed simp

lemma step_stands_retain [standing]: "step_stands (\<lambda>s. bindR (foldR (retain_one P) es s) (\<lambda>t. Inr ((), t)))"
  by (rule step_stands_quiet) (auto simp: bindR_Inr_iff dest: retain_answers)

lemma step_stands_ingest [standing]: "step_stands (ingest_step P L source vs)"
  by (rule step_stands_quiet) (auto simp: ingest_step_def bindR_Inr_iff dest: apply_page_answers)

lemma inbound_fresh:
  assumes "apply_page P source validated missing s = Inr u" and "map_of (t_inbound s) k = None"
  shows "map_of (t_inbound u) k = None" "t_inbound u = t_inbound s"
  using apply_page_answers [OF assms(1)] assms(2) by (simp_all add: answer_part_def)

lemma step_stands_ingest_idempotent [standing]:
  "step_stands (ingest_idempotent_step P L vs source rid ph base now)"
proof (rule step_standsI)
  fix s r t assume "ingest_idempotent_step P L vs source rid ph base now s = Inr (r, t)"
  then show "answers_stand s t"
  proof (cases rule: ingest_idempotent_step_cases)
    case (applied validated missing n u)
    have "answers_stand u t"
      unfolding applied(4) by (intro answers_stand_update map_le_append inbound_fresh(1) [OF applied(3,1)])
    with answers_stand_eq [OF apply_page_answers [OF applied(3)]] show ?thesis by (rule answers_stand_trans)
  qed simp
qed

lemma step_stands_delta [standing]: "step_stands (delta_idempotent_step P rid rh hs limit)"
proof (rule step_standsI)
  fix s pg t assume "delta_idempotent_step P rid rh hs limit s = Inr (pg, t)"
  then show "answers_stand s t"
    by (cases rule: delta_idempotent_step_cases) (auto intro: answers_stand_update map_le_append)
qed

lemma step_stands_issued [standing]: "step_stands (store_issued_step P rid rh request)"
  by (rule step_standsI)
    (auto simp: store_issued_step_def split: option.splits if_splits prod.splits
      intro: answers_stand_update map_le_append)

lemma stands_projection [standing]: "stands (\<lambda>s. (Inr (), s\<lparr>t_projection := p\<rparr>))"
  by (rule stands_quiet) (simp add: answer_part_def)

lemma stands_operations:
  "stands (append_local P L sg a now uid)"
  "stands (append_local_idempotent P L sg a r expected horizon clock uid)"
  "stands (begin_rpc P L c clock)" "stands (finish_rpc P L c response clock)"
  "stands (retain_conversation_evidence P L vs clock)"
  "stands (ingest P L vs source clock)" "stands (ingest_idempotent P L vs source rid ph base clock)"
  "stands (delta_idempotent P L rid rh hs limit now)" "stands (store_issued_request P L rid rh request now)"
  "stands (preview_of P L vs)" "stands (delta P L hs limit)" "stands (intake P L conversation cursor limit)"
  "stands (projection_cache P L)"
  unfolding append_local_def append_local_idempotent_def begin_rpc_def finish_rpc_def retain_conversation_evidence_def
    ingest_def ingest_idempotent_def delta_idempotent_def store_issued_request_def preview_of_def delta_def intake_def
    projection_cache_def
  by (intro standing)+

lemma stands_replace_projection: "stands (replace_projection_cache P L snapshot)"
  unfolding replace_projection_cache_def
  by (intro standing) (auto split: option.split val.split intro!: standing)

lemma ledger_step_answers:
  assumes "ledger_step P L s t" shows "answers_stand s t"
  using assms
  by cases (simp_all only: stands_operations stands_replace_projection stands_initialize
      stands_def [THEN iffD1, THEN spec])

lemma ledger_steps_answers: "(ledger_step P L)\<^sup>*\<^sup>* s t \<Longrightarrow> answers_stand s t"
  by (induction rule: rtranclp_induct) (auto dest: ledger_step_answers intro: answers_stand_trans)

end
