(* ===== verification/Ledger_Interfaces.thy ===== *)
theory Ledger_Interfaces
  imports Ledger_Journals
begin

text \<open>
  The ledger as a provider of the two contracts of \<open>Causal\<close>: its rows and its feed are a causal
  log, and its tables of served deltas, applied pages and issued requests are journals.
\<close>

lemma map_of_snoc: "map_of kvs k = None \<Longrightarrow> map_of (kvs @ [(k, v)]) = (map_of kvs)(k \<mapsto> v)"
  by (auto simp: map_add_def fun_eq_iff split: option.split)

interpretation log: causal_log "e_id :: event \<Rightarrow> pystr" dependencies "\<lambda>s. feeds_ok s \<and> settled_rows s"
  "\<lambda>s. set (row_events s)" known_ids t_known_feed
proof (unfold_locales, goal_cases)
  case (1 s)
  then show ?case by (simp add: feeds_ok_def)
next
  case (2 s)
  then show ?case by (simp add: feeds_ok_def)
next
  case (3 s e)
  then show ?case by (auto simp: settled_rows_def in_row_events in_known_ids)
qed

lemma ok_log: "ledger_ok P L s \<Longrightarrow> feeds_ok s \<and> settled_rows s"
  by (simp add: ledger_ok_def store_ok_def)

lemmas reachable_log = ok_log [OF reachable_ok]

text \<open>A request for a delta: its hash, the requester's heads, and the limit.\<close>

definition delta_answer :: "platform \<Rightarrow> pystr \<Rightarrow> pystr \<times> val list \<times> nat \<Rightarrow> page step" where
  "delta_answer P rid r = delta_idempotent_step P rid (fst r) (fst (snd r)) (snd (snd r))"

interpretation served: journal "\<lambda>s. map_of (t_outbound s)" "fst :: pystr \<times> val list \<times> nat \<Rightarrow> pystr" "delta_answer P"
  for P
proof (unfold_locales, goal_cases)
  case (1 s rid r pg t)
  then have "delta_idempotent_step P rid (fst r) (fst (snd r)) (snd (snd r)) s = Inr (pg, t)" by (simp add: delta_answer_def)
  then show ?case by (cases rule: delta_idempotent_step_cases) (use 1(1) in \<open>auto simp: map_of_snoc simp del: map_of_append\<close>)
next
  case (2 s rid r pg)
  then show ?case by (simp add: delta_answer_def delta_idempotent_step_def)
next
  case (3 s rid h pg r)
  then show ?case by (simp add: delta_answer_def delta_idempotent_step_def)
qed

text \<open>A page to apply: its hash, its events, the base of its receipt, and the time.\<close>

definition page_answer ::
  "platform \<Rightarrow> ledger \<Rightarrow> pystr \<times> pystr \<Rightarrow> pystr \<times> val list \<times> dict \<times> int \<Rightarrow> receipt step" where
  "page_answer P L k r =
     ingest_idempotent_step P L (fst (snd r)) (fst k) (snd k) (fst r) (fst (snd (snd r))) (snd (snd (snd r)))"

interpretation applied: journal "\<lambda>s. map_of (t_inbound s)" "fst :: pystr \<times> val list \<times> dict \<times> int \<Rightarrow> pystr"
  "page_answer P L" for P L
proof (unfold_locales, goal_cases)
  case (1 s k r rc t)
  then have "ingest_idempotent_step P L (fst (snd r)) (fst k) (snd k) (fst r) (fst (snd (snd r))) (snd (snd (snd r))) s
    = Inr (rc, t)" by (simp add: page_answer_def)
  then show ?case
  proof (cases rule: ingest_idempotent_step_cases)
    case replayed
    with 1(1) show ?thesis by simp
  next
    case (applied validated missing n u)
    have "t_inbound u = t_inbound s" "map_of (t_inbound s) k = None"
      using inbound_fresh [OF applied(3,1)] 1(1) by simp_all
    then show ?thesis unfolding applied(4) by (auto simp: map_of_snoc simp del: map_of_append)
  qed
next
  case (2 s k r rc)
  then show ?case by (simp add: page_answer_def ingest_idempotent_step_def)
next
  case (3 s k h rc r)
  then show ?case by (simp add: page_answer_def ingest_idempotent_step_def)
qed

text \<open>A request issued: its hash and its document, fingerprinted by the hash and the document's bytes.\<close>

definition issued_entry :: "platform \<Rightarrow> db \<Rightarrow> pystr \<Rightarrow> ((pystr \<times> bytes res) \<times> dict) option" where
  "issued_entry P s rid = map_option (\<lambda>(h, d). ((h, canonical_bytes P (VDict d)), d)) (map_of (t_issued s) rid)"

definition issued_print :: "platform \<Rightarrow> pystr \<times> dict \<Rightarrow> pystr \<times> bytes res" where
  "issued_print P r = (fst r, canonical_bytes P (VDict (snd r)))"

definition issue_answer :: "platform \<Rightarrow> pystr \<Rightarrow> pystr \<times> dict \<Rightarrow> dict step" where
  "issue_answer P rid r = store_issued_step P rid (fst r) (snd r)"

interpretation issued: journal "issued_entry P" "issued_print P" "issue_answer P" for P
proof (unfold_locales, goal_cases)
  case (1 s rid r d t)
  then show ?case
    by (auto simp: issue_answer_def issued_entry_def issued_print_def store_issued_step_def map_of_snoc fun_eq_iff
        simp del: map_of_append)
next
  case (2 s rid r d)
  then show ?case by (auto simp: issue_answer_def issued_entry_def issued_print_def store_issued_step_def)
next
  case (3 s rid h d r)
  then show ?case by (auto simp: issue_answer_def issued_entry_def issued_print_def store_issued_step_def)
qed

end
