(* ===== verification/Ledger_Properties.thy ===== *)
theory Ledger_Properties
  imports Demo_Ledger Ledger_Interfaces
begin

text \<open>
  The properties of \<^verbatim>\<open>ledger.py\<close> as a whole: what holds in every reachable state, what no operation
  changes, and what is known.
\<close>

section \<open>Shared lemmas\<close>

lemma map_sort_key: "map f (sort_key f xs) = sort (map f xs)"
  by (rule properties_for_sort [symmetric]) auto

lemma sort_key_image:
  assumes "set (map h xs) = set (map h ys)" and "distinct (map k (map h xs))" and "distinct (map k (map h ys))"
  shows "map h (sort_key (\<lambda>x. k (h x)) xs) = map h (sort_key (\<lambda>x. k (h x)) ys)"
proof -
  have "set (map k (map h xs)) = set (map k (map h ys))" using assms(1) by (metis set_map)
  then have "mset (map k (map h xs)) = mset (map k (map h ys))"
    using set_eq_iff_mset_eq_distinct [OF assms(2,3)] by blast
  then have "sort (map k (map h xs)) = sort (map k (map h ys))"
    by (intro properties_for_sort) simp_all
  then have "map k (map h (sort_key (\<lambda>x. k (h x)) xs)) = map k (map h (sort_key (\<lambda>x. k (h x)) ys))"
    using map_sort_key [of "\<lambda>x. k (h x)"] by (simp add: comp_def)
  moreover have "inj_on k (set (map h xs))" using assms(2) by (simp only: distinct_map)
  ultimately show ?thesis
    using assms(1) by (intro map_inj_on [of k]) auto
qed

lemma reachable_rows:
  assumes "reachable P L s"
  shows "distinct (map e_id (row_events s))" "distinct (map position (row_events s))" "chained (set (row_events s))"
    "\<And>e. e \<in> set (row_events s) \<union> set (t_evidence s) \<Longrightarrow> verified P L e"
    "one_identity P (set (row_events s) \<union> set (t_evidence s))" "journals_ok s" "settled_rows s"
  using reachable_ok [OF assms] unfolding ledger_ok_def store_ok_def rows_ok_def by blast+

text \<open>Rows with the same events and the same known ids answer every query alike.\<close>

lemma sort_key_set:
  assumes "set xs = set ys" and "distinct (map k xs)" and "distinct (map k ys)"
  shows "sort_key k xs = sort_key k ys"
  using sort_key_image [of id xs ys k] assms by simp

lemma row_status:
  assumes "distinct (map e_id (row_events s))"
  shows "(\<lambda>r. (r_event r, r_known r)) ` set (t_events s)
      = (\<lambda>e. (e, e_id e \<in> known_ids s)) ` set (row_events s)"
proof -
  have "r_known r \<longleftrightarrow> e_id (r_event r) \<in> known_ids s" if "r \<in> set (t_events s)" for r
    using rows_by [OF assms _ that] that by (auto simp: in_known_ids)
  then show ?thesis by (force simp: row_events_def)
qed

lemma same_heads:
  assumes "set (row_events s) = set (row_events t)"
    and "distinct (map position (row_events s))" and "distinct (map position (row_events t))"
  shows "heads s = heads t"
proof -
  have seq: "distinct (map e_sequence (filter (\<lambda>e. incarnation e = i) (row_events u)))"
    if "distinct (map position (row_events u))" for u i
    using that unfolding distinct_map position_def by (auto simp: inj_on_def)
  have "head_event s i = head_event t i" for i
    unfolding head_event_def using assms(1) sort_key_set [OF _ seq [OF assms(2)] seq [OF assms(3)], of i i]
    by auto
  then show ?thesis by (simp add: heads_def assms(1))
qed

lemma same_list_events:
  assumes "set (row_events s) = set (row_events t)" and "known_ids s = known_ids t"
    and "distinct (map e_id (row_events s))" and "distinct (map e_id (row_events t))"
  shows "list_events b s = list_events b t"
proof -
  have set: "set (map r_event (filter (\<lambda>r. b \<or> r_known r) (t_events u)))
      = {e \<in> set (row_events u). b \<or> e_id e \<in> known_ids u}" if "distinct (map e_id (row_events u))" for u
    using row_status [OF that] by (auto simp: row_events_def image_iff)
  have keys: "distinct (map event_key (map r_event (filter (\<lambda>r. b \<or> r_known r) (t_events u))))"
    if "distinct (map e_id (row_events u))" for u
    using distinct_map_filter [of "\<lambda>r. e_id (r_event r)" "t_events u" "\<lambda>r. b \<or> r_known r"] that
    by (auto simp: row_events_def comp_def distinct_map event_key_def inj_on_def)
  show ?thesis unfolding list_events_def
    by (rule sort_key_set [OF _ keys [OF assms(3)] keys [OF assms(4)]])
      (simp only: set [OF assms(3)] set [OF assms(4)] assms(1,2))
qed

lemma same_state_hash:
  assumes "set (row_events s) = set (row_events t)" and "known_ids s = known_ids t"
    and "distinct (map e_id (row_events s))" and "distinct (map e_id (row_events t))"
    and "lg_authority L = lg_authority M"
  shows "state_hash P L s = state_hash P M t"
proof -
  let ?h = "\<lambda>r. (r_event r, r_known r)" and ?k = "\<lambda>x :: event \<times> bool. e_id (fst x)"
  let ?v = "\<lambda>x :: event \<times> bool. VDict [(VStr (str ''event_id''), VStr (e_id (fst x))),
              (VStr (str ''content_hash''), VStr (e_content_hash (fst x))), (VStr (str ''status''), status_text (snd x))]"
  have "set (map ?h (t_events s)) = set (map ?h (t_events t))"
    using row_status [OF assms(3)] row_status [OF assms(4)] assms(1,2) by simp
  moreover have "distinct (map ?k (map ?h (t_events s)))" "distinct (map ?k (map ?h (t_events t)))"
    using assms(3,4) by (simp_all add: row_events_def comp_def)
  ultimately have "map ?h (sort_key (\<lambda>r. ?k (?h r)) (t_events s)) = map ?h (sort_key (\<lambda>r. ?k (?h r)) (t_events t))"
    by (rule sort_key_image)
  then have "map ?v (map ?h (sort_key (\<lambda>r. ?k (?h r)) (t_events s)))
      = map ?v (map ?h (sort_key (\<lambda>r. ?k (?h r)) (t_events t)))" by (rule arg_cong)
  then have rows: "map (\<lambda>r. VDict [(VStr (str ''event_id''), VStr (e_id (r_event r))),
      (VStr (str ''content_hash''), VStr (e_content_hash (r_event r))), (VStr (str ''status''), status_text (r_known r))])
        (sort_key (\<lambda>r. e_id (r_event r)) (t_events s))
    = map (\<lambda>r. VDict [(VStr (str ''event_id''), VStr (e_id (r_event r))),
      (VStr (str ''content_hash''), VStr (e_content_hash (r_event r))), (VStr (str ''status''), status_text (r_known r))])
        (sort_key (\<lambda>r. e_id (r_event r)) (t_events t))"
    by (simp only: list.map_comp comp_def fst_conv snd_conv)
  show ?thesis by (simp only: state_hash_def Let_def accepted_hashes_def assms(5) rows)
qed

section \<open>Reachable states\<close>

text \<open>
  C2: the tables of a ledger are consistent in every reachable state. No two rows share an id or
  a position; every stored event and every piece of evidence verifies under the ledger's
  authority; rows or evidence with one id or one position are one event, byte for byte; each
  incarnation's rows are a chain from sequence 1, each naming its predecessor; and what is not
  known still lacks a dependency.
\<close>

theorem reachable_ledger_is_consistent:
  assumes "reachable P L s"
  shows "distinct (map e_id (row_events s)) \<and> distinct (map position (row_events s))
    \<and> (\<forall>e \<in> set (row_events s) \<union> set (t_evidence s). verify_event P (lg_authority L) (event_val e) = Inr e)
    \<and> (\<forall>x \<in> set (row_events s) \<union> set (t_evidence s). \<forall>y \<in> set (row_events s) \<union> set (t_evidence s).
         e_id x = e_id y \<or> position x = position y \<longrightarrow> event_bytes P x = event_bytes P y)
    \<and> (\<forall>e \<in> set (row_events s). e_sequence e = 1 \<and> e_previous e = None
         \<or> (\<exists>q \<in> set (row_events s). incarnation q = incarnation e \<and> e_sequence q + 1 = e_sequence e
              \<and> e_previous e = Some (e_id q)))
    \<and> (\<forall>r \<in> set (t_events s). \<not> r_known r \<longrightarrow> \<not> dependencies (r_event r) \<subseteq> known_ids s)"
proof (intro conjI ballI impI)
  note r = reachable_rows [OF assms]
  show "distinct (map e_id (row_events s))" "distinct (map position (row_events s))" by (rule r)+
  show "verify_event P (lg_authority L) (event_val e) = Inr e" if "e \<in> set (row_events s) \<union> set (t_evidence s)" for e
    using r(4) [OF that] by (simp add: verified_def)
  show "event_bytes P x = event_bytes P y" if "x \<in> set (row_events s) \<union> set (t_evidence s)"
    "y \<in> set (row_events s) \<union> set (t_evidence s)" "e_id x = e_id y \<or> position x = position y" for x y
    using r(5) that unfolding one_identity_def same_identity_def by metis
  show "e_sequence e = 1 \<and> e_previous e = None
         \<or> (\<exists>q \<in> set (row_events s). incarnation q = incarnation e \<and> e_sequence q + 1 = e_sequence e
              \<and> e_previous e = Some (e_id q))" if "e \<in> set (row_events s)" for e
    using r(3) that unfolding chained_def continues_def by blast
  show "\<not> dependencies (r_event q) \<subseteq> known_ids s" if "q \<in> set (t_events s)" "\<not> r_known q" for q
    using r(7) that unfolding settled_rows_def by blast
qed

lemma reachable_ledger_is_consistent_witness:
  "verify_event demo demo_authority (event_val demo_first) = Inr demo_first
    \<and> distinct (map e_id (row_events (demo_db ''local'')))"
  using reachable_ledger_is_consistent [OF demo_reachable] by simp

text \<open>
  C27: the ledger only grows. Whatever operations run from a reachable state, the rows stay, in
  order, with new ones after them; what is known stays known; both feeds are only extended; the
  store id stays; and every recorded answer to a request stays as it is.
\<close>

theorem ledger_only_grows:
  assumes "reachable P L s" and "(ledger_step P L)\<^sup>*\<^sup>* s t"
  shows "prefix (row_events s) (row_events t) \<and> known_ids s \<subseteq> known_ids t
    \<and> prefix (t_known_feed s) (t_known_feed t)
    \<and> (\<forall>f. t_conversation_feed s = Some f \<longrightarrow> (\<exists>g. t_conversation_feed t = Some g \<and> prefix f g))
    \<and> (\<forall>i. t_store_id s = Some i \<longrightarrow> t_store_id t = Some i) \<and> answers_stand s t"
  using ledger_steps_ok [OF assms(2) reachable_ok [OF assms(1)]] ledger_steps_answers [OF assms(2)]
  by (simp add: grows_def)

lemma demo_steps: "(ledger_step demo demo_ledger)\<^sup>*\<^sup>* empty_db (demo_db ''local'')"
  using ledger_step.Append [of demo demo_ledger empty_db demo_signer "demo_authoring 2" 0 "[]"]
  unfolding demo_append snd_conv by (rule r_into_rtranclp)

lemma ledger_only_grows_witness: "prefix (row_events empty_db) (row_events (demo_db ''local''))"
  using ledger_only_grows [OF reachable.Empty demo_steps] by blast

text \<open>
  C1: known means causally complete. In every reachable state the known events are exactly those
  all of whose ancestors are stored, the least set closed under dependencies; and the known feed
  lists them in an order in which each comes after all it depends on.
\<close>

theorem known_is_causally_complete:
  assumes "reachable P L s"
  shows "known_ids s = complete e_id dependencies (set (row_events s))
    \<and> set (t_known_feed s) = known_ids s \<and> distinct (t_known_feed s)
    \<and> causal_order e_id dependencies (set (row_events s)) (t_known_feed s)"
  using log.known_complete [OF reachable_log [OF assms]] reachable_log [OF assms]
  by (simp add: feeds_ok_def)

lemma known_is_causally_complete_witness:
  "complete e_id dependencies {demo_first} = {demo_uuid 2}"
  using known_is_causally_complete [OF demo_reachable] by simp

text \<open>
  C3: ledgers with the same events agree. Two ledgers that hold the same set of events, however
  these arrived (in any order, in pages of any size, from any peer), know the same events, have
  the same heads, answer \<^verbatim>\<open>events\<close> with the same list, and under one authority have the same state
  hash.
\<close>

theorem same_events_same_state:
  assumes "reachable P L s" and "reachable P M t" and "set (row_events s) = set (row_events t)"
  shows "known_ids s = known_ids t \<and> heads s = heads t \<and> list_events b s = list_events b t
    \<and> (lg_authority L = lg_authority M \<longrightarrow> state_hash P L s = state_hash P M t)"
proof -
  note s = reachable_rows [OF assms(1)] and t = reachable_rows [OF assms(2)]
  have known: "known_ids s = known_ids t"
    using log.known_determined [OF reachable_log [OF assms(1)] reachable_log [OF assms(2)] assms(3)] .
  show ?thesis
    using known same_heads [OF assms(3) s(2) t(2)] same_list_events [OF assms(3) known s(1) t(1)]
      same_state_hash [OF assms(3) known s(1) t(1)] by blast
qed

end
