(* ===== verification/Ingest_Properties.thy ===== *)
theory Ingest_Properties
  imports Ledger_Properties
begin

text \<open>
  What a page of events does to a ledger: it is applied whole or not at all, applying it again
  changes no row, no stored identity is ever replaced, and its receipt is frozen.
\<close>

section \<open>A page that is stored\<close>

definition holds :: "platform \<Rightarrow> db \<Rightarrow> event \<Rightarrow> bool" where
  "holds P s e \<longleftrightarrow> (\<exists>x \<in> set (row_events s). same_event P x e)"

lemma found_event: "find_row s i = Some r \<Longrightarrow> r_event r \<in> set (row_events s)"
  by (auto simp: in_row_events dest: find_row_Some)

lemma holds_row:
  assumes "ledger_ok P L s"
  shows "holds P s e \<longleftrightarrow> (\<exists>r. find_row s (e_id e) = Some r \<and> same_event P (r_event r) e)"
proof
  assume "holds P s e"
  then obtain r where "r \<in> set (t_events s)" "same_event P (r_event r) e"
    by (auto simp: holds_def in_row_events)
  moreover from this find_row_distinct [of s r] assms have "find_row s (e_id e) = Some r"
    by (simp add: same_event_def ledger_ok_def store_ok_def rows_ok_def)
  ultimately show "\<exists>r. find_row s (e_id e) = Some r \<and> same_event P (r_event r) e" by blast
qed (auto simp: holds_def dest: found_event)

lemma same_event_trans: "same_event P x e \<Longrightarrow> same_event P e y \<Longrightarrow> same_event P x y"
  by (simp add: same_event_def)

lemma holds_mono: "set (row_events s) \<subseteq> set (row_events t) \<Longrightarrow> holds P s e \<Longrightarrow> holds P t e"
  by (auto simp: holds_def)

lemma held_identity:
  assumes "ledger_ok P L s" and "holds P s e" shows "check_identity P s e = Inr ()"
proof -
  from assms(2) obtain y where y: "y \<in> set (row_events s)" "same_event P y e" by (auto simp: holds_def)
  have "event_bytes P x = event_bytes P e" if x: "x \<in> set (row_events s) \<union> set (t_evidence s)" "same_identity e x" for x
  proof -
    have "same_identity y x" using x(2) y(2) by (simp add: same_identity_def same_event_def)
    with x(1) y(1) assms(1) have "event_bytes P x = event_bytes P y"
      unfolding ledger_ok_def store_ok_def rows_ok_def one_identity_def by (metis UnI1)
    with y(2) show ?thesis by (simp add: same_event_def)
  qed
  then show ?thesis by (simp add: check_identity_Inr)
qed

text \<open>Planning a page that is held finds nothing missing.\<close>

lemma plan_held:
  assumes ok: "ledger_ok P L s" and page: "ordered_page P L vs = Inr es" and held: "\<And>e. e \<in> set es \<Longrightarrow> holds P s e"
  shows "plan P L s vs = Inr (es, [], 0)"
proof -
  have step: "plan_step P s e ps = Inr ps" if "e \<in> set es" for e ps
  proof -
    from held [OF that] holds_row [OF ok] obtain r
      where "find_row s (e_id e) = Some r" "same_event P (r_event r) e" by blast
    with held_identity [OF ok held [OF that]] show ?thesis by (simp add: plan_step_def same_event_def)
  qed
  have "foldR (plan_step P s) xs ps = Inr ps" if "set xs \<subseteq> set es" for xs ps
    using that by (induction xs) (simp_all add: step)
  then show ?thesis by (simp add: plan_def page settle.simps)
qed

lemma apply_page_holds:
  assumes l: "live P L s" and pl: "plan P L s vs = Inr (es, missing, n)"
    and ap: "apply_page P source es missing s = Inr t" and e: "e \<in> set es"
  shows "holds P t e"
proof -
  from apply_page_live [OF l pl ap] have rows: "row_events t = row_events s @ missing" by blast
  from plan_Inr(4) [OF pl e] show ?thesis
  proof (elim conjE disjE exE)
    assume "e \<in> set missing" then show ?thesis by (force simp: holds_def rows)
  next
    fix r assume "find_row s (e_id e) = Some r" "same_event P (r_event r) e"
    then show ?thesis by (auto simp: holds_def rows dest: found_event)
  qed
qed

section \<open>What an ingest does to a live ledger\<close>

definition with_peer :: "pystr \<Rightarrow> peer_state \<Rightarrow> pystr option \<Rightarrow> int \<Rightarrow> db \<Rightarrow> db" where
  "with_peer source st error now s =
     s\<lparr>t_peers := AList.update source \<lparr>p_state = st, p_error = error, p_updated_at_ms = now\<rparr> (t_peers s)\<rparr>"

lemma with_peer_sel [simp]:
  "row_events (with_peer source st error now s) = row_events s" "known_ids (with_peer source st error now s) = known_ids s"
  "t_evidence (with_peer source st error now s) = t_evidence s"
  "core_part (with_peer source st error now s) = core_part s" "answer_part (with_peer source st error now s) = answer_part s"
  "t_cursors (with_peer source st error now s) = t_cursors s"
  "incomplete_count (with_peer source st error now s) = incomplete_count s"
  "map_of (t_peers (with_peer source st error now s)) source
    = Some \<lparr>p_state = st, p_error = error, p_updated_at_ms = now\<rparr>"
  by (simp_all add: with_peer_def row_events_def known_ids_def core_part_def answer_part_def incomplete_count_def
      update_conv')

lemma set_peer_live:
  assumes "live P L s"
  shows "set_peer_state P L source st error now s = (Inr (), with_peer source st error now s)"
    and "live P L (with_peer source st error now s)"
proof -
  show *: "set_peer_state P L source st error now s = (Inr (), with_peer source st error now s)"
    using assms by (simp add: set_peer_state_def bindO_def with_peer_def)
  from keeps_set_peer_state [of P L source st error now] * assms show "live P L (with_peer source st error now s)"
    by (auto dest: keepsD)
qed

lemma holds_with_peer [simp]: "holds P (with_peer source st error now s) e = holds P s e"
  by (simp add: holds_def)

lemma ingest_applies:
  assumes l: "live P L s" and "check_peer_id source = Inr u"
    and st: "ingest_step P L source vs s = Inr (missing, t)"
  shows "ingest P L vs source now s =
    (Inr \<lparr>pv_manifest_hash = mf_digest (authority_manifest (lg_authority L)), pv_received = length vs,
        pv_missing = length missing, pv_incomplete = incomplete_count t, pv_event_ids = map e_id missing\<rparr>,
     with_peer source Coherent None (now 0) t)"
proof -
  from st obtain es n where pl: "plan P L s vs = Inr (es, missing, n)" and ap: "apply_page P source es missing s = Inr t"
    by (rule ingest_step_Inr)
  have t: "live P L t" using apply_page_live [OF l pl ap] by blast
  let ?t = "with_peer source Coherent None (now 0) t"
  have t': "live P L ?t" by (rule set_peer_live(2) [OF t])
  have "plan P L ?t vs = Inr (es, [], 0)"
    by (rule plan_held [OF _ plan_Inr(1) [OF pl]])
      (use t' apply_page_holds [OF l pl ap] in \<open>simp_all add: live_def\<close>)
  with t' have preview: "preview_of P L vs ?t = (Inr \<lparr>pv_manifest_hash = mf_digest (authority_manifest (lg_authority L)),
      pv_received = length vs, pv_missing = 0, pv_incomplete = 0, pv_event_ids = []\<rparr>, ?t)"
    by (simp add: preview_of_def bindO_def)
  show ?thesis
    using assms(2) l by (simp add: ingest_def bindO_def returnO_def tracked_def transaction_def st
        set_peer_live(1) [OF t] preview)
qed

text \<open>How a failed ingest leaves a ledger: nothing but the note of it.\<close>

lemma record_equivocation_core:
  "record_equivocation P ev now s = Inr (u, t) \<Longrightarrow> core_part t = core_part s \<and> t_cursors t = t_cursors s
    \<and> answer_part t = answer_part s \<and> t_peers t = t_peers s"
  by (auto simp: record_equivocation_def Let_def bindR_Inr_iff core_part_def answer_part_def split: if_splits)

definition failed_lane :: "pystr \<Rightarrow> exc \<Rightarrow> (nat \<Rightarrow> int) \<Rightarrow> db \<Rightarrow> db" where
  "failed_lane source e now s =
     (case e of
        Equivocation ev \<Rightarrow> with_peer source Quarantined (Some (exc_message e)) (now 1) s
      | Exc c m \<Rightarrow> if c = LedgerGapError then with_peer source Gap (Some m) (now 0) s
          else if c = WeaveProtocolError then with_peer source Quarantined (Some m) (now 0) s else s)"

lemma tracked_fails:
  fixes m :: "'a step"
  assumes l: "live P L s" and st: "m s = Inl e"
  shows "\<exists>x t. tracked P L source now (transaction m) s = (Inl x, t) \<and> core_part t = core_part s
    \<and> t_cursors t = t_cursors s \<and> answer_part t = answer_part s \<and> live P L t"
proof (cases e)
  case (Exc c msg)
  have "tracked P L source now (transaction m) s = (Inl e, failed_lane source e now s)"
    using st l Exc by (simp add: tracked_def transaction_def raise_after_def bindO_def returnO_def
        set_peer_live(1) failed_lane_def)
  then show ?thesis using l Exc by (simp add: failed_lane_def set_peer_live(2))
next
  case (Equivocation ev)
  show ?thesis
  proof (cases "record_equivocation P ev (now 0) s")
    case (Inl x)
    then have "tracked P L source now (transaction m) s = (Inl x, s)" using st Equivocation
      by (simp add: tracked_def transaction_def raise_after_def bindO_def)
    with l show ?thesis by simp
  next
    case (Inr ut)
    obtain u t where ut: "ut = (u, t)" by (cases ut)
    note core = record_equivocation_core [OF Inr [unfolded ut]]
    have t: "live P L t" using step_keepsD [OF keeps_record_equivocation l Inr [unfolded ut]] by blast
    have "tracked P L source now (transaction m) s = (Inl e, failed_lane source e now t)"
      using st Equivocation Inr ut
      by (simp add: tracked_def transaction_def raise_after_def bindO_def returnO_def set_peer_live(1) [OF t] failed_lane_def)
    with core t Equivocation show ?thesis by (simp add: failed_lane_def set_peer_live(2))
  qed
qed

lemma ingest_fails:
  assumes l: "live P L s" and "check_peer_id source = Inr u" and st: "ingest_step P L source vs s = Inl e"
  shows "\<exists>x t. ingest P L vs source now s = (Inl x, t) \<and> core_part t = core_part s
    \<and> t_cursors t = t_cursors s \<and> answer_part t = answer_part s \<and> live P L t"
  using tracked_fails [where m = "ingest_step P L source vs", OF l st, of source now] assms(2) l
  by (auto simp: ingest_def bindO_def returnO_def)

section \<open>Whole pages\<close>

text \<open>Initializing first changes nothing that \<open>ingest\<close> would not have changed.\<close>

lemma initialized_rows:
  "initialize P L s = (r, i) \<Longrightarrow> t_events i = t_events s \<and> row_events i = row_events s \<and> known_ids i = known_ids s
    \<and> t_evidence i = t_evidence s \<and> t_cursors i = t_cursors s"
  using initialize_tables [of P L s] by (simp add: table_part_def row_events_def known_ids_def)

lemma advance_cursors_core: "core_part (fold (advance_cursor source) es s) = core_part s"
  by (induction es arbitrary: s) (auto simp: advance_cursor_def core_part_def Let_def split: option.split)

lemma ingest_initialized:
  assumes "initialize P L s = (Inr (), i)" and "live P L i"
  shows "ingest P L vs source now s = (case check_peer_id source of Inl e \<Rightarrow> (Inl e, s) | Inr _ \<Rightarrow> ingest P L vs source now i)"
  using assms by (simp add: ingest_def bindO_def returnO_def split: sum.split)

text \<open>
  C14: a page is applied whole or not at all. From a reachable state, an ingest that succeeds has
  appended exactly the missing events, in page order, reports them, and holds every event of the
  page; ingesting the page again, at any time and from any peer, then succeeds, finds nothing
  missing and changes no row, no status, no feed and no answer.
\<close>

theorem ingest_is_idempotent:
  assumes "reachable P L s" and "ingest P L vs source now s = (Inr pv, t)"
    and "check_peer_id source' = Inr u"
  shows "\<exists>es missing. ordered_page P L vs = Inr es \<and> row_events t = row_events s @ missing \<and> subseq missing es
    \<and> pv_event_ids pv = map e_id missing \<and> pv_missing pv = length missing \<and> pv_incomplete pv = incomplete_count t
    \<and> (\<forall>e \<in> set es. holds P t e)
    \<and> (\<exists>pv' t'. ingest P L vs source' now' t = (Inr pv', t') \<and> pv_missing pv' = 0
         \<and> core_part t' = core_part t \<and> answer_part t' = answer_part t)"
proof -
  obtain i where i: "initialize P L s = (Inr (), i)" "live P L i" "grows s i"
    using initialize_ok [OF reachable_ok [OF assms(1)]] by blast
  note start = ingest_initialized [OF i(1,2), of vs source now]
  from assms(2) start obtain v where peer: "check_peer_id source = Inr v" and run: "ingest P L vs source now i = (Inr pv, t)"
    by (auto split: sum.splits)
  obtain missing w where st: "ingest_step P L source vs i = Inr (missing, w)"
    using ingest_fails [OF i(2) peer, of vs _ now] run by (cases "ingest_step P L source vs i") auto
  from st obtain es n where pl: "plan P L i vs = Inr (es, missing, n)" and ap: "apply_page P source es missing i = Inr w"
    by (rule ingest_step_Inr)
  note w = apply_page_live [OF i(2) pl ap]
  from run have t: "t = with_peer source Coherent None (now 0) w" and pv: "pv_event_ids pv = map e_id missing"
    "pv_missing pv = length missing" "pv_incomplete pv = incomplete_count w"
    unfolding ingest_applies [OF i(2) peer st] by auto
  have rows: "row_events i = row_events s" using initialized_rows [OF i(1)] by blast
  have live_t: "live P L t" unfolding t using w by (intro set_peer_live(2)) blast
  have held: "holds P t e" if "e \<in> set es" for e
    using apply_page_holds [OF i(2) pl ap that] by (simp add: t)
  have page: "ordered_page P L vs = Inr es" by (rule plan_Inr(1) [OF pl])
  have "plan P L t vs = Inr (es, [], 0)"
    using plan_held [OF _ page held] live_t by (simp add: live_def)
  then obtain t' where again: "ingest_step P L source' vs t = Inr ([], t')" and t': "t' = fold (advance_cursor source') es (promote t)"
    by (simp add: ingest_step_def apply_page_def)
  have "promote t = t" using live_t by (intro promote_settled [of P L]) (auto simp: live_def ledger_ok_def)
  then have same: "core_part t' = core_part t" "answer_part t' = answer_part t"
    by (simp_all add: t' advance_cursors_core advance_cursors_answers)
  have "ingest P L vs source' now' t = (Inr \<lparr>pv_manifest_hash = mf_digest (authority_manifest (lg_authority L)),
      pv_received = length vs, pv_missing = 0, pv_incomplete = incomplete_count t', pv_event_ids = []\<rparr>,
      with_peer source' Coherent None (now' 0) t')"
    using ingest_applies [OF live_t assms(3) again, of now'] by simp
  then have "\<exists>pv' t'. ingest P L vs source' now' t = (Inr pv', t') \<and> pv_missing pv' = 0
      \<and> core_part t' = core_part t \<and> answer_part t' = answer_part t"
    using same by (intro exI conjI) (assumption, simp_all)
  moreover have "row_events t = row_events s @ missing" using w rows by (simp add: t)
  moreover have "pv_incomplete pv = incomplete_count t" using pv by (simp add: t)
  ultimately show ?thesis using page plan_Inr(6) [OF pl] pv(1,2) held by blast
qed

lemma demo_live: "live demo demo_ledger demo_start"
  using reachable_ok [OF demo_start_reachable]
  by (auto simp: live_def initialized_def) (simp_all add: demo_start_def)

lemma demo_peer: "check_peer_id (str ''peer'') = Inr ()"
proof -
  have "encode_utf8 (str ''peer'') = Inr (utf8_bytes (str ''peer''))" by (simp add: encode_utf8_def str_def is_surrogate_def)
  moreover have "length (utf8_bytes (str ''peer'')) = 4" by (simp add: str_def utf8_bytes_def utf8_char_def)
  ultimately show ?thesis by (simp add: check_peer_id_def)
qed

lemma ingest_is_idempotent_witness:
  "\<exists>t pv' t'. holds demo t demo_first \<and> ingest demo demo_ledger [event_val demo_first] (str ''peer'') (\<lambda>_. 7) t = (Inr pv', t')
    \<and> pv_missing pv' = 0 \<and> core_part t' = core_part t"
proof -
  note run = ingest_applies [OF demo_live demo_peer demo_ingest, of "\<lambda>_. 6"]
  have "ordered_page demo demo_ledger [event_val demo_first] = Inr [demo_first]"
    using plan_Inr(1) [OF demo_plan] .
  moreover from ingest_is_idempotent [OF demo_start_reachable run demo_peer, of "\<lambda>_. 7"] obtain es pv' t' where
    "ordered_page demo demo_ledger [event_val demo_first] = Inr es"
    and held: "\<forall>e \<in> set es. holds demo (with_peer (str ''peer'') Coherent None 6
        (advance_cursor (str ''peer'') demo_first (demo_db ''peer''))) e"
    and again: "ingest demo demo_ledger [event_val demo_first] (str ''peer'') (\<lambda>_. 7) (with_peer (str ''peer'') Coherent None 6
        (advance_cursor (str ''peer'') demo_first (demo_db ''peer''))) = (Inr pv', t')"
      "pv_missing pv' = 0" "core_part t' = core_part (with_peer (str ''peer'') Coherent None 6
        (advance_cursor (str ''peer'') demo_first (demo_db ''peer'')))" by blast
  ultimately have "es = [demo_first]" by simp
  with held again show ?thesis by (metis list.set_intros(1))
qed

text \<open>The event written here and the event received from a peer make ledgers that agree.\<close>

lemma demo_received:
  defines "t \<equiv> with_peer (str ''peer'') Coherent None 6 (advance_cursor (str ''peer'') demo_first (demo_db ''peer''))"
  shows "reachable demo demo_ledger t" and "set (row_events t) = {demo_first}"
proof -
  have "ledger_step demo demo_ledger demo_start (snd (ingest demo demo_ledger [event_val demo_first] (str ''peer'') (\<lambda>_. 6) demo_start))"
    by (rule ledger_step.Ingest)
  then show "reachable demo demo_ledger t"
    unfolding ingest_applies [OF demo_live demo_peer demo_ingest] snd_conv t_def
    by (rule reachable.Step [OF demo_start_reachable])
  have "row_events (advance_cursor (str ''peer'') demo_first (demo_db ''peer'')) = row_events (demo_db ''peer'')"
    using core_part_rows [OF advance_cursors_core [of "str ''peer''" "[demo_first]" "demo_db ''peer''"]] by simp
  then show "set (row_events t) = {demo_first}" by (simp add: t_def)
qed

lemma same_events_same_state_witness:
  "\<exists>t. reachable demo demo_ledger t \<and> map_of (t_peers t) (str ''peer'') \<noteq> None
    \<and> known_ids (demo_db ''local'') = known_ids t
    \<and> heads (demo_db ''local'') = heads t
    \<and> state_hash demo demo_ledger (demo_db ''local'') = state_hash demo demo_ledger t"
proof -
  let ?t = "with_peer (str ''peer'') Coherent None 6 (advance_cursor (str ''peer'') demo_first (demo_db ''peer''))"
  have "set (row_events (demo_db ''local'')) = set (row_events ?t)"
    unfolding demo_received(2) by simp
  from same_events_same_state [OF demo_reachable demo_received(1) this] demo_received(1) show ?thesis
    by (intro exI [of _ ?t]) simp
qed

section \<open>Failures\<close>

text \<open>Operations that leave the tables alone always, or whenever they raise.\<close>

definition quiet :: "'a op \<Rightarrow> bool" where
  "quiet m \<longleftrightarrow> (\<forall>s. table_part (snd (m s)) = table_part s)"

definition atomic :: "'a op \<Rightarrow> bool" where
  "atomic m \<longleftrightarrow> (\<forall>s x t. m s = (Inl x, t) \<longrightarrow> table_part t = table_part s)"

lemma quietD: "quiet m \<Longrightarrow> m s = (r, t) \<Longrightarrow> table_part t = table_part s"
  by (auto simp: quiet_def dest: spec [of _ s])

lemma atomicD: "atomic m \<Longrightarrow> m s = (Inl x, t) \<Longrightarrow> table_part t = table_part s"
  by (auto simp: atomic_def)

named_theorems atomics "operations that leave the tables alone when they raise"

lemma atomic_quiet: "quiet m \<Longrightarrow> atomic m"
  by (auto simp: atomic_def quiet_def) (metis snd_conv)

lemma atomic_transaction [atomics]: "atomic (transaction f)"
  by (auto simp: atomic_def transaction_def split: sum.splits)

lemma quiet_return [atomics]: "quiet (returnO r)" "quiet (\<lambda>s. (f s, s))" "atomic (returnO r)" "atomic (\<lambda>s. (f s, s))"
  by (simp_all add: quiet_def atomic_def returnO_def)

lemma quiet_initialize [atomics]: "quiet (initialize P L)"
  by (simp add: quiet_def initialize_tables)

lemma quiet_first [atomics]:
  assumes "quiet m" and "\<And>x. quiet (f x)" shows "quiet (bindO m f)"
  using assms by (auto simp: quiet_def bindO_def split: prod.split sum.split) (metis snd_conv)+

lemma atomic_first [atomics]:
  assumes "quiet m" and "\<And>x. atomic (f x)" shows "atomic (bindO m f)"
  unfolding atomic_def
proof (intro allI impI)
  fix s x t assume run: "bindO m f s = (Inl x, t)"
  obtain r u where m: "m s = (r, u)" by (cases "m s")
  have u: "table_part u = table_part s" using assms(1) m by (auto simp: quiet_def dest: spec [of _ s])
  show "table_part t = table_part s"
    using run m u assms(2) by (cases r) (auto simp: bindO_def atomic_def)
qed

lemma atomic_last [atomics]:
  assumes "atomic m" and "\<And>x s. \<exists>y t. f x s = (Inr y, t)" shows "atomic (bindO m f)"
  unfolding atomic_def
proof (intro allI impI)
  fix s x t assume run: "bindO m f s = (Inl x, t)"
  obtain r u where m: "m s = (r, u)" by (cases "m s")
  show "table_part t = table_part s"
  proof (cases r)
    case (Inl e)
    with m run assms(1) show ?thesis by (auto simp: bindO_def atomic_def)
  next
    case (Inr y)
    obtain z w where "f y u = (Inr z, w)" using assms(2) by blast
    with m Inr run show ?thesis by (simp add: bindO_def)
  qed
qed

lemma atomic_if [atomics]: "atomic m \<Longrightarrow> atomic n \<Longrightarrow> atomic (if b then m else n)"
  by simp

lemma record_equivocation_tables:
  "record_equivocation P ev now s = Inr (x, t) \<Longrightarrow> table_part t = table_part s"
  by (auto simp: record_equivocation_def Let_def bindR_Inr_iff table_part_def answer_part_def split: if_splits)

lemma atomic_recording [atomics]:
  assumes "atomic m" shows "atomic (recording P now m)"
  unfolding atomic_def
proof (intro allI impI)
  fix s x t assume run: "recording P now m s = (Inl x, t)"
  obtain r u where m: "m s = (r, u)" by (cases "m s")
  with run obtain e where r: "r = Inl e" by (cases r) (auto simp: recording_def)
  with m assms have u: "table_part u = table_part s" by (auto simp: atomic_def)
  with run m r show "table_part t = table_part s"
    by (cases e) (auto simp: recording_def record_equivocation_tables split: sum.splits)
qed

lemma quiet_record [atomics]: "quiet (transaction (record_equivocation P ev now))"
  by (auto simp: quiet_def transaction_def record_equivocation_tables split: sum.splits)

lemma quiet_set_peer [atomics]: "quiet (set_peer_state P L source st error now)"
  unfolding set_peer_state_def
  by (intro quiet_first quiet_initialize) (simp add: quiet_def table_part_def answer_part_def)

lemma quiet_raise_after [atomics]: "quiet m \<Longrightarrow> quiet (raise_after m e)"
  unfolding raise_after_def by (intro atomics)

lemma atomic_peer_failure:
  "quiet (raise_after (set_peer_state P L source st error now) e :: 'a op)"
  "quiet (raise_after (bindO (transaction (record_equivocation P ev now))
      (\<lambda>_. set_peer_state P L source st error now')) e :: 'a op)"
  by (intro atomics)+

lemma tracked_success:
  assumes "set_peer_state P L source Coherent None n t = (Inr (), u)" and "m s = (Inr x, t)" and "now 0 = n"
  shows "tracked P L source now m s = (Inr x, u)"
  using assms by (simp add: tracked_def bindO_def returnO_def)

text \<open>Recording a lane cannot fail after a transaction that went through: the ledger is initialized by then.\<close>

lemma tracked_atomic:
  fixes f :: "'a step"
  assumes k: "step_keeps P L f" and l: "live P L s" and run: "tracked P L source now (transaction f) s = (Inl x, t)"
  shows "table_part t = table_part s"
proof (cases "f s")
  case (Inl e)
  with run show ?thesis
    by (cases e) (auto simp: tracked_def transaction_def split: if_splits
        dest!: quietD [OF atomic_peer_failure(1)] quietD [OF atomic_peer_failure(2)])
next
  case (Inr yu)
  obtain y u where yu: "yu = (y, u)" by (cases yu)
  with Inr k l have u: "live P L u" by (auto dest: step_keepsD)
  have "tracked P L source now (transaction f) s = (Inr y, with_peer source Coherent None (now 0) u)"
    by (rule tracked_success [OF set_peer_live(1) [OF u]]) (simp_all add: transaction_def Inr yu)
  with run show ?thesis by simp
qed

lemma atomic_operations:
  "atomic (append_local P L sg a now uid)"
  "atomic (append_local_idempotent P L sg a r expected horizon clock uid)"
  "atomic (retain_conversation_evidence P L vs clock)"
  "atomic (delta_idempotent P L rid rh hs limit now)" "atomic (store_issued_request P L rid rh request now)"
  unfolding append_local_def append_local_idempotent_def retain_conversation_evidence_def delta_idempotent_def
    store_issued_request_def
  by (intro atomics)+

lemma live_first:
  assumes "ledger_ok P L s" and "bindO (initialize P L) f s = (r, t)"
  obtains i where "live P L i" "table_part i = table_part s" "f () i = (r, t)"
proof -
  obtain i where i: "initialize P L s = (Inr (), i)" "live P L i" using initialize_ok [OF assms(1)] by blast
  with assms(2) initialize_tables [of P L s] show thesis by (intro that [of i]) (simp_all add: bindO_def)
qed

lemma ingest_atomic:
  assumes ok: "ledger_ok P L s" and run: "ingest P L vs source now s = (Inl x, t)"
  shows "table_part t = table_part s"
proof (cases "check_peer_id source")
  case (Inl e)
  with run show ?thesis by (simp add: ingest_def bindO_def returnO_def)
next
  case (Inr u)
  obtain i where i: "initialize P L s = (Inr (), i)" "live P L i" using initialize_ok [OF ok] by blast
  have run': "ingest P L vs source now i = (Inl x, t)"
    using run ingest_initialized [OF i, of vs source now] Inr by simp
  then obtain e where "ingest_step P L source vs i = Inl e"
    using ingest_applies [OF i(2) Inr] by (cases "ingest_step P L source vs i") auto
  from ingest_fails [OF i(2) Inr this, of now] run' have "table_part t = table_part i"
    by (auto simp: table_part_def core_part_def)
  with initialize_tables [of P L s] i(1) show ?thesis by simp
qed

lemma ingest_idempotent_atomic:
  assumes ok: "ledger_ok P L s" and run: "ingest_idempotent P L vs source rid ph base clock s = (Inl x, t)"
  shows "table_part t = table_part s"
proof (cases "check_peer_id source")
  case (Inl e)
  with run show ?thesis by (simp add: ingest_idempotent_def bindO_def returnO_def)
next
  case (Inr u)
  with run have "bindO (initialize P L) (\<lambda>_. tracked P L source (\<lambda>i. clock (i + 1))
      (transaction (ingest_idempotent_step P L vs source rid ph base (clock 0)))) s = (Inl x, t)"
    by (simp add: ingest_idempotent_def bindO_def returnO_def)
  from live_first [OF ok this] obtain i where "live P L i" "table_part i = table_part s"
    "tracked P L source (\<lambda>i. clock (i + 1)) (transaction (ingest_idempotent_step P L vs source rid ph base (clock 0))) i = (Inl x, t)" .
  with tracked_atomic [OF step_keeps_ingest_idempotent] show ?thesis by metis
qed

text \<open>
  C7: an operation that raises has stored nothing. Whenever an append, a retention of evidence, an
  ingest, a served delta or a stored request raises, on any path, the events, their statuses, the
  dependencies, the evidence, the cursors and all recorded answers are what they were; at most
  the lane's state and the record of an equivocation have changed.
\<close>

theorem failed_operations_store_nothing:
  assumes "reachable P L s"
    and "append_local P L sg a now uid s = (Inl x, t)
      \<or> append_local_idempotent P L sg a r expected horizon clock uid s = (Inl x, t)
      \<or> retain_conversation_evidence P L vs clock s = (Inl x, t)
      \<or> ingest P L vs source clock s = (Inl x, t)
      \<or> ingest_idempotent P L vs source rid ph base clock s = (Inl x, t)
      \<or> delta_idempotent P L rid rh hs limit now s = (Inl x, t)
      \<or> store_issued_request P L rid rh request now s = (Inl x, t)"
  shows "table_part t = table_part s"
  using assms(2)
proof (elim disjE)
  show "ingest P L vs source clock s = (Inl x, t) \<Longrightarrow> table_part t = table_part s"
    by (rule ingest_atomic [OF reachable_ok [OF assms(1)]])
  show "ingest_idempotent P L vs source rid ph base clock s = (Inl x, t) \<Longrightarrow> table_part t = table_part s"
    by (rule ingest_idempotent_atomic [OF reachable_ok [OF assms(1)]])
qed (erule atomic_operations [THEN atomicD])+

lemma demo_bad_page:
  "\<exists>x t. ingest demo demo_ledger [VNone] (str ''peer'') (\<lambda>_. 6) demo_start = (Inl x, t)"
proof (cases "ingest_step demo demo_ledger (str ''peer'') [VNone] demo_start")
  case (Inl e)
  from ingest_fails [OF demo_live demo_peer this] show ?thesis by blast
next
  case (Inr mt)
  then obtain es missing n where "plan demo demo_ledger demo_start [VNone] = Inr (es, missing, n)"
    by (cases mt) (auto elim!: ingest_step_Inr)
  from ordered_page_Inr(4) [OF plan_Inr(1) [OF this]] have False
    by (simp add: verify_event_def verify_with_def closed_we_def closed_dict_def bindR_Inr_iff)
  then show ?thesis ..
qed

lemma failed_operations_store_nothing_witness:
  "\<exists>x t. ingest demo demo_ledger [VNone] (str ''peer'') (\<lambda>_. 6) demo_start = (Inl x, t) \<and> table_part t = table_part demo_start"
proof -
  obtain x t where run: "ingest demo demo_ledger [VNone] (str ''peer'') (\<lambda>_. 6) demo_start = (Inl x, t)"
    using demo_bad_page by blast
  with failed_operations_store_nothing [OF demo_start_reachable, where x = x and t = t] show ?thesis by blast
qed

end
