(* ===== verification/Answers_Properties.thy ===== *)
theory Answers_Properties
  imports Ingest_Properties
begin

text \<open>
  The answers of the ledger: receipts, delta pages, local operations and RPC responses are what
  they say, and once given they are given again.
\<close>

section \<open>Identities\<close>

text \<open>The document of a conflict of two verified events has canonical bytes.\<close>

lemma normal_member:
  assumes "normalize P (VDict d) = Inr j" and "(VStr k, v) \<in> set d"
  shows "\<exists>i. normalize P v = Inr i"
proof -
  from assms(1) obtain kvs where "list_all2 (member_normal P) d kvs" unfolding normalize_VDict_Inr by blast
  then show ?thesis using assms(2) by (induction rule: list_all2_induct) (auto simp: member_normal_def)
qed

lemma normalize_ascii_dict:
  assumes "distinct (map fst fs)" and "\<And>k v. (k, v) \<in> set fs \<Longrightarrow> isascii (str k) \<and> (\<exists>i. normalize P v = Inr i)"
  shows "\<exists>j. normalize P (VDict (map (\<lambda>(k, v). (VStr (str k), v)) fs)) = Inr j"
proof -
  from assms(2) have "\<exists>i. isascii (str (fst kv)) \<and> normalize P (snd kv) = Inr i" if "kv \<in> set fs" for kv
    using that by (cases kv) auto
  then obtain f where f: "\<And>kv. kv \<in> set fs \<Longrightarrow> isascii (str (fst kv)) \<and> normalize P (snd kv) = Inr (f kv)" by metis
  let ?kvs = "map (\<lambda>kv. (str (fst kv), f kv)) fs"
  have "list_all2 (member_normal P) (map (\<lambda>(k, v). (VStr (str k), v)) fs) ?kvs"
    using f by (simp add: list.rel_map list_all2_same member_normal_def normalize_str_ascii split_beta)
  moreover have keys: "map fst ?kvs = map str (map fst fs)" by simp
  have "distinct (map fst ?kvs)" unfolding keys using assms(1) by (subst distinct_map) (simp add: inj_on_def)
  ultimately show ?thesis unfolding normalize_VDict_Inr by blast
qed

lemma verified_members:
  assumes "verify_event P A v = Inr e" and "(VStr k, x) \<in> set (core_dict e)"
  shows "\<exists>i. normalize P x = Inr i"
proof -
  from assms(1) have "verify_with P (select_authority P A) v = Inr e" by (simp add: verify_event_def)
  then obtain raw where "canonical_bytes P (VDict (core_dict e)) = Inr raw" by (rule verify_with_Inr)
  then obtain j where "normalize P (VDict (core_dict e)) = Inr j" by (auto simp: canonical_bytes_def bindR_Inr_iff)
  from normal_member [OF this assms(2)] show ?thesis .
qed

lemma verified_hash:
  assumes "verify_event P A v = Inr e" shows "isascii (e_content_hash e)"
proof -
  from assms have "verify_with P (select_authority P A) v = Inr e" by (simp add: verify_event_def)
  then obtain raw where "e_content_hash e = sha256_hex raw" by (rule verify_with_Inr)
  then show ?thesis by (simp add: isascii_hex64 is_hex64_sha256_hex)
qed

lemma verified_incarnation:
  assumes "verify_event P A v = Inr e" shows "\<exists>i. normalize P (VStr (incarnation e)) = Inr i"
proof -
  have "(VStr (str ''origin''), origin_val (e_origin e)) \<in> set (core_dict e)" by (simp add: core_dict_def)
  from verified_members [OF assms this] obtain j where "normalize P (origin_val (e_origin e)) = Inr j" by blast
  then have "normalize P (VDict (origin_dict (e_origin e))) = Inr j" by (simp add: origin_val_def)
  from normal_member [OF this, of "str ''incarnation_id''"] show ?thesis by (simp add: origin_dict_def)
qed

lemma conflict_recorded:
  assumes "verify_event P A v = Inr e" "verify_event P A w = Inr x" and "event_conflict lane (Some x) e = Equivocation ev"
    and "isascii (str lane)"
  shows "\<exists>raw. canonical_bytes P (VDict ev) = Inr raw"
proof -
  have id: "(VStr (str ''event_id''), VStr (e_id y)) \<in> set (core_dict y)"
    "(VStr (str ''sequence''), VInt (e_sequence y)) \<in> set (core_dict y)" for y by (simp_all add: core_dict_def)
  have "\<exists>j. normalize P (VDict (map (\<lambda>(k, v). (VStr (str k), v)) ((''schema'', VStr (str ''dm.we.equivocation/v1''))
      # [(''lane'', VStr (str lane)), (''incarnation_id'', VStr (incarnation e)), (''sequence'', VInt (e_sequence e)),
        (''existing_event_id'', VStr (e_id x)), (''existing_content_hash'', VStr (e_content_hash x)),
        (''presented_event_id'', VStr (e_id e)), (''presented_content_hash'', VStr (e_content_hash e))]))) = Inr j"
    using verified_members [OF assms(1) id(1)] verified_members [OF assms(1) id(2)] verified_members [OF assms(2) id(1)]
      verified_incarnation [OF assms(1)] verified_hash [OF assms(1)] verified_hash [OF assms(2)] assms(4)
    by (intro normalize_ascii_dict) (simp, auto simp: normalize_str_ascii isascii_str simp del: normalize.simps(3))
  moreover from assms(3) have "ev = map (\<lambda>(k, v). (VStr (str k), v)) ((''schema'', VStr (str ''dm.we.equivocation/v1''))
      # [(''lane'', VStr (str lane)), (''incarnation_id'', VStr (incarnation e)), (''sequence'', VInt (e_sequence e)),
        (''existing_event_id'', VStr (e_id x)), (''existing_content_hash'', VStr (e_content_hash x)),
        (''presented_event_id'', VStr (e_id e)), (''presented_content_hash'', VStr (e_content_hash e))])"
    by (simp add: event_conflict_def equivocation_dict_def opt_str_def)
  ultimately show ?thesis by (auto simp: canonical_bytes_def)
qed

lemma foldR_append: "foldR f xs s = Inr t \<Longrightarrow> foldR f (xs @ ys) s = foldR f ys t"
  by (induction xs arbitrary: s) (auto simp: bindR_Inr_iff)

lemma found_bad: "find Q xs = Some y \<Longrightarrow> y \<in> set xs \<and> Q y"
  by (induction xs) (auto split: if_splits)

lemma check_identity_conflict:
  assumes "x \<in> set (row_events s) \<union> set (t_evidence s)" and "same_identity e x" and "event_bytes P x \<noteq> event_bytes P e"
  obtains y where "y \<in> set (row_events s) \<union> set (t_evidence s)" "same_identity e y" "event_bytes P y \<noteq> event_bytes P e"
    "check_identity P s e = Inl (event_conflict ''conversation_identity'' (Some y) e)"
proof -
  let ?bad = "\<lambda>x. same_identity e x \<and> event_bytes P x \<noteq> event_bytes P e"
  have "find ?bad (row_events s @ t_evidence s) \<noteq> None" using assms unfolding find_None_iff by auto
  then obtain y where y: "find ?bad (row_events s @ t_evidence s) = Some y" by blast
  then have "y \<in> set (row_events s @ t_evidence s) \<and> ?bad y" by (rule found_bad)
  with y that show thesis by (auto simp: check_identity_def)
qed

text \<open>A page fails at its first faulty event: the events before it make a page that can be previewed.\<close>

lemma plan_conflict:
  assumes "ordered_page P L vs = Inr (es @ e # rest)" and "plan P L s (take (length es) vs) = Inr p"
    and "check_identity P s e = Inl c"
  shows "plan P L s vs = Inl c"
proof -
  obtain validated missing n where p: "p = (validated, missing, n)" by (cases p)
  from assms(2) [unfolded p] obtain ps where v: "ordered_page P L (take (length es) vs) = Inr validated"
    and f: "foldR (plan_step P s) validated \<lparr>ps_missing = [], ps_heads = []\<rparr> = Inr ps"
    by (auto simp: plan_def bindR_Inr_iff)
  have "list_all2 (\<lambda>v e. verify_event P (lg_authority L) v = Inr e) vs (es @ e # rest)"
    using assms(1) by (auto simp: ordered_page_def mapR_Inr_iff bindR_Inr_iff split: if_splits)
  then have "list_all2 (\<lambda>v e. verify_event P (lg_authority L) v = Inr e) (take (length es) vs) es"
    using list_all2_takeI [of _ vs "es @ e # rest" "length es"] by simp
  moreover have "list_all2 (\<lambda>v e. verify_event P (lg_authority L) v = Inr e) (take (length es) vs) validated"
    using v by (auto simp: ordered_page_def mapR_Inr_iff bindR_Inr_iff split: if_splits)
  ultimately have "mapR (verify_event P (lg_authority L)) (take (length es) vs) = Inr es"
    "mapR (verify_event P (lg_authority L)) (take (length es) vs) = Inr validated" by (simp_all add: mapR_Inr_iff)
  then have "validated = es" by simp
  with f have "foldR (plan_step P s) (es @ e # rest) \<lparr>ps_missing = [], ps_heads = []\<rparr> = Inl c"
    using assms(3) by (simp add: foldR_append [OF f [unfolded \<open>validated = es\<close>]] plan_step_def)
  with assms(1) show ?thesis by (simp add: plan_def)
qed

text \<open>How a conflict is recorded.\<close>

lemma tracked_conflict:
  assumes "live P L s" and "m s = Inl (Equivocation ev)" and "canonical_bytes P (VDict ev) = Inr raw"
  obtains t where "tracked P L source clock (transaction m) s = (Inl (Equivocation ev), t)"
    "sha256_hex raw \<in> fst ` set (t_equivocations t)"
    "map_of (t_peers t) source = Some \<lparr>p_state = Quarantined, p_error = Some (str ''origin_equivocation''), p_updated_at_ms = clock 1\<rparr>"
proof -
  obtain u where u: "record_equivocation P ev (clock 0) s = Inr ((), u)" "sha256_hex raw \<in> fst ` set (t_equivocations u)"
    using assms(3) by (auto simp: record_equivocation_def Let_def split: if_splits)
  have "live P L u" using step_keepsD [OF keeps_record_equivocation assms(1) u(1)] by blast
  from set_peer_live(1) [OF this, of source Quarantined "Some (str ''origin_equivocation'')" "clock 1"]
  have "tracked P L source clock (transaction m) s
      = (Inl (Equivocation ev), with_peer source Quarantined (Some (str ''origin_equivocation'')) (clock 1) u)"
    using assms(2) u(1) by (simp add: tracked_def transaction_def raise_after_def bindO_def returnO_def)
  from that [OF this] u(2) show thesis by (simp add: with_peer_def update_conv')
qed

lemma conflicting_page_fails:
  assumes ok: "ledger_ok P L s" and i: "initialize P L s = (Inr (), i)" "live P L i"
    and page: "ordered_page P L vs = Inr es" "e \<in> set es" and check: "check_identity P i e = Inl c"
  shows "\<exists>err t. ingest P L vs source clock s = (Inl err, t) \<and> table_part t = table_part s"
proof -
  have "\<exists>err. ingest_step P L source vs i = Inl err"
  proof (cases "ingest_step P L source vs i")
    case (Inr mt)
    then obtain es' missing n where pl: "plan P L i vs = Inr (es', missing, n)" by (cases mt) (auto elim!: ingest_step_Inr)
    with page plan_Inr(1,4) [OF pl] check show ?thesis by fastforce
  qed simp
  then obtain err where step: "ingest_step P L source vs i = Inl err" by blast
  show ?thesis
  proof (cases "check_peer_id source")
    case (Inl err)
    then show ?thesis by (simp add: ingest_initialized [OF i])
  next
    case (Inr u)
    from ingest_fails [OF i(2) Inr step, of clock] obtain x' t where "ingest P L vs source clock i = (Inl x', t)" by blast
    then have "ingest P L vs source clock s = (Inl x', t)" by (simp add: ingest_initialized [OF i] Inr)
    with ingest_atomic [OF ok this] show ?thesis by blast
  qed
qed

text \<open>
  C6: a stored identity is never replaced. A page that presents, under the id or the position of
  a stored event or of retained evidence, an event with other canonical bytes is refused as a
  whole, and nothing of it is stored. When the events of the page before it are without fault, that is,
  a preview accepts them, the refusal is an equivocation: the error is the conflict document of this event with a stored one
  that differs from it, the hash of the document is retained among the equivocations, and the lane of the peer is quarantined.
\<close>

theorem stored_identity_is_never_replaced:
  assumes "reachable P L s" and "ordered_page P L vs = Inr (es @ e # rest)"
    and "x \<in> set (row_events s) \<union> set (t_evidence s)" and "e_id x = e_id e \<or> position x = position e"
    and "event_bytes P x \<noteq> event_bytes P e"
  shows "\<exists>err t. ingest P L vs source clock s = (Inl err, t) \<and> table_part t = table_part s
    \<and> (check_peer_id source = Inr () \<and> fst (preview_of P L (take (length es) vs) s) = Inr pv \<longrightarrow>
        (\<exists>y ev raw. y \<in> set (row_events s) \<union> set (t_evidence s) \<and> (e_id y = e_id e \<or> position y = position e)
           \<and> event_bytes P y \<noteq> event_bytes P e
           \<and> err = Equivocation ev \<and> err = event_conflict ''conversation_identity'' (Some y) e
           \<and> canonical_bytes P (VDict ev) = Inr raw \<and> sha256_hex raw \<in> fst ` set (t_equivocations t)
           \<and> map_of (t_peers t) source = Some \<lparr>p_state = Quarantined, p_error = Some (str ''origin_equivocation''),
                p_updated_at_ms = clock 1\<rparr>))"
proof -
  note ok = reachable_ok [OF assms(1)]
  obtain i where i: "initialize P L s = (Inr (), i)" "live P L i" using initialize_ok [OF ok] by blast
  note rows = initialized_rows [OF i(1)]
  have stored: "set (row_events i) \<union> set (t_evidence i) = set (row_events s) \<union> set (t_evidence s)" using rows by simp
  obtain y where y: "y \<in> set (row_events s) \<union> set (t_evidence s)" "same_identity e y" "event_bytes P y \<noteq> event_bytes P e"
    and check: "check_identity P i e = Inl (event_conflict ''conversation_identity'' (Some y) e)"
    by (rule check_identity_conflict [of x i e P, unfolded stored, OF assms(3)])
      (use assms(4,5) in \<open>auto simp: same_identity_def\<close>)
  have "e \<in> set (es @ e # rest)" by simp
  note failed = conflicting_page_fails [OF ok i assms(2) this check]
  show ?thesis
  proof (cases "check_peer_id source = Inr () \<and> fst (preview_of P L (take (length es) vs) s) = Inr pv")
    case False
    with failed show ?thesis by blast
  next
    case True
    then obtain p where "plan P L i (take (length es) vs) = Inr p" by (auto simp: preview_of_def bindO_def i(1) bindR_Inr_iff)
    from plan_conflict [OF assms(2) this check] obtain ev where ev: "event_conflict ''conversation_identity'' (Some y) e = Equivocation ev"
      and step: "ingest_step P L source vs i = Inl (Equivocation ev)" by (simp add: ingest_step_def event_conflict_def)
    from \<open>e \<in> set (es @ e # rest)\<close> obtain v where e: "verify_event P (lg_authority L) v = Inr e"
      using assms(2) by (auto simp: ordered_page_def bindR_Inr_iff split: if_splits dest!: mapR_in_set)
    have "verify_event P (lg_authority L) (event_val y) = Inr y"
      using y(1) ok by (simp add: ledger_ok_def store_ok_def rows_ok_def verified_def)
    from conflict_recorded [OF e this ev] obtain raw where raw: "canonical_bytes P (VDict ev) = Inr raw" by (auto simp: isascii_str)
    obtain t where t: "tracked P L source clock (transaction (ingest_step P L source vs)) i = (Inl (Equivocation ev), t)"
      "sha256_hex raw \<in> fst ` set (t_equivocations t)"
      "map_of (t_peers t) source = Some \<lparr>p_state = Quarantined, p_error = Some (str ''origin_equivocation''), p_updated_at_ms = clock 1\<rparr>"
      by (rule tracked_conflict [where m = "ingest_step P L source vs", OF i(2) step raw])
    then have run: "ingest P L vs source clock s = (Inl (Equivocation ev), t)"
      using True i(1) by (simp add: ingest_def bindO_def returnO_def)
    have "e_id y = e_id e \<or> position y = position e" using y(2) by (simp add: same_identity_def)
    with run ingest_atomic [OF ok run] y(1,3) ev raw t(2,3) show ?thesis by (metis (no_types, lifting))
  qed
qed

text \<open>Dicts with one normal form have items with one normal form.\<close>

lemma normalize_dict_item:
  assumes "normalize P (VDict d) = Inr j" and "normalize P (VDict d') = Inr j"
    and "(VStr k, v) \<in> set d" and "(VStr k, v') \<in> set d'"
  shows "normalize P v = normalize P v'"
proof -
  from assms(1,2) obtain kvs kvs' where kvs: "j = JObj (sort_members kvs)" "list_all2 (member_normal P) d kvs" "distinct (map fst kvs)"
    and kvs': "j = JObj (sort_members kvs')" "list_all2 (member_normal P) d' kvs'"
    unfolding normalize_VDict_Inr by blast
  have mem: "\<exists>w. (k, w) \<in> set ms \<and> normalize P x = Inr w" if "list_all2 (member_normal P) ds ms" "(VStr k, x) \<in> set ds" for ds ms x
    using that by (induction rule: list_all2_induct) (auto simp: member_normal_def)
  from mem [OF kvs(2) assms(3)] mem [OF kvs'(2) assms(4)] obtain w w'
    where w: "(k, w) \<in> set kvs" "normalize P v = Inr w" "(k, w') \<in> set kvs'" "normalize P v' = Inr w'" by blast
  have "set kvs = set kvs'" using kvs(1) kvs'(1) 
    using set_sort_members [of kvs] set_sort_members [of kvs'] by simp
  with w kvs(3) have "w = w'" by (metis eq_key_imp_eq_value)
  with w show ?thesis by simp
qed

lemma demo_event_bytes:
  assumes "m < 10" "n < 10" "demo_links q prev ps" "demo_links q' prev' ps'"
    and "event_bytes demo (demo_event m q prev ps) = event_bytes demo (demo_event n q' prev' ps')"
  shows "m = n"
proof -
  obtain b b' where b: "canonical_bytes demo (event_val (demo_event m q prev ps)) = Inr b"
    "canonical_bytes demo (event_val (demo_event n q' prev' ps')) = Inr b'"
    using plain_canonical [OF demo_event_val_plain(1) [OF assms(1,3)]]
      plain_canonical [OF demo_event_val_plain(1) [OF assms(2,4)]] by blast
  with assms(5) have "b = b'" by (simp add: event_bytes_def)
  from canonical_bytes_injD [OF b(1) b(2) [folded this]]
  have same: "normalize demo (event_val (demo_event m q prev ps)) = normalize demo (event_val (demo_event n q' prev' ps'))" .
  moreover obtain j where "normalize demo (event_val (demo_event m q prev ps)) = Inr j"
    using b(1) by (auto simp: canonical_bytes_def bindR_Inr_iff)
  ultimately have "normalize demo (VDict (event_dict (demo_event m q prev ps))) = Inr j"
    "normalize demo (VDict (event_dict (demo_event n q' prev' ps'))) = Inr j" by (simp_all add: event_val_dict)
  moreover have id: "(VStr (str ''event_id''), VStr (e_id e)) \<in> set (event_dict e)" for e
    by (simp add: event_dict_def core_dict_def)
  ultimately have "normalize demo (VStr (e_id (demo_event m q prev ps))) = normalize demo (VStr (e_id (demo_event n q' prev' ps')))"
    using normalize_dict_item [OF _ _ id id] by blast
  then show ?thesis using demo_uuid(2) [OF assms(1)] demo_uuid(2) [OF assms(2)]
    by (simp add: normalize_str_ascii demo_uuid(3))
qed

lemma demo_ordered_page:
  assumes "n < 10" shows "ordered_page demo demo_ledger [event_val (demo_event n 1 None [])] = Inr [demo_event n 1 None []]"
proof -
  note event = demo_event_val_plain [OF assms demo_first_links]
  let ?v = "VDict [(VStr (str ''events''), VList [event_val (demo_event n 1 None [])])]"
  have "plain ?v" using event(1) by (simp add: isascii_str)
  from plain_canonical [OF this] obtain raw where "canonical_bytes demo ?v = Inr raw" "length raw \<le> cost ?v" by blast
  moreover have "cost ?v \<le> max_page_bytes" using event(2) by (simp add: max_page_bytes_def)
  moreover have "verify_event demo demo_authority (event_val (demo_event n 1 None [])) = Inr (demo_event n 1 None [])"
    by (rule demo_event_verifies [OF assms]) simp
  ultimately show ?thesis by (simp add: ordered_page_def max_page_events_def page_bytes_def canonical_we_def)
qed

lemma demo_empty_page: "\<exists>pv. fst (preview_of demo demo_ledger [] (demo_db ''local'')) = Inr pv"
proof -
  obtain i where i: "initialize demo demo_ledger (demo_db ''local'') = (Inr (), i)" "live demo demo_ledger i"
    using initialize_ok [OF reachable_ok [OF demo_reachable]] by blast
  have "plain (VDict [(VStr (str ''events''), VList [])])" by (simp add: isascii_str)
  from plain_canonical [OF this] obtain raw where "canonical_bytes demo (VDict [(VStr (str ''events''), VList [])]) = Inr raw"
    "length raw \<le> cost (VDict [(VStr (str ''events''), VList [])])" by blast
  then have "ordered_page demo demo_ledger [] = Inr []"
    by (simp add: ordered_page_def page_bytes_def canonical_we_def max_page_events_def max_page_bytes_def)
  from plan_held [OF _ this, of i] i(2) have "plan demo demo_ledger i [] = Inr ([], [], 0)" by (simp add: live_def)
  with i(1) show ?thesis by (simp add: preview_of_def bindO_def)
qed

lemma stored_identity_is_never_replaced_witness:
  "\<exists>ev t. ingest demo demo_ledger [event_val (demo_event 3 1 None [])] (str ''peer'') (\<lambda>_. 6) (demo_db ''local'')
      = (Inl (Equivocation ev), t)
    \<and> table_part t = table_part (demo_db ''local'') \<and> t_equivocations t \<noteq> []"
proof -
  let ?e = "demo_event 3 1 None []"
  have page: "ordered_page demo demo_ledger [event_val ?e] = Inr ([] @ ?e # [])" by (simp add: demo_ordered_page)
  have bytes: "event_bytes demo demo_first \<noteq> event_bytes demo ?e"
    using demo_event_bytes [of 2 3 1 None "[]" 1 None "[]"] by (auto simp: demo_first_def)
  have same: "e_id demo_first = e_id ?e \<or> position demo_first = position ?e" by (simp add: position_def)
  obtain pv where pv: "fst (preview_of demo demo_ledger (take (length ([] :: event list)) [event_val ?e]) (demo_db ''local'')) = Inr pv"
    using demo_empty_page by auto
  from stored_identity_is_never_replaced [OF demo_reachable page _ same bytes, of "str ''peer''" "\<lambda>_. 6" pv] pv demo_peer
  show ?thesis by fastforce
qed

section \<open>Receipts\<close>

lemma ingest_idempotent_run:
  assumes ok: "ledger_ok P L s" and run: "ingest_idempotent P L vs source rid ph base clock s = (Inr r, t)"
  obtains i w where "live P L i" "table_part i = table_part s" "check_peer_id source = Inr ()"
    "ingest_idempotent_step P L vs source rid ph base (clock 0) i = Inr (r, w)"
    "live P L w" "t = with_peer source Coherent None (clock 1) w"
proof -
  from run have peer: "check_peer_id source = Inr ()" and "bindO (initialize P L) (\<lambda>_. tracked P L source (\<lambda>i. clock (i + 1))
      (transaction (ingest_idempotent_step P L vs source rid ph base (clock 0)))) s = (Inr r, t)"
    by (auto simp: ingest_idempotent_def bindO_def returnO_def split: prod.splits sum.splits)
  from live_first [OF ok this(2)] obtain i where i: "live P L i" "table_part i = table_part s"
    "tracked P L source (\<lambda>i. clock (i + 1)) (transaction (ingest_idempotent_step P L vs source rid ph base (clock 0))) i = (Inr r, t)" .
  let ?f = "ingest_idempotent_step P L vs source rid ph base (clock 0)"
  obtain x w where step: "?f i = Inr (x, w)"
    using tracked_fails [where m = ?f, OF i(1), of _ source "\<lambda>i. clock (i + 1)"] i(3) by (cases "?f i") auto
  with i(1) have w: "live P L w" by (auto dest: step_keepsD [OF step_keeps_ingest_idempotent])
  have "tracked P L source (\<lambda>i. clock (i + 1)) (transaction ?f) i = (Inr x, with_peer source Coherent None (clock 1) w)"
    by (rule tracked_success [OF set_peer_live(1) [OF w]]) (simp_all add: transaction_def step)
  with i(3) step w that [OF i(1,2) peer _ w] show thesis by auto
qed

lemma holds_rows: "row_events t = row_events s \<Longrightarrow> holds P t e = holds P s e"
  by (simp add: holds_def)

lemma table_rows: "table_part t = table_part s \<Longrightarrow> row_events t = row_events s"
  using table_part_rows by blast

text \<open>
  C31: a receipt tells what happened. The receipt of a page that was not applied before counts the
  events of the page, how many of them were new and how many were held already; the new ones are
  the rows appended, every event of the page is held afterwards, and the heads and the number of
  incomplete events it reports are those of the ledger at that point.
\<close>

theorem receipt_tells_what_happened:
  assumes "reachable P L s" and "map_of (t_inbound s) (source, rid) = None"
    and "ingest_idempotent P L vs source rid ph base clock s = (Inr r, t)"
  shows "\<exists>es missing. ordered_page P L vs = Inr es \<and> row_events t = row_events s @ missing \<and> subseq missing es
    \<and> (\<forall>e \<in> set es. holds P t e) \<and> rt_received r = length es \<and> rt_inserted r = length missing
    \<and> rt_inserted r + rt_replayed r = rt_received r \<and> rt_incomplete r = incomplete_count t
    \<and> rt_achieved_heads r = heads t \<and> map_of (t_inbound t) (source, rid) = Some (ph, r)"
proof -
  from ingest_idempotent_run [OF reachable_ok [OF assms(1)] assms(3)] obtain i w
    where i: "live P L i" "table_part i = table_part s" and step: "ingest_idempotent_step P L vs source rid ph base (clock 0) i = Inr (r, w)"
    and t: "t = with_peer source Coherent None (clock 1) w" .
  have "t_inbound i = t_inbound s" using table_part_rows [OF i(2)] by (simp add: answer_part_def)
  with assms(2) have fresh: "map_of (t_inbound i) (source, rid) = None" by simp
  from step show ?thesis
  proof (cases rule: ingest_idempotent_step_cases)
    case replayed
    with fresh show ?thesis by simp
  next
    case (applied es missing n u)
    have u: "row_events u = row_events s @ missing"
      using apply_page_live [OF i(1) applied(2,3)] table_rows [OF i(2)] by simp
    have tu: "row_events t = row_events u" "known_ids t = known_ids u" "incomplete_count t = incomplete_count u"
      "heads t = heads u"
      by (simp_all add: t applied(4) row_events_def known_ids_def incomplete_count_def heads_def head_event_def with_peer_def)
    have "map_of (t_inbound t) (source, rid) = Some (ph, r)"
      using inbound_fresh [OF applied(3) fresh] map_of_snoc [OF inbound_fresh(1) [OF applied(3) fresh]]
      by (simp add: t with_peer_def applied(4) del: map_of_append)
    moreover have "length missing \<le> length es" using plan_Inr(6) [OF applied(2)] by (rule list_emb_length)
    moreover have "\<forall>e \<in> set es. holds P t e"
      using apply_page_holds [OF i(1) applied(2,3)] holds_rows [OF tu(1)] by blast
    ultimately show ?thesis
      using plan_Inr(1,6) [OF applied(2)] u tu applied(5-9) by auto
  qed
qed

lemma demo_heads:
  "heads (advance_cursor (str ''peer'') demo_first (demo_db ''peer'')) = [head_of demo_first]"
proof -
  have rows: "row_events (advance_cursor (str ''peer'') demo_first (demo_db ''peer'')) = [demo_first]"
    using core_part_rows [OF advance_cursors_core [of "str ''peer''" "[demo_first]" "demo_db ''peer''"]] by simp
  then show ?thesis by (simp add: heads_def head_event_def sort_key_def)
qed

lemma demo_receipt:
  "\<exists>r w. ingest_idempotent_step demo demo_ledger [event_val demo_first] (str ''peer'') rid ph [] 6 demo_start = Inr (r, w)"
proof -
  let ?t = "advance_cursor (str ''peer'') demo_first (demo_db ''peer'')"
  let ?r = "\<lparr>rt_base = [], rt_received = 1, rt_inserted = 1, rt_replayed = 0, rt_incomplete = incomplete_count ?t,
      rt_achieved_heads = heads ?t, rt_completed_at_ms = 6, rt_hash = []\<rparr>"
  have ap: "apply_page demo (str ''peer'') [demo_first] [demo_first] demo_start = Inr ?t"
    using demo_ingest [of "''peer''"] by (auto simp: ingest_step_def demo_plan bindR_Inr_iff)
  have t: "t_events ?t = t_events (demo_db ''peer'')"
    using advance_cursors_core [of "str ''peer''" "[demo_first]" "demo_db ''peer''"] by (simp add: core_part_def)
  then have inc: "incomplete_count ?t = 0" by (simp add: incomplete_count_def demo_db_def)
  have hash: "isascii (e_content_hash demo_first)"
    by (simp add: isascii_hex64 signed_core_hash demo_first_def demo_event_def)
  have head: "plain (head_val (head_of demo_first))"
    by (simp add: head_val_def head_of_def isascii_str hash demo_uuid(2) demo_origin_def)
  have core: "plain (VDict (receipt_core ?r))"
    using head by (simp add: receipt_core_def dict_with_def inc demo_heads isascii_str)
  then obtain raw where raw: "canonical_bytes demo (VDict (receipt_core ?r)) = Inr raw" using plain_canonical by blast
  let ?h = "sha256_hex (str receipt_domain @ [0] @ raw)"
  have "plain (VDict (receipt_dict (?r\<lparr>rt_hash := ?h\<rparr>)))"
    using head isascii_hex64 [OF is_hex64_sha256_hex] 
    by (simp add: receipt_dict_def receipt_core_def dict_with_def inc demo_heads isascii_str)
  then obtain raw' where "canonical_bytes demo (VDict (receipt_dict (?r\<lparr>rt_hash := ?h\<rparr>))) = Inr raw'"
    using plain_canonical by blast
  with ap raw show ?thesis
    by (simp add: ingest_idempotent_step_def demo_plan Let_def)
qed

lemma receipt_run:
  assumes "live P L s" and "check_peer_id source = Inr u"
    and "ingest_idempotent_step P L vs source rid ph base (clock 0) s = Inr (r, w)"
  shows "ingest_idempotent P L vs source rid ph base clock s = (Inr r, with_peer source Coherent None (clock 1) w)"
proof -
  have w: "live P L w" using step_keepsD [OF step_keeps_ingest_idempotent assms(1,3)] by blast
  have "tracked P L source (\<lambda>i. clock (i + 1)) (transaction (ingest_idempotent_step P L vs source rid ph base (clock 0))) s
      = (Inr r, with_peer source Coherent None (clock 1) w)"
    by (rule tracked_success [OF set_peer_live(1) [OF w]]) (simp_all add: transaction_def assms(3))
  with assms(1,2) show ?thesis by (simp add: ingest_idempotent_def bindO_def returnO_def)
qed

lemma receipt_tells_what_happened_witness:
  "\<exists>r t. ingest_idempotent demo demo_ledger [event_val demo_first] (str ''peer'') (demo_uuid 4) [] [] (\<lambda>_. 6) demo_start = (Inr r, t)
    \<and> rt_inserted r + rt_replayed r = rt_received r \<and> rt_achieved_heads r = heads t"
proof -
  obtain r w where step: "ingest_idempotent_step demo demo_ledger [event_val demo_first] (str ''peer'') (demo_uuid 4) [] [] 6
      demo_start = Inr (r, w)" using demo_receipt by blast
  have run: "ingest_idempotent demo demo_ledger [event_val demo_first] (str ''peer'') (demo_uuid 4) [] [] (\<lambda>_. 6) demo_start
      = (Inr r, with_peer (str ''peer'') Coherent None 6 w)"
    by (rule receipt_run [OF demo_live demo_peer step])
  have "map_of (t_inbound demo_start) (str ''peer'', demo_uuid 4) = None" by simp
  from receipt_tells_what_happened [OF demo_start_reachable this run] run show ?thesis by blast
qed

section \<open>Answers given again\<close>

lemma standing_answers:
  "answers_stand s t \<Longrightarrow> map_of (t_inbound s) k = Some x \<Longrightarrow> map_of (t_inbound t) k = Some x"
  "answers_stand s t \<Longrightarrow> map_of (t_outbound s) i = Some y \<Longrightarrow> map_of (t_outbound t) i = Some y"
  "answers_stand s t \<Longrightarrow> map_of (t_issued s) i = Some z \<Longrightarrow> map_of (t_issued t) i = Some z"
  "answers_stand s t \<Longrightarrow> map_of (t_local_ops s) k' = Some w \<Longrightarrow> map_of (t_local_ops t) k' = Some w"
  unfolding answers_stand_def map_le_def by (metis domI)+

lemma table_peer: "table_part (with_peer source st error now s) = table_part s"
  by (simp add: table_part_def with_peer_def answer_part_def)

text \<open>
  A page applied once is answered once. After \<^verbatim>\<open>ingest_idempotent\<close> gave a receipt for a
  request, and whatever the ledger did since, the same request with the same page hash gets the
  same receipt and stores nothing, and with another page hash it raises and stores nothing.
\<close>

theorem receipts_are_frozen:
  assumes "reachable P L s" and "ingest_idempotent P L vs source rid ph base clock s = (Inr r, t)"
    and "(ledger_step P L)\<^sup>*\<^sup>* t u" and "ph'' \<noteq> ph"
  shows "(\<exists>u'. ingest_idempotent P L vs' source rid ph base' clock' u = (Inr r, u') \<and> table_part u' = table_part u)
    \<and> (\<exists>x u'. ingest_idempotent P L vs' source rid ph'' base' clock' u = (Inl x, u') \<and> table_part u' = table_part u)"
proof -
  from ingest_idempotent_run [OF reachable_ok [OF assms(1)] assms(2)] obtain i w
    where peer: "check_peer_id source = Inr ()" and i: "live P L i"
      and step: "ingest_idempotent_step P L vs source rid ph base (clock 0) i = Inr (r, w)"
      and t: "t = with_peer source Coherent None (clock 1) w" by metis
  have t_ok: "ledger_ok P L t"
    using ledger_step_ok [OF ledger_step.Ingest_idempotent reachable_ok [OF assms(1)], of vs source rid ph base clock] assms(2)
    by simp
  obtain j where j: "live P L j" "initialize P L u = (Inr (), j)"
    using initialize_ok ledger_steps_ok [OF assms(3) t_ok] by blast
  have ju: "table_part j = table_part u" using initialize_tables [of P L u] j(2) by simp
  have inbound: "map_of (t_inbound w) k = Some x \<Longrightarrow> map_of (t_inbound j) k = Some x" for k x
  proof -
    assume "map_of (t_inbound w) k = Some x"
    then have "map_of (t_inbound t) k = Some x" by (simp add: t with_peer_def)
    with ledger_steps_answers [OF assms(3)] have "map_of (t_inbound u) k = Some x"
      by (rule standing_answers)
    with table_part_rows [OF ju] show ?thesis by (simp add: answer_part_def)
  qed
  have first: "page_answer P L (source, rid) (ph, vs, base, clock 0) i = Inr (r, w)" by (simp add: page_answer_def step)
  have run: "ingest_idempotent P L vs' source rid h base' clock' u = tracked P L source (\<lambda>i. clock' (i + 1))
      (transaction (ingest_idempotent_step P L vs' source rid h base' (clock' 0))) j" for h
    using j peer by (simp add: ingest_idempotent_def bindO_def returnO_def)
  from applied.repeated [OF first inbound, of "(ph, vs', base', clock' 0)"]
  have "ingest_idempotent_step P L vs' source rid ph base' (clock' 0) j = Inr (r, j)" by (simp add: page_answer_def)
  then have "transaction (ingest_idempotent_step P L vs' source rid ph base' (clock' 0)) j = (Inr r, j)"
    by (simp add: transaction_def)
  from tracked_success [where m = "transaction (ingest_idempotent_step P L vs' source rid ph base' (clock' 0))",
      OF set_peer_live(1) [OF j(1)] this, of "\<lambda>i. clock' (i + 1)" "clock' 1"]
  have "ingest_idempotent P L vs' source rid ph base' clock' u = (Inr r, with_peer source Coherent None (clock' 1) j)"
    unfolding run by simp
  moreover from applied.conflicting [OF first inbound, of "(ph'', vs', base', clock' 0)"] assms(4)
  obtain x where "ingest_idempotent_step P L vs' source rid ph'' base' (clock' 0) j = Inl x" by (auto simp: page_answer_def)
  from tracked_fails [where m = "ingest_idempotent_step P L vs' source rid ph'' base' (clock' 0)", OF j(1) this]
  have "\<exists>x u'. ingest_idempotent P L vs' source rid ph'' base' clock' u = (Inl x, u') \<and> table_part u' = table_part j"
    unfolding run by (fastforce simp: table_part_def core_part_def)
  moreover have "table_part (with_peer source Coherent None (clock' 1) j) = table_part u"
    by (simp add: ju table_peer)
  ultimately show ?thesis unfolding ju by blast
qed

lemma receipts_are_frozen_witness:
  "\<exists>r t u'. ingest_idempotent demo demo_ledger [event_val demo_first] (str ''peer'') (demo_uuid 4) [] [] (\<lambda>_. 6) demo_start = (Inr r, t)
    \<and> ingest_idempotent demo demo_ledger [] (str ''peer'') (demo_uuid 4) [] [] (\<lambda>_. 8) t = (Inr r, u')"
proof -
  obtain r w where step: "ingest_idempotent_step demo demo_ledger [event_val demo_first] (str ''peer'') (demo_uuid 4) [] [] 6
      demo_start = Inr (r, w)" using demo_receipt by blast
  have run: "ingest_idempotent demo demo_ledger [event_val demo_first] (str ''peer'') (demo_uuid 4) [] [] (\<lambda>_. 6) demo_start
      = (Inr r, with_peer (str ''peer'') Coherent None 6 w)"
    by (rule receipt_run [OF demo_live demo_peer step])
  have "[0] \<noteq> ([] :: pystr)" by simp
  from receipts_are_frozen [OF demo_start_reachable run rtranclp.rtrancl_refl this, of "[]" "[]" "\<lambda>_. 8"] run
  show ?thesis by blast
qed

text \<open>Running a recorded step on a ledger that may still have to be initialized.\<close>

lemma recording_run:
  assumes "ledger_ok P L s" and "bindO (initialize P L) (\<lambda>_. recording P now (transaction f)) s = (Inr x, t)"
  obtains i where "live P L i" "table_part i = table_part s" "f i = Inr (x, t)"
proof -
  from live_first [OF assms] obtain i where i: "live P L i" "table_part i = table_part s"
    "recording P now (transaction f) i = (Inr x, t)" .
  then have "f i = Inr (x, t)"
    by (cases "f i") (auto simp: recording_def transaction_def split: exc.splits sum.splits)
  with i that show thesis by blast
qed

lemma recording_again:
  assumes "ledger_ok P L u" and "\<And>j. live P L j \<Longrightarrow> table_part j = table_part u \<Longrightarrow> f j = Inr (x, j)"
  shows "\<exists>u'. bindO (initialize P L) (\<lambda>_. recording P now (transaction f)) u = (Inr x, u') \<and> table_part u' = table_part u"
proof -
  obtain j where j: "live P L j" "initialize P L u = (Inr (), j)" using initialize_ok [OF assms(1)] by blast
  have "table_part j = table_part u" using initialize_tables [of P L u] j(2) by simp
  with j assms(2) [OF j(1) this] show ?thesis by (simp add: bindO_def recording_def transaction_def)
qed

lemma recording_refused:
  assumes "ledger_ok P L u" and "\<And>j. live P L j \<Longrightarrow> table_part j = table_part u \<Longrightarrow> \<exists>e. f j = Inl e"
  shows "\<exists>e u'. bindO (initialize P L) (\<lambda>_. recording P now (transaction f)) u = (Inl e, u') \<and> table_part u' = table_part u"
proof -
  obtain j where j: "live P L j" "initialize P L u = (Inr (), j)" using initialize_ok [OF assms(1)] by blast
  have ju: "table_part j = table_part u" using initialize_tables [of P L u] j(2) by simp
  then obtain e where e: "f j = Inl e" using assms(2) [OF j(1)] by blast
  have "\<exists>e' u'. recording P now (transaction f) j = (Inl e', u')"
    using e by (auto simp: recording_def transaction_def split: exc.split sum.split)
  then obtain e' u' where r: "recording P now (transaction f) j = (Inl e', u')" by blast
  have "table_part u' = table_part j"
    by (rule atomicD [where m = "recording P now (transaction f)", OF _ r]) (intro atomics)
  with r j ju show ?thesis by (simp add: bindO_def)
qed

lemma table_answers: "table_part t = table_part s \<Longrightarrow> t_outbound t = t_outbound s \<and> t_inbound t = t_inbound s
    \<and> t_issued t = t_issued s \<and> t_local_ops t = t_local_ops s \<and> t_rpc t = t_rpc s"
  by (simp add: table_part_def answer_part_def)

text \<open>
  A served page is served again. Once \<^verbatim>\<open>delta_idempotent\<close> answered a request, the same request
  with the same hash gets the same page whatever was appended or ingested since, and with
  another hash it raises; neither stores anything.
\<close>

theorem delta_pages_are_frozen:
  assumes "reachable P L s" and "delta_idempotent P L rid rh hs limit now s = (Inr pg, t)"
    and "(ledger_step P L)\<^sup>*\<^sup>* t u" and "rh'' \<noteq> rh"
  shows "(\<exists>u'. delta_idempotent P L rid rh hs' limit' now' u = (Inr pg, u') \<and> table_part u' = table_part u)
    \<and> (\<exists>x u'. delta_idempotent P L rid rh'' hs' limit' now' u = (Inl x, u') \<and> table_part u' = table_part u)"
proof -
  have "ledger_step P L s t"
    using ledger_step.Delta_idempotent [of P L s rid rh hs limit now] assms(2) by simp
  then have t: "ledger_ok P L t" using ledger_step_ok reachable_ok [OF assms(1)] by blast
  have u: "ledger_ok P L u" using ledger_steps_ok [OF assms(3) t] by blast
  from recording_run [OF reachable_ok [OF assms(1)] assms(2) [unfolded delta_idempotent_def]]
  obtain i where "delta_answer P rid (rh, hs, limit) i = Inr (pg, t)" by (metis delta_answer_def fst_conv snd_conv)
  note first = this
  have keep: "map_of (t_outbound j) l = Some x" if "table_part j = table_part u" "map_of (t_outbound t) l = Some x" for j l x
    using standing_answers(2) [OF ledger_steps_answers [OF assms(3)] that(2)] table_answers [OF that(1)] by simp
  have "delta_idempotent_step P rid rh hs' limit' j = Inr (pg, j)" if "table_part j = table_part u" for j
    using served.repeated [OF first keep [OF that], of "(rh, hs', limit')"] by (simp add: delta_answer_def)
  moreover have "\<exists>e. delta_idempotent_step P rid rh'' hs' limit' j = Inl e" if "table_part j = table_part u" for j
    using served.conflicting [OF first keep [OF that], of "(rh'', hs', limit')"] assms(4) by (simp add: delta_answer_def)
  ultimately show ?thesis
    unfolding delta_idempotent_def by (intro conjI recording_again [OF u] recording_refused [OF u]) blast+
qed

end
