(* ===== verification/Delta_Properties.thy ===== *)
theory Delta_Properties
  imports Answers_Properties
begin

text \<open>
  Served pages: what a delta contains, that it makes progress, and that a peer that applies deltas
  until none is left holds every event of the ledger that served them.
\<close>

section \<open>What a page holds\<close>

definition beyond :: "(pystr \<times> int) list \<Rightarrow> event list \<Rightarrow> event list" where
  "beyond remote es = filter (\<lambda>e. remote_sequence remote (incarnation e) < e_sequence e) es"

lemma delta_events_prefix:
  assumes "delta_events P remote limit es res = Inr (out, more_left)" and "length res \<le> limit"
  shows "\<exists>n. out = res @ take n (beyond remote es) \<and> n \<le> length (beyond remote es) \<and> length out \<le> limit
    \<and> (more_left \<longleftrightarrow> n < length (beyond remote es))
    \<and> (more_left \<longrightarrow> length out = limit \<or> (\<exists>raw. page_bytes P (map event_val (out @ [beyond remote es ! n])) = Inr raw
           \<and> max_page_bytes < length raw))
    \<and> (n \<noteq> 0 \<longrightarrow> (\<exists>raw. page_bytes P (map event_val out) = Inr raw \<and> length raw \<le> max_page_bytes))"
  using assms
proof (induction P remote limit es res rule: delta_events.induct)
  case (1 P remote limit res)
  then show ?case by (simp add: beyond_def)
next
  case (2 P remote limit e es res)
  show ?case
  proof (cases "e_sequence e \<le> remote_sequence remote (incarnation e)")
    case True
    then have "beyond remote (e # es) = beyond remote es" by (simp add: beyond_def)
    with 2 True show ?thesis by simp
  next
    case False
    then have b: "beyond remote (e # es) = e # beyond remote es" by (simp add: beyond_def)
    show ?thesis
    proof (cases "length res = limit")
      case True
      with 2 False b show ?thesis by (intro exI [of _ 0]) simp
    next
      case limit: False
      with "2.prems" \<open>\<not> e_sequence e \<le> _\<close> obtain raw where raw: "page_bytes P (map event_val (res @ [e])) = Inr raw"
        by (auto simp: bindR_Inr_iff)
      show ?thesis
      proof (cases "max_page_bytes < length raw")
        case True
        with "2.prems" False limit raw b show ?thesis by (intro exI [of _ 0]) (simp del: map_append)
      next
        case small: False
        with "2.prems" False limit raw have rest: "delta_events P remote limit es (res @ [e]) = Inr (out, more_left)"
          by (simp del: map_append)
        have "length (res @ [e]) \<le> limit" using "2.prems"(2) limit by simp
        from "2.IH"(2) [OF False limit raw small rest this] obtain n
          where n: "out = (res @ [e]) @ take n (beyond remote es)" "n \<le> length (beyond remote es)" "length out \<le> limit"
            "more_left \<longleftrightarrow> n < length (beyond remote es)"
            "more_left \<longrightarrow> length out = limit \<or> (\<exists>raw. page_bytes P (map event_val (out @ [beyond remote es ! n])) = Inr raw
               \<and> max_page_bytes < length raw)"
            "n \<noteq> 0 \<longrightarrow> (\<exists>raw. page_bytes P (map event_val out) = Inr raw \<and> length raw \<le> max_page_bytes)" by blast
        have "\<exists>raw. page_bytes P (map event_val out) = Inr raw \<and> length raw \<le> max_page_bytes"
          using n(1,6) raw small by (cases "n = 0") auto
        with n b show ?thesis by (intro exI [of _ "Suc n"]) simp
      qed
    qed
  qed
qed

text \<open>A page of one event is its canonical bytes and thirteen more.\<close>

lemma page_of_one:
  assumes "page_bytes P [v] = Inr raw"
  shows "\<exists>b. canonical_bytes P v = Inr b \<and> length raw = length b + 13"
proof -
  from assms obtain j where j: "normalize P (VDict [(VStr (str ''events''), VList [v])]) = Inr j"
    and raw: "raw = utf8_bytes (dumps j)"
    by (auto simp: page_bytes_def canonical_we_def canonical_bytes_def res)
  from j obtain k where "normalize P v = Inr k" "j = JObj [(str ''events'', JArr [k])]"
    by (auto simp: normalize_VDict_Inr member_normal_def list_all2_Cons1 normalize_VList res sort_members_def)
  moreover have "length (utf8_bytes (123 # dump_str (str ''events'') @ 58 # 91 # s @ [93, 125])) = length (utf8_bytes s) + 13" for s
    by (simp add: utf8_bytes_def utf8_char_def dump_str_def dump_char_def str_def)
  ultimately show ?thesis using raw by (auto simp: canonical_bytes_def)
qed

text \<open>Every event of a reachable ledger fits a page alone.\<close>

lemma stored_event_fits:
  assumes "reachable P L s" and "e \<in> set (row_events s)" and "page_bytes P [event_val e] = Inr raw"
  shows "length raw \<le> max_page_bytes"
proof -
  have "verify_with P (select_authority P (lg_authority L)) (event_val e) = Inr e"
    using reachable_rows(4) [OF assms(1)] assms(2) by (simp add: verified_def verify_event_def)
  then obtain b where "canonical_bytes P (event_val e) = Inr b" "length b \<le> max_event_bytes"
    by (rule verify_with_Inr) blast
  with page_of_one [OF assms(3)] show ?thesis by (simp add: max_event_bytes_def max_page_bytes_def)
qed

lemma set_list_events: "set (list_events True s) = set (row_events s)"
  by (simp add: list_events_def row_events_def)

text \<open>
  C28: a delta page is the next part of what the requester lacks. For the sequences a requester
  reported, the events of the page are the first of those beyond them, in the order of incarnation
  and sequence; the page keeps the limit of events and of bytes; \<^verbatim>\<open>more\<close> says exactly whether
  anything is left; and a page is never empty while something is missing.
\<close>

theorem delta_page_is_the_next_part:
  assumes "reachable P L s" and "1 \<le> limit" and "delta_page P s remote limit = Inr (es, left_over)"
  shows "\<exists>n. es = take n (beyond remote (list_events True s)) \<and> length es = n \<and> n \<le> limit
    \<and> (left_over \<longleftrightarrow> n < length (beyond remote (list_events True s)))
    \<and> (es \<noteq> [] \<longrightarrow> (\<exists>raw. page_bytes P (map event_val es) = Inr raw \<and> length raw \<le> max_page_bytes))
    \<and> (beyond remote (list_events True s) \<noteq> [] \<longrightarrow> es \<noteq> [])"
proof -
  let ?b = "beyond remote (list_events True s)"
  from delta_events_prefix [OF assms(3) [unfolded delta_page_def]] obtain n
    where n: "es = take n ?b" "n \<le> length ?b" "length es \<le> limit" "left_over \<longleftrightarrow> n < length ?b"
      "left_over \<longrightarrow> length es = limit \<or> (\<exists>raw. page_bytes P (map event_val (es @ [?b ! n])) = Inr raw
           \<and> max_page_bytes < length raw)"
      "n \<noteq> 0 \<longrightarrow> (\<exists>raw. page_bytes P (map event_val es) = Inr raw \<and> length raw \<le> max_page_bytes)" by auto
  have "es \<noteq> []" if some: "?b \<noteq> []"
  proof
    assume "es = []"
    with n(1,2) some have "n = 0" by auto
    with n(4,5) \<open>es = []\<close> some assms(2) obtain raw
      where raw: "page_bytes P [event_val (?b ! 0)] = Inr raw" "max_page_bytes < length raw" by auto
    from some have "?b ! 0 \<in> set ?b" by (intro nth_mem) simp
    then have "?b ! 0 \<in> set (row_events s)" using set_list_events by (auto simp: beyond_def)
    from stored_event_fits [OF assms(1) this raw(1)] raw(2) show False by simp
  qed
  with n show ?thesis by (intro exI [of _ n]) (auto simp: min_def)
qed

lemma demo_delta: "delta_page demo (demo_db source) [] 1 = Inr ([demo_first], False)"
proof -
  have "list_events True (demo_db source) = [demo_first]"
    by (simp add: list_events_def sort_key_def) (simp add: demo_db_def)
  with demo_page show ?thesis
    by (auto simp: delta_page_def remote_sequence_def)
qed

lemma delta_page_is_the_next_part_witness:
  "beyond [] (list_events True (demo_db ''local'')) = [demo_first]"
proof -
  from delta_page_is_the_next_part [OF demo_reachable _ demo_delta]
  have "[demo_first] = take 1 (beyond [] (list_events True (demo_db ''local''))) \<and> \<not> 1 < length (beyond [] (list_events True (demo_db ''local'')))"
    by auto
  then show ?thesis by (cases "beyond [] (list_events True (demo_db ''local''))") auto
qed

section \<open>A served page of the concrete ledger\<close>

lemma demo_db_core:
  "row_events (demo_db source) = [demo_first]" "t_outbound (demo_db source) = []"
  by (simp, simp add: demo_db_def)

lemma demo_served:
  "\<exists>pg t. delta_idempotent demo demo_ledger (demo_uuid 4) [] [] 1 6 (demo_db ''local'') = (Inr pg, t)"
proof -
  let ?pg = "\<lparr>pg_events = [demo_first], pg_more = False, pg_offered_heads = [head_of demo_first]\<rparr>"
  have heads: "heads (demo_db ''local'') = [head_of demo_first]"
    by (simp add: heads_def head_event_def sort_key_def)
  have "isascii (e_content_hash demo_first)"
    by (simp add: isascii_hex64 signed_core_hash demo_first_def demo_event_def)
  then have "plain (head_val (head_of demo_first))"
    by (simp add: head_val_def head_of_def isascii_str demo_uuid(2) demo_origin_def)
  with demo_event_val_plain(1) [of 2 1 None "[]", folded demo_first_def]
  have "plain (VDict (page_dict ?pg))" by (simp add: page_dict_def isascii_str)
  then obtain raw where "canonical_bytes demo (VDict (page_dict ?pg)) = Inr raw" using plain_canonical by blast
  then have step: "delta_idempotent_step demo (demo_uuid 4) [] [] 1 (demo_db ''local'')
      = Inr (?pg, (demo_db ''local'')\<lparr>t_outbound := [(demo_uuid 4, ([], ?pg))]\<rparr>)"
    by (simp add: delta_idempotent_step_def remote_sequences_def demo_delta demo_db_core heads Let_def del: One_nat_def)
  have "live demo demo_ledger (demo_db ''local'')"
    using reachable_ok [OF demo_reachable] demo_live by (simp add: live_def initialized_def demo_db_def)
  with step show ?thesis by (simp add: delta_idempotent_def bindO_def recording_def transaction_def)
qed

lemma delta_pages_are_frozen_witness:
  "\<exists>pg t u'. delta_idempotent demo demo_ledger (demo_uuid 4) [] [] 1 6 (demo_db ''local'') = (Inr pg, t)
    \<and> delta_idempotent demo demo_ledger (demo_uuid 4) [] [] 7 9 t = (Inr pg, u')"
proof -
  obtain pg t where run: "delta_idempotent demo demo_ledger (demo_uuid 4) [] [] 1 6 (demo_db ''local'') = (Inr pg, t)"
    using demo_served by blast
  have "[0] \<noteq> ([] :: pystr)" by simp
  from delta_pages_are_frozen [OF demo_reachable run rtranclp.rtrancl_refl this, of "[]" 7 9] run show ?thesis by blast
qed

end
