(* ===== verification/Local_Properties.thy ===== *)
theory Local_Properties
  imports Answers_Properties
begin

text \<open>
  Local authoring and the RPC journal: what an append adds, and that a local operation and an RPC
  call have one result, however often they are tried.
\<close>

section \<open>Appending\<close>

text \<open>
  C29: an append extends the local chain. When \<^verbatim>\<open>append_local\<close> returns an event, the event
  verifies, has the ledger's own origin and every authored field: the kind, subject, payload, sensitivity and
  superseded event, the causal parents as a sorted set, the requested time and id or else those of the clock and
  the generator. It is the only new row and is known at once; its sequence is the next of its incarnation, after every
  stored event of it, and its predecessor is the event before.
\<close>

theorem append_extends_the_chain:
  assumes "reachable P L s" and "append_local P L sg a now uid s = (Inr e, t)"
  shows "row_events t = row_events s @ [e] \<and> verify_event P (lg_authority L) (event_val e) = Inr e
    \<and> e_origin e = lg_origin L \<and> e_kind e = au_kind a \<and> e_subject e = au_subject a \<and> e_payload e = au_payload a
    \<and> e_sensitivity e = au_sensitivity a \<and> e_supersedes e = au_supersedes a
    \<and> e_parents e = sorted_list_of_set (set (au_parents a))
    \<and> e_occurred_at_ms e = (case au_occurred_at_ms a of None \<Rightarrow> now | Some time \<Rightarrow> time)
    \<and> e_id e = (case au_event_id a of None \<Rightarrow> uid | Some requested \<Rightarrow> requested) \<and> e_id e \<in> known_ids t
    \<and> (\<forall>f \<in> set (row_events s). incarnation f = incarnation e \<longrightarrow> e_sequence f < e_sequence e)
    \<and> (e_sequence e = 1 \<and> e_previous e = None
       \<or> (\<exists>f \<in> set (row_events s). incarnation f = incarnation e \<and> e_sequence f + 1 = e_sequence e
            \<and> e_previous e = Some (e_id f)))"
proof -
  from live_first [OF reachable_ok [OF assms(1)] assms(2) [unfolded append_local_def]] obtain i
    where i: "live P L i" "table_part i = table_part s" "transaction (append_step P L sg a now uid) i = (Inr e, t)" .
  from i(3) have step: "append_step P L sg a now uid i = Inr (e, t)" by (auto simp: transaction_def split: sum.splits)
  note rows = table_part_rows [OF i(2)]
  from step have create: "create_event P (lg_authority L) (origin_dict (lg_origin L)) sg (draft_of L a i now uid) = Inr e"
    by (auto simp: append_step_def bindR_Inr_iff split: if_splits)
  note e = create_event_Inr [OF create]
  have origin: "e_origin e = lg_origin L" by (rule create_event_origin [OF create])
  have chain: "(\<forall>f \<in> set (row_events i). incarnation f = incarnation e \<longrightarrow> e_sequence f < e_sequence e)
    \<and> (e_sequence e = 1 \<and> e_previous e = None
       \<or> (\<exists>f \<in> set (row_events i). incarnation f = incarnation e \<and> e_sequence f + 1 = e_sequence e
            \<and> e_previous e = Some (e_id f)))"
  proof (cases "head_event i (o_incarnation_id (lg_origin L))")
    case None
    with e(3,4) origin show ?thesis by (simp add: draft_of_def head_event_None [THEN iffD1])
  next
    case (Some f)
    with e(3,4) have "e_sequence e = e_sequence f + 1" "e_previous e = Some (e_id f)" by (simp_all add: draft_of_def)
    moreover have "e_sequence f' < e_sequence e" if "f' \<in> set (row_events i)" "incarnation f' = incarnation e" for f'
      using head_event_Some(3) [OF Some that(1)] that(2) origin calculation(1) by simp
    ultimately show ?thesis using head_event_Some(1,2) [OF Some] origin by auto
  qed
  have fields: "e_kind e = au_kind a" "e_subject e = au_subject a" "e_payload e = au_payload a" "e_sensitivity e = au_sensitivity a"
    "e_supersedes e = au_supersedes a" "e_parents e = sorted_list_of_set (set (au_parents a))"
    "e_occurred_at_ms e = (case au_occurred_at_ms a of None \<Rightarrow> now | Some time \<Rightarrow> time)"
    "e_id e = (case au_event_id a of None \<Rightarrow> uid | Some requested \<Rightarrow> requested)"
    by (simp_all add: e draft_of_def Let_def)
  have "row_events t = row_events s @ [e]" "e_id e \<in> known_ids t" using append_step_live [OF i(1) step] rows by simp_all
  moreover have "verify_event P (lg_authority L) (event_val e) = Inr e" by (rule e(1))
  ultimately show ?thesis using origin chain rows by (simp only: fields) simp
qed

lemma append_extends_the_chain_witness:
  "row_events (demo_db ''local'') = row_events empty_db @ [demo_first] \<and> e_id demo_first \<in> known_ids (demo_db ''local'')"
  using append_extends_the_chain [OF reachable.Empty demo_append] by blast

section \<open>Operations with a result of their own\<close>

text \<open>A ledger remembers an operation: by its request, the hash and a stored event.\<close>

definition remembers :: "db \<Rightarrow> pystr \<times> pystr \<Rightarrow> pystr \<Rightarrow> event \<Rightarrow> bool" where
  "remembers s k h e \<longleftrightarrow> map_of (t_local_ops s) k = Some (h, e_id e)
     \<and> (\<exists>row. find_row s (e_id e) = Some row \<and> r_event row = e)"

lemma stored_row:
  assumes "live P L s" and "e \<in> set (row_events s)"
  shows "\<exists>row. find_row s (e_id e) = Some row \<and> r_event row = e"
proof -
  from assms(2) obtain row where "row \<in> set (t_events s)" "r_event row = e" by (auto simp: in_row_events)
  with find_row_distinct [of s row] assms(1) show ?thesis
    by (auto simp: live_def ledger_ok_def store_ok_def rows_ok_def)
qed

lemma operation_remembered:
  assumes "live P L s" and "append_idempotent_step P L sg a r expected horizon clock uid s = Inr (e, t)"
  shows "remembers t (op_key r) (op_request_hash r) e"
  using assms(2)
proof (cases rule: append_idempotent_cases)
  case (repeated row j)
  then show ?thesis using find_row_Some [OF repeated(2)] by (auto simp: remembers_def)
next
  case (fresh w)
  have w: "live P L w" "row_events w = row_events s @ [e]" "journal_part w = journal_part s"
    using append_step_live [OF assms(1) fresh(2)] by simp_all
  have "\<exists>row. find_row w (e_id e) = Some row \<and> r_event row = e" by (rule stored_row [OF w(1)]) (simp add: w(2))
  moreover have "t_local_ops w = t_local_ops s" using w(3) by (simp add: journal_part_def)
  then have "map_of (t_local_ops t) (op_key r) = Some (op_request_hash r, e_id e)"
    using fresh(1) map_of_snoc [of "t_local_ops s" "op_key r"] by (simp add: fresh(3) del: map_of_append)
  ultimately show ?thesis by (simp add: remembers_def fresh(3) find_row_def)
qed

lemma remembers_later:
  assumes "remembers t k h e" and "ledger_ok P L t" and "(ledger_step P L)\<^sup>*\<^sup>* t u"
    and "live P L v" and "table_part v = table_part u"
  shows "remembers v k h e"
proof -
  have "map_of (t_local_ops v) k = Some (h, e_id e)"
    using assms(1) standing_answers(4) [OF ledger_steps_answers [OF assms(3)]] table_answers [OF assms(5)]
    by (simp add: remembers_def)
  moreover have "e \<in> set (row_events t)" using assms(1) by (auto simp: remembers_def dest: found_event)
  then have "e \<in> set (row_events v)"
    using ledger_steps_ok [OF assms(3,2)] table_part_rows [OF assms(5)] by (auto simp: grows_def dest: set_mono_prefix)
  ultimately show ?thesis using stored_row [OF assms(4)] by (simp add: remembers_def)
qed

text \<open>
  C30: a local operation appends once. After \<^verbatim>\<open>append_local_idempotent\<close> returned an event, every
  repetition of the request with its hash, whatever event, state guard and horizon it asks for, also past
  the horizon and on a ledger in another state,
  returns that event and stores nothing; with another hash it raises and stores nothing.
\<close>

theorem local_operations_append_once:
  assumes "reachable P L s"
    and "append_local_idempotent P L sg a r expected horizon clock uid s = (Inr e, t)"
    and "(ledger_step P L)\<^sup>*\<^sup>* t u" and "op_key r' = op_key r"
    and "validate_rpc_identity (op_client_id r') (op_request_id r') (op_request_hash r') = Inr ()"
    and "\<And>h. horizon' = Some h \<Longrightarrow> 0 < h \<and> h < 2 ^ 53" and "\<And>h. expected' = Some h \<Longrightarrow> is_hex64 h"
  shows "if op_request_hash r' = op_request_hash r
    then \<exists>u'. append_local_idempotent P L sg' a' r' expected' horizon' clock' uid' u = (Inr e, u') \<and> table_part u' = table_part u
    else \<exists>x u'. append_local_idempotent P L sg' a' r' expected' horizon' clock' uid' u = (Inl x, u') \<and> table_part u' = table_part u"
proof -
  let ?again = "append_idempotent_step P L sg' a' r' expected' horizon' clock' uid'"
  from assms(2) have "bindO (initialize P L) (\<lambda>_. recording P (clock 3)
      (transaction (append_idempotent_step P L sg a r expected horizon clock uid))) s = (Inr e, t)"
    by (auto simp: append_local_idempotent_def bindO_def returnO_def split: sum.splits if_splits)
  from recording_run [OF reachable_ok [OF assms(1)] this] obtain i
    where i: "live P L i" "append_idempotent_step P L sg a r expected horizon clock uid i = Inr (e, t)" by metis
  have t: "ledger_ok P L t" using step_keepsD [OF step_keeps_append_idempotent i] by (simp add: live_def)
  have u: "ledger_ok P L u" using ledger_steps_ok [OF assms(3) t] by blast
  have known: "remembers v (op_key r') (op_request_hash r) e" if "live P L v" "table_part v = table_part u" for v
    using remembers_later [OF operation_remembered [OF i] t assms(3) that] assms(4) by simp
  have run: "append_local_idempotent P L sg' a' r' expected' horizon' clock' uid'
      = bindO (initialize P L) (\<lambda>_. recording P (clock' 3) (transaction ?again))"
    using assms(5-7) by (auto simp: append_local_idempotent_def bindO_def returnO_def fun_eq_iff split: option.splits)
  have "?again v = Inr (e, v)" if "live P L v" "table_part v = table_part u" "op_request_hash r' = op_request_hash r" for v
    using known [OF that(1,2)] that(3) by (auto simp: append_idempotent_step_def remembers_def)
  moreover have "\<exists>x. ?again v = Inl x"
    if "live P L v" "table_part v = table_part u" "op_request_hash r' \<noteq> op_request_hash r" for v
    using known [OF that(1,2)] that(3) by (auto simp: append_idempotent_step_def remembers_def)
  ultimately show ?thesis
    unfolding run using recording_again [where f = ?again, OF u] recording_refused [where f = ?again, OF u]
    by (cases "op_request_hash r' = op_request_hash r") simp_all
qed

text \<open>A request of the concrete platform.\<close>

definition demo_call :: rpc_call where
  "demo_call = \<lparr>op_client_id = str ''client'', op_request_id = demo_uuid 5, op_request_hash = sha256_hex [],
     rc_method = str ''append''\<rparr>"

definition demo_operation :: operation where
  "demo_operation = operation.truncate demo_call"

lemma demo_call_sel [simp]:
  "op_request_hash demo_call = sha256_hex []" "op_request_hash demo_operation = sha256_hex []"
  "op_key demo_operation = op_key demo_call" "rc_method demo_call = str ''append''"
  by (simp_all add: demo_operation_def demo_call_def operation.defs op_key_def)

lemma utf8_ascii: "isascii s \<Longrightarrow> encode_utf8 s = Inr (utf8_bytes s)"
  by (auto simp: encode_utf8_def isascii_def is_surrogate_def list_all_iff list_ex_iff)

lemma demo_call_valid:
  "validate_rpc_identity (op_client_id demo_call) (op_request_id demo_call) (sha256_hex []) = Inr ()"
  "validate_rpc_identity (op_client_id demo_operation) (op_request_id demo_operation) (sha256_hex []) = Inr ()"
  "check_method (rc_method demo_call) = Inr ()"
  using demo_uuid(1) [of 5]
  by (simp_all add: validate_rpc_identity_def check_method_def demo_call_def demo_operation_def operation.defs utf8_ascii
      isascii_str length_utf8_ascii is_hex64_sha256_hex)

lemma demo_append_once:
  "append_local_idempotent demo demo_ledger demo_signer (demo_authoring 2) demo_operation None None (\<lambda>_. 6) [] empty_db
    = (Inr demo_first, (demo_db ''local'')\<lparr>t_local_ops := [(op_key demo_call, sha256_hex [], demo_uuid 2)]\<rparr>)"
proof -
  have step: "append_step demo demo_ledger demo_signer (demo_authoring 2) 6 [] demo_start = Inr (demo_first, demo_db ''local'')"
    using demo_append [of 6 "[]"] by (simp add: append_local_def bindO_def demo_initialize transaction_def split: sum.splits prod.splits)
  have "t_local_ops (demo_db ''local'') = []" by (simp add: demo_db_def)
  then have "append_idempotent_step demo demo_ledger demo_signer (demo_authoring 2) demo_operation None None (\<lambda>_. 6) [] demo_start
      = Inr (demo_first, (demo_db ''local'')\<lparr>t_local_ops := [(op_key demo_call, sha256_hex [], demo_uuid 2)]\<rparr>)"
    using step by (simp add: append_idempotent_step_def expired_def)
  then show ?thesis
    by (simp add: append_local_idempotent_def bindO_def returnO_def demo_initialize demo_call_valid recording_def transaction_def)
qed

lemma local_operations_append_once_witness:
  "\<exists>t u'. append_local_idempotent demo demo_ledger demo_signer (demo_authoring 2) demo_operation None None (\<lambda>_. 6) [] empty_db
      = (Inr demo_first, t)
    \<and> append_local_idempotent demo demo_ledger demo_signer (demo_authoring 3) demo_operation (Some (sha256_hex [])) (Some 1)
        (\<lambda>_. 9) [] t = (Inr demo_first, u')"
proof -
  have valid: "validate_rpc_identity (op_client_id demo_operation) (op_request_id demo_operation) (op_request_hash demo_operation) = Inr ()"
    by (simp add: demo_call_valid)
  have "Some (1 :: int) = Some h \<Longrightarrow> 0 < h \<and> h < 2 ^ 53" "Some (sha256_hex []) = Some x \<Longrightarrow> is_hex64 x" for h x
    by (auto simp: is_hex64_sha256_hex)
  from local_operations_append_once [where horizon' = "Some 1" and expected' = "Some (sha256_hex [])" and sg' = demo_signer
      and a' = "demo_authoring 3" and clock' = "\<lambda>_. 9" and uid' = "[]",
      OF reachable.Empty demo_append_once rtranclp.rtrancl_refl refl valid this] demo_append_once
  show ?thesis unfolding if_P [OF refl] by blast
qed

section \<open>RPC calls\<close>

definition responded :: "db \<Rightarrow> rpc_call \<Rightarrow> dict \<Rightarrow> bool" where
  "responded s c v \<longleftrightarrow> (\<exists>q at. map_of (t_rpc s) (op_key c) = Some q \<and> q_request_hash q = op_request_hash c
     \<and> q_method q = rc_method c \<and> q_completed q = Some (v, at))"

lemma finish_responds: "finish_rpc_step c response now s = Inr (v, t) \<Longrightarrow> responded t c v"
  by (auto simp: finish_rpc_step_def responded_def update_conv' split: option.splits if_splits prod.splits)

lemma responded_later:
  assumes "responded t c v" and "(ledger_step P L)\<^sup>*\<^sup>* t u" and "table_part w = table_part u"
  shows "responded w c v"
proof -
  from assms(1) obtain q at where q: "map_of (t_rpc t) (op_key c) = Some q" "q_request_hash q = op_request_hash c"
    "q_method q = rc_method c" "q_completed q = Some (v, at)" by (auto simp: responded_def)
  with ledger_steps_answers [OF assms(2)] obtain q' where "map_of (t_rpc u) (op_key c) = Some q'" "same_call q q'"
    unfolding answers_stand_def by blast
  with q table_answers [OF assms(3)] show ?thesis by (auto simp: responded_def same_call_def)
qed

lemma responded_again:
  assumes "responded s c v"
  shows "begin_rpc_step c now s = Inr (Some v, s)" "finish_rpc_step c response now s = Inr (v, s)"
  using assms by (auto simp: responded_def begin_rpc_step_def finish_rpc_step_def)

text \<open>
  The first response of a call is its response. After \<^verbatim>\<open>finish_rpc\<close> returned, whatever response
  it returned is what every later \<^verbatim>\<open>begin_rpc\<close> and \<^verbatim>\<open>finish_rpc\<close> of the call return, whatever
  response they bring and whatever the ledger did since, and they store nothing.
\<close>

theorem first_response_is_final:
  assumes "reachable P L s" and "finish_rpc P L c response clock s = (Inr v, t)"
    and "(ledger_step P L)\<^sup>*\<^sup>* t u" and "canonical_bytes P (VDict response') = Inr b"
  shows "(\<exists>u'. finish_rpc P L c response' clock' u = (Inr v, u') \<and> table_part u' = table_part u)
    \<and> (check_method (rc_method c) = Inr () \<longrightarrow>
        (\<exists>u'. begin_rpc P L c clock' u = (Inr (Some v), u') \<and> table_part u' = table_part u))"
proof -
  from assms(2) have valid: "validate_rpc_identity (op_client_id c) (op_request_id c) (op_request_hash c) = Inr ()"
    and run: "bindO (initialize P L) (\<lambda>_. recording P (clock 1) (transaction (finish_rpc_step c response (clock 0)))) s = (Inr v, t)"
    by (auto simp: finish_rpc_def bindO_def returnO_def split: sum.splits)
  from recording_run [OF reachable_ok [OF assms(1)] run] obtain i
    where i: "live P L i" "finish_rpc_step c response (clock 0) i = Inr (v, t)" by metis
  have t: "ledger_ok P L t" using step_keepsD [OF step_keeps_finish_rpc i] by (simp add: live_def)
  have u: "ledger_ok P L u" using ledger_steps_ok [OF assms(3) t] by blast
  note later = responded_again [OF responded_later [OF finish_responds [OF i(2)] assms(3)]]
  have "\<exists>u'. finish_rpc P L c response' clock' u = (Inr v, u') \<and> table_part u' = table_part u"
    using recording_again [where f = "finish_rpc_step c response' (clock' 0)", OF u later(2)] valid assms(4)
    by (simp add: finish_rpc_def bindO_def returnO_def)
  moreover have "\<exists>u'. begin_rpc P L c clock' u = (Inr (Some v), u') \<and> table_part u' = table_part u"
    if "check_method (rc_method c) = Inr ()"
    using recording_again [where f = "begin_rpc_step c (clock' 0)", OF u later(1)] valid that
    by (simp add: begin_rpc_def bindO_def returnO_def)
  ultimately show ?thesis by blast
qed

lemma demo_begin:
  "begin_rpc demo demo_ledger demo_call (\<lambda>_. 6) demo_start = (Inr None, demo_start\<lparr>t_rpc := [(op_key demo_call,
     \<lparr>q_request_hash = sha256_hex [], q_method = str ''append'', q_created_at_ms = 6, q_completed = None\<rparr>)]\<rparr>)"
  using demo_live demo_call_valid
  by (simp add: begin_rpc_def bindO_def returnO_def recording_def transaction_def begin_rpc_step_def)

lemma first_response_is_final_witness:
  "\<exists>s t u'. reachable demo demo_ledger s \<and> finish_rpc demo demo_ledger demo_call demo_dict (\<lambda>_. 7) s = (Inr demo_dict, t)
    \<and> finish_rpc demo demo_ledger demo_call demo_payload (\<lambda>_. 9) t = (Inr demo_dict, u')"
proof -
  let ?row = "\<lparr>q_request_hash = sha256_hex [], q_method = str ''append'', q_created_at_ms = 6, q_completed = None\<rparr>"
  let ?s = "demo_start\<lparr>t_rpc := [(op_key demo_call, ?row)]\<rparr>"
  have "ledger_step demo demo_ledger demo_start (snd (begin_rpc demo demo_ledger demo_call (\<lambda>_. 6) demo_start))"
    by (rule ledger_step.Begin_rpc)
  then have s: "reachable demo demo_ledger ?s"
    unfolding demo_begin snd_conv by (rule reachable.Step [OF demo_start_reachable])
  have live: "live demo demo_ledger ?s"
    using reachable_ok [OF s] demo_live by (simp add: live_def initialized_def)
  obtain b where b: "canonical_bytes demo (VDict demo_dict) = Inr b" using demo_dict_canonical by blast
  obtain b' where b': "canonical_bytes demo (VDict demo_payload) = Inr b'"
    using plain_canonical [of "VDict demo_payload"] by (auto simp: demo_payload_def isascii_str)
  have run: "\<exists>t. finish_rpc demo demo_ledger demo_call demo_dict (\<lambda>_. 7) ?s = (Inr demo_dict, t)"
    using live demo_call_valid b
    by (simp add: finish_rpc_def bindO_def returnO_def recording_def transaction_def finish_rpc_step_def)
  then obtain t where t: "finish_rpc demo demo_ledger demo_call demo_dict (\<lambda>_. 7) ?s = (Inr demo_dict, t)" by blast
  from first_response_is_final [OF s t rtranclp.rtrancl_refl b', of "\<lambda>_. 9"] s t show ?thesis by blast
qed

end
