(* ===== verification/Projections.thy ===== *)
theory Projections
  imports Ledger
begin

text \<open>
  The local projection, \<^verbatim>\<open>src/daimon_matrix/projections.py\<close>: which proposals and experiences this
  embodiment has adopted, computed from the known events of its ledger, and the verification of a
  cached snapshot. An \<open>entry\<close> is one row of the view and \<open>entry_val\<close> the mapping it stands for.
\<close>

section \<open>Verification of a snapshot\<close>

definition projection_domain :: string where "projection_domain = ''daimon/weave/projection/v1''"

definition projection_schema :: string where "projection_schema = ''dm.we.projection/v1''"

definition projection_uuid :: "val \<Rightarrow> bool" where
  "projection_uuid v = (case v of VStr s \<Rightarrow> is_uuid s | _ \<Rightarrow> False)"

definition projection_text :: "nat \<Rightarrow> val \<Rightarrow> bool res" where
  "projection_text maximum v = (case v of
     VStr s \<Rightarrow> bindR (encode_utf8 s) (\<lambda>raw. Inr (1 \<le> length raw \<and> length raw \<le> maximum))
   | _ \<Rightarrow> Inr False)"

definition projection_ids :: "bool \<Rightarrow> val \<Rightarrow> bool" where
  "projection_ids ordered v = (case v of
     VList vs \<Rightarrow>
       list_all projection_uuid vs \<and> distinct (map str_of vs)
       \<and> (\<not> ordered \<or> sorted (map str_of vs))
   | _ \<Rightarrow> False)"

definition entry_fields :: "string list" where
  "entry_fields =
     [''decision_event_id'', ''event_id'', ''invalid_projection_receipt_ids'', ''kind'',
      ''local_decision_chain'', ''origin'', ''projection_receipt_ids'', ''remote_decision_event_ids'',
      ''remote_projection_receipt_ids'', ''state'', ''subject'']"

definition target_kinds :: "string list" where
  "target_kinds =
     [''configuration.proposed'', ''experience.observed'', ''memory.recorded'', ''preference.proposed'',
      ''skill.proposed'']"

text \<open>The part of \<^verbatim>\<open>_valid_projection_entry\<close> on the state, the chain and the decision.\<close>

definition consistent_decision :: "dict \<Rightarrow> bool" where
  "consistent_decision d =
     (let chain = (case item d ''local_decision_chain'' of VList vs \<Rightarrow> vs | _ \<Rightarrow> []);
          decision_id = item d ''decision_event_id'';
          tip = (chain \<noteq> [] \<and> decision_id = last chain) in
      if item d ''state'' = VStr (str ''pending'') then decision_id = VNone \<and> chain = []
      else if item d ''state'' = VStr (str ''failed'') then decision_id = VNone \<or> tip
      else tip)"

definition valid_projection_entry :: "val \<Rightarrow> bool res" where
  "valid_projection_entry v = (case v of
     VDict d \<Rightarrow>
       if dkeys d \<noteq> key_set entry_fields then Inr False
       else (case item d ''origin'' of
           VDict og \<Rightarrow>
             if dkeys og \<noteq> key_set [''body_ref'', ''embodiment_id'', ''incarnation_id'', ''principal_id'']
               then Inr False
             else andR
               [projection_text 256 (item og ''body_ref''), projection_text 256 (item og ''embodiment_id''),
                projection_text 256 (item og ''incarnation_id''), projection_text 128 (item og ''principal_id''),
                Inr (projection_uuid (item d ''event_id'')), in_strings (item d ''kind'') target_kinds,
                projection_text 256 (item d ''subject''),
                in_strings (item d ''state'')
                  [''pending'', ''adopted'', ''rejected'', ''deferred'', ''reverted'', ''failed''],
                Inr (item d ''decision_event_id'' = VNone \<or> projection_uuid (item d ''decision_event_id'')),
                Inr (projection_ids False (item d ''local_decision_chain'')),
                Inr (projection_ids True (item d ''remote_decision_event_ids'')),
                Inr (projection_ids True (item d ''projection_receipt_ids'')),
                Inr (projection_ids True (item d ''remote_projection_receipt_ids'')),
                Inr (projection_ids True (item d ''invalid_projection_receipt_ids'')),
                Inr (consistent_decision d)]
         | _ \<Rightarrow> Inr False)
   | _ \<Rightarrow> Inr False)"

definition snapshot_fields :: "string list" where
  "snapshot_fields =
     [''being_ref'', ''entries'', ''local_embodiment_id'', ''manifest_hash'', ''projection_hash'', ''schema'']"

definition verify_snapshot :: "platform \<Rightarrow> val \<Rightarrow> dict res" where
  "verify_snapshot P v =
     (let bad = Exc ProjectionError (str ''invalid_projection_snapshot'') in
      bindR (closed_dict bad snapshot_fields v) (\<lambda>d.
        if item d ''schema'' \<noteq> VStr (str projection_schema) then Inl bad
        else bindR (projection_text 256 (item d ''being_ref'')) (\<lambda>ok.
        if \<not> ok then Inl bad
        else bindR (projection_text 256 (item d ''local_embodiment_id'')) (\<lambda>ok.
        if \<not> ok then Inl bad
        else bindR (hash_check bad (item d ''manifest_hash'')) (\<lambda>_.
        bindR (hash_check bad (item d ''projection_hash'')) (\<lambda>h.
        case item d ''entries'' of
          VList entries \<Rightarrow>
            bindR (andR (map valid_projection_entry entries)) (\<lambda>ok.
              if \<not> ok then Inl bad
              else
                let ids = map (\<lambda>en. case en of VDict e \<Rightarrow> str_of (item e ''event_id'') | _ \<Rightarrow> []) entries in
                if \<not> sorted ids \<or> \<not> distinct ids then raise ProjectionError ''projection_entries_not_sorted''
                else bindR (wrapR (is_class CanonicalError) bad
                              (canonical_bytes P (VDict (without [''projection_hash''] d)))) (\<lambda>raw.
                  if h \<noteq> sha256_hex (str projection_domain @ [0] @ raw)
                    then raise ProjectionError ''projection_hash_mismatch''
                  else Inr d))
        | _ \<Rightarrow> Inl bad))))))"

section \<open>Decision chains\<close>

definition target_of :: "'a core_scheme \<Rightarrow> pystr" where
  "target_of e = str_of (item (e_payload e) ''target_event_id'')"

text \<open>\<^verbatim>\<open>children.get(p, [])\<close>\<close>

definition children_of :: "event list \<Rightarrow> pystr \<Rightarrow> pystr list" where
  "children_of ds p = map e_id (filter (\<lambda>e. e_supersedes e = Some p) ds)"

text \<open>The \<^verbatim>\<open>while current is not None\<close> loop; \<open>None\<close> when it meets an id twice.\<close>

function walk_chain :: "event list \<Rightarrow> pystr list \<Rightarrow> pystr option \<Rightarrow> pystr list option" where
  "walk_chain ds chain None = Some chain"
| "walk_chain ds chain (Some i) =
     (if i \<in> set chain then None
      else walk_chain ds (chain @ [i])
             (case children_of ds i of [] \<Rightarrow> None | j # _ \<Rightarrow> Some j))"
  by pat_completeness auto

lemma children_of_in: "j \<in> set (children_of ds i) \<Longrightarrow> j \<in> e_id ` set ds"
  by (auto simp: children_of_def)

termination walk_chain
proof (relation "measures [\<lambda>(ds, chain, c).
    card (e_id ` set ds - set chain) + (case c of Some i \<Rightarrow> if i \<in> e_id ` set ds then 0 else 1 | None \<Rightarrow> 0),
    \<lambda>(ds, chain, c). case c of None \<Rightarrow> 0 | Some _ \<Rightarrow> 1]", simp)
  fix ds :: "event list" and chain :: "pystr list" and i :: pystr
  assume "i \<notin> set chain"
  let ?c = "case children_of ds i of [] \<Rightarrow> None | j # _ \<Rightarrow> Some j"
  have next_in: "(case ?c of Some i \<Rightarrow> if i \<in> e_id ` set ds then 0 else 1 | None \<Rightarrow> (0::nat)) = 0"
    using children_of_in [of _ ds i] by (auto split: list.splits)
  show "((ds, chain @ [i], ?c), ds, chain, Some i) \<in> measures [\<lambda>(ds, chain, c).
    card (e_id ` set ds - set chain) + (case c of Some i \<Rightarrow> if i \<in> e_id ` set ds then 0 else 1 | None \<Rightarrow> 0),
    \<lambda>(ds, chain, c). case c of None \<Rightarrow> 0 | Some _ \<Rightarrow> 1]"
  proof (cases "i \<in> e_id ` set ds")
    case True
    with \<open>i \<notin> set chain\<close> have "card (e_id ` set ds - set (chain @ [i])) < card (e_id ` set ds - set chain)"
      by (intro psubset_card_mono) auto
    then show ?thesis using True next_in by simp
  next
    case False
    then have "e_id ` set ds - set (chain @ [i]) = e_id ` set ds - set chain" by auto
    then show ?thesis using False next_in by simp
  qed
qed

declare walk_chain.simps [simp del]

definition decision_chain :: "event list \<Rightarrow> pystr list \<times> bool" where
  "decision_chain ds =
     (let ids = sorted_list_of_set (e_id ` set ds);
          roots = filter (\<lambda>e. e_supersedes e = None) ds;
          orphans = filter (\<lambda>e. case e_supersedes e of
                        None \<Rightarrow> False
                      | Some p \<Rightarrow> (case find (\<lambda>x. e_id x = p) ds of
                            None \<Rightarrow> True | Some x \<Rightarrow> target_of x \<noteq> target_of e)) ds;
          forks = filter (\<lambda>e. length (children_of ds (e_id e)) > 1) ds in
      if ds = [] then ([], False)
      else if card (target_of ` set ds) \<noteq> 1 then (ids, True)
      else if length roots \<noteq> 1 \<or> orphans \<noteq> [] \<or> forks \<noteq> [] then (ids, True)
      else (case walk_chain ds [] (Some (e_id (hd roots))) of
          None \<Rightarrow> (ids, True)
        | Some chain \<Rightarrow> if set chain \<noteq> e_id ` set ds then (ids, True) else (chain, False)))"

section \<open>Building the view\<close>

datatype entry_state = Pending | Adopted | Rejected | Deferred | Reverted | Failed

definition state_text :: "entry_state \<Rightarrow> string" where
  "state_text st = (case st of Pending \<Rightarrow> ''pending'' | Adopted \<Rightarrow> ''adopted'' | Rejected \<Rightarrow> ''rejected''
     | Deferred \<Rightarrow> ''deferred'' | Reverted \<Rightarrow> ''reverted'' | Failed \<Rightarrow> ''failed'')"

record entry =
  en_event_id :: pystr
  en_kind :: pystr
  en_subject :: pystr
  en_origin :: origin
  en_state :: entry_state
  en_decision :: "pystr option"
  en_chain :: "pystr list"
  en_remote_decisions :: "pystr list"
  en_receipts :: "pystr list"
  en_remote_receipts :: "pystr list"
  en_invalid_receipts :: "pystr list"

definition ids_val :: "pystr list \<Rightarrow> val" where
  "ids_val xs = VList (map VStr xs)"

definition entry_val :: "entry \<Rightarrow> val" where
  "entry_val en =
     VDict [(VStr (str ''event_id''), VStr (en_event_id en)), (VStr (str ''kind''), VStr (en_kind en)),
            (VStr (str ''subject''), VStr (en_subject en)), (VStr (str ''origin''), origin_val (en_origin en)),
            (VStr (str ''state''), VStr (str (state_text (en_state en)))),
            (VStr (str ''decision_event_id''), opt_str (en_decision en)),
            (VStr (str ''local_decision_chain''), ids_val (en_chain en)),
            (VStr (str ''remote_decision_event_ids''), ids_val (en_remote_decisions en)),
            (VStr (str ''projection_receipt_ids''), ids_val (en_receipts en)),
            (VStr (str ''remote_projection_receipt_ids''), ids_val (en_remote_receipts en)),
            (VStr (str ''invalid_projection_receipt_ids''), ids_val (en_invalid_receipts en))]"

definition is_local :: "pystr \<Rightarrow> 'a core_scheme \<Rightarrow> bool" where
  "is_local embodiment e = (o_embodiment_id (e_origin e) = embodiment)"

text \<open>\<^verbatim>\<open>local_decisions\<close>, \<^verbatim>\<open>remote_decisions\<close> and the receipts of one target, in the order of \<open>known\<close>.\<close>

definition about :: "string \<Rightarrow> pystr \<Rightarrow> event list \<Rightarrow> event list" where
  "about kind target known = filter (\<lambda>e. e_kind e = str kind \<and> target_of e = target) known"

definition local_about :: "string \<Rightarrow> pystr \<Rightarrow> pystr \<Rightarrow> event list \<Rightarrow> event list" where
  "local_about kind embodiment target known = filter (is_local embodiment) (about kind target known)"

definition remote_about :: "string \<Rightarrow> pystr \<Rightarrow> pystr \<Rightarrow> event list \<Rightarrow> pystr list" where
  "remote_about kind embodiment target known =
     sort (map e_id (filter (\<lambda>e. \<not> is_local embodiment e) (about kind target known)))"

definition decision_by_id :: "event list \<Rightarrow> pystr \<Rightarrow> event option" where
  "decision_by_id known i = find (\<lambda>e. e_kind e = str ''adoption.decided'' \<and> e_id e = i) (rev known)"

definition decided_state :: "event \<Rightarrow> entry_state" where
  "decided_state e =
     (let d = item (e_payload e) ''decision'' in
      if d = VStr (str ''adopt'') then Adopted else if d = VStr (str ''reject'') then Rejected
      else if d = VStr (str ''defer'') then Deferred else Reverted)"

text \<open>A receipt counts when it names a local decision to adopt the same target.\<close>

definition receipt_supported :: "pystr \<Rightarrow> event list \<Rightarrow> pystr \<Rightarrow> event \<Rightarrow> bool" where
  "receipt_supported embodiment known target r =
     (case decision_by_id known (str_of (item (e_payload r) ''decision_event_id'')) of
        None \<Rightarrow> False
      | Some d \<Rightarrow> is_local embodiment d \<and> target_of d = target
                  \<and> item (e_payload d) ''decision'' = VStr (str ''adopt''))"

definition entry_of :: "pystr \<Rightarrow> event list \<Rightarrow> event \<Rightarrow> entry" where
  "entry_of embodiment known e =
     (let (chain, failed) = decision_chain (local_about ''adoption.decided'' embodiment (e_id e) known);
          tip = (if failed \<or> chain = [] then None else decision_by_id known (last chain));
          receipts = sort_key e_id (local_about ''projection.receipted'' embodiment (e_id e) known);
          errors = map e_id (filter (\<lambda>r. \<not> receipt_supported embodiment known (e_id e) r) receipts);
          st = (if failed then Failed else case tip of None \<Rightarrow> Pending | Some d \<Rightarrow> decided_state d) in
      \<lparr>en_event_id = e_id e, en_kind = e_kind e, en_subject = e_subject e, en_origin = e_origin e,
       en_state = (if errors \<noteq> [] then Failed else st), en_decision = map_option e_id tip,
       en_chain = chain,
       en_remote_decisions = remote_about ''adoption.decided'' embodiment (e_id e) known,
       en_receipts = map e_id (filter (receipt_supported embodiment known (e_id e)) receipts),
       en_remote_receipts = remote_about ''projection.receipted'' embodiment (e_id e) known,
       en_invalid_receipts = errors\<rparr>)"

definition entries_of :: "pystr \<Rightarrow> event list \<Rightarrow> entry list" where
  "entries_of embodiment known =
     map (entry_of embodiment known)
       (sort_key e_id (filter (\<lambda>e. e_kind e \<in> str ` set target_kinds) known))"

definition snapshot_core :: "ledger \<Rightarrow> entry list \<Rightarrow> dict" where
  "snapshot_core L entries =
     (let mf = authority_manifest (lg_authority L) in
      [(VStr (str ''schema''), VStr (str projection_schema)),
       (VStr (str ''being_ref''), VStr (mf_being_ref mf)),
       (VStr (str ''manifest_hash''), VStr (mf_digest mf)),
       (VStr (str ''local_embodiment_id''), VStr (o_embodiment_id (lg_origin L))),
       (VStr (str ''entries''), VList (map entry_val entries))])"

definition snapshot_of :: "platform \<Rightarrow> ledger \<Rightarrow> db \<Rightarrow> dict res" where
  "snapshot_of P L s =
     (let core = snapshot_core L (entries_of (o_embodiment_id (lg_origin L)) (list_events False s)) in
      bindR (canonical_bytes P (VDict core)) (\<lambda>raw.
        verify_snapshot P (VDict (core @
          [(VStr (str ''projection_hash''), VStr (sha256_hex (str projection_domain @ [0] @ raw)))]))))"

definition snapshot :: "platform \<Rightarrow> ledger \<Rightarrow> dict op" where
  "snapshot P L = bindO (initialize P L) (\<lambda>_ s. (snapshot_of P L s, s))"

text \<open>\<^verbatim>\<open>rebuild\<close>; the caller's \<^verbatim>\<open>before_replace\<close> hook may refuse the snapshot.\<close>

definition rebuild :: "platform \<Rightarrow> ledger \<Rightarrow> (dict \<Rightarrow> unit res) \<Rightarrow> dict op" where
  "rebuild P L before_replace =
     bindO (snapshot P L) (\<lambda>d.
     bindO (returnO (before_replace d)) (\<lambda>_.
     bindO (replace_projection_cache P L d) (\<lambda>_. returnO (Inr d))))"

definition cached :: "platform \<Rightarrow> ledger \<Rightarrow> dict option op" where
  "cached P L =
     bindO (projection_cache P L) (\<lambda>v. case v of
       None \<Rightarrow> returnO (Inr None)
     | Some stored \<Rightarrow> returnO
         (bindR (verify_snapshot P (VDict stored)) (\<lambda>d.
           let mf = authority_manifest (lg_authority L) in
           if item d ''being_ref'' \<noteq> VStr (mf_being_ref mf)
              \<or> item d ''manifest_hash'' \<noteq> VStr (mf_digest mf)
              \<or> item d ''local_embodiment_id'' \<noteq> VStr (o_embodiment_id (lg_origin L))
             then raise ProjectionError ''projection_authority_mismatch''
           else Inr (Some d))))"

text \<open>\<^verbatim>\<open>Ledger.diff\<close>\<close>

definition diff :: "platform \<Rightarrow> ledger \<Rightarrow> pystr option \<Rightarrow> pystr option \<Rightarrow> val list op" where
  "diff P L kind subject =
     bindO (snapshot P L) (\<lambda>d. returnO (Inr
       (filter (\<lambda>v. case v of
            VDict en \<Rightarrow> (kind = None \<or> item en ''kind'' = opt_str kind)
                        \<and> (subject = None \<or> item en ''subject'' = opt_str subject)
          | _ \<Rightarrow> False)
          (case item d ''entries'' of VList es \<Rightarrow> es | _ \<Rightarrow> []))))"

end
