(* ===== verification/Projection_Properties.thy ===== *)
theory Projection_Properties
  imports Projections Demo_Events
begin

text \<open>
  The property of the local projection: the state of an entry is the last word of this embodiment.
\<close>

section \<open>Walking a chain of decisions\<close>

text \<open>The decision \<open>b\<close> replaces the decision \<open>a\<close>.\<close>

definition overrules :: "event list \<Rightarrow> pystr \<Rightarrow> pystr \<Rightarrow> bool" where
  "overrules ds a b \<longleftrightarrow> (\<exists>y \<in> set ds. e_supersedes y = Some a \<and> e_id y = b)"

lemma children_overrule: "b \<in> set (children_of ds a) \<longleftrightarrow> overrules ds a b"
  by (auto simp: children_of_def overrules_def)

lemma walk_chain_path:
  "walk_chain ds chain (Some i) = Some walked \<Longrightarrow>
   \<exists>tail_ids. walked = chain @ i # tail_ids \<and> successively (overrules ds) (i # tail_ids) \<and> children_of ds (last (i # tail_ids)) = []"
proof (induction ds chain "Some i" arbitrary: i rule: walk_chain.induct)
  case (2 ds chain i)
  then have fresh: "i \<notin> set chain" by (auto simp: walk_chain.simps(2) split: if_splits)
  show ?case
  proof (cases "children_of ds i")
    case Nil
    with 2(2) fresh show ?thesis by (intro exI [of _ "[]"]) (simp add: walk_chain.simps)
  next
    case (Cons j js)
    with 2(2) fresh have "walk_chain ds (chain @ [i]) (Some j) = Some walked" by (simp add: walk_chain.simps(2))
    from 2(1) [OF fresh _ this] Cons obtain tail_ids where tail_ids: "walked = (chain @ [i]) @ j # tail_ids" "successively (overrules ds) (j # tail_ids)"
      "children_of ds (last (j # tail_ids)) = []" by auto
    have "overrules ds i j" using Cons children_overrule [of j ds i] by simp
    with tail_ids show ?thesis by (intro exI [of _ "j # tail_ids"]) simp
  qed
qed

lemma successively_reaches: "successively R (a # tail_ids) \<Longrightarrow> x \<in> set (a # tail_ids) \<Longrightarrow> R\<^sup>*\<^sup>* x (last (a # tail_ids))"
proof (induction tail_ids arbitrary: a x)
  case (Cons b tail_ids)
  have step: "R a b" and next_step: "successively R (b # tail_ids)" using Cons.prems(1) by simp_all
  note rest = Cons.IH [OF next_step]
  have "R\<^sup>*\<^sup>* a (last (b # tail_ids))" by (rule converse_rtranclp_into_rtranclp [where r = R, OF step rest]) simp
  moreover have "x = a \<or> x \<in> set (b # tail_ids)" using Cons.prems(2) by simp
  ultimately have "R\<^sup>*\<^sup>* x (last (b # tail_ids))" using rest by metis
  then show ?case by (simp only: last_ConsR [OF list.distinct(2)])
qed simp

lemma decision_chain_tip:
  assumes "decision_chain ds = (chain, False)" and "ds \<noteq> []"
  shows "chain \<noteq> []" "set chain = e_id ` set ds" "\<forall>x \<in> set ds. (overrules ds)\<^sup>*\<^sup>* (e_id x) (last chain)"
    "\<forall>x \<in> set ds. e_supersedes x \<noteq> Some (last chain)"
proof -
  let ?roots = "filter (\<lambda>e. e_supersedes e = None) ds"
  from assms have walk: "walk_chain ds [] (Some (e_id (hd ?roots))) = Some chain" and all: "set chain = e_id ` set ds"
    by (auto simp: decision_chain_def Let_def split: if_splits option.splits)
  from walk_chain_path [OF walk] obtain tail_ids where tail_ids: "chain = e_id (hd ?roots) # tail_ids"
    "successively (overrules ds) (e_id (hd ?roots) # tail_ids)" "children_of ds (last (e_id (hd ?roots) # tail_ids)) = []" by auto
  show "chain \<noteq> []" "set chain = e_id ` set ds" using tail_ids(1) all by simp_all
  show "\<forall>x \<in> set ds. (overrules ds)\<^sup>*\<^sup>* (e_id x) (last chain)"
    using successively_reaches [OF tail_ids(2)] all tail_ids(1) by (metis imageI)
  show "\<forall>x \<in> set ds. e_supersedes x \<noteq> Some (last chain)"
    using tail_ids(1,3) by (auto simp: children_of_def filter_empty_conv)
qed

section \<open>The state of an entry\<close>

abbreviation local_decisions :: "pystr \<Rightarrow> pystr \<Rightarrow> event list \<Rightarrow> event list" where
  "local_decisions \<equiv> local_about ''adoption.decided''"

lemma found_known: "find P xs = Some x \<Longrightarrow> x \<in> set xs \<and> P x"
  by (auto simp: find_Some_iff)

lemma decision_by_id_Some:
  assumes "distinct (map e_id known)" and "d \<in> set known" and "e_kind d = str ''adoption.decided''"
  shows "decision_by_id known (e_id d) = Some d"
proof -
  have "\<exists>y. decision_by_id known (e_id d) = Some y" using assms(2,3) by (auto simp: decision_by_id_def find_None_iff not_None_eq [symmetric] simp del: not_None_eq)
  then obtain y where y: "decision_by_id known (e_id d) = Some y" by blast
  then have "y \<in> set known" "e_id y = e_id d" by (auto simp: decision_by_id_def dest: found_known)
  with assms(1,2) have "y = d" by (metis distinct_map inj_onD)
  with y show ?thesis by simp
qed

text \<open>
  C33: the state of an entry is the last word of this embodiment. An entry of the projection that is
  neither pending nor failed is in the state of a known decision about it that this embodiment made
  itself, which no other of its decisions replaces, and which replaces, step by step, every other one.
  Decisions of other embodiments have no part in it, and every receipt of this embodiment for the entry names a
  decision of its own to adopt it.
\<close>

theorem state_is_the_last_local_word:
  assumes "distinct (map e_id known)" and "en \<in> set (entries_of embodiment known)" and "en_state en \<notin> {Pending, Failed}"
  shows "\<exists>d. d \<in> set (local_decisions embodiment (en_event_id en) known) \<and> en_state en = decided_state d \<and> en_decision en = Some (e_id d)
    \<and> (\<forall>x \<in> set (local_decisions embodiment (en_event_id en) known). e_supersedes x \<noteq> Some (e_id d)
         \<and> (overrules (local_decisions embodiment (en_event_id en) known))\<^sup>*\<^sup>* (e_id x) (e_id d))
    \<and> (\<forall>r \<in> set (local_about ''projection.receipted'' embodiment (en_event_id en) known).
         receipt_supported embodiment known (en_event_id en) r)"
proof -
  from assms(2) obtain e where e: "e \<in> set known" "en = entry_of embodiment known e" by (auto simp: entries_of_def)
  let ?ds = "local_decisions embodiment (e_id e) known"
  obtain chain failed where chain: "decision_chain ?ds = (chain, failed)" by fastforce
  have id: "en_event_id en = e_id e" by (simp add: e(2) entry_of_def Let_def split_beta)
  from assms(3) have live: "\<not> failed" "chain \<noteq> []"
    and receipts: "\<forall>r \<in> set (local_about ''projection.receipted'' embodiment (e_id e) known). receipt_supported embodiment known (e_id e) r"
    by (auto simp: e(2) entry_of_def Let_def chain filter_empty_conv split: if_splits)
  have ds: "?ds \<noteq> []" using chain live by (auto simp: decision_chain_def)
  from live(1) chain have "decision_chain ?ds = (chain, False)" by simp
  note tip = decision_chain_tip [OF this ds]
  have "last chain \<in> e_id ` set ?ds" using last_in_set [OF live(2)] tip(2) by simp
  then obtain d where d: "d \<in> set ?ds" "e_id d = last chain" by auto
  then have "d \<in> set known" "e_kind d = str ''adoption.decided''" by (auto simp: local_about_def about_def)
  from decision_by_id_Some [OF assms(1) this] d(2) have "decision_by_id known (last chain) = Some d" by simp
  with assms(3) live chain have "en_state en = decided_state d" "en_decision en = Some (e_id d)"
    by (auto simp: e(2) entry_of_def Let_def d(2) split: if_splits)
  with d tip(3,4) receipts show ?thesis unfolding id by (intro exI [of _ d]) simp
qed


text \<open>A memory of the demo, first deferred and then adopted by the embodiment it belongs to.\<close>

definition told :: event where
  "told = (demo_event 1 1 None []) \<lparr>e_id := [7], e_kind := str ''memory.recorded''\<rparr>"

definition decided :: "nat \<Rightarrow> string \<Rightarrow> pystr option \<Rightarrow> event" where
  "decided i d over = (demo_event 1 1 None []) \<lparr>e_id := [i], e_kind := str ''adoption.decided'',
     e_payload := [(VStr (str ''target_event_id''), VStr [7]), (VStr (str ''decision''), VStr (str d))],
     e_supersedes := over\<rparr>"

lemma decided_sel [simp]:
  "e_id (decided i d over) = [i]" "e_kind (decided i d over) = str ''adoption.decided''"
  "e_supersedes (decided i d over) = over" "target_of (decided i d over) = [7]"
  "is_local (o_embodiment_id demo_origin) (decided i d over)"
  "item (e_payload (decided i d over)) ''decision'' = VStr (str d)"
  "e_id told = [7]" "e_kind told = str ''memory.recorded''"
  by (simp_all add: decided_def told_def target_of_def is_local_def dict_simps demo_event_def signed_core_def demo_event_core_def core.defs event.defs)

abbreviation history :: "event list" where
  "history \<equiv> [told, decided 8 ''defer'' None, decided 9 ''adopt'' (Some [8])]"

lemma history_decisions:
  "local_decisions (o_embodiment_id demo_origin) [7] history = [decided 8 ''defer'' None, decided 9 ''adopt'' (Some [8])]"
  "local_about ''projection.receipted'' (o_embodiment_id demo_origin) [7] history = []"
  by (simp_all add: local_about_def about_def)

lemma history_chain: "decision_chain [decided 8 ''defer'' None, decided 9 ''adopt'' (Some [8])] = ([[8], [9]], False)"
  by (simp add: decision_chain_def Let_def children_of_def walk_chain.simps)

lemma history_entry:
  "entries_of (o_embodiment_id demo_origin) history = [entry_of (o_embodiment_id demo_origin) history told]"
  "en_state (entry_of (o_embodiment_id demo_origin) history told) = Adopted"
  "en_event_id (entry_of (o_embodiment_id demo_origin) history told) = [7]"
  by (simp_all add: entries_of_def entry_of_def history_decisions history_chain Let_def decision_by_id_def decided_state_def target_kinds_def)

theorem state_is_the_last_local_word_witness:
  "\<exists>d. d \<in> set (local_decisions (o_embodiment_id demo_origin) [7] history) \<and> decided_state d = Adopted
     \<and> (\<forall>x \<in> set (local_decisions (o_embodiment_id demo_origin) [7] history). e_supersedes x \<noteq> Some (e_id d))"
  using state_is_the_last_local_word [of history "entry_of (o_embodiment_id demo_origin) history told" "o_embodiment_id demo_origin"]
  unfolding history_entry by auto

end
