(* ===== verification/Sync.thy ===== *)
theory Sync
  imports Ledger
begin

text \<open>
  The sync documents and transactions, \<^verbatim>\<open>src/daimon_matrix/sync.py\<close>. Incoming documents are
  arbitrary values; what a validator has accepted is a record (\<open>sync_request\<close>, \<open>delta\<close>), and
  \<open>request_dict\<close>, \<open>delta_dict\<close> are the mappings the engine sends. A validated document has the
  fields of its record and the fixed fields of the authority, so its digest is that of the record's
  mapping, whatever the order of its keys.
\<close>

section \<open>Scalar checks\<close>

definition max_sync_document_bytes :: nat where "max_sync_document_bytes = 2 * 1024 * 1024"

definition request_domain :: string where "request_domain = ''daimon/weave/sync-request/v1''"

definition delta_domain :: string where "delta_domain = ''daimon/weave/delta/v1''"

abbreviation sync_error :: "string \<Rightarrow> exc" where
  "sync_error e \<equiv> Exc SyncProtocolError (str e)"

definition canonical_se :: "platform \<Rightarrow> string \<Rightarrow> val \<Rightarrow> bytes res" where
  "canonical_se P e v = wrapR (is_class CanonicalError) (sync_error e) (canonical_bytes P v)"

definition closed_se :: "string list \<Rightarrow> string \<Rightarrow> val \<Rightarrow> dict res" where
  "closed_se ks e v = closed_dict (sync_error e) ks v"

definition bounded_text :: "platform \<Rightarrow> nat \<Rightarrow> string \<Rightarrow> val \<Rightarrow> pystr res" where
  "bounded_text P maximum e v = (case v of
     VStr s \<Rightarrow>
       bindR (encode_utf8 s) (\<lambda>raw.
         if \<not> (1 \<le> length raw \<and> length raw \<le> maximum) then Inl (sync_error e)
         else bindR (canonical_se P e v) (\<lambda>_. Inr s))
   | _ \<Rightarrow> Inl (sync_error e))"

definition uuid_se :: "string \<Rightarrow> val \<Rightarrow> pystr res" where
  "uuid_se e v = uuid_check (sync_error e) v"

definition hash_se :: "string \<Rightarrow> val \<Rightarrow> pystr res" where
  "hash_se e v = hash_check (sync_error e) v"

definition uint_se :: "string \<Rightarrow> int \<Rightarrow> val \<Rightarrow> int res" where
  "uint_se e minimum v = uint_check (sync_error e) minimum v"

definition digest_se :: "platform \<Rightarrow> string \<Rightarrow> dict \<Rightarrow> pystr res" where
  "digest_se P domain d =
     bindR (canonical_se P ''invalid_sync_value'' (VDict d)) (\<lambda>raw.
       Inr (sha256_hex (str domain @ [0] @ raw)))"

definition sync_origin :: "platform \<Rightarrow> authority \<Rightarrow> val \<Rightarrow> origin res" where
  "sync_origin P A v =
     (let e = ''invalid_sync_origin'' in
      bindR (closed_se [''body_ref'', ''embodiment_id'', ''incarnation_id'', ''principal_id''] e v) (\<lambda>d.
      bindR (bounded_text P 256 e (item d ''body_ref'')) (\<lambda>body_ref.
      bindR (bounded_text P 256 e (item d ''embodiment_id'')) (\<lambda>embodiment_id.
      bindR (bounded_text P 256 e (item d ''incarnation_id'')) (\<lambda>incarnation_id.
      bindR (bounded_text P 128 e (item d ''principal_id'')) (\<lambda>principal_id.
        let og = \<lparr>o_embodiment_id = embodiment_id, o_incarnation_id = incarnation_id,
                  o_principal_id = principal_id, o_body_ref = body_ref\<rparr> in
        bindR (wrapR (is_class WeaveProtocolError) (sync_error ''unauthorized_sync_origin'')
                 (validate_origin P A og True)) (\<lambda>_. Inr og)))))))"

text \<open>The loop of \<^verbatim>\<open>validate_heads\<close>.\<close>

fun sync_head_rows :: "platform \<Rightarrow> val list \<Rightarrow> head list \<Rightarrow> head list res" where
  "sync_head_rows P [] seen = Inr seen"
| "sync_head_rows P (v # vs) seen =
     (let e = ''invalid_sync_head'' in
      bindR (closed_se [''incarnation_id'', ''max_sequence'', ''tip_event_id'', ''tip_hash''] e v) (\<lambda>d.
      bindR (bounded_text P 256 e (item d ''incarnation_id'')) (\<lambda>i.
      bindR (uint_se e 1 (item d ''max_sequence'')) (\<lambda>n.
      bindR (uuid_se e (item d ''tip_event_id'')) (\<lambda>t.
      bindR (hash_se e (item d ''tip_hash'')) (\<lambda>h.
        if i \<in> h_incarnation_id ` set seen then raise SyncProtocolError ''duplicate_sync_head''
        else sync_head_rows P vs
               (seen @ [\<lparr>h_incarnation_id = i, h_max_sequence = n, h_tip_event_id = t,
                        h_tip_hash = h\<rparr>])))))))"

definition validate_heads :: "platform \<Rightarrow> val \<Rightarrow> head list res" where
  "validate_heads P v = (case v of
     VList vs \<Rightarrow>
       if length vs > 256 then raise SyncProtocolError ''invalid_sync_heads''
       else bindR (sync_head_rows P vs []) (\<lambda>hs.
         if \<not> sorted (map h_incarnation_id hs) then raise SyncProtocolError ''sync_heads_not_sorted''
         else Inr hs)
   | _ \<Rightarrow> raise SyncProtocolError ''invalid_sync_heads'')"

definition peer_id :: "platform \<Rightarrow> origin \<Rightarrow> pystr res" where
  "peer_id P og =
     bindR (canonical_se P ''invalid_sync_value'' (origin_val og)) (\<lambda>raw.
       Inr (str ''dm:peer:v1:'' @ b64url (sha256 raw)))"

section \<open>Heads documents\<close>

definition authority_mismatch :: "ledger \<Rightarrow> dict \<Rightarrow> bool" where
  "authority_mismatch L d =
     (let mf = authority_manifest (lg_authority L) in
      item d ''being_ref'' \<noteq> VStr (mf_being_ref mf) \<or> item d ''manifest_hash'' \<noteq> VStr (mf_digest mf))"

definition heads_val :: "head list \<Rightarrow> val" where
  "heads_val hs = VList (map head_val hs)"

definition heads_dict :: "ledger \<Rightarrow> origin \<Rightarrow> head list \<Rightarrow> dict" where
  "heads_dict L sender hs =
     (let mf = authority_manifest (lg_authority L) in
      [(VStr (str ''schema''), VStr (str ''dm.we.heads/v1'')),
       (VStr (str ''being_ref''), VStr (mf_being_ref mf)),
       (VStr (str ''manifest_hash''), VStr (mf_digest mf)),
       (VStr (str ''sender''), origin_val sender), (VStr (str ''heads''), heads_val hs)])"

definition validate_heads_document ::
  "platform \<Rightarrow> ledger \<Rightarrow> val \<Rightarrow> origin option \<Rightarrow> (origin \<times> head list) res" where
  "validate_heads_document P L v expected_sender =
     bindR (closed_se [''being_ref'', ''heads'', ''manifest_hash'', ''schema'', ''sender'']
              ''invalid_sync_heads_document'' v) (\<lambda>d.
       if item d ''schema'' \<noteq> VStr (str ''dm.we.heads/v1'')
         then raise SyncProtocolError ''unsupported_sync_heads''
       else if authority_mismatch L d then raise SyncProtocolError ''sync_authority_mismatch''
       else bindR (sync_origin P (lg_authority L) (item d ''sender'')) (\<lambda>sender.
         if expected_sender \<noteq> None \<and> expected_sender \<noteq> Some sender
           then raise SyncProtocolError ''sync_wrong_sender''
         else bindR (validate_heads P (item d ''heads'')) (\<lambda>hs.
           bindR (canonical_se P ''invalid_sync_value'' (VDict (heads_dict L sender hs))) (\<lambda>raw.
             if length raw > max_sync_document_bytes
               then raise SyncProtocolError ''sync_heads_too_large''
             else Inr (sender, hs)))))"

section \<open>The engine\<close>

record engine =
  sy_ledger :: ledger
  sy_origin :: origin

definition engine_init :: "platform \<Rightarrow> ledger \<Rightarrow> engine op" where
  "engine_init P L =
     (if \<not> mf_root_bound (authority_manifest (lg_authority L))
        then returnO (raise SyncProtocolError ''sync_requires_root_authority'')
      else bindO (returnO (sync_origin P (lg_authority L) (origin_val (lg_origin L)))) (\<lambda>og.
        bindO (initialize P L) (\<lambda>_. returnO (Inr \<lparr>sy_ledger = L, sy_origin = og\<rparr>))))"

text \<open>\<^verbatim>\<open>SyncEngine.heads\<close>\<close>

definition engine_heads :: "platform \<Rightarrow> engine \<Rightarrow> (origin \<times> head list) op" where
  "engine_heads P y =
     (let L = sy_ledger y in
      bindO (initialize P L) (\<lambda>_ s.
        (validate_heads_document P L (VDict (heads_dict L (sy_origin y) (heads s))) (Some (sy_origin y)), s)))"

text \<open>\<^verbatim>\<open>except LedgerError as e: raise SyncProtocolError(str(e))\<close>, on an operation.\<close>

definition rewrapO :: "(exc \<Rightarrow> bool) \<Rightarrow> 'a op \<Rightarrow> 'a op" where
  "rewrapO caught m s = (case m s of (r, t) \<Rightarrow> (rewrapR caught SyncProtocolError r, t))"

definition is_ledger_or_weave :: "exc \<Rightarrow> bool" where
  "is_ledger_or_weave e = (is_ledger_error e \<or> is_class WeaveProtocolError e)"

section \<open>Requests\<close>

record sync_request =
  rq_request_id :: pystr
  rq_requester :: origin
  rq_heads :: "head list"
  rq_limit :: nat

definition request_dict :: "ledger \<Rightarrow> sync_request \<Rightarrow> dict" where
  "request_dict L q =
     (let mf = authority_manifest (lg_authority L) in
      [(VStr (str ''schema''), VStr (str ''dm.we.sync-request/v1'')),
       (VStr (str ''request_id''), VStr (rq_request_id q)),
       (VStr (str ''being_ref''), VStr (mf_being_ref mf)),
       (VStr (str ''manifest_hash''), VStr (mf_digest mf)),
       (VStr (str ''requester''), origin_val (rq_requester q)),
       (VStr (str ''heads''), heads_val (rq_heads q)),
       (VStr (str ''limit''), VInt (int (rq_limit q)))])"

definition check_request :: "platform \<Rightarrow> ledger \<Rightarrow> val \<Rightarrow> sync_request res" where
  "check_request P L v =
     bindR (closed_se [''being_ref'', ''heads'', ''limit'', ''manifest_hash'', ''request_id'', ''requester'',
              ''schema''] ''invalid_sync_request'' v) (\<lambda>d.
       if item d ''schema'' \<noteq> VStr (str ''dm.we.sync-request/v1'')
         then raise SyncProtocolError ''unsupported_sync_request''
       else bindR (uuid_se ''invalid_sync_request_id'' (item d ''request_id'')) (\<lambda>request_id.
       if authority_mismatch L d then raise SyncProtocolError ''sync_authority_mismatch''
       else bindR (sync_origin P (lg_authority L) (item d ''requester'')) (\<lambda>requester.
       bindR (validate_heads P (item d ''heads'')) (\<lambda>hs.
       bindR (uint_se ''invalid_sync_limit'' 1 (item d ''limit'')) (\<lambda>limit.
       if limit > int max_page_events then raise SyncProtocolError ''invalid_sync_limit''
       else
         let q = \<lparr>rq_request_id = request_id, rq_requester = requester, rq_heads = hs,
                  rq_limit = nat limit\<rparr> in
         bindR (canonical_se P ''invalid_sync_value'' (VDict (request_dict L q))) (\<lambda>raw.
           if length raw > max_sync_document_bytes
             then raise SyncProtocolError ''sync_request_too_large''
           else Inr q))))))"

text \<open>\<^verbatim>\<open>SyncEngine.request\<close>: a new request is stored before it is sent, a known id is answered again.\<close>

definition make_request :: "platform \<Rightarrow> engine \<Rightarrow> pystr \<Rightarrow> nat \<Rightarrow> int \<Rightarrow> dict op" where
  "make_request P y request_id limit now =
     (let L = sy_ledger y in
      bindO (returnO (uuid_se ''invalid_sync_request_id'' (VStr request_id))) (\<lambda>_.
        if \<not> (1 \<le> limit \<and> limit \<le> max_page_events)
          then returnO (raise SyncProtocolError ''invalid_sync_limit'')
        else bindO (initialize P L) (\<lambda>_ s.
          case issued_request request_id s of
            Some (cached_hash, cached) \<Rightarrow>
              returnO
                (bindR (digest_se P request_domain cached) (\<lambda>h.
                   if h \<noteq> cached_hash then raise SyncProtocolError ''issued_sync_request_corrupt''
                   else if dget cached ''limit'' \<noteq> Some (VInt (int limit))
                     then raise SyncProtocolError ''sync_request_id_conflict''
                   else bindR (check_request P L (VDict cached)) (\<lambda>q. Inr (request_dict L q)))) s
          | None \<Rightarrow>
              (let q = \<lparr>rq_request_id = request_id, rq_requester = sy_origin y, rq_heads = heads s,
                       rq_limit = limit\<rparr> in
               bindO (returnO (digest_se P request_domain (request_dict L q))) (\<lambda>h.
                 rewrapO is_ledger_error
                   (store_issued_request P L request_id h (request_dict L q) now)) s))))"

section \<open>Deltas\<close>

record delta_document =
  dl_request_id :: pystr
  dl_request_hash :: pystr
  dl_sender :: origin
  dl_requester :: origin
  dl_offered_heads :: "head list"
  dl_events :: "val list"
  dl_more :: bool
  dl_page_hash :: pystr

definition delta_core :: "ledger \<Rightarrow> delta_document \<Rightarrow> dict" where
  "delta_core L p =
     (let mf = authority_manifest (lg_authority L) in
      [(VStr (str ''schema''), VStr (str ''dm.we.delta/v1'')),
       (VStr (str ''request_id''), VStr (dl_request_id p)),
       (VStr (str ''request_hash''), VStr (dl_request_hash p)),
       (VStr (str ''being_ref''), VStr (mf_being_ref mf)),
       (VStr (str ''manifest_hash''), VStr (mf_digest mf)),
       (VStr (str ''sender''), origin_val (dl_sender p)),
       (VStr (str ''requester''), origin_val (dl_requester p)),
       (VStr (str ''offered_heads''), heads_val (dl_offered_heads p)),
       (VStr (str ''events''), VList (dl_events p)),
       (VStr (str ''more''), VBool (dl_more p))])"

definition delta_dict :: "ledger \<Rightarrow> delta_document \<Rightarrow> dict" where
  "delta_dict L p = delta_core L p @ [(VStr (str ''page_hash''), VStr (dl_page_hash p))]"

definition find_head :: "head list \<Rightarrow> pystr \<Rightarrow> head option" where
  "find_head hs i = find (\<lambda>h. h_incarnation_id h = i) hs"

text \<open>\<^verbatim>\<open>event.get("origin").get("incarnation_id")\<close> and \<^verbatim>\<open>event.get("sequence")\<close> of an unchecked event.\<close>

definition event_position :: "val \<Rightarrow> (dict \<times> pystr \<times> int) res" where
  "event_position v =
     (let bad = Exc SyncProtocolError (str ''invalid_sync_events'') in
      case v of
        VDict e \<Rightarrow>
          (case dget e ''origin'' of
             Some (VDict og) \<Rightarrow>
               (case (dget og ''incarnation_id'', Option.bind (dget e ''sequence'') num_of) of
                  (Some (VStr i), Some n) \<Rightarrow> Inr (e, i, n)
                | _ \<Rightarrow> Inl bad)
           | _ \<Rightarrow> Inl bad)
      | _ \<Rightarrow> Inl bad)"

fun check_delta_events :: "head list \<Rightarrow> head list \<Rightarrow> val list \<Rightarrow> unit res" where
  "check_delta_events offered requested [] = Inr ()"
| "check_delta_events offered requested (v # vs) =
     bindR (event_position v) (\<lambda>(e, i, n).
       case find_head offered i of
         None \<Rightarrow> raise SyncProtocolError ''event_outside_offered_heads''
       | Some h \<Rightarrow>
           if n > h_max_sequence h then raise SyncProtocolError ''event_outside_offered_heads''
           else if (case find_head requested i of None \<Rightarrow> False | Some r \<Rightarrow> n \<le> h_max_sequence r)
             then raise SyncProtocolError ''sync_delta_cursor_regression''
           else if n = h_max_sequence h
                   \<and> (dget e ''event_id'' \<noteq> Some (VStr (h_tip_event_id h))
                      \<or> dget e ''content_hash'' \<noteq> Some (VStr (h_tip_hash h)))
             then raise SyncProtocolError ''event_conflicts_with_offered_head''
           else check_delta_events offered requested vs)"

definition requested_sequence :: "head list \<Rightarrow> pystr \<Rightarrow> int" where
  "requested_sequence requested i =
     (case find_head requested i of None \<Rightarrow> 0 | Some h \<Rightarrow> h_max_sequence h)"

text \<open>With nothing left to send, every offered head beyond the requested one must be in the page.\<close>

definition hidden_remainder :: "head list \<Rightarrow> head list \<Rightarrow> val list \<Rightarrow> bool" where
  "hidden_remainder offered requested events =
     list_ex (\<lambda>h. h_max_sequence h > requested_sequence requested (h_incarnation_id h)
        \<and> \<not> list_ex (\<lambda>v. case event_position v of
               Inr (e, i, n) \<Rightarrow> i = h_incarnation_id h \<and> n = h_max_sequence h | Inl _ \<Rightarrow> False) events)
      offered"

definition validate_delta_content ::
  "platform \<Rightarrow> ledger \<Rightarrow> val \<Rightarrow> val \<Rightarrow> head list \<Rightarrow> nat \<Rightarrow> val \<Rightarrow> head list op" where
  "validate_delta_content P L events offered_value requested limit has_more =
     bindO (returnO
       (bindR (validate_heads P offered_value) (\<lambda>offered.
        case events of
          VList vs \<Rightarrow>
            if length vs > limit then raise SyncProtocolError ''sync_delta_exceeds_requested_limit''
            else (case has_more of
                VBool m \<Rightarrow>
                  if m \<and> vs = [] then raise SyncProtocolError ''invalid_sync_more''
                  else bindR (check_delta_events offered requested vs) (\<lambda>_.
                    if \<not> m \<and> hidden_remainder offered requested vs
                      then raise SyncProtocolError ''sync_delta_hidden_remainder''
                    else Inr (offered, vs))
              | _ \<Rightarrow> raise SyncProtocolError ''invalid_sync_more'')
        | _ \<Rightarrow> raise SyncProtocolError ''invalid_sync_events''))) (\<lambda>(offered, vs).
     bindO (rewrapO is_ledger_or_weave (preview_of P L vs)) (\<lambda>_. returnO (Inr offered)))"

text \<open>\<^verbatim>\<open>SyncEngine.serve\<close>\<close>

definition serve :: "platform \<Rightarrow> engine \<Rightarrow> val \<Rightarrow> int \<Rightarrow> delta_document op" where
  "serve P y v now =
     (let L = sy_ledger y in
      bindO (returnO (check_request P L v)) (\<lambda>q.
      bindO (returnO (digest_se P request_domain (request_dict L q))) (\<lambda>request_hash.
      bindO (rewrapO is_ledger_error
               (delta_idempotent P L (rq_request_id q) request_hash (map head_val (rq_heads q))
                  (rq_limit q) now)) (\<lambda>frozen.
      bindO (validate_delta_content P L (VList (map event_val (pg_events frozen)))
               (heads_val (pg_offered_heads frozen)) (rq_heads q) (rq_limit q)
               (VBool (pg_more frozen))) (\<lambda>offered.
        let p = \<lparr>dl_request_id = rq_request_id q, dl_request_hash = request_hash,
                 dl_sender = sy_origin y, dl_requester = rq_requester q, dl_offered_heads = offered,
                 dl_events = map event_val (pg_events frozen), dl_more = pg_more frozen,
                 dl_page_hash = []\<rparr> in
        bindO (returnO (digest_se P delta_domain (delta_core L p))) (\<lambda>h.
          let p' = p\<lparr>dl_page_hash := h\<rparr> in
          bindO (returnO (canonical_se P ''invalid_sync_value'' (VDict (delta_dict L p')))) (\<lambda>raw.
            if length raw > max_sync_document_bytes
              then returnO (raise SyncProtocolError ''sync_delta_too_large'')
            else returnO (Inr p'))))))))"

definition delta_fields :: "string list" where
  "delta_fields =
     [''being_ref'', ''events'', ''manifest_hash'', ''more'', ''offered_heads'', ''page_hash'',
      ''request_hash'', ''request_id'', ''requester'', ''schema'', ''sender'']"

text \<open>\<^verbatim>\<open>SyncEngine.validate_delta\<close>\<close>

definition validate_delta :: "platform \<Rightarrow> engine \<Rightarrow> val \<Rightarrow> delta_document op" where
  "validate_delta P y v =
     (let L = sy_ledger y in
      bindO (returnO
        (bindR (closed_se delta_fields ''invalid_sync_delta'' v) (\<lambda>d.
          if item d ''schema'' \<noteq> VStr (str ''dm.we.delta/v1'')
            then raise SyncProtocolError ''unsupported_sync_delta''
          else bindR (canonical_se P ''invalid_sync_value'' v) (\<lambda>raw.
          if length raw > max_sync_document_bytes then raise SyncProtocolError ''sync_delta_too_large''
          else bindR (uuid_se ''invalid_sync_request_id'' (item d ''request_id'')) (\<lambda>request_id.
          bindR (hash_se ''invalid_sync_request_hash'' (item d ''request_hash'')) (\<lambda>request_hash.
          if authority_mismatch L d then raise SyncProtocolError ''sync_authority_mismatch''
          else bindR (sync_origin P (lg_authority L) (item d ''sender'')) (\<lambda>sender.
          bindR (sync_origin P (lg_authority L) (item d ''requester'')) (\<lambda>requester.
          if requester \<noteq> sy_origin y then raise SyncProtocolError ''sync_wrong_requester''
          else Inr (d, request_id, request_hash, sender, requester)))))))))
        (\<lambda>(d, request_id, request_hash, sender, requester).
      bindO (initialize P L) (\<lambda>_ s.
        (case issued_request request_id s of
           None \<Rightarrow> returnO (raise SyncProtocolError ''unsolicited_sync_delta'')
         | Some (issued_hash, issued) \<Rightarrow>
             bindO (returnO
               (bindR (check_request P L (VDict issued)) (\<lambda>q.
                bindR (digest_se P request_domain (request_dict L q)) (\<lambda>h.
                  if issued_hash \<noteq> h then raise SyncProtocolError ''issued_sync_request_corrupt''
                  else if request_hash \<noteq> issued_hash
                    then raise SyncProtocolError ''sync_request_hash_mismatch''
                  else (case item d ''events'' of
                      VList vs \<Rightarrow>
                        if length vs > rq_limit q
                          then raise SyncProtocolError ''sync_delta_exceeds_requested_limit''
                        else (case item d ''more'' of
                            VBool m \<Rightarrow>
                              if m \<and> vs = [] then raise SyncProtocolError ''invalid_sync_more''
                              else bindR (digest_se P delta_domain (without [''page_hash''] d)) (\<lambda>ph.
                                if item d ''page_hash'' \<noteq> VStr ph
                                  then raise SyncProtocolError ''sync_page_hash_mismatch''
                                else Inr (q, vs, m, ph))
                          | _ \<Rightarrow> raise SyncProtocolError ''invalid_sync_more'')
                    | _ \<Rightarrow> raise SyncProtocolError ''invalid_sync_events'')))))
             (\<lambda>(q, vs, m, ph).
               bindO (validate_delta_content P L (VList vs) (item d ''offered_heads'') (rq_heads q)
                        (rq_limit q) (VBool m)) (\<lambda>offered.
                 returnO (Inr \<lparr>dl_request_id = request_id, dl_request_hash = request_hash,
                   dl_sender = sender, dl_requester = requester, dl_offered_heads = offered,
                   dl_events = vs, dl_more = m, dl_page_hash = ph\<rparr>)))) s)))"

section \<open>Receipts\<close>

definition receipt_fields :: "string list" where
  "receipt_fields =
     [''achieved_heads'', ''being_ref'', ''completed_at_ms'', ''incomplete'', ''inserted'', ''manifest_hash'',
      ''more'', ''page_hash'', ''receipt_hash'', ''received'', ''receiver'', ''replayed'', ''request_hash'',
      ''request_id'', ''schema'', ''sender'']"

definition validate_receipt ::
  "platform \<Rightarrow> ledger \<Rightarrow> val \<Rightarrow> origin option \<Rightarrow> origin option \<Rightarrow> dict res" where
  "validate_receipt P L v expected_sender expected_receiver =
     (let e = ''invalid_sync_receipt'' in
      bindR (closed_se receipt_fields e v) (\<lambda>r.
        if item r ''schema'' \<noteq> VStr (str ''dm.we.sync-receipt/v1'')
          then raise SyncProtocolError ''unsupported_sync_receipt''
        else if authority_mismatch L r then raise SyncProtocolError ''sync_authority_mismatch''
        else bindR (uuid_se e (item r ''request_id'')) (\<lambda>_.
        bindR (hash_se e (item r ''request_hash'')) (\<lambda>_.
        bindR (hash_se e (item r ''page_hash'')) (\<lambda>_.
        bindR (hash_se e (item r ''receipt_hash'')) (\<lambda>receipt_hash.
        bindR (sync_origin P (lg_authority L) (item r ''sender'')) (\<lambda>sender.
        bindR (sync_origin P (lg_authority L) (item r ''receiver'')) (\<lambda>receiver.
        if expected_sender \<noteq> None \<and> expected_sender \<noteq> Some sender
          then raise SyncProtocolError ''sync_wrong_sender''
        else if expected_receiver \<noteq> None \<and> expected_receiver \<noteq> Some receiver
          then raise SyncProtocolError ''sync_wrong_receiver''
        else if \<not> is_bool (item r ''more'') then raise SyncProtocolError e
        else bindR (uint_se e 0 (item r ''received'')) (\<lambda>received.
        bindR (uint_se e 0 (item r ''inserted'')) (\<lambda>inserted.
        bindR (uint_se e 0 (item r ''replayed'')) (\<lambda>replayed.
        bindR (uint_se e 0 (item r ''incomplete'')) (\<lambda>_.
        bindR (uint_se e 0 (item r ''completed_at_ms'')) (\<lambda>_.
        if received > int max_page_events \<or> inserted + replayed \<noteq> received
          then raise SyncProtocolError ''invalid_sync_receipt_counts''
        else bindR (validate_heads P (item r ''achieved_heads'')) (\<lambda>_.
        bindR (digest_se P receipt_domain (without [''receipt_hash''] r)) (\<lambda>h.
          if receipt_hash \<noteq> h then raise SyncProtocolError ''sync_receipt_hash_mismatch''
          else Inr r)))))))))))))))"

text \<open>\<^verbatim>\<open>SyncEngine.pull\<close>\<close>

definition receipt_base_of :: "ledger \<Rightarrow> engine \<Rightarrow> delta_document \<Rightarrow> dict" where
  "receipt_base_of L y p =
     (let mf = authority_manifest (lg_authority L) in
      [(VStr (str ''schema''), VStr (str ''dm.we.sync-receipt/v1'')),
       (VStr (str ''request_id''), VStr (dl_request_id p)),
       (VStr (str ''request_hash''), VStr (dl_request_hash p)),
       (VStr (str ''page_hash''), VStr (dl_page_hash p)),
       (VStr (str ''being_ref''), VStr (mf_being_ref mf)),
       (VStr (str ''manifest_hash''), VStr (mf_digest mf)),
       (VStr (str ''sender''), origin_val (dl_sender p)),
       (VStr (str ''receiver''), origin_val (sy_origin y)),
       (VStr (str ''more''), VBool (dl_more p))])"

definition pull :: "platform \<Rightarrow> engine \<Rightarrow> val \<Rightarrow> (nat \<Rightarrow> int) \<Rightarrow> dict op" where
  "pull P y v clock =
     (let L = sy_ledger y in
      bindO (validate_delta P y v) (\<lambda>p.
      bindO (returnO (peer_id P (dl_sender p))) (\<lambda>source.
      bindO (rewrapO is_ledger_or_weave
               (ingest_idempotent P L (dl_events p) source (dl_request_id p) (dl_page_hash p)
                  (receipt_base_of L y p) clock)) (\<lambda>r.
        returnO (validate_receipt P L (VDict (receipt_dict r)) (Some (dl_sender p))
                   (Some (sy_origin y)))))))"

end
