(* ===== verification/Cluster_Properties.thy ===== *)
theory Cluster_Properties
  imports Demo_Events
begin

text \<open>
  The property of cluster evidence: what it means that an effect receipt is reconciled as verified.
\<close>

section \<open>What the checks establish\<close>

lemma verified_fence:
  assumes "verify_resource_fence_evidence P v at_ms verify x = Inr ev"
  shows "v = VDict ev" "fence_matches x ev" "validate_resource_fence_evidence P v = Inr ev"
    "\<exists>answer n m. verify ev at_ms = Inr (VDict answer) \<and> item answer ''current'' = VBool True
       \<and> item answer ''content_hash'' = item ev ''content_hash'' \<and> item answer ''resource_ref'' = item ev ''resource_ref''
       \<and> item answer ''holder_embodiment_id'' = item ev ''holder_embodiment_id''
       \<and> item ev ''observed_at_ms'' = VInt n \<and> item ev ''expires_at_ms'' = VInt m \<and> n \<le> at_ms \<and> at_ms \<le> m"
proof -
  from assms obtain e where e: "validate_resource_fence_evidence P v = Inr e" "fence_matches x e" "e = ev"
    and window: "\<not> (the (num_of (item e ''observed_at_ms'')) > at_ms \<or> the (num_of (item e ''expires_at_ms'')) < at_ms)"
    and answer: "\<exists>answer. verify e at_ms = Inr (VDict answer) \<and> item answer ''current'' = VBool True
       \<and> item answer ''content_hash'' = item e ''content_hash'' \<and> item answer ''resource_ref'' = item e ''resource_ref''
       \<and> item answer ''holder_embodiment_id'' = item e ''holder_embodiment_id''"
    by (auto simp: verify_resource_fence_evidence_def res uint_ce_def closed_ce_def split: if_splits)
  from e(1) obtain n m where "v = VDict e" "item e ''observed_at_ms'' = VInt n" "item e ''expires_at_ms'' = VInt m"
    unfolding validate_resource_fence_evidence_def Let_def
    by (elim guardE) (auto simp: res uint_ce_def closed_ce_def split: if_splits)
  with e window answer show "v = VDict ev" "fence_matches x ev" "validate_resource_fence_evidence P v = Inr ev"
    "\<exists>answer n m. verify ev at_ms = Inr (VDict answer) \<and> item answer ''current'' = VBool True
       \<and> item answer ''content_hash'' = item ev ''content_hash'' \<and> item answer ''resource_ref'' = item ev ''resource_ref''
       \<and> item answer ''holder_embodiment_id'' = item ev ''holder_embodiment_id''
       \<and> item ev ''observed_at_ms'' = VInt n \<and> item ev ''expires_at_ms'' = VInt m \<and> n \<le> at_ms \<and> at_ms \<le> m"
    by auto
qed

lemma effect_receipt_fence:
  assumes "validate_effect_receipt P v = Inr row"
  shows "item row ''resource_fence'' = VNone \<or> (\<exists>p. item row ''resource_fence'' = VDict p)"
  using assms unfolding validate_effect_receipt_def Let_def
  by (elim guardE) (auto simp: validate_resource_fence_position_def closed_ce_def Let_def res split: if_splits)

text \<open>The fence that a receipt names, its evidence and the answer of the live verifier, where the reconciliation goes on.\<close>

definition fence_stands :: "dict \<Rightarrow> dict \<Rightarrow> dict \<Rightarrow> int \<Rightarrow> bool" where
  "fence_stands position ev answer at_ms \<longleftrightarrow>
     item answer ''current'' = VBool True \<and> item answer ''content_hash'' = item ev ''content_hash''
     \<and> (\<exists>n m. item ev ''observed_at_ms'' = VInt n \<and> item ev ''expires_at_ms'' = VInt m \<and> n \<le> at_ms \<and> at_ms \<le> m)
     \<and> (\<forall>k \<in> {''resource_ref'', ''holder_embodiment_id'', ''epoch''}. item position k = item ev k)
     \<and> item position ''evidence_hash'' = item ev ''content_hash''"

lemma fence_passes:
  assumes "reconcile_fence P receipt at_ms evidence verifier = Inr None" and "item receipt ''resource_fence'' = VDict position"
  shows "\<exists>verify ev answer. evidence = Some (VDict ev) \<and> verifier = Some verify \<and> validate_resource_fence_evidence P (VDict ev) = Inr ev
    \<and> verify ev at_ms = Inr (VDict answer) \<and> fence_stands position ev answer at_ms"
proof -
  from assms obtain x verify ev p where v: "evidence = Some x" "verifier = Some verify"
    "verify_resource_fence_evidence P x at_ms verify (expected_holder position) = Inr ev"
    "resource_fence_position P (VDict ev) = Inr p" "same_position p position"
    by (auto simp: reconcile_fence_def res split: option.splits sum.splits if_splits)
  note f = verified_fence [OF v(3)]
  from v(4) f have p: "p = position_of ev" by (auto simp: resource_fence_position_def res)
  have "item position ''resource_ref'' = item ev ''resource_ref'' \<and> item position ''holder_embodiment_id'' = item ev ''holder_embodiment_id''
      \<and> item position ''epoch'' = item ev ''epoch'' \<and> item position ''evidence_hash'' = item ev ''content_hash''"
    using v(5) unfolding p by (simp add: same_position_def fence_position_fields_def position_of_def dict_simps)
  with f v(1,2) show ?thesis unfolding fence_stands_def by blast
qed

lemma reconciled_verified:
  assumes "reconcile_effect_receipt P v intent observed at_ms evidence verifier = Inr r" and "rc_status r = Verified"
  obtains receipt raw x seen a where "validate_effect_receipt P v = Inr receipt" "canonical_bytes P intent = Inr raw"
    "item receipt ''intent_hash'' = VStr (sha256_hex raw)" "reconcile_fence P receipt at_ms evidence verifier = Inr None"
    "observed = Some x" "validate_observed_postcondition P x = Inr seen" "canonical_bytes P (VDict seen) = Inr a"
    "canonical_bytes P (item receipt ''observed_postcondition'') = Inr a" "rc_effect_id r = item receipt ''effect_id''"
proof -
  have ended: "rc_status q \<noteq> Verified" if "reconcile_fence P receipt at_ms evidence verifier = Inr (Some q)" for receipt q
    using that by (auto simp: reconcile_fence_def reconciliation_of_def res split: val.splits option.splits sum.splits if_splits)
  have other: "rc_status (reconciliation_of d st m) = st" "rc_effect_id (reconciliation_of d st m) = item d ''effect_id''" for d st m
    by (simp_all add: reconciliation_of_def)
  from assms obtain receipt raw ended' x seen a where "validate_effect_receipt P v = Inr receipt" "canonical_bytes P intent = Inr raw"
    "VStr (sha256_hex raw) = item receipt ''intent_hash''" "reconcile_fence P receipt at_ms evidence verifier = Inr ended'"
    "\<forall>q. ended' = Some q \<longrightarrow> q = r" "observed = Some x" "validate_observed_postcondition P x = Inr seen"
    "canonical_bytes P (VDict seen) = Inr a" "canonical_bytes P (item receipt ''observed_postcondition'') = Inr a"
    "rc_effect_id r = item receipt ''effect_id''"
    unfolding reconcile_effect_receipt_def canonical_ce_def
    by (elim guardE) (auto simp: other res split: if_splits option.splits sum.splits dest: ended)
  with ended assms(2) show thesis by (cases ended') (auto intro: that)
qed

text \<open>
  C32: a verified effect holds. When a receipt is reconciled as verified, it is a valid receipt, its
  intent hash is the hash of the intent that was presented, and the postcondition observed now has the normal form of
  the one in the receipt. If the receipt names a resource fence, then valid evidence was presented that
  is current at the instant, for the same resource, holder, epoch and hash, and the live verifier answered for
  this evidence that the fence is current; if it names none, no evidence was presented.
\<close>

theorem verified_effect_holds:
  assumes "reconcile_effect_receipt P v intent observed at_ms evidence verifier = Inr r" and "rc_status r = Verified"
  shows "\<exists>receipt raw seen. validate_effect_receipt P v = Inr receipt \<and> rc_effect_id r = item receipt ''effect_id''
    \<and> canonical_bytes P intent = Inr raw \<and> item receipt ''intent_hash'' = VStr (sha256_hex raw)
    \<and> observed = Some (VDict seen) \<and> normalize P (VDict seen) = normalize P (item receipt ''observed_postcondition'')
    \<and> (case item receipt ''resource_fence'' of
         VDict position \<Rightarrow> \<exists>verify ev answer. evidence = Some (VDict ev) \<and> verifier = Some verify
           \<and> validate_resource_fence_evidence P (VDict ev) = Inr ev \<and> verify ev at_ms = Inr (VDict answer)
           \<and> fence_stands position ev answer at_ms
       | _ \<Rightarrow> evidence = None)"
proof -
  from reconciled_verified [OF assms] obtain receipt raw x seen a where receipt: "validate_effect_receipt P v = Inr receipt"
    and raw: "canonical_bytes P intent = Inr raw" "item receipt ''intent_hash'' = VStr (sha256_hex raw)"
    and fence: "reconcile_fence P receipt at_ms evidence verifier = Inr None"
    and seen: "observed = Some x" "validate_observed_postcondition P x = Inr seen" "canonical_bytes P (VDict seen) = Inr a"
      "canonical_bytes P (item receipt ''observed_postcondition'') = Inr a" and id: "rc_effect_id r = item receipt ''effect_id''" .
  have x: "x = VDict seen" using seen(2) by (auto simp: validate_observed_postcondition_def res split: val.splits if_splits)
  have normal: "normalize P (VDict seen) = normalize P (item receipt ''observed_postcondition'')"
    using canonical_bytes_injD [OF seen(3) seen(4)] by simp
  have "case item receipt ''resource_fence'' of
         VDict position \<Rightarrow> \<exists>verify ev answer. evidence = Some (VDict ev) \<and> verifier = Some verify
           \<and> validate_resource_fence_evidence P (VDict ev) = Inr ev \<and> verify ev at_ms = Inr (VDict answer)
           \<and> fence_stands position ev answer at_ms
       | _ \<Rightarrow> evidence = None"
    using effect_receipt_fence [OF receipt]
  proof
    assume none: "item receipt ''resource_fence'' = VNone"
    with fence have "evidence = None" by (auto simp: reconcile_fence_def split: if_splits)
    with none show ?thesis by simp
  next
    assume "\<exists>p. item receipt ''resource_fence'' = VDict p"
    then obtain p where p: "item receipt ''resource_fence'' = VDict p" by blast
    from fence_passes [OF fence p] p show ?thesis by simp
  qed
  with receipt raw seen(1) x normal id show ?thesis by blast
qed

section \<open>A fenced effect\<close>

lemma demo_text_ce: "isascii s \<Longrightarrow> s \<noteq> [] \<Longrightarrow> length s \<le> n \<Longrightarrow> list_all (\<lambda>c. 0x20 \<le> c) s \<Longrightarrow> text_ce demo n e (VStr s) = Inr s"
proof -
  assume s: "isascii s" "s \<noteq> []" "length s \<le> n" "list_all (\<lambda>c. 0x20 \<le> c) s"
  have "\<not> list_ex is_surrogate s" using s(1) by (auto simp: isascii_def list_all_iff list_ex_iff is_surrogate_def)
  moreover have "\<not> list_ex (\<lambda>c. c < 0x20) s" using s(4) by (auto simp: list_all_iff list_ex_iff)
  moreover have "1 \<le> length s" using s(2) by (cases s) auto
  ultimately show ?thesis using s(1,3) plain_canonical [of "VStr s" demo]
    by (auto simp: text_ce_def encode_utf8_def length_utf8_ascii canonical_ce_def)
qed

lemma demo_literal:
  "\<forall>c \<in> set t. of_char c < (128 :: nat) \<and> (32 :: nat) \<le> of_char c \<Longrightarrow> t \<noteq> [] \<Longrightarrow> length t \<le> n \<Longrightarrow> text_ce demo n e (VStr (str t)) = Inr (str t)"
  by (rule demo_text_ce) (simp_all add: isascii_str, simp add: str_def list_all_iff)

definition demo_sealed :: "string \<Rightarrow> dict \<Rightarrow> dict" where
  "demo_sealed dm core = core @ [(VStr (str ''content_hash''), VStr (sha256_hex (str dm @ [0] @ projr (canonical_bytes demo (VDict core)))))]"

lemma demo_sealed_checks:
  assumes "plain (VDict core)" and "VStr (str ''content_hash'') \<notin> dkeys core" and "cost (VDict core) \<le> 100000"
  shows "\<exists>h. item (demo_sealed dm core) ''content_hash'' = VStr h \<and> hash_ce e (VStr h) = Inr h
     \<and> content_hash demo dm (without [''content_hash''] (demo_sealed dm core)) = Inr h"
    and "\<exists>raw. canonical_ce demo (VDict (demo_sealed dm core)) e = Inr raw \<and> length raw \<le> max_document_bytes"
    and "k \<noteq> ''content_hash'' \<Longrightarrow> item (demo_sealed dm core) k = item core k"
    and "dkeys (demo_sealed dm core) = insert (VStr (str ''content_hash'')) (dkeys core)"
    and "plain (VDict (demo_sealed dm core))"
proof -
  obtain b where b: "canonical_bytes demo (VDict core) = Inr b" using plain_canonical [OF assms(1)] by blast
  let ?h = "sha256_hex (str dm @ [0] @ b)"
  have sealed: "demo_sealed dm core = core @ [(VStr (str ''content_hash''), VStr ?h)]" by (simp add: demo_sealed_def b)
  have without: "without [''content_hash''] (demo_sealed dm core) = core"
    using assms(2) by (force simp: sealed without_def dkeys_def filter_id_conv)
  have h: "item (demo_sealed dm core) ''content_hash'' = VStr ?h"
    using assms(2) dget_None_iff [of core "''content_hash''"] by (simp add: sealed item_def dget_def map_add_def split: option.split)
  have hash: "hash_ce e (VStr ?h) = Inr ?h" "content_hash demo dm core = Inr ?h"
    by (simp_all add: hash_ce_def res is_hex64_sha256_hex content_hash_def canonical_ce_def b)
  with h show "\<exists>h. item (demo_sealed dm core) ''content_hash'' = VStr h \<and> hash_ce e (VStr h) = Inr h
     \<and> content_hash demo dm (without [''content_hash''] (demo_sealed dm core)) = Inr h" unfolding without by blast
  have ascii: "isascii ?h" by (simp add: isascii_hex64 is_hex64_sha256_hex)
  then show plain: "plain (VDict (demo_sealed dm core))" using assms(1,2) by (auto simp: sealed isascii_str dkeys_def)
  have "length ?h = 64" by (rule length_digest(2)) (simp add: is_hex64_sha256_hex)
  then have "cost (VDict (demo_sealed dm core)) \<le> max_document_bytes" using assms(3) by (simp add: sealed max_document_bytes_def)
  then show "\<exists>raw. canonical_ce demo (VDict (demo_sealed dm core)) e = Inr raw \<and> length raw \<le> max_document_bytes"
    using plain_canonical [OF plain, of demo] by (auto simp: canonical_ce_def)
  show "k \<noteq> ''content_hash'' \<Longrightarrow> item (demo_sealed dm core) k = item core k"
    by (simp add: sealed item_def dget_def map_add_def split: option.split)
  show "dkeys (demo_sealed dm core) = insert (VStr (str ''content_hash'')) (dkeys core)"
    by (simp add: sealed dkeys_append dkeys_cons) (simp add: dkeys_def)
qed

definition fence_core :: dict where
  "fence_core = [(VStr (str ''schema''), VStr (str ''dm.cluster-resource-fence-evidence/v1'')), (VStr (str ''body_ref''), VStr (str ''body'')),
     (VStr (str ''holder_embodiment_id''), VStr (str ''embodiment'')), (VStr (str ''holder_incarnation_id''), VStr (str ''incarnation'')),
     (VStr (str ''resource_ref''), VStr (str ''resource'')), (VStr (str ''epoch''), VInt 1), (VStr (str ''observed_at_ms''), VInt 10),
     (VStr (str ''expires_at_ms''), VInt 30), (VStr (str ''verification_ref''), VStr (str ''verification''))]"

definition demo_fence :: dict where "demo_fence = demo_sealed fence_evidence_domain fence_core"

lemma fence_core_ok: "plain (VDict fence_core)" "VStr (str ''content_hash'') \<notin> dkeys fence_core" "cost (VDict fence_core) \<le> 100000"
  by (simp_all add: fence_core_def isascii_str dkeys_def)

lemma demo_fence_items:
  "item demo_fence ''schema'' = VStr (str ''dm.cluster-resource-fence-evidence/v1'')" "item demo_fence ''body_ref'' = VStr (str ''body'')"
  "item demo_fence ''holder_embodiment_id'' = VStr (str ''embodiment'')" "item demo_fence ''holder_incarnation_id'' = VStr (str ''incarnation'')"
  "item demo_fence ''resource_ref'' = VStr (str ''resource'')" "item demo_fence ''epoch'' = VInt 1"
  "item demo_fence ''observed_at_ms'' = VInt 10" "item demo_fence ''expires_at_ms'' = VInt 30"
  "item demo_fence ''verification_ref'' = VStr (str ''verification'')"
  by (simp_all add: demo_fence_def demo_sealed_checks(3) [OF fence_core_ok]) (simp_all add: fence_core_def dict_simps)

lemma demo_texts: "text_ce demo 240 e (VStr (str ''body'')) = Inr (str ''body'')" "text_ce demo 240 e (VStr (str ''embodiment'')) = Inr (str ''embodiment'')"
  "text_ce demo 240 e (VStr (str ''incarnation'')) = Inr (str ''incarnation'')" "text_ce demo 240 e (VStr (str ''resource'')) = Inr (str ''resource'')"
  "text_ce demo 240 e (VStr (str ''verification'')) = Inr (str ''verification'')" "text_ce demo 128 e (VStr (str ''adapter'')) = Inr (str ''adapter'')"
  "text_ce demo 128 e (VStr (str ''ok'')) = Inr (str ''ok'')"
  by (simp_all add: demo_literal)

lemma demo_fence_valid: "validate_resource_fence_evidence demo (VDict demo_fence) = Inr demo_fence"
proof -
  have closed: "closed_ce fence_evidence_fields e (VDict demo_fence) = Inr demo_fence" for e
    using demo_sealed_checks(4) [OF fence_core_ok, of fence_evidence_domain]
    by (auto simp: closed_ce_def closed_dict_def demo_fence_def fence_core_def fence_evidence_fields_def key_set_def dkeys_def)
  have numbers: "uint_ce e (VInt 1) = Inr 1" "uint_ce e (VInt 10) = Inr 10" "uint_ce e (VInt 30) = Inr 30" for e
    by (simp_all add: uint_ce_def res max_uint_def)
  have seal: "\<exists>h. item demo_fence ''content_hash'' = VStr h \<and> hash_ce e (VStr h) = Inr h
     \<and> content_hash demo fence_evidence_domain (without [''content_hash''] demo_fence) = Inr h" for e
    unfolding demo_fence_def by (rule demo_sealed_checks(1) [OF fence_core_ok])
  have size: "\<exists>raw. canonical_ce demo (VDict demo_fence) e = Inr raw \<and> length raw \<le> max_document_bytes" for e
    unfolding demo_fence_def by (rule demo_sealed_checks(2) [OF fence_core_ok])
  show ?thesis
    using seal [of "''invalid_fence_evidence''"] size [of "''invalid_fence_evidence''"]
    by (auto simp: validate_resource_fence_evidence_def Let_def closed demo_fence_items demo_texts numbers)
qed

definition demo_verification :: "dict \<Rightarrow> int \<Rightarrow> val res" where
  "demo_verification ev at_ms = Inr (VDict [(VStr (str ''schema''), VStr (str ''dm.cluster-resource-fence-verification/v1'')),
     (VStr (str ''content_hash''), item ev ''content_hash''), (VStr (str ''resource_ref''), item ev ''resource_ref''),
     (VStr (str ''holder_embodiment_id''), item ev ''holder_embodiment_id''), (VStr (str ''epoch''), item ev ''epoch''),
     (VStr (str ''verified_at_ms''), VInt at_ms), (VStr (str ''current''), VBool True)])"

lemma demo_fence_verified:
  "verify_resource_fence_evidence demo (VDict demo_fence) 20 demo_verification (expected_holder (position_of demo_fence)) = Inr demo_fence"
proof -
  have matches: "fence_matches (expected_holder (position_of demo_fence)) demo_fence"
    by (simp add: fence_matches_def expected_holder_def position_of_def dict_simps demo_fence_items)
  have number: "uint_ce e (VInt 20) = Inr 20" for e by (simp add: uint_ce_def res max_uint_def)
  have closed: "closed_ce fence_verification_fields e (VDict [(VStr (str ''schema''), a), (VStr (str ''content_hash''), b), (VStr (str ''resource_ref''), c),
     (VStr (str ''holder_embodiment_id''), d), (VStr (str ''epoch''), x), (VStr (str ''verified_at_ms''), y), (VStr (str ''current''), z)])
     = Inr [(VStr (str ''schema''), a), (VStr (str ''content_hash''), b), (VStr (str ''resource_ref''), c),
     (VStr (str ''holder_embodiment_id''), d), (VStr (str ''epoch''), x), (VStr (str ''verified_at_ms''), y), (VStr (str ''current''), z)]" for e a b c d x y z
    by (simp add: closed_ce_def closed_dict_def dict_simps fence_verification_fields_def key_set_def) (simp add: dkeys_def)
  show ?thesis
    by (simp add: verify_resource_fence_evidence_def demo_fence_valid number matches demo_fence_items demo_verification_def closed dict_simps)
qed

definition effect_core :: "pystr \<Rightarrow> dict" where
  "effect_core h = [(VStr (str ''schema''), VStr (str ''dm.cluster-effect-receipt/v1'')), (VStr (str ''effect_id''), VStr (demo_uuid 1)),
     (VStr (str ''target_event_id''), VStr (demo_uuid 2)), (VStr (str ''decision_event_id''), VStr (demo_uuid 3)),
     (VStr (str ''adapter''), VStr (str ''adapter'')), (VStr (str ''preview_hash''), VStr h), (VStr (str ''intent_hash''), VStr h),
     (VStr (str ''actor''), VStr (str ''adapter'')), (VStr (str ''authority''), VStr (str ''human'')),
     (VStr (str ''resource_fence''), VDict (position_of demo_fence)), (VStr (str ''result''), VStr (str ''applied'')),
     (VStr (str ''observed_postcondition''), VDict [(VStr (str ''ok''), VBool True)]), (VStr (str ''started_at_ms''), VInt 1),
     (VStr (str ''completed_at_ms''), VInt 2)]"

definition demo_effect :: "pystr \<Rightarrow> dict" where "demo_effect h = demo_sealed effect_receipt_domain (effect_core h)"

lemma demo_postcondition: "validate_observed_postcondition demo (VDict [(VStr (str ''ok''), VBool True)]) = Inr [(VStr (str ''ok''), VBool True)]"
proof -
  have plain: "plain (VDict [(VStr (str ''ok''), VBool True)])" by (simp add: isascii_str)
  have cost: "cost (VDict [(VStr (str ''ok''), VBool True)]) \<le> max_postcondition_bytes" by (simp add: max_postcondition_bytes_def)
  from plain_canonical [OF plain, of demo] cost obtain raw where raw: "canonical_ce demo (VDict [(VStr (str ''ok''), VBool True)]) e = Inr raw"
    "length raw \<le> max_postcondition_bytes" for e by (auto simp: canonical_ce_def)
  have "\<not> forbidden_key (str ''ok'')" by (simp add: forbidden_key_def str_def fold_char_def)
  with raw show ?thesis
    by (simp add: validate_observed_postcondition_def demo_texts max_postcondition_nodes_def max_postcondition_depth_def)
qed

lemma demo_fence_hash: obtains h where "item demo_fence ''content_hash'' = VStr h" "is_hex64 h"
  using demo_sealed_checks(1) [OF fence_core_ok, of fence_evidence_domain "[]"] that by (auto simp: demo_fence_def hash_ce_def res)

lemma demo_position_valid: "validate_resource_fence_position demo (VDict (position_of demo_fence)) = Inr (position_of demo_fence)"
proof -
  obtain h where h: "item demo_fence ''content_hash'' = VStr h" "is_hex64 h" by (rule demo_fence_hash)
  have closed: "closed_ce fence_position_fields e (VDict (position_of demo_fence)) = Inr (position_of demo_fence)" for e
    by (simp add: closed_ce_def closed_dict_def dict_simps fence_position_fields_def position_of_def key_set_def) (simp add: dkeys_def)
  have scalars: "uint_ce e (VInt 1) = Inr 1" "hash_ce e (VStr h) = Inr h" for e
    using h(2) by (simp_all add: uint_ce_def hash_ce_def res max_uint_def)
  show ?thesis
    by (simp add: validate_resource_fence_position_def Let_def closed) (simp add: position_of_def dict_simps demo_fence_items demo_texts h(1) scalars)
qed

lemma effect_core_ok:
  assumes "is_hex64 h"
  shows "plain (VDict (effect_core h))" "VStr (str ''content_hash'') \<notin> dkeys (effect_core h)" "cost (VDict (effect_core h)) \<le> 100000"
proof -
  obtain g where g: "item demo_fence ''content_hash'' = VStr g" "is_hex64 g" by (rule demo_fence_hash)
  note ascii = isascii_hex64 [OF assms] isascii_hex64 [OF g(2)] demo_uuid(2) [of 1] demo_uuid(2) [of 2] demo_uuid(2) [of 3]
  show "plain (VDict (effect_core h))" using ascii by (simp add: effect_core_def position_of_def demo_fence_items g(1) isascii_str)
  show "VStr (str ''content_hash'') \<notin> dkeys (effect_core h)" by (simp add: effect_core_def dkeys_def)
  show "cost (VDict (effect_core h)) \<le> 100000"
    using length_digest(2) [OF assms] length_digest(2) [OF g(2)]
    by (simp add: effect_core_def position_of_def demo_fence_items g(1) demo_uuid(4))
qed

lemma demo_effect_items:
  assumes "is_hex64 h" and "k \<noteq> ''content_hash''"
  shows "item (demo_effect h) k = item (effect_core h) k"
  unfolding demo_effect_def by (rule demo_sealed_checks(3) [OF effect_core_ok [OF assms(1)] assms(2)])

lemma demo_effect_valid:
  assumes "is_hex64 h"
  shows "validate_effect_receipt demo (VDict (demo_effect h)) = Inr (demo_effect h)"
proof -
  note ok = effect_core_ok [OF assms]
  have closed: "closed_ce effect_receipt_fields e (VDict (demo_effect h)) = Inr (demo_effect h)" for e
    using demo_sealed_checks(4) [OF ok, of effect_receipt_domain]
    by (auto simp: closed_ce_def closed_dict_def demo_effect_def effect_core_def effect_receipt_fields_def key_set_def dkeys_def)
  have scalars: "uint_ce e (VInt 1) = Inr 1" "uint_ce e (VInt 2) = Inr 2" "hash_ce e (VStr h) = Inr h"
    "uuid_ce e (VStr (demo_uuid 1)) = Inr (demo_uuid 1)" "uuid_ce e (VStr (demo_uuid 2)) = Inr (demo_uuid 2)" "uuid_ce e (VStr (demo_uuid 3)) = Inr (demo_uuid 3)" for e
    using assms demo_uuid(1) [of 1] demo_uuid(1) [of 2] demo_uuid(1) [of 3] by (simp_all add: uint_ce_def hash_ce_def uuid_ce_def res max_uint_def)
  have seal: "\<exists>g. item (demo_effect h) ''content_hash'' = VStr g \<and> hash_ce e (VStr g) = Inr g
     \<and> content_hash demo effect_receipt_domain (without [''content_hash''] (demo_effect h)) = Inr g" for e
    unfolding demo_effect_def by (rule demo_sealed_checks(1) [OF ok])
  have size: "\<exists>raw. canonical_ce demo (VDict (demo_effect h)) e = Inr raw \<and> length raw \<le> max_document_bytes" for e
    unfolding demo_effect_def by (rule demo_sealed_checks(2) [OF ok])
  have known: "in_strings (VStr (str ''human'')) [''daimon'', ''human''] = Inr True"
    "in_strings (VStr (str ''applied'')) [''applied'', ''failed'', ''reconciled'', ''stale''] = Inr True"
    by (simp_all add: in_strings_True)
  show ?thesis
    using seal [of "''invalid_effect_receipt''"] size [of "''invalid_effect_receipt''"]
    by (auto simp: validate_effect_receipt_def Let_def closed demo_effect_items [OF assms] effect_core_def dict_simps demo_texts scalars known
        demo_postcondition demo_position_valid simp del: One_nat_def)
qed

lemma verified_effect_holds_witness:
  "\<exists>h r. reconcile_effect_receipt demo (VDict (demo_effect h)) (VDict []) (Some (VDict [(VStr (str ''ok''), VBool True)])) 20
       (Some (VDict demo_fence)) (Some demo_verification) = Inr r \<and> rc_status r = Verified
     \<and> (\<exists>ev answer. demo_verification ev 20 = Inr (VDict answer) \<and> fence_stands (position_of demo_fence) ev answer 20)"
proof -
  obtain raw where raw: "canonical_bytes demo (VDict []) = Inr raw" "length raw \<le> max_postcondition_bytes"
    using plain_canonical [of "VDict []" demo] by (auto simp: max_postcondition_bytes_def)
  let ?h = "sha256_hex raw"
  have h: "is_hex64 ?h" by (simp add: is_hex64_sha256_hex)
  have number: "uint_ce e (VInt 20) = Inr 20" for e by (simp add: uint_ce_def res max_uint_def)
  have items: "item (demo_effect ?h) ''intent_hash'' = VStr ?h" "item (demo_effect ?h) ''resource_fence'' = VDict (position_of demo_fence)"
    "item (demo_effect ?h) ''observed_postcondition'' = VDict [(VStr (str ''ok''), VBool True)]"
    by (simp_all add: demo_effect_items [OF h]) (simp_all add: effect_core_def dict_simps)
  have fence: "reconcile_fence demo (demo_effect ?h) 20 (Some (VDict demo_fence)) (Some demo_verification) = Inr None"
    by (simp add: reconcile_fence_def items demo_fence_verified resource_fence_position_def demo_fence_valid same_position_def list_all_iff)
  obtain b where b: "canonical_bytes demo (VDict [(VStr (str ''ok''), VBool True)]) = Inr b"
    using plain_canonical [of "VDict [(VStr (str ''ok''), VBool True)]" demo] by (auto simp: isascii_str)
  have run: "reconcile_effect_receipt demo (VDict (demo_effect ?h)) (VDict []) (Some (VDict [(VStr (str ''ok''), VBool True)])) 20
      (Some (VDict demo_fence)) (Some demo_verification) = Inr (reconciliation_of (demo_effect ?h) Verified (str ''effect-truth-matches''))"
    using raw(2) by (simp add: reconcile_effect_receipt_def demo_effect_valid [OF h] number canonical_ce_def raw(1) items fence demo_postcondition b)
  have status: "rc_status (reconciliation_of (demo_effect ?h) Verified (str ''effect-truth-matches'')) = Verified"
    by (simp add: reconciliation_of_def)
  from verified_effect_holds [OF run status] demo_effect_valid [OF h] items(2) run status show ?thesis by auto
qed

end
