(* ===== verification/Relationship_View.thy ===== *)
theory Relationship_View
  imports Weave
begin

text \<open>
  The reduction of retained relationship events, class \<^verbatim>\<open>RelationshipView\<close> of
  \<^verbatim>\<open>src/daimon_matrix/relationship_store.py\<close>: which contact cards are current, which relationships,
  tribes and grants are active at an instant, and what may be disclosed.

  A row is a verified event with its validated payload. The dictionaries of the class are functions
  of their keys here (\<open>current_card\<close>, \<open>relationship_of\<close>, \<open>tribe_of\<close>), except for the grants, whose
  loop decides one after the other. A reference names any event: where the code then reads a field
  that payloads of that kind do not have, the result is the \<^verbatim>\<open>KeyError\<close> that escapes the constructor.
\<close>

section \<open>Rows and references\<close>

type_synonym 'p row = "event \<times> 'p"

definition reference_ids :: "payload \<Rightarrow> pystr set" where
  "reference_ids p = (case p of
     Card x \<Rightarrow> set_option (cd_previous x)
   | Offer x \<Rightarrow> {rf_event_id (of_initiator_card x)} \<union> rf_event_id ` set_option (of_responder_card x)
   | Acceptance x \<Rightarrow> rf_event_id ` {ac_offer x, ac_initiator_card x, ac_responder_card x}
   | Close x \<Rightarrow> rf_event_id ` {cl_offer x, cl_acceptance x}
   | Declaration x \<Rightarrow> {}
   | Invitation x \<Rightarrow> {}
   | MembershipAcceptance x \<Rightarrow> {rf_event_id (ma_invitation x)} \<union> rf_event_id ` set_option (ma_previous x)
   | Leave x \<Rightarrow> {rf_event_id (mt_acceptance x)}
   | Expulsion x \<Rightarrow> {rf_event_id (mt_acceptance x)}
   | FounderTransfer x \<Rightarrow> {}
   | FounderAcceptance x \<Rightarrow> {rf_event_id (fa_transfer x)}
   | Grant x \<Rightarrow> rf_event_id ` set_option (gr_parent x) \<union> set_option (gr_previous x)
   | GrantAcceptance x \<Rightarrow> {rf_event_id (ga_grant x)}
   | GrantRevocation x \<Rightarrow> rf_event_id ` {gv_grant x, gv_acceptance x})"

definition ref_matches :: "event_ref \<Rightarrow> event \<Rightarrow> bool" where
  "ref_matches r e = (rf_event_id r = e_id e \<and> rf_event_hash r = e_content_hash e)"

text \<open>The arguments of the constructor.\<close>

record view =
  vw_events :: "payload row list"
  vw_at :: int
  vw_current :: bool
  vw_verifier :: "(payload \<Rightarrow> int \<Rightarrow> bool) option"
    \<comment> \<open>\<^verbatim>\<open>card_verifier\<close>: whether it returns, or raises an error that the code takes for a refusal\<close>

section \<open>Forks and completeness\<close>

definition effective :: "view \<Rightarrow> payload row list" where
  "effective V = filter (\<lambda>r. vw_current V \<or> e_occurred_at_ms (fst r) \<le> vw_at V) (vw_events V)"

definition by_id :: "view \<Rightarrow> pystr \<Rightarrow> payload row list" where
  "by_id V i = filter (\<lambda>r. e_id (fst r) = i) (effective V)"

definition lane :: "'a core_scheme \<Rightarrow> pystr \<times> pystr" where
  "lane e = (e_being_ref e, o_incarnation_id (e_origin e))"

definition by_position :: "view \<Rightarrow> pystr \<times> pystr \<Rightarrow> int \<Rightarrow> payload row list" where
  "by_position V l n = filter (\<lambda>r. lane (fst r) = l \<and> e_sequence (fst r) = n) (effective V)"

text \<open>\<^verbatim>\<open>len({event["content_hash"] for event in variants}) > 1\<close>\<close>

definition forks :: "payload row list \<Rightarrow> bool" where
  "forks rows = (length (remdups (map (\<lambda>r. e_content_hash (fst r)) rows)) > 1)"

definition fork_cutoff :: "view \<Rightarrow> pystr \<times> pystr \<Rightarrow> int option" where
  "fork_cutoff V l =
     (case filter (\<lambda>n. forks (by_position V l n))
        (map (\<lambda>r. e_sequence (fst r)) (filter (\<lambda>r. lane (fst r) = l) (effective V))) of
        [] \<Rightarrow> None | n # ns \<Rightarrow> Some (fold min ns n))"

definition in_fork :: "view \<Rightarrow> event \<Rightarrow> bool" where
  "in_fork V e =
     (forks (by_id V (e_id e)) \<or> forks (by_position V (lane e) (e_sequence e))
      \<or> (case fork_cutoff V (lane e) of None \<Rightarrow> False | Some n \<Rightarrow> n \<le> e_sequence e))"

text \<open>\<^verbatim>\<open>forked_event_ids\<close>\<close>

definition forked :: "view \<Rightarrow> pystr \<Rightarrow> bool" where
  "forked V i = list_ex (\<lambda>r. e_id (fst r) = i \<and> in_fork V (fst r)) (effective V)"

text \<open>
  \<^verbatim>\<open>candidates\<close>, a dict by id: of several rows with one id the last one stays, in the place of the
  first.
\<close>

definition candidates :: "view \<Rightarrow> (pystr \<times> payload row) list" where
  "candidates V =
     (let rows = filter (\<lambda>r. \<not> forked V (e_id (fst r)) \<and> length (by_id V (e_id (fst r))) = 1) (vw_events V);
          ids = rev (remdups (rev (map (\<lambda>r. e_id (fst r)) rows))) in
      map (\<lambda>i. (i, last (filter (\<lambda>r. e_id (fst r) = i) rows))) ids)"

text \<open>One round of the \<^verbatim>\<open>while pending\<close> loop, and the loop.\<close>

fun sweep ::
  "(pystr \<times> payload row) list \<Rightarrow> (pystr \<times> payload row) list
     \<Rightarrow> (pystr \<times> payload row) list \<times> (pystr \<times> payload row) list" where
  "sweep [] found = ([], found)"
| "sweep ((i, r) # pending) found =
     (if reference_ids (snd r) \<subseteq> fst ` set found then sweep pending (found @ [(i, r)])
      else let (rest, found') = sweep pending found in ((i, r) # rest, found'))"

function complete_loop ::
  "(pystr \<times> payload row) list \<Rightarrow> (pystr \<times> payload row) list \<Rightarrow> (pystr \<times> payload row) list" where
  "complete_loop pending found =
     (let (rest, found') = sweep pending found in
      if length rest < length pending then complete_loop rest found' else found')"
  by pat_completeness auto
termination by (relation "measure (\<lambda>(pending, found). length pending)") (auto split: prod.splits)

declare complete_loop.simps [simp del]

definition complete_rows :: "view \<Rightarrow> payload row list" where
  "complete_rows V =
     sort_key (\<lambda>r. (e_being_ref (fst r), o_incarnation_id (e_origin (fst r)), e_sequence (fst r)))
       (map snd (complete_loop (candidates V) []))"

text \<open>
  With \<^verbatim>\<open>current\<close>, forked denials still count: they are evidence against, never for.
\<close>

definition is_denial :: "payload \<Rightarrow> bool" where
  "is_denial p = (case p of
     GrantRevocation _ \<Rightarrow> True | Close _ \<Rightarrow> True | Leave _ \<Rightarrow> True | Expulsion _ \<Rightarrow> True
   | Card x \<Rightarrow> cd_withdrawn x | _ \<Rightarrow> False)"

definition denials :: "view \<Rightarrow> payload row list" where
  "denials V = (if vw_current V
     then filter (\<lambda>r. forked V (e_id (fst r)) \<and> is_denial (snd r)) (effective V) else [])"

text \<open>\<^verbatim>\<open>self.kind\<close>: the complete events and the denials, by kind.\<close>

definition evidence :: "view \<Rightarrow> payload row list" where
  "evidence V = complete_rows V @ denials V"

definition pick :: "(payload \<Rightarrow> 'p option) \<Rightarrow> view \<Rightarrow> 'p row list" where
  "pick f V = List.map_filter (\<lambda>r. map_option (Pair (fst r)) (f (snd r))) (evidence V)"

definition cards :: "view \<Rightarrow> rel_card row list" where
  "cards V = pick (\<lambda>p. case p of Card x \<Rightarrow> Some x | _ \<Rightarrow> None) V"

definition offers :: "view \<Rightarrow> offer row list" where
  "offers V = pick (\<lambda>p. case p of Offer x \<Rightarrow> Some x | _ \<Rightarrow> None) V"

definition acceptances :: "view \<Rightarrow> acceptance row list" where
  "acceptances V = pick (\<lambda>p. case p of Acceptance x \<Rightarrow> Some x | _ \<Rightarrow> None) V"

definition closes :: "view \<Rightarrow> close row list" where
  "closes V = pick (\<lambda>p. case p of Close x \<Rightarrow> Some x | _ \<Rightarrow> None) V"

definition declarations :: "view \<Rightarrow> declared row list" where
  "declarations V = pick (\<lambda>p. case p of Declaration x \<Rightarrow> Some x | _ \<Rightarrow> None) V"

definition invitations :: "view \<Rightarrow> invitation row list" where
  "invitations V = pick (\<lambda>p. case p of Invitation x \<Rightarrow> Some x | _ \<Rightarrow> None) V"

definition membership_acceptances :: "view \<Rightarrow> membership_acceptance row list" where
  "membership_acceptances V = pick (\<lambda>p. case p of MembershipAcceptance x \<Rightarrow> Some x | _ \<Rightarrow> None) V"

definition leaves :: "view \<Rightarrow> membership_terminal row list" where
  "leaves V = pick (\<lambda>p. case p of Leave x \<Rightarrow> Some x | _ \<Rightarrow> None) V"

definition expulsions :: "view \<Rightarrow> membership_terminal row list" where
  "expulsions V = pick (\<lambda>p. case p of Expulsion x \<Rightarrow> Some x | _ \<Rightarrow> None) V"

definition founder_transfers :: "view \<Rightarrow> founder_transfer row list" where
  "founder_transfers V = pick (\<lambda>p. case p of FounderTransfer x \<Rightarrow> Some x | _ \<Rightarrow> None) V"

definition founder_acceptances :: "view \<Rightarrow> founder_acceptance row list" where
  "founder_acceptances V = pick (\<lambda>p. case p of FounderAcceptance x \<Rightarrow> Some x | _ \<Rightarrow> None) V"

definition grants :: "view \<Rightarrow> grant row list" where
  "grants V = pick (\<lambda>p. case p of Grant x \<Rightarrow> Some x | _ \<Rightarrow> None) V"

definition grant_acceptances :: "view \<Rightarrow> grant_acceptance row list" where
  "grant_acceptances V = pick (\<lambda>p. case p of GrantAcceptance x \<Rightarrow> Some x | _ \<Rightarrow> None) V"

definition grant_revocations :: "view \<Rightarrow> grant_revocation row list" where
  "grant_revocations V = pick (\<lambda>p. case p of GrantRevocation x \<Rightarrow> Some x | _ \<Rightarrow> None) V"

text \<open>\<^verbatim>\<open>_single_ref\<close>\<close>

definition single_ref :: "view \<Rightarrow> event_ref \<Rightarrow> payload row option" where
  "single_ref V r = (case by_id V (rf_event_id r) of
     [row] \<Rightarrow> if ref_matches r (fst row) then Some row else None
   | _ \<Rightarrow> None)"

section \<open>Cards\<close>

text \<open>The series of one being, from sequence 0 on; \<open>[]\<close> when it is forked or has a hole.\<close>

function card_chain :: "rel_card row list \<Rightarrow> pystr option \<Rightarrow> int \<Rightarrow> rel_card row list \<Rightarrow> rel_card row list" where
  "card_chain rows previous n accepted =
     (case filter (\<lambda>r. cd_sequence (snd r) = n) rows of
        [] \<Rightarrow> if list_all (\<lambda>r. 0 \<le> cd_sequence (snd r) \<and> cd_sequence (snd r) < n) rows then accepted else []
      | [r] \<Rightarrow>
          if cd_previous (snd r) \<noteq> previous then []
          else card_chain rows (Some (e_id (fst r))) (n + 1) (accepted @ [r])
      | _ \<Rightarrow> [])"
  by pat_completeness auto
termination
proof (relation "measure (\<lambda>(rows, previous, n, accepted). length (filter (\<lambda>r. n \<le> cd_sequence (snd r)) rows))", simp)
  fix rows :: "rel_card row list" and n x xs
  assume f: "filter (\<lambda>r. cd_sequence (snd r) = n) rows = x # xs"
  then have "x \<in> set (filter (\<lambda>r. cd_sequence (snd r) = n) rows)" by simp
  then have "x \<in> set rows" "cd_sequence (snd x) = n" by auto
  from filter_beyond_less [of x rows "\<lambda>r. cd_sequence (snd r)", OF this]
  show "((rows, i, n + 1, accepted'), rows, previous, n, accepted)
      \<in> measure (\<lambda>(rows, previous, n, accepted). length (filter (\<lambda>r. n \<le> cd_sequence (snd r)) rows))"
    for i previous accepted accepted' by simp
qed

declare card_chain.simps [simp del]

text \<open>The accepted history of a being's cards.\<close>

definition card_history :: "view \<Rightarrow> pystr \<Rightarrow> rel_card row list" where
  "card_history V b = card_chain (filter (\<lambda>r. cd_being_ref (snd r) = b) (cards V)) None 0 []"

definition verified_card :: "view \<Rightarrow> payload \<Rightarrow> int \<Rightarrow> bool" where
  "verified_card V p t = (case vw_verifier V of None \<Rightarrow> False | Some f \<Rightarrow> f p t)"

definition card_valid :: "int \<Rightarrow> rel_card \<Rightarrow> bool" where
  "card_valid t c = contains (permission_validity (cd_temporal c)) t"

text \<open>The current card: the last valid one; with a V2 tip only the tip; none after a withdrawal.\<close>

definition current_card :: "view \<Rightarrow> pystr \<Rightarrow> rel_card row option" where
  "current_card V b =
     (let accepted = card_history V b;
          valid = filter (\<lambda>r. card_valid (vw_at V) (snd r)) accepted;
          active = (if valid = [] then None else Some (last valid));
          active = (if accepted \<noteq> [] \<and> cd_v2 (snd (last accepted))
                    then (if card_valid (vw_at V) (snd (last accepted)) \<and> \<not> cd_withdrawn (snd (last accepted))
                          then Some (last accepted) else None)
                    else active);
          active = (if list_ex (\<lambda>r. cd_withdrawn (snd r)) accepted then None else active) in
      case active of None \<Rightarrow> None
      | Some r \<Rightarrow> if verified_card V (Card (snd r)) (vw_at V) then Some r else None)"

section \<open>Relationships\<close>

datatype rel_state = RelForked | RelIncomplete | RelOffered | RelClosed | RelActive | RelStaleCard

text \<open>The one acceptance of the offer, and the closes of that pair.\<close>

record bond =
  bd_offer :: "offer row"
  bd_acceptance :: "acceptance row"
  bd_closes :: "close row list"

record relationship =
  rl_state :: rel_state
  rl_bond :: "bond option"  \<comment> \<open>\<^verbatim>\<open>bilateral\<close>, with what it was built from\<close>

text \<open>\<^verbatim>\<open>event["payload"]["being_ref"]\<close>, which only a card has.\<close>

definition card_of :: "payload row \<Rightarrow> rel_card row res" where
  "card_of r = (case r of (e, Card c) \<Rightarrow> Inr (e, c) | _ \<Rightarrow> raise KeyError ''being_ref'')"

definition acceptance_valid :: "view \<Rightarrow> offer row \<Rightarrow> acceptance row \<Rightarrow> bool res" where
  "acceptance_valid V offered accepted =
     (let x = snd offered; a = snd accepted in
       if ref_matches (ac_offer a) (fst offered) \<and> ac_initiator a = of_initiator x \<and> ac_responder a = of_responder x
          \<and> ac_initiator_card a = of_initiator_card x
          \<and> (of_responder_card x = None \<or> of_responder_card x = Some (ac_responder_card a))
       then (case single_ref V (ac_responder_card a) of
           None \<Rightarrow> Inr False
         | Some r \<Rightarrow> bindR (card_of r) (\<lambda>c.
             Inr (cd_being_ref (snd c) = of_responder x \<and> of_issued_at_ms x \<le> ac_accepted_at_ms a
                  \<and> ac_accepted_at_ms a < of_expires_at_ms x)))
       else Inr False)"

definition participants :: "offer \<Rightarrow> pystr set" where
  "participants x = {of_initiator x, of_responder x}"

text \<open>
  Whether a card of the relationship is in force: between V2 documents any current card of the being
  will do, otherwise the very card that was referenced.
\<close>

definition card_in_force :: "view \<Rightarrow> bool \<Rightarrow> payload row \<Rightarrow> bool res" where
  "card_in_force V v2 r =
     bindR (card_of r) (\<lambda>c.
       Inr (case current_card V (cd_being_ref (snd c)) of
              None \<Rightarrow> False
            | Some c' \<Rightarrow> (v2 \<and> cd_v2 (snd c))
                \<or> (e_id (fst c') = e_id (fst c) \<and> e_content_hash (fst c') = e_content_hash (fst c))))"

definition close_valid :: "offer row \<Rightarrow> acceptance row \<Rightarrow> close row \<Rightarrow> bool" where
  "close_valid offered accepted closed =
     (cl_closer (snd closed) \<in> participants (snd offered) \<and> ref_matches (cl_offer (snd closed)) (fst offered)
      \<and> ref_matches (cl_acceptance (snd closed)) (fst accepted))"

text \<open>\<^verbatim>\<open>cards_current\<close>\<close>

definition cards_in_force :: "view \<Rightarrow> offer row \<Rightarrow> acceptance row \<Rightarrow> payload row \<Rightarrow> bool res" where
  "cards_in_force V offered accepted initiator_card =
     andR ([Inr (ac_accepted_at_ms (snd accepted) \<le> vw_at V),
            card_in_force V (of_v2 (snd offered)) initiator_card]
           @ map (card_in_force V (of_v2 (snd offered)))
               (case single_ref V (ac_responder_card (snd accepted)) of None \<Rightarrow> [] | Some r \<Rightarrow> [r]))"

text \<open>One relationship with exactly one offer.\<close>

definition offered_relationship :: "view \<Rightarrow> pystr \<Rightarrow> offer row \<Rightarrow> relationship res" where
  "offered_relationship V rid offered =
     (let x = snd offered in
      case single_ref V (of_initiator_card x) of
        None \<Rightarrow> Inr \<lparr>rl_state = RelIncomplete, rl_bond = None\<rparr>
      | Some initiator_card \<Rightarrow>
          if (case of_responder_card x of None \<Rightarrow> False | Some r \<Rightarrow> single_ref V r = None)
            then Inr \<lparr>rl_state = RelIncomplete, rl_bond = None\<rparr>
          else bindR (filterR (acceptance_valid V offered)
                        (filter (\<lambda>r. ac_relationship_id (snd r) = rid) (acceptances V))) (\<lambda>valid.
            case valid of
              [] \<Rightarrow> Inr \<lparr>rl_state = RelOffered, rl_bond = None\<rparr>
            | [accepted] \<Rightarrow>
                (let closed = filter (close_valid offered accepted)
                                (filter (\<lambda>r. cl_relationship_id (snd r) = rid) (closes V)) in
                 bindR (cards_in_force V offered accepted initiator_card) (\<lambda>in_force.
                   Inr \<lparr>rl_state = (if closed \<noteq> [] then RelClosed else if in_force then RelActive else RelStaleCard),
                        rl_bond = Some \<lparr>bd_offer = offered, bd_acceptance = accepted, bd_closes = closed\<rparr>\<rparr>))
            | _ \<Rightarrow> Inr \<lparr>rl_state = RelForked, rl_bond = None\<rparr>))"

definition relationship_of :: "view \<Rightarrow> pystr \<Rightarrow> relationship option res" where
  "relationship_of V rid =
     (case filter (\<lambda>r. of_relationship_id (snd r) = rid) (offers V) of
        [] \<Rightarrow> Inr None
      | [offered] \<Rightarrow> bindR (offered_relationship V rid offered) (\<lambda>rel. Inr (Some rel))
      | _ \<Rightarrow> Inr (Some \<lparr>rl_state = RelForked, rl_bond = None\<rparr>))"

definition relationship_ids :: "view \<Rightarrow> pystr list" where
  "relationship_ids V = remdups (map (\<lambda>r. of_relationship_id (snd r)) (offers V))"

text \<open>
  \<^verbatim>\<open>permission_validity(payload)\<close> of a payload of any kind: the fields it reads make an interval
  for these four, for the others \<^verbatim>\<open>validate_validity\<close> raises.
\<close>

definition payload_validity :: "payload \<Rightarrow> validity res" where
  "payload_validity p = (case p of
     Card c \<Rightarrow> Inr (permission_validity (cd_temporal c))
   | Grant g \<Rightarrow> Inr (permission_validity (gr_temporal g))
   | Offer x \<Rightarrow> Inr (Finite (of_issued_at_ms x) (of_expires_at_ms x))
   | Invitation x \<Rightarrow> Inr (Finite (iv_issued_at_ms x) (iv_expires_at_ms x))
   | _ \<Rightarrow> raise VerificationError ''invalid validity instant'')"

definition withdrawn :: "payload \<Rightarrow> bool" where
  "withdrawn p = (case p of Card c \<Rightarrow> cd_withdrawn c | _ \<Rightarrow> False)"

text \<open>\<^verbatim>\<open>_card_valid_at\<close> and \<^verbatim>\<open>_relationship_active_at\<close>\<close>

definition card_valid_at :: "view \<Rightarrow> payload row \<Rightarrow> int \<Rightarrow> bool res" where
  "card_valid_at V r t =
     bindR (payload_validity (snd r)) (\<lambda>validity.
       Inr (contains validity t \<and> \<not> withdrawn (snd r) \<and> verified_card V (snd r) t))"

definition relationship_active_at :: "view \<Rightarrow> relationship \<Rightarrow> int \<Rightarrow> bool res" where
  "relationship_active_at V rel t =
     (case rl_bond rel of None \<Rightarrow> Inr False
      | Some b \<Rightarrow>
          (case (single_ref V (of_initiator_card (snd (bd_offer b))),
                 single_ref V (ac_responder_card (snd (bd_acceptance b)))) of
             (Some initiator_card, Some responder_card) \<Rightarrow>
               andR [Inr (ac_accepted_at_ms (snd (bd_acceptance b)) \<le> t),
                     Inr (\<not> list_ex (\<lambda>r. cl_closed_at_ms (snd r) \<le> t) (bd_closes b)),
                     card_valid_at V initiator_card t, card_valid_at V responder_card t]
           | _ \<Rightarrow> Inr False))"

section \<open>Founders\<close>

text \<open>
  \<^verbatim>\<open>founder_by_epoch\<close> and \<^verbatim>\<open>epoch_started_at\<close> as one list: the founder of each epoch and its start.
\<close>

type_synonym reigns = "(pystr \<times> int) list"

definition founder_at :: "reigns \<Rightarrow> int \<Rightarrow> pystr option" where
  "founder_at reigns epoch =
     (if 0 \<le> epoch \<and> epoch < int (length reigns) then Some (fst (reigns ! nat epoch)) else None)"

text \<open>\<^verbatim>\<open>epoch_is_current\<close>\<close>

definition epoch_is_current :: "reigns \<Rightarrow> int \<Rightarrow> int \<Rightarrow> bool" where
  "epoch_is_current reigns epoch t =
     (0 \<le> epoch \<and> epoch < int (length reigns) \<and> snd (reigns ! nat epoch) \<le> t
      \<and> (epoch + 1 < int (length reigns) \<longrightarrow> t < snd (reigns ! nat (epoch + 1))))"

definition transfer_of :: "pystr \<Rightarrow> pystr \<times> int \<Rightarrow> int \<Rightarrow> founder_transfer row \<Rightarrow> bool" where
  "transfer_of tribe reign epoch r =
     (let t = snd r in ft_tribe_ref t = tribe \<and> ft_from_epoch t = epoch \<and> ft_old_founder t = fst reign
        \<and> ft_issued_at_ms t \<ge> snd reign)"

definition transfer_accepted :: "pystr \<Rightarrow> founder_transfer row \<Rightarrow> founder_acceptance row \<Rightarrow> bool" where
  "transfer_accepted tribe transfer r =
     (let t = snd transfer; a = snd r in
      fa_tribe_ref a = tribe \<and> fa_transfer_id a = ft_transfer_id t \<and> ref_matches (fa_transfer a) (fst transfer)
      \<and> fa_successor a = ft_successor t \<and> fa_accepted_at_ms a \<ge> ft_issued_at_ms t)"

text \<open>The \<^verbatim>\<open>while True\<close> loop: whether the succession forked, and the epochs reached.\<close>

function succession ::
  "founder_transfer row list \<Rightarrow> founder_acceptance row list \<Rightarrow> pystr \<Rightarrow> reigns \<Rightarrow> pystr \<times> int \<Rightarrow> bool \<times> reigns" where
  "succession transfers accepts tribe past reign =
     (case filter (transfer_of tribe reign (int (length past))) transfers of
        [] \<Rightarrow> (False, past @ [reign])
      | [transfer] \<Rightarrow>
          (case filter (transfer_accepted tribe transfer) accepts of
             [] \<Rightarrow> (False, past @ [reign])
           | [accepted] \<Rightarrow>
               succession transfers accepts tribe (past @ [reign])
                 (ft_successor (snd transfer), fa_accepted_at_ms (snd accepted))
           | _ \<Rightarrow> (True, past @ [reign]))
      | _ \<Rightarrow> (True, past @ [reign]))"
  by pat_completeness auto
termination
proof (relation "measure (\<lambda>(transfers, accepts, tribe, past, reign).
    length (filter (\<lambda>r. int (length past) \<le> ft_from_epoch (snd r)) transfers))", simp)
  fix transfers :: "founder_transfer row list" and tribe and past :: reigns and reign x xs
  assume "filter (transfer_of tribe reign (int (length past))) transfers = x # xs"
  then have "x \<in> set (filter (transfer_of tribe reign (int (length past))) transfers)" by simp
  then have "x \<in> set transfers" "ft_from_epoch (snd x) = int (length past)" by (auto simp: transfer_of_def Let_def)
  from filter_beyond_less [of x transfers "\<lambda>r. ft_from_epoch (snd r)", OF this]
  show "((transfers, accepts, tribe, past @ [reign], next), transfers, accepts, tribe, past, reign)
      \<in> measure (\<lambda>(transfers, accepts, tribe, past, reign).
          length (filter (\<lambda>r. int (length past) \<le> ft_from_epoch (snd r)) transfers))"
    for accepts "next" by (simp add: add.commute)
qed

declare succession.simps [simp del]

section \<open>Memberships\<close>

datatype membership_state = MemActive | MemNotYet | MemLeft | MemExpelled | MemForked

record episode =
  ep_event :: "membership_acceptance row"
  ep_state :: membership_state
  ep_terminal :: "membership_terminal row option"

record membership =
  mb_state :: membership_state
  mb_event :: "event option"  \<comment> \<open>\<^verbatim>\<open>membership_event\<close>\<close>
  mb_episodes :: "episode list"

text \<open>What one invitation, in its variants, admits: a member's acceptance, or a forked member.\<close>

definition admission_of ::
  "view \<Rightarrow> pystr \<Rightarrow> reigns \<Rightarrow> pystr \<Rightarrow> pystr list \<times> (pystr \<times> membership_acceptance row) list" where
  "admission_of V tribe reigns iid =
     (case filter (\<lambda>r. iv_tribe_ref (snd r) = tribe \<and> iv_invitation_id (snd r) = iid) (invitations V) of
        [(e, x)] \<Rightarrow>
          if founder_at reigns (iv_founder_epoch x) \<noteq> Some (iv_founder x)
             \<or> \<not> epoch_is_current reigns (iv_founder_epoch x) (iv_issued_at_ms x) then ([], [])
          else (case filter (\<lambda>r. ma_tribe_ref (snd r) = tribe \<and> ma_founder_epoch (snd r) = iv_founder_epoch x
                       \<and> ma_invitee (snd r) = iv_invitee x \<and> ref_matches (ma_invitation (snd r)) e
                       \<and> iv_issued_at_ms x \<le> ma_accepted_at_ms (snd r)
                       \<and> ma_accepted_at_ms (snd r) < iv_expires_at_ms x) (membership_acceptances V) of
              [] \<Rightarrow> ([], [])
            | [accepted] \<Rightarrow> ([], [(iv_invitee x, accepted)])
            | _ \<Rightarrow> ([iv_invitee x], []))
      | variants \<Rightarrow> (map (\<lambda>r. iv_invitee (snd r)) variants, []))"

text \<open>\<^verbatim>\<open>forked_members\<close> and \<^verbatim>\<open>membership_positions\<close>\<close>

definition admissions ::
  "view \<Rightarrow> pystr \<Rightarrow> reigns \<Rightarrow> pystr list \<times> (pystr \<times> membership_acceptance row) list" where
  "admissions V tribe reigns =
     (let ids = remdups (map (\<lambda>r. iv_invitation_id (snd r))
                  (filter (\<lambda>r. iv_tribe_ref (snd r) = tribe) (invitations V)));
          found = map (admission_of V tribe reigns) ids in
      (concat (map fst found), concat (map snd found)))"

text \<open>The terminals of one acceptance.\<close>

definition terminals ::
  "view \<Rightarrow> pystr \<Rightarrow> reigns \<Rightarrow> pystr \<Rightarrow> membership_acceptance row \<Rightarrow> (membership_state \<times> membership_terminal row) list" where
  "terminals V tribe reigns member accepted =
     (let ends = (\<lambda>r. mt_tribe_ref (snd r) = tribe \<and> mt_member (snd r) = member
                   \<and> mt_terminated_at_ms (snd r) \<ge> ma_accepted_at_ms (snd accepted)
                   \<and> epoch_is_current reigns (mt_founder_epoch (snd r)) (mt_terminated_at_ms (snd r))
                   \<and> ref_matches (mt_acceptance (snd r)) (fst accepted)) in
      map (Pair MemLeft) (filter ends (leaves V))
      @ map (Pair MemExpelled)
          (filter (\<lambda>r. ends r \<and> founder_at reigns (mt_founder_epoch (snd r)) = mt_founder (snd r)
                       \<and> mt_founder (snd r) \<noteq> None) (expulsions V)))"

text \<open>The loop over a member's episodes: those found, where it stopped, and whether the lane forked.\<close>

function episodes ::
  "view \<Rightarrow> pystr \<Rightarrow> reigns \<Rightarrow> pystr \<Rightarrow> membership_acceptance row list \<Rightarrow> event option \<Rightarrow> int \<Rightarrow> episode list
     \<Rightarrow> episode list \<times> int \<times> bool" where
  "episodes V tribe reigns member rows expected n found =
     (case filter (\<lambda>r. ma_sequence (snd r) = n) rows of
        [] \<Rightarrow> (found, n, False)
      | [accepted] \<Rightarrow>
          if (case (ma_previous (snd accepted), expected) of
                (None, None) \<Rightarrow> False | (Some r, Some e) \<Rightarrow> \<not> ref_matches r e | _ \<Rightarrow> True)
            then (found, n, True)
          else (case terminals V tribe reigns member accepted of
              [] \<Rightarrow>
                (found @ [\<lparr>ep_event = accepted,
                   ep_state = (if vw_current V \<and> ma_accepted_at_ms (snd accepted) > vw_at V then MemNotYet else MemActive),
                   ep_terminal = None\<rparr>], n + 1, list_ex (\<lambda>r. ma_sequence (snd r) \<ge> n + 1) rows)
            | [(st, terminal)] \<Rightarrow>
                episodes V tribe reigns member rows (Some (fst terminal)) (n + 1)
                  (found @ [\<lparr>ep_event = accepted, ep_state = st, ep_terminal = Some terminal\<rparr>])
            | _ \<Rightarrow> (found, n, True))
      | _ \<Rightarrow> (found, n, True))"
  by pat_completeness auto
termination
proof (relation "measure (\<lambda>(V, tribe, reigns, member, rows, expected, n, found).
    length (filter (\<lambda>r. n \<le> ma_sequence (snd r)) rows))", simp)
  fix rows :: "membership_acceptance row list" and n x xs
  assume "filter (\<lambda>r. ma_sequence (snd r) = n) rows = x # xs"
  then have "x \<in> set (filter (\<lambda>r. ma_sequence (snd r) = n) rows)" by simp
  then have "x \<in> set rows" "ma_sequence (snd x) = n" by auto
  from filter_beyond_less [of x rows "\<lambda>r. ma_sequence (snd r)", OF this]
  show "((V, tribe, reigns, member, rows, e, n + 1, found'), V, tribe, reigns, member, rows, expected, n, found)
      \<in> measure (\<lambda>(V, tribe, reigns, member, rows, expected, n, found).
          length (filter (\<lambda>r. n \<le> ma_sequence (snd r)) rows))"
    for V tribe reigns member e found' expected found by simp
qed

declare episodes.simps [simp del]

definition membership_of ::
  "view \<Rightarrow> declared row \<Rightarrow> reigns \<Rightarrow> pystr list \<times> (pystr \<times> membership_acceptance row) list \<Rightarrow> pystr
     \<Rightarrow> membership option" where
  "membership_of V declared reigns admitted member =
     (let tribe = dd_tribe_ref (snd declared); (forked_members, positions) = admitted;
          rows = map snd (filter (\<lambda>(m, r). m = member) positions) in
      if rows \<noteq> [] \<or> member \<in> set forked_members then
        (let (found, n, forked_lane) =
               (if member \<in> set forked_members then ([], 0, True)
                else episodes V tribe reigns member rows None 0 []);
             broken = forked_lane \<or> \<not> list_all (\<lambda>r. 0 \<le> ma_sequence (snd r) \<and> ma_sequence (snd r) < n) rows in
         Some \<lparr>mb_state = (if broken \<or> found = [] then MemForked else ep_state (last found)),
               mb_event = (if found = [] then None else Some (fst (ep_event (last found)))),
               mb_episodes = found\<rparr>)
      else if member = fst (hd reigns) then
        Some \<lparr>mb_state = (if vw_current V \<and> snd (hd reigns) > vw_at V then MemNotYet else MemActive),
              mb_event = Some (fst declared), mb_episodes = []\<rparr>
      else None)"

text \<open>\<^verbatim>\<open>membership_active_at\<close>\<close>

definition membership_active_at :: "reigns \<Rightarrow> (pystr \<Rightarrow> membership option) \<Rightarrow> pystr \<Rightarrow> int \<Rightarrow> bool" where
  "membership_active_at reigns memberships member t =
     (if member = fst (hd reigns) then True
      else (case memberships member of
          None \<Rightarrow> False
        | Some m \<Rightarrow>
            mb_state m \<noteq> MemForked
            \<and> list_ex (\<lambda>ep. ma_accepted_at_ms (snd (ep_event ep)) \<le> t
                 \<and> (case ep_terminal ep of None \<Rightarrow> True | Some (e, x) \<Rightarrow> t < mt_terminated_at_ms x))
               (mb_episodes m)))"

section \<open>Tribes\<close>

datatype tribe_state = TribeActive | TribeForked | TribeNotYet

record tribe =
  tb_declared :: "declared row"
  tb_state :: tribe_state
  tb_reigns :: reigns
  tb_members :: "(pystr \<times> membership) list"  \<comment> \<open>\<^verbatim>\<open>memberships\<close>, sorted by member\<close>

definition tb_founder :: "tribe \<Rightarrow> pystr" where
  "tb_founder tb = fst (last (tb_reigns tb))"

definition tb_epoch :: "tribe \<Rightarrow> int" where
  "tb_epoch tb = int (length (tb_reigns tb)) - 1"

text \<open>The tribe of its one declaration.\<close>

definition declared_tribe :: "view \<Rightarrow> declared row \<Rightarrow> tribe" where
  "declared_tribe V declared =
     (let d = dd_declaration (snd declared); tribe = dd_tribe_ref (snd declared);
          (forked_succession, reigns) =
            succession (founder_transfers V) (founder_acceptances V) tribe [] (dc_founder d, dc_created_at_ms d);
          admitted = admissions V tribe reigns;
          memberships = membership_of V declared reigns admitted;
          members = sorted_list_of_set
            ({dc_founder d} \<union> set (fst admitted) \<union> fst ` set (snd admitted));
          orphaned = list_ex (\<lambda>(f, t). \<not> membership_active_at reigns memberships f t) (tl reigns);
          founder_out = (case memberships (fst (last reigns)) of
              None \<Rightarrow> True | Some m \<Rightarrow> mb_state m \<noteq> MemActive);
          st = (if forked_succession \<or> orphaned \<or> founder_out then TribeForked
                else if vw_current V \<and> snd (last reigns) > vw_at V then TribeNotYet else TribeActive) in
      \<lparr>tb_declared = declared, tb_state = st, tb_reigns = reigns,
       tb_members = map (\<lambda>m. (m, the (memberships m))) members\<rparr>)"

text \<open>\<open>Some None\<close> when the tribe has several declarations: \<^verbatim>\<open>{"state": "forked"}\<close>.\<close>

definition tribe_of :: "view \<Rightarrow> pystr \<Rightarrow> tribe option option" where
  "tribe_of V tref =
     (case filter (\<lambda>r. dd_tribe_ref (snd r) = tref) (declarations V) of
        [] \<Rightarrow> None
      | [declared] \<Rightarrow> Some (Some (declared_tribe V declared))
      | _ \<Rightarrow> Some None)"

definition active_tribe :: "view \<Rightarrow> pystr \<Rightarrow> tribe option" where
  "active_tribe V tref =
     (case tribe_of V tref of Some (Some tb) \<Rightarrow> if tb_state tb = TribeActive then Some tb else None | _ \<Rightarrow> None)"

definition active_member :: "tribe \<Rightarrow> pystr \<Rightarrow> event option" where
  "active_member tb being =
     (case map_of (tb_members tb) being of
        Some m \<Rightarrow> if mb_state m = MemActive then mb_event m else None
      | None \<Rightarrow> None)"

section \<open>Permissions\<close>

text \<open>
  \<^verbatim>\<open>_permission_map\<close>, a dict by resource and operation: of two permissions with one key the last stays.
\<close>

definition permission_at :: "permission list \<Rightarrow> pystr \<Rightarrow> pystr \<Rightarrow> permission option" where
  "permission_at ps resource operation =
     find (\<lambda>p. pm_resource_ref p = resource \<and> operation \<in> set (pm_operations p)) (rev ps)"

text \<open>\<^verbatim>\<open>all(key in parent_map and ... for key, permission in child_map.items())\<close>\<close>

definition covered_by :: "(permission \<Rightarrow> permission \<Rightarrow> bool) \<Rightarrow> permission list \<Rightarrow> permission list \<Rightarrow> bool" where
  "covered_by ok child parent =
     list_all (\<lambda>p. list_all (\<lambda>operation.
         case (permission_at child (pm_resource_ref p) operation, permission_at parent (pm_resource_ref p) operation) of
           (Some c, Some q) \<Rightarrow> ok c q | _ \<Rightarrow> False) (pm_operations p)) child"

definition permission_is_attenuated :: "permission \<Rightarrow> permission \<Rightarrow> bool" where
  "permission_is_attenuated c q =
     (pm_resource_ref c = pm_resource_ref q \<and> pm_classification c = pm_classification q
      \<and> pm_delegable q \<and> pm_depth q > 0
      \<and> (\<not> pm_delegable c \<or> (pm_delegable q \<and> pm_depth c \<le> pm_depth q - 1))
      \<and> (pm_delegable c \<or> pm_depth c = 0))"

definition within_proposal :: "permission \<Rightarrow> permission \<Rightarrow> bool" where
  "within_proposal c q =
     (pm_classification c = pm_classification q \<and> (pm_delegable c \<longrightarrow> pm_delegable q) \<and> pm_depth c \<le> pm_depth q)"

text \<open>\<^verbatim>\<open>_grant_is_bounded_by_offer\<close>\<close>

definition grant_is_bounded_by_offer :: "grant \<Rightarrow> offer \<Rightarrow> bool" where
  "grant_is_bounded_by_offer g x =
     list_ex (\<lambda>pg. pg_grantor pg = gr_grantor g \<and> pg_subject pg = gr_subject g
        \<and> attenuates (permission_validity (gr_temporal g)) (permission_validity (pg_temporal pg))
        \<and> covered_by within_proposal (gr_permissions g) (pg_permissions pg)) (of_proposed x)"

text \<open>The permissions of a root grant are those of resources on the grantor's card.\<close>

definition described_by :: "grant \<Rightarrow> resource list \<Rightarrow> bool" where
  "described_by g resources =
     list_all (\<lambda>p. case find (\<lambda>r. rs_ref r = pm_resource_ref p) (rev resources) of
         None \<Rightarrow> False
       | Some r \<Rightarrow>
           ds_controller (rs_descriptor r) = gr_grantor g
           \<and> pm_classification p = ds_classification (rs_descriptor r)
           \<and> set (pm_operations p) \<subseteq> set (ds_operations (rs_descriptor r))) (gr_permissions g)"

section \<open>Grants\<close>

datatype grant_state =
    GrantForked | GrantIncomplete | GrantInvalid | GrantOffered | GrantRevoked | GrantRelinquished
  | GrantRevokedRelinquished | GrantClosed | GrantNotYet | GrantExpired | GrantActive

record granted =
  gs_state :: grant_state
  gs_grant :: "grant row option"
  gs_acceptances :: "grant_acceptance row list"

definition grants_with :: "view \<Rightarrow> pystr \<Rightarrow> grant row list" where
  "grants_with V gid = filter (\<lambda>r. gr_grant_id (snd r) = gid) (grants V)"

text \<open>\<^verbatim>\<open>lane_positions[(parent_event_id, sequence)]\<close> and the first forked position of a lane\<close>

definition delegations :: "view \<Rightarrow> pystr \<Rightarrow> int \<Rightarrow> grant row list" where
  "delegations V parent n =
     filter (\<lambda>r. map_option rf_event_id (gr_parent (snd r)) = Some parent \<and> gr_sequence (snd r) = n) (grants V)"

definition delegation_cutoff :: "view \<Rightarrow> pystr \<Rightarrow> int" where
  "delegation_cutoff V parent =
     fold min (filter (\<lambda>n. length (remdups (map (\<lambda>r. e_id (fst r)) (delegations V parent n))) > 1)
       (map (\<lambda>r. gr_sequence (snd r))
         (filter (\<lambda>r. map_option rf_event_id (gr_parent (snd r)) = Some parent) (grants V)))) (2 ^ 53)"

text \<open>\<^verbatim>\<open>parent_event["payload"]["grant_id"]\<close>\<close>

definition grant_id_of :: "payload \<Rightarrow> pystr res" where
  "grant_id_of p = (case p of
     Grant g \<Rightarrow> Inr (gr_grant_id g)
   | GrantAcceptance a \<Rightarrow> Inr (ga_grant_id a)
   | GrantRevocation r \<Rightarrow> Inr (gv_grant_id r)
   | _ \<Rightarrow> raise KeyError ''grant_id'')"

text \<open>A root grant: the grantor's card describes its resources and the offer proposed it.\<close>

definition root_grant_valid :: "view \<Rightarrow> bond \<Rightarrow> grant \<Rightarrow> bool res" where
  "root_grant_valid V b g =
     (let x = snd (bd_offer b);
          card_ref = (if of_initiator x = gr_grantor g then of_initiator_card x
                      else ac_responder_card (snd (bd_acceptance b))) in
      bindR (case single_ref V card_ref of
          None \<Rightarrow> Inr []
        | Some r \<Rightarrow> (case snd r of Card c \<Rightarrow> Inr (cd_resources c) | _ \<Rightarrow> raise KeyError ''resources'')) (\<lambda>resources.
        Inr (described_by g resources \<and> grant_is_bounded_by_offer g x)))"

definition delegable_states :: "grant_state set" where
  "delegable_states =
     {GrantActive, GrantExpired, GrantRevoked, GrantRevokedRelinquished, GrantRelinquished, GrantClosed}"

text \<open>Where one look at a grant leads: to a state, to the parent it derives from, or to a later look.\<close>

datatype look = Settled grant_state | Derives "granted option" | Wait

text \<open>The grant before this one in its lane.\<close>

definition preceding_look ::
  "view \<Rightarrow> pystr list \<Rightarrow> (pystr \<times> granted) list \<Rightarrow> pystr \<Rightarrow> grant \<Rightarrow> look option" where
  "preceding_look V pending result parent g =
     (if gr_sequence g \<le> 0 then None
      else (case delegations V parent (gr_sequence g - 1) of
          [predecessor] \<Rightarrow>
            if gr_previous g \<noteq> Some (e_id (fst predecessor)) then Some (Settled GrantIncomplete)
            else if gr_grant_id (snd predecessor) \<in> set pending then Some Wait
            else (case map_of result (gr_grant_id (snd predecessor)) of
                None \<Rightarrow> Some (Settled GrantIncomplete)
              | Some st \<Rightarrow>
                  if gs_acceptances st = []
                     \<or> gs_state st \<in> {GrantForked, GrantIncomplete, GrantInvalid, GrantOffered}
                    then Some (Settled GrantIncomplete) else None)
        | _ \<Rightarrow> Some (Settled GrantIncomplete)))"

definition delegated_look ::
  "view \<Rightarrow> pystr list \<Rightarrow> (pystr \<times> granted) list \<Rightarrow> event_ref \<Rightarrow> grant \<Rightarrow> look res" where
  "delegated_look V pending result parent_ref g =
     (case single_ref V parent_ref of
        None \<Rightarrow> Inr (Settled GrantIncomplete)
      | Some parent_row \<Rightarrow>
          bindR (grant_id_of (snd parent_row)) (\<lambda>parent_id.
            if parent_id \<in> set pending then Inr Wait
            else (case map_of result parent_id of
                None \<Rightarrow> Inr (Settled GrantIncomplete)
              | Some parent_state \<Rightarrow>
                  if gs_state parent_state = GrantForked then Inr (Settled GrantForked)
                  else if gs_state parent_state \<notin> delegable_states then Inr (Settled GrantInvalid)
                  else (case preceding_look V pending result (rf_event_id parent_ref) g of
                      Some l \<Rightarrow> Inr l
                    | None \<Rightarrow>
                        (case snd parent_row of
                           Grant parent \<Rightarrow>
                             if gr_subject parent \<noteq> gr_grantor g
                                \<or> \<not> attenuates (permission_validity (gr_temporal g)) (permission_validity (gr_temporal parent))
                                \<or> \<not> covered_by permission_is_attenuated (gr_permissions g) (gr_permissions parent)
                               then Inr (Settled GrantInvalid)
                             else Inr (Derives (Some parent_state))
                         | _ \<Rightarrow> raise KeyError ''permissions'')))))"

text \<open>The checks of a grant up to its acceptances.\<close>

definition grant_look ::
  "view \<Rightarrow> relationship option \<Rightarrow> pystr list \<Rightarrow> (pystr \<times> granted) list \<Rightarrow> grant \<Rightarrow> look res" where
  "grant_look V rel pending result g =
     (if (case gr_parent g of None \<Rightarrow> False | Some r \<Rightarrow> gr_sequence g \<ge> delegation_cutoff V (rf_event_id r))
        then Inr (Settled GrantForked)
      else (case Option.bind rel rl_bond of
          None \<Rightarrow> Inr (Settled GrantIncomplete)
        | Some b \<Rightarrow>
            bindR (relationship_active_at V (the rel) (gr_issued_at_ms g)) (\<lambda>active.
              if \<not> active \<or> participants (snd (bd_offer b)) \<noteq> {gr_grantor g, gr_subject g}
                then Inr (Settled GrantInvalid)
              else (case gr_parent g of
                  None \<Rightarrow> bindR (root_grant_valid V b g) (\<lambda>ok.
                    Inr (if ok then Derives None else Settled GrantInvalid))
                | Some r \<Rightarrow> delegated_look V pending result r g))))"

definition grant_accepted :: "grant row \<Rightarrow> grant_acceptance row \<Rightarrow> bool" where
  "grant_accepted granting accepted =
     (let g = snd granting; a = snd accepted in
       ref_matches (ga_grant a) (fst granting) \<and> ga_relationship_id a = gr_relationship_id g
       \<and> ga_grantor a = gr_grantor g \<and> ga_subject a = gr_subject g
       \<and> gr_issued_at_ms g \<le> ga_accepted_at_ms a
       \<and> contains (permission_validity (gr_temporal g)) (ga_accepted_at_ms a))"

definition grant_ended :: "grant row \<Rightarrow> grant_acceptance row \<Rightarrow> grant_revocation row \<Rightarrow> bool" where
  "grant_ended granting accepted ending =
     (let g = snd granting; r = snd ending in
       gv_actor r = (if gv_revoke r then gr_grantor g else gr_subject g)
       \<and> ref_matches (gv_grant r) (fst granting) \<and> ref_matches (gv_acceptance r) (fst accepted)
       \<and> gv_revoked_at_ms r \<ge> ga_accepted_at_ms (snd accepted))"

fun validity_start :: "validity \<Rightarrow> int" where
  "validity_start (Finite nb na) = nb"
| "validity_start (UntilRevoked nb) = nb"

text \<open>Both parties of a tribe's grant must be active members, with V2 since before it was issued.\<close>

definition tribe_admits :: "view \<Rightarrow> grant \<Rightarrow> bool" where
  "tribe_admits V g =
     (case gr_tribe_ref g of
        None \<Rightarrow> True
      | Some tref \<Rightarrow>
          (case active_tribe V tref of
             None \<Rightarrow> False
           | Some tb \<Rightarrow> list_all (\<lambda>being. case active_member tb being of
                 None \<Rightarrow> False
               | Some e \<Rightarrow> gr_v2 g \<longrightarrow> e_occurred_at_ms e \<le> gr_issued_at_ms g) [gr_grantor g, gr_subject g]))"

text \<open>The state of a grant that passed the checks.\<close>

definition grant_outcome ::
  "view \<Rightarrow> relationship \<Rightarrow> granted option \<Rightarrow> grant row \<Rightarrow> grant_acceptance row list \<Rightarrow> grant_state" where
  "grant_outcome V rel parent granting accepted =
     (case accepted of
        [] \<Rightarrow> GrantOffered
      | [a] \<Rightarrow>
          (let g = snd granting; t = permission_validity (gr_temporal g);
               ends = filter (grant_ended granting a)
                        (filter (\<lambda>r. gv_grant_id (snd r) = gr_grant_id g) (grant_revocations V)) in
           if ends \<noteq> [] then
             (if list_ex (\<lambda>r. gv_revoke (snd r)) ends
              then (if list_ex (\<lambda>r. \<not> gv_revoke (snd r)) ends then GrantRevokedRelinquished else GrantRevoked)
              else GrantRelinquished)
           else if rl_state rel \<noteq> RelActive then GrantClosed
           else if (case parent of None \<Rightarrow> False | Some p \<Rightarrow> gs_state p \<noteq> GrantActive) then gs_state (the parent)
           else if vw_at V < max (max (validity_start t) (gr_issued_at_ms g)) (ga_accepted_at_ms (snd a))
             then GrantNotYet
           else if \<not> contains t (vw_at V) then GrantExpired
           else if tribe_admits V g then GrantActive else GrantClosed)
      | _ \<Rightarrow> GrantForked)"

text \<open>One look at the grant with an id: \<open>None\<close> is \<^verbatim>\<open>continue\<close>.\<close>

definition decide ::
  "view \<Rightarrow> (pystr \<times> relationship) list \<Rightarrow> pystr list \<Rightarrow> (pystr \<times> granted) list \<Rightarrow> pystr \<Rightarrow> granted option res" where
  "decide V rels pending result gid =
     (case grants_with V gid of
        [granting] \<Rightarrow>
          (let g = snd granting; rel = map_of rels (gr_relationship_id g) in
           bindR (grant_look V rel pending result g) (\<lambda>l. Inr (case l of
               Wait \<Rightarrow> None
             | Settled st \<Rightarrow> Some \<lparr>gs_state = st, gs_grant = Some granting, gs_acceptances = []\<rparr>
             | Derives parent \<Rightarrow>
                 (let accepted = filter (grant_accepted granting)
                        (filter (\<lambda>r. ga_grant_id (snd r) = gid) (grant_acceptances V)) in
                  Some \<lparr>gs_state = grant_outcome V (the rel) parent granting accepted,
                        gs_grant = Some granting, gs_acceptances = accepted\<rparr>))))
      | _ \<Rightarrow> Inr (Some \<lparr>gs_state = GrantForked, gs_grant = None, gs_acceptances = []\<rparr>))"

text \<open>The \<^verbatim>\<open>for identifier in sorted(pending)\<close> loop, up to its \<^verbatim>\<open>break\<close>.\<close>

fun first_decided :: "(pystr \<Rightarrow> 'a option res) \<Rightarrow> pystr list \<Rightarrow> (pystr \<times> 'a) option res" where
  "first_decided f [] = Inr None"
| "first_decided f (i # is) =
     bindR (f i) (\<lambda>d. case d of Some x \<Rightarrow> Inr (Some (i, x)) | None \<Rightarrow> first_decided f is)"

lemma first_decided_in: "first_decided f is = Inr (Some (i, x)) \<Longrightarrow> i \<in> set is \<and> f i = Inr (Some x)"
  by (induction "is") (auto simp: bindR_Inr_iff split: option.splits)

text \<open>The \<^verbatim>\<open>while pending\<close> loop, with the ids sorted.\<close>

function settle_grants ::
  "view \<Rightarrow> (pystr \<times> relationship) list \<Rightarrow> pystr list \<Rightarrow> (pystr \<times> granted) list \<Rightarrow> (pystr \<times> granted) list res" where
  "settle_grants V rels pending result =
     (case first_decided (decide V rels pending result) pending of
        Inl e \<Rightarrow> Inl e
      | Inr None \<Rightarrow>
          Inr (result @ map (\<lambda>i. (i, \<lparr>gs_state = GrantIncomplete, gs_grant = None, gs_acceptances = []\<rparr>)) pending)
      | Inr (Some (i, x)) \<Rightarrow> settle_grants V rels (remove1 i pending) (result @ [(i, x)]))"
  by pat_completeness auto
termination
proof (relation "measure (\<lambda>(V, rels, pending, result). length pending)", simp)
  fix V rels pending result x y i and g :: granted
  assume "first_decided (decide V rels pending result) pending = Inr x" "x = Some y" "(i, g) = y"
  then have "i \<in> set pending" using first_decided_in by metis
  then have "0 < length pending" by (cases pending) auto
  with \<open>i \<in> set pending\<close>
  show "((V, rels, remove1 i pending, result @ [(i, g)]), V, rels, pending, result)
      \<in> measure (\<lambda>(V, rels, pending, result). length pending)" by (simp add: length_remove1)
qed

declare settle_grants.simps [simp del]

definition grant_ids :: "view \<Rightarrow> pystr list" where
  "grant_ids V = sort (remdups (map (\<lambda>r. gr_grant_id (snd r)) (grants V)))"

section \<open>The constructor\<close>

record reduction =
  rd_view :: view
  rd_relationships :: "(pystr \<times> relationship) list"
  rd_grants :: "(pystr \<times> granted) list"

definition reduce_view :: "view \<Rightarrow> reduction res" where
  "reduce_view V =
     (if vw_at V < 0 then raise RelationshipStoreError ''invalid_relationship_time''
      else if vw_at V \<ge> 2 ^ 53 \<and> list_ex (\<lambda>r. card_history V (cd_being_ref (snd r)) \<noteq> []) (cards V)
        then raise VerificationError ''invalid validity time''
      else
        bindR (mapR (\<lambda>i. bindR (relationship_of V i) (\<lambda>r. Inr (i, the r))) (relationship_ids V)) (\<lambda>rels.
        bindR (settle_grants V rels (grant_ids V) []) (\<lambda>gs.
          Inr \<lparr>rd_view = V, rd_relationships = rels, rd_grants = gs\<rparr>)))"

end
