(* ===== verification/Relationship_Store.thy ===== *)
theory Relationship_Store
  imports Relationship_View
begin

text \<open>
  What the reduction answers (snapshots, disclosures, reports, the tribes of a being) and the store
  that retains verified relationship events, class \<^verbatim>\<open>RelationshipStore\<close> of
  \<^verbatim>\<open>src/daimon_matrix/relationship_store.py\<close>. The tables are lists of rows in insertion order; the
  file checks, locks and timeouts of SQLite are not modelled.
\<close>

section \<open>Tribe snapshots\<close>

text \<open>The body a member is shown with.\<close>

definition presentation_body :: "view \<Rightarrow> pystr \<Rightarrow> event \<Rightarrow> pystr" where
  "presentation_body V being e =
     (case current_card V being of
        Some (ce, c) \<Rightarrow> cp_embodiment_id (cd_position c)
      | None \<Rightarrow> o_embodiment_id (e_origin e))"

definition active_members :: "tribe \<Rightarrow> (pystr \<times> event) list" where
  "active_members tb =
     List.map_filter (\<lambda>(b, m). map_option (Pair b) (active_member tb b)) (tb_members tb)"

definition member_dict :: "view \<Rightarrow> pystr \<Rightarrow> pystr \<times> event \<Rightarrow> dict" where
  "member_dict V tref = (\<lambda>(b, e).
     [(VStr (str ''tribe_ref''), VStr tref), (VStr (str ''principal_id''), VStr b),
      (VStr (str ''embodiment_id''), VStr (presentation_body V b e)),
      (VStr (str ''membership_ref''), VStr (e_id e)), (VStr (str ''state''), VStr (str ''active''))])"

text \<open>\<^verbatim>\<open>sorted(self.grants.items())\<close>, the active ones with their grant.\<close>

definition active_grants :: "reduction \<Rightarrow> (pystr \<times> grant row) list" where
  "active_grants R =
     List.map_filter (\<lambda>(gid, st). if gs_state st = GrantActive then map_option (Pair gid) (gs_grant st) else None)
       (sort_key fst (rd_grants R))"

definition snapshot_interval :: "bool \<Rightarrow> temporal \<Rightarrow> dict" where
  "snapshot_interval v2 t = (case (v2, t) of
     (False, Window start end_ms) \<Rightarrow>
       [(VStr (str ''not_before_ms''), VInt start), (VStr (str ''not_after_ms''), VInt end_ms)]
   | _ \<Rightarrow> [(VStr (str ''validity''), VDict (validity_dict (permission_validity t)))])"

definition snapshot_grant_dict :: "bool \<Rightarrow> pystr \<Rightarrow> pystr \<Rightarrow> grant \<Rightarrow> nat \<times> permission \<Rightarrow> dict" where
  "snapshot_grant_dict v2 tref gid g = (\<lambda>(n, p).
     [(VStr (str ''tribe_ref''), VStr tref),
      (VStr (str ''grant_ref''), VStr (gid @ str '':'' @ dump_nat n)),
      (VStr (str ''controller_principal_id''), VStr (gr_grantor g)),
      (VStr (str ''grantee_principal_id''), VStr (gr_subject g)),
      (VStr (str ''resource_ref''), VStr (pm_resource_ref p)),
      (VStr (str ''operations''), texts_val (pm_operations p))]
     @ snapshot_interval v2 (gr_temporal g)
     @ [(VStr (str ''parent_grant_ref''), opt_str (map_option rf_event_id (gr_parent g))),
        (VStr (str ''revoked''), VBool False)])"

definition lineage_domain :: string where "lineage_domain = ''daimon/relationship/tribe-lineage/v1''"

text \<open>\<^verbatim>\<open>RelationshipView.snapshot\<close>\<close>

definition tribe_snapshot_of :: "platform \<Rightarrow> reduction \<Rightarrow> pystr \<Rightarrow> verified_snapshot res" where
  "tribe_snapshot_of P R tref =
     (let V = rd_view R in
      case active_tribe V tref of
        None \<Rightarrow> raise RelationshipStoreError ''tribe_history_not_active''
      | Some tb \<Rightarrow>
          (let members = VList (map (VDict \<circ> member_dict V tref) (active_members tb));
               v2 = list_ex (\<lambda>(i, st). case gs_grant st of Some (e, g) \<Rightarrow> gr_v2 g | None \<Rightarrow> False) (rd_grants R);
               rows = VList (concat (map (\<lambda>(gid, (e, g)).
                        map (VDict \<circ> snapshot_grant_dict v2 tref gid g) (enumerate 0 (gr_permissions g)))
                        (filter (\<lambda>(gid, (e, g)). gr_tribe_ref g = Some tref) (active_grants R))));
               decl = VDict (declaration_dict (dd_declaration (snd (tb_declared tb)))) in
           bindR (canonical_bytes P (VDict
             [(VStr (str ''tribe_ref''), VStr tref), (VStr (str ''founder_epoch''), VInt (tb_epoch tb)),
              (VStr (str ''founder_being_ref''), VStr (tb_founder tb)),
              (VStr (str ''members''), members), (VStr (str ''grants''), rows)])) (\<lambda>raw.
             tribe_snapshot P (VDict
               [(VStr (str ''schema''), VStr (str (if v2 then ''dm.tribe-snapshot/v2'' else ''dm.tribe-snapshot/v1''))),
                (VStr (str ''tribe_ref''), VStr tref), (VStr (str ''declaration''), decl),
                (VStr (str ''founder_epoch''), VInt (tb_epoch tb)),
                (VStr (str ''founder_principal_id''), VStr (tb_founder tb)),
                (VStr (str ''lineage_head_ref''),
                 VStr (str ''dm:tribe-lineage:v1:'' @ b64url (sha256 (str lineage_domain @ [0] @ raw)))),
                (VStr (str ''verified_at_ms''), VInt (vw_at V)),
                (VStr (str ''members''), members), (VStr (str ''grants''), rows)])
               (Some (\<lambda>_. Inr ())))))"

section \<open>Disclosure\<close>

record disclosure_request =
  dr_requester :: pystr
  dr_resource_ref :: pystr
  dr_operation :: pystr
  dr_classification :: pystr

record grant_match =
  gm_event_hash :: pystr
  gm_event_id :: pystr
  gm_grant_id :: pystr

definition short_text :: "pystr \<Rightarrow> bool res" where
  "short_text s = bindR (encode_utf8 s) (\<lambda>raw. Inr (1 \<le> length raw \<and> length raw \<le> 256))"

definition discloses :: "disclosure_request \<Rightarrow> grant \<Rightarrow> bool" where
  "discloses q g =
     (gr_subject g = dr_requester q
      \<and> list_ex (\<lambda>p. pm_resource_ref p = dr_resource_ref q \<and> pm_classification p = dr_classification q
                    \<and> dr_operation q \<in> set (pm_operations p)) (gr_permissions g))"

text \<open>\<^verbatim>\<open>RelationshipView.disclosure\<close>: the grants that authorize the request; none is the denial.\<close>

definition disclosure :: "reduction \<Rightarrow> disclosure_request \<Rightarrow> grant_match list res" where
  "disclosure R q =
     bindR (andR (map short_text [dr_requester q, dr_resource_ref q, dr_operation q, dr_classification q])) (\<lambda>ok.
       if \<not> ok then raise RelationshipStoreError ''invalid_relationship_disclosure_request''
       else Inr (map (\<lambda>(gid, (e, g)). \<lparr>gm_event_hash = e_content_hash e, gm_event_id = e_id e, gm_grant_id = gid\<rparr>)
              (filter (\<lambda>(gid, (e, g)). discloses q g) (active_grants R))))"

text \<open>\<^verbatim>\<open>RelationshipSourceDisclosure._allowed\<close>: by a knowledge resource on the controller's current card.\<close>

fun any_disclosed :: "reduction \<Rightarrow> pystr \<Rightarrow> pystr \<Rightarrow> pystr list \<Rightarrow> bool res" where
  "any_disclosed R requester cls [] = Inr False"
| "any_disclosed R requester cls (rref # rest) =
     bindR (disclosure R \<lparr>dr_requester = requester, dr_resource_ref = rref, dr_operation = str ''read'',
                         dr_classification = cls\<rparr>) (\<lambda>ms.
       if ms \<noteq> [] then Inr True else any_disclosed R requester cls rest)"

definition source_allowed :: "reduction \<Rightarrow> pystr \<Rightarrow> pystr \<Rightarrow> pystr \<Rightarrow> pystr \<Rightarrow> bool res" where
  "source_allowed R controller requester source cls =
     (case current_card (rd_view R) controller of
        None \<Rightarrow> Inr False
      | Some (e, c) \<Rightarrow>
          any_disclosed R requester cls
            (map rs_ref (filter (\<lambda>r. let d = rs_descriptor r in
               ds_controller d = controller \<and> ds_kind d = str ''knowledge'' \<and> ds_descriptor_ref d = source
               \<and> ds_classification d = cls \<and> str ''read'' \<in> set (ds_operations d)) (cd_resources c))))"

section \<open>Reports and tribes of a being\<close>

record report =
  rp_at :: int
  rp_event_count :: nat
  rp_complete_count :: nat
  rp_forked :: "pystr list"
  rp_cards :: "(pystr \<times> bool \<times> pystr) list"
  rp_relationships :: "(pystr \<times> rel_state) list"
  rp_tribes :: "(pystr \<times> tribe_state) list"
  rp_grants :: "(pystr \<times> grant_state) list"

definition tribe_ids :: "view \<Rightarrow> pystr list" where
  "tribe_ids V = sort (remdups (map (\<lambda>r. dd_tribe_ref (snd r)) (declarations V)))"

definition tribe_state_of :: "view \<Rightarrow> pystr \<Rightarrow> tribe_state" where
  "tribe_state_of V tref = (case tribe_of V tref of Some (Some tb) \<Rightarrow> tb_state tb | _ \<Rightarrow> TribeForked)"

definition report_of :: "reduction \<Rightarrow> report" where
  "report_of R =
     (let V = rd_view R in
      \<lparr>rp_at = vw_at V, rp_event_count = length (vw_events V), rp_complete_count = length (complete_rows V),
       rp_forked = sort (remdups (filter (forked V) (map (\<lambda>r. e_id (fst r)) (effective V)))),
       rp_cards = map (\<lambda>b. (b, current_card V b \<noteq> None, e_id (fst (last (card_history V b)))))
         (filter (\<lambda>b. card_history V b \<noteq> []) (sort (remdups (map (\<lambda>r. cd_being_ref (snd r)) (cards V))))),
       rp_relationships = map (\<lambda>(i, r). (i, rl_state r)) (sort_key fst (rd_relationships R)),
       rp_tribes = map (\<lambda>t. (t, tribe_state_of V t)) (tribe_ids V),
       rp_grants = map (\<lambda>(i, g). (i, gs_state g)) (sort_key fst (rd_grants R))\<rparr>)"

definition active_tribe_refs :: "view \<Rightarrow> pystr \<Rightarrow> pystr list" where
  "active_tribe_refs V being =
     filter (\<lambda>t. case active_tribe V t of
         None \<Rightarrow> False
       | Some tb \<Rightarrow> (case map_of (tb_members tb) being of None \<Rightarrow> False | Some m \<Rightarrow> mb_state m = MemActive))
       (tribe_ids V)"

definition blocking_active_tribes :: "view \<Rightarrow> pystr \<Rightarrow> pystr option \<Rightarrow> pystr list" where
  "blocking_active_tribes V being tref =
     filter (\<lambda>t. tref = None \<or> tref \<noteq> Some t) (active_tribe_refs V being)"

section \<open>The store\<close>

record rel_store =
  st_rows :: "payload row list"
  st_operations :: "(pystr \<times> (pystr \<times> pystr \<times> pystr)) list"
    \<comment> \<open>request id: request hash, event id and content hash\<close>

definition empty_store :: rel_store where
  "empty_store = \<lparr>st_rows = [], st_operations = []\<rparr>"

definition is_rejection :: "exc \<Rightarrow> bool" where
  "is_rejection e = (is_class KeyError e \<or> is_class RelationshipError e \<or> is_class WeaveProtocolError e)"

text \<open>\<^verbatim>\<open>_validated_event\<close>; the resolver of authorities is an argument of the store.\<close>

definition validated_event :: "platform \<Rightarrow> (pystr \<Rightarrow> authority res) \<Rightarrow> val \<Rightarrow> payload row res" where
  "validated_event P resolver v =
     (let rejected = Exc RelationshipStoreError (str ''relationship_event_rejected'') in
      case v of
        VDict d \<Rightarrow>
          (case dget d ''being_ref'' of
             Some (VStr being) \<Rightarrow>
               bindR (wrapR is_rejection rejected (bindR (resolver being) (\<lambda>A. verify_event P A v))) (\<lambda>e.
                 if e_kind e \<notin> str ` set relationship_event_kinds then Inl rejected
                 else bindR (wrapR (is_class RelationshipError) rejected
                        (validate_relationship_event_payload P (e_kind e) (VDict (e_payload e)) (e_being_ref e))) (\<lambda>p.
                   if e_subject e \<noteq> relationship_event_subject p then Inl rejected else Inr (e, p)))
           | _ \<Rightarrow> Inl rejected)
      | _ \<Rightarrow> Inl rejected)"

definition find_stored :: "rel_store \<Rightarrow> pystr \<Rightarrow> pystr \<Rightarrow> payload row option" where
  "find_stored s i h = find (\<lambda>r. e_id (fst r) = i \<and> e_content_hash (fst r) = h) (st_rows s)"

text \<open>\<^verbatim>\<open>INSERT OR IGNORE\<close> under \<^verbatim>\<open>UNIQUE(event_id, content_hash)\<close>\<close>

definition insert_row :: "payload row \<Rightarrow> rel_store \<Rightarrow> rel_store" where
  "insert_row r s =
     (if find_stored s (e_id (fst r)) (e_content_hash (fst r)) = None
      then s\<lparr>st_rows := st_rows s @ [r]\<rparr> else s)"

definition store_ingest ::
  "platform \<Rightarrow> (pystr \<Rightarrow> authority res) \<Rightarrow> val \<Rightarrow> rel_store \<Rightarrow> (event \<times> rel_store) res" where
  "store_ingest P resolver v s =
     bindR (validated_event P resolver v) (\<lambda>r.
     bindR (canonical_bytes P (event_val (fst r))) (\<lambda>raw. Inr (fst r, insert_row r s)))"

definition store_ingest_idempotent ::
  "platform \<Rightarrow> (pystr \<Rightarrow> authority res) \<Rightarrow> val \<Rightarrow> val \<Rightarrow> val \<Rightarrow> rel_store \<Rightarrow> (event \<times> rel_store) res" where
  "store_ingest_idempotent P resolver request_id request_hash v s =
     (case (request_id, request_hash) of
        (VStr i, VStr h) \<Rightarrow>
          if i = [] \<or> \<not> is_hex64 h then raise RelationshipStoreError ''invalid_relationship_request''
          else bindR (validated_event P resolver v) (\<lambda>r.
            bindR (canonical_bytes P (event_val (fst r))) (\<lambda>raw.
              case map_of (st_operations s) i of
                Some (existing_hash, eid, ehash) \<Rightarrow>
                  if existing_hash \<noteq> h then raise RelationshipStoreError ''relationship_request_conflict''
                  else (case find_stored s eid ehash of
                      None \<Rightarrow> raise RelationshipStoreError ''relationship_operation_corrupt''
                    | Some stored \<Rightarrow> Inr (fst stored, s))
              | None \<Rightarrow>
                  (let w = insert_row r s in
                   Inr (fst r, w\<lparr>st_operations := st_operations w
                          @ [(i, (h, e_id (fst r), e_content_hash (fst r)))]\<rparr>))))
      | _ \<Rightarrow> raise RelationshipStoreError ''invalid_relationship_request'')"

definition store_events :: "rel_store \<Rightarrow> payload row list" where
  "store_events s =
     sort_key (\<lambda>r. (e_being_ref (fst r), o_incarnation_id (e_origin (fst r)), e_sequence (fst r), e_content_hash (fst r))) (st_rows s)"

definition cursor_domain :: string where "cursor_domain = ''daimon/relationship/cursor/v1''"

text \<open>\<^verbatim>\<open>RelationshipStore.cursor\<close>: the variants by id and hash, and their digest.\<close>

definition store_cursor :: "platform \<Rightarrow> rel_store \<Rightarrow> (event_ref list \<times> pystr) res" where
  "store_cursor P s =
     (let variants = map (\<lambda>r. \<lparr>rf_event_id = e_id (fst r), rf_event_hash = e_content_hash (fst r)\<rparr>)
                       (sort_key (\<lambda>r. (e_id (fst r), e_content_hash (fst r))) (store_events s));
          body = VDict [(VStr (str ''schema''), VStr (str ''dm.relationship.cursor/v1'')),
                        (VStr (str ''events''), VList (map (\<lambda>r. VDict
                           [(VStr (str ''event_hash''), VStr (rf_event_hash r)),
                            (VStr (str ''event_id''), VStr (rf_event_id r))]) variants))] in
      bindR (canonical_bytes P body) (\<lambda>raw.
        Inr (variants, b64url (sha256 (str cursor_domain @ [0] @ raw)))))"

text \<open>\<^verbatim>\<open>authorization_view\<close> validates every row again; \<^verbatim>\<open>view\<close> is the historical one.\<close>

definition authorization_view ::
  "platform \<Rightarrow> (pystr \<Rightarrow> authority res) \<Rightarrow> rel_store \<Rightarrow> int \<Rightarrow> (payload \<Rightarrow> int \<Rightarrow> bool) option \<Rightarrow> reduction res" where
  "authorization_view P resolver s at_ms verifier =
     bindR (mapR (\<lambda>r. validated_event P resolver (event_val (fst r))) (st_rows s)) (\<lambda>rows.
       reduce_view \<lparr>vw_events = rows, vw_at = at_ms, vw_current = True, vw_verifier = verifier\<rparr>)"

definition store_view :: "rel_store \<Rightarrow> int \<Rightarrow> (payload \<Rightarrow> int \<Rightarrow> bool) option \<Rightarrow> reduction res" where
  "store_view s at_ms verifier =
     reduce_view \<lparr>vw_events = store_events s, vw_at = at_ms, vw_current = False, vw_verifier = verifier\<rparr>"

text \<open>
  \<^verbatim>\<open>RelationshipSourceDisclosure\<close>: the rows disclosed under one view are released only if a view
  of the same rows at the later clock still allows each.
\<close>

fun all_allowed :: "reduction \<Rightarrow> pystr \<Rightarrow> (pystr \<times> pystr \<times> pystr) list \<Rightarrow> bool res" where
  "all_allowed R controller [] = Inr True"
| "all_allowed R controller ((requester, source, cls) # rest) =
     bindR (source_allowed R controller requester source cls) (\<lambda>ok.
       if ok then all_allowed R controller rest else Inr False)"

definition disclosure_scope ::
  "platform \<Rightarrow> (pystr \<Rightarrow> authority res) \<Rightarrow> rel_store \<Rightarrow> (payload \<Rightarrow> int \<Rightarrow> bool) option \<Rightarrow> pystr
     \<Rightarrow> int \<Rightarrow> int \<Rightarrow> (pystr \<times> pystr \<times> pystr) list \<Rightarrow> (pystr \<times> pystr \<times> pystr) list res" where
  "disclosure_scope P resolver s verifier controller opened released asked =
     wrapR (\<lambda>e. is_class RelationshipStoreError e \<or> is_class RelationshipError e)
       (Exc PayloadError (str ''source_disclosure_denied''))
      (bindR (authorization_view P resolver s opened verifier) (\<lambda>R.
       bindR (filterR (\<lambda>(requester, source, cls). source_allowed R controller requester source cls) asked) (\<lambda>disclosed.
       bindR (reduce_view ((rd_view R)\<lparr>vw_at := released\<rparr>)) (\<lambda>later.
       bindR (all_allowed later controller disclosed) (\<lambda>ok.
         if ok then Inr disclosed else raise PayloadError ''source_disclosure_denied'')))))"

end
