(* ===== verification/Relationship_Laws.thy ===== *)
theory Relationship_Laws
  imports Relationship_Store Causal
begin

text \<open>
  The laws of the reduction: what counts as evidence, how a grant comes to its state, and that the
  loops of the code find exactly what their conditions describe.
\<close>

section \<open>Evidence\<close>

abbreviation row_id :: "payload row \<Rightarrow> pystr" where
  "row_id r \<equiv> e_id (fst r)"

definition row_deps :: "payload row \<Rightarrow> pystr set" where
  "row_deps r = reference_ids (snd r)"

text \<open>The rows the completeness loop may take up.\<close>

definition candidate_rows :: "view \<Rightarrow> payload row set" where
  "candidate_rows V = snd ` set (candidates V)"

definition keyed :: "(pystr \<times> payload row) list \<Rightarrow> bool" where
  "keyed xs \<longleftrightarrow> (\<forall>x \<in> set xs. row_id (snd x) = fst x)"

lemma last_filter_in: "x \<in> set xs \<Longrightarrow> P x \<Longrightarrow> last (filter P xs) \<in> set xs \<and> P (last (filter P xs))"
proof -
  assume "x \<in> set xs" "P x"
  then have "filter P xs \<noteq> []" by (auto simp: filter_empty_conv)
  from last_in_set [OF this] show ?thesis by simp
qed

lemma candidates_row:
  assumes "(i, r) \<in> set (candidates V)"
  shows "row_id r = i \<and> r \<in> set (vw_events V) \<and> \<not> forked V i \<and> length (by_id V i) = 1"
proof -
  let ?ok = "\<lambda>r. \<not> forked V (row_id r) \<and> length (by_id V (row_id r)) = 1"
  let ?rows = "filter ?ok (vw_events V)"
  from assms obtain x where x: "x \<in> set ?rows" "row_id x = i" and r: "r = last (filter (\<lambda>r. row_id r = i) ?rows)"
    unfolding candidates_def Let_def by (auto simp del: filter_filter)
  have "r \<in> set ?rows \<and> row_id r = i" unfolding r
    by (rule last_filter_in [where P = "\<lambda>r. row_id r = i", OF x(1)]) (rule x(2))
  then show ?thesis by auto
qed

lemma candidates_keyed [simp]: "keyed (candidates V)"
  using candidates_row by (fastforce simp: keyed_def)

lemma candidates_distinct [simp]: "distinct (map fst (candidates V))"
  by (simp add: candidates_def Let_def comp_def)

lemma sweep_Cons:
  assumes "sweep ((i, r) # pending) found = (rest, found')"
  obtains (found) "row_deps r \<subseteq> fst ` set found" "sweep pending (found @ [(i, r)]) = (rest, found')"
  | (left) rest' where "\<not> row_deps r \<subseteq> fst ` set found" "sweep pending found = (rest', found')" "rest = (i, r) # rest'"
  using assms by (auto simp: row_deps_def split: if_splits prod.splits)

lemma sweep_length: "sweep pending found = (rest, found') \<Longrightarrow> length rest + length found' = length pending + length found"
proof (induction pending arbitrary: found rest)
  case (Cons x pending)
  obtain i r where x: "x = (i, r)" by (cases x)
  from Cons.prems [unfolded x] show ?case by (cases rule: sweep_Cons) (auto dest: Cons.IH)
qed simp

lemma sweep_sets: "sweep pending found = (rest, found') \<Longrightarrow> set rest \<union> set found' = set pending \<union> set found"
proof (induction pending arbitrary: found rest)
  case (Cons x pending)
  obtain i r where x: "x = (i, r)" by (cases x)
  from Cons.prems [unfolded x] show ?case
  proof (cases rule: sweep_Cons)
    case found
    from Cons.IH [OF found(2)] show ?thesis by (simp add: x Un_commute)
  next
    case (left rest')
    from Cons.IH [OF left(2)] show ?thesis by (simp add: x left(3))
  qed
qed simp

lemma sweep_extends: "sweep pending found = (rest, found') \<Longrightarrow> \<exists>new. found' = found @ new"
proof (induction pending arbitrary: found rest)
  case (Cons x pending)
  obtain i r where x: "x = (i, r)" by (cases x)
  from Cons.prems [unfolded x] show ?case by (cases rule: sweep_Cons) (auto dest: Cons.IH)
qed simp

text \<open>The order in which rows are found is causal.\<close>

lemma sweep_causal:
  assumes "sweep pending found = (rest, found')" and "keyed pending"
    and "causal_order row_id row_deps S (map fst found)" and "snd ` set pending \<subseteq> S"
  shows "causal_order row_id row_deps S (map fst found')"
  using assms
proof (induction pending arbitrary: found rest)
  case (Cons x pending)
  obtain i r where x: "x = (i, r)" by (cases x)
  with Cons.prems have r: "row_id r = i" "r \<in> S" "keyed pending" "snd ` set pending \<subseteq> S" by (auto simp: keyed_def)
  from Cons.prems(1) [unfolded x] show ?case
  proof (cases rule: sweep_Cons)
    case found
    have "causal_order row_id row_deps S (map fst (found @ [(i, r)]))"
      using causal_order_snoc [OF Cons.prems(3) r(2)] found(1) r(1) by simp
    from Cons.IH [OF found(2) r(3) this r(4)] show ?thesis .
  next
    case (left rest')
    from Cons.IH [OF left(2) r(3) Cons.prems(3) r(4)] show ?thesis .
  qed
qed simp

text \<open>A sweep that finds nothing left only rows with a missing reference.\<close>

lemma sweep_stuck:
  "sweep pending found = (rest, found') \<Longrightarrow> length rest = length pending
    \<Longrightarrow> found' = found \<and> (\<forall>x \<in> set pending. \<not> row_deps (snd x) \<subseteq> fst ` set found)"
proof (induction pending arbitrary: found rest)
  case (Cons x pending)
  obtain i r where x: "x = (i, r)" by (cases x)
  from Cons.prems(1) [unfolded x] show ?case
  proof (cases rule: sweep_Cons)
    case found
    with sweep_length [OF found(2)] sweep_extends [OF found(2)] Cons.prems(2) show ?thesis by auto
  next
    case (left rest')
    with Cons show ?thesis by (auto simp: x)
  qed
qed simp

definition loop_ok :: "payload row set \<Rightarrow> (pystr \<times> payload row) list \<Rightarrow> bool" where
  "loop_ok S found \<longleftrightarrow> keyed found \<and> snd ` set found \<subseteq> S \<and> causal_order row_id row_deps S (map fst found)"

lemma complete_loop_ok:
  assumes "keyed pending" and "snd ` set pending \<subseteq> S" and "loop_ok S found"
  shows "loop_ok S (complete_loop pending found) \<and> set found \<subseteq> set (complete_loop pending found)
    \<and> set (complete_loop pending found) \<subseteq> set pending \<union> set found
    \<and> (\<forall>x \<in> set pending. row_deps (snd x) \<subseteq> fst ` set (complete_loop pending found)
         \<longrightarrow> x \<in> set (complete_loop pending found))"
  using assms
proof (induction pending found rule: complete_loop.induct)
  case (1 pending found)
  obtain rest found' where s: "sweep pending found = (rest, found')" by fastforce
  note sets = sweep_sets [OF s]
  have sub: "set found \<subseteq> set found'" using sweep_extends [OF s] by auto
  have "keyed found'" "keyed rest" using sets 1(2,4) by (auto simp: keyed_def loop_ok_def)
  moreover have "snd ` (set rest \<union> set found') \<subseteq> S"
    unfolding sets using 1(3,4) by (simp add: loop_ok_def image_Un)
  then have images: "snd ` set found' \<subseteq> S" "snd ` set rest \<subseteq> S" by (simp_all add: image_Un)
  ultimately have ok: "loop_ok S found'" "keyed rest"
    using sweep_causal [OF s 1(2) _ 1(3)] 1(4) by (auto simp: loop_ok_def)
  show ?case
  proof (cases "length rest < length pending")
    case True
    then have eq: "complete_loop pending found = complete_loop rest found'"
      by (subst complete_loop.simps) (simp add: s)
    note IH = 1(1) [OF s [symmetric] refl True ok(2) images(2) ok(1), folded eq]
    then have "\<forall>x \<in> set rest \<union> set found'. row_deps (snd x) \<subseteq> fst ` set (complete_loop pending found)
        \<longrightarrow> x \<in> set (complete_loop pending found)" by blast
    then show ?thesis using IH sub unfolding sets by blast
  next
    case False
    then have eq: "complete_loop pending found = found'"
      by (subst complete_loop.simps) (simp add: s)
    have "length rest = length pending" using False sweep_length [OF s] sweep_extends [OF s] by auto
    from sweep_stuck [OF s this] ok show ?thesis by (auto simp: eq)
  qed
qed

text \<open>The rows found, in the order of the loop.\<close>

definition found_rows :: "view \<Rightarrow> (pystr \<times> payload row) list" where
  "found_rows V = complete_loop (candidates V) []"

definition complete_ids :: "view \<Rightarrow> pystr set" where
  "complete_ids V = fst ` set (found_rows V)"

lemma found_rows_ok: "loop_ok (candidate_rows V) (found_rows V)" "set (found_rows V) \<subseteq> set (candidates V)"
  "x \<in> set (candidates V) \<Longrightarrow> row_deps (snd x) \<subseteq> complete_ids V \<Longrightarrow> x \<in> set (found_rows V)"
proof -
  have "loop_ok (candidate_rows V) []" "snd ` set (candidates V) \<subseteq> candidate_rows V"
    by (simp_all add: loop_ok_def keyed_def candidate_rows_def)
  note ok = complete_loop_ok [OF candidates_keyed this(2,1), folded found_rows_def complete_ids_def]
  then show "loop_ok (candidate_rows V) (found_rows V)" "set (found_rows V) \<subseteq> set (candidates V)"
    by simp_all
  show "x \<in> set (candidates V) \<Longrightarrow> row_deps (snd x) \<subseteq> complete_ids V \<Longrightarrow> x \<in> set (found_rows V)"
    using ok by blast
qed

interpretation evidence_log: causal_log row_id row_deps "\<lambda>_. True" candidate_rows complete_ids
  "\<lambda>V. map fst (found_rows V)"
proof unfold_locales
  fix V show "set (map fst (found_rows V)) = complete_ids V" by (simp add: complete_ids_def)
  show "causal_order row_id row_deps (candidate_rows V) (map fst (found_rows V))"
    using found_rows_ok(1) by (simp add: loop_ok_def)
  fix r assume "r \<in> candidate_rows V" and deps: "row_deps r \<subseteq> complete_ids V"
  then obtain i where i: "(i, r) \<in> set (candidates V)" by (auto simp: candidate_rows_def)
  with deps have "(i, r) \<in> set (found_rows V)" using found_rows_ok(3) by simp
  then show "row_id r \<in> complete_ids V" using candidates_row [OF i] by (force simp: complete_ids_def)
qed

lemma complete_row_found: "r \<in> set (complete_rows V) \<longleftrightarrow> (row_id r, r) \<in> set (found_rows V)"
proof -
  have "\<forall>x \<in> set (found_rows V). row_id (snd x) = fst x" using found_rows_ok(1) by (simp add: loop_ok_def keyed_def)
  then show ?thesis by (force simp: complete_rows_def found_rows_def)
qed

lemma complete_row:
  assumes "r \<in> set (complete_rows V)"
  shows "r \<in> set (vw_events V) \<and> \<not> forked V (row_id r) \<and> length (by_id V (row_id r)) = 1"
  using assms candidates_row [of "row_id r" r V] found_rows_ok(2) by (auto simp: complete_row_found)

lemma complete_id: "i \<in> complete_ids V \<longleftrightarrow> (\<exists>r \<in> set (complete_rows V). row_id r = i)"
proof -
  have "\<forall>x \<in> set (found_rows V). row_id (snd x) = fst x" using found_rows_ok(1) by (simp add: loop_ok_def keyed_def)
  then show ?thesis by (force simp: complete_ids_def complete_row_found)
qed

lemma complete_row_deps:
  assumes "r \<in> set (complete_rows V)" and "i \<in> row_deps r"
  shows "i \<in> complete_ids V"
proof -
  from assms(1) obtain k where k: "k < length (found_rows V)" "found_rows V ! k = (row_id r, r)"
    unfolding complete_row_found by (metis in_set_conv_nth)
  from evidence_log.feed_grounded [of k V] k obtain r' where r': "r' \<in> candidate_rows V" "row_id r' = row_id r"
    "row_deps r' \<subseteq> complete_ids V"
    by (auto simp: complete_ids_def) (metis (no_types, lifting) image_set in_set_takeD subset_iff)
  from r' obtain j where "(j, r') \<in> set (candidates V)" by (auto simp: candidate_rows_def)
  moreover have "(row_id r, r) \<in> set (candidates V)"
    using assms(1) found_rows_ok(2) by (auto simp: complete_row_found)
  ultimately have "r' = r" using candidates_row r'(2) candidates_distinct by (metis eq_key_imp_eq_value)
  with r'(3) assms(2) show ?thesis by blast
qed

section \<open>Rows by kind\<close>

lemma in_pick: "(e, x) \<in> set (pick f V) \<longleftrightarrow> (\<exists>p. (e, p) \<in> set (evidence V) \<and> f p = Some x)"
  by (force simp: pick_def map_filter_def)

lemma pick_iff:
  assumes "\<And>p. f p = Some x \<longleftrightarrow> p = C x"
  shows "(e, x) \<in> set (pick f V) \<longleftrightarrow> (e, C x) \<in> set (evidence V)"
  by (simp add: in_pick assms)

lemma in_kinds:
  "(e, c) \<in> set (cards V) \<longleftrightarrow> (e, Card c) \<in> set (evidence V)"
  "(e, x) \<in> set (offers V) \<longleftrightarrow> (e, Offer x) \<in> set (evidence V)"
  "(e, a) \<in> set (acceptances V) \<longleftrightarrow> (e, Acceptance a) \<in> set (evidence V)"
  "(e, l) \<in> set (closes V) \<longleftrightarrow> (e, Close l) \<in> set (evidence V)"
  "(e, iv) \<in> set (invitations V) \<longleftrightarrow> (e, Invitation iv) \<in> set (evidence V)"
  "(e, m) \<in> set (membership_acceptances V) \<longleftrightarrow> (e, MembershipAcceptance m) \<in> set (evidence V)"
  "(e, ft) \<in> set (founder_transfers V) \<longleftrightarrow> (e, FounderTransfer ft) \<in> set (evidence V)"
  "(e, fa) \<in> set (founder_acceptances V) \<longleftrightarrow> (e, FounderAcceptance fa) \<in> set (evidence V)"
  "(e, g) \<in> set (grants V) \<longleftrightarrow> (e, Grant g) \<in> set (evidence V)"
  "(e, ga) \<in> set (grant_acceptances V) \<longleftrightarrow> (e, GrantAcceptance ga) \<in> set (evidence V)"
  "(e, gv) \<in> set (grant_revocations V) \<longleftrightarrow> (e, GrantRevocation gv) \<in> set (evidence V)"
  unfolding cards_def offers_def acceptances_def closes_def invitations_def membership_acceptances_def
      founder_transfers_def founder_acceptances_def grants_def grant_acceptances_def grant_revocations_def
  by (rule pick_iff, simp split: payload.split)+

lemma evidence_complete: "r \<in> set (evidence V) \<Longrightarrow> \<not> is_denial (snd r) \<Longrightarrow> r \<in> set (complete_rows V)"
  by (auto simp: evidence_def denials_def split: if_splits)

lemma evidence_event: "r \<in> set (evidence V) \<Longrightarrow> r \<in> set (vw_events V)"
  using complete_row [of r V] by (auto simp: evidence_def denials_def effective_def split: if_splits)

text \<open>With \<^verbatim>\<open>current\<close> every event takes effect, so a complete id names one row.\<close>

lemma current_by_id: "vw_current V \<Longrightarrow> by_id V i = filter (\<lambda>r. row_id r = i) (vw_events V)"
  by (simp add: by_id_def effective_def)

text \<open>
  A view of the past has the same property when no event id is shared by an event that has taken
  effect and one that has not.
\<close>

definition undivided :: "view \<Rightarrow> bool" where
  "undivided V \<longleftrightarrow>
     (\<forall>x \<in> set (vw_events V). \<forall>y \<in> set (effective V). row_id x = row_id y \<longrightarrow> x \<in> set (effective V))"

lemma current_undivided: "vw_current V \<Longrightarrow> undivided V"
  by (simp add: undivided_def effective_def)

lemma complete_by_id:
  assumes "undivided V" and "r \<in> set (complete_rows V)"
  shows "by_id V (row_id r) = [r]"
proof -
  from complete_row [OF assms(2)] have r: "r \<in> set (vw_events V)" "length (by_id V (row_id r)) = 1" by simp_all
  then obtain y where y: "by_id V (row_id r) = [y]" by (cases "by_id V (row_id r)") auto
  then have "y \<in> set (by_id V (row_id r))" by simp
  then have "y \<in> set (effective V)" "row_id y = row_id r" by (simp_all add: by_id_def)
  with assms(1) r(1) have "r \<in> set (effective V)" unfolding undivided_def by metis
  then have "r \<in> set (by_id V (row_id r))" by (simp add: by_id_def)
  with y show ?thesis by simp
qed

text \<open>
  Without it, an event that has not taken effect counts: the constructor takes its candidates from all
  events, and only their number from those in effect.
\<close>

lemma later_variant_counts:
  assumes "vw_events V = [(e, p), (e', p')]" and "\<not> vw_current V" and "e_id e = e_id e'"
    and "e_occurred_at_ms e \<le> vw_at V" "vw_at V < e_occurred_at_ms e'" and "reference_ids p' = {}"
  shows "complete_rows V = [(e', p')]"
proof -
  have eff: "effective V = [(e, p)]" using assms(1,2,4,5) by (simp add: effective_def)
  then have "\<not> forked V (e_id e)" by (simp add: forked_def in_fork_def by_id_def by_position_def fork_cutoff_def forks_def)
  with eff assms(1,3) have "candidates V = [(e_id e', (e', p'))]"
    by (simp add: candidates_def by_id_def Let_def)
  with assms(6) show ?thesis by (simp add: complete_rows_def complete_loop.simps)
qed

lemma single_ref_complete:
  assumes "undivided V" and "rf_event_id ref \<in> complete_ids V" and "single_ref V ref = Some r"
  shows "r \<in> set (complete_rows V) \<and> ref_matches ref (fst r)"
proof -
  from assms(2) obtain r' where r': "r' \<in> set (complete_rows V)" "row_id r' = rf_event_id ref" by (auto simp: complete_id)
  from complete_by_id [OF assms(1) r'(1)] r'(2) assms(3) show ?thesis
    using r'(1) by (auto simp: single_ref_def split: if_splits)
qed

section \<open>How the grants settle\<close>

abbreviation undecided :: granted where
  "undecided \<equiv> \<lparr>gs_state = GrantIncomplete, gs_grant = None, gs_acceptances = []\<rparr>"

text \<open>A state that one look gave, on results that still stand at the end.\<close>

definition settled_by :: "view \<Rightarrow> (pystr \<times> relationship) list \<Rightarrow> (pystr \<times> granted) list \<Rightarrow> pystr \<Rightarrow> granted \<Rightarrow> bool" where
  "settled_by V rels out i x \<longleftrightarrow>
     (\<exists>pending result. decide V rels pending result i = Inr (Some x) \<and> map_of result \<subseteq>\<^sub>m map_of out)"

lemma map_of_prefix: "map_of xs \<subseteq>\<^sub>m map_of (xs @ ys)"
  by (auto simp: map_le_def)

lemma settle_grants_sound:
  assumes "settle_grants V rels pending result = Inr out" and "distinct (map fst result @ pending)"
  shows "map_of result \<subseteq>\<^sub>m map_of out \<and> fst ` set out = fst ` set result \<union> set pending \<and> distinct (map fst out)
    \<and> (\<forall>i x. map_of out i = Some x \<longrightarrow> map_of result i = Some x \<or> x = undecided \<or> settled_by V rels out i x)"
  using assms
proof (induction V rels pending result rule: settle_grants.induct)
  case (1 V rels pending result)
  show ?case
  proof (cases "first_decided (decide V rels pending result) pending")
    case (Inl e)
    with 1(2) show ?thesis by (subst (asm) settle_grants.simps) simp
  next
    case (Inr d)
    show ?thesis
    proof (cases d)
      case None
      then have out: "out = result @ map (\<lambda>i. (i, undecided)) pending"
        using 1(2) Inr by (subst (asm) settle_grants.simps) simp
      have "map_of (map (\<lambda>i. (i, undecided)) pending) i = Some x \<Longrightarrow> x = undecided" for i x
        by (auto dest: map_of_SomeD)
      moreover have "fst ` set out = fst ` set result \<union> set pending" by (simp add: out image_Un image_image)
      ultimately show ?thesis using 1(3) by (auto simp: out map_le_def map_add_Some_iff comp_def)
    next
      case (Some ix)
      obtain i x where ix: "ix = (i, x)" by (cases ix)
      note look = first_decided_in [OF Inr [unfolded Some ix]]
      have rec: "settle_grants V rels (remove1 i pending) (result @ [(i, x)]) = Inr out"
        using 1(2) Inr by (subst (asm) settle_grants.simps) (simp add: Some ix)
      have d: "distinct (map fst (result @ [(i, x)]) @ remove1 i pending)" using 1(3) look by auto
      note IH = 1(1) [OF Inr Some ix [symmetric] rec d]
      have fresh: "map_of result i = None" using 1(3) look by (auto simp: map_of_eq_None_iff)
      have keys: "fst ` set (result @ [(i, x)]) \<union> set (remove1 i pending) = fst ` set result \<union> set pending"
        using look 1(3) by auto
      from IH have le: "map_of (result @ [(i, x)]) \<subseteq>\<^sub>m map_of out" by blast
      then have "settled_by V rels out i x"
        using look map_le_trans [OF map_of_prefix] unfolding settled_by_def by blast
      moreover have "map_of (result @ [(i, x)]) j = Some y \<Longrightarrow> map_of result j = Some y \<or> (j = i \<and> y = x)" for j y
        by (auto simp: map_add_Some_iff split: if_splits)
      ultimately have "map_of out j = Some y \<longrightarrow> map_of result j = Some y \<or> y = undecided \<or> settled_by V rels out j y" for j y
        using IH by metis
      moreover have "map_of result \<subseteq>\<^sub>m map_of out" by (rule map_le_trans [OF map_of_prefix le])
      ultimately show ?thesis using IH keys by simp
    qed
  qed
qed

lemma grant_ids_distinct: "distinct (grant_ids V)"
  by (simp add: grant_ids_def)

lemma reduce_view_Inr:
  assumes "reduce_view V = Inr R"
  shows "rd_view R = V" and "0 \<le> vw_at V"
    and "settle_grants V (rd_relationships R) (grant_ids V) [] = Inr (rd_grants R)"
    and "list_all2 (\<lambda>i r. fst r = i \<and> (\<exists>x. relationship_of V i = Inr x \<and> snd r = the x)) (relationship_ids V) (rd_relationships R)"
  using assms by (auto simp: reduce_view_def res mapR_Inr_iff bindR_Inr_iff split: if_splits elim!: list_all2_mono)

lemma settled_grant:
  assumes "reduce_view V = Inr R" and "map_of (rd_grants R) i = Some x" and "x \<noteq> undecided"
  shows "settled_by V (rd_relationships R) (rd_grants R) i x"
proof -
  have "distinct (map fst [] @ grant_ids V)" by (simp add: grant_ids_distinct)
  from settle_grants_sound [OF reduce_view_Inr(3) [OF assms(1)] this] assms(2)
  have "map_of [] i = Some x \<or> x = undecided \<or> settled_by V (rd_relationships R) (rd_grants R) i x" by blast
  with assms(3) show ?thesis by simp
qed

lemma relationship_entry:
  assumes "reduce_view V = Inr R" and "map_of (rd_relationships R) i = Some rel"
  shows "relationship_of V i = Inr (Some rel)"
proof -
  from reduce_view_Inr(4) [OF assms(1)] map_of_SomeD [OF assms(2)] obtain x
    where "i \<in> set (relationship_ids V)" "relationship_of V i = Inr x" "rel = the x"
    by (fastforce simp: list_all2_conv_all_nth in_set_conv_nth)
  then show ?thesis
    by (cases x) (auto simp: relationship_of_def relationship_ids_def filter_empty_conv res split: list.splits)
qed

lemma preceding_look_cases: "preceding_look V pending result parent g = Some l \<Longrightarrow> l = Wait \<or> l = Settled GrantIncomplete"
  by (auto simp: preceding_look_def split: if_splits option.splits list.splits)

text \<open>What a delegated grant passed.\<close>

lemma delegated_look_cases:
  assumes "delegated_look V pending result r g = Inr l"
  obtains (derives) pe pg ps where "l = Derives (Some ps)" "single_ref V r = Some (pe, Grant pg)"
      "map_of result (gr_grant_id pg) = Some ps" "gs_state ps \<in> delegable_states" "gs_state ps \<noteq> GrantForked"
      "gr_subject pg = gr_grantor g"
      "attenuates (permission_validity (gr_temporal g)) (permission_validity (gr_temporal pg))"
      "covered_by permission_is_attenuated (gr_permissions g) (gr_permissions pg)"
      "preceding_look V pending result (rf_event_id r) g = None"
  | (other) st where "l = Settled st" "st \<in> {GrantIncomplete, GrantForked, GrantInvalid}"
  | (wait) "l = Wait"
proof (cases "single_ref V r")
  case None
  with assms other show thesis by (auto simp: delegated_look_def)
next
  case (Some row)
  with assms obtain pid where pid: "grant_id_of (snd row) = Inr pid" by (auto simp: delegated_look_def res)
  show thesis
  proof (cases "preceding_look V pending result (rf_event_id r) g")
    case None
    with assms Some pid other wait derives [of _ "fst row"] show thesis
      by (cases row) (auto simp: delegated_look_def grant_id_of_def split: if_splits option.splits payload.splits)
  next
    case before: (Some l')
    from preceding_look_cases [OF this] assms Some pid before other wait show thesis
      by (auto simp: delegated_look_def split: if_splits option.splits)
  qed
qed

text \<open>What an active grant passed.\<close>

lemma decide_active:
  assumes "decide V rels pending result i = Inr (Some x)" and "gs_state x = GrantActive"
  obtains granting rel parent a where "grants_with V i = [granting]" "gs_grant x = Some granting"
    "gs_acceptances x = [a]" "map_of rels (gr_relationship_id (snd granting)) = Some rel"
    "grant_look V (Some rel) pending result (snd granting) = Inr (Derives parent)"
    "a \<in> set (grant_acceptances V)" "grant_accepted granting a"
    "grant_outcome V rel parent granting [a] = GrantActive"
    "filter (grant_accepted granting) (filter (\<lambda>r. ga_grant_id (snd r) = i) (grant_acceptances V)) = [a]"
proof -
  from assms obtain granting where g: "grants_with V i = [granting]"
    by (auto simp: decide_def split: list.splits)
  let ?rel = "map_of rels (gr_relationship_id (snd granting))"
  let ?acc = "filter (grant_accepted granting) (filter (\<lambda>r. ga_grant_id (snd r) = i) (grant_acceptances V))"
  from assms(1) g obtain l where l: "grant_look V ?rel pending result (snd granting) = Inr l"
    by (auto simp: decide_def Let_def res)
  have no: "l \<noteq> Settled GrantActive"
    using l by (auto simp: grant_look_def res split: if_splits option.splits elim!: delegated_look_cases)
  from assms g l no obtain parent where parent: "l = Derives parent"
    and x: "x = \<lparr>gs_state = grant_outcome V (the ?rel) parent granting ?acc, gs_grant = Some granting, gs_acceptances = ?acc\<rparr>"
    by (auto simp: decide_def Let_def split: look.splits)
  from assms(2) x obtain a where a: "?acc = [a]"
    by (auto simp: grant_outcome_def split: list.splits)
  have "?rel \<noteq> None" using l parent by (cases ?rel) (auto simp: grant_look_def split: if_splits)
  then obtain rel where rel: "?rel = Some rel" by blast
  from a have "a \<in> set (grant_acceptances V)" "grant_accepted granting a"
    by (metis (no_types, lifting) list.set_intros(1) mem_Collect_eq set_filter)+
  with that [OF g _ _ rel] l parent x a assms(2) rel show thesis by simp
qed

end
