(* ===== verification/Grant_Laws.thy ===== *)
theory Grant_Laws
  imports Relationship_Laws
begin

text \<open>
  Where the authority of an active grant comes from: the chain of grants it was delegated along, and
  how permissions shrink on the way.
\<close>

section \<open>Rows that rest on earlier rows\<close>

lemma found_rows_distinct: "(i, r) \<in> set (found_rows V) \<Longrightarrow> (i, r') \<in> set (found_rows V) \<Longrightarrow> r = r'"
  using found_rows_ok(2) [of V] candidates_distinct [of V] by (metis eq_key_imp_eq_value subsetD)

lemma complete_rows_unique: "r \<in> set (complete_rows V) \<Longrightarrow> r' \<in> set (complete_rows V) \<Longrightarrow> row_id r = row_id r' \<Longrightarrow> r = r'"
  using found_rows_distinct by (auto simp: complete_row_found)

text \<open>Rule induction along references.\<close>

lemma complete_rows_induct [consumes 1, case_names row]:
  assumes "r \<in> set (complete_rows V)"
    and step: "\<And>r. r \<in> set (complete_rows V)
      \<Longrightarrow> (\<And>r'. r' \<in> set (complete_rows V) \<Longrightarrow> row_id r' \<in> row_deps r \<Longrightarrow> Q r') \<Longrightarrow> Q r"
  shows "Q r"
proof -
  let ?f = "found_rows V"
  have "k < length ?f \<Longrightarrow> ?f ! k = (row_id r, r) \<Longrightarrow> Q r" for k r
  proof (induction k arbitrary: r rule: less_induct)
    case (less k)
    then have r: "r \<in> set (complete_rows V)" by (metis complete_row_found nth_mem)
    from evidence_log.feed_grounded [of k V] less.prems obtain s where s: "s \<in> candidate_rows V" "row_id s = row_id r"
      "row_deps s \<subseteq> set (take k (map fst ?f))" by auto
    from s(1) obtain i where "(i, s) \<in> set (candidates V)" by (auto simp: candidate_rows_def)
    moreover have "(row_id r, r) \<in> set (candidates V)" using r found_rows_ok(2) by (auto simp: complete_row_found)
    ultimately have "s = r" using candidates_row s(2) candidates_distinct by (metis eq_key_imp_eq_value)
    show ?case
    proof (rule step [OF r])
      fix r' assume r': "r' \<in> set (complete_rows V)" "row_id r' \<in> row_deps r"
      have "row_id r' \<in> set (take k (map fst ?f))" using s(3) r'(2) unfolding \<open>s = r\<close> by (rule subsetD)
      then have "\<exists>j<k. fst (?f ! j) = row_id r'" using less.prems(1) unfolding in_set_conv_nth by auto
      then obtain j where j: "j < k" "fst (?f ! j) = row_id r'" by blast
      then have "?f ! j = (row_id r', snd (?f ! j))" by (metis prod.collapse)
      moreover have "?f ! j \<in> set ?f" using j(1) less.prems(1) by simp
      ultimately have "?f ! j = (row_id r', r')" using r'(1) found_rows_distinct by (metis complete_row_found)
      with less.IH [OF j(1)] j(1) less.prems(1) show "Q r'" by simp
    qed
  qed
  moreover have "(row_id r, r) \<in> set ?f" using assms(1) by (simp only: complete_row_found)
  ultimately show ?thesis by (metis in_set_conv_nth)
qed

section \<open>Active grants\<close>

definition active_grant :: "reduction \<Rightarrow> grant row \<Rightarrow> bool" where
  "active_grant R r \<longleftrightarrow> (\<exists>st. map_of (rd_grants R) (gr_grant_id (snd r)) = Some st \<and> gs_state st = GrantActive
     \<and> gs_grant st = Some r)"

text \<open>
  A root grant in an active relationship of its two parties: the offer proposed it, and every permission
  is of a resource that names the grantor as its controller.
\<close>

definition rooted :: "reduction \<Rightarrow> grant row \<Rightarrow> bool" where
  "rooted R r \<longleftrightarrow> (\<exists>rel b resources. map_of (rd_relationships R) (gr_relationship_id (snd r)) = Some rel
     \<and> rl_state rel = RelActive \<and> rl_bond rel = Some b \<and> gr_parent (snd r) = None
     \<and> participants (snd (bd_offer b)) = {gr_grantor (snd r), gr_subject (snd r)}
     \<and> grant_is_bounded_by_offer (snd r) (snd (bd_offer b)) \<and> described_by (snd r) resources
     \<and> (resources \<noteq> [] \<longrightarrow> (\<exists>e c. (e, Card c) \<in> set (vw_events (rd_view R)) \<and> cd_resources c = resources)))"

definition delegated :: "grant row \<Rightarrow> grant row \<Rightarrow> bool" where
  "delegated p r \<longleftrightarrow> (\<exists>ref. gr_parent (snd r) = Some ref \<and> ref_matches ref (fst p))
     \<and> gr_subject (snd p) = gr_grantor (snd r)
     \<and> attenuates (permission_validity (gr_temporal (snd r))) (permission_validity (gr_temporal (snd p)))
     \<and> covered_by permission_is_attenuated (gr_permissions (snd r)) (gr_permissions (snd p))"

inductive authority_chain :: "reduction \<Rightarrow> grant row list \<Rightarrow> bool" for R where
  root: "active_grant R r \<Longrightarrow> rooted R r \<Longrightarrow> authority_chain R [r]"
| delegate: "authority_chain R (rs @ [p]) \<Longrightarrow> active_grant R r \<Longrightarrow> delegated p r \<Longrightarrow> authority_chain R (rs @ [p, r])"

lemma grant_look_derives:
  assumes "grant_look V (Some rel) pending result g = Inr (Derives parent)"
  obtains b where "rl_bond rel = Some b" "relationship_active_at V rel (gr_issued_at_ms g) = Inr True"
    "participants (snd (bd_offer b)) = {gr_grantor g, gr_subject g}"
    "gr_parent g = None \<and> parent = None \<and> root_grant_valid V b g = Inr True
     \<or> (\<exists>r. gr_parent g = Some r \<and> delegated_look V pending result r g = Inr (Derives parent))"
  using assms by (auto simp: grant_look_def res split: if_splits option.splits)

lemma grant_outcome_active:
  assumes "grant_outcome V rel parent granting [a] = GrantActive"
  shows "rl_state rel = RelActive" and "parent = Some ps \<Longrightarrow> gs_state ps = GrantActive"
    and "filter (grant_ended granting a)
           (filter (\<lambda>r. gv_grant_id (snd r) = gr_grant_id (snd granting)) (grant_revocations V)) = []"
    and "contains (permission_validity (gr_temporal (snd granting))) (vw_at V)"
    and "gr_issued_at_ms (snd granting) \<le> vw_at V" and "ga_accepted_at_ms (snd a) \<le> vw_at V"
    and "tribe_admits V (snd granting)"
  using assms by (auto simp: grant_outcome_def Let_def not_less split: if_splits option.splits)

lemma granting_row:
  assumes "grants_with V i = [r]" shows "r \<in> set (grants V)" and "gr_grant_id (snd r) = i"
proof -
  have "r \<in> set (grants_with V i)" by (simp add: assms)
  then show "r \<in> set (grants V)" "gr_grant_id (snd r) = i" by (simp_all add: grants_with_def)
qed

lemma granting_complete:
  "(e, g) \<in> set (grants V) \<Longrightarrow> (e, Grant g) \<in> set (complete_rows V)"
  using evidence_complete [of "(e, Grant g)" V] by (simp add: in_kinds is_denial_def)

text \<open>What stands behind an active grant.\<close>

lemma active_grantE:
  assumes "reduce_view V = Inr R" and "active_grant R r"
  obtains rel b parent a where "grants_with V (gr_grant_id (snd r)) = [r]"
    "map_of (rd_relationships R) (gr_relationship_id (snd r)) = Some rel" "rl_bond rel = Some b"
    "participants (snd (bd_offer b)) = {gr_grantor (snd r), gr_subject (snd r)}"
    "grant_outcome V rel parent r [a] = GrantActive" "a \<in> set (grant_acceptances V)" "grant_accepted r a"
    "gr_parent (snd r) = None \<and> parent = None \<and> root_grant_valid V b (snd r) = Inr True
     \<or> (\<exists>ref pending result. gr_parent (snd r) = Some ref \<and> map_of result \<subseteq>\<^sub>m map_of (rd_grants R)
          \<and> delegated_look V pending result ref (snd r) = Inr (Derives parent))"
proof -
  from assms(2) obtain st where st: "map_of (rd_grants R) (gr_grant_id (snd r)) = Some st" "gs_state st = GrantActive"
    "gs_grant st = Some r" by (auto simp: active_grant_def)
  then have "st \<noteq> undecided" by auto
  from settled_grant [OF assms(1) st(1) this] obtain pending result
    where d: "decide V (rd_relationships R) pending result (gr_grant_id (snd r)) = Inr (Some st)"
      and le: "map_of result \<subseteq>\<^sub>m map_of (rd_grants R)" by (auto simp: settled_by_def)
  from d st(2) show thesis
  proof (cases rule: decide_active)
    case (1 granting rel parent a)
    with st(3) have r: "granting = r" by simp
    from 1(5) [unfolded r] show thesis
      by (cases rule: grant_look_derives) (use that 1 r le in blast)
  qed
qed

lemma active_grant_of_state:
  assumes "reduce_view V = Inr R" and "map_of (rd_grants R) i = Some st" and "gs_state st = GrantActive"
  obtains r where "gs_grant st = Some r" "active_grant R r" "grants_with V i = [r]"
proof -
  have "st \<noteq> undecided" using assms(3) by auto
  from settled_grant [OF assms(1,2) this] obtain pending result
    where d: "decide V (rd_relationships R) pending result i = Inr (Some st)" by (auto simp: settled_by_def)
  from d assms(3) show thesis
  proof (cases rule: decide_active)
    case (1 granting rel parent a)
    with assms(2,3) granting_row(2) [OF 1(1)] that show thesis by (auto simp: active_grant_def)
  qed
qed

lemma root_grant_validE:
  assumes "root_grant_valid V b g = Inr True"
  obtains resources where "described_by g resources" "grant_is_bounded_by_offer g (snd (bd_offer b))"
    "resources \<noteq> [] \<Longrightarrow> \<exists>e c. (e, Card c) \<in> set (vw_events V) \<and> cd_resources c = resources"
proof -
  have ev: "single_ref V r = Some row \<Longrightarrow> row \<in> set (vw_events V)" for r row
    by (auto simp: single_ref_def by_id_def effective_def split: list.splits if_splits)
      (metis (no_types, lifting) filter_is_subset list.set_intros(1) subsetD)
  from assms that show thesis
    by (auto simp: root_grant_valid_def Let_def res split: option.splits payload.splits if_splits)
      (metis ev prod.collapse)+
qed

text \<open>A grant that derives from an active parent extends the parent's chain.\<close>

lemma chain_of_delegated:
  assumes R: "reduce_view V = Inr R" and cur: "undivided V" and active: "active_grant R r"
    and row: "(fst r, Grant (snd r)) \<in> set (complete_rows V)"
    and parents: "\<And>pe pg. (pe, Grant pg) \<in> set (complete_rows V) \<Longrightarrow> row_id (pe, Grant pg) \<in> row_deps (fst r, Grant (snd r))
      \<Longrightarrow> active_grant R (pe, pg) \<Longrightarrow> \<exists>rs. authority_chain R (rs @ [(pe, pg)])"
    and ref: "gr_parent (snd r) = Some ref" and le: "map_of result \<subseteq>\<^sub>m map_of (rd_grants R)"
    and look: "delegated_look V pending result ref (snd r) = Inr (Derives parent)"
    and out: "grant_outcome V rel parent r [a] = GrantActive"
  shows "\<exists>rs. authority_chain R (rs @ [r])"
  using look
proof (cases rule: delegated_look_cases)
  case (derives pe pg ps)
  from ref have dep: "rf_event_id ref \<in> row_deps (fst r, Grant (snd r))" by (simp add: row_deps_def reference_ids_def)
  from single_ref_complete [OF cur complete_row_deps [OF row dep] derives(2)]
  have parent: "(pe, Grant pg) \<in> set (complete_rows V)" "ref_matches ref pe" by simp_all
  have ps: "map_of (rd_grants R) (gr_grant_id pg) = Some ps"
    using le derives(3) by (metis (no_types, lifting) domI map_le_def)
  have "gs_state ps = GrantActive" using grant_outcome_active(2) [OF out] derives(1) by simp
  from active_grant_of_state [OF R ps this] obtain p where p: "active_grant R p" "grants_with V (gr_grant_id pg) = [p]"
    by metis
  have "(pe, pg) \<in> set (grants V)" using parent(1) by (simp add: in_kinds evidence_def)
  then have "(pe, pg) \<in> set (grants_with V (gr_grant_id pg))" by (simp add: grants_with_def)
  then have "p = (pe, pg)" by (simp add: p(2))
  moreover have "row_id (pe, Grant pg) \<in> row_deps (fst r, Grant (snd r))" using dep parent(2) by (simp add: ref_matches_def)
  ultimately obtain rs where chain: "authority_chain R (rs @ [(pe, pg)])" using parents [OF parent(1)] p(1) by auto
  have "delegated (pe, pg) r" using ref parent(2) derives(6-8) by (simp add: delegated_def)
  from authority_chain.delegate [OF chain active this] show ?thesis by (intro exI [of _ "rs @ [(pe, pg)]"]) simp
qed (use out in auto)

text \<open>Every active grant of an undivided view has its chain.\<close>

lemma chain_of_active:
  assumes R: "reduce_view V = Inr R" and cur: "undivided V" and "active_grant R r"
  shows "\<exists>rs. authority_chain R (rs @ [r])"
proof -
  have "\<forall>r. x = (fst r, Grant (snd r)) \<longrightarrow> active_grant R r \<longrightarrow> (\<exists>rs. authority_chain R (rs @ [r]))"
    if "x \<in> set (complete_rows V)" for x
    using that
  proof (induction rule: complete_rows_induct)
    case (row x)
    show ?case
    proof (intro allI impI)
      fix r assume x: "x = (fst r, Grant (snd r))" and active: "active_grant R r"
      show "\<exists>rs. authority_chain R (rs @ [r])"
      proof (rule active_grantE [OF R active])
        fix rel b parent a
        assume rel: "map_of (rd_relationships R) (gr_relationship_id (snd r)) = Some rel" "rl_bond rel = Some b"
            "participants (snd (bd_offer b)) = {gr_grantor (snd r), gr_subject (snd r)}"
          and out: "grant_outcome V rel parent r [a] = GrantActive"
          and look: "gr_parent (snd r) = None \<and> parent = None \<and> root_grant_valid V b (snd r) = Inr True
            \<or> (\<exists>ref pending result. gr_parent (snd r) = Some ref \<and> map_of result \<subseteq>\<^sub>m map_of (rd_grants R)
                \<and> delegated_look V pending result ref (snd r) = Inr (Derives parent))"
        from look show ?thesis
        proof (elim disjE exE conjE)
          assume "gr_parent (snd r) = None" and root: "root_grant_valid V b (snd r) = Inr True"
          with root_grant_validE [OF root] rel grant_outcome_active(1) [OF out] reduce_view_Inr(1) [OF R]
          have "rooted R r" unfolding rooted_def by metis
          from authority_chain.root [OF active this] show ?thesis by (intro exI [of _ "[]"]) simp
        next
          fix ref pending result
          assume "gr_parent (snd r) = Some ref" and "map_of result \<subseteq>\<^sub>m map_of (rd_grants R)"
            and "delegated_look V pending result ref (snd r) = Inr (Derives parent)"
          from chain_of_delegated [OF R cur active _ _ this out] row x show ?thesis by fastforce
        qed
      qed
    qed
  qed
  moreover from assms(3) have "(fst r, Grant (snd r)) \<in> set (complete_rows V)"
  proof (rule active_grantE [OF R])
    assume "grants_with V (gr_grant_id (snd r)) = [r]"
    from granting_complete [of "fst r" "snd r"] granting_row(1) [OF this] show ?thesis by simp
  qed
  ultimately show ?thesis using assms(3) by blast
qed

section \<open>What a chain of grants passes on\<close>

lemma chain_active: "authority_chain R rs \<Longrightarrow> x \<in> set rs \<Longrightarrow> active_grant R x"
  by (induction rule: authority_chain.induct) auto

lemma find_in: "find P xs = Some x \<Longrightarrow> x \<in> set xs \<and> P x"
  by (induction xs) (auto split: if_splits)

lemma permission_at_in:
  assumes "permission_at ps rref op = Some p"
  shows "p \<in> set ps \<and> pm_resource_ref p = rref \<and> op \<in> set (pm_operations p)"
  using find_in [OF assms [unfolded permission_at_def]] by simp

lemma covered_by_at:
  assumes "covered_by ok child parent" and "permission_at child rref op = Some c"
  obtains q where "permission_at parent rref op = Some q" "ok c q"
proof -
  from permission_at_in [OF assms(2)] have c: "c \<in> set child" "pm_resource_ref c = rref" "op \<in> set (pm_operations c)"
    by simp_all
  with assms(1) have "case (permission_at child rref op, permission_at parent rref op) of
      (Some c, Some q) \<Rightarrow> ok c q | _ \<Rightarrow> False" by (auto simp: covered_by_def list_all_iff)
  with assms(2) that show thesis by (auto split: option.splits)
qed

text \<open>
  Along a chain the resource, the operation and the classification stay, and each step takes at
  least one from the depth.
\<close>

lemma chain_permission:
  assumes "authority_chain R (rs @ [r])" and "permission_at (gr_permissions (snd r)) rref op = Some c"
  shows "rooted R (hd (rs @ [r])) \<and> (\<exists>q. permission_at (gr_permissions (snd (hd (rs @ [r])))) rref op = Some q
    \<and> pm_classification q = pm_classification c \<and> pm_depth c + int (length rs) \<le> pm_depth q)"
  using assms
proof (induction "rs @ [r]" arbitrary: rs r c rule: authority_chain.induct)
  case (root r0)
  then show ?case by auto
next
  case (delegate rs0 p r0)
  then have r: "r = r0" "rs = rs0 @ [p]" by auto
  from delegate.hyps(4) have "covered_by permission_is_attenuated (gr_permissions (snd r0)) (gr_permissions (snd p))"
    by (simp add: delegated_def)
  from covered_by_at [OF this delegate.prems [unfolded r]] obtain q
    where q: "permission_at (gr_permissions (snd p)) rref op = Some q" "permission_is_attenuated c q" by metis
  have "pm_classification q = pm_classification c" "pm_depth c + 1 \<le> pm_depth q"
    using q(2) by (auto simp: permission_is_attenuated_def)
  then show ?case using delegate.hyps(2) [OF refl q(1)] r by (cases rs0) auto
qed

lemma rooted_resource:
  assumes "rooted R r" and "permission_at (gr_permissions (snd r)) rref op = Some q"
  obtains e c x where "(e, Card c) \<in> set (vw_events (rd_view R))" "x \<in> set (cd_resources c)" "rs_ref x = rref"
    "ds_controller (rs_descriptor x) = gr_grantor (snd r)" "op \<in> set (ds_operations (rs_descriptor x))"
    "ds_classification (rs_descriptor x) = pm_classification q"
proof -
  from assms(1) obtain resources where d: "described_by (snd r) resources"
    and card: "resources \<noteq> [] \<longrightarrow> (\<exists>e c. (e, Card c) \<in> set (vw_events (rd_view R)) \<and> cd_resources c = resources)"
    unfolding rooted_def by metis
  from permission_at_in [OF assms(2)] d obtain x where "find (\<lambda>x. rs_ref x = rref) (rev resources) = Some x"
    "ds_controller (rs_descriptor x) = gr_grantor (snd r)" "pm_classification q = ds_classification (rs_descriptor x)"
    "op \<in> set (ds_operations (rs_descriptor x))"
    by (fastforce simp: described_by_def list_all_iff split: option.splits)
  moreover from this(1) have "x \<in> set resources" "rs_ref x = rref"
    using find_in by fastforce+
  moreover from this(1) card obtain e c where "(e, Card c) \<in> set (vw_events (rd_view R))" "cd_resources c = resources"
    by (cases resources) auto
  ultimately show thesis using that by metis
qed

lemma discloses_at:
  assumes "discloses q g" obtains c where "permission_at (gr_permissions g) (dr_resource_ref q) (dr_operation q) = Some c"
proof -
  from assms obtain p where "p \<in> set (gr_permissions g)" "pm_resource_ref p = dr_resource_ref q"
    "dr_operation q \<in> set (pm_operations p)" by (auto simp: discloses_def list_ex_iff)
  then have "permission_at (gr_permissions g) (dr_resource_ref q) (dr_operation q) \<noteq> None"
    by (auto simp: permission_at_def find_None_iff)
  then show thesis using that by blast
qed

lemma disclosure_match:
  assumes "reduce_view V = Inr R" and "disclosure R q = Inr ms" and "m \<in> set ms"
  obtains r where "active_grant R r" "discloses q (snd r)"
    "m = \<lparr>gm_event_hash = e_content_hash (fst r), gm_event_id = e_id (fst r), gm_grant_id = gr_grant_id (snd r)\<rparr>"
proof -
  from assms(2) have ms: "ms = map (\<lambda>(gid, (e, g)). \<lparr>gm_event_hash = e_content_hash e, gm_event_id = e_id e, gm_grant_id = gid\<rparr>)
      (filter (\<lambda>(gid, (e, g)). discloses q g) (active_grants R))"
    by (auto simp: disclosure_def bindR_Inr_iff split: if_splits)
  with assms(3) obtain gid e g where m: "m = \<lparr>gm_event_hash = e_content_hash e, gm_event_id = e_id e, gm_grant_id = gid\<rparr>"
    and g: "(gid, (e, g)) \<in> set (active_grants R)" "discloses q g" by auto
  from g(1) obtain st where st: "(gid, st) \<in> set (rd_grants R)" "gs_state st = GrantActive" "gs_grant st = Some (e, g)"
    by (auto simp: active_grants_def map_filter_def split: if_splits)
  then have "map_of (rd_grants R) gid = Some st"
    using settle_grants_sound [OF reduce_view_Inr(3) [OF assms(1)]] grant_ids_distinct by (simp add: map_of_is_SomeI)
  from active_grant_of_state [OF assms(1) this st(2)] st(3) obtain r where
    "r = (e, g)" "active_grant R r" "grants_with V gid = [r]" by (metis option.inject)
  with granting_row(2) [OF this(3)] g(2) m that [of r] show thesis by simp
qed

text \<open>
  What attenuation does not cover. The permission map of a grant keeps one permission for a resource
  and an operation, whatever its classification, while a disclosure looks at every permission. So a
  delegated grant may carry, before a permission its parent covers, one of a classification that the
  parent never had: it counts as attenuated, and it discloses that classification.
\<close>

lemma classification_escapes_attenuation:
  assumes "pm_delegable p" and "0 < pm_depth p" and "operation \<in> set (pm_operations p)"
    and "child = p\<lparr>pm_operations := [operation], pm_delegable := False, pm_depth := 0\<rparr>"
    and "classification \<noteq> pm_classification p"
  shows "covered_by permission_is_attenuated [child\<lparr>pm_classification := classification\<rparr>, child] [p]"
    and "discloses \<lparr>dr_requester = gr_subject g, dr_resource_ref = pm_resource_ref p, dr_operation = operation,
            dr_classification = classification\<rparr>
          (g\<lparr>gr_permissions := [child\<lparr>pm_classification := classification\<rparr>, child]\<rparr>)"
    and "\<not> discloses \<lparr>dr_requester = gr_subject g, dr_resource_ref = pm_resource_ref p, dr_operation = operation,
            dr_classification = classification\<rparr> (g\<lparr>gr_permissions := [p]\<rparr>)"
  using assms by (auto simp: covered_by_def permission_at_def permission_is_attenuated_def discloses_def)

end
