(* ===== verification/Tribe_Laws.thy ===== *)
theory Tribe_Laws
  imports Grant_Laws
begin

text \<open>
  What stands behind the tribes of a view: the line of founders and the members it admitted.
\<close>

section \<open>The line of founders\<close>

text \<open>A reign hands over to the next by a transfer of its founder that the successor accepted.\<close>

definition handed_over :: "view \<Rightarrow> pystr \<Rightarrow> int \<Rightarrow> pystr \<times> int \<Rightarrow> pystr \<times> int \<Rightarrow> bool" where
  "handed_over V tribe epoch reign next_reign \<longleftrightarrow>
     (\<exists>t a. t \<in> set (founder_transfers V) \<and> a \<in> set (founder_acceptances V)
        \<and> ft_tribe_ref (snd t) = tribe \<and> ft_from_epoch (snd t) = epoch
        \<and> ft_old_founder (snd t) = fst reign \<and> ft_successor (snd t) = fst next_reign
        \<and> fa_successor (snd a) = fst next_reign \<and> ref_matches (fa_transfer (snd a)) (fst t)
        \<and> snd reign \<le> ft_issued_at_ms (snd t) \<and> ft_issued_at_ms (snd t) \<le> fa_accepted_at_ms (snd a)
        \<and> fa_accepted_at_ms (snd a) = snd next_reign)"

definition line_of_founders :: "view \<Rightarrow> pystr \<Rightarrow> reigns \<Rightarrow> bool" where
  "line_of_founders V tribe rs \<longleftrightarrow>
     (\<forall>n. n + 1 < length rs \<longrightarrow> handed_over V tribe (int n) (rs ! n) (rs ! (n + 1)))"

lemma succession_line:
  assumes "succession (founder_transfers V) (founder_acceptances V) tribe past reign = (f, rs)"
    and "line_of_founders V tribe (past @ [reign])"
  shows "line_of_founders V tribe rs \<and> (\<exists>more. rs = past @ [reign] @ more)"
  using assms
proof (induction "founder_transfers V" "founder_acceptances V" tribe past reign arbitrary: f rs rule: succession.induct)
  case (1 tribe past reign)
  let ?ts = "filter (transfer_of tribe reign (int (length past))) (founder_transfers V)"
  show ?case
  proof (cases "\<exists>t a. ?ts = [t] \<and> filter (transfer_accepted tribe t) (founder_acceptances V) = [a]")
    case True
    then obtain t a where t: "?ts = [t]" and a: "filter (transfer_accepted tribe t) (founder_acceptances V) = [a]"
      by blast
    let ?next = "(ft_successor (snd t), fa_accepted_at_ms (snd a))"
    from t a have run: "succession (founder_transfers V) (founder_acceptances V) tribe (past @ [reign]) ?next = (f, rs)"
      using 1(2) by (simp add: succession.simps [of _ _ _ past])
    have "t \<in> set ?ts" "a \<in> set (filter (transfer_accepted tribe t) (founder_acceptances V))" using t a by simp_all
    then have over: "handed_over V tribe (int (length past)) reign ?next"
      unfolding handed_over_def by (intro exI [of _ t] exI [of _ a]) (auto simp: transfer_of_def transfer_accepted_def Let_def)
    have "line_of_founders V tribe ((past @ [reign]) @ [?next])"
      unfolding line_of_founders_def
    proof (intro allI impI)
      fix n assume n: "n + 1 < length ((past @ [reign]) @ [?next])"
      show "handed_over V tribe (int n) (((past @ [reign]) @ [?next]) ! n) (((past @ [reign]) @ [?next]) ! (n + 1))"
      proof (cases "n = length past")
        case False
        then have "n < length past" using n by simp
        then show ?thesis using spec [OF 1(3) [unfolded line_of_founders_def], of n]
          by (cases "Suc n = length past") (simp_all add: nth_append)
      qed (use over in \<open>simp add: nth_append\<close>)
    qed
    from 1(1) [OF t refl a refl run this] show ?thesis by auto
  next
    case False
    then have "rs = past @ [reign]"
      using 1(2) by (auto simp: succession.simps [of _ _ _ past] split: list.splits)
    then show ?thesis using 1(3) by simp
  qed
qed

lemma line_starts: "line_of_founders V tribe rs \<Longrightarrow> m \<le> n \<Longrightarrow> n < length rs \<Longrightarrow> snd (rs ! m) \<le> snd (rs ! n)"
proof (induction n)
  case (Suc n)
  show ?case
  proof (cases "m = Suc n")
    case False
    with Suc have "snd (rs ! m) \<le> snd (rs ! n)" by simp
    moreover have "handed_over V tribe (int n) (rs ! n) (rs ! Suc n)" using Suc.prems by (simp add: line_of_founders_def)
    ultimately show ?thesis by (auto simp: handed_over_def)
  qed simp
qed simp

text \<open>At any instant at most one epoch is current.\<close>

lemma one_epoch_current:
  assumes "line_of_founders V tribe rs" and "epoch_is_current rs m t" and "epoch_is_current rs n t"
  shows "m = n"
proof -
  have "\<not> i < j" if "epoch_is_current rs i t" "epoch_is_current rs j t" for i j
  proof
    assume "i < j"
    have j: "j < int (length rs)" "snd (rs ! nat j) \<le> t" and i: "0 \<le> i" "i + 1 < int (length rs) \<longrightarrow> t < snd (rs ! nat (i + 1))"
      using that by (simp_all add: epoch_is_current_def)
    have "nat (i + 1) \<le> nat j" "nat j < length rs" "t < snd (rs ! nat (i + 1))" using i j(1) \<open>i < j\<close> by linarith+
    with line_starts [OF assms(1) this(1,2)] j(2) show False by simp
  qed
  then show ?thesis using assms(2,3) by (meson linorder_less_linear)
qed

section \<open>Members\<close>

text \<open>An acceptance of an invitation that the founder of a current epoch sent, in time.\<close>

definition invited :: "view \<Rightarrow> pystr \<Rightarrow> reigns \<Rightarrow> pystr \<Rightarrow> membership_acceptance row \<Rightarrow> bool" where
  "invited V tribe rs member a \<longleftrightarrow>
     (\<exists>e x. (e, x) \<in> set (invitations V) \<and> a \<in> set (membership_acceptances V)
        \<and> iv_tribe_ref x = tribe \<and> iv_invitee x = member \<and> founder_at rs (iv_founder_epoch x) = Some (iv_founder x)
        \<and> epoch_is_current rs (iv_founder_epoch x) (iv_issued_at_ms x)
        \<and> ma_tribe_ref (snd a) = tribe \<and> ma_invitee (snd a) = member \<and> ref_matches (ma_invitation (snd a)) e
        \<and> iv_issued_at_ms x \<le> ma_accepted_at_ms (snd a) \<and> ma_accepted_at_ms (snd a) < iv_expires_at_ms x)"

lemma admission_invited:
  assumes "(member, a) \<in> set (snd (admission_of V tribe rs iid))"
  shows "invited V tribe rs member a"
proof -
  let ?is = "filter (\<lambda>r. iv_tribe_ref (snd r) = tribe \<and> iv_invitation_id (snd r) = iid) (invitations V)"
  from assms obtain e x where one: "?is = [(e, x)]"
    by (auto simp: admission_of_def split: list.splits prod.splits)
  let ?as = "filter (\<lambda>r. ma_tribe_ref (snd r) = tribe \<and> ma_founder_epoch (snd r) = iv_founder_epoch x
       \<and> ma_invitee (snd r) = iv_invitee x \<and> ref_matches (ma_invitation (snd r)) e
       \<and> iv_issued_at_ms x \<le> ma_accepted_at_ms (snd r) \<and> ma_accepted_at_ms (snd r) < iv_expires_at_ms x)
       (membership_acceptances V)"
  from assms have reign: "founder_at rs (iv_founder_epoch x) = Some (iv_founder x)"
      "epoch_is_current rs (iv_founder_epoch x) (iv_issued_at_ms x)" and a: "?as = [a]" and m: "member = iv_invitee x"
    unfolding admission_of_def one by (auto split: list.splits if_splits)
  have "(e, x) \<in> set ?is" "a \<in> set ?as" by (simp_all only: one a list.set_intros)
  then show ?thesis using reign m by (auto simp: invited_def)
qed

lemma admissions_invited:
  "(member, a) \<in> set (snd (admissions V tribe rs)) \<Longrightarrow> invited V tribe rs member a"
  by (auto simp: admissions_def Let_def intro: admission_invited)

text \<open>The episodes of a member are among its acceptances, and an active one has no terminal and has begun.\<close>

definition episode_ok :: "view \<Rightarrow> pystr \<Rightarrow> reigns \<Rightarrow> pystr \<Rightarrow> membership_acceptance row list \<Rightarrow> episode \<Rightarrow> bool" where
  "episode_ok V tribe rs member rows ep \<longleftrightarrow>
     ep_event ep \<in> set rows
     \<and> (ep_state ep = MemActive \<longrightarrow> terminals V tribe rs member (ep_event ep) = []
          \<and> (vw_current V \<longrightarrow> ma_accepted_at_ms (snd (ep_event ep)) \<le> vw_at V))"

lemma terminals_state: "(st, x) \<in> set (terminals V tribe rs member a) \<Longrightarrow> st \<noteq> MemActive"
  by (auto simp: terminals_def Let_def)

lemma episodes_ok:
  assumes "episodes V tribe rs member rows expected n found = (out, m, lane_forked)"
    and "\<forall>ep \<in> set found. episode_ok V tribe rs member rows ep"
  shows "\<forall>ep \<in> set out. episode_ok V tribe rs member rows ep"
  using assms
proof (induction V tribe rs member rows expected n found rule: episodes.induct)
  case (1 V tribe rs member rows expected n found)
  let ?as = "filter (\<lambda>r. ma_sequence (snd r) = n) rows"
  consider (stop) "out = found"
    | (last) a where "?as = [a]" "terminals V tribe rs member a = []"
        "out = found @ [\<lparr>ep_event = a, ep_state = (if vw_current V \<and> ma_accepted_at_ms (snd a) > vw_at V
            then MemNotYet else MemActive), ep_terminal = None\<rparr>]"
    | (ended) a st x where "?as = [a]" "terminals V tribe rs member a = [(st, x)]"
        "\<not> (case ma_previous (snd a) of None \<Rightarrow> (case expected of None \<Rightarrow> False | Some e \<Rightarrow> True)
             | Some r \<Rightarrow> (case expected of None \<Rightarrow> True | Some e \<Rightarrow> \<not> ref_matches r e))"
        "episodes V tribe rs member rows (Some (fst x)) (n + 1)
           (found @ [\<lparr>ep_event = a, ep_state = st, ep_terminal = Some x\<rparr>]) = (out, m, lane_forked)"
    using 1(2) unfolding episodes.simps [of _ _ _ _ _ expected]
    by (fastforce split: list.splits if_splits prod.splits)
  then show ?case
  proof cases
    case (last a)
    then have "a \<in> set ?as" by simp
    then have "a \<in> set rows" by simp
    then show ?thesis using last 1(3) by (auto simp: episode_ok_def)
  next
    case (ended a st x)
    then have "a \<in> set ?as" by simp
    moreover have "st \<noteq> MemActive" using ended(2) terminals_state [of st x V tribe rs member a] by simp
    ultimately have "\<forall>ep \<in> set (found @ [\<lparr>ep_event = a, ep_state = st, ep_terminal = Some x\<rparr>]).
        episode_ok V tribe rs member rows ep" using 1(3) by (auto simp: episode_ok_def)
    from 1(1) [OF ended(1) refl ended(3,2) refl refl ended(4) this] show ?thesis .
  qed (use 1(3) in simp)
qed

text \<open>An active member founded the tribe, or was invited, accepted and has not left since.\<close>

lemma active_membership:
  assumes "membership_of V declared rs (admissions V (dd_tribe_ref (snd declared)) rs) member = Some mb" "mb_state mb = MemActive"
    and "mb_event mb = Some e"
  shows "member = fst (hd rs) \<and> e = fst declared
    \<or> (\<exists>a. fst a = e \<and> invited V (dd_tribe_ref (snd declared)) rs member a
          \<and> terminals V (dd_tribe_ref (snd declared)) rs member a = []
          \<and> (vw_current V \<longrightarrow> ma_accepted_at_ms (snd a) \<le> vw_at V))"
proof -
  let ?t = "dd_tribe_ref (snd declared)"
  let ?rows = "map snd (filter (\<lambda>(m, r). m = member) (snd (admissions V ?t rs)))"
  let ?run = "episodes V ?t rs member ?rows None 0 []"
  consider (founder) "member = fst (hd rs)" "e = fst declared"
    | (lane) "member \<notin> set (fst (admissions V ?t rs))" "fst ?run \<noteq> []" "ep_state (last (fst ?run)) = MemActive"
        "e = fst (ep_event (last (fst ?run)))"
    using assms unfolding membership_of_def
    by (auto simp: Let_def split: prod.splits if_splits)
  then show ?thesis
  proof cases
    case lane
    obtain out m fl where run: "?run = (out, m, fl)" by (metis prod_cases3)
    have "\<forall>ep \<in> set out. episode_ok V ?t rs member ?rows ep" using episodes_ok [OF run] by simp
    then have ok: "episode_ok V ?t rs member ?rows (last out)" using lane(2) run by simp
    then have "(member, ep_event (last out)) \<in> set (snd (admissions V ?t rs))" by (auto simp: episode_ok_def)
    from admissions_invited [OF this] ok lane(3,4) run show ?thesis by (auto simp: episode_ok_def)
  qed simp
qed

section \<open>Tribes\<close>

lemma declared_tribe_reigns:
  "line_of_founders V (dd_tribe_ref (snd declared)) (tb_reigns (declared_tribe V declared))
     \<and> (\<exists>more. tb_reigns (declared_tribe V declared)
          = (dc_founder (dd_declaration (snd declared)), dc_created_at_ms (dd_declaration (snd declared))) # more)"
proof -
  let ?d = "dd_declaration (snd declared)"
  obtain f rs where run: "succession (founder_transfers V) (founder_acceptances V) (dd_tribe_ref (snd declared)) []
      (dc_founder ?d, dc_created_at_ms ?d) = (f, rs)" by (metis surj_pair)
  from succession_line [OF run] run show ?thesis by (auto simp: declared_tribe_def Let_def line_of_founders_def)
qed

lemma tribe_of_declared:
  assumes "tribe_of V tref = Some (Some tb)"
  obtains d where "tb = declared_tribe V d" "d \<in> set (declarations V)" "dd_tribe_ref (snd d) = tref" "tb_declared tb = d"
proof -
  from assms obtain d where d: "filter (\<lambda>r. dd_tribe_ref (snd r) = tref) (declarations V) = [d]" "tb = declared_tribe V d"
    by (auto simp: tribe_of_def split: list.splits)
  then have "d \<in> set (filter (\<lambda>r. dd_tribe_ref (snd r) = tref) (declarations V))" by simp
  then show thesis using d(2) that [of d] by (simp add: declared_tribe_def Let_def split: prod.splits)
qed

lemma declared_tribe_members:
  assumes "map_of (tb_members (declared_tribe V d)) b = Some m"
  shows "membership_of V d (tb_reigns (declared_tribe V d))
    (admissions V (dd_tribe_ref (snd d)) (tb_reigns (declared_tribe V d))) b = Some m"
proof -
  let ?rs = "tb_reigns (declared_tribe V d)"
  let ?adm = "admissions V (dd_tribe_ref (snd d)) ?rs"
  let ?ms = "{dc_founder (dd_declaration (snd d))} \<union> set (fst ?adm) \<union> fst ` set (snd ?adm)"
  have "tb_members (declared_tribe V d) = map (\<lambda>m. (m, the (membership_of V d ?rs ?adm m))) (sorted_list_of_set ?ms)"
    by (simp add: declared_tribe_def Let_def split: prod.splits)
  then have "(b, m) \<in> (\<lambda>m. (m, the (membership_of V d ?rs ?adm m))) ` set (sorted_list_of_set ?ms)"
    using map_of_SomeD [OF assms] by simp
  moreover have "finite ?ms" by simp
  ultimately have b: "b \<in> ?ms" and m: "m = the (membership_of V d ?rs ?adm b)" by (auto simp only: set_sorted_list_of_set)
  have "fst (hd ?rs) = dc_founder (dd_declaration (snd d))" using declared_tribe_reigns [of V d] by auto
  with b have "membership_of V d ?rs ?adm b \<noteq> None"
    by (force simp: membership_of_def Let_def filter_empty_conv split: prod.splits)
  then show ?thesis using m by auto
qed

end
