(* ===== verification/Grant_Settling.thy ===== *)
theory Grant_Settling
  imports Grant_Laws
begin

text \<open>
  When a retained denial counts, and why the loop over pending grants decides each of them.
\<close>

section \<open>Denials\<close>

lemma hashes_one: "\<not> forks rows \<Longrightarrow> x \<in> set rows \<Longrightarrow> y \<in> set rows \<Longrightarrow> e_content_hash (fst x) = e_content_hash (fst y)"
proof -
  assume "\<not> forks rows" "x \<in> set rows" "y \<in> set rows"
  then have "card (set (map (\<lambda>r. e_content_hash (fst r)) rows)) \<le> 1"
    by (simp add: forks_def length_remdups_card_conv)
  moreover have "e_content_hash (fst x) \<in> set (map (\<lambda>r. e_content_hash (fst r)) rows)"
    "e_content_hash (fst y) \<in> set (map (\<lambda>r. e_content_hash (fst r)) rows)"
    using \<open>x \<in> set rows\<close> \<open>y \<in> set rows\<close> by simp_all
  ultimately show ?thesis using card_le_Suc0_iff_eq [of "set (map (\<lambda>r. e_content_hash (fst r)) rows)"]
    by (metis List.finite_set One_nat_def)
qed

text \<open>Each variant of an event is retained once, as in the store's table.\<close>

definition variants_once :: "view \<Rightarrow> bool" where
  "variants_once V \<longleftrightarrow> distinct (map (\<lambda>r. (e_id (fst r), e_content_hash (fst r))) (vw_events V))"

lemma unforked_single:
  assumes "vw_current V" and "variants_once V" and "r \<in> set (vw_events V)" and "\<not> forked V (row_id r)"
  shows "by_id V (row_id r) = [r]"
proof -
  have r: "r \<in> set (by_id V (row_id r))" using assms(1,3) by (simp add: current_by_id)
  have eff: "r \<in> set (effective V)" using assms(1,3) by (simp add: effective_def)
  then have "\<not> in_fork V (fst r)" using assms(4) by (auto simp: forked_def list_ex_iff)
  then have nf: "\<not> forks (by_id V (row_id r))" by (simp add: in_fork_def)
  have "x = r" if "x \<in> set (by_id V (row_id r))" for x
  proof -
    have "e_content_hash (fst x) = e_content_hash (fst r)" using hashes_one [OF nf that r] .
    moreover have "row_id x = row_id r" "x \<in> set (vw_events V)" using that assms(1) by (simp_all add: current_by_id)
    ultimately show ?thesis
      using assms(2,3) by (auto simp: variants_once_def distinct_map inj_on_def)
  qed
  then have "set (by_id V (row_id r)) = {r}" using r by blast
  moreover have "distinct (by_id V (row_id r))"
    using assms(1,2) by (simp add: current_by_id variants_once_def distinct_map)
  ultimately show ?thesis by (metis distinct_singleton length_remdups_card_conv card_1_singleton_iff distinct_remdups_id One_nat_def length_0_conv length_Suc_conv list.set_intros(1) singletonD)
qed

lemma denial_counts:
  assumes "vw_current V" and "variants_once V" and "r \<in> set (vw_events V)" and "is_denial (snd r)"
    and "row_deps r \<subseteq> complete_ids V"
  shows "r \<in> set (evidence V)"
proof (cases "forked V (row_id r)")
  case True
  then show ?thesis using assms(1,3,4) by (simp add: evidence_def denials_def effective_def)
next
  case False
  note one = unforked_single [OF assms(1-3) this]
  let ?rows = "filter (\<lambda>r. \<not> forked V (row_id r) \<and> length (by_id V (row_id r)) = 1) (vw_events V)"
  have "r \<in> set ?rows" using assms(3) False one by simp
  moreover have "filter (\<lambda>x. row_id x = row_id r) ?rows = [r]"
  proof -
    have "filter (\<lambda>x. row_id x = row_id r) ?rows
        = filter (\<lambda>x. \<not> forked V (row_id x) \<and> length (by_id V (row_id x)) = 1) (by_id V (row_id r))"
      using assms(1) by (simp add: current_by_id filter_filter conj_commute)
    then show ?thesis using False one by simp
  qed
  ultimately have "(row_id r, r) \<in> set (candidates V)" by (force simp: candidates_def Let_def)
  then have "r \<in> set (complete_rows V)" using found_rows_ok(3) assms(5) by (simp add: complete_row_found)
  then show ?thesis by (simp add: evidence_def)
qed

section \<open>The loop over pending grants\<close>

text \<open>A look that puts a grant off waits for a parent or a predecessor that is still pending.\<close>

lemma decide_waits:
  assumes "decide V rels pending result i = Inr None"
  obtains (parent) granting ref row where "grants_with V i = [granting]" "gr_parent (snd granting) = Some ref"
      "single_ref V ref = Some row" "\<exists>pid \<in> set pending. grant_id_of (snd row) = Inr pid"
    | (preceding) granting before where "grants_with V i = [granting]" "before \<in> set (grants V)"
      "gr_previous (snd granting) = Some (e_id (fst before))" "gr_grant_id (snd before) \<in> set pending"
proof -
  from assms obtain granting where g: "grants_with V i = [granting]" by (auto simp: decide_def split: list.splits)
  with assms obtain l where l: "grant_look V (map_of rels (gr_relationship_id (snd granting))) pending result (snd granting) = Inr l"
    by (auto simp: decide_def Let_def bindR_Inr_iff)
  with assms g have "l = Wait" by (cases l) (simp_all add: decide_def Let_def)
  with l obtain ref where ref: "gr_parent (snd granting) = Some ref"
    and d: "delegated_look V pending result ref (snd granting) = Inr Wait"
    by (auto simp: grant_look_def res split: if_splits option.splits)
  from d obtain row pid where row: "single_ref V ref = Some row" "grant_id_of (snd row) = Inr pid"
    and w: "pid \<in> set pending \<or> preceding_look V pending result (rf_event_id ref) (snd granting) = Some Wait"
    by (auto simp: delegated_look_def res split: if_splits option.splits payload.splits)
  from w show thesis
  proof
    assume "preceding_look V pending result (rf_event_id ref) (snd granting) = Some Wait"
    then obtain before where b: "delegations V (rf_event_id ref) (gr_sequence (snd granting) - 1) = [before]"
      "gr_previous (snd granting) = Some (e_id (fst before))" "gr_grant_id (snd before) \<in> set pending"
      by (auto simp: preceding_look_def split: if_splits list.splits option.splits)
    have "before \<in> set (delegations V (rf_event_id ref) (gr_sequence (snd granting) - 1))" by (simp add: b(1))
    then show thesis using preceding [OF g _ b(2,3)] by (simp add: delegations_def)
  qed (use parent [OF g ref row(1)] row(2) in blast)
qed

lemma first_decided_None: "first_decided f is = Inr None \<Longrightarrow> i \<in> set is \<Longrightarrow> f i = Inr None"
  by (induction "is") (auto simp: bindR_Inr_iff split: option.splits)

text \<open>
  A parent reference may name an event that is no grant, an acceptance for one. A grant whose line of
  parents and predecessors leads to such a reference is misdelegated.
\<close>

inductive misdelegated :: "view \<Rightarrow> pystr \<Rightarrow> bool" for V where
  loose: "(e, g) \<in> set (grants V) \<Longrightarrow> gr_parent g = Some ref \<Longrightarrow> single_ref V ref = Some row \<Longrightarrow> \<nexists>pg. snd row = Grant pg
    \<Longrightarrow> misdelegated V (gr_grant_id g)"
| parent: "(e, g) \<in> set (grants V) \<Longrightarrow> gr_parent g = Some ref \<Longrightarrow> single_ref V ref = Some (pe, Grant pg)
    \<Longrightarrow> misdelegated V (gr_grant_id pg) \<Longrightarrow> misdelegated V (gr_grant_id g)"
| preceding: "(e, g) \<in> set (grants V) \<Longrightarrow> gr_previous g = Some (e_id be) \<Longrightarrow> (be, bg) \<in> set (grants V)
    \<Longrightarrow> misdelegated V (gr_grant_id bg) \<Longrightarrow> misdelegated V (gr_grant_id g)"

text \<open>When a round decides nothing, every grant that is left is misdelegated.\<close>

lemma waiting_misdelegated:
  assumes "undivided V" and "set pending \<subseteq> set (grant_ids V)"
    and "first_decided (decide V rels pending result) pending = Inr None" and "i \<in> set pending"
  shows "misdelegated V i"
proof -
  note waits = first_decided_None [OF assms(3)]
  have "\<forall>g. snd x = Grant g \<longrightarrow> gr_grant_id g \<in> set pending \<longrightarrow> misdelegated V (gr_grant_id g)" if "x \<in> set (complete_rows V)" for x
    using that
  proof (induction rule: complete_rows_induct)
    case (row x)
    show ?case
    proof (intro allI impI)
      fix g assume x: "snd x = Grant g" and i: "gr_grant_id g \<in> set pending"
      have mem: "(fst x, g) \<in> set (grants V)" using row(1) x by (simp add: in_kinds evidence_def) (metis prod.collapse)
      have mine: "granting = (fst x, g)" if "grants_with V (gr_grant_id g) = [granting]" for granting
      proof -
        have "(fst x, g) \<in> set (grants_with V (gr_grant_id g))" using mem by (simp add: grants_with_def)
        then show ?thesis using that by simp
      qed
      from waits [OF i] show "misdelegated V (gr_grant_id g)"
      proof (cases rule: decide_waits)
        case (parent granting ref prow)
        have gr: "granting = (fst x, g)" using mine [OF parent(1)] .
        then have ref: "gr_parent g = Some ref" "rf_event_id ref \<in> row_deps x"
          using parent(2) x by (simp_all add: row_deps_def reference_ids_def)
        from single_ref_complete [OF assms(1) complete_row_deps [OF row(1) ref(2)] parent(3)]
        have c: "prow \<in> set (complete_rows V)" "row_id prow = rf_event_id ref" by (simp_all add: ref_matches_def)
        show ?thesis
        proof (cases "\<exists>pg. snd prow = Grant pg")
          case True
          then obtain pg where pg: "prow = (fst prow, Grant pg)" by (metis prod.collapse)
          then have "gr_grant_id pg \<in> set pending" using parent(4) by (cases prow) (auto simp: grant_id_of_def)
          then have "misdelegated V (gr_grant_id pg)" using row(2) [OF c(1)] c(2) ref(2) pg by (metis snd_conv)
          with misdelegated.parent [OF mem ref(1)] parent(3) pg show ?thesis by metis
        qed (use misdelegated.loose [OF mem ref(1) parent(3)] in blast)
      next
        case (preceding granting before)
        have gr: "granting = (fst x, g)" using mine [OF preceding(1)] .
        then have prev: "gr_previous g = Some (e_id (fst before))" "e_id (fst before) \<in> row_deps x"
          using preceding(3) x by (simp_all add: row_deps_def reference_ids_def)
        have "(fst before, Grant (snd before)) \<in> set (complete_rows V)"
          using granting_complete [of "fst before" "snd before"] preceding(2) by simp
        from row(2) [OF this] prev(2) preceding(4) have "misdelegated V (gr_grant_id (snd before))" by simp
        with misdelegated.preceding [OF mem prev(1), of "snd before"] preceding(2) show ?thesis by simp
      qed
    qed
  qed
  moreover from assms(2,4) obtain r where "r \<in> set (grants V)" "gr_grant_id (snd r) = i" by (auto simp: grant_ids_def)
  ultimately show ?thesis using granting_complete [of "fst r" "snd r"] assms(4) by fastforce
qed

lemma settle_grants_adds: "settle_grants V rels pending result = Inr out \<Longrightarrow> set result \<subseteq> set out"
proof (induction V rels pending result rule: settle_grants.induct)
  case (1 V rels pending result)
  show ?case
  proof (cases "first_decided (decide V rels pending result) pending")
    case (Inr d)
    show ?thesis
    proof (cases d)
      case None
      then show ?thesis using 1(2) Inr by (auto simp: settle_grants.simps [of V rels pending])
    next
      case (Some p)
      then obtain j x where p: "d = Some (j, x)" by (cases p) auto
      from 1(1) [OF Inr p refl] 1(2) Inr p show ?thesis by (auto simp: settle_grants.simps [of V rels pending])
    qed
  qed (use 1(2) in \<open>simp add: settle_grants.simps [of V rels pending]\<close>)
qed

lemma settle_grants_decides:
  assumes "undivided V" and "set pending \<subseteq> set (grant_ids V)"
    and "settle_grants V rels pending result = Inr out" and "(i, st) \<in> set out" and "(i, st) \<notin> set result"
  shows "(\<exists>pending' result'. set result' \<subseteq> set out \<and> decide V rels pending' result' i = Inr (Some st))
    \<or> st = undecided \<and> misdelegated V i"
  using assms
proof (induction V rels pending result rule: settle_grants.induct)
  case (1 V rels pending result)
  show ?case
  proof (cases "first_decided (decide V rels pending result) pending")
    case (Inr d)
    show ?thesis
    proof (cases d)
      case None
      then have "out = result @ map (\<lambda>i. (i, undecided)) pending"
        using 1(4) Inr by (simp add: settle_grants.simps [of V rels pending])
      with 1(5,6) have "i \<in> set pending" "st = undecided" by auto
      with waiting_misdelegated [OF 1(2,3) Inr [unfolded None]] show ?thesis by blast
    next
      case (Some p)
      then obtain j x where p: "d = Some (j, x)" by (cases p) auto
      have run: "settle_grants V rels (remove1 j pending) (result @ [(j, x)]) = Inr out"
        using 1(4) Inr p by (simp add: settle_grants.simps [of V rels pending])
      have sub: "set (remove1 j pending) \<subseteq> set (grant_ids V)" using 1(3) set_remove1_subset by fastforce
      show ?thesis
      proof (cases "(i, st) = (j, x)")
        case True
        then show ?thesis using first_decided_in [OF Inr [unfolded p]] settle_grants_adds [OF 1(4)] by auto
      next
        case False
        then have "(i, st) \<notin> set (result @ [(j, x)])" using 1(6) by auto
        from 1(1) [OF Inr p refl 1(2) sub run 1(5) this] show ?thesis .
      qed
    qed
  qed (use 1(4) in \<open>simp add: settle_grants.simps [of V rels pending]\<close>)
qed

end
