(* ===== verification/Demo_Relations.thy ===== *)
theory Demo_Relations
  imports Relationship_Store
begin

text \<open>
  Three beings: the first offers the second a relationship and grants it a resource, the second
  delegates the grant to the third; the first also declares a tribe, invites the second and hands
  the founder's office to it.
\<close>

definition stamp :: "nat \<Rightarrow> pystr \<Rightarrow> int \<Rightarrow> int \<Rightarrow> event" where
  "stamp n being q t =
     \<lparr>e_id = [n], e_being_ref = being, e_manifest_hash = [],
       e_origin = \<lparr>o_embodiment_id = being, o_incarnation_id = being, o_principal_id = being, o_body_ref = []\<rparr>,
       e_sequence = q, e_previous = None, e_occurred_at_ms = t, e_parents = [], e_kind = [], e_subject = [],
       e_payload = [], e_supersedes = None, e_sensitivity = [], e_content_hash = [n], e_kid = [], e_signature = []\<rparr>"

lemma stamp_sel [simp]:
  "e_id (stamp n b q t) = [n]" "e_content_hash (stamp n b q t) = [n]" "e_being_ref (stamp n b q t) = b"
  "e_sequence (stamp n b q t) = q" "e_occurred_at_ms (stamp n b q t) = t" "o_incarnation_id (e_origin (stamp n b q t)) = b"
  by (simp_all add: stamp_def)

definition demo_ref :: "nat \<Rightarrow> event_ref" where "demo_ref n = \<lparr>rf_event_id = [n], rf_event_hash = [n]\<rparr>"

definition demo_resource :: resource where
  "demo_resource = \<lparr>rs_ref = [82], rs_descriptor = \<lparr>ds_nonce = [], ds_controller = [65], ds_kind = [75],
     ds_classification = [80], ds_operations = [[114]], ds_descriptor_ref = [78]\<rparr>\<rparr>"

definition demo_card :: "pystr \<Rightarrow> resource list \<Rightarrow> rel_card" where
  "demo_card b rs = \<lparr>cd_v2 = False, cd_series_id = b, cd_sequence = 0, cd_previous = None, cd_being_ref = b,
     cd_position = \<lparr>cp_embodiment_id = b, cp_incarnation_id = b, cp_manifest_hash = []\<rparr>,
     cd_key = \<lparr>ky_key_id = [], ky_public = []\<rparr>, cd_routes = [], cd_capabilities = [], cd_resources = rs,
     cd_issued_at_ms = 1, cd_temporal = Window 1 1000, cd_withdrawn = False\<rparr>"

definition demo_permission :: "int \<Rightarrow> permission" where
  "demo_permission n = \<lparr>pm_resource_ref = [82], pm_operations = [[114]], pm_classification = [80],
     pm_delegable = (0 < n), pm_depth = n\<rparr>"

definition demo_offer :: "pystr \<Rightarrow> pystr \<Rightarrow> nat \<Rightarrow> proposed_grant list \<Rightarrow> offer" where
  "demo_offer a b c ps = \<lparr>of_v2 = False, of_relationship_id = a @ b, of_nonce = [], of_initiator = a, of_responder = b,
     of_initiator_card = demo_ref c, of_responder_card = None, of_terms_ref = [], of_roles = [], of_proposed = ps,
     of_issued_at_ms = 20, of_expires_at_ms = 30\<rparr>"

definition demo_accept :: "pystr \<Rightarrow> pystr \<Rightarrow> nat \<Rightarrow> nat \<Rightarrow> nat \<Rightarrow> acceptance" where
  "demo_accept a b offered ca cb = \<lparr>ac_relationship_id = a @ b, ac_offer = demo_ref offered, ac_initiator = a,
     ac_responder = b, ac_initiator_card = demo_ref ca, ac_responder_card = demo_ref cb, ac_accepted_at_ms = 25\<rparr>"

definition demo_grant :: "pystr \<Rightarrow> pystr \<Rightarrow> int \<Rightarrow> event_ref option \<Rightarrow> grant" where
  "demo_grant a b n parent = \<lparr>gr_v2 = False, gr_grant_id = 71 # a @ b, gr_nonce = [], gr_relationship_id = a @ b,
     gr_tribe_ref = None, gr_grantor = a, gr_subject = b, gr_permissions = [demo_permission n],
     gr_temporal = Window 30 900, gr_issued_at_ms = 30, gr_parent = parent, gr_sequence = 0, gr_previous = None\<rparr>"

definition demo_grant_accept :: "pystr \<Rightarrow> pystr \<Rightarrow> nat \<Rightarrow> grant_acceptance" where
  "demo_grant_accept a b granting = \<lparr>ga_grant_id = 71 # a @ b, ga_grant = demo_ref granting,
     ga_relationship_id = a @ b, ga_grantor = a, ga_subject = b, ga_accepted_at_ms = 31\<rparr>"

definition demo_rows :: "payload row list" where
  "demo_rows =
     [(stamp 1 [65] 1 1, Card (demo_card [65] [demo_resource])),
      (stamp 2 [66] 1 1, Card (demo_card [66] [])),
      (stamp 3 [67] 1 1, Card (demo_card [67] [])),
      (stamp 4 [65] 2 20, Offer (demo_offer [65] [66] 1
        [\<lparr>pg_grantor = [65], pg_subject = [66], pg_permissions = [demo_permission 1], pg_temporal = Window 1 1000\<rparr>])),
      (stamp 5 [66] 2 25, Acceptance (demo_accept [65] [66] 4 1 2)),
      (stamp 6 [65] 3 30, Grant (demo_grant [65] [66] 1 None)),
      (stamp 7 [66] 3 31, GrantAcceptance (demo_grant_accept [65] [66] 6)),
      (stamp 8 [66] 4 20, Offer (demo_offer [66] [67] 2 [])),
      (stamp 9 [67] 2 25, Acceptance (demo_accept [66] [67] 8 2 3)),
      (stamp 10 [66] 5 30, Grant (demo_grant [66] [67] 0 (Some (demo_ref 6)))),
      (stamp 11 [67] 3 31, GrantAcceptance (demo_grant_accept [66] [67] 10))]"

definition demo_revocation :: "payload row" where
  "demo_revocation = (stamp 12 [65] 4 45, GrantRevocation \<lparr>gv_grant_id = [71, 65, 66], gv_grant = demo_ref 6,
     gv_acceptance = demo_ref 7, gv_actor = [65], gv_revoke = True, gv_reason = [], gv_revoked_at_ms = 45\<rparr>)"

definition demo_view :: "payload row list \<Rightarrow> view" where
  "demo_view rows = \<lparr>vw_events = rows, vw_at = 50, vw_current = True, vw_verifier = Some (\<lambda>_ _. True)\<rparr>"

definition demo_request :: disclosure_request where
  "demo_request = \<lparr>dr_requester = [67], dr_resource_ref = [82], dr_operation = [114], dr_classification = [80]\<rparr>"

definition demo_tribe :: pystr where "demo_tribe = [84]"

definition demo_tribe_rows :: "payload row list" where
  "demo_tribe_rows =
     [(stamp 1 [65] 1 5, Declaration \<lparr>dd_tribe_ref = demo_tribe, dd_declaration =
        \<lparr>dc_created_at_ms = 5, dc_founder = [65], dc_nonce = [], dc_policy_ref = []\<rparr>\<rparr>),
      (stamp 2 [65] 2 15, Invitation \<lparr>iv_tribe_ref = demo_tribe, iv_founder_epoch = 0, iv_founder = [65],
        iv_invitation_id = [73], iv_invitee = [66], iv_nonce = [], iv_issued_at_ms = 15, iv_expires_at_ms = 60\<rparr>),
      (stamp 3 [66] 1 20, MembershipAcceptance \<lparr>ma_tribe_ref = demo_tribe, ma_founder_epoch = 0,
        ma_invitation = demo_ref 2, ma_invitee = [66], ma_sequence = 0, ma_previous = None, ma_accepted_at_ms = 20\<rparr>),
      (stamp 4 [65] 3 30, FounderTransfer \<lparr>ft_tribe_ref = demo_tribe, ft_transfer_id = [88], ft_from_epoch = 0,
        ft_old_founder = [65], ft_successor = [66], ft_nonce = [], ft_issued_at_ms = 30\<rparr>),
      (stamp 5 [66] 2 35, FounderAcceptance \<lparr>fa_tribe_ref = demo_tribe, fa_transfer_id = [88],
        fa_transfer = demo_ref 4, fa_from_epoch = 0, fa_successor = [66], fa_accepted_at_ms = 35\<rparr>)]"


lemma demo_tribe_active:
  "case active_tribe (demo_view demo_tribe_rows) demo_tribe of None \<Rightarrow> False
   | Some tb \<Rightarrow> active_member tb [66] = Some (fst (demo_tribe_rows ! 2)) \<and> tb_reigns tb = [([65], 5), ([66], 35)]"
  by code_simp

section \<open>The grants, step by step\<close>

lemma demo_ref_sel [simp]: "rf_event_id (demo_ref n) = [n]" "rf_event_hash (demo_ref n) = [n]"
  by (simp_all add: demo_ref_def)

lemma demo_ref_matches [simp]: "ref_matches (demo_ref m) (stamp n b q t) \<longleftrightarrow> m = n"
  by (auto simp: ref_matches_def)

definition V0 :: view where "V0 = demo_view demo_rows"

lemma V0_sel [simp]: "vw_at V0 = 50" "vw_current V0" "vw_verifier V0 = Some (\<lambda>_ _. True)"
  by (simp_all add: V0_def demo_view_def)

lemma demo_evidence: "evidence V0 =
   [(stamp 1 [65] 1 1, Card (demo_card [65] [demo_resource])),
      (stamp 4 [65] 2 20, Offer (demo_offer [65] [66] 1
        [\<lparr>pg_grantor = [65], pg_subject = [66], pg_permissions = [demo_permission 1], pg_temporal = Window 1 1000\<rparr>])),
      (stamp 6 [65] 3 30, Grant (demo_grant [65] [66] 1 None)),
      (stamp 2 [66] 1 1, Card (demo_card [66] [])),
      (stamp 5 [66] 2 25, Acceptance (demo_accept [65] [66] 4 1 2)),
      (stamp 7 [66] 3 31, GrantAcceptance (demo_grant_accept [65] [66] 6)),
      (stamp 8 [66] 4 20, Offer (demo_offer [66] [67] 2 [])),
      (stamp 10 [66] 5 30, Grant (demo_grant [66] [67] 0 (Some (demo_ref 6)))),
      (stamp 3 [67] 1 1, Card (demo_card [67] [])),
      (stamp 9 [67] 2 25, Acceptance (demo_accept [66] [67] 8 2 3)),
      (stamp 11 [67] 3 31, GrantAcceptance (demo_grant_accept [66] [67] 10))]"
  by code_simp

lemma demo_kinds:
  "cards V0 = [(stamp 1 [65] 1 1, demo_card [65] [demo_resource]), (stamp 2 [66] 1 1, demo_card [66] []),
     (stamp 3 [67] 1 1, demo_card [67] [])]"
  "offers V0 = [(stamp 4 [65] 2 20, demo_offer [65] [66] 1
        [\<lparr>pg_grantor = [65], pg_subject = [66], pg_permissions = [demo_permission 1], pg_temporal = Window 1 1000\<rparr>]),
      (stamp 8 [66] 4 20, demo_offer [66] [67] 2 [])]"
  "acceptances V0 = [(stamp 5 [66] 2 25, demo_accept [65] [66] 4 1 2), (stamp 9 [67] 2 25, demo_accept [66] [67] 8 2 3)]"
  "closes V0 = []"
  "grants V0 = [(stamp 6 [65] 3 30, demo_grant [65] [66] 1 None), (stamp 10 [66] 5 30, demo_grant [66] [67] 0 (Some (demo_ref 6)))]"
  "grant_acceptances V0 = [(stamp 7 [66] 3 31, demo_grant_accept [65] [66] 6), (stamp 11 [67] 3 31, demo_grant_accept [66] [67] 10)]"
  "grant_revocations V0 = []"
  by (simp_all add: cards_def offers_def acceptances_def closes_def grants_def grant_acceptances_def grant_revocations_def
      pick_def demo_evidence map_filter_simps)

lemma demo_single_ref:
  "single_ref V0 (demo_ref 1) = Some (stamp 1 [65] 1 1, Card (demo_card [65] [demo_resource]))"
  "single_ref V0 (demo_ref 2) = Some (stamp 2 [66] 1 1, Card (demo_card [66] []))"
  "single_ref V0 (demo_ref 3) = Some (stamp 3 [67] 1 1, Card (demo_card [67] []))"
  "single_ref V0 (demo_ref 6) = Some (stamp 6 [65] 3 30, Grant (demo_grant [65] [66] 1 None))"
  by code_simp+

lemma demo_current_card:
  "current_card V0 [65] = Some (stamp 1 [65] 1 1, demo_card [65] [demo_resource])"
  "current_card V0 [66] = Some (stamp 2 [66] 1 1, demo_card [66] [])"
  "current_card V0 [67] = Some (stamp 3 [67] 1 1, demo_card [67] [])"
  by (simp_all add: current_card_def card_history_def demo_kinds demo_card_def card_chain.simps [of _ _ 0]
      card_chain.simps [of _ _ 1] Let_def verified_card_def card_valid_def)

definition demo_bond :: "pystr \<Rightarrow> bond" where
  "demo_bond a = (if a = [65]
     then \<lparr>bd_offer = offers V0 ! 0, bd_acceptance = acceptances V0 ! 0, bd_closes = []\<rparr>
     else \<lparr>bd_offer = offers V0 ! 1, bd_acceptance = acceptances V0 ! 1, bd_closes = []\<rparr>)"

lemma demo_relationship:
  "relationship_of V0 [65, 66] = Inr (Some \<lparr>rl_state = RelActive, rl_bond = Some (demo_bond [65])\<rparr>)"
  "relationship_of V0 [66, 67] = Inr (Some \<lparr>rl_state = RelActive, rl_bond = Some (demo_bond [66])\<rparr>)"
  by (simp_all add: relationship_of_def offered_relationship_def demo_kinds demo_offer_def demo_accept_def demo_single_ref
      acceptance_valid_def card_of_def demo_card_def cards_in_force_def card_in_force_def demo_current_card demo_bond_def Let_def
      del: One_nat_def)

lemma demo_active_at:
  "relationship_active_at V0 \<lparr>rl_state = RelActive, rl_bond = Some (demo_bond [65])\<rparr> 30 = Inr True"
  "relationship_active_at V0 \<lparr>rl_state = RelActive, rl_bond = Some (demo_bond [66])\<rparr> 30 = Inr True"
  by (simp_all add: relationship_active_at_def demo_bond_def demo_kinds demo_offer_def demo_accept_def demo_single_ref
      card_valid_at_def payload_validity_def demo_card_def withdrawn_def verified_card_def del: One_nat_def)

abbreviation demo_relationships :: "(pystr \<times> relationship) list" where
  "demo_relationships \<equiv> [([65, 66], \<lparr>rl_state = RelActive, rl_bond = Some (demo_bond [65])\<rparr>),
     ([66, 67], \<lparr>rl_state = RelActive, rl_bond = Some (demo_bond [66])\<rparr>)]"

abbreviation demo_settled :: "nat \<Rightarrow> granted" where
  "demo_settled n \<equiv> \<lparr>gs_state = GrantActive, gs_grant = Some (grants V0 ! n), gs_acceptances = [grant_acceptances V0 ! n]\<rparr>"

lemma demo_participants:
  "participants (snd (bd_offer (demo_bond [65]))) = {[65], [66]}"
  "participants (snd (bd_offer (demo_bond [66]))) = {[66], [67]}"
  by (simp_all add: participants_def demo_bond_def demo_kinds demo_offer_def)

lemma demo_root_valid: "root_grant_valid V0 (demo_bond [65]) (demo_grant [65] [66] 1 None) = Inr True"
  by (simp add: root_grant_valid_def Let_def demo_bond_def demo_kinds demo_offer_def demo_single_ref demo_card_def
      demo_grant_def described_by_def demo_resource_def demo_permission_def grant_is_bounded_by_offer_def covered_by_def
      permission_at_def within_proposal_def del: One_nat_def)

lemma demo_grant_sel [simp]:
  "gr_parent (demo_grant a b n p) = p" "gr_grantor (demo_grant a b n p) = a" "gr_subject (demo_grant a b n p) = b"
  "gr_grant_id (demo_grant a b n p) = 71 # a @ b" "gr_relationship_id (demo_grant a b n p) = a @ b"
  "gr_issued_at_ms (demo_grant a b n p) = 30" "gr_temporal (demo_grant a b n p) = Window 30 900"
  "gr_permissions (demo_grant a b n p) = [demo_permission n]" "gr_sequence (demo_grant a b n p) = 0"
  "gr_tribe_ref (demo_grant a b n p) = None"
  by (simp_all add: demo_grant_def)

lemma demo_grant_accept_sel [simp]:
  "ga_grant_id (demo_grant_accept a b n) = 71 # a @ b" "ga_grant (demo_grant_accept a b n) = demo_ref n"
  "ga_relationship_id (demo_grant_accept a b n) = a @ b" "ga_grantor (demo_grant_accept a b n) = a"
  "ga_subject (demo_grant_accept a b n) = b" "ga_accepted_at_ms (demo_grant_accept a b n) = 31"
  by (simp_all add: demo_grant_accept_def)

lemma demo_look:
  "grant_look V0 (Some \<lparr>rl_state = RelActive, rl_bond = Some (demo_bond [65])\<rparr>) pending result (demo_grant [65] [66] 1 None)
     = Inr (Derives None)"
  "grant_look V0 (Some \<lparr>rl_state = RelActive, rl_bond = Some (demo_bond [66])\<rparr>) [[71, 66, 67]]
     [([71, 65, 66], \<lparr>gs_state = GrantActive, gs_grant = g, gs_acceptances = a\<rparr>)] (demo_grant [66] [67] 0 (Some (demo_ref 6)))
     = Inr (Derives (Some \<lparr>gs_state = GrantActive, gs_grant = g, gs_acceptances = a\<rparr>))"
proof -
  show "grant_look V0 (Some \<lparr>rl_state = RelActive, rl_bond = Some (demo_bond [65])\<rparr>) pending result
      (demo_grant [65] [66] 1 None) = Inr (Derives None)"
    by (simp add: grant_look_def demo_active_at demo_participants demo_root_valid)
  show "grant_look V0 (Some \<lparr>rl_state = RelActive, rl_bond = Some (demo_bond [66])\<rparr>) [[71, 66, 67]]
     [([71, 65, 66], \<lparr>gs_state = GrantActive, gs_grant = g, gs_acceptances = a\<rparr>)] (demo_grant [66] [67] 0 (Some (demo_ref 6)))
     = Inr (Derives (Some \<lparr>gs_state = GrantActive, gs_grant = g, gs_acceptances = a\<rparr>))"
    by (simp add: grant_look_def demo_active_at demo_participants)
      (simp add: delegated_look_def delegation_cutoff_def delegations_def demo_kinds demo_single_ref grant_id_of_def
       delegable_states_def preceding_look_def covered_by_def permission_at_def demo_permission_def permission_is_attenuated_def)
qed

lemma demo_decide:
  "decide V0 demo_relationships pending result [71, 65, 66] = Inr (Some (demo_settled 0))"
  "decide V0 demo_relationships [[71, 66, 67]] [([71, 65, 66], demo_settled 0)] [71, 66, 67] = Inr (Some (demo_settled 1))"
  by (simp_all add: decide_def grants_with_def demo_kinds demo_look Let_def grant_accepted_def grant_outcome_def tribe_admits_def)

definition demo_reduction :: reduction where
  "demo_reduction = \<lparr>rd_view = V0, rd_relationships = demo_relationships,
     rd_grants = [([71, 65, 66], demo_settled 0), ([71, 66, 67], demo_settled 1)]\<rparr>"

lemma demo_reduces: "reduce_view V0 = Inr demo_reduction"
proof -
  have ids: "relationship_ids V0 = [[65, 66], [66, 67]]" "grant_ids V0 = [[71, 65, 66], [71, 66, 67]]"
    by (simp_all add: relationship_ids_def grant_ids_def demo_kinds demo_offer_def)
  have "settle_grants V0 demo_relationships [[71, 65, 66], [71, 66, 67]] [] = Inr (rd_grants demo_reduction)"
    by (simp add: settle_grants.simps [of _ _ "[[71, 65, 66], [71, 66, 67]]"] settle_grants.simps [of _ _ "[[71, 66, 67]]"]
        settle_grants.simps [of _ _ "[]"] demo_decide demo_reduction_def)
  then show ?thesis by (simp add: reduce_view_def ids demo_relationship demo_reduction_def)
qed

lemma demo_disclosure:
  "disclosure demo_reduction demo_request = Inr [\<lparr>gm_event_hash = [10], gm_event_id = [10], gm_grant_id = [71, 66, 67]\<rparr>]"
  by (simp add: disclosure_def demo_request_def short_text_def encode_utf8_def is_surrogate_def utf8_bytes_def utf8_char_def
      active_grants_def demo_reduction_def demo_kinds map_filter_simps discloses_def demo_permission_def)

text \<open>A grant, its acceptance and its revocation, without the relationship.\<close>

definition demo_revoked :: view where
  "demo_revoked = demo_view [(stamp 6 [65] 3 30, Grant (demo_grant [65] [66] 1 None)),
     (stamp 7 [66] 3 31, GrantAcceptance (demo_grant_accept [65] [66] 6)), demo_revocation]"

lemma demo_revoked_sel [simp]: "vw_at demo_revoked = 50" "vw_current demo_revoked"
  by (simp_all add: demo_revoked_def demo_view_def)

lemma demo_revoked_kinds:
  "cards demo_revoked = []" "offers demo_revoked = []"
  "grants demo_revoked = [(stamp 6 [65] 3 30, demo_grant [65] [66] 1 None)]"
  "grant_acceptances demo_revoked = [(stamp 7 [66] 3 31, demo_grant_accept [65] [66] 6)]"
  by code_simp+

lemma demo_revoked_reduces:
  "reduce_view demo_revoked = Inr \<lparr>rd_view = demo_revoked, rd_relationships = [],
     rd_grants = [([71, 65, 66], \<lparr>gs_state = GrantIncomplete,
        gs_grant = Some (stamp 6 [65] 3 30, demo_grant [65] [66] 1 None), gs_acceptances = []\<rparr>)]\<rparr>"
proof -
  have ids: "relationship_ids demo_revoked = []" "grant_ids demo_revoked = [[71, 65, 66]]"
    by (simp_all add: relationship_ids_def grant_ids_def demo_revoked_kinds)
  have "decide demo_revoked [] pending result [71, 65, 66] = Inr (Some \<lparr>gs_state = GrantIncomplete,
        gs_grant = Some (stamp 6 [65] 3 30, demo_grant [65] [66] 1 None), gs_acceptances = []\<rparr>)" for pending result
    by (simp add: decide_def grants_with_def demo_revoked_kinds grant_look_def)
  then show ?thesis
    by (simp add: reduce_view_def ids demo_revoked_kinds settle_grants.simps [of _ _ "[[71, 65, 66]]"] settle_grants.simps [of _ _ "[]"])
qed

end
