(* ===== verification/Relationship_Properties.thy ===== *)
theory Relationship_Properties
  imports Tribe_Laws Grant_Settling Demo_Relations
begin

text \<open>
  The properties of the reduced view of relationship events: what a disclosure rests on, what ends
  it, and who founds and belongs to a tribe.
\<close>

section \<open>Disclosures\<close>

text \<open>
  C4: a disclosure rests on its controller. In a view where no event id is shared by an event in effect and a
  later one (every view of current authority, and any other of a history without such a collision), every grant that
  \<^verbatim>\<open>disclosure\<close> answers with is active and names the requester as its subject; a chain of active
  grants leads to it, each delegated by the subject of the one before, for the same resource and operation, never for longer and with
  less depth; and the first of them was issued, within the offer of an active relationship of the
  two parties, by the being that controls the resource on a retained card, which offers this operation.
  The depth the root gives away is at least the number of delegations. The permission that the map of each grant
  keeps for the resource and the operation has the classification of the card. The classification asked for is that one too, unless
  the last grant of the chain has a second permission for the same resource and operation, of another classification, which
  its map does not keep: the checks of delegation do not see that one.
\<close>

theorem disclosure_rests_on_controller:
  assumes "reduce_view V = Inr R" and "undivided V" and "disclosure R q = Inr ms" and "m \<in> set ms"
  shows "\<exists>rs r e c x p d. authority_chain R (rs @ [r]) \<and> gr_subject (snd r) = dr_requester q \<and> discloses q (snd r)
    \<and> m = \<lparr>gm_event_hash = e_content_hash (fst r), gm_event_id = e_id (fst r), gm_grant_id = gr_grant_id (snd r)\<rparr>
    \<and> rooted R (hd (rs @ [r]))
    \<and> (e, Card c) \<in> set (vw_events V) \<and> x \<in> set (cd_resources c) \<and> rs_ref x = dr_resource_ref q
    \<and> ds_controller (rs_descriptor x) = gr_grantor (snd (hd (rs @ [r])))
    \<and> dr_operation q \<in> set (ds_operations (rs_descriptor x))
    \<and> permission_at (gr_permissions (snd (hd (rs @ [r])))) (dr_resource_ref q) (dr_operation q) = Some p
    \<and> permission_at (gr_permissions (snd r)) (dr_resource_ref q) (dr_operation q) = Some d
    \<and> pm_depth d + int (length rs) \<le> pm_depth p
    \<and> pm_classification d = pm_classification p \<and> pm_classification p = ds_classification (rs_descriptor x)
    \<and> (dr_classification q = ds_classification (rs_descriptor x)
       \<or> (\<exists>k \<in> set (gr_permissions (snd r)). k \<noteq> d \<and> pm_resource_ref k = dr_resource_ref q
            \<and> dr_operation q \<in> set (pm_operations k) \<and> pm_classification k = dr_classification q))"
proof -
  from disclosure_match [OF assms(1,3,4)] obtain r where r: "active_grant R r" "discloses q (snd r)"
    "m = \<lparr>gm_event_hash = e_content_hash (fst r), gm_event_id = e_id (fst r), gm_grant_id = gr_grant_id (snd r)\<rparr>" by metis
  from chain_of_active [OF assms(1,2) r(1)] obtain rs where chain: "authority_chain R (rs @ [r])" by blast
  from discloses_at [OF r(2)] obtain d
    where d: "permission_at (gr_permissions (snd r)) (dr_resource_ref q) (dr_operation q) = Some d" by metis
  from chain_permission [OF chain d] obtain p where p: "rooted R (hd (rs @ [r]))"
    "permission_at (gr_permissions (snd (hd (rs @ [r])))) (dr_resource_ref q) (dr_operation q) = Some p"
    "pm_depth d + int (length rs) \<le> pm_depth p" "pm_classification d = pm_classification p" by metis
  from rooted_resource [OF p(1,2)] obtain e c x where x: "(e, Card c) \<in> set (vw_events (rd_view R))" "x \<in> set (cd_resources c)"
    "rs_ref x = dr_resource_ref q" "ds_controller (rs_descriptor x) = gr_grantor (snd (hd (rs @ [r])))"
    "dr_operation q \<in> set (ds_operations (rs_descriptor x))" "ds_classification (rs_descriptor x) = pm_classification p" by metis
  moreover from r(2) obtain k where k: "k \<in> set (gr_permissions (snd r))" "pm_resource_ref k = dr_resource_ref q"
    "dr_operation q \<in> set (pm_operations k)" "pm_classification k = dr_classification q"
    by (auto simp: discloses_def list_ex_iff)
  moreover have "k = d \<Longrightarrow> dr_classification q = ds_classification (rs_descriptor x)" using k(4) p(4) x(6) by simp
  moreover have "gr_subject (snd r) = dr_requester q" using r(2) by (simp add: discloses_def)
  ultimately show ?thesis using chain d p r reduce_view_Inr(1) [OF assms(1)] by metis
qed

lemma disclosure_rests_on_controller_witness:
  "\<exists>rs r. authority_chain demo_reduction (rs @ [r]) \<and> gr_subject (snd r) = [67] \<and> e_id (fst r) = [10]
     \<and> rooted demo_reduction (hd (rs @ [r]))"
proof -
  have "undivided V0" by (rule current_undivided) simp
  from disclosure_rests_on_controller [OF demo_reduces this demo_disclosure list.set_intros(1)] show ?thesis
    by (fastforce simp: demo_request_def)
qed

section \<open>Denials\<close>



section \<open>Settling\<close>

text \<open>
  C39: every grant is decided. In a view where no event id is shared by an event in effect and a later one, each grant id gets
  exactly one state. It is the answer of a look at that grant, on states that stand at the end; or it is the \<^verbatim>\<open>incomplete\<close>
  that the code falls back to when a round decides nothing, and then the line of parents and predecessors
  of the grant leads to a parent reference that names no grant.
\<close>

theorem every_grant_is_decided:
  assumes "reduce_view V = Inr R" and "undivided V" and "r \<in> set (grants V)"
  shows "\<exists>!st. (gr_grant_id (snd r), st) \<in> set (rd_grants R)
     \<and> ((\<exists>pending result. set result \<subseteq> set (rd_grants R)
           \<and> decide V (rd_relationships R) pending result (gr_grant_id (snd r)) = Inr (Some st))
        \<or> st = \<lparr>gs_state = GrantIncomplete, gs_grant = None, gs_acceptances = []\<rparr> \<and> misdelegated V (gr_grant_id (snd r)))"
proof -
  let ?i = "gr_grant_id (snd r)"
  have run: "settle_grants V (rd_relationships R) (grant_ids V) [] = Inr (rd_grants R)" using reduce_view_Inr(3) [OF assms(1)] .
  from settle_grants_sound [OF run] grant_ids_distinct
  have d: "distinct (map fst (rd_grants R))" and keys: "fst ` set (rd_grants R) = set (grant_ids V)" by simp_all
  have "?i \<in> set (grant_ids V)" using assms(3) by (simp add: grant_ids_def)
  then obtain st where st: "(?i, st) \<in> set (rd_grants R)" using keys by force
  show ?thesis
  proof (rule ex1I [of _ st])
    show "st' = st" if "(?i, st') \<in> set (rd_grants R) \<and> Q st'" for st' Q using that st d by (metis eq_key_imp_eq_value)
  qed (use settle_grants_decides [OF assms(2) subset_refl run st] st in simp)
qed

lemma every_grant_is_decided_witness:
  "\<exists>st pending result. ([71, 66, 67], st) \<in> set (rd_grants demo_reduction)
     \<and> decide V0 (rd_relationships demo_reduction) pending result [71, 66, 67] = Inr (Some st)"
proof -
  have none: "\<not> misdelegated V0 i" for i
  proof
    assume "misdelegated V0 i"
    then show False by induction (auto simp: demo_kinds demo_single_ref)
  qed
  have "undivided V0" by (rule current_undivided) simp
  from every_grant_is_decided [OF demo_reduces this, of "grants V0 ! 1"] none show ?thesis
    by (auto simp: demo_kinds)
qed

section \<open>Tribes\<close>

text \<open>
  C17: a tribe has one founder at a time. The epochs of a tribe's founders begin with the declared
  founder at its creation, each next one was transferred by the founder before and accepted by the
  successor no earlier, and at any instant at most one epoch is current.
\<close>

theorem one_founder_at_a_time:
  assumes "tribe_of V tref = Some (Some tb)"
  shows "line_of_founders V tref (tb_reigns tb)
    \<and> hd (tb_reigns tb) = (dc_founder (dd_declaration (snd (tb_declared tb))), dc_created_at_ms (dd_declaration (snd (tb_declared tb))))
    \<and> (\<exists>m. \<forall>n. epoch_is_current (tb_reigns tb) n t \<longrightarrow> n = m)"
proof -
  from tribe_of_declared [OF assms] obtain d where d: "tb = declared_tribe V d" "dd_tribe_ref (snd d) = tref" "tb_declared tb = d"
    by metis
  from declared_tribe_reigns [of V d] d have line: "line_of_founders V tref (tb_reigns tb)" and "hd (tb_reigns tb)
      = (dc_founder (dd_declaration (snd d)), dc_created_at_ms (dd_declaration (snd d)))" by auto
  moreover have "\<exists>m. \<forall>n. epoch_is_current (tb_reigns tb) n t \<longrightarrow> n = m" using one_epoch_current [OF line] by metis
  ultimately show ?thesis using d(3) by simp
qed

lemma one_founder_at_a_time_witness:
  "\<exists>tb. tribe_of (demo_view demo_tribe_rows) demo_tribe = Some (Some tb)
     \<and> line_of_founders (demo_view demo_tribe_rows) demo_tribe (tb_reigns tb)"
proof -
  from demo_tribe_active obtain tb where "tribe_of (demo_view demo_tribe_rows) demo_tribe = Some (Some tb)"
    by (auto simp: active_tribe_def split: option.splits if_splits)
  from this one_founder_at_a_time [OF this] show ?thesis by blast
qed

text \<open>
  C16: members were admitted. An active member of an active tribe either founded it or accepted, in time,
  an invitation that the founder of the epoch current at its issue had sent to it, and no leave or
  expulsion of a founder in office ends that acceptance; in a view of current authority the
  acceptance is not later than its clock.
\<close>

theorem members_were_admitted:
  assumes "active_tribe V tref = Some tb" and "active_member tb b = Some e"
  shows "b = fst (hd (tb_reigns tb)) \<and> e = fst (tb_declared tb)
    \<or> (\<exists>a. fst a = e \<and> invited V tref (tb_reigns tb) b a \<and> terminals V tref (tb_reigns tb) b a = []
          \<and> (vw_current V \<longrightarrow> ma_accepted_at_ms (snd a) \<le> vw_at V))"
proof -
  from assms(1) have "tribe_of V tref = Some (Some tb)" by (auto simp: active_tribe_def split: option.splits if_splits)
  from tribe_of_declared [OF this] obtain d where d: "tb = declared_tribe V d" "dd_tribe_ref (snd d) = tref" "tb_declared tb = d"
    by metis
  from assms(2) obtain m where m: "map_of (tb_members tb) b = Some m" "mb_state m = MemActive" "mb_event m = Some e"
    by (auto simp: active_member_def split: option.splits if_splits)
  from active_membership [OF declared_tribe_members [OF m(1) [unfolded d(1)]] m(2,3)] d show ?thesis by simp
qed

lemma members_were_admitted_witness:
  "\<exists>tb a. active_tribe (demo_view demo_tribe_rows) demo_tribe = Some tb
     \<and> invited (demo_view demo_tribe_rows) demo_tribe (tb_reigns tb) [66] a
     \<and> terminals (demo_view demo_tribe_rows) demo_tribe (tb_reigns tb) [66] a = []"
proof -
  from demo_tribe_active obtain tb where tb: "active_tribe (demo_view demo_tribe_rows) demo_tribe = Some tb"
    "active_member tb [66] = Some (fst (demo_tribe_rows ! 2))" "tb_reigns tb = [([65], 5), ([66], 35)]"
    by (auto split: option.splits)
  from members_were_admitted [OF tb(1,2)] tb show ?thesis by auto
qed

end
