(* ===== verification/Execution_Instruction.thy ===== *)
theory Execution_Instruction
  imports Canonical Complex_Main
begin

text \<open>
  Execution requests and their approvals, \<^verbatim>\<open>src/daimon_matrix/execution_instruction.py\<close>: the
  JSON text that is signed and hashed, instructions and scopes, and the verification of approvals.
  Every dict the module prints has string keys and no floats; a float is outside the printed texts
  of the model.
\<close>

section \<open>Canonical text\<close>

abbreviation denied :: "string \<Rightarrow> 'a res" where
  "denied m \<equiv> raise ExecutionDenied m"

text \<open>\<^verbatim>\<open>json.dumps\<close> with \<^verbatim>\<open>sort_keys=True\<close>: keys by code point, no normalization.\<close>

fun to_json :: "val \<Rightarrow> json res"
  and to_json_list :: "val list \<Rightarrow> json list res"
  and to_json_items :: "dict \<Rightarrow> (pystr \<times> json) list res"
where
  "to_json VNone = Inr JNull"
| "to_json (VBool b) = Inr (JBool b)"
| "to_json (VInt i) = Inr (JInt i)"
| "to_json VFloat = raise ValueError ''out of range float values are not JSON compliant''"
| "to_json (VStr s) = Inr (JStr s)"
| "to_json (VList vs) = bindR (to_json_list vs) (\<lambda>js. Inr (JArr js))"
| "to_json (VDict d) = bindR (to_json_items d) (\<lambda>kvs. Inr (JObj (sort_key fst kvs)))"
| "to_json VOther = raise TypeError ''not JSON serializable''"
| "to_json_list [] = Inr []"
| "to_json_list (v # vs) = bindR (to_json v) (\<lambda>j. bindR (to_json_list vs) (\<lambda>js. Inr (j # js)))"
| "to_json_items [] = Inr []"
| "to_json_items ((k, v) # d) =
     (case k of
        VStr s \<Rightarrow> bindR (to_json v) (\<lambda>j. bindR (to_json_items d) (\<lambda>kvs. Inr ((s, j) # kvs)))
      | _ \<Rightarrow> raise TypeError ''keys must be strings'')"

text \<open>
  \<^verbatim>\<open>ensure_ascii=True\<close>: every character beyond the tilde becomes an escape, the astral ones a
  surrogate pair.
\<close>

definition unicode_escape :: "nat \<Rightarrow> pystr" where
  "unicode_escape c = [92, 117, hex_digits ! (c div 4096), hex_digits ! (c div 256 mod 16),
     hex_digits ! (c div 16 mod 16), hex_digits ! (c mod 16)]"

definition ascii_char :: "nat \<Rightarrow> pystr" where
  "ascii_char c =
     (if c < 127 then [c] else if c < 0x10000 then unicode_escape c
      else let d = c - 0x10000 in unicode_escape (0xD800 + d div 1024) @ unicode_escape (0xDC00 + d mod 1024))"

definition canonical_text :: "val \<Rightarrow> bytes res" where
  "canonical_text v = bindR (to_json v) (\<lambda>j. Inr (concat (map ascii_char (dumps j))))"

definition text_digest :: "val \<Rightarrow> pystr res" where
  "text_digest v = bindR (canonical_text v) (\<lambda>b. Inr (sha256_hex b))"

text \<open>\<^verbatim>\<open>[A-Za-z0-9:._/-]{1,200}\<close>\<close>

definition name_char :: "nat \<Rightarrow> bool" where
  "name_char c = (65 \<le> c \<and> c \<le> 90 \<or> 97 \<le> c \<and> c \<le> 122 \<or> 48 \<le> c \<and> c \<le> 57 \<or> c \<in> set (str '':._/-''))"

definition is_name :: "val \<Rightarrow> bool" where
  "is_name v = (case v of VStr s \<Rightarrow> 1 \<le> length s \<and> length s \<le> 200 \<and> list_all name_char s | _ \<Rightarrow> False)"

definition is_hash :: "val \<Rightarrow> bool" where
  "is_hash v = (case v of VStr s \<Rightarrow> is_hex64 s | _ \<Rightarrow> False)"

text \<open>\<^verbatim>\<open>type(v) is int and lo <= v <= 2**53 - 1\<close>\<close>

definition int_between :: "int \<Rightarrow> val \<Rightarrow> bool" where
  "int_between lo v = (case v of VInt i \<Rightarrow> lo \<le> i \<and> i \<le> max_uint | _ \<Rightarrow> False)"

section \<open>Coordination metadata\<close>

record coordination =
  co_account_id :: pystr
  co_instruction :: pystr
  co_kind :: pystr

definition coordination_kinds :: "string list" where
  "coordination_kinds = [''work'', ''result'', ''ack'', ''status'', ''reaction'', ''error'']"

definition coordination_metadata :: "val \<Rightarrow> coordination res" where
  "coordination_metadata v =
     (let bad = denied ''invalid coordination metadata'' in
      case v of
        VDict d \<Rightarrow>
          if dkeys d \<noteq> key_set [''schema'', ''account_id'', ''instruction_sha256'', ''kind''] then bad
          else if item d ''schema'' \<noteq> VStr (str ''execution/coordination-request/v1'')
                  \<or> item d ''kind'' \<notin> (VStr \<circ> str) ` set coordination_kinds then bad
          else (case item d ''account_id'' of
              VStr a \<Rightarrow>
                if a = [] \<or> length a > 200 \<or> \<not> is_hash (item d ''instruction_sha256'')
                   \<or> list_ex is_surrogate a then bad
                else Inr \<lparr>co_account_id = a, co_instruction = str_item d ''instruction_sha256'',
                          co_kind = str_item d ''kind''\<rparr>
            | _ \<Rightarrow> bad)
      | _ \<Rightarrow> bad)"

section \<open>Instructions\<close>

record scope =
  sc_channel :: pystr
  sc_thread :: pystr
  sc_tool :: pystr
  sc_action :: pystr

definition allowed_actions :: "(string \<times> string) list" where
  "allowed_actions =
     [(''messaging_inbox'', ''review''), (''messaging_send'', ''send''), (''messaging_reply'', ''reply'')]"

definition scope_fields :: "string list" where
  "scope_fields = [''channel'', ''thread'', ''tool'', ''action'']"

definition scope_of :: "val \<Rightarrow> scope res" where
  "scope_of v = (case v of
     VDict d \<Rightarrow>
       if dkeys d \<noteq> key_set scope_fields then denied ''invalid instruction''
       else if \<not> list_all (\<lambda>k. is_name (item d k)) scope_fields
               \<or> (str_item d ''tool'', str_item d ''action'') \<notin> (\<lambda>(t, a). (str t, str a)) ` set allowed_actions
         then denied ''unsupported scope''
       else Inr \<lparr>sc_channel = str_item d ''channel'', sc_thread = str_item d ''thread'',
                 sc_tool = str_item d ''tool'', sc_action = str_item d ''action''\<rparr>
   | _ \<Rightarrow> denied ''invalid instruction'')"

definition scope_dict :: "scope \<Rightarrow> dict" where
  "scope_dict s =
     [(VStr (str ''channel''), VStr (sc_channel s)), (VStr (str ''thread''), VStr (sc_thread s)),
      (VStr (str ''tool''), VStr (sc_tool s)), (VStr (str ''action''), VStr (sc_action s))]"

record instruction =
  in_id :: pystr
  in_store_id :: pystr
  in_revision :: int
  in_predecessor :: "pystr option"
  in_principal :: pystr
  in_being :: pystr
  in_embodiment :: pystr
  in_runner :: pystr
  in_session :: pystr
  in_interval :: "int option"  \<comment> \<open>\<^verbatim>\<open>None\<close> in \<^verbatim>\<open>manual\<close> mode, a number in \<^verbatim>\<open>periodic\<close> mode\<close>
  in_start :: int
  in_end :: int
  in_max_cycle_seconds :: int
  in_cleanup_seconds :: int
  in_max_cycles :: int
  in_max_effects :: int
  in_max_input_tokens :: int
  in_max_output_tokens :: int
  in_provider :: pystr
  in_model :: pystr
  in_task :: pystr
  in_scope :: "scope list"

definition positive_fields :: "string list" where
  "positive_fields = [''revision'', ''start'', ''end'', ''max_cycle_seconds'', ''cleanup_seconds'', ''max_cycles'',
     ''max_effects'', ''max_input_tokens'', ''max_output_tokens'']"

definition name_fields :: "string list" where
  "name_fields = [''instruction_id'', ''store_id'', ''principal'', ''being'', ''embodiment'', ''runner'', ''session'',
     ''provider'', ''model'']"

definition instruction_fields :: "string list" where
  "instruction_fields = positive_fields @ name_fields
     @ [''schema'', ''predecessor'', ''mode'', ''interval'', ''task_sha256'', ''scope'']"

definition predecessor_ok :: "int \<Rightarrow> val \<Rightarrow> bool" where
  "predecessor_ok revision v = (if revision = 1 then v = VNone else is_hash v)"

definition opt_text :: "val \<Rightarrow> pystr option" where
  "opt_text v = (case v of VStr s \<Rightarrow> Some s | _ \<Rightarrow> None)"

definition interval_of :: "dict \<Rightarrow> int option res" where
  "interval_of d =
     (if item d ''mode'' = VStr (str ''manual'') then
        if item d ''interval'' \<noteq> VNone \<or> int_item d ''max_cycles'' \<noteq> 1
          then denied ''manual means one cycle without interval'' else Inr None
      else if item d ''mode'' = VStr (str ''periodic'') then
        if \<not> int_between 1 (item d ''interval'') then denied ''positive interval required''
        else Inr (Some (int_item d ''interval''))
      else denied ''unsupported mode'')"

text \<open>\<^verbatim>\<open>__post_init__\<close>, on the fields and the scopes already built.\<close>

definition instruction_init :: "dict \<Rightarrow> scope list \<Rightarrow> instruction res" where
  "instruction_init d scopes =
     bindR (mapR (\<lambda>k. if int_between 1 (item d k) then Inr () else denied (''invalid '' @ k)) positive_fields) (\<lambda>_.
     bindR (mapR (\<lambda>k. if is_name (item d k) then Inr () else denied (''invalid '' @ k)) name_fields) (\<lambda>_.
       if item d ''schema'' \<noteq> VStr (str ''execution/v1'') \<or> int_item d ''start'' \<ge> int_item d ''end''
         then denied ''invalid schema/window''
       else if \<not> is_hash (item d ''task_sha256'') then denied ''invalid task digest''
       else if \<not> predecessor_ok (int_item d ''revision'') (item d ''predecessor'') then denied ''invalid predecessor''
       else bindR (interval_of d) (\<lambda>interval.
         if scopes = [] \<or> \<not> distinct scopes then denied ''invalid scope''
         else Inr \<lparr>in_id = str_item d ''instruction_id'', in_store_id = str_item d ''store_id'',
           in_revision = int_item d ''revision'', in_predecessor = opt_text (item d ''predecessor''),
           in_principal = str_item d ''principal'', in_being = str_item d ''being'',
           in_embodiment = str_item d ''embodiment'', in_runner = str_item d ''runner'',
           in_session = str_item d ''session'', in_interval = interval, in_start = int_item d ''start'',
           in_end = int_item d ''end'', in_max_cycle_seconds = int_item d ''max_cycle_seconds'',
           in_cleanup_seconds = int_item d ''cleanup_seconds'', in_max_cycles = int_item d ''max_cycles'',
           in_max_effects = int_item d ''max_effects'', in_max_input_tokens = int_item d ''max_input_tokens'',
           in_max_output_tokens = int_item d ''max_output_tokens'', in_provider = str_item d ''provider'',
           in_model = str_item d ''model'', in_task = str_item d ''task_sha256'', in_scope = scopes\<rparr>)))"

text \<open>\<^verbatim>\<open>Instruction.from_dict\<close> and \<^verbatim>\<open>to_dict\<close>\<close>

definition instruction_of :: "dict \<Rightarrow> instruction res" where
  "instruction_of d =
     (if dkeys d \<noteq> key_set instruction_fields then denied ''instruction fields must be exact''
      else (case item d ''scope'' of
          VList vs \<Rightarrow> bindR (mapR scope_of vs) (instruction_init d)
        | _ \<Rightarrow> denied ''scope must be an array''))"

definition opt_val :: "pystr option \<Rightarrow> val" where
  "opt_val x = (case x of None \<Rightarrow> VNone | Some s \<Rightarrow> VStr s)"

definition instruction_dict :: "instruction \<Rightarrow> dict" where
  "instruction_dict i =
     [(VStr (str ''schema''), VStr (str ''execution/v1'')), (VStr (str ''instruction_id''), VStr (in_id i)),
      (VStr (str ''store_id''), VStr (in_store_id i)), (VStr (str ''revision''), VInt (in_revision i)),
      (VStr (str ''predecessor''), opt_val (in_predecessor i)), (VStr (str ''principal''), VStr (in_principal i)),
      (VStr (str ''being''), VStr (in_being i)), (VStr (str ''embodiment''), VStr (in_embodiment i)),
      (VStr (str ''runner''), VStr (in_runner i)), (VStr (str ''session''), VStr (in_session i)),
      (VStr (str ''mode''), VStr (str (if in_interval i = None then ''manual'' else ''periodic''))),
      (VStr (str ''start''), VInt (in_start i)), (VStr (str ''end''), VInt (in_end i)),
      (VStr (str ''interval''), case in_interval i of None \<Rightarrow> VNone | Some n \<Rightarrow> VInt n),
      (VStr (str ''max_cycle_seconds''), VInt (in_max_cycle_seconds i)),
      (VStr (str ''cleanup_seconds''), VInt (in_cleanup_seconds i)),
      (VStr (str ''max_cycles''), VInt (in_max_cycles i)), (VStr (str ''max_effects''), VInt (in_max_effects i)),
      (VStr (str ''max_input_tokens''), VInt (in_max_input_tokens i)),
      (VStr (str ''max_output_tokens''), VInt (in_max_output_tokens i)),
      (VStr (str ''provider''), VStr (in_provider i)), (VStr (str ''model''), VStr (in_model i)),
      (VStr (str ''task_sha256''), VStr (in_task i)),
      (VStr (str ''scope''), VList (map (VDict \<circ> scope_dict) (in_scope i)))]"

text \<open>\<^verbatim>\<open>sha256\<close>; every instruction has printable text, so the \<open>Inl\<close> branch is not reached.\<close>

definition instruction_sha :: "instruction \<Rightarrow> pystr" where
  "instruction_sha i = (case text_digest (VDict (instruction_dict i)) of Inr h \<Rightarrow> h | Inl _ \<Rightarrow> [])"

definition binding :: "instruction \<Rightarrow> pystr \<times> pystr \<times> pystr \<times> pystr" where
  "binding i = (in_being i, in_embodiment i, in_runner i, in_session i)"

section \<open>Approvals\<close>

record verifier =
  vf_keys :: "(pystr \<times> bytes) list"

definition is_hex128 :: "pystr \<Rightarrow> bool" where
  "is_hex128 s = (length s = 128 \<and> list_all (\<lambda>c. c \<in> set hex_digits) s)"

definition proof_fields :: "string list" where
  "proof_fields = [''purpose'', ''event_id'', ''principal'', ''payload_sha256'', ''signature'']"

text \<open>
  \<^verbatim>\<open>ApprovalVerifier.verify\<close>: every failure inside is caught and becomes the one denial. The
  payload names its principal under a key that it may lack.
\<close>

definition approval_ok :: "platform \<Rightarrow> verifier \<Rightarrow> string \<Rightarrow> dict \<Rightarrow> dict \<Rightarrow> bool" where
  "approval_ok P vf action payload pr =
     (dkeys pr = key_set proof_fields
      \<and> action \<in> {''approve'', ''cancel''}
      \<and> item pr ''purpose'' = VStr (str (''execution/v1/'' @ action))
      \<and> (case text_digest (VDict payload) of Inl _ \<Rightarrow> False | Inr h \<Rightarrow> item pr ''payload_sha256'' = VStr h)
      \<and> is_name (item pr ''event_id'')
      \<and> (case dget payload ''principal'' of None \<Rightarrow> False | Some v \<Rightarrow> py_eq (item pr ''principal'') v)
      \<and> (case (item pr ''signature'', item pr ''principal'', canonical_text (VDict (without [''signature''] pr))) of
           (VStr sig, VStr p, Inr body) \<Rightarrow>
             is_hex128 sig
             \<and> (case map_of (vf_keys vf) p of None \<Rightarrow> False | Some key \<Rightarrow> ed25519_verify P key (fromhex sig) body)
         | _ \<Rightarrow> False))"

definition verify_approval :: "platform \<Rightarrow> verifier \<Rightarrow> string \<Rightarrow> dict \<Rightarrow> dict \<Rightarrow> (pystr \<times> pystr) res" where
  "verify_approval P vf action payload pr =
     (if approval_ok P vf action payload pr then Inr (str_item pr ''principal'', str_item pr ''event_id'')
      else denied ''unverified human approval'')"

end
