(* ===== verification/Execution_Journal.thy ===== *)
theory Execution_Journal
  imports Execution_Instruction
begin

text \<open>
  The execution journal, class \<^verbatim>\<open>ExecutionStore\<close> of \<^verbatim>\<open>src/daimon_matrix/execution_store.py\<close>: its
  tables, its transactions and clock, and the life of an instruction from proposal to cancellation.

  A table is the list of its rows in insertion order. A JSON text column holds the value it prints,
  so that \<^verbatim>\<open>json.loads\<close> reads it back; two texts are compared as texts. An operation is a function
  of the journal that returns its result and the journal it leaves behind, also when it raises, because
  a raised denial keeps what was observed of the clock.

  The clock is read through the argument \<open>xe_clock\<close>: the reading at each observation, \<open>None\<close> when it
  is not finite. Readings are exact rationals; the rounding of the float sum and quotient in \<^verbatim>\<open>reserve\<close>
  and \<^verbatim>\<open>status\<close> is not modelled. Timeouts and file checks of SQLite are left out.
\<close>

section \<open>Tables\<close>

datatype instruction_state = Pending | Active | Superseded | Cancelled | Expired | Completed

record instruction_row =
  ir_id :: pystr
  ir_revision :: int
  ir_payload :: dict
  ir_proof :: "dict option"
  ir_state :: instruction_state
  ir_generation :: int

datatype cycle_state = Intent | Ambiguous | Done pystr  \<comment> \<open>terminal, with its outcome\<close>

record cycle_row =
  cy_id :: pystr
  cy_instruction :: pystr
  cy_revision :: int
  cy_slot :: int
  cy_binding :: "pystr \<times> pystr"  \<comment> \<open>\<^verbatim>\<open>binding[2:]\<close>: runner and session\<close>
  cy_deadline :: rat
  cy_generation :: int
  cy_token_hash :: pystr
  cy_state :: cycle_state

record operation_row =
  op_id :: pystr
  op_cycle :: pystr
  op_kind :: pystr
  op_scope :: "scope option"
  op_returned :: bool

record approval_row =
  ev_id :: pystr
  ev_principal :: pystr
  ev_action :: string
  ev_proof :: dict

record account_row =
  fa_id :: pystr
  fa_payload :: dict
  fa_proof :: dict
  fa_paused :: bool
  fa_control_revision :: int

record funding_row =
  fi_sha :: pystr
  fi_payload :: dict
  fi_proof :: dict

record charge_row =
  ch_cycle :: pystr
  ch_operation :: pystr
  ch_sha :: pystr
  ch_maximum :: int
  ch_actual :: "int option"
  ch_receipt :: "dict option"

record episode_row =
  ep_account :: pystr
  ep_payload :: dict
  ep_proof :: dict
  ep_notice :: "dict option"

datatype work_state = Queued | WorkIntent | Withdrawn

record work_row =
  wk_id :: pystr
  wk_account :: pystr
  wk_sha :: pystr
  wk_source :: dict
  wk_state :: work_state
  wk_cycle :: "pystr option"
  wk_withdrawal :: "dict option"

record exec_journal =
  j_store_id :: pystr
  j_high_water :: rat
  j_fault :: bool
  j_ticks :: nat  \<comment> \<open>clock observations so far\<close>
  j_version :: nat
  j_instructions :: "instruction_row list"
  j_cycles :: "cycle_row list"
  j_operations :: "operation_row list"
  j_approvals :: "approval_row list"  \<comment> \<open>table \<^verbatim>\<open>events\<close>\<close>
  j_accounts :: "account_row list"
  j_fundings :: "funding_row list"
  j_members :: "(pystr \<times> pystr) list"
  j_charges :: "charge_row list"
  j_episodes :: "episode_row list"
  j_work :: "work_row list"

definition new_journal :: "pystr \<Rightarrow> exec_journal" where
  "new_journal store_id =
     \<lparr>j_store_id = store_id, j_high_water = 0, j_fault = False, j_ticks = 0, j_version = 1, j_instructions = [],
      j_cycles = [], j_operations = [], j_approvals = [], j_accounts = [], j_fundings = [], j_members = [],
      j_charges = [], j_episodes = [], j_work = []\<rparr>"

record exec_env =
  xe_platform :: platform
  xe_verifier :: verifier
  xe_usage :: "verifier option"
  xe_clock :: "nat \<Rightarrow> rat option"

section \<open>Operations on the journal\<close>

type_synonym 'a act = "exec_journal \<Rightarrow> 'a res \<times> exec_journal"

definition retA :: "'a \<Rightarrow> 'a act" where "retA x s = (Inr x, s)"

definition liftA :: "'a res \<Rightarrow> 'a act" where "liftA r s = (r, s)"

definition bindA :: "'a act \<Rightarrow> ('a \<Rightarrow> 'b act) \<Rightarrow> 'b act" where
  "bindA m f s = (case m s of (Inl e, t) \<Rightarrow> (Inl e, t) | (Inr x, t) \<Rightarrow> f x t)"

definition getA :: "(exec_journal \<Rightarrow> 'a) \<Rightarrow> 'a act" where "getA f s = (Inr (f s), s)"

definition updA :: "(exec_journal \<Rightarrow> exec_journal) \<Rightarrow> unit act" where "updA f s = (Inr (), f s)"

definition denyA :: "bool \<Rightarrow> string \<Rightarrow> unit act" where
  "denyA b m s = (if b then denied m else Inr (), s)"

fun eachA :: "('a \<Rightarrow> 'b act) \<Rightarrow> 'a list \<Rightarrow> 'b list act" where
  "eachA f [] = retA []"
| "eachA f (x # xs) = bindA (f x) (\<lambda>y. bindA (eachA f xs) (\<lambda>ys. retA (y # ys)))"

text \<open>\<^verbatim>\<open>_transaction\<close>: a failure undoes everything but the clock observations.\<close>

definition journaled :: "'a act \<Rightarrow> 'a act" where
  "journaled m s =
     (case m s of
        (Inr x, t) \<Rightarrow> (Inr x, t)
      | (Inl e, t) \<Rightarrow>
          (Inl e, s\<lparr>j_high_water := max (j_high_water s) (j_high_water t), j_fault := (j_fault s \<or> j_fault t),
                    j_ticks := j_ticks t\<rparr>))"

text \<open>\<^verbatim>\<open>_now\<close>\<close>

definition nowA :: "exec_env \<Rightarrow> rat act" where
  "nowA E s =
     (let u = s\<lparr>j_ticks := j_ticks s + 1\<rparr>;
          fenced = (denied ''clock rollback/untrusted clock; journal fenced'', u\<lparr>j_fault := True\<rparr>) in
      case xe_clock E (j_ticks s) of
        None \<Rightarrow> fenced
      | Some now \<Rightarrow>
          if now < j_high_water s \<or> j_fault s then fenced else (Inr now, u\<lparr>j_high_water := now\<rparr>))"

text \<open>\<^verbatim>\<open>observe_clock\<close>, outside a transaction\<close>

definition observe_clock :: "exec_env \<Rightarrow> rat act" where "observe_clock E = journaled (nowA E)"

section \<open>Instructions\<close>

definition find_instruction :: "exec_journal \<Rightarrow> pystr \<Rightarrow> int \<Rightarrow> instruction_row option" where
  "find_instruction s i n = find (\<lambda>r. ir_id r = i \<and> ir_revision r = n) (j_instructions s)"

definition instruction_row_at :: "pystr \<Rightarrow> int \<Rightarrow> instruction_row act" where
  "instruction_row_at i n s =
     (case find_instruction s i n of None \<Rightarrow> denied ''unknown instruction'' | Some r \<Rightarrow> Inr r, s)"

text \<open>The row with the greatest revision.\<close>

fun latest :: "instruction_row list \<Rightarrow> instruction_row option" where
  "latest [] = None"
| "latest (r # rs) =
     (case latest rs of None \<Rightarrow> Some r | Some q \<Rightarrow> Some (if ir_revision q > ir_revision r then q else r))"

definition latest_row :: "pystr \<Rightarrow> instruction_row act" where
  "latest_row i s =
     (case latest (filter (\<lambda>r. ir_id r = i) (j_instructions s)) of
        None \<Rightarrow> denied ''unknown instruction'' | Some r \<Rightarrow> Inr r, s)"

text \<open>\<^verbatim>\<open>_instruction\<close>\<close>

definition read_instruction :: "exec_env \<Rightarrow> pystr \<Rightarrow> instruction_row \<Rightarrow> instruction res" where
  "read_instruction E store_id r =
     bindR (instruction_of (ir_payload r)) (\<lambda>i.
       if in_store_id i \<noteq> store_id then denied ''wrong journal audience''
       else (case ir_proof r of
           None \<Rightarrow> Inr i
         | Some pr \<Rightarrow>
             bindR (verify_approval (xe_platform E) (xe_verifier E) ''approve'' (instruction_dict i) pr) (\<lambda>_. Inr i)))"

definition instruction_at :: "exec_env \<Rightarrow> instruction_row \<Rightarrow> instruction act" where
  "instruction_at E r s = (read_instruction E (j_store_id s) r, s)"

text \<open>\<^verbatim>\<open>_event\<close>: an approval is used once.\<close>

definition record_approval :: "exec_env \<Rightarrow> string \<Rightarrow> dict \<Rightarrow> dict \<Rightarrow> unit act" where
  "record_approval E action payload pr =
     bindA (liftA (verify_approval (xe_platform E) (xe_verifier E) action payload pr)) (\<lambda>(p, i).
     bindA (getA j_approvals) (\<lambda>used.
     bindA (denyA (i \<in> ev_id ` set used) ''approval event replay'') (\<lambda>_.
       updA (\<lambda>s. s\<lparr>j_approvals := j_approvals s
         @ [\<lparr>ev_id = i, ev_principal = p, ev_action = action, ev_proof = pr\<rparr>]\<rparr>))))"

definition wrong_audience :: "instruction \<Rightarrow> unit act" where
  "wrong_audience i s = (if in_store_id i \<noteq> j_store_id s then denied ''wrong journal audience'' else Inr (), s)"

definition propose :: "exec_env \<Rightarrow> instruction \<Rightarrow> unit act" where
  "propose E i =
     bindA (wrong_audience i) (\<lambda>_. journaled
      (bindA (nowA E) (\<lambda>_.
       bindA (getA (\<lambda>s. find_instruction s (in_id i) (in_revision i))) (\<lambda>found.
       bindA (denyA (found \<noteq> None) ''immutable revision already exists'') (\<lambda>_.
         updA (\<lambda>s. s\<lparr>j_instructions := j_instructions s
           @ [\<lparr>ir_id = in_id i, ir_revision = in_revision i, ir_payload = instruction_dict i, ir_proof = None,
               ir_state = Pending, ir_generation = 0\<rparr>]\<rparr>))))))"

text \<open>\<^verbatim>\<open>approve\<close>: the successor of the last decided revision, of the same principal and binding.\<close>

definition succeeds :: "instruction \<Rightarrow> instruction \<Rightarrow> bool" where
  "succeeds i previous =
     (in_revision i = in_revision previous + 1 \<and> in_predecessor i = Some (instruction_sha previous)
      \<and> in_principal i = in_principal previous \<and> binding i = binding previous)"

definition check_renewal :: "exec_env \<Rightarrow> instruction \<Rightarrow> unit act" where
  "check_renewal E i =
     bindA (getA (\<lambda>s. latest (filter (\<lambda>r. ir_id r = in_id i \<and> ir_state r \<noteq> Pending) (j_instructions s)))) (\<lambda>last.
       case last of
         Some r \<Rightarrow> bindA (instruction_at E r) (\<lambda>previous.
           denyA (\<not> succeeds i previous) ''renewal must bind latest predecessor and identity'')
       | None \<Rightarrow> denyA (in_revision i \<noteq> 1) ''missing predecessor'')"

text \<open>The active rows of an id become superseded, then the approved row replaces its pending one.\<close>

definition supersede :: "pystr \<Rightarrow> instruction_row \<Rightarrow> instruction_row" where
  "supersede i r = (if ir_id r = i \<and> ir_state r = Active
     then r\<lparr>ir_state := Superseded, ir_generation := ir_generation r + 1\<rparr> else r)"

definition activate :: "instruction \<Rightarrow> dict \<Rightarrow> instruction_row list \<Rightarrow> instruction_row list" where
  "activate i pr rows =
     filter (\<lambda>r. \<not> (ir_id r = in_id i \<and> ir_revision r = in_revision i)) (map (supersede (in_id i)) rows)
     @ [\<lparr>ir_id = in_id i, ir_revision = in_revision i, ir_payload = instruction_dict i, ir_proof = Some pr,
         ir_state = Active, ir_generation = 0\<rparr>]"

definition same_text :: "dict \<Rightarrow> dict \<Rightarrow> bool" where
  "same_text a b = (canonical_text (VDict a) = canonical_text (VDict b))"

definition approve :: "exec_env \<Rightarrow> instruction \<Rightarrow> dict \<Rightarrow> unit act" where
  "approve E i pr =
     bindA (wrong_audience i) (\<lambda>_. journaled
      (bindA (nowA E) (\<lambda>now.
       bindA (denyA (now \<ge> of_int (in_end i)) ''expired approval'') (\<lambda>_.
       bindA (record_approval E ''approve'' (instruction_dict i) pr) (\<lambda>_.
       bindA (check_renewal E i) (\<lambda>_.
       bindA (getA (\<lambda>s. find_instruction s (in_id i) (in_revision i))) (\<lambda>existing.
       bindA (denyA (case existing of None \<Rightarrow> False
           | Some r \<Rightarrow> ir_state r \<noteq> Pending \<or> \<not> same_text (ir_payload r) (instruction_dict i)) ''immutable revision conflict'') (\<lambda>_.
         updA (\<lambda>s. s\<lparr>j_instructions := activate i pr (j_instructions s)\<rparr>)))))))))"

definition cancellation_payload :: "exec_env \<Rightarrow> pystr \<Rightarrow> int \<Rightarrow> dict act" where
  "cancellation_payload E i n =
     bindA (instruction_row_at i n) (\<lambda>r.
     bindA (instruction_at E r) (\<lambda>x.
     bindA (getA j_store_id) (\<lambda>store_id.
       retA [(VStr (str ''store_id''), VStr store_id), (VStr (str ''instruction_id''), VStr i),
             (VStr (str ''revision''), VInt n), (VStr (str ''instruction_sha256''), VStr (instruction_sha x)),
             (VStr (str ''principal''), VStr (in_principal x))])))"

definition set_instruction :: "pystr \<Rightarrow> int \<Rightarrow> (instruction_row \<Rightarrow> instruction_row) \<Rightarrow> exec_journal \<Rightarrow> exec_journal" where
  "set_instruction i n f s =
     s\<lparr>j_instructions := map (\<lambda>r. if ir_id r = i \<and> ir_revision r = n then f r else r) (j_instructions s)\<rparr>"

text \<open>\<^verbatim>\<open>cancel\<close> does not read the clock.\<close>

definition cancel :: "exec_env \<Rightarrow> pystr \<Rightarrow> int \<Rightarrow> dict \<Rightarrow> instruction_row act" where
  "cancel E i n pr =
     bindA (cancellation_payload E i n) (\<lambda>payload. journaled
      (bindA (record_approval E ''cancel'' payload pr) (\<lambda>_.
       bindA (updA (set_instruction i n
         (\<lambda>r. r\<lparr>ir_state := Cancelled, ir_generation := ir_generation r + 1\<rparr>))) (\<lambda>_.
         instruction_row_at i n))))"

section \<open>Status\<close>

definition in_flight :: "cycle_row \<Rightarrow> bool" where
  "in_flight c = (cy_state c \<in> {Intent, Ambiguous})"

definition cycles_of :: "exec_journal \<Rightarrow> pystr \<Rightarrow> int \<Rightarrow> cycle_row list" where
  "cycles_of s i n = filter (\<lambda>c. cy_instruction c = i \<and> cy_revision c = n) (j_cycles s)"

definition session_busy :: "exec_journal \<Rightarrow> pystr \<times> pystr \<Rightarrow> bool" where
  "session_busy s b = list_ex (\<lambda>c. cy_binding c = b \<and> in_flight c) (j_cycles s)"

record status_report =
  sr_instruction :: instruction
  sr_state :: instruction_state
  sr_generation :: int
  sr_next_slot :: "int option"
  sr_in_flight :: "cycle_row list"
  sr_last :: "cycle_row option"

definition next_slot :: "exec_journal \<Rightarrow> instruction \<Rightarrow> instruction_state \<Rightarrow> cycle_row list \<Rightarrow> rat \<Rightarrow> int option" where
  "next_slot s i st cycles now =
     (if st = Active \<and> \<not> session_busy s (in_runner i, in_session i) \<and> int (length cycles) < in_max_cycles i then
        (case in_interval i of
           None \<Rightarrow> if cycles = [] then Some (in_start i) else None
         | Some interval \<Rightarrow>
             (let slot = max 0 \<lfloor>(now - of_int (in_start i)) / of_int interval\<rfloor>;
                  slot = (if cycles = [] then slot else max slot (cy_slot (last cycles) + 1));
                  candidate = in_start i + slot * interval in
              if candidate < in_end i then Some candidate else None))
      else None)"

definition status_of :: "exec_env \<Rightarrow> instruction_row \<Rightarrow> rat \<Rightarrow> status_report act" where
  "status_of E r now =
     bindA (instruction_at E r) (\<lambda>i.
     let expired = (ir_state r = Active \<and> now \<ge> of_int (in_end i)); st = (if expired then Expired else ir_state r) in
     bindA (updA (if expired
         then set_instruction (ir_id r) (ir_revision r)
                (\<lambda>x. x\<lparr>ir_state := Expired, ir_generation := ir_generation x + 1\<rparr>)
         else id)) (\<lambda>_.
     bindA (getA (\<lambda>s. sort_key cy_slot (cycles_of s (ir_id r) (ir_revision r)))) (\<lambda>cycles.
     bindA (getA (\<lambda>s. next_slot s i st cycles now)) (\<lambda>slot.
       retA \<lparr>sr_instruction = i, sr_state = st, sr_generation = ir_generation r + (if expired then 1 else 0),
             sr_next_slot = slot, sr_in_flight = filter in_flight cycles,
             sr_last = (if cycles = [] then None else Some (last cycles))\<rparr>))))"

definition status :: "exec_env \<Rightarrow> pystr \<Rightarrow> int option \<Rightarrow> status_report act" where
  "status E i n = journaled
     (bindA (nowA E) (\<lambda>now.
      bindA (case n of None \<Rightarrow> latest_row i | Some k \<Rightarrow> instruction_row_at i k) (\<lambda>r.
        status_of E r now)))"

definition statuses :: "exec_env \<Rightarrow> status_report list act" where
  "statuses E =
     bindA (getA (\<lambda>s. sort (map (\<lambda>r. (ir_id r, ir_revision r)) (j_instructions s)))) (\<lambda>keys.
       eachA (\<lambda>(i, n). status E i (Some n)) keys)"

text \<open>\<^verbatim>\<open>cancellation_status\<close>, with the timeout it derives from the remaining seconds.\<close>

definition cleanup_left :: "rat option \<Rightarrow> unit act" where
  "cleanup_left remaining =
     denyA (case remaining of None \<Rightarrow> True | Some t \<Rightarrow> t \<le> 0) ''cleanup deadline reached''"

definition cancellation_status ::
  "exec_env \<Rightarrow> pystr \<Rightarrow> int \<Rightarrow> rat option \<Rightarrow> (instruction_state \<times> cycle_row list) act" where
  "cancellation_status E i n remaining =
     bindA (cleanup_left remaining) (\<lambda>_.
     bindA (instruction_row_at i n) (\<lambda>r.
     bindA (instruction_at E r) (\<lambda>_.
     bindA (getA (\<lambda>s. sort_key cy_slot (filter in_flight (cycles_of s i n)))) (\<lambda>cycles.
       retA (ir_state r, cycles)))))"

definition get_instruction :: "exec_env \<Rightarrow> pystr \<Rightarrow> int \<Rightarrow> instruction act" where
  "get_instruction E i n = bindA (instruction_row_at i n) (instruction_at E)"

end
