(* ===== verification/Execution_Funding.thy ===== *)
theory Execution_Funding
  imports Execution_Journal
begin

text \<open>
  The funding accounts of the execution journal: who may spend how much, the charges reserved for
  provider calls, and their settlement. Schema versions above 1 have these tables.
\<close>

section \<open>Accounts\<close>

definition has_version :: "nat \<Rightarrow> exec_journal \<Rightarrow> bool" where
  "has_version n s = (n \<le> j_version s)"

definition enable_funding :: "unit act" where
  "enable_funding = journaled (updA (\<lambda>s. if j_version s = 1 then s\<lparr>j_version := 2\<rparr> else s))"

definition short_str :: "val \<Rightarrow> bool" where
  "short_str v = (case v of VStr s \<Rightarrow> s \<noteq> [] \<and> length s \<le> 200 | _ \<Rightarrow> False)"

definition account_fields :: "string list" where
  "account_fields = [''schema'', ''store_id'', ''principal'', ''account_id'', ''kind'', ''subject'', ''start'',
     ''end'', ''unit'', ''max_calls'', ''max_charge'', ''max_active'', ''max_bindings'']"

definition account_kinds :: "string list" where "account_kinds = [''tribe'', ''being'', ''episode'']"

definition account_ok :: "pystr \<Rightarrow> dict \<Rightarrow> bool" where
  "account_ok store_id d =
     (dkeys d = key_set account_fields \<and> item d ''schema'' = VStr (str ''execution/funding-account/v1'')
      \<and> item d ''store_id'' = VStr store_id \<and> item d ''kind'' \<in> (VStr \<circ> str) ` set account_kinds
      \<and> list_all (\<lambda>k. short_str (item d k)) [''principal'', ''account_id'', ''subject'', ''unit'']
      \<and> list_all (\<lambda>k. int_between 1 (item d k)) [''start'', ''end'', ''max_calls'', ''max_active'', ''max_bindings'']
      \<and> int_between 0 (item d ''max_charge'') \<and> int_item d ''start'' < int_item d ''end'')"

definition needs_funding :: "string \<Rightarrow> unit act" where
  "needs_funding m s = (if has_version 2 s then Inr () else denied m, s)"

definition check_store :: "(pystr \<Rightarrow> bool) \<Rightarrow> string \<Rightarrow> unit act" where
  "check_store ok m s = (if ok (j_store_id s) then Inr () else denied m, s)"

definition grant_budget :: "exec_env \<Rightarrow> dict \<Rightarrow> dict \<Rightarrow> unit act" where
  "grant_budget E payload pr =
     bindA (check_store (\<lambda>store_id. account_ok store_id payload) ''invalid funding account'') (\<lambda>_. journaled
      (bindA (needs_funding ''explicit funding migration required'') (\<lambda>_.
       bindA (nowA E) (\<lambda>now.
       bindA (denyA (now \<ge> of_int (int_item payload ''end'')) ''expired funding'') (\<lambda>_.
       bindA (record_approval E ''approve'' payload pr) (\<lambda>_.
       bindA (getA j_accounts) (\<lambda>rows.
       bindA (denyA (str_item payload ''account_id'' \<in> fa_id ` set rows) ''immutable funding account exists'') (\<lambda>_.
         updA (\<lambda>s. s\<lparr>j_accounts := j_accounts s
           @ [\<lparr>fa_id = str_item payload ''account_id'', fa_payload = payload, fa_proof = pr, fa_paused = False,
               fa_control_revision = 0\<rparr>]\<rparr>)))))))))"

text \<open>\<^verbatim>\<open>_account\<close>\<close>

definition find_account :: "exec_journal \<Rightarrow> pystr \<Rightarrow> account_row option" where
  "find_account s a = find (\<lambda>r. fa_id r = a) (j_accounts s)"

definition account_at :: "exec_env \<Rightarrow> val \<Rightarrow> account_row act" where
  "account_at E v s =
     (case v of
        VStr a \<Rightarrow>
          if a = [] \<or> length a > 200 then denied ''invalid funding account identity''
          else (case find_account s a of
              None \<Rightarrow> denied ''unknown funding account''
            | Some r \<Rightarrow>
                bindR (verify_approval (xe_platform E) (xe_verifier E) ''approve'' (fa_payload r) (fa_proof r)) (\<lambda>_.
                  if item (fa_payload r) ''store_id'' \<noteq> VStr (j_store_id s) \<or> item (fa_payload r) ''account_id'' \<noteq> VStr a
                    then denied ''wrong funding audience'' else Inr r))
      | _ \<Rightarrow> denied ''invalid funding account identity'', s)"

text \<open>\<^verbatim>\<open>account["start"] <= now < account["end"]\<close> and not paused\<close>

definition account_open :: "account_row \<Rightarrow> rat \<Rightarrow> bool" where
  "account_open r now =
     (\<not> fa_paused r \<and> of_int (int_item (fa_payload r) ''start'') \<le> now \<and> now < of_int (int_item (fa_payload r) ''end''))"

section \<open>Funding an instruction\<close>

definition funding_fields :: "string list" where
  "funding_fields = [''schema'', ''store_id'', ''principal'', ''instruction_sha256'', ''accounts'', ''route'', ''max_charge'']"

definition funding_ok :: "pystr \<Rightarrow> instruction \<Rightarrow> dict \<Rightarrow> bool" where
  "funding_ok store_id i d =
     (dkeys d = key_set funding_fields \<and> item d ''schema'' = VStr (str ''execution/instruction-funding/v1'')
      \<and> item d ''store_id'' = VStr store_id \<and> item d ''principal'' = VStr (in_principal i)
      \<and> item d ''instruction_sha256'' = VStr (instruction_sha i)
      \<and> (case item d ''accounts'' of VList vs \<Rightarrow> length vs = 3 \<and> list_all is_str vs \<and> distinct vs | _ \<Rightarrow> False)
      \<and> short_str (item d ''route'') \<and> int_between 0 (item d ''max_charge''))"

definition account_admits :: "instruction \<Rightarrow> dict \<Rightarrow> rat \<Rightarrow> account_row \<Rightarrow> bool" where
  "account_admits i payload now r =
     (let a = fa_payload r in
      item a ''principal'' = VStr (in_principal i) \<and> account_open r now
      \<and> int_item a ''start'' \<le> in_start i \<and> in_end i \<le> int_item a ''end''
      \<and> (item a ''kind'' = VStr (str ''being'') \<longrightarrow> item a ''subject'' = VStr (in_being i))
      \<and> int_item payload ''max_charge'' \<le> int_item a ''max_charge'')"

text \<open>The loop over the three accounts.\<close>

definition check_account :: "instruction \<Rightarrow> dict \<Rightarrow> rat \<Rightarrow> account_row \<Rightarrow> unit act" where
  "check_account i payload now r =
     bindA (denyA (\<not> account_admits i payload now r) ''funding scope/window mismatch'') (\<lambda>_.
     bindA (getA (\<lambda>s. length (filter (\<lambda>m. snd m = fa_id r) (j_members s)))) (\<lambda>count.
       denyA (int count \<ge> int_item (fa_payload r) ''max_bindings'') ''funding fanout exhausted''))"

definition accounts_of :: "dict \<Rightarrow> val list" where
  "accounts_of payload = (case item payload ''accounts'' of VList vs \<Rightarrow> vs | _ \<Rightarrow> [])"

definition fund_instruction :: "exec_env \<Rightarrow> instruction \<Rightarrow> dict \<Rightarrow> dict \<Rightarrow> unit act" where
  "fund_instruction E i payload pr =
     bindA (check_store (\<lambda>store_id. funding_ok store_id i payload) ''invalid instruction funding'') (\<lambda>_. journaled
      (bindA (needs_funding ''explicit funding migration required'') (\<lambda>_.
       bindA (nowA E) (\<lambda>now.
       bindA (instruction_row_at (in_id i) (in_revision i)) (\<lambda>row.
       bindA (denyA (ir_state row \<noteq> Active) ''funding needs the exact active instruction'') (\<lambda>_.
       bindA (instruction_at E row) (\<lambda>stored.
       bindA (denyA (stored \<noteq> i) ''funding needs the exact active instruction'') (\<lambda>_.
       bindA (eachA (account_at E) (accounts_of payload)) (\<lambda>accounts.
       bindA (denyA ((\<lambda>r. item (fa_payload r) ''kind'') ` set accounts \<noteq> (VStr \<circ> str) ` set account_kinds)
         ''three distinct funding ceilings required'') (\<lambda>_.
       bindA (denyA (length (remdups (map (\<lambda>r. item (fa_payload r) ''unit'') accounts)) \<noteq> 1)
         ''funding charge units differ'') (\<lambda>_.
       bindA (eachA (check_account i payload now) accounts) (\<lambda>_.
       bindA (record_approval E ''approve'' payload pr) (\<lambda>_.
       bindA (getA j_fundings) (\<lambda>rows.
       bindA (denyA (instruction_sha i \<in> fi_sha ` set rows) ''instruction already funded'') (\<lambda>_.
         updA (\<lambda>s. s\<lparr>j_fundings := j_fundings s @ [\<lparr>fi_sha = instruction_sha i, fi_payload = payload, fi_proof = pr\<rparr>],
                     j_members := j_members s
                       @ map (\<lambda>v. (instruction_sha i, str_of v)) (accounts_of payload)\<rparr>))))))))))))))))"

text \<open>\<^verbatim>\<open>_funding\<close>: the binding of an instruction, its accounts open now.\<close>

definition find_funding :: "exec_journal \<Rightarrow> pystr \<Rightarrow> funding_row option" where
  "find_funding s sha = (if has_version 2 s then find (\<lambda>r. fi_sha r = sha) (j_fundings s) else None)"

definition check_open :: "exec_env \<Rightarrow> rat \<Rightarrow> val \<Rightarrow> unit act" where
  "check_open E now v = bindA (account_at E v) (\<lambda>r. denyA (\<not> account_open r now) ''funding paused or expired'')"

definition funding_of :: "exec_env \<Rightarrow> instruction \<Rightarrow> bool \<Rightarrow> dict option act" where
  "funding_of E i required =
     bindA (getA (\<lambda>s. find_funding s (instruction_sha i))) (\<lambda>row.
       case row of
         None \<Rightarrow> bindA (denyA required ''coordination requires explicit conserved funding'') (\<lambda>_. retA None)
       | Some r \<Rightarrow>
           bindA (liftA (verify_approval (xe_platform E) (xe_verifier E) ''approve'' (fi_payload r) (fi_proof r))) (\<lambda>_.
           bindA (check_store (\<lambda>store_id. item (fi_payload r) ''store_id'' = VStr store_id
             \<and> item (fi_payload r) ''instruction_sha256'' = VStr (instruction_sha i)) ''funding binding mismatch'') (\<lambda>_.
           bindA (nowA E) (\<lambda>now.
           bindA (eachA (check_open E now) (accounts_of (fi_payload r))) (\<lambda>_.
             retA (Some (fi_payload r)))))))"

definition check_funding :: "exec_env \<Rightarrow> instruction \<Rightarrow> unit act" where
  "check_funding E i = journaled (bindA (funding_of E i True) (\<lambda>_. retA ()))"

section \<open>Balances\<close>

text \<open>The rows of the join of \<^verbatim>\<open>_balance\<close>: the account's charges, each with its cycle.\<close>

definition account_charges :: "exec_journal \<Rightarrow> pystr \<Rightarrow> (charge_row \<times> cycle_row) list" where
  "account_charges s a =
     concat (map (\<lambda>c. if (ch_sha c, a) \<in> set (j_members s)
                      then map (Pair c) (filter (\<lambda>y. cy_id y = ch_cycle c) (j_cycles s)) else [])
       (j_charges s))"

definition charge_cost :: "charge_row \<Rightarrow> int" where
  "charge_cost c = (case ch_actual c of None \<Rightarrow> ch_maximum c | Some n \<Rightarrow> n)"

definition calls :: "exec_journal \<Rightarrow> pystr \<Rightarrow> int" where
  "calls s a = int (length (account_charges s a))"

text \<open>\<^verbatim>\<open>spent + reserved\<close>\<close>

definition charged :: "exec_journal \<Rightarrow> pystr \<Rightarrow> int" where
  "charged s a = sum_list (map (\<lambda>(c, y). charge_cost c) (account_charges s a))"

definition is_active_charge :: "charge_row \<times> cycle_row \<Rightarrow> bool" where
  "is_active_charge = (\<lambda>(c, y). ch_actual c = None \<or> in_flight y)"

definition active_calls :: "exec_journal \<Rightarrow> pystr \<Rightarrow> int" where
  "active_calls s a = int (length (filter is_active_charge (account_charges s a)))"

definition uncertain_calls :: "exec_journal \<Rightarrow> pystr \<Rightarrow> int" where
  "uncertain_calls s a = int (length (filter (\<lambda>(c, y). cy_state y = Ambiguous
      \<or> (ch_actual c = None \<and> cy_state y \<noteq> Intent)) (account_charges s a)))"

record account_status =
  as_row :: account_row
  as_calls :: int
  as_charged :: int
  as_active :: int
  as_uncertain :: int

definition account_status_of :: "exec_journal \<Rightarrow> account_row \<Rightarrow> account_status" where
  "account_status_of s r =
     \<lparr>as_row = r, as_calls = calls s (fa_id r), as_charged = charged s (fa_id r),
      as_active = active_calls s (fa_id r), as_uncertain = uncertain_calls s (fa_id r)\<rparr>"

definition available_calls :: "account_status \<Rightarrow> int" where
  "available_calls x = int_item (fa_payload (as_row x)) ''max_calls'' - as_calls x"

definition available_charge :: "account_status \<Rightarrow> int" where
  "available_charge x = int_item (fa_payload (as_row x)) ''max_charge'' - as_charged x"

definition funding_status :: "exec_env \<Rightarrow> val \<Rightarrow> account_status act" where
  "funding_status E v = journaled
     (bindA (needs_funding ''funding unavailable'') (\<lambda>_.
      bindA (account_at E v) (\<lambda>r. getA (\<lambda>s. account_status_of s r))))"

section \<open>Charges\<close>

record cycle =
  cc_id :: pystr
  cc_instruction :: pystr
  cc_revision :: int
  cc_slot :: int
  cc_deadline :: rat
  cc_token :: pystr

text \<open>\<^verbatim>\<open>_cycle\<close>: the capability must be the retained one.\<close>

definition cycle_at :: "cycle \<Rightarrow> cycle_row act" where
  "cycle_at c s =
     (case find (\<lambda>r. cy_id r = cc_id c) (j_cycles s) of
        None \<Rightarrow> denied ''invalid cycle capability''
      | Some r \<Rightarrow>
          if text_digest (VStr (cc_token c)) \<noteq> Inr (cy_token_hash r) then denied ''invalid cycle capability''
          else if (cy_instruction r, cy_revision r, cy_slot r, cy_deadline r)
                  \<noteq> (cc_instruction c, cc_revision c, cc_slot c, cc_deadline c)
            then denied ''tampered cycle context''
          else Inr r, s)"

text \<open>\<^verbatim>\<open>dict(exposure) != expected\<close>, with the numbers integers and not booleans.\<close>

definition expected_exposure :: "instruction \<Rightarrow> dict \<Rightarrow> val option \<Rightarrow> dict" where
  "expected_exposure i funding unit_v =
     [(VStr (str ''route''), item funding ''route''), (VStr (str ''max_charge''), item funding ''max_charge''),
      (VStr (str ''provider''), VStr (in_provider i)), (VStr (str ''model''), VStr (in_model i)),
      (VStr (str ''max_input_tokens''), VInt (in_max_input_tokens i)),
      (VStr (str ''max_output_tokens''), VInt (in_max_output_tokens i))]
     @ (case unit_v of None \<Rightarrow> [] | Some u \<Rightarrow> [(VStr (str ''unit''), u)])"

definition exposure_ok :: "dict option \<Rightarrow> dict \<Rightarrow> bool" where
  "exposure_ok exposure expected =
     (case exposure of None \<Rightarrow> False
      | Some d \<Rightarrow> py_eq (VDict d) (VDict expected)
          \<and> list_all (\<lambda>k. case dget d k of Some (VInt _) \<Rightarrow> True | _ \<Rightarrow> False)
              [''max_charge'', ''max_input_tokens'', ''max_output_tokens''])"

definition check_ceiling :: "exec_env \<Rightarrow> dict \<Rightarrow> val \<Rightarrow> unit act" where
  "check_ceiling E funding v =
     bindA (account_at E v) (\<lambda>r.
     bindA (getA (\<lambda>s. account_status_of s r)) (\<lambda>x.
       denyA (as_uncertain x \<noteq> 0 \<or> available_calls x \<le> 0
              \<or> as_active x \<ge> int_item (fa_payload r) ''max_active''
              \<or> as_charged x + int_item funding ''max_charge'' > int_item (fa_payload r) ''max_charge'')
         ''funding exhausted, busy or uncertain''))"

text \<open>\<^verbatim>\<open>_reserve_charge\<close>; a cycle has at most one charge and an operation too.\<close>

definition unit_of :: "exec_env \<Rightarrow> dict \<Rightarrow> dict option \<Rightarrow> val option act" where
  "unit_of E funding exposure =
     (case exposure of
        Some d \<Rightarrow>
          if dget d ''unit'' \<noteq> None
            then bindA (account_at E (hd (accounts_of funding))) (\<lambda>r. retA (Some (item (fa_payload r) ''unit'')))
          else retA None
      | None \<Rightarrow> retA None)"

definition insert_charge :: "charge_row \<Rightarrow> unit act" where
  "insert_charge c =
     bindA (getA j_charges) (\<lambda>rows.
       if ch_cycle c \<in> ch_cycle ` set rows \<or> ch_operation c \<in> ch_operation ` set rows
         then liftA (raise IntegrityError ''UNIQUE constraint failed: call_charges'')
       else updA (\<lambda>s. s\<lparr>j_charges := j_charges s @ [c]\<rparr>))"

definition reserve_charge :: "exec_env \<Rightarrow> cycle \<Rightarrow> instruction \<Rightarrow> pystr \<Rightarrow> dict option \<Rightarrow> unit act" where
  "reserve_charge E c i operation_id exposure =
     bindA (funding_of E i False) (\<lambda>f.
       case f of
         None \<Rightarrow> denyA (exposure \<noteq> None) ''exposure supplied without funding''
       | Some funding \<Rightarrow>
           bindA (unit_of E funding exposure) (\<lambda>u.
           bindA (denyA (\<not> exposure_ok exposure (expected_exposure i funding u)) ''qualified adapter exposure required'') (\<lambda>_.
           bindA (eachA (check_ceiling E funding) (accounts_of funding)) (\<lambda>_.
             insert_charge \<lparr>ch_cycle = cc_id c, ch_operation = operation_id, ch_sha = instruction_sha i,
               ch_maximum = int_item funding ''max_charge'', ch_actual = None, ch_receipt = None\<rparr>))))"

section \<open>Control and settlement\<close>

definition control_fields :: "string list" where
  "control_fields = [''schema'', ''store_id'', ''principal'', ''account_id'', ''revision'', ''paused'']"

definition control_ok :: "pystr \<Rightarrow> dict \<Rightarrow> bool" where
  "control_ok store_id d =
     (dkeys d = key_set control_fields \<and> item d ''schema'' = VStr (str ''execution/funding-control/v1'')
      \<and> item d ''store_id'' = VStr store_id \<and> int_between 1 (item d ''revision'') \<and> is_bool (item d ''paused''))"

definition control_funding :: "exec_env \<Rightarrow> dict \<Rightarrow> dict \<Rightarrow> unit act" where
  "control_funding E payload pr =
     bindA (check_store (\<lambda>store_id. control_ok store_id payload) ''invalid funding control'') (\<lambda>_. journaled
      (bindA (needs_funding ''funding unavailable'') (\<lambda>_.
       bindA (account_at E (item payload ''account_id'')) (\<lambda>r.
       bindA (denyA (item payload ''principal'' \<noteq> item (fa_payload r) ''principal''
                     \<or> int_item payload ''revision'' \<noteq> fa_control_revision r + 1)
         ''funding control authority/revision mismatch'') (\<lambda>_.
       bindA (record_approval E ''approve'' payload pr) (\<lambda>_.
         updA (\<lambda>s. s\<lparr>j_accounts := map (\<lambda>x. if fa_id x = fa_id r
             then x\<lparr>fa_paused := (item payload ''paused'' = VBool True),
                    fa_control_revision := int_item payload ''revision''\<rparr> else x) (j_accounts s)\<rparr>)))))))"

definition usage_fields :: "string list" where
  "usage_fields = [''schema'', ''store_id'', ''principal'', ''cycle_id'', ''operation_id'', ''actual'']"

definition usage_ok :: "cycle \<Rightarrow> pystr \<Rightarrow> dict \<Rightarrow> bool" where
  "usage_ok c store_id d =
     (dkeys d = key_set usage_fields \<and> item d ''schema'' = VStr (str ''execution/usage/v1'')
      \<and> item d ''store_id'' = VStr store_id \<and> item d ''cycle_id'' = VStr (cc_id c) \<and> int_between 0 (item d ''actual''))"

definition usage_receipt :: "dict \<Rightarrow> dict \<Rightarrow> dict" where
  "usage_receipt payload pr = [(VStr (str ''payload''), VDict payload), (VStr (str ''proof''), VDict pr)]"

definition settle_charge :: "exec_env \<Rightarrow> cycle \<Rightarrow> dict \<Rightarrow> dict \<Rightarrow> unit act" where
  "settle_charge E c payload pr =
     bindA (check_store (\<lambda>store_id. usage_ok c store_id payload) ''invalid usage receipt'') (\<lambda>_.
     bindA (liftA (case xe_usage E of
         None \<Rightarrow> denied ''no authenticated usage authority configured''
       | Some vf \<Rightarrow> verify_approval (xe_platform E) vf ''approve'' payload pr)) (\<lambda>_. journaled
      (bindA (cycle_at c) (\<lambda>_.
       bindA (needs_funding ''funding unavailable'') (\<lambda>_.
       bindA (getA (\<lambda>s. find (\<lambda>r. ch_cycle r = cc_id c) (j_charges s))) (\<lambda>row.
         case row of
           None \<Rightarrow> liftA (denied ''usage exceeds or mismatches reservation'')
         | Some r \<Rightarrow>
             bindA (denyA (item payload ''operation_id'' \<noteq> VStr (ch_operation r)
                           \<or> int_item payload ''actual'' > ch_maximum r)
               ''usage exceeds or mismatches reservation'') (\<lambda>_.
             case ch_receipt r of
               Some old \<Rightarrow> denyA (\<not> same_text old (usage_receipt payload pr)) ''conflicting usage receipt''
             | None \<Rightarrow> updA (\<lambda>s. s\<lparr>j_charges := map (\<lambda>x. if ch_cycle x = cc_id c
                   then x\<lparr>ch_actual := Some (int_item payload ''actual''), ch_receipt := Some (usage_receipt payload pr)\<rparr>
                   else x) (j_charges s)\<rparr>))))))))"

end
