(* ===== verification/Execution_Queue.thy ===== *)
theory Execution_Queue
  imports Execution_Funding
begin

text \<open>
  The coordination queue of the execution journal: episodes, the work that messages enqueue, its
  withdrawal, and the status and notice of an episode. Schema versions above 2 have these tables, the
  notice needs version 4.
\<close>

section \<open>Episodes\<close>

definition enable_coordination_queue :: "unit act" where
  "enable_coordination_queue =
     bindA enable_funding (\<lambda>_. journaled (updA (\<lambda>s. if j_version s \<in> {3, 4} then s else s\<lparr>j_version := 3\<rparr>)))"

definition enable_episode_reporting :: "unit act" where
  "enable_episode_reporting =
     bindA enable_coordination_queue (\<lambda>_. journaled (updA (\<lambda>s. s\<lparr>j_version := 4\<rparr>)))"

definition episode_fields :: "string list" where
  "episode_fields = [''schema'', ''store_id'', ''principal'', ''account_id'', ''participants'', ''instructions'',
     ''threads'', ''max_requests'', ''max_pending'', ''max_input_bytes'']"

definition eligible_list :: "val \<Rightarrow> bool" where
  "eligible_list v = (case v of
     VList vs \<Rightarrow> vs \<noteq> [] \<and> list_all short_str vs \<and> sorted_wrt (<) (map str_of vs)
   | _ \<Rightarrow> False)"

definition policy_ok :: "pystr \<Rightarrow> dict \<Rightarrow> bool" where
  "policy_ok store_id d =
     (dkeys d = key_set episode_fields \<and> item d ''schema'' = VStr (str ''execution/episode-policy/v1'')
      \<and> item d ''store_id'' = VStr store_id
      \<and> list_all (\<lambda>k. int_between 1 (item d k)) [''max_requests'', ''max_pending'', ''max_input_bytes'']
      \<and> int_item d ''max_pending'' \<le> int_item d ''max_requests'' \<and> int_item d ''max_input_bytes'' \<le> 65536)"

definition text_length :: "val \<Rightarrow> nat res" where
  "text_length v = bindR (canonical_text v) (\<lambda>b. Inr (length b))"

definition needs_queue :: "string \<Rightarrow> unit act" where
  "needs_queue m s = (if has_version 3 s then Inr () else denied m, s)"

definition funded_by :: "exec_journal \<Rightarrow> val \<Rightarrow> pystr \<Rightarrow> bool" where
  "funded_by s account sha =
     (case find (\<lambda>r. fi_sha r = sha) (j_fundings s) of None \<Rightarrow> False
      | Some r \<Rightarrow> account \<in> set (accounts_of (fi_payload r)))"

definition configure_episode :: "exec_env \<Rightarrow> dict \<Rightarrow> dict \<Rightarrow> unit act" where
  "configure_episode E payload pr =
     bindA (check_store (\<lambda>store_id. policy_ok store_id payload) ''invalid episode policy'') (\<lambda>_.
     bindA (denyA (\<not> list_all (\<lambda>k. eligible_list (item payload k)) [''participants'', ''instructions'', ''threads''])
       ''invalid episode eligibility'') (\<lambda>_.
     bindA (liftA (text_length (VDict payload))) (\<lambda>measured.
     bindA (denyA (measured > 65536) ''episode policy too large'') (\<lambda>_. journaled
      (bindA (needs_queue ''explicit queue migration required'') (\<lambda>_.
       bindA (account_at E (item payload ''account_id'')) (\<lambda>r.
       bindA (denyA (item (fa_payload r) ''kind'' \<noteq> VStr (str ''episode'')
                     \<or> item payload ''principal'' \<noteq> item (fa_payload r) ''principal'' \<or> fa_paused r)
         ''episode authority unavailable'') (\<lambda>_.
       bindA (nowA E) (\<lambda>now.
       bindA (denyA (\<not> account_open r now) ''episode authority unavailable'') (\<lambda>_.
       bindA (getA (\<lambda>s. list_all (funded_by s (item payload ''account_id'')) (strs_item payload ''instructions''))) (\<lambda>funded.
       bindA (denyA (\<not> funded) ''episode instruction is not funded by this root'') (\<lambda>_.
       bindA (record_approval E ''approve'' payload pr) (\<lambda>_.
       bindA (getA j_episodes) (\<lambda>rows.
       bindA (denyA (fa_id r \<in> ep_account ` set rows) ''immutable episode policy exists'') (\<lambda>_.
         updA (\<lambda>s. s\<lparr>j_episodes := j_episodes s
           @ [\<lparr>ep_account = fa_id r, ep_payload = payload, ep_proof = pr, ep_notice = None\<rparr>]\<rparr>))))))))))))))))"

definition find_episode :: "exec_journal \<Rightarrow> pystr \<Rightarrow> episode_row option" where
  "find_episode s a = find (\<lambda>r. ep_account r = a) (j_episodes s)"

text \<open>\<^verbatim>\<open>_episode\<close>\<close>

definition episode_at :: "exec_env \<Rightarrow> pystr \<Rightarrow> episode_row act" where
  "episode_at E a s =
     (if \<not> has_version 3 s then denied ''coordination queue unavailable''
      else (case find_episode s a of
          None \<Rightarrow> denied ''unknown coordination episode''
        | Some r \<Rightarrow>
            bindR (verify_approval (xe_platform E) (xe_verifier E) ''approve'' (ep_payload r) (ep_proof r)) (\<lambda>_.
              if item (ep_payload r) ''store_id'' \<noteq> VStr (j_store_id s) \<or> item (ep_payload r) ''account_id'' \<noteq> VStr a
                then denied ''episode audience mismatch'' else Inr r)), s)"

section \<open>Enqueueing a message\<close>

text \<open>\<^verbatim>\<open>d.get(k)\<close> of a value of unknown type.\<close>

definition get_of :: "val \<Rightarrow> string \<Rightarrow> val res" where
  "get_of v k = (case v of
     VDict d \<Rightarrow> Inr (case dget d k of Some w \<Rightarrow> w | None \<Rightarrow> VNone)
   | _ \<Rightarrow> raise AttributeError k)"

text \<open>
  What a message asks for: nothing, or work for an instruction, with the body whose size counts. The
  value is what the native reader returned for the message id.
\<close>

record work_request =
  wr_coordination :: coordination
  wr_record :: dict
  wr_body :: val

definition work_record :: "pystr \<Rightarrow> val \<Rightarrow> coordination \<Rightarrow> dict res" where
  "work_record message_id source co =
     bindR (text_digest source) (\<lambda>sha.
     bindR (subscript source ''being_ref'') (\<lambda>being.
     bindR (bindR (subscript source ''origin'') (\<lambda>o1. subscript o1 ''embodiment_id'')) (\<lambda>origin.
     bindR (bindR (subscript source ''payload'') (\<lambda>p. bindR (subscript p ''intent'') (\<lambda>i. subscript i ''thread_id''))) (\<lambda>thread.
       Inr [(VStr (str ''message_id''), VStr message_id), (VStr (str ''source_sha256''), VStr sha),
            (VStr (str ''being''), being), (VStr (str ''origin''), origin), (VStr (str ''thread''), thread),
            (VStr (str ''instruction_sha256''), VStr (co_instruction co))]))))"

definition requested_work :: "pystr \<Rightarrow> val \<Rightarrow> work_request option res" where
  "requested_work message_id source =
     bindR (get_of source ''event_id'') (\<lambda>eid.
       if eid \<noteq> VStr message_id then denied ''source lookup mismatch''
       else bindR (get_of source ''kind'') (\<lambda>kind.
       bindR (get_of source ''subject'') (\<lambda>subject.
         if kind \<noteq> VStr (str ''experience.observed'') \<or> subject \<noteq> VStr (str ''communication'') then Inr None
         else bindR (bindR (subscript source ''payload'') (\<lambda>p. subscript p ''body'')) (\<lambda>body.
         bindR (get_of body ''coordination'') (\<lambda>request.
         bindR (get_of body ''semantic_receipt'') (\<lambda>echo.
           if echo \<noteq> VNone \<or> request = VNone then Inr None
           else bindR (coordination_metadata request) (\<lambda>co.
             if co_kind co \<noteq> str ''work'' then Inr None
             else bindR (work_record message_id source co) (\<lambda>record.
               Inr (Some \<lparr>wr_coordination = co, wr_record = record, wr_body = body\<rparr>))))))))) "

definition work_id_of :: "dict \<Rightarrow> pystr res" where
  "work_id_of record = text_digest (VDict
     (map (\<lambda>k. (VStr (str k), item record k)) [''message_id'', ''being'', ''instruction_sha256'']))"

definition find_work :: "exec_journal \<Rightarrow> pystr \<Rightarrow> work_row option" where
  "find_work s w = find (\<lambda>r. wk_id r = w) (j_work s)"

text \<open>\<^verbatim>\<open>total\<close> and \<^verbatim>\<open>pending\<close>\<close>

definition work_of :: "exec_journal \<Rightarrow> pystr \<Rightarrow> work_row list" where
  "work_of s a = filter (\<lambda>w. wk_account w = a) (j_work s)"

definition is_pending_work :: "exec_journal \<Rightarrow> work_row \<Rightarrow> bool" where
  "is_pending_work s w =
     (wk_state w = Queued
      \<or> (wk_state w = WorkIntent \<and> list_ex (\<lambda>y. wk_cycle w = Some (cy_id y) \<and> in_flight y) (j_cycles s)))"

text \<open>\<^verbatim>\<open>x in policy[k]\<close>\<close>

definition listed :: "val \<Rightarrow> dict \<Rightarrow> string \<Rightarrow> bool" where
  "listed v policy k = (v \<in> VStr ` set (strs_item policy k))"

definition eligible :: "work_request \<Rightarrow> dict \<Rightarrow> nat \<Rightarrow> bool" where
  "eligible w policy measured =
     (listed (item (wr_record w) ''being'') policy ''participants''
      \<and> listed (item (wr_record w) ''thread'') policy ''threads''
      \<and> listed (VStr (co_instruction (wr_coordination w))) policy ''instructions''
      \<and> int measured \<le> int_item policy ''max_input_bytes'')"

definition insert_work :: "exec_env \<Rightarrow> work_request \<Rightarrow> pystr \<Rightarrow> dict \<Rightarrow> unit act" where
  "insert_work E w work_id policy =
     (let a = co_account_id (wr_coordination w) in
      bindA (liftA (text_length (wr_body w))) (\<lambda>measured.
      bindA (denyA (\<not> eligible w policy measured) ''source outside selected episode eligibility'') (\<lambda>_.
      bindA (account_at E (VStr a)) (\<lambda>r.
      bindA (denyA (fa_paused r) ''episode paused or expired'') (\<lambda>_.
      bindA (nowA E) (\<lambda>now.
      bindA (denyA (\<not> account_open r now) ''episode paused or expired'') (\<lambda>_.
      bindA (getA (\<lambda>s. (length (work_of s a), length (filter (is_pending_work s) (work_of s a))))) (\<lambda>(total, pending).
      bindA (denyA (int total \<ge> int_item policy ''max_requests'' \<or> int pending \<ge> int_item policy ''max_pending'')
        ''episode backlog exhausted'') (\<lambda>_.
        updA (\<lambda>s. s\<lparr>j_work := j_work s
          @ [\<lparr>wk_id = work_id, wk_account = a, wk_sha = co_instruction (wr_coordination w), wk_source = wr_record w,
              wk_state = Queued, wk_cycle = None, wk_withdrawal = None\<rparr>]\<rparr>))))))))))"

text \<open>
  \<^verbatim>\<open>enqueue_coordination\<close>, with what the native reader returned or raised. The body's text is measured
  ahead of the list tests; it is part of the source, whose text has already been printed.
\<close>

definition enqueue_coordination :: "exec_env \<Rightarrow> pystr \<Rightarrow> val res \<Rightarrow> pystr option act" where
  "enqueue_coordination E message_id source =
     bindA (liftA (bindR source (requested_work message_id))) (\<lambda>request.
       case request of
         None \<Rightarrow> retA None
       | Some w \<Rightarrow>
           bindA (liftA (work_id_of (wr_record w))) (\<lambda>work_id. journaled
            (bindA (episode_at E (co_account_id (wr_coordination w))) (\<lambda>episode.
             bindA (getA (\<lambda>s. find_work s work_id)) (\<lambda>previous.
             bindA (case previous of
                 Some old \<Rightarrow> denyA (\<not> same_text (wk_source old) (wr_record w)
                     \<or> wk_account old \<noteq> co_account_id (wr_coordination w)) ''immutable source/work conflict''
               | None \<Rightarrow> insert_work E w work_id (ep_payload episode)) (\<lambda>_.
               retA (Some work_id)))))))"

text \<open>\<^verbatim>\<open>_work\<close>\<close>

definition work_at :: "exec_env \<Rightarrow> val \<Rightarrow> work_row act" where
  "work_at E v =
     bindA (needs_queue ''coordination queue unavailable'') (\<lambda>_.
     bindA (getA (\<lambda>s. case v of VStr w \<Rightarrow> find_work s w | _ \<Rightarrow> None)) (\<lambda>row.
       case row of
         None \<Rightarrow> liftA (denied ''unknown coordination work'')
       | Some r \<Rightarrow> bindA (episode_at E (wk_account r)) (\<lambda>_. retA r)))"

definition withdrawal_fields :: "string list" where
  "withdrawal_fields = [''schema'', ''store_id'', ''principal'', ''work_id'', ''source_sha256'']"

definition withdraw_coordination :: "exec_env \<Rightarrow> dict \<Rightarrow> dict \<Rightarrow> unit act" where
  "withdraw_coordination E payload pr =
     bindA (check_store (\<lambda>store_id. dkeys payload = key_set withdrawal_fields
       \<and> item payload ''schema'' = VStr (str ''execution/work-withdrawal/v1'')
       \<and> item payload ''store_id'' = VStr store_id) ''invalid work withdrawal'') (\<lambda>_.
     bindA (liftA (verify_approval (xe_platform E) (xe_verifier E) ''approve'' payload pr)) (\<lambda>_. journaled
      (bindA (work_at E (item payload ''work_id'')) (\<lambda>w.
       bindA (episode_at E (wk_account w)) (\<lambda>episode.
       bindA (denyA (item payload ''principal'' \<noteq> item (ep_payload episode) ''principal''
                     \<or> item payload ''source_sha256'' \<noteq> item (wk_source w) ''source_sha256'')
         ''withdrawal authority/source mismatch'') (\<lambda>_.
       if wk_state w = Withdrawn then
         denyA (case wk_withdrawal w of None \<Rightarrow> True | Some old \<Rightarrow> \<not> same_text old (usage_receipt payload pr)) ''conflicting withdrawal''
       else bindA (denyA (wk_state w \<noteq> Queued) ''retained intent requires exact native cancellation'') (\<lambda>_.
       bindA (record_approval E ''approve'' payload pr) (\<lambda>_.
         updA (\<lambda>s. s\<lparr>j_work := map (\<lambda>x. if wk_id x = wk_id w
             then x\<lparr>wk_state := Withdrawn, wk_withdrawal := Some (usage_receipt payload pr)\<rparr> else x) (j_work s)\<rparr>)))))))))"

definition coordination_work :: "exec_env \<Rightarrow> val \<Rightarrow> work_row act" where
  "coordination_work E v = work_at E v"

text \<open>\<^verbatim>\<open>check_work_source\<close>, with what the reader returns for the message id now.\<close>

definition check_work_source :: "exec_env \<Rightarrow> val \<Rightarrow> (val \<Rightarrow> val res) \<Rightarrow> val act" where
  "check_work_source E v read_message =
     bindA (coordination_work E v) (\<lambda>w.
     bindA (liftA (read_message (item (wk_source w) ''message_id''))) (\<lambda>original.
     bindA (liftA (text_digest original)) (\<lambda>sha.
     bindA (denyA (VStr sha \<noteq> item (wk_source w) ''source_sha256'')
       ''queued source changed or lost authorization'') (\<lambda>_. retA original))))"

section \<open>Status and notice of an episode\<close>

datatype constraint = ClockUntrusted | Paused | NotStarted | ExpiredAccount | CallFuelExhausted
  | ChargeExposureUnavailable | ConcurrencyFull | UncertainExposure

definition account_constraints :: "rat option \<Rightarrow> int \<Rightarrow> account_status \<Rightarrow> constraint set" where
  "account_constraints observed max_charge x =
     (let d = fa_payload (as_row x) in
      (if fa_paused (as_row x) then {Paused} else {})
      \<union> (case observed of None \<Rightarrow> {}
          | Some t \<Rightarrow> (if t < of_int (int_item d ''start'') then {NotStarted} else {})
              \<union> (if t \<ge> of_int (int_item d ''end'') then {ExpiredAccount} else {}))
      \<union> (if available_calls x \<le> 0 then {CallFuelExhausted} else {})
      \<union> (if available_charge x < max_charge then {ChargeExposureUnavailable} else {})
      \<union> (if as_active x \<ge> int_item d ''max_active'' then {ConcurrencyFull} else {})
      \<union> (if as_uncertain x \<noteq> 0 then {UncertainExposure} else {}))"

record route_status =
  rt_sha :: pystr
  rt_funding :: dict
  rt_accounts :: "account_status list"
  rt_constraints :: "constraint set"

record episode_view =
  es_policy :: dict
  es_root :: account_row
  es_observed :: "rat option"
  es_routes :: "route_status list"
  es_constraints :: "constraint set"
  es_work :: "work_row list"

definition route_at :: "exec_env \<Rightarrow> pystr \<Rightarrow> rat option \<Rightarrow> pystr \<Rightarrow> route_status act" where
  "route_at E account observed sha =
     bindA (getA (\<lambda>s. find (\<lambda>r. fi_sha r = sha) (j_fundings s))) (\<lambda>row.
       case row of
         None \<Rightarrow> liftA (denied ''episode funding missing'')
       | Some r \<Rightarrow>
           bindA (liftA (verify_approval (xe_platform E) (xe_verifier E) ''approve'' (fi_payload r) (fi_proof r))) (\<lambda>_.
           bindA (check_store (\<lambda>store_id. item (fi_payload r) ''store_id'' = VStr store_id
             \<and> item (fi_payload r) ''instruction_sha256'' = VStr sha
             \<and> VStr account \<in> set (accounts_of (fi_payload r))) ''episode funding differs'') (\<lambda>_.
           bindA (eachA (\<lambda>v. bindA (account_at E v) (\<lambda>a. getA (\<lambda>s. account_status_of s a)))
             (accounts_of (fi_payload r))) (\<lambda>accounts.
             retA \<lparr>rt_sha = sha, rt_funding = fi_payload r, rt_accounts = accounts,
                   rt_constraints = (\<Union>x \<in> set accounts.
                     account_constraints observed (int_item (fi_payload r) ''max_charge'') x)\<rparr>))))"

text \<open>The clock's denial is caught: the snapshot then has no instant.\<close>

definition observed_at :: "exec_env \<Rightarrow> rat option act" where
  "observed_at E s = (case nowA E s of (Inr t, u) \<Rightarrow> (Inr (Some t), u) | (Inl e, u) \<Rightarrow> (Inr None, u))"

definition episode_snapshot :: "exec_env \<Rightarrow> pystr \<Rightarrow> episode_view act" where
  "episode_snapshot E account =
     bindA (episode_at E account) (\<lambda>episode.
     bindA (account_at E (VStr account)) (\<lambda>root.
     bindA (observed_at E) (\<lambda>observed.
     bindA (eachA (route_at E account observed) (strs_item (ep_payload episode) ''instructions'')) (\<lambda>routes.
     bindA (getA (\<lambda>s. work_of s account)) (\<lambda>work.
       retA \<lparr>es_policy = ep_payload episode, es_root = root, es_observed = observed, es_routes = routes,
             es_constraints = (if observed = None then {ClockUntrusted} else {})
               \<union> (\<Union>r \<in> set routes. rt_constraints r),
             es_work = work\<rparr>)))))"

definition episode_status :: "exec_env \<Rightarrow> pystr \<Rightarrow> episode_view act" where
  "episode_status E account = journaled (episode_snapshot E account)"

text \<open>
  The one notice of an episode: written when every route lacks calls or charge, then retained. The
  constraints it lists are those two, sorted; the observed instant is not part of its text here.
\<close>

definition unavailable :: "constraint set" where
  "unavailable = {CallFuelExhausted, ChargeExposureUnavailable}"

definition notice_dict :: "pystr \<Rightarrow> pystr \<Rightarrow> pystr \<Rightarrow> episode_view \<Rightarrow> dict" where
  "notice_dict notice_id store_id account x =
     [(VStr (str ''schema''), VStr (str ''execution/episode-notice/v1'')), (VStr (str ''notice_id''), VStr notice_id),
      (VStr (str ''store_id''), VStr store_id), (VStr (str ''account_id''), VStr account),
      (VStr (str ''kind''), VStr (str ''funding_unavailable'')),
      (VStr (str ''observed_at''), if es_observed x = None then VNone else VFloat),
      (VStr (str ''instructions''), VList (map (VStr \<circ> rt_sha) (es_routes x))),
      (VStr (str ''constraints''), VList
        ((if CallFuelExhausted \<in> es_constraints x then [VStr (str ''call_fuel_exhausted'')] else [])
         @ (if ChargeExposureUnavailable \<in> es_constraints x then [VStr (str ''charge_exposure_unavailable'')] else []))),
      (VStr (str ''execution''),
       VStr (str ''No model activated; inspect retained reservations and episode controls''))]"

definition notice_at :: "exec_env \<Rightarrow> pystr \<Rightarrow> episode_view \<Rightarrow> dict option act" where
  "notice_at E account x =
     bindA (getA (\<lambda>s. (j_store_id s, Option.bind (find_episode s account) ep_notice))) (\<lambda>(store_id, previous).
       case previous of
         Some n \<Rightarrow> retA (Some n)
       | None \<Rightarrow>
           if \<not> list_all (\<lambda>r. unavailable \<inter> rt_constraints r \<noteq> {}) (es_routes x) then retA None
           else bindA (liftA (text_digest (VDict [(VStr (str ''store_id''), VStr store_id),
               (VStr (str ''account_id''), VStr account), (VStr (str ''kind''), VStr (str ''funding_unavailable''))]))) (\<lambda>nid.
             let n = notice_dict nid store_id account x in
             bindA (updA (\<lambda>s. s\<lparr>j_episodes := map (\<lambda>r. if ep_account r = account
                 then r\<lparr>ep_notice := Some n\<rparr> else r) (j_episodes s)\<rparr>)) (\<lambda>_. retA (Some n))))"

definition episode_notice :: "exec_env \<Rightarrow> pystr \<Rightarrow> dict option act" where
  "episode_notice E account = journaled
     (bindA (getA (has_version 4)) (\<lambda>enabled.
      bindA (denyA (\<not> enabled) ''explicit reporting migration required'') (\<lambda>_.
      bindA (episode_snapshot E account) (notice_at E account))))"

record report_view =
  rp_snapshot :: episode_view
  rp_enabled :: bool
  rp_notice :: "dict option"

definition episode_report :: "exec_env \<Rightarrow> pystr \<Rightarrow> report_view act" where
  "episode_report E account = journaled
     (bindA (episode_snapshot E account) (\<lambda>x.
      bindA (getA (has_version 4)) (\<lambda>enabled.
      bindA (if enabled then notice_at E account x else retA None) (\<lambda>n.
        retA \<lparr>rp_snapshot = x, rp_enabled = enabled, rp_notice = n\<rparr>))))"

end
