(* ===== verification/Execution_Cycles.thy ===== *)
theory Execution_Cycles
  imports Execution_Queue
begin

text \<open>
  Cycles of the execution journal: their reservation, the guard before every effect, dispatch, and the
  ways they end. The identifiers and tokens that the code draws at random are arguments, and so is
  what a callback does: it observes the clock some number of times, then raises or returns.
\<close>

section \<open>Reservation\<close>

text \<open>The three unique constraints of the table.\<close>

definition conflicts :: "exec_journal \<Rightarrow> cycle_row \<Rightarrow> bool" where
  "conflicts s c =
     list_ex (\<lambda>r. cy_id r = cy_id c
        \<or> (cy_instruction r = cy_instruction c \<and> cy_revision r = cy_revision c \<and> cy_slot r = cy_slot c)
        \<or> (cy_binding r = cy_binding c \<and> in_flight r)) (j_cycles s)"

definition slot_at :: "instruction \<Rightarrow> rat \<Rightarrow> int" where
  "slot_at i now = (case in_interval i of None \<Rightarrow> 0
     | Some interval \<Rightarrow> \<lfloor>(now - of_int (in_start i)) / of_int interval\<rfloor>)"

text \<open>A queued work item that asks for this instruction; \<open>False\<close> is the early \<^verbatim>\<open>return None\<close>.\<close>

definition work_ready :: "exec_env \<Rightarrow> instruction \<Rightarrow> pystr option \<Rightarrow> bool act" where
  "work_ready E i work_id =
     (case work_id of
        None \<Rightarrow> retA True
      | Some w \<Rightarrow>
          bindA (work_at E (VStr w)) (\<lambda>row.
            if wk_state row \<noteq> Queued then retA False
            else bindA (denyA (wk_sha row \<noteq> instruction_sha i) ''queued instruction mismatch'') (\<lambda>_.
              bindA (funding_of E i True) (\<lambda>_. retA True))))"

definition insert_cycle :: "exec_env \<Rightarrow> instruction_row \<Rightarrow> instruction \<Rightarrow> rat \<Rightarrow> pystr \<Rightarrow> pystr \<Rightarrow> pystr option
    \<Rightarrow> cycle option act" where
  "insert_cycle E row i now cycle_id token work_id =
     (let c = \<lparr>cc_id = cycle_id, cc_instruction = ir_id row, cc_revision = ir_revision row, cc_slot = slot_at i now,
               cc_deadline = min (of_int (in_end i)) (now + of_int (in_max_cycle_seconds i)), cc_token = token\<rparr> in
      bindA (liftA (text_digest (VStr token))) (\<lambda>hash.
      let r = \<lparr>cy_id = cycle_id, cy_instruction = ir_id row, cy_revision = ir_revision row, cy_slot = cc_slot c,
               cy_binding = (in_runner i, in_session i), cy_deadline = cc_deadline c,
               cy_generation = ir_generation row, cy_token_hash = hash, cy_state = Intent\<rparr> in
      bindA (getA (\<lambda>s. conflicts s r)) (\<lambda>taken.
        if taken then retA None
        else bindA (updA (\<lambda>s. s\<lparr>j_cycles := j_cycles s @ [r],
            j_work := (case work_id of None \<Rightarrow> j_work s
              | Some w \<Rightarrow> map (\<lambda>x. if wk_id x = w then x\<lparr>wk_state := WorkIntent, wk_cycle := Some cycle_id\<rparr> else x)
                  (j_work s))\<rparr>)) (\<lambda>_. retA (Some c)))))"

definition reserve ::
  "exec_env \<Rightarrow> pystr \<Rightarrow> int \<Rightarrow> pystr \<times> pystr \<times> pystr \<times> pystr \<Rightarrow> pystr option \<Rightarrow> pystr \<Rightarrow> pystr \<Rightarrow> cycle option act" where
  "reserve E identity revision b work_id cycle_id token = journaled
     (bindA (nowA E) (\<lambda>now.
      bindA (getA (\<lambda>s. find_instruction s identity revision)) (\<lambda>found.
        case found of
          None \<Rightarrow> retA None
        | Some row \<Rightarrow>
            if ir_state row \<noteq> Active \<or> ir_proof row = None then retA None
            else bindA (instruction_at E row) (\<lambda>i.
              bindA (work_ready E i work_id) (\<lambda>ready.
                if \<not> ready then retA None
                else if binding i \<noteq> b \<or> \<not> (of_int (in_start i) \<le> now \<and> now < of_int (in_end i)) then retA None
                else bindA (getA (\<lambda>s. length (cycles_of s identity revision))) (\<lambda>count.
                  if int count \<ge> in_max_cycles i then retA None
                  else insert_cycle E row i now cycle_id token work_id))))))"

section \<open>The guard\<close>

definition cycle_open :: "cycle_row \<Rightarrow> instruction_row \<Rightarrow> instruction \<Rightarrow> cycle \<Rightarrow> rat \<Rightarrow> bool" where
  "cycle_open c row i cap now =
     (cy_state c = Intent \<and> ir_state row = Active \<and> ir_proof row \<noteq> None \<and> cy_generation c = ir_generation row
      \<and> of_int (in_start i) \<le> now \<and> now < min (of_int (in_end i)) (cc_deadline cap))"

definition guard :: "exec_env \<Rightarrow> cycle \<Rightarrow> instruction act" where
  "guard E cap =
     bindA (nowA E) (\<lambda>now.
     bindA (cycle_at cap) (\<lambda>c.
     bindA (instruction_row_at (cc_instruction cap) (cc_revision cap)) (\<lambda>row.
     bindA (instruction_at E row) (\<lambda>i.
     bindA (denyA (\<not> cycle_open c row i cap now) ''cycle fenced'') (\<lambda>_.
     bindA (funding_of E i False) (\<lambda>_. retA i))))))"

definition check :: "exec_env \<Rightarrow> cycle \<Rightarrow> instruction act" where
  "check E cap = journaled (guard E cap)"

text \<open>A callback of the caller.\<close>

record 'a callback =
  cb_observations :: nat
  cb_result :: "'a res"

fun observeA :: "exec_env \<Rightarrow> nat \<Rightarrow> unit act" where
  "observeA E 0 = retA ()"
| "observeA E (Suc n) = bindA (nowA E) (\<lambda>_. observeA E n)"

definition call_back :: "exec_env \<Rightarrow> 'a callback \<Rightarrow> 'a act" where
  "call_back E f = bindA (observeA E (cb_observations f)) (\<lambda>_. liftA (cb_result f))"

definition cancellation_check :: "exec_env \<Rightarrow> cycle \<Rightarrow> rat option \<Rightarrow> unit callback \<Rightarrow> instruction act" where
  "cancellation_check E cap remaining checkpoint =
     bindA (cleanup_left remaining) (\<lambda>_. journaled
      (bindA (guard E cap) (\<lambda>i. bindA (call_back E checkpoint) (\<lambda>_. retA i))))"

section \<open>Dispatch\<close>

definition set_cycle_state :: "pystr \<Rightarrow> cycle_state \<Rightarrow> exec_journal \<Rightarrow> exec_journal" where
  "set_cycle_state c st s = s\<lparr>j_cycles := map (\<lambda>r. if cy_id r = c then r\<lparr>cy_state := st\<rparr> else r) (j_cycles s)\<rparr>"

definition mark_ambiguous :: "cycle \<Rightarrow> unit act" where
  "mark_ambiguous cap = journaled
     (bindA (cycle_at cap) (\<lambda>r.
        updA (if cy_state r = Intent then set_cycle_state (cc_id cap) Ambiguous else id)))"

definition cancellation_mark_ambiguous :: "cycle \<Rightarrow> rat option \<Rightarrow> unit act" where
  "cancellation_mark_ambiguous cap remaining = bindA (cleanup_left remaining) (\<lambda>_. mark_ambiguous cap)"

definition operations_of :: "exec_journal \<Rightarrow> pystr \<Rightarrow> pystr \<Rightarrow> operation_row list" where
  "operations_of s c kind = filter (\<lambda>o'. op_cycle o' = c \<and> op_kind o' = kind) (j_operations s)"

definition inference_kinds :: "pystr list" where
  "inference_kinds = [str ''inference'', str ''provider'']"

definition operation_limit :: "instruction \<Rightarrow> pystr \<Rightarrow> int" where
  "operation_limit i kind = (if kind \<in> set inference_kinds then 1 else in_max_effects i)"

text \<open>The first transaction: the intent of the operation, with its charge.\<close>

definition admit :: "exec_env \<Rightarrow> cycle \<Rightarrow> pystr \<Rightarrow> scope option \<Rightarrow> unit callback \<Rightarrow> dict option \<Rightarrow> pystr \<Rightarrow> unit act" where
  "admit E cap kind sc checkpoint exposure operation_id =
     bindA (guard E cap) (\<lambda>i.
     bindA (call_back E checkpoint) (\<lambda>_.
     bindA (denyA (kind = str ''native'' \<and> (case sc of None \<Rightarrow> True | Some x \<Rightarrow> x \<notin> set (in_scope i))) ''outside approved scope'') (\<lambda>_.
     bindA (denyA (kind \<in> set inference_kinds \<and> sc \<noteq> None) ''invalid inference scope'') (\<lambda>_.
     bindA (getA (\<lambda>s. length (operations_of s (cc_id cap) kind))) (\<lambda>count.
     bindA (denyA (int count \<ge> operation_limit i kind) ''cycle resource budget exhausted'') (\<lambda>_.
     bindA (getA (\<lambda>s. operation_id \<in> op_id ` set (j_operations s))) (\<lambda>taken.
     bindA (if taken then liftA (raise IntegrityError ''UNIQUE constraint failed: operations'')
            else updA (\<lambda>s. s\<lparr>j_operations := j_operations s
              @ [\<lparr>op_id = operation_id, op_cycle = cc_id cap, op_kind = kind, op_scope = sc, op_returned = False\<rparr>]\<rparr>)) (\<lambda>_.
       if kind = str ''provider'' then reserve_charge E cap i operation_id exposure else retA ()))))))))"

text \<open>The second: the submission, under the guard again.\<close>

definition funding_certain :: "exec_env \<Rightarrow> instruction \<Rightarrow> unit act" where
  "funding_certain E i =
     bindA (funding_of E i False) (\<lambda>f.
       case f of
         None \<Rightarrow> retA ()
       | Some funding \<Rightarrow>
           bindA (getA (\<lambda>s. list_ex (\<lambda>v. uncertain_calls s (str_of v) \<noteq> 0) (accounts_of funding))) (\<lambda>uncertain.
             denyA uncertain ''shared funding became uncertain''))"

definition submit_step :: "exec_env \<Rightarrow> cycle \<Rightarrow> pystr \<Rightarrow> unit callback \<Rightarrow> 'a callback \<Rightarrow> pystr \<Rightarrow> 'a act" where
  "submit_step E cap kind checkpoint submit operation_id =
     bindA (guard E cap) (\<lambda>i.
     bindA (if kind = str ''provider'' then funding_certain E i else retA ()) (\<lambda>_.
     bindA (call_back E checkpoint) (\<lambda>_.
     bindA (call_back E submit) (\<lambda>result.
     bindA (updA (\<lambda>s. s\<lparr>j_operations := map (\<lambda>x. if op_id x = operation_id then x\<lparr>op_returned := True\<rparr> else x)
       (j_operations s)\<rparr>)) (\<lambda>_. retA result)))))"

text \<open>\<^verbatim>\<open>except BaseException: self.mark_ambiguous(cycle); raise\<close>\<close>

definition or_ambiguous :: "cycle \<Rightarrow> 'a act \<Rightarrow> 'a act" where
  "or_ambiguous cap m s =
     (case m s of
        (Inr x, t) \<Rightarrow> (Inr x, t)
      | (Inl e, t) \<Rightarrow> (case mark_ambiguous cap t of (Inl e', u) \<Rightarrow> (Inl e', u) | (Inr _, u) \<Rightarrow> (Inl e, u)))"

definition dispatch ::
  "exec_env \<Rightarrow> cycle \<Rightarrow> pystr \<Rightarrow> scope option \<Rightarrow> unit callback \<Rightarrow> unit callback \<Rightarrow> 'a callback \<Rightarrow> dict option \<Rightarrow> pystr
     \<Rightarrow> 'a act" where
  "dispatch E cap kind sc first_checkpoint checkpoint submit exposure operation_id =
     bindA (denyA (kind \<notin> set (inference_kinds @ [str ''native''])) ''unsupported dispatch'') (\<lambda>_.
     bindA (journaled (admit E cap kind sc first_checkpoint exposure operation_id)) (\<lambda>_.
       or_ambiguous cap (journaled (submit_step E cap kind checkpoint submit operation_id))))"

section \<open>The end of a cycle\<close>

definition terminal_outcomes :: "pystr list" where
  "terminal_outcomes = [str ''completed'', str ''stopped'']"

definition finish_step :: "exec_env \<Rightarrow> cycle \<Rightarrow> pystr \<Rightarrow> unit act" where
  "finish_step E cap outcome =
     bindA (cycle_at cap) (\<lambda>r.
     bindA (denyA (\<not> in_flight r) ''cycle already terminal'') (\<lambda>_.
     bindA (updA (set_cycle_state (cc_id cap) (Done outcome))) (\<lambda>_.
     bindA (bindA (instruction_row_at (cy_instruction r) (cy_revision r)) (instruction_at E)) (\<lambda>i.
     bindA (getA (\<lambda>s. length (cycles_of s (cy_instruction r) (cy_revision r)))) (\<lambda>count.
       updA (if int count \<ge> in_max_cycles i
         then set_instruction (cy_instruction r) (cy_revision r)
                (\<lambda>x. if ir_state x = Active then x\<lparr>ir_state := Completed\<rparr> else x)
         else id))))))"

definition finish :: "exec_env \<Rightarrow> cycle \<Rightarrow> pystr \<Rightarrow> unit act" where
  "finish E cap outcome =
     bindA (denyA (outcome \<notin> set terminal_outcomes) ''unsupported terminal outcome'') (\<lambda>_.
       journaled (finish_step E cap outcome))"

definition cancellation_finish :: "exec_env \<Rightarrow> cycle \<Rightarrow> pystr \<Rightarrow> rat option \<Rightarrow> unit act" where
  "cancellation_finish E cap outcome remaining =
     bindA (denyA (outcome \<notin> set terminal_outcomes) ''unsupported terminal outcome'') (\<lambda>_.
     bindA (cleanup_left remaining) (\<lambda>_. journaled (finish_step E cap outcome)))"

definition cycle_status :: "pystr \<Rightarrow> (cycle_row \<times> operation_row list) act" where
  "cycle_status c s =
     (case find (\<lambda>r. cy_id r = c) (j_cycles s) of
        None \<Rightarrow> denied ''unknown cycle''
      | Some r \<Rightarrow> Inr (r, filter (\<lambda>x. op_cycle x = c) (j_operations s)), s)"

definition cancellation_cycle_status :: "pystr \<Rightarrow> rat option \<Rightarrow> (cycle_row \<times> operation_row list) act" where
  "cancellation_cycle_status c remaining = bindA (cleanup_left remaining) (\<lambda>_. cycle_status c)"

end
