(* ===== verification/Execution_Laws.thy ===== *)
theory Execution_Laws
  imports Execution_Cycles
begin

text \<open>
  How the operations of the execution journal change its tables: the small effects they are made of,
  each under the checks that precede it, and that every operation is a path of such effects, whatever
  it returns.
\<close>

section \<open>Runs of operations\<close>

named_theorems quiet "operations that leave the tables as they are"
named_theorems ran "what it means that an operation returned"

text \<open>The tables, without the clock's fields.\<close>

definition tables :: "exec_journal \<Rightarrow> exec_journal" where
  "tables s = s\<lparr>j_high_water := 0, j_fault := False, j_ticks := 0\<rparr>"

lemma tables_eq:
  "tables s = tables t \<longleftrightarrow>
     j_store_id s = j_store_id t \<and> j_version s = j_version t \<and> j_instructions s = j_instructions t \<and> j_cycles s = j_cycles t
     \<and> j_operations s = j_operations t \<and> j_approvals s = j_approvals t \<and> j_accounts s = j_accounts t
     \<and> j_fundings s = j_fundings t \<and> j_members s = j_members t \<and> j_charges s = j_charges t
     \<and> j_episodes s = j_episodes t \<and> j_work s = j_work t"
  by (cases s; cases t) (auto simp: tables_def)

definition is_quiet :: "'a act \<Rightarrow> bool" where
  "is_quiet m \<longleftrightarrow> (\<forall>s. tables (snd (m s)) = tables s)"

lemma quiet_keeps: "is_quiet m \<Longrightarrow> m s = (r, t) \<Longrightarrow> tables t = tables s"
  by (metis is_quiet_def snd_conv)

lemma quiet_basic [quiet]:
  "is_quiet (retA x)" "is_quiet (liftA r)" "is_quiet (getA f)" "is_quiet (denyA b m)" "is_quiet (needs_funding m)"
  "is_quiet (needs_queue m)" "is_quiet (check_store ok m)" "is_quiet (account_at E v)" "is_quiet (cycle_at c)"
  "is_quiet (instruction_row_at i n)" "is_quiet (latest_row i)" "is_quiet (instruction_at E row)" "is_quiet (wrong_audience j)"
  "is_quiet (episode_at E a)" "is_quiet (cycle_status a)"
  by (simp_all add: is_quiet_def retA_def liftA_def getA_def denyA_def needs_funding_def needs_queue_def check_store_def
      account_at_def cycle_at_def instruction_row_at_def latest_row_def instruction_at_def wrong_audience_def episode_at_def
      cycle_status_def)

lemma quiet_now [quiet]: "is_quiet (nowA E)"
  by (auto simp: is_quiet_def nowA_def Let_def tables_def split: option.splits)

lemma quiet_observed [quiet]: "is_quiet (observed_at E)"
  by (auto simp: is_quiet_def observed_at_def split: prod.splits sum.splits dest: quiet_keeps [OF quiet_now])

lemma quiet_bind [quiet]: "is_quiet m \<Longrightarrow> (\<And>x. is_quiet (f x)) \<Longrightarrow> is_quiet (bindA m f)"
  by (auto simp: is_quiet_def bindA_def split: prod.splits sum.splits) (metis snd_conv)+

lemma quiet_cases [quiet]:
  "is_quiet m \<Longrightarrow> is_quiet n \<Longrightarrow> is_quiet (if b then m else n)"
  "is_quiet m \<Longrightarrow> (\<And>x. is_quiet (f x)) \<Longrightarrow> is_quiet (case_option m f v)"
  by (auto split: option.splits)

lemma quiet_each [quiet]: "(\<And>x. is_quiet (f x)) \<Longrightarrow> is_quiet (eachA f xs)"
  by (induction xs) (auto intro: quiet)

lemma journaled_Inr [ran]: "journaled m s = (Inr x, t) \<longleftrightarrow> m s = (Inr x, t)"
  by (auto simp: journaled_def split: prod.splits sum.splits)

lemma journaled_Inl: "journaled m s = (Inl e, t) \<Longrightarrow> tables t = tables s"
  by (auto simp: journaled_def tables_def split: prod.splits sum.splits)

lemma quiet_journaled [quiet]: "is_quiet m \<Longrightarrow> is_quiet (journaled m)"
  unfolding is_quiet_def
  by (auto simp: journaled_def tables_def split: prod.splits sum.splits) (metis snd_conv)

lemma bindA_InrE:
  assumes "bindA m f s = (Inr y, t)" obtains x u where "m s = (Inr x, u)" "f x u = (Inr y, t)"
  using assms by (auto simp: bindA_def split: prod.splits sum.splits)

lemma bindA_Inr [ran]: "bindA m f s = (Inr y, t) \<longleftrightarrow> (\<exists>x u. m s = (Inr x, u) \<and> f x u = (Inr y, t))"
  by (auto simp: bindA_def split: prod.splits sum.splits)

lemma basic_Inr [ran]:
  "retA x s = (Inr y, t) \<longleftrightarrow> y = x \<and> t = s" "liftA r s = (Inr y, t) \<longleftrightarrow> r = Inr y \<and> t = s"
  "getA f s = (Inr y, t) \<longleftrightarrow> y = f s \<and> t = s" "updA g s = (Inr u, t) \<longleftrightarrow> t = g s"
  "denyA b m s = (Inr u, t) \<longleftrightarrow> \<not> b \<and> t = s"
  by (auto simp: retA_def liftA_def getA_def updA_def denyA_def)

text \<open>Reads.\<close>

lemma reads_Inr [ran]:
  "needs_funding m s = (Inr u, t) \<longleftrightarrow> has_version 2 s \<and> t = s"
  "needs_queue m s = (Inr u, t) \<longleftrightarrow> has_version 3 s \<and> t = s"
  "check_store ok m s = (Inr u, t) \<longleftrightarrow> ok (j_store_id s) \<and> t = s"
  "wrong_audience j s = (Inr u, t) \<longleftrightarrow> in_store_id j = j_store_id s \<and> t = s"
  "instruction_row_at i n s = (Inr r, t) \<longleftrightarrow> find_instruction s i n = Some r \<and> t = s"
  "instruction_at E r s = (Inr x, t) \<longleftrightarrow> read_instruction E (j_store_id s) r = Inr x \<and> t = s"
  by (auto simp: needs_funding_def needs_queue_def check_store_def wrong_audience_def instruction_row_at_def
      instruction_at_def split: option.splits)

lemma found_in: "find P xs = Some x \<Longrightarrow> x \<in> set xs \<and> P x"
  by (induction xs) (auto split: if_splits)

lemma account_at_Inr:
  assumes "account_at E v s = (Inr r, t)"
  shows "t = s \<and> r \<in> set (j_accounts s) \<and> v = VStr (fa_id r) \<and> find_account s (fa_id r) = Some r"
  using assms by (auto simp: account_at_def find_account_def res split: val.splits if_splits option.splits dest: found_in)

lemma cycle_at_Inr:
  assumes "cycle_at c s = (Inr r, t)"
  shows "t = s \<and> r \<in> set (j_cycles s) \<and> cy_id r = cc_id c \<and> cy_instruction r = cc_instruction c
    \<and> cy_revision r = cc_revision c"
  using assms by (auto simp: cycle_at_def split: if_splits option.splits dest: found_in)

lemma episode_at_Inr: "episode_at E a s = (Inr r, t) \<Longrightarrow> t = s \<and> has_version 3 s"
  by (auto simp: episode_at_def split: if_splits)

lemma nowA_Inr: "nowA E s = (Inr now, t) \<Longrightarrow> tables t = tables s \<and> j_high_water t = now \<and> \<not> j_fault t"
  by (auto simp: nowA_def Let_def tables_def split: option.splits if_splits)

lemma quiet_observe [quiet]: "is_quiet (observeA E n)"
  by (induction n) (auto intro: quiet)

lemma quiet_funding [quiet]: "is_quiet (funding_of E i b)"
  unfolding funding_of_def check_open_def by (intro quiet)

lemma quiet_more [quiet]:
  "is_quiet (call_back E f)" "is_quiet (guard E cap)" "is_quiet (cleanup_left q)" "is_quiet (work_at E v)"
  "is_quiet (check_renewal E i)" "is_quiet (check_account i d now r)" "is_quiet (unit_of E d e)"
  "is_quiet (check_ceiling E d v)" "is_quiet (funding_certain E i)" "is_quiet (cancellation_payload E j n)"
  "is_quiet (route_at E j o' k)"
  unfolding call_back_def guard_def cleanup_left_def work_at_def check_renewal_def check_account_def unit_of_def
    check_ceiling_def funding_certain_def cancellation_payload_def route_at_def
  by (intro quiet)+

lemma quiet_snapshot [quiet]: "is_quiet (episode_snapshot E a)" "is_quiet (work_ready E i w)"
  unfolding episode_snapshot_def work_ready_def by (intro quiet)+

section \<open>Effects\<close>

text \<open>An update that ends the authority of a row, or leaves it alone.\<close>

definition retires :: "(instruction_row \<Rightarrow> instruction_row) \<Rightarrow> bool" where
  "retires f \<longleftrightarrow> (\<forall>r. f r = r \<or> (ir_id (f r) = ir_id r \<and> ir_revision (f r) = ir_revision r
     \<and> ir_payload (f r) = ir_payload r \<and> ir_proof (f r) = ir_proof r \<and> ir_generation r \<le> ir_generation (f r)
     \<and> ir_state (f r) \<in> {Cancelled, Expired, Completed}))"

text \<open>An account with room for a charge.\<close>

definition has_room :: "exec_journal \<Rightarrow> int \<Rightarrow> account_row \<Rightarrow> bool" where
  "has_room s n r \<longleftrightarrow> calls s (fa_id r) < int_item (fa_payload r) ''max_calls''
     \<and> active_calls s (fa_id r) < int_item (fa_payload r) ''max_active''
     \<and> charged s (fa_id r) + n \<le> int_item (fa_payload r) ''max_charge''"

inductive effect :: "exec_env \<Rightarrow> exec_journal \<Rightarrow> exec_journal \<Rightarrow> bool" for E where
  idle: "tables t = tables s \<Longrightarrow> effect E s t"
| recorded: "ev_id a \<notin> ev_id ` set (j_approvals s) \<Longrightarrow> effect E s (s\<lparr>j_approvals := j_approvals s @ [a]\<rparr>)"
| proposed: "find_instruction s (in_id i) (in_revision i) = None \<Longrightarrow>
    effect E s (s\<lparr>j_instructions := j_instructions s @ [\<lparr>ir_id = in_id i, ir_revision = in_revision i,
      ir_payload = instruction_dict i, ir_proof = None, ir_state = Pending, ir_generation = 0\<rparr>]\<rparr>)"
| activated: "(\<And>r. find_instruction s (in_id i) (in_revision i) = Some r \<Longrightarrow> ir_state r = Pending) \<Longrightarrow>
    approval_ok (xe_platform E) (xe_verifier E) ''approve'' (instruction_dict i) pr \<Longrightarrow>
    effect E s (s\<lparr>j_instructions := activate i pr (j_instructions s)\<rparr>)"
| retired: "retires f \<Longrightarrow> effect E s (set_instruction i n f s)"
| reserved: "find_instruction s (cy_instruction c) (cy_revision c) = Some row \<Longrightarrow> ir_state row = Active \<Longrightarrow>
    read_instruction E (j_store_id s) row = Inr i \<Longrightarrow> cy_state c = Intent \<Longrightarrow>
    cy_binding c = (in_runner i, in_session i) \<Longrightarrow> \<not> conflicts s c \<Longrightarrow>
    int (length (cycles_of s (cy_instruction c) (cy_revision c))) < in_max_cycles i \<Longrightarrow>
    effect E s (s\<lparr>j_cycles := j_cycles s @ [c], j_work := w\<rparr>)"
| admitted: "c \<in> set (j_cycles s) \<Longrightarrow> cy_id c = op_cycle p \<Longrightarrow>
    find_instruction s (cy_instruction c) (cy_revision c) = Some row \<Longrightarrow>
    read_instruction E (j_store_id s) row = Inr i \<Longrightarrow> ir_state row = Active \<Longrightarrow>
    int (length (operations_of s (op_cycle p) (op_kind p))) < operation_limit i (op_kind p) \<Longrightarrow>
    (\<forall>x. op_scope p = Some x \<longrightarrow> x \<in> set (in_scope i)) \<Longrightarrow>
    op_id p \<notin> op_id ` set (j_operations s) \<Longrightarrow>
    effect E s (s\<lparr>j_operations := j_operations s @ [p]\<rparr>)"
| charging: "c \<in> set (j_cycles s) \<Longrightarrow> cy_id c = ch_cycle h \<Longrightarrow> find_funding s (ch_sha h) = Some fr \<Longrightarrow>
    ch_actual h = None \<Longrightarrow> ch_receipt h = None \<Longrightarrow>
    (\<And>v. v \<in> set (accounts_of (fi_payload fr)) \<Longrightarrow>
       \<exists>r. find_account s (fa_id r) = Some r \<and> v = VStr (fa_id r) \<and> has_room s (ch_maximum h) r) \<Longrightarrow>
    ch_cycle h \<notin> ch_cycle ` set (j_charges s) \<Longrightarrow>
    effect E s (s\<lparr>j_charges := j_charges s @ [h]\<rparr>)"
| returned: "effect E s (s\<lparr>j_operations := map (\<lambda>x. if op_id x = k then x\<lparr>op_returned := True\<rparr> else x) (j_operations s)\<rparr>)"
| moved: "c \<in> set (j_cycles s) \<Longrightarrow> cy_id c = k \<Longrightarrow> in_flight c \<Longrightarrow> st \<noteq> Intent \<Longrightarrow> effect E s (set_cycle_state k st s)"
| granted: "account_ok (j_store_id s) d \<Longrightarrow> str_item d ''account_id'' \<notin> fa_id ` set (j_accounts s) \<Longrightarrow>
    effect E s (s\<lparr>j_accounts := j_accounts s @ [\<lparr>fa_id = str_item d ''account_id'', fa_payload = d, fa_proof = pr,
      fa_paused = False, fa_control_revision = 0\<rparr>]\<rparr>)"
| funded: "sha \<notin> fi_sha ` set (j_fundings s) \<Longrightarrow> has_version 2 s \<Longrightarrow> distinct (accounts_of d) \<Longrightarrow>
    (\<And>v. v \<in> set (accounts_of d) \<Longrightarrow> \<exists>r \<in> set (j_accounts s). v = VStr (fa_id r)) \<Longrightarrow>
    effect E s (s\<lparr>j_fundings := j_fundings s @ [\<lparr>fi_sha = sha, fi_payload = d, fi_proof = pr\<rparr>],
      j_members := j_members s @ map (\<lambda>v. (sha, str_of v)) (accounts_of d)\<rparr>)"
| controlled: "effect E s (s\<lparr>j_accounts := map (\<lambda>x. if fa_id x = a then x\<lparr>fa_paused := b, fa_control_revision := n\<rparr> else x)
      (j_accounts s)\<rparr>)"
| settled: "find (\<lambda>x. ch_cycle x = k) (j_charges s) = Some h \<Longrightarrow> ch_receipt h = None \<Longrightarrow> 0 \<le> n \<Longrightarrow> n \<le> ch_maximum h \<Longrightarrow>
    effect E s (s\<lparr>j_charges := map (\<lambda>x. if ch_cycle x = k then x\<lparr>ch_actual := Some n, ch_receipt := Some d\<rparr> else x)
      (j_charges s)\<rparr>)"
| migrated: "2 \<le> v \<Longrightarrow> effect E s (s\<lparr>j_version := v\<rparr>)"
| queued: "effect E s (s\<lparr>j_episodes := e, j_work := w\<rparr>)"

abbreviation path :: "exec_env \<Rightarrow> exec_journal \<Rightarrow> exec_journal \<Rightarrow> bool" where
  "path E \<equiv> rtranclp (effect E)"

lemma path_step: "path E s u \<Longrightarrow> effect E u t \<Longrightarrow> path E s t"
  by (rule rtranclp.rtrancl_into_rtrancl)

lemma path_quiet: "tables t = tables s \<Longrightarrow> path E s t"
  by (rule r_into_rtranclp) (rule effect.idle)

lemma quiet_path: "is_quiet m \<Longrightarrow> m s = (r, t) \<Longrightarrow> path E s t"
  by (rule path_quiet) (rule quiet_keeps)

lemma path_journaled:
  assumes "\<And>x t. m s = (Inr x, t) \<Longrightarrow> path E s t" shows "path E s (snd (journaled m s))"
proof (cases "journaled m s")
  case (Pair r t)
  show ?thesis
  proof (cases r)
    case (Inl e)
    then show ?thesis using Pair journaled_Inl [of m s] path_quiet by auto
  next
    case (Inr x)
    then have "m s = (Inr x, t)" using Pair by (simp only: ran)
    then show ?thesis using Pair assms by simp
  qed
qed

lemma path_bind:
  assumes "path E s (snd (m s))" and "\<And>x u. m s = (Inr x, u) \<Longrightarrow> path E u (snd (f x u))"
  shows "path E s (snd (bindA m f s))"
  using assms by (auto simp: bindA_def split: prod.splits sum.splits intro: rtranclp_trans)

lemma path_if: "(b \<Longrightarrow> path E s (snd (m s))) \<Longrightarrow> (\<not> b \<Longrightarrow> path E s (snd (n s))) \<Longrightarrow> path E s (snd ((if b then m else n) s))"
  by simp

lemma path_of_quiet: "is_quiet m \<Longrightarrow> path E s (snd (m s))"
  using quiet_path [of m s] by (metis prod.collapse)

lemma path_via: "tables u = tables s \<Longrightarrow> effect E u t \<Longrightarrow> path E s t"
  by (metis path_quiet path_step)

lemma path_via2: "tables u = tables s \<Longrightarrow> effect E u v \<Longrightarrow> effect E v t \<Longrightarrow> path E s t"
  by (metis path_via path_step)

section \<open>Every operation is a path\<close>

lemma record_Inr [ran]:
  "record_approval E a p pr s = (Inr u, t) \<longleftrightarrow>
     approval_ok (xe_platform E) (xe_verifier E) a p pr \<and> str_item pr ''event_id'' \<notin> ev_id ` set (j_approvals s)
     \<and> t = s\<lparr>j_approvals := j_approvals s @ [\<lparr>ev_id = str_item pr ''event_id'', ev_principal = str_item pr ''principal'',
              ev_action = a, ev_proof = pr\<rparr>]\<rparr>"
  by (auto simp: record_approval_def verify_approval_def ran res)

lemma record_effect: "record_approval E a p pr s = (Inr u, t) \<Longrightarrow> effect E s t"
  by (simp only: ran) (elim conjE, simp, rule effect.recorded, simp)


text \<open>A guarded transaction: what comes first is quiet, what comes after is a path when it succeeds.\<close>

lemma path_guarded:
  assumes "is_quiet m" "\<And>x u y t. m s = (Inr x, u) \<Longrightarrow> f x u = (Inr y, t) \<Longrightarrow> path E u t"
  shows "path E s (snd (bindA m (\<lambda>x. journaled (f x)) s))"
  by (rule path_bind) (auto intro: path_of_quiet assms path_journaled)

lemma path_quiet_bind:
  "is_quiet m \<Longrightarrow> (\<And>x u. m s = (Inr x, u) \<Longrightarrow> path E u (snd (f x u))) \<Longrightarrow> path E s (snd (bindA m f s))"
  by (rule path_bind) (auto intro: path_of_quiet)

lemma path_whole: "path E s (snd (m s)) \<Longrightarrow> path E s (snd (journaled m s))"
  by (rule path_journaled) simp

lemma path_record: "path E s (snd (record_approval E a p pr s))"
proof (cases "record_approval E a p pr s")
  case (Pair r t)
  show ?thesis
  proof (cases r)
    case (Inl e)
    then have "t = s" using Pair
      by (auto simp: record_approval_def bindA_def liftA_def getA_def denyA_def updA_def split: sum.splits if_splits)
    then show ?thesis by (simp add: Pair)
  next
    case (Inr x)
    then show ?thesis using Pair record_effect by fastforce
  qed
qed

lemma path_propose: "path E s (snd (propose E i s))"
  unfolding propose_def
  by (rule path_guarded) (auto simp: ran intro: quiet path_via effect.proposed dest: quiet_keeps [OF quiet_now])

lemma path_approve: "path E s (snd (approve E i pr s))"
  unfolding approve_def
proof (rule path_guarded, goal_cases)
  case (2 x s' y t)
  then obtain now u v w where 1: "nowA E s' = (Inr now, u)" "record_approval E ''approve'' (instruction_dict i) pr u = (Inr (), v)"
      "check_renewal E i v = (Inr (), w)"
    and ok: "case find_instruction w (in_id i) (in_revision i) of None \<Rightarrow> True | Some r \<Rightarrow> ir_state r = Pending"
    and t: "t = w\<lparr>j_instructions := activate i pr (j_instructions w)\<rparr>"
    by (auto simp: bindA_Inr basic_Inr split: option.splits)
  have "effect E w t"
    unfolding t using 1(2) ok by (intro effect.activated) (auto simp: ran)
  then show "path E s' t"
    using quiet_path [OF quiet_now 1(1)] record_effect [OF 1(2)] quiet_path [OF quiet_more(5) 1(3)]
    by (meson path_step rtranclp_trans r_into_rtranclp)
qed (intro quiet)

lemma path_cancel: "path E s (snd (cancel E i n pr s))"
  unfolding cancel_def
proof (rule path_guarded, goal_cases)
  case (2 x u y t)
  then obtain v where 1: "record_approval E ''cancel'' x pr u = (Inr (), v)"
    and t: "t = set_instruction i n (\<lambda>r. r\<lparr>ir_state := Cancelled, ir_generation := ir_generation r + 1\<rparr>) v"
    by (auto simp: bindA_Inr basic_Inr reads_Inr)
  have "effect E v t" unfolding t by (rule effect.retired) (simp add: retires_def)
  then show "path E u t" using record_effect [OF 1] by (meson path_step r_into_rtranclp)
qed (intro quiet)

lemma path_upd: "path E s (g s) \<Longrightarrow> path E s (snd (updA g s))"
  by (simp add: updA_def)

lemma path_status_of: "path E s (snd (status_of E r now s))"
  unfolding status_of_def Let_def
proof (rule path_bind, rule path_of_quiet, rule quiet_basic, rule path_bind, rule path_upd, goal_cases)
  case (1 x u)
  have "retires (\<lambda>x. x\<lparr>ir_state := Expired, ir_generation := ir_generation x + 1\<rparr>)" by (simp add: retires_def)
  then show ?case by (auto intro: r_into_rtranclp effect.retired)
qed (intro path_of_quiet quiet)

lemma path_status: "path E s (snd (status E i n s))"
  unfolding status_def
proof (rule path_journaled, goal_cases)
  case (1 x t)
  have "path E s (snd (bindA (nowA E) (\<lambda>now. bindA (case n of None \<Rightarrow> latest_row i | Some k \<Rightarrow> instruction_row_at i k)
      (\<lambda>r. status_of E r now)) s))"
    by (rule path_bind, rule path_of_quiet, rule quiet_now, rule path_bind, intro path_of_quiet quiet, rule path_status_of)
  then show ?case by (simp only: 1 snd_conv)
qed

lemma path_each: "(\<And>x s. path E s (snd (f x s))) \<Longrightarrow> path E s (snd (eachA f xs s))"
proof (induction xs arbitrary: s)
  case Nil
  then show ?case by (simp add: retA_def)
next
  case (Cons x xs)
  show ?case unfolding eachA.simps
    by (rule path_bind, rule Cons.prems, rule path_bind, rule Cons.IH, rule Cons.prems) (simp add: retA_def)
qed

lemma path_statuses: "path E s (snd (statuses E s))"
  unfolding statuses_def
  by (rule path_bind) (auto simp: getA_def intro: path_each path_status)

text \<open>Migrations.\<close>

lemma path_upd_journaled: "path E s (g s) \<Longrightarrow> path E s (snd (journaled (updA g) s))"
  by (simp add: journaled_def updA_def)

lemma path_migrations:
  "path E s (snd (enable_funding s))" "path E s (snd (enable_coordination_queue s))" "path E s (snd (enable_episode_reporting s))"
proof -
  have m: "2 \<le> v \<Longrightarrow> path E s (s\<lparr>j_version := v\<rparr>)" for s v
    by (intro r_into_rtranclp effect.migrated)
  have 1: "path E s (snd (enable_funding s))" for s
    unfolding enable_funding_def by (rule path_upd_journaled) (auto intro: m)
  have 2: "path E s (snd (enable_coordination_queue s))" for s
    unfolding enable_coordination_queue_def by (rule path_bind [OF 1], rule path_upd_journaled) (auto intro: m)
  show "path E s (snd (enable_episode_reporting s))"
    unfolding enable_episode_reporting_def by (rule path_bind [OF 2], rule path_upd_journaled) (auto intro: m)
  show "path E s (snd (enable_funding s))" "path E s (snd (enable_coordination_queue s))" by (fact 1 2)+
qed

section \<open>Funding operations\<close>

lemma path_one: "effect E s t \<Longrightarrow> path E s t"
  by (rule r_into_rtranclp)

lemma path_grant_budget: "path E s (snd (grant_budget E payload pr s))"
  unfolding grant_budget_def
proof (rule path_bind, intro path_of_quiet quiet, rule path_journaled, goal_cases)
  case (1 x s' y t)
  have d: "account_ok (j_store_id s') payload" using 1(1) by (simp add: ran)
  from 1(2) obtain now u v where *: "nowA E s' = (Inr now, u)" "record_approval E ''approve'' payload pr u = (Inr (), v)"
    "str_item payload ''account_id'' \<notin> fa_id ` set (j_accounts v)"
    and t: "t = v\<lparr>j_accounts := j_accounts v @ [\<lparr>fa_id = str_item payload ''account_id'', fa_payload = payload, fa_proof = pr,
      fa_paused = False, fa_control_revision = 0\<rparr>]\<rparr>"
    by (auto simp: bindA_Inr basic_Inr reads_Inr)
  have "j_store_id v = j_store_id s'" using *(2) quiet_keeps [OF quiet_now *(1)] by (auto simp: ran tables_eq)
  then have "effect E v t" unfolding t using d *(3) by (intro effect.granted) simp_all
  then show ?case using quiet_path [OF quiet_now *(1)] record_effect [OF *(2)] by (meson path_step)
qed

lemma each_same:
  assumes "eachA f xs s = (Inr ys, t)" and same: "\<And>x y u. f x s = (Inr y, u) \<Longrightarrow> u = s"
  shows "t = s \<and> list_all2 (\<lambda>x y. f x s = (Inr y, s)) xs ys"
  using assms(1)
proof (induction xs arbitrary: ys)
  case Nil
  then show ?case by (simp add: ran)
next
  case (Cons x xs)
  then obtain y u zs where 1: "f x s = (Inr y, u)" "eachA f xs u = (Inr zs, t)" "ys = y # zs"
    by (auto simp: ran)
  show ?case using same [OF 1(1)] 1 Cons.IH [of zs] by simp
qed

lemma each_all:
  assumes "eachA f xs s = (Inr ys, t)" "\<And>x y u. f x s = (Inr y, u) \<Longrightarrow> u = s" "x \<in> set xs"
  shows "\<exists>y. f x s = (Inr y, s)"
  using each_same [OF assms(1,2)] assms(3) by (auto simp: list_all2_conv_all_nth in_set_conv_nth)

lemma account_same: "account_at E v s = (Inr r, t) \<Longrightarrow> t = s"
  by (drule account_at_Inr) simp

lemmas accounts_same = each_same [where f = "account_at E" for E, OF _ account_same]

lemma check_account_same: "check_account i d now r s = (Inr y, t) \<Longrightarrow> t = s"
  by (auto simp: check_account_def ran)

lemma path_fund_instruction: "path E s (snd (fund_instruction E i payload pr s))"
  unfolding fund_instruction_def
proof (rule path_quiet_bind, intro quiet, rule path_whole, (rule path_quiet_bind, intro quiet)+, rule path_bind, rule path_record,
    (rule path_quiet_bind, intro quiet)+, rule path_upd, goal_cases)
  case (1 _ u0 _ u1 now u2 _ u3 _ u4 _ u5 _ u6 rs u7 _ u8 _ u9 _ u10 _ u11 _ u12 _ u13)
  have same: "u6 = u2" "u7 = u2" "u9 = u7" "u10 = u7" "u13 = u11"
    using 1 accounts_same [OF 1(8)] each_same [OF 1(11) check_account_same] by (simp_all add: ran)
  have v: "has_version 2 u13" and a: "j_accounts u13 = j_accounts u2"
    using 1(2,3,12) quiet_keeps [OF quiet_now 1(3)] by (auto simp: ran tables_eq same has_version_def)
  have "\<exists>r \<in> set (j_accounts u13). v = VStr (fa_id r)" if "v \<in> set (accounts_of payload)" for v
  proof -
    have "\<exists>y. account_at E v u6 = (Inr y, u6)" by (rule each_all [OF 1(8) _ that]) (rule account_same)
    then show ?thesis unfolding a same(1) by (auto dest!: account_at_Inr)
  qed
  moreover have "distinct (accounts_of payload)"
    using 1(1) by (auto simp: ran funding_ok_def accounts_of_def split: val.splits)
  ultimately show ?case
    using v 1(13,14) by (intro path_one effect.funded) (auto simp: ran)
qed

lemma path_control_funding: "path E s (snd (control_funding E payload pr s))"
  unfolding control_funding_def
  by (rule path_quiet_bind, intro quiet, rule path_whole, (rule path_quiet_bind, intro quiet)+, rule path_bind, rule path_record,
      rule path_upd, intro path_one effect.controlled)

lemma find_some_in: "find P xs = Some x \<Longrightarrow> P x \<and> x \<in> set xs"
  by (auto simp: find_Some_iff)

lemma path_settle_charge: "path E s (snd (settle_charge E c payload pr s))"
  unfolding settle_charge_def
proof (rule path_bind, intro path_of_quiet quiet, rule path_guarded, goal_cases)
  case (1 x u)
  show ?case by (intro quiet)
next
  case (2 x u y s' z t)
  have n: "0 \<le> int_item payload ''actual''"
    using 2(1) by (auto simp: ran usage_ok_def int_between_def int_item_def split: val.splits)
  from 2(3) obtain r where *: "find (\<lambda>r. ch_cycle r = cc_id c) (j_charges s') = Some r"
      "int_item payload ''actual'' \<le> ch_maximum r"
    and t: "t = s' \<or> ch_receipt r = None \<and> t = s'\<lparr>j_charges := map (\<lambda>x. if ch_cycle x = cc_id c
                   then x\<lparr>ch_actual := Some (int_item payload ''actual''), ch_receipt := Some (usage_receipt payload pr)\<rparr>
                   else x) (j_charges s')\<rparr>"
    by (cases "find (\<lambda>r. ch_cycle r = cc_id c) (j_charges s')"; cases "ch_receipt (the (find (\<lambda>r. ch_cycle r = cc_id c) (j_charges s')))")
      (auto simp: bindA_Inr basic_Inr reads_Inr dest: cycle_at_Inr)
  from t show ?case
  proof
    assume "t = s'"
    then show ?thesis by simp
  next
    assume "ch_receipt r = None \<and> t = s'\<lparr>j_charges := map (\<lambda>x. if ch_cycle x = cc_id c
                   then x\<lparr>ch_actual := Some (int_item payload ''actual''), ch_receipt := Some (usage_receipt payload pr)\<rparr>
                   else x) (j_charges s')\<rparr>"
    then show ?thesis using * n by (auto intro!: path_one effect.settled)
  qed
qed

lemma funding_of_Inr:
  assumes "funding_of E i b s = (Inr (Some d), t)"
  shows "\<exists>r. find_funding t (instruction_sha i) = Some r \<and> fi_payload r = d"
proof -
  have "\<exists>r. find_funding s (instruction_sha i) = Some r \<and> fi_payload r = d"
    using assms by (cases "find_funding s (instruction_sha i)") (auto simp: funding_of_def ran)
  moreover have "tables t = tables s" by (rule quiet_keeps [OF quiet_funding assms])
  ultimately show ?thesis by (simp add: find_funding_def has_version_def tables_eq split: if_splits)
qed

lemma check_ceiling_Inr:
  assumes "check_ceiling E d v s = (Inr u, t)"
  shows "t = s \<and> (\<exists>r. find_account s (fa_id r) = Some r \<and> v = VStr (fa_id r) \<and> has_room s (int_item d ''max_charge'') r)"
  using assms
  by (auto simp: check_ceiling_def ran has_room_def account_status_of_def available_calls_def dest!: account_at_Inr)

lemma unit_of_same: "unit_of E d e s = (Inr u, t) \<Longrightarrow> t = s"
  by (auto simp: unit_of_def ran split: option.splits if_splits dest!: account_at_Inr)

lemma path_insert_charge:
  assumes "c \<in> set (j_cycles s)" "cy_id c = ch_cycle h" "find_funding s (ch_sha h) = Some fr" "ch_actual h = None"
    "ch_receipt h = None" "\<And>v. v \<in> set (accounts_of (fi_payload fr)) \<Longrightarrow>
       \<exists>r. find_account s (fa_id r) = Some r \<and> v = VStr (fa_id r) \<and> has_room s (ch_maximum h) r"
  shows "path E s (snd (insert_charge h s))"
  unfolding insert_charge_def
  by (rule path_quiet_bind, intro quiet)
    (auto simp: ran liftA_def updA_def intro!: path_one effect.charging [OF assms])

lemma path_reserve_charge:
  assumes "cr \<in> set (j_cycles s)" "cy_id cr = cc_id c"
  shows "path E s (snd (reserve_charge E c i k exposure s))"
proof -
  have "path E u (snd ((bindA (unit_of E f exposure) (\<lambda>x.
           bindA (denyA (\<not> exposure_ok exposure (expected_exposure i f x)) ''qualified adapter exposure required'') (\<lambda>_.
           bindA (eachA (check_ceiling E f) (accounts_of f)) (\<lambda>_.
             insert_charge \<lparr>ch_cycle = cc_id c, ch_operation = k, ch_sha = instruction_sha i,
               ch_maximum = int_item f ''max_charge'', ch_actual = None, ch_receipt = None\<rparr>)))) u))"
    if found: "funding_of E i False s = (Inr (Some f), u)" for f u
  proof (rule path_quiet_bind, intro quiet, rule path_quiet_bind, intro quiet, rule path_quiet_bind, intro quiet, goal_cases)
    case (1 _ u1 _ u2 _ u3)
    have same: "u1 = u" "u2 = u" "u3 = u"
      using 1 unit_of_same each_same [OF 1(3) conjunct1 [OF check_ceiling_Inr]] by (auto simp: ran)
    obtain fr where fr: "find_funding u (instruction_sha i) = Some fr" "fi_payload fr = f"
      using funding_of_Inr [OF found] by auto
    have "cr \<in> set (j_cycles u)"
      using assms(1) quiet_keeps [OF quiet_funding found] by (simp add: tables_eq)
    then show ?case
      unfolding same using fr 1(3) assms(2)
      by (intro path_insert_charge [of cr _ _ fr]) (auto simp: same dest!: each_all [OF _ conjunct1 [OF check_ceiling_Inr]] dest: check_ceiling_Inr)
  qed
  then show ?thesis
    unfolding reserve_charge_def
    by (intro path_quiet_bind quiet) (auto split: option.splits intro: path_of_quiet quiet)
qed

section \<open>Cycle operations\<close>

lemma no_conflict_insert:
  "find_instruction s (cy_instruction c) (cy_revision c) = Some row \<Longrightarrow> ir_state row = Active \<Longrightarrow>
    read_instruction E (j_store_id s) row = Inr i \<Longrightarrow> cy_state c = Intent \<Longrightarrow> cy_binding c = (in_runner i, in_session i) \<Longrightarrow>
    \<not> conflicts s c \<Longrightarrow> int (length (cycles_of s (cy_instruction c) (cy_revision c))) < in_max_cycles i \<Longrightarrow>
    path E s (s\<lparr>j_cycles := j_cycles s @ [c], j_work := w\<rparr>)"
  by (intro path_one effect.reserved)

lemma path_insert_cycle:
  assumes "find_instruction s (ir_id row) (ir_revision row) = Some row" "ir_state row = Active"
    "read_instruction E (j_store_id s) row = Inr i" "int (length (cycles_of s (ir_id row) (ir_revision row))) < in_max_cycles i"
  shows "path E s (snd (insert_cycle E row i now cycle_id token work_id s))"
  unfolding insert_cycle_def Let_def
  by (rule path_quiet_bind, intro quiet, rule path_quiet_bind, intro quiet)
    (auto simp: ran bindA_def retA_def updA_def intro!: no_conflict_insert [of _ _ row _ i] assms)

lemma find_instruction_key: "find_instruction s i n = Some r \<Longrightarrow> ir_id r = i \<and> ir_revision r = n"
  by (auto simp: find_instruction_def dest: find_some_in)

lemma same_tables:
  assumes "tables t = tables s"
  shows "find_instruction t = find_instruction s" "cycles_of t = cycles_of s" "j_store_id t = j_store_id s"
    "operations_of t = operations_of s" "j_cycles t = j_cycles s" "j_operations t = j_operations s"
  using assms by (auto simp: fun_eq_iff find_instruction_def cycles_of_def operations_of_def tables_eq)

lemma path_reserve: "path E s (snd (reserve E identity revision b work_id cycle_id token s))"
  unfolding reserve_def
proof (rule path_whole, rule path_quiet_bind, intro quiet, rule path_quiet_bind, intro quiet, goal_cases)
  case now_found: (1 now u found v)
  show ?case
  proof (cases found)
    case None
    then show ?thesis by (simp add: retA_def)
  next
    case (Some row)
    have "path E v (snd ((if ir_state row \<noteq> Active \<or> ir_proof row = None then retA None
            else bindA (instruction_at E row) (\<lambda>i.
              bindA (work_ready E i work_id) (\<lambda>ready.
                if \<not> ready then retA None
                else if binding i \<noteq> b \<or> \<not> (of_int (in_start i) \<le> now \<and> now < of_int (in_end i)) then retA None
                else bindA (getA (\<lambda>s. length (cycles_of s identity revision))) (\<lambda>count.
                  if int count \<ge> in_max_cycles i then retA None
                  else insert_cycle E row i now cycle_id token work_id)))) v))"
    proof (rule path_if, rule path_of_quiet, rule quiet_basic, rule path_quiet_bind, intro quiet, rule path_quiet_bind, intro quiet,
        rule path_if, rule path_of_quiet, rule quiet_basic, rule path_if, rule path_of_quiet, rule quiet_basic,
        rule path_quiet_bind, intro quiet, rule path_if, rule path_of_quiet, rule quiet_basic, goal_cases)
      case (1 i u1 ready u2 n u3)
      have row: "find_instruction v identity revision = Some row" "ir_id row = identity" "ir_revision row = revision"
        using now_found Some find_instruction_key [of u identity revision row] by (auto simp: ran)
      have same: "tables u2 = tables v"
        using quiet_keeps [OF quiet_snapshot(2) 1(3)] 1(2) by (simp add: ran)
      show ?case
        using 1 row by (intro path_insert_cycle [where i = i]) (auto simp: ran same_tables [OF same])
    qed
    then show ?thesis by (simp add: Some)
  qed
qed

lemma set_state_path:
  "c \<in> set (j_cycles s) \<Longrightarrow> cy_id c = k \<Longrightarrow> in_flight c \<Longrightarrow> st \<noteq> Intent \<Longrightarrow> path E s (set_cycle_state k st s)"
  by (intro path_one effect.moved)

lemma path_mark_ambiguous: "path E s (snd (mark_ambiguous cap s))"
  unfolding mark_ambiguous_def
  by (rule path_whole, rule path_quiet_bind, intro quiet, rule path_upd)
    (auto simp: in_flight_def intro!: set_state_path dest!: cycle_at_Inr)

lemma path_cancellation_mark: "path E s (snd (cancellation_mark_ambiguous cap remaining s))"
  unfolding cancellation_mark_ambiguous_def by (rule path_quiet_bind, intro quiet, rule path_mark_ambiguous)

lemma retires_complete: "retires (\<lambda>x. if ir_state x = Active then x\<lparr>ir_state := Completed\<rparr> else x)"
  by (simp add: retires_def)

lemma path_finish_step: "path E s (snd (finish_step E cap outcome s))"
  unfolding finish_step_def
proof (rule path_quiet_bind, intro quiet, rule path_quiet_bind, intro quiet, rule path_bind, rule path_upd, goal_cases)
  case (1 r u _ v)
  then show ?case by (auto simp: ran intro!: set_state_path dest!: cycle_at_Inr)
next
  case (2 r u _ v _ w)
  show ?case
    by (rule path_quiet_bind, intro quiet, rule path_quiet_bind, intro quiet, rule path_upd)
      (auto intro: path_one effect.retired retires_complete)
qed

lemma path_finish: "path E s (snd (finish E cap outcome s))"
  unfolding finish_def by (rule path_quiet_bind, intro quiet, rule path_whole, rule path_finish_step)

lemma path_cancellation_finish: "path E s (snd (cancellation_finish E cap outcome remaining s))"
  unfolding cancellation_finish_def
  by (rule path_quiet_bind, intro quiet, rule path_quiet_bind, intro quiet, rule path_whole, rule path_finish_step)

lemma guard_Inr:
  assumes "guard E cap s = (Inr i, t)"
  shows "tables t = tables s" "\<exists>c \<in> set (j_cycles s). cy_id c = cc_id cap \<and> cy_state c = Intent
      \<and> cy_instruction c = cc_instruction cap \<and> cy_revision c = cc_revision cap
      \<and> (\<exists>row. find_instruction s (cc_instruction cap) (cc_revision cap) = Some row \<and> ir_state row = Active
           \<and> cy_generation c = ir_generation row \<and> read_instruction E (j_store_id s) row = Inr i)"
proof -
  show "tables t = tables s" by (rule quiet_keeps [OF quiet_more(2) assms])
  obtain now u c v row w where *: "nowA E s = (Inr now, u)" "cycle_at cap u = (Inr c, v)"
      "instruction_row_at (cc_instruction cap) (cc_revision cap) v = (Inr row, w)"
    and "\<exists>i'. instruction_at E row w = (Inr i', w) \<and> cycle_open c row i' cap now \<and> i' = i"
    using assms by (auto simp: guard_def bindA_Inr basic_Inr reads_Inr)
  then show "\<exists>c \<in> set (j_cycles s). cy_id c = cc_id cap \<and> cy_state c = Intent
      \<and> cy_instruction c = cc_instruction cap \<and> cy_revision c = cc_revision cap
      \<and> (\<exists>row. find_instruction s (cc_instruction cap) (cc_revision cap) = Some row \<and> ir_state row = Active
           \<and> cy_generation c = ir_generation row \<and> read_instruction E (j_store_id s) row = Inr i)"
    using same_tables [OF quiet_keeps [OF quiet_now *(1)]] cycle_at_Inr [OF *(2)] by (auto simp: ran cycle_open_def)
qed

lemma path_admit:
  assumes "kind \<in> set (inference_kinds @ [str ''native''])"
  shows "path E s (snd (admit E cap kind sc checkpoint exposure k s))"
  unfolding admit_def
proof (rule path_quiet_bind, intro quiet, rule path_quiet_bind, intro quiet, rule path_quiet_bind, intro quiet, 
    rule path_quiet_bind, intro quiet, rule path_quiet_bind, intro quiet, rule path_quiet_bind, intro quiet, rule path_quiet_bind, intro quiet, rule path_bind, goal_cases)
  case (1 i u1 _ u2 _ u3 _ u4 n u5 _ u6 taken u7)
  then have u: "tables u7 = tables s" using quiet_keeps [OF quiet_more(1) 1(2)] guard_Inr(1) [OF 1(1)] by (simp add: ran)
  have sc: "x \<in> set (in_scope i)" if "sc = Some x" for x
    using assms 1(3,4) that by (auto simp: ran)
  obtain c row where c: "c \<in> set (j_cycles u7)" "cy_id c = cc_id cap"
      "find_instruction u7 (cy_instruction c) (cy_revision c) = Some row" "ir_state row = Active"
      "read_instruction E (j_store_id u7) row = Inr i"
    using guard_Inr(2) [OF 1(1)] unfolding same_tables [OF u] by auto
  have o: "int (length (operations_of u7 (cc_id cap) kind)) < operation_limit i kind" "taken \<longleftrightarrow> k \<in> op_id ` set (j_operations u7)"
    using 1(3-7) by (auto simp: ran)
  have "\<not> taken \<Longrightarrow> effect E u7 (u7\<lparr>j_operations := j_operations u7
      @ [\<lparr>op_id = k, op_cycle = cc_id cap, op_kind = kind, op_scope = sc, op_returned = False\<rparr>]\<rparr>)"
    using c o sc by (intro effect.admitted [OF c(1) _ c(3,5,4)]) auto
  then show ?case by (auto simp: liftA_def updA_def intro: path_one)
next
  case (2 i u1 _ u2 _ u3 _ u4 n u5 _ u6 taken u7 _ u8)
  then have "tables u7 = tables s" "j_cycles u8 = j_cycles u7"
    using quiet_keeps [OF quiet_more(1) 2(2)] guard_Inr(1) [OF 2(1)] by (auto simp: ran split: if_splits)
  then have "j_cycles u8 = j_cycles s" by (simp add: tables_eq)
  then obtain cr where "cr \<in> set (j_cycles u8)" "cy_id cr = cc_id cap" using guard_Inr(2) [OF 2(1)] by auto
  then show ?case by (auto intro: path_reserve_charge simp: retA_def)
qed

lemma path_submit_step: "path E s (snd (submit_step E cap kind checkpoint submit k s))"
  unfolding submit_step_def
proof (rule path_quiet_bind, intro quiet, rule path_quiet_bind, intro quiet, rule path_quiet_bind, intro quiet, rule path_quiet_bind,
    intro quiet, rule path_bind, rule path_upd, rule path_one, rule effect.returned, goal_cases)
  case 1
  show ?case by (simp add: retA_def)
qed

lemma path_or_ambiguous: "path E s (snd (m s)) \<Longrightarrow> path E s (snd (or_ambiguous cap m s))"
  using path_mark_ambiguous [of E "snd (m s)" cap]
  by (auto simp: or_ambiguous_def split: prod.splits sum.splits intro: rtranclp_trans)

lemma path_dispatch: "path E s (snd (dispatch E cap kind sc first_checkpoint checkpoint submit exposure k s))"
  unfolding dispatch_def
proof (rule path_quiet_bind, intro quiet, rule path_bind, rule path_whole, rule path_admit, goal_cases)
  case (1 _ u)
  then show ?case by (simp add: ran)
next
  case (2 _ u _ v)
  show ?case by (intro path_or_ambiguous path_whole path_submit_step)
qed

section \<open>Queue operations\<close>

lemma path_queued: "path E s (s\<lparr>j_episodes := e\<rparr>)" "path E s (s\<lparr>j_work := w\<rparr>)"
  using path_one [OF effect.queued [where E = E and s = s and e = e and w = "j_work s"]]
    path_one [OF effect.queued [where E = E and s = s and e = "j_episodes s" and w = w]] by simp_all

lemma path_configure_episode: "path E s (snd (configure_episode E payload pr s))"
  unfolding configure_episode_def
  by (rule path_quiet_bind, intro quiet, rule path_quiet_bind, intro quiet, rule path_quiet_bind, intro quiet, rule path_quiet_bind,
      intro quiet, rule path_whole, (rule path_quiet_bind, intro quiet)+, rule path_bind, rule path_record,
      (rule path_quiet_bind, intro quiet)+, rule path_upd, rule path_queued)

lemma path_insert_work: "path E s (snd (insert_work E w work_id policy s))"
  unfolding insert_work_def Let_def
  by ((rule path_quiet_bind, intro quiet)+, simp only: case_prod_unfold, (rule path_quiet_bind, intro quiet)+, rule path_upd, rule path_queued)

lemma path_enqueue: "path E s (snd (enqueue_coordination E message_id source s))"
  unfolding enqueue_coordination_def
proof (rule path_quiet_bind, intro quiet, goal_cases)
  case (1 request u)
  show ?case
  proof (cases request)
    case None
    then show ?thesis by (simp add: retA_def)
  next
    case (Some w)
    show ?thesis unfolding Some option.case
      by (rule path_quiet_bind, intro quiet, rule path_whole, rule path_quiet_bind, intro quiet, rule path_quiet_bind, intro quiet,
          rule path_bind) (auto split: option.splits intro: path_insert_work path_of_quiet quiet)
  qed
qed

lemma path_withdraw: "path E s (snd (withdraw_coordination E payload pr s))"
  unfolding withdraw_coordination_def
  by (rule path_quiet_bind, intro quiet, rule path_quiet_bind, intro quiet, rule path_whole, rule path_quiet_bind, intro quiet,
      rule path_quiet_bind, intro quiet, rule path_quiet_bind, intro quiet, rule path_if, intro path_of_quiet quiet,
      rule path_quiet_bind, intro quiet, rule path_bind, rule path_record, rule path_upd, rule path_queued)

lemma path_notice: "path E s (snd (notice_at E account x s))"
  unfolding notice_at_def
proof (rule path_quiet_bind, intro quiet, goal_cases)
  case (1 found u)
  obtain store previous where f: "found = (store, previous)" by (cases found)
  show ?case
  proof (cases previous)
    case None
    show ?thesis unfolding f None prod.case option.case Let_def
      by (rule path_if, intro path_of_quiet quiet, rule path_quiet_bind, intro quiet, rule path_bind, rule path_upd,
          rule path_queued, intro path_of_quiet quiet)
  next
    case (Some n)
    show ?thesis unfolding f Some prod.case option.case by (intro path_of_quiet quiet)
  qed
qed

lemma path_episode_notice: "path E s (snd (episode_notice E account s))"
  unfolding episode_notice_def
  by (rule path_whole, rule path_quiet_bind, intro quiet, rule path_quiet_bind, intro quiet, rule path_quiet_bind, intro quiet, rule path_notice)

lemma path_episode_report: "path E s (snd (episode_report E account s))"
  unfolding episode_report_def
  by (rule path_whole, rule path_quiet_bind, intro quiet, rule path_quiet_bind, intro quiet, rule path_bind)
    (auto intro: path_notice path_of_quiet quiet)

section \<open>Runs\<close>

text \<open>The public operations, each with any arguments, whatever it answers.\<close>

inductive operation :: "exec_env \<Rightarrow> exec_journal \<Rightarrow> exec_journal \<Rightarrow> bool" for E where
  op_clock: "operation E s (snd (observe_clock E s))"
| op_propose: "operation E s (snd (propose E i s))"
| op_approve: "operation E s (snd (approve E i pr s))"
| op_cancel: "operation E s (snd (cancel E k n pr s))"
| op_status: "operation E s (snd (status E k v s))"
| op_statuses: "operation E s (snd (statuses E s))"
| op_reserve: "operation E s (snd (reserve E k n b work_id cycle_id token s))"
| op_check: "operation E s (snd (check E cap s))"
| op_cancellation_check: "operation E s (snd (cancellation_check E cap remaining checkpoint s))"
| op_dispatch: "operation E s (snd (dispatch E cap kind sc first_checkpoint checkpoint (submit :: val callback) exposure k s))"
| op_mark: "operation E s (snd (mark_ambiguous cap s))"
| op_cancellation_mark: "operation E s (snd (cancellation_mark_ambiguous cap remaining s))"
| op_finish: "operation E s (snd (finish E cap outcome s))"
| op_cancellation_finish: "operation E s (snd (cancellation_finish E cap outcome remaining s))"
| op_enable_funding: "operation E s (snd (enable_funding s))"
| op_grant_budget: "operation E s (snd (grant_budget E payload pr s))"
| op_fund_instruction: "operation E s (snd (fund_instruction E i payload pr s))"
| op_check_funding: "operation E s (snd (check_funding E i s))"
| op_funding_status: "operation E s (snd (funding_status E account s))"
| op_control_funding: "operation E s (snd (control_funding E payload pr s))"
| op_settle_charge: "operation E s (snd (settle_charge E cap payload pr s))"
| op_enable_queue: "operation E s (snd (enable_coordination_queue s))"
| op_enable_reporting: "operation E s (snd (enable_episode_reporting s))"
| op_configure: "operation E s (snd (configure_episode E payload pr s))"
| op_enqueue: "operation E s (snd (enqueue_coordination E k source s))"
| op_withdraw: "operation E s (snd (withdraw_coordination E payload pr s))"
| op_episode_status: "operation E s (snd (episode_status E k s))"
| op_report: "operation E s (snd (episode_report E k s))"
| op_notice: "operation E s (snd (episode_notice E k s))"

lemma quiet_operations:
  "is_quiet (observe_clock E)" "is_quiet (check E cap)" "is_quiet (cancellation_check E cap remaining checkpoint)"
  "is_quiet (check_funding E i)" "is_quiet (funding_status E account)" "is_quiet (episode_status E k)"
  unfolding observe_clock_def check_def cancellation_check_def check_funding_def funding_status_def episode_status_def
  by (intro quiet)+

lemmas operation_paths = quiet_operations [THEN path_of_quiet] path_propose path_approve path_cancel path_status path_statuses
  path_reserve path_dispatch path_mark_ambiguous path_cancellation_mark path_finish path_cancellation_finish path_migrations
  path_grant_budget path_fund_instruction path_control_funding path_settle_charge path_configure_episode path_enqueue
  path_withdraw path_episode_report path_episode_notice

lemma operation_path: "operation E s t \<Longrightarrow> path E s t"
  by (erule operation.cases) (simp_all only: operation_paths)

definition journal_reachable :: "exec_env \<Rightarrow> exec_journal \<Rightarrow> bool" where
  "journal_reachable E s \<longleftrightarrow> (\<exists>store_id. rtranclp (operation E) (new_journal store_id) s)"

end
