(* ===== verification/Execution_Invariant.thy ===== *)
theory Execution_Invariant
  imports Execution_Laws
begin

text \<open>
  The invariants of the execution journal: keys, a single active revision, a single cycle in flight
  for each session, the limits of cycles and operations, and conserved budgets.
\<close>

section \<open>Rows of instructions\<close>

definition row_key :: "instruction_row \<Rightarrow> pystr \<times> int" where
  "row_key r = (ir_id r, ir_revision r)"

definition cycle_key :: "cycle_row \<Rightarrow> pystr \<times> int" where
  "cycle_key c = (cy_instruction c, cy_revision c)"

definition rows_ok :: "exec_journal \<Rightarrow> bool" where
  "rows_ok s \<longleftrightarrow> distinct (map row_key (j_instructions s))
     \<and> (\<forall>i. length (filter (\<lambda>r. ir_id r = i \<and> ir_state r = Active) (j_instructions s)) \<le> 1)"

text \<open>What happens to a row once it is decided.\<close>

definition follows :: "instruction_row \<Rightarrow> instruction_row \<Rightarrow> bool" where
  "follows r q \<longleftrightarrow> row_key q = row_key r \<and> ir_payload q = ir_payload r \<and> ir_state q \<noteq> Pending
     \<and> (ir_state r \<noteq> Active \<longrightarrow> ir_state q \<noteq> Active)"

definition rows_kept :: "exec_journal \<Rightarrow> exec_journal \<Rightarrow> bool" where
  "rows_kept s t \<longleftrightarrow> (\<forall>r \<in> set (j_instructions s). ir_state r \<noteq> Pending \<longrightarrow> (\<exists>q \<in> set (j_instructions t). follows r q))"

lemma follows_refl: "ir_state r \<noteq> Pending \<Longrightarrow> follows r r"
  by (simp add: follows_def)

lemma followed: "r \<in> A \<Longrightarrow> ir_state r \<noteq> Pending \<Longrightarrow> \<exists>q \<in> A. follows r q"
  by (blast intro: follows_refl)

lemma rows_kept_same: "j_instructions t = j_instructions s \<Longrightarrow> rows_kept s t"
  by (auto simp: rows_kept_def simp del: bex_simps intro: followed)

lemma rows_kept_trans: "rows_kept s t \<Longrightarrow> rows_kept t u \<Longrightarrow> rows_kept s u"
  unfolding rows_kept_def follows_def by metis

lemma find_row: "find_instruction s i n = Some r \<Longrightarrow> r \<in> set (j_instructions s) \<and> row_key r = (i, n)"
  by (auto simp: find_instruction_def row_key_def dest: find_some_in)

lemma find_rowI:
  "rows_ok s \<Longrightarrow> r \<in> set (j_instructions s) \<Longrightarrow> row_key r = (i, n) \<Longrightarrow> find_instruction s i n = Some r"
proof -
  assume a: "rows_ok s" "r \<in> set (j_instructions s)" "row_key r = (i, n)"
  then obtain q where q: "find_instruction s i n = Some q"
    by (cases "find_instruction s i n") (auto simp: find_instruction_def find_None_iff row_key_def)
  with find_row [OF q] a have "q = r" by (auto simp: rows_ok_def distinct_map intro: inj_onD)
  with q show ?thesis by simp
qed

lemma row_absent: "find_instruction s i n = None \<longleftrightarrow> (i, n) \<notin> row_key ` set (j_instructions s)"
  by (auto simp: find_instruction_def find_None_iff row_key_def)

lemma supersede_simps [simp]:
  "row_key (supersede i r) = row_key r" "ir_payload (supersede i r) = ir_payload r" "ir_id (supersede i r) = ir_id r"
  "ir_revision (supersede i r) = ir_revision r" "ir_state (supersede i r) = Pending \<longleftrightarrow> ir_state r = Pending"
  "ir_state (supersede i r) = Active \<longleftrightarrow> ir_state r = Active \<and> ir_id r \<noteq> i"
  by (auto simp: supersede_def row_key_def)

lemma activate_keys:
  "distinct (map row_key rows) \<Longrightarrow> distinct (map row_key (activate i pr rows))"
proof -
  assume "distinct (map row_key rows)"
  then have "distinct (map row_key (map (supersede (in_id i)) rows))" by (simp add: comp_def)
  then have "distinct (map row_key (filter (\<lambda>r. \<not> (ir_id r = in_id i \<and> ir_revision r = in_revision i)) (map (supersede (in_id i)) rows)))"
    by (rule distinct_map_filter)
  then show ?thesis by (auto simp: activate_def row_key_def)
qed

lemma retires_cases:
  assumes "retires f"
  shows "row_key (f r) = row_key r" "ir_payload (f r) = ir_payload r" "ir_state (f r) = Active \<Longrightarrow> f r = r"
    "ir_state (f r) = Pending \<Longrightarrow> f r = r"
  using assms unfolding retires_def row_key_def by (metis insertE instruction_state.simps singletonD)+

lemma fewer: "(\<And>x. x \<in> set xs \<Longrightarrow> P (f x) \<Longrightarrow> P x) \<Longrightarrow> length (filter P (map f xs)) \<le> length (filter P xs)"
  by (induction xs) auto

lemma fewer_filter: "(\<And>x. P x \<Longrightarrow> Q x) \<Longrightarrow> length (filter P xs) \<le> length (filter Q xs)"
  by (induction xs) auto

lemma effect_rows:
  assumes "effect E s t" "rows_ok s" shows "rows_ok t"
  using assms
proof (cases rule: effect.cases)
  case (proposed i)
  then show ?thesis using assms(2) row_absent [of s "in_id i" "in_revision i"] by (auto simp: rows_ok_def row_key_def)
next
  case (activated i pr)
  have "length (filter (\<lambda>r. ir_id r = k \<and> ir_state r = Active) (activate i pr (j_instructions s))) \<le> 1" for k
  proof (cases "k = in_id i")
    case True
    then show ?thesis by (auto simp: activate_def filter_empty_conv)
  next
    case False
    have "length (filter (\<lambda>r. ir_id r = k \<and> ir_state r = Active) (activate i pr (j_instructions s)))
        \<le> length (filter (\<lambda>r. ir_id r = k \<and> ir_state r = Active) (map (supersede (in_id i)) (j_instructions s)))"
      using False by (auto simp: activate_def intro: fewer_filter)
    also have "\<dots> \<le> length (filter (\<lambda>r. ir_id r = k \<and> ir_state r = Active) (j_instructions s))"
      by (rule fewer) simp
    also have "\<dots> \<le> 1" using assms(2) by (simp add: rows_ok_def)
    finally show ?thesis .
  qed
  then show ?thesis using assms(2) activated(1) by (simp add: rows_ok_def activate_keys)
next
  case (retired f i n)
  let ?f = "\<lambda>r. if ir_id r = i \<and> ir_revision r = n then f r else r"
  have t: "j_instructions t = map ?f (j_instructions s)" by (simp add: retired(1) set_instruction_def)
  have "length (filter (\<lambda>r. ir_id r = k \<and> ir_state r = Active) (map ?f (j_instructions s)))
      \<le> length (filter (\<lambda>r. ir_id r = k \<and> ir_state r = Active) (j_instructions s))" for k
    by (rule fewer) (metis retires_cases(3) [OF retired(2)])
  also have "length (filter (\<lambda>r. ir_id r = k \<and> ir_state r = Active) (j_instructions s)) \<le> 1" for k
    using assms(2) by (simp add: rows_ok_def)
  finally have "length (filter (\<lambda>r. ir_id r = k \<and> ir_state r = Active) (j_instructions t)) \<le> 1" for k
    by (simp only: t)
  moreover have "map row_key (j_instructions t) = map row_key (j_instructions s)"
    using retires_cases(1) [OF retired(2)] by (simp add: t)
  ultimately show ?thesis using assms(2) by (simp add: rows_ok_def)
qed (auto simp: rows_ok_def tables_eq set_cycle_state_def)

lemma effect_rows_kept:
  assumes "effect E s t" "rows_ok s" shows "rows_kept s t"
  using assms
proof (cases rule: effect.cases)
  case (proposed i)
  then show ?thesis by (simp add: rows_kept_def) (blast intro: follows_refl)
next
  case (activated i pr)
  have "\<exists>q \<in> set (j_instructions t). follows r q" if r: "r \<in> set (j_instructions s)" "ir_state r \<noteq> Pending" for r
  proof
    show "follows r (supersede (in_id i) r)" using r(2) by (auto simp: follows_def supersede_def row_key_def)
    have "row_key r \<noteq> (in_id i, in_revision i)"
      using activated(2) find_rowI [OF assms(2) r(1)] r(2) by auto
    then show "supersede (in_id i) r \<in> set (j_instructions t)"
      using r(1) by (auto simp: activated(1) activate_def row_key_def)
  qed
  then show ?thesis by (simp add: rows_kept_def)
next
  case (retired f i n)
  have "follows r (if ir_id r = i \<and> ir_revision r = n then f r else r)" if "ir_state r \<noteq> Pending" for r
    using retires_cases [OF retired(2), of r] that by (auto simp: follows_def)
  moreover have "(if ir_id r = i \<and> ir_revision r = n then f r else r) \<in> set (j_instructions t)"
    if "r \<in> set (j_instructions s)" for r
    using that by (simp add: retired(1) set_instruction_def)
  ultimately show ?thesis unfolding rows_kept_def by blast
qed (auto intro!: rows_kept_same simp: tables_eq set_cycle_state_def)

section \<open>Cycles\<close>

text \<open>One cycle in flight for each runner and session, one for each slot.\<close>

definition cycles_ok :: "exec_journal \<Rightarrow> bool" where
  "cycles_ok s \<longleftrightarrow> distinct (map cy_id (j_cycles s)) \<and> distinct (map (\<lambda>c. (cycle_key c, cy_slot c)) (j_cycles s))
     \<and> (\<forall>b. length (filter (\<lambda>c. cy_binding c = b \<and> in_flight c) (j_cycles s)) \<le> 1)"

abbreviation moved_to :: "pystr \<Rightarrow> cycle_state \<Rightarrow> cycle_row \<Rightarrow> cycle_row" where
  "moved_to k st c \<equiv> (if cy_id c = k then c\<lparr>cy_state := st\<rparr> else c)"

lemma moved_in_flight:
  assumes "cycles_ok s" "c \<in> set (j_cycles s)" "cy_id c = k" "in_flight c" "x \<in> set (j_cycles s)" "in_flight (moved_to k st x)"
  shows "in_flight x"
proof (cases "cy_id x = k")
  case True
  then have "x = c" using assms(1,2,3,5) by (auto simp: cycles_ok_def distinct_map dest: inj_onD)
  then show ?thesis using assms(4) by simp
next
  case False
  then show ?thesis using assms(6) by simp
qed

lemma effect_cycles:
  assumes "effect E s t" "cycles_ok s" shows "cycles_ok t"
  using assms
proof (cases rule: effect.cases)
  case (reserved c row i w)
  have new: "cy_id c \<notin> cy_id ` set (j_cycles s)" "(cycle_key c, cy_slot c) \<notin> (\<lambda>c. (cycle_key c, cy_slot c)) ` set (j_cycles s)"
    "filter (\<lambda>r. cy_binding r = cy_binding c \<and> in_flight r) (j_cycles s) = []"
    using reserved(7) by (auto simp: conflicts_def list_ex_iff cycle_key_def filter_empty_conv)
  then show ?thesis using assms(2) reserved(1) by (auto simp: cycles_ok_def)
next
  case (moved c k st)
  have "length (filter (\<lambda>c. cy_binding c = b \<and> in_flight c) (map (moved_to k st) (j_cycles s)))
      \<le> length (filter (\<lambda>c. cy_binding c = b \<and> in_flight c) (j_cycles s))" for b
    using moved_in_flight [OF assms(2) moved(2,3,4)] by (intro fewer) (auto split: if_splits)
  also have "length (filter (\<lambda>c. cy_binding c = b \<and> in_flight c) (j_cycles s)) \<le> 1" for b
    using assms(2) unfolding cycles_ok_def by blast
  finally have "length (filter (\<lambda>c. cy_binding c = b \<and> in_flight c) (j_cycles t)) \<le> 1" for b
    by (simp add: moved(1) set_cycle_state_def)
  moreover have "map cy_id (j_cycles t) = map cy_id (j_cycles s)"
    "map (\<lambda>c. (cycle_key c, cy_slot c)) (j_cycles t) = map (\<lambda>c. (cycle_key c, cy_slot c)) (j_cycles s)"
    by (auto simp: moved(1) set_cycle_state_def cycle_key_def)
  ultimately show ?thesis using assms(2) unfolding cycles_ok_def by metis
qed (auto simp: cycles_ok_def tables_eq set_instruction_def)

text \<open>The cycles of a revision stay within its limit, which was approved before the first of them.\<close>

definition cycle_limits_ok :: "exec_journal \<Rightarrow> bool" where
  "cycle_limits_ok s \<longleftrightarrow> (\<forall>c \<in> set (j_cycles s). \<exists>r \<in> set (j_instructions s). \<exists>i.
     row_key r = cycle_key c \<and> ir_state r \<noteq> Pending \<and> instruction_of (ir_payload r) = Inr i
     \<and> cy_binding c = (in_runner i, in_session i)
     \<and> int (length (cycles_of s (cy_instruction c) (cy_revision c))) \<le> in_max_cycles i)"

text \<open>All effects but a reservation only move states of cycles.\<close>

definition cycles_moved :: "exec_journal \<Rightarrow> exec_journal \<Rightarrow> bool" where
  "cycles_moved s t \<longleftrightarrow> (\<exists>f. j_cycles t = map f (j_cycles s)
     \<and> (\<forall>c \<in> set (j_cycles s). (\<exists>st. f c = c\<lparr>cy_state := st\<rparr>) \<and> (in_flight (f c) \<longrightarrow> in_flight c)))"

definition cycle_added :: "exec_journal \<Rightarrow> exec_journal \<Rightarrow> bool" where
  "cycle_added s t \<longleftrightarrow> (\<exists>c row i. j_cycles t = j_cycles s @ [c] \<and> j_instructions t = j_instructions s
    \<and> j_operations t = j_operations s \<and> j_charges t = j_charges s \<and> j_members t = j_members s \<and> j_accounts t = j_accounts s
    \<and> j_fundings t = j_fundings s \<and> j_version t = j_version s
    \<and> cy_id c \<notin> cy_id ` set (j_cycles s) \<and> find_instruction s (cy_instruction c) (cy_revision c) = Some row
    \<and> ir_state row = Active \<and> instruction_of (ir_payload row) = Inr i \<and> cy_binding c = (in_runner i, in_session i)
    \<and> int (length (cycles_of s (cy_instruction c) (cy_revision c))) < in_max_cycles i)"

lemma same_state: "\<exists>st. c = c\<lparr>cy_state := st\<rparr>"
  by (rule exI [of _ "cy_state c"]) simp

lemma moved_same: "j_cycles t = j_cycles s \<Longrightarrow> cycles_moved s t"
  unfolding cycles_moved_def by (rule exI [of _ id]) (auto intro: same_state)

lemma effect_moves:
  assumes "effect E s t" "cycles_ok s"
  shows "cycles_moved s t \<or> cycle_added s t"
  using assms
proof (cases rule: effect.cases)
  case (reserved c row i w)
  have "instruction_of (ir_payload row) = Inr i"
    using reserved(4) by (auto simp: read_instruction_def res split: if_splits option.splits)
  then show ?thesis using reserved by (auto simp: cycle_added_def conflicts_def list_ex_iff)
next
  case (moved c k st)
  have "cycles_moved s t"
    unfolding cycles_moved_def
    by (rule exI [of _ "moved_to k st"])
      (auto simp: moved(1) set_cycle_state_def dest: moved_in_flight [OF assms(2) moved(2,3,4)] intro: same_state)
  then show ?thesis ..
qed (auto intro!: moved_same simp: tables_eq set_instruction_def)

lemma moved_cycle:
  assumes "cycles_moved s t" "d \<in> set (j_cycles t)"
  obtains c st where "c \<in> set (j_cycles s)" "d = c\<lparr>cy_state := st\<rparr>"
proof -
  obtain f where f: "j_cycles t = map f (j_cycles s)" "\<And>c. c \<in> set (j_cycles s) \<Longrightarrow> \<exists>st. f c = c\<lparr>cy_state := st\<rparr>"
    using assms(1) unfolding cycles_moved_def by blast
  then obtain c where "c \<in> set (j_cycles s)" "d = f c" using assms(2) by auto
  then show thesis using f(2) that by blast
qed

lemma moved_counts:
  assumes "cycles_moved s t" shows "length (cycles_of t i n) = length (cycles_of s i n)"
proof -
  obtain f where f: "j_cycles t = map f (j_cycles s)" "\<forall>c \<in> set (j_cycles s). \<exists>st. f c = c\<lparr>cy_state := st\<rparr>"
    using assms unfolding cycles_moved_def by blast
  have "filter ((\<lambda>c. cy_instruction c = i \<and> cy_revision c = n) \<circ> f) (j_cycles s)
      = filter (\<lambda>c. cy_instruction c = i \<and> cy_revision c = n) (j_cycles s)"
    using f(2) by (intro filter_cong) auto
  then show ?thesis by (simp add: cycles_of_def f(1) filter_map)
qed

lemma cycle_limits_kept:
  assumes "cycle_limits_ok s" "rows_kept s t" "cycles_moved s t"
  shows "cycle_limits_ok t"
  unfolding cycle_limits_ok_def moved_counts [OF assms(3)]
proof
  fix d assume "d \<in> set (j_cycles t)"
  then obtain c st where c: "c \<in> set (j_cycles s)" "d = c\<lparr>cy_state := st\<rparr>" by (rule moved_cycle [OF assms(3)])
  obtain r i where r: "r \<in> set (j_instructions s)" "row_key r = cycle_key c" "ir_state r \<noteq> Pending"
      "instruction_of (ir_payload r) = Inr i" "cy_binding c = (in_runner i, in_session i)"
      "int (length (cycles_of s (cy_instruction c) (cy_revision c))) \<le> in_max_cycles i"
    using assms(1) c(1) unfolding cycle_limits_ok_def by blast
  obtain q where q: "q \<in> set (j_instructions t)" "follows r q"
    using assms(2) r(1,3) by (auto simp: rows_kept_def)
  show "\<exists>r \<in> set (j_instructions t). \<exists>i. row_key r = cycle_key d \<and> ir_state r \<noteq> Pending \<and> instruction_of (ir_payload r) = Inr i
      \<and> cy_binding d = (in_runner i, in_session i)
      \<and> int (length (cycles_of s (cy_instruction d) (cy_revision d))) \<le> in_max_cycles i"
    using q r by (intro bexI [OF _ q(1)] exI [of _ i]) (auto simp: follows_def c(2) cycle_key_def)
qed

lemma effect_cycle_limits:
  assumes "effect E s t" "rows_ok s" "cycles_ok s" "cycle_limits_ok s" shows "cycle_limits_ok t"
  using effect_moves [OF assms(1,3)]
proof
  assume "cycles_moved s t"
  then show ?thesis by (rule cycle_limits_kept [OF assms(4) effect_rows_kept [OF assms(1,2)]])
next
  assume "cycle_added s t"
  then obtain c row i where c: "j_cycles t = j_cycles s @ [c]" "j_instructions t = j_instructions s"
      "find_instruction s (cy_instruction c) (cy_revision c) = Some row" "ir_state row = Active"
      "instruction_of (ir_payload row) = Inr i" "cy_binding c = (in_runner i, in_session i)"
      "int (length (cycles_of s (cy_instruction c) (cy_revision c))) < in_max_cycles i"
    unfolding cycle_added_def by blast
  have row: "row \<in> set (j_instructions s)" "row_key row = cycle_key c"
    using find_row [OF c(3)] by (auto simp: cycle_key_def)
  show ?thesis unfolding cycle_limits_ok_def
  proof
    fix d assume d: "d \<in> set (j_cycles t)"
    show "\<exists>r \<in> set (j_instructions t). \<exists>i. row_key r = cycle_key d \<and> ir_state r \<noteq> Pending \<and> instruction_of (ir_payload r) = Inr i
      \<and> cy_binding d = (in_runner i, in_session i)
      \<and> int (length (cycles_of t (cy_instruction d) (cy_revision d))) \<le> in_max_cycles i"
    proof (cases "cycle_key d = cycle_key c")
      case True
      have "cy_binding d = (in_runner i, in_session i)"
      proof (cases "d = c")
        case False
        then have "d \<in> set (j_cycles s)" using d c(1) by auto
        then obtain r j where r: "r \<in> set (j_instructions s)" "row_key r = cycle_key d" "instruction_of (ir_payload r) = Inr j"
            "cy_binding d = (in_runner j, in_session j)"
          using assms(4) unfolding cycle_limits_ok_def by blast
        have "r = row" using find_rowI [OF assms(2) r(1)] r(2) c(3) True by (simp add: cycle_key_def)
        then show ?thesis using r(3,4) c(5) by simp
      qed (simp add: c(6))
      then show ?thesis
        using row c True by (intro bexI [of _ row] exI [of _ i]) (auto simp: cycles_of_def cycle_key_def)
    next
      case False
      then have "d \<in> set (j_cycles s)" using d c(1) by auto
      then show ?thesis using assms(4) False c(1,2)
        by (auto simp: cycle_limits_ok_def cycles_of_def cycle_key_def)
    qed
  qed
qed

section \<open>Operations of a cycle\<close>

definition allowed_by :: "exec_journal \<Rightarrow> operation_row \<Rightarrow> instruction \<Rightarrow> bool" where
  "allowed_by s p i \<longleftrightarrow> int (length (operations_of s (op_cycle p) (op_kind p))) \<le> operation_limit i (op_kind p)
     \<and> (\<forall>x. op_scope p = Some x \<longrightarrow> x \<in> set (in_scope i))"

definition approved_for :: "exec_journal \<Rightarrow> cycle_row \<Rightarrow> instruction \<Rightarrow> bool" where
  "approved_for s c i \<longleftrightarrow> (\<exists>r \<in> set (j_instructions s). row_key r = cycle_key c \<and> ir_state r \<noteq> Pending
     \<and> instruction_of (ir_payload r) = Inr i)"

definition operations_ok :: "exec_journal \<Rightarrow> bool" where
  "operations_ok s \<longleftrightarrow> distinct (map op_id (j_operations s))
     \<and> (\<forall>p \<in> set (j_operations s). \<exists>c \<in> set (j_cycles s). \<exists>i. cy_id c = op_cycle p \<and> approved_for s c i \<and> allowed_by s p i)"

lemma cycles_kept:
  assumes "effect E s t" "cycles_ok s" "c \<in> set (j_cycles s)"
  shows "\<exists>d \<in> set (j_cycles t). cy_id d = cy_id c \<and> cycle_key d = cycle_key c"
  using effect_moves [OF assms(1,2)]
proof
  assume "cycles_moved s t"
  then obtain f where "j_cycles t = map f (j_cycles s)" "\<forall>c \<in> set (j_cycles s). \<exists>st. f c = c\<lparr>cy_state := st\<rparr>"
    unfolding cycles_moved_def by blast
  then show ?thesis using assms(3) by (intro bexI [of _ "f c"]) (auto simp: cycle_key_def dest: bspec [OF _ assms(3)])
next
  assume "cycle_added s t"
  then show ?thesis using assms(3) unfolding cycle_added_def by auto
qed

lemma approved_kept: "approved_for s c i \<Longrightarrow> rows_kept s t \<Longrightarrow> cycle_key d = cycle_key c \<Longrightarrow> approved_for t d i"
  unfolding approved_for_def rows_kept_def follows_def by metis

lemma approved_unique:
  assumes "rows_ok s" "approved_for s c i" "approved_for s d j" "cycle_key d = cycle_key c" shows "i = j"
proof -
  obtain r q where r: "r \<in> set (j_instructions s)" "row_key r = cycle_key c" "instruction_of (ir_payload r) = Inr i"
    and q: "q \<in> set (j_instructions s)" "row_key q = cycle_key c" "instruction_of (ir_payload q) = Inr j"
    using assms(2,3,4) unfolding approved_for_def by metis
  have "r = q" using assms(1) r(1,2) q(1,2) unfolding rows_ok_def distinct_map by (metis inj_onD)
  then show ?thesis using r(3) q(3) by simp
qed

lemma operations_kept:
  assumes "operations_ok s" "effect E s t" "rows_ok s" "cycles_ok s"
    and g: "j_operations t = map g (j_operations s)" "\<And>p. op_id (g p) = op_id p" "\<And>p. op_cycle (g p) = op_cycle p"
      "\<And>p. op_kind (g p) = op_kind p" "\<And>p. op_scope (g p) = op_scope p"
  shows "operations_ok t"
proof -
  have "length (operations_of t k n) = length (operations_of s k n)" for k n
    by (simp add: operations_of_def g filter_map comp_def)
  then have a: "allowed_by t (g p) i \<longleftrightarrow> allowed_by s p i" for p i by (simp add: allowed_by_def g)
  have "\<exists>c \<in> set (j_cycles t). \<exists>i. cy_id c = op_cycle (g p) \<and> approved_for t c i \<and> allowed_by t (g p) i"
    if p: "p \<in> set (j_operations s)" for p
  proof -
    obtain c i where c: "c \<in> set (j_cycles s)" "cy_id c = op_cycle p" "approved_for s c i" "allowed_by s p i"
      using assms(1) p unfolding operations_ok_def by blast
    obtain d where "d \<in> set (j_cycles t)" "cy_id d = cy_id c" "cycle_key d = cycle_key c"
      using cycles_kept [OF assms(2,4) c(1)] by blast
    then show ?thesis using c approved_kept [OF c(3) effect_rows_kept [OF assms(2,3)]] by (auto simp: a g)
  qed
  moreover have "map op_id (j_operations t) = map op_id (j_operations s)" by (simp add: g)
  ultimately show ?thesis using assms(1) by (auto simp: operations_ok_def g(1) simp del: map_map)
qed

lemma effect_operations:
  assumes "effect E s t" "rows_ok s" "cycles_ok s" "operations_ok s" shows "operations_ok t"
proof -
  have same: "operations_ok t" if "j_operations t = j_operations s"
    by (rule operations_kept [OF assms(4,1,2,3), of id]) (simp_all add: that)
  show ?thesis using assms(1)
  proof (cases rule: effect.cases)
    case (admitted c p row i)
    have i: "instruction_of (ir_payload row) = Inr i"
      using admitted(5) by (auto simp: read_instruction_def res split: if_splits option.splits)
    have ap: "approved_for t x j \<longleftrightarrow> approved_for s x j" for x j by (simp add: approved_for_def admitted(1))
    have c: "approved_for s c i"
      using find_row [OF admitted(4)] i admitted(6) by (auto simp: approved_for_def cycle_key_def)
    have n: "operations_of t k m = operations_of s k m @ (if op_cycle p = k \<and> op_kind p = m then [p] else [])" for k m
      by (simp add: operations_of_def admitted(1))
    have new: "allowed_by t p i" using admitted(7,8) by (simp add: allowed_by_def n)
    have "\<exists>d \<in> set (j_cycles t). \<exists>j. cy_id d = op_cycle q \<and> approved_for t d j \<and> allowed_by t q j"
      if q: "q \<in> set (j_operations s)" for q
    proof -
      obtain d j where d: "d \<in> set (j_cycles s)" "cy_id d = op_cycle q" "approved_for s d j" "allowed_by s q j"
        using assms(4) q unfolding operations_ok_def by blast
      have "allowed_by t q j"
      proof (cases "op_cycle p = op_cycle q \<and> op_kind p = op_kind q")
        case True
        then have "d = c" using assms(3) d(1,2) admitted(2,3) unfolding cycles_ok_def distinct_map by (metis inj_onD)
        then have "j = i" using approved_unique [OF assms(2) d(3) c] by simp
        then show ?thesis using new True d(4) by (simp add: allowed_by_def)
      next
        case False
        then show ?thesis using d(4) by (auto simp: allowed_by_def n)
      qed
      moreover have "j_cycles t = j_cycles s" by (simp add: admitted(1))
      ultimately show ?thesis using d ap by metis
    qed
    moreover have "\<exists>d \<in> set (j_cycles t). \<exists>j. cy_id d = op_cycle p \<and> approved_for t d j \<and> allowed_by t p j"
      using new c admitted(2,3) ap by (intro bexI [of _ c] exI [of _ i]) (simp_all add: admitted(1))
    moreover have "j_operations t = j_operations s @ [p]" by (simp add: admitted(1))
    ultimately show ?thesis using assms(4) admitted(9) unfolding operations_ok_def by auto
  next
    case (returned k)
    show ?thesis by (rule operations_kept [OF assms(4,1,2,3), of "\<lambda>x. if op_id x = k then x\<lparr>op_returned := True\<rparr> else x"])
        (simp_all add: returned)
  qed (rule same, simp add: tables_eq set_instruction_def set_cycle_state_def)+
qed

end
