(* ===== verification/Execution_Budget.thy ===== *)
theory Execution_Budget
  imports Execution_Invariant
begin

text \<open>
  Budgets of the execution journal: what an account's charges add up to, and that no effect takes
  them over the account's ceilings.
\<close>

section \<open>The charges of an account\<close>

definition joined :: "(pystr \<times> pystr) list \<Rightarrow> cycle_row list \<Rightarrow> pystr \<Rightarrow> charge_row list \<Rightarrow> (charge_row \<times> cycle_row) list" where
  "joined M Y a H = concat (map (\<lambda>h. if (ch_sha h, a) \<in> set M
     then map (Pair h) (filter (\<lambda>y. cy_id y = ch_cycle h) Y) else []) H)"

lemma account_charges_joined: "account_charges s a = joined (j_members s) (j_cycles s) a (j_charges s)"
  by (simp add: account_charges_def joined_def)

lemma joined_append: "joined M Y a (H @ H') = joined M Y a H @ joined M Y a H'"
  by (simp add: joined_def)

lemma joined_in: "x \<in> set (joined M Y a H) \<Longrightarrow> fst x \<in> set H \<and> snd x \<in> set Y \<and> cy_id (snd x) = ch_cycle (fst x)"
  by (auto simp: joined_def split: if_splits)

lemma charges_in:
  "x \<in> set (account_charges s a) \<Longrightarrow> fst x \<in> set (j_charges s) \<and> snd x \<in> set (j_cycles s)"
  using joined_in unfolding account_charges_joined by blast

lemma joined_map_cycles:
  assumes "\<And>y. y \<in> set Y \<Longrightarrow> cy_id (f y) = cy_id y" shows "joined M (map f Y) a H = map (apsnd f) (joined M Y a H)"
proof -
  have "filter (\<lambda>y. cy_id y = k) (map f Y) = map f (filter (\<lambda>y. cy_id y = k) Y)" for k
    using assms by (simp add: filter_map comp_def cong: filter_cong)
  then show ?thesis by (induction H) (simp_all add: joined_def)
qed

lemma joined_map_charges:
  assumes "\<And>h. h \<in> set H \<Longrightarrow> ch_sha (g h) = ch_sha h \<and> ch_cycle (g h) = ch_cycle h"
  shows "joined M Y a (map g H) = map (apfst g) (joined M Y a H)"
  using assms by (induction H) (simp_all add: joined_def)

lemma joined_new_cycle:
  assumes "cy_id c \<notin> ch_cycle ` set H" shows "joined M (Y @ [c]) a H = joined M Y a H"
  using assms by (induction H) (auto simp: joined_def)

lemma joined_new_members:
  assumes "\<And>h. h \<in> set H \<Longrightarrow> ch_sha h \<notin> fst ` set N" shows "joined (M @ N) Y a H = joined M Y a H"
proof -
  have "(ch_sha h, a) \<in> set (M @ N) \<longleftrightarrow> (ch_sha h, a) \<in> set M" if "h \<in> set H" for h
    using assms [OF that] by (auto simp: image_iff)
  then show ?thesis by (auto simp: joined_def intro!: arg_cong [where f = concat] map_cong)
qed

lemma joined_no_member: "(\<And>h. h \<in> set H \<Longrightarrow> (ch_sha h, a) \<notin> set M) \<Longrightarrow> joined M Y a H = []"
  by (auto simp: joined_def)

lemma joined_one:
  assumes "distinct (map cy_id Y)" shows "length (joined M Y a [h]) \<le> 1"
proof -
  have "length (filter (\<lambda>y. cy_id y = k) Y) \<le> 1" for k
    using assms by (induction Y) (auto simp: filter_empty_conv image_iff)
  then show ?thesis by (simp add: joined_def)
qed

section \<open>Ceilings\<close>

definition members_ok :: "exec_journal \<Rightarrow> bool" where
  "members_ok s \<longleftrightarrow> distinct (map fi_sha (j_fundings s)) \<and> distinct (map fa_id (j_accounts s))
     \<and> (\<forall>m \<in> set (j_members s). snd m \<in> fa_id ` set (j_accounts s)
          \<and> (\<exists>f \<in> set (j_fundings s). fi_sha f = fst m \<and> VStr (snd m) \<in> set (accounts_of (fi_payload f))))"

definition settled_ok :: "charge_row \<Rightarrow> bool" where
  "settled_ok h \<longleftrightarrow> (case ch_actual h of None \<Rightarrow> ch_receipt h = None
     | Some n \<Rightarrow> ch_receipt h \<noteq> None \<and> 0 \<le> n \<and> n \<le> ch_maximum h)"

definition charges_ok :: "exec_journal \<Rightarrow> bool" where
  "charges_ok s \<longleftrightarrow> distinct (map ch_cycle (j_charges s))
     \<and> (\<forall>h \<in> set (j_charges s). ch_cycle h \<in> cy_id ` set (j_cycles s) \<and> ch_sha h \<in> fi_sha ` set (j_fundings s) \<and> settled_ok h)"

definition within_ceilings :: "exec_journal \<Rightarrow> account_row \<Rightarrow> bool" where
  "within_ceilings s r \<longleftrightarrow> calls s (fa_id r) \<le> int_item (fa_payload r) ''max_calls''
     \<and> charged s (fa_id r) \<le> int_item (fa_payload r) ''max_charge''
     \<and> active_calls s (fa_id r) \<le> int_item (fa_payload r) ''max_active''"

definition budgets_ok :: "exec_journal \<Rightarrow> bool" where
  "budgets_ok s \<longleftrightarrow> (\<forall>r \<in> set (j_accounts s). within_ceilings s r)"

lemma ceilings_kept:
  assumes "within_ceilings s r" "fa_id q = fa_id r" "fa_payload q = fa_payload r"
    and "calls t (fa_id r) \<le> calls s (fa_id r)" "charged t (fa_id r) \<le> charged s (fa_id r)"
      "active_calls t (fa_id r) \<le> active_calls s (fa_id r)"
  shows "within_ceilings t q"
  using assms unfolding within_ceilings_def by simp

lemma balances_joined:
  "calls s a = int (length (account_charges s a))"
  "charged s a = sum_list (map (\<lambda>x. charge_cost (fst x)) (account_charges s a))"
  "active_calls s a = int (length (filter is_active_charge (account_charges s a)))"
  by (simp_all add: calls_def charged_def active_calls_def case_prod_unfold)

text \<open>Charges whose costs and activity only go down.\<close>

lemma balances_fewer:
  assumes "account_charges t a = map f (account_charges s a)"
    and "\<And>x. x \<in> set (account_charges s a) \<Longrightarrow> charge_cost (fst (f x)) \<le> charge_cost (fst x)"
    and "\<And>x. x \<in> set (account_charges s a) \<Longrightarrow> is_active_charge (f x) \<Longrightarrow> is_active_charge x"
  shows "calls t a \<le> calls s a" "charged t a \<le> charged s a" "active_calls t a \<le> active_calls s a"
proof -
  show "calls t a \<le> calls s a" by (simp add: balances_joined assms(1))
  have "sum_list (map (\<lambda>x. charge_cost (fst (f x))) (account_charges s a)) \<le> sum_list (map (\<lambda>x. charge_cost (fst x)) (account_charges s a))"
    by (rule sum_list_mono) (rule assms(2))
  then show "charged t a \<le> charged s a" by (simp add: balances_joined assms(1) comp_def)
  show "active_calls t a \<le> active_calls s a"
    using fewer [where P = is_active_charge and f = f and xs = "account_charges s a"] assms(3) by (simp add: balances_joined assms(1))
qed

section \<open>Effects\<close>

lemma effect_members:
  assumes "effect E s t" "members_ok s" shows "members_ok t"
  using assms(1)
proof (cases rule: effect.cases)
  case (granted d pr)
  then show ?thesis using assms(2) by (fastforce simp: members_ok_def)
next
  case (funded sha d pr)
  have "snd m \<in> fa_id ` set (j_accounts t)
      \<and> (\<exists>f \<in> set (j_fundings t). fi_sha f = fst m \<and> VStr (snd m) \<in> set (accounts_of (fi_payload f)))"
    if m: "m \<in> set (j_members t)" for m
  proof (cases "m \<in> set (j_members s)")
    case True
    then show ?thesis using assms(2) by (auto simp: members_ok_def funded(1))
  next
    case False
    then obtain v where v: "v \<in> set (accounts_of d)" "m = (sha, str_of v)" using m by (auto simp: funded(1))
    obtain r where "r \<in> set (j_accounts s)" "v = VStr (fa_id r)" using funded(5) [OF v(1)] by blast
    then show ?thesis using v by (auto simp: funded(1))
  qed
  then show ?thesis using assms(2) funded(2) by (auto simp: members_ok_def funded(1))
next
  case controlled
  then have "map fa_id (j_accounts t) = map fa_id (j_accounts s)" by auto
  moreover from this have "fa_id ` set (j_accounts t) = fa_id ` set (j_accounts s)" by (metis set_map)
  moreover have "j_fundings t = j_fundings s" "j_members t = j_members s" using controlled by simp_all
  ultimately show ?thesis using assms(2) unfolding members_ok_def by metis
qed (use assms(2) in \<open>auto simp: members_ok_def tables_eq set_instruction_def set_cycle_state_def\<close>)

lemma effect_ids:
  assumes "effect E s t" "cycles_ok s" shows "cy_id ` set (j_cycles s) \<subseteq> cy_id ` set (j_cycles t)"
  by (auto dest!: cycles_kept [OF assms]) (metis image_eqI)

lemma effect_charges:
  assumes "effect E s t" "cycles_ok s" "charges_ok s" shows "charges_ok t"
proof -
  have same: "charges_ok t" if "j_charges t = j_charges s" "fi_sha ` set (j_fundings s) \<subseteq> fi_sha ` set (j_fundings t)"
    using that assms(3) effect_ids [OF assms(1,2)] unfolding charges_ok_def by auto
  show ?thesis using assms(1)
  proof (cases rule: effect.cases)
    case (charging c h fr)
    have "fi_sha fr = ch_sha h \<and> fr \<in> set (j_fundings s)"
      using charging(4) by (auto simp: find_funding_def split: if_splits dest: find_some_in)
    then have "ch_sha h \<in> fi_sha ` set (j_fundings s)" "ch_cycle h \<in> cy_id ` set (j_cycles s)"
      using charging(2,3) by (metis image_eqI)+
    then show ?thesis using assms(3) charging by (simp add: charges_ok_def settled_ok_def)
  next
    case (settled k h n d)
    let ?g = "\<lambda>x. if ch_cycle x = k then x\<lparr>ch_actual := Some n, ch_receipt := Some d\<rparr> else x"
    have h: "h \<in> set (j_charges s)" "ch_cycle h = k" using find_some_in [OF settled(2)] by auto
    have "settled_ok (?g x)" if x: "x \<in> set (j_charges s)" for x
    proof (cases "ch_cycle x = k")
      case True
      then have "x = h" using assms(3) x h unfolding charges_ok_def distinct_map by (metis inj_onD)
      then show ?thesis using settled(4,5) h(2) by (simp add: settled_ok_def)
    next
      case False
      then show ?thesis using assms(3) x by (simp add: charges_ok_def)
    qed
    moreover have t: "j_charges t = map ?g (j_charges s)" "j_cycles t = j_cycles s" "j_fundings t = j_fundings s"
      by (simp_all add: settled(1))
    moreover have "map ch_cycle (map ?g (j_charges s)) = map ch_cycle (j_charges s)" by auto
    ultimately show ?thesis using assms(3) unfolding charges_ok_def t by (simp only: set_map ball_simps) auto
  qed (rule same, simp add: tables_eq set_instruction_def set_cycle_state_def,
      simp add: tables_eq set_instruction_def set_cycle_state_def subset_insertI)+
qed

lemma budgets_map:
  assumes "budgets_ok s" and "j_accounts t = j_accounts s" and "\<And>a. account_charges t a = map f (account_charges s a)"
    and "\<And>x a. x \<in> set (account_charges s a) \<Longrightarrow> charge_cost (fst (f x)) \<le> charge_cost (fst x)"
    and "\<And>x a. x \<in> set (account_charges s a) \<Longrightarrow> is_active_charge (f x) \<Longrightarrow> is_active_charge x"
  shows "budgets_ok t"
  unfolding budgets_ok_def assms(2)
proof
  fix r assume "r \<in> set (j_accounts s)"
  then have "within_ceilings s r" using assms(1) by (simp add: budgets_ok_def)
  then show "within_ceilings t r" using balances_fewer [OF assms(3-5)] by (intro ceilings_kept [of s r r t]) auto
qed

lemma budgets_same:
  assumes "budgets_ok s" "j_accounts t = j_accounts s" "j_charges t = j_charges s" "j_members t = j_members s" "j_cycles t = j_cycles s"
  shows "budgets_ok t"
  using assms by (intro budgets_map [of s t id]) (simp_all add: account_charges_joined)

text \<open>The funding that answers for an account is unique, so it had room for the charge.\<close>

lemma charged_has_room:
  assumes "members_ok s" and "find_funding s sha = Some fr" and "r \<in> set (j_accounts s)" and "(sha, fa_id r) \<in> set (j_members s)"
    and "\<And>v. v \<in> set (accounts_of (fi_payload fr)) \<Longrightarrow>
      \<exists>r. find_account s (fa_id r) = Some r \<and> v = VStr (fa_id r) \<and> has_room s n r"
  shows "has_room s n r"
proof -
  obtain f where f: "f \<in> set (j_fundings s)" "fi_sha f = sha" "VStr (fa_id r) \<in> set (accounts_of (fi_payload f))"
    using assms(1,4) by (auto simp: members_ok_def)
  moreover have "fr \<in> set (j_fundings s)" "fi_sha fr = sha"
    using assms(2) by (auto simp: find_funding_def split: if_splits dest: find_some_in)
  ultimately have "f = fr" using assms(1) unfolding members_ok_def distinct_map by (metis inj_onD)
  then obtain q where q: "find_account s (fa_id q) = Some q" "fa_id q = fa_id r" "has_room s n q" using assms(5) f(3) by fastforce
  have "q = r"
    using q(1,2) assms(1,3) find_some_in [of _ _ q] unfolding members_ok_def distinct_map find_account_def by (metis inj_onD)
  with q(3) show ?thesis by simp
qed

lemma budgets_charging:
  assumes "cycles_ok s" "members_ok s" "budgets_ok s" and "find_funding s (ch_sha h) = Some fr" "ch_actual h = None"
    and "\<And>v. v \<in> set (accounts_of (fi_payload fr)) \<Longrightarrow>
      \<exists>r. find_account s (fa_id r) = Some r \<and> v = VStr (fa_id r) \<and> has_room s (ch_maximum h) r"
  shows "budgets_ok (s\<lparr>j_charges := j_charges s @ [h]\<rparr>)" (is "budgets_ok ?t")
  unfolding budgets_ok_def
proof
  fix r assume "r \<in> set (j_accounts ?t)"
  then have r: "r \<in> set (j_accounts s)" by simp
  then have old: "within_ceilings s r" using assms(3) by (simp add: budgets_ok_def)
  let ?new = "joined (j_members s) (j_cycles s) (fa_id r) [h]"
  have t: "account_charges ?t (fa_id r) = account_charges s (fa_id r) @ ?new" by (simp add: account_charges_joined joined_append)
  show "within_ceilings ?t r"
  proof (cases ?new)
    case Nil
    then show ?thesis using old t by (simp add: within_ceilings_def balances_joined)
  next
    case (Cons x xs)
    then have one: "?new = [x]"
      using joined_one [of "j_cycles s" "j_members s" "fa_id r" h] assms(1) by (simp add: cycles_ok_def)
    then have "fst x = h" using joined_in [of x "j_members s" "j_cycles s" "fa_id r" "[h]"] by simp
    have "(ch_sha h, fa_id r) \<in> set (j_members s)" using one by (auto simp: joined_def split: if_splits)
    from charged_has_room [OF assms(2,4) r this assms(6)] show ?thesis
      using t one \<open>fst x = h\<close> assms(5) by (auto simp: within_ceilings_def has_room_def balances_joined charge_cost_def)
  qed
qed

lemma budgets_moved:
  assumes "cycles_ok s" "budgets_ok s" and "c \<in> set (j_cycles s)" "cy_id c = k" "in_flight c"
  shows "budgets_ok (set_cycle_state k st s)"
proof (rule budgets_map [OF assms(2), where f = "apsnd (moved_to k st)"])
  fix x a assume x: "x \<in> set (account_charges s a)" "is_active_charge (apsnd (moved_to k st) x)"
  obtain h y where hy: "x = (h, y)" by (cases x)
  have "in_flight (moved_to k st y) \<Longrightarrow> in_flight y"
    using moved_in_flight [OF assms(1,3-5)] charges_in [OF x(1)] hy by simp
  then show "is_active_charge x" using x(2) by (auto simp: hy is_active_charge_def)
qed (auto simp: account_charges_joined set_cycle_state_def joined_map_cycles)

lemma budgets_granted:
  assumes "members_ok s" "budgets_ok s" and "account_ok store d" "str_item d ''account_id'' \<notin> fa_id ` set (j_accounts s)"
    and "fa_id x = str_item d ''account_id''" "fa_payload x = d"
  shows "budgets_ok (s\<lparr>j_accounts := j_accounts s @ [x]\<rparr>)" (is "budgets_ok ?t")
proof -
  have eq: "account_charges ?t a = account_charges s a" for a by (simp add: account_charges_joined)
  have "(ch_sha h, fa_id x) \<notin> set (j_members s)" for h using assms(1,4,5) by (fastforce simp: members_ok_def)
  then have "account_charges s (fa_id x) = []" unfolding account_charges_joined by (rule joined_no_member)
  then have "within_ceilings ?t x" using assms(3,6)
    by (auto simp: within_ceilings_def balances_joined eq account_ok_def int_between_def int_item_def split: val.splits)
  moreover have "within_ceilings ?t r" if "r \<in> set (j_accounts s)" for r
    using that assms(2) by (simp add: budgets_ok_def within_ceilings_def balances_joined eq)
  ultimately show ?thesis by (auto simp: budgets_ok_def)
qed

lemma budgets_settled:
  assumes "charges_ok s" "budgets_ok s" and "find (\<lambda>x. ch_cycle x = k) (j_charges s) = Some h" "ch_receipt h = None" "n \<le> ch_maximum h"
  shows "budgets_ok (s\<lparr>j_charges := map (\<lambda>x. if ch_cycle x = k then x\<lparr>ch_actual := Some n, ch_receipt := Some d\<rparr> else x)
    (j_charges s)\<rparr>)" (is "budgets_ok (s\<lparr>j_charges := map ?g _\<rparr>)")
proof -
  have h: "h \<in> set (j_charges s)" "ch_cycle h = k" using find_some_in [OF assms(3)] by auto
  have "ch_actual h = None" using assms(1) h(1) assms(4) by (auto simp: charges_ok_def settled_ok_def split: option.splits)
  then have g: "charge_cost (?g x) \<le> charge_cost x \<and> (ch_actual (?g x) = None \<longrightarrow> ch_actual x = None)"
    if x: "x \<in> set (j_charges s)" for x
  proof (cases "ch_cycle x = k")
    case True
    then have "x = h" using assms(1) x h unfolding charges_ok_def distinct_map by (metis inj_onD)
    then show ?thesis using \<open>ch_actual h = None\<close> assms(5) True by (simp add: charge_cost_def)
  qed simp
  show ?thesis
  proof (rule budgets_map [OF assms(2), where f = "apfst ?g"])
    fix x a assume x: "x \<in> set (account_charges s a)"
    obtain h y where hy: "x = (h, y)" by (cases x)
    have "h \<in> set (j_charges s)" using charges_in [OF x] by (simp add: hy)
    note gh = g [OF this]
    show "charge_cost (fst (apfst ?g x)) \<le> charge_cost (fst x)" unfolding hy apfst_conv fst_conv by (rule conjunct1 [OF gh])
    show "is_active_charge (apfst ?g x) \<Longrightarrow> is_active_charge x"
      unfolding hy apfst_conv is_active_charge_def prod.case using conjunct2 [OF gh] by blast
  qed (simp_all add: account_charges_joined joined_map_charges)
qed

lemma effect_budgets:
  assumes "effect E s t" "cycles_ok s" "members_ok s" "charges_ok s" "budgets_ok s" shows "budgets_ok t"
  using assms(1)
proof (cases rule: effect.cases)
  case (reserved c row i w)
  have "cy_id c \<notin> cy_id ` set (j_cycles s)" using reserved(7) by (auto simp: conflicts_def list_ex_iff)
  then have "cy_id c \<notin> ch_cycle ` set (j_charges s)" using assms(4) by (auto simp: charges_ok_def)
  then show ?thesis
    by (intro budgets_map [OF assms(5), of _ id]) (auto simp: account_charges_joined reserved(1) joined_new_cycle)
next
  case (charging c h fr)
  show ?thesis unfolding charging(1) by (rule budgets_charging [OF assms(2,3,5) charging(4,5,7)])
next
  case (moved c k st)
  show ?thesis unfolding moved(1) by (rule budgets_moved [OF assms(2,5) moved(2,3,4)])
next
  case (granted d pr)
  show ?thesis unfolding granted(1) by (rule budgets_granted [OF assms(3,5) granted(2,3)]) simp_all
next
  case (funded sha d pr)
  have "account_charges t a = map id (account_charges s a)" for a
    using assms(4) funded(2) by (auto simp: account_charges_joined funded(1) charges_ok_def intro!: joined_new_members)
  then show ?thesis by (rule budgets_map [OF assms(5), rotated]) (auto simp: funded(1))
next
  case controlled
  have "account_charges t k = account_charges s k" for k by (simp add: account_charges_joined controlled)
  then show ?thesis using assms(5) by (auto simp: budgets_ok_def within_ceilings_def balances_joined controlled)
next
  case (settled k h n d)
  show ?thesis unfolding settled(1) by (rule budgets_settled [OF assms(4,5) settled(2,3,5)])
qed (rule budgets_same [OF assms(5)], (simp_all add: tables_eq set_instruction_def)[4])+

section \<open>Reachable journals\<close>

definition journal_ok :: "exec_journal \<Rightarrow> bool" where
  "journal_ok s \<longleftrightarrow> rows_ok s \<and> cycles_ok s \<and> cycle_limits_ok s \<and> operations_ok s \<and> members_ok s \<and> charges_ok s
     \<and> budgets_ok s \<and> distinct (map ev_id (j_approvals s))"

lemma effect_approvals:
  assumes "effect E s t" "distinct (map ev_id (j_approvals s))" shows "distinct (map ev_id (j_approvals t))"
  using assms by (cases rule: effect.cases) (auto simp: tables_eq set_instruction_def set_cycle_state_def)

lemma effect_ok:
  assumes e: "effect E s t" and ok: "journal_ok s" shows "journal_ok t"
proof -
  note parts = ok [unfolded journal_ok_def]
  have r: "rows_ok s" and c: "cycles_ok s" using parts by simp_all
  show ?thesis
    unfolding journal_ok_def
    using parts effect_rows [OF e r] effect_cycles [OF e c] effect_cycle_limits [OF e r c] effect_operations [OF e r c]
      effect_members [OF e] effect_charges [OF e c] effect_budgets [OF e c] effect_approvals [OF e] by simp
qed

lemma path_ok: "path E s t \<Longrightarrow> journal_ok s \<Longrightarrow> journal_ok t \<and> rows_kept s t"
proof (induction rule: rtranclp_induct)
  case base
  then show ?case by (simp add: rows_kept_same)
next
  case (step u t)
  then show ?case
    using effect_ok [OF step(2)] effect_rows_kept [OF step(2)] rows_kept_trans [of s u t] by (simp add: journal_ok_def)
qed

lemma runs_path: "rtranclp (operation E) s t \<Longrightarrow> path E s t"
  by (induction rule: rtranclp_induct) (auto dest: operation_path)

lemma new_ok: "journal_ok (new_journal k)"
  by (simp add: journal_ok_def new_journal_def rows_ok_def cycles_ok_def cycle_limits_ok_def operations_ok_def members_ok_def
      charges_ok_def budgets_ok_def)

lemma reachable_journal_ok: "journal_reachable E s \<Longrightarrow> journal_ok s"
  using path_ok [OF runs_path new_ok] by (auto simp: journal_reachable_def)

end
