(* ===== verification/Demo_Execution.thy ===== *)
theory Demo_Execution
  imports Execution_Budget Demo
begin

text \<open>
  A journal in use: an instruction is approved and funded from three accounts, a cycle is reserved and
  a provider call admitted. Digests stay symbolic; the platform's signature repeats the key.
\<close>

definition demo_verifier :: verifier where
  "demo_verifier = \<lparr>vf_keys = [(str ''p'', replicate 32 1)]\<rparr>"

definition demo_env :: exec_env where
  "demo_env = \<lparr>xe_platform = demo, xe_verifier = demo_verifier, xe_usage = None,
     xe_clock = (\<lambda>_. Some 10)\<rparr>"

lemma demo_env_sel [simp]:
  "xe_platform demo_env = demo" "xe_verifier demo_env = demo_verifier" "xe_usage demo_env = None"
  "xe_clock demo_env n = Some 10"
  by (simp_all add: demo_env_def)

definition sha_of :: "dict \<Rightarrow> pystr" where
  "sha_of d = (case text_digest (VDict d) of Inr h \<Rightarrow> h | Inl _ \<Rightarrow> [])"

definition demo_proof :: "string \<Rightarrow> dict \<Rightarrow> nat \<Rightarrow> dict" where
  "demo_proof action d n =
     [(VStr (str ''purpose''), VStr (str (''execution/v1/'' @ action))), (VStr (str ''event_id''), VStr [n]),
      (VStr (str ''principal''), VStr (str ''p'')), (VStr (str ''payload_sha256''), VStr (sha_of d)),
      (VStr (str ''signature''), VStr (hex (replicate 64 1)))]"

lemma demo_signature: "is_hex128 (hex (replicate 64 1))" "fromhex (hex (replicate 64 1)) = replicate 32 1 @ replicate 32 1"
  by code_simp+

lemma demo_proof_ok:
  assumes "text_digest (VDict d) = Inr h" "dget d ''principal'' = Some (VStr (str ''p''))" "a \<in> {''approve'', ''cancel''}" "name_char n"
  shows "approval_ok demo demo_verifier a d (demo_proof a d n)"
proof -
  let ?p = "demo_proof a d n"
  have h: "sha_of d = h" by (simp add: sha_of_def assms(1))
  have keys: "dkeys ?p = key_set proof_fields"
    by (simp add: demo_proof_def proof_fields_def key_set_def dkeys_def)
  have items: "item ?p ''purpose'' = VStr (str (''execution/v1/'' @ a))" "item ?p ''event_id'' = VStr [n]"
    "item ?p ''principal'' = VStr (str ''p'')" "item ?p ''payload_sha256'' = VStr h" "item ?p ''signature'' = VStr (hex (replicate 64 1))"
    unfolding demo_proof_def by (simp_all add: dict_simps h)
  obtain b where b: "canonical_text (VDict (without [''signature''] ?p)) = Inr b"
    by (simp add: demo_proof_def without_def canonical_text_def)
  have name: "is_name (VStr [n])" using assms(4) by (simp add: is_name_def)
  show ?thesis
    unfolding approval_ok_def items b using assms(2,3) keys name demo_signature by (simp add: assms(1) demo_verifier_def)
qed

text \<open>Every instruction has a digest.\<close>

lemma to_json_scopes: "\<exists>js. to_json_list (map (VDict \<circ> scope_dict) xs) = Inr js"
  by (induction xs) (auto simp: scope_dict_def)

lemma instruction_digest: "text_digest (VDict (instruction_dict i)) = Inr (instruction_sha i)"
proof -
  obtain js where "to_json_list (map (VDict \<circ> scope_dict) (in_scope i)) = Inr js" using to_json_scopes by blast
  then have "\<exists>j. to_json (VDict (instruction_dict i)) = Inr j"
    by (cases "in_predecessor i"; cases "in_interval i") (simp_all add: instruction_dict_def opt_val_def)
  then obtain h where "text_digest (VDict (instruction_dict i)) = Inr h"
    by (auto simp: text_digest_def canonical_text_def)
  then show ?thesis by (simp add: instruction_sha_def)
qed

definition demo_instruction :: instruction where
  "demo_instruction = \<lparr>in_id = str ''i'', in_store_id = str ''S'', in_revision = 1, in_predecessor = None, in_principal = str ''p'',
     in_being = str ''b'', in_embodiment = str ''e'', in_runner = str ''r'', in_session = str ''s'', in_interval = None,
     in_start = 5, in_end = 20, in_max_cycle_seconds = 4, in_cleanup_seconds = 1, in_max_cycles = 1, in_max_effects = 2,
     in_max_input_tokens = 3, in_max_output_tokens = 3, in_provider = str ''v'', in_model = str ''m'',
     in_task = str ''0000000000000000000000000000000000000000000000000000000000000000'',
     in_scope = [\<lparr>sc_channel = str ''c'', sc_thread = str ''t'', sc_tool = str ''messaging_send'', sc_action = str ''send''\<rparr>]\<rparr>"

lemma demo_instruction_of: "instruction_of (instruction_dict demo_instruction) = Inr demo_instruction"
  by code_simp

definition demo_account :: "string \<Rightarrow> string \<Rightarrow> dict" where
  "demo_account k kind = [(VStr (str ''schema''), VStr (str ''execution/funding-account/v1'')), (VStr (str ''store_id''), VStr (str ''S'')),
     (VStr (str ''principal''), VStr (str ''p'')), (VStr (str ''account_id''), VStr (str k)), (VStr (str ''kind''), VStr (str kind)),
     (VStr (str ''subject''), VStr (str ''b'')), (VStr (str ''start''), VInt 1), (VStr (str ''end''), VInt 30),
     (VStr (str ''unit''), VStr (str ''u'')), (VStr (str ''max_calls''), VInt 2), (VStr (str ''max_charge''), VInt 9),
     (VStr (str ''max_active''), VInt 1), (VStr (str ''max_bindings''), VInt 1)]"

definition demo_funding :: dict where
  "demo_funding = [(VStr (str ''schema''), VStr (str ''execution/instruction-funding/v1'')), (VStr (str ''store_id''), VStr (str ''S'')),
     (VStr (str ''principal''), VStr (str ''p'')), (VStr (str ''instruction_sha256''), VStr (instruction_sha demo_instruction)),
     (VStr (str ''accounts''), VList [VStr (str ''T''), VStr (str ''B''), VStr (str ''E'')]), (VStr (str ''route''), VStr (str ''x'')),
     (VStr (str ''max_charge''), VInt 7)]"

text \<open>The steps.\<close>

lemma demo_approve_ok:
  "approval_ok demo demo_verifier ''approve'' (instruction_dict demo_instruction)
     (demo_proof ''approve'' (instruction_dict demo_instruction) 65)"
  by (rule demo_proof_ok [OF instruction_digest]) (simp_all add: instruction_dict_def dict_simps demo_instruction_def name_char_def)

lemma demo_event: "str_item (demo_proof a d n) ''event_id'' = [n]" "str_item (demo_proof a d n) ''principal'' = str ''p''"
  by (simp_all add: str_item_def demo_proof_def dict_simps)

definition demo_row :: instruction_row where
  "demo_row = \<lparr>ir_id = str ''i'', ir_revision = 1, ir_payload = instruction_dict demo_instruction,
     ir_proof = Some (demo_proof ''approve'' (instruction_dict demo_instruction) 65), ir_state = Active, ir_generation = 0\<rparr>"

definition demo_approval :: "dict \<Rightarrow> nat \<Rightarrow> approval_row" where
  "demo_approval d n = \<lparr>ev_id = [n], ev_principal = str ''p'', ev_action = ''approve'', ev_proof = demo_proof ''approve'' d n\<rparr>"

definition demo_j1 :: exec_journal where
  "demo_j1 = (new_journal (str ''S''))\<lparr>j_high_water := 10, j_ticks := 1, j_instructions := [demo_row],
     j_approvals := [demo_approval (instruction_dict demo_instruction) 65]\<rparr>"

lemma demo_instruction_sel [simp]:
  "in_store_id demo_instruction = str ''S''" "in_end demo_instruction = 20" "in_revision demo_instruction = 1"
  "in_id demo_instruction = str ''i''" "in_principal demo_instruction = str ''p''" "in_start demo_instruction = 5"
  "in_being demo_instruction = str ''b''" "in_max_cycles demo_instruction = 1" "in_interval demo_instruction = None"
  "in_runner demo_instruction = str ''r''" "in_session demo_instruction = str ''s''" "in_embodiment demo_instruction = str ''e''"
  "in_max_cycle_seconds demo_instruction = 4" "in_provider demo_instruction = str ''v''" "in_model demo_instruction = str ''m''"
  "in_max_input_tokens demo_instruction = 3" "in_max_output_tokens demo_instruction = 3"
  by (simp_all add: demo_instruction_def)

lemmas steps = bindA_def journaled_def nowA_def denyA_def record_approval_def liftA_def verify_approval_def getA_def updA_def
  retA_def Let_def

lemma demo_step1:
  "approve demo_env demo_instruction (demo_proof ''approve'' (instruction_dict demo_instruction) 65) (new_journal (str ''S'')) =
     (Inr (), demo_j1)"
  using demo_approve_ok
  by (simp add: approve_def wrong_audience_def steps new_journal_def demo_event check_renewal_def find_instruction_def activate_def
      demo_row_def demo_approval_def demo_j1_def)

definition demo_at :: "nat \<Rightarrow> approval_row list \<Rightarrow> account_row list \<Rightarrow> exec_journal" where
  "demo_at n apps accs = (new_journal (str ''S''))\<lparr>j_high_water := 10, j_ticks := n, j_version := 2, j_instructions := [demo_row],
     j_approvals := apps, j_accounts := accs\<rparr>"

lemma demo_at_sel [simp]:
  "j_store_id (demo_at n apps accs) = str ''S''" "j_version (demo_at n apps accs) = 2" "j_high_water (demo_at n apps accs) = 10"
  "j_fault (demo_at n apps accs) = False" "j_ticks (demo_at n apps accs) = n" "j_approvals (demo_at n apps accs) = apps"
  "j_accounts (demo_at n apps accs) = accs" "j_instructions (demo_at n apps accs) = [demo_row]" "j_fundings (demo_at n apps accs) = []"
  "j_members (demo_at n apps accs) = []"
  by (simp_all add: demo_at_def new_journal_def)

lemma demo_at_upd [simp]:
  "(demo_at n apps accs)\<lparr>j_ticks := m\<rparr> = demo_at m apps accs" "(demo_at n apps accs)\<lparr>j_approvals := ap\<rparr> = demo_at n ap accs"
  "(demo_at n apps accs)\<lparr>j_accounts := ac\<rparr> = demo_at n apps ac" "(demo_at n apps accs)\<lparr>j_high_water := 10\<rparr> = demo_at n apps accs"
  by (simp_all add: demo_at_def new_journal_def)

lemma demo_step2: "enable_funding demo_j1 = (Inr (), demo_at 1 [demo_approval (instruction_dict demo_instruction) 65] [])"
  by (simp add: enable_funding_def steps demo_j1_def demo_at_def new_journal_def)

lemma demo_account_ok: "k \<in> {''tribe'', ''being'', ''episode''} \<Longrightarrow> a \<in> {''T'', ''B'', ''E''} \<Longrightarrow> account_ok (str ''S'') (demo_account a k)"
  by (auto simp: account_ok_def account_fields_def demo_account_def dict_simps key_set_def dkeys_def account_kinds_def short_str_def
      int_between_def int_item_def max_uint_def)

lemma demo_account_digest: "\<exists>h. text_digest (VDict (demo_account a k)) = Inr h"
  by (simp add: text_digest_def canonical_text_def demo_account_def)

definition demo_account_row :: "string \<Rightarrow> string \<Rightarrow> nat \<Rightarrow> account_row" where
  "demo_account_row a k n = \<lparr>fa_id = str a, fa_payload = demo_account a k, fa_proof = demo_proof ''approve'' (demo_account a k) n,
     fa_paused = False, fa_control_revision = 0\<rparr>"

lemma demo_account_approved:
  "name_char n \<Longrightarrow> approval_ok demo demo_verifier ''approve'' (demo_account a k) (demo_proof ''approve'' (demo_account a k) n)"
  using demo_account_digest [of a k] by (elim exE) (rule demo_proof_ok, assumption, simp_all add: demo_account_def dict_simps)

lemma demo_grant:
  assumes "k \<in> {''tribe'', ''being'', ''episode''}" "a \<in> {''T'', ''B'', ''E''}" "name_char n"
    "[n] \<notin> ev_id ` set apps" "str a \<notin> fa_id ` set accs" "m' = Suc m"
  shows "grant_budget demo_env (demo_account a k) (demo_proof ''approve'' (demo_account a k) n) (demo_at m apps accs) =
    (Inr (), demo_at m' (apps @ [demo_approval (demo_account a k) n]) (accs @ [demo_account_row a k n]))"
proof -
  have i: "int_item (demo_account a k) ''end'' = 30" "str_item (demo_account a k) ''account_id'' = str a"
    by (simp_all add: int_item_def str_item_def demo_account_def dict_simps)
  show ?thesis
    using demo_account_approved [OF assms(3), of a k] demo_account_ok [OF assms(1,2)] assms(4-6)
    by (simp add: grant_budget_def check_store_def needs_funding_def has_version_def steps demo_event demo_approval_def
        demo_account_row_def i)
qed

definition demo_approvals :: "approval_row list" where
  "demo_approvals = [demo_approval (instruction_dict demo_instruction) 65, demo_approval (demo_account ''T'' ''tribe'') 66,
     demo_approval (demo_account ''B'' ''being'') 67, demo_approval (demo_account ''E'' ''episode'') 68]"

definition demo_accounts :: "account_row list" where
  "demo_accounts = [demo_account_row ''T'' ''tribe'' 66, demo_account_row ''B'' ''being'' 67, demo_account_row ''E'' ''episode'' 68]"

lemma demo_step3:
  "grant_budget demo_env (demo_account ''T'' ''tribe'') (demo_proof ''approve'' (demo_account ''T'' ''tribe'') 66)
     (demo_at 1 [demo_approval (instruction_dict demo_instruction) 65] []) =
   (Inr (), demo_at 2 [demo_approval (instruction_dict demo_instruction) 65, demo_approval (demo_account ''T'' ''tribe'') 66]
     [demo_account_row ''T'' ''tribe'' 66])"
  "grant_budget demo_env (demo_account ''B'' ''being'') (demo_proof ''approve'' (demo_account ''B'' ''being'') 67)
     (demo_at 2 [demo_approval (instruction_dict demo_instruction) 65, demo_approval (demo_account ''T'' ''tribe'') 66]
     [demo_account_row ''T'' ''tribe'' 66]) =
   (Inr (), demo_at 3 [demo_approval (instruction_dict demo_instruction) 65, demo_approval (demo_account ''T'' ''tribe'') 66,
     demo_approval (demo_account ''B'' ''being'') 67] [demo_account_row ''T'' ''tribe'' 66, demo_account_row ''B'' ''being'' 67])"
  "grant_budget demo_env (demo_account ''E'' ''episode'') (demo_proof ''approve'' (demo_account ''E'' ''episode'') 68)
     (demo_at 3 [demo_approval (instruction_dict demo_instruction) 65, demo_approval (demo_account ''T'' ''tribe'') 66,
     demo_approval (demo_account ''B'' ''being'') 67] [demo_account_row ''T'' ''tribe'' 66, demo_account_row ''B'' ''being'' 67]) =
   (Inr (), demo_at 4 demo_approvals demo_accounts)"
  by (simp_all add: demo_grant name_char_def demo_approval_def demo_account_row_def demo_approvals_def demo_accounts_def del: One_nat_def)

lemma demo_find_account:
  "find_account s (str ''T'') = Some (demo_account_row ''T'' ''tribe'' 66)"
  "find_account s (str ''B'') = Some (demo_account_row ''B'' ''being'' 67)"
  "find_account s (str ''E'') = Some (demo_account_row ''E'' ''episode'' 68)"
  if "j_accounts s = demo_accounts"
  using that by (simp_all add: find_account_def demo_accounts_def demo_account_row_def)

lemma demo_row_sel [simp]:
  "fa_id (demo_account_row a k n) = str a" "fa_payload (demo_account_row a k n) = demo_account a k"
  "fa_proof (demo_account_row a k n) = demo_proof ''approve'' (demo_account a k) n" "fa_paused (demo_account_row a k n) = False"
  by (simp_all add: demo_account_row_def)

lemma demo_account_items [simp]:
  "item (demo_account a k) ''store_id'' = VStr (str ''S'')" "item (demo_account a k) ''account_id'' = VStr (str a)"
  "item (demo_account a k) ''kind'' = VStr (str k)" "item (demo_account a k) ''unit'' = VStr (str ''u'')"
  "item (demo_account a k) ''principal'' = VStr (str ''p'')" "item (demo_account a k) ''subject'' = VStr (str ''b'')"
  "int_item (demo_account a k) ''start'' = 1" "int_item (demo_account a k) ''end'' = 30" "int_item (demo_account a k) ''max_calls'' = 2"
  "int_item (demo_account a k) ''max_charge'' = 9" "int_item (demo_account a k) ''max_active'' = 1"
  "int_item (demo_account a k) ''max_bindings'' = 1"
  by (simp_all add: int_item_def demo_account_def dict_simps)

lemma demo_account_at:
  "account_at demo_env (VStr (str ''T'')) s = (Inr (demo_account_row ''T'' ''tribe'' 66), s)"
  "account_at demo_env (VStr (str ''B'')) s = (Inr (demo_account_row ''B'' ''being'' 67), s)"
  "account_at demo_env (VStr (str ''E'')) s = (Inr (demo_account_row ''E'' ''episode'' 68), s)"
  if "j_accounts s = demo_accounts" "j_store_id s = str ''S''"
  using that by (simp_all add: account_at_def demo_find_account verify_approval_def demo_account_approved name_char_def)

lemma demo_funding_items [simp]:
  "item demo_funding ''store_id'' = VStr (str ''S'')" "item demo_funding ''instruction_sha256'' = VStr (instruction_sha demo_instruction)"
  "item demo_funding ''route'' = VStr (str ''x'')" "item demo_funding ''max_charge'' = VInt 7" "int_item demo_funding ''max_charge'' = 7"
  "accounts_of demo_funding = [VStr (str ''T''), VStr (str ''B''), VStr (str ''E'')]"
  by (simp_all add: int_item_def demo_funding_def dict_simps accounts_of_def)

lemma demo_funding_ok: "funding_ok (str ''S'') demo_instruction demo_funding"
  by (simp add: funding_ok_def funding_fields_def demo_funding_def dict_simps key_set_def dkeys_def short_str_def int_between_def max_uint_def)

lemma demo_funding_approved:
  "approval_ok demo demo_verifier ''approve'' demo_funding (demo_proof ''approve'' demo_funding 69)"
proof -
  have "\<exists>h. text_digest (VDict demo_funding) = Inr h" by (simp add: text_digest_def canonical_text_def demo_funding_def)
  then show ?thesis by (elim exE) (rule demo_proof_ok, assumption, simp_all add: demo_funding_def dict_simps name_char_def)
qed

lemma demo_read: "read_instruction demo_env (str ''S'') demo_row = Inr demo_instruction"
  using demo_approve_ok by (simp add: read_instruction_def demo_row_def demo_instruction_of verify_approval_def)

definition demo_funding_row :: funding_row where
  "demo_funding_row = \<lparr>fi_sha = instruction_sha demo_instruction, fi_payload = demo_funding, fi_proof = demo_proof ''approve'' demo_funding 69\<rparr>"

definition demo_j5 :: exec_journal where
  "demo_j5 = (demo_at 5 (demo_approvals @ [demo_approval demo_funding 69]) demo_accounts)\<lparr>j_fundings := [demo_funding_row],
     j_members := map (\<lambda>a. (instruction_sha demo_instruction, str a)) [''T'', ''B'', ''E'']\<rparr>"

lemma demo_step4:
  "fund_instruction demo_env demo_instruction demo_funding (demo_proof ''approve'' demo_funding 69) (demo_at 4 demo_approvals demo_accounts) =
     (Inr (), demo_j5)"
proof -
  have "find_instruction s (str ''i'') 1 = Some demo_row" if "j_instructions s = [demo_row]" for s
    using that by (simp add: find_instruction_def demo_row_def)
  moreover have "ir_state demo_row = Active" by (simp add: demo_row_def)
  ultimately show ?thesis
    using demo_funding_ok demo_funding_approved
    by (simp add: fund_instruction_def check_store_def needs_funding_def has_version_def steps demo_event demo_read
        instruction_row_at_def instruction_at_def demo_account_at account_kinds_def check_account_def account_admits_def account_open_def
        demo_j5_def demo_funding_row_def demo_approval_def demo_approvals_def)
qed

definition demo_token_hash :: pystr where
  "demo_token_hash = (case text_digest (VStr [116]) of Inr h \<Rightarrow> h | Inl _ \<Rightarrow> [])"

lemma demo_token_digest: "text_digest (VStr [116]) = Inr demo_token_hash"
  by (simp add: demo_token_hash_def text_digest_def canonical_text_def)

definition demo_cap :: cycle where
  "demo_cap = \<lparr>cc_id = [99], cc_instruction = str ''i'', cc_revision = 1, cc_slot = 0, cc_deadline = 14, cc_token = [116]\<rparr>"

definition demo_cycle :: "cycle_row" where
  "demo_cycle = \<lparr>cy_id = [99], cy_instruction = str ''i'', cy_revision = 1, cy_slot = 0, cy_binding = (str ''r'', str ''s''),
     cy_deadline = 14, cy_generation = 0, cy_token_hash = demo_token_hash, cy_state = Intent\<rparr>"

definition demo_used :: "nat \<Rightarrow> operation_row list \<Rightarrow> charge_row list \<Rightarrow> exec_journal" where
  "demo_used n ops cs = demo_j5\<lparr>j_ticks := n, j_cycles := [demo_cycle], j_operations := ops, j_charges := cs\<rparr>"

lemma demo_used_sel [simp]:
  "j_store_id (demo_used n ops cs) = str ''S''" "j_version (demo_used n ops cs) = 2" "j_high_water (demo_used n ops cs) = 10"
  "j_fault (demo_used n ops cs) = False" "j_ticks (demo_used n ops cs) = n" "j_cycles (demo_used n ops cs) = [demo_cycle]"
  "j_accounts (demo_used n ops cs) = demo_accounts" "j_instructions (demo_used n ops cs) = [demo_row]"
  "j_fundings (demo_used n ops cs) = [demo_funding_row]" "j_operations (demo_used n ops cs) = ops" "j_charges (demo_used n ops cs) = cs"
  "j_members (demo_used n ops cs) = map (\<lambda>a. (instruction_sha demo_instruction, str a)) [''T'', ''B'', ''E'']"
  by (simp_all add: demo_used_def demo_j5_def demo_at_def new_journal_def)

lemma demo_used_upd [simp]:
  "(demo_used n ops cs)\<lparr>j_ticks := m\<rparr> = demo_used m ops cs" "(demo_used n ops cs)\<lparr>j_operations := op'\<rparr> = demo_used n op' cs"
  "(demo_used n ops cs)\<lparr>j_charges := ch\<rparr> = demo_used n ops ch" "(demo_used n ops cs)\<lparr>j_high_water := 10\<rparr> = demo_used n ops cs"
  by (simp_all add: demo_used_def demo_j5_def demo_at_def new_journal_def)

lemma demo_find_row: "j_instructions s = [demo_row] \<Longrightarrow> find_instruction s (str ''i'') 1 = Some demo_row"
  by (simp add: find_instruction_def demo_row_def)

lemma demo_reserve:
  "reserve demo_env (str ''i'') 1 (str ''b'', str ''e'', str ''r'', str ''s'') None [99] [116] demo_j5 = (Inr (Some demo_cap), demo_used 6 [] [])"
proof -
  have j: "j_high_water demo_j5 = 10" "j_fault demo_j5 = False" "j_ticks demo_j5 = 5" "j_instructions demo_j5 = [demo_row]"
    "j_cycles demo_j5 = []" "j_store_id demo_j5 = str ''S''" "demo_j5\<lparr>j_ticks := 6, j_high_water := 10\<rparr> = demo_j5\<lparr>j_ticks := 6\<rparr>"
    by (simp_all add: demo_j5_def demo_at_def new_journal_def)
  have r: "ir_state demo_row = Active" "ir_proof demo_row \<noteq> None" "ir_id demo_row = str ''i''" "ir_revision demo_row = 1" "ir_generation demo_row = 0"
    by (simp_all add: demo_row_def)
  show ?thesis
    by (simp add: reserve_def steps j r demo_find_row instruction_at_def demo_read work_ready_def binding_def cycles_of_def
        insert_cycle_def slot_at_def demo_token_digest conflicts_def demo_cap_def)
       (simp add: demo_used_def demo_cycle_def j demo_j5_def demo_at_def new_journal_def)
qed

definition demo_exposure :: dict where
  "demo_exposure = expected_exposure demo_instruction demo_funding None"

definition demo_charge :: charge_row where
  "demo_charge = \<lparr>ch_cycle = [99], ch_operation = [111], ch_sha = instruction_sha demo_instruction, ch_maximum = 7, ch_actual = None,
     ch_receipt = None\<rparr>"

definition demo_operation :: "bool \<Rightarrow> operation_row" where
  "demo_operation b = \<lparr>op_id = [111], op_cycle = [99], op_kind = str ''provider'', op_scope = None, op_returned = b\<rparr>"

lemma demo_now: "nowA demo_env (demo_used n ops cs) = (Inr 10, demo_used (Suc n) ops cs)"
  by (simp add: nowA_def Let_def)

lemma demo_funding_of: "funding_of demo_env demo_instruction b (demo_used n ops cs) = (Inr (Some demo_funding), demo_used (Suc n) ops cs)"
  using demo_funding_approved
  by (simp add: funding_of_def find_funding_def has_version_def steps(1,4-) check_store_def check_open_def demo_account_at account_open_def
      demo_funding_row_def demo_now)

lemma demo_guard: "guard demo_env demo_cap (demo_used n ops cs) = (Inr demo_instruction, demo_used (Suc (Suc n)) ops cs)"
proof -
  have r: "ir_state demo_row = Active" "ir_proof demo_row \<noteq> None" "ir_generation demo_row = 0" by (simp_all add: demo_row_def)
  show ?thesis
    by (simp add: guard_def steps(1,4-) demo_now cycle_at_def demo_cap_def demo_cycle_def demo_token_digest instruction_row_at_def
        demo_find_row instruction_at_def demo_read cycle_open_def r demo_funding_of)
qed

definition quiet_callback :: "'a \<Rightarrow> 'a callback" where
  "quiet_callback x = \<lparr>cb_observations = 0, cb_result = Inr x\<rparr>"

lemma demo_call_back: "call_back demo_env (quiet_callback x) s = (Inr x, s)"
  by (simp add: call_back_def quiet_callback_def steps(1,4-))

lemma demo_exposure_ok: "exposure_ok (Some demo_exposure) (expected_exposure demo_instruction demo_funding None)"
  by (simp add: exposure_ok_def demo_exposure_def expected_exposure_def dict_simps)

lemma demo_ceiling:
  "check_ceiling demo_env demo_funding v (demo_used n ops []) = (Inr (), demo_used n ops [])"
  if "v \<in> {VStr (str ''T''), VStr (str ''B''), VStr (str ''E'')}"
  using that
  by (auto simp: check_ceiling_def steps(1,4-) demo_account_at account_status_of_def balances_joined account_charges_joined joined_def
      uncertain_calls_def available_calls_def)

lemma demo_reserve_charge:
  "reserve_charge demo_env demo_cap demo_instruction [111] (Some demo_exposure) (demo_used n ops []) = (Inr (), demo_used (Suc n) ops [demo_charge])"
proof -
  have u: "dget demo_exposure ''unit'' = None" "cc_id demo_cap = [99]"
    by (simp_all add: demo_exposure_def expected_exposure_def dict_simps dget_def demo_cap_def)
  show ?thesis
    using demo_exposure_ok
    by (simp add: reserve_charge_def steps(1,4-) demo_funding_of unit_of_def u demo_ceiling insert_charge_def demo_charge_def)
qed

lemma demo_dispatch:
  "dispatch demo_env demo_cap (str ''provider'') None (quiet_callback ()) (quiet_callback ()) (quiet_callback VNone) (Some demo_exposure)
     [111] (demo_used 6 [] []) = (Inr VNone, demo_used 12 [demo_operation True] [demo_charge])"
proof -
  have u: "uncertain_calls (demo_used n ops [demo_charge]) a = 0" for n ops a
    by (simp add: uncertain_calls_def account_charges_joined joined_def demo_charge_def demo_cycle_def)
  have c: "cc_id demo_cap = [99]" by (simp add: demo_cap_def)
  have "admit demo_env demo_cap (str ''provider'') None (quiet_callback ()) (Some demo_exposure) [111] (demo_used 6 [] []) =
      (Inr (), demo_used 9 [demo_operation False] [demo_charge])"
    by (simp add: admit_def steps(1,4-) demo_guard demo_call_back operations_of_def operation_limit_def inference_kinds_def
        demo_operation_def demo_reserve_charge c)
  moreover have "submit_step demo_env demo_cap (str ''provider'') (quiet_callback ()) (quiet_callback VNone) [111]
      (demo_used 9 [demo_operation False] [demo_charge]) = (Inr VNone, demo_used 12 [demo_operation True] [demo_charge])"
    by (simp add: submit_step_def steps(1,4-) demo_guard demo_call_back funding_certain_def demo_funding_of u demo_operation_def)
  ultimately show ?thesis
    by (simp add: dispatch_def or_ambiguous_def journaled_def steps(1,4-) inference_kinds_def)
qed

text \<open>The whole run.\<close>

definition demo_final :: exec_journal where "demo_final = demo_used 12 [demo_operation True] [demo_charge]"

lemma demo_run:
  "rtranclp (operation demo_env) (new_journal (str ''S'')) demo_j5"
  "rtranclp (operation demo_env) demo_j5 demo_final"
proof -
  note ops = op_approve [where E = demo_env and s = "new_journal (str ''S'')", of demo_instruction "demo_proof ''approve'' (instruction_dict demo_instruction) 65"]
  have 1: "operation demo_env (new_journal (str ''S'')) demo_j1" using ops by (simp only: demo_step1 snd_conv)
  have 2: "operation demo_env demo_j1 (demo_at 1 [demo_approval (instruction_dict demo_instruction) 65] [])"
    using op_enable_funding [of demo_env demo_j1] by (simp only: demo_step2 snd_conv)
  have "\<exists>u v. operation demo_env (demo_at 1 [demo_approval (instruction_dict demo_instruction) 65] []) u \<and> operation demo_env u v
      \<and> operation demo_env v (demo_at 4 demo_approvals demo_accounts)"
    by (metis op_grant_budget demo_step3 snd_conv)
  then have "rtranclp (operation demo_env) (demo_at 1 [demo_approval (instruction_dict demo_instruction) 65] [])
      (demo_at 4 demo_approvals demo_accounts)"
    by (meson converse_rtranclp_into_rtranclp r_into_rtranclp)
  moreover have "operation demo_env (demo_at 4 demo_approvals demo_accounts) demo_j5"
    using op_fund_instruction [of demo_env "demo_at 4 demo_approvals demo_accounts" demo_instruction demo_funding "demo_proof ''approve'' demo_funding 69"]
    by (simp only: demo_step4 snd_conv)
  ultimately show "rtranclp (operation demo_env) (new_journal (str ''S'')) demo_j5"
    using 1 2 by (meson converse_rtranclp_into_rtranclp rtranclp.rtrancl_into_rtrancl)
  have "operation demo_env demo_j5 (demo_used 6 [] [])"
    using op_reserve [of demo_env demo_j5 "str ''i''" 1 "(str ''b'', str ''e'', str ''r'', str ''s'')" None "[99]" "[116]"]
    by (simp only: demo_reserve snd_conv)
  moreover have "operation demo_env (demo_used 6 [] []) demo_final"
    using op_dispatch [of demo_env "demo_used 6 [] []" demo_cap "str ''provider''" None "quiet_callback ()" "quiet_callback ()" "quiet_callback VNone"
        "Some demo_exposure" "[111]"]
    by (simp only: demo_dispatch snd_conv demo_final_def)
  ultimately show "rtranclp (operation demo_env) demo_j5 demo_final"
    by (meson r_into_rtranclp rtranclp.rtrancl_into_rtrancl)
qed

lemma demo_final_reachable: "journal_reachable demo_env demo_final"
  using demo_run by (auto simp: journal_reachable_def intro: rtranclp_trans)

end
