(* ===== verification/Execution_Properties.thy ===== *)
theory Execution_Properties
  imports Demo_Execution
begin

text \<open>
  The properties of the execution journal: what an accepted instruction is, conserved budgets, a
  single cycle in flight, and the finality of a cancellation.
\<close>

section \<open>Accepted instructions\<close>

definition scope_ok :: "scope \<Rightarrow> bool" where
  "scope_ok x \<longleftrightarrow> list_all (\<lambda>f. is_name (VStr (f x))) [sc_channel, sc_thread, sc_tool, sc_action]
     \<and> (sc_tool x, sc_action x) \<in> (\<lambda>(t, a). (str t, str a)) ` set allowed_actions"

definition instruction_ok :: "instruction \<Rightarrow> bool" where
  "instruction_ok i \<longleftrightarrow>
     (\<forall>f \<in> {in_revision, in_start, in_end, in_max_cycle_seconds, in_cleanup_seconds, in_max_cycles, in_max_effects,
            in_max_input_tokens, in_max_output_tokens}. 1 \<le> f i \<and> f i \<le> max_uint)
     \<and> (\<forall>f \<in> {in_id, in_store_id, in_principal, in_being, in_embodiment, in_runner, in_session, in_provider, in_model}.
            is_name (VStr (f i)))
     \<and> in_start i < in_end i \<and> is_hex64 (in_task i)
     \<and> (case in_predecessor i of None \<Rightarrow> in_revision i = 1 | Some h \<Rightarrow> in_revision i \<noteq> 1 \<and> is_hex64 h)
     \<and> (case in_interval i of None \<Rightarrow> in_max_cycles i = 1 | Some n \<Rightarrow> 1 \<le> n \<and> n \<le> max_uint)
     \<and> in_scope i \<noteq> [] \<and> distinct (in_scope i) \<and> (\<forall>x \<in> set (in_scope i). scope_ok x)"

lemma is_name_item: "is_name (item d k) \<Longrightarrow> is_name (VStr (str_item d k))"
  by (auto simp: is_name_def str_item_def split: val.splits)

lemma scope_of_Inr:
  assumes "scope_of v = Inr x" shows "scope_ok x"
proof -
  obtain d where d: "v = VDict d" using assms by (cases v) (auto simp: scope_of_def)
  have n: "list_all (\<lambda>k. is_name (item d k)) scope_fields"
    and a: "(str_item d ''tool'', str_item d ''action'') \<in> (\<lambda>(t, a). (str t, str a)) ` set allowed_actions"
    and x: "x = \<lparr>sc_channel = str_item d ''channel'', sc_thread = str_item d ''thread'',
                 sc_tool = str_item d ''tool'', sc_action = str_item d ''action''\<rparr>"
    using assms unfolding scope_of_def d by (simp_all split: if_splits)
  then show ?thesis using a by (simp add: scope_ok_def scope_fields_def is_name_item)
qed

lemma scope_of_dict: "scope_ok x \<Longrightarrow> scope_of (VDict (scope_dict x)) = Inr x"
proof -
  assume ok: "scope_ok x"
  have "dkeys (scope_dict x) = key_set scope_fields"
    by (simp add: scope_dict_def scope_fields_def key_set_def dkeys_def)
  moreover have "item (scope_dict x) ''channel'' = VStr (sc_channel x)" "item (scope_dict x) ''thread'' = VStr (sc_thread x)"
    "item (scope_dict x) ''tool'' = VStr (sc_tool x)" "item (scope_dict x) ''action'' = VStr (sc_action x)"
    by (simp_all add: scope_dict_def dict_simps)
  ultimately show ?thesis using ok by (simp add: scope_of_def scope_ok_def scope_fields_def str_item_def)
qed

lemma int_between_item: "int_between 1 (item d k) \<Longrightarrow> 1 \<le> int_item d k \<and> int_item d k \<le> max_uint"
  by (auto simp: int_between_def int_item_def split: val.splits)

lemma mapR_checks: "mapR (\<lambda>k. if P k then Inr () else Inl (f k)) ks = Inr us \<longleftrightarrow> list_all P ks \<and> us = replicate (length ks) ()"
  by (induction ks arbitrary: us) (auto simp: res)

lemma instruction_init_Inr:
  assumes "instruction_init d scopes = Inr i"
  shows "list_all (\<lambda>k. int_between 1 (item d k)) positive_fields" "list_all (\<lambda>k. is_name (item d k)) name_fields"
    "int_item d ''start'' < int_item d ''end''" "is_hash (item d ''task_sha256'')"
    "predecessor_ok (int_item d ''revision'') (item d ''predecessor'')" "interval_of d = Inr (in_interval i)"
    "scopes \<noteq> []" "distinct scopes" "in_scope i = scopes"
    "\<exists>interval. i = \<lparr>in_id = str_item d ''instruction_id'', in_store_id = str_item d ''store_id'',
           in_revision = int_item d ''revision'', in_predecessor = opt_text (item d ''predecessor''),
           in_principal = str_item d ''principal'', in_being = str_item d ''being'',
           in_embodiment = str_item d ''embodiment'', in_runner = str_item d ''runner'',
           in_session = str_item d ''session'', in_interval = interval, in_start = int_item d ''start'',
           in_end = int_item d ''end'', in_max_cycle_seconds = int_item d ''max_cycle_seconds'',
           in_cleanup_seconds = int_item d ''cleanup_seconds'', in_max_cycles = int_item d ''max_cycles'',
           in_max_effects = int_item d ''max_effects'', in_max_input_tokens = int_item d ''max_input_tokens'',
           in_max_output_tokens = int_item d ''max_output_tokens'', in_provider = str_item d ''provider'',
           in_model = str_item d ''model'', in_task = str_item d ''task_sha256'', in_scope = scopes\<rparr>"
  using assms unfolding instruction_init_def res mapR_checks by (auto split: if_splits)

lemma instruction_of_ok: 
  assumes "instruction_of d = Inr i" shows "instruction_ok i"
proof -
  obtain vs scopes where s: "mapR scope_of vs = Inr scopes" and init: "instruction_init d scopes = Inr i"
    using assms by (auto simp: instruction_of_def res split: val.splits if_splits)
  note I = instruction_init_Inr [OF init]
  obtain interval where i: "i = \<lparr>in_id = str_item d ''instruction_id'', in_store_id = str_item d ''store_id'',
           in_revision = int_item d ''revision'', in_predecessor = opt_text (item d ''predecessor''),
           in_principal = str_item d ''principal'', in_being = str_item d ''being'',
           in_embodiment = str_item d ''embodiment'', in_runner = str_item d ''runner'',
           in_session = str_item d ''session'', in_interval = interval, in_start = int_item d ''start'',
           in_end = int_item d ''end'', in_max_cycle_seconds = int_item d ''max_cycle_seconds'',
           in_cleanup_seconds = int_item d ''cleanup_seconds'', in_max_cycles = int_item d ''max_cycles'',
           in_max_effects = int_item d ''max_effects'', in_max_input_tokens = int_item d ''max_input_tokens'',
           in_max_output_tokens = int_item d ''max_output_tokens'', in_provider = str_item d ''provider'',
           in_model = str_item d ''model'', in_task = str_item d ''task_sha256'', in_scope = scopes\<rparr>"
    using I(10) by blast
  have numbers: "1 \<le> int_item d k \<and> int_item d k \<le> max_uint" if "k \<in> set positive_fields" for k
    using I(1) that int_between_item by (auto simp: list_all_iff)
  have names: "is_name (VStr (str_item d k))" if "k \<in> set name_fields" for k
    using I(2) that is_name_item by (auto simp: list_all_iff)
  have "is_hex64 (str_item d ''task_sha256'')"
    using I(4) by (auto simp: is_hash_def str_item_def split: val.splits)
  moreover have "case opt_text (item d ''predecessor'') of None \<Rightarrow> int_item d ''revision'' = 1
      | Some h \<Rightarrow> int_item d ''revision'' \<noteq> 1 \<and> is_hex64 h"
    using I(5) unfolding predecessor_ok_def opt_text_def
    by (cases "item d ''predecessor''"; cases "int_item d ''revision'' = 1") (simp_all add: is_hash_def)
  moreover have "case interval of None \<Rightarrow> int_item d ''max_cycles'' = 1 | Some n \<Rightarrow> 1 \<le> n \<and> n \<le> max_uint"
    using I(6) int_between_item [of d "''interval''"] unfolding interval_of_def i
    by (auto split: if_splits)
  moreover have "\<forall>x \<in> set scopes. scope_ok x"
    using mapR_in_set [OF s] by (auto intro: scope_of_Inr)
  moreover have "\<forall>f \<in> {in_revision, in_start, in_end, in_max_cycle_seconds, in_cleanup_seconds, in_max_cycles, in_max_effects,
            in_max_input_tokens, in_max_output_tokens}. 1 \<le> f i \<and> f i \<le> max_uint"
    using numbers by (simp add: i positive_fields_def)
  moreover have "\<forall>f \<in> {in_id, in_store_id, in_principal, in_being, in_embodiment, in_runner, in_session, in_provider, in_model}.
            is_name (VStr (f i))"
    using names by (simp add: i name_fields_def)
  moreover have "in_predecessor i = opt_text (item d ''predecessor'')" "in_revision i = int_item d ''revision''"
    "in_interval i = interval" "in_max_cycles i = int_item d ''max_cycles''" "in_start i < in_end i" "in_task i = str_item d ''task_sha256''"
    "in_scope i = scopes"
    using I(3) by (simp_all add: i)
  ultimately show ?thesis using I(7,8) unfolding instruction_ok_def by (simp only:) blast
qed

lemma instruction_dict_items:
  assumes "d = instruction_dict i"
  shows "dkeys d = key_set instruction_fields"
    "item d ''schema'' = VStr (str ''execution/v1'')" "item d ''instruction_id'' = VStr (in_id i)" "item d ''store_id'' = VStr (in_store_id i)"
    "item d ''revision'' = VInt (in_revision i)" "item d ''predecessor'' = opt_val (in_predecessor i)"
    "item d ''principal'' = VStr (in_principal i)" "item d ''being'' = VStr (in_being i)" "item d ''embodiment'' = VStr (in_embodiment i)"
    "item d ''runner'' = VStr (in_runner i)" "item d ''session'' = VStr (in_session i)"
    "item d ''mode'' = VStr (str (if in_interval i = None then ''manual'' else ''periodic''))"
    "item d ''start'' = VInt (in_start i)" "item d ''end'' = VInt (in_end i)"
    "item d ''interval'' = (case in_interval i of None \<Rightarrow> VNone | Some n \<Rightarrow> VInt n)"
    "item d ''max_cycle_seconds'' = VInt (in_max_cycle_seconds i)" "item d ''cleanup_seconds'' = VInt (in_cleanup_seconds i)"
    "item d ''max_cycles'' = VInt (in_max_cycles i)" "item d ''max_effects'' = VInt (in_max_effects i)"
    "item d ''max_input_tokens'' = VInt (in_max_input_tokens i)" "item d ''max_output_tokens'' = VInt (in_max_output_tokens i)"
    "item d ''provider'' = VStr (in_provider i)" "item d ''model'' = VStr (in_model i)" "item d ''task_sha256'' = VStr (in_task i)"
    "item d ''scope'' = VList (map (VDict \<circ> scope_dict) (in_scope i))"
  unfolding assms instruction_dict_def
  by (simp add: dkeys_def key_set_def instruction_fields_def positive_fields_def name_fields_def insert_commute) (simp_all add: dict_simps)

lemma instruction_reads_back:
  assumes "instruction_ok i" shows "instruction_of (instruction_dict i) = Inr i"
proof -
  define d where "d = instruction_dict i"
  note I = instruction_dict_items [OF d_def]
  have scopes: "mapR scope_of (map (VDict \<circ> scope_dict) xs) = Inr xs" if "\<forall>x \<in> set xs. scope_ok x" for xs
    using that by (induction xs) (simp_all add: scope_of_dict)
  have interval: "interval_of d = Inr (in_interval i)"
    using assms by (cases "in_interval i") (simp_all add: interval_of_def I int_item_def int_between_def instruction_ok_def)
  have numbers: "mapR (\<lambda>k. if int_between 1 (item d k) then Inr () else denied (''invalid '' @ k)) positive_fields = Inr (replicate 9 ())"
    using assms unfolding mapR_checks instruction_ok_def by (simp add: positive_fields_def I int_between_def numeral_eq_Suc)
  have names: "mapR (\<lambda>k. if is_name (item d k) then Inr () else denied (''invalid '' @ k)) name_fields = Inr (replicate 9 ())"
    using assms unfolding mapR_checks instruction_ok_def by (simp add: name_fields_def I numeral_eq_Suc)
  have pre: "predecessor_ok (in_revision i) (opt_val (in_predecessor i))" "opt_text (opt_val (in_predecessor i)) = in_predecessor i"
    using assms by (auto simp: instruction_ok_def predecessor_ok_def opt_val_def opt_text_def is_hash_def split: option.splits)
  have rest: "in_start i < in_end i" "is_hex64 (in_task i)" "in_scope i \<noteq> []" "distinct (in_scope i)" "\<forall>x \<in> set (in_scope i). scope_ok x"
    using assms by (simp_all add: instruction_ok_def)
  have "instruction_init d (in_scope i) = Inr i"
    unfolding instruction_init_def numbers names
    using rest pre by (simp add: I int_item_def str_item_def is_hash_def interval)
  then show ?thesis using rest(5) by (simp add: instruction_of_def d_def [symmetric] I scopes)
qed

text \<open>
  An instruction read from a dict is well formed: its numbers are positive and within 53 bits, its
  names and digests have their alphabets, its window is not empty, only a first revision lacks a
  predecessor, manual mode means one cycle, its scopes are allowed and distinct; and printing it
  gives a dict that reads back as the same instruction.
\<close>

theorem accepted_instruction_is_well_formed:
  assumes "instruction_of d = Inr i"
  shows "instruction_ok i \<and> instruction_of (instruction_dict i) = Inr i"
  using instruction_of_ok [OF assms] instruction_reads_back by blast

theorem accepted_instruction_is_well_formed_witness:
  "instruction_of (instruction_dict demo_instruction) = Inr demo_instruction \<and> instruction_ok demo_instruction"
  using accepted_instruction_is_well_formed [OF demo_instruction_of] by blast

section \<open>Budgets\<close>

text \<open>
  C5: In every reachable journal the provider calls charged to a funding account, settled and
  unsettled, stay within its signed ceilings of calls, charge and concurrent calls, whatever was
  paused, renewed, settled, cancelled or left ambiguous; and a settled cost is within its reservation.
\<close>

theorem budgets_are_conserved:
  assumes "journal_reachable E s" "r \<in> set (j_accounts s)"
  shows "calls s (fa_id r) \<le> int_item (fa_payload r) ''max_calls''
    \<and> charged s (fa_id r) \<le> int_item (fa_payload r) ''max_charge''
    \<and> active_calls s (fa_id r) \<le> int_item (fa_payload r) ''max_active''
    \<and> (\<forall>h \<in> set (j_charges s). case ch_actual h of None \<Rightarrow> ch_receipt h = None | Some n \<Rightarrow> 0 \<le> n \<and> n \<le> ch_maximum h)"
  using reachable_journal_ok [OF assms(1)] assms(2)
  by (auto simp: journal_ok_def budgets_ok_def within_ceilings_def charges_ok_def settled_ok_def split: option.splits)

theorem budgets_are_conserved_witness:
  "demo_account_row ''T'' ''tribe'' 66 \<in> set (j_accounts demo_final) \<and> calls demo_final (str ''T'') = 1
   \<and> charged demo_final (str ''T'') = 7 \<and> charged demo_final (str ''T'') \<le> int_item (demo_account ''T'' ''tribe'') ''max_charge''"
proof -
  have r: "demo_account_row ''T'' ''tribe'' 66 \<in> set (j_accounts demo_final)" by (simp add: demo_final_def demo_accounts_def)
  have c: "account_charges demo_final (str ''T'') = [(demo_charge, demo_cycle)]"
    by (simp add: account_charges_joined joined_def demo_final_def demo_charge_def demo_cycle_def)
  have "calls demo_final (str ''T'') = 1" "charged demo_final (str ''T'') = 7"
    by (simp_all add: balances_joined c charge_cost_def demo_charge_def)
  then show ?thesis using r budgets_are_conserved [OF demo_final_reachable r] by simp
qed

section \<open>Cycles\<close>

text \<open>
  C10: In every reachable journal at most one revision of an instruction is active, a runner's session
  has at most one cycle in flight and a revision at most one for each slot; a revision has at most
  the cycles its approved text allows, and a cycle at most the operations, in the approved scopes.
\<close>

theorem cycles_stay_within_their_approval:
  assumes "journal_reachable E s"
  shows "length (filter (\<lambda>r. ir_id r = k \<and> ir_state r = Active) (j_instructions s)) \<le> 1
    \<and> length (filter (\<lambda>c. cy_binding c = b \<and> in_flight c) (j_cycles s)) \<le> 1
    \<and> distinct (map (\<lambda>c. (cycle_key c, cy_slot c)) (j_cycles s))
    \<and> (\<forall>c \<in> set (j_cycles s). \<exists>i. approved_for s c i \<and> cy_binding c = (in_runner i, in_session i)
         \<and> int (length (cycles_of s (cy_instruction c) (cy_revision c))) \<le> in_max_cycles i)
    \<and> (\<forall>p \<in> set (j_operations s). \<exists>c \<in> set (j_cycles s). \<exists>i. cy_id c = op_cycle p \<and> approved_for s c i
         \<and> int (length (operations_of s (op_cycle p) (op_kind p))) \<le> operation_limit i (op_kind p)
         \<and> (\<forall>x. op_scope p = Some x \<longrightarrow> x \<in> set (in_scope i)))"
proof -
  note ok = reachable_journal_ok [OF assms, unfolded journal_ok_def]
  have "\<forall>c \<in> set (j_cycles s). \<exists>i. approved_for s c i \<and> cy_binding c = (in_runner i, in_session i)
      \<and> int (length (cycles_of s (cy_instruction c) (cy_revision c))) \<le> in_max_cycles i"
    using ok unfolding cycle_limits_ok_def approved_for_def by blast
  moreover have "length (filter (\<lambda>c. cy_binding c = b \<and> in_flight c) (j_cycles s)) \<le> 1"
    using ok unfolding cycles_ok_def by blast
  ultimately show ?thesis using ok unfolding rows_ok_def cycles_ok_def operations_ok_def allowed_by_def by simp
qed

theorem cycles_stay_within_their_approval_witness:
  "demo_cycle \<in> set (j_cycles demo_final) \<and> in_flight demo_cycle
   \<and> length (filter (\<lambda>c. cy_binding c = (str ''r'', str ''s'') \<and> in_flight c) (j_cycles demo_final)) = 1
   \<and> length (filter (\<lambda>r. ir_id r = str ''i'' \<and> ir_state r = Active) (j_instructions demo_final)) \<le> 1"
  using cycles_stay_within_their_approval [OF demo_final_reachable, of "str ''i''" "(str ''r'', str ''s'')"]
  by (simp add: demo_final_def demo_cycle_def in_flight_def)

section \<open>Cancellation\<close>

lemma guard_needs_active:
  assumes "rows_ok s" "r \<in> set (j_instructions s)" "row_key r = (cc_instruction cap, cc_revision cap)" "ir_state r \<noteq> Active"
  shows "guard E cap s \<noteq> (Inr i, u)"
proof
  assume "guard E cap s = (Inr i, u)"
  then obtain row where "find_instruction s (cc_instruction cap) (cc_revision cap) = Some row" "ir_state row = Active"
    using guard_Inr(2) by blast
  then show False using find_rowI [OF assms(1-3)] assms(4) by simp
qed

lemma dispatch_needs_active:
  assumes "rows_ok s" "r \<in> set (j_instructions s)" "row_key r = (cc_instruction cap, cc_revision cap)" "ir_state r \<noteq> Active"
  shows "\<exists>e u. dispatch E cap kind sc f g submit ex k s = (Inl e, u) \<and> tables u = tables s"
proof -
  obtain e v where "guard E cap s = (Inl e, v)"
    using guard_needs_active [OF assms] by (cases "guard E cap s"; cases "fst (guard E cap s)") auto
  then have "admit E cap kind sc f ex k s = (Inl e, v)" by (simp add: admit_def bindA_def)
  then have "\<exists>w. journaled (admit E cap kind sc f ex k) s = (Inl e, w) \<and> tables w = tables s"
    using journaled_Inl [of "admit E cap kind sc f ex k" s e] by (auto simp: journaled_def)
  then show ?thesis by (auto simp: dispatch_def bindA_def denyA_def)
qed

lemma reserve_needs_active:
  assumes "rows_ok s" "r \<in> set (j_instructions s)" "row_key r = (k, n)" "ir_state r \<noteq> Active"
  shows "reserve E k n b w c d s \<noteq> (Inr (Some cap), u)"
proof
  assume "reserve E k n b w c d s = (Inr (Some cap), u)"
  then obtain now v where *: "nowA E s = (Inr now, v)" "case find_instruction v k n of None \<Rightarrow> False | Some row \<Rightarrow> ir_state row = Active"
    by (auto simp: reserve_def ran split: option.splits if_splits)
  have "find_instruction v k n = Some r"
    using find_rowI [OF assms(1-3)] same_tables(1) [OF quiet_keeps [OF quiet_now *(1)]] by simp
  then show False using *(2) assms(4) by simp
qed

lemma cancelled_row:
  assumes "cancel E k n pr s = (Inr row, u)"
  shows "find_instruction u k n = Some row \<and> ir_state row = Cancelled"
proof -
  obtain v where u: "u = set_instruction k n (\<lambda>r. r\<lparr>ir_state := Cancelled, ir_generation := ir_generation r + 1\<rparr>) v"
    and f: "find_instruction u k n = Some row"
  proof -
    obtain x s1 where "bindA (record_approval E ''cancel'' x pr) (\<lambda>_. bindA (updA (set_instruction k n
         (\<lambda>r. r\<lparr>ir_state := Cancelled, ir_generation := ir_generation r + 1\<rparr>))) (\<lambda>_. instruction_row_at k n)) s1 = (Inr row, u)"
      using assms unfolding cancel_def journaled_Inr bindA_Inr [of _ "\<lambda>x. journaled (f x)" for f] by blast
    then obtain v v2 where v2: "v2 = set_instruction k n (\<lambda>r. r\<lparr>ir_state := Cancelled, ir_generation := ir_generation r + 1\<rparr>) v"
      and at: "instruction_row_at k n v2 = (Inr row, u)"
      unfolding bindA_Inr basic_Inr by blast
    from at have "find_instruction v2 k n = Some row \<and> u = v2" unfolding reads_Inr .
    then have uv: "u = v2" and f: "find_instruction u k n = Some row" by metis+
    show thesis by (rule that [of v, OF trans [OF uv v2] f])
  qed
  have key: "row_key row = (k, n)" and "row \<in> set (j_instructions u)" using find_row [OF f] by simp_all
  moreover have "set (j_instructions (set_instruction k n g v)) =
      (\<lambda>r. if ir_id r = k \<and> ir_revision r = n then g r else r) ` set (j_instructions v)" for g
    by (simp add: set_instruction_def)
  ultimately obtain r where "row = (if ir_id r = k \<and> ir_revision r = n
      then r\<lparr>ir_state := Cancelled, ir_generation := ir_generation r + 1\<rparr> else r)"
    unfolding u by (simp only:) (erule imageE)
  then show ?thesis using f key by (cases "ir_id r = k \<and> ir_revision r = n") (auto simp: row_key_def)
qed

definition demo_cancellation :: dict where
  "demo_cancellation = [(VStr (str ''store_id''), VStr (str ''S'')), (VStr (str ''instruction_id''), VStr (str ''i'')),
     (VStr (str ''revision''), VInt 1), (VStr (str ''instruction_sha256''), VStr (instruction_sha demo_instruction)),
     (VStr (str ''principal''), VStr (str ''p''))]"

lemma demo_cancel: "\<exists>row u. cancel demo_env (str ''i'') 1 (demo_proof ''cancel'' demo_cancellation 70) demo_final = (Inr row, u)"
proof -
  have "\<exists>h. text_digest (VDict demo_cancellation) = Inr h" by (simp add: text_digest_def canonical_text_def demo_cancellation_def)
  then have ok: "approval_ok demo demo_verifier ''cancel'' demo_cancellation (demo_proof ''cancel'' demo_cancellation 70)"
    by (elim exE) (rule demo_proof_ok, assumption, simp_all add: demo_cancellation_def dict_simps name_char_def)
  have p: "cancellation_payload demo_env (str ''i'') 1 demo_final = (Inr demo_cancellation, demo_final)"
    by (simp add: cancellation_payload_def steps(1,4-) instruction_row_at_def demo_find_row instruction_at_def demo_read demo_final_def
        demo_cancellation_def)
  have a: "[70] \<notin> ev_id ` set (j_approvals demo_final)"
    by (simp add: demo_final_def demo_used_def demo_j5_def demo_at_def demo_approvals_def demo_approval_def new_journal_def)
  show ?thesis
    using ok a demo_find_row [of demo_final]
    by (simp add: cancel_def p steps demo_event instruction_row_at_def set_instruction_def find_instruction_def)
      (simp add: demo_final_def demo_row_def)
qed

text \<open>
  C11: Once a revision is cancelled it stays so: after any further operations no cycle of it is
  reserved and no capability of it dispatches anything; such a dispatch raises and leaves the tables
  as they were.
\<close>

theorem cancelled_stays_stopped:
  assumes "journal_reachable E s" "cancel E k n pr s = (Inr row, u)" "rtranclp (operation E) u t"
    and "cc_instruction cap = k" "cc_revision cap = n"
  shows "ir_state row = Cancelled
    \<and> (\<exists>e v. dispatch E cap kind sc f g submit ex op t = (Inl e, v) \<and> tables v = tables t)
    \<and> (\<forall>c v. reserve E k n b w cycle_id token t \<noteq> (Inr (Some c), v))"
proof -
  have "path E s u" using path_cancel [of E s k n pr] assms(2) by simp
  then have u: "journal_ok u" using path_ok reachable_journal_ok [OF assms(1)] by blast
  have row: "find_instruction u k n = Some row" "ir_state row = Cancelled"
    using cancelled_row [OF assms(2)] by auto
  obtain q where q: "q \<in> set (j_instructions t)" "follows row q"
    using path_ok [OF runs_path [OF assms(3)] u] find_row [OF row(1)] row(2) by (auto simp: rows_kept_def)
  have t: "rows_ok t" using path_ok [OF runs_path [OF assms(3)] u] by (simp add: journal_ok_def)
  have "row_key q = (k, n)" "ir_state q \<noteq> Active" using q(2) find_row [OF row(1)] row(2) by (auto simp: follows_def)
  then have "\<exists>e v. dispatch E cap kind sc f g submit ex op t = (Inl e, v) \<and> tables v = tables t"
    "reserve E k n b w cycle_id token t \<noteq> (Inr (Some c), v)" for c v
    using assms(4,5) by (simp_all add: dispatch_needs_active [OF t q(1)] reserve_needs_active [OF t q(1)])
  then show ?thesis using row(2) by blast
qed

theorem cancelled_stays_stopped_witness:
  "\<exists>row u e v. cancel demo_env (str ''i'') 1 (demo_proof ''cancel'' demo_cancellation 70) demo_final = (Inr row, u)
     \<and> ir_state row = Cancelled
     \<and> dispatch demo_env demo_cap (str ''provider'') None (quiet_callback ()) (quiet_callback ()) (quiet_callback VNone) None [112] u = (Inl e, v)
     \<and> tables v = tables u"
proof -
  obtain row u where c: "cancel demo_env (str ''i'') 1 (demo_proof ''cancel'' demo_cancellation 70) demo_final = (Inr row, u)"
    using demo_cancel by blast
  show ?thesis
    using cancelled_stays_stopped [OF demo_final_reachable c rtranclp.rtrancl_refl, of demo_cap "str ''provider''" None "quiet_callback ()"
        "quiet_callback ()" "quiet_callback VNone" None "[112]"] c
    by (simp add: demo_cap_def)
qed

end
