(* ===== verification/Uuid5.thy ===== *)
theory Uuid5
  imports Sha256
begin

text \<open>
  \<^verbatim>\<open>uuid.uuid5\<close> of the standard library, after RFC 4122: the first half of a SHA-1 digest
  (FIPS 180-4) of the namespace and the name, with the version and the variant written over.
\<close>

unbundle bit_operations_syntax

datatype sha1_state = Sha1State u32 u32 u32 u32 u32

definition sha1_init :: sha1_state where
  "sha1_init = Sha1State 1732584193 4023233417 2562383102 271733878 3285377520"

fun sha1_schedule :: "nat \<Rightarrow> u32 list \<Rightarrow> u32 list" where
  "sha1_schedule 0 ws = ws"
| "sha1_schedule (Suc n) ws =
     (let k = length ws in
      sha1_schedule n (ws @ [rotr 31 (ws ! (k - 3) XOR ws ! (k - 8) XOR ws ! (k - 14) XOR ws ! (k - 16))]))"

text \<open>The function and the constant of the 20 rounds around \<open>t\<close>.\<close>

definition sha1_mix :: "nat \<Rightarrow> u32 \<Rightarrow> u32 \<Rightarrow> u32 \<Rightarrow> u32" where
  "sha1_mix t b c d =
     (if t < 20 then ((b AND c) OR (NOT b AND d)) + 1518500249
      else if t < 40 then (b XOR c XOR d) + 1859775393
      else if t < 60 then ((b AND c) OR (b AND d) OR (c AND d)) + 2400959708
      else (b XOR c XOR d) + 3395469782)"

fun sha1_round :: "nat \<times> u32 \<Rightarrow> sha1_state \<Rightarrow> sha1_state" where
  "sha1_round (t, w) (Sha1State a b c d e) =
     Sha1State (rotr 27 a + sha1_mix t b c d + e + w) a (rotr 2 b) c d"

fun sha1_add :: "sha1_state \<Rightarrow> sha1_state \<Rightarrow> sha1_state" where
  "sha1_add (Sha1State a b c d e) (Sha1State a' b' c' d' e') =
     Sha1State (a + a') (b + b') (c + c') (d + d') (e + e')"

definition sha1_block :: "u32 list \<Rightarrow> sha1_state \<Rightarrow> sha1_state" where
  "sha1_block ws s = sha1_add s (fold sha1_round (zip [0..<80] (sha1_schedule 64 ws)) s)"

fun sha1_blocks :: "nat \<Rightarrow> u32 list \<Rightarrow> sha1_state \<Rightarrow> sha1_state" where
  "sha1_blocks 0 ws s = s"
| "sha1_blocks (Suc n) ws s = sha1_blocks n (drop 16 ws) (sha1_block (take 16 ws) s)"

fun sha1_output :: "sha1_state \<Rightarrow> bytes" where
  "sha1_output (Sha1State a b c d e) = concat (map word_bytes [a, b, c, d, e])"

definition sha1 :: "bytes \<Rightarrow> bytes" where
  "sha1 bs = (let ws = be_words (sha_pad bs) in sha1_output (sha1_blocks (length ws div 16) ws sha1_init))"

text \<open>The canonical spelling of 16 bytes.\<close>

definition uuid_text :: "bytes \<Rightarrow> pystr" where
  "uuid_text bs =
     (let h = hex bs; dash = str ''-'' in
      take 8 h @ dash @ take 4 (drop 8 h) @ dash @ take 4 (drop 12 h) @ dash @ take 4 (drop 16 h) @ dash
        @ take 12 (drop 20 h))"

text \<open>\<^verbatim>\<open>uuid.NAMESPACE_URL\<close>: 6ba7b811-9dad-11d1-80b4-00c04fd430c8.\<close>

definition namespace_url :: bytes where
  "namespace_url = [107, 167, 184, 17, 157, 173, 17, 209, 128, 180, 0, 192, 79, 212, 48, 200]"

definition uuid5 :: "bytes \<Rightarrow> bytes \<Rightarrow> pystr" where
  "uuid5 namespace name =
     (let bs = take 16 (sha1 (namespace @ name)) in
      uuid_text (bs[6 := 80 + bs ! 6 mod 16, 8 := 128 + bs ! 8 mod 64]))"

text \<open>What it returns is spelled as a UUID.\<close>

lemma length_sha1 [simp]: "length (sha1 bs) = 20"
proof -
  have "length (sha1_output s) = 20" for s by (cases s) (simp add: word_bytes_def)
  then show ?thesis by (simp add: sha1_def Let_def)
qed

lemma uuid_text_is_uuid:
  assumes "length bs = 16"
  shows "is_uuid (uuid_text bs)"
proof -
  have len: "length (hex bs) = 32" using assms by (simp add: length_hex)
  have digits: "list_all (\<lambda>c. c \<in> set hex_digits) (take n (drop m (hex bs)))" for n m
    by (auto simp: list_all_iff dest!: in_set_takeD in_set_dropD intro: hex_in_hex_digits)
  from digits [of 8 0] digits [of 4 8] digits [of 4 12] digits [of 4 16] digits [of 12 20] len
  show ?thesis
    by (simp add: is_uuid_def uuid_text_def Let_def str_def)
qed

lemma uuid5_is_uuid [simp]: "is_uuid (uuid5 namespace name)"
  unfolding uuid5_def Let_def by (rule uuid_text_is_uuid) simp

end
