(* ===== verification/Memory_Executor.thy ===== *)
theory Memory_Executor
  imports Projections Uuid5
begin

text \<open>
  The part of \<^verbatim>\<open>src/daimon_matrix/memory_policy.py\<close> that reads and extends a ledger: the state of a
  memory lane, the checkpoint a candidate is evaluated against, and the executor that appends the
  event of a plan, automatic or reviewed.
\<close>

section \<open>Lanes\<close>

text \<open>
  The events of a lane are verified, so their payloads are memory records and have every key.
\<close>

definition memory_item :: "event \<Rightarrow> string \<Rightarrow> val" where
  "memory_item e k = item (e_payload e) k"

definition memory_sequence :: "event \<Rightarrow> int" where
  "memory_sequence e = int_item (e_payload e) ''sequence''"

definition lane_invariant :: "event \<Rightarrow> val \<times> val \<times> val" where
  "lane_invariant e = (memory_item e ''category'', memory_item e ''author_me_id'', memory_item e ''context'')"

text \<open>The conditions on the event at a place of the lane, given the one before it.\<close>

definition lane_follows :: "int \<Rightarrow> event option \<Rightarrow> val \<times> val \<times> val \<Rightarrow> event \<Rightarrow> bool" where
  "lane_follows n previous invariant e =
     (memory_sequence e = n
      \<and> memory_item e ''predecessor_event_id'' = opt_str (map_option e_id previous)
      \<and> memory_item e ''predecessor_hash'' = opt_str (map_option e_content_hash previous)
      \<and> lane_invariant e = invariant
      \<and> (previous = None \<longrightarrow> memory_item e ''operation'' = VStr (str ''assert''))
      \<and> (previous \<noteq> None \<longrightarrow> memory_item e ''operation'' \<noteq> VStr (str ''assert''))
      \<and> (case previous of None \<Rightarrow> True
         | Some p \<Rightarrow> memory_item e ''predecessor_decision_id'' = memory_item p ''decision_id'')
      \<and> e_supersedes e = map_option e_id previous)"

text \<open>The loop; \<open>None\<close> where it returns early.\<close>

fun lane_walk :: "int \<Rightarrow> event option \<Rightarrow> (val \<times> val \<times> val) option \<Rightarrow> event list \<Rightarrow> event option option" where
  "lane_walk n previous invariant [] = Some previous"
| "lane_walk n previous invariant (e # es) =
     (let i = (case invariant of None \<Rightarrow> lane_invariant e | Some i \<Rightarrow> i) in
      if lane_follows n previous i e then lane_walk (n + 1) (Some e) (Some i) es else None)"

definition lane_head_of :: "event \<Rightarrow> dict" where
  "lane_head_of e =
     [(VStr (str ''event_id''), VStr (e_id e)), (VStr (str ''content_hash''), VStr (e_content_hash e)),
      (VStr (str ''memory_id''), memory_item e ''memory_id''), (VStr (str ''sequence''), memory_item e ''sequence''),
      (VStr (str ''category''), memory_item e ''category''), (VStr (str ''author_me_id''), memory_item e ''author_me_id''),
      (VStr (str ''context''), memory_item e ''context''), (VStr (str ''decision_id''), memory_item e ''decision_id'')]"

definition lane_key :: "event \<Rightarrow> int \<times> pystr" where
  "lane_key e = (memory_sequence e, e_id e)"

text \<open>\<^verbatim>\<open>_memory_lane_snapshot\<close>\<close>

definition lane_snapshot :: "event list \<Rightarrow> string \<times> val" where
  "lane_snapshot es =
     (if es = [] then (''empty'', VNone)
      else (case lane_walk 1 None None (sort_key lane_key es) of
          None \<Rightarrow> (''forked'', VNone)
        | Some None \<Rightarrow> (''empty'', VNone)
        | Some (Some e) \<Rightarrow> (''linear'', VDict (lane_head_of e))))"

definition in_lane :: "val \<Rightarrow> event \<Rightarrow> bool" where
  "in_lane memory_id e \<longleftrightarrow> e_kind e = str ''memory.recorded'' \<and> dget (e_payload e) ''memory_id'' = Some memory_id"

definition lane_of :: "val \<Rightarrow> db \<Rightarrow> event list" where
  "lane_of memory_id s = filter (in_lane memory_id) (list_events False s)"

section \<open>Checkpoints\<close>

text \<open>Reads of the ledger, each of which initializes it first.\<close>

definition read_ledger :: "platform \<Rightarrow> ledger \<Rightarrow> (db \<Rightarrow> 'a res) \<Rightarrow> 'a op" where
  "read_ledger P L f = bindO (initialize P L) (\<lambda>_ s. (f s, s))"

definition read_event :: "platform \<Rightarrow> ledger \<Rightarrow> pystr \<Rightarrow> event option op" where
  "read_event P L i =
     (if \<not> is_uuid i then returnO (raise LedgerError ''invalid_event_id'')
      else read_ledger P L (get_event i False))"

fun known_refs :: "platform \<Rightarrow> ledger \<Rightarrow> val list \<Rightarrow> val list op" where
  "known_refs P L [] = returnO (Inr [])"
| "known_refs P L (v # vs) =
     bindO (read_event P L (str_of v)) (\<lambda>found.
     bindO (known_refs P L vs) (\<lambda>rest. returnO (Inr (if found = None then rest else v # rest))))"

definition cutoff_state :: "dict \<Rightarrow> val list \<Rightarrow> event option \<Rightarrow> string" where
  "cutoff_state body refs committed =
     (case committed of
        None \<Rightarrow> ''unavailable''
      | Some e \<Rightarrow>
          if item body ''committed_cutoff_event_id'' \<notin> set refs
             \<or> list_ex (\<lambda>k. item (origin_dict (e_origin e)) k \<noteq> item body k)
                 [''body_ref'', ''embodiment_id'', ''incarnation_id'']
             \<or> list_ex (\<lambda>k. dget (e_payload e) k \<noteq> Some (item body k)) [''session_ref'', ''lease_ref'']
            then ''mismatch'' else ''verified'')"

definition body_state :: "platform \<Rightarrow> ledger \<Rightarrow> dict \<Rightarrow> string op" where
  "body_state P L c =
     (case item c ''body_evidence'' of
        VDict body \<Rightarrow>
          (case item body ''committed_cutoff_event_id'' of
             VStr i \<Rightarrow>
               bindO (read_event P L i) (\<lambda>committed.
                 returnO (Inr (cutoff_state body (list_item c ''evidence_refs'') committed)))
           | _ \<Rightarrow> returnO (Inr ''unavailable''))
      | _ \<Rightarrow> returnO (Inr ''absent''))"

definition checkpoint_dict ::
  "ledger \<Rightarrow> event list \<Rightarrow> val list \<Rightarrow> string \<Rightarrow> dict \<Rightarrow> pystr \<Rightarrow> int \<Rightarrow> dict" where
  "checkpoint_dict L lane evidence body projection h captured_at_ms =
     (let mf = authority_manifest (lg_authority L) in
      [(VStr (str ''schema''), VStr (str ''dm.memory.checkpoint/v1'')),
       (VStr (str ''being_ref''), VStr (mf_being_ref mf)), (VStr (str ''manifest_hash''), VStr (mf_digest mf)),
       (VStr (str ''local_origin''), origin_val (lg_origin L)), (VStr (str ''ledger_state_hash''), VStr h),
       (VStr (str ''projection_hash''), item projection ''projection_hash''),
       (VStr (str ''evidence_refs''), VList evidence), (VStr (str ''body_evidence_state''), VStr (str body)),
       (VStr (str ''lane_state''), VStr (str (fst (lane_snapshot lane)))),
       (VStr (str ''lane_event_ids''), VList (map VStr (sort (map e_id lane)))),
       (VStr (str ''lane_head''), snd (lane_snapshot lane)),
       (VStr (str ''captured_at_ms''), VInt captured_at_ms)])"

definition memory_checkpoint :: "platform \<Rightarrow> ledger \<Rightarrow> val \<Rightarrow> int \<Rightarrow> dict op" where
  "memory_checkpoint P L candidate captured_at_ms =
     bindO (returnO (validate_memory_candidate P candidate)) (\<lambda>c.
     bindO (read_ledger P L (\<lambda>s. Inr (lane_of (item (dict_item c ''lane'') ''memory_id'') s))) (\<lambda>lane.
     bindO (known_refs P L (list_item c ''evidence_refs'')) (\<lambda>evidence.
     bindO (body_state P L c) (\<lambda>body.
     bindO (snapshot P L) (\<lambda>projection.
     bindO (read_ledger P L (state_hash P L)) (\<lambda>h.
       returnO (validate_memory_checkpoint P
         (VDict (checkpoint_dict L lane evidence body projection h captured_at_ms)))))))))"

section \<open>The executor\<close>

record execution =
  ex_plan_id :: pystr
  ex_event :: event

record reviewed_execution = execution +
  ex_review_request :: pystr
  ex_decisions :: "val list"

text \<open>The hash an execution is journaled under.\<close>

definition execution_hash :: "platform \<Rightarrow> dict \<Rightarrow> dict \<Rightarrow> pystr res" where
  "execution_hash P d extra =
     bindR (canonical_bytes P (VDict
       ([(VStr (str ''schema''), VStr (str ''dm.memory.execution/v1'')), (VStr (str ''plan_id''), item d ''plan_id'')]
        @ extra))) (\<lambda>raw. Inr (sha256_hex raw))"

definition memory_event_id :: "dict \<Rightarrow> pystr" where
  "memory_event_id d = uuid5 namespace_url (utf8_bytes (str ''daimon-memory:'' @ str_item d ''plan_id''))"

text \<open>What both executors hand to the ledger.\<close>

definition memory_authoring :: "dict \<Rightarrow> authoring" where
  "memory_authoring d =
     (let preview = dict_item d ''event_preview''; cp = dict_item d ''checkpoint'' in
      \<lparr>au_kind = str_item preview ''kind'', au_subject = str_item preview ''subject'',
       au_payload = dict_item preview ''payload'', au_sensitivity = str_item preview ''sensitivity'',
       au_parents = map str_of (list_item cp ''evidence_refs''),
       au_supersedes = (case item cp ''lane_head'' of VDict h \<Rightarrow> Some (str_item h ''event_id'') | _ \<Rightarrow> None),
       au_occurred_at_ms = Some (int_item d ''evaluated_at_ms''), au_event_id = Some (memory_event_id d)\<rparr>)"

text \<open>\<^verbatim>\<open>except LedgerStateError: raise MemoryExecutionError("memory_plan_stale")\<close>\<close>

definition stale_op :: "'a op \<Rightarrow> 'a op" where
  "stale_op m s = (case m s of
     (r, t) \<Rightarrow> (wrapR (is_class LedgerStateError) (Exc MemoryExecutionError (str ''memory_plan_stale'')) r, t))"

definition append_memory ::
  "platform \<Rightarrow> ledger \<Rightarrow> signer \<Rightarrow> dict \<Rightarrow> operation \<Rightarrow> val \<Rightarrow> (nat \<Rightarrow> int) \<Rightarrow> event op" where
  "append_memory P L sg d r expected clock =
     stale_op (append_local_idempotent P L sg (memory_authoring d) r (Some (str_of expected)) None clock [])"

text \<open>The plan, the time and the outcome; then the plan evaluated again.\<close>

definition plan_current :: "platform \<Rightarrow> string \<Rightarrow> string \<Rightarrow> val \<Rightarrow> int \<Rightarrow> dict res" where
  "plan_current P outcome refusal mplan now =
     bindR (validate_memory_plan P mplan) (\<lambda>d.
     bindR (uint_me ''invalid_memory_execution_time'' 0 (VInt now)) (\<lambda>_.
       if item d ''outcome'' \<noteq> VStr (str outcome) then raise MemoryExecutionError refusal
       else if now > int_item d ''expires_at_ms'' then raise MemoryExecutionError ''memory_plan_expired''
       else Inr d))"

definition revalidate :: "platform \<Rightarrow> dict \<Rightarrow> val \<Rightarrow> val \<Rightarrow> unit res" where
  "revalidate P d policy candidate =
     bindR (evaluate_memory_candidate P policy candidate (item d ''checkpoint'') (item d ''evaluated_at_ms'')) (\<lambda>again.
       if \<not> py_eq (VDict again) (VDict d) then raise MemoryExecutionError ''memory_plan_revalidation_mismatch''
       else Inr ())"

definition check_executor :: "ledger \<Rightarrow> dict \<Rightarrow> unit res" where
  "check_executor L d =
     (if item d ''subject_me_id'' \<noteq> VStr (mf_being_ref (authority_manifest (lg_authority L)))
        then raise MemoryExecutionError ''memory_executor_subject_mismatch''
      else (case item d ''event_preview'' of
          VDict _ \<Rightarrow> Inr () | _ \<Rightarrow> raise MemoryExecutionError ''memory_plan_missing_preview''))"

definition execute ::
  "platform \<Rightarrow> ledger \<Rightarrow> signer \<Rightarrow> val \<Rightarrow> val \<Rightarrow> val \<Rightarrow> pystr \<Rightarrow> pystr \<Rightarrow> int \<Rightarrow> (nat \<Rightarrow> int) \<Rightarrow> execution op" where
  "execute P L sg mplan policy candidate client_id request_id now clock =
     bindO (returnO (plan_current P ''eligible'' ''memory_plan_not_automatically_executable'' mplan now)) (\<lambda>d.
     bindO (returnO (revalidate P d policy candidate)) (\<lambda>_.
     bindO (returnO (check_executor L d)) (\<lambda>_.
     bindO (returnO (execution_hash P d [])) (\<lambda>h.
     bindO (append_memory P L sg d \<lparr>op_client_id = client_id, op_request_id = request_id, op_request_hash = h\<rparr>
              (item (dict_item d ''checkpoint'') ''ledger_state_hash'') clock) (\<lambda>e.
       returnO (Inr \<lparr>ex_plan_id = str_item d ''plan_id'', ex_event = e\<rparr>))))))"

text \<open>The references to a review: an id and a sorted list of distinct decision ids.\<close>

definition review_guard :: "val \<Rightarrow> val \<Rightarrow> (pystr \<times> val list) res" where
  "review_guard review_request_id decision_ids =
     (let e = Exc MemoryExecutionError (str ''invalid_memory_review_guard'') in
      case (review_request_id, decision_ids) of
        (VStr r, VList vs) \<Rightarrow>
          if \<not> startswith r (str ''dm:review-request:v1:'') \<or> vs = [] then Inl e
          else bindR (is_sorted_set vs) (\<lambda>ok.
            if ok \<and> list_all (\<lambda>v. is_str v \<and> startswith (str_of v) (str ''dm:review-decision:v1:'')) vs
              then Inr (r, vs) else Inl e)
      | _ \<Rightarrow> Inl e)"

definition evidence_fields :: "string list" where
  "evidence_fields = [''being_ref'', ''manifest_hash'', ''local_origin'', ''projection_hash'', ''evidence_refs'',
     ''body_evidence_state'', ''lane_state'', ''lane_event_ids'', ''lane_head'']"

definition execute_reviewed ::
  "platform \<Rightarrow> ledger \<Rightarrow> signer \<Rightarrow> val \<Rightarrow> val \<Rightarrow> val \<Rightarrow> val \<Rightarrow> val \<Rightarrow> pystr \<Rightarrow> pystr \<Rightarrow> int \<Rightarrow> (nat \<Rightarrow> int)
     \<Rightarrow> reviewed_execution op" where
  "execute_reviewed P L sg mplan policy candidate review_request_id decision_ids client_id request_id now clock =
     bindO (returnO (plan_current P ''review-required'' ''memory_plan_not_review_executable'' mplan now)) (\<lambda>d.
     bindO (returnO (review_guard review_request_id decision_ids)) (\<lambda>(r, vs).
     bindO (returnO (revalidate P d policy candidate)) (\<lambda>_.
     bindO (memory_checkpoint P L candidate now) (\<lambda>current.
     bindO (returnO
       (if list_ex (\<lambda>k. \<not> py_eq (item current k) (item (dict_item d ''checkpoint'') k)) evidence_fields
          then raise MemoryExecutionError ''memory_plan_stale'' else Inr ())) (\<lambda>_.
     bindO (returnO (check_executor L d)) (\<lambda>_.
     bindO (returnO (execution_hash P d
       [(VStr (str ''review_request_id''), VStr r), (VStr (str ''decision_ids''), VList vs)])) (\<lambda>h.
     bindO (append_memory P L sg d \<lparr>op_client_id = client_id, op_request_id = request_id, op_request_hash = h\<rparr>
              (item current ''ledger_state_hash'') clock) (\<lambda>e.
       returnO (Inr \<lparr>ex_plan_id = str_item d ''plan_id'', ex_event = e, ex_review_request = r,
                     ex_decisions = vs\<rparr>)))))))))"

end
