(* ===== verification/Memory_Laws.thy ===== *)
theory Memory_Laws
  imports Memory_Executor Local_Properties
begin

text \<open>
  The laws of the memory policy: what an accepted document is, how an outcome comes about, what a
  linear lane looks like, and that the executors append exactly what a plan previews.
\<close>

section \<open>Equality of Python values\<close>

lemma py_eq_simps [simp]:
  "py_eq (VStr s) v \<longleftrightarrow> v = VStr s" "py_eq v (VStr s) \<longleftrightarrow> v = VStr s"
  "py_eq VNone v \<longleftrightarrow> v = VNone" "py_eq v VNone \<longleftrightarrow> v = VNone"
  "py_eq (VInt i) v \<longleftrightarrow> num_of v = Some i"
  by (cases v; auto)+

lemma py_eq_strings [simp]: "py_eq (VList (map VStr ss)) v \<longleftrightarrow> v = VList (map VStr ss)"
proof -
  have "length ss = length ws \<and> list_all (\<lambda>(v, w). py_eq v w) (zip (map VStr ss) ws) \<longleftrightarrow> ws = map VStr ss" for ws
    by (induction ss arbitrary: ws) (case_tac ws; auto)+
  then show ?thesis by (cases v) auto
qed

lemma py_eq_dict: "py_eq (VDict d) v \<Longrightarrow> \<exists>e. v = VDict e"
  by (cases v) auto

declare py_eq.simps [simp del]

lemma py_eq_item:
  assumes "py_eq (VDict d) (VDict e)" and "dget d k = Some v"
  shows "dget e k = Some (item e k) \<and> py_eq v (item e k)"
  using assms dget_in_set [OF assms(2)]
  by (force simp: py_eq.simps(2) dget_def item_def list_all_iff split: option.splits)

section \<open>Documents\<close>

lemma closed_me_Inr [res]: "closed_me ks e v = Inr d \<longleftrightarrow> v = VDict d \<and> dkeys d = key_set ks"
  by (simp add: closed_me_def res)

lemma text_me_Inr: "text_me P n e v = Inr s \<Longrightarrow> v = VStr s"
  by (auto simp: text_me_def res split: val.splits if_splits)

lemma scoped_me_Inr: "scoped_me P e v = Inr s \<Longrightarrow> v = VStr s"
  by (auto simp: scoped_me_def res dest: text_me_Inr split: if_splits)

lemma uint_me_Inr [res]: "uint_me e lo v = Inr i \<longleftrightarrow> v = VInt i \<and> lo \<le> i \<and> i \<le> max_uint"
  by (simp add: uint_me_def res)

lemma hash_me_Inr [res]: "hash_me e v = Inr s \<longleftrightarrow> v = VStr s \<and> is_hex64 s"
  by (simp add: hash_me_def res)

lemma uuid_me_Inr [res]: "uuid_me e v = Inr s \<longleftrightarrow> v = VStr s \<and> is_uuid s"
  by (simp add: uuid_me_def res)

lemma member_me_Inr [res]: "member_me e ss v = Inr u \<longleftrightarrow> (\<exists>s \<in> set ss. v = VStr (str s))"
  by (auto simp: member_me_def in_strings_def split: if_splits)

lemma memory_ref_Inr: "memory_ref P px e v = Inr s \<Longrightarrow> v = VStr s"
  by (auto simp: memory_ref_def res Let_def dest: text_me_Inr split: if_splits)

lemma optional_id_Inr: "optional_id P px e v = Inr u \<Longrightarrow> v = VNone \<or> (\<exists>s. v = VStr s \<and> memory_ref P px e v = Inr s)"
  by (auto simp: optional_id_def res dest: memory_ref_Inr split: if_splits)

lemma check_derived_Inr [res]:
  "check_derived P field px domain e d = Inr d' \<longleftrightarrow>
     d' = d \<and> (\<exists>i. memory_derived P px domain (without [field] d) = Inr i \<and> item d field = VStr i)"
  by (auto simp: check_derived_def res)

lemma refs_me_Inr:
  assumes "refs_me P e v = Inr u"
  shows "\<exists>ss. v = VList (map VStr ss) \<and> sorted_wrt (<) ss"
proof -
  obtain vs where v: "v = VList vs" using assms by (cases v) (simp_all add: refs_me_def)
  with assms obtain ys where vs: "is_sorted_set vs = Inr True" "mapR (scoped_me P e) vs = Inr ys"
    by (simp add: refs_me_def bindR_Inr_iff split: if_splits) blast
  have "\<exists>s. x = VStr s" if "x \<in> set vs" for x
    using mapR_in_set_arg [OF vs(2) that] scoped_me_Inr by blast
  then have "map (VStr \<circ> str_of) vs = vs" by (intro map_idI) fastforce
  then have "vs = map VStr (map str_of vs)" by simp
  then obtain ss where "vs = map VStr ss" by blast
  with vs v show ?thesis by (intro exI [of _ ss]) (simp add: is_sorted_set_strings)
qed

lemma validate_lane_Inr:
  assumes "validate_lane v = Inr l"
  shows "v = VDict l \<and> (\<exists>m. item l ''memory_id'' = VStr m \<and> is_uuid m) \<and> (\<exists>n. item l ''sequence'' = VInt n \<and> 1 \<le> n)
    \<and> (if int_item l ''sequence'' = 1
       then item l ''operation'' = VStr (str ''assert'') \<and> item l ''predecessor_event_id'' = VNone \<and> item l ''predecessor_hash'' = VNone
       else item l ''operation'' \<noteq> VStr (str ''assert'') \<and> (\<exists>s. item l ''predecessor_event_id'' = VStr s \<and> is_uuid s)
         \<and> (\<exists>s. item l ''predecessor_hash'' = VStr s \<and> is_hex64 s))"
  using assms by (auto simp: validate_lane_def res int_item_def split: if_splits)

text \<open>What the executors need of a candidate.\<close>

lemma validate_memory_candidate_Inr:
  assumes "validate_memory_candidate P v = Inr c"
  shows "v = VDict c" "validate_lane (item c ''lane'') = Inr (dict_item c ''lane'')"
    "\<exists>ss. item c ''evidence_refs'' = VList (map VStr ss)"
    "\<exists>s. item c ''subject_me_id'' = VStr s" "\<exists>s. item c ''author_me_id'' = VStr s" "\<exists>s. item c ''context'' = VStr s"
    "\<exists>s \<in> set memory_categories. item c ''category'' = VStr (str s)"
    "\<exists>s \<in> set classifications. item c ''classification'' = VStr (str s)"
    "item c ''consent'' \<in> (VStr \<circ> str) ` {''granted'', ''unknown'', ''denied''}"
    "item c ''safety'' \<in> (VStr \<circ> str) ` {''clear'', ''uncertain'', ''unsafe''}"
    "\<exists>s. item c ''candidate_id'' = VStr s"
    "check_content P (dict_item c ''lane'') (item c ''content_ref'') = Inr ()"
    "check_predecessor P ''invalid_predecessor_decision'' (dict_item c ''lane'') (item c ''predecessor_decision_id'') = Inr ()"
proof -
  note c = assms [unfolded validate_memory_candidate_def, simplified res]
  show "v = VDict c" using c by blast
  from c obtain lane where lane: "validate_lane (item c ''lane'') = Inr lane"
    "check_content P lane (item c ''content_ref'') = Inr ()"
    "check_predecessor P ''invalid_predecessor_decision'' lane (item c ''predecessor_decision_id'') = Inr ()" by auto
  moreover have "dict_item c ''lane'' = lane" using validate_lane_Inr [OF lane(1)] by (simp add: dict_item_def)
  ultimately show "validate_lane (item c ''lane'') = Inr (dict_item c ''lane'')"
    "check_content P (dict_item c ''lane'') (item c ''content_ref'') = Inr ()"
    "check_predecessor P ''invalid_predecessor_decision'' (dict_item c ''lane'') (item c ''predecessor_decision_id'') = Inr ()"
    by simp_all
  show "\<exists>ss. item c ''evidence_refs'' = VList (map VStr ss)" using c refs_me_Inr by blast
  show "\<exists>s. item c ''subject_me_id'' = VStr s" "\<exists>s. item c ''author_me_id'' = VStr s" "\<exists>s. item c ''context'' = VStr s"
    using c scoped_me_Inr by blast+
  show "\<exists>s \<in> set memory_categories. item c ''category'' = VStr (str s)"
    "\<exists>s \<in> set classifications. item c ''classification'' = VStr (str s)" "\<exists>s. item c ''candidate_id'' = VStr s"
    using c by blast+
  show "item c ''consent'' \<in> (VStr \<circ> str) ` {''granted'', ''unknown'', ''denied''}"
    "item c ''safety'' \<in> (VStr \<circ> str) ` {''clear'', ''uncertain'', ''unsafe''}"
    using c by auto
qed

section \<open>Outcomes\<close>

text \<open>
  The specification of an automatic memory: what the policy, the candidate and the evidence have to
  satisfy, as one condition.
\<close>

definition extends_lane :: "dict \<Rightarrow> dict \<Rightarrow> bool" where
  "extends_lane c cp \<longleftrightarrow> (let lane = dict_item c ''lane'' in
     item cp ''lane_state'' \<noteq> VStr (str ''forked'')
     \<and> (if int_item lane ''sequence'' = 1 then item cp ''lane_head'' = VNone
        else \<exists>h. item cp ''lane_head'' = VDict h \<and> item lane ''memory_id'' = item h ''memory_id''
          \<and> int_item lane ''sequence'' = int_item h ''sequence'' + 1
          \<and> item lane ''predecessor_event_id'' = item h ''event_id'' \<and> item lane ''predecessor_hash'' = item h ''content_hash''
          \<and> item c ''predecessor_decision_id'' = item h ''decision_id''
          \<and> (\<forall>k \<in> {''category'', ''author_me_id'', ''context''}. item c k = item h k)))"

definition well_founded_memory :: "dict \<Rightarrow> dict \<Rightarrow> dict \<Rightarrow> bool" where
  "well_founded_memory p c cp \<longleftrightarrow>
     item p ''subject_me_id'' = item c ''subject_me_id'' \<and> item cp ''being_ref'' = item c ''subject_me_id''
     \<and> item c ''classification'' = content_classification c
     \<and> set (list_item c ''evidence_refs'') \<subseteq> set (list_item cp ''evidence_refs'')
     \<and> (is_one_of (item c ''category'') personal_categories \<longrightarrow> item c ''author_me_id'' = item c ''subject_me_id'')
     \<and> \<not> derivation_mismatch c \<and> (item c ''derivation'' = VStr (str ''body-occurrence'') \<longrightarrow> \<not> body_mismatch c cp)
     \<and> (\<forall>r. item c ''content_ref'' = VDict r \<longrightarrow> int_item r ''byte_length'' \<le> int_item p ''max_content_bytes'')
     \<and> extends_lane c cp"

definition automatic_memory :: "dict \<Rightarrow> dict \<Rightarrow> bool" where
  "automatic_memory p c \<longleftrightarrow>
     item c ''consent'' = VStr (str ''granted'') \<and> item c ''safety'' = VStr (str ''clear'')
     \<and> item c ''contradiction'' \<noteq> VStr (str ''sensitive'')
     \<and> item c ''classification'' \<notin> set (list_item p ''review_classifications'')
     \<and> item c ''effect'' = VStr (str ''local-only'') \<and> item c ''category'' \<in> set (list_item p ''automatic_categories'')"

lemma lane_reason_None: "lane_reason c cp = None \<longleftrightarrow> extends_lane c cp"
  by (auto simp: lane_reason_def extends_lane_def Let_def split: val.splits)

lemma cleared_outcome_eligible:
  assumes "item c ''consent'' \<in> (VStr \<circ> str) ` {''granted'', ''unknown'', ''denied''}"
    and "item c ''safety'' \<in> (VStr \<circ> str) ` {''clear'', ''uncertain'', ''unsafe''}"
  shows "fst (cleared_outcome p c) = ''eligible'' \<longleftrightarrow> automatic_memory p c"
  using assms by (auto simp: cleared_outcome_def automatic_memory_def)

text \<open>An outcome other than a refusal is only reached past every condition of a well-founded memory.\<close>

lemma founded_outcome_founded:
  assumes "fst (founded_outcome p c cp) \<in> {''eligible'', ''review-required''}"
  shows "item p ''subject_me_id'' = item c ''subject_me_id'' \<and> item cp ''being_ref'' = item c ''subject_me_id''
     \<and> item c ''classification'' = content_classification c
     \<and> set (list_item c ''evidence_refs'') \<subseteq> set (list_item cp ''evidence_refs'')
     \<and> (is_one_of (item c ''category'') personal_categories \<longrightarrow> item c ''author_me_id'' = item c ''subject_me_id'')
     \<and> \<not> derivation_mismatch c \<and> (item c ''derivation'' = VStr (str ''body-occurrence'') \<longrightarrow> \<not> body_mismatch c cp)
     \<and> lane_reason c cp = None"
  using assms unfolding founded_outcome_def by (simp split: if_split_asm option.split_asm)

lemma memory_outcome_small:
  "\<forall>r. item c ''content_ref'' = VDict r \<longrightarrow> int_item r ''byte_length'' \<le> int_item p ''max_content_bytes''
     \<Longrightarrow> memory_outcome p c cp = founded_outcome p c cp"
  by (cases "item c ''content_ref''") (auto simp: memory_outcome_def)

lemma memory_outcome_cleared:
  assumes "well_founded_memory p c cp"
  shows "memory_outcome p c cp = cleared_outcome p c"
proof -
  have "lane_reason c cp = None" using assms lane_reason_None [of c cp] by (simp add: well_founded_memory_def)
  with assms have "founded_outcome p c cp = cleared_outcome p c"
    unfolding founded_outcome_def well_founded_memory_def by auto
  with assms show ?thesis using memory_outcome_small [of c p cp] by (simp add: well_founded_memory_def)
qed

lemma memory_outcome_founded:
  assumes "fst (memory_outcome p c cp) \<in> {''eligible'', ''review-required''}"
  shows "well_founded_memory p c cp"
proof -
  have size: "\<forall>r. item c ''content_ref'' = VDict r \<longrightarrow> int_item r ''byte_length'' \<le> int_item p ''max_content_bytes''"
    using assms by (auto simp: memory_outcome_def split: if_split_asm)
  then have "memory_outcome p c cp = founded_outcome p c cp" by (rule memory_outcome_small)
  with assms have "fst (founded_outcome p c cp) \<in> {''eligible'', ''review-required''}" by simp
  from founded_outcome_founded [OF this] size lane_reason_None [of c cp] show ?thesis
    by (simp add: well_founded_memory_def)
qed

lemma memory_outcome_eligible:
  assumes "validate_memory_candidate P v = Inr c"
  shows "fst (memory_outcome p c cp) = ''eligible'' \<longleftrightarrow> well_founded_memory p c cp \<and> automatic_memory p c"
  using memory_outcome_founded [of p c cp] memory_outcome_cleared [of p c cp]
    cleared_outcome_eligible [OF validate_memory_candidate_Inr(9,10) [OF assms], of p] by (metis insertI1)

section \<open>Plans\<close>

lemma validate_memory_plan_Inr:
  "validate_memory_plan P v = Inr d \<Longrightarrow> v = VDict d \<and> dkeys d = key_set plan_fields
     \<and> item d ''schema'' = VStr (str ''dm.memory.transition-plan/v1'')
     \<and> (\<exists>i. memory_ref P policy_prefix ''invalid_memory_plan'' (item d ''policy_id'') = Inr i)
     \<and> (\<exists>i. memory_ref P candidate_prefix ''invalid_memory_plan'' (item d ''candidate_id'') = Inr i)
     \<and> (\<exists>i. memory_ref P decision_prefix ''invalid_memory_plan'' (item d ''decision_id'') = Inr i)
     \<and> check_decided P ''invalid_memory_plan'' d = Inr () \<and> check_preview d = Inr ()
     \<and> (\<exists>i. memory_derived P decision_prefix decision_domain (decision_core d) = Inr i \<and> item d ''decision_id'' = VStr i)"
  by (auto simp: validate_memory_plan_def Let_def res split: if_splits)

text \<open>What an evaluation returns, written out.\<close>

lemma evaluate_memory_candidate_Inr:
  assumes "evaluate_memory_candidate P policy candidate checkpoint at_ms = Inr d"
  obtains p c cp n decision plan_id where
    "validate_memory_policy P policy = Inr p" "validate_memory_candidate P candidate = Inr c"
    "validate_memory_checkpoint P checkpoint = Inr cp" "at_ms = VInt n" "int_item cp ''captured_at_ms'' \<le> n"
    "validate_memory_plan P (VDict d) = Inr d"
    "d = [(VStr (str ''schema''), VStr (str ''dm.memory.transition-plan/v1'')),
          (VStr (str ''decision_id''), VStr decision)] @ decided_fields p c cp n
         @ [(VStr (str ''event_preview''), if executable_outcome (item (decided_fields p c cp n) ''outcome'')
               then VDict (memory_preview p c decision) else VNone), (VStr (str ''plan_id''), VStr plan_id)]"
proof -
  from assms obtain p c cp n decision plan_id where *:
    "validate_memory_policy P policy = Inr p" "validate_memory_candidate P candidate = Inr c"
    "validate_memory_checkpoint P checkpoint = Inr cp" "uint_me ''invalid_memory_evaluation_time'' 0 at_ms = Inr n"
    "\<not> n < int_item cp ''captured_at_ms''" and
    v: "validate_memory_plan P (VDict (([(VStr (str ''schema''), VStr (str ''dm.memory.transition-plan/v1'')),
          (VStr (str ''decision_id''), VStr decision)] @ decided_fields p c cp n
         @ [(VStr (str ''event_preview''), if executable_outcome (item (decided_fields p c cp n) ''outcome'')
               then VDict (memory_preview p c decision) else VNone)]) @ [(VStr (str ''plan_id''), VStr plan_id)])) = Inr d"
    unfolding evaluate_memory_candidate_def Let_def by (elim guardE) (rule that)
  have d: "d = [(VStr (str ''schema''), VStr (str ''dm.memory.transition-plan/v1'')),
          (VStr (str ''decision_id''), VStr decision)] @ decided_fields p c cp n
         @ [(VStr (str ''event_preview''), if executable_outcome (item (decided_fields p c cp n) ''outcome'')
               then VDict (memory_preview p c decision) else VNone), (VStr (str ''plan_id''), VStr plan_id)]"
    using validate_memory_plan_Inr [OF v] by simp
  with v have "validate_memory_plan P (VDict d) = Inr d" by simp
  with * d show thesis using that [of p c cp n decision plan_id] by (auto simp: res)
qed

lemma decided_items:
  "item (decided_fields p c cp n) ''outcome'' = VStr (str (fst (memory_outcome p c cp)))"
  "item (decided_fields p c cp n @ e) ''outcome'' = VStr (str (fst (memory_outcome p c cp)))"
  "item (decided_fields p c cp n @ e) ''checkpoint'' = VDict cp"
  "item (decided_fields p c cp n @ e) ''subject_me_id'' = item c ''subject_me_id''"
  "item (decided_fields p c cp n @ e) ''policy_id'' = item p ''policy_id''"
  "item (decided_fields p c cp n @ e) ''candidate_id'' = item c ''candidate_id''"
  "item (decided_fields p c cp n @ e) ''event_preview'' = item e ''event_preview''"
  "item (decided_fields p c cp n @ e) ''expires_at_ms'' = VInt (n + int_item p ''plan_ttl_ms'')"
  by (simp_all add: decided_fields_def dict_simps split_beta)

section \<open>Lanes\<close>

lemma lane_walk_snoc:
  "lane_walk n q (Some i) (es @ [e]) =
     (case lane_walk n q (Some i) es of None \<Rightarrow> None
      | Some r \<Rightarrow> if lane_follows (n + int (length es)) r i e then Some (Some e) else None)"
  by (induction es arbitrary: n q) (auto simp: Let_def add.assoc split: option.splits)

lemma lane_walk_first:
  "es \<noteq> [] \<Longrightarrow> lane_walk n q None es = lane_walk n q (Some (lane_invariant (hd es))) es"
  by (cases es) simp_all

lemma lane_walk_Some:
  "lane_walk n q (Some i) es = Some r \<Longrightarrow> es \<noteq> [] \<Longrightarrow>
     r = Some (last es) \<and> memory_sequence (last es) = n + int (length es) - 1 \<and> lane_invariant (last es) = i
     \<and> (\<forall>x \<in> set es. memory_sequence x < n + int (length es))"
proof (induction es arbitrary: n q)
  case (Cons x es)
  then show ?case by (cases "es = []") (fastforce simp: lane_follows_def Let_def split: if_splits)+
qed simp

lemma sort_key_snoc:
  assumes "\<And>x. x \<in> set xs \<Longrightarrow> f x \<le> f y"
  shows "sort_key f (xs @ [y]) = sort_key f xs @ [y]"
proof (rule properties_for_sort_key)
  show "mset (sort_key f xs @ [y]) = mset (xs @ [y])" by simp
  show "filter (\<lambda>x. f k = f x) (sort_key f xs @ [y]) = filter (\<lambda>x. f k = f x) (xs @ [y])" for k
    using sort_key_stable [of f "f k" xs] by (simp add: eq_commute)
  show "sorted (map f (sort_key f xs @ [y]))" using assms by (auto simp: sorted_append)
qed

text \<open>A snapshot that is not forked is that of a chain; its head is the last event.\<close>

lemma lane_snapshot_linear:
  assumes "fst (lane_snapshot es) \<noteq> ''forked''" and "es \<noteq> []"
  obtains h where "lane_snapshot es = (''linear'', VDict (lane_head_of h))" "h \<in> set es"
    "lane_walk 1 None (Some (lane_invariant h)) (sort_key lane_key es) = Some (Some h)"
    "memory_sequence h = int (length es)" "\<forall>x \<in> set es. memory_sequence x \<le> int (length es)"
proof -
  let ?s = "sort_key lane_key es"
  have ne: "?s \<noteq> []" using assms(2) by (metis length_0_conv length_sort)
  from assms obtain r where walk: "lane_walk 1 None (Some (lane_invariant (hd ?s))) ?s = Some r"
    unfolding lane_walk_first [OF ne, symmetric]
    by (cases "lane_walk 1 None None ?s") (auto simp: lane_snapshot_def)
  note r = lane_walk_Some [OF this ne]
  have last: "last ?s \<in> set es" using last_in_set [OF ne] by simp
  have "lane_snapshot es = (''linear'', VDict (lane_head_of (last ?s)))"
    using assms(2) walk r unfolding lane_walk_first [OF ne, symmetric] by (simp add: lane_snapshot_def)
  moreover have "\<forall>x \<in> set es. memory_sequence x \<le> int (length es)" using r by force
  ultimately show thesis using that [of "last ?s"] last walk r by auto
qed

lemma lane_snapshot_snoc:
  assumes "fst (lane_snapshot es) \<noteq> ''forked''"
    and "es = [] \<Longrightarrow> lane_follows 1 None (lane_invariant e) e"
    and "\<And>h. lane_snapshot es = (''linear'', VDict (lane_head_of h)) \<Longrightarrow> h \<in> set es
      \<Longrightarrow> lane_follows (memory_sequence h + 1) (Some h) (lane_invariant h) e"
  shows "lane_snapshot (es @ [e]) = (''linear'', VDict (lane_head_of e))"
proof (cases "es = []")
  case True
  then show ?thesis using assms(2) by (simp add: lane_snapshot_def)
next
  case False
  from lane_snapshot_linear [OF assms(1) False] obtain h where h:
    "lane_snapshot es = (''linear'', VDict (lane_head_of h))" "h \<in> set es"
    "lane_walk 1 None (Some (lane_invariant h)) (sort_key lane_key es) = Some (Some h)"
    "memory_sequence h = int (length es)" "\<forall>x \<in> set es. memory_sequence x \<le> int (length es)" .
  from assms(3) [OF h(1,2)] have f: "lane_follows (1 + int (length (sort_key lane_key es))) (Some h) (lane_invariant h) e"
    by (simp add: h(4) add.commute)
  then have "memory_sequence e = 1 + int (length es)" by (simp add: lane_follows_def)
  then have "sort_key lane_key (es @ [e]) = sort_key lane_key es @ [e]"
    using h(5) by (intro sort_key_snoc) (force simp: lane_key_def less_eq_prod_def)
  moreover have "lane_walk 1 None None (sort_key lane_key es @ [e]) = Some (Some e)"
  proof -
    let ?s = "sort_key lane_key es"
    have ne: "?s \<noteq> []" using False by (metis length_0_conv length_sort)
    have "lane_invariant (hd ?s) = lane_invariant h"
      using h(3) ne by (cases ?s) (auto simp: lane_follows_def Let_def split: if_splits)
    then show ?thesis using lane_walk_first [of "?s @ [e]"] ne lane_walk_snoc [of 1 None "lane_invariant h" ?s e] h(3) f
      by simp
  qed
  ultimately show ?thesis by (simp add: lane_snapshot_def)
qed

section \<open>The appended event\<close>

lemma recorded_memory:
  assumes "verify_event P A v = Inr e" and "e_kind e = str ''memory.recorded''"
  shows "validate_memory_record P (VDict (e_payload e)) = Inr (e_payload e)"
    "item (e_payload e) ''predecessor_event_id'' = opt_str (e_supersedes e)"
proof -
  obtain d and sel :: selected where
    c: "validate_core P (without [''content_hash'', ''signature''] d) (sel_manifest sel) = Inr (core.truncate e)"
    by (rule verify_with_Inr [OF assms(1) [unfolded verify_event_def]]) (rule that; assumption)
  have "e_kind (core.truncate e) = e_kind e" "e_payload (core.truncate e) = e_payload e"
    "e_supersedes (core.truncate e) = e_supersedes e" by (simp_all add: core.truncate_def)
  with validate_core_Inr(23) [OF c] assms(2) obtain r where r:
    "validate_memory_record P (VDict (e_payload e)) = Inr r" "item r ''predecessor_event_id'' = opt_str (e_supersedes e)"
    by (auto simp: kind_rules_def memory_rule_def res)
  moreover from r(1) have "r = e_payload e"
    unfolding validate_memory_record_def Let_def by (elim guardE) (simp add: res)
  ultimately show "validate_memory_record P (VDict (e_payload e)) = Inr (e_payload e)"
    "item (e_payload e) ''predecessor_event_id'' = opt_str (e_supersedes e)" by simp_all
qed

text \<open>A request the ledger has not seen appends one event, on the state whose hash was expected.\<close>

lemma append_memory_fresh:
  assumes "ledger_ok P L s" and "append_memory P L sg d r expected clock s = (Inr e, t)"
    and "map_of (t_local_ops s) (op_key r) = None"
  shows "verify_event P (lg_authority L) (event_val e) = Inr e \<and> row_events t = row_events s @ [e]
    \<and> e \<in> set (list_events False t) \<and> state_hash P L s = Inr (str_of expected)
    \<and> set (au_parents (memory_authoring d)) \<subseteq> known_ids s
    \<and> e_kind e = au_kind (memory_authoring d) \<and> e_payload e = au_payload (memory_authoring d)
    \<and> e_supersedes e = au_supersedes (memory_authoring d) \<and> e_subject e = au_subject (memory_authoring d)"
proof -
  let ?step = "append_idempotent_step P L sg (memory_authoring d) r (Some (str_of expected)) None clock []"
  from assms(2) have "append_local_idempotent P L sg (memory_authoring d) r (Some (str_of expected)) None clock [] s = (Inr e, t)"
    by (auto simp: append_memory_def stale_op_def res split: prod.splits)
  then have "bindO (initialize P L) (\<lambda>_. recording P (clock 3) (transaction ?step)) s = (Inr e, t)"
    by (auto simp: append_local_idempotent_def bindO_def returnO_def split: sum.splits if_splits)
  from recording_run [OF assms(1) this] obtain i
    where i: "live P L i" "table_part i = table_part s" "?step i = Inr (e, t)" by metis
  note same = table_part_rows [OF i(2)]
  have "t_events i = t_events s" "t_local_ops i = t_local_ops s"
    using i(2) by (simp_all add: table_part_def answer_part_def)
  then have hash: "state_hash P L i = state_hash P L s" and new: "map_of (t_local_ops i) (op_key r) = None"
    using assms(3) by (simp_all add: state_hash_def)
  from i(3) new have h: "state_hash P L s = Inr (str_of expected)"
    by (auto simp: append_idempotent_step_def hash res split: if_splits)
  from i(3) obtain u where u: "append_step P L sg (memory_authoring d) (clock 1) [] i = Inr (e, u)"
    "t = u\<lparr>t_local_ops := t_local_ops u @ [(op_key r, (op_request_hash r, e_id e))]\<rparr>"
    using new by (cases rule: append_idempotent_cases) auto
  from u(1) have create: "create_event P (lg_authority L) (origin_dict (lg_origin L)) sg (draft_of L (memory_authoring d) i (clock 1) []) = Inr e"
    and deps: "\<exists>ds. dependencies_res e = Inr ds \<and> ds \<subseteq> known_ids i"
    by (auto simp: append_step_def bindR_Inr_iff split: if_splits)
  note e = create_event_Inr [OF create]
  from deps have "set (e_parents e) \<subseteq> known_ids s" using same by (auto simp: dependencies_res_def res)
  moreover have "e \<in> set (list_events False t)"
  proof -
    have live: "live P L u" "row_events u = row_events i @ [e]" "e_id e \<in> known_ids u"
      using append_step_live [OF i(1) u(1)] by simp_all
    then obtain row where row: "row \<in> set (t_events u)" "r_known row" "e_id (r_event row) = e_id e" by (auto simp: known_ids_def)
    have "inj_on e_id (set (row_events u))"
      using live(1) by (simp add: live_def ledger_ok_def store_ok_def rows_ok_def distinct_map)
    moreover have "r_event row \<in> set (row_events u)" using row(1) by (simp add: row_events_def)
    moreover have "e \<in> set (row_events u)" by (simp add: live(2))
    ultimately have "r_event row = e" using row(3) by (simp add: inj_on_eq_iff)
    with row u(2) show ?thesis by (auto simp: list_events_def)
  qed
  ultimately show ?thesis
    using append_step_live [OF i(1) u(1)] e same h u(2) by (simp add: draft_of_def Let_def row_events_def)
qed

lemma append_memory_grows:
  assumes "ledger_ok P L s" and "append_memory P L sg d r expected clock s = (Inr e, t)"
  shows "ledger_ok P L t \<and> grows s t"
proof -
  from assms(2) have "append_local_idempotent P L sg (memory_authoring d) r (Some (str_of expected)) None clock [] s = (Inr e, t)"
    by (auto simp: append_memory_def stale_op_def res split: prod.splits)
  with ledger_step_ok [OF ledger_step.Append_idempotent assms(1)] show ?thesis by (metis snd_conv)
qed

section \<open>Executed plans\<close>

lemma validate_memory_checkpoint_Inr:
  assumes "validate_memory_checkpoint P v = Inr cp"
  shows "v = VDict cp" "\<exists>ss. item cp ''evidence_refs'' = VList (map VStr ss)"
    "validate_lane_head P (item cp ''lane_head'') = Inr ()"
proof -
  from assms obtain d ids where d: "v = VDict d" "d = cp" "refs_me P ''invalid_memory_checkpoint'' (item d ''evidence_refs'') = Inr ()"
    "validate_lane_head P (item d ''lane_head'') = Inr ()"
    unfolding validate_memory_checkpoint_def Let_def
    by (elim guardE) (auto simp: res split: val.splits if_splits)
  then show "v = VDict cp" "\<exists>ss. item cp ''evidence_refs'' = VList (map VStr ss)"
    "validate_lane_head P (item cp ''lane_head'') = Inr ()" using refs_me_Inr [OF d(3)] by auto
qed

lemma validate_lane_head_Inr:
  assumes "validate_lane_head P v = Inr u"
  shows "v = VNone \<or> (\<exists>h. v = VDict h \<and> (\<exists>s. item h ''event_id'' = VStr s) \<and> (\<exists>n. item h ''sequence'' = VInt n))"
  using assms by (auto simp: validate_lane_head_def res Let_def split: if_splits)

text \<open>
  What both executors have established when they hand a plan to the ledger: the plan \<open>d\<close> is what
  the policy \<open>p\<close> says of the candidate \<open>c\<close> at the checkpoint \<open>cp\<close>.
\<close>

definition sanctioned :: "platform \<Rightarrow> dict \<Rightarrow> dict \<Rightarrow> dict \<Rightarrow> dict \<Rightarrow> bool" where
  "sanctioned P d p c cp \<longleftrightarrow> item d ''checkpoint'' = VDict cp \<and> well_founded_memory p c cp
     \<and> item d ''outcome'' = VStr (str (fst (memory_outcome p c cp)))
     \<and> au_kind (memory_authoring d) = str ''memory.recorded''
     \<and> VStr (au_subject (memory_authoring d)) = item c ''subject_me_id'' \<and> item d ''subject_me_id'' = item c ''subject_me_id''
     \<and> (\<exists>i. py_eq (VDict (memory_payload p c i)) (VDict (au_payload (memory_authoring d))))
     \<and> au_parents (memory_authoring d) = map str_of (list_item cp ''evidence_refs'')
     \<and> opt_str (au_supersedes (memory_authoring d))
       = (case item cp ''lane_head'' of VDict h \<Rightarrow> item h ''event_id'' | _ \<Rightarrow> VNone)"

lemma revalidated_plan:
  assumes "revalidate P d policy candidate = Inr ()" and "executable_outcome (item d ''outcome'')"
  obtains p c cp where "validate_memory_policy P policy = Inr p" "validate_memory_candidate P candidate = Inr c"
    "validate_memory_checkpoint P (VDict cp) = Inr cp" "sanctioned P d p c cp"
proof -
  from assms(1) obtain again where again: "evaluate_memory_candidate P policy candidate (item d ''checkpoint'') (item d ''evaluated_at_ms'') = Inr again"
    and eq: "py_eq (VDict again) (VDict d)"
    by (auto simp: revalidate_def res split: if_splits)
  obtain p c cp n i j where docs: "validate_memory_policy P policy = Inr p" "validate_memory_candidate P candidate = Inr c"
    "validate_memory_checkpoint P (item d ''checkpoint'') = Inr cp" and
    a: "again = [(VStr (str ''schema''), VStr (str ''dm.memory.transition-plan/v1'')),
          (VStr (str ''decision_id''), VStr i)] @ decided_fields p c cp n
         @ [(VStr (str ''event_preview''), if executable_outcome (item (decided_fields p c cp n) ''outcome'')
               then VDict (memory_preview p c i) else VNone), (VStr (str ''plan_id''), VStr j)]"
    by (rule evaluate_memory_candidate_Inr [OF again]) (rule that; assumption)
  note cp = validate_memory_checkpoint_Inr [OF docs(3)]
  note c = validate_memory_candidate_Inr [OF docs(2)]
  have get: "py_eq (item again k) (item d k)" if "dget again k \<noteq> None" for k
    using py_eq_item [OF eq] that by (auto simp: item_def)
  have outcome: "item d ''outcome'' = VStr (str (fst (memory_outcome p c cp)))"
    using get [of "''outcome''"] by (simp add: a dict_simps decided_fields_def split_beta)
  then have ok: "fst (memory_outcome p c cp) \<in> {''eligible'', ''review-required''}"
    using assms(2) by (auto simp: executable_outcome_def)
  have subject: "item d ''subject_me_id'' = item c ''subject_me_id''"
    using get [of "''subject_me_id''"] c(4) by (auto simp: a dict_simps decided_fields_def split_beta)
  have pv: "py_eq (VDict (memory_preview p c i)) (item d ''event_preview'')"
    using get [of "''event_preview''"] ok
    by (auto simp: a dict_simps decided_fields_def split_beta executable_outcome_def)
  then obtain v where v: "item d ''event_preview'' = VDict v" "py_eq (VDict (memory_preview p c i)) (VDict v)"
    using py_eq_dict [OF pv] by auto
  have "item v ''kind'' = VStr (str ''memory.recorded'')" "item v ''subject'' = item c ''subject_me_id''"
    "py_eq (VDict (memory_payload p c i)) (item v ''payload'')"
    using py_eq_item [OF v(2), of "''kind''"] py_eq_item [OF v(2), of "''subject''"] py_eq_item [OF v(2), of "''payload''"] c(4)
    by (auto simp: memory_preview_def dict_simps)
  moreover from py_eq_dict [OF this(3)] obtain pay where "item v ''payload'' = VDict pay" by blast
  ultimately have "sanctioned P d p c cp"
    using cp outcome subject memory_outcome_founded [OF ok] c(4) v(1) validate_lane_head_Inr [OF cp(3)]
    by (auto simp: sanctioned_def memory_authoring_def Let_def dict_item_def str_item_def opt_str_def)
  with docs cp(1) that show thesis by metis
qed

text \<open>The record that is appended says what the candidate says.\<close>

lemma lane_field_record: "k \<in> set lane_fields \<Longrightarrow> item (memory_payload p c i) k = item (dict_item c ''lane'') k \<and> dget (memory_payload p c i) k \<noteq> None"
  unfolding lane_fields_def
  by (simp, elim disjE; simp add: memory_payload_def lane_part_def lane_fields_def dict_simps)

lemma sanctioned_record:
  assumes "sanctioned P d p c cp" and "validate_memory_candidate P candidate = Inr c"
    and "validate_memory_record P (VDict (au_payload (memory_authoring d))) = Inr r"
  shows "k \<in> {''category'', ''author_me_id'', ''context'', ''candidate_id'', ''evidence_refs'', ''predecessor_decision_id''}
      \<Longrightarrow> item (au_payload (memory_authoring d)) k = item c k"
    and "k \<in> set lane_fields
      \<Longrightarrow> dget (au_payload (memory_authoring d)) k = Some (item (dict_item c ''lane'') k)"
proof -
  note c = validate_memory_candidate_Inr [OF assms(2)]
  let ?r = "au_payload (memory_authoring d)" and ?l = "dict_item c ''lane''"
  from assms(1) obtain i where eq: "py_eq (VDict (memory_payload p c i)) (VDict ?r)" by (auto simp: sanctioned_def)
  have get: "dget ?r k = Some (item ?r k) \<and> py_eq (item (memory_payload p c i) k) (item ?r k)"
    if "dget (memory_payload p c i) k \<noteq> None" for k
    using py_eq_item [OF eq] that by (auto simp: item_def)
  have decision: "item c ''predecessor_decision_id'' = VNone \<or> (\<exists>s. item c ''predecessor_decision_id'' = VStr s)"
  proof -
    have "optional_id P decision_prefix ''invalid_predecessor_decision'' (item c ''predecessor_decision_id'') = Inr ()"
      using c(13) by (auto simp: check_predecessor_def split: if_splits)
    from optional_id_Inr [OF this] show ?thesis by blast
  qed
  define good where "good v \<longleftrightarrow> v = VNone \<or> (\<exists>s. v = VStr s) \<or> (\<exists>ss. v = VList (map VStr ss))" for v
  have "\<exists>s. item c ''category'' = VStr s" using c(7) by blast
  then have good: "good (item c ''category'')" "good (item c ''author_me_id'')" "good (item c ''context'')"
    "good (item c ''candidate_id'')" "good (item c ''evidence_refs'')" "good (item c ''predecessor_decision_id'')"
    unfolding good_def using c(3) c(5) c(6) c(11) decision by blast+
  show "item ?r k = item c k"
    if "k \<in> {''category'', ''author_me_id'', ''context'', ''candidate_id'', ''evidence_refs'', ''predecessor_decision_id''}"
  proof -
    have "item (memory_payload p c i) k = item c k \<and> dget (memory_payload p c i) k \<noteq> None"
      using that by (simp, elim disjE; simp add: memory_payload_def lane_part_def lane_fields_def dict_simps)
    moreover have "good (item c k)" using that good by (elim insertE emptyE) simp_all
    ultimately show ?thesis using get [of k] unfolding good_def by (elim disjE exE) simp_all
  qed
  show "dget ?r k = Some (item ?l k)" if k: "k \<in> set lane_fields"
  proof -
    note l = validate_lane_Inr [OF c(2)]
    have g: "dget ?r k = Some (item ?r k)" "py_eq (item ?l k) (item ?r k)"
      using get [of k] lane_field_record [OF k, of p c i] by auto
    show ?thesis
    proof (cases "k = ''sequence''")
      case True
      from assms(3) obtain l' where "validate_lane (VDict (lane_part ?r)) = Inr l'"
        by (auto simp: validate_memory_record_def Let_def res split: if_splits)
      from validate_lane_Inr [OF this] obtain n where "item ?r ''sequence'' = VInt n"
        by (auto simp: lane_part_def lane_fields_def dict_simps)
      with True g l show ?thesis by auto
    next
      case False
      have "item ?l ''operation'' \<in> (VStr \<circ> str) ` {''assert'', ''correct'', ''retract''}"
        using c(2) by (auto simp: validate_lane_def res split: if_splits)
      then have "item ?l k = VNone \<or> (\<exists>s. item ?l k = VStr s)"
        using k False l by (auto simp: lane_fields_def split: if_splits)
      with g show ?thesis by auto
    qed
  qed
qed

section \<open>Reading a ledger\<close>

text \<open>An operation that only reads keeps the tables.\<close>

definition only_reads :: "platform \<Rightarrow> ledger \<Rightarrow> 'a op \<Rightarrow> bool" where
  "only_reads P L m \<longleftrightarrow> (\<forall>s r t. ledger_ok P L s \<longrightarrow> m s = (r, t) \<longrightarrow> ledger_ok P L t \<and> table_part t = table_part s)"

lemma only_readsD: "only_reads P L m \<Longrightarrow> m s = (r, t) \<Longrightarrow> ledger_ok P L s \<Longrightarrow> ledger_ok P L t \<and> table_part t = table_part s"
  by (simp add: only_reads_def)

lemma read_ledger_run:
  assumes "ledger_ok P L s" and "read_ledger P L f s = (r, t)"
  shows "ledger_ok P L t \<and> table_part t = table_part s \<and> (\<forall>x. r = Inr x \<longrightarrow> f t = Inr x)"
proof -
  from live_first [OF assms(1) assms(2) [unfolded read_ledger_def]] obtain i where
    "live P L i" "table_part i = table_part s" "(f i, i) = (r, t)" .
  then show ?thesis by (auto simp: live_def)
qed

lemma only_reads_simps [simp]:
  "only_reads P L (read_ledger P L f)" "only_reads P L (returnO x)"
proof -
  show "only_reads P L (read_ledger P L f)" unfolding only_reads_def using read_ledger_run by blast
  show "only_reads P L (returnO x)" by (simp add: only_reads_def returnO_def)
qed

lemma only_reads_bind: "only_reads P L m \<Longrightarrow> (\<And>x. only_reads P L (f x)) \<Longrightarrow> only_reads P L (bindO m f)"
  unfolding only_reads_def
proof (intro allI impI)
  fix s r t
  assume m: "\<forall>s r t. ledger_ok P L s \<longrightarrow> m s = (r, t) \<longrightarrow> ledger_ok P L t \<and> table_part t = table_part s"
    and f: "\<And>x. \<forall>s r t. ledger_ok P L s \<longrightarrow> f x s = (r, t) \<longrightarrow> ledger_ok P L t \<and> table_part t = table_part s"
    and s: "ledger_ok P L s" and run: "bindO m f s = (r, t)"
  obtain x u where mu: "m s = (x, u)" by (cases "m s")
  with m s have u: "ledger_ok P L u \<and> table_part u = table_part s" by blast
  show "ledger_ok P L t \<and> table_part t = table_part s"
  proof (cases x)
    case (Inl e)
    with run mu u show ?thesis by (simp add: bindO_def)
  next
    case (Inr y)
    with run mu have "f y u = (r, t)" by (simp add: bindO_def)
    with f [of y] u show ?thesis by metis
  qed
qed

lemma only_reads_memory [simp]:
  "only_reads P L (read_event P L i)" "only_reads P L (known_refs P L vs)" "only_reads P L (body_state P L c)"
proof -
  show *: "only_reads P L (read_event P L i)" for i by (simp add: read_event_def)
  show "only_reads P L (known_refs P L vs)" by (induction vs) (auto intro!: only_reads_bind *)
  show "only_reads P L (body_state P L c)"
    by (auto simp: body_state_def intro!: only_reads_bind * split: val.split)
qed

lemma bindO_Inr_iff: "bindO m f s = (Inr y, t) \<longleftrightarrow> (\<exists>x u. m s = (Inr x, u) \<and> f x u = (Inr y, t))"
  by (auto simp: bindO_def split: prod.splits sum.splits)

lemma bindO_returnO [simp]: "bindO (returnO r) f s = (Inr y, t) \<longleftrightarrow> (\<exists>x. r = Inr x \<and> f x s = (Inr y, t))"
  by (auto simp: bindO_Inr_iff returnO_def)

lemma memory_checkpoint_run:
  assumes "ledger_ok P L s" and "memory_checkpoint P L candidate now s = (Inr cp, t)"
    and "validate_memory_candidate P candidate = Inr c"
  shows "ledger_ok P L t \<and> table_part t = table_part s \<and> validate_memory_checkpoint P (VDict cp) = Inr cp
    \<and> item cp ''lane_state'' = VStr (str (fst (lane_snapshot (lane_of (item (dict_item c ''lane'') ''memory_id'') s))))
    \<and> item cp ''lane_head'' = snd (lane_snapshot (lane_of (item (dict_item c ''lane'') ''memory_id'') s))"
proof -
  let ?lane = "\<lambda>s. lane_of (item (dict_item c ''lane'') ''memory_id'') s"
  from assms(2,3) obtain u1 lane u2 ev u3 b u4 pr u5 h where
    r1: "read_ledger P L (\<lambda>s. Inr (?lane s)) s = (Inr lane, u1)" and r2: "known_refs P L (list_item c ''evidence_refs'') u1 = (Inr ev, u2)"
    and r3: "body_state P L c u2 = (Inr b, u3)" and r4: "snapshot P L u3 = (Inr pr, u4)" and r5: "read_ledger P L (state_hash P L) u4 = (Inr h, u5)"
    and rest: "t = u5" "validate_memory_checkpoint P (VDict (checkpoint_dict L lane ev b pr h now)) = Inr cp"
    unfolding memory_checkpoint_def bindO_Inr_iff returnO_def by auto
  have cp: "cp = checkpoint_dict L lane ev b pr h now" using validate_memory_checkpoint_Inr(1) [OF rest(2)] by simp
  note t1 = read_ledger_run [OF assms(1) r1]
  then have lane: "lane = ?lane u1" by simp
  have t2: "ledger_ok P L u2 \<and> table_part u2 = table_part u1" using only_readsD [OF only_reads_memory(2) r2] t1 by simp
  have t3: "ledger_ok P L u3 \<and> table_part u3 = table_part u2" using only_readsD [OF only_reads_memory(3) r3] t2 by simp
  have "snapshot P L = read_ledger P L (snapshot_of P L)" by (simp add: snapshot_def read_ledger_def)
  then have t4: "ledger_ok P L u4 \<and> table_part u4 = table_part u3" using read_ledger_run r4 t3 by metis
  have "t_events u1 = t_events s" using t1 by (simp add: table_part_def)
  then have "lane = ?lane s" by (simp add: lane lane_of_def list_events_def)
  moreover have "ledger_ok P L u5 \<and> table_part u5 = table_part u4" using read_ledger_run [OF _ r5] t4 by blast
  ultimately show ?thesis using rest t1 t2 t3 t4 by (simp add: cp) (simp add: checkpoint_dict_def dict_simps Let_def)
qed

end
