(* ===== verification/Memory_Properties.thy ===== *)
theory Memory_Properties
  imports Memory_Laws
begin

text \<open>
  The properties of the personal memory policy: what an automatic memory rests on, that a reviewed one
  extends its lane, and that the policy's documents fit together.
\<close>

lemma executable_outcomes: "item d ''outcome'' = VStr (str ''eligible'') \<or> item d ''outcome'' = VStr (str ''review-required'')
    \<Longrightarrow> executable_outcome (item d ''outcome'')"
  by (simp add: executable_outcome_def)

lemma plan_current_Inr:
  "plan_current P outcome refusal v now = Inr d \<Longrightarrow> validate_memory_plan P v = Inr d
     \<and> item d ''outcome'' = VStr (str outcome) \<and> now \<le> int_item d ''expires_at_ms''"
  by (auto simp: plan_current_def res split: if_splits)

section \<open>Automatic memories\<close>

text \<open>
  C12: every memory that is recorded automatically is cleared. When the executor returns for a request that is new,
  the plan and its checkpoint, the policy and the candidate are valid, the plan's outcome is \<^verbatim>\<open>eligible\<close>, the state hash of
  the checkpoint in the plan is that of the ledger at the moment of the append, the candidate is well-founded (its evidence is in that checkpoint, a personal memory is its
  subject's own, the derivation gives the category, the lane the checkpoint shows is extended) and the policy lets its category in
  without a review. Its evidence is in the ledger, and exactly one event is appended, which records the candidate.
\<close>

theorem automatic_memory_is_cleared:
  assumes "reachable P L s" and "execute P L sg mplan policy candidate client rid now clock s = (Inr x, t)"
    and "map_of (t_local_ops s) (client, rid) = None"
  shows "\<exists>d p c cp. validate_memory_plan P mplan = Inr d \<and> item d ''outcome'' = VStr (str ''eligible'')
    \<and> item d ''checkpoint'' = VDict cp \<and> validate_memory_policy P policy = Inr p \<and> validate_memory_candidate P candidate = Inr c
    \<and> validate_memory_checkpoint P (VDict cp) = Inr cp \<and> state_hash P L s = Inr (str_item cp ''ledger_state_hash'')
    \<and> well_founded_memory p c cp \<and> automatic_memory p c
    \<and> item c ''subject_me_id'' = VStr (mf_being_ref (authority_manifest (lg_authority L)))
    \<and> str_of ` set (list_item c ''evidence_refs'') \<subseteq> known_ids s
    \<and> row_events t = row_events s @ [ex_event x] \<and> ex_event x \<in> set (list_events False t)
    \<and> e_kind (ex_event x) = str ''memory.recorded''
    \<and> (\<forall>k \<in> {''category'', ''author_me_id'', ''context'', ''candidate_id'', ''evidence_refs''}.
         memory_item (ex_event x) k = item c k)"
proof -
  from assms(2) obtain d h where d: "validate_memory_plan P mplan = Inr d" "item d ''outcome'' = VStr (str ''eligible'')"
    and again: "revalidate P d policy candidate = Inr ()" and check: "check_executor L d = Inr ()"
    and run: "append_memory P L sg d \<lparr>op_client_id = client, op_request_id = rid, op_request_hash = h\<rparr>
        (item (dict_item d ''checkpoint'') ''ledger_state_hash'') clock s = (Inr (ex_event x), t)"
    unfolding execute_def by (auto simp: bindO_Inr_iff returnO_def dest: plan_current_Inr)
  obtain p c cp where docs: "validate_memory_policy P policy = Inr p" "validate_memory_candidate P candidate = Inr c"
    "validate_memory_checkpoint P (VDict cp) = Inr cp" and ok: "sanctioned P d p c cp"
    by (rule revalidated_plan [OF again]) (use d(2) executable_outcomes that in blast)+
  have "fst (memory_outcome p c cp) = ''eligible''" using ok d(2) by (simp add: sanctioned_def)
  with memory_outcome_eligible [OF docs(2)] have cleared: "well_founded_memory p c cp" "automatic_memory p c" by blast+
  have in_plan: "item d ''checkpoint'' = VDict cp" using ok by (simp add: sanctioned_def)
  then have cp: "dict_item d ''checkpoint'' = cp" by (simp add: dict_item_def)
  note new = append_memory_fresh [OF reachable_ok [OF assms(1)] run]
  have e: "verify_event P (lg_authority L) (event_val (ex_event x)) = Inr (ex_event x)"
    "row_events t = row_events s @ [ex_event x]" "ex_event x \<in> set (list_events False t)"
    "state_hash P L s = Inr (str_item cp ''ledger_state_hash'')" "str_of ` set (list_item cp ''evidence_refs'') \<subseteq> known_ids s"
    "e_kind (ex_event x) = str ''memory.recorded''" "e_payload (ex_event x) = au_payload (memory_authoring d)"
    using new assms(3) ok by (auto simp: op_key_def cp str_item_def sanctioned_def)
  have "str_of ` set (list_item c ''evidence_refs'') \<subseteq> known_ids s"
    using e(5) cleared(1) unfolding well_founded_memory_def by blast
  moreover have "item c ''subject_me_id'' = VStr (mf_being_ref (authority_manifest (lg_authority L)))"
    using check ok by (auto simp: check_executor_def sanctioned_def split: if_splits)
  moreover have "\<forall>k \<in> {''category'', ''author_me_id'', ''context'', ''candidate_id'', ''evidence_refs''}.
      memory_item (ex_event x) k = item c k"
    using sanctioned_record(1) [OF ok docs(2) recorded_memory(1) [OF e(1,6), unfolded e(7)]]
    by (simp add: memory_item_def e(7))
  ultimately show ?thesis using d in_plan docs cleared e by blast
qed

section \<open>Lanes\<close>

text \<open>What a memory event in a ledger says, as strings and a number.\<close>

lemma recorded_lane:
  assumes "verify_event P A v = Inr e" and "e_kind e = str ''memory.recorded''"
  shows "\<exists>n. memory_item e ''sequence'' = VInt n" "\<exists>s. memory_item e ''category'' = VStr s"
    "\<exists>s. memory_item e ''author_me_id'' = VStr s" "\<exists>s. memory_item e ''context'' = VStr s"
    "\<exists>s. memory_item e ''decision_id'' = VStr s" "\<exists>s. memory_item e ''memory_id'' = VStr s"
proof -
  from recorded_memory(1) [OF assms] obtain l where
    l: "validate_lane (VDict (lane_part (e_payload e))) = Inr l" and
    others: "\<exists>s \<in> set memory_categories. item (e_payload e) ''category'' = VStr (str s)"
    "\<exists>s. scoped_me P ''invalid_memory_author'' (item (e_payload e) ''author_me_id'') = Inr s"
    "\<exists>s. scoped_me P ''invalid_memory_context'' (item (e_payload e) ''context'') = Inr s"
    "\<exists>s. memory_ref P decision_prefix ''invalid_memory_record'' (item (e_payload e) ''decision_id'') = Inr s"
    unfolding validate_memory_record_def Let_def by (elim guardE) (auto simp: res)
  from validate_lane_Inr [OF l] show "\<exists>n. memory_item e ''sequence'' = VInt n" "\<exists>s. memory_item e ''memory_id'' = VStr s"
    by (auto simp: memory_item_def lane_part_def lane_fields_def dict_simps)
  show "\<exists>s. memory_item e ''category'' = VStr s" using others(1) by (auto simp: memory_item_def)
  show "\<exists>s. memory_item e ''author_me_id'' = VStr s" "\<exists>s. memory_item e ''context'' = VStr s"
    "\<exists>s. memory_item e ''decision_id'' = VStr s"
    using others(2-4) by (auto simp: memory_item_def dest: scoped_me_Inr memory_ref_Inr)
qed

text \<open>The head a checkpoint has, up to the equality of Python values, is the head the code computed.\<close>

lemma lane_head_same:
  assumes "py_eq (VDict (lane_head_of h)) (VDict x)" and "verify_event P A v = Inr h" "e_kind h = str ''memory.recorded''"
    and "\<exists>n. item x ''sequence'' = VInt n"
  shows "item x ''event_id'' = VStr (e_id h) \<and> item x ''content_hash'' = VStr (e_content_hash h)
    \<and> int_item x ''sequence'' = memory_sequence h \<and> item x ''decision_id'' = memory_item h ''decision_id''
    \<and> item x ''category'' = memory_item h ''category'' \<and> item x ''author_me_id'' = memory_item h ''author_me_id''
    \<and> item x ''context'' = memory_item h ''context''"
proof -
  note get = py_eq_item [OF assms(1)] and h = recorded_lane [OF assms(2,3)]
  have "py_eq (item (lane_head_of h) k) (item x k)" if "k \<in> set lane_head_fields" for k
  proof -
    have "dget (lane_head_of h) k = Some (item (lane_head_of h) k)"
      using that unfolding lane_head_fields_def by (simp, elim disjE; simp add: lane_head_of_def dict_simps)
    with get show ?thesis by blast
  qed
  from this [of "''event_id''"] this [of "''content_hash''"] this [of "''decision_id''"] this [of "''category''"]
    this [of "''author_me_id''"] this [of "''context''"] this [of "''sequence''"] h assms(4)
  show ?thesis
    by (auto simp: lane_head_of_def lane_head_fields_def dict_simps int_item_def memory_sequence_def memory_item_def [of h])
qed

text \<open>An event that records a candidate which extends its lane follows the lane's head.\<close>

lemma sanctioned_follows:
  assumes ok: "sanctioned P d p c cp" and c: "validate_memory_candidate P candidate = Inr c"
    and cp: "validate_memory_checkpoint P (VDict cp) = Inr cp"
    and e: "verify_event P A w = Inr e" "e_kind e = str ''memory.recorded''"
      "e_payload e = au_payload (memory_authoring d)" "e_supersedes e = au_supersedes (memory_authoring d)"
    and lane: "item cp ''lane_state'' = VStr (str (fst (lane_snapshot es)))" "py_eq (snd (lane_snapshot es)) (item cp ''lane_head'')"
    and known: "\<And>h. h \<in> set es \<Longrightarrow> e_kind h = str ''memory.recorded'' \<and> (\<exists>v. verify_event P A v = Inr h)"
  shows "fst (lane_snapshot es) \<noteq> ''forked'' \<and> lane_snapshot (es @ [e]) = (''linear'', VDict (lane_head_of e))"
proof -
  let ?l = "dict_item c ''lane''"
  have ext: "extends_lane c cp" using ok by (simp add: sanctioned_def well_founded_memory_def)
  then have notforked: "fst (lane_snapshot es) \<noteq> ''forked''" using lane(1) by (auto simp: extends_lane_def)
  note l = validate_lane_Inr [OF validate_memory_candidate_Inr(2) [OF c]]
  note rec = sanctioned_record [OF ok c recorded_memory(1) [OF e(1,2), unfolded e(3)], folded e(3)]
  have items: "memory_item e k = item ?l k" if "k \<in> set lane_fields" for k
    using rec(2) [OF that] by (simp add: memory_item_def item_def)
  note fields = items [unfolded lane_fields_def, simplified]
  have others: "memory_item e ''category'' = item c ''category''" "memory_item e ''author_me_id'' = item c ''author_me_id''"
    "memory_item e ''context'' = item c ''context''" "memory_item e ''predecessor_decision_id'' = item c ''predecessor_decision_id''"
    using rec(1) by (simp_all add: memory_item_def)
  have seq: "memory_sequence e = int_item ?l ''sequence''"
    using items [of "''sequence''"] by (simp add: memory_sequence_def memory_item_def int_item_def lane_fields_def)
  have sup: "opt_str (e_supersedes e) = memory_item e ''predecessor_event_id''"
    using recorded_memory(2) [OF e(1,2)] by (simp add: memory_item_def)
  have head: "item cp ''lane_head'' = VNone" if "es = []"
    using lane(2) that by (simp add: lane_snapshot_def)
  have "lane_snapshot (es @ [e]) = (''linear'', VDict (lane_head_of e))"
  proof (rule lane_snapshot_snoc [OF notforked])
    assume "es = []"
    from head [OF this] ext have "int_item ?l ''sequence'' = 1" by (auto simp: extends_lane_def Let_def split: if_splits)
    with l items seq sup show "lane_follows 1 None (lane_invariant e) e"
      by (simp add: lane_follows_def lane_fields_def opt_str_def split: option.splits)
  next
    fix h assume h: "lane_snapshot es = (''linear'', VDict (lane_head_of h))" "h \<in> set es"
    from lane(2) h(1) obtain x where x: "item cp ''lane_head'' = VDict x" "py_eq (VDict (lane_head_of h)) (VDict x)"
      using py_eq_dict by fastforce
    from validate_lane_head_Inr [OF validate_memory_checkpoint_Inr(3) [OF cp]] x(1) have n: "\<exists>n. item x ''sequence'' = VInt n" by auto
    from known [OF h(2)] obtain v where v: "verify_event P A v = Inr h" "e_kind h = str ''memory.recorded''" by blast
    note same = lane_head_same [OF x(2) v n]
    from ext x(1) have "int_item ?l ''sequence'' \<noteq> 1" "int_item ?l ''sequence'' = int_item x ''sequence'' + 1"
      "item ?l ''predecessor_event_id'' = item x ''event_id''" "item ?l ''predecessor_hash'' = item x ''content_hash''"
      "item c ''predecessor_decision_id'' = item x ''decision_id''" "item c ''category'' = item x ''category''"
      "item c ''author_me_id'' = item x ''author_me_id''" "item c ''context'' = item x ''context''"
      by (auto simp: extends_lane_def Let_def split: if_splits)
    with l items seq sup others same show "lane_follows (memory_sequence h + 1) (Some h) (lane_invariant h) e"
      by (simp add: lane_follows_def lane_invariant_def lane_fields_def opt_str_def split: option.splits)
  qed
  with notforked show ?thesis by blast
qed

lemma known_events_verified:
  assumes "ledger_ok P L s" and "h \<in> set (lane_of m s)"
  shows "e_kind h = str ''memory.recorded'' \<and> (\<exists>v. verify_event P (lg_authority L) v = Inr h)"
proof -
  from assms(2) have "h \<in> set (row_events s)" "e_kind h = str ''memory.recorded''"
    by (auto simp: lane_of_def in_lane_def list_events_def row_events_def)
  with assms(1) show ?thesis by (auto simp: ledger_ok_def store_ok_def rows_ok_def verified_def)
qed

text \<open>The lane of a ledger is the set of its known records of that memory; its order is the code's own.\<close>

lemma in_lane_of:
  assumes "ledger_ok P L s"
  shows "f \<in> set (lane_of m s) \<longleftrightarrow> f \<in> set (row_events s) \<and> in_lane m f \<and> e_id f \<in> known_ids s"
proof -
  have "inj_on e_id (set (row_events s))" using assms by (simp add: ledger_ok_def store_ok_def rows_ok_def distinct_map)
  then show ?thesis
    by (auto simp: lane_of_def list_events_def known_ids_def row_events_def inj_on_def)
qed

lemma lane_of_ids: "ledger_ok P L s \<Longrightarrow> distinct (map e_id (lane_of m s))"
proof -
  assume "ledger_ok P L s"
  then have "distinct (map e_id (row_events s))" by (simp add: ledger_ok_def store_ok_def rows_ok_def)
  then have "distinct (map e_id (map r_event (filter r_known (t_events s))))"
    by (auto simp: row_events_def distinct_map inj_on_def)
  moreover have "mset (map e_id (list_events False s)) = mset (map e_id (map r_event (filter r_known (t_events s))))"
    by (simp add: list_events_def multiset.map_comp)
  ultimately have "distinct (map e_id (list_events False s))" using mset_eq_imp_distinct_iff by metis
  then show ?thesis by (auto simp: lane_of_def distinct_map inj_on_def)
qed

lemma lane_snapshot_cong:
  assumes "distinct (map e_id xs)" "distinct (map e_id ys)" and "set xs = set ys"
  shows "lane_snapshot xs = lane_snapshot ys"
proof -
  have "mset xs = mset ys" using assms by (simp add: set_eq_iff_mset_eq_distinct distinct_map)
  moreover have "inj_on lane_key (set xs)" using assms(1) by (auto simp: distinct_map inj_on_def lane_key_def)
  ultimately have "sort_key lane_key xs = sort_key lane_key ys" by (intro sort_key_inj_key_eq) simp_all
  moreover have "xs = [] \<longleftrightarrow> ys = []" using assms(3) by (metis set_empty)
  ultimately show ?thesis by (simp add: lane_snapshot_def)
qed

text \<open>What an append adds to a lane: its own event, and records that waited and became known with it.\<close>

definition woken :: "val \<Rightarrow> db \<Rightarrow> db \<Rightarrow> event set" where
  "woken m s t = {f \<in> set (row_events s). in_lane m f \<and> e_id f \<in> known_ids t - known_ids s}"

lemma lane_after:
  assumes "ledger_ok P L s" "ledger_ok P L t" "grows s t" and "row_events t = row_events s @ [e]"
    and "in_lane m e" "e_id e \<in> known_ids t"
  shows "set (lane_of m t) = set (lane_of m s) \<union> {e} \<union> woken m s t"
    and "woken m s t = {} \<Longrightarrow> lane_snapshot (lane_of m t) = lane_snapshot (lane_of m s @ [e])"
proof -
  have known: "known_ids s \<subseteq> known_ids t" using assms(3) by (simp add: grows_def)
  show set: "set (lane_of m t) = set (lane_of m s) \<union> {e} \<union> woken m s t"
    using assms(4-6) known by (auto simp: in_lane_of [OF assms(1)] in_lane_of [OF assms(2)] woken_def)
  have "distinct (map e_id (row_events t))" using assms(2) by (simp add: ledger_ok_def store_ok_def rows_ok_def)
  then have "e_id e \<notin> e_id ` set (row_events s)" by (simp add: assms(4))
  then have "distinct (map e_id (lane_of m s @ [e]))"
    using lane_of_ids [OF assms(1), of m] by (auto simp: in_lane_of [OF assms(1)])
  from lane_snapshot_cong [OF lane_of_ids [OF assms(2)] this] set
  show "woken m s t = {} \<Longrightarrow> lane_snapshot (lane_of m t) = lane_snapshot (lane_of m s @ [e])" by simp
qed

text \<open>
  C13: a reviewed memory extends its lane. When the reviewed executor returns for a new request, exactly one event is
  appended, the lane of the candidate was not forked before, and the new event continues it: the lane of then with it is
  linear and has it as its head. The lane of the ledger afterwards has these events and those records of the same memory,
  stored before, that waited for a dependency and became known with the append; when there are none, it is linear and ends
  in the new event.
\<close>

theorem reviewed_memory_extends_its_lane:
  assumes "reachable P L s"
    and "execute_reviewed P L sg mplan policy candidate review dids client rid now clock s = (Inr x, t)"
    and "map_of (t_local_ops s) (client, rid) = None"
  shows "\<exists>c. validate_memory_candidate P candidate = Inr c \<and> row_events t = row_events s @ [ex_event x]
    \<and> (let m = item (dict_item c ''lane'') ''memory_id''; lane = lane_of m s; e = ex_event x in
       fst (lane_snapshot lane) \<noteq> ''forked'' \<and> lane_snapshot (lane @ [e]) = (''linear'', VDict (lane_head_of e))
       \<and> set (lane_of m t) = set lane \<union> {e} \<union> woken m s t
       \<and> (woken m s t = {} \<longrightarrow> lane_snapshot (lane_of m t) = (''linear'', VDict (lane_head_of e))))"
proof -
  note ok = reachable_ok [OF assms(1)]
  from assms(2) obtain d r vs current u h where d: "item d ''outcome'' = VStr (str ''review-required'')"
    and again: "revalidate P d policy candidate = Inr ()"
    and now: "memory_checkpoint P L candidate now s = (Inr current, u)"
    and same: "\<not> list_ex (\<lambda>k. \<not> py_eq (item current k) (item (dict_item d ''checkpoint'') k)) evidence_fields"
    and run: "append_memory P L sg d \<lparr>op_client_id = client, op_request_id = rid, op_request_hash = h\<rparr>
        (item current ''ledger_state_hash'') clock u = (Inr (ex_event x), t)"
    unfolding execute_reviewed_def
    by (auto simp: bindO_Inr_iff returnO_def dest: plan_current_Inr split: if_splits)
  obtain p c cp where docs: "validate_memory_policy P policy = Inr p" "validate_memory_candidate P candidate = Inr c"
    "validate_memory_checkpoint P (VDict cp) = Inr cp" and san: "sanctioned P d p c cp"
    by (rule revalidated_plan [OF again]) (use d executable_outcomes that in blast)+
  let ?m = "item (dict_item c ''lane'') ''memory_id''"
  note read = memory_checkpoint_run [OF ok now docs(2)]
  then have u: "ledger_ok P L u" "t_local_ops u = t_local_ops s" "row_events u = row_events s" "lane_of ?m u = lane_of ?m s"
    "known_ids u = known_ids s"
    using table_part_rows [of u s] by (simp_all add: table_part_def answer_part_def lane_of_def list_events_def)
  have cp: "dict_item d ''checkpoint'' = cp" using san by (simp add: sanctioned_def dict_item_def)
  with same read have lane: "item cp ''lane_state'' = VStr (str (fst (lane_snapshot (lane_of ?m s))))"
    "py_eq (snd (lane_snapshot (lane_of ?m s))) (item cp ''lane_head'')"
    by (auto simp: evidence_fields_def)
  have e: "verify_event P (lg_authority L) (event_val (ex_event x)) = Inr (ex_event x)"
    "row_events t = row_events s @ [ex_event x]" "ex_event x \<in> set (list_events False t)"
    "e_kind (ex_event x) = str ''memory.recorded''" "e_payload (ex_event x) = au_payload (memory_authoring d)"
    "e_supersedes (ex_event x) = au_supersedes (memory_authoring d)"
    using append_memory_fresh [OF u(1) run] u(2,3) assms(3) san by (auto simp: op_key_def sanctioned_def)
  have "fst (lane_snapshot (lane_of ?m s)) \<noteq> ''forked''
    \<and> lane_snapshot (lane_of ?m s @ [ex_event x]) = (''linear'', VDict (lane_head_of (ex_event x)))"
    by (rule sanctioned_follows [OF san docs(2,3) e(1,4,5,6) lane known_events_verified [OF ok]])
  moreover have "dget (e_payload (ex_event x)) ''memory_id'' = Some ?m"
    unfolding e(5) by (rule sanctioned_record(2) [OF san docs(2) recorded_memory(1) [OF e(1,4), unfolded e(5)]])
      (simp add: lane_fields_def)
  with e(4) have "in_lane ?m (ex_event x)" by (simp add: in_lane_def)
  moreover have "e_id (ex_event x) \<in> known_ids t" using e(3) by (auto simp: list_events_def known_ids_def)
  ultimately show ?thesis
    using lane_after [OF u(1) _ _ e(2) [folded u(3)], of ?m] append_memory_grows [OF u(1) run] docs(2) e(2) u
    by (simp add: Let_def woken_def)
qed

section \<open>The documents fit together\<close>

text \<open>A check that passes does so whatever its error message is.\<close>

lemma text_me_any: "text_me P n e v = Inr s \<Longrightarrow> text_me P n e' v = Inr s"
  by (auto simp: text_me_def res split: val.splits if_splits)

lemma scoped_me_any: "scoped_me P e v = Inr s \<Longrightarrow> scoped_me P e' v = Inr s"
  by (auto simp: scoped_me_def res split: if_splits dest: text_me_any)

lemma memory_ref_any: "memory_ref P px e v = Inr s \<Longrightarrow> memory_ref P px e' v = Inr s"
  by (auto simp: memory_ref_def res Let_def split: if_splits dest: text_me_any)

lemma optional_id_any: "optional_id P px e v = Inr u \<Longrightarrow> optional_id P px e' v = Inr u"
  by (auto simp: optional_id_def res split: if_splits dest: memory_ref_any)

lemma check_decided_cong:
  assumes "check_decided P e d = Inr u"
    and "list_all (\<lambda>k. item d' k = item d k) [''predecessor_decision_id'', ''subject_me_id'', ''checkpoint'',
      ''evaluated_at_ms'', ''expires_at_ms'', ''outcome'', ''reasons'']"
  shows "check_decided P e' d' = Inr u"
proof -
  from assms(1) obtain s where "optional_id P decision_prefix e (item d ''predecessor_decision_id'') = Inr ()"
    "scoped_me P e (item d ''subject_me_id'') = Inr s"
    and rest: "\<exists>cp. validate_memory_checkpoint P (item d ''checkpoint'') = Inr cp"
    "\<exists>n m. uint_me e 0 (item d ''evaluated_at_ms'') = Inr n \<and> uint_me e 0 (item d ''expires_at_ms'') = Inr m \<and> \<not> m \<le> n"
    "member_me e outcomes (item d ''outcome'') = Inr ()" "reasons_ok (item d ''reasons'') = Inr True"
    unfolding check_decided_def by (elim guardE) (auto split: if_splits)
  from optional_id_any [OF this(1), of e'] scoped_me_any [OF this(2), of e'] rest assms(2) show ?thesis
    by (auto simp: check_decided_def res)
qed

lemma decision_core_item:
  "k \<in> {''policy_id'', ''candidate_id'', ''predecessor_decision_id'', ''subject_me_id'', ''checkpoint'', ''evaluated_at_ms'',
     ''expires_at_ms'', ''outcome'', ''reasons''} \<Longrightarrow> item (decision_core d @ e) k = item d k"
  by (simp, elim disjE; simp add: decision_core_def dict_simps)

text \<open>
  Every valid plan carries its decision: what \<^verbatim>\<open>memory_decision\<close> takes out of it is a valid decision
  with the plan's id, outcome, policy, candidate, checkpoint and expiry.
\<close>

theorem every_plan_carries_its_decision:
  assumes "validate_memory_plan P v = Inr d"
  shows "\<exists>k. memory_decision P v = Inr k \<and> item k ''decision_id'' = item d ''decision_id'' \<and> item k ''outcome'' = item d ''outcome''
    \<and> item k ''policy_id'' = item d ''policy_id'' \<and> item k ''candidate_id'' = item d ''candidate_id''
    \<and> item k ''checkpoint'' = item d ''checkpoint'' \<and> item k ''expires_at_ms'' = item d ''expires_at_ms''"
proof -
  let ?k = "decision_core d @ [(VStr (str ''decision_id''), item d ''decision_id'')]"
  note d = validate_memory_plan_Inr [OF assms]
  have without: "without [''decision_id''] ?k = decision_core d" by (simp add: decision_core_def without_def)
  have id: "item ?k ''decision_id'' = item d ''decision_id''" by (simp add: decision_core_def dict_simps)
  have schema: "item ?k ''schema'' = VStr (str ''dm.memory.policy-decision/v1'')" by (simp add: decision_core_def dict_simps)
  have keys: "dkeys ?k = key_set decision_fields"
    by (simp add: decision_core_def dict_simps dkeys_append key_set_def decision_fields_def) (simp add: dkeys_def insert_commute)
  have "check_decided P ''invalid_memory_decision'' ?k = Inr ()"
  proof (rule check_decided_cong)
    show "check_decided P ''invalid_memory_plan'' d = Inr ()" using d by blast
  qed (simp add: decision_core_def dict_simps)
  moreover from d obtain i j where "memory_ref P policy_prefix ''invalid_memory_plan'' (item d ''policy_id'') = Inr i"
    "memory_ref P candidate_prefix ''invalid_memory_plan'' (item d ''candidate_id'') = Inr j" by blast
  note memory_ref_any [OF this(1), of "''invalid_memory_decision''"] memory_ref_any [OF this(2), of "''invalid_memory_decision''"]
  moreover from d obtain i where "memory_ref P decision_prefix ''invalid_memory_plan'' (item d ''decision_id'') = Inr i" by blast
  note memory_ref_any [OF this, of "''invalid_memory_decision''"]
  ultimately have "validate_memory_decision P (VDict ?k) = Inr ?k"
    using d keys schema by (simp add: validate_memory_decision_def Let_def closed_me_def closed_dict_def decision_core_item id
        check_derived_def without) auto
  then show ?thesis using assms by (intro exI [of _ ?k]) (simp add: memory_decision_def id decision_core_item)
qed

text \<open>The lane of a candidate, read off the record.\<close>

lemma lane_part_items: "k \<in> set lane_fields \<Longrightarrow> item (lane_part d) k = item d k"
  unfolding lane_fields_def by (simp, elim disjE; simp add: lane_part_def lane_fields_def dict_simps)

lemma lane_part_cong: "(\<And>k. k \<in> set lane_fields \<Longrightarrow> item a k = item b k) \<Longrightarrow> lane_part a = lane_part b"
  by (simp add: lane_part_def)

lemma validate_lane_part:
  assumes "validate_lane v = Inr l"
  shows "validate_lane (VDict (lane_part l)) = Inr (lane_part l)"
proof -
  have keys: "dkeys (lane_part l) = key_set lane_fields" by (simp add: lane_part_def dkeys_def key_set_def image_image)
  have "item (lane_part l) ''memory_id'' = item l ''memory_id''" "item (lane_part l) ''operation'' = item l ''operation''"
    "item (lane_part l) ''sequence'' = item l ''sequence''"
    "item (lane_part l) ''predecessor_event_id'' = item l ''predecessor_event_id''"
    "item (lane_part l) ''predecessor_hash'' = item l ''predecessor_hash''"
    by (simp_all add: lane_part_items lane_fields_def)
  with assms keys show ?thesis
    by (auto simp: validate_lane_def res split: if_splits)
qed

lemma check_predecessor_any:
  "check_predecessor P e lane v = Inr u \<Longrightarrow> item lane' ''sequence'' = item lane ''sequence'' \<Longrightarrow> check_predecessor P e' lane' v = Inr u"
  by (auto simp: check_predecessor_def int_item_def split: if_splits dest: optional_id_any)

lemma refs_me_candidate:
  assumes "validate_memory_candidate P v = Inr c"
  shows "refs_me P ''invalid_memory_evidence_refs'' (item c ''evidence_refs'') = Inr ()"
    "\<exists>s. scoped_me P ''invalid_memory_author'' (item c ''author_me_id'') = Inr s"
    "\<exists>s. scoped_me P ''invalid_memory_context'' (item c ''context'') = Inr s"
    "member_me ''invalid_memory_category'' memory_categories (item c ''category'') = Inr ()"
  using assms unfolding validate_memory_candidate_def by (elim guardE; simp add: closed_me_Inr check_derived_Inr; fail)+

text \<open>A plan that may be executed, written out.\<close>

lemma evaluated_plan:
  assumes "evaluate_memory_candidate P policy candidate checkpoint at_ms = Inr d" and "executable_outcome (item d ''outcome'')"
  obtains p c cp i where "validate_memory_candidate P candidate = Inr c" "extends_lane c cp" "item d ''checkpoint'' = VDict cp"
    "au_payload (memory_authoring d) = memory_payload p c i" "item d ''policy_id'' = item p ''policy_id''"
    "item d ''candidate_id'' = item c ''candidate_id''" "item d ''decision_id'' = VStr i" "validate_memory_plan P (VDict d) = Inr d"
proof -
  obtain p c cp n i j where c: "validate_memory_candidate P candidate = Inr c"
    and plan: "validate_memory_plan P (VDict d) = Inr d" and
    d: "d = [(VStr (str ''schema''), VStr (str ''dm.memory.transition-plan/v1'')),
          (VStr (str ''decision_id''), VStr i)] @ decided_fields p c cp n
         @ [(VStr (str ''event_preview''), if executable_outcome (item (decided_fields p c cp n) ''outcome'')
               then VDict (memory_preview p c i) else VNone), (VStr (str ''plan_id''), VStr j)]"
    by (rule evaluate_memory_candidate_Inr [OF assms(1)]) (rule that; assumption)
  have out: "item d ''outcome'' = item (decided_fields p c cp n) ''outcome''" "item d ''checkpoint'' = VDict cp"
    "item d ''decision_id'' = VStr i" "item d ''policy_id'' = item p ''policy_id''" "item d ''candidate_id'' = item c ''candidate_id''"
    by (simp_all add: d dict_simps decided_fields_def split_beta)
  with assms(2) have "item d ''event_preview'' = VDict (memory_preview p c i)"
    by (simp add: d dict_simps decided_fields_def split_beta)
  then have "au_payload (memory_authoring d) = memory_payload p c i"
    by (simp add: memory_authoring_def Let_def dict_item_def memory_preview_def dict_simps)
  moreover have "extends_lane c cp"
    using assms(2) memory_outcome_founded [of p c cp] by (auto simp: out decided_items executable_outcome_def well_founded_memory_def)
  ultimately show thesis using that c out plan by blast
qed

text \<open>The record is valid, and the event it replaces is the head of the lane.\<close>

lemma memory_payload_accepted:
  assumes "validate_memory_candidate P v = Inr c" and "memory_ref P policy_prefix e (item p ''policy_id'') = Inr a"
    "memory_ref P candidate_prefix e (item c ''candidate_id'') = Inr b" "memory_ref P decision_prefix e (VStr i) = Inr f"
  shows "validate_memory_record P (VDict (memory_payload p c i)) = Inr (memory_payload p c i)"
proof -
  let ?r = "memory_payload p c i" and ?l = "dict_item c ''lane''"
  note c = validate_memory_candidate_Inr [OF assms(1)] and cc = refs_me_candidate [OF assms(1)]
  have lane: "lane_part ?r = lane_part ?l" by (rule lane_part_cong) (use lane_field_record in blast)
  have others: "item ?r ''schema'' = VStr (str ''dm.memory.record/v1'')" "item ?r ''category'' = item c ''category''"
    "item ?r ''author_me_id'' = item c ''author_me_id''" "item ?r ''context'' = item c ''context''"
    "item ?r ''content_ref'' = item c ''content_ref''" "item ?r ''evidence_refs'' = item c ''evidence_refs''"
    "item ?r ''policy_id'' = item p ''policy_id''" "item ?r ''candidate_id'' = item c ''candidate_id''"
    "item ?r ''decision_id'' = VStr i" "item ?r ''predecessor_decision_id'' = item c ''predecessor_decision_id''"
    by (simp_all add: memory_payload_def lane_part_def lane_fields_def dict_simps)
  have keys: "dkeys ?r = key_set record_fields"
    by (simp add: memory_payload_def lane_part_def lane_fields_def record_fields_def dict_simps key_set_def)
      (simp add: dkeys_def insert_commute)
  have content: "check_content P (lane_part ?l) (item c ''content_ref'') = Inr ()"
    using c(12) by (simp add: check_content_def lane_part_items lane_fields_def)
  have pred: "check_predecessor P ''invalid_memory_record'' (lane_part ?l) (item c ''predecessor_decision_id'') = Inr ()"
    by (rule check_predecessor_any [OF c(13)]) (simp add: lane_part_items lane_fields_def)
  from keys others cc assms(2-4) [THEN memory_ref_any, of "''invalid_memory_record''"] content pred validate_lane_part [OF c(2)]
  show ?thesis by (auto simp: validate_memory_record_def Let_def closed_me_def closed_dict_def lane)
qed

lemma superseded_head:
  assumes "extends_lane c cp" and "validate_lane v = Inr (dict_item c ''lane'')" and "item d ''checkpoint'' = VDict cp"
  shows "item (dict_item c ''lane'') ''predecessor_event_id'' = opt_str (au_supersedes (memory_authoring d))"
proof -
  note l = validate_lane_Inr [OF assms(2)]
  have sup: "au_supersedes (memory_authoring d) = (case item cp ''lane_head'' of VDict h \<Rightarrow> Some (str_item h ''event_id'') | _ \<Rightarrow> None)"
    by (simp add: memory_authoring_def Let_def dict_item_def assms(3))
  show ?thesis
  proof (cases "int_item (dict_item c ''lane'') ''sequence'' = 1")
    case True
    with assms(1) l show ?thesis by (simp add: sup extends_lane_def opt_str_def)
  next
    case False
    then obtain h where h: "item cp ''lane_head'' = VDict h"
      "item (dict_item c ''lane'') ''predecessor_event_id'' = item h ''event_id''"
      using assms(1) by (auto simp: extends_lane_def Let_def)
    from False l obtain s where "item (dict_item c ''lane'') ''predecessor_event_id'' = VStr s" by auto
    with h have "item h ''event_id'' = VStr s" by simp
    with h show ?thesis by (simp add: sup opt_str_def str_item_def)
  qed
qed

text \<open>
  C38: whatever a plan previews is a record the event rules accept: the payload is a valid memory record, and the event
  it is put in supersedes the predecessor it names.
\<close>

theorem previewed_record_is_accepted:
  assumes "evaluate_memory_candidate P policy candidate checkpoint at_ms = Inr d" and "executable_outcome (item d ''outcome'')"
  shows "memory_rule P (e\<lparr>e_payload := au_payload (memory_authoring d), e_supersedes := au_supersedes (memory_authoring d)\<rparr>) = Inr ()"
proof -
  from evaluated_plan [OF assms] obtain p c cp i where c: "validate_memory_candidate P candidate = Inr c"
    and d: "extends_lane c cp" "item d ''checkpoint'' = VDict cp" "au_payload (memory_authoring d) = memory_payload p c i"
    "item d ''policy_id'' = item p ''policy_id''" "item d ''candidate_id'' = item c ''candidate_id''" "item d ''decision_id'' = VStr i"
    "validate_memory_plan P (VDict d) = Inr d" .
  note ids = validate_memory_plan_Inr [OF d(7), unfolded d(4-6)]
  have "validate_memory_record P (VDict (memory_payload p c i)) = Inr (memory_payload p c i)"
    using ids memory_payload_accepted [OF c] by blast
  moreover have "item (memory_payload p c i) ''predecessor_event_id'' = opt_str (au_supersedes (memory_authoring d))"
    using lane_field_record [of "''predecessor_event_id''"] superseded_head [OF d(1) validate_memory_candidate_Inr(2) [OF c] d(2)]
    by (simp add: lane_fields_def)
  ultimately show ?thesis by (simp add: memory_rule_def d(3))
qed

end
