(* ===== verification/Demo_Memory.thy ===== *)
theory Demo_Memory
  imports Memory_Properties
begin

text \<open>
  A memory on the concrete platform: a policy with or without an automatic category, a candidate
  that starts a lane, the checkpoint of an empty ledger, the plan they give, and its execution, automatic and reviewed.
  Digests stay symbolic. At the end, the witnesses of the properties of \<open>Memory_Properties\<close>.
\<close>

section \<open>Texts, ids and their checks\<close>

lemma demo_text_me: "isascii s \<Longrightarrow> s \<noteq> [] \<Longrightarrow> length s \<le> n \<Longrightarrow> text_me demo n e (VStr s) = Inr s"
  using plain_canonical [of "VStr s" demo]
  by (auto simp: text_me_def utf8_ascii length_utf8_ascii canonical_me_def)

lemma length_b64url: "length (b64url bs) = (4 * length bs + 2) div 3"
  by (induction bs rule: b64url.induct) auto

definition demo_ref :: "string \<Rightarrow> string \<Rightarrow> dict \<Rightarrow> pystr" where
  "demo_ref px domain d = str px @ b64url (sha256 (str domain @ [0] @ projr (canonical_bytes demo (VDict d))))"

lemma demo_derived: "plain (VDict d) \<Longrightarrow> memory_derived demo px domain d = Inr (demo_ref px domain d)"
  using plain_canonical [of "VDict d" demo] by (auto simp: memory_derived_def canonical_me_def demo_ref_def)

lemma b64url_no_space: "is_bytes bs \<Longrightarrow> 32 \<notin> set (b64url bs)"
proof
  assume b: "is_bytes bs" and "32 \<in> set (b64url bs)"
  then obtain d where "d \<in> set (b64_digits bs)" "b64_alphabet ! d = 32" by (auto simp: b64url_digits)
  with b64_digits_bound [OF b] have "32 \<in> set b64_alphabet" using b64_alphabet_in [of d] by (auto simp: list_all_iff)
  then show False by (simp add: b64_alphabet_def str_def)
qed

lemma demo_ref_text:
  assumes "isascii (str px)"
  shows "isascii (demo_ref px domain d)" "length (demo_ref px domain d) = length px + 43"
    "32 \<notin> set (str px) \<Longrightarrow> 32 \<notin> set (demo_ref px domain d)"
  using assms b64url_no_space [OF is_bytes_sha256] isascii_b64url [OF is_bytes_sha256]
  by (auto simp: demo_ref_def length_b64url simp del: b64url.simps)

lemma demo_ref_accepted:
  assumes "isascii (str px)" and "length px \<le> 100"
  shows "memory_ref demo px e (VStr (demo_ref px domain d)) = Inr (demo_ref px domain d)"
proof -
  have "text_me demo 160 e (VStr (demo_ref px domain d)) = Inr (demo_ref px domain d)"
    using demo_ref_text(2) [OF assms(1), of domain d] assms(2)
    by (intro demo_text_me demo_ref_text(1) [OF assms(1)]) auto
  moreover have "unb64url (VStr (b64url (sha256 m))) (Some 32) = Inr (sha256 m)" for m
    by (rule unb64url_b64url) simp_all
  ultimately show ?thesis
    by (simp add: memory_ref_def) (simp add: demo_ref_def startswith_def removeprefix_def length_b64url del: b64url.simps)
qed

lemma no_marker_without_space: "32 \<notin> set s \<Longrightarrow> 32 \<in> set head \<Longrightarrow> \<not> has_marker ok head tail s"
proof (induction s)
  case (Cons c s)
  have "take (length head) (c # s) \<noteq> head"
  proof
    assume eq: "take (length head) (c # s) = head"
    have "set (take (length head) (c # s)) \<subseteq> set (c # s)" by (rule set_take_subset)
    with eq Cons.prems show False by auto
  qed
  with Cons show ?case by (simp add: startswith_def)
qed simp

lemma payload_text:
  assumes "isascii s" and "32 \<notin> set s" and "length s \<le> 1000" and "n < 1000" and "depth \<le> 16"
  shows "payload_check demo depth (VStr s) n = Inr (Suc n)"
proof -
  have "32 \<in> set (str ''-----BEGIN '')" by (simp add: str_def)
  with assms(1-3) no_marker_without_space [of s "str ''-----BEGIN ''"] plain_canonical [of "VStr s" demo] show ?thesis
    using assms(4,5) by (auto simp: max_payload_nodes_def max_payload_depth_def utf8_ascii length_utf8_ascii
        max_text_bytes_def has_private_key_def canonical_we_def)
qed

lemma hex_below: "c \<in> set hex_digits \<Longrightarrow> c < 128 \<and> c \<noteq> 32"
  by (auto simp: hex_digits_def str_def)

lemma uuid_shape_ascii:
  "uuid_shape ns s \<Longrightarrow> isascii s \<and> 32 \<notin> set s \<and> length s = sum_list ns + length ns - 1"
proof (induction ns s rule: uuid_shape.induct)
  case (2 n s)
  then show ?case by (auto simp: isascii_def list_all_iff dest: hex_below)
next
  case (3 n m ns s)
  let ?a = "take n s" and ?b = "take 1 (drop n s)" and ?c = "drop (Suc n) s"
  from 3 have IH: "isascii ?c \<and> 32 \<notin> set ?c \<and> length ?c = sum_list (m # ns) + length (m # ns) - 1" by simp
  from 3(2) have a: "isascii ?a \<and> 32 \<notin> set ?a" "length ?a = n" "?b = [45]"
    by (auto simp: isascii_def list_all_iff str_def dest: hex_below)
  have split: "?a @ ?b @ ?c = s" by (metis One_nat_def append_take_drop_id drop_drop plus_1_eq_Suc)
  have "drop n s \<noteq> []" using a(3) by auto
  then have len: "n < length s" by simp
  have "isascii (?a @ ?b @ ?c) \<and> 32 \<notin> set (?a @ ?b @ ?c)" unfolding isascii_simps set_append using a IH by auto
  then have "isascii s \<and> 32 \<notin> set s" unfolding split .
  with len IH show ?case by auto
qed simp

lemma uuid_ascii: "is_uuid s \<Longrightarrow> isascii s \<and> 32 \<notin> set s \<and> length s = 36"
  unfolding is_uuid_def by (drule uuid_shape_ascii) simp

section \<open>Equality\<close>

lemma plain_py_eq: "plain v \<Longrightarrow> py_eq v v"
proof (induction v)
  case (VList vs)
  then show ?case by (auto simp: py_eq.simps list_all_iff in_set_zip dest!: nth_mem)
next
  case (VDict d)
  then have "map_of d k = Some v" if "(k, v) \<in> set d" for k v using that by simp
  with VDict show ?case by (fastforce simp: py_eq.simps list_all_iff)
qed (auto simp: py_eq.simps)

section \<open>The documents\<close>

abbreviation me_ref :: pystr where "me_ref \<equiv> str ''being:'' @ demo_uuid 3"

lemma demo_scoped_me: "isascii s \<Longrightarrow> memory_id_like s \<Longrightarrow> scoped_me demo e (VStr s) = Inr s"
  using demo_text_me [of s 256 e] by (cases s) (auto simp: scoped_me_def memory_id_like_def)

lemma demo_ids: "memory_id_like me_ref" "memory_id_like (str ''demo'')" "isascii me_ref"
  by (simp_all add: memory_id_like_def scoped_char_def demo_uuid_def str_def)

lemma demo_scoped:
  "scoped_me demo e (VStr me_ref) = Inr me_ref" "scoped_me demo e (VStr (str ''demo'')) = Inr (str ''demo'')"
  by (rule demo_scoped_me; (rule demo_ids | simp add: isascii_str))+

text \<open>A document that ends with the reference derived from the rest.\<close>

definition referred :: "string \<Rightarrow> string \<Rightarrow> string \<Rightarrow> dict \<Rightarrow> dict" where
  "referred field px domain core = core @ [(VStr (str field), VStr (demo_ref px domain core))]"

lemma referred_derived:
  assumes "plain (VDict core)" and "VStr (str field) \<notin> dkeys core"
  shows "check_derived demo field px domain e (referred field px domain core) = Inr (referred field px domain core)"
proof -
  have "without [field] (referred field px domain core) = core"
    using assms(2) by (force simp: referred_def without_def dkeys_def filter_id_conv)
  moreover have "item (referred field px domain core) field = VStr (demo_ref px domain core)"
    using assms(2) dget_None_iff [of core field] by (simp add: referred_def item_def dget_def map_add_def split: option.split)
  ultimately show ?thesis using demo_derived [OF assms(1)] by (simp add: check_derived_def)
qed

lemma referred_closed:
  "insert (VStr (str field)) (dkeys core) = key_set ks \<Longrightarrow>
   closed_me ks e (VDict (referred field px domain core)) = Inr (referred field px domain core)"
  by (simp add: closed_me_def closed_dict_def referred_def dkeys_append dkeys_cons) (simp add: dkeys_def)

lemma referred_item: "k \<noteq> field \<Longrightarrow> item (referred field px domain core) k = item core k"
  by (simp add: referred_def item_def dget_def map_add_def split: option.split)

lemma empty_subset [simp]: "subset_me e ss (VList []) = Inr ()" "refs_me demo e (VList []) = Inr ()"
  using is_sorted_set_strings [of "[]"] by (simp_all add: subset_me_def refs_me_def)

subsection \<open>The policy and the content\<close>

definition policy_part :: "bool \<Rightarrow> dict" where
  "policy_part auto =
     [(VStr (str ''schema''), VStr (str ''dm.memory.policy/v1'')), (VStr (str ''subject_me_id''), VStr me_ref),
      (VStr (str ''version''), VInt 1), (VStr (str ''predecessor_policy_id''), VNone),
      (VStr (str ''automatic_categories''), VList (if auto then [VStr (str ''personal-insight'')] else [])),
      (VStr (str ''review_classifications''), VList []),
      (VStr (str ''max_content_bytes''), VInt 1000), (VStr (str ''plan_ttl_ms''), VInt 1000)]"

abbreviation demo_policy :: "bool \<Rightarrow> dict" where
  "demo_policy auto \<equiv> referred ''policy_id'' policy_prefix policy_domain (policy_part auto)"

lemma demo_policy_plain: "plain (VDict (policy_part auto))"
  using demo_ids(3) by (simp add: policy_part_def isascii_str)

lemma demo_policy_valid: "validate_memory_policy demo (VDict (demo_policy auto)) = Inr (demo_policy auto)"
proof -
  have closed: "closed_me policy_fields e (VDict (demo_policy auto)) = Inr (demo_policy auto)" for e
    by (rule referred_closed) (auto simp: policy_part_def policy_fields_def dkeys_def key_set_def)
  have id: "check_derived demo ''policy_id'' policy_prefix policy_domain e (demo_policy auto) = Inr (demo_policy auto)" for e
    by (rule referred_derived [OF demo_policy_plain]) (simp add: policy_part_def dkeys_def)
  have categories: "subset_me e memory_categories (VList (if auto then [VStr (str ''personal-insight'')] else [])) = Inr ()" for e
    using is_sorted_set_strings [of "[str ''personal-insight'']"]
    by (cases auto) (simp add: subset_me_def in_strings_def memory_categories_def personal_categories_def, simp)
  have items: "item (demo_policy auto) ''schema'' = VStr (str ''dm.memory.policy/v1'')"
    "item (demo_policy auto) ''subject_me_id'' = VStr me_ref" "item (demo_policy auto) ''version'' = VInt 1"
    "item (demo_policy auto) ''predecessor_policy_id'' = VNone" "item (demo_policy auto) ''review_classifications'' = VList []"
    "item (demo_policy auto) ''automatic_categories'' = VList (if auto then [VStr (str ''personal-insight'')] else [])"
    "item (demo_policy auto) ''max_content_bytes'' = VInt 1000" "item (demo_policy auto) ''plan_ttl_ms'' = VInt 1000"
    by (simp_all add: referred_item policy_part_def dict_simps)
  have numbers: "uint_me e 1 (VInt 1) = Inr 1" "uint_me e 1 (VInt 1000) = Inr 1000" for e by (simp_all add: res max_uint_def)
  show ?thesis unfolding validate_memory_policy_def closed bindR_simps items numbers demo_scoped categories empty_subset
    by (simp add: id max_content_bytes_def)
qed

definition content_part :: dict where
  "content_part =
     [(VStr (str ''schema''), VStr (str ''dm.memory.content-ref/v1'')), (VStr (str ''sha256''), VStr (mf_digest demo_manifest)),
      (VStr (str ''byte_length''), VInt 10), (VStr (str ''media_type''), VStr (str ''text/plain'')),
      (VStr (str ''classification''), VStr (str ''personal''))]"

abbreviation demo_content :: dict where
  "demo_content \<equiv> referred ''content_id'' content_prefix content_domain content_part"

lemma demo_content_plain: "plain (VDict content_part)"
  using demo_digest(2) by (simp add: content_part_def isascii_str)

lemma demo_content_valid: "validate_content_ref demo (VDict demo_content) = Inr demo_content"
proof -
  have closed: "closed_me content_fields e (VDict demo_content) = Inr demo_content" for e
    by (rule referred_closed) (auto simp: content_part_def content_fields_def dkeys_def key_set_def)
  have id: "check_derived demo ''content_id'' content_prefix content_domain e demo_content = Inr demo_content" for e
    by (rule referred_derived [OF demo_content_plain]) (simp add: content_part_def dkeys_def)
  have items: "item demo_content ''schema'' = VStr (str ''dm.memory.content-ref/v1'')"
    "item demo_content ''sha256'' = VStr (mf_digest demo_manifest)" "item demo_content ''byte_length'' = VInt 10"
    "item demo_content ''media_type'' = VStr (str ''text/plain'')" "item demo_content ''classification'' = VStr (str ''personal'')"
    by (simp_all add: referred_item content_part_def dict_simps)
  have media: "is_media_type (str ''text/plain'')" by (simp add: is_media_type_def media_char_def str_def Let_def)
  have known: "member_me e classifications (VStr (str ''personal'')) = Inr ()" for e by (simp add: res classifications_def)
  have scalars: "hash_me e (VStr (mf_digest demo_manifest)) = Inr (mf_digest demo_manifest)" "uint_me e 1 (VInt 10) = Inr 10" for e
    using demo_digest(1) by (simp_all add: res max_uint_def)
  show ?thesis unfolding validate_content_ref_def closed bindR_simps items id known scalars
    by (simp add: demo_text_me isascii_str media)
qed

subsection \<open>The candidate and the checkpoint\<close>

definition candidate_part :: dict where
  "candidate_part =
     [(VStr (str ''schema''), VStr (str ''dm.memory.candidate/v1'')), (VStr (str ''subject_me_id''), VStr me_ref),
      (VStr (str ''author_me_id''), VStr me_ref), (VStr (str ''category''), VStr (str ''personal-insight'')),
      (VStr (str ''derivation''), VStr (str ''local-synthesis'')), (VStr (str ''context''), VStr (str ''demo'')),
      (VStr (str ''content_ref''), VDict demo_content), (VStr (str ''evidence_refs''), VList []),
      (VStr (str ''classification''), VStr (str ''personal'')), (VStr (str ''consent''), VStr (str ''granted'')),
      (VStr (str ''safety''), VStr (str ''clear'')), (VStr (str ''contradiction''), VStr (str ''none'')),
      (VStr (str ''effect''), VStr (str ''local-only'')),
      (VStr (str ''lane''), VDict [(VStr (str ''memory_id''), VStr (demo_uuid 4)), (VStr (str ''operation''), VStr (str ''assert'')),
         (VStr (str ''sequence''), VInt 1), (VStr (str ''predecessor_event_id''), VNone), (VStr (str ''predecessor_hash''), VNone)]),
      (VStr (str ''body_evidence''), VNone), (VStr (str ''predecessor_decision_id''), VNone)]"

abbreviation demo_candidate :: dict where
  "demo_candidate \<equiv> referred ''candidate_id'' candidate_prefix candidate_domain candidate_part"

abbreviation demo_lane :: dict where "demo_lane \<equiv> dict_item candidate_part ''lane''"

lemma referred_plain:
  assumes "plain (VDict core)" and "VStr (str field) \<notin> dkeys core" and "isascii (str px)" "isascii (str field)"
  shows "plain (VDict (referred field px domain core))"
  using assms demo_ref_text(1) [OF assms(3), of domain core] by (auto simp: referred_def dkeys_def)

lemma demo_content_referred: "plain (VDict demo_content)"
  by (rule referred_plain [OF demo_content_plain]) (simp_all add: content_part_def dkeys_def isascii_str)

lemma demo_candidate_plain: "plain (VDict candidate_part)"
  unfolding candidate_part_def using demo_ids(3) demo_uuid(2) [of 4] demo_content_referred by (simp add: isascii_str)

lemma demo_candidate_items:
  "item demo_candidate ''schema'' = VStr (str ''dm.memory.candidate/v1'')" "item demo_candidate ''subject_me_id'' = VStr me_ref"
  "item demo_candidate ''author_me_id'' = VStr me_ref" "item demo_candidate ''category'' = VStr (str ''personal-insight'')"
  "item demo_candidate ''derivation'' = VStr (str ''local-synthesis'')" "item demo_candidate ''context'' = VStr (str ''demo'')"
  "item demo_candidate ''content_ref'' = VDict demo_content" "item demo_candidate ''evidence_refs'' = VList []"
  "item demo_candidate ''classification'' = VStr (str ''personal'')" "item demo_candidate ''consent'' = VStr (str ''granted'')"
  "item demo_candidate ''safety'' = VStr (str ''clear'')" "item demo_candidate ''contradiction'' = VStr (str ''none'')"
  "item demo_candidate ''effect'' = VStr (str ''local-only'')" "item demo_candidate ''lane'' = VDict demo_lane"
  "item demo_candidate ''body_evidence'' = VNone" "item demo_candidate ''predecessor_decision_id'' = VNone"
  by (simp_all add: referred_item candidate_part_def dict_simps dict_item_def)

lemma demo_lane_items:
  "item demo_lane ''memory_id'' = VStr (demo_uuid 4)" "item demo_lane ''operation'' = VStr (str ''assert'')"
  "item demo_lane ''sequence'' = VInt 1" "item demo_lane ''predecessor_event_id'' = VNone" "item demo_lane ''predecessor_hash'' = VNone"
  by (simp_all add: candidate_part_def dict_simps dict_item_def)

lemma demo_lane_item: "dict_item demo_candidate ''lane'' = demo_lane"
  using demo_candidate_items(14) by (simp add: dict_item_def [of demo_candidate])

lemma demo_lane_valid: "validate_lane (VDict demo_lane) = Inr demo_lane"
proof -
  have closed: "closed_me lane_fields e (VDict demo_lane) = Inr demo_lane" for e
    by (simp add: closed_me_def closed_dict_def candidate_part_def dict_simps dict_item_def lane_fields_def key_set_def)
      (simp add: dkeys_def)
  have scalars: "uuid_me e (VStr (demo_uuid 4)) = Inr (demo_uuid 4)" "uint_me e 1 (VInt 1) = Inr 1"
    "member_me e [''assert'', ''correct'', ''retract''] (VStr (str ''assert'')) = Inr ()" for e
    using demo_uuid(1) [of 4] by (simp_all add: res max_uint_def)
  show ?thesis unfolding validate_lane_def closed bindR_simps demo_lane_items scalars by simp
qed

lemma demo_candidate_valid: "validate_memory_candidate demo (VDict demo_candidate) = Inr demo_candidate"
proof -
  have closed: "closed_me candidate_fields e (VDict demo_candidate) = Inr demo_candidate" for e
    by (rule referred_closed) (simp add: candidate_part_def dict_simps candidate_fields_def key_set_def, simp add: dkeys_def insert_commute)
  have id: "check_derived demo ''candidate_id'' candidate_prefix candidate_domain e demo_candidate = Inr demo_candidate" for e
    by (rule referred_derived [OF demo_candidate_plain]) (simp add: candidate_part_def dkeys_def)
  have known: "member_me e memory_categories (VStr (str ''personal-insight'')) = Inr ()" "member_me e derivations (VStr (str ''local-synthesis'')) = Inr ()"
    "member_me e classifications (VStr (str ''personal'')) = Inr ()" "member_me e [''granted'', x, y] (VStr (str ''granted'')) = Inr ()"
    "member_me e [''clear'', x, y] (VStr (str ''clear'')) = Inr ()" "member_me e [''none'', x, y] (VStr (str ''none'')) = Inr ()"
    "member_me e [''local-only'', x, y] (VStr (str ''local-only'')) = Inr ()" for e x y
    by (simp_all add: res classifications_def memory_categories_def personal_categories_def derivations_def)
  have others: "check_predecessor demo e demo_lane VNone = Inr ()" "check_content demo demo_lane (VDict demo_content) = Inr ()"
    "validate_body_evidence demo VNone = Inr ()" for e
    by (simp_all add: check_predecessor_def int_item_def demo_lane_items optional_id_def check_content_def demo_content_valid
        validate_body_evidence_def)
  show ?thesis unfolding validate_memory_candidate_def closed bindR_simps demo_candidate_items demo_scoped known demo_lane_valid others
      empty_subset id by simp
qed

definition demo_checkpoint :: "pystr \<Rightarrow> pystr \<Rightarrow> dict" where
  "demo_checkpoint h ph = checkpoint_dict demo_ledger [] [] ''absent'' [(VStr (str ''projection_hash''), VStr ph)] h 5000"

lemma demo_checkpoint_items:
  "item (demo_checkpoint h ph) ''schema'' = VStr (str ''dm.memory.checkpoint/v1'')" "item (demo_checkpoint h ph) ''being_ref'' = VStr me_ref"
  "item (demo_checkpoint h ph) ''manifest_hash'' = VStr (mf_digest demo_manifest)"
  "item (demo_checkpoint h ph) ''local_origin'' = origin_val demo_origin" "item (demo_checkpoint h ph) ''ledger_state_hash'' = VStr h"
  "item (demo_checkpoint h ph) ''projection_hash'' = VStr ph" "item (demo_checkpoint h ph) ''evidence_refs'' = VList []"
  "item (demo_checkpoint h ph) ''body_evidence_state'' = VStr (str ''absent'')" "item (demo_checkpoint h ph) ''lane_state'' = VStr (str ''empty'')"
  "item (demo_checkpoint h ph) ''lane_event_ids'' = VList []" "item (demo_checkpoint h ph) ''lane_head'' = VNone"
  "item (demo_checkpoint h ph) ''captured_at_ms'' = VInt 5000"
  by (simp_all add: demo_checkpoint_def checkpoint_dict_def dict_simps lane_snapshot_def Let_def)

lemma demo_origin_scoped: "mapR (scoped_me demo e) (map snd (origin_dict demo_origin)) = Inr (map (str_of \<circ> snd) (origin_dict demo_origin))"
proof -
  have "isascii s \<and> memory_id_like s" if "s \<in> {o_embodiment_id demo_origin, o_incarnation_id demo_origin, o_principal_id demo_origin, o_body_ref demo_origin}" for s
    using that by (simp, elim disjE) (simp_all add: demo_origin_def memory_id_like_def scoped_char_def demo_uuid_def str_def)
  then show ?thesis by (simp add: origin_dict_def demo_scoped_me)
qed

lemma demo_checkpoint_valid:
  assumes "is_hex64 h" and "is_hex64 ph"
  shows "validate_memory_checkpoint demo (VDict (demo_checkpoint h ph)) = Inr (demo_checkpoint h ph)"
proof -
  have closed: "closed_me checkpoint_fields e (VDict (demo_checkpoint h ph)) = Inr (demo_checkpoint h ph)" for e
    by (simp add: closed_me_def closed_dict_def demo_checkpoint_def checkpoint_dict_def Let_def dict_simps checkpoint_fields_def key_set_def)
      (simp add: dkeys_def)
  have origin: "closed_me [''body_ref'', ''embodiment_id'', ''incarnation_id'', ''principal_id''] e (origin_val demo_origin) = Inr (origin_dict demo_origin)" for e
    by (simp add: closed_me_def closed_dict_def origin_val_def origin_dict_def dict_simps key_set_def) (auto simp: dkeys_def)
  have scalars: "hash_me e (VStr h) = Inr h" "hash_me e (VStr ph) = Inr ph" "hash_me e (VStr (mf_digest demo_manifest)) = Inr (mf_digest demo_manifest)"
    "member_me e [''absent'', x, y, z] (VStr (str ''absent'')) = Inr ()" "member_me e [''empty'', x, y] (VStr (str ''empty'')) = Inr ()"
    "uint_me e 0 (VInt 5000) = Inr 5000" for e x y z
    using assms demo_digest(1) by (simp_all add: res max_uint_def)
  show ?thesis
    unfolding validate_memory_checkpoint_def Let_def closed bindR_simps demo_checkpoint_items demo_scoped origin demo_origin_scoped
      scalars empty_subset
    using is_sorted_set_strings [of "[]"] by (simp add: lane_consistent_def validate_lane_head_def)
qed

section \<open>The evaluation\<close>

lemma demo_outcome:
  "memory_outcome (demo_policy auto) demo_candidate (demo_checkpoint h ph)
     = (if auto then (''eligible'', []) else (''review-required'', [''category-requires-review'']))"
proof -
  have extends: "lane_reason demo_candidate (demo_checkpoint h ph) = None"
    by (simp add: lane_reason_def Let_def demo_lane_item demo_candidate_items demo_checkpoint_items int_item_def demo_lane_items)
  have cleared: "cleared_outcome (demo_policy auto) demo_candidate
      = (if auto then (''eligible'', []) else (''review-required'', [''category-requires-review'']))"
    by (simp add: cleared_outcome_def demo_candidate_items list_item_def referred_item) (simp add: policy_part_def dict_simps)
  have size: "int_item demo_content ''byte_length'' = 10" "int_item (demo_policy auto) ''max_content_bytes'' = 1000"
    by (simp_all add: int_item_def referred_item content_part_def policy_part_def dict_simps)
  have classified: "content_classification demo_candidate = VStr (str ''personal'')"
    by (simp add: content_classification_def demo_candidate_items) (simp add: referred_item content_part_def dict_simps)
  have subject: "item (demo_policy auto) ''subject_me_id'' = VStr me_ref" by (simp add: referred_item policy_part_def dict_simps)
  show ?thesis
    by (simp add: memory_outcome_def founded_outcome_def demo_candidate_items demo_checkpoint_items size classified subject
        list_item_def derivation_mismatch_def is_one_of_def extends cleared)
qed

definition demo_decided :: "bool \<Rightarrow> pystr \<Rightarrow> pystr \<Rightarrow> dict" where
  "demo_decided auto h ph = decided_fields (demo_policy auto) demo_candidate (demo_checkpoint h ph) 5000"

definition demo_decision_id :: "bool \<Rightarrow> pystr \<Rightarrow> pystr \<Rightarrow> pystr" where
  "demo_decision_id auto h ph = demo_ref decision_prefix decision_domain
     ((VStr (str ''schema''), VStr (str ''dm.memory.policy-decision/v1'')) # demo_decided auto h ph)"

definition plan_part :: "bool \<Rightarrow> pystr \<Rightarrow> pystr \<Rightarrow> dict" where
  "plan_part auto h ph =
     [(VStr (str ''schema''), VStr (str ''dm.memory.transition-plan/v1'')), (VStr (str ''decision_id''), VStr (demo_decision_id auto h ph))]
     @ demo_decided auto h ph
     @ [(VStr (str ''event_preview''), VDict (memory_preview (demo_policy auto) demo_candidate (demo_decision_id auto h ph)))]"

abbreviation demo_mplan :: "bool \<Rightarrow> pystr \<Rightarrow> pystr \<Rightarrow> dict" where
  "demo_mplan auto h ph \<equiv> referred ''plan_id'' plan_prefix plan_domain (plan_part auto h ph)"

abbreviation demo_outcome_text :: "bool \<Rightarrow> string" where
  "demo_outcome_text auto \<equiv> if auto then ''eligible'' else ''review-required''"

abbreviation demo_reasons :: "bool \<Rightarrow> val" where
  "demo_reasons auto \<equiv> VList (map VStr (if auto then [] else [str ''category-requires-review'']))"

lemma demo_policy_id: "item (demo_policy auto) ''policy_id'' = VStr (demo_ref policy_prefix policy_domain (policy_part auto))"
  "item demo_candidate ''candidate_id'' = VStr (demo_ref candidate_prefix candidate_domain candidate_part)"
  "int_item (demo_policy auto) ''plan_ttl_ms'' = 1000"
  by (simp_all add: referred_def policy_part_def candidate_part_def dict_simps int_item_def)

lemma demo_decided:
  "demo_decided auto h ph =
     [(VStr (str ''policy_id''), VStr (demo_ref policy_prefix policy_domain (policy_part auto))),
      (VStr (str ''candidate_id''), VStr (demo_ref candidate_prefix candidate_domain candidate_part)),
      (VStr (str ''predecessor_decision_id''), VNone), (VStr (str ''subject_me_id''), VStr me_ref),
      (VStr (str ''checkpoint''), VDict (demo_checkpoint h ph)), (VStr (str ''evaluated_at_ms''), VInt 5000),
      (VStr (str ''expires_at_ms''), VInt 6000), (VStr (str ''outcome''), VStr (str (demo_outcome_text auto))),
      (VStr (str ''reasons''), demo_reasons auto)]"
  unfolding demo_decided_def decided_fields_def demo_outcome Let_def demo_policy_id demo_candidate_items by simp

lemma plan_part_items:
  "item (plan_part auto h ph) ''schema'' = VStr (str ''dm.memory.transition-plan/v1'')"
  "item (plan_part auto h ph) ''decision_id'' = VStr (demo_decision_id auto h ph)"
  "item (plan_part auto h ph) ''policy_id'' = VStr (demo_ref policy_prefix policy_domain (policy_part auto))"
  "item (plan_part auto h ph) ''candidate_id'' = VStr (demo_ref candidate_prefix candidate_domain candidate_part)"
  "item (plan_part auto h ph) ''predecessor_decision_id'' = VNone" "item (plan_part auto h ph) ''subject_me_id'' = VStr me_ref"
  "item (plan_part auto h ph) ''checkpoint'' = VDict (demo_checkpoint h ph)" "item (plan_part auto h ph) ''evaluated_at_ms'' = VInt 5000"
  "item (plan_part auto h ph) ''expires_at_ms'' = VInt 6000" "item (plan_part auto h ph) ''outcome'' = VStr (str (demo_outcome_text auto))"
  "item (plan_part auto h ph) ''reasons'' = demo_reasons auto"
  "item (plan_part auto h ph) ''event_preview'' = VDict (memory_preview (demo_policy auto) demo_candidate (demo_decision_id auto h ph))"
  by (simp_all add: plan_part_def demo_decided dict_simps)

lemma demo_prefixes: "isascii (str policy_prefix)" "isascii (str candidate_prefix)" "isascii (str decision_prefix)" "isascii (str plan_prefix)"
    "isascii (str content_prefix)"
  by (simp_all add: isascii_str)

lemma demo_checkpoint_plain: "isascii h \<Longrightarrow> isascii ph \<Longrightarrow> plain (VDict (demo_checkpoint h ph))"
  using demo_ids(3) demo_digest(2) demo_uuid(2) [of 1] demo_uuid(2) [of 2]
  by (simp add: demo_checkpoint_def checkpoint_dict_def Let_def lane_snapshot_def dict_simps isascii_str origin_val_def
      origin_dict_def demo_origin_def)

lemma demo_decided_plain:
  assumes "isascii h" "isascii ph"
  shows "plain (VDict ((VStr (str ''schema''), VStr (str ''dm.memory.policy-decision/v1'')) # demo_decided auto h ph))"
  using demo_checkpoint_plain [OF assms] demo_ids(3) demo_ref_text(1) [OF demo_prefixes(1)] demo_ref_text(1) [OF demo_prefixes(2)]
  unfolding demo_decided by (simp add: isascii_str)

lemma demo_payload_plain:
  assumes "isascii i"
  shows "plain (VDict (memory_payload (demo_policy auto) demo_candidate i))"
  using assms demo_content_referred demo_ids(3) demo_uuid(2) [of 4] demo_ref_text(1) [OF demo_prefixes(1)] demo_ref_text(1) [OF demo_prefixes(2)]
  unfolding memory_payload_def lane_part_def lane_fields_def demo_lane_item demo_policy_id demo_candidate_items
  by (simp add: demo_lane_items isascii_str)

lemma plan_part_plain:
  assumes "isascii h" "isascii ph"
  shows "plain (VDict (plan_part auto h ph))"
proof -
  have "isascii (demo_decision_id auto h ph)" unfolding demo_decision_id_def by (rule demo_ref_text(1) [OF demo_prefixes(3)])
  moreover from demo_payload_plain [OF this] have "plain (VDict (memory_preview (demo_policy auto) demo_candidate (demo_decision_id auto h ph)))"
    unfolding memory_preview_def demo_candidate_items using demo_ids(3) by (simp add: isascii_str is_one_of_def)
  ultimately show ?thesis using demo_decided_plain [OF assms] unfolding plan_part_def demo_decided by (simp add: isascii_str)
qed

lemma demo_mplan_valid:
  assumes "is_hex64 h" and "is_hex64 ph"
  shows "validate_memory_plan demo (VDict (demo_mplan auto h ph)) = Inr (demo_mplan auto h ph)"
proof -
  note ascii = isascii_hex64 [OF assms(1)] isascii_hex64 [OF assms(2)]
  have keys: "VStr (str ''plan_id'') \<notin> dkeys (plan_part auto h ph)" by (simp add: plan_part_def demo_decided dkeys_def)
  have closed: "closed_me plan_fields e (VDict (demo_mplan auto h ph)) = Inr (demo_mplan auto h ph)" for e
    by (rule referred_closed) (simp add: plan_part_def demo_decided dict_simps plan_fields_def key_set_def, simp add: dkeys_def insert_commute)
  have id: "check_derived demo ''plan_id'' plan_prefix plan_domain e (demo_mplan auto h ph) = Inr (demo_mplan auto h ph)" for e
    by (rule referred_derived [OF plan_part_plain [OF ascii] keys])
  have refs: "memory_ref demo policy_prefix e (VStr (demo_ref policy_prefix dm d)) = Inr (demo_ref policy_prefix dm d)"
    "memory_ref demo candidate_prefix e (VStr (demo_ref candidate_prefix dm d)) = Inr (demo_ref candidate_prefix dm d)"
    "memory_ref demo decision_prefix e (VStr (demo_decision_id auto h ph)) = Inr (demo_decision_id auto h ph)" for e dm d
    unfolding demo_decision_id_def by (rule demo_ref_accepted; simp add: demo_prefixes)+
  have items: "item (demo_mplan auto h ph) k = item (plan_part auto h ph) k" if "k \<noteq> ''plan_id''" for k
    using that by (rule referred_item)
  have decided: "check_decided demo e (demo_mplan auto h ph) = Inr ()" for e
  proof -
    have "member_me e outcomes (VStr (str (demo_outcome_text auto))) = Inr ()" by (simp add: res outcomes_def)
    moreover have "reasons_ok (demo_reasons auto) = Inr True"
      using is_sorted_set_strings [of "[str ''category-requires-review'']"] is_sorted_set_strings [of "[]"]
      by (simp add: reasons_ok_def)
    moreover have "uint_me e 0 (VInt 5000) = Inr 5000" "uint_me e 0 (VInt 6000) = Inr 6000" by (simp_all add: res max_uint_def)
    ultimately show ?thesis
      by (simp add: check_decided_def items plan_part_items demo_scoped optional_id_def demo_checkpoint_valid [OF assms] del: list.map)
  qed
  have preview: "check_preview (demo_mplan auto h ph) = Inr ()"
  proof -
    let ?p = "memory_preview (demo_policy auto) demo_candidate (demo_decision_id auto h ph)"
    have outcome: "executable_outcome (VStr (str (demo_outcome_text auto)))" by (simp add: executable_outcome_def)
    have "closed_me [''kind'', ''subject'', ''sensitivity'', ''payload''] e (VDict ?p) = Inr ?p" for e
      by (simp add: closed_me_def closed_dict_def memory_preview_def dict_simps key_set_def) (simp add: dkeys_def)
    moreover have "item ?p ''kind'' = VStr (str ''memory.recorded'')" by (simp add: memory_preview_def dict_simps)
    ultimately show ?thesis using outcome
      unfolding check_preview_def Let_def items [of "''outcome''", simplified] items [of "''event_preview''", simplified] plan_part_items
      by simp
  qed
  have core: "decision_core (demo_mplan auto h ph)
      = (VStr (str ''schema''), VStr (str ''dm.memory.policy-decision/v1'')) # demo_decided auto h ph"
    by (simp add: decision_core_def items plan_part_items demo_decided)
  have derived: "memory_derived demo decision_prefix decision_domain (decision_core (demo_mplan auto h ph)) = Inr (demo_decision_id auto h ph)"
    unfolding core demo_decision_id_def by (rule demo_derived [OF demo_decided_plain [OF ascii]])
  show ?thesis
    unfolding validate_memory_plan_def Let_def closed bindR_simps decided preview id derived
    by (simp add: items plan_part_items refs)
qed

lemma demo_evaluates:
  assumes "is_hex64 h" and "is_hex64 ph"
  shows "evaluate_memory_candidate demo (VDict (demo_policy auto)) (VDict demo_candidate) (VDict (demo_checkpoint h ph)) (VInt 5000)
    = Inr (demo_mplan auto h ph)"
proof -
  note ascii = isascii_hex64 [OF assms(1)] isascii_hex64 [OF assms(2)]
  have number: "uint_me e 0 (VInt 5000) = Inr 5000" for e by (simp add: res max_uint_def)
  have captured: "\<not> 5000 < int_item (demo_checkpoint h ph) ''captured_at_ms''" by (simp add: int_item_def demo_checkpoint_items)
  have outcome: "executable_outcome (item (demo_decided auto h ph) ''outcome'')"
    by (simp add: demo_decided dict_simps executable_outcome_def)
  have decision: "memory_derived demo decision_prefix decision_domain
      ((VStr (str ''schema''), VStr (str ''dm.memory.policy-decision/v1'')) # demo_decided auto h ph) = Inr (demo_decision_id auto h ph)"
    unfolding demo_decision_id_def by (rule demo_derived [OF demo_decided_plain [OF ascii]])
  have plan: "memory_derived demo plan_prefix plan_domain (plan_part auto h ph) = Inr (demo_ref plan_prefix plan_domain (plan_part auto h ph))"
    by (rule demo_derived [OF plan_part_plain [OF ascii]])
  show ?thesis
    unfolding evaluate_memory_candidate_def demo_policy_valid demo_candidate_valid demo_checkpoint_valid [OF assms] bindR_simps number Let_def
      if_not_P [OF captured] demo_decided_def [symmetric] decision if_P [OF outcome] plan_part_def [symmetric] plan
    using demo_mplan_valid [OF assms, of auto] by (simp add: referred_def [symmetric])
qed

section \<open>The event\<close>

lemma payload_atoms:
  "n < 1000 \<Longrightarrow> depth \<le> 16 \<Longrightarrow> payload_check demo depth VNone n = Inr (Suc n)"
  "n < 1000 \<Longrightarrow> depth \<le> 16 \<Longrightarrow> payload_check demo depth (VList []) n = Inr (Suc n)"
  by (simp_all add: max_payload_nodes_def max_payload_depth_def)

lemma payload_int:
  assumes "0 \<le> i" "i < 10000" "n < 1000" and "depth \<le> 16"
  shows "payload_check demo depth (VInt i) n = Inr (Suc n)"
  using plain_canonical [of "VInt i" demo] assms by (auto simp: max_payload_nodes_def max_payload_depth_def canonical_we_def)

lemma payload_nested:
  assumes "payload_items demo (Suc depth) d (Suc n) = Inr m" and "plain (VDict d)" and "n < 1000" and "depth \<le> 16"
  shows "payload_check demo depth (VDict d) n = Inr m"
  using plain_canonical [OF assms(2), of demo] assms(1,3,4)
  by (auto simp: max_payload_nodes_def max_payload_depth_def canonical_we_def)

lemma record_names:
  "list_all (\<lambda>k. \<not> secret_name (str k)) (record_fields @ content_fields)"
  by (simp add: record_fields_def lane_fields_def content_fields_def)
    (simp add: secret_name_def str_def fold_char_def)

text \<open>A text that a payload may hold.\<close>

definition tidy :: "pystr \<Rightarrow> bool" where
  "tidy s \<longleftrightarrow> isascii s \<and> 32 \<notin> set s \<and> length s \<le> 1000"

lemma no_space_str: "\<forall>c \<in> set t. of_char c \<noteq> (32 :: nat) \<Longrightarrow> 32 \<notin> set (str t)"
  by (auto simp: str_def)

lemma tidy_texts: "\<forall>c \<in> set t. of_char c < (128 :: nat) \<and> of_char c \<noteq> (32 :: nat) \<Longrightarrow> length t \<le> 1000 \<Longrightarrow> tidy (str t)"
  using isascii_str [of t] no_space_str [of t] by (simp add: tidy_def)

lemma tidy_hex: "is_hex64 s \<Longrightarrow> tidy s"
  using hex_below by (auto simp: tidy_def isascii_hex64 is_hex64_def list_all_iff)

lemma tidy_ref: "\<forall>c \<in> set px. of_char c < (128 :: nat) \<and> of_char c \<noteq> (32 :: nat) \<Longrightarrow> length px \<le> 900 \<Longrightarrow> tidy (demo_ref px dm d)"
  using demo_ref_text [OF isascii_str, of px dm d] no_space_str [of px] by (simp add: tidy_def)

lemma tidy_me: "tidy me_ref" "tidy (demo_uuid 4)"
  using demo_ids(3) demo_uuid(1,2) [of 4] uuid_ascii [of "demo_uuid 3"] uuid_ascii [of "demo_uuid 4"] demo_uuid(1) [of 3]
  by (simp_all add: tidy_def str_def)

lemma payload_tidy: "tidy s \<Longrightarrow> n < 1000 \<Longrightarrow> depth \<le> 16 \<Longrightarrow> payload_check demo depth (VStr s) n = Inr (Suc n)"
  by (rule payload_text) (simp_all add: tidy_def)

lemma payload_entry:
  assumes "k \<in> set (record_fields @ content_fields)" and "payload_check demo depth v n = Inr m"
  shows "payload_items demo depth ((VStr (str k), v) # d) n = payload_items demo depth d m"
  using record_names assms by (simp add: list_all_iff)

lemma demo_content_payload: "payload_items demo 2 demo_content 11 = Inr 17"
proof -
  have "demo_content = [(VStr (str ''schema''), VStr (str ''dm.memory.content-ref/v1'')), (VStr (str ''sha256''), VStr (mf_digest demo_manifest)),
      (VStr (str ''byte_length''), VInt 10), (VStr (str ''media_type''), VStr (str ''text/plain'')),
      (VStr (str ''classification''), VStr (str ''personal'')),
      (VStr (str ''content_id''), VStr (demo_ref content_prefix content_domain content_part))]"
    by (simp add: referred_def) (simp add: content_part_def)
  moreover have "tidy (str ''dm.memory.content-ref/v1'')" "tidy (mf_digest demo_manifest)" "tidy (str ''text/plain'')" "tidy (str ''personal'')"
    "tidy (demo_ref content_prefix content_domain content_part)"
    by (simp_all add: tidy_texts tidy_hex demo_digest(1) tidy_ref)
  ultimately show ?thesis
    by (simp add: payload_entry payload_tidy payload_int content_fields_def del: payload_check.simps payload_items.simps(2))
qed

lemma demo_payload_dict:
  assumes "tidy i"
  shows "payload_dict demo (VDict (memory_payload (demo_policy auto) demo_candidate i)) = Inr (memory_payload (demo_policy auto) demo_candidate i)"
proof -
  let ?p = "memory_payload (demo_policy auto) demo_candidate i"
  have p: "?p = [(VStr (str ''schema''), VStr (str ''dm.memory.record/v1'')), (VStr (str ''memory_id''), VStr (demo_uuid 4)),
      (VStr (str ''operation''), VStr (str ''assert'')), (VStr (str ''sequence''), VInt 1), (VStr (str ''predecessor_event_id''), VNone),
      (VStr (str ''predecessor_hash''), VNone), (VStr (str ''category''), VStr (str ''personal-insight'')),
      (VStr (str ''author_me_id''), VStr me_ref), (VStr (str ''context''), VStr (str ''demo'')),
      (VStr (str ''content_ref''), VDict demo_content), (VStr (str ''evidence_refs''), VList []),
      (VStr (str ''policy_id''), VStr (demo_ref policy_prefix policy_domain (policy_part auto))),
      (VStr (str ''candidate_id''), VStr (demo_ref candidate_prefix candidate_domain candidate_part)),
      (VStr (str ''decision_id''), VStr i), (VStr (str ''predecessor_decision_id''), VNone)]"
    unfolding memory_payload_def lane_part_def lane_fields_def demo_lane_item demo_policy_id demo_candidate_items
    by (simp add: demo_lane_items)
  have texts: "tidy (str ''dm.memory.record/v1'')" "tidy (str ''assert'')" "tidy (str ''personal-insight'')" "tidy (str ''demo'')"
    "tidy (demo_ref policy_prefix policy_domain (policy_part auto))" "tidy (demo_ref candidate_prefix candidate_domain candidate_part)"
    by (simp_all add: tidy_texts tidy_ref)
  have content: "payload_check demo 1 (VDict demo_content) 10 = Inr 17"
    using demo_content_payload by (intro payload_nested demo_content_referred) (simp_all add: numeral_2_eq_2)
  have "payload_items demo 1 ?p 1 = Inr 22"
    unfolding p using assms texts tidy_me content
    by (simp add: payload_entry payload_tidy payload_int payload_atoms record_fields_def lane_fields_def
        del: payload_check.simps payload_items.simps(2) One_nat_def)
  then have "payload_check demo 0 (VDict ?p) 0 = Inr 22"
    using assms by (intro payload_nested demo_payload_plain) (simp_all add: tidy_def)
  moreover have "length ?p \<le> 64" unfolding p by simp
  ultimately show ?thesis unfolding payload_dict_def by simp
qed

definition memory_core :: "bool \<Rightarrow> pystr \<Rightarrow> pystr \<Rightarrow> core" where
  "memory_core auto h ph = \<lparr>e_id = memory_event_id (demo_mplan auto h ph), e_being_ref = me_ref,
     e_manifest_hash = mf_digest demo_manifest, e_origin = demo_origin, e_sequence = 1, e_previous = None,
     e_occurred_at_ms = 5000, e_parents = [], e_kind = str ''memory.recorded'', e_subject = me_ref,
     e_payload = memory_payload (demo_policy auto) demo_candidate (demo_decision_id auto h ph), e_supersedes = None,
     e_sensitivity = str ''personal''\<rparr>"

lemma tidy_decision: "tidy (demo_decision_id auto h ph)"
  unfolding demo_decision_id_def by (rule tidy_ref) simp_all

lemma memory_core_rules: "kind_rules demo (memory_core auto h ph) = Inr ()"
proof -
  let ?p = "memory_payload (demo_policy auto) demo_candidate (demo_decision_id auto h ph)"
  have "validate_memory_record demo (VDict ?p) = Inr ?p"
  proof (rule memory_payload_accepted [OF demo_candidate_valid])
    show "memory_ref demo policy_prefix [] (item (demo_policy auto) ''policy_id'') = Inr (demo_ref policy_prefix policy_domain (policy_part auto))"
      "memory_ref demo candidate_prefix [] (item demo_candidate ''candidate_id'') = Inr (demo_ref candidate_prefix candidate_domain candidate_part)"
      "memory_ref demo decision_prefix [] (VStr (demo_decision_id auto h ph)) = Inr (demo_decision_id auto h ph)"
      unfolding demo_policy_id demo_decision_id_def by (rule demo_ref_accepted; simp add: demo_prefixes)+
  qed
  moreover have "item ?p ''predecessor_event_id'' = VNone"
    using lane_field_record [of "''predecessor_event_id''" "demo_policy auto" demo_candidate]
    by (simp add: lane_fields_def demo_lane_item demo_lane_items)
  ultimately show ?thesis by (simp add: kind_rules_def memory_core_def memory_rule_def opt_str_def)
qed

lemma memory_core_ok: "demo_core (memory_core auto h ph)"
  using memory_core_rules [of auto h ph] demo_payload_dict [OF tidy_decision, of auto auto h ph] demo_ids(3)
  unfolding demo_core_def
  by (simp add: memory_core_def memory_event_id_def event_kinds_def sensitivities_def demo_uuid(4))

lemma memory_event_id_text: "isascii (memory_event_id d)" "length (memory_event_id d) = 36"
  using uuid_ascii [of "memory_event_id d"] by (simp_all add: memory_event_id_def)

lemma memory_core_plain: "plain (VDict (core_dict (memory_core auto h ph)))"
  using demo_payload_plain [of "demo_decision_id auto h ph" auto] tidy_decision [of auto h ph] demo_ids(3) demo_digest(2)
    memory_event_id_text(1) demo_uuid(2) [of 1] demo_uuid(2) [of 2]
  by (simp add: core_dict_def memory_core_def tidy_def origin_val_def origin_dict_def demo_origin_def opt_str_def protocol_def isascii_str)

lemma memory_core_cost: "cost (VDict (core_dict (memory_core auto h ph))) \<le> 200000"
proof -
  have "length (mf_digest demo_manifest) = 64" by (rule length_digest)
  moreover have "length (demo_decision_id auto h ph) = 65" unfolding demo_decision_id_def by (simp add: demo_ref_text demo_prefixes)
  ultimately show ?thesis
    unfolding core_dict_def memory_core_def memory_payload_def lane_part_def lane_fields_def demo_lane_item demo_policy_id demo_candidate_items
    by (simp add: demo_lane_items memory_event_id_text(2) demo_uuid(4) origin_val_def origin_dict_def demo_origin_def opt_str_def
        protocol_def demo_ref_text demo_prefixes referred_def) (simp add: content_part_def demo_ref_text demo_prefixes)
qed

definition demo_memory_event :: "bool \<Rightarrow> pystr \<Rightarrow> pystr \<Rightarrow> event" where
  "demo_memory_event auto h ph = signed_core (memory_core auto h ph)"

lemma demo_memory_authoring:
  "memory_authoring (demo_mplan auto h ph) =
     \<lparr>au_kind = str ''memory.recorded'', au_subject = me_ref,
      au_payload = memory_payload (demo_policy auto) demo_candidate (demo_decision_id auto h ph), au_sensitivity = str ''personal'',
      au_parents = [], au_supersedes = None, au_occurred_at_ms = Some 5000, au_event_id = Some (memory_event_id (demo_mplan auto h ph))\<rparr>"
proof -
  have preview: "dict_item (demo_mplan auto h ph) ''event_preview'' = memory_preview (demo_policy auto) demo_candidate (demo_decision_id auto h ph)"
    and cp: "dict_item (demo_mplan auto h ph) ''checkpoint'' = demo_checkpoint h ph"
    and at: "int_item (demo_mplan auto h ph) ''evaluated_at_ms'' = 5000"
    by (simp_all add: dict_item_def [of "referred _ _ _ (plan_part _ _ _)"] int_item_def referred_item plan_part_items)
  show ?thesis unfolding memory_authoring_def Let_def preview cp at
    by (simp add: memory_preview_def dict_simps str_item_def dict_item_def [of "(_, _) # _"] demo_candidate_items is_one_of_def
        list_item_def demo_checkpoint_items)
qed

lemma demo_memory_created:
  "create_event demo demo_authority (origin_dict demo_origin) demo_signer
     (draft_of demo_ledger (memory_authoring (demo_mplan auto h ph)) demo_start now uid) = Inr (demo_memory_event auto h ph)"
  unfolding demo_memory_event_def
proof (rule signed_core_created [OF demo_core_validates [OF memory_core_ok] _ memory_core_plain memory_core_cost])
  show "draft_dict demo_authority (origin_dict demo_origin)
      (draft_of demo_ledger (memory_authoring (demo_mplan auto h ph)) demo_start now uid) = core_dict (memory_core auto h ph)"
    by (simp add: demo_memory_authoring draft_of_def head_event_def sort_key_def Let_def draft_dict_def core_dict_def memory_core_def
        origin_val_def opt_str_def)
qed (simp add: memory_core_def)

text \<open>The state after the event, but for the journal.\<close>

definition demo_memory_db :: "bool \<Rightarrow> pystr \<Rightarrow> pystr \<Rightarrow> db" where
  "demo_memory_db auto h ph =
     (let e = demo_memory_event auto h ph in
      demo_start\<lparr>t_events := [\<lparr>r_event = e, r_known = True, r_source = str ''local''\<rparr>],
        t_known_feed := [e_id e], t_conversation_feed := Some [e_id e]\<rparr>)"

lemma demo_memory_append:
  "append_step demo demo_ledger demo_signer (memory_authoring (demo_mplan auto h ph)) now uid demo_start
     = Inr (demo_memory_event auto h ph, demo_memory_db auto h ph)"
proof -
  let ?e = "demo_memory_event auto h ph" and ?t = "demo_memory_db auto h ph"
  have deps: "dependencies_res ?e = Inr {}"
    by (simp add: dependencies_res_def payload_refs_def Let_def demo_memory_event_def memory_core_def)
  then have none: "dependencies ?e = {}" by (simp add: dependencies_def)
  have "check_identity demo demo_start ?e = Inr ()" by (simp add: check_identity_def)
  then have insert: "insert_event demo ?e (str ''local'') True demo_start = Inr ((), ?t)"
    by (simp add: insert_event_def find_row_None find_position_None Let_def none)
      (simp add: feed_known_def feed_conversation_def demo_memory_db_def demo_start_def empty_db_def Let_def)
  have "drop_known_evidence ?t = ?t" by (simp add: drop_known_evidence_def demo_memory_db_def demo_start_def empty_db_def Let_def)
  moreover have "promotable ?t = []" by (simp add: promotable_def sort_key_def demo_memory_db_def Let_def)
  ultimately have "promote ?t = ?t" by (subst promote.simps) simp
  with insert deps show ?thesis by (simp add: append_step_def demo_memory_created)
qed

lemma demo_state_hash:
  obtains h where "state_hash demo demo_ledger demo_start = Inr h" "state_hash demo demo_ledger empty_db = Inr h" "is_hex64 h"
proof -
  have accepted: "accepted_manifest_hashes demo_authority = None" by (simp add: demo_authority_def)
  have events: "t_events demo_start = []" "t_events empty_db = []" by (simp_all add: demo_start_def empty_db_def)
  have "plain (VDict [(VStr (str ''schema''), VStr (str ''dm.ledger-state/v1'')),
      (VStr (str ''active_manifest_hash''), VStr (mf_digest demo_manifest)),
      (VStr (str ''accepted_manifest_hashes''), VList (map VStr (accepted_hashes demo_ledger))), (VStr (str ''events''), VList [])])"
    using demo_digest(2) accepted by (simp add: accepted_hashes_def isascii_str)
  from plain_canonical [OF this, of demo] that show thesis
    by (auto simp: state_hash_def events sort_key_def Let_def is_hex64_sha256_hex)
qed

section \<open>The executions\<close>

lemma demo_execution_hash:
  assumes "plain (VDict ([(VStr (str ''schema''), VStr (str ''dm.memory.execution/v1'')), (VStr (str ''plan_id''), item d ''plan_id'')] @ extra))"
  obtains q where "execution_hash demo d extra = Inr q" "is_hex64 q"
  using plain_canonical [OF assms, of demo] that by (auto simp: execution_hash_def is_hex64_sha256_hex)

abbreviation demo_client :: pystr where "demo_client \<equiv> str ''client''"

lemma demo_memory_idempotent:
  assumes "is_hex64 q" and "state_hash demo demo_ledger demo_start = Inr h" and "is_hex64 h"
    and "initialize demo demo_ledger s = (Inr (), demo_start)"
  shows "append_memory demo demo_ledger demo_signer (demo_mplan auto h ph)
     \<lparr>op_client_id = demo_client, op_request_id = demo_uuid 5, op_request_hash = q\<rparr> (VStr h) clock s
   = (Inr (demo_memory_event auto h ph), (demo_memory_db auto h ph)
       \<lparr>t_local_ops := [((demo_client, demo_uuid 5), (q, memory_event_id (demo_mplan auto h ph)))]\<rparr>)"
proof -
  let ?r = "\<lparr>op_client_id = demo_client, op_request_id = demo_uuid 5, op_request_hash = q\<rparr>"
  have valid: "validate_rpc_identity demo_client (demo_uuid 5) q = Inr ()"
    using assms(1) demo_uuid(1) [of 5] by (simp add: validate_rpc_identity_def utf8_ascii isascii_str length_utf8_ascii)
  have "t_local_ops (demo_memory_db auto h ph) = []" by (simp add: demo_memory_db_def demo_start_def empty_db_def Let_def)
  then have "append_idempotent_step demo demo_ledger demo_signer (memory_authoring (demo_mplan auto h ph)) ?r (Some h) None clock [] demo_start
      = Inr (demo_memory_event auto h ph, (demo_memory_db auto h ph)
         \<lparr>t_local_ops := [((demo_client, demo_uuid 5), (q, memory_event_id (demo_mplan auto h ph)))]\<rparr>)"
    using assms(2) by (simp add: append_idempotent_step_def expired_def demo_memory_append op_key_def)
      (simp add: demo_memory_event_def memory_core_def)
  then show ?thesis
    using assms(3,4) by (simp add: append_memory_def stale_op_def append_local_idempotent_def bindO_def returnO_def valid recording_def transaction_def)
qed

lemma demo_plan_current:
  assumes "is_hex64 h" and "is_hex64 ph"
  shows "n \<in> {5000, 5500} \<Longrightarrow> plan_current demo (demo_outcome_text auto) e (VDict (demo_mplan auto h ph)) n = Inr (demo_mplan auto h ph)"
    "revalidate demo (demo_mplan auto h ph) (VDict (demo_policy auto)) (VDict demo_candidate) = Inr ()"
    "check_executor demo_ledger (demo_mplan auto h ph) = Inr ()"
proof -
  have items: "item (demo_mplan auto h ph) k = item (plan_part auto h ph) k" if "k \<noteq> ''plan_id''" for k
    using that by (rule referred_item)
  show "plan_current demo (demo_outcome_text auto) e (VDict (demo_mplan auto h ph)) n = Inr (demo_mplan auto h ph)" if "n \<in> {5000, 5500}"
  proof -
    have number: "uint_me e 0 (VInt n) = Inr n" "\<not> 6000 < n" for e using that by (auto simp: res max_uint_def)
    show ?thesis unfolding plan_current_def demo_mplan_valid [OF assms] bindR_simps number
      using number(2) by (simp add: items plan_part_items int_item_def)
  qed
  have "plain (VDict (demo_mplan auto h ph))"
    by (rule referred_plain [OF plan_part_plain [OF isascii_hex64 [OF assms(1)] isascii_hex64 [OF assms(2)]]])
      (simp_all add: plan_part_def demo_decided dkeys_def isascii_str)
  from plain_py_eq [OF this] show "revalidate demo (demo_mplan auto h ph) (VDict (demo_policy auto)) (VDict demo_candidate) = Inr ()"
    by (simp add: revalidate_def items plan_part_items demo_evaluates [OF assms])
  show "check_executor demo_ledger (demo_mplan auto h ph) = Inr ()"
    by (simp add: check_executor_def items plan_part_items)
qed

text \<open>The checkpoint that the ledger gives, with the projection of no events.\<close>

lemma demo_projection:
  obtains d ph where "snapshot_of demo demo_ledger demo_start = Inr d" "item d ''projection_hash'' = VStr ph" "is_hex64 ph"
proof -
  let ?core = "snapshot_core demo_ledger []"
  have plain: "plain (VDict ?core)"
    using demo_ids(3) demo_digest(2) demo_uuid(2) [of 1]
    by (simp add: snapshot_core_def Let_def isascii_str projection_schema_def demo_origin_def)
  then obtain raw where raw: "canonical_bytes demo (VDict ?core) = Inr raw" using plain_canonical by blast
  let ?h = "sha256_hex (str projection_domain @ [0] @ raw)"
  let ?d = "?core @ [(VStr (str ''projection_hash''), VStr ?h)]"
  have without: "without [''projection_hash''] ?d = ?core" by (simp add: without_def snapshot_core_def Let_def)
  have closed: "closed_dict e snapshot_fields (VDict ?d) = Inr ?d" for e
    by (simp add: closed_dict_def snapshot_core_def Let_def dict_simps snapshot_fields_def key_set_def) (auto simp: dkeys_def)
  have items: "item ?d ''schema'' = VStr (str projection_schema)" "item ?d ''being_ref'' = VStr me_ref"
    "item ?d ''manifest_hash'' = VStr (mf_digest demo_manifest)" "item ?d ''local_embodiment_id'' = VStr (o_embodiment_id demo_origin)"
    "item ?d ''entries'' = VList []" "item ?d ''projection_hash'' = VStr ?h"
    by (simp_all add: snapshot_core_def Let_def dict_simps)
  have "projection_text 256 (VStr me_ref) = Inr True" "projection_text 256 (VStr (o_embodiment_id demo_origin)) = Inr True"
    using demo_ids(3) demo_uuid(2) [of 1]
    by (simp_all add: projection_text_def utf8_ascii isascii_str length_utf8_ascii demo_uuid(4) demo_origin_def)
  moreover have "hash_check e (VStr (mf_digest demo_manifest)) = Inr (mf_digest demo_manifest)" "hash_check e (VStr ?h) = Inr ?h" for e
    using demo_digest(1) by (simp_all add: res is_hex64_sha256_hex)
  ultimately have "verify_snapshot demo (VDict ?d) = Inr ?d"
    unfolding verify_snapshot_def Let_def closed bindR_simps items without raw by simp
  moreover have "list_events False demo_start = []"
    by (simp add: list_events_def sort_key_def demo_start_def empty_db_def)
  ultimately have "snapshot_of demo demo_ledger demo_start = Inr ?d"
    by (simp add: snapshot_of_def entries_of_def sort_key_def Let_def raw)
  then show thesis using that [of ?d ?h] items(6) by (simp add: is_hex64_sha256_hex)
qed

lemma demo_memory_checkpoint:
  assumes "snapshot_of demo demo_ledger demo_start = Inr d" and "item d ''projection_hash'' = VStr ph" and "is_hex64 ph"
    and "state_hash demo demo_ledger demo_start = Inr h" and "is_hex64 h"
  shows "memory_checkpoint demo demo_ledger (VDict demo_candidate) 5000 demo_start = (Inr (demo_checkpoint h ph), demo_start)"
proof -
  have init: "initialize demo demo_ledger demo_start = (Inr (), demo_start)" using demo_live by simp
  have read: "bindO (read_ledger demo demo_ledger f) g demo_start = (case f demo_start of Inl e \<Rightarrow> (Inl e, demo_start) | Inr x \<Rightarrow> g x demo_start)"
    for f :: "db \<Rightarrow> 'a res" and g :: "'a \<Rightarrow> 'b op"
    by (simp add: read_ledger_def bindO_def init split: sum.split)
  have "list_events False demo_start = []" by (simp add: list_events_def sort_key_def demo_start_def empty_db_def)
  then have lane: "lane_of m demo_start = []" for m by (simp add: lane_of_def)
  have body: "body_state demo demo_ledger demo_candidate = returnO (Inr ''absent'')" by (simp add: body_state_def demo_candidate_items)
  have refs: "list_item demo_candidate ''evidence_refs'' = []" by (simp add: list_item_def demo_candidate_items)
  have snap: "snapshot demo demo_ledger = read_ledger demo demo_ledger (snapshot_of demo demo_ledger)"
    by (simp add: snapshot_def read_ledger_def)
  have cp: "checkpoint_dict demo_ledger [] [] ''absent'' d h 5000 = demo_checkpoint h ph"
    by (simp add: demo_checkpoint_def checkpoint_dict_def assms(2) dict_simps)
  have pure: "bindO (returnO (Inr x)) f = f x" for x :: 'a and f :: "'a \<Rightarrow> 'b op" by (simp add: bindO_def returnO_def fun_eq_iff)
  show ?thesis
    by (simp add: memory_checkpoint_def demo_candidate_valid pure read lane body refs snap assms(1,4) cp demo_checkpoint_valid [OF assms(5,3)])
      (simp add: returnO_def)
qed

section \<open>Witnesses\<close>

lemma pure_bind: "bindO (returnO (Inr x)) f = f x"
  by (simp add: bindO_def returnO_def fun_eq_iff)

lemma demo_plan_id_plain: "plain (item (demo_mplan auto h ph) ''plan_id'')"
proof -
  have "item (demo_mplan auto h ph) ''plan_id'' = VStr (demo_ref plan_prefix plan_domain (plan_part auto h ph))"
    by (simp add: referred_def plan_part_def demo_decided dict_simps)
  then show ?thesis by (simp add: demo_ref_text demo_prefixes)
qed

lemma demo_executes:
  obtains ph h x t where "execute demo demo_ledger demo_signer (VDict (demo_mplan True h ph)) (VDict (demo_policy True)) (VDict demo_candidate)
      demo_client (demo_uuid 5) 5500 clock empty_db = (Inr x, t)"
proof -
  obtain h where h: "state_hash demo demo_ledger demo_start = Inr h" "is_hex64 h" by (rule demo_state_hash)
  obtain ph where ph: "is_hex64 ph" using demo_digest(1) by blast
  let ?d = "demo_mplan True h ph"
  obtain q where q: "execution_hash demo ?d [] = Inr q" "is_hex64 q"
    by (rule demo_execution_hash [of ?d "[]"]) (simp add: isascii_str demo_plan_id_plain)
  have cp: "item (dict_item ?d ''checkpoint'') ''ledger_state_hash'' = VStr h"
    by (simp add: dict_item_def [of "referred _ _ _ (plan_part _ _ _)"] referred_item plan_part_items demo_checkpoint_items)
  have now: "plan_current demo ''eligible'' e (VDict ?d) 5500 = Inr ?d" for e
    using demo_plan_current(1) [OF h(2) ph, of 5500 True e] by simp
  show thesis
    using that [of h ph] demo_memory_idempotent [OF q(2) h demo_initialize, of True ph clock]
    by (simp add: execute_def now demo_plan_current(2,3) [OF h(2) ph] pure_bind q cp bindO_def [of "append_memory _ _ _ _ _ _ _"] returnO_def)
qed

lemma plain_item: "plain (VDict d) \<Longrightarrow> plain (item d k)"
  by (cases "dget d k") (auto simp: item_def list_all_iff dest!: dget_in_set)

lemma demo_executes_reviewed:
  obtains ph h x t where "execute_reviewed demo demo_ledger demo_signer (VDict (demo_mplan False h ph)) (VDict (demo_policy False))
      (VDict demo_candidate) (VStr (str ''dm:review-request:v1:1'')) (VList [VStr (str ''dm:review-decision:v1:1'')])
      demo_client (demo_uuid 5) 5000 clock demo_start = (Inr x, t)"
proof -
  obtain h where h: "state_hash demo demo_ledger demo_start = Inr h" "is_hex64 h" by (rule demo_state_hash)
  obtain d ph where ph: "snapshot_of demo demo_ledger demo_start = Inr d" "item d ''projection_hash'' = VStr ph" "is_hex64 ph"
    by (rule demo_projection)
  let ?d = "demo_mplan False h ph" and ?r = "str ''dm:review-request:v1:1''" and ?i = "str ''dm:review-decision:v1:1''"
  obtain q where q: "execution_hash demo ?d [(VStr (str ''review_request_id''), VStr ?r), (VStr (str ''decision_ids''), VList [VStr ?i])] = Inr q"
      "is_hex64 q"
    by (rule demo_execution_hash [of ?d "[(VStr (str ''review_request_id''), VStr ?r), (VStr (str ''decision_ids''), VList [VStr ?i])]"])
      (simp_all add: isascii_str demo_plan_id_plain)
  have cp: "dict_item ?d ''checkpoint'' = demo_checkpoint h ph"
    by (simp add: dict_item_def [of "referred _ _ _ (plan_part _ _ _)"] referred_item plan_part_items)
  have now: "plan_current demo ''review-required'' e (VDict ?d) 5000 = Inr ?d" for e
    using demo_plan_current(1) [OF h(2) ph(3), of 5000 False e] by simp
  have guard: "review_guard (VStr ?r) (VList [VStr ?i]) = Inr (?r, [VStr ?i])"
    using is_sorted_set_strings [of "[?i]"] by (simp add: review_guard_def startswith_def Let_def) (simp add: str_def)
  have "plain (VDict (demo_checkpoint h ph))" by (rule demo_checkpoint_plain [OF isascii_hex64 [OF h(2)] isascii_hex64 [OF ph(3)]])
  then have same: "list_ex (\<lambda>k. \<not> py_eq (item (demo_checkpoint h ph) k) (item (demo_checkpoint h ph) k)) ks = False" for ks
    using plain_py_eq [OF plain_item] by (simp add: list_ex_iff)
  have run: "bindO (memory_checkpoint demo demo_ledger (VDict demo_candidate) 5000) f demo_start = f (demo_checkpoint h ph) demo_start" for f
    unfolding bindO_def demo_memory_checkpoint [OF ph h] by simp
  have init: "initialize demo demo_ledger demo_start = (Inr (), demo_start)" using demo_live by simp
  show thesis
    using that [of h ph] demo_memory_idempotent [OF q(2) h init, of False ph clock]
    by (simp add: execute_reviewed_def now guard demo_plan_current(2,3) [OF h(2) ph(3)] pure_bind run cp same q demo_checkpoint_items
        bindO_def [of "append_memory _ _ _ _ _ _ _"]) (simp add: returnO_def)
qed

lemma automatic_memory_is_cleared_witness:
  "\<exists>mplan policy candidate x t. execute demo demo_ledger demo_signer mplan policy candidate demo_client (demo_uuid 5) 5500 (\<lambda>_. 0) empty_db
      = (Inr x, t) \<and> row_events t = row_events empty_db @ [ex_event x] \<and> e_kind (ex_event x) = str ''memory.recorded''"
proof -
  obtain h ph x t where run: "execute demo demo_ledger demo_signer (VDict (demo_mplan True h ph)) (VDict (demo_policy True)) (VDict demo_candidate)
      demo_client (demo_uuid 5) 5500 (\<lambda>_. 0) empty_db = (Inr x, t)" by (rule demo_executes)
  have "map_of (t_local_ops empty_db) (demo_client, demo_uuid 5) = None" by (simp add: empty_db_def)
  from automatic_memory_is_cleared [OF reachable.Empty run this] run show ?thesis by blast
qed

lemma reviewed_memory_extends_its_lane_witness:
  "\<exists>mplan policy candidate review ids x t m.
     execute_reviewed demo demo_ledger demo_signer mplan policy candidate review ids demo_client (demo_uuid 5) 5000 (\<lambda>_. 0) demo_start
       = (Inr x, t) \<and> row_events t = row_events demo_start @ [ex_event x]
       \<and> lane_snapshot (lane_of m t) = (''linear'', VDict (lane_head_of (ex_event x)))"
proof -
  obtain h ph x t where run: "execute_reviewed demo demo_ledger demo_signer (VDict (demo_mplan False h ph)) (VDict (demo_policy False))
      (VDict demo_candidate) (VStr (str ''dm:review-request:v1:1'')) (VList [VStr (str ''dm:review-decision:v1:1'')])
      demo_client (demo_uuid 5) 5000 (\<lambda>_. 0) demo_start = (Inr x, t)" by (rule demo_executes_reviewed)
  have "map_of (t_local_ops demo_start) (demo_client, demo_uuid 5) = None" by simp
  note extended = reviewed_memory_extends_its_lane [OF demo_start_reachable run this]
  moreover have "woken m demo_start t = {}" for m by (simp add: woken_def demo_start_def empty_db_def row_events_def)
  ultimately show ?thesis using run unfolding Let_def by blast
qed

lemma previewed_record_is_accepted_witness:
  "\<exists>policy candidate checkpoint d. evaluate_memory_candidate demo policy candidate checkpoint (VInt 5000) = Inr d
     \<and> memory_rule demo (demo_event_core 1 1 None []
          \<lparr>e_payload := au_payload (memory_authoring d), e_supersedes := au_supersedes (memory_authoring d)\<rparr>) = Inr ()"
proof -
  let ?h = "mf_digest demo_manifest"
  note run = demo_evaluates [OF demo_digest(1) demo_digest(1), of True]
  have "executable_outcome (item (demo_mplan True ?h ?h) ''outcome'')"
    by (simp add: referred_item plan_part_items executable_outcome_def)
  from previewed_record_is_accepted [OF run this] run show ?thesis by blast
qed

end
