(* ===== verification/Spec2Isabelle.thy ===== *)
theory Spec2Isabelle
  imports Canonical_Properties Identity_Properties Weave_Properties Delta_Properties Local_Properties Projection_Properties Sync
    Cluster_Properties Relationship_Store Relationship_Properties Execution_Properties Demo_Memory
begin

text \<open>
  A verification development of daimon-matrix (\<^verbatim>\<open>src/src/daimon_matrix/\<close> in the repository; file names
  below are relative to it).

  \<^bold>\<open>The program.\<close> A being is one identity that lives in several embodiments. A chain of control
  artifacts, each signed by a quorum of keys, says who may act for it (\<^verbatim>\<open>identity.py\<close>). Every embodiment
  keeps a ledger: an SQLite file of signed events, its own and its peers' (\<^verbatim>\<open>weave.py\<close>, \<^verbatim>\<open>ledger.py\<close>).
  Ledgers exchange pages of events (\<^verbatim>\<open>sync.py\<close>), and what they know is reduced to views: the local
  projection of adopted proposals (\<^verbatim>\<open>projections.py\<close>), and the contacts, tribes and grants between beings
  (\<^verbatim>\<open>relationships.py\<close>, \<^verbatim>\<open>relationship_store.py\<close>). Two components decide what an embodiment may do by
  itself: the memory policy, which evaluates candidates and appends the events of its plans to the ledger
  (\<^verbatim>\<open>memory_policy.py\<close>), and the execution journal, which spends the budgets of approved instructions
  (\<^verbatim>\<open>execution_instruction.py\<close>, \<^verbatim>\<open>execution_store.py\<close>). Everything that is signed or hashed is printed by
  \<^verbatim>\<open>canonical.py\<close>; \<^verbatim>\<open>cluster.py\<close> checks evidence about the effects on a cluster.

  \<^bold>\<open>Values, errors and parameters.\<close> The code validates untrusted Python values. \<open>Prelude\<close> has them as the
  datatype \<open>val\<close>: a string is the list of its code points, a dict an association list in insertion
  order with arbitrary values as keys, an integer is unbounded, and a float is opaque. Python's equality, hashing,
  ordering and \<^verbatim>\<open>TypeError\<close>s are functions on \<open>val\<close>. What may raise returns \<open>exc + 'a\<close>, the
  type \<open>'a res\<close>, where an exception has the class and the message of the source; the combinators are
  \<open>bindR\<close>, \<open>mapR\<close>, \<open>foldR\<close> and \<open>wrapR\<close>, which is \<^verbatim>\<open>try ... except ... raise\<close>. A checked mapping is
  read with \<open>item\<close>, whose value at a missing key is never used. The record \<open>platform\<close> holds what is not under
  \<^verbatim>\<open>src/\<close>: Unicode NFC, Ed25519 (public key, signing, verification), and the payload contracts that
  \<^verbatim>\<open>weave.py\<close> takes from the modules that are not modelled. The theorems hold for every platform; where one needs a
  law of it, it is a hypothesis (such as that a signature verifies under its key) and the witness
  discharges it for the platform \<open>demo\<close>. SHA-256 and the SHA-1 of version-5 UUIDs are defined after their standards
  (\<open>Sha256\<close>, \<open>Uuid5\<close>); no theorem assumes that a hash is collision-free.

  \<^bold>\<open>Which theory models what.\<close>
  \<^item> \<open>Canonical\<close>: all of \<^verbatim>\<open>canonical.py\<close>: normalisation to a closed data model, its printing, base64url,
    domain-separated digests. \<open>Patterns\<close>: the regular expressions of \<^verbatim>\<open>weave.py\<close> and \<^verbatim>\<open>cluster.py\<close>.
  \<^item> \<open>Identity\<close> and \<open>Identity_Authoring\<close>: all of \<^verbatim>\<open>identity.py\<close>: threshold policies, the control chain with its four
    kinds of successor (\<open>chain_add\<close> is \<^verbatim>\<open>ControlChain.add\<close>), credentials, incarnations, and the functions that
    make artifacts from seeds.
  \<^item> \<open>Relationships\<close>: the fourteen payloads of \<^verbatim>\<open>relationships.py\<close>, each accepted one a record.
    \<open>Relationship_View\<close> and \<open>Relationship_Store\<close>: the reduction of retained rows, disclosures, reports and
    the store's tables.
  \<^item> \<open>Weave\<close>: events, the four authorities, validation, verification, signing. \<open>Ledger\<close>: the tables as the
    record \<open>db\<close>, and an operation as an \<open>'a op\<close>, a function from \<open>db\<close> to a result and the next \<open>db\<close>; a failed
    transaction gives back the state it began with. \<open>Sync\<close>: the documents and the engine. \<open>Projections\<close>: the local view.
  \<^item> \<open>Cluster\<close>: all of \<^verbatim>\<open>cluster.py\<close>; the live verifier is a function argument, as in the code.
  \<^item> \<open>Execution_Instruction\<close>: requests and approvals, with the text printed by \<^verbatim>\<open>json.dumps\<close>.
    \<open>Execution_Journal\<close>, \<open>Execution_Funding\<close>, \<open>Execution_Queue\<close>, \<open>Execution_Cycles\<close>: class
    \<^verbatim>\<open>ExecutionStore\<close>, in the order of the code. Clock readings, random identifiers and what a callback
    does are arguments; a failed transaction keeps the clock observations that the code commits.
  \<^item> \<open>Memory_Policy\<close> and \<open>Memory_Executor\<close>: all of \<^verbatim>\<open>memory_policy.py\<close>; \<open>execute\<close> and \<open>execute_reviewed\<close>
    are the methods of \<^verbatim>\<open>MemoryPolicyExecutor\<close>.

  \<^bold>\<open>Specifications and interfaces.\<close> \<open>Causal\<close> states two contracts as locales, and proves what their clients rely on.
  \<open>causal_log\<close>: a store that tells known items from those that wait for a dependency; if its bookkeeping keeps three laws,
  what is known is exactly what is causally complete, whatever the order of arrival. \<open>journal\<close>: a table in which an
  answer, once given, is given again. \<open>Ledger_Interfaces\<close> interprets them on the ledger (its rows and feed; the tables of
  served, applied and issued pages), and \<open>Relationship_Laws\<close> interprets the first on the view's evidence.
  The transition relations are inductive: \<open>ledger_step\<close> and \<open>reachable\<close> for the public operations of a ledger under one authority,
  \<open>descends\<close> for control states, and the effects of \<open>Execution_Laws\<close> with their paths for the journal.

  \<^bold>\<open>What the lemmas show.\<close>
  \<^item> \<open>Canonical_Laws\<close>, \<open>Canonical_Properties\<close>: the canonical bytes determine the value, and plain values have some.
  \<^item> \<open>Identity_Laws\<close>, \<open>Identity_Properties\<close>, \<open>Authoring_Laws\<close>: an accepted threshold is a quorum; the chain is linear or
    quarantined; revocations are never forgotten; what the builders make is accepted.
  \<^item> \<open>Weave_Laws\<close>, \<open>Weave_Properties\<close>: what a verified event proves, and that its stored form stands for it.
  \<^item> \<open>Ledger_Laws\<close>, \<open>Ledger_Operations\<close>, \<open>Ledger_Journals\<close>: the invariant \<open>ledger_ok\<close> and that each operation keeps it
    and only adds to the state (\<open>keeps\<close>, collected in \<open>kept\<close>). \<open>Ledger_Properties\<close>, \<open>Ingest_Properties\<close>,
    \<open>Answers_Properties\<close>, \<open>Delta_Properties\<close>, \<open>Local_Properties\<close>: what follows for reachable ledgers, pages, receipts,
    deltas and local operations.
  \<^item> \<open>Relationship_Laws\<close>, \<open>Grant_Laws\<close>, \<open>Grant_Settling\<close>, \<open>Tribe_Laws\<close>, \<open>Relationship_Properties\<close>: a disclosure rests on
    a chain of attenuated grants from the controller, denials hold, members were admitted by the founder in office.
    \<open>classification_escapes_attenuation\<close> shows what attenuation does not cover, \<open>later_variant_counts\<close> what a view
    of the past takes for evidence when an event id is shared across its instant (the views without that are \<open>undivided\<close>).
  \<^item> \<open>Execution_Laws\<close>: every operation of the journal is a path of small guarded effects; \<open>Execution_Invariant\<close> and
    \<open>Execution_Budget\<close> prove the invariants for each effect once; \<open>Execution_Properties\<close> reads them off.
  \<^item> \<open>Projection_Properties\<close>: the state of an entry of the projection is the last local decision on it.
    \<open>Cluster_Properties\<close>: what stands behind an effect receipt that is reconciled as verified.
  \<^item> \<open>Memory_Laws\<close>, \<open>Memory_Properties\<close>: an automatic memory is cleared by the policy on a ledger in the state
    its plan's checkpoint has, a reviewed one continues its lane, to which the append may also bring records that waited, and a previewed record is one the event rules accept.
  \<^item> \<open>Demo\<close> and \<open>Demo_Identity\<close>, \<open>Demo_Events\<close>, \<open>Demo_Ledger\<close>, \<open>Demo_Relations\<close>, \<open>Demo_Execution\<close>, \<open>Demo_Memory\<close>: concrete
    beings, ledgers, views and journals on which the witnesses instantiate the theorems. Their digests stay
    symbolic: a witness needs that one exists and has its shape, not which one it is.

  \<^bold>\<open>Bounds and termination.\<close> Limits are the constants of the source (sizes of pages and events, causal parents, payload depth
  and nodes, members, grants, rows). Integers of the source are unbounded and so are these; the machine words of the
  hashes are 32 bits wide. No definition takes fuel. A \<^verbatim>\<open>while\<close> loop of the source is a recursion
  with a proved measure: the promotion of pending events and the sweep over rows shrink the set of what is still open, the
  walk along a chain of parents or delegations shrinks the rows it may still visit, and the loop over pending grants is shown
  to decide each one but those whose line of parents leads to a reference that names no grant (\<open>misdelegated\<close>).

  \<^bold>\<open>What is not modelled.\<close> SQLite itself (locks, timeouts, file permissions, creating and opening a file, the gaps it may leave
  in \<^verbatim>\<open>AUTOINCREMENT\<close> numbers), threads, and the
  blobs of verified events, which stand for the events they parse to. The other modules of the repository are outside:
  operator ceremonies and hosting, sockets and command lines, encrypted key stores, carriers and messaging, body adapters,
  workers around the ledger, publications, species packages, and the synthetic fixtures. The contracts of
  their event payloads are a parameter of \<open>Weave\<close>. A \<^verbatim>\<open>copy.deepcopy\<close> has no counterpart, since values are immutable;
  a lone surrogate in a string raises \<^verbatim>\<open>UnicodeEncodeError\<close> where the code encodes it.
\<close>

end
